(* ===== verification/Prelude.thy ===== *)
theory Prelude
  imports
    Main
    "HOL-Library.Word"
    "HOL-Library.Char_ord"
    "HOL-Library.Code_Target_Nat"
    "HOL-Library.List_Lexorder"
    "HOL-Library.Product_Lexorder"
begin

text \<open>
  The vocabulary shared by every theory of the development.

  \<^item> Results: a fallible Rust function returns \<open>'e + 'a\<close>, \<open>Inl\<close> for \<open>Err\<close>. A sequence of
    early-return guards is \<open>checks\<close> of the list of guards in source order; a \<open>for\<close> loop with
    the \<open>?\<close> operator in its body is \<open>rfold\<close>.
  \<^item> Integers: \<open>u8\<close>, \<open>u16\<close>, \<open>u32\<close> and \<open>u64\<close> are words; \<open>usize\<close> is \<open>nat\<close> (lengths and
    positions of in-memory data, far below the 64-bit bound). Saturating addition is \<open>sat_add\<close>.
  \<^item> Floats are only carried, never computed with: \<open>f32\<close> and \<open>f64\<close> are their bit patterns.
  \<^item> Strings: a Rust \<open>String\<close> is its list of UTF-8 bytes, as an Isabelle \<open>string\<close>; \<open>length\<close> is
    Rust's \<open>len()\<close>, the lexicographic order of \<open>List_Lexorder\<close> is Rust's \<open>Ord\<close>, and \<open>chars\<close>
    splits it into the byte sequences of its characters.
  \<^item> Time: an instant or a UTC timestamp is an \<open>int\<close> number of nanoseconds.
\<close>

named_theorems result_simps \<open>characterisations of successful guards and loops\<close>
named_theorems str_simps \<open>facts on strings and their characters\<close>

section \<open>Machine types\<close>

type_synonym u8 = "8 word"
type_synonym u16 = "16 word"
type_synonym u32 = "32 word"
type_synonym u64 = "64 word"
type_synonym usize = nat
type_synonym f32 = "32 word"
type_synonym f64 = "64 word"
type_synonym datetime = int
type_synonym bytes = "8 word list"

definition sat_add :: "'a::len word \<Rightarrow> 'a word \<Rightarrow> 'a word" where
  "sat_add a b = (if unat a + unat b < 2 ^ LENGTH('a) then a + b else - 1)"

lemma sat_add_code [code]: "sat_add a b = (if a \<le> a + b then a + b else - 1)"
  by (simp add: sat_add_def no_olen_add_nat)

lemma unat_sat_add: "unat (sat_add a b) = min (unat a + unat b) (2 ^ LENGTH('a) - 1)"
  for a b :: "'a::len word"
proof (cases "unat a + unat b < 2 ^ LENGTH('a)")
  case True
  then show ?thesis by (simp add: sat_add_def unat_word_ariths)
next
  case False
  then show ?thesis by (simp add: sat_add_def unsigned_minus_1_eq_mask mask_eq_exp_minus_1)
qed

lemma sat_add_mono: "a \<le> sat_add a b" for a b :: "'a::len word"
proof -
  have "unat a \<le> 2 ^ LENGTH('a) - 1"
    using unsigned_less [of a, where ?'a = nat] by linarith
  then show ?thesis by (simp add: word_le_nat_alt unat_sat_add)
qed

section \<open>Results\<close>

type_synonym ('e, 'a) result = "'e + 'a"

definition rbind :: "'e + 'a \<Rightarrow> ('a \<Rightarrow> 'e + 'b) \<Rightarrow> 'e + 'b" where
  "rbind r f = (case r of Inl e \<Rightarrow> Inl e | Inr a \<Rightarrow> f a)"

lemma rbind_simps [simp]: "rbind (Inl e) f = Inl e" "rbind (Inr a) f = f a"
  by (simp_all add: rbind_def)

lemma rbind_Inr [result_simps]: "rbind r f = Inr b \<longleftrightarrow> (\<exists>a. r = Inr a \<and> f a = Inr b)"
  by (cases r) auto

definition map_err :: "('e \<Rightarrow> 'f) \<Rightarrow> 'e + 'a \<Rightarrow> 'f + 'a" where
  "map_err g r = (case r of Inl e \<Rightarrow> Inl (g e) | Inr a \<Rightarrow> Inr a)"

lemma map_err_simps [simp]: "map_err g (Inl e) = Inl (g e)" "map_err g (Inr a) = Inr a"
  by (simp_all add: map_err_def)

lemma map_err_Inr [result_simps]: "map_err g r = Inr a \<longleftrightarrow> r = Inr a"
  by (cases r) auto

definition ok_or :: "'a option \<Rightarrow> 'e \<Rightarrow> 'e + 'a" where
  "ok_or x e = (case x of None \<Rightarrow> Inl e | Some a \<Rightarrow> Inr a)"

lemma ok_or_simps [simp]: "ok_or None e = Inl e" "ok_or (Some a) e = Inr a"
  by (simp_all add: ok_or_def)

lemma ok_or_Inr [result_simps]: "ok_or x e = Inr a \<longleftrightarrow> x = Some a"
  by (cases x) auto

text \<open>\<open>if !cond { return Err(e) }\<close>\<close>

definition ensure :: "bool \<Rightarrow> 'e \<Rightarrow> 'e + unit" where
  "ensure b e = (if b then Inr () else Inl e)"

lemma ensure_simps [simp]: "ensure True e = Inr ()" "ensure False e = Inl e"
  by (simp_all add: ensure_def)

lemma ensure_Inr [result_simps]: "ensure b e = Inr u \<longleftrightarrow> b"
  by (simp add: ensure_def)

text \<open>A sequence of guards: the first failing one is returned.\<close>

fun checks :: "('e + unit) list \<Rightarrow> 'e + unit" where
  "checks [] = Inr ()"
| "checks (r # rs) = (case r of Inl e \<Rightarrow> Inl e | Inr _ \<Rightarrow> checks rs)"

lemma checks_Inr [result_simps]: "checks rs = Inr u \<longleftrightarrow> (\<forall>r\<in>set rs. r = Inr ())"
  by (induction rs) (auto split: sum.splits)

lemma checks_append: "checks (xs @ ys) = (case checks xs of Inl e \<Rightarrow> Inl e | Inr _ \<Rightarrow> checks ys)"
  by (induction xs) (auto split: sum.splits)

lemma checks_Inl_iff: "(\<exists>e. checks rs = Inl e) \<longleftrightarrow> (\<exists>r\<in>set rs. \<exists>e. r = Inl e)"
  by (induction rs) (auto split: sum.splits)

declare checks.simps(2) [simp del]

text \<open>A loop with state whose body may return early with an error.\<close>

fun rfold :: "('s \<Rightarrow> 'a \<Rightarrow> 'e + 's) \<Rightarrow> 's \<Rightarrow> 'a list \<Rightarrow> 'e + 's" where
  "rfold f s [] = Inr s"
| "rfold f s (x # xs) = (case f s x of Inl e \<Rightarrow> Inl e | Inr s' \<Rightarrow> rfold f s' xs)"

lemma rfold_Cons_Inr:
  "rfold f s (x # xs) = Inr t \<longleftrightarrow> (\<exists>s'. f s x = Inr s' \<and> rfold f s' xs = Inr t)"
  by (auto split: sum.splits)

lemma rfold_append:
  "rfold f s (xs @ ys) = (case rfold f s xs of Inl e \<Rightarrow> Inl e | Inr s' \<Rightarrow> rfold f s' ys)"
  by (induction xs arbitrary: s) (auto split: sum.splits)

lemma rfold_cong_on:
  assumes "\<And>s x. x \<in> set xs \<Longrightarrow> f s x = g s x"
  shows "rfold f s xs = rfold g s xs"
  using assms
proof (induction xs arbitrary: s)
  case (Cons x xs)
  from Cons.prems have "f s x = g s x" by simp
  moreover have "\<And>s'. rfold f s' xs = rfold g s' xs"
    by (rule Cons.IH) (simp add: Cons.prems)
  ultimately show ?case by (simp split: sum.splits)
qed simp

lemma rfold_map: "rfold f s (map h xs) = rfold (\<lambda>s x. f s (h x)) s xs"
  by (induction xs arbitrary: s) (auto split: sum.splits)

lemma rfold_invariant:
  assumes "rfold f s xs = Inr t" and "P s"
    and "\<And>s x s'. x \<in> set xs \<Longrightarrow> P s \<Longrightarrow> f s x = Inr s' \<Longrightarrow> P s'"
  shows "P t"
  using assms
proof (induction xs arbitrary: s)
  case (Cons x xs)
  from Cons.prems(1) obtain s' where "f s x = Inr s'" and rest: "rfold f s' xs = Inr t"
    by (auto split: sum.splits)
  with Cons.prems have "P s'" by (meson list.set_intros(1))
  with rest Cons show ?case by (meson list.set_intros(2))
qed simp

text \<open>\<open>collect::<Result<Vec<_>, _>>()\<close> over a mapped iterator.\<close>

fun rmap :: "('a \<Rightarrow> 'e + 'b) \<Rightarrow> 'a list \<Rightarrow> 'e + 'b list" where
  "rmap f [] = Inr []"
| "rmap f (x # xs) = rbind (f x) (\<lambda>y. rbind (rmap f xs) (\<lambda>ys. Inr (y # ys)))"

lemma rmap_Inr [result_simps]:
  "rmap f xs = Inr ys \<longleftrightarrow> length ys = length xs \<and> (\<forall>i<length xs. f (xs ! i) = Inr (ys ! i))"
proof (induction xs arbitrary: ys)
  case (Cons x xs)
  show ?case
  proof (cases ys)
    case Nil
    then show ?thesis by (auto simp: rbind_Inr)
  next
    case (Cons y ys')
    then show ?thesis
      using Cons.IH [of ys'] by (auto simp: rbind_Inr All_less_Suc2)
  qed
qed auto

section \<open>Decimal numbers\<close>

definition digit_char :: "nat \<Rightarrow> char" where
  "digit_char d = char_of (48 + d)"

definition is_digit :: "char \<Rightarrow> bool" where
  "is_digit c = (48 \<le> (of_char c :: nat) \<and> (of_char c :: nat) \<le> 57)"

fun show_nat :: "nat \<Rightarrow> string" where
  "show_nat n = (if n < 10 then [digit_char n] else show_nat (n div 10) @ [digit_char (n mod 10)])"

declare show_nat.simps [simp del]

definition read_nat :: "string \<Rightarrow> nat" where
  "read_nat s = foldl (\<lambda>acc c. 10 * acc + (of_char c - 48)) 0 s"

lemma of_char_digit: "d < 10 \<Longrightarrow> (of_char (digit_char d) :: nat) = 48 + d"
  by (simp add: digit_char_def)

lemma is_digit_digit_char [simp]: "d < 10 \<Longrightarrow> is_digit (digit_char d)"
  by (simp add: is_digit_def of_char_digit)

lemma read_show_nat [simp]: "read_nat (show_nat n) = n"
proof (induction n rule: show_nat.induct)
  case (1 n)
  show ?case
  proof (cases "n < 10")
    case True
    then show ?thesis by (subst show_nat.simps) (simp add: read_nat_def of_char_digit)
  next
    case False
    with "1.IH" have "read_nat (show_nat (n div 10)) = n div 10" by simp
    with False show ?thesis
      by (subst show_nat.simps) (simp add: read_nat_def of_char_digit)
  qed
qed

lemma show_nat_digits: "c \<in> set (show_nat n) \<Longrightarrow> is_digit c"
proof (induction n rule: show_nat.induct)
  case (1 n)
  then show ?case by (cases "n < 10") (auto simp: show_nat.simps [of n])
qed

lemma show_nat_inj [simp]: "show_nat m = show_nat n \<longleftrightarrow> m = n"
  by (metis read_show_nat)

lemma show_nat_neq_Nil [simp]: "show_nat n \<noteq> []"
  by (subst show_nat.simps) simp

definition show_int :: "int \<Rightarrow> string" where
  "show_int i = (if i < 0 then ''-'' @ show_nat (nat (- i)) else show_nat (nat i))"

section \<open>Strings\<close>

text \<open>A UTF-8 continuation byte is \<open>10xxxxxx\<close>: bit 7 set and bit 6 clear.\<close>

definition is_cont :: "char \<Rightarrow> bool" where
  "is_cont c = (digit7 c \<and> \<not> digit6 c)"

text \<open>
  \<open>str::chars\<close>: the byte sequence of each character. A string that is valid UTF-8 starts with a
  byte that is no continuation, and every character runs up to the next such byte.
\<close>

function chars :: "string \<Rightarrow> string list" where
  "chars [] = []"
| "chars (c # cs) = (c # takeWhile is_cont cs) # chars (dropWhile is_cont cs)"
  by pat_completeness auto
termination
  by (relation "measure length") (auto simp: le_imp_less_Suc length_dropWhile_le)

lemma concat_chars [simp]: "concat (chars s) = s"
  by (induction s rule: chars.induct) auto

lemma chars_Nil_iff [simp]: "chars s = [] \<longleftrightarrow> s = []"
  by (cases s) auto

lemma chars_neq_Nil: "c \<in> set (chars s) \<Longrightarrow> c \<noteq> []"
  by (induction s rule: chars.induct) auto

lemma length_chars_le: "length (chars s) \<le> length s"
proof (induction s rule: chars.induct)
  case (2 c cs)
  have "length (dropWhile is_cont cs) \<le> length cs" by (rule length_dropWhile_le)
  with 2 show ?case by simp
qed simp

lemma chars_append:
  assumes "ys = [] \<or> \<not> is_cont (hd ys)"
  shows "chars (xs @ ys) = chars xs @ chars ys"
proof (induction xs rule: chars.induct)
  case (2 c cs)
  have "takeWhile is_cont (cs @ ys) = takeWhile is_cont cs
      \<and> dropWhile is_cont (cs @ ys) = dropWhile is_cont cs @ ys"
  proof (cases "\<exists>x\<in>set cs. \<not> is_cont x")
    case True
    then show ?thesis by (auto simp: dropWhile_append)
  next
    case False
    then have all: "\<forall>x\<in>set cs. is_cont x" by blast
    have "takeWhile is_cont ys = []" "dropWhile is_cont ys = ys"
      using assms by (cases ys; auto)+
    moreover have "takeWhile is_cont cs = cs" "cs = takeWhile is_cont cs" "dropWhile is_cont cs = []"
      using all by (simp_all add: takeWhile_eq_all_conv eq_commute [of cs])
    ultimately show ?thesis using all by (simp add: takeWhile_append dropWhile_append)
  qed
  with 2 show ?case by simp
qed simp

text \<open>One character: a leading byte and its continuation bytes.\<close>

definition is_char :: "string \<Rightarrow> bool" where
  "is_char c = (case c of [] \<Rightarrow> False | b # bs \<Rightarrow> \<not> is_cont b \<and> list_all is_cont bs)"

lemma chars_concat [str_simps]:
  "list_all is_char cs \<Longrightarrow> chars (concat cs) = cs"
proof (induction cs)
  case (Cons c cs)
  then obtain b bs where c: "c = b # bs" and b: "\<not> is_cont b" and bs: "list_all is_cont bs"
    by (auto simp: is_char_def split: list.splits)
  have hd: "concat cs = [] \<or> \<not> is_cont (hd (concat cs))"
    using Cons.prems by (cases cs) (auto simp: is_char_def split: list.splits)
  have "takeWhile is_cont bs = bs" "dropWhile is_cont bs = []"
    using bs by (auto simp: list_all_iff)
  then have "chars c = [c]" using c by simp
  with Cons hd show ?case by (simp add: chars_append)
qed simp

text \<open>
  The characters for which \<open>char::is_whitespace\<close> holds (Unicode \<open>White_Space\<close>), in UTF-8:
  U+0009 to U+000D, U+0020, U+0085, U+00A0, U+1680, U+2000 to U+200A, U+2028, U+2029, U+202F,
  U+205F and U+3000.
\<close>

definition white_space :: "string list" where
  "white_space =
     [[CHR 0x09], [CHR 0x0A], [CHR 0x0B], [CHR 0x0C], [CHR 0x0D], [CHR 0x20],
      [CHR 0xC2, CHR 0x85], [CHR 0xC2, CHR 0xA0], [CHR 0xE1, CHR 0x9A, CHR 0x80],
      [CHR 0xE2, CHR 0x80, CHR 0x80], [CHR 0xE2, CHR 0x80, CHR 0x81], [CHR 0xE2, CHR 0x80, CHR 0x82],
      [CHR 0xE2, CHR 0x80, CHR 0x83], [CHR 0xE2, CHR 0x80, CHR 0x84], [CHR 0xE2, CHR 0x80, CHR 0x85],
      [CHR 0xE2, CHR 0x80, CHR 0x86], [CHR 0xE2, CHR 0x80, CHR 0x87], [CHR 0xE2, CHR 0x80, CHR 0x88],
      [CHR 0xE2, CHR 0x80, CHR 0x89], [CHR 0xE2, CHR 0x80, CHR 0x8A], [CHR 0xE2, CHR 0x80, CHR 0xA8],
      [CHR 0xE2, CHR 0x80, CHR 0xA9], [CHR 0xE2, CHR 0x80, CHR 0xAF], [CHR 0xE2, CHR 0x81, CHR 0x9F],
      [CHR 0xE3, CHR 0x80, CHR 0x80]]"

definition is_ws :: "string \<Rightarrow> bool" where
  "is_ws c = List.member white_space c"

definition trim_start_chars :: "string list \<Rightarrow> string list" where
  "trim_start_chars cs = dropWhile is_ws cs"

definition trim_chars :: "string list \<Rightarrow> string list" where
  "trim_chars cs = rev (dropWhile is_ws (rev (dropWhile is_ws cs)))"

definition trim_start :: "string \<Rightarrow> string" where
  "trim_start s = concat (trim_start_chars (chars s))"

definition trim :: "string \<Rightarrow> string" where
  "trim s = concat (trim_chars (chars s))"

text \<open>\<open>s.trim().is_empty()\<close>\<close>

definition blank :: "string \<Rightarrow> bool" where
  "blank s = (trim s = [])"

lemma dropWhile_rev_all: "dropWhile P (rev (dropWhile P xs)) = [] \<longleftrightarrow> (\<forall>x\<in>set xs. P x)"
proof
  assume "dropWhile P (rev (dropWhile P xs)) = []"
  then have all: "\<forall>x\<in>set (dropWhile P xs). P x" by (simp add: dropWhile_eq_Nil_conv)
  have "dropWhile P xs = []"
  proof (rule ccontr)
    assume ne: "dropWhile P xs \<noteq> []"
    then have "\<not> P (hd (dropWhile P xs))" by (rule hd_dropWhile)
    with all ne show False by simp
  qed
  then show "\<forall>x\<in>set xs. P x" by (simp add: dropWhile_eq_Nil_conv)
next
  assume "\<forall>x\<in>set xs. P x"
  then have "dropWhile P xs = []" by (simp only: dropWhile_eq_Nil_conv)
  then show "dropWhile P (rev (dropWhile P xs)) = []" by (simp only: rev.simps dropWhile.simps)
qed

lemma set_trim_chars: "set (trim_chars cs) \<subseteq> set cs"
  unfolding trim_chars_def by (metis set_dropWhileD set_rev subsetI)

lemma trim_chars_Nil_iff: "trim_chars cs = [] \<longleftrightarrow> (\<forall>c\<in>set cs. is_ws c)"
  by (simp only: trim_chars_def rev_is_Nil_conv dropWhile_rev_all)

lemma blank_iff [str_simps]: "blank s \<longleftrightarrow> (\<forall>c\<in>set (chars s). is_ws c)"
proof -
  have "\<forall>c\<in>set (trim_chars (chars s)). c \<noteq> []"
    using set_trim_chars chars_neq_Nil by blast
  then have "concat (trim_chars (chars s)) = [] \<longleftrightarrow> trim_chars (chars s) = []"
    by (metis concat_eq_Nil_conv list.set_intros(1) neq_Nil_conv empty_iff list.set(1))
  then show ?thesis by (simp only: blank_def trim_def trim_chars_Nil_iff)
qed

lemma blank_Nil [simp]: "blank []"
  by (simp add: blank_iff)

text \<open>ASCII case folding, \<open>to_ascii_lowercase\<close> and \<open>eq_ignore_ascii_case\<close>.\<close>

definition ascii_lower_char :: "char \<Rightarrow> char" where
  "ascii_lower_char c =
     (if 65 \<le> (of_char c :: nat) \<and> (of_char c :: nat) \<le> 90 then char_of ((of_char c :: nat) + 32) else c)"

definition ascii_lower :: "string \<Rightarrow> string" where
  "ascii_lower s = map ascii_lower_char s"

definition eq_ignore_ascii_case :: "string \<Rightarrow> string \<Rightarrow> bool" where
  "eq_ignore_ascii_case a b = (ascii_lower a = ascii_lower b)"

fun join :: "string \<Rightarrow> string list \<Rightarrow> string" where
  "join sep [] = []"
| "join sep [x] = x"
| "join sep (x # y # zs) = x @ sep @ join sep (y # zs)"

text \<open>\<open>str::contains\<close>\<close>

fun is_prefix :: "'a list \<Rightarrow> 'a list \<Rightarrow> bool" where
  "is_prefix [] ys = True"
| "is_prefix (x # xs) [] = False"
| "is_prefix (x # xs) (y # ys) = (x = y \<and> is_prefix xs ys)"

fun str_contains :: "string \<Rightarrow> string \<Rightarrow> bool" where
  "str_contains needle [] = (needle = [])"
| "str_contains needle (c # cs) = (is_prefix needle (c # cs) \<or> str_contains needle cs)"

lemma is_prefix_iff: "is_prefix xs ys \<longleftrightarrow> (\<exists>zs. ys = xs @ zs)"
  by (induction xs ys rule: is_prefix.induct) auto

definition starts_with :: "string \<Rightarrow> string \<Rightarrow> bool" where
  "starts_with s p = is_prefix p s"

definition ends_with :: "string \<Rightarrow> string \<Rightarrow> bool" where
  "ends_with s p = is_prefix (rev p) (rev s)"

text \<open>\<open>str::split_once\<close> at the first occurrence, and \<open>str::split\<close> on one ASCII character.\<close>

fun split_once :: "string \<Rightarrow> string \<Rightarrow> (string \<times> string) option" where
  "split_once d [] = (if d = [] then Some ([], []) else None)"
| "split_once d (c # cs) =
     (if is_prefix d (c # cs) then Some ([], drop (length d) (c # cs))
      else map_option (\<lambda>(a, b). (c # a, b)) (split_once d cs))"

fun split_on :: "char \<Rightarrow> string \<Rightarrow> string list" where
  "split_on d [] = [[]]"
| "split_on d (c # cs) =
     (if c = d then [] # split_on d cs
      else (case split_on d cs of [] \<Rightarrow> [[c]] | x # xs \<Rightarrow> (c # x) # xs))"

lemma split_on_neq_Nil [simp]: "split_on d s \<noteq> []"
  by (induction s) (auto split: list.splits)

definition is_ascii_alphanumeric :: "char \<Rightarrow> bool" where
  "is_ascii_alphanumeric c =
     (is_digit c \<or> 65 \<le> (of_char c :: nat) \<and> (of_char c :: nat) \<le> 90
      \<or> 97 \<le> (of_char c :: nat) \<and> (of_char c :: nat) \<le> 122)"

section \<open>First occurrences\<close>

text \<open>
  \<open>filter(|x| seen.insert(x.clone()))\<close> over a hash set: keeps the first occurrence of each value
  that is not in \<open>seen\<close>.
\<close>

fun dedup :: "'a list \<Rightarrow> 'a list \<Rightarrow> 'a list" where
  "dedup seen [] = []"
| "dedup seen (x # xs) = (if x \<in> set seen then dedup seen xs else x # dedup (x # seen) xs)"

lemma set_dedup [simp]: "set (dedup seen xs) = set xs - set seen"
  by (induction seen xs rule: dedup.induct) auto

lemma distinct_dedup [simp]: "distinct (dedup seen xs)"
  by (induction seen xs rule: dedup.induct) auto

lemma dedup_id: "distinct xs \<Longrightarrow> set xs \<inter> set seen = {} \<Longrightarrow> dedup seen xs = xs"
  by (induction seen xs rule: dedup.induct) auto

end
