(* ===== verification/Ordered_Map.thy ===== *)
theory Ordered_Map
  imports Prelude
begin

text \<open>
  \<open>BTreeMap\<close> and the \<open>keyed_store\<close> interface. A \<open>BTreeMap\<close> is its list of entries in ascending
  key order, so \<open>keys\<close>, \<open>values\<close> and iteration are the list itself; \<open>get\<close> is \<open>map_of\<close> and
  \<open>insert\<close> replaces the value of an equal key. The interface is what the journal and the JSON
  objects rely on: a read after a write, and the invariant that every write keeps.
\<close>

section \<open>The interface\<close>

locale keyed_store =
  fixes get :: "'m \<Rightarrow> 'k \<Rightarrow> 'v option"
    and put :: "'k \<Rightarrow> 'v \<Rightarrow> 'm \<Rightarrow> 'm"
    and inv :: "'m \<Rightarrow> bool"
  assumes get_put: "get (put k v m) = (get m)(k \<mapsto> v)"
    and inv_put: "inv m \<Longrightarrow> inv (put k v m)"
begin

lemma get_put_same: "get (put k v m) k = Some v"
  by (simp add: get_put)

lemma get_put_other: "k' \<noteq> k \<Longrightarrow> get (put k v m) k' = get m k'"
  by (simp add: get_put)

lemma inv_fold: "inv m \<Longrightarrow> inv (fold (\<lambda>x. put (f x) (g x)) xs m)"
  by (induction xs arbitrary: m) (auto intro: inv_put)

lemma get_fold_notin:
  "k \<notin> f ` set xs \<Longrightarrow> get (fold (\<lambda>x. put (f x) (g x)) xs m) k = get m k"
  by (induction xs arbitrary: m) (auto simp: get_put)

lemma get_fold_in:
  assumes "x \<in> set xs" and "distinct (map f xs)"
  shows "get (fold (\<lambda>x. put (f x) (g x)) xs m) (f x) = Some (g x)"
  using assms
proof (induction xs arbitrary: m)
  case (Cons y ys)
  show ?case
  proof (cases "x = y")
    case True
    with Cons.prems(2) have "f x \<notin> f ` set ys" by simp
    with True show ?thesis by (simp add: get_fold_notin get_put)
  next
    case False
    with Cons show ?thesis by simp
  qed
qed simp

lemma dom_fold: "dom (get (fold (\<lambda>x. put (f x) (g x)) xs m)) = f ` set xs \<union> dom (get m)"
  by (induction xs arbitrary: m) (auto simp: get_put)

end

section \<open>Ordered maps\<close>

type_synonym ('k, 'v) btree_map = "('k \<times> 'v) list"

abbreviation bt_get :: "('k, 'v) btree_map \<Rightarrow> 'k \<Rightarrow> 'v option" where
  "bt_get \<equiv> map_of"

fun bt_insert :: "'k::linorder \<Rightarrow> 'v \<Rightarrow> ('k, 'v) btree_map \<Rightarrow> ('k, 'v) btree_map" where
  "bt_insert k v [] = [(k, v)]"
| "bt_insert k v ((a, b) # m) =
     (if k < a then (k, v) # (a, b) # m
      else if k = a then (k, v) # m
      else (a, b) # bt_insert k v m)"

definition bt_remove :: "'k \<Rightarrow> ('k, 'v) btree_map \<Rightarrow> ('k, 'v) btree_map" where
  "bt_remove k m = filter (\<lambda>e. fst e \<noteq> k) m"

definition bt_inv :: "('k::linorder, 'v) btree_map \<Rightarrow> bool" where
  "bt_inv m = sorted_wrt (<) (map fst m)"

lemma bt_get_insert: "bt_get (bt_insert k v m) = (bt_get m)(k \<mapsto> v)"
  by (induction m rule: bt_insert.induct) auto

lemma keys_bt_insert [simp]: "fst ` set (bt_insert k v m) = insert k (fst ` set m)"
  by (induction k v m rule: bt_insert.induct) auto

lemma set_bt_insert: "set (bt_insert k v m) \<subseteq> insert (k, v) (set m)"
  by (induction k v m rule: bt_insert.induct) auto

lemma bt_inv_insert: "bt_inv m \<Longrightarrow> bt_inv (bt_insert k v m)"
proof (induction k v m rule: bt_insert.induct)
  case (2 k v a b m)
  have keys: "set (map fst (bt_insert k v m)) = insert k (set (map fst m))"
    by simp
  show ?case
    using 2 keys by (auto simp: bt_inv_def)
qed (simp add: bt_inv_def)

lemma bt_inv_distinct: "bt_inv m \<Longrightarrow> distinct (map fst m)"
  by (simp add: bt_inv_def strict_sorted_iff)

lemma bt_inv_Nil [simp]: "bt_inv []"
  by (simp add: bt_inv_def)

lemma bt_inv_filter: "bt_inv m \<Longrightarrow> bt_inv (filter P m)"
  unfolding bt_inv_def by (induction m) auto

lemma bt_inv_remove: "bt_inv m \<Longrightarrow> bt_inv (bt_remove k m)"
  by (simp add: bt_remove_def bt_inv_filter)

lemma bt_get_remove: "bt_get (bt_remove k m) = (bt_get m)(k := None)"
  unfolding bt_remove_def by (induction m) auto

lemma bt_insert_absent:
  assumes "k \<notin> fst ` set m" and "bt_inv m"
  shows "bt_remove k (bt_insert k v m) = m"
  using assms
proof (induction k v m rule: bt_insert.induct)
  case (2 k v a b m)
  then have "bt_remove k m = m"
    by (auto simp: bt_remove_def filter_id_conv)
  with 2 show ?case by (auto simp: bt_remove_def bt_inv_def)
qed (simp add: bt_remove_def)

lemma bt_insert_same:
  assumes "bt_get m k = Some v" and "bt_inv m"
  shows "bt_insert k v m = m"
  using assms
proof (induction k v m rule: bt_insert.induct)
  case (2 k v a b m)
  then show ?case
    by (auto simp: bt_inv_def split: if_splits dest!: map_of_SomeD)
qed simp

lemma bt_insert_insert: "bt_inv m \<Longrightarrow> bt_insert k v (bt_insert k w m) = bt_insert k v m"
  by (induction k w m rule: bt_insert.induct) (auto simp: bt_inv_def)

lemma bt_get_Some_key: "bt_get m k = Some v \<Longrightarrow> k \<in> fst ` set m"
  by (force dest: map_of_SomeD)

lemma bt_get_None_key: "bt_get m k = None \<longleftrightarrow> k \<notin> fst ` set m"
  by (simp add: map_of_eq_None_iff)

text \<open>The entries of a map with distinct keys are exactly what \<open>get\<close> returns.\<close>

lemma bt_entry_get: "bt_inv m \<Longrightarrow> (k, v) \<in> set m \<longleftrightarrow> bt_get m k = Some v"
  using bt_inv_distinct map_of_eq_Some_iff by fastforce

interpretation btree: keyed_store bt_get bt_insert bt_inv
  by unfold_locales (simp_all add: bt_get_insert bt_inv_insert)

end
