(* ===== verification/Json.thy ===== *)
theory Json
  imports Ordered_Map
begin

text \<open>
  \<open>serde_json::Value\<close>. An object is a \<open>BTreeMap\<close> (the crate is built without \<open>preserve_order\<close>),
  a number is the unsigned, negative or floating variant of \<open>serde_json::Number\<close>. Parsing and
  printing belong to the crate and are parameters wherever the code calls them.
\<close>

datatype json_number = PosInt u64 | NegInt "64 word" | Float f64

datatype json =
    JNull
  | JBool bool
  | JNumber json_number
  | JString string
  | JArray "json list"
  | JObject "(string \<times> json) list"

fun json_is_null :: "json \<Rightarrow> bool" where
  "json_is_null JNull = True"
| "json_is_null _ = False"

fun json_is_object :: "json \<Rightarrow> bool" where
  "json_is_object (JObject _) = True"
| "json_is_object _ = False"

fun json_as_str :: "json \<Rightarrow> string option" where
  "json_as_str (JString s) = Some s"
| "json_as_str _ = None"

fun json_as_object :: "json \<Rightarrow> (string \<times> json) list option" where
  "json_as_object (JObject m) = Some m"
| "json_as_object _ = None"

text \<open>\<open>Value::get(&str)\<close>: \<open>None\<close> for anything but an object.\<close>

fun json_get :: "json \<Rightarrow> string \<Rightarrow> json option" where
  "json_get (JObject m) k = bt_get m k"
| "json_get _ k = None"

definition json_get_str :: "json \<Rightarrow> string \<Rightarrow> string option" where
  "json_get_str j k = Option.bind (json_get j k) json_as_str"

lemma json_get_object: "json_get j k = Some v \<Longrightarrow> json_is_object j"
  by (cases j) auto

lemma json_as_object_Some [simp]: "json_as_object j = Some m \<longleftrightarrow> j = JObject m"
  by (cases j) auto

lemma json_as_str_Some [simp]: "json_as_str j = Some s \<longleftrightarrow> j = JString s"
  by (cases j) auto

lemma json_get_str_Some [simp]: "json_get_str j k = Some s \<longleftrightarrow> json_get j k = Some (JString s)"
  by (auto simp: json_get_str_def bind_eq_Some_conv)

lemma json_get_str_insert [simp]:
  "json_get_str (JObject (bt_insert k v m)) k' =
     (if k' = k then json_as_str v else json_get_str (JObject m) k')"
  by (simp add: json_get_str_def bt_get_insert)

end
