(* ===== verification/Models.thy ===== *)
theory Models
  imports Json
begin

text \<open>
  The records that the repository stores, one Isabelle record for each Rust struct of
  \<open>src/src/models_*.rs\<close> that an operation plan can carry, with every field of the struct in its
  order. Rust field names repeat across structs, so each field carries a short prefix of its
  struct (\<open>he_tenant_id\<close> is \<open>HistoryEvent::tenant_id\<close>). \<open>DateTime<Utc>\<close> is \<open>datetime\<close>,
  \<open>serde_json::Value\<close> is \<open>json\<close>, and floats are kept as bit patterns.
\<close>

section \<open>Shared references (\<open>models_common.rs\<close>)\<close>

record source_ref =
  sr_kind :: "string"
  sr_id :: "string"
  sr_uri :: "string option"
  sr_meta :: "json option"

record parse_artifact_ref =
  par_id :: "string"
  par_artifact_kind :: "string"
  par_uri :: "string"
  par_checksum :: "string option"

section \<open>History (\<open>models_history.rs\<close>)\<close>

record user_event_index =
  uei_id :: "string"
  uei_tenant_id :: "string"
  uei_tenant_hash :: "string"
  uei_owner_user_id_hash :: "string"
  uei_event_index_uid :: "string"
  uei_personal_context_index_uid :: "string"
  uei_schema_version :: "u32"
  uei_settings_hash :: "string"
  uei_status :: "string"
  uei_created_at :: "datetime"
  uei_last_event_at :: "datetime option"
  uei_event_count_estimate :: "usize"

record history_event =
  he_id :: "string"
  he_event_type :: "string"
  he_entity_type :: "string"
  he_entity_id :: "string"
  he_occurred_at :: "datetime"
  he_observed_at :: "datetime"
  he_source_kind :: "string"
  he_source_ref :: "source_ref"
  he_text :: "string"
  he_payload :: "json"
  he_tags :: "string list"
  he_privacy :: "string"
  he_tenant_id :: "string"
  he_owner_user_id :: "string"
  he_owner_user_id_hash :: "string"
  he_event_index_uid :: "string"
  he_event_index_schema_version :: "u32"
  he_idempotency_key_hash :: "string option"

section \<open>Context nodes, traces and citations (\<open>models_context_rag_llm.rs\<close>)\<close>

record citation =
  cit_uri :: "string"
  cit_node_kind :: "string option"
  cit_retrieval_role :: "string option"
  cit_source_id :: "string option"
  cit_revision_id :: "string option"
  cit_source_document_uri :: "string option"
  cit_source_title :: "string option"
  cit_block_type :: "string option"
  cit_page_idx :: "u32 option"
  cit_bbox :: "json option"
  cit_section_path :: "string list"
  cit_heading_level :: "u8 option"
  cit_asset_refs :: "string list"
  cit_artifact_refs :: "parse_artifact_ref list"
  cit_fragment_index :: "u32 option"
  cit_char_start :: "usize option"
  cit_char_end :: "usize option"
  cit_checksum :: "string option"
  cit_title :: "string"
  cit_quote :: "string"
  cit_score :: "f32"

record context_node =
  cn_uri :: "string"
  cn_title :: "string"
  cn_layer :: "u8"
  cn_body :: "string"
  cn_tenant_id :: "string"
  cn_owner_user_id :: "string option"
  cn_index_uid :: "string"
  cn_index_kind :: "string"
  cn_ancestor_uris :: "string list"
  cn_node_kind :: "string"
  cn_retrieval_role :: "string"
  cn_retrieval_enabled :: "bool"
  cn_parent_uri :: "string option"
  cn_source_document_uri :: "string option"
  cn_fragment_index :: "u32 option"
  cn_char_start :: "usize option"
  cn_char_end :: "usize option"
  cn_token_estimate :: "usize option"
  cn_checksum :: "string option"
  cn_source_id :: "string option"
  cn_revision_id :: "string option"
  cn_block_type :: "string option"
  cn_page_idx :: "u32 option"
  cn_bbox :: "json option"
  cn_section_path :: "string list"
  cn_heading_level :: "u8 option"
  cn_asset_refs :: "string list"
  cn_artifact_refs :: "parse_artifact_ref list"
  cn_status :: "string"
  cn_privacy :: "string"
  cn_updated_at :: "datetime"

record trace_record =
  tr_id :: "string"
  tr_tenant_id :: "string"
  tr_owner_user_id :: "string option"
  tr_query :: "string"
  tr_mode :: "string"
  tr_stages :: "json list"
  tr_context_uris :: "string list"
  tr_created_at :: "datetime"

section \<open>Current state (\<open>models_state.rs\<close>)\<close>

record state_item =
  si_id :: "string"
  si_tenant_id :: "string"
  si_owner_user_id :: "string"
  si_state_type :: "string"
  si_natural_key :: "string"
  si_title :: "string"
  si_statement :: "string"
  si_value :: "json"
  si_status :: "string"
  si_confidence :: "f32"
  si_salience :: "f32"
  si_valid_from :: "datetime option"
  si_valid_to :: "datetime option"
  si_source_refs :: "source_ref list"
  si_context_uri :: "string"
  si_current_version :: "u32"
  si_supersedes :: "string list"
  si_created_at :: "datetime"
  si_updated_at :: "datetime"

record fragment_policy =
  fp_chunk_size_chars :: "usize option"
  fp_overlap_chars :: "usize option"
  fp_min_chunk_chars :: "usize option"

section \<open>Insights and links (\<open>models_insights_links_analysis.rs\<close>)\<close>

record insight_record =
  ir_id :: "string"
  ir_tenant_id :: "string"
  ir_insight_type :: "string"
  ir_title :: "string"
  ir_statement :: "string"
  ir_status :: "string"
  ir_confidence :: "f32"
  ir_salience :: "f32"
  ir_context_uri :: "string"
  ir_source_refs :: "source_ref list"
  ir_owner_user_id :: "string"
  ir_privacy :: "string"
  ir_created_at :: "datetime"
  ir_updated_at :: "datetime"

record knowledge_link =
  kl_id :: "string"
  kl_tenant_id :: "string"
  kl_owner_user_id :: "string option"
  kl_source_uri :: "string"
  kl_target_uri :: "string"
  kl_source_title :: "string option"
  kl_target_title :: "string option"
  kl_relation :: "string"
  kl_rationale :: "string option"
  kl_evidence_text :: "string option"
  kl_confidence :: "f32"
  kl_created_by :: "string"
  kl_status :: "string"
  kl_tags :: "string list"
  kl_created_at :: "datetime"
  kl_updated_at :: "datetime"

section \<open>Company documents (\<open>models_company_docs.rs\<close>)\<close>

record company_source =
  cs_id :: "string"
  cs_tenant_id :: "string"
  cs_title :: "string"
  cs_canonical_key :: "string"
  cs_source_uri :: "string"
  cs_active_revision_id :: "string option"

record source_revision =
  srev_id :: "string"
  srev_tenant_id :: "string"
  srev_source_id :: "string"
  srev_title :: "string"
  srev_source_uri :: "string"
  srev_checksum :: "string"
  srev_content :: "string"
  srev_status :: "string"
  srev_created_at :: "datetime"

section \<open>Ingestion (\<open>models_ingest.rs\<close>)\<close>

record source_document =
  sd_id :: "string"
  sd_tenant_id :: "string"
  sd_owner_user_id :: "string option"
  sd_source_kind :: "string"
  sd_source_id :: "string"
  sd_revision_id :: "string"
  sd_uri :: "string"
  sd_title :: "string"
  sd_content :: "string"
  sd_checksum :: "string"
  sd_status :: "string"
  sd_retrieval_enabled :: "bool"
  sd_created_at :: "datetime"
  sd_updated_at :: "datetime"

record parse_artifact =
  pa_id :: "string"
  pa_tenant_id :: "string"
  pa_owner_user_id :: "string option"
  pa_source_document_uri :: "string"
  pa_source_id :: "string"
  pa_revision_id :: "string"
  pa_parser_provider :: "string"
  pa_parser_backend :: "string"
  pa_parser_version :: "string option"
  pa_artifact_kind :: "string"
  pa_uri :: "string"
  pa_checksum :: "string"
  pa_byte_size :: "usize"
  pa_created_at :: "datetime"

record parsed_block =
  pb_block_id :: "string"
  pb_block_type :: "string"
  pb_page_idx :: "u32 option"
  pb_bbox :: "json option"
  pb_text :: "string option"
  pb_html :: "string option"
  pb_latex :: "string option"
  pb_image_ref :: "string option"
  pb_caption :: "string option"
  pb_footnote :: "string option"
  pb_text_level :: "u8 option"
  pb_section_path :: "string list"
  pb_reading_order :: "u32"

record ingest_task =
  it_task_id :: "string"
  it_tenant_id :: "string"
  it_owner_user_id :: "string option"
  it_source_id :: "string"
  it_revision_id :: "string"
  it_source_document_uri :: "string option"
  it_parser_provider :: "string"
  it_parser_backend :: "string"
  it_state :: "string"
  it_error :: "string option"
  it_created_at :: "datetime"
  it_updated_at :: "datetime"
  it_completed_at :: "datetime option"
  it_status_url :: "string option"
  it_result_url :: "string option"
  it_queued_ahead :: "usize option"

record ingest_task_result =
  itr_task :: "ingest_task"
  itr_source_document_uri :: "string"
  itr_source_id :: "string"
  itr_revision_id :: "string"
  itr_parse_artifacts :: "parse_artifact list"
  itr_parsed_blocks :: "parsed_block list"
  itr_fragment_uris :: "string list"
  itr_context_uris :: "string list"

section \<open>Structured datasets (\<open>models_structured.rs\<close>)\<close>

record dataset_column =
  dc_name :: "string"
  dc_kind :: "string"
  dc_required :: "bool"
  dc_semantic_role :: "string option"
  dc_trend_direction :: "string option"

record dataset_record =
  dr_id :: "string"
  dr_tenant_id :: "string"
  dr_dataset_key :: "string"
  dr_title :: "string"
  dr_schema_version :: "u32"
  dr_status :: "string"
  dr_columns :: "dataset_column list"

record structured_snapshot =
  ss_id :: "string"
  ss_tenant_id :: "string"
  ss_dataset_key :: "string"
  ss_owner_user_id :: "string"
  ss_period_key :: "string"
  ss_period_start :: "datetime"
  ss_period_end :: "datetime"
  ss_row_count :: "usize"
  ss_status :: "string"

section \<open>Sessions (\<open>models_sessions.rs\<close>)\<close>

record session_record =
  sess_id :: "string"
  sess_tenant_id :: "string"
  sess_owner_user_id :: "string"
  sess_title :: "string"
  sess_status :: "string"
  sess_messages :: "json list"
  sess_created_at :: "datetime"

section \<open>Harness and evaluation (\<open>models_harness_eval.rs\<close>)\<close>

record harness_component =
  hc_id :: "string"
  hc_tenant_id :: "string"
  hc_display_name :: "string"
  hc_component_kind :: "string"
  hc_description :: "string"
  hc_status :: "string"
  hc_current_revision_id :: "string option"
  hc_created_at :: "datetime"
  hc_updated_at :: "datetime"

record harness_component_revision =
  hcr_id :: "string"
  hcr_tenant_id :: "string"
  hcr_component_id :: "string"
  hcr_iteration :: "u32"
  hcr_manifest_id :: "string"
  hcr_files :: "string list"
  hcr_content :: "json"
  hcr_status :: "string"
  hcr_created_by :: "string"
  hcr_created_at :: "datetime"

record harness_change_manifest =
  hcm_id :: "string"
  hcm_tenant_id :: "string"
  hcm_iteration :: "u32"
  hcm_change_type :: "string"
  hcm_component_id :: "string"
  hcm_files :: "string list"
  hcm_failure_pattern :: "string"
  hcm_root_cause :: "string"
  hcm_targeted_fix :: "string"
  hcm_predicted_fixes :: "string list"
  hcm_risk_cases :: "string list"
  hcm_expected_metric_deltas :: "json"
  hcm_baseline_eval_run_id :: "string option"
  hcm_candidate_eval_run_id :: "string option"
  hcm_why_this_component :: "string"
  hcm_created_by :: "string"
  hcm_created_at :: "datetime"
  hcm_status :: "string"

record harness_change_verdict =
  hcv_id :: "string"
  hcv_tenant_id :: "string"
  hcv_change_id :: "string"
  hcv_eval_run_id :: "string option"
  hcv_verdict :: "string"
  hcv_predicted_fixes_confirmed :: "string list"
  hcv_risk_cases_regressed :: "string list"
  hcv_observed_metric_deltas :: "json"
  hcv_evidence :: "json"
  hcv_created_by :: "string"
  hcv_created_at :: "datetime"

record rag_eval_case =
  rec_id :: "string"
  rec_tenant_id :: "string"
  rec_owner_user_id :: "string option"
  rec_question :: "string"
  rec_expected_context_uris :: "string list"
  rec_expected_source_document_uris :: "string list"
  rec_expected_answer_contains :: "string list"
  rec_tags :: "string list"
  rec_metadata :: "json"
  rec_created_at :: "datetime"

record rag_eval_metrics =
  rem_pass_rate :: "f64"
  rem_retrieval_recall_at_5 :: "f64"
  rem_citation_precision :: "f64"
  rem_traceback_success_rate :: "f64"
  rem_source_doc_leak_rate :: "f64"
  rem_acl_violation_rate :: "f64"
  rem_stale_fragment_rate :: "f64"
  rem_state_history_consistency_rate :: "f64"
  rem_llm_health_false_ready_rate :: "f64"
  rem_tokens_per_answer :: "f64"
  rem_latency_p95 :: "f64"

record regression_guard_result =
  rgr_name :: "string"
  rgr_passed :: "bool"
  rgr_evidence :: "json"

record rag_eval_case_result =
  rcr_id :: "string"
  rcr_tenant_id :: "string"
  rcr_run_id :: "string"
  rcr_case_id :: "string"
  rcr_owner_user_id :: "string option"
  rcr_status :: "string"
  rcr_question :: "string"
  rcr_trace_id :: "string"
  rcr_answer :: "string"
  rcr_citations :: "citation list"
  rcr_retrieved_uris :: "string list"
  rcr_source_document_uris :: "string list"
  rcr_failures :: "string list"
  rcr_guard_failures :: "string list"
  rcr_metrics :: "json"
  rcr_latency_ms :: "u64"
  rcr_created_at :: "datetime"

record failure_pattern_cluster =
  fpc_pattern :: "string"
  fpc_count :: "usize"
  fpc_case_ids :: "string list"
  fpc_suggested_target_component :: "string"
  fpc_root_cause_notes :: "string list"

record rag_eval_overview =
  reo_tenant_id :: "string"
  reo_run_id :: "string"
  reo_status :: "string"
  reo_metrics :: "rag_eval_metrics"
  reo_failure_patterns :: "failure_pattern_cluster list"
  reo_suggested_target_component :: "string"
  reo_root_cause_notes :: "string list"
  reo_overview_markdown :: "string"
  reo_case_report_uris :: "string list"
  reo_overview_source_document_uri :: "string option"
  reo_generated_at :: "datetime"

record rag_eval_run =
  rer_id :: "string"
  rer_tenant_id :: "string"
  rer_change_id :: "string option"
  rer_case_ids :: "string list"
  rer_result_ids :: "string list"
  rer_trace_ids :: "string list"
  rer_status :: "string"
  rer_metrics :: "rag_eval_metrics"
  rer_guard_results :: "regression_guard_result list"
  rer_overview_source_document_uri :: "string option"
  rer_report_source_document_uris :: "string list"
  rer_created_by :: "string"
  rer_created_at :: "datetime"
  rer_completed_at :: "datetime option"

end
