(* ===== verification/Operation_Types.thy ===== *)
theory Operation_Types
  imports Models
begin

text \<open>
  The journal's data (\<open>models_operations.rs\<close>): the resources a step can write, the steps and plan of
  one persistence mutation, the progress of each step and the operation record. Constructors that
  Rust distinguishes by their enum (\<open>OperationStepStatus::Pending\<close>, \<open>OperationStatus::Pending\<close>)
  carry the enum in their name. \<open>OperationProgress::steps\<close> is a \<open>BTreeMap\<close>, so an ordered map.
\<close>

datatype operation_actor_scope = ActorOwner | ActorTenantService | ActorAdmin | ActorSystem

record operation_actor =
  oa_scope :: operation_actor_scope
  oa_owner_user_id_hash :: "string option"
  oa_roles :: "string list"
  oa_request_id :: "string option"

datatype operation_step_role = Primary | SideEffect

datatype operation_step_status = StepPending | StepSubmitted | StepCompleted | StepFailed

datatype operation_status =
  OpPending | OpPrimaryCommitted | OpEffectsSubmitted | OpPartiallyFailed | OpCompleted | OpFailed

datatype operation_indexing_state = IdxPending | IdxCompleted | IdxFailed

datatype company_source_delete_target =
    TFragments
  | TRevisions
  | TSource
  | TSourceDocuments
  | TParseArtifacts
  | TIngestTasks
  | TIngestResults
  | TLinks "string list" "string list"

datatype operation_resource =
    EnsureUserEventIndex user_event_index
  | HistoryEvents "history_event list"
  | ContextNodes string "context_node list"
  | StateItem state_item
  | Insight insight_record
  | CompanySource company_source
  | SourceRevision source_revision
  | DeleteCompanySourceIndex string company_source_delete_target
  | SourceDocuments "source_document list"
  | ParseArtifacts "parse_artifact list"
  | StructuredSnapshot structured_snapshot
  | Dataset dataset_record
  | StructuredRows "json list"
  | StructuredSummary json
  | Session session_record
  | Trace trace_record
  | Links "knowledge_link list"
  | HarnessComponents "harness_component list" "harness_component_revision list"
  | HarnessChanges "harness_change_manifest list"
  | HarnessVerdicts "harness_change_verdict list"
  | IngestTask ingest_task
  | IngestTasks "ingest_task list"
  | DeleteIngestTasks "string list"
  | IngestResult ingest_task_result
  | EvalCase rag_eval_case
  | EvalRun rag_eval_run
  | EvalCaseResults "rag_eval_case_result list"
  | EvalOverview rag_eval_overview

record operation_step =
  os_id :: string
  os_role :: operation_step_role
  os_resource :: operation_resource

record operation_plan =
  op_schema_version :: u32
  op_id :: string
  op_tenant_id :: string
  op_operation_kind :: string
  op_actor :: operation_actor
  op_idempotency_key_hash :: "string option"
  op_primary :: operation_step
  op_side_effects :: "operation_step list"
  op_redacted_metadata :: json
  op_response_snapshot :: json
  op_created_at :: datetime

record operation_step_progress =
  sp_step_id :: string
  sp_status :: operation_step_status
  sp_attempts :: u32
  sp_task_uids :: "string list"
  sp_last_error_category :: "string option"
  sp_last_error_fingerprint :: "string option"
  sp_updated_at :: datetime

record operation_progress =
  pr_attempt_count :: u32
  pr_steps :: "(string, operation_step_progress) btree_map"

record operation_record =
  or_id :: string
  or_tenant_id :: string
  or_operation_kind :: string
  or_actor_scope :: operation_actor_scope
  or_idempotency_key_hash :: "string option"
  or_plan :: operation_plan
  or_status :: operation_status
  or_indexing_state :: operation_indexing_state
  or_progress :: operation_progress
  or_created_at :: datetime
  or_updated_at :: datetime
  or_completed_at :: "datetime option"
  or_last_error_category :: "string option"
  or_last_error_fingerprint :: "string option"

record persistence_metadata =
  pm_operation_id :: string
  pm_status :: operation_status
  pm_indexing_state :: operation_indexing_state
  pm_primary_task_uids :: "string list"
  pm_task_uids :: "string list"

record repository_write_receipt =
  rwr_task_uids :: "string list"

record operation_summary =
  osum_id :: string
  osum_tenant_id :: string
  osum_operation_kind :: string
  osum_actor_scope :: operation_actor_scope
  osum_idempotency_key_hash :: "string option"
  osum_status :: operation_status
  osum_indexing_state :: operation_indexing_state
  osum_attempt_count :: u32
  osum_pending_steps :: usize
  osum_failed_steps :: usize
  osum_created_at :: datetime
  osum_updated_at :: datetime
  osum_completed_at :: "datetime option"
  osum_last_error_category :: "string option"
  osum_last_error_fingerprint :: "string option"

record operation_list_item =
  oli_summary :: operation_summary
  oli_plan :: "operation_plan option"

text \<open>\<open>OperationStatus::as_str\<close> and \<open>OperationIndexingState::as_str\<close>.\<close>

fun operation_status_as_str :: "operation_status \<Rightarrow> string" where
  "operation_status_as_str OpPending = ''pending''"
| "operation_status_as_str OpPrimaryCommitted = ''primary_committed''"
| "operation_status_as_str OpEffectsSubmitted = ''effects_submitted''"
| "operation_status_as_str OpPartiallyFailed = ''partially_failed''"
| "operation_status_as_str OpCompleted = ''completed''"
| "operation_status_as_str OpFailed = ''failed''"

fun operation_indexing_state_as_str :: "operation_indexing_state \<Rightarrow> string" where
  "operation_indexing_state_as_str IdxPending = ''pending''"
| "operation_indexing_state_as_str IdxCompleted = ''completed''"
| "operation_indexing_state_as_str IdxFailed = ''failed''"

text \<open>\<open>operation_steps\<close>: the primary step followed by the side effects in order.\<close>

definition operation_steps :: "operation_plan \<Rightarrow> operation_step list" where
  "operation_steps plan = op_primary plan # op_side_effects plan"

abbreviation step_progress :: "operation_record \<Rightarrow> string \<Rightarrow> operation_step_progress option" where
  "step_progress r sid \<equiv> bt_get (pr_steps (or_progress r)) sid"

lemma primary_in_steps [simp]: "op_primary plan \<in> set (operation_steps plan)"
  by (simp add: operation_steps_def)

lemma side_effect_in_steps: "s \<in> set (op_side_effects plan) \<Longrightarrow> s \<in> set (operation_steps plan)"
  by (simp add: operation_steps_def)

end
