(* ===== verification/Operation_Plan.thy ===== *)
theory Operation_Plan
  imports Operation_Types
begin

text \<open>
  Plan validation (\<open>mutation.rs\<close>): the guards a plan must pass before it enters the journal, one
  equation of \<open>validate_resource\<close> per resource, and the two cross-step checks, the fixed order of a
  company-source deletion and the single owner of an analysis materialisation. Error texts are the
  code's. Characterisation lemmas state what acceptance means.
\<close>

section \<open>Errors and elementary guards\<close>

datatype mutation_plan_error =
  InvalidPlan string | UnknownStep string | InvalidTransition string string

definition invalid :: "string \<Rightarrow> mutation_plan_error + 'a" where
  "invalid message = Inl (InvalidPlan message)"

definition invalid_transition :: "string \<Rightarrow> string \<Rightarrow> mutation_plan_error + 'a" where
  "invalid_transition step_id reason = Inl (InvalidTransition step_id reason)"

lemma invalid_neq_Inr [simp]: "invalid m \<noteq> Inr a" "invalid_transition s m \<noteq> Inr a"
  by (simp_all add: invalid_def invalid_transition_def)

text \<open>\<open>if cond { return invalid(message) }\<close>\<close>

definition reject_if :: "bool \<Rightarrow> string \<Rightarrow> mutation_plan_error + unit" where
  "reject_if b message = (if b then invalid message else Inr ())"

lemma reject_if_Inr [result_simps]: "reject_if b m = Inr u \<longleftrightarrow> \<not> b"
  by (simp add: reject_if_def)

definition require_non_empty :: "string \<Rightarrow> string \<Rightarrow> mutation_plan_error + unit" where
  "require_non_empty label value =
     (if blank value then invalid (label @ '' must not be empty'') else Inr ())"

definition require_non_empty_slice :: "string \<Rightarrow> 'a list \<Rightarrow> mutation_plan_error + unit" where
  "require_non_empty_slice label values =
     (if values = [] then invalid (label @ '' must not be empty'') else Inr ())"

text \<open>
  The loop over a list with a hash set of the values seen: each value passes \<open>ok\<close> and is new.
\<close>

fun check_unique :: "(string \<Rightarrow> 'e + unit) \<Rightarrow> (string \<Rightarrow> 'e) \<Rightarrow> string list \<Rightarrow> string list \<Rightarrow> 'e + unit" where
  "check_unique ok dup seen [] = Inr ()"
| "check_unique ok dup seen (v # vs) =
     (case ok v of
        Inl e \<Rightarrow> Inl e
      | Inr _ \<Rightarrow> if v \<in> set seen then Inl (dup v) else check_unique ok dup (v # seen) vs)"

definition validate_unique_non_empty :: "string \<Rightarrow> string list \<Rightarrow> mutation_plan_error + unit" where
  "validate_unique_non_empty label values =
     check_unique (require_non_empty label)
       (\<lambda>v. InvalidPlan (''duplicate '' @ label @ '' `'' @ v @ ''`'')) [] values"

definition validate_task_uids :: "string \<Rightarrow> string list \<Rightarrow> mutation_plan_error + unit" where
  "validate_task_uids step_id task_uids =
     check_unique (require_non_empty ''task UID'')
       (\<lambda>_. InvalidPlan (''step `'' @ step_id @ ''` contains a duplicate task UID'')) [] task_uids"

definition tenant_matches :: "string \<Rightarrow> string \<Rightarrow> string \<Rightarrow> mutation_plan_error + unit" where
  "tenant_matches expected actual resource =
     (if actual = expected then Inr ()
      else invalid (resource @ '' tenant does not match the operation tenant''))"

lemma require_non_empty_Inr [result_simps]: "require_non_empty l v = Inr u \<longleftrightarrow> \<not> blank v"
  by (simp add: require_non_empty_def)

lemma require_non_empty_slice_Inr [result_simps]: "require_non_empty_slice l vs = Inr u \<longleftrightarrow> vs \<noteq> []"
  by (simp add: require_non_empty_slice_def)

lemma check_unique_Inr [result_simps]:
  "check_unique ok dup seen vs = Inr u \<longleftrightarrow>
     (\<forall>v\<in>set vs. ok v = Inr ()) \<and> distinct vs \<and> set vs \<inter> set seen = {}"
  by (induction ok dup seen vs rule: check_unique.induct) (auto split: sum.splits if_splits)

lemma validate_unique_non_empty_Inr [result_simps]:
  "validate_unique_non_empty l vs = Inr u \<longleftrightarrow> (\<forall>v\<in>set vs. \<not> blank v) \<and> distinct vs"
  by (simp add: validate_unique_non_empty_def result_simps)

lemma validate_task_uids_Inr [result_simps]:
  "validate_task_uids sid vs = Inr u \<longleftrightarrow> (\<forall>v\<in>set vs. \<not> blank v) \<and> distinct vs"
  by (simp add: validate_task_uids_def result_simps)

lemma tenant_matches_Inr [result_simps]: "tenant_matches e a r = Inr u \<longleftrightarrow> a = e"
  by (simp add: tenant_matches_def)

section \<open>Resources\<close>

definition tenants_match :: "string \<Rightarrow> string \<Rightarrow> string list \<Rightarrow> mutation_plan_error + unit" where
  "tenants_match tenant_id resource actual =
     checks (map (\<lambda>a. tenant_matches tenant_id a resource) actual)"

lemma tenants_match_Inr [result_simps]: "tenants_match t r as = Inr u \<longleftrightarrow> (\<forall>a\<in>set as. a = t)"
  by (auto simp: tenants_match_def result_simps)

fun validate_resource :: "string \<Rightarrow> operation_resource \<Rightarrow> mutation_plan_error + unit" where
  "validate_resource t (EnsureUserEventIndex index) =
     checks [tenant_matches t (uei_tenant_id index) ''event index'',
             require_non_empty ''event index id'' (uei_id index)]"
| "validate_resource t (HistoryEvents []) = require_non_empty_slice ''history events'' ([] :: history_event list)"
| "validate_resource t (HistoryEvents (e0 # es)) =
     checks ([require_non_empty ''event index UID'' (he_event_index_uid e0),
              require_non_empty ''event owner hash'' (he_owner_user_id_hash e0)]
        @ map (\<lambda>e. checks
            [tenant_matches t (he_tenant_id e) ''history event'',
             reject_if (he_event_index_uid e \<noteq> he_event_index_uid e0
                \<or> he_owner_user_id_hash e \<noteq> he_owner_user_id_hash e0) ''a history-event batch must use one event index and owner hash'']) (e0 # es))"
| "validate_resource t (ContextNodes index_uid nodes) =
     checks ([require_non_empty ''context index UID'' index_uid,
              require_non_empty_slice ''context nodes'' nodes]
        @ map (\<lambda>n. checks
            [tenant_matches t (cn_tenant_id n) ''context node'',
             reject_if (cn_index_uid n \<noteq> index_uid) ''context node index UID does not match the step index UID'']) nodes)"
| "validate_resource t (StateItem item) = tenant_matches t (si_tenant_id item) ''state item''"
| "validate_resource t (Insight insight) = tenant_matches t (ir_tenant_id insight) ''insight''"
| "validate_resource t (CompanySource source) = tenant_matches t (cs_tenant_id source) ''company source''"
| "validate_resource t (SourceRevision revision) =
     tenant_matches t (srev_tenant_id revision) ''source revision''"
| "validate_resource t (DeleteCompanySourceIndex source_id target) =
     checks [require_non_empty ''company source id'' source_id,
             case target of
               TLinks link_ids related_uris \<Rightarrow>
                 checks [reject_if (link_ids = [] \<and> related_uris = []) ''company source link deletion requires link ids or related URIs'',
                         validate_unique_non_empty ''company source link id'' link_ids,
                         validate_unique_non_empty ''company source related URI'' related_uris]
             | _ \<Rightarrow> Inr ()]"
| "validate_resource t (SourceDocuments documents) =
     checks [require_non_empty_slice ''source documents'' documents,
             tenants_match t ''source document'' (map sd_tenant_id documents)]"
| "validate_resource t (ParseArtifacts artifacts) =
     checks [require_non_empty_slice ''parse artifacts'' artifacts,
             tenants_match t ''parse artifact'' (map pa_tenant_id artifacts)]"
| "validate_resource t (StructuredSnapshot snapshot) =
     tenant_matches t (ss_tenant_id snapshot) ''structured snapshot''"
| "validate_resource t (Dataset dataset) = tenant_matches t (dr_tenant_id dataset) ''dataset''"
| "validate_resource t (StructuredRows rows) = require_non_empty_slice ''structured rows'' rows"
| "validate_resource t (StructuredSummary summary) =
     reject_if (json_is_null summary) ''structured summary must not be null''"
| "validate_resource t (Session session) = tenant_matches t (sess_tenant_id session) ''session''"
| "validate_resource t (Trace trace) = tenant_matches t (tr_tenant_id trace) ''trace''"
| "validate_resource t (Links links) =
     checks [require_non_empty_slice ''links'' links,
             tenants_match t ''link'' (map kl_tenant_id links)]"
| "validate_resource t (HarnessComponents components revisions) =
     checks [reject_if (components = [] \<and> revisions = []) ''harness component step has no resources'',
             tenants_match t ''harness component'' (map hc_tenant_id components),
             tenants_match t ''harness revision'' (map hcr_tenant_id revisions)]"
| "validate_resource t (HarnessChanges changes) =
     checks [require_non_empty_slice ''harness changes'' changes,
             tenants_match t ''harness change'' (map hcm_tenant_id changes)]"
| "validate_resource t (HarnessVerdicts verdicts) =
     checks [require_non_empty_slice ''harness verdicts'' verdicts,
             tenants_match t ''harness verdict'' (map hcv_tenant_id verdicts)]"
| "validate_resource t (IngestTask task) = tenant_matches t (it_tenant_id task) ''ingest task''"
| "validate_resource t (IngestTasks tasks) =
     checks [require_non_empty_slice ''ingest tasks'' tasks,
             tenants_match t ''ingest task'' (map it_tenant_id tasks)]"
| "validate_resource t (DeleteIngestTasks task_ids) =
     checks [validate_unique_non_empty ''ingest task id'' task_ids,
             reject_if (task_ids = []) ''ingest task ids must not be empty'']"
| "validate_resource t (IngestResult result) =
     checks [tenant_matches t (it_tenant_id (itr_task result)) ''ingest result'',
             tenants_match t ''ingest result artifact'' (map pa_tenant_id (itr_parse_artifacts result))]"
| "validate_resource t (EvalCase c) = tenant_matches t (rec_tenant_id c) ''evaluation case''"
| "validate_resource t (EvalRun run) = tenant_matches t (rer_tenant_id run) ''evaluation run''"
| "validate_resource t (EvalCaseResults results) =
     checks [require_non_empty_slice ''evaluation case results'' results,
             tenants_match t ''evaluation case result'' (map rcr_tenant_id results)]"
| "validate_resource t (EvalOverview overview) =
     tenant_matches t (reo_tenant_id overview) ''evaluation overview''"

end
