(* ===== verification/Plan_Check.thy ===== *)
theory Plan_Check
  imports Operation_Plan
begin

text \<open>
  Validation of a whole plan (\<open>validate_operation_plan\<close> of \<open>mutation.rs\<close>): its identity, its steps,
  the order of company-source deletions and the owner of an analysis materialisation. Each check is
  characterised by what it accepts.
\<close>

section \<open>The owner of an analysis materialisation\<close>

definition bind_analysis_owner :: "string option \<Rightarrow> string \<Rightarrow> mutation_plan_error + string option" where
  "bind_analysis_owner target_owner owner =
     rbind (require_non_empty ''analysis resource owner'' owner) (\<lambda>_.
       case target_owner of
         Some expected \<Rightarrow>
           if expected \<noteq> owner then invalid ''analysis materialization mixes target owners''
           else Inr target_owner
       | None \<Rightarrow> Inr (Some owner))"

fun analysis_step ::
  "string \<Rightarrow> string option \<Rightarrow> operation_resource \<Rightarrow> mutation_plan_error + string option" where
  "analysis_step h t (EnsureUserEventIndex index) =
     (if uei_owner_user_id_hash index \<noteq> h
      then invalid ''analysis user-index resource does not match its target owner commitment''
      else Inr t)"
| "analysis_step h t (HistoryEvents events) =
     rfold (\<lambda>t e. if he_owner_user_id_hash e \<noteq> h
         then invalid ''analysis history resource does not match its target owner commitment''
         else bind_analysis_owner t (he_owner_user_id e)) t events"
| "analysis_step h t (ContextNodes _ nodes) =
     rfold (\<lambda>t n. rbind (ok_or (cn_owner_user_id n)
           (InvalidPlan ''analysis context resource must be owner scoped''))
         (bind_analysis_owner t)) t nodes"
| "analysis_step h t (Insight insight) = bind_analysis_owner t (ir_owner_user_id insight)"
| "analysis_step h t (Links links) =
     rfold (\<lambda>t l. rbind (ok_or (kl_owner_user_id l)
           (InvalidPlan ''analysis link resource must be owner scoped''))
         (bind_analysis_owner t)) t links"
| "analysis_step h t _ =
     invalid ''analysis materialization contains an unsupported operation resource''"

definition validate_analysis_materialization_steps :: "operation_plan \<Rightarrow> mutation_plan_error + unit" where
  "validate_analysis_materialization_steps plan =
     (if op_operation_kind plan \<noteq> ''analysis.materialize'' then Inr ()
      else
        rbind (ok_or (json_get_str (op_redacted_metadata plan) ''target_owner_user_id_hash'')
            (InvalidPlan ''analysis materialization is missing its target owner commitment'')) (\<lambda>h.
        rbind (require_non_empty ''analysis target owner hash'' h) (\<lambda>_.
        rbind (rfold (\<lambda>t step. analysis_step h t (os_resource step)) None (operation_steps plan)) (\<lambda>t.
        reject_if (t = None) ''analysis materialization contains no owner-scoped resource''))))"

text \<open>
  What a resource contributes: the owners it names in order (\<open>None\<close> for an item without one), and
  whether the hashes it carries are the plan's commitment. \<open>None\<close> marks the unsupported kinds.
\<close>

fun resource_owners :: "operation_resource \<Rightarrow> string option list option" where
  "resource_owners (EnsureUserEventIndex _) = Some []"
| "resource_owners (HistoryEvents es) = Some (map (Some \<circ> he_owner_user_id) es)"
| "resource_owners (ContextNodes _ ns) = Some (map cn_owner_user_id ns)"
| "resource_owners (Insight i) = Some [Some (ir_owner_user_id i)]"
| "resource_owners (Links ls) = Some (map kl_owner_user_id ls)"
| "resource_owners _ = None"

fun resource_hashes :: "operation_resource \<Rightarrow> string list" where
  "resource_hashes (EnsureUserEventIndex i) = [uei_owner_user_id_hash i]"
| "resource_hashes (HistoryEvents es) = map he_owner_user_id_hash es"
| "resource_hashes _ = []"

definition single_owner :: "string \<Rightarrow> string \<Rightarrow> operation_resource \<Rightarrow> bool" where
  "single_owner h owner res =
     ((\<forall>h'\<in>set (resource_hashes res). h' = h)
      \<and> (case resource_owners res of None \<Rightarrow> False | Some os \<Rightarrow> \<forall>o'\<in>set os. o' = Some owner))"

lemma bind_analysis_owner_Inr [result_simps]:
  "bind_analysis_owner t owner = Inr t' \<longleftrightarrow>
     \<not> blank owner \<and> (t = None \<or> t = Some owner) \<and> t' = Some owner"
  by (auto simp: bind_analysis_owner_def result_simps split: option.splits if_splits)

text \<open>The loop of a step keeps the owner that is already bound and binds it for the first item.\<close>


lemma rfold_owner_loop:
  assumes step: "\<And>t x t'. f t x = Inr t' \<longleftrightarrow>
      ok x \<and> (\<exists>owner. own x = Some owner \<and> \<not> blank owner \<and> (t = None \<or> t = Some owner) \<and> t' = Some owner)"
  shows "rfold f t xs = Inr t' \<longleftrightarrow>
     (if xs = [] then t' = t
      else (\<exists>owner. t' = Some owner \<and> \<not> blank owner \<and> (t = None \<or> t = Some owner)
              \<and> (\<forall>x\<in>set xs. ok x \<and> own x = Some owner)))"
proof (induction xs arbitrary: t)
  case (Cons x xs)
  have "rfold f t (x # xs) = Inr t' \<longleftrightarrow> (\<exists>s. f t x = Inr s \<and> rfold f s xs = Inr t')"
    by (auto split: sum.splits)
  also have "\<dots> \<longleftrightarrow> (\<exists>owner. ok x \<and> own x = Some owner \<and> \<not> blank owner
      \<and> (t = None \<or> t = Some owner) \<and> rfold f (Some owner) xs = Inr t')"
    by (auto simp: step)
  finally show ?case by (cases "xs = []") (auto simp: Cons.IH)
qed auto

lemma analysis_step_Inr:
  "analysis_step h t res = Inr t' \<longleftrightarrow>
     (\<exists>os. resource_owners res = Some os
       \<and> (\<forall>h'\<in>set (resource_hashes res). h' = h)
       \<and> (if os = [] then t' = t
          else (\<exists>owner. t' = Some owner \<and> \<not> blank owner \<and> (t = None \<or> t = Some owner)
                  \<and> (\<forall>o'\<in>set os. o' = Some owner))))"
proof (cases res)
  case (HistoryEvents es)
  show ?thesis
    using rfold_owner_loop
      [of "\<lambda>t e. if he_owner_user_id_hash e \<noteq> h
            then invalid ''analysis history resource does not match its target owner commitment''
            else bind_analysis_owner t (he_owner_user_id e)"
        "\<lambda>e. he_owner_user_id_hash e = h" "\<lambda>e. Some (he_owner_user_id e)" t es t']
    by (auto simp: HistoryEvents result_simps)
next
  case (ContextNodes uid ns)
  show ?thesis
    using rfold_owner_loop
      [of "\<lambda>t n. rbind (ok_or (cn_owner_user_id n)
            (InvalidPlan ''analysis context resource must be owner scoped'')) (bind_analysis_owner t)"
        "\<lambda>_. True" cn_owner_user_id t ns t']
    by (auto simp: ContextNodes result_simps)
next
  case (Links ls)
  show ?thesis
    using rfold_owner_loop
      [of "\<lambda>t l. rbind (ok_or (kl_owner_user_id l)
            (InvalidPlan ''analysis link resource must be owner scoped'')) (bind_analysis_owner t)"
        "\<lambda>_. True" kl_owner_user_id t ls t']
    by (auto simp: Links result_simps)
qed (auto simp: result_simps)

definition names_owner :: "operation_resource \<Rightarrow> bool" where
  "names_owner res = (resource_owners res \<noteq> None \<and> resource_owners res \<noteq> Some [])"

lemma single_owner_any:
  "\<not> names_owner res \<Longrightarrow> single_owner h owner res \<Longrightarrow> single_owner h owner' res"
  by (auto simp: names_owner_def single_owner_def split: option.splits)

lemma analysis_step_single:
  "analysis_step h t res = Inr t' \<longleftrightarrow>
     (if names_owner res
      then (\<exists>owner. t' = Some owner \<and> \<not> blank owner \<and> (t = None \<or> t = Some owner) \<and> single_owner h owner res)
      else t' = t \<and> (\<forall>owner. single_owner h owner res))"
  by (auto simp: analysis_step_Inr names_owner_def single_owner_def split: if_splits option.splits)

lemma analysis_loop:
  "rfold (\<lambda>t s. analysis_step h t (os_resource s)) t steps = Inr t' \<longleftrightarrow>
     (if \<exists>s\<in>set steps. names_owner (os_resource s)
      then (\<exists>owner. t' = Some owner \<and> \<not> blank owner \<and> (t = None \<or> t = Some owner)
              \<and> (\<forall>s\<in>set steps. single_owner h owner (os_resource s)))
      else t' = t \<and> (\<forall>s\<in>set steps. \<forall>owner. single_owner h owner (os_resource s)))"
proof (induction steps arbitrary: t)
  case (Cons s ss)
  let ?f = "\<lambda>t s. analysis_step h t (os_resource s)"
  have split: "rfold ?f t (s # ss) = Inr t' \<longleftrightarrow>
      (\<exists>t1. analysis_step h t (os_resource s) = Inr t1 \<and> rfold ?f t1 ss = Inr t')"
    by (auto split: sum.splits)
  show ?case
  proof (cases "names_owner (os_resource s)")
    case True
    then have "rfold ?f t (s # ss) = Inr t' \<longleftrightarrow>
        (\<exists>owner. \<not> blank owner \<and> (t = None \<or> t = Some owner) \<and> single_owner h owner (os_resource s)
          \<and> rfold ?f (Some owner) ss = Inr t')"
      by (auto simp: split analysis_step_single simp del: rfold.simps)
    also have "\<dots> \<longleftrightarrow> (\<exists>owner. t' = Some owner \<and> \<not> blank owner \<and> (t = None \<or> t = Some owner)
        \<and> (\<forall>s\<in>set (s # ss). single_owner h owner (os_resource s)))"
      unfolding Cons.IH
      by (cases "\<exists>s\<in>set ss. names_owner (os_resource s)") (auto intro: single_owner_any)
    finally show ?thesis using True by simp
  next
    case False
    then have "rfold ?f t (s # ss) = Inr t' \<longleftrightarrow>
        (\<forall>owner. single_owner h owner (os_resource s)) \<and> rfold ?f t ss = Inr t'"
      by (auto simp: split analysis_step_single simp del: rfold.simps)
    also have "\<dots> \<longleftrightarrow>
       (if \<exists>s\<in>set (s # ss). names_owner (os_resource s)
        then (\<exists>owner. t' = Some owner \<and> \<not> blank owner \<and> (t = None \<or> t = Some owner)
                \<and> (\<forall>s\<in>set (s # ss). single_owner h owner (os_resource s)))
        else t' = t \<and> (\<forall>s\<in>set (s # ss). \<forall>owner. single_owner h owner (os_resource s)))"
      unfolding Cons.IH using False by (auto intro: single_owner_any)
    finally show ?thesis .
  qed
qed auto

text \<open>
  An accepted analysis plan commits to one owner hash and writes for one owner only: every
  resource is of a supported kind, carries that hash and names nobody else.
\<close>

lemma validate_analysis_materialization_Inr:
  assumes "op_operation_kind plan = ''analysis.materialize''"
  shows "validate_analysis_materialization_steps plan = Inr u \<longleftrightarrow>
     (\<exists>h owner.
        json_get_str (op_redacted_metadata plan) ''target_owner_user_id_hash'' = Some h
        \<and> \<not> blank h \<and> \<not> blank owner
        \<and> (\<forall>s\<in>set (operation_steps plan). single_owner h owner (os_resource s))
        \<and> (\<exists>s\<in>set (operation_steps plan). names_owner (os_resource s)))"
  using assms
  by (auto simp: validate_analysis_materialization_steps_def rbind_Inr ok_or_Inr
      require_non_empty_Inr reject_if_Inr analysis_loop split: if_splits)

section \<open>The order of a company-source deletion\<close>

fun delete_target_index :: "company_source_delete_target \<Rightarrow> nat" where
  "delete_target_index TFragments = 0"
| "delete_target_index TRevisions = 1"
| "delete_target_index TSource = 2"
| "delete_target_index TSourceDocuments = 3"
| "delete_target_index TParseArtifacts = 4"
| "delete_target_index TIngestTasks = 5"
| "delete_target_index TIngestResults = 6"
| "delete_target_index (TLinks _ _) = 7"

definition next_target :: "(string, nat) btree_map \<Rightarrow> string \<Rightarrow> nat" where
  "next_target m source_id = (case bt_get m source_id of None \<Rightarrow> 0 | Some n \<Rightarrow> n)"

definition delete_step ::
  "(string, nat) btree_map \<Rightarrow> operation_step \<Rightarrow> mutation_plan_error + (string, nat) btree_map" where
  "delete_step m step =
     (case os_resource step of
        DeleteCompanySourceIndex source_id target \<Rightarrow>
          if delete_target_index target \<noteq> next_target m source_id
          then invalid (''company source `'' @ source_id
                 @ ''` deletion target is out of order at step `'' @ os_id step @ ''`'')
          else Inr (bt_insert source_id (Suc (next_target m source_id)) m)
      | _ \<Rightarrow> Inr m)"

definition delete_complete :: "string \<times> nat \<Rightarrow> mutation_plan_error + unit" where
  "delete_complete e = reject_if (snd e < 7)
     (''company source `'' @ fst e @ ''` deletion omits a required managed-index step'')"

lemma delete_complete_Inr [result_simps]: "delete_complete e = Inr u \<longleftrightarrow> 7 \<le> snd e"
  by (simp add: delete_complete_def reject_if_Inr not_less)

definition validate_company_source_delete_steps :: "operation_plan \<Rightarrow> mutation_plan_error + unit" where
  "validate_company_source_delete_steps plan =
     rbind (rfold delete_step [] (operation_steps plan)) (\<lambda>m.
       checks (map delete_complete m))"

text \<open>The deletion targets that a list of steps names for one source, in order.\<close>

fun delete_targets :: "string \<Rightarrow> operation_step list \<Rightarrow> nat list" where
  "delete_targets sid [] = []"
| "delete_targets sid (s # ss) =
     (case os_resource s of
        DeleteCompanySourceIndex source_id target \<Rightarrow>
          if source_id = sid then delete_target_index target # delete_targets sid ss
          else delete_targets sid ss
      | _ \<Rightarrow> delete_targets sid ss)"

lemma delete_step_Inr:
  "delete_step m s = Inr m' \<longleftrightarrow>
     (case os_resource s of
        DeleteCompanySourceIndex source_id target \<Rightarrow>
          delete_target_index target = next_target m source_id
          \<and> m' = bt_insert source_id (Suc (next_target m source_id)) m
      | _ \<Rightarrow> m' = m)"
  by (auto simp: delete_step_def split: operation_resource.splits)

lemma next_target_insert:
  "next_target (bt_insert k n m) sid = (if sid = k then n else next_target m sid)"
  by (simp add: next_target_def bt_get_insert)

lemma delete_targets_le: "n \<in> set (delete_targets sid ss) \<Longrightarrow> n \<le> 7"
proof (induction ss)
  case (Cons s ss)
  have "delete_target_index t \<le> 7" for t by (cases t) simp_all
  with Cons show ?case by (auto split: operation_resource.splits if_splits)
qed simp

lemma delete_step_cases:
  "(\<exists>sid target. os_resource s = DeleteCompanySourceIndex sid target)
   \<or> (\<forall>m. delete_step m s = Inr m) \<and> (\<forall>sid ss. delete_targets sid (s # ss) = delete_targets sid ss)"
  by (cases "os_resource s") (simp_all add: delete_step_def)

lemma consecutive_Cons:
  "x # xs = [n..<n + length (x # xs)] \<longleftrightarrow> x = n \<and> xs = [Suc n..<Suc n + length xs]"
  by (simp add: upt_conv_Cons del: upt_Suc)

lemma delete_loop_ok:
  "(\<exists>m'. rfold delete_step m ss = Inr m') \<longleftrightarrow>
     (\<forall>sid. delete_targets sid ss
        = [next_target m sid..<next_target m sid + length (delete_targets sid ss)])"
proof (induction ss arbitrary: m)
  case (Cons s ss)
  consider (del) sid target where "os_resource s = DeleteCompanySourceIndex sid target"
    | (other) "delete_step m s = Inr m" "\<And>sid. delete_targets sid (s # ss) = delete_targets sid ss"
    using delete_step_cases [of s] by auto
  then show ?case
  proof cases
    case del
    let ?n = "next_target m sid"
    let ?m = "bt_insert sid (Suc ?n) m"
    let ?ok = "\<lambda>m k ss. delete_targets k ss = [next_target m k..<next_target m k + length (delete_targets k ss)]"
    have tail: "?ok m k (s # ss) \<longleftrightarrow>
        (if k = sid then delete_target_index target = ?n \<and> ?ok ?m k ss else ?ok ?m k ss)" for k
      using consecutive_Cons [of "delete_target_index target" "delete_targets sid ss" ?n]
      by (simp add: del next_target_insert)
    show ?thesis
    proof (cases "delete_target_index target = ?n")
      case True
      then have "delete_step m s = Inr ?m" by (simp add: delete_step_def del)
      then have "(\<exists>m'. rfold delete_step m (s # ss) = Inr m') \<longleftrightarrow> (\<forall>k. ?ok ?m k ss)"
        using Cons.IH [of ?m] by simp
      also have "\<dots> \<longleftrightarrow> (\<forall>k. ?ok m k (s # ss))"
        unfolding tail using True by auto
      finally show ?thesis .
    next
      case False
      then have "\<not> ?ok m sid (s # ss)" unfolding tail by simp
      moreover have "rfold delete_step m (s # ss) \<noteq> Inr m'" for m'
        using False by (simp add: delete_step_def del invalid_def)
      ultimately show ?thesis by blast
    qed
  next
    case other
    then show ?thesis using Cons.IH [of m] by simp
  qed
qed simp

lemma delete_loop_next:
  "rfold delete_step m ss = Inr m' \<Longrightarrow>
     next_target m' sid = next_target m sid + length (delete_targets sid ss)"
proof (induction ss arbitrary: m)
  case (Cons s ss)
  then obtain m1 where m1: "delete_step m s = Inr m1" and rest: "rfold delete_step m1 ss = Inr m'"
    by (auto split: sum.splits)
  from m1 have "next_target m1 sid + length (delete_targets sid ss)
      = next_target m sid + length (delete_targets sid (s # ss))"
    by (auto simp: delete_step_Inr next_target_insert split: operation_resource.splits)
  with Cons.IH [OF rest] show ?case by simp
qed simp

lemma delete_loop_inv:
  assumes "rfold delete_step [] ss = Inr m"
  shows "bt_inv m \<and> (\<forall>k. bt_get m k \<noteq> Some 0)"
  using assms
proof (rule rfold_invariant [where P = "\<lambda>m. bt_inv m \<and> (\<forall>k. bt_get m k \<noteq> Some 0)"])
  fix m s m'
  assume "bt_inv m \<and> (\<forall>k. bt_get m k \<noteq> Some 0)" and "delete_step m s = Inr m'"
  then show "bt_inv m' \<and> (\<forall>k. bt_get m' k \<noteq> Some 0)"
    by (auto simp: delete_step_Inr bt_inv_insert bt_get_insert split: operation_resource.splits)
qed simp

text \<open>
  Accepted deletions name, for every source, exactly the seven managed indexes in their fixed order,
  optionally followed by the links.
\<close>

lemma validate_company_source_delete_Inr:
  "validate_company_source_delete_steps plan = Inr u \<longleftrightarrow>
     (\<forall>sid. delete_targets sid (operation_steps plan) \<in> {[], [0..<7], [0..<8]})"
    (is "?valid \<longleftrightarrow> (\<forall>sid. ?T sid \<in> _)")
proof
  assume ?valid
  then obtain m where m: "rfold delete_step [] (operation_steps plan) = Inr m"
    and ge: "\<forall>e\<in>set m. 7 \<le> snd e"
    by (auto simp: validate_company_source_delete_steps_def rbind_Inr checks_Inr delete_complete_Inr)
  show "\<forall>sid. ?T sid \<in> {[], [0..<7], [0..<8]}"
  proof
    fix sid
    have nil: "next_target [] sid = 0" by (simp add: next_target_def)
    have eq: "?T sid = [0..<length (?T sid)]"
      using delete_loop_ok [of "[]" "operation_steps plan", THEN iffD1, OF exI, OF m] nil
      by (metis add_0)
    show "?T sid \<in> {[], [0..<7], [0..<8]}"
    proof (cases "?T sid = []")
      case False
      have "next_target m sid = length (?T sid)" using delete_loop_next [OF m] nil by simp
      with False have "bt_get m sid = Some (length (?T sid))"
        by (auto simp: next_target_def split: option.splits)
      with ge have "7 \<le> length (?T sid)" by (auto dest!: map_of_SomeD)
      moreover have "length (?T sid) - 1 \<in> set [0..<length (?T sid)]" using False by simp
      then have "length (?T sid) - 1 \<le> 7" using eq delete_targets_le by metis
      ultimately have "length (?T sid) = 7 \<or> length (?T sid) = 8" by linarith
      with eq show ?thesis by force
    qed simp
  qed
next
  assume T: "\<forall>sid. ?T sid \<in> {[], [0..<7], [0..<8]}"
  have "?T sid = [0..<length (?T sid)]" for sid
    using T [rule_format, of sid] by auto
  then have "\<exists>m. rfold delete_step [] (operation_steps plan) = Inr m"
    using delete_loop_ok [of "[]" "operation_steps plan"] by (simp add: next_target_def)
  then obtain m where m: "rfold delete_step [] (operation_steps plan) = Inr m" ..
  have "7 \<le> n" if "(sid, n) \<in> set m" for sid n
  proof -
    from delete_loop_inv [OF m] that have get: "bt_get m sid = Some n"
      by (simp add: bt_entry_get)
    with delete_loop_inv [OF m] have "n \<noteq> 0" by metis
    from get have "n = length (?T sid)"
      using delete_loop_next [OF m, of sid] by (simp add: next_target_def)
    with T [rule_format, of sid] \<open>n \<noteq> 0\<close> show ?thesis by auto
  qed
  then show ?valid
    using m by (fastforce simp: validate_company_source_delete_steps_def rbind_Inr checks_Inr delete_complete_Inr)
qed

section \<open>Plans\<close>

definition operation_plan_schema_version :: u32 where
  "operation_plan_schema_version = 1"

text \<open>\<open>validate_step\<close>: the set of step ids seen so far is threaded through.\<close>

definition validate_step ::
  "string \<Rightarrow> operation_step \<Rightarrow> string list \<Rightarrow> mutation_plan_error + string list" where
  "validate_step tenant_id step step_ids =
     rbind (require_non_empty ''step id'' (os_id step)) (\<lambda>_.
     if os_id step \<in> set step_ids then invalid (''duplicate step id `'' @ os_id step @ ''`'')
     else rbind (validate_resource tenant_id (os_resource step)) (\<lambda>_. Inr (os_id step # step_ids)))"

definition validate_side_effect ::
  "string \<Rightarrow> string list \<Rightarrow> operation_step \<Rightarrow> mutation_plan_error + string list" where
  "validate_side_effect tenant_id step_ids step =
     (if os_role step \<noteq> SideEffect
      then invalid (''side-effect step `'' @ os_id step @ ''` must have the side_effect role'')
      else validate_step tenant_id step step_ids)"

text \<open>\<open>if let Some(value) = &field { require_non_empty(label, value)? }\<close>\<close>

definition require_some_non_empty :: "string \<Rightarrow> string option \<Rightarrow> mutation_plan_error + unit" where
  "require_some_non_empty label value =
     (case value of Some v \<Rightarrow> require_non_empty label v | None \<Rightarrow> Inr ())"

definition require_owner_hash :: "operation_actor \<Rightarrow> mutation_plan_error + unit" where
  "require_owner_hash actor =
     (if oa_scope actor = ActorOwner
      then require_non_empty ''owner actor hash''
             (case oa_owner_user_id_hash actor of Some h \<Rightarrow> h | None \<Rightarrow> [])
      else Inr ())"

lemma require_some_non_empty_Inr [result_simps]:
  "require_some_non_empty l v = Inr u \<longleftrightarrow> (\<forall>x. v = Some x \<longrightarrow> \<not> blank x)"
  by (simp add: require_some_non_empty_def require_non_empty_Inr split: option.splits)

lemma require_owner_hash_Inr [result_simps]:
  "require_owner_hash a = Inr u \<longleftrightarrow>
     (oa_scope a = ActorOwner \<longrightarrow> (\<exists>h. oa_owner_user_id_hash a = Some h \<and> \<not> blank h))"
  by (auto simp: require_owner_hash_def require_non_empty_Inr split: option.splits)

definition validate_operation_plan :: "operation_plan \<Rightarrow> mutation_plan_error + unit" where
  "validate_operation_plan plan = checks
     [reject_if (op_schema_version plan \<noteq> operation_plan_schema_version)
        (''unsupported schema version '' @ show_nat (unat (op_schema_version plan))
           @ ''; expected '' @ show_nat (unat operation_plan_schema_version)),
      require_non_empty ''operation id'' (op_id plan),
      require_non_empty ''tenant id'' (op_tenant_id plan),
      require_non_empty ''operation kind'' (op_operation_kind plan),
      require_some_non_empty ''idempotency key hash'' (op_idempotency_key_hash plan),
      require_some_non_empty ''request id'' (oa_request_id (op_actor plan)),
      require_owner_hash (op_actor plan),
      validate_unique_non_empty ''actor role'' (oa_roles (op_actor plan)),
      reject_if (\<not> json_is_null (op_redacted_metadata plan) \<and> \<not> json_is_object (op_redacted_metadata plan))
        ''redacted metadata must be an object or null'',
      reject_if (os_role (op_primary plan) \<noteq> Primary) ''primary step must have the primary role'',
      rbind (validate_step (op_tenant_id plan) (op_primary plan) []) (\<lambda>step_ids.
      rbind (rfold (validate_side_effect (op_tenant_id plan)) step_ids (op_side_effects plan)) (\<lambda>_.
        Inr ())),
      validate_company_source_delete_steps plan,
      validate_analysis_materialization_steps plan]"

definition validate_operation_step_for_tenant ::
  "string \<Rightarrow> operation_step \<Rightarrow> mutation_plan_error + unit" where
  "validate_operation_step_for_tenant tenant_id step = checks
     [require_non_empty ''tenant id'' tenant_id,
      require_non_empty ''step id'' (os_id step),
      validate_resource tenant_id (os_resource step)]"

definition good_step :: "string \<Rightarrow> operation_step \<Rightarrow> bool" where
  "good_step t s = (\<not> blank (os_id s) \<and> validate_resource t (os_resource s) = Inr ())"

lemma validate_step_Inr [result_simps]:
  "validate_step t s ids = Inr ids' \<longleftrightarrow> good_step t s \<and> os_id s \<notin> set ids \<and> ids' = os_id s # ids"
  by (auto simp: validate_step_def good_step_def result_simps)

lemma validate_side_effect_Inr:
  "validate_side_effect t ids s = Inr ids' \<longleftrightarrow>
     os_role s = SideEffect \<and> good_step t s \<and> os_id s \<notin> set ids \<and> ids' = os_id s # ids"
  by (auto simp: validate_side_effect_def validate_step_Inr)

lemma validate_side_effects_Inr:
  "rfold (validate_side_effect t) ids ss = Inr ids' \<longleftrightarrow>
     (\<forall>s\<in>set ss. os_role s = SideEffect \<and> good_step t s)
     \<and> distinct (map os_id ss) \<and> set (map os_id ss) \<inter> set ids = {}
     \<and> ids' = rev (map os_id ss) @ ids"
proof (induction ss arbitrary: ids)
  case (Cons s ss)
  have "rfold (validate_side_effect t) ids (s # ss) = Inr ids' \<longleftrightarrow>
      os_role s = SideEffect \<and> good_step t s \<and> os_id s \<notin> set ids
      \<and> rfold (validate_side_effect t) (os_id s # ids) ss = Inr ids'"
    by (auto simp: validate_side_effect_Inr rfold_Cons_Inr simp del: rfold.simps)
  then show ?case unfolding Cons.IH by auto
qed auto

text \<open>What a valid plan is.\<close>

definition plan_identity :: "operation_plan \<Rightarrow> bool" where
  "plan_identity p =
     (op_schema_version p = operation_plan_schema_version
      \<and> \<not> blank (op_id p) \<and> \<not> blank (op_tenant_id p) \<and> \<not> blank (op_operation_kind p)
      \<and> (\<forall>h. op_idempotency_key_hash p = Some h \<longrightarrow> \<not> blank h)
      \<and> (\<forall>r. oa_request_id (op_actor p) = Some r \<longrightarrow> \<not> blank r)
      \<and> (oa_scope (op_actor p) = ActorOwner \<longrightarrow>
           (\<exists>h. oa_owner_user_id_hash (op_actor p) = Some h \<and> \<not> blank h))
      \<and> (\<forall>r\<in>set (oa_roles (op_actor p)). \<not> blank r) \<and> distinct (oa_roles (op_actor p))
      \<and> (json_is_null (op_redacted_metadata p) \<or> json_is_object (op_redacted_metadata p)))"

definition plan_steps_ok :: "operation_plan \<Rightarrow> bool" where
  "plan_steps_ok p =
     (os_role (op_primary p) = Primary
      \<and> (\<forall>s\<in>set (op_side_effects p). os_role s = SideEffect)
      \<and> distinct (map os_id (operation_steps p))
      \<and> (\<forall>s\<in>set (operation_steps p). good_step (op_tenant_id p) s))"

lemma validate_operation_plan_Inr [result_simps]:
  "validate_operation_plan p = Inr u \<longleftrightarrow>
     plan_identity p \<and> plan_steps_ok p
     \<and> validate_company_source_delete_steps p = Inr ()
     \<and> validate_analysis_materialization_steps p = Inr ()"
proof -
  have steps: "rbind (validate_step (op_tenant_id p) (op_primary p) []) (\<lambda>step_ids.
      rbind (rfold (validate_side_effect (op_tenant_id p)) step_ids (op_side_effects p)) (\<lambda>_.
        Inr ())) = Inr ()
    \<longleftrightarrow> good_step (op_tenant_id p) (op_primary p)
      \<and> (\<forall>s\<in>set (op_side_effects p). os_role s = SideEffect \<and> good_step (op_tenant_id p) s)
      \<and> distinct (map os_id (operation_steps p))"
    by (auto simp: rbind_Inr validate_step_Inr validate_side_effects_Inr operation_steps_def)
  show ?thesis
    unfolding validate_operation_plan_def plan_identity_def plan_steps_ok_def
    by (simp only: checks_Inr list.set ball_simps steps reject_if_Inr require_non_empty_Inr
        require_some_non_empty_Inr require_owner_hash_Inr validate_unique_non_empty_Inr)
      (auto simp: operation_steps_def)
qed

end
