(* ===== verification/Journal.thy ===== *)
theory Journal
  imports Plan_Check
begin

text \<open>
  The operation journal (\<open>mutation.rs\<close>): records, the validation every transition re-runs, the
  derived status of an operation, and the transitions of one step (submitted or accepted, completed,
  failed). A transition takes a record and returns the new one or the error of the guard it hit.
\<close>

section \<open>Derived state and validation\<close>

definition compacted_payloads_metadata_key :: string where
  "compacted_payloads_metadata_key = ''compacted_payloads''"

definition derive_operation_state ::
  "operation_record \<Rightarrow> mutation_plan_error + operation_status \<times> operation_indexing_state" where
  "derive_operation_state record =
     (let primary_id = os_id (op_primary (or_plan record)) in
      rbind (ok_or (step_progress record primary_id) (UnknownStep primary_id)) (\<lambda>primary.
        case sp_status primary of
          StepPending \<Rightarrow> Inr (OpPending, IdxPending)
        | StepFailed \<Rightarrow> Inr (OpFailed, IdxFailed)
        | _ \<Rightarrow>
            (let side_statuses = List.map_filter (\<lambda>step. map_option sp_status (step_progress record (os_id step)))
                   (op_side_effects (or_plan record))
             in if List.member side_statuses StepFailed then Inr (OpPartiallyFailed, IdxFailed)
                else if List.member side_statuses StepPending then
                  if list_ex (\<lambda>status. status \<noteq> StepPending) side_statuses
                  then Inr (OpEffectsSubmitted, IdxPending)
                  else Inr (OpPrimaryCommitted, IdxPending)
                else
                  Inr (OpCompleted,
                    if sp_status primary = StepCompleted
                       \<and> list_all (\<lambda>status. status = StepCompleted) side_statuses
                    then IdxCompleted else IdxPending))))"

definition operation_is_settled :: "operation_record \<Rightarrow> bool" where
  "operation_is_settled record = (or_status record = OpCompleted \<and> or_indexing_state record = IdxCompleted)"

definition operation_is_compacted :: "operation_record \<Rightarrow> bool" where
  "operation_is_compacted record =
     (json_get (op_redacted_metadata (or_plan record)) compacted_payloads_metadata_key \<noteq> None)"

definition validate_step_progress ::
  "operation_record \<Rightarrow> string \<times> operation_step_progress \<Rightarrow> mutation_plan_error + unit" where
  "validate_step_progress record e =
     checks
       [reject_if (sp_step_id (snd e) \<noteq> fst e)
          (''progress key `'' @ fst e @ ''` does not match embedded step id''),
        reject_if (sp_updated_at (snd e) < or_created_at record \<or> or_updated_at record < sp_updated_at (snd e))
          (''step `'' @ fst e @ ''` has an invalid update timestamp''),
        validate_task_uids (fst e) (sp_task_uids (snd e)),
        reject_if (sp_status (snd e) = StepSubmitted \<and> sp_task_uids (snd e) = [])
          (''submitted step `'' @ fst e @ ''` must retain at least one task UID'')]"

definition validate_compaction :: "operation_record \<Rightarrow> mutation_plan_error + unit" where
  "validate_compaction record =
     (case json_get (op_redacted_metadata (or_plan record)) compacted_payloads_metadata_key of
        None \<Rightarrow> Inr ()
      | Some digests \<Rightarrow>
          checks
            [reject_if (\<not> operation_is_settled record) ''only settled operations may be compacted'',
             reject_if
               (map_option (\<lambda>m. set (map fst m)) (json_as_object digests)
                \<noteq> Some (set (map os_id (operation_steps (or_plan record)))))
               ''compacted payload digests do not cover exactly the planned steps''])"

definition validate_operation_record :: "operation_record \<Rightarrow> mutation_plan_error + unit" where
  "validate_operation_record record = checks
     [validate_operation_plan (or_plan record),
      reject_if
        (or_id record \<noteq> op_id (or_plan record)
         \<or> or_tenant_id record \<noteq> op_tenant_id (or_plan record)
         \<or> or_operation_kind record \<noteq> op_operation_kind (or_plan record)
         \<or> or_actor_scope record \<noteq> oa_scope (op_actor (or_plan record))
         \<or> or_idempotency_key_hash record \<noteq> op_idempotency_key_hash (or_plan record)
         \<or> or_created_at record \<noteq> op_created_at (or_plan record))
        ''record identity does not match its immutable plan'',
      reject_if (or_updated_at record < or_created_at record) ''record updated_at precedes created_at'',
      reject_if
        (set (map os_id (operation_steps (or_plan record))) \<noteq> set (map fst (pr_steps (or_progress record))))
        ''record progress does not cover exactly the planned steps'',
      checks (map (validate_step_progress record) (pr_steps (or_progress record))),
      rbind (derive_operation_state record) (\<lambda>(expected_status, expected_indexing_state).
        reject_if (or_status record \<noteq> expected_status \<or> or_indexing_state record \<noteq> expected_indexing_state)
          ''record status does not match step progress''),
      reject_if ((or_status record = OpCompleted) \<noteq> (or_completed_at record \<noteq> None))
        ''completed_at must be present only for completed operations'',
      validate_compaction record]"

section \<open>Records and transitions\<close>

definition initial_step_progress :: "datetime \<Rightarrow> operation_step \<Rightarrow> operation_step_progress" where
  "initial_step_progress created_at step =
     \<lparr>sp_step_id = os_id step, sp_status = StepPending, sp_attempts = 0, sp_task_uids = [],
      sp_last_error_category = None, sp_last_error_fingerprint = None, sp_updated_at = created_at\<rparr>"

definition operation_record_from_plan :: "operation_plan \<Rightarrow> mutation_plan_error + operation_record" where
  "operation_record_from_plan plan =
     rbind (validate_operation_plan plan) (\<lambda>_. Inr
       \<lparr>or_id = op_id plan,
        or_tenant_id = op_tenant_id plan,
        or_operation_kind = op_operation_kind plan,
        or_actor_scope = oa_scope (op_actor plan),
        or_idempotency_key_hash = op_idempotency_key_hash plan,
        or_plan = plan,
        or_status = OpPending,
        or_indexing_state = IdxPending,
        or_progress =
          \<lparr>pr_attempt_count = 0,
           pr_steps = fold (\<lambda>step. bt_insert (os_id step) (initial_step_progress (op_created_at plan) step))
             (operation_steps plan) []\<rparr>,
        or_created_at = op_created_at plan,
        or_updated_at = op_created_at plan,
        or_completed_at = None,
        or_last_error_category = None,
        or_last_error_fingerprint = None\<rparr>)"

definition validate_step_sequence :: "operation_record \<Rightarrow> string \<Rightarrow> mutation_plan_error + unit" where
  "validate_step_sequence record step_id =
     rbind (ok_or (List.find (\<lambda>step. os_id step = step_id) (operation_steps (or_plan record)))
              (UnknownStep step_id)) (\<lambda>step.
     if os_role step = SideEffect then
       (let primary_id = os_id (op_primary (or_plan record)) in
        rbind (ok_or (step_progress record primary_id) (UnknownStep primary_id)) (\<lambda>primary.
        if \<not> (sp_status primary = StepSubmitted \<or> sp_status primary = StepCompleted)
        then invalid_transition step_id ''primary step has not been durably accepted''
        else Inr ()))
     else Inr ())"

text \<open>The record after \<open>refresh_operation_state\<close> has assigned all its fields.\<close>

definition refreshed_record ::
  "operation_record \<Rightarrow> datetime \<Rightarrow> operation_status \<Rightarrow> operation_indexing_state \<Rightarrow> operation_record" where
  "refreshed_record record at status indexing_state =
     (let failed = List.find (\<lambda>p. sp_status p = StepFailed) (map snd (pr_steps (or_progress record)))
      in record\<lparr>or_updated_at := at, or_status := status, or_indexing_state := indexing_state,
           or_completed_at :=
             (if status = OpCompleted
              then (case or_completed_at record of Some c \<Rightarrow> Some c | None \<Rightarrow> Some at)
              else None),
           or_last_error_category := Option.bind failed sp_last_error_category,
           or_last_error_fingerprint := Option.bind failed sp_last_error_fingerprint\<rparr>)"

definition refresh_operation_state ::
  "operation_record \<Rightarrow> datetime \<Rightarrow> mutation_plan_error + operation_record" where
  "refresh_operation_state record at =
     (if at < or_updated_at record then invalid ''operation transition timestamp moved backwards''
      else
        rbind (derive_operation_state (record\<lparr>or_updated_at := at\<rparr>)) (\<lambda>(status, indexing_state).
        rbind (validate_operation_record (refreshed_record record at status indexing_state)) (\<lambda>_.
          Inr (refreshed_record record at status indexing_state))))"

definition dedup_non_empty :: "string list \<Rightarrow> string list" where
  "dedup_non_empty values = dedup [] (filter (\<lambda>v. v \<noteq> []) values)"

text \<open>Writes one step's progress and counts an attempt when \<open>attempted\<close> holds.\<close>

definition write_step ::
  "operation_record \<Rightarrow> string \<Rightarrow> operation_step_progress \<Rightarrow> bool \<Rightarrow> operation_record" where
  "write_step record step_id progress attempted =
     record\<lparr>or_progress :=
       \<lparr>pr_attempt_count =
          (if attempted then sat_add (pr_attempt_count (or_progress record)) 1
           else pr_attempt_count (or_progress record)),
        pr_steps = bt_insert step_id progress (pr_steps (or_progress record))\<rparr>\<rparr>"

definition operation_step_submitted ::
  "operation_record \<Rightarrow> string \<Rightarrow> string list \<Rightarrow> datetime \<Rightarrow> mutation_plan_error + operation_record" where
  "operation_step_submitted record step_id task_uids at =
     rbind (validate_operation_record record) (\<lambda>_.
     rbind (validate_task_uids step_id task_uids) (\<lambda>_.
     if task_uids = [] then invalid_transition step_id ''submission requires at least one task UID''
     else
       rbind (validate_step_sequence record step_id) (\<lambda>_.
       rbind (ok_or (step_progress record step_id) (UnknownStep step_id)) (\<lambda>progress.
       case sp_status progress of
         StepSubmitted \<Rightarrow> invalid_transition step_id ''step is already submitted''
       | StepCompleted \<Rightarrow> invalid_transition step_id ''completed steps are immutable''
       | _ \<Rightarrow>
           refresh_operation_state
             (write_step record step_id
               (progress\<lparr>sp_status := StepSubmitted,
                  sp_attempts := sat_add (sp_attempts progress) 1,
                  sp_task_uids := dedup_non_empty task_uids,
                  sp_last_error_category := None,
                  sp_last_error_fingerprint := None,
                  sp_updated_at := at\<rparr>) True) at))))"

definition operation_step_accepted ::
  "operation_record \<Rightarrow> string \<Rightarrow> string list \<Rightarrow> datetime \<Rightarrow> mutation_plan_error + operation_record" where
  "operation_step_accepted record step_id task_uids at =
     operation_step_submitted record step_id task_uids at"

definition operation_step_completed ::
  "operation_record \<Rightarrow> string \<Rightarrow> datetime \<Rightarrow> mutation_plan_error + operation_record" where
  "operation_step_completed record step_id at =
     rbind (validate_operation_record record) (\<lambda>_.
     rbind (validate_step_sequence record step_id) (\<lambda>_.
     rbind (ok_or (step_progress record step_id) (UnknownStep step_id)) (\<lambda>progress.
     case sp_status progress of
       StepCompleted \<Rightarrow> invalid_transition step_id ''completed steps are immutable''
     | StepFailed \<Rightarrow> invalid_transition step_id ''failed steps must be retried before completion''
     | status \<Rightarrow>
         (let attempted = (status = StepPending) in
          refresh_operation_state
            (write_step record step_id
              (progress\<lparr>sp_status := StepCompleted,
                 sp_attempts :=
                   (if attempted then sat_add (sp_attempts progress) 1 else sp_attempts progress),
                 sp_last_error_category := None,
                 sp_last_error_fingerprint := None,
                 sp_updated_at := at\<rparr>) attempted) at))))"

definition operation_step_failed ::
  "operation_record \<Rightarrow> string \<Rightarrow> string \<Rightarrow> string \<Rightarrow> datetime \<Rightarrow>
     mutation_plan_error + operation_record" where
  "operation_step_failed record step_id category fingerprint at =
     rbind (validate_operation_record record) (\<lambda>_.
     rbind (validate_step_sequence record step_id) (\<lambda>_.
     rbind (require_non_empty ''error category'' category) (\<lambda>_.
     rbind (require_non_empty ''error fingerprint'' fingerprint) (\<lambda>_.
     rbind (ok_or (step_progress record step_id) (UnknownStep step_id)) (\<lambda>progress.
     if sp_status progress = StepCompleted
     then invalid_transition step_id ''completed steps are immutable''
     else
       (let attempted = (sp_status progress \<noteq> StepSubmitted) in
        refresh_operation_state
          (write_step record step_id
            (progress\<lparr>sp_status := StepFailed,
               sp_attempts :=
                 (if attempted then sat_add (sp_attempts progress) 1 else sp_attempts progress),
               sp_last_error_category := Some category,
               sp_last_error_fingerprint := Some fingerprint,
               sp_updated_at := at\<rparr>) attempted) at))))))"

section \<open>Views\<close>

text \<open>\<open>RepositoryWriteReceipt\<close>: \<open>empty\<close>, \<open>from_task_uid\<close> and \<open>extend\<close>.\<close>

definition receipt_empty :: repository_write_receipt where
  "receipt_empty = \<lparr>rwr_task_uids = []\<rparr>"

definition receipt_from_task_uid :: "string option \<Rightarrow> repository_write_receipt" where
  "receipt_from_task_uid task_uid = \<lparr>rwr_task_uids = (case task_uid of Some u \<Rightarrow> [u] | None \<Rightarrow> [])\<rparr>"

definition receipt_extend ::
  "repository_write_receipt \<Rightarrow> repository_write_receipt \<Rightarrow> repository_write_receipt" where
  "receipt_extend self other =
     \<lparr>rwr_task_uids = rwr_task_uids self
        @ dedup (rwr_task_uids self) (filter (\<lambda>v. v \<noteq> []) (rwr_task_uids other))\<rparr>"

fun collect_task_uids ::
  "operation_record \<Rightarrow> string list \<Rightarrow> operation_step list \<Rightarrow> string list" where
  "collect_task_uids record task_uids [] = task_uids"
| "collect_task_uids record task_uids (step # steps) =
     (case step_progress record (os_id step) of
        None \<Rightarrow> collect_task_uids record task_uids steps
      | Some progress \<Rightarrow>
          collect_task_uids record
            (task_uids @ dedup task_uids (filter (\<lambda>v. v \<noteq> []) (sp_task_uids progress))) steps)"

definition persistence_metadata :: "operation_record \<Rightarrow> persistence_metadata" where
  "persistence_metadata record =
     (let primary_task_uids =
            (case step_progress record (os_id (op_primary (or_plan record))) of
               Some progress \<Rightarrow> dedup_non_empty (sp_task_uids progress) | None \<Rightarrow> [])
      in \<lparr>pm_operation_id = or_id record,
          pm_status = or_status record,
          pm_indexing_state = or_indexing_state record,
          pm_primary_task_uids = primary_task_uids,
          pm_task_uids = collect_task_uids record primary_task_uids (op_side_effects (or_plan record))\<rparr>)"

definition operation_summary :: "operation_record \<Rightarrow> operation_summary" where
  "operation_summary record =
     (let progress = map snd (pr_steps (or_progress record)) in
      \<lparr>osum_id = or_id record,
       osum_tenant_id = or_tenant_id record,
       osum_operation_kind = or_operation_kind record,
       osum_actor_scope = or_actor_scope record,
       osum_idempotency_key_hash = or_idempotency_key_hash record,
       osum_status = or_status record,
       osum_indexing_state = or_indexing_state record,
       osum_attempt_count = pr_attempt_count (or_progress record),
       osum_pending_steps =
         length (filter (\<lambda>p. sp_status p = StepPending \<or> sp_status p = StepSubmitted) progress),
       osum_failed_steps = length (filter (\<lambda>p. sp_status p = StepFailed) progress),
       osum_created_at = or_created_at record,
       osum_updated_at = or_updated_at record,
       osum_completed_at = or_completed_at record,
       osum_last_error_category = or_last_error_category record,
       osum_last_error_fingerprint = or_last_error_fingerprint record\<rparr>)"

definition operation_list_item :: "operation_record \<Rightarrow> bool \<Rightarrow> operation_list_item" where
  "operation_list_item record include_plan =
     \<lparr>oli_summary = operation_summary record,
      oli_plan = (if include_plan then Some (or_plan record) else None)\<rparr>"

end
