(* ===== verification/Machine.thy ===== *)
theory Machine
  imports Prelude
begin

text \<open>
  The interface of a component that moves by fallible steps: \<open>step s e\<close> is the new state or the
  error of a guard, \<open>inv\<close> is kept by every successful step, and \<open>rel\<close> is what a step may change (a
  preorder on states). The client's view of a whole run, in which the first error stops it, follows.
\<close>

locale machine =
  fixes step :: "'s \<Rightarrow> 'e \<Rightarrow> 'err + 's"
    and inv :: "'s \<Rightarrow> bool"
    and rel :: "'s \<Rightarrow> 's \<Rightarrow> bool"
  assumes inv_step: "inv s \<Longrightarrow> step s e = Inr s' \<Longrightarrow> inv s'"
    and rel_step: "inv s \<Longrightarrow> step s e = Inr s' \<Longrightarrow> rel s s'"
    and rel_refl: "rel s s"
    and rel_trans: "rel s t \<Longrightarrow> rel t u \<Longrightarrow> rel s u"
begin

lemma run_inv: "inv s \<Longrightarrow> rfold step s es = Inr s' \<Longrightarrow> inv s'"
  by (erule rfold_invariant [where P = inv]) (auto intro: inv_step)

lemma run_rel: "inv s \<Longrightarrow> rfold step s es = Inr s' \<Longrightarrow> rel s s'"
proof (induction es arbitrary: s)
  case (Cons e es)
  then obtain t where t: "step s e = Inr t" and rest: "rfold step t es = Inr s'"
    by (auto simp: rfold_Cons_Inr simp del: rfold.simps)
  from Cons.prems(1) t have "inv t" by (rule inv_step)
  then have "rel t s'" using rest by (rule Cons.IH)
  with rel_step [OF Cons.prems(1) t] show ?case by (rule rel_trans)
qed (simp add: rel_refl)

text \<open>Every intermediate state of a successful run satisfies the invariant.\<close>

lemma run_prefix_inv:
  assumes "inv s" and "rfold step s (es @ fs) = Inr s'"
  shows "\<exists>t. rfold step s es = Inr t \<and> inv t \<and> rel t s'"
proof -
  from assms(2) obtain t where t: "rfold step s es = Inr t" and "rfold step t fs = Inr s'"
    by (auto simp: rfold_append split: sum.splits)
  moreover have "inv t" using assms(1) t by (rule run_inv)
  ultimately show ?thesis using run_rel by blast
qed

end

end
