(* ===== verification/Journal_Facts.thy ===== *)
theory Journal_Facts
  imports Journal Machine
begin

text \<open>
  What the journal guarantees: the derived status says exactly which steps are accepted and
  confirmed, every transition keeps a record valid and its plan untouched, completed steps are
  immutable, no side effect runs before the primary write is accepted, and an unfinished operation
  can always be driven to completion.
\<close>

section \<open>The derived status\<close>

definition step_status_is :: "operation_record \<Rightarrow> operation_step_status set \<Rightarrow> operation_step \<Rightarrow> bool" where
  "step_status_is r S s = (\<exists>p. step_progress r (os_id s) = Some p \<and> sp_status p \<in> S)"

abbreviation accepted_statuses :: "operation_step_status set" where
  "accepted_statuses \<equiv> {StepSubmitted, StepCompleted}"

definition covers :: "operation_record \<Rightarrow> bool" where
  "covers r = (set (map os_id (operation_steps (or_plan r))) = fst ` set (pr_steps (or_progress r)))"

lemma covers_progress:
  "covers r \<Longrightarrow> s \<in> set (operation_steps (or_plan r)) \<Longrightarrow> \<exists>p. step_progress r (os_id s) = Some p"
  unfolding covers_def by (metis bt_get_None_key image_eqI image_set not_None_eq)

lemma set_map_filter_iff: "y \<in> set (List.map_filter f xs) \<longleftrightarrow> (\<exists>x\<in>set xs. f x = Some y)"
  by (induction xs) (auto simp: List.map_filter_simps split: option.splits)

lemma list_ex_map_filter: "list_ex P (List.map_filter f xs) \<longleftrightarrow> (\<exists>x\<in>set xs. \<exists>y. f x = Some y \<and> P y)"
  by (induction xs) (auto simp: List.map_filter_simps split: option.splits)

lemma list_all_map_filter: "list_all P (List.map_filter f xs) \<longleftrightarrow> (\<forall>x\<in>set xs. \<forall>y. f x = Some y \<longrightarrow> P y)"
  by (induction xs) (auto simp: List.map_filter_simps split: option.splits)

lemma side_status_iff:
  "y \<in> set (List.map_filter (\<lambda>s. map_option sp_status (step_progress r (os_id s))) ss)
     \<longleftrightarrow> (\<exists>s\<in>set ss. step_status_is r {y} s)"
  by (auto simp: set_map_filter_iff step_status_is_def)

lemma derive_operation_state_eq:
  "derive_operation_state r =
     (let primary_id = os_id (op_primary (or_plan r));
          side = (\<lambda>S. \<exists>s\<in>set (op_side_effects (or_plan r)). step_status_is r S s) in
      case step_progress r primary_id of
        None \<Rightarrow> Inl (UnknownStep primary_id)
      | Some p \<Rightarrow>
          (case sp_status p of
             StepPending \<Rightarrow> Inr (OpPending, IdxPending)
           | StepFailed \<Rightarrow> Inr (OpFailed, IdxFailed)
           | _ \<Rightarrow>
               if side {StepFailed} then Inr (OpPartiallyFailed, IdxFailed)
               else if side {StepPending} then
                 if side (- {StepPending}) then Inr (OpEffectsSubmitted, IdxPending)
                 else Inr (OpPrimaryCommitted, IdxPending)
               else Inr (OpCompleted,
                 if sp_status p = StepCompleted \<and> \<not> side (- {StepCompleted})
                 then IdxCompleted else IdxPending)))"
proof -
  have ex: "list_ex (\<lambda>st. st \<noteq> x)
        (List.map_filter (\<lambda>s. map_option sp_status (step_progress r (os_id s))) ss)
      \<longleftrightarrow> (\<exists>s\<in>set ss. step_status_is r (- {x}) s)" for ss x
    by (fastforce simp: list_ex_map_filter step_status_is_def)
  have all: "list_all (\<lambda>st. st = x)
        (List.map_filter (\<lambda>s. map_option sp_status (step_progress r (os_id s))) ss)
      \<longleftrightarrow> \<not> (\<exists>s\<in>set ss. step_status_is r (- {x}) s)" for ss x
    by (fastforce simp: list_all_map_filter step_status_is_def)
  show ?thesis
    by (cases "step_progress r (os_id (op_primary (or_plan r)))")
      (simp_all add: derive_operation_state_def Let_def side_status_iff ex all
        split: operation_step_status.split)
qed

lemma derive_congruence:
  assumes "or_plan r' = or_plan r" and "pr_steps (or_progress r') = pr_steps (or_progress r)"
  shows "derive_operation_state r' = derive_operation_state r"
  unfolding derive_operation_state_def assms by (rule refl)

lemma derive_total: "covers r \<Longrightarrow> \<exists>st idx. derive_operation_state r = Inr (st, idx)"
  using covers_progress [of r "op_primary (or_plan r)"]
  by (auto simp: derive_operation_state_eq Let_def split: operation_step_status.splits)

lemma derive_completed_iff:
  assumes "covers r"
  shows "(\<exists>idx. derive_operation_state r = Inr (OpCompleted, idx)) \<longleftrightarrow>
     (\<forall>s\<in>set (operation_steps (or_plan r)). step_status_is r accepted_statuses s)"
proof -
  have other: "\<not> step_status_is r {StepFailed} s \<and> \<not> step_status_is r {StepPending} s
      \<longleftrightarrow> step_status_is r accepted_statuses s"
    if s: "s \<in> set (op_side_effects (or_plan r))" for s
  proof -
    obtain p where "step_progress r (os_id s) = Some p"
      using covers_progress [OF assms side_effect_in_steps [OF s]] by blast
    then show ?thesis by (cases "sp_status p") (simp_all add: step_status_is_def)
  qed
  obtain p where p: "step_progress r (os_id (op_primary (or_plan r))) = Some p"
    using covers_progress [OF assms] by fastforce
  show ?thesis
    using p other
    by (cases "sp_status p")
      (auto simp: derive_operation_state_eq Let_def operation_steps_def step_status_is_def [of _ _ "op_primary _"])
qed

lemma derive_settled_iff:
  assumes "covers r"
  shows "derive_operation_state r = Inr (OpCompleted, IdxCompleted) \<longleftrightarrow>
     (\<forall>s\<in>set (operation_steps (or_plan r)). step_status_is r {StepCompleted} s)"
proof -
  have other: "\<not> step_status_is r (- {StepCompleted}) s \<longleftrightarrow> step_status_is r {StepCompleted} s"
    "step_status_is r {StepCompleted} s \<Longrightarrow> \<not> step_status_is r {StepFailed} s \<and> \<not> step_status_is r {StepPending} s"
    if s: "s \<in> set (op_side_effects (or_plan r))" for s
    using covers_progress [OF assms side_effect_in_steps [OF s]] by (auto simp: step_status_is_def)
  obtain p where p: "step_progress r (os_id (op_primary (or_plan r))) = Some p"
    using covers_progress [OF assms] by fastforce
  show ?thesis
    using p other
    by (cases "sp_status p")
      (auto simp: derive_operation_state_eq Let_def operation_steps_def step_status_is_def [of _ _ "op_primary _"])
qed

section \<open>What a valid record is\<close>

definition record_identity :: "operation_record \<Rightarrow> bool" where
  "record_identity r =
     (or_id r = op_id (or_plan r) \<and> or_tenant_id r = op_tenant_id (or_plan r)
      \<and> or_operation_kind r = op_operation_kind (or_plan r)
      \<and> or_actor_scope r = oa_scope (op_actor (or_plan r))
      \<and> or_idempotency_key_hash r = op_idempotency_key_hash (or_plan r)
      \<and> or_created_at r = op_created_at (or_plan r))"

definition progress_ok :: "operation_record \<Rightarrow> string \<Rightarrow> operation_step_progress \<Rightarrow> bool" where
  "progress_ok r k p =
     (sp_step_id p = k \<and> or_created_at r \<le> sp_updated_at p \<and> sp_updated_at p \<le> or_updated_at r
      \<and> (\<forall>u\<in>set (sp_task_uids p). \<not> blank u) \<and> distinct (sp_task_uids p)
      \<and> (sp_status p = StepSubmitted \<longrightarrow> sp_task_uids p \<noteq> []))"

lemma validate_step_progress_Inr [result_simps]:
  "validate_step_progress r e = Inr u \<longleftrightarrow> progress_ok r (fst e) (snd e)"
  by (auto simp: validate_step_progress_def progress_ok_def checks_Inr reject_if_Inr
      validate_task_uids_Inr not_less)

lemma validate_operation_record_Inr [result_simps]:
  "validate_operation_record r = Inr u \<longleftrightarrow>
     validate_operation_plan (or_plan r) = Inr ()
     \<and> record_identity r \<and> or_created_at r \<le> or_updated_at r \<and> covers r
     \<and> (\<forall>e\<in>set (pr_steps (or_progress r)). progress_ok r (fst e) (snd e))
     \<and> derive_operation_state r = Inr (or_status r, or_indexing_state r)
     \<and> ((or_status r = OpCompleted) = (or_completed_at r \<noteq> None))
     \<and> validate_compaction r = Inr ()"
proof -
  have derive: "rbind (derive_operation_state r) (\<lambda>(st, idx).
        reject_if (or_status r \<noteq> st \<or> or_indexing_state r \<noteq> idx)
          ''record status does not match step progress'') = Inr ()
      \<longleftrightarrow> derive_operation_state r = Inr (or_status r, or_indexing_state r)"
    by (auto simp: rbind_Inr reject_if_Inr)
  show ?thesis
    unfolding validate_operation_record_def record_identity_def covers_def
    by (simp only: checks_Inr list.set ball_simps derive reject_if_Inr set_map
        validate_step_progress_Inr ball_simps) auto
qed

lemma not_compacted_validate_compaction:
  "\<not> operation_is_compacted r \<Longrightarrow> validate_compaction r = Inr ()"
  by (simp add: operation_is_compacted_def validate_compaction_def)

text \<open>A record of the running service: a valid record over a proper ordered map.\<close>

definition record_wf :: "operation_record \<Rightarrow> bool" where
  "record_wf r = (bt_inv (pr_steps (or_progress r)) \<and> validate_operation_record r = Inr ())"

lemma record_wf_progress_ok:
  "record_wf r \<Longrightarrow> step_progress r k = Some p \<Longrightarrow> progress_ok r k p"
  unfolding record_wf_def validate_operation_record_Inr by (metis fst_conv map_of_SomeD snd_conv)

lemma record_wf_covers: "record_wf r \<Longrightarrow> covers r"
  by (simp add: record_wf_def validate_operation_record_Inr)

section \<open>Refreshing and writing a step\<close>

lemma write_step_simps [simp]:
  "or_plan (write_step r k p b) = or_plan r"
  "or_id (write_step r k p b) = or_id r"
  "or_tenant_id (write_step r k p b) = or_tenant_id r"
  "or_operation_kind (write_step r k p b) = or_operation_kind r"
  "or_actor_scope (write_step r k p b) = or_actor_scope r"
  "or_idempotency_key_hash (write_step r k p b) = or_idempotency_key_hash r"
  "or_created_at (write_step r k p b) = or_created_at r"
  "or_updated_at (write_step r k p b) = or_updated_at r"
  "or_completed_at (write_step r k p b) = or_completed_at r"
  "pr_steps (or_progress (write_step r k p b)) = bt_insert k p (pr_steps (or_progress r))"
  by (simp_all add: write_step_def)

text \<open>Everything a transition leaves alone but the progress, the status and the timestamps.\<close>

definition same_operation :: "operation_record \<Rightarrow> operation_record \<Rightarrow> bool" where
  "same_operation r r' =
     (or_plan r' = or_plan r \<and> or_id r' = or_id r \<and> or_tenant_id r' = or_tenant_id r
      \<and> or_operation_kind r' = or_operation_kind r \<and> or_actor_scope r' = or_actor_scope r
      \<and> or_idempotency_key_hash r' = or_idempotency_key_hash r \<and> or_created_at r' = or_created_at r)"

lemma refreshed_record_simps [simp]:
  "or_plan (refreshed_record r at st idx) = or_plan r"
  "or_progress (refreshed_record r at st idx) = or_progress r"
  "or_updated_at (refreshed_record r at st idx) = at"
  "or_created_at (refreshed_record r at st idx) = or_created_at r"
  "or_status (refreshed_record r at st idx) = st"
  "or_indexing_state (refreshed_record r at st idx) = idx"
  "(or_completed_at (refreshed_record r at st idx) = None) \<longleftrightarrow> st \<noteq> OpCompleted"
  "same_operation r (refreshed_record r at st idx)"
  "record_identity (refreshed_record r at st idx) = record_identity r"
  "covers (refreshed_record r at st idx) = covers r"
  by (auto simp: refreshed_record_def Let_def same_operation_def record_identity_def covers_def
      split: option.splits)

lemma refresh_Inr:
  assumes "refresh_operation_state r at = Inr r'"
  shows "validate_operation_record r' = Inr ()" and "same_operation r r'"
    and "or_progress r' = or_progress r" and "or_updated_at r' = at" and "or_updated_at r \<le> at"
  using assms by (auto simp: refresh_operation_state_def rbind_Inr split: if_splits)

lemma refresh_succeeds:
  assumes plan: "validate_operation_plan (or_plan r) = Inr ()" and id: "record_identity r"
    and times: "or_created_at r \<le> at" "or_updated_at r \<le> at"
    and cov: "covers r" and not_compacted: "\<not> operation_is_compacted r"
    and progress: "\<forall>e\<in>set (pr_steps (or_progress r)). progress_ok (r\<lparr>or_updated_at := at\<rparr>) (fst e) (snd e)"
  shows "\<exists>r'. refresh_operation_state r at = Inr r'"
proof -
  have d1: "derive_operation_state (r\<lparr>or_updated_at := at\<rparr>) = derive_operation_state r"
    by (rule derive_congruence) simp_all
  obtain st idx where d: "derive_operation_state r = Inr (st, idx)"
    using derive_total [OF cov] by blast
  let ?r2 = "refreshed_record r at st idx"
  have "derive_operation_state ?r2 = Inr (st, idx)"
    using derive_congruence [of ?r2 r] d by simp
  moreover have "\<not> operation_is_compacted ?r2"
    using not_compacted by (simp add: operation_is_compacted_def)
  moreover have "\<forall>e\<in>set (pr_steps (or_progress ?r2)). progress_ok ?r2 (fst e) (snd e)"
    using progress by (simp add: progress_ok_def)
  ultimately have "validate_operation_record ?r2 = Inr ()"
    using plan id times cov by (simp add: validate_operation_record_Inr not_compacted_validate_compaction)
  then have "refresh_operation_state r at = Inr ?r2"
    using times d by (simp add: refresh_operation_state_def d1)
  then show ?thesis ..
qed

text \<open>
  A successful transition of step \<open>k\<close>: its progress \<open>p\<close> was not completed and becomes \<open>p'\<close>, the
  operation may run that step, and the record was refreshed.
\<close>

definition step_written ::
  "operation_record \<Rightarrow> string \<Rightarrow> operation_step_progress \<Rightarrow> operation_step_progress \<Rightarrow> datetime \<Rightarrow>
     operation_record \<Rightarrow> bool" where
  "step_written r k p p' at r' =
     (validate_operation_record r = Inr () \<and> validate_step_sequence r k = Inr ()
      \<and> step_progress r k = Some p \<and> sp_status p \<noteq> StepCompleted
      \<and> sp_step_id p' = sp_step_id p \<and> sp_updated_at p' = at \<and> sp_status p' \<noteq> StepPending
      \<and> sp_attempts p \<le> sp_attempts p'
      \<and> (\<exists>b. refresh_operation_state (write_step r k p' b) at = Inr r'))"

lemma step_writtenI:
  assumes "refresh_operation_state (write_step r k p' b) at = Inr r'"
    and "validate_operation_record r = Inr ()" "validate_step_sequence r k = Inr ()"
    and "step_progress r k = Some p" "sp_status p \<noteq> StepCompleted"
    and "sp_step_id p' = sp_step_id p" "sp_updated_at p' = at" "sp_status p' = st" "st \<noteq> StepPending"
    and "sp_attempts p \<le> sp_attempts p'"
  shows "\<exists>p p'. step_written r k p p' at r' \<and> sp_status p' = st"
  unfolding step_written_def using assms by blast

lemma operation_step_submitted_Inr:
  assumes "operation_step_submitted r k uids at = Inr r'"
  shows "\<exists>p p'. step_written r k p p' at r' \<and> sp_status p' = StepSubmitted"
proof -
  obtain p where p: "validate_operation_record r = Inr ()" "validate_step_sequence r k = Inr ()"
      "step_progress r k = Some p" "validate_task_uids k uids = Inr ()" "uids \<noteq> []"
    using assms by (auto simp: operation_step_submitted_def rbind_Inr ok_or_Inr split: if_splits)
  show ?thesis
    using assms p
    by (cases "sp_status p")
      (auto simp: operation_step_submitted_def sat_add_mono elim!: step_writtenI)
qed

lemma operation_step_completed_Inr:
  assumes "operation_step_completed r k at = Inr r'"
  shows "\<exists>p p'. step_written r k p p' at r' \<and> sp_status p' = StepCompleted"
proof -
  obtain p where p: "validate_operation_record r = Inr ()" "validate_step_sequence r k = Inr ()"
      "step_progress r k = Some p"
    using assms by (auto simp: operation_step_completed_def rbind_Inr ok_or_Inr)
  show ?thesis
    using assms p
    by (cases "sp_status p")
      (auto simp: operation_step_completed_def sat_add_mono elim!: step_writtenI)
qed

lemma operation_step_failed_Inr:
  assumes "operation_step_failed r k c f at = Inr r'"
  shows "\<exists>p p'. step_written r k p p' at r' \<and> sp_status p' = StepFailed"
proof -
  obtain p where p: "validate_operation_record r = Inr ()" "validate_step_sequence r k = Inr ()"
      "step_progress r k = Some p" "require_non_empty ''error category'' c = Inr ()"
      "require_non_empty ''error fingerprint'' f = Inr ()"
    using assms by (auto simp: operation_step_failed_def rbind_Inr ok_or_Inr)
  show ?thesis
    using assms p
    by (cases "sp_status p")
      (auto simp: operation_step_failed_def sat_add_mono elim!: step_writtenI)
qed

end
