(* ===== verification/Journal_Runs.thy ===== *)
theory Journal_Runs
  imports Journal_Facts
begin

text \<open>
  Runs of the journal: any sequence of transitions applied to one record. The journal is a
  \<open>machine\<close> whose invariant is a valid record in which no side effect has started before the
  primary write, and whose steps leave the plan and every completed step alone.
\<close>

datatype journal_event =
    Submit string "string list" datetime
  | Complete string datetime
  | Fail string string string datetime

fun apply_event :: "operation_record \<Rightarrow> journal_event \<Rightarrow> mutation_plan_error + operation_record" where
  "apply_event r (Submit k uids at) = operation_step_submitted r k uids at"
| "apply_event r (Complete k at) = operation_step_completed r k at"
| "apply_event r (Fail k c f at) = operation_step_failed r k c f at"

fun event_step :: "journal_event \<Rightarrow> string" where
  "event_step (Submit k _ _) = k"
| "event_step (Complete k _) = k"
| "event_step (Fail k _ _ _) = k"

lemma apply_event_Inr:
  "apply_event r e = Inr r' \<Longrightarrow> \<exists>p p' at. step_written r (event_step e) p p' at r'"
  by (cases e)
    (simp_all, (blast dest: operation_step_submitted_Inr operation_step_completed_Inr operation_step_failed_Inr)+)

section \<open>One step\<close>

lemma step_written_frame:
  assumes "step_written r k p p' at r'"
  shows "same_operation r r'" and "validate_operation_record r' = Inr ()"
    and "pr_steps (or_progress r') = bt_insert k p' (pr_steps (or_progress r))"
    and "or_updated_at r \<le> or_updated_at r'"
proof -
  from assms obtain b where b: "refresh_operation_state (write_step r k p' b) at = Inr r'"
    by (auto simp: step_written_def)
  note f = refresh_Inr [OF b]
  from f(2) show "same_operation r r'" by (simp add: same_operation_def)
  from f(1) show "validate_operation_record r' = Inr ()" .
  from f(3) show "pr_steps (or_progress r') = bt_insert k p' (pr_steps (or_progress r))" by simp
  from f(4,5) show "or_updated_at r \<le> or_updated_at r'" by simp
qed

lemma step_written_progress:
  assumes "step_written r k p p' at r'"
  shows "step_progress r' j = (if j = k then Some p' else step_progress r j)"
  using step_written_frame(3) [OF assms] by (simp add: bt_get_insert)

text \<open>Which step may run: the primary one, or a side effect once the primary is accepted.\<close>

lemma find_step:
  assumes "List.find (\<lambda>s. os_id s = k) (operation_steps pl) = Some s"
  shows "s \<in> set (operation_steps pl) \<and> os_id s = k"
  using assms by (auto simp: find_Some_iff in_set_conv_nth)

lemma validate_step_sequence_Inr:
  assumes "plan_steps_ok (or_plan r)" and "validate_step_sequence r k = Inr ()"
  shows "k = os_id (op_primary (or_plan r))
     \<or> (\<exists>s\<in>set (op_side_effects (or_plan r)). os_id s = k)
       \<and> step_status_is r accepted_statuses (op_primary (or_plan r))"
proof -
  from assms(2) obtain s where s: "List.find (\<lambda>s. os_id s = k) (operation_steps (or_plan r)) = Some s"
    and role: "os_role s = SideEffect \<Longrightarrow> step_status_is r accepted_statuses (op_primary (or_plan r))"
    by (auto simp: validate_step_sequence_def step_status_is_def rbind_Inr ok_or_Inr Let_def
        split: if_splits)
  from find_step [OF s] have mem: "s = op_primary (or_plan r) \<or> s \<in> set (op_side_effects (or_plan r))"
    and id: "os_id s = k"
    by (auto simp: operation_steps_def)
  from mem show ?thesis
    using id role assms(1) by (auto simp: plan_steps_ok_def)
qed

lemma validate_step_sequence_ok:
  assumes "plan_steps_ok (or_plan r)" and "s \<in> set (operation_steps (or_plan r))"
    and "s \<noteq> op_primary (or_plan r) \<Longrightarrow> step_status_is r accepted_statuses (op_primary (or_plan r))"
  shows "validate_step_sequence r (os_id s) = Inr ()"
proof -
  have "List.find (\<lambda>t. os_id t = os_id s) (operation_steps (or_plan r)) \<noteq> None"
    using assms(2) by (auto simp: find_None_iff)
  then obtain t where t: "List.find (\<lambda>t. os_id t = os_id s) (operation_steps (or_plan r)) = Some t"
    by blast
  from find_step [OF t] have "t \<in> set (operation_steps (or_plan r))" "os_id t = os_id s" by auto
  with assms(1,2) have "t = s"
    by (auto simp: plan_steps_ok_def distinct_map inj_on_def)
  moreover have "os_role s = SideEffect \<Longrightarrow> s \<noteq> op_primary (or_plan r)"
    using assms(1) by (auto simp: plan_steps_ok_def)
  ultimately show ?thesis
    using t assms(3) by (auto simp: validate_step_sequence_def step_status_is_def Let_def)
qed

section \<open>The journal as a machine\<close>

text \<open>No side effect has been attempted while the primary step is pending.\<close>

definition primary_first :: "operation_record \<Rightarrow> bool" where
  "primary_first r =
     (step_status_is r {StepPending} (op_primary (or_plan r)) \<longrightarrow>
      (\<forall>s\<in>set (op_side_effects (or_plan r)). step_status_is r {StepPending} s))"

definition journal_inv :: "operation_record \<Rightarrow> bool" where
  "journal_inv r = (record_wf r \<and> primary_first r)"

definition journal_rel :: "operation_record \<Rightarrow> operation_record \<Rightarrow> bool" where
  "journal_rel r r' =
     (same_operation r r' \<and> or_updated_at r \<le> or_updated_at r'
      \<and> (\<forall>k p. step_progress r k = Some p \<longrightarrow>
           (\<exists>p'. step_progress r' k = Some p' \<and> sp_attempts p \<le> sp_attempts p'
              \<and> (sp_status p = StepCompleted \<longrightarrow> p' = p)
              \<and> (sp_status p \<noteq> StepPending \<longrightarrow> sp_status p' \<noteq> StepPending))))"

lemma record_wf_steps_ok: "record_wf r \<Longrightarrow> plan_steps_ok (or_plan r)"
  by (simp add: record_wf_def validate_operation_record_Inr validate_operation_plan_Inr)

lemma step_written_wf:
  "record_wf r \<Longrightarrow> step_written r k p p' at r' \<Longrightarrow> record_wf r'"
  unfolding record_wf_def using step_written_frame by (metis bt_inv_insert)

lemma step_written_rel:
  assumes "step_written r k p p' at r'"
  shows "journal_rel r r'"
  using step_written_frame(1,4) [OF assms] step_written_progress [OF assms] assms
  by (auto simp: journal_rel_def step_written_def)

lemma step_written_primary_first:
  assumes wf: "record_wf r" and w: "step_written r k p p' at r'" and first: "primary_first r"
  shows "primary_first r'"
proof -
  have plan: "or_plan r' = or_plan r"
    using step_written_frame(1) [OF w] by (simp add: same_operation_def)
  note prog = step_written_progress [OF w]
  have new: "sp_status p' \<noteq> StepPending" using w by (simp add: step_written_def)
  from validate_step_sequence_Inr [OF record_wf_steps_ok [OF wf], of k] w
  consider "k = os_id (op_primary (or_plan r))"
    | "k \<noteq> os_id (op_primary (or_plan r))" "step_status_is r accepted_statuses (op_primary (or_plan r))"
    by (auto simp: step_written_def)
  then show ?thesis
  proof cases
    case 1
    then show ?thesis using new by (simp add: primary_first_def step_status_is_def plan prog)
  next
    case 2
    then show ?thesis by (auto simp: primary_first_def step_status_is_def plan prog)
  qed
qed

interpretation journal: machine apply_event journal_inv journal_rel
proof unfold_locales
  fix r e r'
  assume inv: "journal_inv r" and step: "apply_event r e = Inr r'"
  from apply_event_Inr [OF step] obtain p p' at where "step_written r (event_step e) p p' at r'" by blast
  with inv show "journal_inv r'" and "journal_rel r r'"
    by (auto simp: journal_inv_def intro: step_written_wf step_written_rel step_written_primary_first)
next
  fix r s t
  show "journal_rel r r" by (simp add: journal_rel_def same_operation_def)
  assume rs: "journal_rel r s" and st: "journal_rel s t"
  show "journal_rel r t"
    unfolding journal_rel_def
  proof (intro conjI allI impI)
    show "same_operation r t" using rs st by (simp add: journal_rel_def same_operation_def)
    show "or_updated_at r \<le> or_updated_at t" using rs st by (auto simp: journal_rel_def)
    fix k p assume "step_progress r k = Some p"
    then obtain q where q: "step_progress s k = Some q" "sp_attempts p \<le> sp_attempts q"
        "sp_status p = StepCompleted \<longrightarrow> q = p" "sp_status p \<noteq> StepPending \<longrightarrow> sp_status q \<noteq> StepPending"
      using rs by (auto simp: journal_rel_def)
    then obtain u where "step_progress t k = Some u" "sp_attempts q \<le> sp_attempts u"
        "sp_status q = StepCompleted \<longrightarrow> u = q" "sp_status q \<noteq> StepPending \<longrightarrow> sp_status u \<noteq> StepPending"
      using st unfolding journal_rel_def by blast
    with q show "\<exists>u. step_progress t k = Some u \<and> sp_attempts p \<le> sp_attempts u
        \<and> (sp_status p = StepCompleted \<longrightarrow> u = p) \<and> (sp_status p \<noteq> StepPending \<longrightarrow> sp_status u \<noteq> StepPending)"
      by (auto intro: order_trans)
  qed
qed

end
