(* ===== verification/Journal_Live.thy ===== *)
theory Journal_Live
  imports Journal_Runs
begin

text \<open>
  Records come to life and finish: a valid plan yields a record in the journal's invariant, each
  transition succeeds exactly when its guards say so, and an operation that is not compacted can be
  driven from any state, failures included, to the settled one.
\<close>

section \<open>Fresh records\<close>

lemma operation_record_from_plan_simps:
  assumes "operation_record_from_plan pl = Inr r"
  shows "validate_operation_plan pl = Inr ()" and "or_plan r = pl" and "record_identity r"
    and "or_updated_at r = op_created_at pl" and "or_created_at r = op_created_at pl"
    and "or_status r = OpPending" and "or_indexing_state r = IdxPending" and "or_completed_at r = None"
    and "pr_steps (or_progress r) =
      fold (\<lambda>s. bt_insert (os_id s) (initial_step_progress (op_created_at pl) s)) (operation_steps pl) []"
  using assms by (auto simp: operation_record_from_plan_def rbind_Inr record_identity_def)

lemma fresh_step_progress:
  assumes r: "operation_record_from_plan pl = Inr r" and s: "s \<in> set (operation_steps pl)"
  shows "step_progress r (os_id s) = Some (initial_step_progress (op_created_at pl) s)"
proof -
  note f = operation_record_from_plan_simps [OF r]
  have "distinct (map os_id (operation_steps pl))"
    using f(1) by (simp add: validate_operation_plan_Inr plan_steps_ok_def)
  from btree.get_fold_in [OF s this] show ?thesis
    by (simp add: f(9))
qed

lemma fresh_covers:
  assumes "operation_record_from_plan pl = Inr r"
  shows "covers r" and "bt_inv (pr_steps (or_progress r))"
proof -
  note f = operation_record_from_plan_simps [OF assms]
  have "fst ` set (pr_steps (or_progress r)) = os_id ` set (operation_steps pl)"
    using btree.dom_fold [of os_id "initial_step_progress (op_created_at pl)" "operation_steps pl" "[]"]
    by (simp add: f(9) dom_map_of_conv_image_fst)
  then show "covers r" by (simp add: covers_def f(2))
  show "bt_inv (pr_steps (or_progress r))"
    unfolding f(9) by (rule btree.inv_fold) simp
qed

lemma fresh_entry:
  assumes r: "operation_record_from_plan pl = Inr r" and e: "e \<in> set (pr_steps (or_progress r))"
  obtains s where "s \<in> set (operation_steps pl)" "e = (os_id s, initial_step_progress (op_created_at pl) s)"
proof -
  note c = fresh_covers [OF r]
  obtain k p where kp: "e = (k, p)" by (cases e)
  with e c(2) have p: "step_progress r k = Some p" by (simp add: bt_entry_get)
  from c(1) e kp obtain s where s: "s \<in> set (operation_steps pl)" "os_id s = k"
    using operation_record_from_plan_simps(2) [OF r] by (force simp: covers_def)
  with fresh_step_progress [OF r s(1)] p kp that show thesis by auto
qed

lemma fresh_all_pending:
  "operation_record_from_plan pl = Inr r \<Longrightarrow> s \<in> set (operation_steps pl) \<Longrightarrow> step_status_is r {StepPending} s"
  by (simp add: step_status_is_def fresh_step_progress initial_step_progress_def)

lemma initial_progress_ok:
  "or_updated_at r = at \<Longrightarrow> or_created_at r = at \<Longrightarrow> progress_ok r (os_id s) (initial_step_progress at s)"
  by (simp add: progress_ok_def initial_step_progress_def)

lemma fresh_record_inv:
  assumes r: "operation_record_from_plan pl = Inr r"
    and nc: "json_get (op_redacted_metadata pl) compacted_payloads_metadata_key = None"
  shows "journal_inv r"
proof -
  note f = operation_record_from_plan_simps [OF r] and c = fresh_covers [OF r]
  have "derive_operation_state r = Inr (OpPending, IdxPending)"
    using fresh_step_progress [OF r primary_in_steps]
    by (simp add: derive_operation_state_eq f(2) Let_def initial_step_progress_def)
  moreover have "\<forall>e\<in>set (pr_steps (or_progress r)). progress_ok r (fst e) (snd e)"
  proof
    fix e assume "e \<in> set (pr_steps (or_progress r))"
    from fresh_entry [OF r this] show "progress_ok r (fst e) (snd e)"
      by (metis fst_conv snd_conv initial_progress_ok [OF f(4,5)])
  qed
  moreover have "validate_compaction r = Inr ()"
    using nc by (simp add: validate_compaction_def f(2))
  ultimately have "record_wf r"
    unfolding record_wf_def validate_operation_record_Inr
    by (simp add: f(1-8) c)
  moreover have "primary_first r"
    using fresh_all_pending [OF r side_effect_in_steps] by (simp add: primary_first_def f(2))
  ultimately show ?thesis by (simp add: journal_inv_def)
qed

section \<open>When a transition succeeds\<close>

lemma write_step_succeeds:
  assumes wf: "record_wf r" and nc: "\<not> operation_is_compacted r" and p: "step_progress r k = Some p"
    and at: "or_updated_at r \<le> at" and p': "sp_step_id p' = sp_step_id p" "sp_updated_at p' = at"
    and uids: "\<forall>u\<in>set (sp_task_uids p'). \<not> blank u" "distinct (sp_task_uids p')"
      "sp_status p' = StepSubmitted \<Longrightarrow> sp_task_uids p' \<noteq> []"
  shows "\<exists>r'. refresh_operation_state (write_step r k p' b) at = Inr r'"
proof (rule refresh_succeeds)
  have v: "validate_operation_plan (or_plan r) = Inr ()" "record_identity r"
      "or_created_at r \<le> or_updated_at r" "covers r"
    using wf by (simp_all add: record_wf_def validate_operation_record_Inr)
  show "validate_operation_plan (or_plan (write_step r k p' b)) = Inr ()" using v by simp
  show "record_identity (write_step r k p' b)" using v by (simp add: record_identity_def)
  show "or_created_at (write_step r k p' b) \<le> at" "or_updated_at (write_step r k p' b) \<le> at"
    using v at by simp_all
  show "covers (write_step r k p' b)"
    using v(4) bt_get_Some_key [OF p] by (simp add: covers_def insert_absorb)
  show "\<not> operation_is_compacted (write_step r k p' b)"
    using nc by (simp add: operation_is_compacted_def)
  show "\<forall>e\<in>set (pr_steps (or_progress (write_step r k p' b))).
      progress_ok (write_step r k p' b\<lparr>or_updated_at := at\<rparr>) (fst e) (snd e)"
  proof
    fix e assume e: "e \<in> set (pr_steps (or_progress (write_step r k p' b)))"
    have "bt_inv (bt_insert k p' (pr_steps (or_progress r)))"
      using wf by (simp add: record_wf_def bt_inv_insert)
    then have "bt_get (bt_insert k p' (pr_steps (or_progress r))) (fst e) = Some (snd e)"
      using e bt_entry_get [of _ "fst e" "snd e"] by simp
    then have g: "(if fst e = k then Some p' else step_progress r (fst e)) = Some (snd e)"
      by (simp add: bt_get_insert)
    have k: "progress_ok r k p" using record_wf_progress_ok [OF wf p] .
    show "progress_ok (write_step r k p' b\<lparr>or_updated_at := at\<rparr>) (fst e) (snd e)"
    proof (cases "fst e = k")
      case True
      then show ?thesis using g k p' uids at v(3) by (auto simp: progress_ok_def)
    next
      case False
      with g record_wf_progress_ok [OF wf, of "fst e" "snd e"] show ?thesis
        using at by (auto simp: progress_ok_def)
    qed
  qed
qed

lemma record_wf_valid: "record_wf r \<Longrightarrow> validate_operation_record r = Inr ()"
  by (simp add: record_wf_def)

lemma operation_step_completed_succeeds:
  assumes wf: "record_wf r" and nc: "\<not> operation_is_compacted r"
    and seq: "validate_step_sequence r k = Inr ()" and p: "step_progress r k = Some p"
    and st: "sp_status p = StepPending \<or> sp_status p = StepSubmitted" and at: "or_updated_at r \<le> at"
  shows "\<exists>r'. operation_step_completed r k at = Inr r'"
proof -
  have ok: "\<forall>u\<in>set (sp_task_uids p). \<not> blank u" "distinct (sp_task_uids p)"
    using record_wf_progress_ok [OF wf p] by (simp_all add: progress_ok_def)
  have "\<exists>r'. refresh_operation_state (write_step r k
      (p\<lparr>sp_status := StepCompleted, sp_attempts := n, sp_last_error_category := None,
         sp_last_error_fingerprint := None, sp_updated_at := at\<rparr>) b) at = Inr r'" for b n
    using ok by (intro write_step_succeeds [OF wf nc p at]) simp_all
  from this [of "sp_attempts p" False] this [of "sat_add (sp_attempts p) 1" True] show ?thesis
    using st by (auto simp: operation_step_completed_def record_wf_valid [OF wf] seq p)
qed

lemma operation_step_submitted_succeeds:
  assumes wf: "record_wf r" and nc: "\<not> operation_is_compacted r"
    and seq: "validate_step_sequence r k = Inr ()" and p: "step_progress r k = Some p"
    and st: "sp_status p = StepPending \<or> sp_status p = StepFailed" and at: "or_updated_at r \<le> at"
    and uids: "validate_task_uids k uids = Inr ()" "uids \<noteq> []"
  shows "\<exists>r'. operation_step_submitted r k uids at = Inr r'"
proof -
  have u: "\<forall>u\<in>set uids. \<not> blank u" using uids(1) by (simp add: validate_task_uids_Inr)
  have sub: "set (dedup_non_empty uids) = set uids"
    using u by (auto simp: dedup_non_empty_def)
  then have ne: "dedup_non_empty uids \<noteq> []" using uids(2) by auto
  have "distinct (dedup_non_empty uids)" by (simp add: dedup_non_empty_def)
  with sub ne u have "\<exists>r'. refresh_operation_state (write_step r k
      (p\<lparr>sp_status := StepSubmitted, sp_attempts := sat_add (sp_attempts p) 1,
         sp_task_uids := dedup_non_empty uids, sp_last_error_category := None,
         sp_last_error_fingerprint := None, sp_updated_at := at\<rparr>) True) at = Inr r'"
    by (intro write_step_succeeds [OF wf nc p at]) simp_all
  then show ?thesis
    using st uids by (auto simp: operation_step_submitted_def record_wf_valid [OF wf] seq p)
qed

section \<open>Driving an operation to the settled state\<close>

lemma step_written_updated: "step_written r k p p' at r' \<Longrightarrow> or_updated_at r' = at"
  unfolding step_written_def by (auto dest: refresh_Inr(4))

lemma step_written_status:
  assumes "step_written r (os_id s) p p' at r'"
  shows "step_status_is r' {sp_status p'} s"
  using step_written_progress [OF assms, of "os_id s"] by (simp add: step_status_is_def)

definition runnable :: "operation_record \<Rightarrow> operation_step \<Rightarrow> bool" where
  "runnable r s =
     (s \<in> set (operation_steps (or_plan r))
      \<and> (s \<noteq> op_primary (or_plan r) \<longrightarrow> step_status_is r accepted_statuses (op_primary (or_plan r))))"

lemma runnable_sequence: "record_wf r \<Longrightarrow> runnable r s \<Longrightarrow> validate_step_sequence r (os_id s) = Inr ()"
  unfolding runnable_def by (blast intro: validate_step_sequence_ok dest: record_wf_steps_ok)

text \<open>The transitions that finish one step: a failed step is submitted again first.\<close>

definition finish_events :: "operation_record \<Rightarrow> datetime \<Rightarrow> operation_step \<Rightarrow> journal_event list" where
  "finish_events r at s =
     (case step_progress r (os_id s) of
        None \<Rightarrow> []
      | Some p \<Rightarrow>
          (case sp_status p of
             StepCompleted \<Rightarrow> []
           | StepFailed \<Rightarrow> [Submit (os_id s) [''retry''] at, Complete (os_id s) at]
           | _ \<Rightarrow> [Complete (os_id s) at]))"

lemma complete_step:
  assumes inv: "journal_inv r" and nc: "\<not> operation_is_compacted r" and run: "runnable r s"
    and st: "step_status_is r {StepPending, StepSubmitted} s" and at: "or_updated_at r \<le> at"
  shows "\<exists>r'. apply_event r (Complete (os_id s) at) = Inr r'
     \<and> step_status_is r' {StepCompleted} s \<and> or_updated_at r' = at"
proof -
  have wf: "record_wf r" using inv by (simp add: journal_inv_def)
  from st obtain p where "step_progress r (os_id s) = Some p" "sp_status p = StepPending \<or> sp_status p = StepSubmitted"
    by (auto simp: step_status_is_def)
  from operation_step_completed_succeeds [OF wf nc runnable_sequence [OF wf run] this at]
  obtain r' where r': "operation_step_completed r (os_id s) at = Inr r'" by blast
  with operation_step_completed_Inr [OF r'] show ?thesis
    using step_written_status step_written_updated by fastforce
qed

lemma resubmit_step:
  assumes inv: "journal_inv r" and nc: "\<not> operation_is_compacted r" and run: "runnable r s"
    and st: "step_status_is r {StepFailed} s" and at: "or_updated_at r \<le> at"
  shows "\<exists>r'. apply_event r (Submit (os_id s) [''retry''] at) = Inr r'
     \<and> step_status_is r' {StepSubmitted} s \<and> or_updated_at r' = at"
proof -
  have wf: "record_wf r" using inv by (simp add: journal_inv_def)
  have uids: "validate_task_uids (os_id s) [''retry''] = Inr ()"
    by (simp add: validate_task_uids_Inr blank_iff is_ws_def white_space_def is_cont_def)
  from st obtain p where "step_progress r (os_id s) = Some p" "sp_status p = StepPending \<or> sp_status p = StepFailed"
    by (auto simp: step_status_is_def)
  from operation_step_submitted_succeeds [OF wf nc runnable_sequence [OF wf run] this at uids]
  obtain r' where r': "operation_step_submitted r (os_id s) [''retry''] at = Inr r'" by blast
  with operation_step_submitted_Inr [OF r'] show ?thesis
    using step_written_status step_written_updated by fastforce
qed

lemma journal_rel_plan: "journal_rel r r' \<Longrightarrow> or_plan r' = or_plan r"
  by (simp add: journal_rel_def same_operation_def)

lemma journal_rel_compacted: "journal_rel r r' \<Longrightarrow> operation_is_compacted r' = operation_is_compacted r"
  by (simp add: operation_is_compacted_def journal_rel_plan)

lemma journal_rel_completed:
  "journal_rel r r' \<Longrightarrow> step_status_is r {StepCompleted} s \<Longrightarrow> step_status_is r' {StepCompleted} s"
  unfolding journal_rel_def step_status_is_def by fastforce

lemma finish_step:
  assumes inv: "journal_inv r" and nc: "\<not> operation_is_compacted r" and run: "runnable r s"
    and at: "or_updated_at r \<le> at"
  shows "\<exists>r'. rfold apply_event r (finish_events r at s) = Inr r'
     \<and> step_status_is r' {StepCompleted} s \<and> or_updated_at r' \<le> at"
proof -
  have "covers r" using inv by (simp add: journal_inv_def record_wf_covers)
  then obtain p where p: "step_progress r (os_id s) = Some p"
    using run covers_progress by (auto simp: runnable_def)
  show ?thesis
  proof (cases "sp_status p")
    case StepFailed
    then have "step_status_is r {StepFailed} s" using p by (simp add: step_status_is_def)
    from resubmit_step [OF inv nc run this at] obtain q where
      q: "apply_event r (Submit (os_id s) [''retry''] at) = Inr q" "step_status_is q {StepSubmitted} s"
        "or_updated_at q = at" by blast
    have rel: "journal_rel r q" using inv q(1) by (rule journal.rel_step)
    have "runnable q s"
    proof -
      have "step_status_is q accepted_statuses s" using q(2) by (auto simp: step_status_is_def)
      moreover have "step_status_is q accepted_statuses (op_primary (or_plan r))"
        if "step_status_is r accepted_statuses (op_primary (or_plan r))"
      proof (cases "os_id (op_primary (or_plan r)) = os_id s")
        case True
        with q(2) show ?thesis by (auto simp: step_status_is_def)
      next
        case False
        from apply_event_Inr [OF q(1)] obtain pp p' t where "step_written r (os_id s) pp p' t q" by auto
        from step_written_progress [OF this] False that show ?thesis by (simp add: step_status_is_def)
      qed
      ultimately show ?thesis using run journal_rel_plan [OF rel] by (auto simp: runnable_def)
    qed
    moreover have "journal_inv q" using inv q(1) by (rule journal.inv_step)
    moreover have "step_status_is q {StepPending, StepSubmitted} s" using q(2) by (auto simp: step_status_is_def)
    ultimately obtain r' where "apply_event q (Complete (os_id s) at) = Inr r'"
        "step_status_is r' {StepCompleted} s" "or_updated_at r' = at"
      using complete_step [of q s at] nc q(3) journal_rel_compacted [OF rel] by auto
    with q(1) p StepFailed show ?thesis by (simp add: finish_events_def)
  next
    case StepCompleted
    with p at show ?thesis by (simp add: finish_events_def step_status_is_def)
  qed (use complete_step [OF inv nc run _ at] p in \<open>auto simp: finish_events_def step_status_is_def\<close>)
qed

lemma finish_side_effects:
  assumes "journal_inv r" and "\<not> operation_is_compacted r" and "or_updated_at r \<le> at"
    and "set ss \<subseteq> set (operation_steps (or_plan r))"
    and "step_status_is r {StepCompleted} (op_primary (or_plan r))"
  shows "\<exists>es r'. rfold apply_event r es = Inr r' \<and> (\<forall>s\<in>set ss. step_status_is r' {StepCompleted} s)"
  using assms
proof (induction ss arbitrary: r)
  case Nil
  show ?case by (intro exI [of _ "[]"]) simp
next
  case (Cons s ss)
  have run: "runnable r s" using Cons.prems by (auto simp: runnable_def step_status_is_def)
  from finish_step [OF Cons.prems(1,2) run Cons.prems(3)] obtain q where
    q: "rfold apply_event r (finish_events r at s) = Inr q" "step_status_is q {StepCompleted} s"
      "or_updated_at q \<le> at" by blast
  have rel: "journal_rel r q" and "journal_inv q"
    using Cons.prems(1) q(1) by (rule journal.run_rel, rule journal.run_inv)
  then obtain es r' where r': "rfold apply_event q es = Inr r'" "\<forall>s\<in>set ss. step_status_is r' {StepCompleted} s"
    using Cons.IH [of q] Cons.prems q(3) journal_rel_plan [OF rel] journal_rel_compacted [OF rel]
      journal_rel_completed [OF rel] by auto
  have "journal_rel q r'" using \<open>journal_inv q\<close> r'(1) by (rule journal.run_rel)
  then have "step_status_is r' {StepCompleted} s" using q(2) by (rule journal_rel_completed)
  moreover have "rfold apply_event r (finish_events r at s @ es) = Inr r'"
    using q(1) r'(1) by (simp add: rfold_append)
  ultimately show ?case using r'(2) by (intro exI [of _ "finish_events r at s @ es"]) auto
qed

lemma settled_iff_completed:
  assumes "record_wf r"
  shows "operation_is_settled r \<longleftrightarrow>
    (\<forall>s\<in>set (operation_steps (or_plan r)). step_status_is r {StepCompleted} s)"
proof -
  have "derive_operation_state r = Inr (or_status r, or_indexing_state r)" and "covers r"
    using assms by (simp_all add: record_wf_def validate_operation_record_Inr)
  then show ?thesis using derive_settled_iff [of r] by (simp add: operation_is_settled_def)
qed

lemma operation_finishes:
  assumes inv: "journal_inv r" and nc: "\<not> operation_is_compacted r" and at: "or_updated_at r \<le> at"
  shows "\<exists>es r'. rfold apply_event r es = Inr r' \<and> operation_is_settled r'"
proof -
  let ?prim = "op_primary (or_plan r)"
  have "runnable r ?prim" by (simp add: runnable_def)
  from finish_step [OF inv nc this at] obtain q where
    q: "rfold apply_event r (finish_events r at ?prim) = Inr q" "step_status_is q {StepCompleted} ?prim"
      "or_updated_at q \<le> at" by blast
  have rel: "journal_rel r q" and qi: "journal_inv q"
    using inv q(1) by (rule journal.run_rel, rule journal.run_inv)
  then obtain es r' where r': "rfold apply_event q es = Inr r'"
      "\<forall>s\<in>set (operation_steps (or_plan q)). step_status_is r' {StepCompleted} s"
    using finish_side_effects [of q at "operation_steps (or_plan q)"] nc q
      journal_rel_plan [OF rel] journal_rel_compacted [OF rel] by auto
  have "journal_inv r'" "journal_rel q r'"
    using qi r'(1) by (rule journal.run_inv, rule journal.run_rel)
  then have "operation_is_settled r'"
    using r'(2) journal_rel_plan by (auto simp: settled_iff_completed journal_inv_def)
  moreover have "rfold apply_event r (finish_events r at ?prim @ es) = Inr r'"
    using q(1) r'(1) by (simp add: rfold_append)
  ultimately show ?thesis by blast
qed

section \<open>Enabledness\<close>

lemma operation_step_failed_succeeds:
  assumes wf: "record_wf r" and nc: "\<not> operation_is_compacted r"
    and seq: "validate_step_sequence r k = Inr ()" and p: "step_progress r k = Some p"
    and st: "sp_status p \<noteq> StepCompleted" and at: "or_updated_at r \<le> at"
    and err: "\<not> blank c" "\<not> blank f"
  shows "\<exists>r'. operation_step_failed r k c f at = Inr r'"
proof -
  have ok: "\<forall>u\<in>set (sp_task_uids p). \<not> blank u" "distinct (sp_task_uids p)"
    using record_wf_progress_ok [OF wf p] by (simp_all add: progress_ok_def)
  have "\<exists>r'. refresh_operation_state (write_step r k
      (p\<lparr>sp_status := StepFailed, sp_attempts := n, sp_last_error_category := Some c,
         sp_last_error_fingerprint := Some f, sp_updated_at := at\<rparr>) b) at = Inr r'" for b n
    using ok by (intro write_step_succeeds [OF wf nc p at]) simp_all
  from this [of "sp_attempts p" False] this [of "sat_add (sp_attempts p) 1" True] show ?thesis
    using st err by (cases "sp_status p = StepSubmitted") (simp_all add: Let_def operation_step_failed_def record_wf_valid [OF wf] seq p require_non_empty_def)
qed

text \<open>The guards of each transition, as the client sees them.\<close>

fun event_time :: "journal_event \<Rightarrow> datetime" where
  "event_time (Submit _ _ at) = at"
| "event_time (Complete _ at) = at"
| "event_time (Fail _ _ _ at) = at"

fun event_guard :: "operation_record \<Rightarrow> journal_event \<Rightarrow> operation_step \<Rightarrow> bool" where
  "event_guard r (Submit k uids at) s =
     (step_status_is r {StepPending, StepFailed} s \<and> uids \<noteq> [] \<and> list_all (\<lambda>u. \<not> blank u) uids \<and> distinct uids)"
| "event_guard r (Complete k at) s = step_status_is r {StepPending, StepSubmitted} s"
| "event_guard r (Fail k c f at) s = (step_status_is r (- {StepCompleted}) s \<and> \<not> blank c \<and> \<not> blank f)"

definition event_enabled :: "operation_record \<Rightarrow> journal_event \<Rightarrow> bool" where
  "event_enabled r e =
     (\<exists>s. os_id s = event_step e \<and> runnable r s \<and> event_guard r e s \<and> or_updated_at r \<le> event_time e)"

lemma refresh_time: "refresh_operation_state r at = Inr r' \<Longrightarrow> or_updated_at r \<le> at"
  by (rule refresh_Inr(5))

lemma event_guards:
  assumes "apply_event r e = Inr r'"
  shows "validate_step_sequence r (event_step e) = Inr () \<and> or_updated_at r \<le> event_time e
    \<and> (\<forall>s. os_id s = event_step e \<longrightarrow> event_guard r e s)"
proof (cases e)
  case (Submit k uids at)
  with assms have a: "operation_step_submitted r k uids at = Inr r'" by simp
  obtain p where p: "validate_step_sequence r k = Inr ()" "step_progress r k = Some p"
      "validate_task_uids k uids = Inr ()" "uids \<noteq> []"
    using a by (auto simp: operation_step_submitted_def rbind_Inr ok_or_Inr split: if_splits)
  have "sp_status p \<in> {StepPending, StepFailed} \<and> or_updated_at r \<le> at"
    using a p by (cases "sp_status p")
      (auto simp: operation_step_submitted_def rbind_Inr dest: refresh_time)
  then show ?thesis
    using p Submit by (auto simp: step_status_is_def validate_task_uids_Inr list_all_iff)
next
  case (Complete k at)
  with assms have a: "operation_step_completed r k at = Inr r'" by simp
  obtain p where p: "validate_step_sequence r k = Inr ()" "step_progress r k = Some p"
    using a by (auto simp: operation_step_completed_def rbind_Inr ok_or_Inr)
  have "sp_status p \<in> {StepPending, StepSubmitted} \<and> or_updated_at r \<le> at"
    using a p by (cases "sp_status p")
      (auto simp: operation_step_completed_def rbind_Inr dest: refresh_time)
  then show ?thesis using p Complete by (auto simp: step_status_is_def)
next
  case (Fail k c f at)
  with assms have a: "operation_step_failed r k c f at = Inr r'" by simp
  obtain p where p: "validate_step_sequence r k = Inr ()" "step_progress r k = Some p"
      "require_non_empty ''error category'' c = Inr ()" "require_non_empty ''error fingerprint'' f = Inr ()"
    using a by (auto simp: operation_step_failed_def rbind_Inr ok_or_Inr)
  have "sp_status p \<noteq> StepCompleted \<and> or_updated_at r \<le> at"
    using a p by (cases "sp_status p")
      (auto simp: operation_step_failed_def rbind_Inr dest: refresh_time)
  then show ?thesis using p Fail by (auto simp: step_status_is_def require_non_empty_Inr)
qed

lemma sequence_runnable:
  assumes "record_wf r" and seq: "validate_step_sequence r k = Inr ()"
  shows "\<exists>s. os_id s = k \<and> runnable r s"
proof -
  from validate_step_sequence_Inr [OF record_wf_steps_ok [OF assms(1)] seq]
  show ?thesis by (auto simp: runnable_def intro: side_effect_in_steps)
qed

lemma event_succeeds_iff:
  assumes inv: "journal_inv r" and nc: "\<not> operation_is_compacted r"
  shows "(\<exists>r'. apply_event r e = Inr r') \<longleftrightarrow> event_enabled r e"
proof
  have wf: "record_wf r" using inv by (simp add: journal_inv_def)
  show "event_enabled r e" if "\<exists>r'. apply_event r e = Inr r'"
  proof -
    from that have g: "validate_step_sequence r (event_step e) = Inr ()" "or_updated_at r \<le> event_time e"
        "\<forall>s. os_id s = event_step e \<longrightarrow> event_guard r e s"
      using event_guards by blast+
    from sequence_runnable [OF wf g(1)] g(2,3) show ?thesis by (auto simp: event_enabled_def)
  qed
  assume "event_enabled r e"
  then obtain s where s: "os_id s = event_step e" "runnable r s" "event_guard r e s" "or_updated_at r \<le> event_time e"
    by (auto simp: event_enabled_def)
  note seq = runnable_sequence [OF wf s(2)]
  show "\<exists>r'. apply_event r e = Inr r'"
  proof (cases e)
    case (Submit k uids at)
    then show ?thesis
      using s seq operation_step_submitted_succeeds [OF wf nc, of k]
      by (auto simp: step_status_is_def validate_task_uids_Inr list_all_iff)
  next
    case (Complete k at)
    then show ?thesis
      using s seq operation_step_completed_succeeds [OF wf nc, of k] by (auto simp: step_status_is_def)
  next
    case (Fail k c f at)
    then show ?thesis
      using s seq operation_step_failed_succeeds [OF wf nc, of k] by (auto simp: step_status_is_def)
  qed
qed

section \<open>Views\<close>

lemma collect_task_uids_spec:
  assumes "distinct acc"
  shows "distinct (collect_task_uids r acc ss)
    \<and> set (collect_task_uids r acc ss)
      = set acc \<union> {u. u \<noteq> [] \<and> (\<exists>s\<in>set ss. \<exists>p. step_progress r (os_id s) = Some p \<and> u \<in> set (sp_task_uids p))}
    \<and> is_prefix acc (collect_task_uids r acc ss)"
  using assms
proof (induction ss arbitrary: acc)
  case Nil
  then show ?case by (simp add: is_prefix_iff)
next
  case (Cons s ss)
  show ?case
  proof (cases "step_progress r (os_id s)")
    case None
    with Cons show ?thesis by auto
  next
    case (Some p)
    let ?acc = "acc @ dedup acc (filter (\<lambda>v. v \<noteq> []) (sp_task_uids p))"
    have "distinct ?acc" using Cons.prems by auto
    from Cons.IH [OF this] Some show ?thesis by (auto simp: is_prefix_iff)
  qed
qed

lemma receipt_extend_spec:
  "rwr_task_uids (receipt_extend a b)
     = rwr_task_uids a @ dedup (rwr_task_uids a) (filter (\<lambda>v. v \<noteq> []) (rwr_task_uids b))"
  by (simp add: receipt_extend_def)

lemma summary_settled_iff:
  assumes wf: "record_wf r"
  shows "osum_pending_steps (operation_summary r) = 0 \<and> osum_failed_steps (operation_summary r) = 0
    \<longleftrightarrow> operation_is_settled r"
proof -
  have inv: "bt_inv (pr_steps (or_progress r))" and cov: "covers r"
    using wf by (simp_all add: record_wf_def validate_operation_record_Inr)
  have "osum_pending_steps (operation_summary r) = 0 \<and> osum_failed_steps (operation_summary r) = 0
    \<longleftrightarrow> (\<forall>e\<in>set (pr_steps (or_progress r)). sp_status (snd e) = StepCompleted)"
    by (auto simp: operation_summary_def Let_def filter_empty_conv)
      (metis operation_step_status.exhaust snd_conv)
  also have "\<dots> \<longleftrightarrow> (\<forall>s\<in>set (operation_steps (or_plan r)). step_status_is r {StepCompleted} s)"
  proof
    assume all: "\<forall>e\<in>set (pr_steps (or_progress r)). sp_status (snd e) = StepCompleted"
    show "\<forall>s\<in>set (operation_steps (or_plan r)). step_status_is r {StepCompleted} s"
      using covers_progress [OF cov] all by (fastforce simp: step_status_is_def dest: map_of_SomeD)
  next
    assume all: "\<forall>s\<in>set (operation_steps (or_plan r)). step_status_is r {StepCompleted} s"
    show "\<forall>e\<in>set (pr_steps (or_progress r)). sp_status (snd e) = StepCompleted"
    proof
      fix e assume e: "e \<in> set (pr_steps (or_progress r))"
      then have "step_progress r (fst e) = Some (snd e)"
        using bt_entry_get [OF inv, of "fst e" "snd e"] by simp
      moreover have "fst e \<in> set (map os_id (operation_steps (or_plan r)))"
        using e cov by (simp add: covers_def)
      ultimately show "sp_status (snd e) = StepCompleted"
        using all by (auto simp: step_status_is_def)
    qed
  qed
  finally show ?thesis using settled_iff_completed [OF wf] by simp
qed

end
