(* ===== verification/Compaction.thy ===== *)
theory Compaction
  imports Journal_Live
begin

text \<open>
  Compaction of settled operations (\<open>compact_settled_operation\<close> of \<open>mutation.rs\<close>): content bodies
  are cleared and replaced by their size and a fingerprint, and the record still validates. The
  serialiser (\<open>serde_json::to_string\<close>) and the caller's fingerprint are parameters.
\<close>

section \<open>The code\<close>

fun clear_structured_row :: "json \<Rightarrow> json" where
  "clear_structured_row (JObject kvs) =
     JObject (filter (\<lambda>e. fst e = ''id'' \<or> fst e = ''snapshot_id'' \<or> fst e = ''tenant_id''
       \<or> fst e = ''owner_user_id'') kvs)"
| "clear_structured_row _ = JNull"

fun clear_resource_bodies :: "operation_resource \<Rightarrow> operation_resource" where
  "clear_resource_bodies (HistoryEvents events) =
     HistoryEvents (map (\<lambda>e. e\<lparr>he_text := [], he_payload := JNull\<rparr>) events)"
| "clear_resource_bodies (ContextNodes index_uid nodes) =
     ContextNodes index_uid (map (\<lambda>n. n\<lparr>cn_body := []\<rparr>) nodes)"
| "clear_resource_bodies (StateItem item) = StateItem (item\<lparr>si_statement := [], si_value := JNull\<rparr>)"
| "clear_resource_bodies (Insight insight) = Insight (insight\<lparr>ir_statement := []\<rparr>)"
| "clear_resource_bodies (SourceRevision revision) = SourceRevision (revision\<lparr>srev_content := []\<rparr>)"
| "clear_resource_bodies (SourceDocuments documents) =
     SourceDocuments (map (\<lambda>d. d\<lparr>sd_content := []\<rparr>) documents)"
| "clear_resource_bodies (StructuredRows rows) = StructuredRows (map clear_structured_row rows)"
| "clear_resource_bodies (Session session) = Session (session\<lparr>sess_messages := []\<rparr>)"
| "clear_resource_bodies (Links links) = Links (map (\<lambda>l. l\<lparr>kl_evidence_text := None\<rparr>) links)"
| "clear_resource_bodies (Trace trace) = Trace (trace\<lparr>tr_stages := []\<rparr>)"
| "clear_resource_bodies (HarnessComponents components revisions) =
     HarnessComponents components (map (\<lambda>r. r\<lparr>hcr_content := JNull\<rparr>) revisions)"
| "clear_resource_bodies (HarnessVerdicts verdicts) =
     HarnessVerdicts (map (\<lambda>v. v\<lparr>hcv_evidence := JNull\<rparr>) verdicts)"
| "clear_resource_bodies (IngestResult result) = IngestResult (result\<lparr>itr_parsed_blocks := []\<rparr>)"
| "clear_resource_bodies (EvalCaseResults results) =
     EvalCaseResults (map (\<lambda>r. r\<lparr>rcr_answer := []\<rparr>) results)"
| "clear_resource_bodies (EvalOverview overview) = EvalOverview (overview\<lparr>reo_overview_markdown := []\<rparr>)"
| "clear_resource_bodies resource = resource"

definition clear_step :: "operation_step \<Rightarrow> operation_step" where
  "clear_step step = step\<lparr>os_resource := clear_resource_bodies (os_resource step)\<rparr>"

definition payload_digest :: "(string \<Rightarrow> string) \<Rightarrow> string \<Rightarrow> json" where
  "payload_digest fingerprint serialized =
     JObject [(''bytes'', JNumber (PosInt (of_nat (length serialized)))),
              (''fingerprint'', JString (fingerprint serialized))]"

text \<open>The loop body: the digest of one step is recorded, or its serialisation error is returned.\<close>

definition digest_step ::
  "(operation_resource \<Rightarrow> string + string) \<Rightarrow> (string \<Rightarrow> string) \<Rightarrow>
     (string, json) btree_map \<Rightarrow> operation_step \<Rightarrow> mutation_plan_error + (string, json) btree_map" where
  "digest_step to_string fingerprint digests step =
     rbind (map_err (\<lambda>error. InvalidPlan
         (''step `'' @ os_id step @ ''` resource is not serializable: '' @ error))
         (to_string (os_resource step))) (\<lambda>serialized.
       Inr (bt_insert (os_id step) (payload_digest fingerprint serialized) digests))"

definition compacted_record ::
  "operation_record \<Rightarrow> (string, json) btree_map \<Rightarrow> (string, json) btree_map \<Rightarrow> operation_record" where
  "compacted_record record metadata digests =
     record\<lparr>or_plan := (or_plan record)
       \<lparr>op_primary := clear_step (op_primary (or_plan record)),
        op_side_effects := map clear_step (op_side_effects (or_plan record)),
        op_redacted_metadata :=
          JObject (bt_insert compacted_payloads_metadata_key (JObject digests) metadata)\<rparr>\<rparr>"

definition compact_settled_operation ::
  "(operation_resource \<Rightarrow> string + string) \<Rightarrow> (string \<Rightarrow> string) \<Rightarrow> operation_record \<Rightarrow>
     mutation_plan_error + operation_record option" where
  "compact_settled_operation to_string fingerprint record =
     (if \<not> operation_is_settled record \<or> operation_is_compacted record then Inr None
      else
        rbind (case op_redacted_metadata (or_plan record) of
            JObject metadata \<Rightarrow> Inr metadata
          | JNull \<Rightarrow> Inr []
          | _ \<Rightarrow> invalid ''operation metadata must be an object'') (\<lambda>metadata.
        rbind (rfold (digest_step to_string fingerprint) [] (operation_steps (or_plan record))) (\<lambda>digests.
        rbind (validate_operation_record (compacted_record record metadata digests)) (\<lambda>_.
          Inr (Some (compacted_record record metadata digests))))))"

section \<open>Clearing leaves what validation reads\<close>

lemma clear_row_idem [simp]: "clear_structured_row (clear_structured_row j) = clear_structured_row j"
  by (cases j) auto

lemma clear_resource_idem [simp]:
  "clear_resource_bodies (clear_resource_bodies r) = clear_resource_bodies r"
  by (cases r) (simp_all add: comp_def)

lemma validate_resource_clear [simp]:
  "validate_resource t (clear_resource_bodies r) = validate_resource t r"
proof (cases r)
  case (HistoryEvents es)
  then show ?thesis by (cases es) (simp_all add: comp_def)
qed (simp_all add: comp_def require_non_empty_slice_def)

lemma analysis_step_clear [simp]: "analysis_step h t (clear_resource_bodies r) = analysis_step h t r"
  by (cases r) (simp_all add: rfold_map cong: if_cong)

lemma delete_step_clear [simp]: "delete_step m (clear_step s) = delete_step m s"
  by (cases "os_resource s") (simp_all add: delete_step_def clear_step_def)

lemma clear_step_simps [simp]:
  "os_id (clear_step s) = os_id s" "os_role (clear_step s) = os_role s"
  "os_resource (clear_step s) = clear_resource_bodies (os_resource s)"
  "good_step t (clear_step s) = good_step t s"
  by (simp_all add: clear_step_def good_step_def)

section \<open>Compacting a settled record\<close>

lemma delete_targets_clear [simp]: "delete_targets sid (map clear_step ss) = delete_targets sid ss"
proof (induction ss)
  case (Cons s ss)
  then show ?case by (cases "os_resource s") simp_all
qed simp

text \<open>A plan whose bodies are cleared and whose metadata got one more key.\<close>

definition cleared_plan :: "operation_plan \<Rightarrow> json \<Rightarrow> operation_plan" where
  "cleared_plan p j =
     p\<lparr>op_primary := clear_step (op_primary p), op_side_effects := map clear_step (op_side_effects p),
       op_redacted_metadata := j\<rparr>"

lemma cleared_plan_simps [simp]:
  "operation_steps (cleared_plan p j) = map clear_step (operation_steps p)"
  "op_redacted_metadata (cleared_plan p j) = j"
  "op_id (cleared_plan p j) = op_id p" "op_tenant_id (cleared_plan p j) = op_tenant_id p"
  "op_operation_kind (cleared_plan p j) = op_operation_kind p" "op_actor (cleared_plan p j) = op_actor p"
  "op_idempotency_key_hash (cleared_plan p j) = op_idempotency_key_hash p"
  "op_created_at (cleared_plan p j) = op_created_at p"
  "op_schema_version (cleared_plan p j) = op_schema_version p"
  "op_primary (cleared_plan p j) = clear_step (op_primary p)"
  "op_side_effects (cleared_plan p j) = map clear_step (op_side_effects p)"
  by (simp_all add: cleared_plan_def operation_steps_def)

lemma cleared_plan_valid:
  assumes v: "validate_operation_plan p = Inr ()" and obj: "json_is_object j"
    and str: "json_get_str j ''target_owner_user_id_hash''
      = json_get_str (op_redacted_metadata p) ''target_owner_user_id_hash''"
  shows "validate_operation_plan (cleared_plan p j) = Inr ()"
proof -
  have "validate_analysis_materialization_steps (cleared_plan p j) = validate_analysis_materialization_steps p"
    unfolding validate_analysis_materialization_steps_def by (simp add: str rfold_map)
  moreover have "plan_steps_ok (cleared_plan p j) = plan_steps_ok p"
    by (simp add: plan_steps_ok_def comp_def)
  moreover have "plan_identity (cleared_plan p j)"
    using v obj by (simp add: plan_identity_def validate_operation_plan_Inr)
  ultimately show ?thesis
    using v by (simp add: validate_operation_plan_Inr validate_company_source_delete_Inr)
qed

lemma compacted_record_plan:
  "or_plan (compacted_record r m d) =
     cleared_plan (or_plan r) (JObject (bt_insert compacted_payloads_metadata_key (JObject d) m))"
  by (simp add: compacted_record_def cleared_plan_def)

lemma compacted_record_simps [simp]:
  "or_id (compacted_record r m d) = or_id r" "or_tenant_id (compacted_record r m d) = or_tenant_id r"
  "or_operation_kind (compacted_record r m d) = or_operation_kind r"
  "or_actor_scope (compacted_record r m d) = or_actor_scope r"
  "or_idempotency_key_hash (compacted_record r m d) = or_idempotency_key_hash r"
  "or_status (compacted_record r m d) = or_status r"
  "or_indexing_state (compacted_record r m d) = or_indexing_state r"
  "or_progress (compacted_record r m d) = or_progress r"
  "or_created_at (compacted_record r m d) = or_created_at r"
  "or_updated_at (compacted_record r m d) = or_updated_at r"
  "or_completed_at (compacted_record r m d) = or_completed_at r"
  by (simp_all add: compacted_record_def)

lemma compacted_record_settled [simp]:
  "operation_is_settled (compacted_record r m d) = operation_is_settled r"
  by (simp add: operation_is_settled_def)

lemma compacted_record_compacted [simp]: "operation_is_compacted (compacted_record r m d)"
  by (simp add: operation_is_compacted_def compacted_record_plan bt_get_insert)

lemma map_filter_map: "List.map_filter f (map g xs) = List.map_filter (\<lambda>x. f (g x)) xs"
  by (induction xs) (simp_all add: List.map_filter_simps split: option.split)

lemma derive_compacted: "derive_operation_state (compacted_record r m d) = derive_operation_state r"
  unfolding derive_operation_state_def compacted_record_plan compacted_record_simps cleared_plan_simps
    map_filter_map clear_step_simps
  by (rule refl)

lemma digest_loop_keys:
  assumes "rfold (digest_step ser fp) d0 ss = Inr d"
  shows "set (map fst d) = set (map fst d0) \<union> set (map os_id ss)"
  using assms
proof (induction ss arbitrary: d0)
  case (Cons s ss)
  from Cons.prems obtain d1 where "digest_step ser fp d0 s = Inr d1" and rest: "rfold (digest_step ser fp) d1 ss = Inr d"
    by (auto simp: rfold_Cons_Inr simp del: rfold.simps)
  then obtain v where "d1 = bt_insert (os_id s) v d0"
    by (auto simp: digest_step_def rbind_Inr)
  then have "set (map fst d1) = insert (os_id s) (set (map fst d0))" by simp
  with Cons.IH [OF rest] show ?case by simp
qed simp

lemma digest_loop_ok:
  "\<forall>s\<in>set ss. \<exists>t. ser (os_resource s) = Inr t \<Longrightarrow> \<exists>d. rfold (digest_step ser fp) d0 ss = Inr d"
proof (induction ss arbitrary: d0)
  case (Cons s ss)
  then obtain t where "ser (os_resource s) = Inr t" by auto
  then have "digest_step ser fp d0 s = Inr (bt_insert (os_id s) (payload_digest fp t) d0)"
    by (simp add: digest_step_def)
  with Cons show ?case by (simp add: rfold_Cons_Inr)
qed simp

lemma compacted_record_valid:
  assumes v: "validate_operation_record r = Inr ()" and s: "operation_is_settled r"
    and keys: "set (map fst d) = set (map os_id (operation_steps (or_plan r)))"
    and m: "json_get_str (JObject m) ''target_owner_user_id_hash''
      = json_get_str (op_redacted_metadata (or_plan r)) ''target_owner_user_id_hash''"
  shows "validate_operation_record (compacted_record r m d) = Inr ()"
proof -
  let ?c = "compacted_record r m d"
  have ne: "''target_owner_user_id_hash'' \<noteq> compacted_payloads_metadata_key"
    by (simp add: compacted_payloads_metadata_key_def)
  note r = v [unfolded validate_operation_record_Inr]
  have "validate_operation_plan (or_plan ?c) = Inr ()"
    unfolding compacted_record_plan
    by (rule cleared_plan_valid) (use r m ne in \<open>simp_all del: json_get_str_Some\<close>)
  moreover have "record_identity ?c" using r by (simp add: record_identity_def compacted_record_plan)
  moreover have "covers ?c" using r by (simp add: covers_def compacted_record_plan image_image)
  moreover have "\<forall>e\<in>set (pr_steps (or_progress ?c)). progress_ok ?c (fst e) (snd e)"
    using r by (simp add: progress_ok_def)
  moreover have "validate_compaction ?c = Inr ()"
    unfolding validate_compaction_def compacted_record_plan
    using s keys by (simp add: bt_get_insert checks_Inr reject_if_Inr compacted_record_plan image_image)
  ultimately show ?thesis
    using r by (simp add: validate_operation_record_Inr derive_compacted)
qed

lemma compact_settled_Some:
  "compact_settled_operation ser fp r = Inr (Some c) \<longleftrightarrow>
     (\<exists>m d. operation_is_settled r \<and> \<not> operation_is_compacted r
        \<and> (op_redacted_metadata (or_plan r) = JObject m \<or> op_redacted_metadata (or_plan r) = JNull \<and> m = [])
        \<and> rfold (digest_step ser fp) [] (operation_steps (or_plan r)) = Inr d
        \<and> c = compacted_record r m d \<and> validate_operation_record c = Inr ())"
  by (cases "op_redacted_metadata (or_plan r)") (auto simp: compact_settled_operation_def rbind_Inr)

lemma compact_settled_succeeds:
  assumes v: "validate_operation_record r = Inr ()" and s: "operation_is_settled r"
    and nc: "\<not> operation_is_compacted r"
    and ser: "\<forall>s\<in>set (operation_steps (or_plan r)). \<exists>t. ser (os_resource s) = Inr t"
  shows "\<exists>c. compact_settled_operation ser fp r = Inr (Some c)"
proof -
  obtain d where d: "rfold (digest_step ser fp) [] (operation_steps (or_plan r)) = Inr d"
    using digest_loop_ok [OF ser] by blast
  have keys: "set (map fst d) = set (map os_id (operation_steps (or_plan r)))"
    using digest_loop_keys [OF d] by simp
  have "json_is_null (op_redacted_metadata (or_plan r)) \<or> json_is_object (op_redacted_metadata (or_plan r))"
    using v by (simp add: validate_operation_record_Inr validate_operation_plan_Inr plan_identity_def)
  then obtain m where
    m: "op_redacted_metadata (or_plan r) = JObject m \<or> op_redacted_metadata (or_plan r) = JNull \<and> m = []"
    by (cases "op_redacted_metadata (or_plan r)") auto
  then have "json_get_str (JObject m) ''target_owner_user_id_hash''
      = json_get_str (op_redacted_metadata (or_plan r)) ''target_owner_user_id_hash''"
    by (auto simp: json_get_str_def)
  from compacted_record_valid [OF v s keys this] show ?thesis
    using compact_settled_Some [of ser fp r] s nc d m by blast
qed

text \<open>A settled record, compacted or not, takes no further transition.\<close>

lemma settled_is_final:
  assumes "operation_is_settled r"
  shows "\<exists>err. apply_event r e = Inl err"
proof (rule ccontr)
  assume "\<nexists>err. apply_event r e = Inl err"
  then obtain r' where "apply_event r e = Inr r'" by (cases "apply_event r e") auto
  then obtain p p' at where w: "step_written r (event_step e) p p' at r'" using apply_event_Inr by blast
  then have v: "validate_operation_record r = Inr ()" and seq: "validate_step_sequence r (event_step e) = Inr ()"
    and p: "step_progress r (event_step e) = Some p" "sp_status p \<noteq> StepCompleted"
    by (simp_all add: step_written_def)
  have "derive_operation_state r = Inr (OpCompleted, IdxCompleted)" and "covers r"
    using v assms by (auto simp: validate_operation_record_Inr operation_is_settled_def)
  then have all: "\<forall>s\<in>set (operation_steps (or_plan r)). step_status_is r {StepCompleted} s"
    by (simp add: derive_settled_iff)
  have "event_step e \<in> os_id ` set (operation_steps (or_plan r))"
  proof -
    obtain s where "List.find (\<lambda>s. os_id s = event_step e) (operation_steps (or_plan r)) = Some s"
      using seq by (auto simp: validate_step_sequence_def rbind_Inr ok_or_Inr)
    from find_step [OF this] show ?thesis by (metis imageI)
  qed
  with all p show False by (auto simp: step_status_is_def)
qed

end
