(* ===== verification/Journal_Properties.thy ===== *)
theory Journal_Properties
  imports Compaction
begin

text \<open>
  The properties of the operation journal, each an application of the lemmas of the journal
  theories, with concrete operations on which their hypotheses hold: a two-step write, an analysis
  materialisation and a company-source deletion.
\<close>

section \<open>Sample operations\<close>

definition sample_source :: company_source where
  "sample_source =
     \<lparr>cs_id = ''src-1'', cs_tenant_id = ''acme'', cs_title = ''Handbook'', cs_canonical_key = ''handbook'',
      cs_source_uri = ''company://acme/handbook'', cs_active_revision_id = None\<rparr>"

definition sample_insight :: insight_record where
  "sample_insight =
     \<lparr>ir_id = ''ins-1'', ir_tenant_id = ''acme'', ir_insight_type = ''preference'', ir_title = ''Tea'',
      ir_statement = ''Prefers tea'', ir_status = ''candidate'', ir_confidence = 0, ir_salience = 0,
      ir_context_uri = ''user://ada/insights/1'', ir_source_refs = [], ir_owner_user_id = ''ada'',
      ir_privacy = ''private'', ir_created_at = 5, ir_updated_at = 5\<rparr>"

definition sample_plan :: "string \<Rightarrow> json \<Rightarrow> operation_step list \<Rightarrow> operation_plan" where
  "sample_plan kind metadata steps =
     \<lparr>op_schema_version = 1, op_id = ''op-1'', op_tenant_id = ''acme'', op_operation_kind = kind,
      op_actor = \<lparr>oa_scope = ActorOwner, oa_owner_user_id_hash = Some ''h1'', oa_roles = [''admin''],
        oa_request_id = None\<rparr>,
      op_idempotency_key_hash = None, op_primary = hd steps, op_side_effects = tl steps,
      op_redacted_metadata = metadata, op_response_snapshot = JNull, op_created_at = 10\<rparr>"

definition write_plan :: operation_plan where
  "write_plan = sample_plan ''source.upsert'' JNull
     [\<lparr>os_id = ''p'', os_role = Primary, os_resource = CompanySource sample_source\<rparr>,
      \<lparr>os_id = ''s'', os_role = SideEffect, os_resource = Insight sample_insight\<rparr>]"

definition analysis_plan :: operation_plan where
  "analysis_plan = sample_plan ''analysis.materialize''
     (JObject [(''target_owner_user_id_hash'', JString ''h1'')])
     [\<lparr>os_id = ''p'', os_role = Primary, os_resource = Insight sample_insight\<rparr>]"

definition delete_plan :: operation_plan where
  "delete_plan = sample_plan ''source.delete'' JNull
     (map (\<lambda>(i, role, t). \<lparr>os_id = i, os_role = role, os_resource = DeleteCompanySourceIndex ''src-1'' t\<rparr>)
       [(''d0'', Primary, TFragments), (''d1'', SideEffect, TRevisions), (''d2'', SideEffect, TSource),
        (''d3'', SideEffect, TSourceDocuments), (''d4'', SideEffect, TParseArtifacts),
        (''d5'', SideEffect, TIngestTasks), (''d6'', SideEffect, TIngestResults)])"

definition write_record :: operation_record where
  "write_record = (case operation_record_from_plan write_plan of Inr r \<Rightarrow> r)"

text \<open>The primary write and the side effect are submitted and confirmed.\<close>

definition write_events :: "journal_event list" where
  "write_events =
     [Submit ''p'' [''t1''] 11, Submit ''s'' [''t2''] 12, Fail ''s'' ''timeout'' ''f'' 13,
      Submit ''s'' [''t3''] 14, Complete ''p'' 15, Complete ''s'' 16]"

definition settled_record :: operation_record where
  "settled_record = (case rfold apply_event write_record write_events of Inr r \<Rightarrow> r)"

lemma write_plan_valid: "validate_operation_plan write_plan = Inr ()"
  by code_simp

lemma write_record_from_plan: "operation_record_from_plan write_plan = Inr write_record"
  by (simp add: write_record_def operation_record_from_plan_def write_plan_valid)

lemma write_metadata: "json_get (op_redacted_metadata write_plan) compacted_payloads_metadata_key = None"
  by (simp add: write_plan_def sample_plan_def)

lemma write_record_inv: "journal_inv write_record"
  using write_record_from_plan write_metadata by (rule fresh_record_inv)

lemma write_run_settles:
  "case rfold apply_event write_record write_events of Inr r \<Rightarrow> operation_is_settled r | Inl _ \<Rightarrow> False"
  by code_simp

lemma write_run:
  "rfold apply_event write_record write_events = Inr settled_record" "operation_is_settled settled_record"
  using write_run_settles
  by (cases "rfold apply_event write_record write_events"; simp add: settled_record_def)+

lemma settled_record_inv: "journal_inv settled_record"
  using write_record_inv write_run(1) by (rule journal.run_inv)

lemma write_record_nc: "\<not> operation_is_compacted write_record"
  using write_metadata operation_record_from_plan_simps(2) [OF write_record_from_plan]
  by (simp add: operation_is_compacted_def)

lemma settled_record_nc: "\<not> operation_is_compacted settled_record"
  using journal_rel_compacted [OF journal.run_rel [OF write_record_inv write_run(1)]] write_record_nc by simp

lemma write_record_updated: "or_updated_at write_record = 10"
  using operation_record_from_plan_simps(4) [OF write_record_from_plan]
  by (simp add: write_plan_def sample_plan_def)

lemma analysis_plan_valid:
  "validate_operation_plan analysis_plan = Inr ()" "op_operation_kind analysis_plan = ''analysis.materialize''"
  by code_simp+

lemma delete_plan_valid: "validate_operation_plan delete_plan = Inr ()"
  by code_simp

section \<open>Plans\<close>

text \<open>The seven managed indexes in their fixed order, then at most the links.\<close>

definition deletions_ordered :: "operation_plan \<Rightarrow> bool" where
  "deletions_ordered p = (\<forall>sid. delete_targets sid (operation_steps p) \<in> {[], [0..<7], [0..<8]})"

definition analysis_single_owner :: "operation_plan \<Rightarrow> bool" where
  "analysis_single_owner p =
     (\<exists>h owner.
        json_get_str (op_redacted_metadata p) ''target_owner_user_id_hash'' = Some h
        \<and> \<not> blank h \<and> \<not> blank owner
        \<and> (\<forall>s\<in>set (operation_steps p). single_owner h owner (os_resource s))
        \<and> (\<exists>s\<in>set (operation_steps p). names_owner (os_resource s)))"

lemma analysis_other_kind:
  "op_operation_kind p \<noteq> ''analysis.materialize'' \<Longrightarrow> validate_analysis_materialization_steps p = Inr ()"
  by (simp add: validate_analysis_materialization_steps_def)

text \<open>
  C25: \<open>validate_operation_plan\<close> accepts exactly the plans with the current schema version, complete
  identity and actor, one primary step followed by side effects, pairwise distinct non-blank step
  ids, resources that pass their own check for the plan's tenant, company-source deletions that
  cover the managed indexes in their fixed order, and, for an analysis materialisation, a single
  owner under the owner commitment of the metadata.
\<close>

theorem plan_accepted_iff:
  "validate_operation_plan p = Inr () \<longleftrightarrow>
     plan_identity p \<and> plan_steps_ok p \<and> deletions_ordered p
     \<and> (if op_operation_kind p = ''analysis.materialize'' then analysis_single_owner p else True)"
  using analysis_other_kind [of p] validate_analysis_materialization_Inr [of p "()"]
  by (simp add: validate_operation_plan_Inr validate_company_source_delete_Inr deletions_ordered_def
      analysis_single_owner_def)

text \<open>The tenants a resource is stored under.\<close>

fun resource_tenants :: "operation_resource \<Rightarrow> string list" where
  "resource_tenants (EnsureUserEventIndex i) = [uei_tenant_id i]"
| "resource_tenants (HistoryEvents es) = map he_tenant_id es"
| "resource_tenants (ContextNodes _ ns) = map cn_tenant_id ns"
| "resource_tenants (StateItem i) = [si_tenant_id i]"
| "resource_tenants (Insight i) = [ir_tenant_id i]"
| "resource_tenants (CompanySource s) = [cs_tenant_id s]"
| "resource_tenants (SourceRevision r) = [srev_tenant_id r]"
| "resource_tenants (SourceDocuments ds) = map sd_tenant_id ds"
| "resource_tenants (ParseArtifacts as) = map pa_tenant_id as"
| "resource_tenants (StructuredSnapshot s) = [ss_tenant_id s]"
| "resource_tenants (Dataset d) = [dr_tenant_id d]"
| "resource_tenants (Session s) = [sess_tenant_id s]"
| "resource_tenants (Trace t) = [tr_tenant_id t]"
| "resource_tenants (Links ls) = map kl_tenant_id ls"
| "resource_tenants (HarnessComponents cs rs) = map hc_tenant_id cs @ map hcr_tenant_id rs"
| "resource_tenants (HarnessChanges cs) = map hcm_tenant_id cs"
| "resource_tenants (HarnessVerdicts vs) = map hcv_tenant_id vs"
| "resource_tenants (IngestTask t) = [it_tenant_id t]"
| "resource_tenants (IngestTasks ts) = map it_tenant_id ts"
| "resource_tenants (IngestResult r) = it_tenant_id (itr_task r) # map pa_tenant_id (itr_parse_artifacts r)"
| "resource_tenants (EvalCase c) = [rec_tenant_id c]"
| "resource_tenants (EvalRun r) = [rer_tenant_id r]"
| "resource_tenants (EvalCaseResults rs) = map rcr_tenant_id rs"
| "resource_tenants (EvalOverview v) = [reo_tenant_id v]"
| "resource_tenants (StructuredRows _) = []"
| "resource_tenants (StructuredSummary _) = []"
| "resource_tenants (DeleteCompanySourceIndex _ _) = []"
| "resource_tenants (DeleteIngestTasks _) = []"

lemma validate_resource_tenants:
  assumes "validate_resource t r = Inr ()"
  shows "\<forall>t'\<in>set (resource_tenants r). t' = t"
proof (cases r)
  case (HistoryEvents es)
  then show ?thesis using assms by (cases es) (auto simp: result_simps)
qed (use assms in \<open>auto simp: result_simps\<close>)

text \<open>
  C3: tenant isolation of the typed records. Every record with a tenant field of its own that any step of an
  accepted plan writes, primary or side effect, belongs to the tenant of the plan. Four kinds of resource hold
  no such record: the two deletions, which name ids only, and the rows and the summary of structured data,
  which are JSON whose content the plan's validation does not compare with the tenant.
\<close>

theorem plan_tenant_isolated:
  assumes "validate_operation_plan p = Inr ()" and "s \<in> set (operation_steps p)"
    and "t \<in> set (resource_tenants (os_resource s))"
  shows "t = op_tenant_id p"
  using assms validate_resource_tenants
  by (auto simp: validate_operation_plan_Inr plan_steps_ok_def good_step_def)

lemma plan_tenant_isolated_witness: "''acme'' = op_tenant_id write_plan"
  by (rule plan_tenant_isolated [OF write_plan_valid, of "op_primary write_plan"])
    (simp_all add: write_plan_def sample_plan_def sample_source_def operation_steps_def)

text \<open>
  An accepted analysis materialisation writes for one owner only: every history event, context
  node, insight and link of every step names the same owner, every owner hash is the plan's
  commitment, no other kind of resource occurs, and at least one resource names the owner.
\<close>

theorem analysis_plan_single_owner:
  assumes "validate_operation_plan p = Inr ()" and "op_operation_kind p = ''analysis.materialize''"
  shows "analysis_single_owner p"
  using assms validate_analysis_materialization_Inr [of p "()"]
  by (simp add: validate_operation_plan_Inr analysis_single_owner_def)

lemma analysis_plan_single_owner_witness: "analysis_single_owner analysis_plan"
  using analysis_plan_single_owner [of analysis_plan] analysis_plan_valid by simp

text \<open>
  An accepted deletion of a company source never leaves a gap: fragments, revisions, source,
  documents, artifacts, tasks and results are deleted in this order, each exactly once, and only
  then the links.
\<close>

theorem deletion_order:
  assumes "validate_operation_plan p = Inr ()" and "delete_targets sid (operation_steps p) \<noteq> []"
  shows "delete_targets sid (operation_steps p) = [0..<7] \<or> delete_targets sid (operation_steps p) = [0..<8]"
  using assms by (auto simp: validate_operation_plan_Inr validate_company_source_delete_Inr)

lemma deletion_order_witness: "delete_targets ''src-1'' (operation_steps delete_plan) = [0..<7]"
  using deletion_order [of delete_plan "''src-1''"] delete_plan_valid
  by (simp add: delete_plan_def sample_plan_def operation_steps_def upt_rec)

section \<open>Records and their runs\<close>

text \<open>
  A record created from a plan without the compaction marker satisfies the journal's invariant:
  it validates, its progress is an ordered map over exactly the planned steps, and every step is
  pending.
\<close>

theorem fresh_record:
  assumes "operation_record_from_plan pl = Inr r"
    and "json_get (op_redacted_metadata pl) compacted_payloads_metadata_key = None"
  shows "journal_inv r \<and> or_plan r = pl
    \<and> (\<forall>s\<in>set (operation_steps pl). step_status_is r {StepPending} s)"
  using fresh_record_inv [OF assms] operation_record_from_plan_simps(2) [OF assms(1)]
    fresh_all_pending [OF assms(1)] by blast

lemma fresh_record_witness: "journal_inv write_record"
  using fresh_record [OF write_record_from_plan write_metadata] by blast

text \<open>
  C1: safety of every run. Whatever sequence of submissions, confirmations and failures is applied
  to a record of the journal, the record stays valid, its plan, identity and creation time never
  change, time never moves backwards, a completed step keeps its progress for ever, attempts never
  decrease, and no side effect is touched while the primary write is pending.
\<close>

theorem journal_run_safe:
  assumes "journal_inv r" and "rfold apply_event r es = Inr r'"
  shows "validate_operation_record r' = Inr () \<and> primary_first r' \<and> journal_rel r r'"
  using journal.run_inv [OF assms] journal.run_rel [OF assms]
  by (simp add: journal_inv_def record_wf_def)

lemma journal_run_safe_witness: "validate_operation_record settled_record = Inr ()"
  using journal_run_safe [OF write_record_inv write_run(1)] by blast

text \<open>
  A transition of a record that is not compacted succeeds exactly when its step is planned and
  may run (the primary, or a side effect whose primary is accepted), its status admits the event,
  the arguments are well-formed and the timestamp is not before the last update.
\<close>

theorem transition_enabled_iff:
  assumes "journal_inv r" and "\<not> operation_is_compacted r"
  shows "(\<exists>r'. apply_event r e = Inr r') \<longleftrightarrow> event_enabled r e"
  using assms by (rule event_succeeds_iff)

lemma transition_enabled_iff_witness:
  "\<not> event_enabled write_record (Submit ''s'' [''t2''] 12)"
proof -
  have "case apply_event write_record (Submit ''s'' [''t2''] 12) of Inr r \<Rightarrow> False | Inl _ \<Rightarrow> True"
    by code_simp
  then show ?thesis
    using transition_enabled_iff [OF write_record_inv write_record_nc, of "Submit ''s'' [''t2''] 12"]
    by (auto split: sum.splits)
qed

text \<open>
  C18: no operation gets stuck. From any record of the journal that is not compacted, failed steps
  included, some sequence of transitions settles the operation.
\<close>

theorem operation_can_settle:
  assumes "journal_inv r" and "\<not> operation_is_compacted r"
  shows "\<exists>es r'. rfold apply_event r es = Inr r' \<and> operation_is_settled r'"
  using assms order_refl by (rule operation_finishes)

lemma operation_can_settle_witness:
  "\<exists>es r'. rfold apply_event write_record es = Inr r' \<and> operation_is_settled r'"
  by (rule operation_can_settle [OF write_record_inv write_record_nc])

text \<open>
  The stored status is sound and complete: a record of the journal is settled exactly when every
  planned step is completed, and exactly when its summary counts no pending and no failed step.
\<close>

theorem settled_iff_all_completed:
  assumes "journal_inv r"
  shows "(operation_is_settled r \<longleftrightarrow> list_all (step_status_is r {StepCompleted}) (operation_steps (or_plan r)))
    \<and> (operation_is_settled r \<longleftrightarrow>
         osum_pending_steps (operation_summary r) = 0 \<and> osum_failed_steps (operation_summary r) = 0)"
  using assms settled_iff_completed [of r] summary_settled_iff [of r]
  by (simp add: journal_inv_def list_all_iff)

lemma settled_iff_all_completed_witness: "osum_failed_steps (operation_summary settled_record) = 0"
  using settled_iff_all_completed [OF settled_record_inv] write_run(2) by blast

text \<open>
  A settled operation is final: every submission, confirmation or failure of any step is
  rejected, whether or not the record has been compacted.
\<close>

theorem settled_final:
  assumes "operation_is_settled r"
  shows "\<exists>err. apply_event r e = Inl err"
  using assms by (rule settled_is_final)

lemma settled_final_witness: "\<exists>err. apply_event settled_record (Complete ''p'' 20) = Inl err"
  using write_run(2) by (rule settled_final)

text \<open>
  The task UIDs reported with an operation are without duplicates and blanks, start with those
  of the primary step, and are exactly the non-empty UIDs recorded by the planned steps.
\<close>

theorem persistence_metadata_uids:
  "distinct (pm_task_uids (persistence_metadata r))
   \<and> is_prefix (pm_primary_task_uids (persistence_metadata r)) (pm_task_uids (persistence_metadata r))
   \<and> set (pm_task_uids (persistence_metadata r))
     = {u. u \<noteq> [] \<and> (\<exists>s p. s \<in> set (operation_steps (or_plan r))
            \<and> step_progress r (os_id s) = Some p \<and> u \<in> set (sp_task_uids p))}"
proof -
  let ?prim = "case step_progress r (os_id (op_primary (or_plan r))) of
      Some p \<Rightarrow> dedup_non_empty (sp_task_uids p) | None \<Rightarrow> []"
  have "distinct ?prim" by (simp add: dedup_non_empty_def split: option.splits)
  note spec = collect_task_uids_spec [OF this, of r "op_side_effects (or_plan r)"]
  have "set ?prim = {u. u \<noteq> [] \<and> (\<exists>p. step_progress r (os_id (op_primary (or_plan r))) = Some p
      \<and> u \<in> set (sp_task_uids p))}"
    by (cases "step_progress r (os_id (op_primary (or_plan r)))") (auto simp: dedup_non_empty_def)
  with spec show ?thesis
    by (auto simp: persistence_metadata_def Let_def operation_steps_def)
qed

section \<open>Compaction\<close>

definition sample_to_string :: "operation_resource \<Rightarrow> string + string" where
  "sample_to_string r = Inr ''{}''"

text \<open>
  C34: compaction of a valid settled record never fails when its resources serialise, and what it
  stores is valid: the record still validates, is still settled, keeps its identity, step ids and
  progress, and its resources are the cleared ones.
\<close>

theorem compaction_safe:
  assumes "validate_operation_record r = Inr ()" and "operation_is_settled r"
    and "\<not> operation_is_compacted r"
    and "\<And>s. s \<in> set (operation_steps (or_plan r)) \<Longrightarrow> \<exists>t. to_string (os_resource s) = Inr t"
  shows "\<exists>c. compact_settled_operation to_string fingerprint r = Inr (Some c)
    \<and> validate_operation_record c = Inr () \<and> operation_is_settled c \<and> operation_is_compacted c
    \<and> or_id c = or_id r \<and> or_tenant_id c = or_tenant_id r \<and> or_progress c = or_progress r
    \<and> operation_steps (or_plan c) = map clear_step (operation_steps (or_plan r))"
proof -
  obtain c where c: "compact_settled_operation to_string fingerprint r = Inr (Some c)"
    using compact_settled_succeeds assms by blast
  then obtain m d where "c = compacted_record r m d" "validate_operation_record c = Inr ()"
    by (auto simp: compact_settled_Some)
  with c assms(2) show ?thesis by (auto simp: compacted_record_plan)
qed

lemma compaction_safe_witness:
  "\<exists>c. compact_settled_operation sample_to_string id settled_record = Inr (Some c) \<and> operation_is_compacted c"
  using compaction_safe [of settled_record sample_to_string id] settled_record_inv write_run(2) settled_record_nc
  by (auto simp: journal_inv_def record_wf_def sample_to_string_def)

text \<open>
  Compaction is idempotent, and leaves unsettled operations alone: their bodies are still
  needed to re-apply pending steps.
\<close>

theorem compaction_idempotent:
  assumes "compact_settled_operation to_string fingerprint r = Inr (Some c)"
  shows "compact_settled_operation to_string' fingerprint' c = Inr None \<and> operation_is_settled r"
proof -
  from assms obtain m d where "operation_is_settled r" "c = compacted_record r m d"
    by (auto simp: compact_settled_Some)
  then show ?thesis by (simp add: compact_settled_operation_def)
qed

lemma compaction_idempotent_witness:
  "\<exists>c. compact_settled_operation sample_to_string id c = Inr None"
proof -
  have "\<exists>c. compact_settled_operation sample_to_string id settled_record = Inr (Some c)"
    using compact_settled_succeeds settled_record_inv write_run(2) settled_record_nc
    by (simp add: journal_inv_def record_wf_def sample_to_string_def)
  then show ?thesis using compaction_idempotent by blast
qed

end
