(* ===== verification/Api_Error.thy ===== *)
theory Api_Error
  imports Json
begin

text \<open>
  Errors at the HTTP boundary (\<open>error.rs\<close>): the error type, its status, code and public message,
  the JSON envelope and \<open>Retry-After\<close> header of a response, and the classification of private
  causes into a bounded set of categories. Log lines are not modelled. The keyed fingerprint and the
  identifier of the current request (\<open>request_context\<close>) are parameters.
\<close>

section \<open>The error type\<close>

datatype llm_failure_kind =
  AuthFailed | RateLimited | QuotaExhausted | ModelUnsupported | ServerError | RequestFailed

fun llm_failure_as_str :: "llm_failure_kind \<Rightarrow> string" where
  "llm_failure_as_str AuthFailed = ''auth_failed''"
| "llm_failure_as_str RateLimited = ''rate_limited''"
| "llm_failure_as_str QuotaExhausted = ''quota_exhausted''"
| "llm_failure_as_str ModelUnsupported = ''model_unsupported''"
| "llm_failure_as_str ServerError = ''server_error''"
| "llm_failure_as_str RequestFailed = ''request_failed''"

fun llm_failure_code :: "llm_failure_kind \<Rightarrow> string" where
  "llm_failure_code AuthFailed = ''llm_auth_failed''"
| "llm_failure_code RateLimited = ''llm_rate_limited''"
| "llm_failure_code QuotaExhausted = ''llm_quota_exhausted''"
| "llm_failure_code ModelUnsupported = ''llm_model_unsupported''"
| "llm_failure_code ServerError = ''llm_server_error''"
| "llm_failure_code RequestFailed = ''llm_request_failed''"

fun llm_failure_public_message :: "llm_failure_kind \<Rightarrow> string" where
  "llm_failure_public_message AuthFailed = ''LLM provider rejected the configured credentials''"
| "llm_failure_public_message RateLimited = ''LLM provider usage limit reached''"
| "llm_failure_public_message QuotaExhausted = ''LLM provider quota is exhausted''"
| "llm_failure_public_message ModelUnsupported = ''LLM provider does not support the requested model''"
| "llm_failure_public_message ServerError = ''LLM provider is temporarily unavailable''"
| "llm_failure_public_message RequestFailed = ''LLM provider rejected the request''"

record llm_upstream_error =
  le_kind :: llm_failure_kind
  le_provider :: string
  le_model :: string
  le_upstream_status :: "u16 option"
  le_retry_after_seconds :: "u64 option"
  le_attempts :: u8

datatype api_error =
    BadRequest string
  | Validation string string
  | Unauthorized string
  | Forbidden string
  | NotFound string
  | Conflict string
  | PayloadTooLarge
  | TooManyRequests u64
  | ServiceUnavailable u64
  | Timeout
  | LlmUpstream llm_upstream_error
  | Upstream string
  | Internal string

fun status_and_code :: "api_error \<Rightarrow> u16 \<times> string" where
  "status_and_code (BadRequest _) = (400, ''bad_request'')"
| "status_and_code (Validation _ _) = (400, ''validation_error'')"
| "status_and_code (Unauthorized _) = (401, ''unauthorized'')"
| "status_and_code (Forbidden _) = (403, ''forbidden'')"
| "status_and_code (NotFound _) = (404, ''not_found'')"
| "status_and_code (Conflict _) = (409, ''conflict'')"
| "status_and_code PayloadTooLarge = (413, ''payload_too_large'')"
| "status_and_code (TooManyRequests _) = (429, ''too_many_requests'')"
| "status_and_code (ServiceUnavailable _) = (503, ''service_unavailable'')"
| "status_and_code Timeout = (504, ''timeout'')"
| "status_and_code (LlmUpstream error) = (502, llm_failure_code (le_kind error))"
| "status_and_code (Upstream _) = (502, ''upstream_error'')"
| "status_and_code (Internal _) = (500, ''internal_error'')"

fun public_message :: "api_error \<Rightarrow> string" where
  "public_message (BadRequest message) = message"
| "public_message (Validation _ message) = message"
| "public_message (Unauthorized message) = message"
| "public_message (Forbidden message) = message"
| "public_message (NotFound message) = message"
| "public_message (Conflict message) = message"
| "public_message PayloadTooLarge = ''request payload is too large''"
| "public_message (TooManyRequests _) = ''too many requests''"
| "public_message (ServiceUnavailable _) = ''service unavailable''"
| "public_message Timeout = ''request timed out''"
| "public_message (LlmUpstream error) = llm_failure_public_message (le_kind error)"
| "public_message (Upstream _) = ''upstream service unavailable''"
| "public_message (Internal _) = ''internal server error''"

fun private_cause :: "api_error \<Rightarrow> string option" where
  "private_cause (Upstream cause) = Some cause"
| "private_cause (Internal cause) = Some cause"
| "private_cause _ = None"

fun api_retry_after_seconds :: "api_error \<Rightarrow> u64 option" where
  "api_retry_after_seconds (TooManyRequests seconds) = Some seconds"
| "api_retry_after_seconds (ServiceUnavailable seconds) = Some seconds"
| "api_retry_after_seconds (LlmUpstream error) = le_retry_after_seconds error"
| "api_retry_after_seconds _ = None"

section \<open>Responses\<close>

record error_info =
  ei_code :: string
  ei_message :: string
  ei_details :: "json option"

record error_body =
  eb_error :: error_info

abbreviation json_uint :: "'a::len word \<Rightarrow> json" where
  "json_uint n \<equiv> JNumber (PosInt (ucast n))"

text \<open>\<open>if let Some(v) = value { details[key] = json!(v) }\<close>\<close>

definition set_some :: "string \<Rightarrow> json option \<Rightarrow> (string, json) btree_map \<Rightarrow> (string, json) btree_map" where
  "set_some k v m = (case v of None \<Rightarrow> m | Some j \<Rightarrow> bt_insert k j m)"

text \<open>
  The identifier a failure is correlated by: private causes and provider failures get the captured
  one or, without it, \<open>current_id\<close>, what \<open>request_context::current_or_new_id\<close> returns.
\<close>

fun correlated_request_id :: "string \<Rightarrow> string option \<Rightarrow> api_error \<Rightarrow> string option" where
  "correlated_request_id current_id captured (LlmUpstream _) =
     Some (case captured of Some i \<Rightarrow> i | None \<Rightarrow> current_id)"
| "correlated_request_id current_id captured e =
     map_option (\<lambda>_. case captured of Some i \<Rightarrow> i | None \<Rightarrow> current_id) (private_cause e)"

fun error_details :: "api_error \<Rightarrow> string option \<Rightarrow> (string, json) btree_map" where
  "error_details (LlmUpstream error) request_id =
     set_some ''request_id'' (map_option JString request_id)
     (set_some ''retry_after_seconds'' (map_option json_uint (le_retry_after_seconds error))
     (set_some ''upstream_status'' (map_option json_uint (le_upstream_status error))
     (bt_insert ''attempts'' (json_uint (le_attempts error))
     (bt_insert ''model'' (JString (le_model error))
     (bt_insert ''provider'' (JString (le_provider error))
     (bt_insert ''kind'' (JString (llm_failure_as_str (le_kind error)))
     [(''status'', json_uint (fst (status_and_code (LlmUpstream error))))]))))))"
| "error_details (Validation field message) request_id =
     set_some ''request_id'' (map_option JString request_id)
     (bt_insert ''field'' (JString field)
     [(''status'', json_uint (fst (status_and_code (Validation field message))))])"
| "error_details e request_id =
     set_some ''request_id'' (map_option JString request_id)
     [(''status'', json_uint (fst (status_and_code e)))]"

definition public_body :: "string \<Rightarrow> string option \<Rightarrow> api_error \<Rightarrow> error_body" where
  "public_body current_id captured e =
     \<lparr>eb_error =
       \<lparr>ei_code = snd (status_and_code e),
        ei_message = public_message e,
        ei_details = Some (JObject (error_details e (correlated_request_id current_id captured e)))\<rparr>\<rparr>"

record error_response =
  er_status :: u16
  er_body :: error_body
  er_retry_after :: "string option"

text \<open>A decimal number is always a legal header value, so the header is set whenever there is one.\<close>

definition into_response :: "string \<Rightarrow> api_error \<Rightarrow> error_response" where
  "into_response current_id e =
     \<lparr>er_status = fst (status_and_code e),
      er_body = public_body current_id None e,
      er_retry_after = map_option (\<lambda>s. show_nat (unat s)) (api_retry_after_seconds e)\<rparr>"

section \<open>Categories of private causes\<close>

definition meili_error_category :: "string \<Rightarrow> string option \<Rightarrow> string" where
  "meili_error_category code error_type =
     (if code \<in> {''invalid_api_key'', ''missing_authorization_header'', ''missing_master_key''}
      then ''authentication''
      else if code = ''too_many_search_requests'' then ''rate_limited''
      else if code \<in> {''database_size_limit_reached'', ''no_space_left_on_device'',
                        ''too_many_open_files'', ''io_error''} then ''storage''
      else if code \<in> {''index_already_exists'', ''index_primary_key_already_exists'',
                        ''api_key_already_exists''} then ''conflict''
      else if code = ''not_found'' then ''not_found''
      else if ends_with code ''_not_found'' then ''not_found''
      else if starts_with code ''immutable_'' then ''conflict''
      else if error_type = Some ''auth'' then ''authentication''
      else if error_type = Some ''invalid_request'' then ''invalid_request''
      else if error_type = Some ''internal'' \<or> error_type = Some ''system'' then ''upstream_internal''
      else ''unspecified'')"

definition marker_token :: "string \<Rightarrow> string \<Rightarrow> string option" where
  "marker_token cause marker =
     (case split_once marker cause of
        None \<Rightarrow> None
      | Some (_, rest) \<Rightarrow>
          (let token = takeWhile (\<lambda>c. is_ascii_alphanumeric c \<or> c = CHR ''_'') rest
           in if token = [] then None else Some token))"

definition meili_cause_category :: "string \<Rightarrow> string option" where
  "meili_cause_category cause =
     map_option (\<lambda>code. meili_error_category code (marker_token cause ''meili_type=''))
       (marker_token cause ''meili_code='')"

definition safe_cause_category :: "string \<Rightarrow> string" where
  "safe_cause_category cause =
     (case meili_cause_category cause of
        Some category \<Rightarrow> category
      | None \<Rightarrow>
          (let summary = ascii_lower (concat (take 2048 (chars cause)));
               has = (\<lambda>s. str_contains s summary)
           in if has ''timed out'' \<or> has ''timeout'' then ''timeout''
              else if has ''rate limit'' \<or> has ''status 429'' then ''rate_limited''
              else if has ''quota'' \<or> has ''credit'' \<or> has ''status 402'' then ''quota''
              else if has ''unauthorized'' \<or> has ''authentication'' \<or> has ''status 401''
                \<or> has ''status 403'' then ''authentication''
              else if has ''connect'' \<or> has ''connection'' \<or> has ''dns'' then ''connection''
              else if has ''parse'' \<or> has ''decode'' \<or> has ''encode'' \<or> has ''json''
                then ''invalid_data''
              else if has ''lock poisoned'' then ''state_lock''
              else if has ''invalid'' \<or> has ''missing'' then ''invariant''
              else ''unspecified''))"

record safe_cause_diagnostic =
  scd_category :: string
  scd_fingerprint :: string

definition safe_value_fingerprint :: "(string \<Rightarrow> string) \<Rightarrow> string \<Rightarrow> string \<Rightarrow> string" where
  "safe_value_fingerprint fingerprint_current namespace value =
     ''hmac:'' @ fingerprint_current (namespace @ [CHR 0x00] @ value)"

definition safe_cause_diagnostic :: "(string \<Rightarrow> string) \<Rightarrow> string \<Rightarrow> safe_cause_diagnostic" where
  "safe_cause_diagnostic fingerprint_current cause =
     \<lparr>scd_category = safe_cause_category cause,
      scd_fingerprint = safe_value_fingerprint fingerprint_current ''cause'' cause\<rparr>"

section \<open>Lemmas\<close>

definition cause_categories :: "string list" where
  "cause_categories =
     [''authentication'', ''rate_limited'', ''storage'', ''conflict'', ''not_found'', ''invalid_request'',
      ''upstream_internal'', ''timeout'', ''quota'', ''connection'', ''invalid_data'', ''state_lock'',
      ''invariant'', ''unspecified'']"

lemma if_mem: "a \<in> S \<Longrightarrow> b \<in> S \<Longrightarrow> (if c then a else b) \<in> S"
  by simp

lemma meili_category_bounded: "meili_error_category c t \<in> set cause_categories"
  unfolding meili_error_category_def by (intro if_mem; simp add: cause_categories_def)

lemma cause_category_bounded: "safe_cause_category cause \<in> set cause_categories"
proof (cases "meili_cause_category cause")
  case None
  then show ?thesis
    unfolding safe_cause_category_def Let_def None option.case
    by (intro if_mem; simp add: cause_categories_def)
next
  case (Some c)
  then have "c \<in> set cause_categories"
    using meili_category_bounded by (auto simp: meili_cause_category_def)
  with Some show ?thesis by (simp add: safe_cause_category_def)
qed

lemma bt_get_set_some [simp]:
  "bt_get (set_some k v m) k' = (if k' = k then (case v of None \<Rightarrow> bt_get m k | Some j \<Rightarrow> Some j) else bt_get m k')"
  by (simp add: set_some_def bt_get_insert split: option.split)

lemma error_details_status: "bt_get (error_details e i) ''status'' = Some (json_uint (fst (status_and_code e)))"
  by (cases e) (simp_all add: bt_get_insert)

end
