(* ===== verification/Rate_Limit.thy ===== *)
theory Rate_Limit
  imports Api_Error
begin

text \<open>
  The fixed-window rate limiter (\<open>http_boundary.rs\<close>) and its specification. The code keeps one table
  of windows for all keys and drops expired entries now and then; the specification is one window
  per key without any table. For calls in the order of their instants the two agree, so a key's
  verdicts depend on its own calls only, and the number of accepted calls is bounded.

  An \<open>Instant\<close> and a \<open>Duration\<close> are nanoseconds. The mutex is not modelled: a call holds it from
  start to end and nothing in it panics, so it is never poisoned.
\<close>

section \<open>The code\<close>

record rate_window =
  rw_started_at :: int
  rw_requests :: u64

record rate_limiter_state =
  rl_windows :: "string \<Rightarrow> rate_window option"
  rl_last_cleanup :: int

record rate_limiter =
  rl_max_requests :: u64
  rl_window :: int

definition rate_limit_window :: int where
  "rate_limit_window = 60 * 1000000000"

definition limiter_new :: "u64 \<Rightarrow> rate_limiter" where
  "limiter_new requests_per_minute = \<lparr>rl_max_requests = requests_per_minute, rl_window = rate_limit_window\<rparr>"

definition limiter_state_new :: "int \<Rightarrow> rate_limiter_state" where
  "limiter_state_new now = \<lparr>rl_windows = Map.empty, rl_last_cleanup = now\<rparr>"

definition checked_duration_since :: "int \<Rightarrow> int \<Rightarrow> int option" where
  "checked_duration_since now earlier = (if earlier \<le> now then Some (now - earlier) else None)"

definition is_some_and :: "'a option \<Rightarrow> ('a \<Rightarrow> bool) \<Rightarrow> bool" where
  "is_some_and x P = (case x of None \<Rightarrow> False | Some a \<Rightarrow> P a)"

definition retain_windows ::
  "(rate_window \<Rightarrow> bool) \<Rightarrow> (string \<Rightarrow> rate_window option) \<Rightarrow> string \<Rightarrow> rate_window option" where
  "retain_windows P m = (\<lambda>k. case m k of None \<Rightarrow> None | Some e \<Rightarrow> if P e then Some e else None)"

definition cleanup :: "rate_limiter \<Rightarrow> int \<Rightarrow> rate_limiter_state \<Rightarrow> rate_limiter_state" where
  "cleanup self now state =
     (if is_some_and (checked_duration_since now (rl_last_cleanup state)) (\<lambda>elapsed. rl_window self \<le> elapsed)
      then \<lparr>rl_windows = retain_windows (\<lambda>entry.
              is_some_and (checked_duration_since now (rw_started_at entry)) (\<lambda>elapsed. elapsed < rl_window self))
              (rl_windows state),
            rl_last_cleanup = now\<rparr>
      else state)"

text \<open>The seconds a rejected caller is told to wait: the rest of the window, rounded up, at least 1.\<close>

definition retry_after :: "rate_limiter \<Rightarrow> int \<Rightarrow> rate_window \<Rightarrow> u64" where
  "retry_after self now entry =
     (let remaining = max 0 (rl_window self - max 0 (now - rw_started_at entry))
      in max (sat_add (of_nat (nat (remaining div 1000000000))) (if 0 < remaining mod 1000000000 then 1 else 0)) 1)"

text \<open>The entry of a key after the window check, before the request is counted.\<close>

definition current_window :: "rate_limiter \<Rightarrow> int \<Rightarrow> rate_window option \<Rightarrow> rate_window" where
  "current_window self now entry =
     (let e = (case entry of Some e \<Rightarrow> e | None \<Rightarrow> \<lparr>rw_started_at = now, rw_requests = 0\<rparr>);
          elapsed = (case checked_duration_since now (rw_started_at e) of Some d \<Rightarrow> d | None \<Rightarrow> 0)
      in if rl_window self \<le> elapsed then \<lparr>rw_started_at = now, rw_requests = 0\<rparr> else e)"

definition check_at ::
  "rate_limiter \<Rightarrow> rate_limiter_state \<Rightarrow> string \<Rightarrow> int \<Rightarrow> (api_error + unit) \<times> rate_limiter_state" where
  "check_at self state key now =
     (let state = cleanup self now state;
          entry = current_window self now (rl_windows state key)
      in if rl_max_requests self \<le> rw_requests entry
         then (Inl (TooManyRequests (retry_after self now entry)),
               state\<lparr>rl_windows := (rl_windows state)(key \<mapsto> entry)\<rparr>)
         else (Inr (),
               state\<lparr>rl_windows := (rl_windows state)
                 (key \<mapsto> entry\<lparr>rw_requests := sat_add (rw_requests entry) 1\<rparr>)\<rparr>))"

text \<open>A sequence of calls, in the order in which they hold the lock.\<close>

fun check_all ::
  "rate_limiter \<Rightarrow> rate_limiter_state \<Rightarrow> (string \<times> int) list \<Rightarrow> (api_error + unit) list" where
  "check_all self state [] = []"
| "check_all self state ((key, now) # calls) =
     (let (verdict, state') = check_at self state key now in verdict # check_all self state' calls)"

section \<open>The specification: one window per key\<close>

definition spec_check ::
  "rate_limiter \<Rightarrow> rate_window option \<Rightarrow> int \<Rightarrow> (api_error + unit) \<times> rate_window option" where
  "spec_check self w now =
     (let entry = current_window self now w
      in if rl_max_requests self \<le> rw_requests entry
         then (Inl (TooManyRequests (retry_after self now entry)), Some entry)
         else (Inr (), Some (entry\<lparr>rw_requests := sat_add (rw_requests entry) 1\<rparr>)))"

fun spec_all :: "rate_limiter \<Rightarrow> rate_window option \<Rightarrow> int list \<Rightarrow> (api_error + unit) list" where
  "spec_all self w [] = []"
| "spec_all self w (now # nows) =
     (let (verdict, w') = spec_check self w now in verdict # spec_all self w' nows)"

text \<open>
  The table agrees with the window of the specification when it holds the same entry, or none and
  the specification's one has expired.
\<close>

definition represents :: "rate_limiter \<Rightarrow> int \<Rightarrow> rate_window option \<Rightarrow> rate_window option \<Rightarrow> bool" where
  "represents self now c w =
     ((c = w \<or> c = None \<and> (\<exists>e. w = Some e \<and> rl_window self \<le> now - rw_started_at e))
      \<and> (\<forall>e. c = Some e \<longrightarrow> rw_started_at e \<le> now))"

lemma represents_later: "represents self now c w \<Longrightarrow> now \<le> now' \<Longrightarrow> represents self now' c w"
  by (auto simp: represents_def)

lemma represents_current:
  assumes "represents self now c w" and "0 < rl_window self"
  shows "current_window self now c = current_window self now w"
  using assms by (auto simp: represents_def current_window_def checked_duration_since_def Let_def)

lemma represents_cleanup:
  assumes "represents self now (rl_windows st k) w"
  shows "represents self now (rl_windows (cleanup self now st) k) w"
  using assms
  by (auto simp: represents_def cleanup_def is_some_and_def checked_duration_since_def retain_windows_def
      not_less split: option.splits)

lemma current_window_started:
  assumes "\<And>e. c = Some e \<Longrightarrow> rw_started_at e \<le> now"
  shows "rw_started_at (current_window self now c) \<le> now"
  using assms by (auto simp: current_window_def Let_def split: option.split)

lemma check_at_own:
  assumes "represents self now (rl_windows st k) w" and "0 < rl_window self"
  shows "fst (check_at self st k now) = fst (spec_check self w now)"
    and "represents self now (rl_windows (snd (check_at self st k now)) k) (snd (spec_check self w now))"
proof -
  note c = represents_cleanup [OF assms(1)]
  note eq = represents_current [OF c assms(2)]
  show "fst (check_at self st k now) = fst (spec_check self w now)"
    by (simp add: check_at_def spec_check_def eq Let_def)
  have "rw_started_at (current_window self now w) \<le> now"
    using current_window_started [of "rl_windows (cleanup self now st) k" now self] c eq
    by (simp add: represents_def)
  then show "represents self now (rl_windows (snd (check_at self st k now)) k) (snd (spec_check self w now))"
    by (simp add: check_at_def spec_check_def eq Let_def represents_def)
qed

lemma check_at_other:
  assumes "represents self now (rl_windows st k) w" and "k' \<noteq> k"
  shows "represents self now (rl_windows (snd (check_at self st k' now)) k) w"
  using represents_cleanup [OF assms(1)] assms(2) by (simp add: check_at_def Let_def)

definition own_calls :: "string \<Rightarrow> (string \<times> int) list \<Rightarrow> (string \<times> int) list" where
  "own_calls k calls = filter (\<lambda>c. fst c = k) calls"

lemma limiter_refines:
  assumes "0 < rl_window self" and "represents self t (rl_windows st k) w" and "sorted (t # map snd calls)"
  shows "filter (\<lambda>p. fst (fst p) = k) (zip calls (check_all self st calls))
    = zip (own_calls k calls) (spec_all self w (map snd (own_calls k calls)))"
  using assms(2,3)
proof (induction calls arbitrary: st w t)
  case (Cons c calls)
  obtain k' now where c: "c = (k', now)" by (cases c)
  have rep: "represents self now (rl_windows st k) w"
    using Cons.prems c by (auto intro: represents_later)
  have sorted: "sorted (now # map snd calls)" using Cons.prems c by simp
  show ?case
  proof (cases "k' = k")
    case True
    note own = check_at_own [OF rep assms(1)]
    show ?thesis
      using Cons.IH [OF own(2) sorted] own(1) True c
      by (simp add: own_calls_def case_prod_beta Let_def)
  next
    case False
    show ?thesis
      using Cons.IH [OF check_at_other [OF rep False] sorted] False c
      by (simp add: own_calls_def case_prod_beta Let_def)
  qed
qed (simp add: own_calls_def)

section \<open>How many calls are accepted\<close>

text \<open>Calls accepted at an instant of \<open>[t, t + window)\<close>.\<close>

fun accepted_within :: "int \<Rightarrow> int \<Rightarrow> ((string \<times> int) \<times> (api_error + unit)) list \<Rightarrow> nat" where
  "accepted_within t d [] = 0"
| "accepted_within t d (((key, now), verdict) # rest) =
     (if verdict = Inr () \<and> t \<le> now \<and> now < t + d then 1 else 0) + accepted_within t d rest"

lemma accepted_within_late: "(\<forall>p\<in>set ps. t + d \<le> snd (fst p)) \<Longrightarrow> accepted_within t d ps = 0"
  by (induction t d ps rule: accepted_within.induct) auto

text \<open>What a window still admits for calls at or after \<open>t\<close>.\<close>

definition window_budget :: "rate_limiter \<Rightarrow> int \<Rightarrow> rate_window option \<Rightarrow> nat" where
  "window_budget self t w =
     (case w of
        None \<Rightarrow> unat (rl_max_requests self)
      | Some e \<Rightarrow>
          (if t \<le> rw_started_at e then unat (rl_max_requests self) - unat (rw_requests e)
           else unat (rl_max_requests self) - unat (rw_requests e) + unat (rl_max_requests self)))"

lemma current_window_budget:
  assumes "0 < rl_window self" and "t \<le> now" and "now < t + rl_window self"
  shows "window_budget self t (Some (current_window self now w)) \<le> window_budget self t w"
  using assms
  by (auto simp: window_budget_def current_window_def checked_duration_since_def Let_def split: option.split)

lemma counted_budget:
  assumes "rw_requests e < rl_max_requests self"
  shows "Suc (window_budget self t (Some (e\<lparr>rw_requests := sat_add (rw_requests e) 1\<rparr>)))
    \<le> window_budget self t (Some e)"
proof -
  have lt: "unat (rw_requests e) < unat (rl_max_requests self)" using assms by (simp add: word_less_nat_alt)
  moreover have "unat (rl_max_requests self) < 2 ^ 64"
    using unsigned_less [of "rl_max_requests self", where ?'a = nat] by simp
  ultimately have "unat (sat_add (rw_requests e) 1) = Suc (unat (rw_requests e))"
    by (simp add: unat_sat_add)
  with lt show ?thesis by (auto simp: window_budget_def)
qed

lemma spec_check_budget:
  assumes "0 < rl_window self" and "t \<le> now" and "now < t + rl_window self"
  shows "(if fst (spec_check self w now) = Inr () then 1 else 0)
    + window_budget self t (snd (spec_check self w now)) \<le> window_budget self t w"
  using current_window_budget [OF assms, of w] counted_budget [of "current_window self now w" self t]
  by (auto simp: spec_check_def Let_def not_le)

lemma accepted_after:
  assumes "0 < rl_window self" and "\<forall>c\<in>set calls. t \<le> snd c" and "sorted (map snd calls)"
  shows "accepted_within t (rl_window self) (zip calls (spec_all self w (map snd calls)))
    \<le> window_budget self t w"
  using assms(2,3)
proof (induction calls arbitrary: w)
  case (Cons c calls)
  obtain k now where c: "c = (k, now)" by (cases c)
  show ?case
  proof (cases "now < t + rl_window self")
    case True
    have "t \<le> now" using Cons.prems c by simp
    from spec_check_budget [OF assms(1) this True, of w]
      Cons.IH [of "snd (spec_check self w now)"] Cons.prems c True show ?thesis
      by (auto simp: case_prod_beta Let_def split: if_splits)
  next
    case False
    have "\<forall>p\<in>set (zip (c # calls) (spec_all self w (map snd (c # calls)))). t + rl_window self \<le> snd (fst p)"
      using False Cons.prems(2) c by (fastforce dest: set_zip_leftD)
    then show ?thesis by (simp only: accepted_within_late)
  qed
qed simp

lemma accepted_bound:
  assumes "0 < rl_window self" and "sorted (map snd calls)"
  shows "accepted_within t (rl_window self) (zip calls (spec_all self w (map snd calls)))
    \<le> 2 * unat (rl_max_requests self)"
  using assms(2)
proof (induction calls arbitrary: w)
  case (Cons c calls)
  show ?case
  proof (cases "t \<le> snd c")
    case True
    have "\<forall>x\<in>set (c # calls). t \<le> snd x" using True Cons.prems by fastforce
    from accepted_after [OF assms(1) this Cons.prems, of w]
    have "accepted_within t (rl_window self) (zip (c # calls) (spec_all self w (map snd (c # calls))))
      \<le> window_budget self t w" .
    also have "\<dots> \<le> 2 * unat (rl_max_requests self)"
      by (auto simp: window_budget_def split: option.split)
    finally show ?thesis .
  next
    case False
    with Cons show ?thesis by (cases c) (auto simp: case_prod_beta Let_def)
  qed
qed simp

lemma accepted_within_own:
  "accepted_within t d (filter (\<lambda>p. fst (fst p) = k) ps)
     = length (filter (\<lambda>p. fst (fst p) = k \<and> snd p = Inr () \<and> t \<le> snd (fst p) \<and> snd (fst p) < t + d) ps)"
  by (induction ps) auto

lemma sorted_own: "sorted (map snd calls) \<Longrightarrow> sorted (map snd (own_calls k calls))"
  unfolding own_calls_def by (rule sorted_filter)

section \<open>The waiting time\<close>

lemma ceil_seconds:
  assumes "0 \<le> x"
  shows "x \<le> 1000000000 * int (nat (x div 1000000000) + unat (if 0 < x mod 1000000000 then 1 else 0 :: u64))"
proof -
  obtain q m where q: "q = x div 1000000000" and m: "m = x mod 1000000000" by blast
  have "x = 1000000000 * q + m" "0 \<le> m" "m < 1000000000" "0 \<le> q" using assms by (simp_all add: q m)
  then show ?thesis unfolding q [symmetric] m [symmetric] by (cases "0 < m") simp_all
qed

text \<open>Whole seconds of a duration, rounded up and at least one, as a \<open>u64\<close>.\<close>

lemma word_seconds:
  assumes "n < 2 ^ 63"
  shows "unat (max (sat_add (of_nat n) u) (1 :: u64)) = max (min (n + unat u) (2 ^ 64 - 1)) 1"
proof -
  have "unat (of_nat n :: u64) = n" using assms by (simp add: unat_of_nat)
  then have "unat (sat_add (of_nat n) u) = min (n + unat u) (2 ^ 64 - 1)"
    by (simp add: unat_sat_add)
  then show ?thesis by (simp add: max_def word_le_nat_alt min_def)
qed

lemma retry_after_bounds:
  assumes "0 \<le> rl_window self" and "rl_window self < 2 ^ 64"
  shows "1 \<le> unat (retry_after self now e)"
    and "rl_window self - max 0 (now - rw_started_at e) \<le> 1000000000 * int (unat (retry_after self now e))"
proof -
  obtain r where r: "r = max 0 (rl_window self - max 0 (now - rw_started_at e))" by blast
  obtain up where up: "up = (if 0 < r mod 1000000000 then 1 else 0 :: u64)" by blast
  have "0 \<le> r" "r < 2 ^ 64" using assms by (auto simp: r)
  then have small: "nat (r div 1000000000) < 2 ^ 62" by (simp add: nat_less_iff)
  have "unat up \<le> 1" by (simp add: up)
  with small have "nat (r div 1000000000) + unat up \<le> 2 ^ 64 - 1" by simp
  then have val: "unat (retry_after self now e) = max (nat (r div 1000000000) + unat up) 1"
    unfolding retry_after_def Let_def r [symmetric] up [symmetric]
    using word_seconds [of "nat (r div 1000000000)" up] small by (simp add: min_absorb1)
  show "1 \<le> unat (retry_after self now e)" unfolding val by (rule max.cobounded2)
  have "rl_window self - max 0 (now - rw_started_at e) \<le> r" by (simp add: r)
  also have "\<dots> \<le> 1000000000 * int (nat (r div 1000000000) + unat up)"
    unfolding up using \<open>0 \<le> r\<close> by (rule ceil_seconds)
  also have "\<dots> \<le> 1000000000 * int (unat (retry_after self now e))"
    unfolding val by (intro mult_left_mono of_nat_mono max.cobounded1) simp
  finally show "rl_window self - max 0 (now - rw_started_at e) \<le> 1000000000 * int (unat (retry_after self now e))" .
qed

lemma expired_accepted:
  assumes "0 < rl_max_requests self" and "0 < rl_window self"
    and "c = None \<or> (\<exists>e. c = Some e \<and> rl_window self \<le> now - rw_started_at e)"
  shows "rw_requests (current_window self now c) < rl_max_requests self"
  using assms by (auto simp: current_window_def checked_duration_since_def Let_def)

lemma check_at_expired:
  assumes "0 < rl_max_requests self" and "0 < rl_window self"
    and "rl_windows st k = Some e" and "rl_window self \<le> now - rw_started_at e"
  shows "fst (check_at self st k now) = Inr ()"
proof -
  have "rl_windows (cleanup self now st) k = None \<or> rl_windows (cleanup self now st) k = Some e"
    using assms(3) by (auto simp: cleanup_def retain_windows_def)
  then have "rw_requests (current_window self now (rl_windows (cleanup self now st) k)) < rl_max_requests self"
    using expired_accepted [OF assms(1,2)] assms(4) by blast
  then show ?thesis by (auto simp: check_at_def Let_def not_le)
qed

lemma check_at_rejected:
  assumes "fst (check_at self st k now) = Inl err" and "0 < rl_window self"
    and "\<And>e. rl_windows st k = Some e \<Longrightarrow> rw_started_at e \<le> now"
  obtains e where "err = TooManyRequests (retry_after self now e)"
    "rl_windows (snd (check_at self st k now)) k = Some e" "rw_started_at e \<le> now"
proof -
  let ?e = "current_window self now (rl_windows (cleanup self now st) k)"
  have "err = TooManyRequests (retry_after self now ?e)"
    "rl_windows (snd (check_at self st k now)) k = Some ?e"
    using assms(1) by (auto simp: check_at_def Let_def split: if_splits)
  moreover have "rw_started_at ?e \<le> now"
    using assms(3) by (intro current_window_started) (auto simp: cleanup_def retain_windows_def split: if_splits option.splits)
  ultimately show thesis by (rule that)
qed

section \<open>Properties\<close>

definition sample_limiter :: rate_limiter where
  "sample_limiter = \<lparr>rl_max_requests = 1, rl_window = 10000000000\<rparr>"

definition sample_calls :: "(string \<times> int) list" where
  "sample_calls = [(''a'', 0), (''b'', 1), (''a'', 2), (''a'', 10000000001)]"

text \<open>
  C32: for calls in the order of their instants the shared table of windows, with its clean-ups,
  gives every key exactly the verdicts of its own fixed window: no other key's calls matter.
\<close>

theorem rate_limiter_per_key:
  assumes "0 < rl_window self" and "sorted (t # map snd calls)"
  shows "filter (\<lambda>p. fst (fst p) = k) (zip calls (check_all self (limiter_state_new t) calls))
    = zip (own_calls k calls) (spec_all self None (map snd (own_calls k calls)))"
  by (rule limiter_refines [OF assms(1) _ assms(2)]) (simp add: represents_def limiter_state_new_def)

lemma rate_limiter_per_key_witness:
  "filter (\<lambda>p. fst (fst p) = ''a'') (zip sample_calls (check_all sample_limiter (limiter_state_new 0) sample_calls))
    = zip (own_calls ''a'' sample_calls) (spec_all sample_limiter None (map snd (own_calls ''a'' sample_calls)))"
  by (rule rate_limiter_per_key) (simp_all add: sample_limiter_def sample_calls_def)

text \<open>
  No principal gets more than twice the configured number of requests through in any interval
  as long as the window (the fixed-window bound), whatever the other keys do.
\<close>

theorem rate_limiter_bound:
  assumes "0 < rl_window self" and "sorted (t0 # map snd calls)"
  shows "length (filter (\<lambda>p. fst (fst p) = k \<and> snd p = Inr () \<and> t \<le> snd (fst p) \<and> snd (fst p) < t + rl_window self)
      (zip calls (check_all self (limiter_state_new t0) calls)))
    \<le> 2 * unat (rl_max_requests self)"
proof -
  have "filter (\<lambda>p. fst (fst p) = k) (zip calls (check_all self (limiter_state_new t0) calls))
    = zip (own_calls k calls) (spec_all self None (map snd (own_calls k calls)))"
    by (rule limiter_refines [OF assms(1) _ assms(2)]) (simp add: represents_def limiter_state_new_def)
  then show ?thesis
    using accepted_bound [OF assms(1) sorted_own, of calls t k None] assms(2)
    by (simp add: accepted_within_own [symmetric])
qed

lemma rate_limiter_bound_witness:
  "length (filter (\<lambda>p. fst (fst p) = ''a'' \<and> snd p = Inr () \<and> 0 \<le> snd (fst p) \<and> snd (fst p) < 10000000000)
      (zip sample_calls (check_all sample_limiter (limiter_state_new 0) sample_calls))) \<le> 2"
  using rate_limiter_bound [of sample_limiter 0 sample_calls "''a''" 0]
  by (simp add: sample_limiter_def sample_calls_def)

text \<open>
  A rejection is a 429 whose \<open>Retry-After\<close> is at least one second and long enough: the same
  key is accepted again by any call that waits that many seconds.
\<close>

theorem retry_after_sufficient:
  assumes "0 < rl_max_requests self" and "0 < rl_window self" and "rl_window self < 2 ^ 64"
    and "\<And>e. rl_windows st k = Some e \<Longrightarrow> rw_started_at e \<le> now"
    and "fst (check_at self st k now) = Inl err"
  shows "\<exists>s. err = TooManyRequests s \<and> 1 \<le> unat s
    \<and> (\<forall>now'. now + 1000000000 * int (unat s) \<le> now'
         \<longrightarrow> fst (check_at self (snd (check_at self st k now)) k now') = Inr ())"
proof -
  from check_at_rejected [OF assms(5,2,4)] obtain e where
    e: "err = TooManyRequests (retry_after self now e)"
      "rl_windows (snd (check_at self st k now)) k = Some e" "rw_started_at e \<le> now" by blast
  note b = retry_after_bounds [of self now e]
  have "fst (check_at self (snd (check_at self st k now)) k now') = Inr ()"
    if "now + 1000000000 * int (unat (retry_after self now e)) \<le> now'" for now'
    using b(2) assms(2,3) e(3) that by (intro check_at_expired [OF assms(1,2) e(2)]) linarith
  with e(1) b(1) assms(2,3) show ?thesis by auto
qed

lemma retry_after_sufficient_witness:
  "fst (check_at sample_limiter (snd (check_at sample_limiter (snd (check_at sample_limiter (limiter_state_new 0) ''a'' 0))
      ''a'' 2500000000)) ''a'' 10500000000) = Inr ()"
proof -
  let ?st = "snd (check_at sample_limiter (limiter_state_new 0) ''a'' 0)"
  have r: "fst (check_at sample_limiter ?st ''a'' 2500000000) = Inl (TooManyRequests 8)" by code_simp
  have w: "rl_windows ?st ''a'' = Some \<lparr>rw_started_at = 0, rw_requests = 1\<rparr>" by code_simp
  have "\<exists>s. TooManyRequests 8 = TooManyRequests s \<and> 1 \<le> unat s
    \<and> (\<forall>now'. 2500000000 + 1000000000 * int (unat s) \<le> now'
         \<longrightarrow> fst (check_at sample_limiter (snd (check_at sample_limiter ?st ''a'' 2500000000)) ''a'' now') = Inr ())"
    by (rule retry_after_sufficient [OF _ _ _ _ r]) (use w in \<open>simp_all add: sample_limiter_def\<close>)
  then show ?thesis by simp
qed

end
