(* ===== verification/Capacity.thy ===== *)
theory Capacity
  imports Rate_Limit Machine
begin

text \<open>
  Load shedding (\<open>http_boundary.rs\<close>): the two semaphores, the requests that hold their permits and
  the leases that keep them until a response body ends, errs, is dropped or outlives its deadline.
  A request is a phase in a list, so its index names it; the events are what the runtime can do to
  it, in any order. The handler and the body are not modelled, only when they finish.
\<close>

section \<open>Paths\<close>

definition live_path :: string where "live_path = ''/livez''"
definition ready_path :: string where "ready_path = ''/readyz''"
definition public_ready_rate_key :: string where "public_ready_rate_key = ''public-readiness''"

definition sync_ingest_paths :: "string list" where
  "sync_ingest_paths = [''/v1/ingest/uploads:sync'', ''/v1/ingest/files:sync'']"

definition pressure_retry_after_seconds :: u64 where
  "pressure_retry_after_seconds = 1"

definition bypasses_global_limits :: "string \<Rightarrow> bool" where
  "bypasses_global_limits path = (path = live_path)"

definition store_owns_timeout :: "string \<Rightarrow> bool" where
  "store_owns_timeout path = (path \<in> set sync_ingest_paths)"

record http_boundary_config =
  hb_max_json_bytes :: usize
  hb_request_timeout :: int
  hb_sync_ingest_timeout :: int
  hb_in_flight :: nat
  hb_sync_ingest_in_flight :: nat
  hb_rate_limiter :: rate_limiter

text \<open>\<open>HttpBoundaryState::new\<close> over the five settings it reads; milliseconds become nanoseconds.\<close>

definition http_boundary_new :: "usize \<Rightarrow> u64 \<Rightarrow> u64 \<Rightarrow> nat \<Rightarrow> nat \<Rightarrow> u64 \<Rightarrow> http_boundary_config" where
  "http_boundary_new max_json_bytes request_timeout_ms sync_ingest_timeout_ms max_in_flight_requests
     ingest_max_concurrent_tasks rate_limit_requests_per_minute =
     \<lparr>hb_max_json_bytes = max_json_bytes,
      hb_request_timeout = uint request_timeout_ms * 1000000,
      hb_sync_ingest_timeout = uint sync_ingest_timeout_ms * 1000000,
      hb_in_flight = max_in_flight_requests,
      hb_sync_ingest_in_flight = ingest_max_concurrent_tasks,
      hb_rate_limiter = limiter_new rate_limit_requests_per_minute\<rparr>"

definition timeout_for_path :: "http_boundary_config \<Rightarrow> string \<Rightarrow> int" where
  "timeout_for_path cfg path =
     (if path \<in> set sync_ingest_paths then hb_sync_ingest_timeout cfg else hb_request_timeout cfg)"

text \<open>\<open>enforce_timeout\<close>: the deadline a request runs under, if this layer sets one.\<close>

definition request_deadline :: "http_boundary_config \<Rightarrow> string \<Rightarrow> int \<Rightarrow> int option" where
  "request_deadline cfg path now =
     (if bypasses_global_limits path \<or> store_owns_timeout path then None
      else Some (now + timeout_for_path cfg path))"

text \<open>\<open>is_multipart\<close> on the text of the \<open>Content-Type\<close> header.\<close>

definition is_multipart :: "string option \<Rightarrow> bool" where
  "is_multipart content_type =
     is_some_and content_type (\<lambda>value.
       eq_ignore_ascii_case (trim (hd (split_on CHR '';'' value))) ''multipart/form-data'')"

section \<open>Requests and leases\<close>

text \<open>
  \<open>Passed\<close>: no permits are involved. \<open>Handling sync\<close>: the stack of \<open>load_shed\<close> holds the global
  permit, and the sync-ingest one when \<open>sync\<close>. \<open>Streaming permits deadline\<close>: a \<open>CapacityBody\<close> with
  its lease, \<open>None\<close> once the permits have been taken. \<open>Closed\<close>: the request was cancelled or its
  body dropped.
\<close>

datatype request_phase = Passed | Handling bool | Streaming "bool option" int | Closed

record boundary_state =
  bs_available :: nat
  bs_sync_available :: nat
  bs_limiter :: rate_limiter_state
  bs_requests :: "request_phase list"

definition boundary_init :: "http_boundary_config \<Rightarrow> int \<Rightarrow> boundary_state" where
  "boundary_init cfg now =
     \<lparr>bs_available = hb_in_flight cfg, bs_sync_available = hb_sync_ingest_in_flight cfg,
      bs_limiter = limiter_state_new now, bs_requests = []\<rparr>"

definition shed_error :: api_error where
  "shed_error = ServiceUnavailable pressure_retry_after_seconds"

definition try_acquire :: "boundary_state \<Rightarrow> api_error + boundary_state" where
  "try_acquire st =
     (if bs_available st = 0 then Inl shed_error
      else Inr (st\<lparr>bs_available := bs_available st - 1\<rparr>))"

definition try_acquire_sync_ingest :: "boundary_state \<Rightarrow> api_error + boundary_state" where
  "try_acquire_sync_ingest st =
     (if bs_sync_available st = 0 then Inl shed_error
      else Inr (st\<lparr>bs_sync_available := bs_sync_available st - 1\<rparr>))"

text \<open>Dropping the permits of a request or lease: back to their semaphores.\<close>

definition drop_permits :: "bool \<Rightarrow> boundary_state \<Rightarrow> boundary_state" where
  "drop_permits sync st =
     st\<lparr>bs_available := bs_available st + 1,
        bs_sync_available := (if sync then bs_sync_available st + 1 else bs_sync_available st)\<rparr>"

text \<open>
  \<open>load_shed\<close>: an error response (the state is what the calls before it left), or the new request.
  The global permit is dropped when the sync-ingest one cannot be acquired.
\<close>

definition load_shed ::
  "http_boundary_config \<Rightarrow> boundary_state \<Rightarrow> string \<Rightarrow> int \<Rightarrow> (api_error + unit) \<times> boundary_state" where
  "load_shed cfg st path now =
     (if bypasses_global_limits path then (Inr (), st\<lparr>bs_requests := bs_requests st @ [Passed]\<rparr>)
      else
        (let (verdict, limiter) =
               (if path = ready_path
                then check_at (hb_rate_limiter cfg) (bs_limiter st) public_ready_rate_key now
                else (Inr (), bs_limiter st));
             st = st\<lparr>bs_limiter := limiter\<rparr>
         in case verdict of Inl error \<Rightarrow> (Inl error, st) | Inr _ \<Rightarrow>
            (case try_acquire st of Inl error \<Rightarrow> (Inl error, st) | Inr st1 \<Rightarrow>
              if store_owns_timeout path then
                (case try_acquire_sync_ingest st1 of
                   Inl error \<Rightarrow> (Inl error, drop_permits False st1)
                 | Inr st2 \<Rightarrow> (Inr (), st2\<lparr>bs_requests := bs_requests st2 @ [Handling True]\<rparr>))
              else (Inr (), st1\<lparr>bs_requests := bs_requests st1 @ [Handling False]\<rparr>))))"

text \<open>\<open>CapacityLease::release\<close>: the permits are taken at most once.\<close>

definition release_lease :: "nat \<Rightarrow> boundary_state \<Rightarrow> boundary_state" where
  "release_lease i st =
     (case bs_requests st ! i of
        Streaming (Some sync) deadline \<Rightarrow>
          drop_permits sync (st\<lparr>bs_requests := (bs_requests st)[i := Streaming None deadline]\<rparr>)
      | _ \<Rightarrow> st)"

datatype boundary_event =
    Arrive string int
  | Respond nat int
  | Cancel nat
  | PollFrame nat int bool
  | DropBody nat
  | Expire nat int

text \<open>
  One event. \<open>Inl ()\<close>: it cannot happen in this state (there is no such request, or it is in
  another phase). \<open>PollFrame i now last\<close> polls the body, and \<open>last\<close> says that the inner body ended or
  failed; \<open>Expire\<close> is the task spawned by \<open>CapacityLease::new\<close>, which wakes up at the deadline.
\<close>

definition boundary_step ::
  "http_boundary_config \<Rightarrow> boundary_state \<Rightarrow> boundary_event \<Rightarrow> unit + boundary_state" where
  "boundary_step cfg st e =
     (case e of
        Arrive path now \<Rightarrow> Inr (snd (load_shed cfg st path now))
      | Respond i now \<Rightarrow>
          if length (bs_requests st) \<le> i then Inl ()
          else (case bs_requests st ! i of
                  Handling sync \<Rightarrow>
                    Inr (st\<lparr>bs_requests := (bs_requests st)
                      [i := Streaming (Some sync) (now + hb_request_timeout cfg)]\<rparr>)
                | _ \<Rightarrow> Inl ())
      | Cancel i \<Rightarrow>
          if length (bs_requests st) \<le> i then Inl ()
          else (case bs_requests st ! i of
                  Handling sync \<Rightarrow> Inr (drop_permits sync (st\<lparr>bs_requests := (bs_requests st)[i := Closed]\<rparr>))
                | _ \<Rightarrow> Inl ())
      | PollFrame i now last_frame \<Rightarrow>
          if length (bs_requests st) \<le> i then Inl ()
          else (case bs_requests st ! i of
                  Streaming permits deadline \<Rightarrow>
                    Inr (if deadline \<le> now \<or> last_frame then release_lease i st else st)
                | _ \<Rightarrow> Inl ())
      | DropBody i \<Rightarrow>
          if length (bs_requests st) \<le> i then Inl ()
          else (case bs_requests st ! i of
                  Streaming permits deadline \<Rightarrow>
                    Inr ((release_lease i st)\<lparr>bs_requests := (bs_requests st)[i := Closed]\<rparr>)
                | _ \<Rightarrow> Inl ())
      | Expire i now \<Rightarrow>
          if length (bs_requests st) \<le> i then Inl ()
          else (case bs_requests st ! i of
                  Streaming permits deadline \<Rightarrow> if deadline \<le> now then Inr (release_lease i st) else Inl ()
                | _ \<Rightarrow> Inl ()))"

section \<open>Conservation of permits\<close>

text \<open>The permits a request holds: global ones, and sync-ingest ones.\<close>

fun holds :: "request_phase \<Rightarrow> nat" where
  "holds (Handling _) = 1"
| "holds (Streaming (Some _) _) = 1"
| "holds _ = 0"

fun holds_sync :: "request_phase \<Rightarrow> nat" where
  "holds_sync (Handling sync) = of_bool sync"
| "holds_sync (Streaming (Some sync) _) = of_bool sync"
| "holds_sync _ = 0"

definition permits_conserved :: "http_boundary_config \<Rightarrow> boundary_state \<Rightarrow> bool" where
  "permits_conserved cfg st =
     (bs_available st + sum_list (map holds (bs_requests st)) = hb_in_flight cfg
      \<and> bs_sync_available st + sum_list (map holds_sync (bs_requests st)) = hb_sync_ingest_in_flight cfg)"

lemma sum_list_update_nat:
  "i < length xs \<Longrightarrow> sum_list (map f (xs[i := y])) + f (xs ! i) = sum_list (map f xs) + f y"
  for f :: "'a \<Rightarrow> nat"
proof (induction xs arbitrary: i)
  case (Cons x xs)
  then show ?case by (cases i) (simp_all add: algebra_simps)
qed simp

lemma permits_update:
  assumes "permits_conserved cfg st" and "i < length (bs_requests st)"
    and "holds y = holds (bs_requests st ! i)" "holds_sync y = holds_sync (bs_requests st ! i)"
  shows "permits_conserved cfg (st\<lparr>bs_requests := (bs_requests st)[i := y]\<rparr>)"
  using assms sum_list_update_nat [OF assms(2), of holds y] sum_list_update_nat [OF assms(2), of holds_sync y]
  by (simp add: permits_conserved_def)

lemma permits_drop:
  assumes "permits_conserved cfg st" and "i < length (bs_requests st)"
    and "holds (bs_requests st ! i) = 1" "holds_sync (bs_requests st ! i) = of_bool sync"
    and "holds y = 0" "holds_sync y = 0"
  shows "permits_conserved cfg (drop_permits sync (st\<lparr>bs_requests := (bs_requests st)[i := y]\<rparr>))"
  using assms sum_list_update_nat [OF assms(2), of holds y] sum_list_update_nat [OF assms(2), of holds_sync y]
  by (auto simp: permits_conserved_def drop_permits_def)

lemma permits_release:
  assumes "permits_conserved cfg st" and "i < length (bs_requests st)"
  shows "permits_conserved cfg (release_lease i st)"
proof (cases "\<exists>sync d. bs_requests st ! i = Streaming (Some sync) d")
  case True
  then obtain sync d where r: "bs_requests st ! i = Streaming (Some sync) d" by blast
  have "permits_conserved cfg (drop_permits sync (st\<lparr>bs_requests := (bs_requests st)[i := Streaming None d]\<rparr>))"
    by (rule permits_drop [OF assms]) (simp_all add: r)
  with r show ?thesis by (simp add: release_lease_def)
next
  case False
  then have "release_lease i st = st"
    by (auto simp: release_lease_def split: request_phase.split option.split)
  with assms show ?thesis by simp
qed

lemma release_lease_requests:
  assumes "i < length (bs_requests st)" and "bs_requests st ! i = Streaming permits d"
  shows "bs_requests (release_lease i st) = (bs_requests st)[i := Streaming None d]"
proof (cases permits)
  case None
  with assms show ?thesis by (simp add: release_lease_def) (metis list_update_id)
qed (use assms in \<open>simp add: release_lease_def drop_permits_def\<close>)

lemma permits_load_shed:
  assumes "permits_conserved cfg st"
  shows "permits_conserved cfg (snd (load_shed cfg st path now))"
  using assms
  by (auto simp: load_shed_def permits_conserved_def try_acquire_def try_acquire_sync_ingest_def
      drop_permits_def Let_def split: prod.split sum.split)

lemma permits_step:
  assumes inv: "permits_conserved cfg st" and step: "boundary_step cfg st e = Inr st'"
  shows "permits_conserved cfg st'"
proof (cases e)
  case (Arrive path now)
  with step permits_load_shed [OF inv] show ?thesis by (auto simp: boundary_step_def)
next
  case (Respond i now)
  with step inv show ?thesis
    by (auto simp: boundary_step_def intro!: permits_update split: if_splits request_phase.splits)
next
  case (Cancel i)
  with step inv show ?thesis
    by (auto simp: boundary_step_def intro!: permits_drop split: if_splits request_phase.splits)
next
  case (PollFrame i now last_frame)
  with step inv show ?thesis
    by (auto simp: boundary_step_def intro: permits_release split: if_splits request_phase.splits)
next
  case (DropBody i)
  with step obtain permits d where i: "i < length (bs_requests st)" and r: "bs_requests st ! i = Streaming permits d"
    and st': "st' = (release_lease i st)\<lparr>bs_requests := (bs_requests st)[i := Closed]\<rparr>"
    by (auto simp: boundary_step_def split: if_splits request_phase.splits)
  note reqs = release_lease_requests [OF i r]
  have "permits_conserved cfg ((release_lease i st)
      \<lparr>bs_requests := (bs_requests (release_lease i st))[i := Closed]\<rparr>)"
    by (rule permits_update [OF permits_release [OF inv i]]) (use i in \<open>simp_all add: reqs\<close>)
  then show ?thesis by (simp add: st' reqs)
next
  case (Expire i now)
  with step inv show ?thesis
    by (auto simp: boundary_step_def intro: permits_release split: if_splits request_phase.splits)
qed

section \<open>The boundary as a machine\<close>

text \<open>What may become of a request: permits once released are never held again.\<close>

fun phase_rel :: "request_phase \<Rightarrow> request_phase \<Rightarrow> bool" where
  "phase_rel Passed q = (q = Passed)"
| "phase_rel Closed q = (q = Closed)"
| "phase_rel (Handling sync) q =
     (case q of Passed \<Rightarrow> False | Handling sync' \<Rightarrow> sync' = sync
      | Streaming permits d \<Rightarrow> permits = None \<or> permits = Some sync | Closed \<Rightarrow> True)"
| "phase_rel (Streaming permits d) q =
     (q = Closed \<or> q = Streaming None d \<or> q = Streaming permits d)"

definition requests_rel :: "boundary_state \<Rightarrow> boundary_state \<Rightarrow> bool" where
  "requests_rel st st' =
     (length (bs_requests st) \<le> length (bs_requests st')
      \<and> (\<forall>i<length (bs_requests st). phase_rel (bs_requests st ! i) (bs_requests st' ! i)))"

lemma phase_rel_refl [simp]: "phase_rel p p"
  by (cases p) simp_all

lemma phase_rel_trans: "phase_rel p q \<Longrightarrow> phase_rel q r \<Longrightarrow> phase_rel p r"
  by (cases p; cases q; cases r) auto

lemma requests_rel_update:
  assumes "bs_requests st' = (bs_requests st)[i := q]" and "i < length (bs_requests st)"
    and "phase_rel (bs_requests st ! i) q"
  shows "requests_rel st st'"
  using assms by (auto simp: requests_rel_def nth_list_update)

lemma requests_rel_release:
  assumes "i < length (bs_requests st)" and "bs_requests st ! i = Streaming permits d"
  shows "requests_rel st (release_lease i st)"
  using release_lease_requests [OF assms] assms(1) by (rule requests_rel_update) (simp add: assms(2))

lemma load_shed_requests:
  "\<exists>ps. bs_requests (snd (load_shed cfg st path now)) = bs_requests st @ ps"
  by (simp add: load_shed_def try_acquire_def try_acquire_sync_ingest_def drop_permits_def Let_def
      split: prod.split sum.split)

lemma requests_rel_same: "bs_requests st' = bs_requests st @ ps \<Longrightarrow> requests_rel st st'"
  by (simp add: requests_rel_def nth_append)

lemma requests_rel_step:
  assumes "boundary_step cfg st e = Inr st'"
  shows "requests_rel st st'"
proof (cases e)
  case (Arrive path now)
  with assms load_shed_requests [of cfg st path now] show ?thesis
    by (auto simp: boundary_step_def intro: requests_rel_same)
next
  case (Respond i now)
  with assms show ?thesis
    by (auto simp: boundary_step_def intro!: requests_rel_update split: if_splits request_phase.splits)
next
  case (Cancel i)
  with assms show ?thesis
    by (auto simp: boundary_step_def drop_permits_def intro!: requests_rel_update
        split: if_splits request_phase.splits)
next
  case (PollFrame i now last_frame)
  with assms show ?thesis
    by (auto simp: boundary_step_def intro: requests_rel_release requests_rel_same [of _ _ "[]"]
        split: if_splits request_phase.splits)
next
  case (DropBody i)
  with assms show ?thesis
    by (auto simp: boundary_step_def intro!: requests_rel_update split: if_splits request_phase.splits)
next
  case (Expire i now)
  with assms show ?thesis
    by (auto simp: boundary_step_def intro: requests_rel_release split: if_splits request_phase.splits)
qed

interpretation boundary: machine "boundary_step cfg" "permits_conserved cfg" requests_rel for cfg
proof unfold_locales
  fix st e st'
  assume inv: "permits_conserved cfg st" and step: "boundary_step cfg st e = Inr st'"
  from inv step show "permits_conserved cfg st'" by (rule permits_step)
  from step show "requests_rel st st'" by (rule requests_rel_step)
next
  fix s t u
  show "requests_rel s s" by (simp add: requests_rel_def)
  assume "requests_rel s t" and "requests_rel t u"
  then show "requests_rel s u"
    unfolding requests_rel_def by (meson order_trans less_le_trans phase_rel_trans)
qed

section \<open>Reclaiming capacity at the deadlines\<close>

fun released :: "request_phase \<Rightarrow> request_phase" where
  "released (Streaming _ d) = Streaming None d"
| "released p = p"

fun expires_by :: "int \<Rightarrow> request_phase \<Rightarrow> bool" where
  "expires_by now (Streaming _ d) = (d \<le> now)"
| "expires_by now _ = False"

lemma expire_step:
  assumes "i < length (bs_requests st)" and "expires_by now (bs_requests st ! i)"
  shows "\<exists>st'. boundary_step cfg st (Expire i now) = Inr st'
    \<and> bs_requests st' = (bs_requests st)[i := released (bs_requests st ! i)]"
proof (cases "bs_requests st ! i")
  case (Streaming permits d)
  with assms release_lease_requests [OF assms(1) Streaming] show ?thesis by (simp add: boundary_step_def)
qed (use assms in simp_all)

lemma released_idem [simp]: "released (released p) = released p" "expires_by now (released p) = expires_by now p"
  by (cases p; simp)+

lemma expire_run:
  assumes "\<forall>i\<in>set is. i < length (bs_requests st) \<and> expires_by now (bs_requests st ! i)"
  shows "\<exists>st'. rfold (boundary_step cfg) st (map (\<lambda>i. Expire i now) is) = Inr st'
    \<and> length (bs_requests st') = length (bs_requests st)
    \<and> (\<forall>j<length (bs_requests st). bs_requests st' ! j =
         (if j \<in> set is then released (bs_requests st ! j) else bs_requests st ! j))"
  using assms
proof (induction "is" arbitrary: st)
  case (Cons i "is")
  then obtain st1 where st1: "boundary_step cfg st (Expire i now) = Inr st1"
      "bs_requests st1 = (bs_requests st)[i := released (bs_requests st ! i)]"
    using expire_step [of i st now cfg] by auto
  have "\<forall>j\<in>set is. j < length (bs_requests st1) \<and> expires_by now (bs_requests st1 ! j)"
    using Cons.prems st1(2) by (auto simp: nth_list_update)
  from Cons.IH [OF this] st1 show ?case
    by (auto simp: nth_list_update cong: if_cong) (metis nth_list_update_eq nth_list_update_neq released_idem(1))+
qed simp

lemma no_holder_full:
  assumes "permits_conserved cfg st" and "\<forall>p\<in>set (bs_requests st). holds p = 0"
  shows "bs_available st = hb_in_flight cfg \<and> bs_sync_available st = hb_sync_ingest_in_flight cfg"
proof -
  have "holds_sync p = 0" if "holds p = 0" for p
    using that by (cases p rule: holds.cases) simp_all
  then have "sum_list (map holds (bs_requests st)) = 0" "sum_list (map holds_sync (bs_requests st)) = 0"
    using assms(2) by (simp_all add: sum_list_eq_0_iff)
  with assms(1) show ?thesis by (simp add: permits_conserved_def)
qed

text \<open>The expiry tasks of every lease that is still streaming.\<close>

definition expiry_tasks :: "boundary_state \<Rightarrow> int \<Rightarrow> boundary_event list" where
  "expiry_tasks st now =
     map (\<lambda>i. Expire i now) (filter (\<lambda>i. expires_by now (bs_requests st ! i)) [0..<length (bs_requests st)])"

fun body_pending :: "int \<Rightarrow> request_phase \<Rightarrow> bool" where
  "body_pending now (Handling _) = True"
| "body_pending now (Streaming _ d) = (now < d)"
| "body_pending now _ = False"

lemma expiry_reclaims:
  assumes inv: "permits_conserved cfg st" and fin: "list_all (\<lambda>p. \<not> body_pending now p) (bs_requests st)"
  shows "\<exists>st'. rfold (boundary_step cfg) st (expiry_tasks st now) = Inr st'
    \<and> bs_available st' = hb_in_flight cfg \<and> bs_sync_available st' = hb_sync_ingest_in_flight cfg"
proof -
  let ?is = "filter (\<lambda>i. expires_by now (bs_requests st ! i)) [0..<length (bs_requests st)]"
  obtain st' where st': "rfold (boundary_step cfg) st (map (\<lambda>i. Expire i now) ?is) = Inr st'"
      "length (bs_requests st') = length (bs_requests st)"
      "\<forall>j<length (bs_requests st). bs_requests st' ! j =
         (if j \<in> set ?is then released (bs_requests st ! j) else bs_requests st ! j)"
    using expire_run [of ?is st now cfg] by auto
  have "holds (bs_requests st' ! j) = 0" if "j < length (bs_requests st')" for j
  proof -
    have j: "j < length (bs_requests st)" using that st'(2) by simp
    then have "\<not> body_pending now (bs_requests st ! j)" using fin by (simp add: list_all_length)
    then show ?thesis using st'(3) j by (cases "bs_requests st ! j") auto
  qed
  then have "\<forall>p\<in>set (bs_requests st'). holds p = 0" by (metis in_set_conv_nth)
  with boundary.run_inv [OF inv st'(1)] st'(1) show ?thesis
    unfolding expiry_tasks_def using no_holder_full by blast
qed

section \<open>Properties\<close>

definition sample_boundary :: http_boundary_config where
  "sample_boundary = http_boundary_new 1024 30 60 2 1 600"

definition sample_boundary_events :: "boundary_event list" where
  "sample_boundary_events =
     [Arrive ''/v1/context/search'' 0, Arrive ''/v1/ingest/files:sync'' 1, Arrive ''/v1/x'' 2,
      Respond 0 3, Respond 1 4, PollFrame 0 5 True, DropBody 0]"

definition sample_boundary_state :: boundary_state where
  "sample_boundary_state =
     (case rfold (boundary_step sample_boundary) (boundary_init sample_boundary 0) sample_boundary_events of
        Inr st \<Rightarrow> st)"

lemma sample_boundary_run_ok:
  "case rfold (boundary_step sample_boundary) (boundary_init sample_boundary 0) sample_boundary_events of
     Inr st \<Rightarrow> bs_available st = 1 \<and> length (bs_requests st) = 2
       \<and> list_all (\<lambda>p. \<not> body_pending 40000000 p) (bs_requests st)
   | Inl _ \<Rightarrow> False"
  by code_simp

lemma sample_boundary_run:
  "rfold (boundary_step sample_boundary) (boundary_init sample_boundary 0) sample_boundary_events
    = Inr sample_boundary_state"
  "list_all (\<lambda>p. \<not> body_pending 40000000 p) (bs_requests sample_boundary_state)"
  using sample_boundary_run_ok
  by (cases "rfold (boundary_step sample_boundary) (boundary_init sample_boundary 0) sample_boundary_events";
      simp add: sample_boundary_state_def)+

lemma boundary_init_conserved: "permits_conserved cfg (boundary_init cfg now)"
  by (simp add: permits_conserved_def boundary_init_def)

lemma holds_none:
  assumes "holds p = 0" and "phase_rel p q"
  shows "holds q = 0 \<and> holds_sync q = 0"
  using assms by (cases p rule: holds.cases; cases q rule: holds.cases) auto

lemma release_none: "holds (bs_requests st ! i) = 0 \<Longrightarrow> release_lease i st = st"
  by (auto simp: release_lease_def split: request_phase.splits option.splits)

text \<open>
  C20: permits are conserved by every interleaving of arrivals, responses, cancellations, polls,
  drops and expiries: free permits plus those held by requests are always the configured number, so
  no more requests than that are ever in progress. A request that holds no permit at some point, because
  it never took one or gave it back, by whichever path, holds none at any later point, and releasing its
  lease again changes nothing.
\<close>

theorem capacity_conserved:
  assumes "rfold (boundary_step cfg) (boundary_init cfg now) es = Inr st"
    and "rfold (boundary_step cfg) st later = Inr st'"
  shows "bs_available st' + sum_list (map holds (bs_requests st')) = hb_in_flight cfg
    \<and> bs_sync_available st' + sum_list (map holds_sync (bs_requests st')) = hb_sync_ingest_in_flight cfg
    \<and> length (bs_requests st) \<le> length (bs_requests st')
    \<and> (\<forall>i<length (bs_requests st). holds (bs_requests st ! i) = 0 \<longrightarrow>
         holds (bs_requests st' ! i) = 0 \<and> holds_sync (bs_requests st' ! i) = 0 \<and> release_lease i st' = st')"
proof -
  note inv = boundary.run_inv [OF boundary_init_conserved assms(1)]
  have "permits_conserved cfg st'" by (rule boundary.run_inv [OF inv assms(2)])
  moreover have "requests_rel st st'" by (rule boundary.run_rel [OF inv assms(2)])
  ultimately show ?thesis
    unfolding permits_conserved_def requests_rel_def using holds_none release_none by blast
qed

lemma capacity_conserved_witness:
  "bs_available sample_boundary_state + sum_list (map holds (bs_requests sample_boundary_state)) = 2"
  using capacity_conserved [OF sample_boundary_run(1), of "[]" sample_boundary_state]
  by (simp add: sample_boundary_def http_boundary_new_def)

text \<open>
  Capacity cannot leak. Once no request is still being handled and the deadline of every
  response body has passed, the expiry tasks alone give back every permit, even for bodies that are
  never polled again.
\<close>

theorem capacity_reclaimed:
  assumes "rfold (boundary_step cfg) (boundary_init cfg t0) es = Inr st"
    and "list_all (\<lambda>p. \<not> body_pending now p) (bs_requests st)"
  shows "\<exists>st'. rfold (boundary_step cfg) st (expiry_tasks st now) = Inr st'
    \<and> bs_available st' = hb_in_flight cfg \<and> bs_sync_available st' = hb_sync_ingest_in_flight cfg"
  using boundary.run_inv [OF boundary_init_conserved assms(1)] assms(2) by (rule expiry_reclaims)

lemma capacity_reclaimed_witness:
  "\<exists>st'. rfold (boundary_step sample_boundary) sample_boundary_state (expiry_tasks sample_boundary_state 40000000)
      = Inr st' \<and> bs_available st' = 2"
  using capacity_reclaimed [OF sample_boundary_run] by (auto simp: sample_boundary_def http_boundary_new_def)

end
