(* ===== verification/Util.thy ===== *)
theory Util
  imports Api_Error "HOL-Library.Sublist"
begin

text \<open>
  Text helpers (\<open>util.rs\<close>): keyed hashes, slugs and index names, ancestor URIs, required fields and
  the reduction of a question to key terms. Unicode case mapping, \<open>char::is_alphanumeric\<close> and HMAC
  are parameters.
\<close>

section \<open>The code\<close>

definition hmac_hex :: "(string \<Rightarrow> string \<Rightarrow> string) \<Rightarrow> string \<Rightarrow> string \<Rightarrow> string \<Rightarrow> nat \<Rightarrow> string" where
  "hmac_hex hex_mac secret namespace value len =
     concat (take len (chars (hex_mac secret (namespace @ '':'' @ value))))"

definition uid_char :: "string \<Rightarrow> bool" where
  "uid_char c = (case c of [b] \<Rightarrow> is_ascii_alphanumeric b \<or> b = CHR ''-'' \<or> b = CHR ''_'' | _ \<Rightarrow> False)"

text \<open>The loop of \<open>sanitize_slug\<close> over the lowered characters.\<close>

fun slug_loop :: "string list \<Rightarrow> bool \<Rightarrow> string list \<Rightarrow> string list" where
  "slug_loop out last_dash [] = out"
| "slug_loop out last_dash (ch # chs) =
     (if uid_char ch then slug_loop (out @ [ch]) False chs
      else if \<not> last_dash then slug_loop (out @ [''-'']) True chs
      else slug_loop out last_dash chs)"

definition trim_dashes :: "string list \<Rightarrow> string list" where
  "trim_dashes cs =
     rev (dropWhile (\<lambda>c. c = ''-'') (rev (dropWhile (\<lambda>c. c = ''-'') cs)))"

definition sanitize_slug :: "(string \<Rightarrow> string list) \<Rightarrow> string \<Rightarrow> string" where
  "sanitize_slug char_lower input =
     (let out = slug_loop [] False (concat (map char_lower (chars input)));
          trimmed = concat (trim_dashes out)
      in if trimmed = [] then ''item'' else trimmed)"

definition validate_meili_uid :: "string \<Rightarrow> api_error + unit" where
  "validate_meili_uid uid =
     (if list_all uid_char (chars uid) then Inr ()
      else Inl (Internal (''generated invalid Meilisearch uid: '' @ uid)))"

definition strip_prefix :: "string \<Rightarrow> string \<Rightarrow> string option" where
  "strip_prefix p s = (if is_prefix p s then Some (drop (length p) s) else None)"

text \<open>The loop of \<open>ancestor_uris\<close>: all parts but the last extend the accumulator.\<close>

fun ancestors_loop :: "string \<Rightarrow> bool \<Rightarrow> string list \<Rightarrow> string list" where
  "ancestors_loop acc first (part # part' # parts) =
     (let acc = (if first then acc else acc @ ''/'') @ part
      in acc # ancestors_loop acc False (part' # parts))"
| "ancestors_loop acc first _ = []"

definition ancestor_uris :: "string \<Rightarrow> string list" where
  "ancestor_uris uri =
     (case strip_prefix ''ctx://'' uri of
        None \<Rightarrow> []
      | Some rest \<Rightarrow> ancestors_loop ''ctx://'' True (split_on CHR ''/'' rest))"

definition require_string :: "string option \<Rightarrow> string \<Rightarrow> api_error + string" where
  "require_string value field =
     (case value of
        Some v \<Rightarrow> if blank v then Inl (BadRequest (field @ '' is required'')) else Inr v
      | None \<Rightarrow> Inl (BadRequest (field @ '' is required'')))"

definition truncate_chars :: "string \<Rightarrow> usize \<Rightarrow> string" where
  "truncate_chars s limit =
     (if length (chars s) \<le> limit then s else concat (take (limit - 3) (chars s)) @ ''...'')"

definition english_stop_words :: "string list" where
  "english_stop_words =
     [''a'', ''about'', ''after'', ''all'', ''also'', ''am'', ''an'', ''and'', ''any'', ''are'', ''as'', ''at'', ''be'',
      ''because'', ''been'', ''before'', ''being'', ''between'', ''both'', ''but'', ''by'', ''can'', ''could'', ''did'',
      ''do'', ''does'', ''doing'', ''during'', ''each'', ''for'', ''from'', ''had'', ''has'', ''have'', ''having'', ''he'',
      ''her'', ''here'', ''hers'', ''him'', ''his'', ''how'', ''i'', ''if'', ''in'', ''into'', ''is'', ''it'', ''its'',
      ''itself'', ''just'', ''me'', ''more'', ''most'', ''my'', ''of'', ''on'', ''or'', ''other'', ''our'', ''ours'',
      ''please'', ''she'', ''should'', ''so'', ''some'', ''such'', ''than'', ''that'', ''the'', ''their'', ''theirs'',
      ''them'', ''then'', ''there'', ''these'', ''they'', ''this'', ''those'', ''through'', ''to'', ''too'', ''us'',
      ''very'', ''was'', ''we'', ''were'', ''what'', ''when'', ''where'', ''which'', ''while'', ''who'', ''whom'', ''why'',
      ''will'', ''with'', ''would'', ''you'', ''your'', ''yours'']"

definition meili_max_query_words :: nat where
  "meili_max_query_words = 10"

text \<open>\<open>split(|c| p(c)).filter(|w| !w.is_empty())\<close> over characters.\<close>

fun words_where :: "(string \<Rightarrow> bool) \<Rightarrow> string list \<Rightarrow> string \<Rightarrow> string list" where
  "words_where sep [] word = (if word = [] then [] else [word])"
| "words_where sep (c # cs) word =
     (if sep c then (if word = [] then [] else [word]) @ words_where sep cs []
      else words_where sep cs (word @ c))"

text \<open>
  The positions of the longest terms: ranked by descending length, then position, cut, and put back
  into order.
\<close>

definition longest_positions :: "string list \<Rightarrow> nat \<Rightarrow> nat list" where
  "longest_positions ts n =
     sort (take n (sort_key (\<lambda>i. (- int (length (chars (ts ! i))), i)) [0..<length ts]))"

definition query_terms :: "(string \<Rightarrow> string) \<Rightarrow> string list \<Rightarrow> string list" where
  "query_terms lower query_words =
     dedup [] (filter (\<lambda>w. \<not> List.member english_stop_words w) (map lower query_words))"

definition meili_query_terms :: "(string \<Rightarrow> bool) \<Rightarrow> (string \<Rightarrow> string) \<Rightarrow> string \<Rightarrow> string" where
  "meili_query_terms is_alphanumeric lower query =
     (let ws = words_where (\<lambda>c. \<not> is_alphanumeric c) (chars query) []
      in if length ws \<le> meili_max_query_words then lower (trim query)
         else
           (let ts = query_terms lower ws
            in if ts = [] then lower (join '' '' (take meili_max_query_words ws))
               else if length ts \<le> meili_max_query_words then join '' '' ts
               else join '' '' (map (\<lambda>i. ts ! i) (longest_positions ts meili_max_query_words))))"

section \<open>Slugs\<close>

lemma uid_char_byte: "uid_char c \<Longrightarrow> \<exists>b. c = [b]"
  by (auto simp: uid_char_def split: list.splits)

lemma uid_char_is_char: "uid_char c \<Longrightarrow> is_char c"
proof -
  assume u: "uid_char c"
  then obtain b where c: "c = [b]" using uid_char_byte by blast
  with u have "of_char b < (128 :: nat)"
    by (auto simp: uid_char_def is_ascii_alphanumeric_def is_digit_def)
  then have "\<not> digit7 b"
    by (cases b) (auto simp: of_char_def)
  then show ?thesis by (simp add: c is_char_def is_cont_def)
qed

lemma slug_loop_uid: "list_all uid_char out \<Longrightarrow> list_all uid_char (slug_loop out d chs)"
  by (induction out d chs rule: slug_loop.induct) (auto simp: uid_char_def)

lemma set_trim_dashes: "set (trim_dashes cs) \<subseteq> set cs"
  unfolding trim_dashes_def by (metis set_dropWhileD set_rev subsetI)

lemma dropWhile_hd: "dropWhile P xs = [] \<or> \<not> P (hd (dropWhile P xs))"
  using hd_dropWhile by blast

lemma trim_dashes_ends:
  assumes "trim_dashes cs \<noteq> []"
  shows "hd (trim_dashes cs) \<noteq> ''-'' \<and> last (trim_dashes cs) \<noteq> ''-''"
proof -
  let ?a = "dropWhile (\<lambda>c. c = ''-'') cs"
  let ?b = "dropWhile (\<lambda>c. c = ''-'') (rev ?a)"
  have b: "?b \<noteq> []" using assms by (simp add: trim_dashes_def)
  then have "hd ?b \<noteq> ''-''" by (rule hd_dropWhile)
  moreover obtain zs where z: "rev ?a = zs @ ?b" using takeWhile_dropWhile_id by metis
  then have "?a = rev ?b @ rev zs" by (metis rev_append rev_rev_ident)
  then have "hd ?a = hd (rev ?b @ rev zs)" by (rule arg_cong)
  then have "hd ?a = last ?b" using b by (simp only: hd_append rev_is_Nil_conv if_False hd_rev)
  moreover have "?a \<noteq> []" using z b by (metis append_is_Nil_conv rev_is_Nil_conv)
  then have "hd ?a \<noteq> ''-''" by (rule hd_dropWhile)
  ultimately show ?thesis using b by (simp add: trim_dashes_def hd_rev last_rev)
qed

section \<open>Key terms\<close>

lemma longest_positions_props:
  "length (longest_positions ts n) \<le> n" "sorted (longest_positions ts n)"
  "distinct (longest_positions ts n)" "set (longest_positions ts n) \<subseteq> {0..<length ts}"
proof -
  let ?r = "sort_key (\<lambda>i. (- int (length (chars (ts ! i))), i)) [0..<length ts]"
  show "length (longest_positions ts n) \<le> n" "sorted (longest_positions ts n)"
    by (simp_all add: longest_positions_def)
  have "distinct ?r" by simp
  then show "distinct (longest_positions ts n)" by (simp add: longest_positions_def)
  have "set (take n ?r) \<subseteq> set ?r" by (rule set_take_subset)
  then show "set (longest_positions ts n) \<subseteq> {0..<length ts}" by (simp add: longest_positions_def)
qed

lemma strictly_sorted: "sorted xs \<Longrightarrow> distinct xs \<Longrightarrow> sorted_wrt (<) xs" for xs :: "nat list"
  by (simp add: strict_sorted_iff)

lemma subseq_positions:
  assumes "sorted_wrt (<) is" and "set is \<subseteq> {k..<k + length xs}"
  shows "subseq (map (\<lambda>i. xs ! (i - k)) is) xs"
  using assms
proof (induction xs arbitrary: "is" k)
  case (Cons x xs)
  show ?case
  proof (cases "is")
    case (Cons i is')
    have bigger: "set is' \<subseteq> {Suc k..<Suc k + length xs}"
      using Cons.prems Cons by fastforce
    show ?thesis
    proof (cases "i = k")
      case True
      have "map (\<lambda>j. (x # xs) ! (j - k)) is' = map (\<lambda>j. xs ! (j - Suc k)) is'"
        using bigger by (intro map_cong) (auto simp: nth_Cons' diff_diff_left)
      moreover have "subseq (map (\<lambda>j. xs ! (j - Suc k)) is') xs"
        using Cons.IH [of is' "Suc k"] Cons.prems Cons bigger by simp
      ultimately have "subseq (map (\<lambda>j. (x # xs) ! (j - k)) is') xs" by (simp only:)
      then show ?thesis using Cons True by (simp del: map_eq_conv)
    next
      case False
      have all: "set (i # is') \<subseteq> {Suc k..<Suc k + length xs}" using False Cons.prems Cons bigger by fastforce
      have "map (\<lambda>j. (x # xs) ! (j - k)) (i # is') = map (\<lambda>j. xs ! (j - Suc k)) (i # is')"
        using all by (intro map_cong) (auto simp: nth_Cons' diff_diff_left)
      moreover have "subseq (map (\<lambda>j. xs ! (j - Suc k)) (i # is')) xs"
        using Cons.IH [of "i # is'" "Suc k"] Cons.prems Cons all by simp
      ultimately show ?thesis using Cons by (metis list_emb_Cons)
    qed
  qed simp
qed simp

lemma join_single: "join sep [x] = x"
  by simp

section \<open>Properties\<close>

text \<open>
  A slug is never empty, is a legal index name, and neither starts nor ends with a dash,
  whatever the input and however its characters are lowered.
\<close>

theorem slug_is_valid_uid:
  "sanitize_slug char_lower input \<noteq> []
   \<and> validate_meili_uid (sanitize_slug char_lower input) = Inr ()
   \<and> hd (sanitize_slug char_lower input) \<noteq> CHR ''-'' \<and> last (sanitize_slug char_lower input) \<noteq> CHR ''-''"
proof -
  let ?out = "slug_loop [] False (concat (map char_lower (chars input)))"
  let ?t = "trim_dashes ?out"
  have out: "list_all uid_char ?out" by (rule slug_loop_uid) simp
  then have t: "list_all uid_char ?t" using set_trim_dashes [of ?out] by (auto simp: list_all_iff)
  have item: "list_all uid_char (chars ''item'')" by code_simp
  show ?thesis
  proof (cases "concat ?t = []")
    case True
    with item show ?thesis by (simp add: sanitize_slug_def Let_def validate_meili_uid_def)
  next
    case False
    have "list_all is_char ?t" using t by (auto simp: list_all_iff uid_char_is_char)
    then have "chars (concat ?t) = ?t" by (rule chars_concat)
    moreover have ne: "?t \<noteq> []" using False by auto
    obtain a b where ab: "hd ?t = [a]" "last ?t = [b]"
      using t ne uid_char_byte [of "hd ?t"] uid_char_byte [of "last ?t"] by (auto simp: list_all_iff)
    have "hd (concat ?t) = a" using ne ab(1) by (cases ?t) auto
    moreover have "last (concat ?t) = b" using ne ab(2) by (cases ?t rule: rev_cases) auto
    moreover have slug: "sanitize_slug char_lower input = concat ?t"
      using False by (simp only: sanitize_slug_def Let_def if_False)
    ultimately have "validate_meili_uid (sanitize_slug char_lower input) = Inr ()"
      using t False by (simp only: slug validate_meili_uid_def if_True if_False)
    moreover have "a \<noteq> CHR ''-''" "b \<noteq> CHR ''-''" using trim_dashes_ends [OF ne] ab by simp_all
    ultimately show ?thesis
      using False \<open>hd (concat ?t) = a\<close> \<open>last (concat ?t) = b\<close> by (simp add: slug)
  qed
qed

text \<open>
  The key terms picked from a long question are at most ten, no stop words, pairwise distinct,
  and in the order of the question.
\<close>

theorem key_terms_bounded:
  "length (map (\<lambda>i. query_terms lower ws ! i) (longest_positions (query_terms lower ws) meili_max_query_words))
      \<le> meili_max_query_words
   \<and> subseq (map (\<lambda>i. query_terms lower ws ! i) (longest_positions (query_terms lower ws) meili_max_query_words))
       (query_terms lower ws)
   \<and> distinct (query_terms lower ws) \<and> set (query_terms lower ws) \<inter> set english_stop_words = {}"
proof -
  note p = longest_positions_props [of "query_terms lower ws" meili_max_query_words]
  have "subseq (map (\<lambda>i. query_terms lower ws ! (i - 0)) (longest_positions (query_terms lower ws) meili_max_query_words))
      (query_terms lower ws)"
    by (rule subseq_positions) (use p strictly_sorted in auto)
  moreover have "set (query_terms lower ws) \<inter> set english_stop_words = {}"
    by (auto simp: query_terms_def)
  ultimately show ?thesis using p(1) by (simp add: query_terms_def)
qed

end
