(* ===== verification/Auth.thy ===== *)
theory Auth
  imports Capacity Util
begin

text \<open>
  Authentication and authorisation (\<open>auth.rs\<close>, and the auth settings of \<open>config.rs\<close>): principals and
  their permissions, the credential index, the bearer header and the three request guards. HMAC is a
  parameter \<open>mac key message\<close>; \<open>hex_mac\<close> is its hexadecimal text as \<open>hmac_hex\<close> of \<open>util.rs\<close> uses it.
\<close>

section \<open>Principals\<close>

datatype principal_scope = Owner string | TenantService | Admin

record principal =
  p_tenant_id :: string
  p_scope :: principal_scope
  p_roles :: "string list"

definition is_admin :: "principal \<Rightarrow> bool" where
  "is_admin self = (p_scope self = Admin)"

definition owner_user_id :: "principal \<Rightarrow> string option" where
  "owner_user_id self = (case p_scope self of Owner o' \<Rightarrow> Some o' | _ \<Rightarrow> None)"

definition scope_label :: "principal \<Rightarrow> string" where
  "scope_label self =
     (case p_scope self of Owner _ \<Rightarrow> ''owner'' | TenantService \<Rightarrow> ''tenant_service'' | Admin \<Rightarrow> ''admin'')"

definition has_role :: "principal \<Rightarrow> string \<Rightarrow> bool" where
  "has_role self role = list_ex (\<lambda>candidate. candidate = role) (p_roles self)"

definition require_owner_read :: "principal \<Rightarrow> string \<Rightarrow> api_error + unit" where
  "require_owner_read self owner =
     (case p_scope self of
        Owner principal_owner \<Rightarrow>
          if principal_owner \<noteq> owner
          then Inl (Forbidden ''principal is not allowed to access this owner_user_id'') else Inr ()
      | _ \<Rightarrow> Inr ())"

definition require_owner_write :: "principal \<Rightarrow> string \<Rightarrow> api_error + unit" where
  "require_owner_write self owner = require_owner_read self owner"

definition require_owner_access :: "principal \<Rightarrow> string \<Rightarrow> api_error + unit" where
  "require_owner_access self owner = require_owner_read self owner"

definition require_company_write :: "principal \<Rightarrow> api_error + unit" where
  "require_company_write self =
     (if is_admin self \<or> has_role self ''company_writer'' then Inr ()
      else Inl (Forbidden ''company_writer permission is required''))"

definition require_admin :: "principal \<Rightarrow> api_error + unit" where
  "require_admin self =
     (if is_admin self then Inr () else Inl (Forbidden ''admin token required''))"

text \<open>\<open>apply_owner_default\<close> returns the new value of the request's \<open>owner_user_id\<close> field.\<close>

definition apply_owner_default :: "principal \<Rightarrow> string option \<Rightarrow> api_error + string option" where
  "apply_owner_default self owner =
     (case (p_scope self, owner) of
        (Owner _, Some o') \<Rightarrow> rbind (require_owner_read self o') (\<lambda>_. Inr owner)
      | (Owner o', None) \<Rightarrow> Inr (Some o')
      | _ \<Rightarrow> Inr owner)"

definition principal_identity :: "principal \<Rightarrow> string" where
  "principal_identity self =
     p_tenant_id self @ [CHR 0x00] @ scope_label self @ [CHR 0x00]
       @ (case owner_user_id self of Some o' \<Rightarrow> o' | None \<Rightarrow> [])"

definition rate_limit_key :: "(string \<Rightarrow> string \<Rightarrow> string) \<Rightarrow> string \<Rightarrow> principal \<Rightarrow> string" where
  "rate_limit_key hex_mac secret self =
     hmac_hex hex_mac secret ''rate-limit-principal'' (principal_identity self) 32"

definition provider_budget_key :: "(string \<Rightarrow> string \<Rightarrow> string) \<Rightarrow> string \<Rightarrow> principal \<Rightarrow> string" where
  "provider_budget_key hex_mac secret self =
     hmac_hex hex_mac secret ''provider-budget-principal'' (principal_identity self) 32"

section \<open>Settings and credentials\<close>

datatype auth_user_scope = UserOwner string | UserTenantService | UserAdmin

record auth_user_config =
  au_token :: string
  au_scope :: auth_user_scope
  au_roles :: "string list"

datatype bearer_token_scope = BearerOwner | BearerTenantService

text \<open>The settings authentication reads from \<open>Config\<close>.\<close>

record auth_settings =
  ac_tenant_id :: string
  ac_index_hash_secret :: string
  ac_auth_users :: "auth_user_config list"
  ac_admin_token :: "string option"
  ac_bearer_token :: "string option"
  ac_bearer_token_scope :: "bearer_token_scope option"
  ac_bearer_token_owner_user_id :: "string option"
  ac_allow_legacy_tenant_service_bearer :: bool
  ac_allow_legacy_shared_writer :: bool
  ac_allow_unsafe_unauthenticated :: bool
  ac_auth_config_error :: "string option"

definition has_any_auth :: "auth_settings \<Rightarrow> bool" where
  "has_any_auth self =
     (ac_auth_config_error self \<noteq> None \<or> ac_bearer_token self \<noteq> None
      \<or> ac_admin_token self \<noteq> None \<or> ac_auth_users self \<noteq> [])"

datatype credential_ref = CredAuthUser nat | CredAdmin | CredBearer

text \<open>\<open>CredentialIndex\<close>: the per-process key and the credentials of every tag.\<close>

record credential_index =
  ci_key :: string
  ci_tags :: "string \<Rightarrow> credential_ref list option"

definition credential_tag :: "(string \<Rightarrow> string \<Rightarrow> string) \<Rightarrow> credential_index \<Rightarrow> string \<Rightarrow> string" where
  "credential_tag mac self token = mac (ci_key self) token"

definition credential_insert ::
  "(string \<Rightarrow> string \<Rightarrow> string) \<Rightarrow> string \<Rightarrow> credential_ref \<Rightarrow> credential_index \<Rightarrow> credential_index" where
  "credential_insert mac token credential self =
     (let tag = credential_tag mac self token;
          refs = (case ci_tags self tag of Some refs \<Rightarrow> refs | None \<Rightarrow> [])
      in self\<lparr>ci_tags := (ci_tags self)(tag \<mapsto> refs @ [credential])\<rparr>)"

text \<open>The configured tokens in the order \<open>from_config\<close> inserts them.\<close>

definition configured_credentials :: "auth_settings \<Rightarrow> (string \<times> credential_ref) list" where
  "configured_credentials config =
     map (\<lambda>(position, user). (au_token user, CredAuthUser position))
         (zip [0..<length (ac_auth_users config)] (ac_auth_users config))
     @ (case ac_admin_token config of Some token \<Rightarrow> [(token, CredAdmin)] | None \<Rightarrow> [])
     @ (case ac_bearer_token config of Some token \<Rightarrow> [(token, CredBearer)] | None \<Rightarrow> [])"

definition credential_index_from_config ::
  "(string \<Rightarrow> string \<Rightarrow> string) \<Rightarrow> string \<Rightarrow> auth_settings \<Rightarrow> credential_index" where
  "credential_index_from_config mac key config =
     fold (\<lambda>(token, credential). credential_insert mac token credential)
       (configured_credentials config) \<lparr>ci_key = key, ci_tags = Map.empty\<rparr>"

definition credential_lookup ::
  "(string \<Rightarrow> string \<Rightarrow> string) \<Rightarrow> credential_index \<Rightarrow> string \<Rightarrow> credential_ref list" where
  "credential_lookup mac self token =
     (case ci_tags self (credential_tag mac self token) of Some refs \<Rightarrow> refs | None \<Rightarrow> [])"

section \<open>Authentication\<close>

definition principal_from_auth_user :: "string \<Rightarrow> auth_user_config \<Rightarrow> principal" where
  "principal_from_auth_user tenant_id user =
     \<lparr>p_tenant_id = tenant_id,
      p_scope = (case au_scope user of UserOwner o' \<Rightarrow> Owner o' | UserTenantService \<Rightarrow> TenantService
                 | UserAdmin \<Rightarrow> Admin),
      p_roles = au_roles user\<rparr>"

definition bearer_token_principal :: "auth_settings \<Rightarrow> api_error + principal" where
  "bearer_token_principal config =
     rbind (ok_or
       (case (ac_bearer_token_scope config, ac_bearer_token_owner_user_id config,
              ac_allow_legacy_tenant_service_bearer config) of
          (Some BearerOwner, Some owner, False) \<Rightarrow>
            if \<not> blank owner \<and> owner = trim owner then Some (Owner owner) else None
        | (Some BearerTenantService, None, False) \<Rightarrow> Some TenantService
        | (None, None, True) \<Rightarrow> Some TenantService
        | _ \<Rightarrow> None)
       (Unauthorized ''invalid bearer token''))
     (\<lambda>scope. Inr \<lparr>p_tenant_id = ac_tenant_id config, p_scope = scope, p_roles = [''user'']\<rparr>)"

definition bearer_credentials :: "string \<Rightarrow> string option" where
  "bearer_credentials header =
     (case split_once '' '' header of
        None \<Rightarrow> None
      | Some (scheme, credentials) \<Rightarrow>
          if eq_ignore_ascii_case scheme ''bearer''
          then Some (dropWhile (\<lambda>c. c = CHR '' '') credentials) else None)"

text \<open>\<open>bearer\<close>, on the text of the \<open>Authorization\<close> header if there is one.\<close>

definition bearer :: "string option \<Rightarrow> api_error + string" where
  "bearer authorization =
     rbind (ok_or authorization (Unauthorized ''missing Authorization bearer token'')) (\<lambda>header.
       ok_or (bearer_credentials header) (Unauthorized ''Authorization must be a Bearer token''))"

definition admin_principal :: "auth_settings \<Rightarrow> principal" where
  "admin_principal config = \<lparr>p_tenant_id = ac_tenant_id config, p_scope = Admin, p_roles = [''admin'']\<rparr>"

definition invalid_bearer :: api_error where
  "invalid_bearer = Unauthorized ''invalid bearer token''"

definition authenticate ::
  "(string \<Rightarrow> string \<Rightarrow> string) \<Rightarrow> auth_settings \<Rightarrow> credential_index \<Rightarrow> string option \<Rightarrow> api_error + principal" where
  "authenticate mac config index authorization =
     (if \<not> has_any_auth config then
        if ac_allow_unsafe_unauthenticated config then Inr (admin_principal config)
        else Inl (Unauthorized ''authentication is required'')
      else
        rbind (bearer authorization) (\<lambda>actual.
        if actual = [] then Inl invalid_bearer
        else
          (case credential_lookup mac index actual of
             [credential] \<Rightarrow>
               (case credential of
                  CredAuthUser i \<Rightarrow>
                    if i < length (ac_auth_users config)
                    then Inr (principal_from_auth_user (ac_tenant_id config) (ac_auth_users config ! i))
                    else Inl invalid_bearer
                | CredAdmin \<Rightarrow> Inr (admin_principal config)
                | CredBearer \<Rightarrow> bearer_token_principal config)
           | _ \<Rightarrow> Inl invalid_bearer)))"

section \<open>Guards\<close>

datatype request_principal_scope = RequestOwner string | RequestTenantService | RequestAdmin

record request_principal =
  rp_scope :: request_principal_scope
  rp_roles :: "string list"

text \<open>
  What a guard touches: the shared rate limiter, the principal of the request (a \<open>OnceLock\<close>: the
  first value stays) and the denials handed to the audit service.
\<close>

record guard_state =
  gs_limiter :: rate_limiter_state
  gs_principal :: "request_principal option"
  gs_denials :: "(principal option \<times> string \<times> api_error) list"

record auth_state =
  as_settings :: auth_settings
  as_index :: credential_index
  as_limiter :: rate_limiter

definition audit_denial ::
  "principal option \<Rightarrow> string \<Rightarrow> api_error \<Rightarrow> guard_state \<Rightarrow> guard_state" where
  "audit_denial who reason err st = st\<lparr>gs_denials := gs_denials st @ [(who, reason, err)]\<rparr>"

definition record_request_principal ::
  "(string \<Rightarrow> string \<Rightarrow> string) \<Rightarrow> auth_settings \<Rightarrow> principal \<Rightarrow> guard_state \<Rightarrow> guard_state" where
  "record_request_principal hex_mac config who st =
     (let scope = (case p_scope who of
            Owner o' \<Rightarrow> RequestOwner (hmac_hex hex_mac (ac_index_hash_secret config) ''user'' o' 16)
          | TenantService \<Rightarrow> RequestTenantService | Admin \<Rightarrow> RequestAdmin)
      in case gs_principal st of
           Some _ \<Rightarrow> st
         | None \<Rightarrow> st\<lparr>gs_principal := Some \<lparr>rp_scope = scope, rp_roles = p_roles who\<rparr>\<rparr>)"

definition enforce_principal_rate_limit ::
  "(string \<Rightarrow> string \<Rightarrow> string) \<Rightarrow> auth_state \<Rightarrow> principal \<Rightarrow> int \<Rightarrow> guard_state \<Rightarrow>
     (api_error + unit) \<times> guard_state" where
  "enforce_principal_rate_limit hex_mac auth who now st =
     (let (verdict, limiter) = check_at (as_limiter auth) (gs_limiter st)
            (rate_limit_key hex_mac (ac_index_hash_secret (as_settings auth)) who) now
      in (verdict, st\<lparr>gs_limiter := limiter\<rparr>))"

definition user_guard ::
  "(string \<Rightarrow> string \<Rightarrow> string) \<Rightarrow> (string \<Rightarrow> string \<Rightarrow> string) \<Rightarrow> auth_state \<Rightarrow> string option \<Rightarrow> int \<Rightarrow>
     guard_state \<Rightarrow> (api_error + principal) \<times> guard_state" where
  "user_guard mac hex_mac auth authorization now st =
     (case authenticate mac (as_settings auth) (as_index auth) authorization of
        Inl err \<Rightarrow> (Inl err, st)
      | Inr who \<Rightarrow>
          (case enforce_principal_rate_limit hex_mac auth who now st of
             (Inl err, st) \<Rightarrow> (Inl err, st)
           | (Inr _, st) \<Rightarrow> (Inr who, record_request_principal hex_mac (as_settings auth) who st)))"

definition company_writer_guard ::
  "(string \<Rightarrow> string \<Rightarrow> string) \<Rightarrow> (string \<Rightarrow> string \<Rightarrow> string) \<Rightarrow> auth_state \<Rightarrow> string option \<Rightarrow> int \<Rightarrow>
     guard_state \<Rightarrow> (api_error + principal) \<times> guard_state" where
  "company_writer_guard mac hex_mac auth authorization now st =
     (case authenticate mac (as_settings auth) (as_index auth) authorization of
        Inl err \<Rightarrow> (Inl err, audit_denial None ''authentication_failed'' err st)
      | Inr who \<Rightarrow>
          (case enforce_principal_rate_limit hex_mac auth who now st of
             (Inl err, st) \<Rightarrow> (Inl err, st)
           | (Inr _, st) \<Rightarrow>
               (case require_company_write who of
                  Inl err \<Rightarrow>
                    if \<not> ac_allow_legacy_shared_writer (as_settings auth)
                    then (Inl err, audit_denial (Some who) ''company_writer_required'' err st)
                    else (Inr who, record_request_principal hex_mac (as_settings auth) who st)
                | Inr _ \<Rightarrow> (Inr who, record_request_principal hex_mac (as_settings auth) who st))))"

definition admin_guard ::
  "(string \<Rightarrow> string \<Rightarrow> string) \<Rightarrow> (string \<Rightarrow> string \<Rightarrow> string) \<Rightarrow> auth_state \<Rightarrow> string option \<Rightarrow> int \<Rightarrow>
     guard_state \<Rightarrow> (api_error + principal) \<times> guard_state" where
  "admin_guard mac hex_mac auth authorization now st =
     (case authenticate mac (as_settings auth) (as_index auth) authorization of
        Inl err \<Rightarrow> (Inl err, audit_denial None ''authentication_failed'' err st)
      | Inr who \<Rightarrow>
          (case enforce_principal_rate_limit hex_mac auth who now st of
             (Inl err, st) \<Rightarrow> (Inl err, st)
           | (Inr _, st) \<Rightarrow>
               (case require_admin who of
                  Inl err \<Rightarrow> (Inl err, audit_denial (Some who) ''admin_required'' err st)
                | Inr _ \<Rightarrow> (Inr who, record_request_principal hex_mac (as_settings auth) who st))))"

section \<open>Lemmas\<close>

lemma is_admin_iff: "is_admin p \<longleftrightarrow> p_scope p = Admin"
  by (simp add: is_admin_def)

lemma has_role_iff: "has_role p r \<longleftrightarrow> r \<in> set (p_roles p)"
  by (auto simp: has_role_def list_ex_iff)

text \<open>The credentials whose token equals the presented one, in configuration order.\<close>

definition matching_credentials :: "auth_settings \<Rightarrow> string \<Rightarrow> credential_ref list" where
  "matching_credentials config token =
     map snd (filter (\<lambda>c. fst c = token) (configured_credentials config))"

definition collision_free ::
  "(string \<Rightarrow> string \<Rightarrow> string) \<Rightarrow> string \<Rightarrow> auth_settings \<Rightarrow> string \<Rightarrow> bool" where
  "collision_free mac key config token =
     list_all (\<lambda>c. mac key (fst c) = mac key token \<longrightarrow> fst c = token) (configured_credentials config)"

lemma credential_fold:
  "ci_key (fold (\<lambda>(token, credential). credential_insert mac token credential) cs index) = ci_key index
   \<and> credential_lookup mac (fold (\<lambda>(token, credential). credential_insert mac token credential) cs index) t
     = credential_lookup mac index t
       @ map snd (filter (\<lambda>c. mac (ci_key index) (fst c) = mac (ci_key index) t) cs)"
proof (induction cs arbitrary: index)
  case (Cons c cs)
  have "credential_lookup mac (credential_insert mac (fst c) (snd c) index) t
      = credential_lookup mac index t
        @ (if mac (ci_key index) (fst c) = mac (ci_key index) t then [snd c] else [])"
    by (simp add: credential_lookup_def credential_insert_def credential_tag_def Let_def)
  moreover have "ci_key (credential_insert mac (fst c) (snd c) index) = ci_key index"
    by (simp add: credential_insert_def Let_def)
  ultimately show ?case
    using Cons.IH [of "credential_insert mac (fst c) (snd c) index"]
    by (simp add: case_prod_beta)
qed simp

lemma index_lookup_tags:
  "credential_lookup mac (credential_index_from_config mac key config) token
    = map snd (filter (\<lambda>c. mac key (fst c) = mac key token) (configured_credentials config))"
proof -
  let ?empty = "\<lparr>ci_key = key, ci_tags = Map.empty\<rparr>"
  have "credential_lookup mac ?empty token = []" by (simp add: credential_lookup_def)
  then show ?thesis
    using credential_fold [of mac "configured_credentials config" ?empty token]
    by (simp add: credential_index_from_config_def)
qed

lemma index_lookup:
  assumes "collision_free mac key config token"
  shows "credential_lookup mac (credential_index_from_config mac key config) token
    = matching_credentials config token"
proof -
  have "filter (\<lambda>c. mac key (fst c) = mac key token) (configured_credentials config)
      = filter (\<lambda>c. fst c = token) (configured_credentials config)"
    using assms by (intro filter_cong) (auto simp: collision_free_def list_all_iff)
  then show ?thesis by (simp add: index_lookup_tags matching_credentials_def)
qed

text \<open>The principal a credential stands for.\<close>

fun credential_principal :: "auth_settings \<Rightarrow> credential_ref \<Rightarrow> api_error + principal" where
  "credential_principal config (CredAuthUser i) =
     (if i < length (ac_auth_users config)
      then Inr (principal_from_auth_user (ac_tenant_id config) (ac_auth_users config ! i))
      else Inl invalid_bearer)"
| "credential_principal config CredAdmin = Inr (admin_principal config)"
| "credential_principal config CredBearer = bearer_token_principal config"

lemma authenticate_configured:
  assumes "has_any_auth config"
  shows "authenticate mac config index authorization = Inr p \<longleftrightarrow>
     (\<exists>token c. bearer authorization = Inr token \<and> token \<noteq> []
        \<and> credential_lookup mac index token = [c] \<and> credential_principal config c = Inr p)"
proof -
  have "(case c of CredAuthUser i \<Rightarrow>
        if i < length (ac_auth_users config)
        then Inr (principal_from_auth_user (ac_tenant_id config) (ac_auth_users config ! i))
        else Inl invalid_bearer
      | CredAdmin \<Rightarrow> Inr (admin_principal config) | CredBearer \<Rightarrow> bearer_token_principal config)
    = credential_principal config c" for c
    by (cases c) simp_all
  then have "authenticate mac config index authorization = rbind (bearer authorization) (\<lambda>actual.
      if actual = [] then Inl invalid_bearer
      else (case credential_lookup mac index actual of
              [c] \<Rightarrow> credential_principal config c | _ \<Rightarrow> Inl invalid_bearer))"
    unfolding authenticate_def using assms by (simp only: not_True_eq_False if_False)
  then show ?thesis
    by (cases "bearer authorization")
      (auto split: list.splits if_splits)
qed

lemma matching_credential_token:
  assumes "c \<in> set (matching_credentials config token)"
  shows "(\<exists>i<length (ac_auth_users config). c = CredAuthUser i \<and> au_token (ac_auth_users config ! i) = token)
    \<or> c = CredAdmin \<and> ac_admin_token config = Some token
    \<or> c = CredBearer \<and> ac_bearer_token config = Some token"
  using assms
  by (auto simp: matching_credentials_def configured_credentials_def set_zip split: option.splits)

lemma bearer_principal_scope:
  "bearer_token_principal config = Inr p \<Longrightarrow>
     p_scope p \<noteq> Admin \<and> p_tenant_id p = ac_tenant_id config \<and> p_roles p = [''user'']"
  by (auto simp: bearer_token_principal_def rbind_Inr ok_or_Inr
      split: option.splits bearer_token_scope.splits bool.splits if_splits)

lemma credential_principal_admin:
  assumes "credential_principal config c = Inr p" and "is_admin p" and "c \<in> set (matching_credentials config token)"
  shows "ac_admin_token config = Some token
    \<or> (\<exists>u\<in>set (ac_auth_users config). au_token u = token \<and> au_scope u = UserAdmin)"
proof (cases c)
  case (CredAuthUser i)
  with assms have "i < length (ac_auth_users config)" "au_scope (ac_auth_users config ! i) = UserAdmin"
    by (auto simp: principal_from_auth_user_def is_admin_def split: if_splits auth_user_scope.splits)
  with CredAuthUser matching_credential_token [OF assms(3)] show ?thesis by auto
next
  case CredAdmin
  with matching_credential_token [OF assms(3)] show ?thesis by simp
next
  case CredBearer
  with assms bearer_principal_scope show ?thesis by (auto simp: is_admin_def)
qed

lemma credential_principal_tenant:
  "credential_principal config c = Inr p \<Longrightarrow> p_tenant_id p = ac_tenant_id config"
  by (cases c)
    (auto simp: principal_from_auth_user_def admin_principal_def dest: bearer_principal_scope split: if_splits)

lemma nul_separated:
  assumes "a @ [CHR 0x00] @ x = b @ [CHR 0x00] @ y" and "CHR 0x00 \<notin> set a" and "CHR 0x00 \<notin> set b"
  shows "a = b \<and> x = y"
  using assms
proof (induction a arbitrary: b)
  case Nil
  then show ?case by (cases b) auto
next
  case (Cons c a)
  then show ?case by (cases b) auto
qed

lemma scope_label_nul: "CHR 0x00 \<notin> set (scope_label p)"
  by (simp add: scope_label_def split: principal_scope.split)

lemma scope_label_owner:
  "scope_label p = scope_label q \<Longrightarrow>
     (case owner_user_id p of Some o' \<Rightarrow> o' | None \<Rightarrow> []) = (case owner_user_id q of Some o' \<Rightarrow> o' | None \<Rightarrow> [])
     \<Longrightarrow> p_scope p = p_scope q"
  by (auto simp: scope_label_def owner_user_id_def split: principal_scope.splits)

lemma identity_injective:
  assumes "principal_identity p = principal_identity q"
    and "CHR 0x00 \<notin> set (p_tenant_id p)" and "CHR 0x00 \<notin> set (p_tenant_id q)"
  shows "p_tenant_id p = p_tenant_id q \<and> p_scope p = p_scope q"
proof -
  note a = nul_separated [OF assms(1) [unfolded principal_identity_def] assms(2,3)]
  note b = nul_separated [OF conjunct2 [OF a] scope_label_nul scope_label_nul]
  show ?thesis using a b scope_label_owner by blast
qed

lemma split_once_char: "c \<notin> set a \<Longrightarrow> split_once [c] (a @ c # b) = Some (a, b)"
  by (induction a) auto

lemma bearer_scheme_no_space: "eq_ignore_ascii_case scheme ''bearer'' \<Longrightarrow> CHR '' '' \<notin> set scheme"
proof
  assume e: "eq_ignore_ascii_case scheme ''bearer''" and "CHR '' '' \<in> set scheme"
  then have "ascii_lower_char CHR '' '' \<in> set (ascii_lower ''bearer'')"
    by (metis ascii_lower_def eq_ignore_ascii_case_def image_eqI image_set)
  then show False by (simp add: ascii_lower_def ascii_lower_char_def)
qed

section \<open>Properties\<close>

definition sample_mac :: "string \<Rightarrow> string \<Rightarrow> string" where
  "sample_mac key message = key @ message"

definition sample_settings :: auth_settings where
  "sample_settings =
     \<lparr>ac_tenant_id = ''acme'', ac_index_hash_secret = ''secret'',
      ac_auth_users = [\<lparr>au_token = ''tok-ada'', au_scope = UserOwner ''ada'', au_roles = [''user'']\<rparr>,
                       \<lparr>au_token = ''tok-root'', au_scope = UserAdmin, au_roles = [''admin'']\<rparr>],
      ac_admin_token = None, ac_bearer_token = None, ac_bearer_token_scope = None,
      ac_bearer_token_owner_user_id = None, ac_allow_legacy_tenant_service_bearer = False,
      ac_allow_legacy_shared_writer = False, ac_allow_unsafe_unauthenticated = False,
      ac_auth_config_error = None\<rparr>"

definition sample_auth :: auth_state where
  "sample_auth =
     \<lparr>as_settings = sample_settings, as_index = credential_index_from_config sample_mac ''k'' sample_settings,
      as_limiter = sample_limiter\<rparr>"

definition sample_guard_state :: guard_state where
  "sample_guard_state = \<lparr>gs_limiter = limiter_state_new 0, gs_principal = None, gs_denials = []\<rparr>"

lemma sample_collision_free: "collision_free sample_mac ''k'' sample_settings token"
  by (simp add: collision_free_def sample_mac_def list_all_iff)

lemma sample_has_auth: "has_any_auth sample_settings"
  by (simp add: has_any_auth_def sample_settings_def)

text \<open>
  C35: with some credential configured, a request is authenticated exactly when its header carries a
  non-empty bearer token that equals exactly one configured token, and its principal is the one of
  that credential: the keyed index decides like a comparison with every configured token. Duplicate
  tokens never authenticate. The condition is that the HMAC does not give the token of this header the
  tag of a configured token that differs from it; nothing is assumed of any other string.
\<close>

theorem authenticate_iff:
  assumes "has_any_auth config" and "\<And>token. bearer authorization = Inr token \<Longrightarrow> collision_free mac key config token"
  shows "authenticate mac config (credential_index_from_config mac key config) authorization = Inr p \<longleftrightarrow>
     (\<exists>token c. bearer authorization = Inr token \<and> token \<noteq> []
        \<and> matching_credentials config token = [c] \<and> credential_principal config c = Inr p)"
  using authenticate_configured [OF assms(1), of mac "credential_index_from_config mac key config" authorization p]
    index_lookup [OF assms(2)]
  by auto

lemma authenticate_iff_witness:
  "\<exists>p. authenticate sample_mac sample_settings (credential_index_from_config sample_mac ''k'' sample_settings)
     (Some ''bearer  tok-ada'') = Inr p \<and> p_scope p = Owner ''ada''"
proof -
  have "bearer (Some ''bearer  tok-ada'') = Inr ''tok-ada''"
    "matching_credentials sample_settings ''tok-ada'' = [CredAuthUser 0]"
    by code_simp+
  moreover have "credential_principal sample_settings (CredAuthUser 0)
      = Inr \<lparr>p_tenant_id = ''acme'', p_scope = Owner ''ada'', p_roles = [''user'']\<rparr>"
    by (simp add: sample_settings_def principal_from_auth_user_def)
  ultimately show ?thesis
    using authenticate_iff [OF sample_has_auth sample_collision_free, of "Some ''bearer  tok-ada''"
        "\<lparr>p_tenant_id = ''acme'', p_scope = Owner ''ada'', p_roles = [''user'']\<rparr>"]
    by fastforce
qed

text \<open>
  C17: no privilege escalation. Whatever the HMAC, every principal is of the configured tenant, and an
  authenticated administrator, unless the service runs without credentials and unauthenticated access was
  explicitly allowed, presented a token with the tag of the configured admin token or of the token of a user
  configured as administrator, and no other credential has that tag; when the HMAC gives the presented token
  the tag of no other configured token, it is that very token.
\<close>

theorem admin_needs_admin_credential:
  assumes "authenticate mac config (credential_index_from_config mac key config) authorization = Inr p"
  shows "p_tenant_id p = ac_tenant_id config
    \<and> (is_admin p \<longrightarrow> (\<not> has_any_auth config \<and> ac_allow_unsafe_unauthenticated config)
       \<or> (\<exists>token secret c. bearer authorization = Inr token \<and> mac key secret = mac key token
            \<and> (ac_admin_token config = Some secret
               \<or> (\<exists>u. u \<in> set (ac_auth_users config) \<and> au_token u = secret \<and> au_scope u = UserAdmin))
            \<and> filter (\<lambda>c. mac key (fst c) = mac key token) (configured_credentials config) = [(secret, c)]
            \<and> (collision_free mac key config token \<longrightarrow> secret = token)))"
proof (cases "has_any_auth config")
  case True
  then obtain token c where t: "bearer authorization = Inr token" "credential_principal config c = Inr p"
      "credential_lookup mac (credential_index_from_config mac key config) token = [c]"
    using assms authenticate_configured [OF True, of mac "credential_index_from_config mac key config"] by blast
  then obtain secret where f: "filter (\<lambda>c. mac key (fst c) = mac key token) (configured_credentials config) = [(secret, c)]"
    by (auto simp: index_lookup_tags map_eq_Cons_conv)
  have "(secret, c) \<in> set (filter (\<lambda>c. mac key (fst c) = mac key token) (configured_credentials config))"
    unfolding f by simp
  then have "(secret, c) \<in> set (configured_credentials config)" "mac key secret = mac key token" by simp_all
  moreover from this have "c \<in> set (matching_credentials config secret)"
    by (force simp: matching_credentials_def)
  ultimately show ?thesis
    using t f credential_principal_admin [of config c p secret] credential_principal_tenant [of config c p]
    by (auto simp: collision_free_def list_all_iff)
next
  case False
  with assms show ?thesis
    by (auto simp: authenticate_def admin_principal_def split: if_splits)
qed

lemma admin_needs_admin_credential_witness:
  "\<exists>p. authenticate sample_mac sample_settings (credential_index_from_config sample_mac ''k'' sample_settings)
     (Some ''Bearer tok-root'') = Inr p \<and> p_tenant_id p = ''acme''"
proof -
  have "case authenticate sample_mac sample_settings (credential_index_from_config sample_mac ''k'' sample_settings)
     (Some ''Bearer tok-root'') of Inr p \<Rightarrow> True | Inl _ \<Rightarrow> False"
    by code_simp
  then obtain p where p: "authenticate sample_mac sample_settings
      (credential_index_from_config sample_mac ''k'' sample_settings) (Some ''Bearer tok-root'') = Inr p"
    by (auto split: sum.splits)
  from admin_needs_admin_credential [OF p] p show ?thesis
    by (simp add: sample_settings_def)
qed

text \<open>
  An owner principal reaches its own private data and no other: reads, writes and accesses are
  allowed exactly for its own id, and a request it sends is always scoped to that id or refused.
\<close>

theorem owner_scope_enforced:
  assumes "p_scope p = Owner me"
  shows "require_owner_read p owner = (if owner = me then Inr ()
      else Inl (Forbidden ''principal is not allowed to access this owner_user_id''))
    \<and> require_owner_write p owner = require_owner_read p owner
    \<and> require_owner_access p owner = require_owner_read p owner
    \<and> apply_owner_default p field = (if field = None \<or> field = Some me then Inr (Some me)
      else Inl (Forbidden ''principal is not allowed to access this owner_user_id''))"
  using assms
  by (auto simp: require_owner_read_def require_owner_write_def require_owner_access_def apply_owner_default_def
      split: option.split)

lemma owner_scope_enforced_witness:
  "apply_owner_default \<lparr>p_tenant_id = ''acme'', p_scope = Owner ''ada'', p_roles = []\<rparr> None = Inr (Some ''ada'')"
  using owner_scope_enforced [of "\<lparr>p_tenant_id = ''acme'', p_scope = Owner ''ada'', p_roles = []\<rparr>" "''ada''" _ None]
  by simp

text \<open>
  What a guard lets through. The user guard admits a request exactly when it authenticates and
  its principal's rate limit has room; the company-writer guard admits those of them that are
  administrators, company writers or, with the legacy switch, anybody; the admin guard admits
  administrators only.
\<close>

theorem guards_enforce_permission:
  "(fst (user_guard mac hex_mac auth hdr now st) = Inr who \<longleftrightarrow>
      authenticate mac (as_settings auth) (as_index auth) hdr = Inr who
      \<and> fst (check_at (as_limiter auth) (gs_limiter st)
            (rate_limit_key hex_mac (ac_index_hash_secret (as_settings auth)) who) now) = Inr ())
   \<and> (fst (company_writer_guard mac hex_mac auth hdr now st) = Inr who \<longleftrightarrow>
      fst (user_guard mac hex_mac auth hdr now st) = Inr who
      \<and> (is_admin who \<or> ''company_writer'' \<in> set (p_roles who) \<or> ac_allow_legacy_shared_writer (as_settings auth)))
   \<and> (fst (admin_guard mac hex_mac auth hdr now st) = Inr who \<longleftrightarrow>
      fst (user_guard mac hex_mac auth hdr now st) = Inr who \<and> is_admin who)"
proof (cases "authenticate mac (as_settings auth) (as_index auth) hdr")
  case (Inr p)
  obtain v limiter where c: "check_at (as_limiter auth) (gs_limiter st)
      (rate_limit_key hex_mac (ac_index_hash_secret (as_settings auth)) p) now = (v, limiter)"
    by fastforce
  show ?thesis
    using Inr c
    by (cases v) (auto simp: company_writer_guard_def admin_guard_def user_guard_def
        enforce_principal_rate_limit_def require_company_write_def require_admin_def has_role_iff)
qed (simp add: company_writer_guard_def admin_guard_def user_guard_def)

text \<open>
  A refused request leaves no principal behind for later layers (logs, the operation journal),
  whichever guard refused it and for whatever reason.
\<close>

theorem refused_request_records_nobody:
  assumes "g = user_guard \<or> g = company_writer_guard \<or> g = admin_guard"
    and "fst (g mac hex_mac auth hdr now st) = Inl err"
  shows "gs_principal (snd (g mac hex_mac auth hdr now st)) = gs_principal st"
  using assms
  by (auto simp: company_writer_guard_def user_guard_def admin_guard_def enforce_principal_rate_limit_def
      audit_denial_def case_prod_beta split: sum.splits if_splits)

lemma refused_request_records_nobody_witness:
  "gs_principal (snd (company_writer_guard sample_mac sample_mac sample_auth (Some ''Bearer tok-ada'') 5
     sample_guard_state)) = None"
proof -
  have "case fst (company_writer_guard sample_mac sample_mac sample_auth (Some ''Bearer tok-ada'') 5
     sample_guard_state) of Inl _ \<Rightarrow> True | Inr _ \<Rightarrow> False"
    by code_simp
  then obtain err where "fst (company_writer_guard sample_mac sample_mac sample_auth (Some ''Bearer tok-ada'') 5
     sample_guard_state) = Inl err"
    by (auto split: sum.splits)
  from refused_request_records_nobody [of company_writer_guard, OF _ this] show ?thesis by (simp add: sample_guard_state_def)
qed

text \<open>
  Rate-limit and budget keys separate principals. The identity that is hashed determines the
  tenant, the kind of scope and the owner, as long as tenant ids contain no NUL.
\<close>

theorem principal_identity_injective:
  assumes "principal_identity p = principal_identity q"
    and "CHR 0x00 \<notin> set (p_tenant_id p)" and "CHR 0x00 \<notin> set (p_tenant_id q)"
  shows "p_tenant_id p = p_tenant_id q \<and> p_scope p = p_scope q"
  using assms by (rule identity_injective)

lemma principal_identity_injective_witness:
  "principal_identity \<lparr>p_tenant_id = ''acme'', p_scope = Owner ''ada'', p_roles = [''r'']\<rparr>
     = principal_identity \<lparr>p_tenant_id = ''acme'', p_scope = Owner ''ada'', p_roles = []\<rparr> \<and> Owner ''ada'' = Owner ''ada''"
  using principal_identity_injective [of "\<lparr>p_tenant_id = ''acme'', p_scope = Owner ''ada'', p_roles = [''r'']\<rparr>"
      "\<lparr>p_tenant_id = ''acme'', p_scope = Owner ''ada'', p_roles = []\<rparr>"]
  by (simp add: principal_identity_def scope_label_def owner_user_id_def)

text \<open>
  The bearer header is read back: any spelling of the scheme, one or more spaces and a token
  that does not start with a space yield that token.
\<close>

theorem bearer_header_roundtrip:
  assumes "eq_ignore_ascii_case scheme ''bearer''" and "0 < n" and "token = [] \<or> hd token \<noteq> CHR '' ''"
  shows "bearer_credentials (scheme @ replicate n CHR '' '' @ token) = Some token"
proof -
  obtain m where n: "n = Suc m" using assms(2) by (cases n) auto
  have "split_once '' '' (scheme @ CHR '' '' # replicate m CHR '' '' @ token)
      = Some (scheme, replicate m CHR '' '' @ token)"
    using bearer_scheme_no_space [OF assms(1)] by (rule split_once_char)
  moreover have "dropWhile (\<lambda>c. c = CHR '' '') (replicate m CHR '' '' @ token) = token"
    using assms(3) by (induction m) (cases token; auto)+
  ultimately show ?thesis using assms(1) by (simp add: bearer_credentials_def n)
qed

lemma bearer_header_roundtrip_witness: "bearer_credentials ''BEARER  tok'' = Some ''tok''"
proof -
  have "eq_ignore_ascii_case ''BEARER'' ''bearer''" by code_simp
  from bearer_header_roundtrip [OF this, of 2 "''tok''"] show ?thesis by (simp add: numeral_2_eq_2)
qed

end
