(* ===== verification/Fragmenter.thy ===== *)
theory Fragmenter
  imports Models
begin

text \<open>
  Document fragmentation (\<open>fragmenter.rs\<close>): the policy, the linear scan with its break points, and
  the block-aware variant. Characters are the byte sequences of \<open>chars\<close>, so a position is a
  character index as in the code. SHA-256 followed by hexadecimal text is a parameter. A
  \<open>BTreeSet<usize>\<close> of break points is a list: only its largest element in a range is read.
\<close>

section \<open>Policy\<close>

definition max_fragment_chunk_chars :: usize where
  "max_fragment_chunk_chars = 8000"

definition max_fragments_per_document :: usize where
  "max_fragments_per_document = 10000"

record document_fragmenter =
  df_chunk_size_chars :: usize
  df_overlap_chars :: usize
  df_min_chunk_chars :: usize

definition document_fragmenter_default :: document_fragmenter where
  "document_fragmenter_default =
     \<lparr>df_chunk_size_chars = 1200, df_overlap_chars = 150, df_min_chunk_chars = 200\<rparr>"

definition fragmenter_from_policy :: "fragment_policy option \<Rightarrow> document_fragmenter" where
  "fragmenter_from_policy policy =
     (let d = document_fragmenter_default;
          chunk = (case Option.bind policy fp_chunk_size_chars of
                     Some c \<Rightarrow> max 1 (min c max_fragment_chunk_chars) | None \<Rightarrow> df_chunk_size_chars d);
          overlap = (case Option.bind policy fp_overlap_chars of
                     Some c \<Rightarrow> c | None \<Rightarrow> df_overlap_chars d);
          min_chunk = (case Option.bind policy fp_min_chunk_chars of
                     Some c \<Rightarrow> max c 1 | None \<Rightarrow> df_min_chunk_chars d)
      in \<lparr>df_chunk_size_chars = chunk, df_overlap_chars = min overlap (chunk - 1),
          df_min_chunk_chars = min min_chunk chunk\<rparr>)"

section \<open>Break points\<close>

record break_points =
  bp_headings :: "nat list"
  bp_paragraphs :: "nat list"
  bp_sentences :: "nat list"

definition newline :: string where "newline = [CHR 0x0A]"

text \<open>\<open>split_inclusive('\n')\<close>: every line keeps its newline.\<close>

fun split_inclusive :: "string list \<Rightarrow> string list list" where
  "split_inclusive [] = []"
| "split_inclusive (c # cs) =
     (if c = newline then [c] # split_inclusive cs
      else (case split_inclusive cs of [] \<Rightarrow> [[c]] | l # ls \<Rightarrow> (c # l) # ls))"

definition is_heading_line :: "string list \<Rightarrow> bool" where
  "is_heading_line line = (case trim_start_chars line of [] \<Rightarrow> False | c # _ \<Rightarrow> c = ''#'')"

fun heading_positions :: "nat \<Rightarrow> string list list \<Rightarrow> nat list" where
  "heading_positions char_pos [] = []"
| "heading_positions char_pos (line # ls) =
     (if 0 < char_pos \<and> is_heading_line line then [char_pos] else [])
       @ heading_positions (char_pos + length line) ls"

fun paragraph_positions :: "nat \<Rightarrow> string list \<Rightarrow> nat list" where
  "paragraph_positions idx (c # d # cs) =
     (if c = newline \<and> d = newline then [idx + 2] else []) @ paragraph_positions (Suc idx) (d # cs)"
| "paragraph_positions idx _ = []"

fun sentence_positions :: "nat \<Rightarrow> string list \<Rightarrow> nat list" where
  "sentence_positions idx (c # d # cs) =
     (if (c = ''.'' \<or> c = ''!'' \<or> c = ''?'') \<and> is_ws d then [Suc idx] else [])
       @ sentence_positions (Suc idx) (d # cs)"
| "sentence_positions idx _ = []"

definition break_points_new :: "string list \<Rightarrow> break_points" where
  "break_points_new cs =
     \<lparr>bp_headings = heading_positions 0 (split_inclusive cs),
      bp_paragraphs = paragraph_positions 0 cs,
      bp_sentences = sentence_positions 0 cs\<rparr>"

text \<open>\<open>set.range(lo..=hi).next_back()\<close>\<close>

definition range_next_back :: "nat list \<Rightarrow> nat \<Rightarrow> nat \<Rightarrow> nat option" where
  "range_next_back xs lo hi =
     (case filter (\<lambda>x. lo \<le> x \<and> x \<le> hi) xs of [] \<Rightarrow> None | y # ys \<Rightarrow> Some (fold max ys y))"

definition best_between :: "break_points \<Rightarrow> nat \<Rightarrow> nat \<Rightarrow> nat option" where
  "best_between self lo hi =
     (case List.map_filter (\<lambda>set. range_next_back set lo hi)
             [bp_headings self, bp_paragraphs self, bp_sentences self] of
        [] \<Rightarrow> None | b # _ \<Rightarrow> Some b)"

section \<open>The scan\<close>

record document_fragment =
  frag_index :: u32
  frag_content :: string
  frag_char_start :: usize
  frag_char_end :: usize
  frag_token_estimate :: usize
  frag_checksum :: string

definition div_ceil :: "nat \<Rightarrow> nat \<Rightarrow> nat" where
  "div_ceil a b = (a + b - 1) div b"

definition min_step_for :: "usize \<Rightarrow> usize" where
  "min_step_for char_len = max (div_ceil char_len max_fragments_per_document) 1"

definition slice :: "'a list \<Rightarrow> nat \<Rightarrow> nat \<Rightarrow> 'a list" where
  "slice xs a b = take (b - a) (drop a xs)"

text \<open>The two \<open>while\<close> loops of \<open>trim_range\<close>, counted from each side.\<close>

definition trim_range :: "string list \<Rightarrow> nat \<Rightarrow> nat \<Rightarrow> nat \<times> nat" where
  "trim_range cs start_pos end_pos =
     (let left = min start_pos (length cs);
          right = min end_pos (length cs);
          left' = left + length (takeWhile is_ws (slice cs left right));
          right' = right - length (takeWhile is_ws (rev (slice cs left' right)))
      in (left', right'))"

definition estimate_tokens :: "string \<Rightarrow> usize" where
  "estimate_tokens s = max (div_ceil (length (chars s)) 4) 1"

fun le_bytes :: "nat \<Rightarrow> nat \<Rightarrow> string" where
  "le_bytes 0 n = []"
| "le_bytes (Suc k) n = char_of (n mod 256) # le_bytes k (n div 256)"

definition fragment_checksum :: "(string \<Rightarrow> string) \<Rightarrow> u32 \<Rightarrow> usize \<Rightarrow> usize \<Rightarrow> string \<Rightarrow> string" where
  "fragment_checksum sha256_hex index start_pos end_pos s =
     sha256_hex (le_bytes 4 (unat index) @ le_bytes 8 start_pos @ le_bytes 8 end_pos @ s)"

definition fragment_at ::
  "(string \<Rightarrow> string) \<Rightarrow> string list \<Rightarrow> nat \<Rightarrow> nat \<Rightarrow> nat \<Rightarrow> document_fragment" where
  "fragment_at sha256_hex cs index start_pos end_pos =
     (let content = concat (slice cs start_pos end_pos)
      in \<lparr>frag_index = of_nat index, frag_content = content,
          frag_char_start = start_pos, frag_char_end = end_pos,
          frag_token_estimate = estimate_tokens content,
          frag_checksum = fragment_checksum sha256_hex (of_nat index) start_pos end_pos content\<rparr>)"

text \<open>
  One iteration: where the chunk that begins at \<open>start\<close> ends, and where the next one begins. The
  three bounds that \<open>fragment_with_min_step\<close> computes before its loop are \<open>step\<close>, \<open>chunk\<close> and
  \<open>min_chunk\<close>.
\<close>

definition chunk_end :: "break_points \<Rightarrow> nat \<Rightarrow> nat \<Rightarrow> nat \<Rightarrow> nat \<Rightarrow> nat" where
  "chunk_end breaks chunk min_chunk char_len start_pos =
     (let max_end = min (start_pos + chunk) char_len
      in if max_end = char_len then char_len
         else (case best_between breaks (start_pos + min_chunk) max_end of
                 Some b \<Rightarrow> b | None \<Rightarrow> max_end))"

definition next_start :: "document_fragmenter \<Rightarrow> nat \<Rightarrow> nat \<Rightarrow> nat \<Rightarrow> nat \<Rightarrow> nat" where
  "next_start self step char_len start_pos end_pos =
     (let advance = max ((end_pos - start_pos) div 4) step
      in min (max (end_pos - df_overlap_chars self) (start_pos + advance)) char_len)"

lemma next_start_greater:
  assumes "start_pos < char_len" and "0 < step"
  shows "start_pos < next_start self step char_len start_pos end_pos"
  using assms by (simp add: next_start_def Let_def less_max_iff_disj)

function fragment_loop ::
  "(string \<Rightarrow> string) \<Rightarrow> document_fragmenter \<Rightarrow> usize \<Rightarrow> string list \<Rightarrow> break_points \<Rightarrow> nat \<Rightarrow>
     document_fragment list \<Rightarrow> document_fragment list" where
  "fragment_loop sha256_hex self min_step cs breaks start_pos fragments =
     (let step = max min_step 1;
          chunk = max (df_chunk_size_chars self) step;
          min_chunk = min (max (df_min_chunk_chars self) step) chunk
      in if start_pos < length cs then
           (let end_pos = chunk_end breaks chunk min_chunk (length cs) start_pos;
                (a, b) = trim_range cs start_pos end_pos;
                fragments' = (if a < b then fragments @ [fragment_at sha256_hex cs (length fragments) a b]
                              else fragments)
            in if length cs \<le> end_pos then fragments'
               else fragment_loop sha256_hex self min_step cs breaks
                      (next_start self step (length cs) start_pos end_pos) fragments')
         else fragments)"
  by pat_completeness auto
termination
proof (relation "measure (\<lambda>(_, _, _, cs, _, start_pos, _). length cs - start_pos)", goal_cases)
  case 1
  show ?case by (rule wf_measure)
next
  case 2
  then show ?case
    by (simp only: in_measure prod.case)
      (rule diff_less_mono2 [OF next_start_greater], assumption, rule less_max_iff_disj [THEN iffD2],
        rule disjI2, rule zero_less_one, assumption)
qed

declare fragment_loop.simps [simp del]

definition fragment_with_min_step ::
  "(string \<Rightarrow> string) \<Rightarrow> document_fragmenter \<Rightarrow> string \<Rightarrow> usize \<Rightarrow> document_fragment list" where
  "fragment_with_min_step sha256_hex self content min_step =
     (let cs = chars content
      in if length cs = 0 then []
         else fragment_loop sha256_hex self min_step cs (break_points_new cs) 0 [])"

definition fragment :: "(string \<Rightarrow> string) \<Rightarrow> document_fragmenter \<Rightarrow> string \<Rightarrow> document_fragment list" where
  "fragment sha256_hex self content =
     fragment_with_min_step sha256_hex self content (min_step_for (length (chars content)))"

end
