(* ===== verification/Fragmenter_Facts.thy ===== *)
theory Fragmenter_Facts
  imports Fragmenter
begin

text \<open>
  What fragmentation guarantees, whatever the policy: no character but white space is lost, every
  fragment is a trimmed slice of the document of bounded size, fragments are numbered in order, and
  a document without parsed blocks has at most 10,000 of them.
\<close>

section \<open>Slices and trimming\<close>

lemma length_slice [simp]: "b \<le> length xs \<Longrightarrow> length (slice xs a b) = b - a"
  by (simp add: slice_def)

lemma nth_slice [simp]: "a + i < b \<Longrightarrow> b \<le> length xs \<Longrightarrow> slice xs a b ! i = xs ! (a + i)"
  by (simp add: slice_def)

lemma takeWhile_prefix_all: "i < length (takeWhile P xs) \<Longrightarrow> P (xs ! i)"
  by (metis nth_mem set_takeWhileD takeWhile_nth)

lemma trim_range_spec:
  assumes t: "trim_range cs s e = (a, b)" and "s \<le> e" and "e \<le> length cs"
  shows "s \<le> a" "a \<le> b" "b \<le> e"
    and "\<And>i. s \<le> i \<Longrightarrow> i < a \<Longrightarrow> is_ws (cs ! i)"
    and "\<And>i. b \<le> i \<Longrightarrow> i < e \<Longrightarrow> is_ws (cs ! i)"
    and "a < b \<Longrightarrow> \<not> is_ws (cs ! a)" and "a < b \<Longrightarrow> \<not> is_ws (cs ! (b - 1))"
proof -
  let ?l = "length (takeWhile is_ws (slice cs s e))"
  let ?r = "length (takeWhile is_ws (rev (slice cs a e)))"
  have a: "a = s + ?l" and b: "b = e - ?r"
    using t assms(2,3) by (auto simp: trim_range_def Let_def min_absorb1)
  have l: "?l \<le> e - s" using length_takeWhile_le [of is_ws "slice cs s e"] assms(3) by simp
  have r: "?r \<le> e - a" using length_takeWhile_le [of is_ws "rev (slice cs a e)"] assms(3) by simp
  show "s \<le> a" using a by simp
  show "a \<le> b" "b \<le> e" using a b l r assms(2) by simp_all
  show ws_left: "is_ws (cs ! i)" if "s \<le> i" "i < a" for i
    using takeWhile_prefix_all [of "i - s" is_ws "slice cs s e"] that a l assms(3) by simp
  show ws_right: "is_ws (cs ! i)" if "b \<le> i" "i < e" for i
  proof -
    have "e - Suc i < ?r" using that b r by simp
    then have "is_ws (rev (slice cs a e) ! (e - Suc i))" by (rule takeWhile_prefix_all)
    moreover have "e - Suc i < e - a" using that \<open>a \<le> b\<close> by simp
    ultimately show ?thesis using that assms(3) \<open>a \<le> b\<close> by (simp add: rev_nth)
  qed
  show "\<not> is_ws (cs ! a)" if "a < b"
  proof -
    have "?l < length (slice cs s e)" using that a b assms(3) by simp
    from nth_length_takeWhile [OF this] show ?thesis using that a b assms(3) by simp
  qed
  show "\<not> is_ws (cs ! (b - 1))" if "a < b"
  proof -
    have len: "?r < length (rev (slice cs a e))" using that b r assms(3) by simp
    from nth_length_takeWhile [OF this] have "\<not> is_ws (rev (slice cs a e) ! ?r)" .
    moreover have "rev (slice cs a e) ! ?r = cs ! (b - 1)"
      using len that b r assms(3) by (simp add: rev_nth)
    ultimately show ?thesis by simp
  qed
qed

section \<open>One iteration\<close>

lemma fold_max_mem: "fold max ys y \<in> set (y # ys)" for y :: nat
  by (induction ys arbitrary: y) (auto simp: max_def split: if_splits)

lemma range_next_back_Some:
  assumes "range_next_back xs lo hi = Some b"
  shows "b \<in> set xs \<and> lo \<le> b \<and> b \<le> hi"
proof -
  obtain y ys where f: "filter (\<lambda>x. lo \<le> x \<and> x \<le> hi) xs = y # ys" and b: "b = fold max ys y"
    using assms by (auto simp: range_next_back_def split: list.splits)
  have "b \<in> set (filter (\<lambda>x. lo \<le> x \<and> x \<le> hi) xs)"
    unfolding f b by (rule fold_max_mem)
  then show ?thesis by simp
qed

lemma best_between_Some: "best_between br lo hi = Some b \<Longrightarrow> lo \<le> b \<and> b \<le> hi"
  by (auto simp: best_between_def List.map_filter_simps dest!: range_next_back_Some
      split: option.splits)

lemma chunk_end_bounds:
  assumes "start_pos < char_len" and "min_chunk \<le> chunk" and "0 < chunk"
  shows "chunk_end br chunk min_chunk char_len start_pos \<le> char_len"
    and "chunk_end br chunk min_chunk char_len start_pos \<le> start_pos + chunk"
    and "chunk_end br chunk min_chunk char_len start_pos = char_len
      \<or> start_pos + min_chunk \<le> chunk_end br chunk min_chunk char_len start_pos"
  using assms best_between_Some [of br "start_pos + min_chunk" "start_pos + chunk"]
  by (auto simp: chunk_end_def Let_def min_def split: option.split)

text \<open>The loop with its invariant bindings named.\<close>

definition loop_end :: "document_fragmenter \<Rightarrow> nat \<Rightarrow> string list \<Rightarrow> break_points \<Rightarrow> nat \<Rightarrow> nat" where
  "loop_end self ms cs br start_pos =
     chunk_end br (max (df_chunk_size_chars self) (max ms 1))
       (min (max (df_min_chunk_chars self) (max ms 1)) (max (df_chunk_size_chars self) (max ms 1)))
       (length cs) start_pos"

definition loop_push ::
  "(string \<Rightarrow> string) \<Rightarrow> string list \<Rightarrow> nat \<Rightarrow> nat \<Rightarrow> document_fragment list \<Rightarrow> document_fragment list" where
  "loop_push sha cs s e frs =
     (case trim_range cs s e of (a, b) \<Rightarrow> if a < b then frs @ [fragment_at sha cs (length frs) a b] else frs)"

lemma fragment_loop_unfold:
  "fragment_loop sha self ms cs br s frs =
     (if s < length cs then
        if length cs \<le> loop_end self ms cs br s then loop_push sha cs s (loop_end self ms cs br s) frs
        else fragment_loop sha self ms cs br (next_start self (max ms 1) (length cs) s (loop_end self ms cs br s))
               (loop_push sha cs s (loop_end self ms cs br s) frs)
      else frs)"
  by (subst fragment_loop.simps)
    (simp only: Let_def loop_end_def [symmetric] loop_push_def case_prod_beta)

lemma loop_end_bounds:
  assumes "s < length cs"
  shows "loop_end self ms cs br s \<le> length cs"
    and "loop_end self ms cs br s \<le> s + max (df_chunk_size_chars self) (max ms 1)"
    and "s + max ms 1 \<le> loop_end self ms cs br s \<or> loop_end self ms cs br s = length cs"
    and "s < loop_end self ms cs br s"
proof -
  let ?chunk = "max (df_chunk_size_chars self) (max ms 1)"
  let ?min = "min (max (df_min_chunk_chars self) (max ms 1)) ?chunk"
  have m: "?min \<le> ?chunk" and c: "0 < ?chunk" and step: "max ms 1 \<le> ?min" by auto
  note b = chunk_end_bounds [OF assms m c, of br, folded loop_end_def]
  show "loop_end self ms cs br s \<le> length cs" "loop_end self ms cs br s \<le> s + ?chunk" by (fact b)+
  show d: "s + max ms 1 \<le> loop_end self ms cs br s \<or> loop_end self ms cs br s = length cs"
    using b(3) step by linarith
  then show "s < loop_end self ms cs br s" using assms by auto
qed

text \<open>Scanning goes on from the end of a chunk or before it, and at least \<open>max ms 1\<close> further.\<close>

lemma next_start_between:
  assumes "s + m \<le> e" and "e \<le> n"
  shows "s + m \<le> next_start self m n s e" and "next_start self m n s e \<le> e"
proof -
  have d: "(e - s) div 4 \<le> e - s" by simp
  then have "s + max ((e - s) div 4) m \<le> e" using assms by (cases "(e - s) div 4 \<le> m") linarith+
  then show "next_start self m n s e \<le> e"
    by (simp only: next_start_def Let_def min_le_iff_disj max.bounded_iff diff_le_self simp_thms)
  have "s + m \<le> max (e - df_overlap_chars self) (s + max ((e - s) div 4) m)" by (simp add: le_max_iff_disj)
  then show "s + m \<le> next_start self m n s e" using assms by (simp add: next_start_def Let_def)
qed

lemma next_start_bounds:
  assumes "s < length cs" and "loop_end self ms cs br s < length cs"
  shows "s + max ms 1 \<le> next_start self (max ms 1) (length cs) s (loop_end self ms cs br s)"
    and "next_start self (max ms 1) (length cs) s (loop_end self ms cs br s) \<le> loop_end self ms cs br s"
proof -
  have e: "s + max ms 1 \<le> loop_end self ms cs br s"
    using loop_end_bounds(3) [OF assms(1), where self = self and ms = ms and br = br] assms(2) by auto
  note next_start_between [OF e less_imp_le [OF assms(2)], of self]
  then show "s + max ms 1 \<le> next_start self (max ms 1) (length cs) s (loop_end self ms cs br s)"
    and "next_start self (max ms 1) (length cs) s (loop_end self ms cs br s) \<le> loop_end self ms cs br s"
    by blast+
qed

lemma fragment_loop_rule [consumes 0, case_names stop last step]:
  assumes stop: "\<And>s frs. length cs \<le> s \<Longrightarrow> P s frs frs"
    and last: "\<And>s frs. s < length cs \<Longrightarrow> loop_end self ms cs br s = length cs \<Longrightarrow>
      P s frs (loop_push sha cs s (length cs) frs)"
    and step: "\<And>s frs r. s < length cs \<Longrightarrow> loop_end self ms cs br s < length cs \<Longrightarrow>
      P (next_start self (max ms 1) (length cs) s (loop_end self ms cs br s))
        (loop_push sha cs s (loop_end self ms cs br s) frs) r \<Longrightarrow> P s frs r"
  shows "P s frs (fragment_loop sha self ms cs br s frs)"
proof (induction "length cs - s" arbitrary: s frs rule: less_induct)
  case less
  show ?case
  proof (cases "s < length cs")
    case True
    note b = loop_end_bounds(1) [OF True, of self ms br]
    show ?thesis
    proof (cases "loop_end self ms cs br s < length cs")
      case False
      with b have "loop_end self ms cs br s = length cs" by simp
      with last [OF True this] True show ?thesis by (subst fragment_loop_unfold) simp
    next
      case e: True
      let ?n = "next_start self (max ms 1) (length cs) s (loop_end self ms cs br s)"
      have "length cs - ?n < length cs - s" using next_start_bounds(1) [OF True e] True by linarith
      from step [OF True e less [OF this]] True e show ?thesis by (subst fragment_loop_unfold) simp
    qed
  next
    case False
    with stop [of s] show ?thesis by (subst fragment_loop_unfold) simp
  qed
qed

section \<open>The fragments of a document\<close>

text \<open>A fragment as it must be: a trimmed, non-empty slice of bounded length.\<close>

definition fragment_ok :: "(string \<Rightarrow> string) \<Rightarrow> string list \<Rightarrow> nat \<Rightarrow> document_fragment \<Rightarrow> bool" where
  "fragment_ok sha cs limit f =
     (frag_char_start f < frag_char_end f \<and> frag_char_end f \<le> length cs
      \<and> frag_char_end f - frag_char_start f \<le> limit
      \<and> frag_content f = concat (slice cs (frag_char_start f) (frag_char_end f))
      \<and> \<not> is_ws (cs ! frag_char_start f) \<and> \<not> is_ws (cs ! (frag_char_end f - 1))
      \<and> frag_token_estimate f = estimate_tokens (frag_content f)
      \<and> frag_checksum f
          = fragment_checksum sha (frag_index f) (frag_char_start f) (frag_char_end f) (frag_content f))"

definition covers_char :: "document_fragment list \<Rightarrow> nat \<Rightarrow> bool" where
  "covers_char frs i = (\<exists>f\<in>set frs. frag_char_start f \<le> i \<and> i < frag_char_end f)"

lemma loop_push_cases:
  assumes "s < e" and "e \<le> length cs"
  shows "loop_push sha cs s e frs = frs \<and> (\<forall>i. s \<le> i \<and> i < e \<longrightarrow> is_ws (cs ! i))
    \<or> (\<exists>a b. loop_push sha cs s e frs = frs @ [fragment_at sha cs (length frs) a b]
        \<and> s \<le> a \<and> a < b \<and> b \<le> e \<and> \<not> is_ws (cs ! a) \<and> \<not> is_ws (cs ! (b - 1))
        \<and> (\<forall>i. s \<le> i \<and> i < e \<and> \<not> is_ws (cs ! i) \<longrightarrow> a \<le> i \<and> i < b))"
proof -
  obtain a b where t: "trim_range cs s e = (a, b)" by fastforce
  note spec = trim_range_spec [OF t less_imp_le [OF assms(1)] assms(2)]
  show ?thesis
  proof (cases "a < b")
    case True
    then have "loop_push sha cs s e frs = frs @ [fragment_at sha cs (length frs) a b]"
      by (simp add: loop_push_def t)
    moreover have "a \<le> i \<and> i < b" if "s \<le> i" "i < e" "\<not> is_ws (cs ! i)" for i
      using spec(4,5) [of i] that by (meson not_le)
    ultimately show ?thesis using True spec(1,3,6,7) by blast
  next
    case False
    then have "loop_push sha cs s e frs = frs" by (simp add: loop_push_def t)
    moreover have "is_ws (cs ! i)" if "s \<le> i" "i < e" for i
      using spec(4,5) [of i] that False spec(2) by (meson le_less_trans not_le)
    ultimately show ?thesis by blast
  qed
qed

lemma loop_push_prefix: "\<exists>gs. loop_push sha cs s e frs = frs @ gs \<and> length gs \<le> 1"
  by (simp add: loop_push_def split: prod.split)

lemma loop_push_covers:
  assumes "s < e" and "e \<le> length cs" and "s \<le> i" "i < e" "\<not> is_ws (cs ! i)"
  shows "covers_char (loop_push sha cs s e frs) i"
  using loop_push_cases [OF assms(1,2), of sha frs] assms(3-5)
  by (fastforce simp: covers_char_def fragment_at_def Let_def)

lemma loop_push_all_ok:
  assumes "s < e" "e \<le> length cs" "e \<le> s + limit" and "\<forall>f\<in>set frs. fragment_ok sha cs limit f"
  shows "\<forall>f\<in>set (loop_push sha cs s e frs). fragment_ok sha cs limit f"
  using loop_push_cases [OF assms(1,2), of sha frs] assms(2-4)
  by (auto simp: fragment_ok_def fragment_at_def Let_def)

lemma loop_push_indexed:
  assumes "\<forall>i<length frs. frag_index (frs ! i) = of_nat i"
  shows "\<forall>i<length (loop_push sha cs s e frs). frag_index (loop_push sha cs s e frs ! i) = of_nat i"
  using assms by (auto simp: loop_push_def fragment_at_def Let_def nth_append less_Suc_eq split: prod.split)

lemma covers_char_mono: "set frs \<subseteq> set gs \<Longrightarrow> covers_char frs i \<Longrightarrow> covers_char gs i"
  by (auto simp: covers_char_def)

text \<open>The loop extends its accumulator and covers everything from its start on.\<close>

lemma fragment_loop_extends: "set frs \<subseteq> set (fragment_loop sha self ms cs br s frs)"
proof (rule fragment_loop_rule [where P = "\<lambda>s frs r. set frs \<subseteq> set r"])
  fix s frs
  show "set frs \<subseteq> set (loop_push sha cs s (length cs) frs)"
    using loop_push_prefix [of sha cs s "length cs" frs] by auto
next
  fix s frs r
  assume "set (loop_push sha cs s (loop_end self ms cs br s) frs) \<subseteq> set r"
  then show "set frs \<subseteq> set r"
    using loop_push_prefix [of sha cs s "loop_end self ms cs br s" frs] by auto
qed simp

lemma fragment_loop_covers:
  "s \<le> i \<Longrightarrow> i < length cs \<Longrightarrow> \<not> is_ws (cs ! i) \<Longrightarrow> covers_char (fragment_loop sha self ms cs br s frs) i"
proof (induction "length cs - s" arbitrary: s frs rule: less_induct)
  case less
  have s: "s < length cs" using less.prems by simp
  let ?e = "loop_end self ms cs br s"
  let ?n = "next_start self (max ms 1) (length cs) s ?e"
  note b = loop_end_bounds(1,4) [OF s, where self = self and ms = ms and br = br]
  show ?case
  proof (cases "i < ?e")
    case True
    from loop_push_covers [OF b(2,1) less.prems(1) True less.prems(3), of sha frs]
    have "covers_char (loop_push sha cs s ?e frs) i" .
    then have "covers_char (fragment_loop sha self ms cs br ?n (loop_push sha cs s ?e frs)) i"
      by (rule covers_char_mono [OF fragment_loop_extends])
    with \<open>covers_char (loop_push sha cs s ?e frs) i\<close> show ?thesis
      using s by (subst fragment_loop_unfold) simp
  next
    case False
    then have e: "?e < length cs" using less.prems(2) by simp
    note n = next_start_bounds [OF s e]
    have "covers_char (fragment_loop sha self ms cs br ?n (loop_push sha cs s ?e frs)) i"
      by (rule less.hyps) (use n s False less.prems in linarith)+
    then show ?thesis using s e by (subst fragment_loop_unfold) simp
  qed
qed

lemma fragment_loop_ok:
  assumes "\<forall>f\<in>set frs. fragment_ok sha cs (max (df_chunk_size_chars self) (max ms 1)) f"
    and "\<forall>i<length frs. frag_index (frs ! i) = of_nat i"
  shows "(\<forall>f\<in>set (fragment_loop sha self ms cs br s frs).
            fragment_ok sha cs (max (df_chunk_size_chars self) (max ms 1)) f)
    \<and> (\<forall>i<length (fragment_loop sha self ms cs br s frs).
            frag_index (fragment_loop sha self ms cs br s frs ! i) = of_nat i)"
proof -
  let ?limit = "max (df_chunk_size_chars self) (max ms 1)"
  let ?good = "\<lambda>frs. (\<forall>f\<in>set frs. fragment_ok sha cs ?limit f) \<and> (\<forall>i<length frs. frag_index (frs ! i) = of_nat i)"
  have push: "?good (loop_push sha cs s (loop_end self ms cs br s) frs)" if "s < length cs" "?good frs" for s frs
    using loop_push_all_ok [OF loop_end_bounds(4) [OF that(1)] loop_end_bounds(1) [OF that(1)]
        loop_end_bounds(2) [OF that(1)]] loop_push_indexed that(2) by blast
  have "?good frs \<longrightarrow> ?good (fragment_loop sha self ms cs br s frs)"
  proof (rule fragment_loop_rule [where P = "\<lambda>s frs r. ?good frs \<longrightarrow> ?good r"])
    fix s frs
    assume "s < length cs" "loop_end self ms cs br s = length cs"
    with push [of s frs] show "?good frs \<longrightarrow> ?good (loop_push sha cs s (length cs) frs)" by simp
  next
    fix s frs r
    assume "s < length cs" "?good (loop_push sha cs s (loop_end self ms cs br s) frs) \<longrightarrow> ?good r"
    with push [of s frs] show "?good frs \<longrightarrow> ?good r" by blast
  qed simp
  with assms show ?thesis by blast
qed

section \<open>How many fragments, and how much text\<close>

lemma div_ceil_add: "0 < m \<Longrightarrow> div_ceil (x + m) m = Suc (div_ceil x m)"
proof -
  assume m: "0 < m"
  then have "x + m + m - 1 = (x + m - 1) + m" by simp
  then have "div_ceil (x + m) m = ((x + m - 1) + m) div m" by (simp only: div_ceil_def)
  also have "\<dots> = (x + m - 1) div m + 1" using m by (intro div_add_self2) simp
  finally show ?thesis by (simp add: div_ceil_def)
qed

lemma div_ceil_mono: "x \<le> y \<Longrightarrow> div_ceil x m \<le> div_ceil y m"
  by (simp add: div_ceil_def div_le_mono)

lemma div_ceil_le: "0 < m \<Longrightarrow> x \<le> k * m \<Longrightarrow> div_ceil x m \<le> k"
proof -
  assume m: "0 < m" and x: "x \<le> k * m"
  then have "x + m - 1 < Suc k * m" by simp
  then have "(x + m - 1) div m < Suc k" using m by (simp add: div_less_iff_less_mult)
  then show ?thesis by (simp add: div_ceil_def)
qed

lemma le_div_ceil: "0 < m \<Longrightarrow> x \<le> div_ceil x m * m"
proof -
  assume m: "0 < m"
  obtain q r where q: "q = (x + m - 1) div m * m" and r: "r = (x + m - 1) mod m" by blast
  have "q + r = x + m - 1" unfolding q r by (rule div_mult_mod_eq)
  moreover have "r < m" using m unfolding r by simp
  ultimately have "x \<le> q" using m by linarith
  then show ?thesis by (simp only: q div_ceil_def)
qed

lemma loop_push_length: "length (loop_push sha cs s e frs) \<le> Suc (length frs)"
  by (simp add: loop_push_def split: prod.split)

lemma fragment_loop_length:
  "length (fragment_loop sha self ms cs br s frs) \<le> length frs + div_ceil (length cs - s) (max ms 1)"
proof (rule fragment_loop_rule [where P = "\<lambda>s frs r. length r \<le> length frs + div_ceil (length cs - s) (max ms 1)"])
  fix s frs
  assume "s < length cs"
  then have "0 < length cs - s" by simp
  then have "1 \<le> div_ceil (length cs - s) (max ms 1)"
    using le_div_ceil [of "max ms 1" "length cs - s"]
    by (cases "div_ceil (length cs - s) (max ms 1)") (simp_all add: less_max_iff_disj)
  then show "length (loop_push sha cs s (length cs) frs) \<le> length frs + div_ceil (length cs - s) (max ms 1)"
    using loop_push_length [of sha cs s "length cs" frs] by linarith
next
  fix s frs r
  let ?n = "next_start self (max ms 1) (length cs) s (loop_end self ms cs br s)"
  assume s: "s < length cs" and e: "loop_end self ms cs br s < length cs"
    and r: "length r \<le> length (loop_push sha cs s (loop_end self ms cs br s) frs) + div_ceil (length cs - ?n) (max ms 1)"
  note n = next_start_bounds [OF s e]
  have "length cs - ?n + max ms 1 \<le> length cs - s" using n s e by linarith
  from div_ceil_mono [OF this, of "max ms 1"]
  have "Suc (div_ceil (length cs - ?n) (max ms 1)) \<le> div_ceil (length cs - s) (max ms 1)"
    by (subst (asm) div_ceil_add) simp_all
  then show "length r \<le> length frs + div_ceil (length cs - s) (max ms 1)"
    using r loop_push_length [of sha cs s "loop_end self ms cs br s" frs] by linarith
qed simp

lemma min_step_for_cap: "div_ceil n (max (min_step_for n) 1) \<le> max_fragments_per_document"
proof (rule div_ceil_le)
  have "n \<le> div_ceil n max_fragments_per_document * max_fragments_per_document"
    by (rule le_div_ceil) (simp add: max_fragments_per_document_def)
  also have "\<dots> \<le> max (min_step_for n) 1 * max_fragments_per_document"
    by (rule mult_le_mono1) (simp add: min_step_for_def)
  finally show "n \<le> max_fragments_per_document * max (min_step_for n) 1" by (simp add: mult.commute)
qed simp

definition emitted :: "document_fragment list \<Rightarrow> nat" where
  "emitted frs = sum_list (map (\<lambda>f. frag_char_end f - frag_char_start f) frs)"

lemma emitted_push:
  assumes "s < e" and "e \<le> length cs"
  shows "emitted (loop_push sha cs s e frs) \<le> emitted frs + (e - s)"
  using loop_push_cases [OF assms, of sha frs] by (auto simp: emitted_def fragment_at_def Let_def)

lemma next_start_advance:
  assumes "s + m \<le> e" and "e \<le> n" and "0 < m"
  shows "e - s \<le> 7 * (next_start self m n s e - s)"
proof -
  obtain q where q: "q = (e - s) div 4" by blast
  have q4: "e - s \<le> 4 * q + 3" unfolding q by linarith
  have "q \<le> e - s" unfolding q by simp
  then have "s + max q m \<le> e" using assms by (cases "q \<le> m") linarith+
  then have "s + max q m \<le> next_start self m n s e"
    unfolding next_start_def Let_def q [symmetric] using assms by (simp add: le_max_iff_disj)
  then have "max q m \<le> next_start self m n s e - s" by linarith
  moreover have "e - s \<le> 7 * max q m"
    using q4 assms(3) by (cases "q \<le> m") linarith+
  ultimately show ?thesis by linarith
qed

lemma fragment_loop_emitted:
  "emitted (fragment_loop sha self ms cs br s frs) \<le> emitted frs + 7 * (length cs - s)"
proof (rule fragment_loop_rule [where P = "\<lambda>s frs r. emitted r \<le> emitted frs + 7 * (length cs - s)"])
  fix s frs
  assume "s < length cs"
  then show "emitted (loop_push sha cs s (length cs) frs) \<le> emitted frs + 7 * (length cs - s)"
    using emitted_push [of s "length cs" cs sha frs] by simp
next
  fix s frs r
  let ?e = "loop_end self ms cs br s"
  let ?n = "next_start self (max ms 1) (length cs) s ?e"
  assume s: "s < length cs" and e: "?e < length cs"
    and r: "emitted r \<le> emitted (loop_push sha cs s ?e frs) + 7 * (length cs - ?n)"
  note b = loop_end_bounds(1,4) [OF s, where self = self and ms = ms and br = br]
  have "s + max ms 1 \<le> ?e"
    using loop_end_bounds(3) [OF s, where self = self and ms = ms and br = br] e by auto
  from next_start_advance [OF this b(1)] have "?e - s \<le> 7 * (?n - s)" by simp
  moreover have "emitted (loop_push sha cs s ?e frs) \<le> emitted frs + (?e - s)"
    using b(2) b(1) by (rule emitted_push)
  moreover note next_start_bounds [OF s e]
  ultimately show "emitted r \<le> emitted frs + 7 * (length cs - s)" using r e by linarith
qed simp

section \<open>Properties\<close>

lemma fragment_with_min_step_loop:
  "fragment_with_min_step sha self content ms
     = fragment_loop sha self ms (chars content) (break_points_new (chars content)) 0 []"
  by (simp add: fragment_with_min_step_def Let_def fragment_loop_unfold [of _ _ _ "[]"])

text \<open>
  C36: fragmentation loses nothing but white space: every other character of the document lies in
  some fragment, whatever the policy (even one that never went through validation).
\<close>

theorem fragments_cover_document:
  assumes "i < length (chars content)" and "\<not> is_ws (chars content ! i)"
  shows "covers_char (fragment sha self content) i"
  unfolding fragment_def fragment_with_min_step_loop by (rule fragment_loop_covers) (simp_all add: assms)

lemma fragments_cover_document_witness:
  "covers_char (fragment id \<lparr>df_chunk_size_chars = 4, df_overlap_chars = 9, df_min_chunk_chars = 0\<rparr> ''ab. cd ef'') 4"
  by (rule fragments_cover_document) (code_simp, code_simp)

text \<open>
  Every fragment is exactly the slice of the document it reports, non-empty and without white
  space at its ends, no longer than the effective chunk size, with its token estimate and checksum,
  and the fragments are numbered in order.
\<close>

theorem fragments_well_formed:
  "list_all (fragment_ok sha (chars content)
      (max (df_chunk_size_chars self) (min_step_for (length (chars content))))) (fragment sha self content)
   \<and> map frag_index (fragment sha self content) = map of_nat [0..<length (fragment sha self content)]"
proof -
  let ?ms = "min_step_for (length (chars content))"
  have ms: "max ?ms 1 = ?ms" by (simp add: min_step_for_def)
  have "(\<forall>f\<in>set (fragment sha self content). fragment_ok sha (chars content)
        (max (df_chunk_size_chars self) (max ?ms 1)) f)
    \<and> (\<forall>i<length (fragment sha self content). frag_index (fragment sha self content ! i) = of_nat i)"
    unfolding fragment_def fragment_with_min_step_loop by (rule fragment_loop_ok) simp_all
  then show ?thesis unfolding ms by (auto simp: list_all_iff intro: nth_equalityI)
qed

text \<open>
  Work is bounded for every policy and document: at most 10,000 fragments, whose text together
  is at most seven times the document, however large the overlap.
\<close>

theorem fragments_bounded:
  "length (fragment sha self content) \<le> max_fragments_per_document
   \<and> emitted (fragment sha self content) \<le> 7 * length (chars content)"
proof
  let ?ms = "min_step_for (length (chars content))"
  have "length (fragment sha self content) \<le> div_ceil (length (chars content)) (max ?ms 1)"
    unfolding fragment_def fragment_with_min_step_loop
    using fragment_loop_length [of sha self ?ms "chars content" _ 0 "[]"] by simp
  also have "\<dots> \<le> max_fragments_per_document" by (rule min_step_for_cap)
  finally show "length (fragment sha self content) \<le> max_fragments_per_document" .
  show "emitted (fragment sha self content) \<le> 7 * length (chars content)"
    unfolding fragment_def fragment_with_min_step_loop
    using fragment_loop_emitted [of sha self ?ms "chars content" _ 0 "[]"] by (simp add: emitted_def)
qed

text \<open>
  A fragmenter built from any policy is within the supported envelope: the chunk size is between
  1 and 8,000, the overlap smaller than it and the minimal chunk between 1 and it.
\<close>

theorem from_policy_envelope:
  "1 \<le> df_chunk_size_chars (fragmenter_from_policy policy)
   \<and> df_chunk_size_chars (fragmenter_from_policy policy) \<le> max_fragment_chunk_chars
   \<and> df_overlap_chars (fragmenter_from_policy policy) < df_chunk_size_chars (fragmenter_from_policy policy)
   \<and> 1 \<le> df_min_chunk_chars (fragmenter_from_policy policy)
   \<and> df_min_chunk_chars (fragmenter_from_policy policy) \<le> df_chunk_size_chars (fragmenter_from_policy policy)"
  by (cases policy)
    (auto simp: fragmenter_from_policy_def document_fragmenter_default_def max_fragment_chunk_chars_def Let_def
      split: option.split)

end
