(* ===== verification/Block_Fragmenter.thy ===== *)
theory Block_Fragmenter
  imports Fragmenter_Facts
begin

text \<open>
  The block-aware fragmenter (\<open>fragmenter.rs\<close>): parsed blocks in reading order, one chunk per block,
  long paragraphs cut by the character fragmenter under one step for the whole document.
\<close>

section \<open>The code\<close>

record fragment_chunk =
  fc_fragment_index :: u32
  fc_content :: string
  fc_char_start :: "usize option"
  fc_char_end :: "usize option"
  fc_token_estimate :: usize
  fc_checksum :: string
  fc_block_type :: "string option"
  fc_page_idx :: "u32 option"
  fc_bbox :: "json option"
  fc_section_path :: "string list"
  fc_heading_level :: "u8 option"
  fc_asset_refs :: "string list"

definition chunk_from_fragment :: "document_fragment \<Rightarrow> fragment_chunk" where
  "chunk_from_fragment f =
     \<lparr>fc_fragment_index = frag_index f, fc_content = frag_content f,
      fc_char_start = Some (frag_char_start f), fc_char_end = Some (frag_char_end f),
      fc_token_estimate = frag_token_estimate f, fc_checksum = frag_checksum f,
      fc_block_type = Some ''paragraph'', fc_page_idx = None, fc_bbox = None, fc_section_path = [],
      fc_heading_level = None, fc_asset_refs = []\<rparr>"

definition block_fragment_checksum ::
  "(string \<Rightarrow> string) \<Rightarrow> u32 \<Rightarrow> string \<Rightarrow> usize option \<Rightarrow> usize option \<Rightarrow> string \<Rightarrow> string" where
  "block_fragment_checksum sha256_hex index block_id start_pos end_pos s =
     sha256_hex (le_bytes 4 (unat index) @ block_id
       @ le_bytes 8 (case start_pos of Some n \<Rightarrow> n | None \<Rightarrow> 0)
       @ le_bytes 8 (case end_pos of Some n \<Rightarrow> n | None \<Rightarrow> 0) @ s)"

text \<open>\<open>value.as_deref().filter(|v| !v.trim().is_empty())\<close>\<close>

definition non_blank :: "string option \<Rightarrow> string option" where
  "non_blank v = (case v of Some s \<Rightarrow> if blank s then None else Some s | None \<Rightarrow> None)"

fun first_some :: "'a option list \<Rightarrow> 'a option" where
  "first_some [] = None"
| "first_some (x # xs) = (case x of Some a \<Rightarrow> Some a | None \<Rightarrow> first_some xs)"

definition opt_list :: "'a option \<Rightarrow> 'a list" where
  "opt_list x = (case x of Some a \<Rightarrow> [a] | None \<Rightarrow> [])"

definition main_parts :: "parsed_block \<Rightarrow> string list" where
  "main_parts block =
     (if pb_block_type block = ''table'' then
        opt_list (first_some [non_blank (pb_html block), non_blank (pb_text block)])
      else if pb_block_type block = ''equation'' then
        opt_list (first_some [non_blank (pb_latex block), non_blank (pb_text block)])
      else if pb_block_type block = ''image'' \<or> pb_block_type block = ''chart'' then
        opt_list (non_blank (pb_caption block)) @ opt_list (non_blank (pb_text block))
          @ opt_list (non_blank (pb_image_ref block))
      else
        opt_list (first_some [non_blank (pb_text block), non_blank (pb_html block), non_blank (pb_latex block)]))"

definition block_body :: "parsed_block \<Rightarrow> string option" where
  "block_body block =
     (let parts = main_parts block;
          parts = (case non_blank (pb_caption block) of
                     Some caption \<Rightarrow> if List.member parts caption then parts else parts @ [caption]
                   | None \<Rightarrow> parts);
          parts = parts @ opt_list (non_blank (pb_footnote block))
      in if parts = [] then None else Some (join (newline @ newline) parts))"

definition block_key :: "parsed_block \<Rightarrow> u32 \<times> u32 \<times> string" where
  "block_key block =
     (pb_reading_order block, (case pb_page_idx block of Some p \<Rightarrow> p | None \<Rightarrow> - 1), pb_block_id block)"

text \<open>The non-blank bodies of the blocks in reading order (\<open>sort_by_key\<close> is stable).\<close>

definition block_bodies :: "parsed_block list \<Rightarrow> (parsed_block \<times> string) list" where
  "block_bodies blocks =
     List.map_filter (\<lambda>block. case block_body block of
         None \<Rightarrow> None | Some body \<Rightarrow> if blank body then None else Some (block, body))
       (sort_key block_key blocks)"

text \<open>One fragment of a long paragraph becomes the next chunk of the document.\<close>

definition paragraph_chunk ::
  "(string \<Rightarrow> string) \<Rightarrow> parsed_block \<Rightarrow> nat \<Rightarrow> document_fragment \<Rightarrow> fragment_chunk" where
  "paragraph_chunk sha256_hex block index f =
     (let c = chunk_from_fragment f
      in c\<lparr>fc_fragment_index := of_nat index, fc_block_type := Some (pb_block_type block),
           fc_page_idx := pb_page_idx block, fc_bbox := pb_bbox block,
           fc_section_path := pb_section_path block, fc_heading_level := pb_text_level block,
           fc_asset_refs := opt_list (pb_image_ref block),
           fc_checksum := block_fragment_checksum sha256_hex (of_nat index) (pb_block_id block)
             (fc_char_start c) (fc_char_end c) (fc_content c)\<rparr>)"

definition block_chunk :: "(string \<Rightarrow> string) \<Rightarrow> parsed_block \<Rightarrow> string \<Rightarrow> nat \<Rightarrow> fragment_chunk" where
  "block_chunk sha256_hex block body index =
     \<lparr>fc_fragment_index = of_nat index, fc_content = body, fc_char_start = None, fc_char_end = None,
      fc_token_estimate = estimate_tokens body,
      fc_checksum = block_fragment_checksum sha256_hex (of_nat index) (pb_block_id block) None None body,
      fc_block_type = Some (pb_block_type block), fc_page_idx = pb_page_idx block,
      fc_bbox = pb_bbox block, fc_section_path = pb_section_path block,
      fc_heading_level = pb_text_level block, fc_asset_refs = opt_list (pb_image_ref block)\<rparr>"

definition long_paragraph :: "document_fragmenter \<Rightarrow> parsed_block \<Rightarrow> string \<Rightarrow> bool" where
  "long_paragraph fallback block body =
     (pb_block_type block = ''paragraph'' \<and> df_chunk_size_chars fallback < length (chars body))"

definition push_block ::
  "(string \<Rightarrow> string) \<Rightarrow> document_fragmenter \<Rightarrow> usize \<Rightarrow> parsed_block \<times> string \<Rightarrow>
     fragment_chunk list \<Rightarrow> fragment_chunk list" where
  "push_block sha256_hex fallback min_step b chunks =
     (if long_paragraph fallback (fst b) (snd b) then
        fold (\<lambda>f chunks. chunks @ [paragraph_chunk sha256_hex (fst b) (length chunks) f])
          (fragment_with_min_step sha256_hex fallback (snd b) min_step) chunks
      else chunks @ [block_chunk sha256_hex (fst b) (snd b) (length chunks)])"

definition block_fragment ::
  "(string \<Rightarrow> string) \<Rightarrow> document_fragmenter \<Rightarrow> string \<Rightarrow> parsed_block list \<Rightarrow> fragment_chunk list" where
  "block_fragment sha256_hex fallback content blocks =
     (if blocks = [] then map chunk_from_fragment (fragment sha256_hex fallback content)
      else
        (let bodies = block_bodies blocks;
             min_step = min_step_for (sum_list (map (\<lambda>b. length (chars (snd b))) bodies))
         in fold (push_block sha256_hex fallback min_step) bodies []))"

section \<open>Lemmas\<close>

lemma fold_append_length:
  "length (fold (\<lambda>f acc. acc @ [g acc f]) fs acc) = length acc + length fs"
  by (induction fs arbitrary: acc) simp_all

lemma push_block_length:
  "length (push_block sha fb ms b chunks) \<le> length chunks + Suc (length (chars (snd b)) div max ms 1)"
proof (cases "long_paragraph fb (fst b) (snd b)")
  case True
  have "length (fragment_with_min_step sha fb (snd b) ms) \<le> div_ceil (length (chars (snd b))) (max ms 1)"
    unfolding fragment_with_min_step_loop
    using fragment_loop_length [of sha fb ms "chars (snd b)" _ 0 "[]"] by simp
  also have "\<dots> \<le> Suc (length (chars (snd b)) div max ms 1)"
  proof (rule div_ceil_le)
    obtain m where m: "m = max ms 1" "0 < m" by simp
    have "length (chars (snd b)) mod m < m" using m by simp
    then have "length (chars (snd b)) \<le> m + length (chars (snd b)) div m * m"
      using div_mult_mod_eq [of "length (chars (snd b))" m] by linarith
    then show "length (chars (snd b)) \<le> Suc (length (chars (snd b)) div max ms 1) * max ms 1"
      unfolding m(1) [symmetric] by (simp only: mult_Suc)
  qed simp
  finally show ?thesis using True by (simp add: push_block_def fold_append_length)
qed (simp add: push_block_def)

lemma sum_div_le: "sum_list (map (\<lambda>x. f x div m) xs) \<le> sum_list (map f xs) div m" for f :: "'a \<Rightarrow> nat"
proof (induction xs)
  case (Cons x xs)
  have "f x div m + sum_list (map f xs) div m \<le> (f x + sum_list (map f xs)) div m"
    by (subst div_add1_eq) simp
  with Cons show ?case by simp
qed simp

lemma fold_push_length:
  "length (fold (push_block sha fb ms) bs chunks)
    \<le> length chunks + length bs + sum_list (map (\<lambda>b. length (chars (snd b)) div max ms 1) bs)"
proof (induction bs arbitrary: chunks)
  case (Cons b bs)
  from Cons.IH [of "push_block sha fb ms b chunks"] push_block_length [of sha fb ms b chunks]
  show ?case by simp
qed simp

definition indexed :: "fragment_chunk list \<Rightarrow> bool" where
  "indexed chunks = (map fc_fragment_index chunks = map of_nat [0..<length chunks])"

lemma indexed_snoc:
  "indexed chunks \<Longrightarrow> fc_fragment_index c = of_nat (length chunks) \<Longrightarrow> indexed (chunks @ [c])"
  by (simp add: indexed_def)

lemma indexed_paragraph:
  "indexed chunks \<Longrightarrow>
     indexed (fold (\<lambda>f chunks. chunks @ [paragraph_chunk sha b (length chunks) f]) fs chunks)"
proof (induction fs arbitrary: chunks)
  case (Cons f fs)
  from Cons.prems have "indexed (chunks @ [paragraph_chunk sha b (length chunks) f])"
    by (rule indexed_snoc) (simp add: paragraph_chunk_def Let_def)
  then show ?case using Cons.IH by simp
qed simp

lemma indexed_push: "indexed chunks \<Longrightarrow> indexed (push_block sha fb ms b chunks)"
  by (auto simp: push_block_def intro: indexed_paragraph indexed_snoc) (simp add: indexed_def block_chunk_def)

lemma indexed_fold: "indexed chunks \<Longrightarrow> indexed (fold (push_block sha fb ms) bs chunks)"
  by (induction bs arbitrary: chunks) (simp_all add: indexed_push)

lemma block_bodies_length: "length (block_bodies blocks) \<le> length blocks"
proof -
  have "length (List.map_filter f xs) \<le> length xs" for f :: "parsed_block \<Rightarrow> (parsed_block \<times> string) option" and xs
    by (induction xs) (simp_all add: List.map_filter_simps split: option.split)
  from this [of _ "sort_key block_key blocks"] show ?thesis by (simp add: block_bodies_def)
qed

section \<open>Properties\<close>

text \<open>
  The whole document shares one budget: however long its paragraphs are, fragmentation with
  parsed blocks yields at most 10,000 chunks beyond one per block.
\<close>

theorem block_fragments_bounded:
  "length (block_fragment sha fb content blocks) \<le> max_fragments_per_document + length blocks"
proof (cases "blocks = []")
  case True
  have "length (fragment sha fb content) \<le> div_ceil (length (chars content)) (max (min_step_for (length (chars content))) 1)"
    unfolding fragment_def fragment_with_min_step_loop
    using fragment_loop_length [of sha fb "min_step_for (length (chars content))" "chars content" _ 0 "[]"] by simp
  then show ?thesis using True min_step_for_cap [of "length (chars content)"] by (simp add: block_fragment_def)
next
  case False
  let ?bodies = "block_bodies blocks"
  let ?n = "sum_list (map (\<lambda>b. length (chars (snd b))) ?bodies)"
  let ?m = "max (min_step_for ?n) 1"
  have "length (block_fragment sha fb content blocks)
      \<le> length ?bodies + sum_list (map (\<lambda>b. length (chars (snd b)) div ?m) ?bodies)"
    using False fold_push_length [of sha fb "min_step_for ?n" ?bodies "[]"] by (simp add: block_fragment_def Let_def)
  moreover have "sum_list (map (\<lambda>b. length (chars (snd b)) div ?m) ?bodies) \<le> ?n div ?m"
    by (rule sum_div_le)
  moreover have "?n div ?m \<le> div_ceil ?n ?m" by (simp add: div_ceil_def div_le_mono)
  ultimately show ?thesis
    using min_step_for_cap [of ?n] block_bodies_length [of blocks] by linarith
qed

text \<open>The chunks of a document are numbered 0, 1, 2, \<dots> in the order of its blocks.\<close>

theorem block_fragments_numbered:
  "map fc_fragment_index (block_fragment sha fb content blocks)
    = map of_nat [0..<length (block_fragment sha fb content blocks)]"
proof (cases "blocks = []")
  case True
  have "\<forall>i<length (fragment sha fb content). frag_index (fragment sha fb content ! i) = of_nat i"
    unfolding fragment_def fragment_with_min_step_loop
    using fragment_loop_ok [of "[]" sha "chars content" fb] by simp
  with True show ?thesis
    by (auto simp: block_fragment_def chunk_from_fragment_def intro: nth_equalityI)
next
  case False
  have "indexed (fold (push_block sha fb ms) (block_bodies blocks) [])" for ms
    by (rule indexed_fold) (simp add: indexed_def)
  with False show ?thesis by (simp add: block_fragment_def Let_def indexed_def)
qed

text \<open>
  The constant's name promises more than it keeps: a document of short blocks yields one chunk
  per non-blank block, however many there are, so \<open>MAX_FRAGMENTS_PER_DOCUMENT\<close> is no bound on the
  fragments of a document.
\<close>

definition short_block :: parsed_block where
  "short_block =
     \<lparr>pb_block_id = ''b'', pb_block_type = ''paragraph'', pb_page_idx = None, pb_bbox = None,
      pb_text = Some ''x'', pb_html = None, pb_latex = None, pb_image_ref = None, pb_caption = None,
      pb_footnote = None, pb_text_level = None, pb_section_path = [], pb_reading_order = 0\<rparr>"

lemma short_block_body: "block_body short_block = Some ''x''"
  by code_simp

lemma short_block_bodies: "block_bodies (replicate n short_block) = replicate n (short_block, ''x'')"
proof -
  have "sort_key block_key (replicate n short_block) = replicate n short_block"
    by (induction n) (simp_all, case_tac n, simp_all)
  moreover have "\<not> blank ''x''" by code_simp
  then have "List.map_filter (\<lambda>block. case block_body block of
         None \<Rightarrow> None | Some body \<Rightarrow> if blank body then None else Some (block, body)) (replicate n short_block)
     = replicate n (short_block, ''x'')"
    by (induction n) (simp_all add: List.map_filter_simps short_block_body)
  ultimately show ?thesis by (simp add: block_bodies_def)
qed

lemma block_fragments_exceed_cap:
  "length (block_fragment sha (fragmenter_from_policy None) content (replicate 10001 short_block)) = 10001"
proof -
  have short: "\<not> long_paragraph (fragmenter_from_policy None) short_block ''x''" by code_simp
  have "length (fold (push_block sha (fragmenter_from_policy None) ms) (replicate n (short_block, ''x'')) acc)
      = length acc + n" for ms n acc
    using short by (induction n arbitrary: acc) (simp_all add: push_block_def)
  then show ?thesis by (simp add: block_fragment_def short_block_bodies Let_def del: replicate.simps)
qed

end
