(* ===== verification/Request_Validation.thy ===== *)
theory Request_Validation
  imports Api_Error Block_Fragmenter
begin

text \<open>
  Bounds on what one request may ask for (\<open>request_validation.rs\<close>): items, search limits, query
  length, fragment policies, tags and history batches. A failure names the offending field.
\<close>

section \<open>The code\<close>

text \<open>The limits read from \<open>Config\<close>, and the history requests of \<open>models_history.rs\<close>.\<close>

record request_limits =
  rq_max_search_limit :: usize
  rq_max_query_chars :: usize
  rq_max_tags_per_item :: usize
  rq_max_tag_bytes :: usize
  rq_max_bulk_events :: usize

record append_history_event_request =
  ah_event_type :: "string option"
  ah_entity_type :: "string option"
  ah_entity_id :: "string option"
  ah_owner_user_id :: "string option"
  ah_occurred_at :: "datetime option"
  ah_observed_at :: "datetime option"
  ah_source_kind :: "string option"
  ah_source_ref :: "source_ref option"
  ah_text :: "string option"
  ah_payload :: json
  ah_tags :: "string list"
  ah_privacy :: string
  ah_promote_policy :: string
  ah_idempotency_key :: "string option"
  ah_event_index_hint :: "json option"

record bulk_history_events_request =
  bh_events :: "append_history_event_request list"
  bh_idempotency_key :: "string option"

definition validate_max_items :: "string \<Rightarrow> usize \<Rightarrow> usize \<Rightarrow> api_error + unit" where
  "validate_max_items field actual maximum =
     ensure (actual \<le> maximum)
       (Validation field (''must contain at most '' @ show_nat maximum @ '' items''))"

definition validate_search_limit :: "string \<Rightarrow> usize \<Rightarrow> request_limits \<Rightarrow> api_error + unit" where
  "validate_search_limit field limit config =
     ensure (limit \<le> rq_max_search_limit config)
       (Validation field (''must be at most '' @ show_nat (rq_max_search_limit config)))"

definition validate_query_length :: "string \<Rightarrow> string option \<Rightarrow> request_limits \<Rightarrow> api_error + unit" where
  "validate_query_length field query config =
     (let max_chars = rq_max_query_chars config in
      case query of
        Some q \<Rightarrow>
          if max_chars < length q \<and> max_chars < length (chars q)
          then Inl (Validation field (''must contain at most '' @ show_nat max_chars @ '' characters''))
          else Inr ()
      | None \<Rightarrow> Inr ())"

definition validate_fragment_policy :: "string \<Rightarrow> fragment_policy option \<Rightarrow> api_error + unit" where
  "validate_fragment_policy field policy =
     (case policy of
        None \<Rightarrow> Inr ()
      | Some policy \<Rightarrow>
          (let chunk_size = (case fp_chunk_size_chars policy of
                 Some c \<Rightarrow> c | None \<Rightarrow> df_chunk_size_chars document_fragmenter_default)
           in checks
             [ensure (1 \<le> chunk_size \<and> chunk_size \<le> max_fragment_chunk_chars)
                (Validation (field @ ''.chunk_size_chars'')
                  (''must be between 1 and '' @ show_nat max_fragment_chunk_chars)),
              ensure (\<not> (case fp_overlap_chars policy of Some overlap \<Rightarrow> chunk_size \<le> overlap | None \<Rightarrow> False))
                (Validation (field @ ''.overlap_chars'') ''must be less than chunk_size_chars''),
              ensure (\<not> (case fp_min_chunk_chars policy of
                  Some min_chunk \<Rightarrow> \<not> (1 \<le> min_chunk \<and> min_chunk \<le> chunk_size) | None \<Rightarrow> False))
                (Validation (field @ ''.min_chunk_chars'') ''must be between 1 and chunk_size_chars'')]))"

fun validate_tag_list :: "string \<Rightarrow> nat \<Rightarrow> string list \<Rightarrow> request_limits \<Rightarrow> api_error + unit" where
  "validate_tag_list field index [] config = Inr ()"
| "validate_tag_list field index (tag # tags) config =
     (if rq_max_tag_bytes config < length tag
      then Inl (Validation (field @ ''['' @ show_nat index @ '']'')
             (''must be at most '' @ show_nat (rq_max_tag_bytes config) @ '' UTF-8 bytes''))
      else validate_tag_list field (Suc index) tags config)"

definition validate_tags :: "string \<Rightarrow> string list \<Rightarrow> request_limits \<Rightarrow> api_error + unit" where
  "validate_tags field tags config =
     rbind (validate_max_items field (length tags) (rq_max_tags_per_item config)) (\<lambda>_.
       validate_tag_list field 0 tags config)"

definition validate_history_event ::
  "string \<Rightarrow> append_history_event_request \<Rightarrow> request_limits \<Rightarrow> api_error + unit" where
  "validate_history_event field request config =
     validate_tags (field @ ''.tags'') (ah_tags request) config"

fun validate_event_list ::
  "nat \<Rightarrow> append_history_event_request list \<Rightarrow> request_limits \<Rightarrow> api_error + unit" where
  "validate_event_list index [] config = Inr ()"
| "validate_event_list index (event # events) config =
     rbind (validate_history_event (''events['' @ show_nat index @ '']'') event config) (\<lambda>_.
       validate_event_list (Suc index) events config)"

definition validate_history_bulk :: "bulk_history_events_request \<Rightarrow> request_limits \<Rightarrow> api_error + unit" where
  "validate_history_bulk request config =
     rbind (validate_max_items ''events'' (length (bh_events request)) (rq_max_bulk_events config)) (\<lambda>_.
       validate_event_list 0 (bh_events request) config)"

section \<open>Lemmas\<close>

lemma validate_query_length_Inr:
  "validate_query_length field query config = Inr () \<longleftrightarrow>
     (case query of Some q \<Rightarrow> length (chars q) \<le> rq_max_query_chars config | None \<Rightarrow> True)"
  using length_chars_le [of "the query"]
  by (auto simp: validate_query_length_def Let_def split: option.split)

lemma validate_fragment_policy_Inr [result_simps]:
  "validate_fragment_policy field (Some p) = Inr () \<longleftrightarrow>
     (let chunk = (case fp_chunk_size_chars p of Some c \<Rightarrow> c | None \<Rightarrow> 1200) in
      1 \<le> chunk \<and> chunk \<le> 8000
      \<and> (case fp_overlap_chars p of Some overlap \<Rightarrow> overlap < chunk | None \<Rightarrow> True)
      \<and> (case fp_min_chunk_chars p of Some min_chunk \<Rightarrow> 1 \<le> min_chunk \<and> min_chunk \<le> chunk | None \<Rightarrow> True))"
  by (auto simp: validate_fragment_policy_def checks_Inr ensure_Inr Let_def max_fragment_chunk_chars_def
      document_fragmenter_default_def split: option.splits)

definition tags_within :: "request_limits \<Rightarrow> string list \<Rightarrow> bool" where
  "tags_within config tags =
     (length tags \<le> rq_max_tags_per_item config \<and> list_all (\<lambda>t. length t \<le> rq_max_tag_bytes config) tags)"

lemma validate_tag_list_Inr:
  "validate_tag_list field i tags config = Inr () \<longleftrightarrow> list_all (\<lambda>t. length t \<le> rq_max_tag_bytes config) tags"
  by (induction field i tags config rule: validate_tag_list.induct) auto

lemma validate_tags_Inr: "validate_tags field tags config = Inr () \<longleftrightarrow> tags_within config tags"
  by (auto simp: validate_tags_def rbind_Inr validate_max_items_def ensure_Inr validate_tag_list_Inr tags_within_def)

lemma validate_event_list_Inr:
  "validate_event_list i es config = Inr () \<longleftrightarrow> list_all (\<lambda>e. tags_within config (ah_tags e)) es"
  by (induction i es config rule: validate_event_list.induct)
    (auto simp: rbind_Inr validate_history_event_def validate_tags_Inr)

section \<open>Properties\<close>

definition sample_policy :: fragment_policy where
  "sample_policy = \<lparr>fp_chunk_size_chars = Some 500, fp_overlap_chars = Some 50, fp_min_chunk_chars = None\<rparr>"

text \<open>
  Validation and clamping agree. A policy accepted at the request boundary is used as given: the
  fragmenter built from it has the caller's chunk size, overlap and minimal chunk, and the values the
  caller left out are the defaults, cut down only where the chunk size requires it.
\<close>

theorem validated_policy_not_clamped:
  assumes "validate_fragment_policy field (Some p) = Inr ()"
  shows "(case fp_chunk_size_chars p of Some c \<Rightarrow> df_chunk_size_chars (fragmenter_from_policy (Some p)) = c
            | None \<Rightarrow> df_chunk_size_chars (fragmenter_from_policy (Some p)) = 1200)
    \<and> (case fp_overlap_chars p of Some c \<Rightarrow> df_overlap_chars (fragmenter_from_policy (Some p)) = c
            | None \<Rightarrow> df_overlap_chars (fragmenter_from_policy (Some p)) \<le> 150)
    \<and> (case fp_min_chunk_chars p of Some c \<Rightarrow> df_min_chunk_chars (fragmenter_from_policy (Some p)) = c
            | None \<Rightarrow> df_min_chunk_chars (fragmenter_from_policy (Some p)) \<le> 200)"
  using assms
  by (auto simp: validate_fragment_policy_Inr fragmenter_from_policy_def document_fragmenter_default_def
      max_fragment_chunk_chars_def Let_def split: option.splits)

lemma validated_policy_not_clamped_witness:
  "df_chunk_size_chars (fragmenter_from_policy (Some sample_policy)) = 500"
proof -
  have "validate_fragment_policy [] (Some sample_policy) = Inr ()"
    by (simp add: validate_fragment_policy_Inr sample_policy_def)
  from validated_policy_not_clamped [OF this] show ?thesis by (simp add: sample_policy_def)
qed

text \<open>
  A bulk history request is accepted exactly when it holds at most the configured number of
  events, each with at most the configured number of tags of at most the configured size.
\<close>

theorem history_bulk_accepted_iff:
  "validate_history_bulk request config = Inr () \<longleftrightarrow>
     length (bh_events request) \<le> rq_max_bulk_events config
     \<and> list_all (\<lambda>e. tags_within config (ah_tags e)) (bh_events request)"
  by (auto simp: validate_history_bulk_def rbind_Inr validate_max_items_def ensure_Inr validate_event_list_Inr)

text \<open>
  The query cap counts characters: the byte-length shortcut never accepts a query with more
  characters than allowed and never rejects one with fewer.
\<close>

theorem query_length_counts_characters:
  "validate_query_length field (Some q) config = Inr () \<longleftrightarrow> length (chars q) \<le> rq_max_query_chars config"
  by (simp add: validate_query_length_Inr)

end
