(* ===== verification/Upstream_Policy.thy ===== *)
theory Upstream_Policy
  imports Json
begin

text \<open>
  Policies and classifications of upstream calls (\<open>upstream.rs\<close>): client and operation policies, the
  failure types and their diagnostics, which responses may be retried, \<open>Retry-After\<close> and the
  backoff. A \<open>Duration\<close> is a natural number of nanoseconds up to \<open>duration_max\<close>. SHA-256, JSON and
  HTTP-date parsing are parameters.
\<close>

section \<open>Policies\<close>

type_synonym duration = nat

definition duration_max :: duration where
  "duration_max = (2 ^ 64 - 1) * 1000000000 + 999999999"

definition max_upstream_retries :: u8 where
  "max_upstream_retries = 2"

datatype proxy_mode = ProxySystem | ProxyDirect

definition proxy_mode_from_str :: "string \<Rightarrow> unit + proxy_mode" where
  "proxy_mode_from_str value =
     (let v = ascii_lower (trim value)
      in if v = ''system'' then Inr ProxySystem
         else if v = ''direct'' then Inr ProxyDirect
         else Inl ())"

record client_policy =
  cp_connect_timeout :: duration
  cp_request_timeout :: duration
  cp_read_timeout :: duration
  cp_proxy_mode :: proxy_mode

definition client_policy_default :: client_policy where
  "client_policy_default =
     \<lparr>cp_connect_timeout = 5 * 1000000000, cp_request_timeout = 60 * 1000000000,
      cp_read_timeout = 30 * 1000000000, cp_proxy_mode = ProxySystem\<rparr>"

datatype client_policy_violation = ZeroConnectTimeout | ZeroRequestTimeout | ZeroReadTimeout

definition validate_client_policy :: "client_policy \<Rightarrow> client_policy_violation + unit" where
  "validate_client_policy self = checks
     [ensure (cp_connect_timeout self \<noteq> 0) ZeroConnectTimeout,
      ensure (cp_request_timeout self \<noteq> 0) ZeroRequestTimeout,
      ensure (cp_read_timeout self \<noteq> 0) ZeroReadTimeout]"

datatype upstream_operation = LlmCompletion | LlmHealth | ParserUpload | ParserHealth

fun upstream_operation_as_str :: "upstream_operation \<Rightarrow> string" where
  "upstream_operation_as_str LlmCompletion = ''llm_completion''"
| "upstream_operation_as_str LlmHealth = ''llm_health''"
| "upstream_operation_as_str ParserUpload = ''parser_upload''"
| "upstream_operation_as_str ParserHealth = ''parser_health''"

record operation_policy =
  opol_deadline :: duration
  opol_max_response_bytes :: usize
  opol_max_retries :: u8
  opol_initial_backoff :: duration
  opol_max_backoff :: duration

definition policy_without_retries :: "duration \<Rightarrow> usize \<Rightarrow> operation_policy" where
  "policy_without_retries deadline max_response_bytes =
     \<lparr>opol_deadline = deadline, opol_max_response_bytes = max_response_bytes, opol_max_retries = 0,
      opol_initial_backoff = 0, opol_max_backoff = 0\<rparr>"

datatype policy_violation =
  ZeroDeadline | ZeroResponseLimit | TooManyRetries | InvalidBackoffRange | DeadlineOverflow

definition validate_operation_policy :: "operation_policy \<Rightarrow> policy_violation + unit" where
  "validate_operation_policy self = checks
     [ensure (opol_deadline self \<noteq> 0) ZeroDeadline,
      ensure (opol_max_response_bytes self \<noteq> 0) ZeroResponseLimit,
      ensure (opol_max_retries self \<le> max_upstream_retries) TooManyRetries,
      ensure (opol_initial_backoff self \<le> opol_max_backoff self) InvalidBackoffRange]"

section \<open>Failures\<close>

datatype request_factory_error = FactoryIo | FactoryInvalidInput | FactoryOther

datatype transport_failure_kind =
  TransConnection | TransTimeout | TransRequestBody | TransDecode | TransRequest | TransOther

datatype http_failure_kind =
    HttpAuthentication | HttpRateLimited | HttpQuota | HttpModelUnsupported | HttpRequestRejected
  | HttpRequestTimeout | HttpServer | HttpOther

datatype response_disposition =
  DispSuccess | DispRetryable http_failure_kind | DispTerminal http_failure_kind

datatype upstream_failure_category =
    CatInvalidPolicy | CatInvalidRequestId | CatDeadline | CatRequestBuild | CatConnection | CatTimeout
  | CatRequestBody | CatDecode | CatRequest | CatResponseTooLarge | CatAuthentication | CatRateLimited
  | CatQuota | CatModelUnsupported | CatRequestRejected | CatServer | CatOther

fun failure_category_as_str :: "upstream_failure_category \<Rightarrow> string" where
  "failure_category_as_str CatInvalidPolicy = ''invalid_policy''"
| "failure_category_as_str CatInvalidRequestId = ''invalid_request_id''"
| "failure_category_as_str CatDeadline = ''deadline''"
| "failure_category_as_str CatRequestBuild = ''request_build''"
| "failure_category_as_str CatConnection = ''connection''"
| "failure_category_as_str CatTimeout = ''timeout''"
| "failure_category_as_str CatRequestBody = ''request_body''"
| "failure_category_as_str CatDecode = ''decode''"
| "failure_category_as_str CatRequest = ''request''"
| "failure_category_as_str CatResponseTooLarge = ''response_too_large''"
| "failure_category_as_str CatAuthentication = ''authentication''"
| "failure_category_as_str CatRateLimited = ''rate_limited''"
| "failure_category_as_str CatQuota = ''quota''"
| "failure_category_as_str CatModelUnsupported = ''model_unsupported''"
| "failure_category_as_str CatRequestRejected = ''request_rejected''"
| "failure_category_as_str CatServer = ''server''"
| "failure_category_as_str CatOther = ''other''"

record upstream_diagnostic =
  ud_operation :: upstream_operation
  ud_category :: upstream_failure_category
  ud_status :: "u16 option"
  ud_attempts :: u8

datatype upstream_error =
    UpInvalidPolicy upstream_operation policy_violation
  | UpInvalidRequestId upstream_operation
  | UpDeadlineExceeded upstream_operation u8
  | UpRequestBuild upstream_operation request_factory_error u8
  | UpTransport upstream_operation transport_failure_kind u8
  | UpResponseTooLarge upstream_operation u8
  | UpHttpStatus upstream_operation u16 http_failure_kind u8 "u64 option"

fun transport_category :: "transport_failure_kind \<Rightarrow> upstream_failure_category" where
  "transport_category TransConnection = CatConnection"
| "transport_category TransTimeout = CatTimeout"
| "transport_category TransRequestBody = CatRequestBody"
| "transport_category TransDecode = CatDecode"
| "transport_category TransRequest = CatRequest"
| "transport_category TransOther = CatOther"

fun http_category :: "http_failure_kind \<Rightarrow> upstream_failure_category" where
  "http_category HttpAuthentication = CatAuthentication"
| "http_category HttpRateLimited = CatRateLimited"
| "http_category HttpQuota = CatQuota"
| "http_category HttpModelUnsupported = CatModelUnsupported"
| "http_category HttpRequestRejected = CatRequestRejected"
| "http_category HttpRequestTimeout = CatTimeout"
| "http_category HttpServer = CatServer"
| "http_category HttpOther = CatOther"

fun upstream_diagnostic_of :: "upstream_error \<Rightarrow> upstream_diagnostic" where
  "upstream_diagnostic_of (UpInvalidPolicy operation _) =
     \<lparr>ud_operation = operation, ud_category = CatInvalidPolicy, ud_status = None, ud_attempts = 0\<rparr>"
| "upstream_diagnostic_of (UpInvalidRequestId operation) =
     \<lparr>ud_operation = operation, ud_category = CatInvalidRequestId, ud_status = None, ud_attempts = 0\<rparr>"
| "upstream_diagnostic_of (UpDeadlineExceeded operation attempts) =
     \<lparr>ud_operation = operation, ud_category = CatDeadline, ud_status = None, ud_attempts = attempts\<rparr>"
| "upstream_diagnostic_of (UpRequestBuild operation _ attempt) =
     \<lparr>ud_operation = operation, ud_category = CatRequestBuild, ud_status = None, ud_attempts = attempt\<rparr>"
| "upstream_diagnostic_of (UpTransport operation kind attempts) =
     \<lparr>ud_operation = operation, ud_category = transport_category kind, ud_status = None,
      ud_attempts = attempts\<rparr>"
| "upstream_diagnostic_of (UpResponseTooLarge operation attempts) =
     \<lparr>ud_operation = operation, ud_category = CatResponseTooLarge, ud_status = None, ud_attempts = attempts\<rparr>"
| "upstream_diagnostic_of (UpHttpStatus operation status kind attempts _) =
     \<lparr>ud_operation = operation, ud_category = http_category kind, ud_status = Some status,
      ud_attempts = attempts\<rparr>"

text \<open>The \<open>Display\<close> text of an error.\<close>

definition upstream_error_display :: "upstream_error \<Rightarrow> string" where
  "upstream_error_display e =
     (let d = upstream_diagnostic_of e
      in upstream_operation_as_str (ud_operation d) @ '' upstream request failed: category=''
         @ failure_category_as_str (ud_category d) @ '' attempts='' @ show_nat (unat (ud_attempts d))
         @ (case ud_status d of Some status \<Rightarrow> '' status='' @ show_nat (unat status) | None \<Rightarrow> []))"

section \<open>Classification of responses\<close>

text \<open>The tests of \<open>reqwest::Error\<close> in the order they are made.\<close>

definition classify_transport_error :: "bool \<Rightarrow> bool \<Rightarrow> bool \<Rightarrow> bool \<Rightarrow> bool \<Rightarrow> transport_failure_kind" where
  "classify_transport_error is_connect is_timeout is_body is_decode is_request =
     (if is_connect then TransConnection else if is_timeout then TransTimeout
      else if is_body then TransRequestBody else if is_decode then TransDecode
      else if is_request then TransRequest else TransOther)"

definition is_retryable_pre_response_transport :: "transport_failure_kind \<Rightarrow> bool" where
  "is_retryable_pre_response_transport kind = (kind = TransConnection)"

definition is_success :: "u16 \<Rightarrow> bool" where
  "is_success status = (200 \<le> status \<and> status < 300)"

definition is_client_error :: "u16 \<Rightarrow> bool" where
  "is_client_error status = (400 \<le> status \<and> status < 500)"

definition is_quota_marker :: "string \<Rightarrow> bool" where
  "is_quota_marker marker =
     list_ex (eq_ignore_ascii_case marker)
       [''insufficient_quota'', ''quota_exceeded'', ''resource_exhausted'', ''billing_hard_limit_reached'',
        ''billing_not_active'', ''credit_balance_too_low'', ''credits_exhausted'', ''usage_limit_reached'']"

text \<open>\<open>value.pointer("/error/code")\<close> through nested objects.\<close>

definition json_pointer2 :: "json \<Rightarrow> string \<Rightarrow> string \<Rightarrow> json option" where
  "json_pointer2 value a b = Option.bind (json_get value a) (\<lambda>v. json_get v b)"

definition structured_quota_exhaustion :: "(string \<Rightarrow> json option) \<Rightarrow> string \<Rightarrow> bool" where
  "structured_quota_exhaustion from_slice body =
     (case from_slice body of
        None \<Rightarrow> False
      | Some value \<Rightarrow>
          list_ex is_quota_marker
            (List.map_filter (\<lambda>v. Option.bind v json_as_str)
              [json_pointer2 value ''error'' ''code'', json_pointer2 value ''error'' ''type'',
               json_get value ''code'', json_get value ''type'']))"

text \<open>
  The prefix is searched byte by byte: the lossy decoding of the code replaces ill-formed sequences
  by U+FFFD and keeps every ASCII byte, so it does not change which ASCII markers occur.
\<close>

definition unsupported_model_marker :: "string \<Rightarrow> bool" where
  "unsupported_model_marker body =
     (let s = ascii_lower (take 4096 body)
      in str_contains ''model_not_found'' s
         \<or> str_contains (CHR 0x27 # '' model is not supported'') s
         \<or> str_contains (CHR 0x27 # '' model is not available'') s
         \<or> str_contains ''does not exist'' s
             \<and> list_ex (\<lambda>marker. str_contains marker s)
                 [''model '' @ [CHR 0x60], ''model '' @ [CHR 0x27], ''model '' @ [CHR 0x22]]
         \<or> list_ex (\<lambda>marker. str_contains marker s) [''unknown model'', ''invalid model'', ''model not found''])"

definition classify_response :: "(string \<Rightarrow> json option) \<Rightarrow> u16 \<Rightarrow> string \<Rightarrow> response_disposition" where
  "classify_response from_slice status body =
     (if is_success status then DispSuccess
      else if structured_quota_exhaustion from_slice body then DispTerminal HttpQuota
      else if status = 401 \<or> status = 403 then DispTerminal HttpAuthentication
      else if status = 402 then DispTerminal HttpQuota
      else if status = 408 then DispRetryable HttpRequestTimeout
      else if status = 429 then DispRetryable HttpRateLimited
      else if status = 500 \<or> status = 502 \<or> status = 503 \<or> status = 504 then DispRetryable HttpServer
      else if (status = 400 \<or> status = 404) \<and> unsupported_model_marker body
        then DispTerminal HttpModelUnsupported
      else if is_client_error status then DispTerminal HttpRequestRejected
      else DispTerminal HttpOther)"

section \<open>Retry-After and backoff\<close>

text \<open>\<open>str::parse::<u64>\<close> on a string of digits.\<close>

definition parse_u64 :: "string \<Rightarrow> u64 option" where
  "parse_u64 s =
     (if s \<noteq> [] \<and> list_all is_digit s \<and> read_nat s < 2 ^ 64 then Some (of_nat (read_nat s)) else None)"

definition parse_retry_after :: "(string \<Rightarrow> int option) \<Rightarrow> string \<Rightarrow> int \<Rightarrow> duration option" where
  "parse_retry_after parse_http_date value now =
     (let value = trim value
      in if value = [] then None
         else if list_all is_digit value then map_option (\<lambda>s. unat s * 1000000000) (parse_u64 value)
         else
           (case parse_http_date value of
              None \<Rightarrow> None
            | Some retry_at \<Rightarrow> if retry_at - now \<le> 0 then Some 0 else Some (nat (retry_at - now))))"

fun find_map :: "('a \<Rightarrow> 'b option) \<Rightarrow> 'a list \<Rightarrow> 'b option" where
  "find_map f [] = None"
| "find_map f (x # xs) = (case f x of Some y \<Rightarrow> Some y | None \<Rightarrow> find_map f xs)"

definition retry_after_from_headers ::
  "(string \<Rightarrow> int option) \<Rightarrow> string list \<Rightarrow> int \<Rightarrow> duration option" where
  "retry_after_from_headers parse_http_date headers now =
     find_map (\<lambda>value. parse_retry_after parse_http_date value now) headers"

definition be_u64 :: "string \<Rightarrow> nat" where
  "be_u64 s = foldl (\<lambda>acc c. acc * 256 + of_char c) 0 (take 8 s)"

definition deterministic_jitter :: "(string \<Rightarrow> string) \<Rightarrow> string \<Rightarrow> u8 \<Rightarrow> duration \<Rightarrow> duration" where
  "deterministic_jitter sha256 seed retry_number ceiling =
     (if ceiling = 0 then 0
      else be_u64 (sha256 (seed @ [char_of (unat retry_number)])) mod min (ceiling + 1) (2 ^ 64 - 1))"

definition retry_delay ::
  "(string \<Rightarrow> string) \<Rightarrow> duration \<Rightarrow> duration \<Rightarrow> u8 \<Rightarrow> duration option \<Rightarrow> string \<Rightarrow> duration" where
  "retry_delay sha256 initial_backoff max_backoff retry_number retry_after jitter_seed =
     (let exponent = min (unat retry_number - 1) 31;
          multiplier = 2 ^ exponent;
          exponential = min (min (initial_backoff * multiplier) duration_max) max_backoff;
          jitter = deterministic_jitter sha256 jitter_seed retry_number (exponential div 4);
          backoff = min (min (exponential + jitter) duration_max) max_backoff
      in max backoff (case retry_after of Some d \<Rightarrow> d | None \<Rightarrow> 0))"

section \<open>Lemmas\<close>

lemma jitter_le: "deterministic_jitter sha seed n c \<le> c"
proof (cases "c = 0")
  case False
  then have "0 < min (c + 1) (2 ^ 64 - 1)" by simp
  then have "be_u64 x mod min (c + 1) (2 ^ 64 - 1) < min (c + 1) (2 ^ 64 - 1)" for x
    by (rule mod_less_divisor)
  then have "be_u64 x mod min (c + 1) (2 ^ 64 - 1) < c + 1" for x
    by (rule less_le_trans) simp
  then show ?thesis using False by (simp add: deterministic_jitter_def less_Suc_eq_le)
qed (simp add: deterministic_jitter_def)

lemma retry_delay_bounds:
  assumes "m \<le> duration_max"
  shows "retry_delay sha i m n ra seed \<le> max m (case ra of Some d \<Rightarrow> d | None \<Rightarrow> 0)"
    and "(case ra of Some d \<Rightarrow> d | None \<Rightarrow> 0) \<le> retry_delay sha i m n ra seed"
    and "min (i * 2 ^ min (unat n - 1) 31) m \<le> retry_delay sha i m n ra seed"
proof -
  obtain e where e: "e = min (min (i * 2 ^ min (unat n - 1) 31) duration_max) m" by blast
  obtain j where j: "j = deterministic_jitter sha seed n (e div 4)" by blast
  have d: "retry_delay sha i m n ra seed
      = max (min (min (e + j) duration_max) m) (case ra of Some d \<Rightarrow> d | None \<Rightarrow> 0)"
    unfolding retry_delay_def Let_def j e by (rule refl)
  show "retry_delay sha i m n ra seed \<le> max m (case ra of Some d \<Rightarrow> d | None \<Rightarrow> 0)"
    unfolding d by (rule max.mono) simp_all
  show "(case ra of Some d \<Rightarrow> d | None \<Rightarrow> 0) \<le> retry_delay sha i m n ra seed"
    unfolding d by simp
  have "min (i * 2 ^ min (unat n - 1) 31) m = e" using assms unfolding e by simp
  moreover have "e \<le> duration_max" "e \<le> m"
    unfolding e by (rule min.coboundedI1, rule min.cobounded2) (rule min.cobounded2)
  then have "e \<le> min (min (e + j) duration_max) m" by simp
  ultimately show "min (i * 2 ^ min (unat n - 1) 31) m \<le> retry_delay sha i m n ra seed"
    unfolding d by (simp add: le_max_iff_disj)
qed

lemma validate_operation_policy_Inr:
  "validate_operation_policy p = Inr () \<longleftrightarrow>
     opol_deadline p \<noteq> 0 \<and> opol_max_response_bytes p \<noteq> 0 \<and> opol_max_retries p \<le> max_upstream_retries
     \<and> opol_initial_backoff p \<le> opol_max_backoff p"
  by (simp add: validate_operation_policy_def checks_Inr ensure_Inr)

lemma classify_retryable_status:
  "classify_response f s b = DispRetryable k \<Longrightarrow> s \<in> {408, 429, 500, 502, 503, 504}"
  by (auto simp: classify_response_def split: if_splits)

lemma classify_success: "classify_response f s b = DispSuccess \<longleftrightarrow> is_success s"
  by (simp add: classify_response_def)

end
