(* ===== verification/Upstream.thy ===== *)
theory Upstream
  imports Upstream_Policy
begin

text \<open>
  Execution of an upstream call (\<open>UpstreamHttpClient::execute\<close> and \<open>execute_stream\<close> of \<open>upstream.rs\<close>):
  attempts under one deadline, bounded reading of bodies, retries with backoff, and the chunks of a
  streamed body. What the outside world does is an environment: for every attempt, the instants at
  which the awaited futures resolve and with what.

  Instants are nanoseconds. \<open>deadline.run(f)\<close> yields the value of \<open>f\<close> when it resolves no later than
  the deadline. A body that runs out of chunk events never resolves again, so it meets the deadline.
\<close>

section \<open>The environment\<close>

datatype chunk_event = ChunkData string | ChunkEnd | ChunkError transport_failure_kind

record response =
  rs_status :: u16
  rs_retry_after :: "string list"
  rs_content_length :: "u64 option"
  rs_chunks :: "(int \<times> chunk_event) list"

record attempt_env =
  ae_made_at :: int
  ae_made :: "request_factory_error + unit"
  ae_ready_at :: int
  ae_replied_at :: int
  ae_reply :: "transport_failure_kind + response"
  ae_wall_clock :: int
  ae_wait_at :: int
  ae_woken_at :: int

text \<open>The functions of other crates, and the ambient clock at the start of the call.\<close>

record upstream_crates =
  uc_sha256 :: "string \<Rightarrow> string"
  uc_from_slice :: "string \<Rightarrow> json option"
  uc_parse_http_date :: "string \<Rightarrow> int option"
  uc_header_value_ok :: "string \<Rightarrow> bool"

section \<open>Deadlines and bounded bodies\<close>

text \<open>\<open>OperationDeadline::run\<close> and \<open>remaining\<close> for the deadline \<open>ends_at\<close>.\<close>

definition in_time :: "int \<Rightarrow> int \<Rightarrow> bool" where
  "in_time ends_at resolved_at = (resolved_at \<le> ends_at)"

definition remaining :: "int \<Rightarrow> int \<Rightarrow> duration option" where
  "remaining ends_at now = (if now \<le> ends_at then Some (nat (ends_at - now)) else None)"

datatype bounded_read_error = ReadDeadlineExceeded | ReadTooLarge | ReadTransport transport_failure_kind

fun read_chunks ::
  "usize \<Rightarrow> int \<Rightarrow> string \<Rightarrow> (int \<times> chunk_event) list \<Rightarrow> bounded_read_error + string" where
  "read_chunks max_bytes ends_at body [] = Inl ReadDeadlineExceeded"
| "read_chunks max_bytes ends_at body ((at, event) # events) =
     (if \<not> in_time ends_at at then Inl ReadDeadlineExceeded
      else (case event of
              ChunkError kind \<Rightarrow> Inl (ReadTransport kind)
            | ChunkEnd \<Rightarrow> Inr body
            | ChunkData chunk \<Rightarrow>
                if max_bytes < length body + length chunk then Inl ReadTooLarge
                else read_chunks max_bytes ends_at (body @ chunk) events))"

definition content_too_large :: "response \<Rightarrow> usize \<Rightarrow> bool" where
  "content_too_large response max_bytes =
     (case rs_content_length response of Some l \<Rightarrow> max_bytes < unat l | None \<Rightarrow> False)"

definition read_bounded_response :: "response \<Rightarrow> usize \<Rightarrow> int \<Rightarrow> bounded_read_error + string" where
  "read_bounded_response response max_bytes ends_at =
     (if content_too_large response max_bytes then Inl ReadTooLarge
      else read_chunks max_bytes ends_at [] (rs_chunks response))"

text \<open>\<open>wait_for_retry\<close>: whether the backoff fits into the deadline and was slept through.\<close>

definition wait_for_retry ::
  "upstream_crates \<Rightarrow> int \<Rightarrow> operation_policy \<Rightarrow> u8 \<Rightarrow> duration option \<Rightarrow> string \<Rightarrow> attempt_env \<Rightarrow> bool" where
  "wait_for_retry crates ends_at policy retry_number retry_after seed env =
     (let delay = retry_delay (uc_sha256 crates) (opol_initial_backoff policy) (opol_max_backoff policy)
            retry_number retry_after seed
      in case remaining ends_at (ae_wait_at env) of
           None \<Rightarrow> False
         | Some left_over \<Rightarrow> delay < left_over \<and> in_time ends_at (ae_woken_at env))"

section \<open>Attempts\<close>

record bounded_response =
  br_status :: u16
  br_body :: string
  br_attempts :: u8

datatype 'a attempt_outcome = Retry | Return "upstream_error + 'a"

definition read_error :: "upstream_operation \<Rightarrow> u8 \<Rightarrow> bounded_read_error \<Rightarrow> upstream_error" where
  "read_error operation attempt e =
     (case e of
        ReadDeadlineExceeded \<Rightarrow> UpDeadlineExceeded operation attempt
      | ReadTooLarge \<Rightarrow> UpResponseTooLarge operation attempt
      | ReadTransport kind \<Rightarrow> UpTransport operation kind attempt)"

definition retry_or_deadline :: "upstream_operation \<Rightarrow> u8 \<Rightarrow> bool \<Rightarrow> 'a attempt_outcome" where
  "retry_or_deadline operation attempt waited =
     (if waited then Retry else Return (Inl (UpDeadlineExceeded operation attempt)))"

text \<open>
  The part both loops share: build and send the request. \<open>respond\<close> handles the response.
\<close>

definition send_attempt ::
  "upstream_crates \<Rightarrow> upstream_operation \<Rightarrow> operation_policy \<Rightarrow> string \<Rightarrow> int \<Rightarrow> u8 \<Rightarrow> attempt_env \<Rightarrow>
     (response \<Rightarrow> 'a attempt_outcome) \<Rightarrow> 'a attempt_outcome" where
  "send_attempt crates operation policy request_id ends_at attempt env respond =
     (if \<not> in_time ends_at (ae_made_at env) then Return (Inl (UpDeadlineExceeded operation (attempt - 1)))
      else case ae_made env of
        Inl kind \<Rightarrow> Return (Inl (UpRequestBuild operation kind attempt))
      | Inr _ \<Rightarrow>
          if remaining ends_at (ae_ready_at env) = None
          then Return (Inl (UpDeadlineExceeded operation (attempt - 1)))
          else if \<not> in_time ends_at (ae_replied_at env)
          then Return (Inl (UpDeadlineExceeded operation attempt))
          else case ae_reply env of
            Inl kind \<Rightarrow>
              if is_retryable_pre_response_transport kind \<and> attempt \<le> opol_max_retries policy
              then retry_or_deadline operation attempt
                     (wait_for_retry crates ends_at policy attempt None request_id env)
              else Return (Inl (UpTransport operation kind attempt))
          | Inr response \<Rightarrow> respond response)"

text \<open>What happens to a response that was read and is not a success.\<close>

definition failed_response ::
  "upstream_crates \<Rightarrow> upstream_operation \<Rightarrow> operation_policy \<Rightarrow> string \<Rightarrow> int \<Rightarrow> u8 \<Rightarrow> attempt_env \<Rightarrow>
     response \<Rightarrow> http_failure_kind \<Rightarrow> bool \<Rightarrow> 'a attempt_outcome" where
  "failed_response crates operation policy request_id ends_at attempt env response kind retryable =
     (let retry_after = retry_after_from_headers (uc_parse_http_date crates) (rs_retry_after response)
            (ae_wall_clock env)
      in if retryable \<and> attempt \<le> opol_max_retries policy
         then retry_or_deadline operation attempt
                (wait_for_retry crates ends_at policy attempt retry_after request_id env)
         else Return (Inl (UpHttpStatus operation (rs_status response) kind attempt
                (map_option (\<lambda>delay. of_nat (delay div 1000000000)) retry_after))))"

definition execute_attempt ::
  "upstream_crates \<Rightarrow> upstream_operation \<Rightarrow> operation_policy \<Rightarrow> string \<Rightarrow> int \<Rightarrow> u8 \<Rightarrow> attempt_env \<Rightarrow>
     bounded_response attempt_outcome" where
  "execute_attempt crates operation policy request_id ends_at attempt env =
     send_attempt crates operation policy request_id ends_at attempt env (\<lambda>response.
       case read_bounded_response response (opol_max_response_bytes policy) ends_at of
         Inl e \<Rightarrow> Return (Inl (read_error operation attempt e))
       | Inr body \<Rightarrow>
           (case classify_response (uc_from_slice crates) (rs_status response) body of
              DispSuccess \<Rightarrow>
                Return (Inr \<lparr>br_status = rs_status response, br_body = body, br_attempts = attempt\<rparr>)
            | DispRetryable kind \<Rightarrow>
                failed_response crates operation policy request_id ends_at attempt env response kind True
            | DispTerminal kind \<Rightarrow>
                failed_response crates operation policy request_id ends_at attempt env response kind False))"

text \<open>The loop over the attempts, and the error after it.\<close>

fun attempts_loop ::
  "upstream_operation \<Rightarrow> operation_policy \<Rightarrow> (u8 \<Rightarrow> 'a attempt_outcome) \<Rightarrow> u8 list \<Rightarrow> upstream_error + 'a" where
  "attempts_loop operation policy run [] =
     Inl (UpDeadlineExceeded operation (sat_add (opol_max_retries policy) 1))"
| "attempts_loop operation policy run (attempt # rest) =
     (case run attempt of Return r \<Rightarrow> r | Retry \<Rightarrow> attempts_loop operation policy run rest)"

text \<open>\<open>1..=policy.max_retries.saturating_add(1)\<close>\<close>

definition attempt_numbers :: "operation_policy \<Rightarrow> u8 list" where
  "attempt_numbers policy = map of_nat [1..<Suc (unat (sat_add (opol_max_retries policy) 1))]"

text \<open>
  The checks before the loop: \<open>Instant::now().checked_add\<close> fails past the clock's range \<open>instant_max\<close>.
\<close>

definition prepare ::
  "upstream_crates \<Rightarrow> upstream_operation \<Rightarrow> operation_policy \<Rightarrow> string \<Rightarrow> int \<Rightarrow> int \<Rightarrow> upstream_error + int" where
  "prepare crates operation policy request_id now instant_max =
     rbind (map_err (UpInvalidPolicy operation) (validate_operation_policy policy)) (\<lambda>_.
     rbind (ensure (uc_header_value_ok crates request_id) (UpInvalidRequestId operation)) (\<lambda>_.
     if now + int (opol_deadline policy) \<le> instant_max then Inr (now + int (opol_deadline policy))
     else Inl (UpInvalidPolicy operation DeadlineOverflow)))"

definition execute ::
  "upstream_crates \<Rightarrow> int \<Rightarrow> int \<Rightarrow> upstream_operation \<Rightarrow> operation_policy \<Rightarrow> string \<Rightarrow> (u8 \<Rightarrow> attempt_env) \<Rightarrow>
     upstream_error + bounded_response" where
  "execute crates now instant_max operation policy request_id env =
     rbind (prepare crates operation policy request_id now instant_max) (\<lambda>ends_at.
       attempts_loop operation policy
         (\<lambda>attempt. execute_attempt crates operation policy request_id ends_at attempt (env attempt))
         (attempt_numbers policy))"

section \<open>Streaming\<close>

record streaming_response =
  str_status :: u16
  str_open :: bool
  str_chunks :: "(int \<times> chunk_event) list"
  str_operation :: upstream_operation
  str_ends_at :: int
  str_max_response_bytes :: usize
  str_bytes_read :: usize
  str_attempts :: u8

definition streaming_response_new ::
  "response \<Rightarrow> upstream_operation \<Rightarrow> int \<Rightarrow> usize \<Rightarrow> u8 \<Rightarrow> upstream_error + streaming_response" where
  "streaming_response_new response operation ends_at max_response_bytes attempts =
     (if content_too_large response max_response_bytes then Inl (UpResponseTooLarge operation attempts)
      else Inr \<lparr>str_status = rs_status response, str_open = True, str_chunks = rs_chunks response,
             str_operation = operation, str_ends_at = ends_at,
             str_max_response_bytes = max_response_bytes, str_bytes_read = 0, str_attempts = attempts\<rparr>)"

definition stream_attempt ::
  "upstream_crates \<Rightarrow> upstream_operation \<Rightarrow> operation_policy \<Rightarrow> string \<Rightarrow> int \<Rightarrow> u8 \<Rightarrow> attempt_env \<Rightarrow>
     streaming_response attempt_outcome" where
  "stream_attempt crates operation policy request_id ends_at attempt env =
     send_attempt crates operation policy request_id ends_at attempt env (\<lambda>response.
       if is_success (rs_status response)
       then Return (streaming_response_new response operation ends_at (opol_max_response_bytes policy) attempt)
       else
         (case read_bounded_response response (opol_max_response_bytes policy) ends_at of
            Inl e \<Rightarrow> Return (Inl (read_error operation attempt e))
          | Inr body \<Rightarrow>
              (case classify_response (uc_from_slice crates) (rs_status response) body of
                 DispRetryable kind \<Rightarrow>
                   failed_response crates operation policy request_id ends_at attempt env response kind True
               | DispTerminal kind \<Rightarrow>
                   failed_response crates operation policy request_id ends_at attempt env response kind False)))"

definition execute_stream ::
  "upstream_crates \<Rightarrow> int \<Rightarrow> int \<Rightarrow> upstream_operation \<Rightarrow> operation_policy \<Rightarrow> string \<Rightarrow> (u8 \<Rightarrow> attempt_env) \<Rightarrow>
     upstream_error + streaming_response" where
  "execute_stream crates now instant_max operation policy request_id env =
     rbind (prepare crates operation policy request_id now instant_max) (\<lambda>ends_at.
       attempts_loop operation policy
         (\<lambda>attempt. stream_attempt crates operation policy request_id ends_at attempt (env attempt))
         (attempt_numbers policy))"

text \<open>\<open>next_chunk\<close>: the chunk, end of stream or error, and the response after the call.\<close>

definition next_chunk ::
  "streaming_response \<Rightarrow> (upstream_error + string option) \<times> streaming_response" where
  "next_chunk self =
     (if \<not> str_open self then (Inr None, self)
      else
        (let closed = self\<lparr>str_open := False, str_chunks := []\<rparr>;
             deadline = Inl (UpDeadlineExceeded (str_operation self) (str_attempts self))
         in case str_chunks self of
              [] \<Rightarrow> (deadline, closed)
            | (at, event) # events \<Rightarrow>
                if \<not> in_time (str_ends_at self) at then (deadline, closed)
                else (case event of
                        ChunkData chunk \<Rightarrow>
                          if str_bytes_read self + length chunk \<le> str_max_response_bytes self
                          then (Inr (Some chunk),
                                self\<lparr>str_chunks := events,
                                     str_bytes_read := str_bytes_read self + length chunk\<rparr>)
                          else (Inl (UpResponseTooLarge (str_operation self) (str_attempts self)), closed)
                      | ChunkEnd \<Rightarrow> (Inr None, closed)
                      | ChunkError kind \<Rightarrow>
                          (Inl (UpTransport (str_operation self) kind (str_attempts self)), closed))))"

fun read_stream :: "nat \<Rightarrow> streaming_response \<Rightarrow> (upstream_error + string option) list \<times> streaming_response" where
  "read_stream 0 self = ([], self)"
| "read_stream (Suc n) self =
     (let (r, self') = next_chunk self; (rs, self'') = read_stream n self' in (r # rs, self''))"

end
