(* ===== verification/Upstream_Facts.thy ===== *)
theory Upstream_Facts
  imports Upstream
begin

text \<open>
  What upstream calls guarantee: at most three attempts, a repeated attempt only when the previous
  one cannot have been accepted or the provider asked for it, bodies within the configured bound,
  backoff within the policy, and streams that end for good at their first error.
\<close>

section \<open>The loop\<close>

lemma attempts_loop_stops:
  assumes "\<And>a. run a = Retry \<Longrightarrow> a \<le> opol_max_retries policy" and "opol_max_retries policy \<le> 2"
  shows "\<exists>n. 1 \<le> n \<and> n \<le> Suc (unat (opol_max_retries policy))
    \<and> (\<forall>i. 1 \<le> i \<and> i < n \<longrightarrow> run (of_nat i) = Retry)
    \<and> run (of_nat n) = Return (attempts_loop operation policy run (attempt_numbers policy))"
proof -
  let ?m = "unat (opol_max_retries policy)"
  have m: "?m \<le> 2" using assms(2) by (simp add: word_le_nat_alt)
  then have "unat (sat_add (opol_max_retries policy) 1) = Suc ?m" by (simp add: unat_sat_add)
  then have nums: "attempt_numbers policy = map of_nat [1..<Suc (Suc ?m)]" by (simp add: attempt_numbers_def)
  have last: "run (of_nat (Suc ?m)) \<noteq> Retry"
  proof
    assume "run (of_nat (Suc ?m)) = Retry"
    then have le: "(of_nat (Suc ?m) :: u8) \<le> opol_max_retries policy" by (rule assms(1))
    have "unat (of_nat (Suc ?m) :: u8) = Suc ?m" using m by (simp add: unat_of_nat del: of_nat_Suc)
    with le show False by (simp add: word_le_nat_alt del: of_nat_Suc)
  qed
  have "\<exists>n. k \<le> n \<and> n \<le> Suc ?m \<and> (\<forall>i. k \<le> i \<and> i < n \<longrightarrow> run (of_nat i) = Retry)
      \<and> run (of_nat n) = Return (attempts_loop operation policy run (map of_nat [k..<Suc (Suc ?m)]))"
    if "k \<le> Suc ?m" for k
    using that
  proof (induction "Suc ?m - k" arbitrary: k)
    case 0
    then have k: "k = Suc ?m" by simp
    show ?case using last k by (cases "run (of_nat (Suc ?m))") (auto intro!: exI [of _ "Suc ?m"])
  next
    case (Suc d)
    have upt: "[k..<Suc (Suc ?m)] = k # [Suc k..<Suc (Suc ?m)]" using Suc.prems by (simp add: upt_rec)
    show ?case
    proof (cases "run (of_nat k)")
      case Retry
      have "k \<noteq> Suc ?m" using last Retry by auto
      with Suc.prems have "Suc k \<le> Suc ?m" by simp
      have "d = Suc ?m - Suc k" using Suc.hyps(2) by linarith
      from Suc.hyps(1) [OF this \<open>Suc k \<le> Suc ?m\<close>] obtain n where
        n: "Suc k \<le> n" "n \<le> Suc ?m" "\<forall>i. Suc k \<le> i \<and> i < n \<longrightarrow> run (of_nat i) = Retry"
          "run (of_nat n) = Return (attempts_loop operation policy run (map of_nat [Suc k..<Suc (Suc ?m)]))"
        by blast
      have "run (of_nat i) = Retry" if "k \<le> i" "i < n" for i
        using that n(3) Retry by (cases "i = k") auto
      moreover have "attempts_loop operation policy run (map of_nat [k..<Suc (Suc ?m)])
          = attempts_loop operation policy run (map of_nat [Suc k..<Suc (Suc ?m)])"
        unfolding upt using Retry by (simp del: upt_Suc)
      ultimately show ?thesis using n by (intro exI [of _ n]) (simp del: upt_Suc)
    next
      case (Return r)
      then show ?thesis unfolding upt using Suc.prems by (intro exI [of _ k]) (auto simp del: upt_Suc)
    qed
  qed
  from this [of 1] show ?thesis by (simp add: nums)
qed

lemma prepare_Inr:
  "prepare crates op p rid now imax = Inr ends_at \<longleftrightarrow>
     validate_operation_policy p = Inr () \<and> uc_header_value_ok crates rid
     \<and> now + int (opol_deadline p) \<le> imax \<and> ends_at = now + int (opol_deadline p)"
  by (auto simp: prepare_def rbind_Inr map_err_Inr ensure_Inr)

lemma prepare_retries: "prepare crates op p rid now imax = Inr ends_at \<Longrightarrow> opol_max_retries p \<le> 2"
  by (simp add: prepare_Inr validate_operation_policy_Inr max_upstream_retries_def)

section \<open>One attempt\<close>

definition safe_to_repeat :: "attempt_env \<Rightarrow> bool" where
  "safe_to_repeat env =
     (case ae_reply env of
        Inl kind \<Rightarrow> kind = TransConnection
      | Inr response \<Rightarrow> rs_status response \<in> {408, 429, 500, 502, 503, 504})"

lemma retry_or_deadline_Retry: "retry_or_deadline op a w = Retry \<longleftrightarrow> w"
  by (simp add: retry_or_deadline_def)

lemma wait_in_time: "wait_for_retry crates ends_at p n ra seed env \<Longrightarrow> ae_woken_at env \<le> ends_at"
  by (auto simp: wait_for_retry_def in_time_def Let_def split: option.splits)

lemma failed_response_Retry:
  "failed_response crates op p rid ends_at a env resp kind b = Retry \<Longrightarrow>
     b \<and> a \<le> opol_max_retries p \<and> ae_woken_at env \<le> ends_at"
  by (auto simp: failed_response_def Let_def retry_or_deadline_Retry dest: wait_in_time split: if_splits)

lemma send_attempt_Retry:
  assumes "send_attempt crates op p rid ends_at a env respond = Retry"
    and "\<And>resp. respond resp = Retry \<Longrightarrow>
      rs_status resp \<in> {408, 429, 500, 502, 503, 504} \<and> a \<le> opol_max_retries p \<and> ae_woken_at env \<le> ends_at"
  shows "a \<le> opol_max_retries p \<and> safe_to_repeat env \<and> ae_woken_at env \<le> ends_at"
  using assms
  by (auto simp: send_attempt_def safe_to_repeat_def is_retryable_pre_response_transport_def
      retry_or_deadline_Retry dest: wait_in_time split: if_splits sum.splits)

lemma execute_attempt_Retry:
  assumes "execute_attempt crates op p rid ends_at a env = Retry"
  shows "a \<le> opol_max_retries p \<and> safe_to_repeat env \<and> ae_woken_at env \<le> ends_at"
proof (rule send_attempt_Retry [OF assms [unfolded execute_attempt_def]])
  fix resp
  assume r: "(case read_bounded_response resp (opol_max_response_bytes p) ends_at of
         Inl e \<Rightarrow> Return (Inl (read_error op a e))
       | Inr body \<Rightarrow>
           (case classify_response (uc_from_slice crates) (rs_status resp) body of
              DispSuccess \<Rightarrow> Return (Inr \<lparr>br_status = rs_status resp, br_body = body, br_attempts = a\<rparr>)
            | DispRetryable kind \<Rightarrow> failed_response crates op p rid ends_at a env resp kind True
            | DispTerminal kind \<Rightarrow> failed_response crates op p rid ends_at a env resp kind False)) = Retry"
  then obtain body k where "classify_response (uc_from_slice crates) (rs_status resp) body = DispRetryable k"
      "failed_response crates op p rid ends_at a env resp k True = (Retry :: bounded_response attempt_outcome)"
    by (auto dest: failed_response_Retry split: sum.splits response_disposition.splits)
  then show "rs_status resp \<in> {408, 429, 500, 502, 503, 504} \<and> a \<le> opol_max_retries p \<and> ae_woken_at env \<le> ends_at"
    using classify_retryable_status failed_response_Retry by blast
qed

lemma stream_attempt_Retry:
  assumes "stream_attempt crates op p rid ends_at a env = Retry"
  shows "a \<le> opol_max_retries p \<and> safe_to_repeat env \<and> ae_woken_at env \<le> ends_at"
proof (rule send_attempt_Retry [OF assms [unfolded stream_attempt_def]])
  fix resp
  assume r: "(if is_success (rs_status resp)
       then Return (streaming_response_new resp op ends_at (opol_max_response_bytes p) a)
       else
         (case read_bounded_response resp (opol_max_response_bytes p) ends_at of
            Inl e \<Rightarrow> Return (Inl (read_error op a e))
          | Inr body \<Rightarrow>
              (case classify_response (uc_from_slice crates) (rs_status resp) body of
                 DispRetryable kind \<Rightarrow> failed_response crates op p rid ends_at a env resp kind True
               | DispTerminal kind \<Rightarrow> failed_response crates op p rid ends_at a env resp kind False))) = Retry"
  then have no_success: "\<not> is_success (rs_status resp)" by (auto split: if_splits)
  with r obtain body where b: "(case classify_response (uc_from_slice crates) (rs_status resp) body of
                 DispRetryable kind \<Rightarrow> failed_response crates op p rid ends_at a env resp kind True
               | DispTerminal kind \<Rightarrow> failed_response crates op p rid ends_at a env resp kind False)
        = (Retry :: streaming_response attempt_outcome)"
    by (auto split: sum.splits)
  show "rs_status resp \<in> {408, 429, 500, 502, 503, 504} \<and> a \<le> opol_max_retries p \<and> ae_woken_at env \<le> ends_at"
  proof (cases "classify_response (uc_from_slice crates) (rs_status resp) body")
    case DispSuccess
    with no_success show ?thesis by (simp add: classify_success)
  next
    case (DispRetryable k)
    with b classify_retryable_status [OF DispRetryable] show ?thesis by (auto dest: failed_response_Retry)
  next
    case (DispTerminal k)
    with b show ?thesis by (auto dest: failed_response_Retry)
  qed
qed

section \<open>Bodies\<close>

lemma read_chunks_bound:
  "read_chunks m ends_at body events = Inr b \<Longrightarrow> length body \<le> m \<Longrightarrow> length b \<le> m"
  by (induction m ends_at body events rule: read_chunks.induct) (auto split: if_splits chunk_event.splits)

lemma read_bounded_bound: "read_bounded_response r m ends_at = Inr b \<Longrightarrow> length b \<le> m"
  by (auto simp: read_bounded_response_def intro: read_chunks_bound split: if_splits)

lemma failed_response_not_Inr: "failed_response crates op p rid ends_at a env resp k b \<noteq> Return (Inr r)"
  by (simp add: failed_response_def Let_def retry_or_deadline_def)

lemma execute_attempt_success:
  assumes "execute_attempt crates op p rid ends_at a env = Return (Inr r)"
  shows "is_success (br_status r) \<and> length (br_body r) \<le> opol_max_response_bytes p \<and> br_attempts r = a
    \<and> ae_replied_at env \<le> ends_at"
proof -
  have "ae_replied_at env \<le> ends_at"
    using assms by (auto simp: execute_attempt_def send_attempt_def in_time_def retry_or_deadline_def
        split: if_splits sum.splits)
  moreover obtain resp body where
    "read_bounded_response resp (opol_max_response_bytes p) ends_at = Inr body"
    "classify_response (uc_from_slice crates) (rs_status resp) body = DispSuccess"
    "r = \<lparr>br_status = rs_status resp, br_body = body, br_attempts = a\<rparr>"
    using assms
    by (auto simp: execute_attempt_def send_attempt_def retry_or_deadline_def failed_response_not_Inr
        split: if_splits sum.splits response_disposition.splits)
  ultimately show ?thesis by (auto simp: classify_success dest: read_bounded_bound)
qed

section \<open>Streams\<close>

definition stream_ok :: "streaming_response \<Rightarrow> bool" where
  "stream_ok s = (str_bytes_read s \<le> str_max_response_bytes s)"

fun chunk_bytes :: "upstream_error + string option \<Rightarrow> nat" where
  "chunk_bytes (Inr (Some c)) = length c"
| "chunk_bytes _ = 0"

lemma next_chunk_spec:
  assumes "next_chunk s = (r, s')" and "stream_ok s"
  shows "stream_ok s' \<and> str_max_response_bytes s' = str_max_response_bytes s
    \<and> str_bytes_read s' = str_bytes_read s + chunk_bytes r
    \<and> (str_open s' \<longleftrightarrow> str_open s \<and> (\<exists>c. r = Inr (Some c)))"
  using assms
  by (auto simp: next_chunk_def stream_ok_def Let_def split: if_splits list.splits prod.splits chunk_event.splits)

lemma read_stream_bytes:
  assumes "read_stream n s = (rs, s')" and "stream_ok s"
  shows "stream_ok s' \<and> str_max_response_bytes s' = str_max_response_bytes s
    \<and> str_bytes_read s + sum_list (map chunk_bytes rs) = str_bytes_read s'"
  using assms
proof (induction n arbitrary: s rs s')
  case (Suc n)
  obtain r s1 where 1: "next_chunk s = (r, s1)" by fastforce
  obtain rs1 s2 where 2: "read_stream n s1 = (rs1, s2)" by fastforce
  from Suc.prems 1 2 have "rs = r # rs1" "s' = s2" by auto
  with next_chunk_spec [OF 1 Suc.prems(2)] Suc.IH [OF 2] show ?case by auto
qed auto

lemma closed_stream: "\<not> str_open s \<Longrightarrow> read_stream n s = (replicate n (Inr None), s)"
  by (induction n) (simp_all add: next_chunk_def)

section \<open>Properties\<close>

definition sample_crates :: upstream_crates where
  "sample_crates =
     \<lparr>uc_sha256 = (\<lambda>s. s), uc_from_slice = (\<lambda>_. None), uc_parse_http_date = (\<lambda>_. None),
      uc_header_value_ok = (\<lambda>_. True)\<rparr>"

definition sample_operation_policy :: operation_policy where
  "sample_operation_policy =
     \<lparr>opol_deadline = 1000, opol_max_response_bytes = 8, opol_max_retries = 1, opol_initial_backoff = 4,
      opol_max_backoff = 8\<rparr>"

text \<open>The first attempt cannot connect, the second one answers \<open>ok\<close> in two chunks.\<close>

definition sample_env :: "u8 \<Rightarrow> attempt_env" where
  "sample_env a =
     \<lparr>ae_made_at = 1, ae_made = Inr (), ae_ready_at = 2, ae_replied_at = 3,
      ae_reply = (if a = 1 then Inl TransConnection
        else Inr \<lparr>rs_status = 200, rs_retry_after = [], rs_content_length = None,
               rs_chunks = [(4, ChunkData ''o''), (5, ChunkData ''k''), (6, ChunkEnd)]\<rparr>),
      ae_wall_clock = 0, ae_wait_at = 4, ae_woken_at = 20\<rparr>"

lemma sample_execute:
  "prepare sample_crates LlmCompletion sample_operation_policy ''r'' 0 5000 = Inr 1000"
  "execute_attempt sample_crates LlmCompletion sample_operation_policy ''r'' 1000 1 (sample_env 1) = Retry"
  "execute sample_crates 0 5000 LlmCompletion sample_operation_policy ''r'' sample_env
     = Inr \<lparr>br_status = 200, br_body = ''ok'', br_attempts = 2\<rparr>"
  by code_simp+

text \<open>
  C40: a call whose policy, request id and deadline are accepted makes between one and
  \<open>max_retries + 1\<close> attempts, hence at most three: every attempt before the last one asks to be
  repeated and the last one decides the result, so the error after the loop is never reached.
\<close>

theorem execute_attempts_bounded:
  assumes "prepare crates operation policy request_id now instant_max = Inr ends_at"
  shows "\<exists>n. 1 \<le> n \<and> n \<le> Suc (unat (opol_max_retries policy)) \<and> n \<le> 3
    \<and> (\<forall>i. 1 \<le> i \<and> i < n \<longrightarrow>
         execute_attempt crates operation policy request_id ends_at (of_nat i) (env (of_nat i)) = Retry)
    \<and> execute_attempt crates operation policy request_id ends_at (of_nat n) (env (of_nat n))
        = Return (execute crates now instant_max operation policy request_id env)"
proof -
  let ?run = "\<lambda>a. execute_attempt crates operation policy request_id ends_at a (env a)"
  have "a \<le> opol_max_retries policy" if "?run a = Retry" for a
    using execute_attempt_Retry [OF that] by blast
  from attempts_loop_stops [of ?run, OF this prepare_retries [OF assms], of operation]
    prepare_retries [OF assms] show ?thesis
    by (auto simp: execute_def assms word_le_nat_alt intro: order_trans)
qed

lemma execute_attempts_bounded_witness:
  "\<exists>n\<le>3. execute_attempt sample_crates LlmCompletion sample_operation_policy ''r'' 1000 (of_nat n) (sample_env (of_nat n))
     = Return (execute sample_crates 0 5000 LlmCompletion sample_operation_policy ''r'' sample_env)"
  using execute_attempts_bounded [OF sample_execute(1), of sample_env] by blast

text \<open>
  C33: no duplicated side effects. A request is sent again only when connecting failed, so that the
  upstream cannot have accepted it, or when the upstream answered with one of the statuses 408, 429,
  500, 502, 503 and 504; and only while retries are left and the backoff ended before the deadline.
  A timeout or a broken response is never repeated.
\<close>

theorem repeat_only_when_safe:
  assumes "execute_attempt crates operation policy request_id ends_at attempt env = Retry
    \<or> stream_attempt crates operation policy request_id ends_at attempt env = Retry"
  shows "safe_to_repeat env \<and> attempt \<le> opol_max_retries policy \<and> ae_woken_at env \<le> ends_at"
  using assms execute_attempt_Retry stream_attempt_Retry by blast

lemma repeat_only_when_safe_witness: "safe_to_repeat (sample_env 1)"
  using repeat_only_when_safe [OF disjI1 [OF sample_execute(2)]] by blast

text \<open>
  A returned response is a success, its body is within the configured limit and its headers
  arrived before the deadline of the call.
\<close>

theorem execute_success_bounded:
  assumes "execute crates now instant_max operation policy request_id env = Inr r"
  shows "is_success (br_status r) \<and> length (br_body r) \<le> opol_max_response_bytes policy
    \<and> ae_replied_at (env (br_attempts r)) \<le> now + int (opol_deadline policy)"
proof -
  obtain ends_at where p: "prepare crates operation policy request_id now instant_max = Inr ends_at"
    using assms by (auto simp: execute_def rbind_Inr)
  let ?run = "\<lambda>a. execute_attempt crates operation policy request_id ends_at a (env a)"
  have retry: "a \<le> opol_max_retries policy" if "?run a = Retry" for a
    using execute_attempt_Retry [OF that] by blast
  from attempts_loop_stops [of ?run, OF retry prepare_retries [OF p], of operation] obtain n where
    "?run (of_nat n) = Return (execute crates now instant_max operation policy request_id env)"
    by (auto simp: execute_def p)
  then have "?run (of_nat n) = Return (Inr r)" using assms by simp
  from execute_attempt_success [OF this] show ?thesis using p by (auto simp: prepare_Inr)
qed

lemma execute_success_bounded_witness:
  "length (br_body \<lparr>br_status = 200, br_body = ''ok'', br_attempts = 2\<rparr>) \<le> opol_max_response_bytes sample_operation_policy"
  using execute_success_bounded [OF sample_execute(3)] by blast

text \<open>
  The backoff is exponential and bounded: at least the doubled initial delay cut at the maximum
  and at least what the provider's \<open>Retry-After\<close> asks for, and never longer than the larger of the
  maximum and \<open>Retry-After\<close>, jitter included.
\<close>

theorem retry_delay_within_policy:
  assumes "max_backoff \<le> duration_max"
  shows "max (min (initial * 2 ^ min (unat retry - 1) 31) max_backoff) (case ra of Some d \<Rightarrow> d | None \<Rightarrow> 0)
      \<le> retry_delay sha initial max_backoff retry ra seed
    \<and> retry_delay sha initial max_backoff retry ra seed \<le> max max_backoff (case ra of Some d \<Rightarrow> d | None \<Rightarrow> 0)"
  using retry_delay_bounds [OF assms] by simp

lemma retry_delay_within_policy_witness: "retry_delay id 100 250 2 None ''seed'' \<le> 250"
  using retry_delay_within_policy [of 250 100 2 None id "''seed''"] by (simp add: duration_max_def)

text \<open>
  A streamed body stays within its limit over any number of reads, and it ends for good: after
  its end or its first error every further read reports the end of the stream.
\<close>

theorem stream_bounded_and_fused:
  assumes "streaming_response_new response operation ends_at limit attempts = Inr s"
    and "read_stream n s = (rs, s')"
  shows "sum_list (map chunk_bytes rs) \<le> limit
    \<and> (\<not> str_open s' \<longrightarrow> read_stream m s' = (replicate m (Inr None), s'))"
proof -
  have s: "stream_ok s" "str_max_response_bytes s = limit" "str_bytes_read s = 0"
    using assms(1) by (auto simp: streaming_response_new_def stream_ok_def split: if_splits)
  from read_stream_bytes [OF assms(2) s(1)] s closed_stream [of s' m] show ?thesis
    by (simp add: stream_ok_def)
qed

lemma stream_bounded_and_fused_witness:
  "\<exists>s rs s'. read_stream 3 s = (rs, s') \<and> sum_list (map chunk_bytes rs) \<le> 8"
proof -
  let ?r = "\<lparr>rs_status = 200, rs_retry_after = [], rs_content_length = None, rs_chunks = [(4, ChunkData ''o'')]\<rparr>"
  obtain s where s: "streaming_response_new ?r LlmCompletion 10 8 1 = Inr s"
    by (simp add: streaming_response_new_def content_too_large_def)
  obtain rs s' where "read_stream 3 s = (rs, s')" by fastforce
  with stream_bounded_and_fused [OF s this] show ?thesis by blast
qed

end
