(* ===== verification/Tenant_Scope.thy ===== *)
theory Tenant_Scope
  imports Util
begin

text \<open>
  Tenant isolation in the fixed indexes (\<open>tenant_scope.rs\<close>): the identifiers under which documents of
  all tenants share an index, the wrapping of a document for storage and its restoration, and the
  builder of the filters every query carries. HMAC-SHA256 is the parameter \<open>hex_mac\<close>; \<open>serde_json\<close>
  is the result of \<open>to_value\<close> as an argument, and the encoders \<open>enc\<close> of one string and \<open>enc_list\<close> of
  a slice of strings.
\<close>

section \<open>Identifiers\<close>

definition document_id_key :: string where
  "document_id_key = ''nowledge-tenant-scope-v1-document-id''"

definition structured_row_payload_field :: string where
  "structured_row_payload_field = ''__nowledge_row_payload_v1''"

definition require_scope_value :: "string \<Rightarrow> string \<Rightarrow> api_error + unit" where
  "require_scope_value field value =
     ensure (\<not> blank value) (Internal (field @ '' must be non-empty for fixed-index persistence''))"

definition length_prefixed_identity :: "string list \<Rightarrow> string" where
  "length_prefixed_identity parts = concat (map (\<lambda>part. show_nat (length part) @ '':'' @ part) parts)"

definition document_hash :: "(string \<Rightarrow> string \<Rightarrow> string) \<Rightarrow> string \<Rightarrow> string" where
  "document_hash hex_mac identity = hmac_hex hex_mac document_id_key ''fixed-document'' identity 40"

definition persisted_document_id ::
    "(string \<Rightarrow> string \<Rightarrow> string) \<Rightarrow> string \<Rightarrow> string \<Rightarrow> string \<Rightarrow> api_error + string" where
  "persisted_document_id hex_mac tenant_id kind logical_id =
     rbind (checks
       [require_scope_value ''tenant_id'' tenant_id,
        require_scope_value ''persisted kind'' kind,
        require_scope_value ''logical_id'' logical_id])
     (\<lambda>_. Inr (''ts1_'' @ document_hash hex_mac (length_prefixed_identity [tenant_id, kind, logical_id])))"

definition scoped_storage_identity :: "string \<Rightarrow> string \<Rightarrow> api_error + string" where
  "scoped_storage_identity scope logical_id =
     rbind (checks [require_scope_value ''storage scope'' scope, require_scope_value ''logical_id'' logical_id])
     (\<lambda>_. Inr (length_prefixed_identity [scope, logical_id]))"

definition owner_scoped_storage_identity :: "string option \<Rightarrow> string \<Rightarrow> api_error + string" where
  "owner_scoped_storage_identity owner_user_id logical_id =
     rbind (require_scope_value ''logical_id'' logical_id) (\<lambda>_.
     rbind (case owner_user_id of
              Some owner \<Rightarrow>
                rbind (require_scope_value ''owner_user_id'' owner)
                  (\<lambda>_. Inr (length_prefixed_identity [''owner'', owner]))
            | None \<Rightarrow> Inr (length_prefixed_identity [''company''])) (\<lambda>owner_scope.
     Inr (length_prefixed_identity [owner_scope, logical_id])))"

section \<open>Documents\<close>

text \<open>The guard on a \<open>tenant_id\<close> the value brings along.\<close>

definition check_document_tenant :: "string \<Rightarrow> json option \<Rightarrow> api_error + unit" where
  "check_document_tenant tenant_id existing =
     (case existing of
        Some (JString e) \<Rightarrow>
          if e = tenant_id then Inr ()
          else if blank e then Inr ()
          else Inl (Internal ''persisted document tenant_id does not match its repository scope'')
      | Some _ \<Rightarrow> Inl (Internal ''persisted document tenant_id must be a string'')
      | None \<Rightarrow> Inr ())"

definition tenant_document_with_storage_identity ::
    "(string \<Rightarrow> string \<Rightarrow> string) \<Rightarrow> string \<Rightarrow> string \<Rightarrow> string \<Rightarrow> string \<Rightarrow> string + json \<Rightarrow> api_error + json" where
  "tenant_document_with_storage_identity hex_mac tenant_id kind logical_id storage_identity to_value =
     rbind (checks
       [require_scope_value ''tenant_id'' tenant_id,
        require_scope_value ''logical_id'' logical_id,
        require_scope_value ''storage_identity'' storage_identity]) (\<lambda>_.
     rbind (map_err Internal to_value) (\<lambda>value.
     let document = (case value of JObject m \<Rightarrow> m | other \<Rightarrow> bt_insert ''value'' other []) in
     rbind (check_document_tenant tenant_id (bt_get document ''tenant_id'')) (\<lambda>_.
     rbind (persisted_document_id hex_mac tenant_id kind storage_identity) (\<lambda>i.
     Inr (JObject
       (bt_insert ''tenant_id'' (JString tenant_id)
       (bt_insert ''logical_id'' (JString logical_id)
       (bt_insert ''id'' (JString i) document))))))))"

definition tenant_document ::
    "(string \<Rightarrow> string \<Rightarrow> string) \<Rightarrow> string \<Rightarrow> string \<Rightarrow> string \<Rightarrow> string + json \<Rightarrow> api_error + json" where
  "tenant_document hex_mac tenant_id kind logical_id to_value =
     tenant_document_with_storage_identity hex_mac tenant_id kind logical_id logical_id to_value"

text \<open>\<open>document[FIELD] = value\<close> on what the call before returned, always an object.\<close>

fun json_set :: "string \<Rightarrow> json \<Rightarrow> json \<Rightarrow> json" where
  "json_set k v (JObject m) = JObject (bt_insert k v m)"
| "json_set k v j = j"

definition tenant_structured_row_document ::
    "(string \<Rightarrow> string \<Rightarrow> string) \<Rightarrow> string \<Rightarrow> json \<Rightarrow> api_error + json" where
  "tenant_structured_row_document hex_mac tenant_id row =
     rbind (ok_or (json_as_object row) (Internal ''structured row must be a JSON object'')) (\<lambda>payload.
     rbind (ok_or (json_get_str (JObject payload) ''id'') (Internal ''structured row is missing id'')) (\<lambda>logical_id.
     rbind (ok_or (json_get_str (JObject payload) ''snapshot_id'')
              (Internal ''structured row is missing snapshot_id'')) (\<lambda>snapshot_id.
     rbind (scoped_storage_identity snapshot_id logical_id) (\<lambda>storage_identity.
     rbind (tenant_document_with_storage_identity hex_mac tenant_id ''rag_structured_rows''
              logical_id storage_identity (Inr row)) (\<lambda>document.
     Inr (json_set structured_row_payload_field
       (JObject (bt_insert ''tenant_id'' (JString tenant_id)
                (bt_insert ''id'' (JString logical_id) payload)))
       document))))))"

definition document_kind :: "string \<Rightarrow> json \<Rightarrow> string option" where
  "document_kind index_uid document =
     (if index_uid = ''rag_harness_components'' then
        (case json_get_str document ''doc_kind'' of
           Some k \<Rightarrow>
             if k = ''component'' \<or> k = ''revision'' then Some (index_uid @ '':'' @ k) else None
         | None \<Rightarrow> None)
      else Some index_uid)"

definition document_storage_identity :: "string \<Rightarrow> json \<Rightarrow> string \<Rightarrow> string option" where
  "document_storage_identity index_uid document logical_id =
     (if index_uid = ''rag_structured_rows'' then
        (case json_get document structured_row_payload_field of
           Some (JObject _) \<Rightarrow>
             (case json_get_str document ''snapshot_id'' of
                None \<Rightarrow> None
              | Some snapshot_id \<Rightarrow>
                  (case scoped_storage_identity snapshot_id logical_id of
                     Inl _ \<Rightarrow> None
                   | Inr identity \<Rightarrow> Some identity))
         | _ \<Rightarrow> None)
      else if index_uid = ''rag_parse_artifacts'' then
        (case (case json_get document ''owner_user_id'' of
                 Some (JString owner) \<Rightarrow> Some (Some owner)
               | Some JNull \<Rightarrow> Some None
               | None \<Rightarrow> Some None
               | Some _ \<Rightarrow> None) of
           None \<Rightarrow> None
         | Some owner \<Rightarrow>
             (case owner_scoped_storage_identity owner logical_id of
                Inl _ \<Rightarrow> None
              | Inr identity \<Rightarrow> Some identity))
      else Some logical_id)"

definition is_tenant_document :: "(string \<Rightarrow> string \<Rightarrow> string) \<Rightarrow> string \<Rightarrow> json \<Rightarrow> bool" where
  "is_tenant_document hex_mac index_uid document =
     (case (json_get_str document ''id'', json_get_str document ''tenant_id'',
            json_get_str document ''logical_id'') of
        (Some i, Some tenant_id, Some logical_id) \<Rightarrow>
          if blank tenant_id \<or> blank logical_id then False
          else (case document_kind index_uid document of
                  None \<Rightarrow> False
                | Some kind \<Rightarrow>
                    (case document_storage_identity index_uid document logical_id of
                       None \<Rightarrow> False
                     | Some storage_identity \<Rightarrow>
                         if index_uid = ''rag_company_context''
                           \<and> json_get_str document ''uri'' \<noteq> Some logical_id
                         then False
                         else persisted_document_id hex_mac tenant_id kind storage_identity = Inr i))
      | _ \<Rightarrow> False)"

definition restore_logical_id :: "(string \<Rightarrow> string \<Rightarrow> string) \<Rightarrow> string \<Rightarrow> json \<Rightarrow> json" where
  "restore_logical_id hex_mac index_uid document =
     (if \<not> is_tenant_document hex_mac index_uid document then document
      else if index_uid = ''rag_structured_rows'' then
        (case json_get document structured_row_payload_field of Some payload \<Rightarrow> payload | None \<Rightarrow> document)
      else
        (case document of
           JObject m \<Rightarrow>
             (case bt_get m ''logical_id'' of
                Some (JString logical_id) \<Rightarrow>
                  JObject (bt_insert ''id'' (JString logical_id) (bt_remove ''logical_id'' m))
              | _ \<Rightarrow> JObject (bt_remove ''logical_id'' m))
         | _ \<Rightarrow> document))"

section \<open>Lemmas on identifiers\<close>

lemma require_scope_value_Inr [simp]: "require_scope_value f v = Inr u \<longleftrightarrow> \<not> blank v"
  by (simp add: require_scope_value_def ensure_Inr)

lemma digits_no_colon: "'':'' = [c] \<Longrightarrow> c \<notin> set (show_nat n)"
  using show_nat_digits [of c n] by (auto simp: is_digit_def)

lemma split_at_first:
  "xs @ c # ys = xs' @ c # ys' \<Longrightarrow> c \<notin> set xs \<Longrightarrow> c \<notin> set xs' \<Longrightarrow> xs = xs' \<and> ys = ys'"
proof (induction xs arbitrary: xs')
  case Nil
  then show ?case by (cases xs') auto
next
  case (Cons x xs)
  then show ?case by (cases xs') auto
qed

lemma prefix_part_inj:
  assumes "show_nat (length p) @ '':'' @ p @ x = show_nat (length q) @ '':'' @ q @ y"
  shows "p = q \<and> x = y"
proof -
  have none: "CHR '':'' \<notin> set (show_nat n)" for n by (rule digits_no_colon) simp
  from assms have "show_nat (length p) @ CHR '':'' # (p @ x) = show_nat (length q) @ CHR '':'' # (q @ y)"
    by simp
  then have "show_nat (length p) = show_nat (length q)" "p @ x = q @ y"
    using split_at_first [OF _ none none] by blast+
  then show ?thesis by simp
qed

lemma length_prefixed_inj:
  "length_prefixed_identity ps = length_prefixed_identity qs \<Longrightarrow> ps = qs"
proof (induction ps arbitrary: qs)
  case Nil
  then show ?case by (cases qs) (simp_all add: length_prefixed_identity_def)
next
  case (Cons p ps)
  then obtain q qs' where qs: "qs = q # qs'"
    by (cases qs) (simp_all add: length_prefixed_identity_def)
  with Cons.prems have "p = q \<and> length_prefixed_identity ps = length_prefixed_identity qs'"
    by (intro prefix_part_inj) (simp add: length_prefixed_identity_def)
  with Cons.IH qs show ?case by blast
qed

lemma persisted_document_id_Inr:
  "persisted_document_id hex_mac t k l = Inr i \<longleftrightarrow>
     \<not> blank t \<and> \<not> blank k \<and> \<not> blank l \<and> i = ''ts1_'' @ document_hash hex_mac (length_prefixed_identity [t, k, l])"
  unfolding persisted_document_id_def by (auto simp: rbind_Inr checks_Inr simp del: append.simps)

lemma scoped_storage_identity_Inr:
  "scoped_storage_identity s l = Inr i \<longleftrightarrow> \<not> blank s \<and> \<not> blank l \<and> i = length_prefixed_identity [s, l]"
  unfolding scoped_storage_identity_def by (auto simp: rbind_Inr checks_Inr)

lemma check_document_tenant_Inr:
  "check_document_tenant t e = Inr u \<longleftrightarrow> (case e of None \<Rightarrow> True | Some j \<Rightarrow> \<exists>s. j = JString s \<and> (s = t \<or> blank s))"
  by (auto simp: check_document_tenant_def split: option.splits json.splits)

lemma tenant_document_Inr:
  "tenant_document_with_storage_identity hex_mac t k l si to_value = Inr d \<longleftrightarrow>
     (\<exists>v m. to_value = Inr v \<and> m = (case v of JObject m \<Rightarrow> m | other \<Rightarrow> bt_insert ''value'' other [])
       \<and> \<not> blank t \<and> \<not> blank k \<and> \<not> blank l \<and> \<not> blank si
       \<and> (case bt_get m ''tenant_id'' of None \<Rightarrow> True | Some j \<Rightarrow> \<exists>s. j = JString s \<and> (s = t \<or> blank s))
       \<and> d = JObject (bt_insert ''tenant_id'' (JString t) (bt_insert ''logical_id'' (JString l)
               (bt_insert ''id'' (JString (''ts1_'' @ document_hash hex_mac (length_prefixed_identity [t, k, si]))) m))))"
  unfolding tenant_document_with_storage_identity_def Let_def
  by (auto simp: rbind_Inr checks_Inr map_err_Inr persisted_document_id_Inr check_document_tenant_Inr
      simp del: append.simps bt_insert.simps)

section \<open>Lemmas on documents\<close>

lemma document_kind_insert:
  "k \<noteq> ''doc_kind'' \<Longrightarrow> document_kind u (JObject (bt_insert k v m)) = document_kind u (JObject m)"
  by (simp add: document_kind_def json_get_str_def bt_get_insert)

lemma document_storage_identity_insert:
  assumes "k \<notin> {structured_row_payload_field, ''snapshot_id'', ''owner_user_id''}"
  shows "document_storage_identity u (JObject (bt_insert k v m)) l = document_storage_identity u (JObject m) l"
proof -
  have "json_get (JObject (bt_insert k v m)) f = json_get (JObject m) f"
      "json_get_str (JObject (bt_insert k v m)) f = json_get_str (JObject m) f"
    if "f \<in> {structured_row_payload_field, ''snapshot_id'', ''owner_user_id''}" for f
    using assms that by (auto simp: json_get_str_def bt_get_insert)
  then show ?thesis by (simp only: document_storage_identity_def insert_iff simp_thms)
qed

text \<open>What storing adds to a document leaves its kind and its storage identity alone.\<close>

lemma stored_kind:
  "document_kind u (JObject (bt_insert ''tenant_id'' a (bt_insert ''logical_id'' b (bt_insert ''id'' c m))))
     = document_kind u (JObject m)"
  by (simp add: document_kind_insert)

lemma stored_identity:
  "document_storage_identity u (JObject (bt_insert ''tenant_id'' a (bt_insert ''logical_id'' b (bt_insert ''id'' c m)))) l
     = document_storage_identity u (JObject m) l"
  by (simp add: document_storage_identity_insert structured_row_payload_field_def)

lemma stored_is_tenant_document:
  assumes "\<not> blank t" "\<not> blank k" "\<not> blank l" "\<not> blank si"
    and "document_kind u (JObject m) = Some k" and "document_storage_identity u (JObject m) l = Some si"
    and "u = ''rag_company_context'' \<longrightarrow> bt_get m ''uri'' = Some (JString l)"
    and "bt_get m ''id'' = Some (JString (''ts1_'' @ document_hash hex_mac (length_prefixed_identity [t, k, si])))"
    and "bt_get m ''tenant_id'' = Some (JString t)" and "bt_get m ''logical_id'' = Some (JString l)"
  shows "is_tenant_document hex_mac u (JObject m)"
  using assms
  by (auto simp: is_tenant_document_def json_get_str_def persisted_document_id_Inr simp del: append.simps)

text \<open>Restoring undoes the three fields that storing wrote.\<close>

lemma bt_entries: "bt_inv m \<Longrightarrow> map (\<lambda>k. (k, the (bt_get m k))) (map fst m) = m"
  by (auto simp: bt_entry_get comp_def intro!: map_idI)

lemma bt_ext:
  assumes "bt_inv m" "bt_inv n" "bt_get m = bt_get n"
  shows "m = n"
proof -
  have "set (map fst m) = set (map fst n)"
    using arg_cong [OF assms(3), of dom] by (simp add: dom_map_of_conv_image_fst)
  then have "map fst m = map fst n"
    using assms(1,2) by (metis bt_inv_def strict_sorted_equal)
  then show ?thesis using bt_entries [OF assms(1)] bt_entries [OF assms(2)] assms(3) by simp
qed

lemma restored_object:
  assumes "bt_inv m" "bt_get m ''id'' = Some (JString l)" "bt_get m ''tenant_id'' = Some (JString t)"
    and "bt_get m ''logical_id'' = None"
  shows "bt_insert ''id'' (JString l) (bt_remove ''logical_id''
           (bt_insert ''tenant_id'' (JString t) (bt_insert ''logical_id'' (JString l) (bt_insert ''id'' x m)))) = m"
proof (rule bt_ext)
  show "bt_get (bt_insert ''id'' (JString l) (bt_remove ''logical_id''
          (bt_insert ''tenant_id'' (JString t) (bt_insert ''logical_id'' (JString l) (bt_insert ''id'' x m))))) = bt_get m"
    using assms by (auto simp: bt_get_insert bt_get_remove fun_eq_iff)
qed (use assms in \<open>simp_all add: bt_inv_insert bt_inv_remove\<close>)

section \<open>Properties\<close>

text \<open>
  Documents of different tenants, kinds or logical ids share a stored identifier only through a
  collision of the keyed hash on two different inputs: no choice of delimiters inside the names
  makes two identities equal.
\<close>

theorem persisted_ids_separate:
  assumes "persisted_document_id hex_mac t k l = Inr i" and "persisted_document_id hex_mac t' k' l' = Inr i'"
  shows "i = i' \<longleftrightarrow>
    t = t' \<and> k = k' \<and> l = l'
    \<or> (length_prefixed_identity [t, k, l] \<noteq> length_prefixed_identity [t', k', l']
       \<and> document_hash hex_mac (length_prefixed_identity [t, k, l])
         = document_hash hex_mac (length_prefixed_identity [t', k', l']))"
proof -
  let ?a = "length_prefixed_identity [t, k, l]" and ?b = "length_prefixed_identity [t', k', l']"
  have "?a = ?b \<longleftrightarrow> t = t' \<and> k = k' \<and> l = l'"
    using length_prefixed_inj [of "[t, k, l]" "[t', k', l']"] by auto
  moreover have "i = i' \<longleftrightarrow> document_hash hex_mac ?a = document_hash hex_mac ?b"
    using assms by (simp add: persisted_document_id_Inr)
  ultimately show ?thesis by argo
qed

theorem persisted_ids_separate_witness:
  "\<exists>i i'. persisted_document_id (\<lambda>k m. m) ''a:1'' ''rag_sources'' ''s'' = Inr i
     \<and> persisted_document_id (\<lambda>k m. m) ''a'' ''1:rag_sources'' ''s'' = Inr i' \<and> i \<noteq> i'"
proof -
  obtain i i' where
    1: "persisted_document_id (\<lambda>k m. m) ''a:1'' ''rag_sources'' ''s'' = Inr i"
    and 2: "persisted_document_id (\<lambda>k m. m) ''a'' ''1:rag_sources'' ''s'' = Inr i'"
  proof -
    have "\<not> blank ''a:1'' \<and> \<not> blank ''rag_sources'' \<and> \<not> blank ''s'' \<and> \<not> blank ''a'' \<and> \<not> blank ''1:rag_sources''"
      by code_simp
    then show ?thesis using that by (simp add: persisted_document_id_Inr)
  qed
  have "document_hash (\<lambda>k m. m) (length_prefixed_identity [''a:1'', ''rag_sources'', ''s''])
      \<noteq> document_hash (\<lambda>k m. m) (length_prefixed_identity [''a'', ''1:rag_sources'', ''s''])"
    by code_simp
  then show ?thesis using persisted_ids_separate [OF 1 2] 1 2 by auto
qed

text \<open>
  A value is stored for a tenant exactly when it serializes, the identities are not blank and
  the tenant it names, if it names one, is that tenant or blank: a value of another tenant is never
  stored under this one's scope.
\<close>

theorem foreign_values_refused:
  "(\<exists>d. tenant_document hex_mac t k l to_value = Inr d) \<longleftrightarrow>
     \<not> blank t \<and> \<not> blank k \<and> \<not> blank l
     \<and> (\<exists>v. to_value = Inr v
          \<and> (case json_get v ''tenant_id'' of
               None \<Rightarrow> True
             | Some j \<Rightarrow> (case j of JString s \<Rightarrow> s = t \<or> blank s | _ \<Rightarrow> False)))"
proof -
  have wrap: "bt_get (case v of JObject m \<Rightarrow> m | other \<Rightarrow> bt_insert ''value'' other []) ''tenant_id''
      = json_get v ''tenant_id''" for v
    by (cases v) simp_all
  have str: "(\<exists>s. j = JString s \<and> (s = t \<or> blank s)) \<longleftrightarrow> (case j of JString s \<Rightarrow> s = t \<or> blank s | _ \<Rightarrow> False)" for j
    by (cases j) simp_all
  show ?thesis
    unfolding tenant_document_def tenant_document_Inr wrap [symmetric] str by auto
qed

text \<open>
  C27: storing and restoring a document gives it back, in every index except the structured rows.
  The document carries its id and tenant and no \<open>logical_id\<close>; the kind and storage identity are
  those that \<open>is_tenant_document\<close> derives for the index. The stored document passes that test, and is then
  restored to the original, in every index but the company context; there it does exactly when the document's
  uri is its logical id, and is left as stored otherwise.
\<close>

theorem tenant_document_roundtrip:
  assumes "bt_inv m" "bt_get m ''id'' = Some (JString l)" "bt_get m ''tenant_id'' = Some (JString t)"
    and "bt_get m ''logical_id'' = None"
    and "document_kind u (JObject m) = Some k" and "document_storage_identity u (JObject m) l = Some si"
    and "u \<noteq> ''rag_structured_rows''"
    and "tenant_document_with_storage_identity hex_mac t k l si (Inr (JObject m)) = Inr d"
  shows "(is_tenant_document hex_mac u d \<longleftrightarrow> u \<noteq> ''rag_company_context'' \<or> bt_get m ''uri'' = Some (JString l))
    \<and> restore_logical_id hex_mac u d = (if is_tenant_document hex_mac u d then JObject m else d)"
proof -
  define n where "n = bt_insert ''tenant_id'' (JString t) (bt_insert ''logical_id'' (JString l)
      (bt_insert ''id'' (JString (''ts1_'' @ document_hash hex_mac (length_prefixed_identity [t, k, si]))) m))"
  have d: "d = JObject n" and ne: "\<not> blank t" "\<not> blank k" "\<not> blank l" "\<not> blank si"
    using assms(8) by (simp_all add: tenant_document_Inr n_def)
  have gets: "bt_get n ''id'' = Some (JString (''ts1_'' @ document_hash hex_mac (length_prefixed_identity [t, k, si])))"
      "bt_get n ''tenant_id'' = Some (JString t)" "bt_get n ''logical_id'' = Some (JString l)"
      "bt_get n ''uri'' = bt_get m ''uri''"
    by (simp_all add: n_def bt_get_insert del: append.simps)
  have kind: "document_kind u (JObject n) = Some k" "document_storage_identity u (JObject n) l = Some si"
    using assms(5,6) by (simp_all only: n_def stored_kind stored_identity)
  have ok: "is_tenant_document hex_mac u (JObject n)" if "u \<noteq> ''rag_company_context'' \<or> bt_get m ''uri'' = Some (JString l)"
    using that gets ne kind by (intro stored_is_tenant_document) auto
  have no: "\<not> is_tenant_document hex_mac u (JObject n)" if "u = ''rag_company_context''" "bt_get m ''uri'' \<noteq> Some (JString l)"
  proof -
    have "Option.bind (bt_get m ''uri'') json_as_str \<noteq> Some l"
      using that(2) by (auto simp: bind_eq_Some_conv elim: json_as_str.elims)
    then show ?thesis
      using that(1) gets by (auto simp: is_tenant_document_def json_get_str_def split: option.splits)
  qed
  have "bt_insert ''id'' (JString l) (bt_remove ''logical_id'' n) = m"
    unfolding n_def using assms(1-4) by (rule restored_object)
  then show ?thesis using assms(7) gets(3) ok no by (auto simp: d restore_logical_id_def)
qed

theorem tenant_document_roundtrip_witness:
  "\<exists>d. tenant_document_with_storage_identity (\<lambda>k m. m) ''acme'' ''rag_sources'' ''s1'' ''s1''
         (Inr (JObject [(''id'', JString ''s1''), (''tenant_id'', JString ''acme''), (''title'', JString ''T'')])) = Inr d
     \<and> is_tenant_document (\<lambda>k m. m) ''rag_sources'' d
     \<and> restore_logical_id (\<lambda>k m. m) ''rag_sources'' d
       = JObject [(''id'', JString ''s1''), (''tenant_id'', JString ''acme''), (''title'', JString ''T'')]"
proof -
  let ?m = "[(''id'', JString ''s1''), (''tenant_id'', JString ''acme''), (''title'', JString ''T'')]"
  have "\<not> blank ''acme'' \<and> \<not> blank ''rag_sources'' \<and> \<not> blank ''s1''" by code_simp
  then obtain d where
    d: "tenant_document_with_storage_identity (\<lambda>k m. m) ''acme'' ''rag_sources'' ''s1'' ''s1'' (Inr (JObject ?m)) = Inr d"
    by (simp add: tenant_document_Inr)
  have "is_tenant_document (\<lambda>k m. m) ''rag_sources'' d \<and> restore_logical_id (\<lambda>k m. m) ''rag_sources'' d = JObject ?m"
  proof -
    have "bt_inv ?m" by code_simp
    from tenant_document_roundtrip [OF this _ _ _ _ _ _ d, where u = "''rag_sources''"] show ?thesis
      by (simp add: document_kind_def document_storage_identity_def)
  qed
  with d show ?thesis by blast
qed

text \<open>
  A structured row that is stored passes \<open>is_tenant_document\<close>, and restoring it gives the row
  with its tenant filled in, business columns named \<open>logical_id\<close> included.
\<close>

theorem structured_row_roundtrip:
  assumes "tenant_structured_row_document hex_mac t row = Inr d"
  shows "is_tenant_document hex_mac ''rag_structured_rows'' d
    \<and> (\<exists>m l. row = JObject m \<and> bt_get m ''id'' = Some (JString l)
         \<and> restore_logical_id hex_mac ''rag_structured_rows'' d
           = JObject (bt_insert ''tenant_id'' (JString t) (bt_insert ''id'' (JString l) m)))"
proof -
  from assms obtain m l s si n where
    row: "row = JObject m" and l: "bt_get m ''id'' = Some (JString l)"
    and s: "bt_get m ''snapshot_id'' = Some (JString s)" and si: "scoped_storage_identity s l = Inr si"
    and n: "tenant_document_with_storage_identity hex_mac t ''rag_structured_rows'' l si (Inr row) = Inr (JObject n)"
    and d: "d = json_set structured_row_payload_field
       (JObject (bt_insert ''tenant_id'' (JString t) (bt_insert ''id'' (JString l) m))) (JObject n)"
    unfolding tenant_structured_row_document_def
    by (auto simp: rbind_Inr ok_or_Inr tenant_document_Inr simp del: bt_insert.simps append.simps)
  define p where "p = JObject (bt_insert ''tenant_id'' (JString t) (bt_insert ''id'' (JString l) m))"
  have gets: "bt_get (bt_insert structured_row_payload_field p n) ''id''
      = Some (JString (''ts1_'' @ document_hash hex_mac (length_prefixed_identity [t, ''rag_structured_rows'', si])))"
    "bt_get (bt_insert structured_row_payload_field p n) ''tenant_id'' = Some (JString t)"
    "bt_get (bt_insert structured_row_payload_field p n) ''logical_id'' = Some (JString l)"
    "bt_get (bt_insert structured_row_payload_field p n) ''snapshot_id'' = Some (JString s)"
    "bt_get (bt_insert structured_row_payload_field p n) structured_row_payload_field = Some p"
    using n s row by (simp_all add: tenant_document_Inr bt_get_insert structured_row_payload_field_def del: append.simps)
  have ok: "is_tenant_document hex_mac ''rag_structured_rows'' (JObject (bt_insert structured_row_payload_field p n))"
  proof (rule stored_is_tenant_document [OF _ _ _ _ _ _ _ gets(1-3)])
    show "document_storage_identity ''rag_structured_rows'' (JObject (bt_insert structured_row_payload_field p n)) l = Some si"
      using gets(4,5) si by (simp add: document_storage_identity_def json_get_str_def p_def)
  qed (use n in \<open>simp_all add: tenant_document_Inr document_kind_def\<close>)
  moreover have "restore_logical_id hex_mac ''rag_structured_rows'' d = p"
    using ok gets(5) by (simp add: restore_logical_id_def d p_def)
  ultimately show ?thesis using row l by (simp add: d p_def)
qed

theorem structured_row_roundtrip_witness:
  "\<exists>d. tenant_structured_row_document (\<lambda>k m. m) ''acme''
         (JObject [(''id'', JString ''r1''), (''logical_id'', JString ''L''), (''snapshot_id'', JString ''s'')]) = Inr d
     \<and> is_tenant_document (\<lambda>k m. m) ''rag_structured_rows'' d"
proof -
  have "\<not> isl (tenant_structured_row_document (\<lambda>k m. m) ''acme''
      (JObject [(''id'', JString ''r1''), (''logical_id'', JString ''L''), (''snapshot_id'', JString ''s'')]))"
    by code_simp
  then obtain d where d: "tenant_structured_row_document (\<lambda>k m. m) ''acme''
      (JObject [(''id'', JString ''r1''), (''logical_id'', JString ''L''), (''snapshot_id'', JString ''s'')]) = Inr d"
    unfolding isl_def by (metis (no_types, lifting) sum.exhaust)
  with structured_row_roundtrip [OF d] show ?thesis by blast
qed

end
