(* ===== verification/Tenant_Filter.thy ===== *)
theory Tenant_Filter
  imports Tenant_Scope
begin

text \<open>
  The filter builder of \<open>tenant_scope.rs\<close>: every method of \<open>TenantFilter\<close> adds one clause and \<open>finish\<close>
  joins them. A scanner of the filter text (quoted literals, parentheses) says what a clause looks
  like from outside; with encoders that produce JSON literals, no value and no sequence of methods
  makes the tenant clause optional.
\<close>

section \<open>The code\<close>

record tenant_filter =
  tf_clauses :: "string list"

definition push_clause :: "string \<Rightarrow> tenant_filter \<Rightarrow> tenant_filter" where
  "push_clause c self = self\<lparr>tf_clauses := tf_clauses self @ [c]\<rparr>"

definition meili_string :: "(string \<Rightarrow> string + string) \<Rightarrow> string \<Rightarrow> api_error + string" where
  "meili_string enc value = map_err Internal (enc value)"

definition filter_new :: "(string \<Rightarrow> string + string) \<Rightarrow> string \<Rightarrow> api_error + tenant_filter" where
  "filter_new enc tenant_id =
     rbind (require_scope_value ''tenant_id'' tenant_id) (\<lambda>_.
     rbind (meili_string enc tenant_id) (\<lambda>v.
     Inr \<lparr>tf_clauses = [''tenant_id = '' @ v]\<rparr>))"

definition filter_eq ::
    "(string \<Rightarrow> string + string) \<Rightarrow> string \<Rightarrow> string \<Rightarrow> tenant_filter \<Rightarrow> api_error + tenant_filter" where
  "filter_eq enc field value self =
     rbind (meili_string enc value) (\<lambda>v. Inr (push_clause (field @ '' = '' @ v) self))"

definition filter_eq_u64 :: "string \<Rightarrow> u64 \<Rightarrow> tenant_filter \<Rightarrow> tenant_filter" where
  "filter_eq_u64 field value self = push_clause (field @ '' = '' @ show_nat (unat value)) self"

definition filter_lt_i64 :: "string \<Rightarrow> 64 word \<Rightarrow> tenant_filter \<Rightarrow> tenant_filter" where
  "filter_lt_i64 field value self = push_clause (field @ '' < '' @ show_int (sint value)) self"

definition filter_not_exists :: "string \<Rightarrow> tenant_filter \<Rightarrow> tenant_filter" where
  "filter_not_exists field self = push_clause (field @ '' NOT EXISTS'') self"

definition filter_is_null :: "string \<Rightarrow> tenant_filter \<Rightarrow> tenant_filter" where
  "filter_is_null field self =
     push_clause (''('' @ field @ '' IS NULL OR '' @ field @ '' NOT EXISTS)'') self"

definition filter_eq_or_null ::
    "(string \<Rightarrow> string + string) \<Rightarrow> string \<Rightarrow> string \<Rightarrow> tenant_filter \<Rightarrow> api_error + tenant_filter" where
  "filter_eq_or_null enc field value self =
     rbind (meili_string enc value) (\<lambda>v.
     Inr (push_clause
       (''('' @ field @ '' = '' @ v @ '' OR '' @ field @ '' IS NULL OR '' @ field @ '' NOT EXISTS)'') self))"

definition filter_in_strings ::
    "(string list \<Rightarrow> string + string) \<Rightarrow> string \<Rightarrow> string list \<Rightarrow> tenant_filter \<Rightarrow> api_error + tenant_filter" where
  "filter_in_strings enc_list field values self =
     rbind (map_err Internal (enc_list values)) (\<lambda>v. Inr (push_clause (field @ '' IN '' @ v) self))"

definition any_in_clause ::
    "(string list \<Rightarrow> string + string) \<Rightarrow> string \<times> string list \<Rightarrow> api_error + string" where
  "any_in_clause enc_list c =
     rbind (ensure (snd c \<noteq> [])
       (Internal (''tenant filter '' @ fst c @ '' string-set must not be empty''))) (\<lambda>_.
     rbind (checks (map (require_scope_value (fst c)) (snd c))) (\<lambda>_.
     rbind (map_err Internal (enc_list (snd c))) (\<lambda>v. Inr (fst c @ '' IN '' @ v))))"

definition filter_any_in_strings ::
    "(string list \<Rightarrow> string + string) \<Rightarrow> (string \<times> string list) list \<Rightarrow> tenant_filter \<Rightarrow> api_error + tenant_filter" where
  "filter_any_in_strings enc_list conditions self =
     rbind (ensure (conditions \<noteq> [])
       (Internal ''tenant filter OR string-set clause must not be empty'')) (\<lambda>_.
     rbind (rmap (any_in_clause enc_list) conditions) (\<lambda>clauses.
     Inr (push_clause (''('' @ join '' OR '' clauses @ '')'') self)))"

definition filter_any_not_eq ::
    "(string \<Rightarrow> string + string) \<Rightarrow> (string \<times> string) list \<Rightarrow> tenant_filter \<Rightarrow> api_error + tenant_filter" where
  "filter_any_not_eq enc conditions self =
     rbind (ensure (conditions \<noteq> []) (Internal ''tenant filter OR clause must not be empty'')) (\<lambda>_.
     rbind (rmap (\<lambda>c. rbind (meili_string enc (snd c)) (\<lambda>v. Inr (fst c @ '' != '' @ v))) conditions) (\<lambda>clauses.
     Inr (push_clause (''('' @ join '' OR '' clauses @ '')'') self)))"

definition filter_logical_id ::
    "(string \<Rightarrow> string + string) \<Rightarrow> string \<Rightarrow> tenant_filter \<Rightarrow> api_error + tenant_filter" where
  "filter_logical_id enc logical_id self =
     rbind (meili_string enc logical_id) (\<lambda>v.
     Inr (push_clause
       (''(logical_id = '' @ v @ '' OR ((logical_id NOT EXISTS OR logical_id IS NULL) AND id = '' @ v @ ''))'') self))"

definition filter_logical_ids ::
    "(string list \<Rightarrow> string + string) \<Rightarrow> string list \<Rightarrow> tenant_filter \<Rightarrow> api_error + tenant_filter" where
  "filter_logical_ids enc_list logical_ids self =
     rbind (ensure (logical_ids \<noteq> []) (Internal ''tenant filter logical-id set must not be empty'')) (\<lambda>_.
     rbind (checks (map (require_scope_value ''logical_id'') logical_ids)) (\<lambda>_.
     rbind (map_err Internal (enc_list logical_ids)) (\<lambda>v.
     Inr (push_clause
       (''(logical_id IN '' @ v @ '' OR ((logical_id NOT EXISTS OR logical_id IS NULL) AND id IN '' @ v @ ''))'') self))))"

definition filter_finish :: "tenant_filter \<Rightarrow> string" where
  "filter_finish self = join '' AND '' (tf_clauses self)"

section \<open>Sequences of builder calls\<close>

datatype filter_op =
    OpEq string string
  | OpEqU64 string u64
  | OpLtI64 string "64 word"
  | OpNotExists string
  | OpIsNull string
  | OpEqOrNull string string
  | OpInStrings string "string list"
  | OpAnyInStrings "(string \<times> string list) list"
  | OpAnyNotEq "(string \<times> string) list"
  | OpLogicalId string
  | OpLogicalIds "string list"

fun apply_op ::
    "(string \<Rightarrow> string + string) \<Rightarrow> (string list \<Rightarrow> string + string) \<Rightarrow> tenant_filter \<Rightarrow> filter_op
      \<Rightarrow> api_error + tenant_filter" where
  "apply_op enc enc_list self (OpEq f v) = filter_eq enc f v self"
| "apply_op enc enc_list self (OpEqU64 f n) = Inr (filter_eq_u64 f n self)"
| "apply_op enc enc_list self (OpLtI64 f i) = Inr (filter_lt_i64 f i self)"
| "apply_op enc enc_list self (OpNotExists f) = Inr (filter_not_exists f self)"
| "apply_op enc enc_list self (OpIsNull f) = Inr (filter_is_null f self)"
| "apply_op enc enc_list self (OpEqOrNull f v) = filter_eq_or_null enc f v self"
| "apply_op enc enc_list self (OpInStrings f vs) = filter_in_strings enc_list f vs self"
| "apply_op enc enc_list self (OpAnyInStrings cs) = filter_any_in_strings enc_list cs self"
| "apply_op enc enc_list self (OpAnyNotEq cs) = filter_any_not_eq enc cs self"
| "apply_op enc enc_list self (OpLogicalId v) = filter_logical_id enc v self"
| "apply_op enc enc_list self (OpLogicalIds vs) = filter_logical_ids enc_list vs self"

definition build_filter ::
    "(string \<Rightarrow> string + string) \<Rightarrow> (string list \<Rightarrow> string + string) \<Rightarrow> string \<Rightarrow> filter_op list
      \<Rightarrow> api_error + tenant_filter" where
  "build_filter enc enc_list tenant_id ops =
     rbind (filter_new enc tenant_id) (\<lambda>self. rfold (apply_op enc enc_list) self ops)"

text \<open>The field names of a call, \<open>&'static str\<close> in the code.\<close>

fun op_fields :: "filter_op \<Rightarrow> string list" where
  "op_fields (OpEq f _) = [f]"
| "op_fields (OpEqU64 f _) = [f]"
| "op_fields (OpLtI64 f _) = [f]"
| "op_fields (OpNotExists f) = [f]"
| "op_fields (OpIsNull f) = [f]"
| "op_fields (OpEqOrNull f _) = [f]"
| "op_fields (OpInStrings f _) = [f]"
| "op_fields (OpAnyInStrings cs) = map fst cs"
| "op_fields (OpAnyNotEq cs) = map fst cs"
| "op_fields (OpLogicalId _) = []"
| "op_fields (OpLogicalIds _) = []"

definition field_char :: "char \<Rightarrow> bool" where
  "field_char c = (c = CHR ''_'' \<or> is_digit c \<or> (97 \<le> (of_char c :: nat) \<and> (of_char c :: nat) \<le> 122))"

definition field_name :: "string \<Rightarrow> bool" where
  "field_name f = list_all field_char f"

section \<open>The outline of a filter\<close>

text \<open>
  A reader of the filter text: outside literals at a depth of parentheses, inside a quoted literal,
  after a backslash in one, or past an unmatched parenthesis. The outline is what stands outside of
  literals and parentheses.
\<close>

datatype lex = Code nat | Quoted nat | Escaped nat | Unbalanced

fun lex_step :: "lex \<Rightarrow> char \<Rightarrow> lex \<times> string" where
  "lex_step (Code d) c =
     (if c = CHR 0x22 then (Quoted d, [])
      else if c = CHR ''('' then (Code (Suc d), [])
      else if c = CHR '')'' then (case d of 0 \<Rightarrow> (Unbalanced, []) | Suc d' \<Rightarrow> (Code d', []))
      else (Code d, if d = 0 then [c] else []))"
| "lex_step (Quoted d) c =
     (if c = CHR 0x22 then (Code d, []) else if c = CHR 0x5C then (Escaped d, []) else (Quoted d, []))"
| "lex_step (Escaped d) c = (Quoted d, [])"
| "lex_step Unbalanced c = (Unbalanced, [])"

fun lex_run :: "lex \<Rightarrow> string \<Rightarrow> lex \<times> string" where
  "lex_run s [] = (s, [])"
| "lex_run s (c # cs) =
     (let (s', a) = lex_step s c; (s'', b) = lex_run s' cs in (s'', a @ b))"

definition filter_outline :: "string \<Rightarrow> string" where
  "filter_outline s = snd (lex_run (Code 0) s)"

definition filter_balanced :: "string \<Rightarrow> bool" where
  "filter_balanced s = (fst (lex_run (Code 0) s) = Code 0)"

definition outline_words :: "string \<Rightarrow> string list" where
  "outline_words s = split_on (CHR '' '') (filter_outline s)"

text \<open>A JSON literal: its quotes close, and nothing but array punctuation shows outside them.\<close>

definition enclosed :: "string \<Rightarrow> bool" where
  "enclosed s = (\<forall>d. lex_run (Code (Suc d)) s = (Code (Suc d), []))"

definition json_literal :: "string \<Rightarrow> bool" where
  "json_literal s = (enclosed s \<and> filter_balanced s \<and> set (filter_outline s) \<subseteq> set ''[],'')"

section \<open>Lemmas on the scanner\<close>

lemma lex_run_append:
  "lex_run s (a @ b) = (let (s', x) = lex_run s a; (s'', y) = lex_run s' b in (s'', x @ y))"
  by (induction a arbitrary: s) (auto split: prod.splits)

definition plain :: "string \<Rightarrow> bool" where
  "plain s = list_all (\<lambda>c. c \<noteq> CHR 0x22 \<and> c \<noteq> CHR ''('' \<and> c \<noteq> CHR '')'') s"

lemma lex_run_plain: "plain s \<Longrightarrow> lex_run (Code d) s = (Code d, if d = 0 then s else [])"
  by (induction s) (auto simp: plain_def)

lemma enclosed_plain: "plain s \<Longrightarrow> enclosed s"
  by (simp add: enclosed_def lex_run_plain)

lemma enclosed_append: "enclosed a \<Longrightarrow> enclosed b \<Longrightarrow> enclosed (a @ b)"
  by (simp add: enclosed_def lex_run_append)

lemma enclosed_text:
  "enclosed []" "c \<noteq> CHR 0x22 \<Longrightarrow> c \<noteq> CHR ''('' \<Longrightarrow> c \<noteq> CHR '')'' \<Longrightarrow> enclosed (c # s) \<longleftrightarrow> enclosed s"
  by (simp_all add: enclosed_def)

lemma enclosed_paren: "enclosed s \<Longrightarrow> enclosed (''('' @ s @ '')'')"
  by (simp add: enclosed_def lex_run_append)

lemma enclosed_join: "enclosed sep \<Longrightarrow> \<forall>x\<in>set xs. enclosed x \<Longrightarrow> enclosed (join sep xs)"
  by (induction sep xs rule: join.induct) (simp_all add: enclosed_append, simp add: enclosed_def)

lemma paren_outline: "enclosed s \<Longrightarrow> lex_run (Code 0) (''('' @ s @ '')'') = (Code 0, [])"
  by (simp add: enclosed_def lex_run_append)

lemma balanced_append: "filter_balanced a \<Longrightarrow> filter_balanced b \<Longrightarrow> filter_balanced (a @ b)"
  by (auto simp: filter_balanced_def lex_run_append split: prod.splits)

lemma outline_append: "filter_balanced a \<Longrightarrow> filter_outline (a @ b) = filter_outline a @ filter_outline b"
  by (auto simp: filter_balanced_def filter_outline_def lex_run_append split: prod.splits)

lemma plain_balanced: "plain s \<Longrightarrow> filter_balanced s" and plain_outline: "plain s \<Longrightarrow> filter_outline s = s"
  by (simp_all add: filter_balanced_def filter_outline_def lex_run_plain)

lemma field_char_not [simp]:
  "\<not> field_char (CHR 0x22)" "\<not> field_char (CHR ''('')" "\<not> field_char (CHR '')'')" "\<not> field_char (CHR '' '')"
  "\<not> field_char (CHR ''O'')" "\<not> field_char (CHR ''A'')"
  by code_simp+

lemma field_plain: "field_name f \<Longrightarrow> plain f"
  unfolding field_name_def plain_def list_all_iff by (metis field_char_not(1-3))

lemma field_no_space: "field_name f \<Longrightarrow> CHR '' '' \<notin> set f"
  unfolding field_name_def list_all_iff by (metis field_char_not(4))

lemma field_not_word: "field_name f \<Longrightarrow> f \<noteq> ''OR'' \<and> f \<noteq> ''AND''"
  unfolding field_name_def by (auto simp only: list.pred_inject(2) field_char_not)

lemma split_on_append: "split_on c (a @ c # b) = split_on c a @ split_on c b"
  by (induction a) (auto split: list.splits)

lemma split_on_none: "c \<notin> set s \<Longrightarrow> split_on c s = [s]"
  by (induction s) auto

section \<open>Clauses\<close>

text \<open>
  A calm clause leaves the scanner where it found it, and no word of its outline is a connective.
\<close>

definition calm :: "string \<Rightarrow> bool" where
  "calm s = (filter_balanced s \<and> set (outline_words s) \<inter> {''OR'', ''AND''} = {})"

lemma calm_paren:
  assumes "enclosed s"
  shows "calm (''('' @ s @ '')'')"
  using paren_outline [OF assms] by (simp add: calm_def filter_balanced_def outline_words_def filter_outline_def)

text \<open>Field, operator, value: the shape of the clauses without parentheses.\<close>

definition value_text :: "string \<Rightarrow> bool" where
  "value_text v = (filter_balanced v \<and> CHR '' '' \<notin> set (filter_outline v)
     \<and> filter_outline v \<noteq> ''OR'' \<and> filter_outline v \<noteq> ''AND'')"

lemma value_literal: "json_literal v \<Longrightarrow> value_text v"
  by (auto simp: json_literal_def value_text_def)

lemma value_digits:
  assumes "list_all (\<lambda>c. is_digit c \<or> c = CHR ''-'') v"
  shows "value_text v"
proof -
  have no: "\<not> (is_digit c \<or> c = CHR ''-'')" if "c \<in> set [CHR 0x22, CHR ''('', CHR '')'', CHR '' '', CHR ''O'', CHR ''A'']" for c
    using that by (auto simp: is_digit_def)
  from assms have "plain v"
    unfolding plain_def list_all_iff using no by (metis list.set_intros)
  moreover have "CHR '' '' \<notin> set v" using assms no [of "CHR '' ''"] by (auto simp: list_all_iff)
  moreover have "v \<noteq> ''OR''" "v \<noteq> ''AND''" using assms no [of "CHR ''O''"] no [of "CHR ''A''"] by auto
  ultimately show ?thesis by (simp add: value_text_def plain_balanced plain_outline)
qed

lemma value_nat: "value_text (show_nat n)"
  by (rule value_digits) (auto simp: list_all_iff dest: show_nat_digits)

lemma value_int: "value_text (show_int i)"
  by (rule value_digits) (auto simp: list_all_iff show_int_def dest: show_nat_digits)

lemma calm_clause:
  assumes f: "field_name f" and v: "value_text v"
    and m: "plain m" "CHR '' '' \<notin> set m" "m \<noteq> ''OR''" "m \<noteq> ''AND''"
  shows "calm (f @ '' '' @ m @ '' '' @ v)"
proof -
  have "plain '' ''" by (simp add: plain_def)
  note p = this field_plain [OF f] m(1)
  have "filter_outline (f @ '' '' @ m @ '' '' @ v) = f @ CHR '' '' # m @ CHR '' '' # filter_outline v"
    by (simp only: p outline_append plain_balanced plain_outline) simp
  then have "outline_words (f @ '' '' @ m @ '' '' @ v) = [f, m, filter_outline v]"
    using v m(2) field_no_space [OF f] by (simp add: outline_words_def split_on_append split_on_none value_text_def)
  moreover have "filter_balanced (f @ '' '' @ m @ '' '' @ v)"
    using p v by (simp only: balanced_append plain_balanced value_text_def)
  ultimately show ?thesis using v m(3,4) field_not_word [OF f] by (simp add: calm_def value_text_def)
qed

lemma calm_eq: "field_name f \<Longrightarrow> value_text v \<Longrightarrow> calm (f @ '' = '' @ v)"
  using calm_clause [of f v "''=''"] by (simp add: plain_def)

lemma calm_lt: "field_name f \<Longrightarrow> value_text v \<Longrightarrow> calm (f @ '' < '' @ v)"
  using calm_clause [of f v "''<''"] by (simp add: plain_def)

lemma calm_in: "field_name f \<Longrightarrow> value_text v \<Longrightarrow> calm (f @ '' IN '' @ v)"
  using calm_clause [of f v "''IN''"] by (simp add: plain_def)

lemma calm_not_exists: "field_name f \<Longrightarrow> calm (f @ '' NOT EXISTS'')"
  using calm_clause [of f "''EXISTS''" "''NOT''"]
  by (simp add: plain_def value_text_def plain_balanced plain_outline)

lemma enclosed_field: "field_name f \<Longrightarrow> enclosed f"
  by (simp add: field_plain enclosed_plain)

lemma enclosed_literal: "json_literal v \<Longrightarrow> enclosed v"
  by (simp add: json_literal_def)

section \<open>Every method adds one calm clause\<close>

text \<open>What the builder relies on: \<open>serde_json\<close> prints a string or a list of strings as a JSON literal.\<close>

definition json_encoders :: "(string \<Rightarrow> string + string) \<Rightarrow> (string list \<Rightarrow> string + string) \<Rightarrow> bool" where
  "json_encoders enc enc_list =
     ((\<forall>v e. enc v = Inr e \<longrightarrow> json_literal e) \<and> (\<forall>vs e. enc_list vs = Inr e \<longrightarrow> json_literal e))"

lemma new_clause:
  assumes "json_encoders enc enc_list" and "filter_new enc t = Inr self"
  shows "\<exists>v. json_literal v \<and> enc t = Inr v \<and> \<not> blank t \<and> tf_clauses self = [''tenant_id = '' @ v]"
  using assms by (auto simp: json_encoders_def filter_new_def meili_string_def rbind_Inr map_err_Inr)

lemma rmap_all:
  assumes "rmap f xs = Inr ys" and "\<And>x y. x \<in> set xs \<Longrightarrow> f x = Inr y \<Longrightarrow> P y"
  shows "\<forall>y\<in>set ys. P y"
  using assms
proof (induction xs arbitrary: ys)
  case (Cons x xs)
  then obtain y ys' where y: "f x = Inr y" "rmap f xs = Inr ys'" "ys = y # ys'" by (auto simp: rbind_Inr)
  then have "\<forall>y\<in>set ys'. P y" using Cons by (meson list.set_intros(2))
  moreover have "P y" using Cons.prems(2) y(1) by (meson list.set_intros(1))
  ultimately show ?case using y(3) by simp
qed simp

lemma rbindE: "rbind r f = Inr b \<Longrightarrow> (\<And>a. r = Inr a \<Longrightarrow> f a = Inr b \<Longrightarrow> P) \<Longrightarrow> P"
  by (cases r) simp_all

lemma any_in_enclosed:
  assumes "json_encoders enc enc_list" and "any_in_clause enc_list c = Inr x" and "field_name (fst c)"
  shows "enclosed x"
proof -
  from assms(2) obtain v where v: "map_err Internal (enc_list (snd c)) = Inr v"
    and x: "Inr (fst c @ '' IN '' @ v) = (Inr x :: api_error + string)"
    unfolding any_in_clause_def by (elim rbindE) (rule that)
  from v assms(1) have "json_literal v" by (simp add: json_encoders_def map_err_Inr)
  with assms(3) have "enclosed (fst c @ '' IN '' @ v)"
    by (simp add: enclosed_append enclosed_text enclosed_field enclosed_literal)
  with x show ?thesis by (simp only: sum.inject)
qed

abbreviation ok_filter :: "tenant_filter \<Rightarrow> api_error + tenant_filter" where
  "ok_filter \<equiv> Inr"

lemma pushed:
  "ok_filter (push_clause c self) = Inr self' \<Longrightarrow> calm c \<Longrightarrow> \<exists>c. calm c \<and> tf_clauses self' = tf_clauses self @ [c]"
  by (auto simp: push_clause_def)

lemma op_clause:
  assumes js: "json_encoders enc enc_list" and "apply_op enc enc_list self op = Inr self'" and "list_all field_name (op_fields op)"
  shows "\<exists>c. calm c \<and> tf_clauses self' = tf_clauses self @ [c]"
proof -
  have literal: "json_literal e" if "meili_string enc v = Inr e" for v e
    using that js by (simp add: json_encoders_def meili_string_def map_err_Inr)
  have list_literal: "json_literal e" if "map_err Internal (enc_list vs) = Inr e" for vs and e
    using that js by (simp add: json_encoders_def map_err_Inr)
  note run = assms(2) and fields = assms(3)
  show ?thesis
  proof (cases op)
  case (OpEq f v)
  from run obtain e where e: "meili_string enc v = Inr e" and s: "ok_filter (push_clause (f @ '' = '' @ e) self) = Inr self'"
    unfolding OpEq apply_op.simps filter_eq_def by (rule rbindE) (rule that)
  show ?thesis
    using fields OpEq by (intro pushed [OF s] calm_eq value_literal literal [OF e]) simp
next
  case (OpEqU64 f n)
  from run fields show ?thesis
    unfolding OpEqU64 apply_op.simps filter_eq_u64_def by (intro pushed [where c = "f @ '' = '' @ show_nat (unat n)"] calm_eq value_nat) simp_all
next
  case (OpLtI64 f i)
  from run fields show ?thesis
    unfolding OpLtI64 apply_op.simps filter_lt_i64_def by (intro pushed [where c = "f @ '' < '' @ show_int (sint i)"] calm_lt value_int) simp_all
next
  case (OpNotExists f)
  from run fields show ?thesis
    unfolding OpNotExists apply_op.simps filter_not_exists_def by (intro pushed [where c = "f @ '' NOT EXISTS''"] calm_not_exists) simp_all
next
  case (OpInStrings f vs)
  from run obtain e where e: "map_err Internal (enc_list vs) = Inr e" and s: "ok_filter (push_clause (f @ '' IN '' @ e) self) = Inr self'"
    unfolding OpInStrings apply_op.simps filter_in_strings_def by (rule rbindE) (rule that)
  show ?thesis
    using fields OpInStrings by (intro pushed [OF s] calm_in value_literal list_literal [OF e]) simp
next
  case (OpIsNull f)
  from run have s: "ok_filter (push_clause (''('' @ f @ '' IS NULL OR '' @ f @ '' NOT EXISTS)'') self) = Inr self'"
    unfolding OpIsNull apply_op.simps filter_is_null_def .
  have "enclosed (f @ '' IS NULL OR '' @ f @ '' NOT EXISTS'')"
    using fields OpIsNull by (simp add: enclosed_append enclosed_text enclosed_field)
  from calm_paren [OF this] show ?thesis by (intro pushed [OF s]) simp
next
  case (OpEqOrNull f v)
  from run obtain e where e: "meili_string enc v = Inr e"
    and s: "ok_filter (push_clause (''('' @ f @ '' = '' @ e @ '' OR '' @ f @ '' IS NULL OR '' @ f @ '' NOT EXISTS)'') self) = Inr self'"
    unfolding OpEqOrNull apply_op.simps filter_eq_or_null_def by (rule rbindE) (rule that)
  have "enclosed (f @ '' = '' @ e @ '' OR '' @ f @ '' IS NULL OR '' @ f @ '' NOT EXISTS'')"
    using fields OpEqOrNull literal [OF e]
    by (simp add: enclosed_append enclosed_text enclosed_field enclosed_literal)
  from calm_paren [OF this] show ?thesis by (intro pushed [OF s]) simp
next
  case (OpAnyInStrings cs)
  from run obtain xs where xs: "rmap (any_in_clause enc_list) cs = Inr xs"
    and s: "ok_filter (push_clause (''('' @ join '' OR '' xs @ '')'') self) = Inr self'"
    unfolding OpAnyInStrings apply_op.simps filter_any_in_strings_def by (elim rbindE) (rule that)
  have "\<forall>x\<in>set xs. enclosed x"
    using xs
  proof (rule rmap_all)
    fix c x assume "c \<in> set cs" "any_in_clause enc_list c = Inr x"
    then show "enclosed x" using any_in_enclosed [OF js, of c x] fields OpAnyInStrings by (simp add: list_all_iff)
  qed
  then show ?thesis
    by (intro pushed [OF s] calm_paren enclosed_join) (simp_all add: enclosed_text)
next
  case (OpAnyNotEq cs)
  from run obtain xs where xs: "rmap (\<lambda>c. rbind (meili_string enc (snd c)) (\<lambda>v. Inr (fst c @ '' != '' @ v))) cs = Inr xs"
    and s: "ok_filter (push_clause (''('' @ join '' OR '' xs @ '')'') self) = Inr self'"
    unfolding OpAnyNotEq apply_op.simps filter_any_not_eq_def by (elim rbindE) (rule that)
  have "\<forall>x\<in>set xs. enclosed x"
    using xs
  proof (rule rmap_all)
    fix c x
    assume c: "c \<in> set cs" and r: "rbind (meili_string enc (snd c)) (\<lambda>v. Inr (fst c @ '' != '' @ v)) = Inr x"
    from r obtain e where e: "meili_string enc (snd c) = Inr e" and x: "Inr (fst c @ '' != '' @ e) = (Inr x :: api_error + string)"
      by (rule rbindE) (rule that)
    have "enclosed (fst c @ '' != '' @ e)"
      using fields OpAnyNotEq c literal [OF e]
      by (simp add: enclosed_append enclosed_text enclosed_field enclosed_literal list_all_iff)
    with x show "enclosed x" by (simp only: sum.inject)
  qed
  then show ?thesis
    by (intro pushed [OF s] calm_paren enclosed_join) (simp_all add: enclosed_text)
next
  case (OpLogicalId v)
  from run obtain e where e: "meili_string enc v = Inr e"
    and s: "ok_filter (push_clause (''(logical_id = '' @ e @ '' OR ((logical_id NOT EXISTS OR logical_id IS NULL) AND id = '' @ e @ ''))'') self) = Inr self'"
    unfolding OpLogicalId apply_op.simps filter_logical_id_def by (rule rbindE) (rule that)
  note ee = enclosed_literal [OF literal [OF e]]
  have "enclosed (''logical_id = '' @ e @ '' OR '' @ (''('' @ ((''('' @ ''logical_id NOT EXISTS OR logical_id IS NULL'' @ '')'') @ '' AND id = '' @ e) @ '')''))"
    by (rule enclosed_append [OF _ enclosed_append [OF ee enclosed_append [OF _ enclosed_paren
            [OF enclosed_append [OF enclosed_paren enclosed_append [OF _ ee]]]]]])
      (simp_all add: enclosed_text)
  from calm_paren [OF this] show ?thesis by (intro pushed [OF s]) simp
next
  case (OpLogicalIds vs)
  from run obtain e where e: "map_err Internal (enc_list vs) = Inr e"
    and s: "ok_filter (push_clause (''(logical_id IN '' @ e @ '' OR ((logical_id NOT EXISTS OR logical_id IS NULL) AND id IN '' @ e @ ''))'') self) = Inr self'"
    unfolding OpLogicalIds apply_op.simps filter_logical_ids_def by (elim rbindE) (rule that)
  note ee = enclosed_literal [OF list_literal [OF e]]
  have "enclosed (''logical_id IN '' @ e @ '' OR '' @ (''('' @ ((''('' @ ''logical_id NOT EXISTS OR logical_id IS NULL'' @ '')'') @ '' AND id IN '' @ e) @ '')''))"
    by (rule enclosed_append [OF _ enclosed_append [OF ee enclosed_append [OF _ enclosed_paren
            [OF enclosed_append [OF enclosed_paren enclosed_append [OF _ ee]]]]]])
      (simp_all add: enclosed_text)
  from calm_paren [OF this] show ?thesis by (intro pushed [OF s]) simp
  qed
qed

section \<open>Properties\<close>

lemma words_and:
  assumes "filter_balanced a"
  shows "outline_words (a @ '' AND '' @ b) = outline_words a @ ''AND'' # outline_words b"
proof -
  have "plain '' AND ''" by (simp add: plain_def)
  then have "filter_outline (a @ '' AND '' @ b) = filter_outline a @ '' AND '' @ filter_outline b"
    by (simp only: outline_append assms plain_balanced plain_outline)
  moreover have "split_on (CHR '' '') (''AND '' @ y) = ''AND'' # split_on (CHR '' '') y" for y
    using split_on_append [of "CHR '' ''" "''AND''" y] by simp
  ultimately show ?thesis
    using split_on_append [of "CHR '' ''" "filter_outline a" "''AND '' @ filter_outline b"]
    by (simp add: outline_words_def)
qed

lemma calm_join:
  assumes "xs \<noteq> []" and "\<forall>x\<in>set xs. calm x"
  shows "filter_balanced (join '' AND '' xs) \<and> ''OR'' \<notin> set (outline_words (join '' AND '' xs))
    \<and> Suc (count_list (outline_words (join '' AND '' xs)) ''AND'') = length xs"
  using assms
proof (induction "'' AND ''" xs rule: join.induct)
  case (2 x)
  then show ?case by (simp add: calm_def)
next
  case (3 x y zs)
  let ?b = "join '' AND '' (y # zs)"
  have ih: "filter_balanced ?b" "''OR'' \<notin> set (outline_words ?b)"
      "Suc (count_list (outline_words ?b) ''AND'') = length (y # zs)"
    using 3 by simp_all
  have x: "filter_balanced x" "''OR'' \<notin> set (outline_words x)" "''AND'' \<notin> set (outline_words x)"
    using 3 by (simp_all add: calm_def)
  have "plain '' AND ''" by (simp add: plain_def)
  then have "filter_balanced (x @ '' AND '' @ ?b)"
    by (simp only: balanced_append plain_balanced x(1) ih(1))
  moreover have "join '' AND '' (x # y # zs) = x @ '' AND '' @ ?b" by (simp only: join.simps)
  moreover have "count_list (outline_words x) ''AND'' = 0" using x(3) by (simp add: count_list_0_iff)
  ultimately show ?case
    using ih x by (simp only: words_and count_list_append set_append) simp
qed simp

lemma op_clauses:
  assumes "json_encoders enc enc_list" and "rfold (apply_op enc enc_list) self ops = Inr f"
    and "\<forall>op\<in>set ops. list_all field_name (op_fields op)"
  shows "\<exists>cs. tf_clauses f = tf_clauses self @ cs \<and> length cs = length ops \<and> (\<forall>c\<in>set cs. calm c)"
  using assms(2,3)
proof (induction ops arbitrary: self)
  case (Cons op ops)
  then obtain self' where 1: "apply_op enc enc_list self op = Inr self'"
    and 2: "rfold (apply_op enc enc_list) self' ops = Inr f"
    by (auto simp: rfold_Cons_Inr simp del: rfold.simps)
  obtain c where "calm c" "tf_clauses self' = tf_clauses self @ [c]"
    using op_clause [OF assms(1) 1] Cons.prems(2) by auto
  moreover obtain cs where "tf_clauses f = tf_clauses self' @ cs" "length cs = length ops" "\<forall>c\<in>set cs. calm c"
    using Cons.IH [OF 2] Cons.prems(2) by auto
  ultimately show ?case by (intro exI [of _ "c # cs"]) simp
qed simp

lemma join_Cons: "join sep (x # xs) = x @ (if xs = [] then [] else sep @ join sep xs)"
  by (cases xs) simp_all

text \<open>
  C7: whatever values a request brings, a finished filter is the tenant's clause and one conjunct
  for each builder call: outside of literals and parentheses it has no OR and exactly one AND per
  call, its quotes and parentheses are balanced, and it starts with the clause of the tenant.
\<close>

theorem tenant_clause_mandatory:
  assumes "json_encoders enc enc_list" and "\<forall>op\<in>set ops. list_all field_name (op_fields op)"
    and "build_filter enc enc_list tenant_id ops = Inr f"
  shows "filter_balanced (filter_finish f)
    \<and> ''OR'' \<notin> set (outline_words (filter_finish f))
    \<and> count_list (outline_words (filter_finish f)) ''AND'' = length ops
    \<and> (\<exists>v. enc tenant_id = Inr v
         \<and> (if ops = [] then filter_finish f = ''tenant_id = '' @ v
            else starts_with (filter_finish f) (''tenant_id = '' @ v @ '' AND '')))"
proof -
  from assms(3) obtain self where new: "filter_new enc tenant_id = Inr self"
    and run: "rfold (apply_op enc enc_list) self ops = Inr f"
    unfolding build_filter_def by (rule rbindE) (rule that)
  obtain v where v: "json_literal v" "enc tenant_id = Inr v" and self: "tf_clauses self = [''tenant_id = '' @ v]"
    using new_clause [OF assms(1) new] by auto
  obtain cs where cs: "tf_clauses f = (''tenant_id = '' @ v) # cs" "length cs = length ops" "\<forall>c\<in>set cs. calm c"
    using op_clauses [OF assms(1) run assms(2)] self by auto
  have "field_name ''tenant_id''" by code_simp
  then have "calm (''tenant_id'' @ '' = '' @ v)" using v(1) by (intro calm_eq value_literal)
  then have all: "\<forall>c\<in>set (tf_clauses f). calm c" using cs by simp
  have fin: "filter_finish f = ''tenant_id = '' @ v @ (if ops = [] then [] else '' AND '' @ join '' AND '' cs)"
  proof -
    have "cs = [] \<longleftrightarrow> ops = []" using cs(2) by auto
    then show ?thesis by (simp only: filter_finish_def cs(1) join_Cons append_assoc)
  qed
  have "if ops = [] then filter_finish f = ''tenant_id = '' @ v
        else starts_with (filter_finish f) (''tenant_id = '' @ v @ '' AND '')"
    by (simp add: fin starts_with_def is_prefix_iff)
  moreover have "filter_balanced (filter_finish f)" "''OR'' \<notin> set (outline_words (filter_finish f))"
    "count_list (outline_words (filter_finish f)) ''AND'' = length ops"
    using calm_join [of "tf_clauses f"] all cs(1,2) by (simp_all add: filter_finish_def)
  ultimately show ?thesis using v(2) by blast
qed

text \<open>An encoder that escapes quotes and backslashes, for a concrete filter.\<close>

definition sample_enc :: "string \<Rightarrow> string + string" where
  "sample_enc v =
     Inr ([CHR 0x22] @ concat (map (\<lambda>c. if c = CHR 0x22 \<or> c = CHR 0x5C then [CHR 0x5C, c] else [c]) v) @ [CHR 0x22])"

definition sample_enc_list :: "string list \<Rightarrow> string + string" where
  "sample_enc_list vs = Inr (''['' @ join '','' (map (\<lambda>v. projr (sample_enc v)) vs) @ '']'')"

lemma sample_quoted:
  "lex_run (Quoted d) (concat (map (\<lambda>c. if c = CHR 0x22 \<or> c = CHR 0x5C then [CHR 0x5C, c] else [c]) v) @ w)
     = lex_run (Quoted d) w"
  by (induction v) auto

lemma sample_literal: "json_literal (projr (sample_enc v))"
  by (simp add: sample_enc_def json_literal_def enclosed_def filter_balanced_def filter_outline_def sample_quoted)

lemma json_literal_append: "json_literal a \<Longrightarrow> json_literal b \<Longrightarrow> json_literal (a @ b)"
  by (auto simp: json_literal_def enclosed_append balanced_append outline_append)

lemma json_literal_mark:
  "c \<in> set ''[],'' \<Longrightarrow> json_literal [c]"
  by (auto simp: json_literal_def enclosed_def filter_balanced_def filter_outline_def)

lemma json_literal_join: "\<forall>x\<in>set xs. json_literal x \<Longrightarrow> json_literal (join '','' xs)"
proof (induction xs)
  case Nil
  show ?case by (simp add: json_literal_def enclosed_def filter_balanced_def filter_outline_def)
next
  case (Cons x xs)
  then have "json_literal ('','' @ join '','' xs)" by (intro json_literal_append json_literal_mark) simp_all
  with Cons show ?case by (auto simp: join_Cons intro: json_literal_append)
qed

lemma sample_json: "json_encoders sample_enc sample_enc_list"
proof -
  have "json_literal (join '','' (map (\<lambda>v. projr (sample_enc v)) vs))" for vs
    by (rule json_literal_join) (auto simp: sample_literal)
  then have "json_literal (''['' @ join '','' (map (\<lambda>v. projr (sample_enc v)) vs) @ '']'')" for vs
    by (intro json_literal_append json_literal_mark) simp_all
  moreover have "json_literal e" if "sample_enc v = Inr e" for v e
    using sample_literal [of v] that by simp
  ultimately show ?thesis by (simp add: json_encoders_def sample_enc_list_def)
qed

theorem tenant_clause_mandatory_witness:
  "\<exists>f. build_filter sample_enc sample_enc_list ''a'' [OpEq ''id'' [CHR 0x22], OpIsNull ''kind''] = Inr f
     \<and> count_list (outline_words (filter_finish f)) ''AND'' = 2"
proof -
  let ?ops = "[OpEq ''id'' [CHR 0x22], OpIsNull ''kind'']"
  have "\<not> isl (build_filter sample_enc sample_enc_list ''a'' ?ops)" by code_simp
  then obtain f where f: "build_filter sample_enc sample_enc_list ''a'' ?ops = Inr f"
    unfolding isl_def by (metis sum.exhaust)
  have "\<forall>op\<in>set ?ops. list_all field_name (op_fields op)" by code_simp
  from tenant_clause_mandatory [OF sample_json this f] f show ?thesis by simp
qed

end
