(* ===== verification/Store_Data.thy ===== *)
theory Store_Data
  imports Operation_Types Util "HOL-Library.Option_ord"
begin

text \<open>
  The in-memory data of the store (\<open>store.rs\<close>: \<open>StoreData\<close>, its keys and the helpers that update
  it) and the projection of one accepted operation resource into it (\<open>publish_resource_cache\<close>).
  Every \<open>HashMap\<close> is an ordered map: the code sorts what it collects from an iteration. The fields
  that no operation resource touches (\<open>hydration_report\<close>, \<open>audit_records\<close>,
  \<open>personal_context_loaded\<close>, \<open>preflight_decisions\<close>) are left out.
\<close>

section \<open>State\<close>

text \<open>\<open>SourceDocumentKey\<close> and \<open>ParseArtifactKey\<close>: tenant, owner, and uri or artifact id.\<close>

type_synonym source_document_key = "string \<times> string option \<times> string"
type_synonym parse_artifact_key = "string \<times> string option \<times> string"

definition source_document_key :: "source_document \<Rightarrow> source_document_key" where
  "source_document_key d = (sd_tenant_id d, sd_owner_user_id d, sd_uri d)"

definition parse_artifact_key :: "parse_artifact \<Rightarrow> parse_artifact_key" where
  "parse_artifact_key a = (pa_tenant_id a, pa_owner_user_id a, pa_id a)"

record store_data =
  st_operations :: "(string, operation_record) btree_map"
  st_user_indexes :: "(string \<times> string, user_event_index) btree_map"
  st_events_by_index :: "(string, history_event list) btree_map"
  st_event_by_id :: "(string, history_event) btree_map"
  st_event_idempotency :: "(string \<times> string, string) btree_map"
  st_personal_context :: "(string, context_node list) btree_map"
  st_company_context :: "context_node list"
  st_state_items :: "(string \<times> string \<times> string, state_item) btree_map"
  st_insights :: "(string, insight_record) btree_map"
  st_insight_idempotency :: "(string \<times> string \<times> string, string) btree_map"
  st_sources :: "(string, company_source) btree_map"
  st_source_revisions :: "(string, source_revision list) btree_map"
  st_source_documents :: "(source_document_key, source_document) btree_map"
  st_parse_artifacts :: "(parse_artifact_key, parse_artifact) btree_map"
  st_parsed_blocks :: "(source_document_key, parsed_block list) btree_map"
  st_ingest_tasks :: "(string, ingest_task) btree_map"
  st_ingest_results :: "(string, ingest_task_result) btree_map"
  st_datasets :: "(string, dataset_record) btree_map"
  st_snapshots :: "(string, structured_snapshot) btree_map"
  st_snapshot_idempotency :: "(string \<times> string, string) btree_map"
  st_rows_by_snapshot :: "(string, json list) btree_map"
  st_row_idempotency :: "(string \<times> string) set"
  st_structured_summaries :: "(string, json) btree_map"
  st_sessions :: "(string, session_record) btree_map"
  st_links :: "(string, knowledge_link) btree_map"
  st_link_idempotency :: "(string \<times> string \<times> string, string) btree_map"
  st_harness_components :: "(string, harness_component) btree_map"
  st_harness_revisions :: "(string, harness_component_revision list) btree_map"
  st_harness_changes :: "(string, harness_change_manifest) btree_map"
  st_harness_verdicts :: "(string, harness_change_verdict) btree_map"
  st_eval_cases :: "(string, rag_eval_case) btree_map"
  st_eval_runs :: "(string, rag_eval_run) btree_map"
  st_eval_case_results :: "(string, rag_eval_case_result) btree_map"
  st_eval_overviews :: "(string, rag_eval_overview) btree_map"

section \<open>Maps and vectors\<close>

text \<open>\<open>entry(k).or_default()\<close> read, \<open>retain\<close>, and insertion into a map by the key of the value.\<close>

definition bt_or_default :: "('k, 'v list) btree_map \<Rightarrow> 'k \<Rightarrow> 'v list" where
  "bt_or_default m k = (case bt_get m k of Some v \<Rightarrow> v | None \<Rightarrow> [])"

definition bt_retain :: "('k \<Rightarrow> 'v \<Rightarrow> bool) \<Rightarrow> ('k, 'v) btree_map \<Rightarrow> ('k, 'v) btree_map" where
  "bt_retain P m = filter (\<lambda>(k, v). P k v) m"

definition bt_extend :: "('v \<Rightarrow> 'k::linorder) \<Rightarrow> 'v list \<Rightarrow> ('k, 'v) btree_map \<Rightarrow> ('k, 'v) btree_map" where
  "bt_extend key vs m = fold (\<lambda>v. bt_insert (key v) v) vs m"

text \<open>Insertion unless the entry present is newer (\<open>is_none_or(|e| e.updated_at <= v.updated_at)\<close>).\<close>

definition bt_upsert_newer ::
    "('v \<Rightarrow> datetime) \<Rightarrow> ('v \<Rightarrow> 'k::linorder) \<Rightarrow> 'v \<Rightarrow> ('k, 'v) btree_map \<Rightarrow> ('k, 'v) btree_map" where
  "bt_upsert_newer updated key v m =
     (if (case bt_get m (key v) of None \<Rightarrow> True | Some e \<Rightarrow> updated e \<le> updated v)
      then bt_insert (key v) v m else m)"

text \<open>\<open>if let Some(x) = iter_mut().find(P) { *x = v } else { push(v) }\<close>\<close>

fun replace_or_push :: "('a \<Rightarrow> bool) \<Rightarrow> 'a \<Rightarrow> 'a list \<Rightarrow> 'a list" where
  "replace_or_push P v [] = [v]"
| "replace_or_push P v (x # xs) = (if P x then v # xs else x # replace_or_push P v xs)"

text \<open>\<open>iter().position(P)\<close>\<close>

fun position :: "('a \<Rightarrow> bool) \<Rightarrow> 'a list \<Rightarrow> nat option" where
  "position P [] = None"
| "position P (x # xs) = (if P x then Some 0 else map_option Suc (position P xs))"

definition copy_idempotency_entries ::
    "string list \<Rightarrow> ('k::linorder, string) btree_map \<Rightarrow> ('k, string) btree_map \<Rightarrow> ('k, string) btree_map" where
  "copy_idempotency_entries accepted_ids staged current =
     fold (\<lambda>(key, i) m. if i \<in> set accepted_ids then bt_insert key i m else m) staged current"

section \<open>Context nodes\<close>

type_synonym node_key = "string \<times> string \<times> u8"

definition node_key :: "context_node \<Rightarrow> node_key" where
  "node_key n = (cn_tenant_id n, cn_uri n, cn_layer n)"

text \<open>
  One pass resolves every incoming node: \<open>representative\<close> maps a node to the first node of the batch
  with its key, \<open>resolved\<close> maps that one to its position in the target.
\<close>

fun represent_nodes ::
    "nat \<Rightarrow> (node_key \<Rightarrow> nat option) \<Rightarrow> context_node list \<Rightarrow> nat list \<times> (node_key \<Rightarrow> nat option)" where
  "represent_nodes index first_by_key [] = ([], first_by_key)"
| "represent_nodes index first_by_key (node # nodes) =
     (let first = (case first_by_key (node_key node) of Some f \<Rightarrow> f | None \<Rightarrow> index);
          (rest, fin) = represent_nodes (Suc index) (first_by_key(node_key node \<mapsto> first)) nodes
      in (first # rest, fin))"

fun resolve_targets ::
    "(node_key \<Rightarrow> nat option) \<Rightarrow> nat \<Rightarrow> context_node list \<Rightarrow> nat option list \<Rightarrow> nat option list" where
  "resolve_targets first_by_key pos [] resolved = resolved"
| "resolve_targets first_by_key pos (existing # target) resolved =
     resolve_targets first_by_key (Suc pos) target
       (case first_by_key (node_key existing) of
          Some first \<Rightarrow>
            if resolved ! first = None then resolved[first := Some pos] else resolved
        | None \<Rightarrow> resolved)"

fun upsert_resolved ::
    "(nat \<times> context_node) list \<Rightarrow> nat option list \<Rightarrow> context_node list \<Rightarrow> context_node list" where
  "upsert_resolved [] resolved target = target"
| "upsert_resolved ((first, node) # rest) resolved target =
     (case resolved ! first of
        Some p \<Rightarrow>
          upsert_resolved rest resolved
            (if cn_updated_at (target ! p) \<le> cn_updated_at node then target[p := node] else target)
      | None \<Rightarrow> upsert_resolved rest (resolved[first := Some (length target)]) (target @ [node]))"

definition upsert_context_nodes :: "context_node list \<Rightarrow> context_node list \<Rightarrow> context_node list" where
  "upsert_context_nodes nodes target =
     (let (representative, first_by_key) = represent_nodes 0 (\<lambda>_. None) nodes;
          resolved = resolve_targets first_by_key 0 target (replicate (length nodes) None)
      in upsert_resolved (zip representative nodes) resolved target)"

section \<open>Documents, tasks and rows\<close>

definition upsert_source_document_cache :: "source_document \<Rightarrow> store_data \<Rightarrow> store_data" where
  "upsert_source_document_cache document d =
     d\<lparr>st_source_documents :=
         bt_upsert_newer sd_updated_at source_document_key document (st_source_documents d)\<rparr>"

definition upsert_ingest_task_cache :: "ingest_task \<Rightarrow> store_data \<Rightarrow> store_data" where
  "upsert_ingest_task_cache task d =
     d\<lparr>st_ingest_tasks := bt_upsert_newer it_updated_at it_task_id task (st_ingest_tasks d)\<rparr>"

definition publish_event :: "history_event \<Rightarrow> store_data \<Rightarrow> store_data" where
  "publish_event event d =
     d\<lparr>st_event_idempotency :=
         (case he_idempotency_key_hash event of
            Some hash \<Rightarrow> bt_insert (he_event_index_uid event, hash) (he_id event) (st_event_idempotency d)
          | None \<Rightarrow> st_event_idempotency d),
       st_events_by_index :=
         bt_insert (he_event_index_uid event)
           (replace_or_push (\<lambda>existing. he_id existing = he_id event) event
             (bt_or_default (st_events_by_index d) (he_event_index_uid event)))
           (st_events_by_index d),
       st_event_by_id := bt_insert (he_id event) event (st_event_by_id d)\<rparr>"

definition publish_row :: "json \<Rightarrow> store_data \<Rightarrow> store_data" where
  "publish_row row d =
     (case json_get_str row ''snapshot_id'' of
        None \<Rightarrow> d
      | Some snapshot_id \<Rightarrow>
          (let cached = bt_or_default (st_rows_by_snapshot d) snapshot_id in
           case json_get_str row ''id'' of
             Some row_id \<Rightarrow>
               d\<lparr>st_rows_by_snapshot := bt_insert snapshot_id
                   (replace_or_push (\<lambda>existing. json_get_str existing ''id'' = Some row_id) row cached)
                   (st_rows_by_snapshot d),
                 st_row_idempotency := insert (snapshot_id, row_id) (st_row_idempotency d)\<rparr>
           | None \<Rightarrow>
               d\<lparr>st_rows_by_snapshot := bt_insert snapshot_id
                   (if row \<in> set cached then cached else cached @ [row]) (st_rows_by_snapshot d)\<rparr>))"

definition publish_revision :: "source_revision \<Rightarrow> store_data \<Rightarrow> store_data" where
  "publish_revision revision d =
     d\<lparr>st_source_revisions := bt_insert (srev_source_id revision)
         (sort_key srev_created_at
           (replace_or_push (\<lambda>existing. srev_id existing = srev_id revision) revision
             (bt_or_default (st_source_revisions d) (srev_source_id revision))))
         (st_source_revisions d)\<rparr>"

definition publish_component_revision :: "harness_component_revision \<Rightarrow> store_data \<Rightarrow> store_data" where
  "publish_component_revision revision d =
     d\<lparr>st_harness_revisions := bt_insert (hcr_component_id revision)
         (sort_key hcr_iteration
           (replace_or_push (\<lambda>existing. hcr_id existing = hcr_id revision) revision
             (bt_or_default (st_harness_revisions d) (hcr_component_id revision))))
         (st_harness_revisions d)\<rparr>"

definition publish_task_deletion :: "string \<Rightarrow> store_data \<Rightarrow> store_data" where
  "publish_task_deletion task_id d =
     d\<lparr>st_ingest_tasks := bt_remove task_id (st_ingest_tasks d),
       st_ingest_results := bt_remove task_id (st_ingest_results d),
       st_parsed_blocks :=
         (case bt_get (st_ingest_results d) task_id of
            Some result \<Rightarrow>
              bt_remove (it_tenant_id (itr_task result), it_owner_user_id (itr_task result),
                  itr_source_document_uri result) (st_parsed_blocks d)
          | None \<Rightarrow> st_parsed_blocks d)\<rparr>"

definition publish_ingest_result :: "ingest_task_result \<Rightarrow> store_data \<Rightarrow> store_data" where
  "publish_ingest_result result d =
     (if (case bt_get (st_ingest_results d) (it_task_id (itr_task result)) of
            None \<Rightarrow> True
          | Some existing \<Rightarrow> it_updated_at (itr_task existing) \<le> it_updated_at (itr_task result))
      then d\<lparr>st_parsed_blocks := bt_insert
               (it_tenant_id (itr_task result), it_owner_user_id (itr_task result), itr_source_document_uri result)
               (itr_parsed_blocks result) (st_parsed_blocks d),
             st_ingest_results := bt_insert (it_task_id (itr_task result)) result (st_ingest_results d)\<rparr>
      else d)"

section \<open>Deletion of a company source\<close>

definition delete_source_documents :: "string \<Rightarrow> string \<Rightarrow> store_data \<Rightarrow> store_data" where
  "delete_source_documents tenant_id source_id d =
     (let gone = (\<lambda>x. sd_tenant_id x = tenant_id \<and> sd_owner_user_id x = None \<and> sd_source_id x = source_id);
          removed_document_uris = map sd_uri (filter gone (map snd (st_source_documents d)))
      in d\<lparr>st_source_documents := bt_retain (\<lambda>_ x. \<not> gone x) (st_source_documents d),
           st_parsed_blocks := bt_retain (\<lambda>(t, owner, uri) _.
             t \<noteq> tenant_id \<or> owner \<noteq> None \<or> uri \<notin> set removed_document_uris) (st_parsed_blocks d)\<rparr>)"

definition delete_revisions :: "string \<Rightarrow> string \<Rightarrow> store_data \<Rightarrow> store_data" where
  "delete_revisions tenant_id source_id d =
     (case bt_get (st_source_revisions d) source_id of
        None \<Rightarrow> d
      | Some revisions \<Rightarrow>
          (let kept = filter (\<lambda>r. srev_tenant_id r \<noteq> tenant_id) revisions in
           d\<lparr>st_source_revisions :=
               (if kept = [] then bt_remove source_id (st_source_revisions d)
                else bt_insert source_id kept (st_source_revisions d))\<rparr>))"

definition publish_source_deletion ::
    "string \<Rightarrow> string \<Rightarrow> company_source_delete_target \<Rightarrow> store_data \<Rightarrow> store_data" where
  "publish_source_deletion tenant_id source_id target d =
     (case target of
        TFragments \<Rightarrow> d\<lparr>st_company_context :=
          filter (\<lambda>n. cn_tenant_id n \<noteq> tenant_id \<or> cn_source_id n \<noteq> Some source_id) (st_company_context d)\<rparr>
      | TRevisions \<Rightarrow> delete_revisions tenant_id source_id d
      | TSource \<Rightarrow>
          (case bt_get (st_sources d) source_id of
             Some source \<Rightarrow>
               if cs_tenant_id source = tenant_id
               then d\<lparr>st_sources := bt_remove source_id (st_sources d)\<rparr> else d
           | None \<Rightarrow> d)
      | TSourceDocuments \<Rightarrow> delete_source_documents tenant_id source_id d
      | TParseArtifacts \<Rightarrow> d\<lparr>st_parse_artifacts := bt_retain (\<lambda>_ a.
          pa_tenant_id a \<noteq> tenant_id \<or> pa_owner_user_id a \<noteq> None \<or> pa_source_id a \<noteq> source_id)
          (st_parse_artifacts d)\<rparr>
      | TIngestTasks \<Rightarrow> d\<lparr>st_ingest_tasks := bt_retain (\<lambda>_ t.
          it_tenant_id t \<noteq> tenant_id \<or> it_owner_user_id t \<noteq> None \<or> it_source_id t \<noteq> source_id)
          (st_ingest_tasks d)\<rparr>
      | TIngestResults \<Rightarrow> d\<lparr>st_ingest_results := bt_retain (\<lambda>_ r.
          it_tenant_id (itr_task r) \<noteq> tenant_id \<or> it_owner_user_id (itr_task r) \<noteq> None
          \<or> itr_source_id r \<noteq> source_id) (st_ingest_results d)\<rparr>
      | TLinks link_ids _ \<Rightarrow> d\<lparr>
          st_links := bt_retain (\<lambda>link_id link. kl_tenant_id link \<noteq> tenant_id \<or> link_id \<notin> set link_ids) (st_links d),
          st_link_idempotency := bt_retain (\<lambda>_ link_id. link_id \<notin> set link_ids) (st_link_idempotency d)\<rparr>)"

section \<open>Publication\<close>

definition publish_resource_cache ::
    "store_data \<Rightarrow> string \<Rightarrow> operation_resource \<Rightarrow> store_data \<Rightarrow> store_data" where
  "publish_resource_cache staged tenant_id resource d =
     (case resource of
        EnsureUserEventIndex index \<Rightarrow> d\<lparr>
          st_user_indexes := bt_insert (uei_tenant_id index, uei_owner_user_id_hash index) index (st_user_indexes d),
          st_events_by_index := bt_insert (uei_event_index_uid index)
            (bt_or_default (st_events_by_index d) (uei_event_index_uid index)) (st_events_by_index d),
          st_personal_context := bt_insert (uei_personal_context_index_uid index)
            (bt_or_default (st_personal_context d) (uei_personal_context_index_uid index)) (st_personal_context d)\<rparr>
      | HistoryEvents events \<Rightarrow>
          fold publish_event events
            (d\<lparr>st_event_idempotency := copy_idempotency_entries (map he_id events)
                 (st_event_idempotency staged) (st_event_idempotency d)\<rparr>)
      | ContextNodes index_uid nodes \<Rightarrow>
          (if index_uid = ''rag_company_context''
           then d\<lparr>st_company_context := upsert_context_nodes nodes (st_company_context d)\<rparr>
           else d\<lparr>st_personal_context := bt_insert index_uid
             (upsert_context_nodes nodes (bt_or_default (st_personal_context d) index_uid)) (st_personal_context d)\<rparr>)
      | StateItem item \<Rightarrow> d\<lparr>st_state_items := bt_upsert_newer si_updated_at
          (\<lambda>i. (si_tenant_id i, si_owner_user_id i, si_natural_key i)) item (st_state_items d)\<rparr>
      | Insight insight \<Rightarrow> d\<lparr>
          st_insight_idempotency := copy_idempotency_entries [ir_id insight]
            (st_insight_idempotency staged) (st_insight_idempotency d),
          st_insights := bt_upsert_newer ir_updated_at ir_id insight (st_insights d)\<rparr>
      | CompanySource source \<Rightarrow> d\<lparr>st_sources := bt_insert (cs_id source) source (st_sources d)\<rparr>
      | SourceRevision revision \<Rightarrow> publish_revision revision d
      | DeleteCompanySourceIndex source_id target \<Rightarrow> publish_source_deletion tenant_id source_id target d
      | SourceDocuments documents \<Rightarrow> fold upsert_source_document_cache documents d
      | ParseArtifacts artifacts \<Rightarrow>
          d\<lparr>st_parse_artifacts := bt_extend parse_artifact_key artifacts (st_parse_artifacts d)\<rparr>
      | StructuredSnapshot snapshot \<Rightarrow> d\<lparr>
          st_snapshot_idempotency := copy_idempotency_entries [ss_id snapshot]
            (st_snapshot_idempotency staged) (st_snapshot_idempotency d),
          st_snapshots := bt_insert (ss_id snapshot) snapshot (st_snapshots d)\<rparr>
      | Dataset dataset \<Rightarrow> d\<lparr>st_datasets := bt_insert (dr_dataset_key dataset) dataset (st_datasets d)\<rparr>
      | StructuredRows rows \<Rightarrow> fold publish_row rows d
      | StructuredSummary summary \<Rightarrow>
          (case json_get_str summary ''id'' of
             Some i \<Rightarrow> d\<lparr>st_structured_summaries := bt_insert i summary (st_structured_summaries d)\<rparr>
           | None \<Rightarrow> d)
      | Session session \<Rightarrow> d\<lparr>st_sessions := bt_insert (sess_id session) session (st_sessions d)\<rparr>
      | Trace _ \<Rightarrow> d
      | Links links \<Rightarrow> d\<lparr>
          st_link_idempotency := copy_idempotency_entries (map kl_id links)
            (st_link_idempotency staged) (st_link_idempotency d),
          st_links := fold (bt_upsert_newer kl_updated_at kl_id) links (st_links d)\<rparr>
      | HarnessComponents components revisions \<Rightarrow>
          fold publish_component_revision revisions
            (d\<lparr>st_harness_components := bt_extend hc_id components (st_harness_components d)\<rparr>)
      | HarnessChanges changes \<Rightarrow>
          d\<lparr>st_harness_changes := bt_extend hcm_id changes (st_harness_changes d)\<rparr>
      | HarnessVerdicts verdicts \<Rightarrow>
          d\<lparr>st_harness_verdicts := bt_extend hcv_id verdicts (st_harness_verdicts d)\<rparr>
      | IngestTask task \<Rightarrow> upsert_ingest_task_cache task d
      | IngestTasks tasks \<Rightarrow> fold upsert_ingest_task_cache tasks d
      | DeleteIngestTasks task_ids \<Rightarrow> fold publish_task_deletion task_ids d
      | IngestResult result \<Rightarrow> publish_ingest_result result d
      | EvalCase c \<Rightarrow> d\<lparr>st_eval_cases := bt_insert (rec_id c) c (st_eval_cases d)\<rparr>
      | EvalRun run \<Rightarrow> d\<lparr>st_eval_runs := bt_insert (rer_id run) run (st_eval_runs d)\<rparr>
      | EvalCaseResults results \<Rightarrow>
          d\<lparr>st_eval_case_results := bt_extend rcr_id results (st_eval_case_results d)\<rparr>
      | EvalOverview overview \<Rightarrow>
          d\<lparr>st_eval_overviews := bt_insert (reo_run_id overview) overview (st_eval_overviews d)\<rparr>)"

end
