(* ===== verification/Store_Data_Facts.thy ===== *)
theory Store_Data_Facts
  imports Store_Data
begin

text \<open>
  Lemmas on the store's data: the one-pass upsert of context nodes is the sequence of single
  upserts, and how the map helpers look up.
\<close>

text \<open>\<open>StoreData::default()\<close>\<close>

definition empty_data :: store_data where
  "empty_data =
     \<lparr>st_operations = [], st_user_indexes = [], st_events_by_index = [], st_event_by_id = [],
      st_event_idempotency = [], st_personal_context = [], st_company_context = [], st_state_items = [],
      st_insights = [], st_insight_idempotency = [], st_sources = [], st_source_revisions = [],
      st_source_documents = [], st_parse_artifacts = [], st_parsed_blocks = [], st_ingest_tasks = [],
      st_ingest_results = [], st_datasets = [], st_snapshots = [], st_snapshot_idempotency = [],
      st_rows_by_snapshot = [], st_row_idempotency = {}, st_structured_summaries = [], st_sessions = [],
      st_links = [], st_link_idempotency = [], st_harness_components = [], st_harness_revisions = [],
      st_harness_changes = [], st_harness_verdicts = [], st_eval_cases = [], st_eval_runs = [],
      st_eval_case_results = [], st_eval_overviews = []\<rparr>"

section \<open>The one-pass upsert of context nodes\<close>

text \<open>The specification: each node replaces the first node of its key unless that one is newer.\<close>

definition upsert_context_node :: "context_node \<Rightarrow> context_node list \<Rightarrow> context_node list" where
  "upsert_context_node node target =
     (case position (\<lambda>e. node_key e = node_key node) target of
        Some p \<Rightarrow> if cn_updated_at (target ! p) \<le> cn_updated_at node then target[p := node] else target
      | None \<Rightarrow> target @ [node])"

lemma position_Some: "position P xs = Some i \<Longrightarrow> i < length xs \<and> P (xs ! i)"
  by (induction xs arbitrary: i) (auto split: if_splits)

lemma position_None: "position P xs = None \<longleftrightarrow> (\<forall>x\<in>set xs. \<not> P x)"
  by (induction xs) auto

lemma map_option_plus [simp]:
  "map_option ((+) i) (map_option Suc x) = map_option ((+) (Suc i)) x"
  "map_option Suc (map_option ((+) i) x) = map_option ((+) (Suc i)) x"
  "map_option ((+) 0) x = x"
  by (cases x; simp)+

lemma position_append:
  "position P (xs @ ys) = (case position P xs of Some i \<Rightarrow> Some i | None \<Rightarrow> map_option ((+) (length xs)) (position P ys))"
  by (induction xs) (auto split: option.splits simp del: plus_nat.simps simp: map_option_plus(3) [unfolded One_nat_def])

lemma position_map: "position P (map f xs) = position (\<lambda>x. P (f x)) xs"
  by (induction xs) auto

lemma represent_nodes_spec:
  assumes "represent_nodes i fb nodes = (rep, fin)"
  shows "fin k = (case fb k of Some f \<Rightarrow> Some f
           | None \<Rightarrow> map_option ((+) i) (position (\<lambda>n. node_key n = k) nodes))
    \<and> rep = map (\<lambda>n. the (fin (node_key n))) nodes"
  using assms
proof (induction nodes arbitrary: i fb rep k)
  case (Cons node nodes)
  let ?first = "case fb (node_key node) of Some f \<Rightarrow> f | None \<Rightarrow> i"
  obtain rest where r: "represent_nodes (Suc i) (fb(node_key node \<mapsto> ?first)) nodes = (rest, fin)" "rep = ?first # rest"
    using Cons.prems by (auto simp: Let_def split: prod.splits)
  note ih = Cons.IH [OF r(1)]
  have "fin (node_key node) = Some ?first" using ih [of "node_key node"] by simp
  moreover have "fin k = (case fb k of Some f \<Rightarrow> Some f
      | None \<Rightarrow> map_option ((+) i) (position (\<lambda>n. node_key n = k) (node # nodes)))"
    using ih [of k] by (auto split: option.splits)
  ultimately show ?case using ih r(2) by simp
qed (auto split: option.split)

lemma resolve_targets_spec:
  assumes "f < length resolved" and "\<And>k g. fb k = Some g \<Longrightarrow> g < length resolved"
  shows "length (resolve_targets fb pos target resolved) = length resolved
    \<and> resolve_targets fb pos target resolved ! f =
        (case resolved ! f of Some p \<Rightarrow> Some p
         | None \<Rightarrow> map_option ((+) pos) (position (\<lambda>e. fb (node_key e) = Some f) target))"
  using assms
proof (induction target arbitrary: pos resolved)
  case Nil
  then show ?case by (simp split: option.splits)
next
  case (Cons e target)
  let ?r = "case fb (node_key e) of Some g \<Rightarrow> if resolved ! g = None then resolved[g := Some pos] else resolved
    | None \<Rightarrow> resolved"
  have len: "length ?r = length resolved" by (simp split: option.split)
  have "?r ! f = (case resolved ! f of Some p \<Rightarrow> Some p
      | None \<Rightarrow> if fb (node_key e) = Some f then Some pos else None)"
    using Cons.prems by (auto simp: nth_list_update split: option.splits)
  then show ?case
    using Cons.IH [of ?r "Suc pos"] Cons.prems len
    by (auto split: option.splits)
qed

lemma upsert_keeps_positions:
  assumes "position (\<lambda>e. node_key e = node_key node) target = Some p"
  shows "position (\<lambda>e. node_key e = k) (target[p := node]) = position (\<lambda>e. node_key e = k) target"
proof -
  have "map node_key (target[p := node]) = map node_key target"
    using position_Some [OF assms] by (simp add: map_update) (metis list_update_id nth_map)
  then show ?thesis
    using position_map [of "\<lambda>x. x = k" node_key "target[p := node]"]
      position_map [of "\<lambda>x. x = k" node_key target] by simp
qed

lemma upsert_resolved_spec:
  assumes "\<And>n. n \<in> set ns \<Longrightarrow> g (node_key n) < length resolved
      \<and> resolved ! g (node_key n) = position (\<lambda>e. node_key e = node_key n) target"
    and "inj_on g (node_key ` set ns)"
  shows "upsert_resolved (zip (map (\<lambda>n. g (node_key n)) ns) ns) resolved target = fold upsert_context_node ns target"
  using assms
proof (induction ns arbitrary: resolved target)
  case (Cons n ns)
  have here: "resolved ! g (node_key n) = position (\<lambda>e. node_key e = node_key n) target" "g (node_key n) < length resolved"
    using Cons.prems(1) [of n] by auto
  have inj: "inj_on g (node_key ` set ns)" using Cons.prems(2) by (auto simp: inj_on_def)
  show ?case
  proof (cases "position (\<lambda>e. node_key e = node_key n) target")
    case None
    have "resolved[g (node_key n) := Some (length target)] ! g (node_key m)
        = position (\<lambda>e. node_key e = node_key m) (target @ [n])" if "m \<in> set ns" for m
    proof (cases "node_key m = node_key n")
      case True
      then show ?thesis using None here(2) by (simp add: position_append)
    next
      case False
      then have "g (node_key m) \<noteq> g (node_key n)"
        using Cons.prems(2) that by (auto simp: inj_on_def)
      then show ?thesis
        using Cons.prems(1) [of m] that False by (auto simp: position_append split: option.split)
    qed
    then show ?thesis
      using Cons.IH [of "resolved[g (node_key n) := Some (length target)]" "target @ [n]"] Cons.prems(1) inj None here
      by (simp add: upsert_context_node_def)
  next
    case (Some p)
    have pos: "position (\<lambda>e. node_key e = k) (target[p := n]) = position (\<lambda>e. node_key e = k) target" for k
      using upsert_keeps_positions [OF Some] .
    then show ?thesis
      using Cons.IH [of resolved "target[p := n]"] Cons.IH [of resolved target] Cons.prems(1) inj Some here
      by (simp add: upsert_context_node_def)
  qed
qed simp

lemma represent_inj:
  assumes "\<And>k. fin k = position (\<lambda>n. node_key n = k) nodes"
  shows "inj_on (\<lambda>k. the (fin k)) (node_key ` set nodes)"
proof (rule inj_onI)
  fix a b assume ab: "a \<in> node_key ` set nodes" "b \<in> node_key ` set nodes" and eq: "the (fin a) = the (fin b)"
  obtain i where i: "fin a = Some i" using ab(1) assms [of a] position_None [of "\<lambda>n. node_key n = a" nodes]
    by (cases "fin a") auto
  obtain j where j: "fin b = Some j" using ab(2) assms [of b] position_None [of "\<lambda>n. node_key n = b" nodes]
    by (cases "fin b") auto
  have "node_key (nodes ! i) = a" "node_key (nodes ! j) = b"
    using i j assms position_Some [of "\<lambda>n. node_key n = a" nodes i] position_Some [of "\<lambda>n. node_key n = b" nodes j]
    by simp_all
  with eq i j show "a = b" by simp
qed

text \<open>
  The one-pass upsert of a batch of context nodes is the sequence of single upserts, duplicates
  in the batch and in the target included.
\<close>

theorem upsert_context_nodes_sequential:
  "upsert_context_nodes nodes target = fold upsert_context_node nodes target"
proof -
  obtain rep fin where r: "represent_nodes 0 (\<lambda>_. None) nodes = (rep, fin)" by fastforce
  have fin: "fin k = position (\<lambda>n. node_key n = k) nodes" for k
    using represent_nodes_spec [OF r, of k] by (cases "position (\<lambda>n. node_key n = k) nodes") auto
  have rep: "rep = map (\<lambda>n. the (fin (node_key n))) nodes" using represent_nodes_spec [OF r] by blast
  have bound: "fin k = Some f \<Longrightarrow> f < length nodes" for k f using fin position_Some by fastforce
  let ?res = "resolve_targets fin 0 target (replicate (length nodes) None)"
  have inj: "inj_on (\<lambda>k. the (fin k)) (node_key ` set nodes)" using fin by (rule represent_inj)
  have "the (fin (node_key n)) < length ?res
      \<and> ?res ! the (fin (node_key n)) = position (\<lambda>e. node_key e = node_key n) target" if n: "n \<in> set nodes" for n
  proof -
    obtain f where f: "fin (node_key n) = Some f"
      using fin [of "node_key n"] n position_None [of "\<lambda>m. node_key m = node_key n" nodes]
      by (cases "fin (node_key n)") auto
    have lt: "f < length nodes" using bound f .
    have at: "fin k = Some f \<Longrightarrow> node_key (nodes ! f) = k" for k
      using fin [of k] position_Some [of "\<lambda>m. node_key m = k" nodes f] by simp
    have same: "fin k = Some f \<longleftrightarrow> k = node_key n" for k
      using at [of k] at [OF f] f by auto
    have "?res ! f = map_option ((+) 0) (position (\<lambda>e. fin (node_key e) = Some f) target)"
      using resolve_targets_spec [of f "replicate (length nodes) None" fin 0 target] lt bound by simp
    moreover have "length ?res = length nodes"
      using resolve_targets_spec [of f "replicate (length nodes) None" fin 0 target] lt bound by simp
    ultimately have "f < length ?res \<and> ?res ! f = position (\<lambda>e. node_key e = node_key n) target"
      using lt same by simp
    then show ?thesis by (simp only: f option.sel)
  qed
  from upsert_resolved_spec [of nodes "\<lambda>k. the (fin k)", OF this inj] rep
  show ?thesis by (simp add: upsert_context_nodes_def r)
qed

end
