(* ===== verification/Mutation_Resources.thy ===== *)
theory Mutation_Resources
  imports Store_Data_Facts
begin

text \<open>
  What a mutation changed (\<open>store.rs\<close>: \<open>mutation_resources\<close> and its parts): the difference between
  the store before a mutation and its staged copy after it, as the list of resources to persist.
  Values are compared by their serialisation; \<open>to_value\<close> is \<open>serde_json::to_value(..).ok()\<close>, where
  a value is presented as the resource that carries it alone. \<open>char_lower\<close> is Unicode lower-casing.
\<close>

section \<open>Changed values\<close>

definition serialized_changed ::
    "(operation_resource \<Rightarrow> json option) \<Rightarrow> ('v \<Rightarrow> operation_resource) \<Rightarrow> 'v option \<Rightarrow> 'v \<Rightarrow> bool" where
  "serialized_changed to_value as_resource before after =
     (case before of None \<Rightarrow> True | Some b \<Rightarrow> to_value (as_resource b) \<noteq> to_value (as_resource after))"

text \<open>The values of one map that belong to the tenant and changed, in the order of their ids.\<close>

definition changed_values ::
    "(operation_resource \<Rightarrow> json option) \<Rightarrow> ('v \<Rightarrow> operation_resource) \<Rightarrow> ('v \<Rightarrow> string) \<Rightarrow> ('v \<Rightarrow> 'k)
      \<Rightarrow> ('v \<Rightarrow> string) \<Rightarrow> string \<Rightarrow> ('k, 'v) btree_map \<Rightarrow> ('k, 'v) btree_map \<Rightarrow> 'v list" where
  "changed_values to_value as_resource tenant key id_of t before after =
     sort_key id_of (filter (\<lambda>v. tenant v = t \<and> serialized_changed to_value as_resource (bt_get before (key v)) v)
       (map snd after))"

text \<open>The same for a map whose iteration looks the entry's own key up.\<close>

definition changed_entries ::
    "(operation_resource \<Rightarrow> json option) \<Rightarrow> ('v \<Rightarrow> operation_resource) \<Rightarrow> ('v \<Rightarrow> string option)
      \<Rightarrow> string \<Rightarrow> ('k, 'v) btree_map \<Rightarrow> ('k, 'v) btree_map \<Rightarrow> ('k \<times> 'v) list" where
  "changed_entries to_value as_resource tenant t before after =
     filter (\<lambda>(k, v). tenant v = Some t \<and> serialized_changed to_value as_resource (bt_get before k) v) after"

text \<open>Revisions are grouped by their source or component and compared by their own id.\<close>

definition changed_revisions ::
    "(operation_resource \<Rightarrow> json option) \<Rightarrow> ('v \<Rightarrow> operation_resource) \<Rightarrow> ('v \<Rightarrow> string) \<Rightarrow> ('v \<Rightarrow> string)
      \<Rightarrow> string \<Rightarrow> (string, 'v list) btree_map \<Rightarrow> (string, 'v list) btree_map \<Rightarrow> 'v list" where
  "changed_revisions to_value as_resource tenant id_of t before after =
     (let flat = (\<lambda>m. filter (\<lambda>v. tenant v = t) (concat (map snd m)));
          before_revisions = bt_extend id_of (flat before) []
      in sort_key id_of (filter (\<lambda>v. serialized_changed to_value as_resource (bt_get before_revisions (id_of v)) v)
           (flat after)))"

definition context_node_identity :: "context_node \<Rightarrow> string \<times> u8" where
  "context_node_identity node = (cn_uri node, cn_layer node)"

definition changed_context_nodes ::
    "(operation_resource \<Rightarrow> json option) \<Rightarrow> context_node list \<Rightarrow> context_node list \<Rightarrow> context_node list" where
  "changed_context_nodes to_value before after =
     (let before_map = bt_extend context_node_identity before [] in
      sort_key context_node_identity
        (filter (\<lambda>node. serialized_changed to_value (\<lambda>n. ContextNodes [] [n])
            (bt_get before_map (context_node_identity node)) node) after))"

definition if_any :: "('v list \<Rightarrow> operation_resource) \<Rightarrow> 'v list \<Rightarrow> operation_resource list" where
  "if_any as_resource vs = (if vs = [] then [] else [as_resource vs])"

definition company_revision_source_document_uri :: "(string \<Rightarrow> string list) \<Rightarrow> string \<Rightarrow> string \<Rightarrow> string" where
  "company_revision_source_document_uri char_lower source_id revision_id =
     ''ctx://company/docs/'' @ sanitize_slug char_lower source_id @ ''/source/'' @ sanitize_slug char_lower revision_id"

definition company_source_related_uris :: "(string \<Rightarrow> string list) \<Rightarrow> store_data \<Rightarrow> string \<Rightarrow> string \<Rightarrow> string list" where
  "company_source_related_uris char_lower data t source_id =
     map sd_uri (filter (\<lambda>d. sd_tenant_id d = t \<and> sd_owner_user_id d = None \<and> sd_source_id d = source_id)
       (map snd (st_source_documents data)))
     @ map (\<lambda>r. company_revision_source_document_uri char_lower source_id (srev_id r))
         (filter (\<lambda>r. srev_tenant_id r = t) (bt_or_default (st_source_revisions data) source_id))
     @ concat (map (\<lambda>n. cn_uri n # (case cn_source_document_uri n of Some u \<Rightarrow> [u] | None \<Rightarrow> []))
         (filter (\<lambda>n. cn_tenant_id n = t \<and> cn_source_id n = Some source_id) (st_company_context data)))
     @ concat (map (\<lambda>a. [pa_source_document_uri a, pa_uri a])
         (filter (\<lambda>a. pa_tenant_id a = t \<and> pa_owner_user_id a = None \<and> pa_source_id a = source_id)
           (map snd (st_parse_artifacts data))))
     @ List.map_filter it_source_document_uri
         (filter (\<lambda>k. it_tenant_id k = t \<and> it_owner_user_id k = None \<and> it_source_id k = source_id)
           (map snd (st_ingest_tasks data)))
     @ map itr_source_document_uri
         (filter (\<lambda>r. it_tenant_id (itr_task r) = t \<and> it_owner_user_id (itr_task r) = None
             \<and> itr_source_id r = source_id)
           (map snd (st_ingest_results data)))"

section \<open>The parts of the difference\<close>

text \<open>\<open>sort\<close> followed by \<open>dedup\<close>.\<close>

definition sort_dedup :: "'a::linorder list \<Rightarrow> 'a list" where
  "sort_dedup xs = sorted_list_of_set (set xs)"

definition company_source_deletions :: "(string \<Rightarrow> string list) \<Rightarrow> string \<Rightarrow> store_data \<Rightarrow> company_source \<Rightarrow> operation_resource list" where
  "company_source_deletions char_lower t before source =
     (let source_id = cs_id source;
          source_document_uris = sort_dedup (company_source_related_uris char_lower before t source_id);
          link_ids = sort_dedup (map kl_id (filter (\<lambda>link. kl_tenant_id link = t
              \<and> (kl_source_uri link \<in> set source_document_uris \<or> kl_target_uri link \<in> set source_document_uris))
            (map snd (st_links before))))
      in map (DeleteCompanySourceIndex source_id)
           [TFragments, TRevisions, TSource, TSourceDocuments, TParseArtifacts, TIngestTasks, TIngestResults]
         @ [DeleteCompanySourceIndex source_id (TLinks link_ids source_document_uris)])"

definition index_resources :: "(operation_resource \<Rightarrow> json option) \<Rightarrow> string \<Rightarrow> store_data \<Rightarrow> store_data \<Rightarrow> operation_resource list" where
  "index_resources to_value t before after =
     map EnsureUserEventIndex (changed_values to_value EnsureUserEventIndex uei_tenant_id
       (\<lambda>i. (uei_tenant_id i, uei_owner_user_id_hash i)) uei_id t (st_user_indexes before) (st_user_indexes after))"

definition event_resources :: "(operation_resource \<Rightarrow> json option) \<Rightarrow> string \<Rightarrow> store_data \<Rightarrow> store_data \<Rightarrow> operation_resource list" where
  "event_resources to_value t before after =
     (let changed = filter (\<lambda>e. he_tenant_id e = t
            \<and> serialized_changed to_value (\<lambda>e. HistoryEvents [e]) (bt_get (st_event_by_id before) (he_id e)) e)
          (map snd (st_event_by_id after));
          events_by_index = fold (\<lambda>e m. bt_insert (he_event_index_uid e)
            (bt_or_default m (he_event_index_uid e) @ [e]) m) changed []
      in map (\<lambda>(_, events). HistoryEvents (sort_key he_id events)) events_by_index)"

definition node_resources :: "(operation_resource \<Rightarrow> json option) \<Rightarrow> string \<Rightarrow> store_data \<Rightarrow> store_data \<Rightarrow> operation_resource list" where
  "node_resources to_value t before after =
     (let mine = filter (\<lambda>n. cn_tenant_id n = t);
          personal_index_uids = sort_dedup (map fst (st_personal_context after) @ map fst (st_personal_context before))
      in if_any (ContextNodes ''rag_company_context'')
           (changed_context_nodes to_value (mine (st_company_context before)) (mine (st_company_context after)))
         @ concat (map (\<lambda>uid. if_any (ContextNodes uid)
             (changed_context_nodes to_value (mine (bt_or_default (st_personal_context before) uid))
               (mine (bt_or_default (st_personal_context after) uid)))) personal_index_uids))"

definition source_resources :: "(string \<Rightarrow> string list) \<Rightarrow> (operation_resource \<Rightarrow> json option) \<Rightarrow> string \<Rightarrow> store_data \<Rightarrow> store_data \<Rightarrow> operation_resource list" where
  "source_resources char_lower to_value t before after =
     map CompanySource (changed_values to_value CompanySource cs_tenant_id cs_id cs_id t
       (st_sources before) (st_sources after))
     @ concat (map (company_source_deletions char_lower t before)
         (sort_key cs_id (filter (\<lambda>s. cs_tenant_id s = t \<and> bt_get (st_sources after) (cs_id s) = None)
           (map snd (st_sources before)))))
     @ map SourceRevision (changed_revisions to_value SourceRevision srev_tenant_id srev_id t
         (st_source_revisions before) (st_source_revisions after))
     @ if_any SourceDocuments (sort_key sd_uri (map snd (changed_entries to_value (\<lambda>d. SourceDocuments [d])
         (\<lambda>d. Some (sd_tenant_id d)) t (st_source_documents before) (st_source_documents after))))
     @ if_any ParseArtifacts (sort_key pa_id (map snd (changed_entries to_value (\<lambda>a. ParseArtifacts [a])
         (\<lambda>a. Some (pa_tenant_id a)) t (st_parse_artifacts before) (st_parse_artifacts after))))"

definition structured_mutation_resources :: "(operation_resource \<Rightarrow> json option) \<Rightarrow> string \<Rightarrow> store_data \<Rightarrow> store_data \<Rightarrow> operation_resource list" where
  "structured_mutation_resources to_value t before after =
     map Dataset (changed_values to_value Dataset dr_tenant_id dr_dataset_key dr_dataset_key t
       (st_datasets before) (st_datasets after))
     @ map StructuredSnapshot (changed_values to_value StructuredSnapshot ss_tenant_id ss_id ss_id t
         (st_snapshots before) (st_snapshots after))
     @ concat (map (\<lambda>snapshot_id.
         (case bt_get (st_rows_by_snapshot after) snapshot_id of
            None \<Rightarrow> []
          | Some rows \<Rightarrow>
              if rows \<noteq> [] \<and> serialized_changed to_value StructuredRows
                (bt_get (st_rows_by_snapshot before) snapshot_id) rows
              then [StructuredRows rows] else []))
         (sort (map ss_id (filter (\<lambda>s. ss_tenant_id s = t) (map snd (st_snapshots after))))))
     @ map (\<lambda>(_, summary). StructuredSummary summary)
         (sort_key fst (changed_entries to_value StructuredSummary (\<lambda>s. json_get_str s ''tenant_id'') t
           (st_structured_summaries before) (st_structured_summaries after)))"

definition session_and_link_mutation_resources :: "(operation_resource \<Rightarrow> json option) \<Rightarrow> string \<Rightarrow> store_data \<Rightarrow> store_data \<Rightarrow> operation_resource list" where
  "session_and_link_mutation_resources to_value t before after =
     map Session (changed_values to_value Session sess_tenant_id sess_id sess_id t
       (st_sessions before) (st_sessions after))
     @ if_any Links (changed_values to_value (\<lambda>l. Links [l]) kl_tenant_id kl_id kl_id t
         (st_links before) (st_links after))"

definition eval_mutation_resources :: "(operation_resource \<Rightarrow> json option) \<Rightarrow> string \<Rightarrow> store_data \<Rightarrow> store_data \<Rightarrow> operation_resource list" where
  "eval_mutation_resources to_value t before after =
     map EvalCase (changed_values to_value EvalCase rec_tenant_id rec_id rec_id t
       (st_eval_cases before) (st_eval_cases after))
     @ map EvalRun (changed_values to_value EvalRun rer_tenant_id rer_id rer_id t
         (st_eval_runs before) (st_eval_runs after))
     @ if_any EvalCaseResults (changed_values to_value (\<lambda>r. EvalCaseResults [r]) rcr_tenant_id rcr_id rcr_id t
         (st_eval_case_results before) (st_eval_case_results after))
     @ map EvalOverview (changed_values to_value EvalOverview reo_tenant_id reo_run_id reo_run_id t
         (st_eval_overviews before) (st_eval_overviews after))"

definition operational_mutation_resources :: "(operation_resource \<Rightarrow> json option) \<Rightarrow> string \<Rightarrow> store_data \<Rightarrow> store_data \<Rightarrow> operation_resource list" where
  "operational_mutation_resources to_value t before after =
     (let components = changed_values to_value (\<lambda>c. HarnessComponents [c] []) hc_tenant_id hc_id hc_id t
            (st_harness_components before) (st_harness_components after);
          revisions = changed_revisions to_value (\<lambda>r. HarnessComponents [] [r]) hcr_tenant_id hcr_id t
            (st_harness_revisions before) (st_harness_revisions after)
      in (if components \<noteq> [] \<or> revisions \<noteq> [] then [HarnessComponents components revisions] else [])
         @ if_any HarnessChanges (changed_values to_value (\<lambda>c. HarnessChanges [c]) hcm_tenant_id hcm_id hcm_id t
             (st_harness_changes before) (st_harness_changes after))
         @ if_any HarnessVerdicts (changed_values to_value (\<lambda>v. HarnessVerdicts [v]) hcv_tenant_id hcv_id hcv_id t
             (st_harness_verdicts before) (st_harness_verdicts after))
         @ if_any IngestTasks (changed_values to_value (\<lambda>k. IngestTasks [k]) it_tenant_id it_task_id it_task_id t
             (st_ingest_tasks before) (st_ingest_tasks after))
         @ if_any DeleteIngestTasks (sort (map it_task_id (filter (\<lambda>k. it_tenant_id k = t
               \<and> bt_get (st_ingest_tasks after) (it_task_id k) = None) (map snd (st_ingest_tasks before)))))
         @ map IngestResult (changed_values to_value IngestResult (\<lambda>r. it_tenant_id (itr_task r))
             (\<lambda>r. it_task_id (itr_task r)) (\<lambda>r. it_task_id (itr_task r)) t
             (st_ingest_results before) (st_ingest_results after))
         @ eval_mutation_resources to_value t before after)"

definition mutation_resources ::
    "(string \<Rightarrow> string list) \<Rightarrow> (operation_resource \<Rightarrow> json option) \<Rightarrow> string \<Rightarrow> store_data \<Rightarrow> store_data \<Rightarrow> operation_resource list" where
  "mutation_resources char_lower to_value t before after =
     index_resources to_value t before after
     @ event_resources to_value t before after
     @ node_resources to_value t before after
     @ map StateItem (changed_values to_value StateItem si_tenant_id
         (\<lambda>i. (si_tenant_id i, si_owner_user_id i, si_natural_key i)) si_id t
         (st_state_items before) (st_state_items after))
     @ map Insight (changed_values to_value Insight ir_tenant_id ir_id ir_id t
         (st_insights before) (st_insights after))
     @ source_resources char_lower to_value t before after
     @ structured_mutation_resources to_value t before after
     @ session_and_link_mutation_resources to_value t before after
     @ operational_mutation_resources to_value t before after"

end
