(* ===== verification/Mutation_Patch.thy ===== *)
theory Mutation_Patch
  imports Mutation_Resources "HOL-Library.Multiset"
begin

text \<open>
  The difference that a mutation persists is complete: projecting its resources into the live store
  reproduces the staged values of the tenant. The interface \<open>projected_map\<close> is one map of the store
  together with the values that a resource carries for it; it is interpreted for every keyed map.
\<close>

section \<open>One map of the store\<close>

lemma bt_upsert_plain [simp]: "bt_upsert_newer (\<lambda>_. c) key = (\<lambda>v. bt_insert (key v) v)"
  by (intro ext) (simp add: bt_upsert_newer_def split: option.split)

lemma bt_extend_upsert: "bt_extend key vs m = fold (bt_upsert_newer (\<lambda>_. 0) key) vs m"
  by (simp add: bt_extend_def)

lemma get_upsert:
  "bt_get (bt_upsert_newer upd key v m) k =
     (if k = key v \<and> (case bt_get m k of None \<Rightarrow> True | Some e \<Rightarrow> upd e \<le> upd v) then Some v else bt_get m k)"
  by (auto simp: bt_upsert_newer_def bt_get_insert split: option.splits)

lemma get_fold_upsert_other:
  "k \<notin> key ` set vs \<Longrightarrow> bt_get (fold (bt_upsert_newer upd key) vs m) k = bt_get m k"
  by (induction vs arbitrary: m) (auto simp: get_upsert)

lemma get_fold_upsert:
  assumes "v \<in> set vs" and "distinct (map key vs)"
  shows "bt_get (fold (bt_upsert_newer upd key) vs m) (key v) = bt_get (bt_upsert_newer upd key v m) (key v)"
  using assms
proof (induction vs arbitrary: m)
  case (Cons x vs)
  show ?case
  proof (cases "x = v")
    case True
    then show ?thesis using Cons.prems by (simp add: get_fold_upsert_other)
  next
    case False
    then have x: "key x \<noteq> key v" "v \<in> set vs" using Cons.prems(1,2) by auto
    then have "bt_get (bt_upsert_newer upd key x m) (key v) = bt_get m (key v)" by (simp add: get_upsert)
    with x show ?thesis using Cons.IH [of "bt_upsert_newer upd key x m"] Cons.prems(2) by (simp add: get_upsert)
  qed
qed simp

text \<open>
  What the code does to the entries of one tenant, seen through the serialisation. A map that refuses older
  values keeps the entry it has when the staged one is older.
\<close>

definition patched ::
    "('v \<Rightarrow> datetime) \<Rightarrow> (operation_resource \<Rightarrow> json option) \<Rightarrow> ('v \<Rightarrow> operation_resource) \<Rightarrow> ('v \<Rightarrow> string) \<Rightarrow> string
      \<Rightarrow> ('k, 'v) btree_map \<Rightarrow> ('k, 'v) btree_map \<Rightarrow> ('k, 'v) btree_map \<Rightarrow> bool" where
  "patched upd to_value as_resource tenant t before after result =
     (\<forall>k. case bt_get after k of
        Some v \<Rightarrow>
          if tenant v = t \<and> (case bt_get before k of Some e \<Rightarrow> upd e \<le> upd v | None \<Rightarrow> True)
          then (case bt_get result k of
                  Some w \<Rightarrow> to_value (as_resource w) = to_value (as_resource v) | None \<Rightarrow> False)
          else bt_get result k = bt_get before k
      | None \<Rightarrow> bt_get result k = bt_get before k)"

text \<open>A map whose keys are those of its values, as every write of the store keeps it.\<close>

definition well_keyed :: "('v \<Rightarrow> 'k::linorder) \<Rightarrow> ('k, 'v) btree_map \<Rightarrow> bool" where
  "well_keyed key m = (bt_inv m \<and> (\<forall>(k, v)\<in>set m. key v = k))"

lemma well_keyed_iff: "well_keyed key m \<longleftrightarrow> bt_inv m \<and> (\<forall>k v. bt_get m k = Some v \<longrightarrow> key v = k)"
  by (auto simp: well_keyed_def bt_entry_get dest: map_of_SomeD)

lemma well_keyed_upsert: "well_keyed key m \<Longrightarrow> well_keyed key (fold (bt_upsert_newer upd key) vs m)"
proof (induction vs arbitrary: m)
  case (Cons v vs)
  have "well_keyed key (bt_upsert_newer upd key v m)"
    using Cons.prems by (auto simp: well_keyed_iff get_upsert bt_upsert_newer_def bt_inv_insert bt_get_insert
        split: option.splits if_splits)
  then show ?case using Cons.IH by simp
qed simp

lemma well_keyed_get:
  assumes "well_keyed key m"
  shows "v \<in> snd ` set m \<longleftrightarrow> bt_get m (key v) = Some v"
proof
  note wk = assms
  then have get: "(k, v) \<in> set m \<longleftrightarrow> bt_get m k = Some v" for k v
    by (simp add: well_keyed_def bt_entry_get)
  show "v \<in> snd ` set m \<Longrightarrow> bt_get m (key v) = Some v"
  proof -
    assume "v \<in> snd ` set m"
    then obtain k where k: "(k, v) \<in> set m" by auto
    with wk have "key v = k" by (auto simp: well_keyed_def)
    with k get show ?thesis by simp
  qed
  show "bt_get m (key v) = Some v \<Longrightarrow> v \<in> snd ` set m"
    by (force dest: map_of_SomeD)
qed

lemma well_keyed_distinct: "well_keyed key m \<Longrightarrow> distinct (map key (map snd m))"
proof -
  assume "well_keyed key m"
  then have "map key (map snd m) = map fst m" "distinct (map fst m)"
    by (auto simp: well_keyed_def bt_inv_distinct)
  then show ?thesis by (simp only:)
qed

locale projected_map =
  fixes field :: "store_data \<Rightarrow> ('k::linorder, 'v) btree_map"
    and carried :: "operation_resource \<Rightarrow> 'v list"
    and upd :: "'v \<Rightarrow> datetime"
    and key :: "'v \<Rightarrow> 'k"
    and as_resource :: "'v \<Rightarrow> operation_resource"
    and tenant :: "'v \<Rightarrow> string"
  assumes publish_one:
    "field (publish_resource_cache staged t r d) = fold (bt_upsert_newer upd key) (carried r) (field d)"
  and carried_by_diff:
    "bt_inv (st_event_by_id after) \<Longrightarrow>
      mset (concat (map carried (mutation_resources char_lower to_value t before after)))
       = mset (filter (\<lambda>v. tenant v = t
           \<and> serialized_changed to_value as_resource (bt_get (field before) (key v)) v) (map snd (field after)))"
begin

lemma publish_all:
  "field (fold (publish_resource_cache staged t) rs d)
     = fold (bt_upsert_newer upd key) (concat (map carried rs)) (field d)"
  by (induction rs arbitrary: d) (simp_all add: publish_one)

lemma diff_patches:
  assumes ev: "bt_inv (st_event_by_id after)" and key: "well_keyed key (field after)"
  shows "patched upd to_value as_resource tenant t (field before) (field after)
    (field (fold (publish_resource_cache staged t) (mutation_resources char_lower to_value t before after) before))"
proof -
  let ?vs = "concat (map carried (mutation_resources char_lower to_value t before after))"
  let ?c = "\<lambda>v. tenant v = t \<and> serialized_changed to_value as_resource (bt_get (field before) (key v)) v"
  note m = carried_by_diff [OF ev, where char_lower = char_lower and to_value = to_value and t = t and before = before]
  have vs: "set ?vs = {v. ?c v \<and> bt_get (field after) (key v) = Some v}"
    using mset_eq_setD [OF m] well_keyed_get [OF key] by (auto simp: image_iff)
  have dist: "distinct (map key ?vs)"
  proof -
    have "distinct (map key (filter ?c (map snd (field after))))"
      using well_keyed_distinct [OF key] by (rule distinct_map_filter)
    moreover have "mset (map key ?vs) = mset (map key (filter ?c (map snd (field after))))"
      by (simp only: mset_map m)
    ultimately show ?thesis using mset_eq_imp_distinct_iff by blast
  qed
  have keyed: "bt_get (field after) k = Some v \<Longrightarrow> key v = k" for k v
    using key by (auto simp: well_keyed_def dest!: map_of_SomeD)
  have at_key: "bt_get (fold (bt_upsert_newer upd key) ?vs (field before)) k
      = (if case bt_get (field before) k of Some e \<Rightarrow> upd e \<le> upd v | None \<Rightarrow> True then Some v else bt_get (field before) k)"
    if at: "bt_get (field after) k = Some v" "?c v" for k v
  proof -
    have "v \<in> set ?vs" using vs at keyed by auto
    from get_fold_upsert [OF this dist, of upd "field before"] keyed [OF at(1)] show ?thesis
      by (auto simp: get_upsert split: option.split)
  qed
  have kept: "bt_get (fold (bt_upsert_newer upd key) ?vs (field before)) k = bt_get (field before) k"
    if "\<And>v. bt_get (field after) k = Some v \<Longrightarrow> \<not> ?c v" for k
  proof (rule get_fold_upsert_other)
    show "k \<notin> key ` set ?vs" using vs that by auto
  qed
  show ?thesis
    unfolding patched_def publish_all
  proof (intro allI)
    fix k
    show "case bt_get (field after) k of
        Some v \<Rightarrow> if tenant v = t \<and> (case bt_get (field before) k of Some e \<Rightarrow> upd e \<le> upd v | None \<Rightarrow> True)
          then (case bt_get (fold (bt_upsert_newer upd key) ?vs (field before)) k of
                  Some w \<Rightarrow> to_value (as_resource w) = to_value (as_resource v) | None \<Rightarrow> False)
          else bt_get (fold (bt_upsert_newer upd key) ?vs (field before)) k = bt_get (field before) k
      | None \<Rightarrow> bt_get (fold (bt_upsert_newer upd key) ?vs (field before)) k = bt_get (field before) k"
    proof (cases "bt_get (field after) k")
      case None
      then show ?thesis using kept [of k] by simp
    next
      case (Some v)
      show ?thesis
      proof (cases "?c v")
        case True
        then show ?thesis using at_key [OF Some True] Some by auto
      next
        case False
        then have "bt_get (fold (bt_upsert_newer upd key) ?vs (field before)) k = bt_get (field before) k"
          using kept [of k] Some by simp
        then show ?thesis
          using False Some keyed [OF Some] by (auto simp: serialized_changed_def split: option.splits)
      qed
    qed
  qed
qed

lemma publication_keyed: "well_keyed key (field d) \<Longrightarrow> well_keyed key (field (publish_resource_cache staged t r d))"
  unfolding publish_one by (rule well_keyed_upsert)

end

section \<open>What a publication leaves alone\<close>

text \<open>The fields that hold one value per key and that no deletion touches.\<close>

definition keyed_part where
  "keyed_part d =
     (st_user_indexes d, st_state_items d, st_insights d, st_datasets d, st_snapshots d, st_sessions d,
      st_harness_components d, st_harness_changes d, st_harness_verdicts d, st_eval_cases d,
      st_eval_runs d, st_eval_case_results d, st_eval_overviews d)"

lemma fold_frame: "(\<And>x d. K (g x d) = K d) \<Longrightarrow> K (fold g xs d) = K d"
  by (induction xs arbitrary: d) simp_all

lemma publish_row_frame: "keyed_part (publish_row x d) = keyed_part d \<and> st_event_by_id (publish_row x d) = st_event_by_id d"
  by (cases "json_get_str x ''snapshot_id''"; cases "json_get_str x ''id''")
    (simp_all only: publish_row_def Let_def option.case keyed_part_def, simp_all)

lemma one_frames:
  "keyed_part (publish_event e d) = keyed_part d"
  "keyed_part (publish_revision rv d) = keyed_part d"
  "keyed_part (upsert_source_document_cache x d) = keyed_part d"
  "keyed_part (publish_component_revision cr d) = keyed_part d"
  "keyed_part (upsert_ingest_task_cache k d) = keyed_part d"
  "keyed_part (publish_task_deletion i d) = keyed_part d"
  "keyed_part (publish_ingest_result r d) = keyed_part d"
  "keyed_part (publish_source_deletion t sid target d) = keyed_part d"
  "keyed_part (publish_row j d) = keyed_part d"
  using publish_row_frame
  by (auto simp: keyed_part_def publish_event_def publish_revision_def upsert_source_document_cache_def
      publish_component_revision_def upsert_ingest_task_cache_def publish_task_deletion_def
      publish_ingest_result_def publish_source_deletion_def delete_revisions_def delete_source_documents_def
      Let_def split: option.split company_source_delete_target.split)

lemma event_frames:
  "st_event_by_id (publish_revision rv d) = st_event_by_id d"
  "st_event_by_id (upsert_source_document_cache x d) = st_event_by_id d"
  "st_event_by_id (publish_component_revision cr d) = st_event_by_id d"
  "st_event_by_id (upsert_ingest_task_cache k d) = st_event_by_id d"
  "st_event_by_id (publish_task_deletion i d) = st_event_by_id d"
  "st_event_by_id (publish_ingest_result r d) = st_event_by_id d"
  "st_event_by_id (publish_source_deletion t sid target d) = st_event_by_id d"
  "st_event_by_id (publish_row j d) = st_event_by_id d"
  using publish_row_frame
  by (auto simp: publish_revision_def upsert_source_document_cache_def
      publish_component_revision_def upsert_ingest_task_cache_def publish_task_deletion_def
      publish_ingest_result_def publish_source_deletion_def delete_revisions_def delete_source_documents_def
      Let_def split: option.split company_source_delete_target.split)

lemma fold_frames:
  "keyed_part (fold publish_event es d) = keyed_part d"
  "keyed_part (fold upsert_source_document_cache xs d) = keyed_part d"
  "keyed_part (fold publish_component_revision crs d) = keyed_part d"
  "keyed_part (fold upsert_ingest_task_cache ks d) = keyed_part d"
  "keyed_part (fold publish_task_deletion ids d) = keyed_part d"
  "keyed_part (fold publish_row js d) = keyed_part d"
  "st_event_by_id (fold upsert_source_document_cache xs d) = st_event_by_id d"
  "st_event_by_id (fold publish_component_revision crs d) = st_event_by_id d"
  "st_event_by_id (fold upsert_ingest_task_cache ks d) = st_event_by_id d"
  "st_event_by_id (fold publish_task_deletion ids d) = st_event_by_id d"
  "st_event_by_id (fold publish_row js d) = st_event_by_id d"
  by (intro fold_frame one_frames event_frames)+

lemmas frames [simp] =
  one_frames [unfolded keyed_part_def prod.inject] fold_frames [unfolded keyed_part_def prod.inject] event_frames

lemma event_by_id_fold:
  "st_event_by_id (fold publish_event es d) = fold (bt_upsert_newer (\<lambda>_. 0) he_id) es (st_event_by_id d)"
  by (induction es arbitrary: d) (simp_all add: publish_event_def)

end
