(* ===== verification/Mutation_Complete.thy ===== *)
theory Mutation_Complete
  imports Mutation_Patch
begin

text \<open>
  The keyed maps of the store as instances of \<open>projected_map\<close>, and the property that projecting the
  difference of a mutation reproduces the staged values.
\<close>

section \<open>Kinds of resources\<close>

definition resource_kind :: "operation_resource \<Rightarrow> nat" where
  "resource_kind r = (case r of
     EnsureUserEventIndex _ \<Rightarrow> 0 | HistoryEvents _ \<Rightarrow> 1 | ContextNodes _ _ \<Rightarrow> 2 | StateItem _ \<Rightarrow> 3
   | Insight _ \<Rightarrow> 4 | CompanySource _ \<Rightarrow> 5 | SourceRevision _ \<Rightarrow> 6 | DeleteCompanySourceIndex _ _ \<Rightarrow> 7
   | SourceDocuments _ \<Rightarrow> 8 | ParseArtifacts _ \<Rightarrow> 9 | StructuredSnapshot _ \<Rightarrow> 10 | Dataset _ \<Rightarrow> 11
   | StructuredRows _ \<Rightarrow> 12 | StructuredSummary _ \<Rightarrow> 13 | Session _ \<Rightarrow> 14 | Trace _ \<Rightarrow> 15 | Links _ \<Rightarrow> 16
   | HarnessComponents _ _ \<Rightarrow> 17 | HarnessChanges _ \<Rightarrow> 18 | HarnessVerdicts _ \<Rightarrow> 19 | IngestTask _ \<Rightarrow> 20
   | IngestTasks _ \<Rightarrow> 21 | DeleteIngestTasks _ \<Rightarrow> 22 | IngestResult _ \<Rightarrow> 23 | EvalCase _ \<Rightarrow> 24
   | EvalRun _ \<Rightarrow> 25 | EvalCaseResults _ \<Rightarrow> 26 | EvalOverview _ \<Rightarrow> 27)"

lemma kind_simps [simp]:
  "resource_kind (EnsureUserEventIndex x) = 0" "resource_kind (HistoryEvents es) = 1" "resource_kind (ContextNodes u ns) = 2"
  "resource_kind (StateItem si) = 3" "resource_kind (Insight ins) = 4" "resource_kind (CompanySource cs) = 5"
  "resource_kind (SourceRevision sr) = 6" "resource_kind (DeleteCompanySourceIndex i tg) = 7" "resource_kind (SourceDocuments ds) = 8"
  "resource_kind (ParseArtifacts pas) = 9" "resource_kind (StructuredSnapshot sn) = 10" "resource_kind (Dataset dt) = 11"
  "resource_kind (StructuredRows rows) = 12" "resource_kind (StructuredSummary sm) = 13" "resource_kind (Session se) = 14"
  "resource_kind (Trace tr) = 15" "resource_kind (Links ls) = 16" "resource_kind (HarnessComponents hcs hrs) = 17"
  "resource_kind (HarnessChanges hch) = 18" "resource_kind (HarnessVerdicts hv) = 19" "resource_kind (IngestTask it) = 20"
  "resource_kind (IngestTasks its) = 21" "resource_kind (DeleteIngestTasks ids) = 22" "resource_kind (IngestResult ir) = 23"
  "resource_kind (EvalCase ec) = 24" "resource_kind (EvalRun er) = 25" "resource_kind (EvalCaseResults ecr) = 26"
  "resource_kind (EvalOverview eo) = 27"
  by (simp_all add: resource_kind_def)

lemma in_if_any: "r \<in> set (if_any as_resource vs) \<longleftrightarrow> vs \<noteq> [] \<and> r = as_resource vs"
  by (simp add: if_any_def)

lemma group_kinds:
  "r \<in> set (index_resources v t b a) \<Longrightarrow> resource_kind r = 0"
  "r \<in> set (event_resources v t b a) \<Longrightarrow> resource_kind r = 1"
  "r \<in> set (node_resources v t b a) \<Longrightarrow> resource_kind r = 2"
  "r \<in> set (session_and_link_mutation_resources v t b a) \<Longrightarrow> resource_kind r \<in> {14, 16}"
  "r \<in> set (eval_mutation_resources v t b a) \<Longrightarrow> resource_kind r \<in> {24..27}"
  by (auto simp: index_resources_def event_resources_def node_resources_def
      session_and_link_mutation_resources_def eval_mutation_resources_def in_if_any Let_def)

lemma source_kinds: "r \<in> set (source_resources cl v t b a) \<Longrightarrow> resource_kind r \<in> {5..9}"
  by (auto simp: source_resources_def company_source_deletions_def in_if_any Let_def)

lemma structured_kinds: "r \<in> set (structured_mutation_resources v t b a) \<Longrightarrow> resource_kind r \<in> {10..13}"
proof -
  have rows: "r \<in> set (case m of None \<Rightarrow> [] | Some rows \<Rightarrow> if P rows then [StructuredRows rows] else []) \<Longrightarrow> resource_kind r = 12"
    for m and P :: "json list \<Rightarrow> bool" by (auto split: option.splits if_splits)
  assume "r \<in> set (structured_mutation_resources v t b a)"
  then show ?thesis
    unfolding structured_mutation_resources_def set_append set_map set_concat Un_iff UN_iff bex_simps
    by (elim disjE imageE bexE) (use rows in \<open>auto simp: case_prod_beta\<close>)
qed

lemma operational_kinds:
  "r \<in> set (operational_mutation_resources v t b a) \<Longrightarrow> resource_kind r \<in> {17..27}"
  using group_kinds(5) [of r v t b a]
  by (auto simp: operational_mutation_resources_def in_if_any Let_def)

text \<open>A map collects only from resources of its own resource_kind.\<close>

definition collects :: "(operation_resource \<Rightarrow> 'v list) \<Rightarrow> nat \<Rightarrow> bool" where
  "collects carried k = (\<forall>r. resource_kind r \<noteq> k \<longrightarrow> carried r = [])"

definition collected :: "(operation_resource \<Rightarrow> 'v list) \<Rightarrow> operation_resource list \<Rightarrow> 'v list" where
  "collected carried rs = concat (map carried rs)"

lemma collected_simps [simp]:
  "collected c [] = []" "collected c (xs @ ys) = collected c xs @ collected c ys"
  "collected c (r # xs) = c r @ collected c xs"
  by (simp_all add: collected_def)

lemma collected_none:
  "collects c k \<Longrightarrow> (\<And>r. r \<in> set g \<Longrightarrow> resource_kind r \<noteq> k) \<Longrightarrow> collected c g = []"
  by (auto simp: collected_def collects_def)

lemma collected_each: "(\<And>x. c (as_resource x) = [x]) \<Longrightarrow> collected c (map as_resource xs) = xs"
  by (induction xs) (simp_all add: collected_def)

lemma collected_if_any: "(\<And>xs. c (as_resource xs) = xs) \<Longrightarrow> collected c (if_any as_resource xs) = xs"
  by (simp add: if_any_def)

lemma skip_kinds:
  assumes "collects c k"
  shows "k \<noteq> 0 \<Longrightarrow> collected c (index_resources v t b a) = []"
    and "k \<noteq> 1 \<Longrightarrow> collected c (event_resources v t b a) = []"
    and "k \<noteq> 2 \<Longrightarrow> collected c (node_resources v t b a) = []"
    and "k \<noteq> 3 \<Longrightarrow> collected c (map StateItem items) = []"
    and "k \<noteq> 4 \<Longrightarrow> collected c (map Insight insights) = []"
    and "k \<notin> {5..9} \<Longrightarrow> collected c (source_resources cl v t b a) = []"
    and "k \<notin> {10..13} \<Longrightarrow> collected c (structured_mutation_resources v t b a) = []"
    and "k \<notin> {14, 16} \<Longrightarrow> collected c (session_and_link_mutation_resources v t b a) = []"
    and "k \<notin> {17..27} \<Longrightarrow> collected c (operational_mutation_resources v t b a) = []"
    and "k \<notin> {24..27} \<Longrightarrow> collected c (eval_mutation_resources v t b a) = []"
proof -
  have none: "(\<And>r. r \<in> set g \<Longrightarrow> resource_kind r \<noteq> k) \<Longrightarrow> collected c g = []" for g
    using assms by (rule collected_none)
  show "k \<noteq> 0 \<Longrightarrow> collected c (index_resources v t b a) = []" by (rule none) (simp add: group_kinds)
  show "k \<noteq> 1 \<Longrightarrow> collected c (event_resources v t b a) = []" by (rule none) (simp add: group_kinds)
  show "k \<noteq> 2 \<Longrightarrow> collected c (node_resources v t b a) = []" by (rule none) (simp add: group_kinds)
  show "k \<noteq> 3 \<Longrightarrow> collected c (map StateItem items) = []" by (rule none) (auto simp: resource_kind_def)
  show "k \<noteq> 4 \<Longrightarrow> collected c (map Insight insights) = []" by (rule none) (auto simp: resource_kind_def)
  show "k \<notin> {5..9} \<Longrightarrow> collected c (source_resources cl v t b a) = []"
    by (rule none) (use source_kinds in blast)
  show "k \<notin> {10..13} \<Longrightarrow> collected c (structured_mutation_resources v t b a) = []"
    by (rule none) (use structured_kinds in blast)
  show "k \<notin> {14, 16} \<Longrightarrow> collected c (session_and_link_mutation_resources v t b a) = []"
    by (rule none) (use group_kinds(4) in blast)
  show "k \<notin> {17..27} \<Longrightarrow> collected c (operational_mutation_resources v t b a) = []"
    by (rule none) (use operational_kinds in blast)
  show "k \<notin> {24..27} \<Longrightarrow> collected c (eval_mutation_resources v t b a) = []"
    by (rule none) (use group_kinds(5) in blast)
qed

section \<open>The maps\<close>

lemma collected_maps:
  "(\<And>x. c (as_resource x) = []) \<Longrightarrow> collected c (map as_resource xs) = []"
  "(\<And>y. c (as_group y) = []) \<Longrightarrow> collected c (if_any as_group ys) = []"
  by (simp_all add: collected_def if_any_def)

lemma collected_rows:
  "(\<And>x. c (StructuredRows x) = []) \<Longrightarrow>
     collected c (concat (map (\<lambda>i. case m i of None \<Rightarrow> [] | Some rows \<Rightarrow> if P i rows then [StructuredRows rows] else []) ids)) = []"
  by (induction ids) (simp_all split: option.split)

lemma collected_summaries:
  "(\<And>y. c (StructuredSummary y) = []) \<Longrightarrow> collected c (map (\<lambda>(_, y). StructuredSummary y) es) = []"
  by (induction es) auto

lemmas collected_structured = collected_rows collected_summaries

lemma grouped_mset:
  assumes "bt_inv m"
  shows "mset (concat (map snd (bt_insert k (bt_or_default m k @ [e]) m))) = add_mset e (mset (concat (map snd m)))"
  using assms
proof (induction m)
  case (Cons x m)
  obtain a b where x: "x = (a, b)" by (cases x)
  have inv: "bt_inv m" and lt: "\<forall>y\<in>set (map fst m). a < y" using Cons.prems by (auto simp: bt_inv_def x)
  consider "k < a" | "k = a" | "a < k" by (metis linorder_cases)
  then show ?case
  proof cases
    case 1
    then have "bt_get (x # m) k = None" using lt x by (auto simp: map_of_eq_None_iff)
    with 1 show ?thesis by (simp add: x bt_or_default_def)
  next
    case 3
    then show ?thesis using Cons.IH [OF inv] by (simp add: x bt_or_default_def)
  qed (simp add: x bt_or_default_def)
qed (simp add: bt_or_default_def)

lemma grouped_events_mset:
  "bt_inv m \<Longrightarrow> mset (concat (map snd (fold (\<lambda>e m. bt_insert (f e) (bt_or_default m (f e) @ [e]) m) es m)))
     = mset es + mset (concat (map snd m))"
  by (induction es arbitrary: m) (simp_all add: grouped_mset bt_inv_insert)

definition carried_indexes where
  "carried_indexes r = (case r of EnsureUserEventIndex i \<Rightarrow> [i] | _ \<Rightarrow> [])"

lemma carried_indexes: "collects carried_indexes 0"
  by (auto simp: collects_def carried_indexes_def resource_kind_def split: operation_resource.splits)

definition carried_state_items where
  "carried_state_items r = (case r of StateItem i \<Rightarrow> [i] | _ \<Rightarrow> [])"

lemma carried_state_items: "collects carried_state_items 3"
  by (auto simp: collects_def carried_state_items_def resource_kind_def split: operation_resource.splits)

definition carried_insights where
  "carried_insights r = (case r of Insight i \<Rightarrow> [i] | _ \<Rightarrow> [])"

lemma carried_insights: "collects carried_insights 4"
  by (auto simp: collects_def carried_insights_def resource_kind_def split: operation_resource.splits)

definition carried_datasets where
  "carried_datasets r = (case r of Dataset d \<Rightarrow> [d] | _ \<Rightarrow> [])"

lemma carried_datasets: "collects carried_datasets 11"
  by (auto simp: collects_def carried_datasets_def resource_kind_def split: operation_resource.splits)

definition carried_snapshots where
  "carried_snapshots r = (case r of StructuredSnapshot s \<Rightarrow> [s] | _ \<Rightarrow> [])"

lemma carried_snapshots: "collects carried_snapshots 10"
  by (auto simp: collects_def carried_snapshots_def resource_kind_def split: operation_resource.splits)

definition carried_sessions where
  "carried_sessions r = (case r of Session s \<Rightarrow> [s] | _ \<Rightarrow> [])"

lemma carried_sessions: "collects carried_sessions 14"
  by (auto simp: collects_def carried_sessions_def resource_kind_def split: operation_resource.splits)

definition carried_components where
  "carried_components r = (case r of HarnessComponents cs _ \<Rightarrow> cs | _ \<Rightarrow> [])"

lemma carried_components: "collects carried_components 17"
  by (auto simp: collects_def carried_components_def resource_kind_def split: operation_resource.splits)

definition carried_changes where
  "carried_changes r = (case r of HarnessChanges cs \<Rightarrow> cs | _ \<Rightarrow> [])"

lemma carried_changes: "collects carried_changes 18"
  by (auto simp: collects_def carried_changes_def resource_kind_def split: operation_resource.splits)

definition carried_verdicts where
  "carried_verdicts r = (case r of HarnessVerdicts vs \<Rightarrow> vs | _ \<Rightarrow> [])"

lemma carried_verdicts: "collects carried_verdicts 19"
  by (auto simp: collects_def carried_verdicts_def resource_kind_def split: operation_resource.splits)

definition carried_eval_cases where
  "carried_eval_cases r = (case r of EvalCase c \<Rightarrow> [c] | _ \<Rightarrow> [])"

lemma carried_eval_cases: "collects carried_eval_cases 24"
  by (auto simp: collects_def carried_eval_cases_def resource_kind_def split: operation_resource.splits)

definition carried_eval_runs where
  "carried_eval_runs r = (case r of EvalRun c \<Rightarrow> [c] | _ \<Rightarrow> [])"

lemma carried_eval_runs: "collects carried_eval_runs 25"
  by (auto simp: collects_def carried_eval_runs_def resource_kind_def split: operation_resource.splits)

definition carried_eval_results where
  "carried_eval_results r = (case r of EvalCaseResults rs \<Rightarrow> rs | _ \<Rightarrow> [])"

lemma carried_eval_results: "collects carried_eval_results 26"
  by (auto simp: collects_def carried_eval_results_def resource_kind_def split: operation_resource.splits)

definition carried_eval_overviews where
  "carried_eval_overviews r = (case r of EvalOverview v \<Rightarrow> [v] | _ \<Rightarrow> [])"

lemma carried_eval_overviews: "collects carried_eval_overviews 27"
  by (auto simp: collects_def carried_eval_overviews_def resource_kind_def split: operation_resource.splits)

text \<open>Every keyed map of the store is projected by the publication and filled by the difference.\<close>

interpretation indexes: projected_map st_user_indexes carried_indexes "\<lambda>_. 0" "\<lambda>i. (uei_tenant_id i, uei_owner_user_id_hash i)" "EnsureUserEventIndex" uei_tenant_id
proof
  show "st_user_indexes (publish_resource_cache staged t r d) = fold (bt_upsert_newer (\<lambda>_. 0) (\<lambda>i. (uei_tenant_id i, uei_owner_user_id_hash i))) (carried_indexes r) (st_user_indexes d)" for staged t r d
    by (cases r) (simp_all add: publish_resource_cache_def carried_indexes_def bt_extend_def split: option.split)
  have "collected carried_indexes (mutation_resources cl v t b a)
      = changed_values v (EnsureUserEventIndex) uei_tenant_id (\<lambda>i. (uei_tenant_id i, uei_owner_user_id_hash i)) uei_id t (st_user_indexes b) (st_user_indexes a)" for cl v t b a
    by (simp add: mutation_resources_def index_resources_def skip_kinds [OF carried_indexes] collected_each collected_if_any collected_maps collected_structured carried_indexes_def)
  then show "mset (concat (map carried_indexes (mutation_resources cl v t b a)))
      = mset (filter (\<lambda>x. uei_tenant_id x = t \<and> serialized_changed v (EnsureUserEventIndex) (bt_get (st_user_indexes b) ((\<lambda>i. (uei_tenant_id i, uei_owner_user_id_hash i)) x)) x) (map snd (st_user_indexes a)))" for cl v t b a
    by (simp add: collected_def changed_values_def)
qed

interpretation state_items: projected_map st_state_items carried_state_items "si_updated_at" "\<lambda>i. (si_tenant_id i, si_owner_user_id i, si_natural_key i)" "StateItem" si_tenant_id
proof
  show "st_state_items (publish_resource_cache staged t r d) = fold (bt_upsert_newer (si_updated_at) (\<lambda>i. (si_tenant_id i, si_owner_user_id i, si_natural_key i))) (carried_state_items r) (st_state_items d)" for staged t r d
    by (cases r) (simp_all add: publish_resource_cache_def carried_state_items_def bt_extend_def split: option.split)
  have "collected carried_state_items (mutation_resources cl v t b a)
      = changed_values v (StateItem) si_tenant_id (\<lambda>i. (si_tenant_id i, si_owner_user_id i, si_natural_key i)) si_id t (st_state_items b) (st_state_items a)" for cl v t b a
    by (simp add: mutation_resources_def  skip_kinds [OF carried_state_items] collected_each collected_if_any collected_maps collected_structured carried_state_items_def)
  then show "mset (concat (map carried_state_items (mutation_resources cl v t b a)))
      = mset (filter (\<lambda>x. si_tenant_id x = t \<and> serialized_changed v (StateItem) (bt_get (st_state_items b) ((\<lambda>i. (si_tenant_id i, si_owner_user_id i, si_natural_key i)) x)) x) (map snd (st_state_items a)))" for cl v t b a
    by (simp add: collected_def changed_values_def)
qed

interpretation insights: projected_map st_insights carried_insights "ir_updated_at" "ir_id" "Insight" ir_tenant_id
proof
  show "st_insights (publish_resource_cache staged t r d) = fold (bt_upsert_newer (ir_updated_at) (ir_id)) (carried_insights r) (st_insights d)" for staged t r d
    by (cases r) (simp_all add: publish_resource_cache_def carried_insights_def bt_extend_def split: option.split)
  have "collected carried_insights (mutation_resources cl v t b a)
      = changed_values v (Insight) ir_tenant_id (ir_id) ir_id t (st_insights b) (st_insights a)" for cl v t b a
    by (simp add: mutation_resources_def  skip_kinds [OF carried_insights] collected_each collected_if_any collected_maps collected_structured carried_insights_def)
  then show "mset (concat (map carried_insights (mutation_resources cl v t b a)))
      = mset (filter (\<lambda>x. ir_tenant_id x = t \<and> serialized_changed v (Insight) (bt_get (st_insights b) ((ir_id) x)) x) (map snd (st_insights a)))" for cl v t b a
    by (simp add: collected_def changed_values_def)
qed

interpretation datasets: projected_map st_datasets carried_datasets "\<lambda>_. 0" "dr_dataset_key" "Dataset" dr_tenant_id
proof
  show "st_datasets (publish_resource_cache staged t r d) = fold (bt_upsert_newer (\<lambda>_. 0) (dr_dataset_key)) (carried_datasets r) (st_datasets d)" for staged t r d
    by (cases r) (simp_all add: publish_resource_cache_def carried_datasets_def bt_extend_def split: option.split)
  have "collected carried_datasets (mutation_resources cl v t b a)
      = changed_values v (Dataset) dr_tenant_id (dr_dataset_key) dr_dataset_key t (st_datasets b) (st_datasets a)" for cl v t b a
    by (simp add: mutation_resources_def structured_mutation_resources_def skip_kinds [OF carried_datasets] collected_each collected_if_any collected_maps collected_structured carried_datasets_def)
  then show "mset (concat (map carried_datasets (mutation_resources cl v t b a)))
      = mset (filter (\<lambda>x. dr_tenant_id x = t \<and> serialized_changed v (Dataset) (bt_get (st_datasets b) ((dr_dataset_key) x)) x) (map snd (st_datasets a)))" for cl v t b a
    by (simp add: collected_def changed_values_def)
qed

interpretation snapshots: projected_map st_snapshots carried_snapshots "\<lambda>_. 0" "ss_id" "StructuredSnapshot" ss_tenant_id
proof
  show "st_snapshots (publish_resource_cache staged t r d) = fold (bt_upsert_newer (\<lambda>_. 0) (ss_id)) (carried_snapshots r) (st_snapshots d)" for staged t r d
    by (cases r) (simp_all add: publish_resource_cache_def carried_snapshots_def bt_extend_def split: option.split)
  have "collected carried_snapshots (mutation_resources cl v t b a)
      = changed_values v (StructuredSnapshot) ss_tenant_id (ss_id) ss_id t (st_snapshots b) (st_snapshots a)" for cl v t b a
    by (simp add: mutation_resources_def structured_mutation_resources_def skip_kinds [OF carried_snapshots] collected_each collected_if_any collected_maps collected_structured carried_snapshots_def)
  then show "mset (concat (map carried_snapshots (mutation_resources cl v t b a)))
      = mset (filter (\<lambda>x. ss_tenant_id x = t \<and> serialized_changed v (StructuredSnapshot) (bt_get (st_snapshots b) ((ss_id) x)) x) (map snd (st_snapshots a)))" for cl v t b a
    by (simp add: collected_def changed_values_def)
qed

interpretation sessions: projected_map st_sessions carried_sessions "\<lambda>_. 0" "sess_id" "Session" sess_tenant_id
proof
  show "st_sessions (publish_resource_cache staged t r d) = fold (bt_upsert_newer (\<lambda>_. 0) (sess_id)) (carried_sessions r) (st_sessions d)" for staged t r d
    by (cases r) (simp_all add: publish_resource_cache_def carried_sessions_def bt_extend_def split: option.split)
  have "collected carried_sessions (mutation_resources cl v t b a)
      = changed_values v (Session) sess_tenant_id (sess_id) sess_id t (st_sessions b) (st_sessions a)" for cl v t b a
    by (simp add: mutation_resources_def session_and_link_mutation_resources_def skip_kinds [OF carried_sessions] collected_each collected_if_any collected_maps collected_structured carried_sessions_def)
  then show "mset (concat (map carried_sessions (mutation_resources cl v t b a)))
      = mset (filter (\<lambda>x. sess_tenant_id x = t \<and> serialized_changed v (Session) (bt_get (st_sessions b) ((sess_id) x)) x) (map snd (st_sessions a)))" for cl v t b a
    by (simp add: collected_def changed_values_def)
qed

interpretation components: projected_map st_harness_components carried_components "\<lambda>_. 0" "hc_id" "\<lambda>c. HarnessComponents [c] []" hc_tenant_id
proof
  show "st_harness_components (publish_resource_cache staged t r d) = fold (bt_upsert_newer (\<lambda>_. 0) (hc_id)) (carried_components r) (st_harness_components d)" for staged t r d
    by (cases r) (simp_all add: publish_resource_cache_def carried_components_def bt_extend_def split: option.split)
  have "collected carried_components (mutation_resources cl v t b a)
      = changed_values v (\<lambda>c. HarnessComponents [c] []) hc_tenant_id (hc_id) hc_id t (st_harness_components b) (st_harness_components a)" for cl v t b a
    by (simp add: mutation_resources_def operational_mutation_resources_def Let_def skip_kinds [OF carried_components] collected_each collected_if_any collected_maps collected_structured carried_components_def)
  then show "mset (concat (map carried_components (mutation_resources cl v t b a)))
      = mset (filter (\<lambda>x. hc_tenant_id x = t \<and> serialized_changed v (\<lambda>c. HarnessComponents [c] []) (bt_get (st_harness_components b) ((hc_id) x)) x) (map snd (st_harness_components a)))" for cl v t b a
    by (simp add: collected_def changed_values_def)
qed

interpretation changes: projected_map st_harness_changes carried_changes "\<lambda>_. 0" "hcm_id" "\<lambda>c. HarnessChanges [c]" hcm_tenant_id
proof
  show "st_harness_changes (publish_resource_cache staged t r d) = fold (bt_upsert_newer (\<lambda>_. 0) (hcm_id)) (carried_changes r) (st_harness_changes d)" for staged t r d
    by (cases r) (simp_all add: publish_resource_cache_def carried_changes_def bt_extend_def split: option.split)
  have "collected carried_changes (mutation_resources cl v t b a)
      = changed_values v (\<lambda>c. HarnessChanges [c]) hcm_tenant_id (hcm_id) hcm_id t (st_harness_changes b) (st_harness_changes a)" for cl v t b a
    by (simp add: mutation_resources_def operational_mutation_resources_def Let_def skip_kinds [OF carried_changes] collected_each collected_if_any collected_maps collected_structured carried_changes_def)
  then show "mset (concat (map carried_changes (mutation_resources cl v t b a)))
      = mset (filter (\<lambda>x. hcm_tenant_id x = t \<and> serialized_changed v (\<lambda>c. HarnessChanges [c]) (bt_get (st_harness_changes b) ((hcm_id) x)) x) (map snd (st_harness_changes a)))" for cl v t b a
    by (simp add: collected_def changed_values_def)
qed

interpretation verdicts: projected_map st_harness_verdicts carried_verdicts "\<lambda>_. 0" "hcv_id" "\<lambda>v. HarnessVerdicts [v]" hcv_tenant_id
proof
  show "st_harness_verdicts (publish_resource_cache staged t r d) = fold (bt_upsert_newer (\<lambda>_. 0) (hcv_id)) (carried_verdicts r) (st_harness_verdicts d)" for staged t r d
    by (cases r) (simp_all add: publish_resource_cache_def carried_verdicts_def bt_extend_def split: option.split)
  have "collected carried_verdicts (mutation_resources cl v t b a)
      = changed_values v (\<lambda>v. HarnessVerdicts [v]) hcv_tenant_id (hcv_id) hcv_id t (st_harness_verdicts b) (st_harness_verdicts a)" for cl v t b a
    by (simp add: mutation_resources_def operational_mutation_resources_def Let_def skip_kinds [OF carried_verdicts] collected_each collected_if_any collected_maps collected_structured carried_verdicts_def)
  then show "mset (concat (map carried_verdicts (mutation_resources cl v t b a)))
      = mset (filter (\<lambda>x. hcv_tenant_id x = t \<and> serialized_changed v (\<lambda>v. HarnessVerdicts [v]) (bt_get (st_harness_verdicts b) ((hcv_id) x)) x) (map snd (st_harness_verdicts a)))" for cl v t b a
    by (simp add: collected_def changed_values_def)
qed

interpretation eval_cases: projected_map st_eval_cases carried_eval_cases "\<lambda>_. 0" "rec_id" "EvalCase" rec_tenant_id
proof
  show "st_eval_cases (publish_resource_cache staged t r d) = fold (bt_upsert_newer (\<lambda>_. 0) (rec_id)) (carried_eval_cases r) (st_eval_cases d)" for staged t r d
    by (cases r) (simp_all add: publish_resource_cache_def carried_eval_cases_def bt_extend_def split: option.split)
  have "collected carried_eval_cases (mutation_resources cl v t b a)
      = changed_values v (EvalCase) rec_tenant_id (rec_id) rec_id t (st_eval_cases b) (st_eval_cases a)" for cl v t b a
    by (simp add: mutation_resources_def operational_mutation_resources_def eval_mutation_resources_def Let_def skip_kinds [OF carried_eval_cases] collected_each collected_if_any collected_maps collected_structured carried_eval_cases_def)
  then show "mset (concat (map carried_eval_cases (mutation_resources cl v t b a)))
      = mset (filter (\<lambda>x. rec_tenant_id x = t \<and> serialized_changed v (EvalCase) (bt_get (st_eval_cases b) ((rec_id) x)) x) (map snd (st_eval_cases a)))" for cl v t b a
    by (simp add: collected_def changed_values_def)
qed

interpretation eval_runs: projected_map st_eval_runs carried_eval_runs "\<lambda>_. 0" "rer_id" "EvalRun" rer_tenant_id
proof
  show "st_eval_runs (publish_resource_cache staged t r d) = fold (bt_upsert_newer (\<lambda>_. 0) (rer_id)) (carried_eval_runs r) (st_eval_runs d)" for staged t r d
    by (cases r) (simp_all add: publish_resource_cache_def carried_eval_runs_def bt_extend_def split: option.split)
  have "collected carried_eval_runs (mutation_resources cl v t b a)
      = changed_values v (EvalRun) rer_tenant_id (rer_id) rer_id t (st_eval_runs b) (st_eval_runs a)" for cl v t b a
    by (simp add: mutation_resources_def operational_mutation_resources_def eval_mutation_resources_def Let_def skip_kinds [OF carried_eval_runs] collected_each collected_if_any collected_maps collected_structured carried_eval_runs_def)
  then show "mset (concat (map carried_eval_runs (mutation_resources cl v t b a)))
      = mset (filter (\<lambda>x. rer_tenant_id x = t \<and> serialized_changed v (EvalRun) (bt_get (st_eval_runs b) ((rer_id) x)) x) (map snd (st_eval_runs a)))" for cl v t b a
    by (simp add: collected_def changed_values_def)
qed

interpretation eval_results: projected_map st_eval_case_results carried_eval_results "\<lambda>_. 0" "rcr_id" "\<lambda>r. EvalCaseResults [r]" rcr_tenant_id
proof
  show "st_eval_case_results (publish_resource_cache staged t r d) = fold (bt_upsert_newer (\<lambda>_. 0) (rcr_id)) (carried_eval_results r) (st_eval_case_results d)" for staged t r d
    by (cases r) (simp_all add: publish_resource_cache_def carried_eval_results_def bt_extend_def split: option.split)
  have "collected carried_eval_results (mutation_resources cl v t b a)
      = changed_values v (\<lambda>r. EvalCaseResults [r]) rcr_tenant_id (rcr_id) rcr_id t (st_eval_case_results b) (st_eval_case_results a)" for cl v t b a
    by (simp add: mutation_resources_def operational_mutation_resources_def eval_mutation_resources_def Let_def skip_kinds [OF carried_eval_results] collected_each collected_if_any collected_maps collected_structured carried_eval_results_def)
  then show "mset (concat (map carried_eval_results (mutation_resources cl v t b a)))
      = mset (filter (\<lambda>x. rcr_tenant_id x = t \<and> serialized_changed v (\<lambda>r. EvalCaseResults [r]) (bt_get (st_eval_case_results b) ((rcr_id) x)) x) (map snd (st_eval_case_results a)))" for cl v t b a
    by (simp add: collected_def changed_values_def)
qed

interpretation eval_overviews: projected_map st_eval_overviews carried_eval_overviews "\<lambda>_. 0" "reo_run_id" "EvalOverview" reo_tenant_id
proof
  show "st_eval_overviews (publish_resource_cache staged t r d) = fold (bt_upsert_newer (\<lambda>_. 0) (reo_run_id)) (carried_eval_overviews r) (st_eval_overviews d)" for staged t r d
    by (cases r) (simp_all add: publish_resource_cache_def carried_eval_overviews_def bt_extend_def split: option.split)
  have "collected carried_eval_overviews (mutation_resources cl v t b a)
      = changed_values v (EvalOverview) reo_tenant_id (reo_run_id) reo_run_id t (st_eval_overviews b) (st_eval_overviews a)" for cl v t b a
    by (simp add: mutation_resources_def operational_mutation_resources_def eval_mutation_resources_def Let_def skip_kinds [OF carried_eval_overviews] collected_each collected_if_any collected_maps collected_structured carried_eval_overviews_def)
  then show "mset (concat (map carried_eval_overviews (mutation_resources cl v t b a)))
      = mset (filter (\<lambda>x. reo_tenant_id x = t \<and> serialized_changed v (EvalOverview) (bt_get (st_eval_overviews b) ((reo_run_id) x)) x) (map snd (st_eval_overviews a)))" for cl v t b a
    by (simp add: collected_def changed_values_def)
qed

definition carried_events where
  "carried_events r = (case r of HistoryEvents es \<Rightarrow> es | _ \<Rightarrow> [])"

lemma carried_events: "collects carried_events 1"
  by (auto simp: collects_def carried_events_def resource_kind_def split: operation_resource.splits)

lemma collected_events:
  "mset (collected carried_events (map (\<lambda>(_, es). HistoryEvents (sort_key he_id es)) g)) = mset (concat (map snd g))"
  by (induction g) (auto simp: collected_def carried_events_def)

interpretation events: projected_map st_event_by_id carried_events "\<lambda>_. 0" he_id "\<lambda>e. HistoryEvents [e]" he_tenant_id
proof
  show "st_event_by_id (publish_resource_cache staged t r d)
      = fold (bt_upsert_newer (\<lambda>_. 0) he_id) (carried_events r) (st_event_by_id d)" for staged t r d
    by (cases r) (simp_all add: publish_resource_cache_def carried_events_def event_by_id_fold split: option.split)
  have "collected carried_events (mutation_resources cl v t b a) = collected carried_events (event_resources v t b a)" for cl v t b a
    by (simp add: mutation_resources_def skip_kinds [OF carried_events])
  then show "mset (concat (map carried_events (mutation_resources cl v t b a)))
      = mset (filter (\<lambda>x. he_tenant_id x = t
          \<and> serialized_changed v (\<lambda>e. HistoryEvents [e]) (bt_get (st_event_by_id b) (he_id x)) x) (map snd (st_event_by_id a)))"
    for cl v t b a
    by (simp only: collected_def [symmetric] event_resources_def Let_def collected_events grouped_events_mset [OF bt_inv_Nil]) simp
qed

section \<open>The difference is complete\<close>

text \<open>Every map is keyed by its values; every publication keeps it so.\<close>

definition store_well_keyed :: "store_data \<Rightarrow> bool" where
  "store_well_keyed d =
     (well_keyed (\<lambda>i. (uei_tenant_id i, uei_owner_user_id_hash i)) (st_user_indexes d)
      \<and> well_keyed he_id (st_event_by_id d)
      \<and> well_keyed (\<lambda>i. (si_tenant_id i, si_owner_user_id i, si_natural_key i)) (st_state_items d)
      \<and> well_keyed ir_id (st_insights d)
      \<and> well_keyed dr_dataset_key (st_datasets d)
      \<and> well_keyed ss_id (st_snapshots d)
      \<and> well_keyed sess_id (st_sessions d)
      \<and> well_keyed hc_id (st_harness_components d)
      \<and> well_keyed hcm_id (st_harness_changes d)
      \<and> well_keyed hcv_id (st_harness_verdicts d)
      \<and> well_keyed rec_id (st_eval_cases d)
      \<and> well_keyed rer_id (st_eval_runs d)
      \<and> well_keyed rcr_id (st_eval_case_results d)
      \<and> well_keyed reo_run_id (st_eval_overviews d))"

lemma publication_keeps_keys:
  assumes "store_well_keyed d"
  shows "store_well_keyed (publish_resource_cache staged t r d)"
  using assms unfolding store_well_keyed_def
  by (intro conjI indexes.publication_keyed events.publication_keyed state_items.publication_keyed insights.publication_keyed
      datasets.publication_keyed snapshots.publication_keyed sessions.publication_keyed components.publication_keyed
      changes.publication_keyed verdicts.publication_keyed eval_cases.publication_keyed eval_runs.publication_keyed
      eval_results.publication_keyed eval_overviews.publication_keyed) blast+

definition store_patched ::
    "(operation_resource \<Rightarrow> json option) \<Rightarrow> string \<Rightarrow> store_data \<Rightarrow> store_data \<Rightarrow> store_data \<Rightarrow> bool" where
  "store_patched to_value t before after result =
     (patched (\<lambda>_. 0) to_value EnsureUserEventIndex uei_tenant_id t (st_user_indexes before) (st_user_indexes after) (st_user_indexes result)
      \<and> patched (\<lambda>_. 0) to_value (\<lambda>e. HistoryEvents [e]) he_tenant_id t (st_event_by_id before) (st_event_by_id after) (st_event_by_id result)
      \<and> patched si_updated_at to_value StateItem si_tenant_id t (st_state_items before) (st_state_items after) (st_state_items result)
      \<and> patched ir_updated_at to_value Insight ir_tenant_id t (st_insights before) (st_insights after) (st_insights result)
      \<and> patched (\<lambda>_. 0) to_value Dataset dr_tenant_id t (st_datasets before) (st_datasets after) (st_datasets result)
      \<and> patched (\<lambda>_. 0) to_value StructuredSnapshot ss_tenant_id t (st_snapshots before) (st_snapshots after) (st_snapshots result)
      \<and> patched (\<lambda>_. 0) to_value Session sess_tenant_id t (st_sessions before) (st_sessions after) (st_sessions result)
      \<and> patched (\<lambda>_. 0) to_value (\<lambda>c. HarnessComponents [c] []) hc_tenant_id t (st_harness_components before) (st_harness_components after) (st_harness_components result)
      \<and> patched (\<lambda>_. 0) to_value (\<lambda>c. HarnessChanges [c]) hcm_tenant_id t (st_harness_changes before) (st_harness_changes after) (st_harness_changes result)
      \<and> patched (\<lambda>_. 0) to_value (\<lambda>v. HarnessVerdicts [v]) hcv_tenant_id t (st_harness_verdicts before) (st_harness_verdicts after) (st_harness_verdicts result)
      \<and> patched (\<lambda>_. 0) to_value EvalCase rec_tenant_id t (st_eval_cases before) (st_eval_cases after) (st_eval_cases result)
      \<and> patched (\<lambda>_. 0) to_value EvalRun rer_tenant_id t (st_eval_runs before) (st_eval_runs after) (st_eval_runs result)
      \<and> patched (\<lambda>_. 0) to_value (\<lambda>r. EvalCaseResults [r]) rcr_tenant_id t (st_eval_case_results before) (st_eval_case_results after) (st_eval_case_results result)
      \<and> patched (\<lambda>_. 0) to_value EvalOverview reo_tenant_id t (st_eval_overviews before) (st_eval_overviews after) (st_eval_overviews result))"

lemmas all_diff_patches =
  indexes.diff_patches events.diff_patches state_items.diff_patches insights.diff_patches datasets.diff_patches snapshots.diff_patches sessions.diff_patches
  components.diff_patches changes.diff_patches verdicts.diff_patches eval_cases.diff_patches eval_runs.diff_patches eval_results.diff_patches eval_overviews.diff_patches

text \<open>
  C5: nothing a mutation changed is lost on the way to the journal, except where the store itself refuses it.
  Take a staged copy whose maps are filed under the keys of their values, as every publication leaves them. The
  resources computed from the store before a mutation and this copy, projected into the store before, give for
  every key of these fourteen maps the staged value of the tenant, up to what its serialisation shows, and leave
  every other key as it was. Two of the maps, the state items and the insights, refuse a value that is older
  than the one they hold: there such a key keeps the newer value it had.
\<close>

theorem mutation_difference_complete:
  assumes "store_well_keyed after"
  shows "store_patched to_value t before after
    (fold (publish_resource_cache staged t) (mutation_resources char_lower to_value t before after) before)"
proof -
  have ev: "bt_inv (st_event_by_id after)" using assms(1) by (simp add: store_well_keyed_def well_keyed_def)
  show ?thesis
    using assms unfolding store_patched_def store_well_keyed_def
    by (intro conjI) (rule all_diff_patches [OF ev], simp)+
qed

definition sample_session :: session_record where
  "sample_session =
     \<lparr>sess_id = ''s-1'', sess_tenant_id = ''acme'', sess_owner_user_id = ''u'', sess_title = ''t'',
      sess_status = ''open'', sess_messages = [], sess_created_at = 5\<rparr>"

definition staged_session_store :: store_data where
  "staged_session_store = empty_data\<lparr>st_sessions := [(''s-1'', sample_session)]\<rparr>"

definition sample_to_value :: "operation_resource \<Rightarrow> json option" where
  "sample_to_value r = (case r of Session s \<Rightarrow> Some (JString (sess_id s)) | _ \<Rightarrow> None)"

lemma staged_session_ok:
  "store_well_keyed staged_session_store"
  "bt_get (st_sessions staged_session_store) ''s-1'' = Some sample_session" "sess_tenant_id sample_session = ''acme''"
  by (simp_all add: staged_session_store_def empty_data_def store_well_keyed_def well_keyed_def bt_inv_def
      sample_session_def)

lemma patched_present:
  "patched (\<lambda>_. 0) v c tenant t b a r \<Longrightarrow> bt_get a k = Some x \<Longrightarrow> tenant x = t \<Longrightarrow> bt_get r k \<noteq> None"
  by (auto simp: patched_def split: option.splits dest!: spec [of _ k])

theorem mutation_difference_complete_witness:
  "bt_get (st_sessions (fold (publish_resource_cache empty_data ''acme'')
      (mutation_resources chars sample_to_value ''acme'' empty_data staged_session_store) empty_data)) ''s-1'' \<noteq> None"
proof -
  let ?r = "fold (publish_resource_cache empty_data ''acme'')
      (mutation_resources chars sample_to_value ''acme'' empty_data staged_session_store) empty_data"
  have "store_patched sample_to_value ''acme'' empty_data staged_session_store ?r"
    using staged_session_ok(1) by (rule mutation_difference_complete)
  then have "patched (\<lambda>_. 0) sample_to_value Session sess_tenant_id ''acme'' (st_sessions empty_data)
      (st_sessions staged_session_store) (st_sessions ?r)"
    unfolding store_patched_def by blast
  then show ?thesis using staged_session_ok(2,3) by (rule patched_present)
qed

end
