(* ===== verification/Operation_Routing.thy ===== *)
theory Operation_Routing
  imports Journal_Properties Util
begin

text \<open>
  Which search index an operation may write to (\<open>resolver.rs\<close> and the routing checks of \<open>store.rs\<close>).
  Every user has an event index and a personal context index, named by keyed hashes of tenant and
  user; company knowledge lives in one shared index. The checks run before each step is applied,
  on fresh and on persisted records alike. \<open>hex_mac\<close> is HMAC-SHA256 in hexadecimal, \<open>secret\<close> the
  index-hash secret of the process.
\<close>

section \<open>The resolver\<close>

record event_index_routing =
  eir_tenant_id :: string
  eir_owner_user_id_hash :: string
  eir_event_index_uid :: string
  eir_personal_context_index_uid :: string
  eir_strategy :: string
  eir_schema_version :: u32
  eir_settings_hash :: string
  eir_created :: bool
  eir_reused :: bool

definition event_index_schema_version :: u32 where "event_index_schema_version = 1"
definition event_settings_hash :: string where "event_settings_hash = ''events-v3''"

definition tenant_hash :: "(string \<Rightarrow> string \<Rightarrow> string) \<Rightarrow> string \<Rightarrow> string \<Rightarrow> string" where
  "tenant_hash hex_mac secret tenant_id = hmac_hex hex_mac secret ''tenant'' tenant_id 12"

definition user_hash :: "(string \<Rightarrow> string \<Rightarrow> string) \<Rightarrow> string \<Rightarrow> string \<Rightarrow> string" where
  "user_hash hex_mac secret owner = hmac_hex hex_mac secret ''user'' owner 16"

definition idempotency_hash :: "(string \<Rightarrow> string \<Rightarrow> string) \<Rightarrow> string \<Rightarrow> string \<Rightarrow> string" where
  "idempotency_hash hex_mac secret key = hmac_hex hex_mac secret ''idempotency'' key 24"

definition event_index_name :: "string \<Rightarrow> string \<Rightarrow> string" where
  "event_index_name th uh = ''rag_events__t_'' @ th @ ''__u_'' @ uh"

definition context_index_name :: "string \<Rightarrow> string \<Rightarrow> string" where
  "context_index_name th uh = ''rag_context__t_'' @ th @ ''__u_'' @ uh"

definition user_event_index_id :: "string \<Rightarrow> string \<Rightarrow> string" where
  "user_event_index_id th uh = ''uei__t_'' @ th @ ''__u_'' @ uh"

definition resolve ::
    "(string \<Rightarrow> string \<Rightarrow> string) \<Rightarrow> string \<Rightarrow> string \<Rightarrow> string \<Rightarrow> bool \<Rightarrow> bool \<Rightarrow> api_error + event_index_routing" where
  "resolve hex_mac secret tenant_id owner created reused =
     (let th = tenant_hash hex_mac secret tenant_id; uh = user_hash hex_mac secret owner;
          event_uid = event_index_name th uh; context_uid = context_index_name th uh in
      rbind (validate_meili_uid event_uid) (\<lambda>_.
      rbind (validate_meili_uid context_uid) (\<lambda>_. Inr
        \<lparr>eir_tenant_id = tenant_id, eir_owner_user_id_hash = uh, eir_event_index_uid = event_uid,
         eir_personal_context_index_uid = context_uid, eir_strategy = ''per_user'',
         eir_schema_version = event_index_schema_version, eir_settings_hash = event_settings_hash,
         eir_created = created, eir_reused = reused\<rparr>)))"

section \<open>Routes of a record\<close>

fun mutation_plan_error_display :: "mutation_plan_error \<Rightarrow> string" where
  "mutation_plan_error_display (InvalidPlan m) = ''invalid operation plan: '' @ m"
| "mutation_plan_error_display (UnknownStep s) = ''operation step `'' @ s @ ''` does not exist''"
| "mutation_plan_error_display (InvalidTransition s reason) =
     ''invalid transition for operation step `'' @ s @ ''`: '' @ reason"

text \<open>\<open>expected.is_some_and(|expected| actual != expected)\<close>\<close>

definition violates :: "string option \<Rightarrow> string \<Rightarrow> bool" where
  "violates expected actual = (case expected of Some e \<Rightarrow> actual \<noteq> e | None \<Rightarrow> False)"

definition index_route ::
    "string \<Rightarrow> string \<Rightarrow> string option \<Rightarrow> user_event_index \<Rightarrow> api_error + unit" where
  "index_route tenant_id th target index =
     (let uh = uei_owner_user_id_hash index in
      if uei_tenant_id index \<noteq> tenant_id \<or> uei_tenant_hash index \<noteq> th
        \<or> uei_id index \<noteq> user_event_index_id th uh
        \<or> uei_event_index_uid index \<noteq> event_index_name th uh
        \<or> uei_personal_context_index_uid index \<noteq> context_index_name th uh
        \<or> uei_schema_version index \<noteq> event_index_schema_version
        \<or> uei_settings_hash index \<noteq> event_settings_hash
        \<or> uei_status index \<noteq> ''active'' \<or> violates target uh
      then Inl (Internal ''persisted operation contains an invalid user-index route'') else Inr ())"

definition event_route ::
    "(string \<Rightarrow> string \<Rightarrow> string) \<Rightarrow> string \<Rightarrow> string \<Rightarrow> string option \<Rightarrow> history_event \<Rightarrow> api_error + unit" where
  "event_route hex_mac secret tenant_id target event =
     rbind (resolve hex_mac secret tenant_id (he_owner_user_id event) False True) (\<lambda>routing.
     if he_tenant_id event \<noteq> tenant_id
       \<or> he_owner_user_id_hash event \<noteq> eir_owner_user_id_hash routing
       \<or> he_event_index_uid event \<noteq> eir_event_index_uid routing
       \<or> he_event_index_schema_version event \<noteq> event_index_schema_version
       \<or> violates target (eir_owner_user_id_hash routing)
     then Inl (Internal ''persisted operation contains an invalid history-event route'') else Inr ())"

definition node_route ::
    "(string \<Rightarrow> string \<Rightarrow> string) \<Rightarrow> string \<Rightarrow> string \<Rightarrow> string option \<Rightarrow> string \<Rightarrow> context_node \<Rightarrow> api_error + unit" where
  "node_route hex_mac secret tenant_id target index_uid node =
     (if cn_tenant_id node \<noteq> tenant_id \<or> cn_index_uid node \<noteq> index_uid
      then Inl (Internal ''persisted operation contains an invalid context route'')
      else
        (case cn_owner_user_id node of
           Some owner \<Rightarrow>
             rbind (resolve hex_mac secret tenant_id owner False True) (\<lambda>routing.
             if index_uid \<noteq> eir_personal_context_index_uid routing
               \<or> cn_index_kind node \<noteq> ''personal'' \<or> cn_privacy node \<noteq> ''private''
               \<or> violates target (eir_owner_user_id_hash routing)
             then Inl (Internal ''persisted operation contains an invalid personal-context route'')
             else Inr ())
         | None \<Rightarrow>
             if index_uid \<noteq> ''rag_company_context'' \<or> cn_index_kind node \<noteq> ''company''
               \<or> cn_privacy node \<noteq> ''company''
             then Inl (Internal ''persisted operation contains an invalid company-context route'')
             else Inr ()))"

definition resource_route ::
    "(string \<Rightarrow> string \<Rightarrow> string) \<Rightarrow> string \<Rightarrow> string \<Rightarrow> string option \<Rightarrow> operation_resource \<Rightarrow> api_error + unit" where
  "resource_route hex_mac secret tenant_id target resource =
     (case resource of
        EnsureUserEventIndex index \<Rightarrow>
          index_route tenant_id (tenant_hash hex_mac secret tenant_id) target index
      | HistoryEvents events \<Rightarrow> checks (map (event_route hex_mac secret tenant_id target) events)
      | ContextNodes index_uid nodes \<Rightarrow>
          checks (map (node_route hex_mac secret tenant_id target index_uid) nodes)
      | Insight insight \<Rightarrow>
          if violates target (user_hash hex_mac secret (ir_owner_user_id insight))
          then Inl (Internal ''analysis insight does not match its target owner commitment'') else Inr ()
      | Links links \<Rightarrow>
          if (case target of
                Some expected \<Rightarrow> list_ex (\<lambda>link. case kl_owner_user_id link of
                    None \<Rightarrow> True | Some owner \<Rightarrow> user_hash hex_mac secret owner \<noteq> expected) links
              | None \<Rightarrow> False)
          then Inl (Internal ''analysis link does not match its target owner commitment'') else Inr ()
      | _ \<Rightarrow> Inr ())"

definition analysis_target :: "operation_record \<Rightarrow> api_error + string option" where
  "analysis_target record =
     (if or_operation_kind record = ''analysis.materialize'' then
        (case json_get_str (op_redacted_metadata (or_plan record)) ''target_owner_user_id_hash'' of
           Some h \<Rightarrow> Inr (Some h)
         | None \<Rightarrow> Inl (Internal ''analysis operation is missing its target owner commitment''))
      else Inr None)"

definition validate_operation_routing ::
    "(string \<Rightarrow> string \<Rightarrow> string) \<Rightarrow> string \<Rightarrow> operation_record \<Rightarrow> api_error + unit" where
  "validate_operation_routing hex_mac secret record =
     rbind (map_err (\<lambda>e. Internal (''invalid persisted operation record: '' @ mutation_plan_error_display e))
       (validate_operation_record record)) (\<lambda>_.
     rbind (analysis_target record) (\<lambda>target.
     checks (map (\<lambda>step. resource_route hex_mac secret (or_tenant_id record) target (os_resource step))
       (operation_steps (or_plan record)))))"

section \<open>Membership in the registry of user indexes\<close>

text \<open>
  What a step needs of the registry: the hash of an owner with, where the step fixes it, the uid of
  the event index, of the context index, and the whole index record.
\<close>

type_synonym index_requirement = "string \<times> string option \<times> string option \<times> user_event_index option"

definition same_user_index_identity :: "user_event_index \<Rightarrow> user_event_index \<Rightarrow> bool" where
  "same_user_index_identity a b =
     (uei_id a = uei_id b \<and> uei_tenant_id a = uei_tenant_id b \<and> uei_tenant_hash a = uei_tenant_hash b
      \<and> uei_owner_user_id_hash a = uei_owner_user_id_hash b
      \<and> uei_event_index_uid a = uei_event_index_uid b
      \<and> uei_personal_context_index_uid a = uei_personal_context_index_uid b
      \<and> uei_schema_version a = uei_schema_version b \<and> uei_settings_hash a = uei_settings_hash b
      \<and> uei_status a = uei_status b)"

definition find_operation_step :: "operation_record \<Rightarrow> string \<Rightarrow> api_error + operation_step" where
  "find_operation_step record step_id =
     ok_or (List.find (\<lambda>step. os_id step = step_id) (operation_steps (or_plan record)))
       (Internal (''operation step '' @ step_id @ '' is missing''))"

definition find_step_progress :: "operation_record \<Rightarrow> string \<Rightarrow> api_error + operation_step_progress" where
  "find_step_progress record step_id =
     ok_or (step_progress record step_id) (Internal (''operation step '' @ step_id @ '' is missing''))"

definition step_requirements ::
    "(string \<Rightarrow> string \<Rightarrow> string) \<Rightarrow> string \<Rightarrow> operation_record \<Rightarrow> string \<Rightarrow> operation_resource
      \<Rightarrow> api_error + index_requirement list" where
  "step_requirements hex_mac secret record step_id resource =
     (case resource of
        EnsureUserEventIndex index \<Rightarrow>
          rbind (find_step_progress record step_id) (\<lambda>progress. Inr
            (if sp_status progress \<noteq> StepCompleted then []
             else [(uei_owner_user_id_hash index, Some (uei_event_index_uid index),
                    Some (uei_personal_context_index_uid index), Some index)]))
      | HistoryEvents events \<Rightarrow>
          Inr (map (\<lambda>e. (he_owner_user_id_hash e, Some (he_event_index_uid e), None, None)) events)
      | ContextNodes index_uid nodes \<Rightarrow>
          Inr (List.map_filter (\<lambda>n. map_option (\<lambda>owner. (user_hash hex_mac secret owner, None, Some index_uid, None))
            (cn_owner_user_id n)) nodes)
      | _ \<Rightarrow> Inr [])"

definition check_requirement ::
    "string \<Rightarrow> (string \<Rightarrow> user_event_index option) \<Rightarrow> index_requirement \<Rightarrow> api_error + unit" where
  "check_requirement tenant_id registry req =
     (case req of (owner_hash, event_uid, context_uid, exact_index) \<Rightarrow>
      (case registry owner_hash of
         None \<Rightarrow> Inl (Internal ''persisted operation references an unregistered dynamic index'')
       | Some index \<Rightarrow>
           if uei_tenant_id index \<noteq> tenant_id \<or> uei_owner_user_id_hash index \<noteq> owner_hash
             \<or> uei_status index \<noteq> ''active''
             \<or> uei_schema_version index \<noteq> event_index_schema_version
             \<or> uei_settings_hash index \<noteq> event_settings_hash
             \<or> violates event_uid (uei_event_index_uid index)
             \<or> violates context_uid (uei_personal_context_index_uid index)
             \<or> (case exact_index of Some x \<Rightarrow> \<not> same_user_index_identity index x | None \<Rightarrow> False)
           then Inl (Internal ''persisted operation dynamic index is not in the reconciled registry'')
           else Inr ()))"

text \<open>
  \<open>registry\<close> is the registry passed by the caller or, without one, the live entries of the tenant:
  in both cases a map from owner hashes.
\<close>

definition validate_step_membership ::
    "(string \<Rightarrow> string \<Rightarrow> string) \<Rightarrow> string \<Rightarrow> operation_record \<Rightarrow> string
      \<Rightarrow> (string \<Rightarrow> user_event_index option) \<Rightarrow> api_error + unit" where
  "validate_step_membership hex_mac secret record step_id registry =
     rbind (find_operation_step record step_id) (\<lambda>step.
     rbind (step_requirements hex_mac secret record step_id (os_resource step)) (\<lambda>requirements.
     checks (map (check_requirement (or_tenant_id record) registry) requirements)))"

definition record_completed_registry_step ::
    "operation_record \<Rightarrow> string \<Rightarrow> (string \<Rightarrow> user_event_index option)
      \<Rightarrow> api_error + (string \<Rightarrow> user_event_index option)" where
  "record_completed_registry_step record step_id registry =
     rbind (find_step_progress record step_id) (\<lambda>progress.
     if sp_status progress \<noteq> StepCompleted then Inr registry
     else rbind (find_operation_step record step_id) (\<lambda>step. Inr
       (case os_resource step of
          EnsureUserEventIndex index \<Rightarrow> registry(uei_owner_user_id_hash index \<mapsto> index)
        | _ \<Rightarrow> registry)))"

section \<open>Where a routed resource goes\<close>

text \<open>The routes of the specification: index names are functions of tenant and owner alone.\<close>

definition resource_routed :: "(string \<Rightarrow> string \<Rightarrow> string) \<Rightarrow> string \<Rightarrow> string \<Rightarrow> operation_resource \<Rightarrow> bool" where
  "resource_routed hex_mac secret t res =
     (let th = tenant_hash hex_mac secret t; uh = user_hash hex_mac secret in
      case res of
        HistoryEvents es \<Rightarrow> list_all (\<lambda>e. he_tenant_id e = t
          \<and> he_owner_user_id_hash e = uh (he_owner_user_id e)
          \<and> he_event_index_uid e = event_index_name th (uh (he_owner_user_id e))) es
      | ContextNodes uid ns \<Rightarrow> list_all (\<lambda>n. cn_tenant_id n = t \<and> cn_index_uid n = uid
          \<and> (case cn_owner_user_id n of
               Some owner \<Rightarrow> uid = context_index_name th (uh owner) \<and> cn_privacy n = ''private''
             | None \<Rightarrow> uid = ''rag_company_context'' \<and> cn_privacy n = ''company'')) ns
      | EnsureUserEventIndex i \<Rightarrow> uei_tenant_id i = t
          \<and> uei_event_index_uid i = event_index_name th (uei_owner_user_id_hash i)
          \<and> uei_personal_context_index_uid i = context_index_name th (uei_owner_user_id_hash i)
      | _ \<Rightarrow> True)"

lemma resolve_Inr:
  "resolve m sec t owner c u = Inr r \<Longrightarrow>
     eir_owner_user_id_hash r = user_hash m sec owner
     \<and> eir_event_index_uid r = event_index_name (tenant_hash m sec t) (user_hash m sec owner)
     \<and> eir_personal_context_index_uid r = context_index_name (tenant_hash m sec t) (user_hash m sec owner)"
  by (auto simp: resolve_def Let_def rbind_Inr)

lemma event_route_Inr:
  "event_route m sec t target e = Inr u \<Longrightarrow>
     he_tenant_id e = t \<and> he_owner_user_id_hash e = user_hash m sec (he_owner_user_id e)
     \<and> he_event_index_uid e = event_index_name (tenant_hash m sec t) (user_hash m sec (he_owner_user_id e))"
  by (auto simp: event_route_def rbind_Inr split: if_splits dest!: resolve_Inr)

lemma node_route_Inr:
  "node_route m sec t target uid n = Inr u \<Longrightarrow>
     cn_tenant_id n = t \<and> cn_index_uid n = uid
     \<and> (case cn_owner_user_id n of
          Some owner \<Rightarrow> uid = context_index_name (tenant_hash m sec t) (user_hash m sec owner) \<and> cn_privacy n = ''private''
        | None \<Rightarrow> uid = ''rag_company_context'' \<and> cn_privacy n = ''company'')"
  by (auto simp: node_route_def rbind_Inr split: if_splits option.splits dest!: resolve_Inr)

lemma resource_route_Inr:
  assumes "resource_route m sec t target res = Inr ()"
  shows "resource_routed m sec t res"
proof (cases res)
  case (EnsureUserEventIndex i)
  with assms show ?thesis
    by (auto simp: resource_route_def resource_routed_def index_route_def Let_def split: if_splits)
next
  case (HistoryEvents es)
  with assms show ?thesis
    by (auto simp: resource_route_def resource_routed_def Let_def checks_Inr list_all_iff dest!: bspec event_route_Inr)
next
  case (ContextNodes uid ns)
  with assms have "\<forall>n\<in>set ns. node_route m sec t target uid n = Inr ()"
    by (simp add: resource_route_def checks_Inr)
  then show ?thesis
    using ContextNodes node_route_Inr by (fastforce simp: resource_routed_def Let_def list_all_iff)
qed (simp_all add: resource_routed_def)

lemma routing_valid: "validate_operation_routing m sec r = Inr () \<Longrightarrow> validate_operation_record r = Inr ()"
  by (auto simp: validate_operation_routing_def rbind_Inr map_err_Inr)

lemma routing_routed:
  assumes "validate_operation_routing m sec r = Inr ()" and "s \<in> set (operation_steps (or_plan r))"
  shows "resource_routed m sec (or_tenant_id r) (os_resource s)"
proof -
  from assms(1) obtain target where
    "\<forall>x\<in>set (operation_steps (or_plan r)). resource_route m sec (or_tenant_id r) target (os_resource x) = Inr ()"
    unfolding validate_operation_routing_def rbind_Inr checks_Inr by auto
  with assms(2) show ?thesis by (blast intro: resource_route_Inr)
qed

text \<open>Membership: the registry has an active entry for every owner the step writes for.\<close>

lemma membership_registered:
  assumes "validate_step_membership m sec r k registry = Inr ()"
    and "find_operation_step r k = Inr s"
  shows "(\<forall>es. os_resource s = HistoryEvents es \<longrightarrow> (\<forall>e\<in>set es. \<exists>i. registry (he_owner_user_id_hash e) = Some i
             \<and> uei_status i = ''active'' \<and> uei_tenant_id i = or_tenant_id r
             \<and> uei_event_index_uid i = he_event_index_uid e))
    \<and> (\<forall>uid ns. os_resource s = ContextNodes uid ns \<longrightarrow> (\<forall>n\<in>set ns. \<forall>owner. cn_owner_user_id n = Some owner \<longrightarrow>
          (\<exists>i. registry (user_hash m sec owner) = Some i \<and> uei_status i = ''active''
             \<and> uei_tenant_id i = or_tenant_id r \<and> uei_personal_context_index_uid i = uid)))"
proof -
  from assms obtain reqs where reqs: "step_requirements m sec r k (os_resource s) = Inr reqs"
    and ok: "\<forall>q\<in>set reqs. check_requirement (or_tenant_id r) registry q = Inr ()"
    by (auto simp: validate_step_membership_def rbind_Inr checks_Inr)
  have one: "\<exists>i. registry h = Some i \<and> uei_status i = ''active'' \<and> uei_tenant_id i = or_tenant_id r
      \<and> (\<forall>x. eu = Some x \<longrightarrow> uei_event_index_uid i = x)
      \<and> (\<forall>x. cu = Some x \<longrightarrow> uei_personal_context_index_uid i = x)"
    if "(h, eu, cu, ex) \<in> set reqs" for h eu cu ex
    using ok that by (fastforce simp: check_requirement_def violates_def split: option.splits if_splits)
  show ?thesis
  proof (intro conjI allI impI ballI)
    fix es e assume "os_resource s = HistoryEvents es" "e \<in> set es"
    then have "(he_owner_user_id_hash e, Some (he_event_index_uid e), None, None) \<in> set reqs"
      using reqs by (auto simp: step_requirements_def)
    from one [OF this] show "\<exists>i. registry (he_owner_user_id_hash e) = Some i \<and> uei_status i = ''active''
        \<and> uei_tenant_id i = or_tenant_id r \<and> uei_event_index_uid i = he_event_index_uid e" by auto
  next
    fix uid ns n owner assume "os_resource s = ContextNodes uid ns" "n \<in> set ns" "cn_owner_user_id n = Some owner"
    then have "(user_hash m sec owner, None, Some uid, None) \<in> set reqs"
      using reqs by (force simp: step_requirements_def List.map_filter_def)
    from one [OF this] show "\<exists>i. registry (user_hash m sec owner) = Some i \<and> uei_status i = ''active''
        \<and> uei_tenant_id i = or_tenant_id r \<and> uei_personal_context_index_uid i = uid" by auto
  qed
qed

text \<open>
  C6: a record that passes the routing checks, which run before each of its steps is applied, writes
  every user's events and personal context only into the indexes named by the keyed hashes of the
  tenant and of that user, and company context only into the company index; and a step that passes
  the membership check writes only into indexes registered and active for their owner in the tenant.
\<close>

theorem writes_stay_with_owner:
  assumes "validate_operation_routing hex_mac secret r = Inr ()"
    and "validate_step_membership hex_mac secret r k registry = Inr ()"
    and "find_operation_step r k = Inr s"
  shows "resource_routed hex_mac secret (or_tenant_id r) (os_resource s)
    \<and> (\<forall>es e. os_resource s = HistoryEvents es \<longrightarrow> e \<in> set es \<longrightarrow>
         (\<exists>i. registry (user_hash hex_mac secret (he_owner_user_id e)) = Some i \<and> uei_status i = ''active''
            \<and> uei_tenant_id i = or_tenant_id r \<and> uei_event_index_uid i = he_event_index_uid e))
    \<and> (\<forall>uid ns n owner. os_resource s = ContextNodes uid ns \<longrightarrow> n \<in> set ns \<longrightarrow> cn_owner_user_id n = Some owner \<longrightarrow>
         (\<exists>i. registry (user_hash hex_mac secret owner) = Some i \<and> uei_status i = ''active''
            \<and> uei_tenant_id i = or_tenant_id r \<and> uei_personal_context_index_uid i = uid))"
proof -
  have "s \<in> set (operation_steps (or_plan r))"
    using assms(3) find_step [of k "or_plan r" s] by (auto simp: find_operation_step_def ok_or_def split: option.splits)
  then have routed: "resource_routed hex_mac secret (or_tenant_id r) (os_resource s)"
    by (rule routing_routed [OF assms(1)])
  moreover have "he_owner_user_id_hash e = user_hash hex_mac secret (he_owner_user_id e)"
    if "os_resource s = HistoryEvents es" "e \<in> set es" for es e
    using routed that by (simp add: resource_routed_def Let_def list_all_iff)
  ultimately show ?thesis using membership_registered [OF assms(2,3)] by metis
qed

definition sample_mac :: "string \<Rightarrow> string \<Rightarrow> string" where
  "sample_mac k m = ''0123456789abcdef''"

definition sample_event :: history_event where
  "sample_event =
     \<lparr>he_id = ''e-1'', he_event_type = ''note'', he_entity_type = ''user'', he_entity_id = ''u'',
      he_occurred_at = 1, he_observed_at = 1, he_source_kind = ''manual'',
      he_source_ref = \<lparr>sr_kind = ''manual'', sr_id = ''m'', sr_uri = None, sr_meta = None\<rparr>,
      he_text = ''hello'', he_payload = JNull, he_tags = [], he_privacy = ''private'', he_tenant_id = ''acme'',
      he_owner_user_id = ''u'', he_owner_user_id_hash = user_hash sample_mac ''k'' ''u'',
      he_event_index_uid = event_index_name (tenant_hash sample_mac ''k'' ''acme'') (user_hash sample_mac ''k'' ''u''),
      he_event_index_schema_version = 1, he_idempotency_key_hash = None\<rparr>"

definition sample_index :: user_event_index where
  "sample_index =
     (let th = tenant_hash sample_mac ''k'' ''acme''; uh = user_hash sample_mac ''k'' ''u'' in
      \<lparr>uei_id = user_event_index_id th uh, uei_tenant_id = ''acme'', uei_tenant_hash = th,
       uei_owner_user_id_hash = uh, uei_event_index_uid = event_index_name th uh,
       uei_personal_context_index_uid = context_index_name th uh, uei_schema_version = 1,
       uei_settings_hash = event_settings_hash, uei_status = ''active'', uei_created_at = 1,
       uei_last_event_at = None, uei_event_count_estimate = 0\<rparr>)"

definition event_plan :: operation_plan where
  "event_plan = sample_plan ''history.append'' JNull
     [\<lparr>os_id = ''p'', os_role = Primary, os_resource = HistoryEvents [sample_event]\<rparr>]"

definition event_record :: operation_record where
  "event_record = (case operation_record_from_plan event_plan of Inr r \<Rightarrow> r)"

definition sample_registry :: "string \<Rightarrow> user_event_index option" where
  "sample_registry h = (if h = user_hash sample_mac ''k'' ''u'' then Some sample_index else None)"

lemma event_record_checks:
  "(case validate_operation_routing sample_mac ''k'' event_record of Inr _ \<Rightarrow> True | Inl _ \<Rightarrow> False)"
  "(case validate_step_membership sample_mac ''k'' event_record ''p'' sample_registry of Inr _ \<Rightarrow> True | Inl _ \<Rightarrow> False)"
  "(case find_operation_step event_record ''p'' of Inr s \<Rightarrow> os_resource s = HistoryEvents [sample_event] | Inl _ \<Rightarrow> False)"
  "or_tenant_id event_record = ''acme''"
  by code_simp+

theorem writes_stay_with_owner_witness:
  "\<exists>i. sample_registry (user_hash sample_mac ''k'' ''u'') = Some i \<and> uei_event_index_uid i = he_event_index_uid sample_event"
proof -
  obtain s where s: "find_operation_step event_record ''p'' = Inr s" "os_resource s = HistoryEvents [sample_event]"
    using event_record_checks(3) by (auto split: sum.splits)
  have "validate_operation_routing sample_mac ''k'' event_record = Inr ()"
    "validate_step_membership sample_mac ''k'' event_record ''p'' sample_registry = Inr ()"
    using event_record_checks(1,2) by (auto split: sum.splits)
  from writes_stay_with_owner [OF this s(1)] s(2) show ?thesis
    by (fastforce simp: sample_event_def)
qed

end
