(* ===== verification/Operation_Cache.thy ===== *)
theory Operation_Cache
  imports Journal_Properties Operation_Routing
begin

text \<open>
  The in-memory journal of the store (\<open>store.rs\<close>): the form in which a record is journalled, and the
  cache of records with its eviction. The \<open>HashMap\<close> of operations is an ordered map: the eviction
  looks for a minimum that is unique, so the order of iteration does not matter.
\<close>

section \<open>The code\<close>

type_synonym operation_cache = "(string, operation_record) btree_map"

definition max_in_memory_settled_operations :: usize where
  "max_in_memory_settled_operations = 10000"

definition settled_at :: "operation_record \<Rightarrow> datetime" where
  "settled_at r = (case or_completed_at r of Some t \<Rightarrow> t | None \<Rightarrow> or_updated_at r)"

text \<open>One pass over the entries: the oldest settled record but the one just inserted.\<close>

definition older_entry ::
    "string \<Rightarrow> string \<times> operation_record \<Rightarrow> (datetime \<times> string) option \<Rightarrow> (datetime \<times> string) option" where
  "older_entry record_id e oldest =
     (if operation_is_settled (snd e) \<and> fst e \<noteq> record_id
        \<and> (case oldest of None \<Rightarrow> True | Some o' \<Rightarrow> (settled_at (snd e), fst e) < o')
      then Some (settled_at (snd e), fst e) else oldest)"

definition oldest_settled :: "string \<Rightarrow> operation_cache \<Rightarrow> (datetime \<times> string) option" where
  "oldest_settled record_id m = fold (older_entry record_id) m None"

definition settled_count :: "operation_cache \<Rightarrow> nat" where
  "settled_count m = length (filter (\<lambda>e. operation_is_settled (snd e)) m)"

lemma fold_older:
  "fold (older_entry k) m acc = Some o' \<Longrightarrow>
     acc = Some o' \<or> (\<exists>r. (snd o', r) \<in> set m \<and> fst o' = settled_at r \<and> operation_is_settled r \<and> snd o' \<noteq> k)"
proof (induction m arbitrary: acc)
  case (Cons e m)
  from Cons.IH [of "older_entry k e acc"] Cons.prems show ?case
    by (cases e) (auto simp: older_entry_def split: if_splits)
qed simp

lemma oldest_settled_in:
  "oldest_settled k m = Some (t, i) \<Longrightarrow> \<exists>r. (i, r) \<in> set m \<and> t = settled_at r \<and> operation_is_settled r \<and> i \<noteq> k"
  by (drule fold_older [of k m None, folded oldest_settled_def]) auto

function evict_settled :: "string \<Rightarrow> operation_cache \<Rightarrow> operation_cache" where
  "evict_settled record_id m =
     (case oldest_settled record_id m of
        None \<Rightarrow> m
      | Some (_, i) \<Rightarrow>
          if settled_count m \<le> max_in_memory_settled_operations then m
          else if settled_count m - 1 \<le> max_in_memory_settled_operations then bt_remove i m
          else evict_settled record_id (bt_remove i m))"
  by pat_completeness auto
termination
proof (relation "measure (length \<circ> snd)", simp)
  fix k m p t i
  assume "oldest_settled k m = Some p" "(t, i) = p"
  then obtain r where "(i, r) \<in> set m" using oldest_settled_in by blast
  then have "length (filter (\<lambda>e. fst e \<noteq> i) m) < length m" by (intro length_filter_less) auto
  then show "((k, bt_remove i m), k, m) \<in> measure (length \<circ> snd)" by (simp add: bt_remove_def)
qed

declare evict_settled.simps [simp del]

definition cache_operation :: "operation_record \<Rightarrow> operation_cache \<Rightarrow> operation_cache" where
  "cache_operation record m =
     (let m' = bt_insert (or_id record) record m in
      if \<not> operation_is_settled record \<or> length m' \<le> max_in_memory_settled_operations then m'
      else evict_settled (or_id record) m')"

text \<open>
  \<open>journal_operation_form\<close>: \<open>to_string\<close> is the serialisation of a resource, \<open>hex_mac\<close> HMAC-SHA256.
\<close>

definition journal_operation_form ::
    "(operation_resource \<Rightarrow> string + string) \<Rightarrow> (string \<Rightarrow> string \<Rightarrow> string) \<Rightarrow> string \<Rightarrow> operation_record
      \<Rightarrow> api_error + operation_record" where
  "journal_operation_form to_string hex_mac secret record =
     map_err (\<lambda>e. Internal (''invalid operation compaction: '' @ mutation_plan_error_display e))
       (rbind (compact_settled_operation to_string
          (\<lambda>payload. ''hmac:'' @ hmac_hex hex_mac secret ''operation-payload-v1'' payload 32) record)
        (\<lambda>compacted. Inr (case compacted of Some c \<Rightarrow> c | None \<Rightarrow> record)))"

definition cache_operation_locked ::
    "(operation_resource \<Rightarrow> string + string) \<Rightarrow> (string \<Rightarrow> string \<Rightarrow> string) \<Rightarrow> string \<Rightarrow> operation_record
      \<Rightarrow> operation_cache \<Rightarrow> api_error + operation_cache" where
  "cache_operation_locked to_string hex_mac secret record m =
     (if operation_is_settled record
         \<and> (case bt_get m (or_id record) of Some c \<Rightarrow> operation_is_compacted c | None \<Rightarrow> False)
      then Inr m
      else rbind (journal_operation_form to_string hex_mac secret record) (\<lambda>j. Inr (cache_operation j m)))"

section \<open>The oldest settled record\<close>

lemma fold_older_le:
  "fold (older_entry k) m acc = o' \<Longrightarrow>
     (\<forall>a. acc = Some a \<longrightarrow> (\<exists>b. o' = Some b \<and> b \<le> a))
     \<and> (\<forall>(i, r)\<in>set m. operation_is_settled r \<longrightarrow> i \<noteq> k \<longrightarrow> (\<exists>b. o' = Some b \<and> b \<le> (settled_at r, i)))"
proof (induction m arbitrary: acc)
  case (Cons e m)
  obtain i r where e: "e = (i, r)" by (cases e)
  let ?acc = "older_entry k e acc"
  have ih: "\<And>a. ?acc = Some a \<Longrightarrow> \<exists>b. o' = Some b \<and> b \<le> a"
      "\<And>j q. (j, q) \<in> set m \<Longrightarrow> operation_is_settled q \<Longrightarrow> j \<noteq> k \<Longrightarrow> \<exists>b. o' = Some b \<and> b \<le> (settled_at q, j)"
    using Cons.IH [of ?acc] Cons.prems by fastforce+
  have old: "\<exists>b. ?acc = Some b \<and> b \<le> a" if "acc = Some a" for a
    using that by (auto simp: older_entry_def e simp del: split_paired_Ex)
  have new: "\<exists>b. ?acc = Some b \<and> b \<le> (settled_at r, i)" if "operation_is_settled r" "i \<noteq> k"
    using that by (cases acc) (auto simp: older_entry_def e not_less simp del: split_paired_Ex)
  have "\<exists>b. o' = Some b \<and> b \<le> a" if "acc = Some a" for a
    using old [OF that] ih(1) order_trans by blast
  moreover have "\<exists>b. o' = Some b \<and> b \<le> (settled_at r, i)" if "operation_is_settled r" "i \<noteq> k"
    using new [OF that] ih(1) order_trans by blast
  ultimately show ?case using ih(2) by (auto simp: e)
qed simp

lemma oldest_settled_le:
  "oldest_settled k m = Some b \<Longrightarrow> (i, r) \<in> set m \<Longrightarrow> operation_is_settled r \<Longrightarrow> i \<noteq> k \<Longrightarrow> b \<le> (settled_at r, i)"
  using fold_older_le [of k m None "Some b"] by (fastforce simp: oldest_settled_def)

lemma oldest_settled_None:
  "oldest_settled k m = None \<Longrightarrow> (i, r) \<in> set m \<Longrightarrow> operation_is_settled r \<Longrightarrow> i = k"
  using fold_older_le [of k m None None] by (fastforce simp: oldest_settled_def)

section \<open>Eviction\<close>

lemma bt_remove_entry:
  fixes m :: "('k::linorder, 'v) btree_map"
  assumes "bt_inv m" and "(i, r) \<in> set m"
  shows "bt_remove i m = remove1 (i, r) m"
proof -
  have eq: "e \<in> set m \<Longrightarrow> fst e \<noteq> i \<longleftrightarrow> e \<noteq> (i, r)" for e
    using assms by (cases e) (auto simp: bt_entry_get)
  have "bt_remove i m = filter (\<lambda>e. e \<noteq> (i, r)) m"
    unfolding bt_remove_def using eq by (rule filter_cong [OF refl])
  moreover have "distinct m" using bt_inv_distinct [OF assms(1)] by (simp add: distinct_map)
  ultimately show ?thesis by (simp add: distinct_remove1_removeAll removeAll_filter_not_eq neq_commute)
qed

lemma settled_count_remove:
  assumes "bt_inv m" and "(i, r) \<in> set m" and "operation_is_settled r"
  shows "settled_count (bt_remove i m) = settled_count m - 1"
proof -
  have "(i, r) \<in> set (filter (\<lambda>e. operation_is_settled (snd e)) m)" using assms(2,3) by simp
  then show ?thesis
    by (simp only: settled_count_def bt_remove_entry [OF assms(1,2)] filter_remove1 length_remove1 if_True)
qed

lemma settled_count_one:
  assumes "bt_inv m" and "\<And>i r. (i, r) \<in> set m \<Longrightarrow> operation_is_settled r \<Longrightarrow> i = k"
  shows "settled_count m \<le> 1"
proof -
  let ?f = "filter (\<lambda>e. operation_is_settled (snd e)) m"
  have "distinct (map fst ?f)" using bt_inv_distinct [OF assms(1)] by (rule distinct_map_filter)
  then have "length (map fst ?f) = card (set (map fst ?f))" by (rule distinct_card [symmetric])
  also have "\<dots> \<le> card {k}" using assms(2) by (intro card_mono) auto
  finally have "length (map fst ?f) \<le> 1" by simp
  then show ?thesis by (simp add: settled_count_def)
qed

text \<open>What eviction keeps: the order, the record just inserted, all unfinished ones, and the newest.\<close>

definition evicted_well :: "string \<Rightarrow> operation_cache \<Rightarrow> operation_cache \<Rightarrow> bool" where
  "evicted_well k m m' =
     (bt_inv m' \<and> set m' \<subseteq> set m
      \<and> (\<forall>(i, r)\<in>set m - set m'. operation_is_settled r \<and> i \<noteq> k
           \<and> (\<forall>(j, q)\<in>set m'. operation_is_settled q \<longrightarrow> j \<noteq> k \<longrightarrow> (settled_at r, i) < (settled_at q, j))))"

lemma evicted_well_refl: "bt_inv m \<Longrightarrow> evicted_well k m m"
  by (simp add: evicted_well_def)

lemma evicted_well_remove:
  assumes "bt_inv m" and "oldest_settled k m = Some (t, i)" and "evicted_well k (bt_remove i m) m'"
  shows "evicted_well k m m'"
proof -
  obtain r where r: "(i, r) \<in> set m" "t = settled_at r" "operation_is_settled r" "i \<noteq> k"
    using oldest_settled_in [OF assms(2)] by blast
  have sub: "set m' \<subseteq> set (bt_remove i m)" using assms(3) by (simp add: evicted_well_def)
  have rm: "set (bt_remove i m) = set m - {(i, r)}"
    using assms(1) r(1) by (auto simp: bt_remove_def bt_entry_get)
  have newer: "(settled_at r, i) < (settled_at q, j)"
    if "(j, q) \<in> set m'" "operation_is_settled q" "j \<noteq> k" for j q
  proof -
    have "(j, q) \<in> set m" "(j, q) \<noteq> (i, r)" using that(1) sub rm by auto
    then have "j \<noteq> i" using assms(1) r(1) by (auto simp: bt_entry_get)
    moreover have "(settled_at r, i) \<le> (settled_at q, j)"
      using oldest_settled_le [OF assms(2) \<open>(j, q) \<in> set m\<close> that(2,3)] r(2) by simp
    ultimately show ?thesis by (auto simp: less_le)
  qed
  show ?thesis
    unfolding evicted_well_def
  proof (intro conjI ballI)
    show "bt_inv m'" using assms(3) by (simp add: evicted_well_def)
    show "set m' \<subseteq> set m" using sub rm by blast
    fix e assume e: "e \<in> set m - set m'"
    show "case e of (i, r) \<Rightarrow> operation_is_settled r \<and> i \<noteq> k
        \<and> (\<forall>(j, q)\<in>set m'. operation_is_settled q \<longrightarrow> j \<noteq> k \<longrightarrow> (settled_at r, i) < (settled_at q, j))"
    proof (cases "e = (i, r)")
      case True
      with r newer show ?thesis by auto
    next
      case False
      with e rm have "e \<in> set (bt_remove i m) - set m'" by blast
      with assms(3) show ?thesis unfolding evicted_well_def by blast
    qed
  qed
qed

lemma evict_settled_well:
  assumes "bt_inv m"
  shows "evicted_well k m (evict_settled k m)
    \<and> settled_count (evict_settled k m) \<le> max_in_memory_settled_operations"
  using assms
proof (induction k m rule: evict_settled.induct)
  case (1 k m)
  show ?case
  proof (cases "oldest_settled k m")
    case None
    have "settled_count m \<le> 1"
      using oldest_settled_None [OF None] "1.prems" by (intro settled_count_one)
    then show ?thesis
      using None "1.prems" by (simp add: evict_settled.simps [of k m] evicted_well_refl max_in_memory_settled_operations_def)
  next
    case (Some p)
    obtain t i where p: "p = (t, i)" by (cases p)
    then obtain r where r: "(i, r) \<in> set m" "operation_is_settled r"
      using oldest_settled_in [of k m t i] Some by blast
    have inv: "bt_inv (bt_remove i m)" using "1.prems" by (rule bt_inv_remove)
    have count: "settled_count (bt_remove i m) = settled_count m - 1"
      using "1.prems" r by (rule settled_count_remove)
    note well = evicted_well_remove [OF "1.prems" Some [unfolded p]]
    consider "settled_count m \<le> max_in_memory_settled_operations"
      | "\<not> settled_count m \<le> max_in_memory_settled_operations" "settled_count m - 1 \<le> max_in_memory_settled_operations"
      | "\<not> settled_count m \<le> max_in_memory_settled_operations" "\<not> settled_count m - 1 \<le> max_in_memory_settled_operations"
      by blast
    then show ?thesis
    proof cases
      case 1
      then show ?thesis using Some p "1.prems" by (simp add: evict_settled.simps [of k m] evicted_well_refl)
    next
      case 2
      then show ?thesis
        using Some p well [OF evicted_well_refl [OF inv]] count by (simp add: evict_settled.simps [of k m])
    next
      case 3
      then have "evict_settled k m = evict_settled k (bt_remove i m)"
        using Some p by (simp add: evict_settled.simps [of k m])
      then show ?thesis using "1.IH" [OF Some p [symmetric] 3 inv] well by simp
    qed
  qed
qed

section \<open>Properties\<close>

lemma settled_count_le: "settled_count m \<le> length m"
  by (simp add: settled_count_def)

lemma settled_count_insert:
  "\<not> operation_is_settled r \<Longrightarrow> settled_count (bt_insert k r m) \<le> settled_count m"
  by (induction k r m rule: bt_insert.induct) (auto simp: settled_count_def)

lemma cache_operation_well:
  assumes "bt_inv m" and "settled_count m \<le> max_in_memory_settled_operations"
  shows "evicted_well (or_id r) (bt_insert (or_id r) r m) (cache_operation r m)
    \<and> settled_count (cache_operation r m) \<le> max_in_memory_settled_operations"
proof -
  let ?m = "bt_insert (or_id r) r m"
  have inv: "bt_inv ?m" using assms(1) by (rule bt_inv_insert)
  consider "\<not> operation_is_settled r" | "operation_is_settled r" "length ?m \<le> max_in_memory_settled_operations"
    | "operation_is_settled r" "\<not> length ?m \<le> max_in_memory_settled_operations" by blast
  then show ?thesis
  proof cases
    case 1
    then show ?thesis
      using settled_count_insert [of r "or_id r" m] assms(2) evicted_well_refl [OF inv] by (simp add: cache_operation_def)
  next
    case 2
    then show ?thesis
      using settled_count_le [of ?m] evicted_well_refl [OF inv] by (simp add: cache_operation_def)
  next
    case 3
    then show ?thesis using evict_settled_well [OF inv] by (simp add: cache_operation_def)
  qed
qed

text \<open>
  The journal cache is bounded and safe: caching a record keeps at most 10,000 settled ones, the
  record just cached and every unfinished record stay, and what is evicted is settled and older than
  every settled record that stays.
\<close>

theorem operation_cache_bounded:
  assumes "bt_inv m" and "settled_count m \<le> max_in_memory_settled_operations"
  shows "settled_count (cache_operation r m) \<le> max_in_memory_settled_operations
    \<and> bt_get (cache_operation r m) (or_id r) = Some r
    \<and> (\<forall>i q. i \<noteq> or_id r \<longrightarrow> bt_get m i = Some q \<longrightarrow>
         (if operation_is_settled q
          then bt_get (cache_operation r m) i = Some q
            \<or> (\<forall>(j, p)\<in>set (cache_operation r m). operation_is_settled p \<longrightarrow> j \<noteq> or_id r \<longrightarrow>
                 (settled_at q, i) < (settled_at p, j))
          else bt_get (cache_operation r m) i = Some q))"
proof -
  let ?m = "bt_insert (or_id r) r m" and ?c = "cache_operation r m"
  note w = cache_operation_well [OF assms, of r]
  have inv: "bt_inv ?m" "bt_inv ?c"
    using bt_inv_insert [OF assms(1)] w by (simp_all add: evicted_well_def)
  have gone: "operation_is_settled q \<and> i \<noteq> or_id r
      \<and> (\<forall>(j, p)\<in>set ?c. operation_is_settled p \<longrightarrow> j \<noteq> or_id r \<longrightarrow> (settled_at q, i) < (settled_at p, j))"
    if "bt_get ?m i = Some q" "bt_get ?c i \<noteq> Some q" for i q
  proof -
    have "(i, q) \<in> set ?m - set ?c" using that inv by (simp add: bt_entry_get)
    then show ?thesis using w unfolding evicted_well_def by blast
  qed
  have "bt_get ?c (or_id r) = Some r" using gone [of "or_id r" r] by (auto simp: bt_get_insert)
  moreover have "bt_get ?m i = bt_get m i" if "i \<noteq> or_id r" for i using that by (simp add: bt_get_insert)
  ultimately show ?thesis using w gone by (metis (no_types, lifting))
qed

theorem operation_cache_bounded_witness:
  "bt_get (cache_operation settled_record [(or_id write_record, write_record)]) (or_id settled_record) = Some settled_record"
  using operation_cache_bounded [of "[(or_id write_record, write_record)]" settled_record] settled_count_le [of "[(or_id write_record, write_record)]"]
  by (simp add: bt_inv_def max_in_memory_settled_operations_def)

end
