(* ===== verification/Mutation_Plan.thy ===== *)
theory Mutation_Plan
  imports Operation_Cache Auth Store_Data_Facts "HOL-Library.Multiset" "HOL-Library.Sublist"
begin

text \<open>
  How the store turns the resources that a mutation changed into an operation plan (\<open>store.rs\<close>:
  \<open>MutationPrimary\<close>, \<open>mutation_plan\<close>, \<open>idempotent_operation_id\<close>). The principal and identifier of the
  current request, the clock and a fresh identifier are arguments.
\<close>

section \<open>The code\<close>

datatype mutation_primary =
    MpUserIndex | MpHistoryEvents | MpStateItem | MpInsight | MpLinks | MpAnalysisMaterialization
  | MpDeleteCompanySource | MpSourceRevision | MpSourceDocuments | MpParseArtifacts
  | MpStructuredSnapshot | MpDataset | MpStructuredRows | MpStructuredSummary | MpSession
  | MpHarnessComponents | MpHarnessChanges | MpHarnessVerdicts | MpIngestTask | MpDeleteIngestTasks
  | MpIngestResult | MpEvalCase | MpEvalRun

definition primary_matches :: "mutation_primary \<Rightarrow> operation_resource \<Rightarrow> bool" where
  "primary_matches self resource =
     (case self of
        MpUserIndex \<Rightarrow> (case resource of EnsureUserEventIndex _ \<Rightarrow> True | _ \<Rightarrow> False)
      | MpHistoryEvents \<Rightarrow> (case resource of HistoryEvents _ \<Rightarrow> True | _ \<Rightarrow> False)
      | MpStateItem \<Rightarrow> (case resource of StateItem _ \<Rightarrow> True | _ \<Rightarrow> False)
      | MpInsight \<Rightarrow> (case resource of Insight _ \<Rightarrow> True | _ \<Rightarrow> False)
      | MpLinks \<Rightarrow> (case resource of Links _ \<Rightarrow> True | _ \<Rightarrow> False)
      | MpAnalysisMaterialization \<Rightarrow> (case resource of Insight _ \<Rightarrow> True | Links _ \<Rightarrow> True | _ \<Rightarrow> False)
      | MpDeleteCompanySource \<Rightarrow> (case resource of DeleteCompanySourceIndex _ TFragments \<Rightarrow> True | _ \<Rightarrow> False)
      | MpSourceRevision \<Rightarrow> (case resource of SourceRevision _ \<Rightarrow> True | _ \<Rightarrow> False)
      | MpSourceDocuments \<Rightarrow> (case resource of SourceDocuments _ \<Rightarrow> True | _ \<Rightarrow> False)
      | MpParseArtifacts \<Rightarrow> (case resource of ParseArtifacts _ \<Rightarrow> True | _ \<Rightarrow> False)
      | MpStructuredSnapshot \<Rightarrow> (case resource of StructuredSnapshot _ \<Rightarrow> True | _ \<Rightarrow> False)
      | MpDataset \<Rightarrow> (case resource of Dataset _ \<Rightarrow> True | _ \<Rightarrow> False)
      | MpStructuredRows \<Rightarrow> (case resource of StructuredRows _ \<Rightarrow> True | _ \<Rightarrow> False)
      | MpStructuredSummary \<Rightarrow> (case resource of StructuredSummary _ \<Rightarrow> True | _ \<Rightarrow> False)
      | MpSession \<Rightarrow> (case resource of Session _ \<Rightarrow> True | _ \<Rightarrow> False)
      | MpHarnessComponents \<Rightarrow> (case resource of HarnessComponents _ _ \<Rightarrow> True | _ \<Rightarrow> False)
      | MpHarnessChanges \<Rightarrow> (case resource of HarnessChanges _ \<Rightarrow> True | _ \<Rightarrow> False)
      | MpHarnessVerdicts \<Rightarrow> (case resource of HarnessVerdicts _ \<Rightarrow> True | _ \<Rightarrow> False)
      | MpIngestTask \<Rightarrow> (case resource of IngestTask _ \<Rightarrow> True | IngestTasks _ \<Rightarrow> True | _ \<Rightarrow> False)
      | MpDeleteIngestTasks \<Rightarrow> (case resource of DeleteIngestTasks _ \<Rightarrow> True | _ \<Rightarrow> False)
      | MpIngestResult \<Rightarrow> (case resource of IngestResult _ \<Rightarrow> True | _ \<Rightarrow> False)
      | MpEvalCase \<Rightarrow> (case resource of EvalCase _ \<Rightarrow> True | _ \<Rightarrow> False)
      | MpEvalRun \<Rightarrow> (case resource of EvalRun _ \<Rightarrow> True | _ \<Rightarrow> False))"

definition exposes_partial_persistence :: "mutation_primary \<Rightarrow> bool" where
  "exposes_partial_persistence self = (self = MpHistoryEvents \<or> self = MpDeleteCompanySource)"

definition requires_index_confirmation :: "mutation_primary \<Rightarrow> bool" where
  "requires_index_confirmation self =
     (self = MpUserIndex \<or> self = MpAnalysisMaterialization \<or> self = MpDeleteCompanySource
      \<or> self = MpDeleteIngestTasks)"

datatype write_consistency = Eventual | ReadYourWrites | WaitForIndex

fun write_consistency_as_str :: "write_consistency \<Rightarrow> string" where
  "write_consistency_as_str Eventual = ''eventual''"
| "write_consistency_as_str ReadYourWrites = ''read_your_writes''"
| "write_consistency_as_str WaitForIndex = ''wait_for_index''"

definition nul :: string where "nul = [CHR 0x00]"

definition idempotent_operation_id ::
    "(string \<Rightarrow> string \<Rightarrow> string) \<Rightarrow> string \<Rightarrow> string \<Rightarrow> string \<Rightarrow> string option \<Rightarrow> string \<Rightarrow> string" where
  "idempotent_operation_id hex_mac secret tenant_id operation_kind owner_hash key_hash =
     (let actor_scope = (case owner_hash of Some h \<Rightarrow> ''owner'' @ nul @ h | None \<Rightarrow> ''tenant_service'') in
      ''op_'' @ hmac_hex hex_mac secret ''operation-id-v1''
        (tenant_id @ nul @ operation_kind @ nul @ actor_scope @ nul @ key_hash) 32)"

record mutation_plan_input =
  mpi_tenant_id :: string
  mpi_operation_kind :: string
  mpi_owner_user_id :: "string option"
  mpi_idempotency_key :: "string option"
  mpi_primary_kind :: mutation_primary
  mpi_resources :: "operation_resource list"
  mpi_response_snapshot :: json
  mpi_request_fingerprint :: "string option"

text \<open>The ambient values of a call: settings, current request, clock and a fresh identifier.\<close>

record mutation_ambient =
  ma_write_consistency :: write_consistency
  ma_principal :: "request_principal option"
  ma_request_id :: "string option"
  ma_now :: datetime
  ma_new_id :: string

definition operation_actor_of :: "mutation_ambient \<Rightarrow> operation_actor" where
  "operation_actor_of amb =
     (case ma_principal amb of
        Some p \<Rightarrow>
          (let (scope, owner_hash) = (case rp_scope p of
                 RequestOwner h \<Rightarrow> (ActorOwner, Some h)
               | RequestTenantService \<Rightarrow> (ActorTenantService, None)
               | RequestAdmin \<Rightarrow> (ActorAdmin, None))
           in \<lparr>oa_scope = scope, oa_owner_user_id_hash = owner_hash, oa_roles = rp_roles p,
               oa_request_id = ma_request_id amb\<rparr>)
      | None \<Rightarrow> \<lparr>oa_scope = ActorSystem, oa_owner_user_id_hash = None, oa_roles = [],
                 oa_request_id = ma_request_id amb\<rparr>)"

text \<open>\<open>format!("effect-{:04}", n)\<close>\<close>

definition effect_id :: "nat \<Rightarrow> string" where
  "effect_id n = ''effect-'' @ replicate (4 - length (show_nat n)) (CHR ''0'') @ show_nat n"

definition json_opt_str :: "string option \<Rightarrow> json" where
  "json_opt_str v = (case v of Some s \<Rightarrow> JString s | None \<Rightarrow> JNull)"

definition waits_for_index :: "write_consistency \<Rightarrow> mutation_primary \<Rightarrow> bool" where
  "waits_for_index consistency primary_kind =
     (consistency = WaitForIndex \<or> requires_index_confirmation primary_kind)"

definition plan_metadata :: "mutation_ambient \<Rightarrow> mutation_plan_input \<Rightarrow> string option \<Rightarrow> json" where
  "plan_metadata amb input owner_hash =
     JObject (fold (\<lambda>(k, v). bt_insert k v)
       [(''resource_count'', JNumber (PosInt (of_nat (length (mpi_resources input))))),
        (''write_consistency'', JString (write_consistency_as_str (ma_write_consistency amb))),
        (''wait_for_index'', JBool (waits_for_index (ma_write_consistency amb) (mpi_primary_kind input))),
        (''request_fingerprint'', json_opt_str (mpi_request_fingerprint input)),
        (''target_owner_user_id_hash'', json_opt_str owner_hash)] [])"

text \<open>\<open>Vec::remove\<close>.\<close>

definition remove_at :: "nat \<Rightarrow> 'a list \<Rightarrow> 'a list" where
  "remove_at i xs = take i xs @ drop (Suc i) xs"

definition side_effect_steps :: "operation_resource list \<Rightarrow> operation_step list" where
  "side_effect_steps resources =
     map (\<lambda>(i, r). \<lparr>os_id = effect_id (i + 1), os_role = SideEffect, os_resource = r\<rparr>)
       (zip [0..<length resources] resources)"

definition operation_id_of ::
    "(string \<Rightarrow> string \<Rightarrow> string) \<Rightarrow> string \<Rightarrow> mutation_ambient \<Rightarrow> mutation_plan_input \<Rightarrow> string" where
  "operation_id_of hex_mac secret amb input =
     (case mpi_idempotency_key input of
        Some key \<Rightarrow> idempotent_operation_id hex_mac secret (mpi_tenant_id input) (mpi_operation_kind input)
          (map_option (user_hash hex_mac secret) (mpi_owner_user_id input)) (idempotency_hash hex_mac secret key)
      | None \<Rightarrow> ma_new_id amb)"

definition mutation_plan ::
    "(string \<Rightarrow> string \<Rightarrow> string) \<Rightarrow> string \<Rightarrow> mutation_ambient \<Rightarrow> mutation_plan_input \<Rightarrow> api_error + operation_plan" where
  "mutation_plan hex_mac secret amb input =
     (case position (primary_matches (mpi_primary_kind input)) (mpi_resources input) of
        None \<Rightarrow> Inl (Internal (''mutation '' @ mpi_operation_kind input @ '' did not produce its declared primary resource''))
      | Some i \<Rightarrow>
          (let owner_hash = map_option (user_hash hex_mac secret) (mpi_owner_user_id input) in
           Inr \<lparr>op_schema_version = operation_plan_schema_version,
                op_id = operation_id_of hex_mac secret amb input,
                op_tenant_id = mpi_tenant_id input,
                op_operation_kind = mpi_operation_kind input,
                op_actor = operation_actor_of amb,
                op_idempotency_key_hash = map_option (idempotency_hash hex_mac secret) (mpi_idempotency_key input),
                op_primary = \<lparr>os_id = ''primary'', os_role = Primary, os_resource = mpi_resources input ! i\<rparr>,
                op_side_effects = side_effect_steps (remove_at i (mpi_resources input)),
                op_redacted_metadata = plan_metadata amb input owner_hash,
                op_response_snapshot = mpi_response_snapshot input,
                op_created_at = ma_now amb\<rparr>))"

section \<open>Step identifiers\<close>

lemma read_nat_zeros: "read_nat (replicate k (CHR ''0'') @ s) = read_nat s"
proof -
  have "foldl (\<lambda>acc c. 10 * acc + (of_char c - 48)) (0::nat) (replicate k (CHR ''0'')) = 0"
    by (induction k) simp_all
  then show ?thesis by (simp add: read_nat_def)
qed

lemma effect_id_inj: "effect_id m = effect_id n \<longleftrightarrow> m = n"
proof
  assume "effect_id m = effect_id n"
  then have "replicate (4 - length (show_nat m)) (CHR ''0'') @ show_nat m
      = replicate (4 - length (show_nat n)) (CHR ''0'') @ show_nat n"
    by (simp add: effect_id_def)
  then show "m = n" by (metis read_nat_zeros read_show_nat)
qed simp

lemma effect_id_not_blank: "\<not> blank (effect_id n)"
proof -
  have "[CHR ''e''] \<in> set (chars (effect_id n))" by (simp add: effect_id_def is_cont_def)
  moreover have "\<not> is_ws [CHR ''e'']" by code_simp
  ultimately show ?thesis by (auto simp: blank_iff)
qed

lemma effect_id_not_primary: "effect_id n \<noteq> ''primary''"
  by (simp add: effect_id_def)

lemma side_effect_steps_props:
  "map os_resource (side_effect_steps rs) = rs"
  "map os_id (side_effect_steps rs) = map (\<lambda>i. effect_id (i + 1)) [0..<length rs]"
  "s \<in> set (side_effect_steps rs) \<Longrightarrow> os_role s = SideEffect \<and> (\<exists>i. os_id s = effect_id i)"
  by (auto simp: side_effect_steps_def comp_def case_prod_beta map_snd_zip intro!: nth_equalityI)

lemma mset_remove_at: "i < length xs \<Longrightarrow> add_mset (xs ! i) (mset (remove_at i xs)) = mset xs"
  by (metis add_mset_add_single append_take_drop_id Cons_nth_drop_Suc mset.simps(2) mset_append remove_at_def union_mset_add_mset_right)

lemma set_remove_at: "i < length xs \<Longrightarrow> set xs = insert (xs ! i) (set (remove_at i xs))"
  using mset_remove_at by (metis set_mset_add_mset_insert set_mset_mset)

lemma subseq_remove_at: "subseq (remove_at i xs) xs"
proof (induction xs arbitrary: i)
  case (Cons x xs)
  then show ?case by (cases i) (auto simp: remove_at_def)
qed (simp add: remove_at_def)

section \<open>Properties\<close>

text \<open>
  C37: a plan built from the resources of a mutation carries each of them in exactly one step, the
  primary one of the declared kind and the side effects in their order, and its steps pass the
  journal's checks exactly when every resource does.
\<close>

theorem mutation_plan_steps:
  assumes "mutation_plan hex_mac secret amb input = Inr p"
  shows "primary_matches (mpi_primary_kind input) (os_resource (op_primary p))
    \<and> mset (map os_resource (operation_steps p)) = mset (mpi_resources input)
    \<and> subseq (map os_resource (op_side_effects p)) (mpi_resources input)
    \<and> (plan_steps_ok p \<longleftrightarrow> (\<forall>r\<in>set (mpi_resources input). validate_resource (mpi_tenant_id input) r = Inr ()))"
proof -
  let ?rs = "mpi_resources input" and ?t = "mpi_tenant_id input"
  obtain i where i: "position (primary_matches (mpi_primary_kind input)) ?rs = Some i"
    using assms by (auto simp: mutation_plan_def split: option.splits)
  then have p: "op_primary p = \<lparr>os_id = ''primary'', os_role = Primary, os_resource = ?rs ! i\<rparr>"
      "op_side_effects p = side_effect_steps (remove_at i ?rs)" "op_tenant_id p = ?t"
    using assms by (auto simp: mutation_plan_def Let_def)
  note at = position_Some [OF i]
  have nb: "\<not> blank ''primary''" by code_simp
  have ids: "distinct (map os_id (operation_steps p))"
    by (auto simp: operation_steps_def p side_effect_steps_props distinct_map inj_on_def effect_id_inj
        dest!: side_effect_steps_props(3) simp: effect_id_not_primary [symmetric]
        simp del: map_map) 
  have good: "(\<forall>s\<in>set (operation_steps p). good_step ?t s) \<longleftrightarrow> (\<forall>r\<in>set ?rs. validate_resource ?t r = Inr ())"
  proof -
    have "(\<forall>s\<in>set (side_effect_steps rs). good_step ?t s) \<longleftrightarrow> (\<forall>r\<in>set (map os_resource (side_effect_steps rs)). validate_resource ?t r = Inr ())" for rs
      using side_effect_steps_props(3) effect_id_not_blank by (fastforce simp: good_step_def)
    then show ?thesis
      using at nb by (simp add: operation_steps_def p side_effect_steps_props good_step_def set_remove_at [of i ?rs])
  qed
  have ok: "plan_steps_ok p \<longleftrightarrow> (\<forall>r\<in>set ?rs. validate_resource ?t r = Inr ())"
    using ids good by (auto simp: p plan_steps_ok_def dest: side_effect_steps_props(3))
  have "mset (map os_resource (operation_steps p)) = mset ?rs"
    using mset_remove_at [of i ?rs] at by (simp add: operation_steps_def p side_effect_steps_props)
  moreover have "subseq (map os_resource (op_side_effects p)) ?rs"
    by (simp only: p side_effect_steps_props subseq_remove_at)
  ultimately show ?thesis using at ok by (simp add: p)
qed

definition sample_mutation :: mutation_plan_input where
  "sample_mutation =
     \<lparr>mpi_tenant_id = ''acme'', mpi_operation_kind = ''insight.create'', mpi_owner_user_id = None,
      mpi_idempotency_key = None, mpi_primary_kind = MpInsight,
      mpi_resources = [CompanySource sample_source, Insight sample_insight],
      mpi_response_snapshot = JNull, mpi_request_fingerprint = None\<rparr>"

definition sample_ambient :: mutation_ambient where
  "sample_ambient =
     \<lparr>ma_write_consistency = ReadYourWrites, ma_principal = None, ma_request_id = None,
      ma_now = 10, ma_new_id = ''op-1''\<rparr>"

theorem mutation_plan_steps_witness:
  "\<exists>p. mutation_plan (\<lambda>_ _. ''00'') ''k'' sample_ambient sample_mutation = Inr p
     \<and> mset (map os_resource (operation_steps p)) = {#CompanySource sample_source, Insight sample_insight#}"
proof -
  obtain p where p: "mutation_plan (\<lambda>_ _. ''00'') ''k'' sample_ambient sample_mutation = Inr p"
    by (simp add: mutation_plan_def sample_mutation_def primary_matches_def Let_def)
  from mutation_plan_steps [OF p]
  have "mset (map os_resource (operation_steps p)) = mset (mpi_resources sample_mutation)" by blast
  with p show ?thesis by (simp add: sample_mutation_def)
qed

end
