(* ===== verification/Operation_Executor.thy ===== *)
theory Operation_Executor
  imports Mutation_Plan Mutation_Resources
begin

text \<open>
  The executor of journalled mutations (\<open>store.rs\<close>): the checkpoint of a record, the application of
  one step, publication, reconciliation and replay of an existing operation, and the execution of a
  staged mutation. A computation passes the store's data, the number of calls made so far and the
  log of those calls. The repository, the clock and the process secrets are an environment: the
  answer of the \<open>n\<close>-th call is its function at \<open>n\<close>. Calls run under the mutation gate, so no other
  mutation interleaves. The metrics of a wait and the warm-up of the vector matcher are left out.
\<close>

section \<open>Environment and state\<close>

datatype port_event =
    Upserted operation_record "api_error + repository_write_receipt"
  | Applied string operation_step "api_error + repository_write_receipt"
  | Waited "string list" "api_error + unit"
  | Fetched string string "api_error + operation_record option"
  | Published string operation_resource

record exec_env =
  xe_hex_mac :: "string \<Rightarrow> string \<Rightarrow> string"
  xe_secret :: string
  xe_fingerprint :: "string \<Rightarrow> string"
  xe_to_string :: "operation_resource \<Rightarrow> string + string"
  xe_to_value :: "operation_resource \<Rightarrow> json option"
  xe_char_lower :: "string \<Rightarrow> string list"
  xe_ambient :: mutation_ambient
  xe_now :: "nat \<Rightarrow> datetime"
  xe_upsert :: "nat \<Rightarrow> operation_record \<Rightarrow> api_error + repository_write_receipt"
  xe_apply :: "nat \<Rightarrow> string \<Rightarrow> operation_step \<Rightarrow> api_error + repository_write_receipt"
  xe_wait :: "nat \<Rightarrow> string list \<Rightarrow> api_error + unit"
  xe_get :: "nat \<Rightarrow> string \<Rightarrow> string \<Rightarrow> api_error + operation_record option"

record exec_state =
  xs_data :: store_data
  xs_calls :: nat
  xs_log :: "port_event list"

type_synonym 'a exec = "exec_state \<Rightarrow> (api_error + 'a) \<times> exec_state"

definition xreturn :: "'a \<Rightarrow> 'a exec" where "xreturn v s = (Inr v, s)"
definition xfail :: "api_error \<Rightarrow> 'a exec" where "xfail e s = (Inl e, s)"
definition xlift :: "api_error + 'a \<Rightarrow> 'a exec" where "xlift r s = (r, s)"
definition xdata :: "store_data exec" where "xdata s = (Inr (xs_data s), s)"

definition xbind :: "'a exec \<Rightarrow> ('a \<Rightarrow> 'b exec) \<Rightarrow> 'b exec" where
  "xbind m f s = (case m s of (Inl e, s') \<Rightarrow> (Inl e, s') | (Inr v, s') \<Rightarrow> f v s')"

text \<open>\<open>match m { Ok(v) => .., Err(e) => .. }\<close>\<close>

definition xtry :: "'a exec \<Rightarrow> (api_error + 'a) exec" where
  "xtry m s = (case m s of (r, s') \<Rightarrow> (Inr r, s'))"

definition xmodify :: "(store_data \<Rightarrow> store_data) \<Rightarrow> unit exec" where
  "xmodify f s = (Inr (), s\<lparr>xs_data := f (xs_data s)\<rparr>)"

definition logged :: "port_event \<Rightarrow> exec_state \<Rightarrow> exec_state" where
  "logged e s = s\<lparr>xs_calls := Suc (xs_calls s), xs_log := xs_log s @ [e]\<rparr>"

definition xnow :: "exec_env \<Rightarrow> datetime exec" where
  "xnow env s = (Inr (xe_now env (xs_calls s)), s\<lparr>xs_calls := Suc (xs_calls s)\<rparr>)"

definition upsert_operation :: "exec_env \<Rightarrow> operation_record \<Rightarrow> repository_write_receipt exec" where
  "upsert_operation env r s =
     (let a = xe_upsert env (xs_calls s) r in (a, logged (Upserted r a) s))"

definition apply_operation_step :: "exec_env \<Rightarrow> string \<Rightarrow> operation_step \<Rightarrow> repository_write_receipt exec" where
  "apply_operation_step env t step s =
     (let a = xe_apply env (xs_calls s) t step in (a, logged (Applied t step a) s))"

definition wait_for_repository_tasks :: "exec_env \<Rightarrow> string list \<Rightarrow> unit exec" where
  "wait_for_repository_tasks env uids s =
     (let a = xe_wait env (xs_calls s) uids in (a, logged (Waited uids a) s))"

definition get_operation :: "exec_env \<Rightarrow> string \<Rightarrow> string \<Rightarrow> operation_record option exec" where
  "get_operation env t i s =
     (let a = xe_get env (xs_calls s) t i in (a, logged (Fetched t i a) s))"

section \<open>Checkpoints\<close>

fun api_error_display :: "api_error \<Rightarrow> string" where
  "api_error_display (Validation _ message) = message"
| "api_error_display PayloadTooLarge = ''request payload is too large''"
| "api_error_display (TooManyRequests _) = ''too many requests''"
| "api_error_display (ServiceUnavailable _) = ''service unavailable''"
| "api_error_display Timeout = ''request timed out''"
| "api_error_display (LlmUpstream error) = llm_failure_public_message (le_kind error)"
| "api_error_display (BadRequest m) = m"
| "api_error_display (Unauthorized m) = m"
| "api_error_display (Forbidden m) = m"
| "api_error_display (NotFound m) = m"
| "api_error_display (Conflict m) = m"
| "api_error_display (Upstream m) = m"
| "api_error_display (Internal m) = m"

definition cache_record :: "operation_record \<Rightarrow> store_data \<Rightarrow> store_data" where
  "cache_record r d = d\<lparr>st_operations := cache_operation r (st_operations d)\<rparr>"

definition persist_operation_checkpoint :: "exec_env \<Rightarrow> operation_record \<Rightarrow> unit exec" where
  "persist_operation_checkpoint env record =
     xbind (xlift (journal_operation_form (xe_to_string env) (xe_hex_mac env) (xe_secret env) record)) (\<lambda>journaled.
     xbind (upsert_operation env journaled) (\<lambda>receipt.
     xbind (xtry (wait_for_repository_tasks env (rwr_task_uids receipt))) (\<lambda>waited.
     case waited of
       Inl e \<Rightarrow>
         xbind (xmodify (\<lambda>d. if bt_get (st_operations d) (or_id journaled) = None then cache_record journaled d else d))
           (\<lambda>_. xfail e)
     | Inr _ \<Rightarrow> xmodify (cache_record journaled))))"

definition record_operation_failure :: "exec_env \<Rightarrow> operation_record \<Rightarrow> string \<Rightarrow> api_error \<Rightarrow> operation_record exec" where
  "record_operation_failure env record step_id err =
     (let diagnostic = safe_cause_diagnostic (xe_fingerprint env) (api_error_display err) in
      xbind (xnow env) (\<lambda>at.
      xbind (xlift (map_err (\<lambda>e. Internal (''invalid operation failure transition: '' @ mutation_plan_error_display e))
        (operation_step_failed record step_id (scd_category diagnostic) (scd_fingerprint diagnostic) at))) (\<lambda>failed.
      xbind (xtry (persist_operation_checkpoint env failed)) (\<lambda>persisted.
      xbind (case persisted of Inl _ \<Rightarrow> xmodify (cache_record failed) | Inr _ \<Rightarrow> xreturn ()) (\<lambda>_.
      xfail err)))))"

section \<open>One step\<close>

definition complete_step :: "exec_env \<Rightarrow> operation_record \<Rightarrow> string \<Rightarrow> operation_record exec" where
  "complete_step env record step_id =
     xbind (xnow env) (\<lambda>at.
     xbind (xlift (map_err (\<lambda>e. Internal (''invalid operation completion: '' @ mutation_plan_error_display e))
       (operation_step_completed record step_id at))) (\<lambda>updated.
     xbind (persist_operation_checkpoint env updated) (\<lambda>_. xreturn updated)))"

definition await_step :: "exec_env \<Rightarrow> operation_record \<Rightarrow> string \<Rightarrow> string list \<Rightarrow> operation_record exec" where
  "await_step env record step_id task_uids =
     xbind (xtry (wait_for_repository_tasks env task_uids)) (\<lambda>waited.
     case waited of
       Inl e \<Rightarrow> record_operation_failure env record step_id e
     | Inr _ \<Rightarrow> complete_step env record step_id)"

definition submit_step :: "exec_env \<Rightarrow> operation_record \<Rightarrow> string \<Rightarrow> operation_step \<Rightarrow> bool \<Rightarrow> operation_record exec" where
  "submit_step env record step_id step wait =
     xbind (xtry (apply_operation_step env (or_tenant_id record) step)) (\<lambda>applied.
     case applied of
       Inl e \<Rightarrow> record_operation_failure env record step_id e
     | Inr receipt \<Rightarrow>
         xbind (xnow env) (\<lambda>at.
         xbind (xlift (map_err (\<lambda>e. Internal (''invalid operation transition: '' @ mutation_plan_error_display e))
           (if rwr_task_uids receipt = [] then operation_step_completed record step_id at
            else operation_step_accepted record step_id (rwr_task_uids receipt) at))) (\<lambda>updated.
         xbind (persist_operation_checkpoint env updated) (\<lambda>_.
         if wait \<and> rwr_task_uids receipt \<noteq> [] then await_step env updated step_id (rwr_task_uids receipt)
         else xreturn updated))))"

text \<open>The registry a membership check reads: the caller's, or the live entries of the tenant.\<close>

type_synonym index_registry = "string \<Rightarrow> user_event_index option"

definition live_registry :: "store_data \<Rightarrow> string \<Rightarrow> index_registry" where
  "live_registry d tenant_id owner_hash = bt_get (st_user_indexes d) (tenant_id, owner_hash)"

definition ensures_index :: "operation_resource \<Rightarrow> bool" where
  "ensures_index r = (case r of EnsureUserEventIndex _ \<Rightarrow> True | _ \<Rightarrow> False)"

definition apply_operation_step_record ::
    "exec_env \<Rightarrow> operation_record \<Rightarrow> string \<Rightarrow> bool \<Rightarrow> index_registry option \<Rightarrow> operation_record exec" where
  "apply_operation_step_record env record step_id wait_for_index registry =
     xbind (xlift (validate_operation_routing (xe_hex_mac env) (xe_secret env) record)) (\<lambda>_.
     xbind xdata (\<lambda>d.
     xbind (xlift (validate_step_membership (xe_hex_mac env) (xe_secret env) record step_id
       (case registry of Some r \<Rightarrow> r | None \<Rightarrow> live_registry d (or_tenant_id record)))) (\<lambda>_.
     xbind (xlift (find_operation_step record step_id)) (\<lambda>step.
     xbind (xlift (find_step_progress record step_id)) (\<lambda>progress.
     let wait = (wait_for_index \<or> ensures_index (os_resource step)) in
     if sp_status progress = StepCompleted then xreturn record
     else if sp_status progress = StepSubmitted then
       if \<not> wait then xreturn record else await_step env record step_id (sp_task_uids progress)
     else submit_step env record step_id step wait)))))"

section \<open>Publication\<close>

definition publish_resource :: "store_data \<Rightarrow> string \<Rightarrow> operation_resource \<Rightarrow> unit exec" where
  "publish_resource staged t r s =
     (Inr (), s\<lparr>xs_data := publish_resource_cache staged t r (xs_data s), xs_log := xs_log s @ [Published t r]\<rparr>)"

fun publish_steps :: "store_data \<Rightarrow> string \<Rightarrow> operation_step list \<Rightarrow> unit exec" where
  "publish_steps staged t [] = xreturn ()"
| "publish_steps staged t (step # steps) =
     xbind (publish_resource staged t (os_resource step)) (\<lambda>_. publish_steps staged t steps)"

definition cache_locked :: "exec_env \<Rightarrow> operation_record \<Rightarrow> unit exec" where
  "cache_locked env record =
     xbind xdata (\<lambda>d.
     xbind (xlift (cache_operation_locked (xe_to_string env) (xe_hex_mac env) (xe_secret env) record (st_operations d)))
       (\<lambda>ops. xmodify (\<lambda>d. d\<lparr>st_operations := ops\<rparr>)))"

definition publish_operation_step_cache ::
    "exec_env \<Rightarrow> store_data \<Rightarrow> operation_record \<Rightarrow> string \<Rightarrow> unit exec" where
  "publish_operation_step_cache env staged record step_id =
     xbind (xlift (find_operation_step record step_id)) (\<lambda>step.
     xbind (if operation_is_compacted record then xreturn ()
       else publish_resource staged (or_tenant_id record) (os_resource step)) (\<lambda>_.
     cache_locked env record))"

definition publish_operation_cache :: "exec_env \<Rightarrow> store_data \<Rightarrow> operation_record \<Rightarrow> unit exec" where
  "publish_operation_cache env staged record =
     xbind (if operation_is_compacted record then xreturn ()
       else publish_steps staged (or_tenant_id record) (operation_steps (or_plan record))) (\<lambda>_.
     cache_locked env record)"

section \<open>Reconciliation and replay\<close>

fun json_as_bool :: "json \<Rightarrow> bool option" where
  "json_as_bool (JBool b) = Some b"
| "json_as_bool _ = None"

definition plan_waits :: "operation_record \<Rightarrow> bool option" where
  "plan_waits record = Option.bind (json_get (op_redacted_metadata (or_plan record)) ''wait_for_index'') json_as_bool"

definition operation_primary_was_accepted :: "operation_record \<Rightarrow> bool" where
  "operation_primary_was_accepted record =
     (case step_progress record (os_id (op_primary (or_plan record))) of
        Some p \<Rightarrow> sp_status p = StepSubmitted \<or> sp_status p = StepCompleted | None \<Rightarrow> False)"

definition operation_primary_response_was_exposed :: "operation_record \<Rightarrow> bool" where
  "operation_primary_response_was_exposed record =
     (plan_waits record = Some False
      \<and> (case step_progress record (os_id (op_primary (or_plan record))) of
           Some p \<Rightarrow> sp_task_uids p \<noteq> [] \<or> sp_status p = StepCompleted | None \<Rightarrow> False))"

text \<open>
  The loop over the side effects of a reconciliation, with or without a registry to keep current.
\<close>

definition next_registry ::
    "operation_record \<Rightarrow> string \<Rightarrow> index_registry option \<Rightarrow> api_error + index_registry option" where
  "next_registry record step_id registry =
     (case registry of
        Some reg \<Rightarrow> rbind (record_completed_registry_step record step_id reg) (\<lambda>r. Inr (Some r))
      | None \<Rightarrow> Inr None)"

fun reconcile_steps ::
    "exec_env \<Rightarrow> store_data \<Rightarrow> bool \<Rightarrow> operation_record \<Rightarrow> index_registry option \<Rightarrow> string list
      \<Rightarrow> (operation_record \<times> index_registry option) exec" where
  "reconcile_steps env projection buffered record registry [] = xreturn (record, registry)"
| "reconcile_steps env projection buffered record registry (step_id # step_ids) =
     xbind (apply_operation_step_record env record step_id True registry) (\<lambda>updated.
     xbind (xlift (next_registry updated step_id registry)) (\<lambda>registry'.
     xbind (if buffered then xreturn () else publish_operation_step_cache env projection updated step_id) (\<lambda>_.
     reconcile_steps env projection buffered updated registry' step_ids)))"

definition deletes_company_source :: "operation_resource \<Rightarrow> bool" where
  "deletes_company_source r = (case r of DeleteCompanySourceIndex _ _ \<Rightarrow> True | _ \<Rightarrow> False)"

definition reconcile_operation_record_with_registry ::
    "exec_env \<Rightarrow> operation_record \<Rightarrow> index_registry option \<Rightarrow> (operation_record \<times> index_registry option) exec" where
  "reconcile_operation_record_with_registry env record registry =
     xbind xdata (\<lambda>projection.
     let buffered = (plan_waits record = Some True \<and> \<not> deletes_company_source (os_resource (op_primary (or_plan record))))
     in xbind (reconcile_steps env projection buffered record registry (map os_id (operation_steps (or_plan record)))) (\<lambda>(updated, registry').
        xbind (if buffered then publish_operation_cache env projection updated else xreturn ()) (\<lambda>_.
        xreturn (updated, registry'))))"

definition current_user_index_registry :: "store_data \<Rightarrow> string \<Rightarrow> index_registry" where
  "current_user_index_registry d tenant_id =
     bt_get (bt_extend uei_owner_user_id_hash
       (filter (\<lambda>i. uei_tenant_id i = tenant_id) (map snd (st_user_indexes d))) [])"

definition reconcile_operation_record :: "exec_env \<Rightarrow> operation_record \<Rightarrow> operation_record exec" where
  "reconcile_operation_record env record =
     xbind xdata (\<lambda>d.
     xbind (reconcile_operation_record_with_registry env record (Some (current_user_index_registry d (or_tenant_id record))))
       (\<lambda>(updated, _). xreturn updated))"

text \<open>\<open>from_value\<close> decodes the response type of the caller.\<close>

definition replay_operation_response :: "(json \<Rightarrow> string + 'r) \<Rightarrow> operation_record \<Rightarrow> api_error + 'r" where
  "replay_operation_response from_value record =
     (let snapshot = op_response_snapshot (or_plan record) in
      if json_is_null snapshot
      then Inl (Conflict ''the existing operation predates idempotent response replay'')
      else
        map_err (\<lambda>e. Internal (''operation '' @ or_id record @ '' contains an invalid response snapshot: '' @ e))
          (from_value
            (case snapshot of
               JObject m \<Rightarrow>
                 if bt_get m ''duplicate'' \<noteq> None then JObject (bt_insert ''duplicate'' (JBool True) m) else snapshot
             | _ \<Rightarrow> snapshot)))"

definition replay_existing_operation ::
    "exec_env \<Rightarrow> (json \<Rightarrow> string + 'r) \<Rightarrow> operation_record \<Rightarrow> bool \<Rightarrow> ('r \<times> persistence_metadata option) exec" where
  "replay_existing_operation env from_value operation expose_partial_persistence =
     (let exposed = operation_primary_response_was_exposed operation in
      xbind (xtry (reconcile_operation_record env operation)) (\<lambda>reconciled.
      xbind (case reconciled of
          Inr updated \<Rightarrow> xreturn updated
        | Inl e \<Rightarrow>
            xbind xdata (\<lambda>d.
            case bt_get (st_operations d) (or_id operation) of
              Some latest \<Rightarrow>
                if expose_partial_persistence
                  \<and> (exposed \<or> operation_primary_response_was_exposed latest \<or> operation_primary_was_accepted latest)
                then xreturn latest else xfail e
            | None \<Rightarrow> xfail e)) (\<lambda>updated.
      xbind (xlift (replay_operation_response from_value updated)) (\<lambda>response.
      xreturn (response, Some (persistence_metadata updated))))))"

definition ensure_operation_request_matches :: "operation_record \<Rightarrow> string option \<Rightarrow> api_error + unit" where
  "ensure_operation_request_matches operation expected_fingerprint =
     (case expected_fingerprint of
        None \<Rightarrow> Inr ()
      | Some expected \<Rightarrow>
          if json_get_str (op_redacted_metadata (or_plan operation)) ''request_fingerprint'' \<noteq> Some expected
          then Inl (Conflict ''idempotency key was already used for a different request'') else Inr ())"

text \<open>The local record of an operation or, without one, the journalled one.\<close>

definition find_existing :: "exec_env \<Rightarrow> string \<Rightarrow> string \<Rightarrow> operation_record option exec" where
  "find_existing env tenant_id operation_id =
     xbind xdata (\<lambda>d.
     case bt_get (st_operations d) operation_id of
       Some existing \<Rightarrow> xreturn (Some existing)
     | None \<Rightarrow> get_operation env tenant_id operation_id)"

definition replay_matching ::
    "exec_env \<Rightarrow> (json \<Rightarrow> string + 'r) \<Rightarrow> operation_record \<Rightarrow> string option \<Rightarrow> mutation_primary
      \<Rightarrow> ('r \<times> persistence_metadata option) exec" where
  "replay_matching env from_value existing fingerprint primary_kind =
     xbind (xlift (ensure_operation_request_matches existing fingerprint)) (\<lambda>_.
     replay_existing_operation env from_value existing (exposes_partial_persistence primary_kind))"

section \<open>Execution\<close>

text \<open>\<open>Inl\<close> of a record is the early success that exposes a partially persisted mutation.\<close>

fun apply_side_effects ::
    "exec_env \<Rightarrow> store_data \<Rightarrow> bool \<Rightarrow> bool \<Rightarrow> bool \<Rightarrow> operation_record \<Rightarrow> index_registry \<Rightarrow> string list
      \<Rightarrow> (operation_record + operation_record) exec" where
  "apply_side_effects env after wait expose buffered record registry [] = xreturn (Inr record)"
| "apply_side_effects env after wait expose buffered record registry (step_id # step_ids) =
     xbind (xtry (apply_operation_step_record env record step_id wait (Some registry))) (\<lambda>applied.
     case applied of
       Inr updated \<Rightarrow>
         xbind (xlift (record_completed_registry_step updated step_id registry)) (\<lambda>registry'.
         xbind (if buffered then xreturn () else publish_operation_step_cache env after updated step_id) (\<lambda>_.
         apply_side_effects env after wait expose buffered updated registry' step_ids))
     | Inl e \<Rightarrow>
         xbind xdata (\<lambda>d.
         let latest = (case bt_get (st_operations d) (or_id record) of Some l \<Rightarrow> l | None \<Rightarrow> record) in
         if expose \<and> operation_primary_was_accepted latest then xreturn (Inl latest) else xfail e))"

definition execute_new_operation ::
    "exec_env \<Rightarrow> store_data \<Rightarrow> mutation_primary \<Rightarrow> 'r \<Rightarrow> operation_plan \<Rightarrow> ('r \<times> persistence_metadata option) exec" where
  "execute_new_operation env after primary_kind response plan =
     xbind (xlift (map_err (\<lambda>e. Internal (''invalid mutation plan: '' @ mutation_plan_error_display e))
       (operation_record_from_plan plan))) (\<lambda>planned.
     xbind (persist_operation_checkpoint env planned) (\<lambda>_.
     let wait = waits_for_index (ma_write_consistency (xe_ambient env)) primary_kind;
         buffered = (wait \<and> primary_kind \<noteq> MpDeleteCompanySource);
         primary_id = os_id (op_primary (or_plan planned))
     in xbind xdata (\<lambda>d.
        let registry = current_user_index_registry d (op_tenant_id plan) in
        xbind (apply_operation_step_record env planned primary_id wait (Some registry)) (\<lambda>record.
        xbind (xlift (record_completed_registry_step record primary_id registry)) (\<lambda>registry'.
        xbind (if buffered then xreturn () else publish_operation_step_cache env after record primary_id) (\<lambda>_.
        xbind (apply_side_effects env after wait (exposes_partial_persistence primary_kind) buffered record registry'
          (map os_id (op_side_effects (or_plan record)))) (\<lambda>finished.
        case finished of
          Inl latest \<Rightarrow> xreturn (response, Some (persistence_metadata latest))
        | Inr final \<Rightarrow>
            xbind (if buffered then publish_operation_cache env after final else xreturn ()) (\<lambda>_.
            xreturn (response, Some (persistence_metadata final))))))))))"

text \<open>
  \<open>mutate\<close> is the closure of the caller, run on the staged copy; \<open>to_value\<close> and \<open>from_value\<close> encode
  and decode its response.
\<close>

definition execute_staged_mutation_guarded ::
    "exec_env \<Rightarrow> ('r \<Rightarrow> string + json) \<Rightarrow> (json \<Rightarrow> string + 'r) \<Rightarrow> string \<Rightarrow> string \<Rightarrow> string option
      \<Rightarrow> string option \<Rightarrow> string option \<Rightarrow> mutation_primary \<Rightarrow> (store_data \<Rightarrow> api_error + 'r \<times> store_data)
      \<Rightarrow> ('r \<times> persistence_metadata option) exec" where
  "execute_staged_mutation_guarded env to_value from_value tenant_id operation_kind owner key fingerprint primary_kind mutate =
     (let hm = xe_hex_mac env; secret = xe_secret env in
      xbind (case key of
          None \<Rightarrow> xreturn None
        | Some k \<Rightarrow> find_existing env tenant_id
            (idempotent_operation_id hm secret tenant_id operation_kind (map_option (user_hash hm secret) owner)
              (idempotency_hash hm secret k))) (\<lambda>existing.
      case existing of
        Some e \<Rightarrow> replay_matching env from_value e fingerprint primary_kind
      | None \<Rightarrow>
          xbind xdata (\<lambda>before.
          xbind (xlift (mutate before)) (\<lambda>(response, after).
          let resources = mutation_resources (xe_char_lower env) (xe_to_value env) tenant_id before after in
          if resources = [] then xreturn (response, None)
          else
            xbind (xlift (case key of
                Some _ \<Rightarrow> map_err (\<lambda>e. Internal (''failed to snapshot mutation response: '' @ e)) (to_value response)
              | None \<Rightarrow> Inr JNull)) (\<lambda>snapshot.
            xbind (xlift (mutation_plan hm secret (xe_ambient env)
              \<lparr>mpi_tenant_id = tenant_id, mpi_operation_kind = operation_kind, mpi_owner_user_id = owner,
               mpi_idempotency_key = key, mpi_primary_kind = primary_kind, mpi_resources = resources,
               mpi_response_snapshot = snapshot, mpi_request_fingerprint = fingerprint\<rparr>)) (\<lambda>plan.
            xbind (find_existing env tenant_id (op_id plan)) (\<lambda>existing.
            case existing of
              Some e \<Rightarrow> replay_matching env from_value e fingerprint primary_kind
            | None \<Rightarrow> execute_new_operation env after primary_kind response plan)))))))"

definition execute_explicit_resource_operation ::
    "exec_env \<Rightarrow> string \<Rightarrow> string \<Rightarrow> string option \<Rightarrow> mutation_primary \<Rightarrow> operation_resource
      \<Rightarrow> persistence_metadata exec" where
  "execute_explicit_resource_operation env tenant_id operation_kind owner primary_kind resource =
     xbind xdata (\<lambda>projection.
     xbind (xlift (mutation_plan (xe_hex_mac env) (xe_secret env) (xe_ambient env)
       \<lparr>mpi_tenant_id = tenant_id, mpi_operation_kind = operation_kind, mpi_owner_user_id = owner,
        mpi_idempotency_key = None, mpi_primary_kind = primary_kind, mpi_resources = [resource],
        mpi_response_snapshot = JNull, mpi_request_fingerprint = None\<rparr>)) (\<lambda>plan.
     xbind (xlift (map_err (\<lambda>e. Internal (''invalid mutation plan: '' @ mutation_plan_error_display e))
       (operation_record_from_plan plan))) (\<lambda>planned.
     xbind (persist_operation_checkpoint env planned) (\<lambda>_.
     let primary_id = os_id (op_primary (or_plan planned));
         wait = (ma_write_consistency (xe_ambient env) = WaitForIndex)
     in xbind (apply_operation_step_record env planned primary_id wait None) (\<lambda>record.
        xbind (publish_operation_step_cache env projection record primary_id) (\<lambda>_.
        xreturn (persistence_metadata record)))))))"

end
