(* ===== verification/Executor_Facts.thy ===== *)
theory Executor_Facts
  imports Operation_Executor
begin

text \<open>
  Lemmas on the executor: a small program logic for its computations, what its parts do to the log,
  and what a record looks like after each of them.
\<close>

section \<open>A program logic\<close>

text \<open>
  \<open>keeps I P m Q\<close>: from a state in the invariant that satisfies the precondition, the computation
  ends in the invariant, and a successful result satisfies the postcondition.
\<close>

definition keeps :: "(exec_state \<Rightarrow> bool) \<Rightarrow> (exec_state \<Rightarrow> bool) \<Rightarrow> 'a exec \<Rightarrow> ('a \<Rightarrow> exec_state \<Rightarrow> bool) \<Rightarrow> bool" where
  "keeps I P m Q = (\<forall>s. I s \<longrightarrow> P s \<longrightarrow> I (snd (m s)) \<and> (\<forall>v. fst (m s) = Inr v \<longrightarrow> Q v (snd (m s))))"

lemma keepsI:
  "(\<And>s. I s \<Longrightarrow> P s \<Longrightarrow> I (snd (m s)) \<and> (\<forall>v. fst (m s) = Inr v \<longrightarrow> Q v (snd (m s)))) \<Longrightarrow> keeps I P m Q"
  by (simp add: keeps_def)

lemma keepsD: "keeps I P m Q \<Longrightarrow> m s = (r, s') \<Longrightarrow> I s \<Longrightarrow> P s \<Longrightarrow> I s' \<and> (\<forall>v. r = Inr v \<longrightarrow> Q v s')"
  unfolding keeps_def by fastforce

lemma keeps_weaken: "keeps I P m R \<Longrightarrow> (\<And>v s. R v s \<Longrightarrow> Q v s) \<Longrightarrow> keeps I P m Q"
  by (simp add: keeps_def)

lemma keeps_pre: "keeps I P' m Q \<Longrightarrow> (\<And>s. P s \<Longrightarrow> P' s) \<Longrightarrow> keeps I P m Q"
  by (simp add: keeps_def)

lemma keeps_bind:
  assumes "keeps I P m R" and "\<And>v. keeps I (R v) (f v) Q"
  shows "keeps I P (xbind m f) Q"
proof (rule keepsI)
  fix s assume s: "I s" "P s"
  obtain r s1 where m: "m s = (r, s1)" by fastforce
  note k = keepsD [OF assms(1) m s]
  show "I (snd (xbind m f s)) \<and> (\<forall>v. fst (xbind m f s) = Inr v \<longrightarrow> Q v (snd (xbind m f s)))"
  proof (cases r)
    case (Inl e)
    with k m show ?thesis by (simp add: xbind_def)
  next
    case (Inr v)
    obtain r2 s2 where f: "f v s1 = (r2, s2)" by fastforce
    have "I s2 \<and> (\<forall>w. r2 = Inr w \<longrightarrow> Q w s2)" using keepsD [OF assms(2) f] k Inr by blast
    with m f Inr show ?thesis by (simp add: xbind_def)
  qed
qed

lemma keeps_return: "(\<And>s. P s \<Longrightarrow> Q v s) \<Longrightarrow> keeps I P (xreturn v) Q"
  by (simp add: keeps_def xreturn_def)

lemma keeps_fail: "keeps I P (xfail e) Q"
  by (simp add: keeps_def xfail_def)

lemma keeps_lift: "(\<And>v s. r = Inr v \<Longrightarrow> P s \<Longrightarrow> Q v s) \<Longrightarrow> keeps I P (xlift r) Q"
  by (simp add: keeps_def xlift_def)

lemma keeps_data: "(\<And>s. I s \<Longrightarrow> P s \<Longrightarrow> Q (xs_data s) s) \<Longrightarrow> keeps I P xdata Q"
  by (simp add: keeps_def xdata_def)

lemma keeps_modify:
  "(\<And>s. I s \<Longrightarrow> P s \<Longrightarrow> I (s\<lparr>xs_data := f (xs_data s)\<rparr>) \<and> Q () (s\<lparr>xs_data := f (xs_data s)\<rparr>)) \<Longrightarrow> keeps I P (xmodify f) Q"
  by (simp add: keeps_def xmodify_def)

text \<open>A caught error keeps the invariant too.\<close>

lemma keeps_try:
  "keeps I P m Q \<Longrightarrow> keeps I P (xtry m) (\<lambda>r s. case r of Inl _ \<Rightarrow> True | Inr v \<Rightarrow> Q v s)"
  by (auto simp: keeps_def xtry_def split: prod.splits sum.split)

lemma keeps_sum:
  "(\<And>e. x = Inl e \<Longrightarrow> keeps I P (f e) Q) \<Longrightarrow> (\<And>v. x = Inr v \<Longrightarrow> keeps I P (g v) Q)
     \<Longrightarrow> keeps I P (case x of Inl e \<Rightarrow> f e | Inr v \<Rightarrow> g v) Q"
  by (cases x) auto

lemma keeps_option:
  "(x = None \<Longrightarrow> keeps I P f Q) \<Longrightarrow> (\<And>v. x = Some v \<Longrightarrow> keeps I P (g v) Q)
     \<Longrightarrow> keeps I P (case x of None \<Rightarrow> f | Some v \<Rightarrow> g v) Q"
  by (cases x) auto

lemma keeps_if:
  "(c \<Longrightarrow> keeps I P f Q) \<Longrightarrow> (\<not> c \<Longrightarrow> keeps I P g Q) \<Longrightarrow> keeps I P (if c then f else g) Q"
  by simp

lemma keeps_pair: "(\<And>a b. x = (a, b) \<Longrightarrow> keeps I P (f a b) Q) \<Longrightarrow> keeps I P (case x of (a, b) \<Rightarrow> f a b) Q"
  by (cases x) auto

text \<open>A precondition that does not mention the state is a premise.\<close>

lemma keeps_pure: "(C \<Longrightarrow> keeps I P m Q) \<Longrightarrow> keeps I (\<lambda>s. C \<and> P s) m Q"
  by (simp add: keeps_def)

lemma keeps_pure': "(C \<Longrightarrow> keeps I (\<lambda>_. True) m Q) \<Longrightarrow> keeps I (\<lambda>_. C) m Q"
  by (simp add: keeps_def)

text \<open>
  The rules by which a proof walks through a computation, first goal first: the first list fixes the
  condition between two parts as the strongest one, so it goes before the second.
\<close>

lemma keeps_lift_exact: "keeps I P (xlift r) (\<lambda>v s. r = Inr v \<and> P s)"
  by (simp add: keeps_def xlift_def)

lemma keeps_return_exact: "keeps I P (xreturn v) (\<lambda>w s. w = v \<and> P s)"
  by (simp add: keeps_def xreturn_def)

lemma keeps_data_any: "keeps I P xdata (\<lambda>_. P)"
  by (simp add: keeps_def xdata_def)

lemma keeps_try_any: "keeps I P m (\<lambda>_ _. True) \<Longrightarrow> keeps I P (xtry m) (\<lambda>_ _. True)"
  by (auto simp: keeps_def xtry_def split: prod.splits)

lemma keeps_return_any: "keeps I P (xreturn v) (\<lambda>_ _. True)"
  by (simp add: keeps_def xreturn_def)

lemma keeps_drop: "keeps I (\<lambda>_. True) m Q \<Longrightarrow> keeps I P m Q"
  by (simp add: keeps_def)

lemmas keeps_exact = keeps_lift_exact keeps_return_exact keeps_data_any

lemmas keeps_walk = keeps_pure keeps_bind keeps_try_any keeps_sum keeps_option keeps_if keeps_pair keeps_fail keeps_return_any

section \<open>Records after a transition\<close>

lemma settled_valid:
  assumes "validate_operation_record r = Inr ()"
  shows "operation_is_settled r \<longleftrightarrow>
    (\<forall>s\<in>set (operation_steps (or_plan r)). step_status_is r {StepCompleted} s)"
proof -
  have "derive_operation_state r = Inr (or_status r, or_indexing_state r)" and "covers r"
    using assms by (simp_all add: validate_operation_record_Inr)
  then show ?thesis using derive_settled_iff [of r] by (simp add: operation_is_settled_def)
qed

lemma journal_form_cases:
  assumes "journal_operation_form ts hm secret r = Inr j"
  shows "j = r \<or> (\<exists>m d. operation_is_settled r \<and> j = compacted_record r m d \<and> validate_operation_record j = Inr ())"
proof -
  obtain c where c: "compact_settled_operation ts (\<lambda>payload. ''hmac:'' @ hmac_hex hm secret ''operation-payload-v1'' payload 32) r = Inr c"
      "j = (case c of Some c \<Rightarrow> c | None \<Rightarrow> r)"
    using assms unfolding journal_operation_form_def map_err_Inr rbind_Inr by blast
  show ?thesis
  proof (cases c)
    case (Some x)
    have "j = x" using c(2) Some by simp
    moreover have "\<exists>m d. operation_is_settled r \<and> x = compacted_record r m d \<and> validate_operation_record x = Inr ()"
      using c(1) unfolding Some compact_settled_Some by blast
    ultimately show ?thesis by simp
  qed (simp add: c)
qed

lemma journal_form_facts:
  assumes "journal_operation_form ts hm secret r = Inr j"
  shows "or_id j = or_id r \<and> or_tenant_id j = or_tenant_id r
    \<and> operation_primary_was_accepted j = operation_primary_was_accepted r
    \<and> (validate_operation_record r = Inr () \<longrightarrow> validate_operation_record j = Inr ())
    \<and> (operation_is_settled r \<or> j = r) \<and> operation_is_settled j = operation_is_settled r"
  using journal_form_cases [OF assms]
  by (auto simp: operation_primary_was_accepted_def compacted_record_plan)

lemma accepted_iff: "operation_primary_was_accepted r \<longleftrightarrow> step_status_is r accepted_statuses (op_primary (or_plan r))"
  by (auto simp: operation_primary_was_accepted_def step_status_is_def split: option.split)

text \<open>What a transition of a step keeps, and the status it gives.\<close>

definition advanced :: "operation_record \<Rightarrow> string \<Rightarrow> operation_step_status set \<Rightarrow> operation_record \<Rightarrow> bool" where
  "advanced r k st r' =
     (validate_operation_record r' = Inr () \<and> or_plan r' = or_plan r \<and> or_id r' = or_id r
      \<and> or_tenant_id r' = or_tenant_id r
      \<and> (\<forall>j. j \<noteq> k \<longrightarrow> step_progress r' j = step_progress r j)
      \<and> (\<exists>p. step_progress r' k = Some p \<and> sp_status p \<in> st))"

lemma step_written_advanced:
  assumes "step_written r k p p' at r'"
  shows "advanced r k {sp_status p'} r'"
  using step_written_frame(1,2) [OF assms] step_written_progress [OF assms]
  by (simp add: advanced_def same_operation_def)

lemma transition_advanced:
  "operation_step_completed r k at = Inr r' \<Longrightarrow> advanced r k {StepCompleted} r'"
  "operation_step_accepted r k uids at = Inr r' \<Longrightarrow> advanced r k {StepSubmitted} r'"
  "operation_step_failed r k c f at = Inr r' \<Longrightarrow> advanced r k {StepFailed} r'"
  by (auto simp: operation_step_accepted_def dest!: operation_step_completed_Inr operation_step_submitted_Inr
      operation_step_failed_Inr dest: step_written_advanced)

lemma advanced_trans:
  "advanced r k A r' \<Longrightarrow> advanced r' k B r'' \<Longrightarrow> advanced r k B r''"
  by (auto simp: advanced_def)

lemma advanced_mono: "advanced r k A r' \<Longrightarrow> A \<subseteq> B \<Longrightarrow> advanced r k B r'"
  by (auto simp: advanced_def)

end
