(* ===== verification/Executor_Journal.thy ===== *)
theory Executor_Journal
  imports Executor_Facts Mutation_Patch
begin

text \<open>
  The journal under the executor: every record it writes or caches is valid and in bounds, whatever
  the repository answers.
\<close>

section \<open>The journal invariant\<close>

definition ops_ok :: "operation_cache \<Rightarrow> bool" where
  "ops_ok m =
     (bt_inv m \<and> settled_count m \<le> max_in_memory_settled_operations
      \<and> (\<forall>(k, r)\<in>set m. or_id r = k \<and> validate_operation_record r = Inr ()))"

definition journal_ok :: "exec_state \<Rightarrow> bool" where
  "journal_ok s =
     (ops_ok (st_operations (xs_data s))
      \<and> (\<forall>r a. Upserted r a \<in> set (xs_log s) \<longrightarrow> validate_operation_record r = Inr ()))"

abbreviation valid_record :: "operation_record \<Rightarrow> bool" where
  "valid_record r \<equiv> validate_operation_record r = Inr ()"

lemma ops_ok_cache:
  assumes "ops_ok m" and "valid_record r"
  shows "ops_ok (cache_operation r m)"
proof -
  have w: "evicted_well (or_id r) (bt_insert (or_id r) r m) (cache_operation r m)
      \<and> settled_count (cache_operation r m) \<le> max_in_memory_settled_operations"
    using assms(1) by (intro cache_operation_well) (simp_all add: ops_ok_def)
  then have "set (cache_operation r m) \<subseteq> insert (or_id r, r) (set m)"
    using set_bt_insert [of "or_id r" r m] unfolding evicted_well_def by (meson order_trans)
  then have "\<forall>(k, q)\<in>set (cache_operation r m). or_id q = k \<and> valid_record q"
    using assms unfolding ops_ok_def by fast
  then show ?thesis using w by (simp add: ops_ok_def evicted_well_def)
qed

lemma st_operations_source: "st_operations (publish_source_deletion t sid target d) = st_operations d"
  by (cases target) (simp_all add: publish_source_deletion_def delete_revisions_def delete_source_documents_def
      Let_def split: option.split)

lemma st_operations_one:
  "st_operations (publish_event e d) = st_operations d"
  "st_operations (publish_revision rv d) = st_operations d"
  "st_operations (upsert_source_document_cache x d) = st_operations d"
  "st_operations (publish_component_revision cr d) = st_operations d"
  "st_operations (upsert_ingest_task_cache k d) = st_operations d"
  "st_operations (publish_task_deletion i d) = st_operations d"
  "st_operations (publish_ingest_result r d) = st_operations d"
  "st_operations (publish_row j d) = st_operations d"
  by (simp_all add: publish_event_def publish_revision_def upsert_source_document_cache_def
      publish_component_revision_def upsert_ingest_task_cache_def publish_task_deletion_def
      publish_ingest_result_def publish_row_def Let_def split: option.split)

lemma st_operations_publish [simp]: "st_operations (publish_resource_cache staged t r d) = st_operations d"
  by (cases r) (simp_all add: publish_resource_cache_def st_operations_source st_operations_one
      st_operations_one [THEN fold_frame [where K = st_operations]] split: option.split)

section \<open>Its preservation\<close>

abbreviation anyway :: "exec_state \<Rightarrow> bool" where "anyway \<equiv> \<lambda>_. True"

lemma ok_logged: "journal_ok s \<Longrightarrow> (\<And>r a. e = Upserted r a \<Longrightarrow> valid_record r) \<Longrightarrow> journal_ok (logged e s)"
  by (auto simp: journal_ok_def logged_def)

lemma ok_calls:
  "keeps journal_ok anyway (xnow env) (\<lambda>_. anyway)"
  "keeps journal_ok anyway (apply_operation_step env t step) (\<lambda>_. anyway)"
  "keeps journal_ok anyway (wait_for_repository_tasks env uids) (\<lambda>_. anyway)"
  "keeps journal_ok anyway (get_operation env t i) (\<lambda>_. anyway)"
  "valid_record r \<Longrightarrow> keeps journal_ok anyway (upsert_operation env r) (\<lambda>_. anyway)"
  by (auto simp: keeps_def xnow_def apply_operation_step_def wait_for_repository_tasks_def get_operation_def
      upsert_operation_def Let_def intro!: ok_logged) (simp add: journal_ok_def)

lemma ok_cache:
  "valid_record r \<Longrightarrow> keeps journal_ok anyway (xmodify (cache_record r)) (\<lambda>_. anyway)"
  by (rule keeps_modify) (simp add: journal_ok_def cache_record_def ops_ok_cache)

lemma ok_cache_absent:
  "valid_record r \<Longrightarrow> keeps journal_ok anyway
     (xmodify (\<lambda>d. if bt_get (st_operations d) (or_id r) = None then cache_record r d else d)) (\<lambda>_. anyway)"
  by (rule keeps_modify) (simp add: journal_ok_def cache_record_def ops_ok_cache)

lemma journal_form_valid: "journal_operation_form ts hm secret r = Inr j \<Longrightarrow> valid_record r \<Longrightarrow> valid_record j"
  using journal_form_facts by blast

lemma ok_persist:
  "valid_record r \<Longrightarrow> keeps journal_ok anyway (persist_operation_checkpoint env r) (\<lambda>_. anyway)"
  unfolding persist_operation_checkpoint_def
  by (rule keeps_exact keeps_walk ok_calls ok_cache ok_cache_absent | erule (1) journal_form_valid)+

lemma transition_valid:
  "map_err f (operation_step_completed r k at) = Inr q \<Longrightarrow> valid_record q"
  "map_err f (operation_step_failed r k c fp at) = Inr q \<Longrightarrow> valid_record q"
  "map_err f (if b then operation_step_completed r k at else operation_step_accepted r k uids at) = Inr q \<Longrightarrow> valid_record q"
  unfolding map_err_Inr by (auto simp: advanced_def split: if_splits dest!: transition_advanced)

lemma ok_failure:
  "keeps journal_ok anyway (record_operation_failure env r k err) (\<lambda>q _. valid_record q)"
  unfolding record_operation_failure_def Let_def
  by (rule keeps_exact keeps_walk ok_calls ok_cache ok_persist | erule transition_valid)+

lemma ok_complete: "keeps journal_ok anyway (complete_step env r k) (\<lambda>q _. valid_record q)"
  unfolding complete_step_def
  by (rule keeps_exact keeps_walk ok_calls ok_persist | erule transition_valid | (rule keeps_return, blast intro: transition_valid))+

lemma ok_await: "keeps journal_ok anyway (await_step env r k uids) (\<lambda>q _. valid_record q)"
  unfolding await_step_def
  by (rule keeps_exact keeps_walk ok_calls ok_failure ok_complete)+

lemma ok_submit: "keeps journal_ok anyway (submit_step env r k step wait) (\<lambda>q _. valid_record q)"
  unfolding submit_step_def
  by (rule keeps_exact keeps_walk ok_calls ok_persist ok_failure ok_await | erule transition_valid | (rule keeps_return, blast intro: transition_valid))+

lemma ok_apply:
  "keeps journal_ok anyway (apply_operation_step_record env r k wait registry) (\<lambda>q _. valid_record q)"
  unfolding apply_operation_step_record_def Let_def
  by (rule keeps_exact keeps_walk ok_await ok_submit | (rule keeps_return, simp add: routing_valid))+

lemma ok_publish: "keeps journal_ok anyway (publish_resource staged t r) (\<lambda>_. anyway)"
  by (auto simp: keeps_def publish_resource_def journal_ok_def)

lemma ok_publish_steps: "keeps journal_ok anyway (publish_steps staged t steps) (\<lambda>_. anyway)"
  by (induction steps) (simp_all, (rule keeps_exact keeps_walk ok_publish | assumption)+)

lemma cache_locked_ops:
  assumes "cache_operation_locked ts hm secret r m = Inr m'" and "ops_ok m" and "valid_record r"
  shows "ops_ok m'"
  using assms journal_form_valid ops_ok_cache
  by (auto simp: cache_operation_locked_def rbind_Inr split: if_splits)

lemma ok_cache_locked:
  assumes "valid_record r"
  shows "keeps journal_ok anyway (cache_locked env r) (\<lambda>_. anyway)"
proof (rule keepsI)
  fix s assume ok: "journal_ok s"
  let ?c = "cache_operation_locked (xe_to_string env) (xe_hex_mac env) (xe_secret env) r (st_operations (xs_data s))"
  show "journal_ok (snd (cache_locked env r s)) \<and> (\<forall>v. fst (cache_locked env r s) = Inr v \<longrightarrow> True)"
    using ok cache_locked_ops [OF _ _ assms, of "xe_to_string env" "xe_hex_mac env" "xe_secret env" "st_operations (xs_data s)"]
    by (cases ?c) (simp_all add: cache_locked_def xbind_def xdata_def xlift_def xmodify_def journal_ok_def)
qed

lemma ok_publish_step:
  "valid_record r \<Longrightarrow> keeps journal_ok anyway (publish_operation_step_cache env staged r k) (\<lambda>_. anyway)"
  unfolding publish_operation_step_cache_def
  by (rule keeps_exact keeps_walk ok_publish | erule ok_cache_locked)+

lemma ok_publish_all:
  "valid_record r \<Longrightarrow> keeps journal_ok anyway (publish_operation_cache env staged r) (\<lambda>_. anyway)"
  unfolding publish_operation_cache_def
  by (rule keeps_exact keeps_walk ok_publish_steps | erule ok_cache_locked)+

lemma ok_reconcile_steps:
  "ks \<noteq> [] \<or> valid_record r \<Longrightarrow>
     keeps journal_ok anyway (reconcile_steps env projection buffered r registry ks) (\<lambda>x _. valid_record (fst x))"
proof (induction ks arbitrary: r registry)
  case (Cons k ks)
  show ?case
    unfolding reconcile_steps.simps
  proof (rule keeps_bind, rule ok_apply, rule keeps_pure')
    fix q assume q: "valid_record q"
    show "keeps journal_ok anyway
       (xbind (xlift (next_registry q k registry)) (\<lambda>registry'.
        xbind (if buffered then xreturn () else publish_operation_step_cache env projection q k) (\<lambda>_.
        reconcile_steps env projection buffered q registry' ks))) (\<lambda>x _. valid_record (fst x))"
      using q by - (rule keeps_exact keeps_walk | erule ok_publish_step | (rule Cons.IH, blast))+
  qed
qed (simp add: keeps_return)

lemma ok_reconcile:
  "keeps journal_ok anyway (reconcile_operation_record_with_registry env r registry) (\<lambda>_. anyway)"
  "keeps journal_ok anyway (reconcile_operation_record env r) (\<lambda>_. anyway)"
proof -
  show first: "keeps journal_ok anyway (reconcile_operation_record_with_registry env r registry) (\<lambda>_. anyway)" for registry
    unfolding reconcile_operation_record_with_registry_def Let_def
  proof (rule keeps_bind, rule keeps_data_any, rule keeps_bind)
    fix projection
    let ?b = "plan_waits r = Some True \<and> \<not> deletes_company_source (os_resource (op_primary (or_plan r)))"
    show "keeps journal_ok anyway (reconcile_steps env projection ?b r registry (map os_id (operation_steps (or_plan r))))
        (\<lambda>x _. valid_record (fst x))"
      by (rule ok_reconcile_steps) (simp add: operation_steps_def)
    fix x
    show "keeps journal_ok (\<lambda>_. valid_record (fst x))
       (case x of (updated, registry') \<Rightarrow>
          xbind (if ?b then publish_operation_cache env projection updated else xreturn ())
            (\<lambda>_. xreturn (updated, registry'))) (\<lambda>_. anyway)"
    proof (rule keeps_pure', rule keeps_pair)
      fix q reg' assume q: "valid_record (fst x)" "x = (q, reg')"
      show "keeps journal_ok anyway
          (xbind (if ?b then publish_operation_cache env projection q else xreturn ()) (\<lambda>_. xreturn (q, reg')))
          (\<lambda>_. anyway)"
        using q by - (rule keeps_bind keeps_if ok_publish_all keeps_return_any | simp)+
    qed
  qed
  show "keeps journal_ok anyway (reconcile_operation_record env r) (\<lambda>_. anyway)"
    unfolding reconcile_operation_record_def
    by (rule keeps_exact keeps_walk first)+
qed

lemma ok_replay:
  "keeps journal_ok anyway (replay_existing_operation env from_value r expose) (\<lambda>_. anyway)"
  "keeps journal_ok anyway (replay_matching env from_value r fingerprint primary) (\<lambda>_. anyway)"
proof -
  show first: "keeps journal_ok anyway (replay_existing_operation env from_value r expose) (\<lambda>_. anyway)" for expose
    unfolding replay_existing_operation_def Let_def
    by (rule keeps_exact keeps_walk ok_reconcile)+
  show "keeps journal_ok anyway (replay_matching env from_value r fingerprint primary) (\<lambda>_. anyway)"
    unfolding replay_matching_def by (rule keeps_exact keeps_walk first)+
qed

section \<open>Whole executions\<close>

text \<open>The metadata of a plan never carries the marker of compaction, so its record is fresh.\<close>

lemma plan_not_compacted:
  assumes "mutation_plan hm secret amb input = Inr p"
  shows "json_get (op_redacted_metadata p) compacted_payloads_metadata_key = None"
proof -
  obtain oh where "op_redacted_metadata p = plan_metadata amb input oh"
    using assms by (auto simp: mutation_plan_def Let_def split: option.splits)
  moreover have "json_get (plan_metadata amb input oh) compacted_payloads_metadata_key = None"
    by (simp add: plan_metadata_def bt_get_insert compacted_payloads_metadata_key_def)
  ultimately show ?thesis by simp
qed

lemma fresh_valid:
  assumes "operation_record_from_plan p = Inr r"
    and "json_get (op_redacted_metadata p) compacted_payloads_metadata_key = None"
  shows "valid_record r"
  using fresh_record_inv [OF assms] by (simp add: journal_inv_def record_wf_def)

lemma ok_side_effects:
  "valid_record r \<Longrightarrow>
     keeps journal_ok anyway (apply_side_effects env after wait expose buffered r registry ks)
       (\<lambda>x _. \<forall>q. x = Inr q \<longrightarrow> valid_record q)"
proof (induction ks arbitrary: r registry)
  case (Cons k ks)
  show ?case
    unfolding apply_side_effects.simps Let_def
  proof (rule keeps_bind, rule keeps_try, rule ok_apply)
    fix applied
    show "keeps journal_ok (\<lambda>s. case applied of Inl _ \<Rightarrow> True | Inr q \<Rightarrow> valid_record q)
       (case applied of
          Inl e \<Rightarrow> xbind xdata (\<lambda>d.
            if expose \<and> operation_primary_was_accepted (case bt_get (st_operations d) (or_id r) of None \<Rightarrow> r | Some l \<Rightarrow> l)
            then xreturn (Inl (case bt_get (st_operations d) (or_id r) of None \<Rightarrow> r | Some l \<Rightarrow> l)) else xfail e)
        | Inr updated \<Rightarrow>
            xbind (xlift (record_completed_registry_step updated k registry)) (\<lambda>registry'.
            xbind (if buffered then xreturn () else publish_operation_step_cache env after updated k) (\<lambda>_.
            apply_side_effects env after wait expose buffered updated registry' ks)))
       (\<lambda>x _. \<forall>q. x = Inr q \<longrightarrow> valid_record q)"
    proof (rule keeps_pure', rule keeps_sum)
      fix e
      show "keeps journal_ok anyway (xbind xdata (\<lambda>d.
            if expose \<and> operation_primary_was_accepted (case bt_get (st_operations d) (or_id r) of None \<Rightarrow> r | Some l \<Rightarrow> l)
            then xreturn (Inl (case bt_get (st_operations d) (or_id r) of None \<Rightarrow> r | Some l \<Rightarrow> l)) else xfail e))
          (\<lambda>x _. \<forall>q. x = Inr q \<longrightarrow> valid_record q)"
        by (rule keeps_bind keeps_data_any keeps_if keeps_fail | (rule keeps_return, simp))+
    next
      fix q assume "case applied of Inl _ \<Rightarrow> True | Inr q \<Rightarrow> valid_record q" "applied = Inr q"
      then have q: "valid_record q" by simp
      show "keeps journal_ok anyway
          (xbind (xlift (record_completed_registry_step q k registry)) (\<lambda>registry'.
           xbind (if buffered then xreturn () else publish_operation_step_cache env after q k) (\<lambda>_.
           apply_side_effects env after wait expose buffered q registry' ks)))
          (\<lambda>x _. \<forall>q. x = Inr q \<longrightarrow> valid_record q)"
        using q by - (rule keeps_exact keeps_walk | erule ok_publish_step | erule Cons.IH)+
    qed
  qed
qed (simp add: keeps_return)

lemma ok_execute_new:
  assumes "json_get (op_redacted_metadata p) compacted_payloads_metadata_key = None"
  shows "keeps journal_ok anyway (execute_new_operation env after primary response p) (\<lambda>_. anyway)"
  unfolding execute_new_operation_def Let_def
proof (rule keeps_bind, rule keeps_lift_exact, rule keeps_pure)
  fix r assume "map_err (\<lambda>e. Internal (''invalid mutation plan: '' @ mutation_plan_error_display e))
      (operation_record_from_plan p) = Inr r"
  then have r: "valid_record r" using fresh_valid assms unfolding map_err_Inr by blast
  let ?wait = "waits_for_index (ma_write_consistency (xe_ambient env)) primary"
  let ?id = "os_id (op_primary (or_plan r))"
  let ?buffered = "?wait \<and> primary \<noteq> MpDeleteCompanySource"
  have rest: "valid_record q \<Longrightarrow> keeps journal_ok anyway
      (xbind (apply_side_effects env after ?wait (exposes_partial_persistence primary) ?buffered q reg ks) (\<lambda>finished.
       case finished of
         Inl latest \<Rightarrow> xreturn (response, Some (persistence_metadata latest))
       | Inr fin \<Rightarrow> xbind (if ?buffered then publish_operation_cache env after fin else xreturn ())
           (\<lambda>_. xreturn (response, Some (persistence_metadata fin))))) (\<lambda>_. anyway)" for q reg ks
    by (rule keeps_bind, erule ok_side_effects, rule keeps_pure', rule keeps_sum, rule keeps_return_any)
      (rule keeps_bind keeps_if keeps_return_any | (rule ok_publish_all, simp))+
  show "keeps journal_ok anyway
     (xbind (persist_operation_checkpoint env r) (\<lambda>_. xbind xdata (\<lambda>d.
        xbind (apply_operation_step_record env r ?id ?wait (Some (current_user_index_registry d (op_tenant_id p)))) (\<lambda>record.
        xbind (xlift (record_completed_registry_step record ?id (current_user_index_registry d (op_tenant_id p)))) (\<lambda>registry'.
        xbind (if ?buffered then xreturn () else publish_operation_step_cache env after record ?id) (\<lambda>_.
        xbind (apply_side_effects env after ?wait (exposes_partial_persistence primary) ?buffered record registry'
          (map os_id (op_side_effects (or_plan record)))) (\<lambda>finished.
        case finished of
          Inl latest \<Rightarrow> xreturn (response, Some (persistence_metadata latest))
        | Inr fin \<Rightarrow> xbind (if ?buffered then publish_operation_cache env after fin else xreturn ())
            (\<lambda>_. xreturn (response, Some (persistence_metadata fin)))))))))) (\<lambda>_. anyway)"
  proof (rule keeps_bind, rule ok_persist [OF r], rule keeps_bind, rule keeps_data_any, rule keeps_bind, rule ok_apply, rule keeps_pure')
    fix d q assume "valid_record q"
    then show "keeps journal_ok anyway
        (xbind (xlift (record_completed_registry_step q ?id (current_user_index_registry d (op_tenant_id p)))) (\<lambda>registry'.
        xbind (if ?buffered then xreturn () else publish_operation_step_cache env after q ?id) (\<lambda>_.
        xbind (apply_side_effects env after ?wait (exposes_partial_persistence primary) ?buffered q registry'
          (map os_id (op_side_effects (or_plan q)))) (\<lambda>finished.
        case finished of
          Inl latest \<Rightarrow> xreturn (response, Some (persistence_metadata latest))
        | Inr fin \<Rightarrow> xbind (if ?buffered then publish_operation_cache env after fin else xreturn ())
            (\<lambda>_. xreturn (response, Some (persistence_metadata fin))))))) (\<lambda>_. anyway)"
      by - (erule rest | rule keeps_bind keeps_lift_exact keeps_pure keeps_if keeps_return_any | erule ok_publish_step)+
  qed
qed

lemma ok_find: "keeps journal_ok anyway (find_existing env t i) (\<lambda>_. anyway)"
  unfolding find_existing_def by (rule keeps_exact keeps_walk ok_calls)+

lemma ok_execute:
  "keeps journal_ok anyway (execute_staged_mutation_guarded env tv fv t k owner key fp primary mutate) (\<lambda>_. anyway)"
  unfolding execute_staged_mutation_guarded_def Let_def
  by (rule keeps_exact keeps_walk ok_find ok_replay | (rule ok_execute_new, erule plan_not_compacted))+

lemma ok_explicit:
  "keeps journal_ok anyway (execute_explicit_resource_operation env t k owner primary resource) (\<lambda>_. anyway)"
  unfolding execute_explicit_resource_operation_def Let_def
proof (rule keeps_bind, rule keeps_data_any, rule keeps_bind, rule keeps_lift_exact, rule keeps_pure, rule keeps_bind,
    rule keeps_lift_exact, rule keeps_pure)
  fix d p r
  assume "mutation_plan (xe_hex_mac env) (xe_secret env) (xe_ambient env)
      \<lparr>mpi_tenant_id = t, mpi_operation_kind = k, mpi_owner_user_id = owner, mpi_idempotency_key = None,
       mpi_primary_kind = primary, mpi_resources = [resource], mpi_response_snapshot = JNull,
       mpi_request_fingerprint = None\<rparr> = Inr p"
    and "map_err (\<lambda>e. Internal (''invalid mutation plan: '' @ mutation_plan_error_display e))
      (operation_record_from_plan p) = Inr r"
  then have r: "valid_record r" using fresh_valid plan_not_compacted unfolding map_err_Inr by blast
  show "keeps journal_ok anyway
      (xbind (persist_operation_checkpoint env r) (\<lambda>_.
       xbind (apply_operation_step_record env r (os_id (op_primary (or_plan r)))
         (ma_write_consistency (xe_ambient env) = WaitForIndex) None) (\<lambda>record.
       xbind (publish_operation_step_cache env d record (os_id (op_primary (or_plan r)))) (\<lambda>_.
       xreturn (persistence_metadata record))))) (\<lambda>_. anyway)"
    by (rule keeps_bind, rule ok_persist [OF r], rule keeps_bind, rule ok_apply, rule keeps_pure', rule keeps_bind,
        erule ok_publish_step, rule keeps_return_any)
qed

lemma keeps_result: "keeps I anyway m Q \<Longrightarrow> I s \<Longrightarrow> I (snd (m s))"
  by (simp add: keeps_def)

text \<open>
  C24: whatever the repository and the clock answer, and wherever an execution stops, every record it
  sent to the journal passes the journal's validation, every record of the cache is valid and stands
  under its own id, and the cache keeps at most 10,000 settled records.
\<close>

theorem executor_journal_valid:
  assumes "journal_ok s"
  shows "journal_ok (snd (execute_staged_mutation_guarded env to_value from_value t kind owner key fp primary mutate s))
    \<and> journal_ok (snd (execute_explicit_resource_operation env t kind owner primary resource s))
    \<and> journal_ok (snd (reconcile_operation_record env r s))"
  using assms by (intro conjI keeps_result [OF ok_execute] keeps_result [OF ok_explicit] keeps_result [OF ok_reconcile(2)])

definition sample_env :: exec_env where
  "sample_env =
     \<lparr>xe_hex_mac = \<lambda>_ _. ''00'', xe_secret = ''k'', xe_fingerprint = id, xe_to_string = sample_to_string,
      xe_to_value = \<lambda>_. None, xe_char_lower = chars, xe_ambient = sample_ambient, xe_now = \<lambda>n. 10 + int n,
      xe_upsert = \<lambda>_ _. Inr receipt_empty, xe_apply = \<lambda>_ _ _. Inr \<lparr>rwr_task_uids = [''t1'']\<rparr>,
      xe_wait = \<lambda>_ _. Inr (), xe_get = \<lambda>_ _ _. Inr None\<rparr>"

definition start_state :: exec_state where
  "start_state = \<lparr>xs_data = empty_data, xs_calls = 0, xs_log = []\<rparr>"

lemma start_ok: "journal_ok start_state"
  by (simp add: journal_ok_def start_state_def empty_data_def ops_ok_def settled_count_def)

theorem executor_journal_valid_witness:
  "journal_ok (snd (execute_explicit_resource_operation sample_env ''acme'' ''insight.create'' None MpInsight
     (Insight sample_insight) start_state))"
  using executor_journal_valid [OF start_ok] by blast

end
