(* ===== verification/Executor_Order.thy ===== *)
theory Executor_Order
  imports Executor_Journal
begin

text \<open>
  The write-ahead discipline of the executor: no step reaches the repository before the record of its
  operation is durable, and no side effect before a durable record shows the primary step accepted.
\<close>

section \<open>The discipline\<close>

text \<open>A checkpoint is confirmed when its task was awaited with success right after the write.\<close>

definition confirmed :: "port_event list \<Rightarrow> operation_record \<Rightarrow> bool" where
  "confirmed L r =
     (\<exists>L1 receipt L2. L = L1 @ Upserted r (Inr receipt) # Waited (rwr_task_uids receipt) (Inr ()) # L2)"

text \<open>A record is durable: it was in the cache at the start, read from the journal, or confirmed.\<close>

definition durable :: "operation_record set \<Rightarrow> port_event list \<Rightarrow> operation_record \<Rightarrow> bool" where
  "durable K L r = (r \<in> K \<or> (\<exists>t i. Fetched t i (Inr (Some r)) \<in> set L) \<or> confirmed L r)"

definition justified :: "operation_record set \<Rightarrow> port_event list \<Rightarrow> string \<Rightarrow> operation_step \<Rightarrow> bool" where
  "justified K L t step =
     (\<exists>r. durable K L r \<and> validate_operation_record r = Inr () \<and> t = or_tenant_id r
        \<and> step \<in> set (operation_steps (or_plan r))
        \<and> (step = op_primary (or_plan r)
           \<or> (\<exists>q. durable K L q \<and> or_id q = or_id r \<and> operation_primary_was_accepted q)))"

definition write_ahead :: "operation_record set \<Rightarrow> port_event list \<Rightarrow> bool" where
  "write_ahead K L = (\<forall>L1 t step a L2. L = L1 @ Applied t step a # L2 \<longrightarrow> justified K L1 t step)"

lemma confirmed_append: "confirmed L r \<Longrightarrow> confirmed (L @ es) r"
  by (fastforce simp: confirmed_def)

lemma durable_append: "durable K L r \<Longrightarrow> durable K (L @ es) r"
  by (auto simp: durable_def confirmed_append)

lemma write_ahead_append:
  assumes "write_ahead K L" and "\<And>t step a. e = Applied t step a \<Longrightarrow> justified K L t step"
  shows "write_ahead K (L @ [e])"
  unfolding write_ahead_def
proof (intro allI impI)
  fix L1 t step a L2 assume eq: "L @ [e] = L1 @ Applied t step a # L2"
  show "justified K L1 t step"
  proof (cases L2 rule: rev_cases)
    case Nil
    with eq have "L = L1" "e = Applied t step a" by auto
    with assms(2) show ?thesis by simp
  next
    case (snoc L3 x)
    with eq have "L = L1 @ Applied t step a # L3" by auto
    with assms(1) show ?thesis by (auto simp: write_ahead_def)
  qed
qed

text \<open>
  A record in the hands of the executor is durable itself or, when it is settled, in its compacted form, with
  the same progress.
\<close>

definition backed :: "operation_record set \<Rightarrow> port_event list \<Rightarrow> operation_record \<Rightarrow> bool" where
  "backed K L r =
     (\<exists>q. durable K L q \<and> or_id q = or_id r
        \<and> operation_primary_was_accepted q = operation_primary_was_accepted r
        \<and> (q = r \<or> operation_is_settled r \<and> operation_is_settled q \<and> or_progress q = or_progress r))"

lemma backed_append: "backed K L r \<Longrightarrow> backed K (L @ es) r"
  unfolding backed_def using durable_append by blast

lemma durable_backed: "durable K L r \<Longrightarrow> backed K L r"
  by (auto simp: backed_def)

definition disciplined :: "operation_record set \<Rightarrow> operation_record set \<Rightarrow> exec_state \<Rightarrow> bool" where
  "disciplined K F s = (write_ahead K (xs_log s) \<and> (\<forall>r\<in>F. backed K (xs_log s) r))"

abbreviation backs :: "operation_record set \<Rightarrow> operation_record \<Rightarrow> exec_state \<Rightarrow> bool" where
  "backs K r s \<equiv> backed K (xs_log s) r"

abbreviation always :: "exec_state \<Rightarrow> bool" where "always \<equiv> \<lambda>_. True"

text \<open>What the invariant holds for every set of backed records, a computation keeps for one more.\<close>

lemma keeps_backed:
  assumes "keeps (disciplined K (insert r F)) P m Q"
  shows "keeps (disciplined K F) (\<lambda>s. backs K r s \<and> P s) m (\<lambda>v s. backs K r s \<and> Q v s)"
  using assms by (simp add: keeps_def disciplined_def)

lemma disciplined_logged:
  assumes "disciplined K F s" and "\<And>t step a. e = Applied t step a \<Longrightarrow> justified K (xs_log s) t step"
  shows "disciplined K F (logged e s)"
  using assms write_ahead_append backed_append by (simp add: disciplined_def logged_def)

section \<open>The parts of the executor\<close>

lemma quiet_calls:
  "keeps (disciplined K F) always (xnow env) (\<lambda>_. always)"
  "keeps (disciplined K F) always (upsert_operation env r) (\<lambda>_. always)"
  "keeps (disciplined K F) always (wait_for_repository_tasks env uids) (\<lambda>_. always)"
  "keeps (disciplined K F) always (get_operation env t i) (\<lambda>_. always)"
  "keeps (disciplined K F) always (xmodify f) (\<lambda>_. always)"
  by (auto simp: keeps_def xnow_def wait_for_repository_tasks_def get_operation_def xmodify_def
      upsert_operation_def Let_def intro!: disciplined_logged) (simp_all add: disciplined_def)

lemma applied_call:
  "keeps (disciplined K F) (\<lambda>s. justified K (xs_log s) t step) (apply_operation_step env t step) (\<lambda>_. always)"
  by (auto simp: keeps_def apply_operation_step_def Let_def intro!: disciplined_logged)

lemma journal_form_progress:
  "journal_operation_form ts hm secret r = Inr j \<Longrightarrow>
     or_progress j = or_progress r \<and> (j = r \<or> operation_is_settled r \<and> operation_is_settled j)"
  by (auto dest!: journal_form_cases simp: compacted_record_def operation_is_settled_def)

lemma persist_backs:
  "keeps (disciplined K F) always (persist_operation_checkpoint env r) (\<lambda>_. backs K r)"
  unfolding persist_operation_checkpoint_def
proof (rule keeps_bind, rule keeps_lift_exact, rule keeps_pure)
  fix j assume j: "journal_operation_form (xe_to_string env) (xe_hex_mac env) (xe_secret env) r = Inr j"
  have durable: "confirmed L j \<Longrightarrow> backed K L r" for L
    using journal_form_facts [OF j] journal_form_progress [OF j] unfolding backed_def durable_def by auto
  show "keeps (disciplined K F) always
     (xbind (upsert_operation env j) (\<lambda>receipt.
      xbind (xtry (wait_for_repository_tasks env (rwr_task_uids receipt))) (\<lambda>waited.
      case waited of
        Inl e \<Rightarrow> xbind (xmodify (\<lambda>d. if bt_get (st_operations d) (or_id j) = None then cache_record j d else d))
          (\<lambda>_. xfail e)
      | Inr _ \<Rightarrow> xmodify (cache_record j)))) (\<lambda>_. backs K r)"
  proof (rule keeps_bind)
    show "keeps (disciplined K F) always (upsert_operation env j)
        (\<lambda>receipt s. \<exists>L. xs_log s = L @ [Upserted j (Inr receipt)])"
      using quiet_calls(2) [of K F env j] by (auto simp: keeps_def upsert_operation_def Let_def logged_def)
    fix receipt
    have "keeps (disciplined K F) (\<lambda>s. \<exists>L. xs_log s = L @ [Upserted j (Inr receipt)])
        (xtry (wait_for_repository_tasks env (rwr_task_uids receipt)))
        (\<lambda>waited s. waited = Inr () \<longrightarrow> confirmed (xs_log s) j)"
      using quiet_calls(3) [of K F env "rwr_task_uids receipt"]
      by (fastforce simp: keeps_def xtry_def wait_for_repository_tasks_def Let_def logged_def confirmed_def)
    moreover have "keeps (disciplined K F) (\<lambda>s. waited = Inr () \<longrightarrow> confirmed (xs_log s) j)
       (case waited of
          Inl e \<Rightarrow> xbind (xmodify (\<lambda>d. if bt_get (st_operations d) (or_id j) = None then cache_record j d else d)) (\<lambda>_. xfail e)
        | Inr _ \<Rightarrow> xmodify (cache_record j)) (\<lambda>_. backs K r)" for waited
    proof (rule keeps_sum)
      fix e
      show "keeps (disciplined K F) (\<lambda>s. waited = Inr () \<longrightarrow> confirmed (xs_log s) j)
          (xbind (xmodify (\<lambda>d. if bt_get (st_operations d) (or_id j) = None then cache_record j d else d)) (\<lambda>_. xfail e))
          (\<lambda>_. backs K r)"
        by (rule keeps_drop, rule keeps_bind, rule quiet_calls, rule keeps_fail)
    next
      fix v assume "waited = Inr v"
      then show "keeps (disciplined K F) (\<lambda>s. waited = Inr () \<longrightarrow> confirmed (xs_log s) j)
          (xmodify (cache_record j)) (\<lambda>_. backs K r)"
        using durable by (intro keeps_modify) (simp add: disciplined_def)
    qed
    ultimately show "keeps (disciplined K F) (\<lambda>s. \<exists>L. xs_log s = L @ [Upserted j (Inr receipt)])
       (xbind (xtry (wait_for_repository_tasks env (rwr_task_uids receipt))) (\<lambda>waited.
        case waited of
          Inl e \<Rightarrow> xbind (xmodify (\<lambda>d. if bt_get (st_operations d) (or_id j) = None then cache_record j d else d)) (\<lambda>_. xfail e)
        | Inr _ \<Rightarrow> xmodify (cache_record j))) (\<lambda>_. backs K r)"
      by (rule keeps_bind)
  qed
qed

lemma persist_quiet: "keeps (disciplined K F) always (persist_operation_checkpoint env r) (\<lambda>_. always)"
  using persist_backs by (rule keeps_weaken) simp

lemma failure_fails: "keeps (disciplined K F) always (record_operation_failure env r k err) Q"
  unfolding record_operation_failure_def Let_def
  by (rule keeps_exact keeps_walk quiet_calls persist_quiet)+

lemma complete_backs:
  "keeps (disciplined K F) always (complete_step env r k) (\<lambda>q s. advanced r k {StepCompleted} q \<and> backs K q s)"
  unfolding complete_step_def
  by (rule keeps_bind, rule quiet_calls, rule keeps_bind, rule keeps_lift_exact, rule keeps_pure, rule keeps_bind,
      rule persist_backs, rule keeps_return) (auto simp only: map_err_Inr dest: transition_advanced(1))

lemma await_backs:
  "keeps (disciplined K F) always (await_step env r k uids) (\<lambda>q s. advanced r k {StepCompleted} q \<and> backs K q s)"
  unfolding await_step_def
  by (rule keeps_bind, rule keeps_try_any, rule quiet_calls, rule keeps_sum, rule failure_fails, rule complete_backs)

abbreviation done_or_submitted :: "operation_step_status set" where
  "done_or_submitted \<equiv> {StepSubmitted, StepCompleted}"

lemma submit_backs:
  "keeps (disciplined K F) (\<lambda>s. justified K (xs_log s) (or_tenant_id r) step) (submit_step env r k step wait)
     (\<lambda>q s. advanced r k done_or_submitted q \<and> backs K q s)"
  unfolding submit_step_def
proof (rule keeps_bind)
  show "keeps (disciplined K F) (\<lambda>s. justified K (xs_log s) (or_tenant_id r) step)
      (xtry (apply_operation_step env (or_tenant_id r) step)) (\<lambda>_. always)"
    using applied_call by (rule keeps_try_any)
  fix applied
  show "keeps (disciplined K F) always
     (case applied of
        Inl e \<Rightarrow> record_operation_failure env r k e
      | Inr receipt \<Rightarrow>
          xbind (xnow env) (\<lambda>at.
          xbind (xlift (map_err (\<lambda>e. Internal (''invalid operation transition: '' @ mutation_plan_error_display e))
            (if rwr_task_uids receipt = [] then operation_step_completed r k at
             else operation_step_accepted r k (rwr_task_uids receipt) at))) (\<lambda>updated.
          xbind (persist_operation_checkpoint env updated) (\<lambda>_.
          if wait \<and> rwr_task_uids receipt \<noteq> [] then await_step env updated k (rwr_task_uids receipt)
          else xreturn updated))))
     (\<lambda>q s. advanced r k done_or_submitted q \<and> backs K q s)"
  proof (rule keeps_sum, rule failure_fails, rule keeps_bind, rule quiet_calls, rule keeps_bind, rule keeps_lift_exact,
      rule keeps_pure, rule keeps_bind, rule persist_backs, rule keeps_if)
    fix receipt at updated
    assume u: "map_err (\<lambda>e. Internal (''invalid operation transition: '' @ mutation_plan_error_display e))
        (if rwr_task_uids receipt = [] then operation_step_completed r k at
         else operation_step_accepted r k (rwr_task_uids receipt) at) = Inr updated"
    have adv: "advanced r k done_or_submitted updated"
    proof (cases "rwr_task_uids receipt = []")
      case True
      with u have "operation_step_completed r k at = Inr updated" unfolding map_err_Inr by simp
      then show ?thesis by (rule advanced_mono [OF transition_advanced(1)]) simp
    next
      case False
      with u have "operation_step_accepted r k (rwr_task_uids receipt) at = Inr updated" unfolding map_err_Inr by simp
      then show ?thesis by (rule advanced_mono [OF transition_advanced(2)]) simp
    qed
    show "keeps (disciplined K F) (backs K updated) (xreturn updated)
        (\<lambda>q s. advanced r k done_or_submitted q \<and> backs K q s)"
      using adv by (intro keeps_return) simp
    have "advanced updated k {StepCompleted} q \<Longrightarrow> advanced r k done_or_submitted q" for q
      by (rule advanced_mono [OF advanced_trans [OF adv]]) auto
    then show "keeps (disciplined K F) (backs K updated) (await_step env updated k (rwr_task_uids receipt))
        (\<lambda>q s. advanced r k done_or_submitted q \<and> backs K q s)"
      by - (rule keeps_drop, rule keeps_weaken [OF await_backs], blast)
  qed
qed

section \<open>One step of an operation\<close>

lemma unsettled_durable:
  assumes "backed K L r" and "validate_operation_record r = Inr ()"
    and "step \<in> set (operation_steps (or_plan r))" and "\<not> step_status_is r {StepCompleted} step"
  shows "durable K L r"
  using assms settled_valid [OF assms(2)] by (auto simp: backed_def)

lemma advanced_refl:
  "validate_operation_record r = Inr () \<Longrightarrow> step_progress r k = Some p \<Longrightarrow> sp_status p \<in> A \<Longrightarrow> advanced r k A r"
  by (simp add: advanced_def)

lemma advanced_accepted:
  assumes "advanced r k done_or_submitted q"
    and "k = os_id (op_primary (or_plan r)) \<or> operation_primary_was_accepted r"
  shows "operation_primary_was_accepted q"
  using assms by (cases "k = os_id (op_primary (or_plan r))")
    (auto simp: advanced_def operation_primary_was_accepted_def split: option.splits)

text \<open>The step that may run next: the primary one, or any once the primary is accepted.\<close>

definition may_run :: "operation_record \<Rightarrow> string \<Rightarrow> bool" where
  "may_run r k = (k = os_id (op_primary (or_plan r)) \<or> operation_primary_was_accepted r)"

lemma find_primary:
  assumes "find_operation_step r k = Inr step" and "k = os_id (op_primary (or_plan r))"
  shows "step = op_primary (or_plan r)"
  using assms by (simp add: find_operation_step_def operation_steps_def)

lemma step_justified:
  assumes "backed K L r" and "validate_operation_record r = Inr ()" and "may_run r k"
    and "find_operation_step r k = Inr step" and "find_step_progress r k = Inr p" and "sp_status p \<noteq> StepCompleted"
  shows "justified K L (or_tenant_id r) step"
proof -
  have step: "step \<in> set (operation_steps (or_plan r))" "os_id step = k"
    using assms(4) find_step [of k "or_plan r" step] by (auto simp: find_operation_step_def ok_or_Inr)
  have "step_progress r k = Some p" using assms(5) by (simp add: find_step_progress_def ok_or_Inr)
  then have "\<not> step_status_is r {StepCompleted} step" using step assms(6) by (simp add: step_status_is_def)
  with assms(1,2) step have d: "durable K L r" by (blast intro: unsettled_durable)
  then show ?thesis
    using assms(2,3) step find_primary [OF assms(4)] unfolding justified_def may_run_def by blast
qed

lemma apply_backs:
  assumes "may_run r k"
  shows "keeps (disciplined K F) (backs K r) (apply_operation_step_record env r k wait registry)
    (\<lambda>q s. advanced r k done_or_submitted q \<and> backs K q s)"
  unfolding apply_operation_step_record_def Let_def
proof (rule keeps_bind, rule keeps_lift_exact, rule keeps_pure, rule keeps_bind, rule keeps_data_any, rule keeps_bind,
    rule keeps_lift_exact, rule keeps_pure, rule keeps_bind, rule keeps_lift_exact, rule keeps_pure, rule keeps_bind,
    rule keeps_lift_exact, rule keeps_pure)
  fix u step p
  assume "validate_operation_routing (xe_hex_mac env) (xe_secret env) r = Inr u"
    and step: "find_operation_step r k = Inr step" and p: "find_step_progress r k = Inr p"
  then have valid: "validate_operation_record r = Inr ()" by (auto intro: routing_valid)
  have prog: "step_progress r k = Some p" using p by (simp add: find_step_progress_def ok_or_Inr)
  have stay: "keeps (disciplined K F) (backs K r) (xreturn r) (\<lambda>q s. advanced r k done_or_submitted q \<and> backs K q s)"
    if "sp_status p \<in> done_or_submitted"
    using advanced_refl [OF valid prog that] by (intro keeps_return) simp
  have wait: "keeps (disciplined K F) (backs K r) (await_step env r k uids)
      (\<lambda>q s. advanced r k done_or_submitted q \<and> backs K q s)" for uids
    by (rule keeps_drop, rule keeps_weaken [OF await_backs]) (auto intro: advanced_mono)
  have run: "keeps (disciplined K F) (backs K r) (submit_step env r k step w)
      (\<lambda>q s. advanced r k done_or_submitted q \<and> backs K q s)" if "sp_status p \<noteq> StepCompleted" for w
    by (rule keeps_pre [OF submit_backs]) (rule step_justified [OF _ valid assms step p that])
  let ?w = "wait \<or> ensures_index (os_resource step)"
  show "keeps (disciplined K F) (backs K r)
      (if sp_status p = StepCompleted then xreturn r
       else if sp_status p = StepSubmitted then
         if \<not> ?w then xreturn r else await_step env r k (sp_task_uids p)
       else submit_step env r k step ?w)
      (\<lambda>q s. advanced r k done_or_submitted q \<and> backs K q s)"
    by (rule keeps_if, rule stay, simp, rule keeps_if, rule keeps_if, rule stay, simp, rule wait, rule run, simp)
qed

section \<open>Publication, reconciliation and replay\<close>

lemma quiet_publish: "keeps (disciplined K F) always (publish_resource staged t r) (\<lambda>_. always)"
  using write_ahead_append backed_append by (auto simp: keeps_def publish_resource_def disciplined_def)

lemma quiet_publish_steps: "keeps (disciplined K F) always (publish_steps staged t steps) (\<lambda>_. always)"
  by (induction steps) (simp_all, (rule keeps_exact keeps_walk quiet_publish | assumption)+)

lemma quiet_publication:
  "keeps (disciplined K F) always (publish_operation_step_cache env staged r k) (\<lambda>_. always)"
  "keeps (disciplined K F) always (publish_operation_cache env staged r) (\<lambda>_. always)"
  unfolding publish_operation_step_cache_def publish_operation_cache_def cache_locked_def
  by (rule keeps_exact keeps_walk quiet_publish quiet_publish_steps quiet_calls)+

text \<open>A computation that runs no step keeps a record backed.\<close>

lemma quiet_frame:
  "(\<And>F. keeps (disciplined K F) always m (\<lambda>_. always)) \<Longrightarrow> keeps (disciplined K F) (backs K r) m (\<lambda>_. backs K r)"
  using keeps_backed [of K r F always m "\<lambda>_. always"] by simp

lemma step_published:
  "keeps (disciplined K F) (backs K r) (if buffered then xreturn () else publish_operation_step_cache env staged q k)
     (\<lambda>_. backs K r)"
  by (rule quiet_frame) (rule keeps_if keeps_return_any quiet_publication)+

lemma reconcile_steps_ordered:
  assumes "ks \<noteq> [] \<Longrightarrow> may_run r (hd ks)"
  shows "keeps (disciplined K F) (backs K r) (reconcile_steps env projection buffered r registry ks) (\<lambda>_. always)"
  using assms
proof (induction ks arbitrary: r registry)
  case (Cons k ks)
  show ?case
    unfolding reconcile_steps.simps
  proof (rule keeps_bind, rule apply_backs)
    show "may_run r k" using Cons.prems by simp
    fix q
    show "keeps (disciplined K F) (\<lambda>s. advanced r k done_or_submitted q \<and> backs K q s)
       (xbind (xlift (next_registry q k registry)) (\<lambda>registry'.
        xbind (if buffered then xreturn () else publish_operation_step_cache env projection q k) (\<lambda>_.
        reconcile_steps env projection buffered q registry' ks))) (\<lambda>_. always)"
    proof (rule keeps_pure, rule keeps_bind, rule keeps_lift_exact, rule keeps_pure, rule keeps_bind, rule step_published)
      fix registry' assume "advanced r k done_or_submitted q"
      then have "operation_primary_was_accepted q"
        using advanced_accepted Cons.prems by (simp add: may_run_def)
      then show "keeps (disciplined K F) (backs K q) (reconcile_steps env projection buffered q registry' ks) (\<lambda>_. always)"
        by (intro Cons.IH) (simp add: may_run_def)
    qed
  qed
qed (simp add: keeps_return)

lemma reconcile_ordered:
  "keeps (disciplined K F) (backs K r) (reconcile_operation_record env r) (\<lambda>_. always)"
  unfolding reconcile_operation_record_def reconcile_operation_record_with_registry_def Let_def
  by (rule keeps_bind, rule keeps_data_any, rule keeps_bind, rule keeps_bind, rule keeps_data_any, rule keeps_bind,
      rule reconcile_steps_ordered, simp add: operation_steps_def may_run_def)
    (rule keeps_exact keeps_walk quiet_publication)+

lemma replay_ordered:
  "keeps (disciplined K F) (backs K r) (replay_matching env from_value r fingerprint primary) (\<lambda>_. always)"
  unfolding replay_matching_def replay_existing_operation_def Let_def
  by (rule keeps_bind, rule keeps_lift_exact, rule keeps_pure, rule keeps_bind, rule keeps_try_any, rule reconcile_ordered)
    (rule keeps_exact keeps_walk)+

section \<open>Executions\<close>

lemma side_effects_ordered:
  assumes "operation_primary_was_accepted r"
  shows "keeps (disciplined K F) (backs K r) (apply_side_effects env after wait expose buffered r registry ks) (\<lambda>_. always)"
  using assms
proof (induction ks arbitrary: r registry)
  case (Cons k ks)
  show ?case
    unfolding apply_side_effects.simps Let_def
  proof (rule keeps_bind, rule keeps_try, rule apply_backs)
    show "may_run r k" using Cons.prems by (simp add: may_run_def)
    fix applied
    show "keeps (disciplined K F)
       (\<lambda>s. case applied of Inl _ \<Rightarrow> True | Inr q \<Rightarrow> advanced r k done_or_submitted q \<and> backs K q s)
       (case applied of
          Inl e \<Rightarrow> xbind xdata (\<lambda>d.
            if expose \<and> operation_primary_was_accepted (case bt_get (st_operations d) (or_id r) of None \<Rightarrow> r | Some l \<Rightarrow> l)
            then xreturn (Inl (case bt_get (st_operations d) (or_id r) of None \<Rightarrow> r | Some l \<Rightarrow> l)) else xfail e)
        | Inr updated \<Rightarrow>
            xbind (xlift (record_completed_registry_step updated k registry)) (\<lambda>registry'.
            xbind (if buffered then xreturn () else publish_operation_step_cache env after updated k) (\<lambda>_.
            apply_side_effects env after wait expose buffered updated registry' ks))) (\<lambda>_. always)"
    proof (cases applied)
      case (Inl e)
      then show ?thesis by (simp, intro keeps_bind [OF keeps_data_any] keeps_if keeps_return_any keeps_fail)
    next
      case (Inr q)
      have "keeps (disciplined K F) (\<lambda>s. advanced r k done_or_submitted q \<and> backs K q s)
          (xbind (xlift (record_completed_registry_step q k registry)) (\<lambda>registry'.
           xbind (if buffered then xreturn () else publish_operation_step_cache env after q k) (\<lambda>_.
           apply_side_effects env after wait expose buffered q registry' ks))) (\<lambda>_. always)"
      proof (rule keeps_pure, rule keeps_bind, rule keeps_lift_exact, rule keeps_pure, rule keeps_bind, rule step_published)
        fix registry' assume "advanced r k done_or_submitted q"
        then show "keeps (disciplined K F) (backs K q) (apply_side_effects env after wait expose buffered q registry' ks)
            (\<lambda>_. always)"
          using Cons.prems by (intro Cons.IH) (simp add: advanced_accepted)
      qed
      with Inr show ?thesis by simp
    qed
  qed
qed (simp add: keeps_return)

lemma execute_new_ordered:
  "keeps (disciplined K F) always (execute_new_operation env after primary response p) (\<lambda>_. always)"
  unfolding execute_new_operation_def Let_def
proof (rule keeps_bind, rule keeps_lift_exact, rule keeps_pure, rule keeps_bind, rule persist_backs, rule keeps_bind,
    rule keeps_data_any, rule keeps_bind, rule apply_backs)
  fix r :: operation_record
  let ?id = "os_id (op_primary (or_plan r))"
  show "may_run r ?id" by (simp add: may_run_def)
  fix d q
  let ?w = "waits_for_index (ma_write_consistency (xe_ambient env)) primary"
  let ?b = "?w \<and> primary \<noteq> MpDeleteCompanySource"
  let ?reg = "current_user_index_registry d (op_tenant_id p)"
  show "keeps (disciplined K F) (\<lambda>s. advanced r ?id done_or_submitted q \<and> backs K q s)
     (xbind (xlift (record_completed_registry_step q ?id ?reg)) (\<lambda>registry'.
      xbind (if ?b then xreturn () else publish_operation_step_cache env after q ?id) (\<lambda>_.
      xbind (apply_side_effects env after ?w (exposes_partial_persistence primary) ?b q registry'
        (map os_id (op_side_effects (or_plan q)))) (\<lambda>finished.
      case finished of
        Inl latest \<Rightarrow> xreturn (response, Some (persistence_metadata latest))
      | Inr fin \<Rightarrow> xbind (if ?b then publish_operation_cache env after fin else xreturn ())
          (\<lambda>_. xreturn (response, Some (persistence_metadata fin))))))) (\<lambda>_. always)"
  proof (rule keeps_pure, rule keeps_bind, rule keeps_lift_exact, rule keeps_pure, rule keeps_bind, rule step_published,
      rule keeps_bind, rule side_effects_ordered)
    assume "advanced r ?id done_or_submitted q"
    then show "operation_primary_was_accepted q" by (rule advanced_accepted) simp
    fix finished
    show "keeps (disciplined K F) always
       (case finished of
          Inl latest \<Rightarrow> xreturn (response, Some (persistence_metadata latest))
        | Inr fin \<Rightarrow> xbind (if ?b then publish_operation_cache env after fin else xreturn ())
            (\<lambda>_. xreturn (response, Some (persistence_metadata fin)))) (\<lambda>_. always)"
      by (rule keeps_exact keeps_walk quiet_publication)+
  qed
qed

definition cached_in :: "operation_record set \<Rightarrow> exec_state \<Rightarrow> bool" where
  "cached_in K s = (\<forall>k r. bt_get (st_operations (xs_data s)) k = Some r \<longrightarrow> r \<in> K)"

lemma find_backs:
  "keeps (disciplined K F) (cached_in K) (find_existing env t i)
     (\<lambda>x s. cached_in K s \<and> (\<forall>r. x = Some r \<longrightarrow> backs K r s))"
proof (rule keepsI)
  fix s assume inv: "disciplined K F s" and c: "cached_in K s"
  have ok: "disciplined K F (logged (Fetched t i a) s)" for a using inv by (rule disciplined_logged) simp
  have fetched: "backed K (xs_log s @ [Fetched t i (Inr (Some r))]) r" for r
    by (rule durable_backed) (auto simp: durable_def)
  show "disciplined K F (snd (find_existing env t i s))
    \<and> (\<forall>x. fst (find_existing env t i s) = Inr x \<longrightarrow> cached_in K (snd (find_existing env t i s))
        \<and> (\<forall>r. x = Some r \<longrightarrow> backs K r (snd (find_existing env t i s))))"
  proof (cases "bt_get (st_operations (xs_data s)) i")
    case None
    then show ?thesis using c ok fetched
      by (auto simp: find_existing_def xbind_def xdata_def get_operation_def Let_def cached_in_def logged_def)
  next
    case (Some r)
    then have "backed K (xs_log s) r" using c by (auto simp: cached_in_def durable_def intro: durable_backed)
    then show ?thesis using Some inv c by (simp add: find_existing_def xbind_def xdata_def xreturn_def)
  qed
qed

lemma found_or_new:
  assumes "keeps (disciplined K F) (cached_in K) f (\<lambda>_. always)"
  shows "keeps (disciplined K F) (\<lambda>s. cached_in K s \<and> (\<forall>r. existing = Some r \<longrightarrow> backs K r s))
    (case existing of Some e \<Rightarrow> replay_matching env from_value e fingerprint primary | None \<Rightarrow> f) (\<lambda>_. always)"
proof (cases existing)
  case None
  then show ?thesis using keeps_pre [OF assms] by simp
next
  case (Some e)
  then show ?thesis by simp (rule keeps_pre [OF replay_ordered], simp)
qed

lemma execute_ordered:
  "keeps (disciplined K F) (cached_in K)
     (execute_staged_mutation_guarded env to_value from_value t kind owner key fp primary mutate) (\<lambda>_. always)"
  unfolding execute_staged_mutation_guarded_def Let_def
proof (rule keeps_bind)
  let ?R = "\<lambda>x s. cached_in K s \<and> (\<forall>r. x = Some r \<longrightarrow> backs K r s)"
  let ?i = "\<lambda>k. idempotent_operation_id (xe_hex_mac env) (xe_secret env) t kind
      (map_option (user_hash (xe_hex_mac env) (xe_secret env)) owner) (idempotency_hash (xe_hex_mac env) (xe_secret env) k)"
  show "keeps (disciplined K F) (cached_in K)
      (case key of None \<Rightarrow> xreturn None | Some k \<Rightarrow> find_existing env t (?i k)) ?R"
    by (rule keeps_option) (rule keeps_return, simp, rule find_backs)
  fix existing
  let ?rest = "xbind xdata (\<lambda>before. xbind (xlift (mutate before)) (\<lambda>(response, after).
        if mutation_resources (xe_char_lower env) (xe_to_value env) t before after = [] then xreturn (response, None)
        else
          xbind (xlift (case key of
              Some _ \<Rightarrow> map_err (\<lambda>e. Internal (''failed to snapshot mutation response: '' @ e)) (to_value response)
            | None \<Rightarrow> Inr JNull)) (\<lambda>snapshot.
          xbind (xlift (mutation_plan (xe_hex_mac env) (xe_secret env) (xe_ambient env)
            \<lparr>mpi_tenant_id = t, mpi_operation_kind = kind, mpi_owner_user_id = owner,
             mpi_idempotency_key = key, mpi_primary_kind = primary,
             mpi_resources = mutation_resources (xe_char_lower env) (xe_to_value env) t before after,
             mpi_response_snapshot = snapshot, mpi_request_fingerprint = fp\<rparr>)) (\<lambda>plan.
          xbind (find_existing env t (op_id plan)) (\<lambda>existing.
          case existing of
            Some e \<Rightarrow> replay_matching env from_value e fp primary
          | None \<Rightarrow> execute_new_operation env after primary response plan)))))"
  have new: "keeps (disciplined K F) (cached_in K) (execute_new_operation env after primary response plan) (\<lambda>_. always)" for after response plan
    using execute_new_ordered by (rule keeps_drop)
  have "keeps (disciplined K F) (cached_in K) ?rest (\<lambda>_. always)"
    by (rule keeps_bind, rule keeps_data_any, rule keeps_bind, rule keeps_lift_exact, rule keeps_pure, rule keeps_pair,
        rule keeps_if, rule keeps_return_any, rule keeps_bind, rule keeps_lift_exact, rule keeps_pure, rule keeps_bind,
        rule keeps_lift_exact, rule keeps_pure, rule keeps_bind, rule find_backs, rule found_or_new, rule new)
  then show "keeps (disciplined K F) (?R existing)
      (case existing of Some e \<Rightarrow> replay_matching env from_value e fp primary | None \<Rightarrow> ?rest) (\<lambda>_. always)"
    by (rule found_or_new)
qed

lemma explicit_ordered:
  "keeps (disciplined K F) always (execute_explicit_resource_operation env t k owner primary resource) (\<lambda>_. always)"
  unfolding execute_explicit_resource_operation_def Let_def
proof (rule keeps_bind, rule keeps_data_any, rule keeps_bind, rule keeps_lift_exact, rule keeps_pure, rule keeps_bind,
    rule keeps_lift_exact, rule keeps_pure, rule keeps_bind, rule persist_backs, rule keeps_bind, rule apply_backs)
  fix r :: operation_record
  show "may_run r (os_id (op_primary (or_plan r)))" by (simp add: may_run_def)
  fix q d
  show "keeps (disciplined K F) (\<lambda>s. advanced r (os_id (op_primary (or_plan r))) done_or_submitted q \<and> backs K q s)
      (xbind (publish_operation_step_cache env d q (os_id (op_primary (or_plan r)))) (\<lambda>_. xreturn (persistence_metadata q)))
      (\<lambda>_. always)"
    by (rule keeps_drop, rule keeps_bind, rule quiet_publication, rule keeps_return_any)
qed

section \<open>The property\<close>

definition cached_records :: "exec_state \<Rightarrow> operation_record set" where
  "cached_records s = {r. \<exists>k. bt_get (st_operations (xs_data s)) k = Some r}"

text \<open>
  C2: write-ahead. In any execution, against any repository and clock, whenever a step is sent to the
  repository, the record of its operation is already durable: it was cached at the start, read from
  the journal, or confirmed by a checkpoint earlier in the same execution. The step is one of that
  record's plan, for its tenant; and if it is a side effect, a durable record of the operation
  already shows the primary step accepted.
\<close>

theorem executor_write_ahead:
  assumes "xs_log s = []"
    and "m = execute_staged_mutation_guarded env to_value from_value t kind owner key fp primary mutate"
    and "xs_log (snd (m s)) = L1 @ Applied t' step a # L2"
  shows "\<exists>r. durable (cached_records s) L1 r \<and> valid_record r \<and> t' = or_tenant_id r
    \<and> step \<in> set (operation_steps (or_plan r))
    \<and> (step = op_primary (or_plan r)
       \<or> (\<exists>q. durable (cached_records s) L1 q \<and> or_id q = or_id r \<and> operation_primary_was_accepted q))"
proof -
  have "disciplined (cached_records s) {} s" "cached_in (cached_records s) s"
    using assms(1) by (auto simp: disciplined_def write_ahead_def cached_in_def cached_records_def)
  then have "disciplined (cached_records s) {} (snd (m s))"
    using execute_ordered unfolding assms(2) keeps_def by blast
  then show ?thesis using assms(3) unfolding disciplined_def write_ahead_def justified_def by blast
qed

text \<open>A mutation that adds one insight, executed from the empty store.\<close>

definition sample_mutate :: "store_data \<Rightarrow> api_error + json \<times> store_data" where
  "sample_mutate d = Inr (JNull, d\<lparr>st_insights := bt_insert (ir_id sample_insight) sample_insight (st_insights d)\<rparr>)"

definition sample_execution :: "(json \<times> persistence_metadata option) exec" where
  "sample_execution =
     execute_staged_mutation_guarded sample_env Inr Inr ''acme'' ''insight.create'' None None None MpInsight sample_mutate"

definition is_applied :: "port_event \<Rightarrow> bool" where
  "is_applied e = (case e of Applied _ _ _ \<Rightarrow> True | _ \<Rightarrow> False)"

lemma sample_runs:
  "case sample_execution start_state of
     (Inr (_, Some _), s) \<Rightarrow> list_ex is_applied (xs_log s) | _ \<Rightarrow> False"
  by code_simp

lemma sample_applies:
  "list_ex is_applied (xs_log (snd (sample_execution start_state)))"
  "\<exists>response md. fst (sample_execution start_state) = Inr (response, Some md)"
  using sample_runs by (cases "sample_execution start_state"; auto split: sum.splits option.splits)+

theorem executor_write_ahead_witness:
  "\<exists>L1 t step a L2 r. xs_log (snd (sample_execution start_state)) = L1 @ Applied t step a # L2
     \<and> durable (cached_records start_state) L1 r \<and> step \<in> set (operation_steps (or_plan r))"
proof -
  obtain e where "e \<in> set (xs_log (snd (sample_execution start_state)))" "is_applied e"
    using sample_applies(1) by (auto simp: list_ex_iff)
  moreover from this(2) obtain t step a where "e = Applied t step a"
    by (auto simp: is_applied_def split: port_event.splits)
  ultimately obtain L1 L2 where L: "xs_log (snd (sample_execution start_state)) = L1 @ Applied t step a # L2"
    by (auto dest: split_list)
  have "xs_log start_state = []" by (simp add: start_state_def)
  from executor_write_ahead [OF this refl L [unfolded sample_execution_def]] L show ?thesis by blast
qed

end
