(* ===== verification/Executor_Replay.thy ===== *)
theory Executor_Replay
  imports Executor_Order
begin

text \<open>
  What a caller may conclude from an answer of the executor: success means that every step was
  accepted, a replay of a settled operation writes nothing, and a key reused for another request is a
  conflict that changes nothing.
\<close>

section \<open>Success\<close>

abbreviation anything :: "exec_state \<Rightarrow> bool" where "anything \<equiv> \<lambda>_. True"

text \<open>The statuses a step may have once the executor has returned from it.\<close>

definition reached :: "bool \<Rightarrow> operation_step_status set" where
  "reached wait = (if wait then {StepCompleted} else done_or_submitted)"

lemma any_calls:
  "keeps anything P (xnow env) (\<lambda>_. anything)" "keeps anything P (apply_operation_step env t step) (\<lambda>_. anything)"
  "keeps anything P (wait_for_repository_tasks env uids) (\<lambda>_. anything)"
  "keeps anything P (persist_operation_checkpoint env r) (\<lambda>_. anything)"
  "keeps anything P (publish_operation_step_cache env staged r k) (\<lambda>_. anything)"
  "keeps anything P (publish_operation_cache env staged r) (\<lambda>_. anything)"
  "keeps anything P (xmodify f) (\<lambda>_. anything)"
  by (simp_all add: keeps_def)

lemma failure_any: "keeps anything P (record_operation_failure env r k err) Q"
  unfolding record_operation_failure_def Let_def
  by (rule keeps_drop, rule keeps_exact keeps_walk any_calls)
    (rule keeps_exact keeps_walk any_calls)+

lemma complete_reached: "keeps anything P (complete_step env r k) (\<lambda>q _. advanced r k {StepCompleted} q)"
  unfolding complete_step_def
  by (rule keeps_drop, rule keeps_bind, rule any_calls, rule keeps_bind, rule keeps_lift_exact, rule keeps_pure,
      rule keeps_bind, rule any_calls, rule keeps_return) (auto simp only: map_err_Inr dest: transition_advanced(1))

lemma await_reached: "keeps anything P (await_step env r k uids) (\<lambda>q _. advanced r k {StepCompleted} q)"
  unfolding await_step_def
  by (rule keeps_bind [where R = "\<lambda>_. anything"], rule keeps_try_any, rule any_calls, rule keeps_sum,
      rule failure_any, rule complete_reached)

lemma submit_reached: "keeps anything P (submit_step env r k step wait) (\<lambda>q _. advanced r k (reached wait) q)"
  unfolding submit_step_def
proof (rule keeps_bind [where R = "\<lambda>_. anything"], rule keeps_try_any, rule any_calls, rule keeps_sum, rule failure_any,
    rule keeps_bind [where R = "\<lambda>_. anything"], rule any_calls, rule keeps_bind, rule keeps_lift_exact, rule keeps_pure,
    rule keeps_bind [where R = "\<lambda>_. anything"], rule any_calls, rule keeps_if)
  fix receipt at updated
  let ?uids = "rwr_task_uids receipt"
  assume u: "map_err (\<lambda>e. Internal (''invalid operation transition: '' @ mutation_plan_error_display e))
      (if ?uids = [] then operation_step_completed r k at else operation_step_accepted r k ?uids at) = Inr updated"
  have completed: "advanced r k {StepCompleted} updated" if "?uids = []"
    using u that transition_advanced(1) unfolding map_err_Inr by simp
  have accepted: "advanced r k {StepSubmitted} updated" if "?uids \<noteq> []"
    using u that transition_advanced(2) unfolding map_err_Inr by simp
  show "keeps anything anything (xreturn updated) (\<lambda>q _. advanced r k (reached wait) q)" if "\<not> (wait \<and> ?uids \<noteq> [])"
  proof (rule keeps_return)
    show "advanced r k (reached wait) updated"
    proof (cases "?uids = []")
      case True
      then show ?thesis by (rule advanced_mono [OF completed]) (simp add: reached_def)
    next
      case False
      then have "\<not> wait" using that by simp
      with False show ?thesis using accepted advanced_mono by (fastforce simp: reached_def)
    qed
  qed
  show "keeps anything anything (await_step env updated k ?uids) (\<lambda>q _. advanced r k (reached wait) q)"
    if "wait \<and> ?uids \<noteq> []"
  proof (rule keeps_weaken [OF await_reached])
    fix q assume "advanced updated k {StepCompleted} q"
    then have "advanced r k {StepCompleted} q" using accepted that advanced_trans by blast
    then show "advanced r k (reached wait) q" by (rule advanced_mono) (simp add: reached_def)
  qed
qed

lemma apply_reached:
  "keeps anything P (apply_operation_step_record env r k wait registry) (\<lambda>q _. advanced r k (reached wait) q)"
  unfolding apply_operation_step_record_def Let_def
proof (rule keeps_drop, rule keeps_bind, rule keeps_lift_exact, rule keeps_pure, rule keeps_bind, rule keeps_data_any, rule keeps_bind,
    rule keeps_lift_exact, rule keeps_pure, rule keeps_bind, rule keeps_lift_exact, rule keeps_pure, rule keeps_bind,
    rule keeps_lift_exact, rule keeps_pure)
  fix u step p
  assume "validate_operation_routing (xe_hex_mac env) (xe_secret env) r = Inr u"
    and step: "find_operation_step r k = Inr step" and p: "find_step_progress r k = Inr p"
  then have valid: "validate_operation_record r = Inr ()" by (auto intro: routing_valid)
  have prog: "step_progress r k = Some p" using p by (simp add: find_step_progress_def ok_or_Inr)
  let ?w = "wait \<or> ensures_index (os_resource step)"
  have mono: "reached ?w \<subseteq> reached wait" "StepCompleted \<in> reached wait" by (auto simp: reached_def)
  have sub: "advanced r k (reached ?w) q \<Longrightarrow> advanced r k (reached wait) q" for q
    using mono(1) by (rule advanced_mono [rotated])
  have now: "advanced r k {StepCompleted} q \<Longrightarrow> advanced r k (reached wait) q" for q
    by (rule advanced_mono [of r k "{StepCompleted}"]) (use mono(2) in simp_all)
  show "keeps anything anything
      (if sp_status p = StepCompleted then xreturn r
       else if sp_status p = StepSubmitted then
         if \<not> ?w then xreturn r else await_step env r k (sp_task_uids p)
       else submit_step env r k step ?w)
      (\<lambda>q _. advanced r k (reached wait) q)"
  proof (intro keeps_if)
    assume "sp_status p = StepCompleted"
    then show "keeps anything anything (xreturn r) (\<lambda>q _. advanced r k (reached wait) q)"
      by (intro keeps_return advanced_refl [OF valid prog]) (simp add: mono)
  next
    assume "sp_status p = StepSubmitted" "\<not> ?w"
    then show "keeps anything anything (xreturn r) (\<lambda>q _. advanced r k (reached wait) q)"
      by (intro keeps_return advanced_refl [OF valid prog]) (simp add: reached_def)
  next
    show "keeps anything anything (await_step env r k (sp_task_uids p)) (\<lambda>q _. advanced r k (reached wait) q)"
      by (rule keeps_weaken [OF await_reached now])
    show "keeps anything anything (submit_step env r k step ?w) (\<lambda>q _. advanced r k (reached wait) q)"
      by (rule keeps_weaken [OF submit_reached sub])
  qed
qed

text \<open>A record whose steps with the ids of \<open>ks\<close> have all reached their status.\<close>

definition all_reached :: "bool \<Rightarrow> string set \<Rightarrow> operation_record \<Rightarrow> bool" where
  "all_reached wait ks r =
     (valid_record r \<and> (\<forall>k\<in>ks. \<exists>p. step_progress r k = Some p \<and> sp_status p \<in> reached wait))"

lemma advanced_all_reached:
  "all_reached wait ks r \<Longrightarrow> advanced r k (reached wait) q \<Longrightarrow> all_reached wait (insert k ks) q"
  unfolding all_reached_def advanced_def by (metis insert_iff)

lemma advanced_plan: "advanced r k A q \<Longrightarrow> or_plan q = or_plan r"
  by (simp add: advanced_def)

text \<open>The status of a record whose steps have all been accepted, or all confirmed.\<close>

lemma all_reached_status:
  assumes "all_reached wait (set (map os_id (operation_steps (or_plan r)))) r"
  shows "or_status r = OpCompleted \<and> (wait \<longrightarrow> or_indexing_state r = IdxCompleted)"
proof -
  let ?p = "op_primary (or_plan r)"
  define side where "side = List.map_filter (\<lambda>s. map_option sp_status (step_progress r (os_id s))) (op_side_effects (or_plan r))"
  have st: "\<exists>p. step_progress r (os_id s) = Some p \<and> sp_status p \<in> reached wait"
    if "s \<in> set (operation_steps (or_plan r))" for s
    using assms that by (auto simp: all_reached_def)
  obtain p where p: "step_progress r (os_id ?p) = Some p" "sp_status p \<in> reached wait"
    using st [of ?p] by auto
  have side: "x \<in> reached wait" if "x \<in> set side" for x
    using that st side_effect_in_steps unfolding side_def by (fastforce simp: List.map_filter_def)
  have two: "reached wait \<subseteq> done_or_submitted" "wait \<Longrightarrow> reached wait = {StepCompleted}" by (auto simp: reached_def)
  have no: "StepFailed \<notin> set side" "StepPending \<notin> set side" using side two(1) by blast+
  have all: "wait \<Longrightarrow> list_all (\<lambda>s. s = StepCompleted) side"
    using side two(2) by (auto simp: list_all_iff)
  have "sp_status p = StepSubmitted \<or> sp_status p = StepCompleted" using p(2) two(1) by auto
  then have "derive_operation_state r = Inr (OpCompleted,
      if sp_status p = StepCompleted \<and> list_all (\<lambda>s. s = StepCompleted) side then IdxCompleted else IdxPending)"
    unfolding derive_operation_state_def Let_def p(1) ok_or_simps rbind_simps side_def [symmetric]
    by (elim disjE) (simp_all add: no)
  moreover have "derive_operation_state r = Inr (or_status r, or_indexing_state r)"
    using assms by (simp add: all_reached_def validate_operation_record_Inr)
  ultimately have eq: "or_status r = OpCompleted"
      "or_indexing_state r = (if sp_status p = StepCompleted \<and> list_all (\<lambda>s. s = StepCompleted) side then IdxCompleted else IdxPending)"
    by simp_all
  have "or_indexing_state r = IdxCompleted" if wait
  proof -
    have "sp_status p = StepCompleted" using p(2) two(2) [OF that] by simp
    then show ?thesis using all [OF that] by (simp add: eq(2))
  qed
  with eq(1) show ?thesis by blast
qed

lemma first_reached: "advanced r k (reached wait) q \<Longrightarrow> all_reached wait {k} q"
  by (simp add: all_reached_def advanced_def)

text \<open>What holds of a computation anywhere may be added to what it does within the discipline.\<close>

lemma keeps_both: "keeps I P m Q \<Longrightarrow> keeps anything P m (\<lambda>v _. R v) \<Longrightarrow> keeps I P m (\<lambda>v s. R v \<and> Q v s)"
  by (simp add: keeps_def)

lemma apply_both:
  assumes "may_run r k"
  shows "keeps (disciplined K F) (backs K r) (apply_operation_step_record env r k wait registry)
    (\<lambda>q s. (advanced r k (reached wait) q \<and> operation_primary_was_accepted q) \<and> backs K q s)"
  by (rule keeps_weaken [OF keeps_both [OF apply_backs [OF assms] apply_reached]])
    (use assms advanced_accepted in \<open>auto simp: may_run_def\<close>)

lemma reconcile_steps_reached:
  "all_reached True D r \<Longrightarrow> operation_primary_was_accepted r \<Longrightarrow>
     keeps (disciplined K F) (backs K r) (reconcile_steps env projection buffered r registry ks)
       (\<lambda>x s. (or_plan (fst x) = or_plan r \<and> all_reached True (D \<union> set ks) (fst x)) \<and> backs K (fst x) s)"
proof (induction ks arbitrary: r registry D)
  case (Cons k ks)
  show ?case
    unfolding reconcile_steps.simps
  proof (rule keeps_bind, rule apply_both)
    show "may_run r k" using Cons.prems(2) by (simp add: may_run_def)
    fix q
    show "keeps (disciplined K F) (\<lambda>s. (advanced r k (reached True) q \<and> operation_primary_was_accepted q) \<and> backs K q s)
       (xbind (xlift (next_registry q k registry)) (\<lambda>registry'.
        xbind (if buffered then xreturn () else publish_operation_step_cache env projection q k) (\<lambda>_.
        reconcile_steps env projection buffered q registry' ks)))
       (\<lambda>x s. (or_plan (fst x) = or_plan r \<and> all_reached True (D \<union> set (k # ks)) (fst x)) \<and> backs K (fst x) s)"
    proof (rule keeps_pure, rule keeps_bind, rule keeps_lift_exact, rule keeps_pure, rule keeps_bind, rule step_published)
      fix registry' assume q: "advanced r k (reached True) q \<and> operation_primary_was_accepted q"
      have "all_reached True (insert k D) q" using Cons.prems(1) q by (blast intro: advanced_all_reached)
      from Cons.IH [OF this] q show "keeps (disciplined K F) (backs K q) (reconcile_steps env projection buffered q registry' ks)
          (\<lambda>x s. (or_plan (fst x) = or_plan r \<and> all_reached True (D \<union> set (k # ks)) (fst x)) \<and> backs K (fst x) s)"
        using advanced_plan [of r k "reached True" q] by simp
    qed
  qed
qed (simp add: keeps_return)

abbreviation all_done :: "bool \<Rightarrow> operation_record \<Rightarrow> bool" where
  "all_done wait r \<equiv> all_reached wait (set (map os_id (operation_steps (or_plan r)))) r"

lemma reconcile_reached:
  "keeps (disciplined K F) (backs K r) (reconcile_operation_record env r) (\<lambda>q s. all_done True q \<and> backs K q s)"
  unfolding reconcile_operation_record_def reconcile_operation_record_with_registry_def Let_def
proof (rule keeps_bind, rule keeps_data_any, rule keeps_bind, rule keeps_bind, rule keeps_data_any)
  fix d projection
  let ?b = "plan_waits r = Some True \<and> \<not> deletes_company_source (os_resource (op_primary (or_plan r)))"
  let ?reg = "Some (current_user_index_registry d (or_tenant_id r))"
  have steps: "keeps (disciplined K F) (backs K r)
      (reconcile_steps env projection ?b r ?reg (map os_id (operation_steps (or_plan r))))
      (\<lambda>x s. all_done True (fst x) \<and> backs K (fst x) s)"
    unfolding operation_steps_def list.map reconcile_steps.simps
  proof (rule keeps_bind, rule apply_both)
    let ?k = "os_id (op_primary (or_plan r))"
    show "may_run r ?k" by (simp add: may_run_def)
    fix q
    show "keeps (disciplined K F) (\<lambda>s. (advanced r ?k (reached True) q \<and> operation_primary_was_accepted q) \<and> backs K q s)
       (xbind (xlift (next_registry q ?k ?reg)) (\<lambda>registry'.
        xbind (if ?b then xreturn () else publish_operation_step_cache env projection q ?k) (\<lambda>_.
        reconcile_steps env projection ?b q registry' (map os_id (op_side_effects (or_plan r))))))
       (\<lambda>x s. all_reached True (set (os_id (op_primary (or_plan (fst x))) # map os_id (op_side_effects (or_plan (fst x))))) (fst x)
         \<and> backs K (fst x) s)"
    proof (rule keeps_pure, rule keeps_bind, rule keeps_lift_exact, rule keeps_pure, rule keeps_bind, rule step_published)
      fix registry' assume q: "advanced r ?k (reached True) q \<and> operation_primary_was_accepted q"
      then have "keeps (disciplined K F) (backs K q)
          (reconcile_steps env projection ?b q registry' (map os_id (op_side_effects (or_plan r))))
          (\<lambda>x s. (or_plan (fst x) = or_plan q
            \<and> all_reached True ({?k} \<union> set (map os_id (op_side_effects (or_plan r)))) (fst x)) \<and> backs K (fst x) s)"
        by (intro reconcile_steps_reached first_reached) blast+
      then show "keeps (disciplined K F) (backs K q)
          (reconcile_steps env projection ?b q registry' (map os_id (op_side_effects (or_plan r))))
          (\<lambda>x s. all_reached True (set (os_id (op_primary (or_plan (fst x))) # map os_id (op_side_effects (or_plan (fst x))))) (fst x)
            \<and> backs K (fst x) s)"
        by (rule keeps_weaken) (use advanced_plan [of r ?k "reached True" q] q in simp)
    qed
  qed
  show "keeps (disciplined K F) (backs K r)
     (xbind (reconcile_steps env projection ?b r ?reg (map os_id (operation_steps (or_plan r)))) (\<lambda>(updated, registry').
        xbind (if ?b then publish_operation_cache env projection updated else xreturn ()) (\<lambda>_. xreturn (updated, registry'))))
     (\<lambda>x s. all_done True (fst x) \<and> backs K (fst x) s)"
  proof (rule keeps_bind, rule steps, rule keeps_pure, rule keeps_pair, rule keeps_bind)
    fix x q registry' assume x: "all_done True (fst x)" "x = (q, registry')"
    show "keeps (disciplined K F) (backs K (fst x)) (if ?b then publish_operation_cache env projection q else xreturn ())
        (\<lambda>_. backs K (fst x))"
      by (rule quiet_frame) (rule keeps_if keeps_return_any quiet_publication)+
    show "keeps (disciplined K F) (backs K (fst x)) (xreturn (q, registry')) (\<lambda>x s. all_done True (fst x) \<and> backs K (fst x) s)"
      using x by (intro keeps_return) simp
  qed
next
  fix x :: "operation_record \<times> index_registry option"
  show "keeps (disciplined K F) (\<lambda>s. all_done True (fst x) \<and> backs K (fst x) s)
      (case x of (updated, uu) \<Rightarrow> xreturn updated) (\<lambda>q s. all_done True q \<and> backs K q s)"
    by (rule keeps_pair, rule keeps_return) simp
qed

text \<open>
  The metadata of an answer that exposes no partial persistence is that of a record all of whose steps have
  reached their status and which is backed.
\<close>

definition settled_answer :: "operation_record set \<Rightarrow> bool \<Rightarrow> 'r \<times> persistence_metadata option \<Rightarrow> exec_state \<Rightarrow> bool" where
  "settled_answer K wait a s =
     (\<forall>md. snd a = Some md \<longrightarrow> (\<exists>r. md = persistence_metadata r \<and> all_done wait r \<and> backs K r s))"

lemma all_reached_mono: "all_reached True D r \<Longrightarrow> all_reached wait D r"
  by (fastforce simp: all_reached_def reached_def)

lemma replay_settles:
  assumes "\<not> exposes_partial_persistence primary"
  shows "keeps (disciplined K F) (backs K r) (replay_matching env from_value r fp primary) (settled_answer K wait)"
  unfolding replay_matching_def replay_existing_operation_def Let_def
proof (rule keeps_bind, rule keeps_lift_exact, rule keeps_pure, rule keeps_bind, rule keeps_try, rule reconcile_reached,
    rule keeps_bind [where R = "\<lambda>q s. all_done True q \<and> backs K q s"])
  fix reconciled
  show "keeps (disciplined K F) (\<lambda>s. case reconciled of Inl _ \<Rightarrow> True | Inr v \<Rightarrow> all_done True v \<and> backs K v s)
     (case reconciled of
        Inr updated \<Rightarrow> xreturn updated
      | Inl e \<Rightarrow> xbind xdata (\<lambda>d.
          case bt_get (st_operations d) (or_id r) of
            Some latest \<Rightarrow>
              if exposes_partial_persistence primary
                \<and> (operation_primary_response_was_exposed r \<or> operation_primary_response_was_exposed latest
                   \<or> operation_primary_was_accepted latest)
              then xreturn latest else xfail e
          | None \<Rightarrow> xfail e)) (\<lambda>q s. all_done True q \<and> backs K q s)"
  proof (cases reconciled)
    case (Inl e)
    then show ?thesis
      by simp (rule keeps_bind, rule keeps_data_any, rule keeps_option, rule keeps_fail, rule keeps_if, simp add: assms, rule keeps_fail)
  next
    case (Inr q)
    then show ?thesis by (simp add: keeps_return)
  qed
  fix q
  show "keeps (disciplined K F) (\<lambda>s. all_done True q \<and> backs K q s)
     (xbind (xlift (replay_operation_response from_value q)) (\<lambda>response. xreturn (response, Some (persistence_metadata q))))
     (settled_answer K wait)"
  proof (rule keeps_pure, rule keeps_bind, rule keeps_lift_exact, rule keeps_pure, rule keeps_return)
    fix response s assume "all_done True q" and "backs K q s"
    then show "settled_answer K wait (response, Some (persistence_metadata q)) s"
      using all_reached_mono unfolding settled_answer_def by auto
  qed
qed

lemma side_effects_reached:
  assumes "all_reached wait D r" and "operation_primary_was_accepted r" and "\<not> expose"
  shows "keeps (disciplined K F) (backs K r) (apply_side_effects env after wait expose buffered r registry ks)
    (\<lambda>x s. \<exists>q. (x = Inr q \<and> or_plan q = or_plan r \<and> all_reached wait (D \<union> set ks) q) \<and> backs K q s)"
  using assms
proof (induction ks arbitrary: r registry D)
  case (Cons k ks)
  let ?Q = "\<lambda>x s. \<exists>q. (x = Inr q \<and> or_plan q = or_plan r \<and> all_reached wait (D \<union> set (k # ks)) q) \<and> backs K q s"
  show ?case
    unfolding apply_side_effects.simps Let_def
  proof (rule keeps_bind, rule keeps_try, rule apply_both)
    show "may_run r k" using Cons.prems(2) by (simp add: may_run_def)
    fix applied
    show "keeps (disciplined K F) (\<lambda>s. case applied of Inl _ \<Rightarrow> True
         | Inr q \<Rightarrow> (advanced r k (reached wait) q \<and> operation_primary_was_accepted q) \<and> backs K q s)
       (case applied of
          Inl e \<Rightarrow> xbind xdata (\<lambda>d.
            if expose \<and> operation_primary_was_accepted (case bt_get (st_operations d) (or_id r) of None \<Rightarrow> r | Some l \<Rightarrow> l)
            then xreturn (Inl (case bt_get (st_operations d) (or_id r) of None \<Rightarrow> r | Some l \<Rightarrow> l)) else xfail e)
        | Inr updated \<Rightarrow>
            xbind (xlift (record_completed_registry_step updated k registry)) (\<lambda>registry'.
            xbind (if buffered then xreturn () else publish_operation_step_cache env after updated k) (\<lambda>_.
            apply_side_effects env after wait expose buffered updated registry' ks))) ?Q"
    proof (cases applied)
      case (Inl e)
      then show ?thesis by simp (rule keeps_bind, rule keeps_data_any, rule keeps_if, simp add: Cons.prems(3), rule keeps_fail)
    next
      case (Inr q)
      have "keeps (disciplined K F) (\<lambda>s. (advanced r k (reached wait) q \<and> operation_primary_was_accepted q) \<and> backs K q s)
          (xbind (xlift (record_completed_registry_step q k registry)) (\<lambda>registry'.
           xbind (if buffered then xreturn () else publish_operation_step_cache env after q k) (\<lambda>_.
           apply_side_effects env after wait expose buffered q registry' ks))) ?Q"
      proof (rule keeps_pure, rule keeps_bind, rule keeps_lift_exact, rule keeps_pure, rule keeps_bind, rule step_published)
        fix registry' assume q: "advanced r k (reached wait) q \<and> operation_primary_was_accepted q"
        have "all_reached wait (insert k D) q" using Cons.prems(1) q by (blast intro: advanced_all_reached)
        from Cons.IH [OF this _ Cons.prems(3)] q
        show "keeps (disciplined K F) (backs K q) (apply_side_effects env after wait expose buffered q registry' ks) ?Q"
          using advanced_plan [of r k "reached wait" q] by simp
      qed
      with Inr show ?thesis by simp
    qed
  qed
qed (simp add: keeps_return)

lemma execute_new_settles:
  assumes "\<not> exposes_partial_persistence primary"
  shows "keeps (disciplined K F) always (execute_new_operation env after primary response p)
    (settled_answer K (waits_for_index (ma_write_consistency (xe_ambient env)) primary))"
  unfolding execute_new_operation_def Let_def
proof (rule keeps_bind, rule keeps_lift_exact, rule keeps_pure, rule keeps_bind, rule persist_backs, rule keeps_bind,
    rule keeps_data_any, rule keeps_bind, rule apply_both)
  fix r q :: operation_record and d
  let ?id = "os_id (op_primary (or_plan r))"
  show "may_run r ?id" by (simp add: may_run_def)
  let ?w = "waits_for_index (ma_write_consistency (xe_ambient env)) primary"
  let ?b = "?w \<and> primary \<noteq> MpDeleteCompanySource"
  let ?reg = "current_user_index_registry d (op_tenant_id p)"
  let ?ids = "map os_id (op_side_effects (or_plan q))"
  show "keeps (disciplined K F) (\<lambda>s. (advanced r ?id (reached ?w) q \<and> operation_primary_was_accepted q) \<and> backs K q s)
     (xbind (xlift (record_completed_registry_step q ?id ?reg)) (\<lambda>registry'.
      xbind (if ?b then xreturn () else publish_operation_step_cache env after q ?id) (\<lambda>_.
      xbind (apply_side_effects env after ?w (exposes_partial_persistence primary) ?b q registry' ?ids) (\<lambda>finished.
      case finished of
        Inl latest \<Rightarrow> xreturn (response, Some (persistence_metadata latest))
      | Inr fin \<Rightarrow> xbind (if ?b then publish_operation_cache env after fin else xreturn ())
          (\<lambda>_. xreturn (response, Some (persistence_metadata fin))))))) (settled_answer K ?w)"
  proof (rule keeps_pure, rule keeps_bind, rule keeps_lift_exact, rule keeps_pure, rule keeps_bind, rule step_published, rule keeps_bind)
    fix registry' finished
    assume q: "advanced r ?id (reached ?w) q \<and> operation_primary_was_accepted q"
    then show "keeps (disciplined K F) (backs K q)
        (apply_side_effects env after ?w (exposes_partial_persistence primary) ?b q registry' ?ids)
        (\<lambda>x s. \<exists>f. (x = Inr f \<and> or_plan f = or_plan q \<and> all_reached ?w ({?id} \<union> set ?ids) f) \<and> backs K f s)"
      using assms by (intro side_effects_reached first_reached) blast+
    show "keeps (disciplined K F)
        (\<lambda>s. \<exists>f. (finished = Inr f \<and> or_plan f = or_plan q \<and> all_reached ?w ({?id} \<union> set ?ids) f) \<and> backs K f s)
       (case finished of
          Inl latest \<Rightarrow> xreturn (response, Some (persistence_metadata latest))
        | Inr fin \<Rightarrow> xbind (if ?b then publish_operation_cache env after fin else xreturn ())
            (\<lambda>_. xreturn (response, Some (persistence_metadata fin)))) (settled_answer K ?w)"
    proof (cases finished)
      case (Inl l)
      then show ?thesis by (simp add: keeps_def)
    next
      case (Inr f)
      have "keeps (disciplined K F) (\<lambda>s. (or_plan f = or_plan q \<and> all_reached ?w ({?id} \<union> set ?ids) f) \<and> backs K f s)
          (xbind (if ?b then publish_operation_cache env after f else xreturn ())
            (\<lambda>_. xreturn (response, Some (persistence_metadata f)))) (settled_answer K ?w)"
      proof (rule keeps_pure, rule keeps_bind)
        show "keeps (disciplined K F) (backs K f) (if ?b then publish_operation_cache env after f else xreturn ()) (\<lambda>_. backs K f)"
          by (rule quiet_frame) (rule keeps_if keeps_return_any quiet_publication)+
        assume f: "or_plan f = or_plan q \<and> all_reached ?w ({?id} \<union> set ?ids) f"
        have "all_done ?w f" using f q advanced_plan [of r ?id "reached ?w" q] by (simp add: operation_steps_def)
        then show "keeps (disciplined K F) (backs K f) (xreturn (response, Some (persistence_metadata f))) (settled_answer K ?w)"
          by (intro keeps_return) (auto simp: settled_answer_def)
      qed
      with Inr show ?thesis by simp
    qed
  qed
qed

lemma execute_settles:
  assumes "\<not> exposes_partial_persistence primary"
  shows "keeps (disciplined K F) (cached_in K)
    (execute_staged_mutation_guarded env to_value from_value t kind owner key fp primary mutate)
    (settled_answer K (waits_for_index (ma_write_consistency (xe_ambient env)) primary))"
  unfolding execute_staged_mutation_guarded_def Let_def
proof (rule keeps_bind)
  let ?w = "waits_for_index (ma_write_consistency (xe_ambient env)) primary"
  let ?R = "\<lambda>x s. cached_in K s \<and> (\<forall>r. x = Some r \<longrightarrow> backs K r s)"
  let ?i = "\<lambda>k. idempotent_operation_id (xe_hex_mac env) (xe_secret env) t kind
      (map_option (user_hash (xe_hex_mac env) (xe_secret env)) owner) (idempotency_hash (xe_hex_mac env) (xe_secret env) k)"
  show "keeps (disciplined K F) (cached_in K)
      (case key of None \<Rightarrow> xreturn None | Some k \<Rightarrow> find_existing env t (?i k)) ?R"
    by (rule keeps_option) (rule keeps_return, simp, rule find_backs)
  have found: "keeps (disciplined K F) (?R existing)
      (case existing of Some e \<Rightarrow> replay_matching env from_value e fp primary | None \<Rightarrow> f) (settled_answer K ?w)"
    if "keeps (disciplined K F) (cached_in K) f (settled_answer K ?w)" for existing f
  proof (cases existing)
    case None
    then show ?thesis using keeps_pre [OF that] by simp
  next
    case (Some e)
    then show ?thesis by simp (rule keeps_pre [OF replay_settles [OF assms]], simp)
  qed
  have none: "keeps (disciplined K F) P (xreturn (response, None)) (settled_answer K ?w)" for P response
    by (rule keeps_return) (simp add: settled_answer_def)
  have new: "keeps (disciplined K F) (cached_in K) (execute_new_operation env after primary response plan) (settled_answer K ?w)"
    for after response plan
    using execute_new_settles [OF assms] by (rule keeps_drop)
  fix existing
  let ?rest = "xbind xdata (\<lambda>before. xbind (xlift (mutate before)) (\<lambda>(response, after).
        if mutation_resources (xe_char_lower env) (xe_to_value env) t before after = [] then xreturn (response, None)
        else
          xbind (xlift (case key of
              Some _ \<Rightarrow> map_err (\<lambda>e. Internal (''failed to snapshot mutation response: '' @ e)) (to_value response)
            | None \<Rightarrow> Inr JNull)) (\<lambda>snapshot.
          xbind (xlift (mutation_plan (xe_hex_mac env) (xe_secret env) (xe_ambient env)
            \<lparr>mpi_tenant_id = t, mpi_operation_kind = kind, mpi_owner_user_id = owner,
             mpi_idempotency_key = key, mpi_primary_kind = primary,
             mpi_resources = mutation_resources (xe_char_lower env) (xe_to_value env) t before after,
             mpi_response_snapshot = snapshot, mpi_request_fingerprint = fp\<rparr>)) (\<lambda>plan.
          xbind (find_existing env t (op_id plan)) (\<lambda>existing.
          case existing of
            Some e \<Rightarrow> replay_matching env from_value e fp primary
          | None \<Rightarrow> execute_new_operation env after primary response plan)))))"
  have "keeps (disciplined K F) (cached_in K) ?rest (settled_answer K ?w)"
    by (rule keeps_bind, rule keeps_data_any, rule keeps_bind, rule keeps_lift_exact, rule keeps_pure, rule keeps_pair,
        rule keeps_if, rule none, rule keeps_bind, rule keeps_lift_exact, rule keeps_pure, rule keeps_bind,
        rule keeps_lift_exact, rule keeps_pure, rule keeps_bind, rule find_backs, rule found, rule new)
  then show "keeps (disciplined K F) (?R existing)
      (case existing of Some e \<Rightarrow> replay_matching env from_value e fp primary | None \<Rightarrow> ?rest) (settled_answer K ?w)"
    by (rule found)
qed

text \<open>
  C22: success is never claimed for a partial write. Unless the kind of mutation is one that exposes
  partial persistence, an execution that answers with persistence metadata, whether it ran the
  mutation or replayed an earlier one, answers with the metadata of a valid record of which every step was
  accepted by the repository, and is confirmed when the write waits for the index; it reports a completed
  operation, and then a completed index. The record is durable: it was cached at the start, read from the
  journal, or confirmed by a checkpoint of this execution, as it is or, once settled, with its payloads
  compacted and the same progress.
\<close>

theorem executor_success_complete:
  assumes "\<not> exposes_partial_persistence primary" and "xs_log s = []"
    and "execute_staged_mutation_guarded env to_value from_value t kind owner key fp primary mutate s
      = (Inr (response, Some md), s')"
  defines "wait \<equiv> waits_for_index (ma_write_consistency (xe_ambient env)) primary"
  shows "\<exists>r. md = persistence_metadata r \<and> valid_record r
    \<and> (\<forall>step\<in>set (operation_steps (or_plan r)). \<exists>p. step_progress r (os_id step) = Some p
         \<and> (sp_status p = StepCompleted \<or> \<not> wait \<and> sp_status p = StepSubmitted))
    \<and> (\<exists>q. durable (cached_records s) (xs_log s') q \<and> or_id q = or_id r \<and> or_progress q = or_progress r
         \<and> (q = r \<or> operation_is_settled r \<and> operation_is_settled q))
    \<and> pm_status md = OpCompleted \<and> (wait \<longrightarrow> pm_indexing_state md = IdxCompleted)"
proof -
  have "disciplined (cached_records s) {} s" "cached_in (cached_records s) s"
    using assms(2) by (auto simp: disciplined_def write_ahead_def cached_in_def cached_records_def)
  then have "settled_answer (cached_records s) wait (response, Some md) s'"
    using keepsD [OF execute_settles [OF assms(1)] assms(3)] by (simp add: wait_def)
  then obtain r where r: "md = persistence_metadata r" "all_done wait r" "backed (cached_records s) (xs_log s') r"
    by (auto simp: settled_answer_def)
  have "\<exists>p. step_progress r (os_id step) = Some p \<and> (sp_status p = StepCompleted \<or> \<not> wait \<and> sp_status p = StepSubmitted)"
    if "step \<in> set (operation_steps (or_plan r))" for step
    using r(2) that by (fastforce simp: all_reached_def reached_def split: if_splits)
  moreover have "valid_record r" using r(2) by (simp add: all_reached_def)
  moreover have "\<exists>q. durable (cached_records s) (xs_log s') q \<and> or_id q = or_id r \<and> or_progress q = or_progress r
      \<and> (q = r \<or> operation_is_settled r \<and> operation_is_settled q)"
    using r(3) unfolding backed_def by auto
  moreover have "pm_status md = OpCompleted \<and> (wait \<longrightarrow> pm_indexing_state md = IdxCompleted)"
    using all_reached_status [OF r(2)] by (simp add: r(1) persistence_metadata_def Let_def)
  ultimately show ?thesis using r(1) by blast
qed

theorem executor_success_complete_witness:
  "\<exists>response md. fst (sample_execution start_state) = Inr (response, Some md) \<and> pm_status md = OpCompleted"
proof -
  obtain response md where r: "fst (sample_execution start_state) = Inr (response, Some md)"
    using sample_applies(2) by blast
  then obtain s' where s': "sample_execution start_state = (Inr (response, Some md), s')"
    by (cases "sample_execution start_state") simp
  have "\<not> exposes_partial_persistence MpInsight" by (simp add: exposes_partial_persistence_def)
  moreover have "xs_log start_state = []" by (simp add: start_state_def)
  ultimately show ?thesis using executor_success_complete [OF _ _ s' [unfolded sample_execution_def]] r by blast
qed

section \<open>Replays\<close>

text \<open>Nothing but publication happens when a settled record is reconciled.\<close>

definition only_published :: "port_event list \<Rightarrow> exec_state \<Rightarrow> bool" where
  "only_published L s = (\<exists>es. xs_log s = L @ es \<and> (\<forall>e\<in>set es. \<exists>t r. e = Published t r))"

lemma published_calls:
  "keeps (only_published L) P (xmodify f) (\<lambda>_. anything)"
  "keeps (only_published L) P (publish_resource staged t r) (\<lambda>_. anything)"
  by (auto simp: keeps_def xmodify_def publish_resource_def only_published_def)

lemma published_steps: "keeps (only_published L) P (publish_steps staged t steps) (\<lambda>_. anything)"
  by (induction steps arbitrary: P)
    (simp_all add: keeps_return, rule keeps_bind, rule published_calls, assumption)

lemma published_publication:
  "keeps (only_published L) P (publish_operation_step_cache env staged r k) (\<lambda>_. anything)"
  "keeps (only_published L) P (publish_operation_cache env staged r) (\<lambda>_. anything)"
  unfolding publish_operation_step_cache_def publish_operation_cache_def cache_locked_def
  by (rule keeps_drop, (rule keeps_exact keeps_walk published_calls published_steps)+)+

lemma settled_step:
  assumes "valid_record r" and "operation_is_settled r"
  shows "keeps (only_published L) P (apply_operation_step_record env r k wait registry) (\<lambda>q _. q = r)"
  unfolding apply_operation_step_record_def Let_def
proof (rule keeps_drop, rule keeps_bind, rule keeps_lift_exact, rule keeps_pure, rule keeps_bind, rule keeps_data_any, rule keeps_bind,
    rule keeps_lift_exact, rule keeps_pure, rule keeps_bind, rule keeps_lift_exact, rule keeps_pure, rule keeps_bind,
    rule keeps_lift_exact, rule keeps_pure)
  fix step p
  assume step: "find_operation_step r k = Inr step" and p: "find_step_progress r k = Inr p"
  have "step \<in> set (operation_steps (or_plan r))" "os_id step = k"
    using step find_step [of k "or_plan r" step] by (auto simp: find_operation_step_def ok_or_Inr)
  then have "step_status_is r {StepCompleted} step" using settled_valid [OF assms(1)] assms(2) by blast
  then have "sp_status p = StepCompleted"
    using p \<open>os_id step = k\<close> by (auto simp: find_step_progress_def ok_or_Inr step_status_is_def)
  then show "keeps (only_published L) anything
      (if sp_status p = StepCompleted then xreturn r
       else if sp_status p = StepSubmitted then
         if \<not> (wait \<or> ensures_index (os_resource step)) then xreturn r else await_step env r k (sp_task_uids p)
       else submit_step env r k step (wait \<or> ensures_index (os_resource step))) (\<lambda>q _. q = r)"
    by (simp add: keeps_return)
qed

lemma settled_steps:
  assumes "valid_record r" and "operation_is_settled r"
  shows "keeps (only_published L) P (reconcile_steps env projection buffered r registry ks) (\<lambda>x _. fst x = r)"
proof (induction ks arbitrary: registry P)
  case (Cons k ks)
  show ?case
    unfolding reconcile_steps.simps
  proof (rule keeps_bind, rule settled_step [OF assms], rule keeps_pure', rule keeps_bind, rule keeps_lift_exact, rule keeps_pure,
      rule keeps_bind [where R = "\<lambda>_. anything"], rule keeps_if, rule keeps_return_any, rule published_publication)
    fix q registry' assume "q = r"
    then show "keeps (only_published L) anything (reconcile_steps env projection buffered q registry' ks) (\<lambda>x _. fst x = r)"
      using Cons.IH by simp
  qed
qed (simp add: keeps_return)

lemma settled_reconcile:
  assumes "valid_record r" and "operation_is_settled r"
  shows "keeps (only_published L) P (reconcile_operation_record env r) (\<lambda>q _. q = r)"
  unfolding reconcile_operation_record_def reconcile_operation_record_with_registry_def Let_def
proof (rule keeps_drop, rule keeps_bind, rule keeps_data_any, rule keeps_bind, rule keeps_bind, rule keeps_data_any, rule keeps_bind,
    rule settled_steps [OF assms], rule keeps_pure')
  fix d projection and x :: "operation_record \<times> index_registry option"
  let ?b = "plan_waits r = Some True \<and> \<not> deletes_company_source (os_resource (op_primary (or_plan r)))"
  assume "fst x = r"
  then obtain registry' where x: "x = (r, registry')" by (cases x) simp
  show "keeps (only_published L) anything
      (case x of (updated, registry') \<Rightarrow>
         xbind (if ?b then publish_operation_cache env projection updated else xreturn ()) (\<lambda>_. xreturn (updated, registry')))
      (\<lambda>x _. fst x = r)"
    unfolding x prod.case
    by (rule keeps_bind [where R = "\<lambda>_. anything"], rule keeps_if, rule published_publication, rule keeps_return_any,
        rule keeps_return) simp
next
  fix x :: "operation_record \<times> index_registry option"
  show "keeps (only_published L) (\<lambda>_. fst x = r) (case x of (updated, uu) \<Rightarrow> xreturn updated) (\<lambda>q _. q = r)"
    by (cases x) (simp add: keeps_return)
qed

lemma settled_replay:
  assumes "valid_record r" and "operation_is_settled r"
  shows "keeps (only_published L) P (replay_matching env from_value r fp primary)
    (\<lambda>a _. exposes_partial_persistence primary
       \<or> snd a = Some (persistence_metadata r) \<and> replay_operation_response from_value r = Inr (fst a))"
  unfolding replay_matching_def replay_existing_operation_def Let_def
proof (rule keeps_drop, rule keeps_bind, rule keeps_lift_exact, rule keeps_pure, rule keeps_bind, rule keeps_try,
    rule settled_reconcile [OF assms], rule keeps_bind [where R = "\<lambda>q _. exposes_partial_persistence primary \<or> q = r"])
  fix reconciled :: "api_error + operation_record"
  show "keeps (only_published L) (\<lambda>s. case reconciled of Inl _ \<Rightarrow> True | Inr v \<Rightarrow> v = r)
     (case reconciled of
        Inr updated \<Rightarrow> xreturn updated
      | Inl e \<Rightarrow> xbind xdata (\<lambda>d.
          case bt_get (st_operations d) (or_id r) of
            Some latest \<Rightarrow>
              if exposes_partial_persistence primary
                \<and> (operation_primary_response_was_exposed r \<or> operation_primary_response_was_exposed latest
                   \<or> operation_primary_was_accepted latest)
              then xreturn latest else xfail e
          | None \<Rightarrow> xfail e)) (\<lambda>q _. exposes_partial_persistence primary \<or> q = r)"
  proof (cases reconciled)
    case (Inl e)
    then show ?thesis
      by simp (rule keeps_bind, rule keeps_data_any, rule keeps_option, rule keeps_fail, rule keeps_if, rule keeps_return,
          simp, rule keeps_fail)
  next
    case (Inr q)
    then show ?thesis by (simp add: keeps_return)
  qed
  fix q
  show "keeps (only_published L) (\<lambda>_. exposes_partial_persistence primary \<or> q = r)
     (xbind (xlift (replay_operation_response from_value q)) (\<lambda>response. xreturn (response, Some (persistence_metadata q))))
     (\<lambda>a _. exposes_partial_persistence primary
       \<or> snd a = Some (persistence_metadata r) \<and> replay_operation_response from_value r = Inr (fst a))"
    by (rule keeps_pure', rule keeps_bind, rule keeps_lift_exact, rule keeps_pure, rule keeps_return) auto
qed

definition idempotent_id :: "exec_env \<Rightarrow> string \<Rightarrow> string \<Rightarrow> string option \<Rightarrow> string \<Rightarrow> string" where
  "idempotent_id env t kind owner k =
     idempotent_operation_id (xe_hex_mac env) (xe_secret env) t kind
       (map_option (user_hash (xe_hex_mac env) (xe_secret env)) owner)
       (idempotency_hash (xe_hex_mac env) (xe_secret env) k)"

lemma execute_known:
  assumes "bt_get (st_operations (xs_data s)) (idempotent_id env t kind owner k) = Some r"
  shows "execute_staged_mutation_guarded env to_value from_value t kind owner (Some k) fp primary mutate s
    = replay_matching env from_value r fp primary s"
  using assms
  by (simp add: execute_staged_mutation_guarded_def Let_def find_existing_def xbind_def xdata_def xreturn_def idempotent_id_def)

text \<open>
  C4: a settled mutation is not run twice. When the operation of the key is known and settled, an
  execution calls the repository not at all, neither to journal nor to write nor to wait, whatever
  its outcome; and an answer, unless the mutation exposes partial persistence, is the recorded
  response, marked as a duplicate where it says so, with the metadata of the recorded operation.
\<close>

theorem settled_replay_writes_nothing:
  assumes "bt_get (st_operations (xs_data s)) (idempotent_id env t kind owner k) = Some r"
    and "valid_record r" and "operation_is_settled r"
    and "execute_staged_mutation_guarded env to_value from_value t kind owner (Some k) fp primary mutate s = (a, s')"
  shows "(\<exists>es. xs_log s' = xs_log s @ es \<and> (\<forall>e\<in>set es. \<exists>t r. e = Published t r))
    \<and> (\<forall>response md. a = Inr (response, md) \<longrightarrow> \<not> exposes_partial_persistence primary \<longrightarrow>
         md = Some (persistence_metadata r) \<and> replay_operation_response from_value r = Inr response)"
proof -
  have "only_published (xs_log s) s" by (simp add: only_published_def)
  moreover have "replay_matching env from_value r fp primary s = (a, s')"
    using assms(4) by (simp add: execute_known [OF assms(1)])
  ultimately have "only_published (xs_log s) s' \<and> (\<forall>v. a = Inr v \<longrightarrow> exposes_partial_persistence primary
       \<or> snd v = Some (persistence_metadata r) \<and> replay_operation_response from_value r = Inr (fst v))"
    using keepsD [OF settled_replay [OF assms(2,3), of "xs_log s" anything env from_value fp primary]] by blast
  then show ?thesis by (auto simp: only_published_def)
qed

definition replay_state :: exec_state where
  "replay_state =
     start_state\<lparr>xs_data := empty_data\<lparr>st_operations :=
       [(idempotent_id sample_env ''acme'' ''source.upsert'' None ''key'', settled_record)]\<rparr>\<rparr>"

lemma replay_state_get:
  "bt_get (st_operations (xs_data replay_state)) (idempotent_id sample_env ''acme'' ''source.upsert'' None ''key'')
     = Some settled_record"
  by (simp add: replay_state_def empty_data_def)

theorem settled_replay_writes_nothing_witness:
  "\<exists>es. xs_log (snd (execute_staged_mutation_guarded sample_env Inr Inr ''acme'' ''source.upsert'' None (Some ''key'') None
      MpInsight sample_mutate replay_state)) = xs_log replay_state @ es \<and> (\<forall>e\<in>set es. \<exists>t r. e = Published t r)"
proof -
  have "valid_record settled_record" using settled_record_inv by (simp add: journal_inv_def record_wf_def)
  from settled_replay_writes_nothing [OF replay_state_get this write_run(2) surjective_pairing] show ?thesis by blast
qed

text \<open>
  C38: a key reused for another request changes nothing. When the operation of the key is known and was
  made for a different request, the answer is a conflict, and the store, the journal and the search
  indexes are untouched.
\<close>

theorem reused_key_conflicts:
  assumes "bt_get (st_operations (xs_data s)) (idempotent_id env t kind owner k) = Some r"
    and "json_get_str (op_redacted_metadata (or_plan r)) ''request_fingerprint'' \<noteq> Some fp"
  shows "execute_staged_mutation_guarded env to_value from_value t kind owner (Some k) (Some fp) primary mutate s
    = (Inl (Conflict ''idempotency key was already used for a different request''), s)"
  using assms(2)
  by (simp add: execute_known [OF assms(1)] replay_matching_def ensure_operation_request_matches_def xbind_def xlift_def)

theorem reused_key_conflicts_witness:
  "snd (execute_staged_mutation_guarded sample_env Inr Inr ''acme'' ''source.upsert'' None (Some ''key'') (Some ''fp'')
      MpInsight sample_mutate replay_state) = replay_state"
proof -
  have "or_plan settled_record = write_plan"
    using journal_rel_plan [OF journal.run_rel [OF write_record_inv write_run(1)]]
      operation_record_from_plan_simps(2) [OF write_record_from_plan] by simp
  then have "json_get_str (op_redacted_metadata (or_plan settled_record)) ''request_fingerprint'' \<noteq> Some ''fp''"
    by (simp add: write_plan_def sample_plan_def)
  note conflict = reused_key_conflicts [OF replay_state_get this]
  show ?thesis unfolding conflict by simp
qed

end
