(* ===== verification/Redaction.thy ===== *)
theory Redaction
  imports Util Json
begin

text \<open>
  Redaction of configured secrets and of credential-shaped values (\<open>SecretMatcher\<close> and
  \<open>redact_secrets\<close> of \<open>util.rs\<close>). A text under construction is its list of characters, each the bytes
  of one UTF-8 sequence; the code's byte offsets always stand on character boundaries, so a position
  in the text is the rest of that list. A hash set of patterns is a list of them.
\<close>

type_synonym uchar = string
type_synonym uchars = "string list"

section \<open>Characters\<close>

definition ascii_char :: "(char \<Rightarrow> bool) \<Rightarrow> uchar \<Rightarrow> bool" where
  "ascii_char P c = (case c of [b] \<Rightarrow> P b | _ \<Rightarrow> False)"

definition is_credential_left_context_character :: "uchar \<Rightarrow> bool" where
  "is_credential_left_context_character =
     ascii_char (\<lambda>b. is_ascii_alphanumeric b \<or> List.member ''-_'' b)"

definition is_credential_character :: "uchar \<Rightarrow> bool" where
  "is_credential_character = ascii_char (\<lambda>b. is_ascii_alphanumeric b \<or> List.member ''-_.~+/='' b)"

text \<open>The UTF-8 bytes of a scalar value; \<open>char::from_u32\<close> refuses the surrogates.\<close>

definition utf8 :: "nat \<Rightarrow> uchar" where
  "utf8 n =
     (if n < 128 then [char_of n]
      else if n < 2048 then [char_of (192 + n div 64), char_of (128 + n mod 64)]
      else if n < 65536 then [char_of (224 + n div 4096), char_of (128 + n div 64 mod 64), char_of (128 + n mod 64)]
      else [char_of (240 + n div 262144), char_of (128 + n div 4096 mod 64), char_of (128 + n div 64 mod 64),
            char_of (128 + n mod 64)])"

text \<open>\<open>(from..to).filter_map(from_u32).find(..)\<close>\<close>

function first_free :: "uchar list \<Rightarrow> nat \<Rightarrow> nat \<Rightarrow> uchar option" where
  "first_free used n to =
     (if to \<le> n then None
      else if (n < 0xD800 \<or> 0xDFFF < n) \<and> \<not> List.member used (utf8 n) then Some (utf8 n)
      else first_free used (Suc n) to)"
  by pat_completeness auto
termination by (relation "measure (\<lambda>(used, n, to). to - n)") auto

declare first_free.simps [simp del]

text \<open>\<open>None\<close> is the panic of \<open>expect\<close>: every scalar value occurs in a secret.\<close>

definition collision_free_mask_character :: "uchars list \<Rightarrow> uchar option" where
  "collision_free_mask_character secrets =
     (let used = concat secrets in
      case find (\<lambda>c. \<not> List.member used c) [utf8 0x2A, utf8 0x2022, utf8 0x2588, utf8 0x25C6] of
        Some c \<Rightarrow> Some c
      | None \<Rightarrow>
          (case first_free used 0xE000 0x110000 of
             Some c \<Rightarrow> Some c
           | None \<Rightarrow> first_free used 0 0xE000))"

section \<open>Prefix tables\<close>

text \<open>
  \<open>while matched > 0 && pattern[matched] != character { matched = table[matched - 1] }\<close>. An entry of
  the table is at most its index, so \<open>matched\<close> decreases and is its own bound on the iterations.
\<close>

fun fall_back :: "nat \<Rightarrow> uchars \<Rightarrow> nat list \<Rightarrow> uchar \<Rightarrow> nat \<Rightarrow> nat" where
  "fall_back 0 pattern table character matched = matched"
| "fall_back (Suc n) pattern table character matched =
     (if 0 < matched \<and> pattern ! matched \<noteq> character
      then fall_back n pattern table character (table ! (matched - 1)) else matched)"

definition advance_match :: "uchars \<Rightarrow> nat list \<Rightarrow> uchar \<Rightarrow> nat \<Rightarrow> nat" where
  "advance_match pattern table character matched =
     (let m = fall_back matched pattern table character matched
      in if pattern ! m = character then Suc m else m)"

definition prefix_table :: "uchars \<Rightarrow> nat list" where
  "prefix_table pattern =
     foldl (\<lambda>table index. table[index := advance_match pattern table (pattern ! index) (table ! (index - 1))])
       (replicate (length pattern) 0) [1..<length pattern]"

definition match_step :: "uchars \<Rightarrow> nat list \<Rightarrow> nat \<Rightarrow> uchar \<Rightarrow> nat" where
  "match_step pattern table matched character =
     (let m = advance_match pattern table character matched
      in if m = length pattern then table ! (m - 1) else m)"

definition longest_suffix_matching_prefix :: "uchars \<Rightarrow> nat list \<Rightarrow> uchars \<Rightarrow> nat" where
  "longest_suffix_matching_prefix pattern table chs =
     (if pattern = [] then 0 else foldl (match_step pattern table) 0 chs)"

section \<open>The matcher\<close>

definition min_redactable_secret_chars :: nat where "min_redactable_secret_chars = 4"
definition secret_substring_window_chars :: nat where "secret_substring_window_chars = 8"
definition response_secret_fragment_chars :: nat where "response_secret_fragment_chars = 8"

definition redaction_marker_text :: uchars where
  "redaction_marker_text = map (\<lambda>b. [b]) ''[REDACTED]''"

text \<open>\<open>str::contains\<close> and \<open>slice::windows\<close>\<close>

fun occurs :: "'a list \<Rightarrow> 'a list \<Rightarrow> bool" where
  "occurs p [] = (p = [])"
| "occurs p (c # cs) = (is_prefix p (c # cs) \<or> occurs p cs)"

definition list_windows :: "nat \<Rightarrow> 'a list \<Rightarrow> 'a list list" where
  "list_windows n xs = map (\<lambda>i. take n (drop i xs)) [0..<Suc (length xs) - n]"

record boundary_pattern =
  bp_forward :: uchars
  bp_forward_prefix :: "nat list"
  bp_reverse :: uchars
  bp_reverse_prefix :: "nat list"

record secret_matcher =
  sm_ordered :: "uchars list"
  sm_short_exact :: "uchars list"
  sm_substring_windows :: "uchars list"
  sm_boundary_patterns :: "boundary_pattern list"
  sm_marker_crossing_suffixes :: "uchars list"
  sm_redaction_marker :: uchars
  sm_protect_redaction_marker :: bool
  sm_mask_character :: uchar

text \<open>Longest first by the number of bytes, then by the order of strings.\<close>

definition ordered_known_secrets :: "uchars list \<Rightarrow> uchars list" where
  "ordered_known_secrets secrets =
     remdups_adj (sort_key (\<lambda>s. (- int (length (concat s)), concat s))
       (filter (\<lambda>s. min_redactable_secret_chars \<le> length s) secrets))"

definition minimum_secret_chars :: "uchars list \<Rightarrow> nat option" where
  "minimum_secret_chars secrets =
     (case filter (\<lambda>n. 0 < n) (map length secrets) of [] \<Rightarrow> None | n # ns \<Rightarrow> Some (foldl min n ns))"

definition marker_crossings :: "uchars \<Rightarrow> uchars list" where
  "marker_crossings secret =
     List.map_filter (\<lambda>start.
       let marker_suffix = drop start redaction_marker_text
       in if length marker_suffix < length secret \<and> is_prefix marker_suffix secret
          then Some (drop (length marker_suffix) secret) else None)
     [0..<length redaction_marker_text]"

definition boundary_pattern_of :: "uchars \<Rightarrow> boundary_pattern" where
  "boundary_pattern_of secret =
     \<lparr>bp_forward = secret, bp_forward_prefix = prefix_table secret,
      bp_reverse = rev secret, bp_reverse_prefix = prefix_table (rev secret)\<rparr>"

definition secret_matcher_new :: "uchars list \<Rightarrow> secret_matcher option" where
  "secret_matcher_new secrets =
     map_option (\<lambda>mask.
       let protect = list_all (\<lambda>s. \<not> occurs s redaction_marker_text) (filter (\<lambda>s. s \<noteq> []) secrets);
           ordered = ordered_known_secrets secrets
       in \<lparr>sm_ordered = ordered,
           sm_short_exact = remdups_adj (sort_key concat
             (filter (\<lambda>s. 0 < length s \<and> length s < min_redactable_secret_chars) secrets)),
           sm_substring_windows = concat (map (list_windows secret_substring_window_chars) ordered),
           sm_boundary_patterns = map boundary_pattern_of ordered,
           sm_marker_crossing_suffixes = concat (map marker_crossings ordered),
           sm_redaction_marker =
             (if protect then redaction_marker_text
              else replicate ((case minimum_secret_chars secrets of Some n \<Rightarrow> n | None \<Rightarrow> 1) - 1) mask),
           sm_protect_redaction_marker = protect,
           sm_mask_character = mask\<rparr>)
     (collision_free_mask_character secrets)"

section \<open>Whole secrets\<close>

definition can_preserve_marker_at :: "secret_matcher \<Rightarrow> uchars \<Rightarrow> bool" where
  "can_preserve_marker_at m rest =
     (sm_protect_redaction_marker m \<and> is_prefix redaction_marker_text rest
      \<and> \<not> list_ex (\<lambda>s. is_prefix s (drop (length redaction_marker_text) rest)) (sm_marker_crossing_suffixes m))"

text \<open>The two loops over the input; \<open>skip\<close> counts the characters an offset has still to pass.\<close>

fun redact_loop :: "secret_matcher \<Rightarrow> nat \<Rightarrow> uchars \<Rightarrow> uchars" where
  "redact_loop m skip [] = []"
| "redact_loop m (Suc skip) (c # cs) = redact_loop m skip cs"
| "redact_loop m 0 (c # cs) =
     (if can_preserve_marker_at m (c # cs)
      then redaction_marker_text @ redact_loop m (length redaction_marker_text - 1) cs
      else case find (\<lambda>s. is_prefix s (c # cs)) (sm_ordered m) of
        Some s \<Rightarrow> sm_redaction_marker m @ redact_loop m (length s - 1) cs
      | None \<Rightarrow> c # redact_loop m 0 cs)"

definition masked_char :: "secret_matcher \<Rightarrow> uchar \<Rightarrow> uchar" where
  "masked_char m c = (if is_ws c then c else sm_mask_character m)"

fun mask_loop :: "secret_matcher \<Rightarrow> nat \<Rightarrow> uchars \<Rightarrow> uchars" where
  "mask_loop m skip [] = []"
| "mask_loop m (Suc skip) (c # cs) = mask_loop m skip cs"
| "mask_loop m 0 (c # cs) =
     (if can_preserve_marker_at m (c # cs)
      then redaction_marker_text @ mask_loop m (length redaction_marker_text - 1) cs
      else case find (\<lambda>s. is_prefix s (c # cs)) (sm_ordered m) of
        Some s \<Rightarrow> map (masked_char m) s @ mask_loop m (length s - 1) cs
      | None \<Rightarrow> c # mask_loop m 0 cs)"

definition redact_configured_exact_once :: "secret_matcher \<Rightarrow> uchars \<Rightarrow> uchars" where
  "redact_configured_exact_once m input =
     (if List.member (sm_short_exact m) input then sm_redaction_marker m else redact_loop m 0 input)"

definition contains_configured_secret :: "secret_matcher \<Rightarrow> uchars \<Rightarrow> bool" where
  "contains_configured_secret m input = list_ex (\<lambda>s. occurs s input) (sm_ordered m)"

fun redact_rounds :: "nat \<Rightarrow> secret_matcher \<Rightarrow> uchars \<Rightarrow> uchars" where
  "redact_rounds 0 m current = []"
| "redact_rounds (Suc n) m current =
     (let redacted = redact_configured_exact_once m current
      in if contains_configured_secret m redacted then redact_rounds n m redacted else redacted)"

definition redact_configured_exact :: "secret_matcher \<Rightarrow> uchars \<Rightarrow> uchars" where
  "redact_configured_exact = redact_rounds 64"

section \<open>Credential-shaped values\<close>

definition credential_shapes :: "(uchars \<times> nat) list" where
  "credential_shapes =
     map (\<lambda>(p, n). (map (\<lambda>b. [b]) p, n))
       [(''sk-'', 12), (''sess-'', 16), (''codex-'', 20), (''oaic-'', 16), (''Bearer '', 10)]"

text \<open>\<open>has_credential_left_boundary(value, start)\<close>, of the text in front of \<open>start\<close>.\<close>

definition has_credential_left_boundary :: "uchars \<Rightarrow> bool" where
  "has_credential_left_boundary passed =
     (passed = [] \<or> \<not> is_credential_left_context_character (last passed))"

text \<open>
  The search loop of both functions: \<open>passed\<close> is the text up to the cursor, \<open>keep\<close> and \<open>skip\<close> count the
  characters of a match that is left alone and of one that is replaced.
\<close>

fun shape_loop :: "uchars \<Rightarrow> nat \<Rightarrow> (nat \<Rightarrow> uchars) \<Rightarrow> uchars \<Rightarrow> nat \<Rightarrow> nat \<Rightarrow> uchars \<Rightarrow> uchars" where
  "shape_loop shape minimum replacement passed keep skip [] = passed"
| "shape_loop shape minimum replacement passed keep (Suc skip) (c # cs) =
     shape_loop shape minimum replacement passed keep skip cs"
| "shape_loop shape minimum replacement passed (Suc keep) 0 (c # cs) =
     shape_loop shape minimum replacement (passed @ [c]) keep 0 cs"
| "shape_loop shape minimum replacement passed 0 0 (c # cs) =
     (let len = length shape + length (takeWhile is_credential_character (drop (length shape) (c # cs)))
      in if \<not> is_prefix shape (c # cs) then shape_loop shape minimum replacement (passed @ [c]) 0 0 cs
         else if has_credential_left_boundary passed \<and> minimum \<le> len
         then shape_loop shape minimum replacement (passed @ replacement len) 0 (len - 1) cs
         else shape_loop shape minimum replacement (passed @ [c]) (length shape - 1) 0 cs)"

definition redact_credential_shaped_value :: "uchars \<Rightarrow> uchars \<Rightarrow> nat \<Rightarrow> uchars \<Rightarrow> uchars" where
  "redact_credential_shaped_value marker shape minimum out = shape_loop shape minimum (\<lambda>_. marker) [] 0 0 out"

definition mask_credential_shaped_value :: "uchar \<Rightarrow> uchars \<Rightarrow> nat \<Rightarrow> uchars \<Rightarrow> uchars" where
  "mask_credential_shaped_value mask_character shape minimum out = shape_loop shape minimum (\<lambda>n. replicate n mask_character) [] 0 0 out"

definition redact_exact :: "secret_matcher \<Rightarrow> uchars \<Rightarrow> uchars" where
  "redact_exact m input =
     redact_configured_exact m
       (foldl (\<lambda>out (p, n). redact_credential_shaped_value (sm_redaction_marker m) p n out)
         (redact_configured_exact m input) credential_shapes)"

definition mask_exact :: "secret_matcher \<Rightarrow> uchars \<Rightarrow> uchars" where
  "mask_exact m input =
     (if List.member (sm_short_exact m) input then map (masked_char m) input
      else foldl (\<lambda>out (p, n). mask_credential_shaped_value (sm_mask_character m) p n out)
        (mask_loop m 0 input) credential_shapes)"

section \<open>Fragments of secrets\<close>

definition redaction_marker_spans :: "uchars \<Rightarrow> bool \<Rightarrow> bool list" where
  "redaction_marker_spans cs protect_marker =
     map (\<lambda>i. protect_marker
         \<and> list_ex (\<lambda>j. is_prefix redaction_marker_text (drop j cs)) [i - (length redaction_marker_text - 1)..<Suc i])
       [0..<length cs]"

text \<open>The map over \<open>chars().enumerate()\<close> by which the code masks the positions of a set.\<close>

definition mask_where :: "secret_matcher \<Rightarrow> (nat \<Rightarrow> bool) \<Rightarrow> uchars \<Rightarrow> uchars" where
  "mask_where m P cs =
     map (\<lambda>(index, c). if P index \<and> \<not> is_ws c then sm_mask_character m else c) (List.enumerate 0 cs)"

definition boundary_overlap :: "nat \<Rightarrow> nat \<Rightarrow> nat" where
  "boundary_overlap minimum_fragment_chars overlap = (if minimum_fragment_chars \<le> overlap then overlap else 0)"

definition suffix_overlap :: "nat \<Rightarrow> uchars \<Rightarrow> nat \<Rightarrow> boundary_pattern \<Rightarrow> nat" where
  "suffix_overlap minimum_fragment_chars cs suffix_boundary p =
     (let max_overlap = length (bp_forward p) - 1 in
      if max_overlap < minimum_fragment_chars then 0
      else boundary_overlap minimum_fragment_chars (longest_suffix_matching_prefix (bp_forward p) (bp_forward_prefix p)
        (drop (suffix_boundary - max_overlap) (take suffix_boundary cs))))"

definition prefix_overlap :: "nat \<Rightarrow> uchars \<Rightarrow> boundary_pattern \<Rightarrow> nat" where
  "prefix_overlap minimum_fragment_chars cs p =
     (let max_overlap = length (bp_forward p) - 1 in
      if max_overlap < minimum_fragment_chars then 0
      else boundary_overlap minimum_fragment_chars (longest_suffix_matching_prefix (bp_reverse p) (bp_reverse_prefix p)
        (rev (take (min (length cs) max_overlap) cs))))"

definition mask_boundaries :: "secret_matcher \<Rightarrow> nat \<Rightarrow> uchars \<Rightarrow> uchars" where
  "mask_boundaries m minimum_fragment_chars cs =
     (let suffix_boundary = (if is_prefix (replicate 3 [CHR ''.'']) (rev cs) then length cs - 3 else length cs);
          prefix_chars_to_mask = foldl (\<lambda>n p. max n (prefix_overlap minimum_fragment_chars cs p)) 0 (sm_boundary_patterns m);
          suffix_chars_to_mask =
            foldl (\<lambda>n p. max n (suffix_overlap minimum_fragment_chars cs suffix_boundary p)) 0 (sm_boundary_patterns m);
          protected = redaction_marker_spans cs (sm_protect_redaction_marker m)
      in mask_where m (\<lambda>index.
           (index < prefix_chars_to_mask
            \<or> suffix_boundary - suffix_chars_to_mask \<le> index \<and> index < suffix_boundary)
           \<and> \<not> protected ! index) cs)"

definition mask_if_whole_secret_substring :: "secret_matcher \<Rightarrow> nat \<Rightarrow> uchars \<Rightarrow> uchars" where
  "mask_if_whole_secret_substring m minimum_chars cs =
     (let trimmed = trim_chars cs in
      if length trimmed < minimum_chars
        \<or> (sm_protect_redaction_marker m \<and> trimmed = redaction_marker_text)
        \<or> \<not> list_ex (\<lambda>s. occurs trimmed s) (sm_ordered m)
      then cs
      else (let protected = redaction_marker_spans cs (sm_protect_redaction_marker m)
            in mask_where m (\<lambda>index. \<not> protected ! index) cs))"

definition window_masked :: "secret_matcher \<Rightarrow> uchars \<Rightarrow> nat \<Rightarrow> bool" where
  "window_masked m cs index =
     (let n = secret_substring_window_chars;
          protected = redaction_marker_spans cs (sm_protect_redaction_marker m)
      in list_ex (\<lambda>j. j + n \<le> length cs \<and> List.member (sm_substring_windows m) (take n (drop j cs))
           \<and> \<not> list_ex id (take n (drop j protected))) [index - (n - 1)..<Suc index])"

definition mask_secret_substring_windows :: "secret_matcher \<Rightarrow> uchars \<Rightarrow> uchars" where
  "mask_secret_substring_windows m cs =
     (if sm_substring_windows m = [] \<or> length cs < secret_substring_window_chars then cs
      else mask_where m (window_masked m cs) cs)"

section \<open>Texts\<close>

datatype response_text_policy = ConfiguredExactOnly | Locator | ExactOnly | Windowed | Fragment

definition mask_fragments :: "secret_matcher \<Rightarrow> nat \<Rightarrow> uchars \<Rightarrow> uchars" where
  "mask_fragments m n exact =
     mask_secret_substring_windows m (mask_if_whole_secret_substring m n (mask_boundaries m n exact))"

definition matcher_redact_egress_text :: "secret_matcher \<Rightarrow> uchars \<Rightarrow> uchars" where
  "matcher_redact_egress_text m input = mask_fragments m response_secret_fragment_chars (redact_exact m input)"

definition mask_egress_projection :: "secret_matcher \<Rightarrow> uchars \<Rightarrow> uchars" where
  "mask_egress_projection m input = mask_fragments m response_secret_fragment_chars (mask_exact m input)"

definition mask_fragment_projection :: "secret_matcher \<Rightarrow> uchars \<Rightarrow> uchars" where
  "mask_fragment_projection m input = mask_fragments m 4 (mask_exact m input)"

definition redact_response_string :: "secret_matcher \<Rightarrow> response_text_policy \<Rightarrow> uchars \<Rightarrow> uchars" where
  "redact_response_string m policy input =
     (case policy of
        ConfiguredExactOnly \<Rightarrow> redact_configured_exact m input
      | Locator \<Rightarrow> redact_configured_exact m input
      | ExactOnly \<Rightarrow> redact_exact m input
      | Windowed \<Rightarrow> mask_secret_substring_windows m (redact_exact m input)
      | Fragment \<Rightarrow> mask_fragments m response_secret_fragment_chars (redact_exact m input))"

text \<open>A matcher is built for each call; \<open>None\<close> is the panic of its construction.\<close>

definition with_matcher :: "(secret_matcher \<Rightarrow> uchars \<Rightarrow> uchars) \<Rightarrow> string \<Rightarrow> string list \<Rightarrow> string option" where
  "with_matcher f input known_secrets =
     map_option (\<lambda>m. concat (f m (chars input))) (secret_matcher_new (map chars known_secrets))"

definition redact_egress_text :: "string \<Rightarrow> string list \<Rightarrow> string option" where
  "redact_egress_text = with_matcher matcher_redact_egress_text"

definition redact_locator :: "string \<Rightarrow> string list \<Rightarrow> string option" where
  "redact_locator = with_matcher redact_configured_exact"

definition redact_string :: "string \<Rightarrow> string list \<Rightarrow> string option" where
  "redact_string = with_matcher redact_exact"

section \<open>JSON values\<close>

definition is_ascii_uppercase :: "char \<Rightarrow> bool" where
  "is_ascii_uppercase c = (65 \<le> (of_char c :: nat) \<and> (of_char c :: nat) \<le> 90)"

definition is_ascii_lowercase :: "char \<Rightarrow> bool" where
  "is_ascii_lowercase c = (97 \<le> (of_char c :: nat) \<and> (of_char c :: nat) \<le> 122)"

fun normalized_key_loop :: "bool \<Rightarrow> string \<Rightarrow> string" where
  "normalized_key_loop previous [] = []"
| "normalized_key_loop previous (c # cs) =
     (if c = CHR ''-'' then CHR ''_'' # normalized_key_loop False cs
      else (if is_ascii_uppercase c \<and> previous then [CHR ''_''] else []) @ ascii_lower_char c
        # normalized_key_loop (is_ascii_lowercase c \<or> is_digit c) cs)"

definition normalized_json_key :: "string \<Rightarrow> string" where
  "normalized_json_key = normalized_key_loop False"

definition key_matches :: "string list \<Rightarrow> string list \<Rightarrow> string \<Rightarrow> bool" where
  "key_matches exact endings key =
     (let k = normalized_json_key key in List.member exact k \<or> list_ex (ends_with k) endings)"

definition is_secret_key :: "string \<Rightarrow> bool" where
  "is_secret_key = key_matches [''token'', ''api_key'', ''apikey'', ''authorization'', ''secret'']
     [''_token'', ''_api_key'', ''_apikey'', ''_authorization'', ''_secret'']"

definition is_structural_metadata_key :: "string \<Rightarrow> bool" where
  "is_structural_metadata_key = key_matches
     [''id'', ''uid'', ''uri'', ''tenant'', ''owner_user'', ''privacy'', ''status'', ''state'', ''type'', ''kind'', ''role'',
      ''roles'', ''scope'', ''mode'', ''format'', ''version'', ''code'', ''action'', ''operation'', ''outcome'', ''category'',
      ''decision'', ''phase'', ''method'', ''model'', ''provider'', ''backend'', ''relation'', ''content_type'', ''mime_type'',
      ''node_kind'', ''retrieval_role'', ''index_kind'', ''source_kind'', ''block_type'', ''created_by'']
     [''_id'', ''_uid'', ''_uri'', ''_uris'', ''_type'', ''_kind'', ''_status'', ''_role'']"

definition is_locator_key :: "string \<Rightarrow> bool" where
  "is_locator_key = key_matches [''uri''] [''_uri'', ''_uris'']"

definition is_fragment_sensitive_text_key :: "string \<Rightarrow> bool" where
  "is_fragment_sensitive_text_key = key_matches
     [''body'', ''content'', ''text'', ''snippet'', ''quote'', ''html'', ''latex'', ''caption'', ''footnote'', ''prompt'',
      ''question'', ''query'', ''title'', ''statement'', ''rationale'', ''evidence'', ''evidence_text'',
      ''raw_response_preview'', ''answer'', ''message'', ''reason'', ''description'', ''summary'', ''section_path'',
      ''image_ref'', ''tags'']
     [''_body'', ''_content'', ''_text'', ''_title'', ''_rationale'']"

definition is_arbitrary_text_container_key :: "string \<Rightarrow> bool" where
  "is_arbitrary_text_container_key = key_matches [''payload'', ''value'', ''values'', ''metadata'', ''details'', ''data''] []"

definition child_policy :: "response_text_policy \<Rightarrow> string \<Rightarrow> response_text_policy" where
  "child_policy policy key =
     (if is_locator_key key then Locator
      else if is_structural_metadata_key key then ConfiguredExactOnly
      else if is_fragment_sensitive_text_key key then Fragment
      else if is_arbitrary_text_container_key key then Windowed
      else (case policy of ConfiguredExactOnly \<Rightarrow> ExactOnly | Locator \<Rightarrow> ExactOnly | ExactOnly \<Rightarrow> ExactOnly
            | Windowed \<Rightarrow> Windowed | Fragment \<Rightarrow> Windowed))"

definition key_policy :: "string \<Rightarrow> response_text_policy" where
  "key_policy key =
     (if is_secret_key key \<or> is_structural_metadata_key key \<or> is_fragment_sensitive_text_key key
        \<or> is_arbitrary_text_container_key key
      then ConfiguredExactOnly else Windowed)"

definition redact_text :: "secret_matcher \<Rightarrow> response_text_policy \<Rightarrow> string \<Rightarrow> string" where
  "redact_text m policy s = concat (redact_response_string m policy (chars s))"

text \<open>
  A key is usable when the object has no such key yet and it contains no configured secret. The
  suffixes are \<open>i32\<close>; \<open>None\<close> is the overflow panic behind the last of them.
\<close>

definition key_usable :: "secret_matcher \<Rightarrow> (string \<times> json) list \<Rightarrow> string \<Rightarrow> bool" where
  "key_usable m obj key = (bt_get obj key = None \<and> \<not> contains_configured_secret m (chars key))"

function unique_suffix ::
    "secret_matcher \<Rightarrow> response_text_policy \<Rightarrow> (string \<times> json) list \<Rightarrow> string \<Rightarrow> nat \<Rightarrow> string option" where
  "unique_suffix m policy obj candidate num =
     (if 2 ^ 31 \<le> num then None
      else (let unique = redact_text m policy (candidate @ ''_'' @ show_nat num) in
        if key_usable m obj unique then Some unique else unique_suffix m policy obj candidate (Suc num)))"
  by pat_completeness auto
termination by (relation "measure (\<lambda>(m, policy, obj, candidate, num). 2 ^ 31 - num)") auto

declare unique_suffix.simps [simp del]

definition unique_json_key ::
    "string \<Rightarrow> (string \<times> json) list \<Rightarrow> secret_matcher \<Rightarrow> response_text_policy \<Rightarrow> string option" where
  "unique_json_key candidate obj m policy =
     (if key_usable m obj candidate then Some candidate else unique_suffix m policy obj candidate 2)"

text \<open>The entries of an object go into a new one in order, each under a usable key.\<close>

fun insert_redacted ::
    "secret_matcher \<Rightarrow> (string \<times> json) list \<Rightarrow> (string \<times> json) list \<Rightarrow> (string \<times> json) list option" where
  "insert_redacted m obj [] = Some obj"
| "insert_redacted m obj ((key, child) # entries) =
     Option.bind (unique_json_key (redact_text m (key_policy key) key) obj m (key_policy key))
       (\<lambda>k. insert_redacted m (bt_insert k child obj) entries)"

function redact_secrets_inner :: "secret_matcher \<Rightarrow> response_text_policy \<Rightarrow> json \<Rightarrow> json option" where
  "redact_secrets_inner m policy (JString s) = Some (JString (redact_text m policy s))"
| "redact_secrets_inner m policy (JArray vs) =
     map_option JArray (those (map (redact_secrets_inner m policy) vs))"
| "redact_secrets_inner m policy (JObject obj) =
     Option.bind (those (map (\<lambda>(key, child).
         map_option (Pair key)
           (if is_secret_key key then Some (JString (concat (sm_redaction_marker m)))
            else redact_secrets_inner m (child_policy policy key) child)) obj))
       (\<lambda>entries. map_option JObject (insert_redacted m [] entries))"
| "redact_secrets_inner m policy JNull = Some JNull"
| "redact_secrets_inner m policy (JBool b) = Some (JBool b)"
| "redact_secrets_inner m policy (JNumber n) = Some (JNumber n)"
  by pat_completeness auto
termination
  apply (relation "measure (\<lambda>(m, policy, j). size j)")
    apply (auto simp: less_Suc_eq_le elim!: size_list_estimation' intro: order_trans)
  done

definition redact_secrets :: "json \<Rightarrow> string list \<Rightarrow> json option" where
  "redact_secrets v known_secrets =
     Option.bind (secret_matcher_new (map chars known_secrets)) (\<lambda>m.
       redact_secrets_inner m
         (case v of JObject _ \<Rightarrow> ExactOnly | JArray _ \<Rightarrow> ExactOnly | _ \<Rightarrow> Fragment) v)"

end
