(* ===== verification/Redaction_Tables.thy ===== *)
theory Redaction_Tables
  imports Redaction
begin

text \<open>
  The prefix tables of the boundary patterns (\<open>prefix_table\<close> and \<open>longest_suffix_matching_prefix\<close> of
  \<open>util.rs\<close>): an entry is the longest proper border of a prefix of the pattern, and the matcher keeps
  the longest prefix of the pattern that ends the text read so far.
\<close>

section \<open>Overlaps\<close>

text \<open>\<open>m\<close> is the longest prefix of \<open>p\<close>, of those up to \<open>b\<close>, that is a suffix of \<open>w\<close>.\<close>

definition longest_overlap :: "'a list \<Rightarrow> 'a list \<Rightarrow> nat \<Rightarrow> nat \<Rightarrow> bool" where
  "longest_overlap p w b m =
     (m \<le> b \<and> suffix (take m p) w \<and> (\<forall>k\<le>b. suffix (take k p) w \<longrightarrow> k \<le> m))"

lemma suffix_take_Suc:
  "k < length p \<Longrightarrow> suffix (take (Suc k) p) (w @ [c]) \<longleftrightarrow> suffix (take k p) w \<and> p ! k = c"
  by (simp add: take_Suc_conv_app_nth) (auto simp: suffix_def)

text \<open>The first \<open>n\<close> entries of a table are right.\<close>

definition table_ok :: "'a list \<Rightarrow> nat list \<Rightarrow> nat \<Rightarrow> bool" where
  "table_ok p t n = (length t = length p \<and> (\<forall>j<n. longest_overlap p (take (Suc j) p) j (t ! j)))"

lemma table_okD: "table_ok p t n \<Longrightarrow> j < n \<Longrightarrow> longest_overlap p (take (Suc j) p) j (t ! j)"
  and table_ok_length: "table_ok p t n \<Longrightarrow> length t = length p"
  by (simp_all add: table_ok_def)

lemma fall_back_longest:
  assumes "table_ok p t n" and "m \<le> n" and "m < length p" and "m \<le> fuel" and "suffix (take m p) w"
  shows "fall_back fuel p t c m \<le> m \<and> suffix (take (fall_back fuel p t c m) p) w
    \<and> (fall_back fuel p t c m = 0 \<or> p ! fall_back fuel p t c m = c)
    \<and> (\<forall>k\<le>m. suffix (take k p) w \<and> p ! k = c \<longrightarrow> k \<le> fall_back fuel p t c m)"
  using assms(2-)
proof (induction fuel arbitrary: m)
  case (Suc fuel)
  show ?case
  proof (cases "0 < m \<and> p ! m \<noteq> c")
    case True
    let ?m = "t ! (m - 1)"
    have "longest_overlap p (take (Suc (m - 1)) p) (m - 1) ?m"
      using assms(1) by (rule table_okD) (use Suc.prems(1) True in linarith)
    then have entry: "longest_overlap p (take m p) (m - 1) ?m" using True by simp
    then have less: "?m < m" and border: "suffix (take ?m p) (take m p)"
      using True by (auto simp: longest_overlap_def)
    have "suffix (take ?m p) w" using border Suc.prems(4) suffix_order.trans by blast
    then have ih: "fall_back fuel p t c ?m \<le> ?m \<and> suffix (take (fall_back fuel p t c ?m) p) w
        \<and> (fall_back fuel p t c ?m = 0 \<or> p ! fall_back fuel p t c ?m = c)
        \<and> (\<forall>k\<le>?m. suffix (take k p) w \<and> p ! k = c \<longrightarrow> k \<le> fall_back fuel p t c ?m)"
      using less Suc.prems by (intro Suc.IH) auto
    have "k \<le> ?m" if "k \<le> m" "suffix (take k p) w" "p ! k = c" for k
    proof -
      have "k \<noteq> m" using that True by auto
      then have "k \<le> m - 1" using that by simp
      moreover have "suffix (take k p) (take m p)"
        using that(2) Suc.prems(4) by (rule suffix_length_suffix) (use that(1) in simp)
      ultimately show ?thesis using entry by (simp add: longest_overlap_def)
    qed
    note below = this
    define r where "r = fall_back fuel p t c ?m"
    have "fall_back (Suc fuel) p t c m = r" using True by (simp add: r_def)
    moreover have "r \<le> ?m" "suffix (take r p) w" "r = 0 \<or> p ! r = c"
        "\<And>k. k \<le> ?m \<Longrightarrow> suffix (take k p) w \<Longrightarrow> p ! k = c \<Longrightarrow> k \<le> r"
      using ih unfolding r_def by blast+
    ultimately show ?thesis using less below by auto
  next
    case False
    with Suc.prems show ?thesis by auto
  qed
qed simp

lemma advance_longest:
  assumes "table_ok p t n" and "m \<le> n" and "b < length p" and "longest_overlap p w b m"
  shows "longest_overlap p (w @ [c]) (Suc b) (advance_match p t c m)"
proof -
  let ?r = "fall_back m p t c m"
  have m: "m \<le> b" "suffix (take m p) w" "\<And>k. k \<le> b \<Longrightarrow> suffix (take k p) w \<Longrightarrow> k \<le> m"
    using assms(4) by (auto simp: longest_overlap_def)
  have r: "?r \<le> m" "suffix (take ?r p) w" "?r = 0 \<or> p ! ?r = c"
      "\<And>k. k \<le> m \<Longrightarrow> suffix (take k p) w \<Longrightarrow> p ! k = c \<Longrightarrow> k \<le> ?r"
    using fall_back_longest [OF assms(1,2) _ order.refl m(2), of c] m(1) assms(3) by auto
  have up: "k \<le> Suc ?r \<and> (p ! ?r \<noteq> c \<longrightarrow> k = 0)" if k: "k \<le> Suc b" "suffix (take k p) (w @ [c])" for k
  proof (cases k)
    case (Suc j)
    then have j: "j \<le> b" "suffix (take j p) w" "p ! j = c"
      using k suffix_take_Suc [of j p w c] assms(3) by (simp_all add: Suc)
    then have "j \<le> ?r" using m(3) r(4) by blast
    with j(3) r(3) Suc show ?thesis by auto
  qed simp
  show ?thesis
  proof (cases "p ! ?r = c")
    case True
    then have "suffix (take (Suc ?r) p) (w @ [c])"
      using r(1,2) m(1) assms(3) suffix_take_Suc [of ?r p w c] by linarith
    with True up r(1) m(1) show ?thesis by (auto simp: longest_overlap_def advance_match_def Let_def)
  next
    case False
    then have "?r = 0" using r(3) by blast
    with False up show ?thesis by (auto simp: longest_overlap_def advance_match_def Let_def)
  qed
qed

lemma prefix_table_ok: "table_ok p (prefix_table p) (length p)"
proof (cases p)
  case (Cons x xs)
  let ?step = "\<lambda>table index. table[index := advance_match p table (p ! index) (table ! (index - 1))]"
  have "table_ok p (foldl ?step (replicate (length p) 0) [1..<Suc i]) (Suc i)" if "i < length p" for i
    using that
  proof (induction i)
    case 0
    then show ?case using Cons by (simp add: table_ok_def longest_overlap_def)
  next
    case (Suc i)
    let ?t = "foldl ?step (replicate (length p) 0) [1..<Suc i]"
    let ?new = "advance_match p ?t (p ! Suc i) (?t ! i)"
    have t: "table_ok p ?t (Suc i)" using Suc by simp
    have len: "length ?t = length p" using t by (rule table_ok_length)
    have last: "longest_overlap p (take (Suc i) p) i (?t ! i)" using t by (rule table_okD) simp
    have "?t ! i \<le> Suc i" using last by (simp add: longest_overlap_def)
    from advance_longest [OF t this _ last, of "p ! Suc i"] Suc.prems
    have new: "longest_overlap p (take (Suc (Suc i)) p) (Suc i) ?new"
      by (simp add: take_Suc_conv_app_nth)
    have "foldl ?step (replicate (length p) 0) [1..<Suc (Suc i)] = ?t[Suc i := ?new]"
      by (subst upt_Suc_append) simp_all
    moreover have "table_ok p (?t[Suc i := ?new]) (Suc (Suc i))"
      unfolding table_ok_def
    proof (intro conjI allI impI)
      fix j assume "j < Suc (Suc i)"
      then consider "j = Suc i" | "j < Suc i" by linarith
      then show "longest_overlap p (take (Suc j) p) j (?t[Suc i := ?new] ! j)"
      proof cases
        case 1
        then show ?thesis using new len Suc.prems by simp
      next
        case 2
        then show ?thesis using t by (simp add: table_ok_def)
      qed
    qed (simp only: length_list_update len)
    ultimately show ?case by simp
  qed
  from this [of "length xs"] show ?thesis by (simp add: prefix_table_def Cons)
qed (simp add: table_ok_def prefix_table_def)

lemma match_step_longest:
  assumes "p \<noteq> []" and "longest_overlap p w (length p - 1) m"
  shows "longest_overlap p (w @ [c]) (length p - 1) (match_step p (prefix_table p) m c)"
proof -
  let ?t = "prefix_table p" and ?m = "advance_match p (prefix_table p) c m"
  have len: "Suc (length p - 1) = length p" using assms(1) by simp
  have "m \<le> length p - 1" using assms(2) by (simp only: longest_overlap_def)
  then have "m \<le> length p" by simp
  from advance_longest [OF prefix_table_ok this _ assms(2), of c] assms(1)
  have adv: "longest_overlap p (w @ [c]) (length p) ?m" unfolding len by simp
  show ?thesis
  proof (cases "?m = length p")
    case True
    have last: "longest_overlap p p (length p - 1) (?t ! (length p - 1))"
      using prefix_table_ok [of p] assms(1) unfolding table_ok_def by (metis Suc_pred diff_less len length_greater_0_conv less_numeral_extra(1) take_all_iff order.refl)
    have full: "suffix p (w @ [c])" using adv True by (simp add: longest_overlap_def)
    have "k \<le> ?t ! (length p - 1)" if k: "k \<le> length p - 1" "suffix (take k p) (w @ [c])" for k
    proof -
      have "suffix (take k p) p" using k(2) full by (rule suffix_length_suffix) simp
      with last k show ?thesis by (simp add: longest_overlap_def)
    qed
    moreover have "suffix (take (?t ! (length p - 1)) p) (w @ [c])"
      using last full suffix_order.trans unfolding longest_overlap_def by blast
    ultimately show ?thesis
      using True last by (simp add: longest_overlap_def match_step_def)
  next
    case False
    then show ?thesis using adv by (auto simp: longest_overlap_def match_step_def Let_def)
  qed
qed

lemma longest_suffix_matching_prefix_longest:
  assumes "p \<noteq> []"
  shows "longest_overlap p w (length p - 1) (longest_suffix_matching_prefix p (prefix_table p) w)"
proof (induction w rule: rev_induct)
  case Nil
  then show ?case using assms by (auto simp: longest_suffix_matching_prefix_def longest_overlap_def)
next
  case (snoc c w)
  from match_step_longest [OF assms this, of c] assms show ?case
    by (simp add: longest_suffix_matching_prefix_def)
qed

text \<open>
  The linear search for a secret cut at the border of a text is exact. Over the prefix table that
  the code builds, it returns the length of the longest proper prefix of the pattern with which the
  text ends.
\<close>

theorem longest_suffix_matching_prefix_exact:
  "longest_suffix_matching_prefix p (prefix_table p) w
     = Max (insert 0 {k. k < length p \<and> suffix (take k p) w})"
proof (cases "p = []")
  case True
  then show ?thesis by (simp add: longest_suffix_matching_prefix_def)
next
  case False
  have eq: "insert 0 {k. k < length p \<and> suffix (take k p) w} = {k. k \<le> length p - 1 \<and> suffix (take k p) w}"
    using False by (cases p) auto
  have fin: "finite {k. k \<le> length p - 1 \<and> suffix (take k p) w}" by simp
  show ?thesis
    unfolding eq using longest_suffix_matching_prefix_longest [OF False, of w]
    by (intro Max_eqI [symmetric]) (auto simp: fin longest_overlap_def)
qed

end
