(* ===== verification/Redaction_Facts.thy ===== *)
theory Redaction_Facts
  imports Redaction_Tables
begin

text \<open>
  What redaction guarantees: a redacted text contains no configured secret, a text that leaves the
  server contains no window of a secret outside the redaction markers, and the masks of the retrieval
  projections keep every character at its offset.
\<close>

section \<open>Occurrences\<close>

lemma occurs_iff: "occurs p t \<longleftrightarrow> (\<exists>a b. t = a @ p @ b)"
proof (induction t)
  case (Cons c cs)
  show ?case
  proof
    assume "occurs p (c # cs)"
    then show "\<exists>a b. c # cs = a @ p @ b"
    proof (cases "is_prefix p (c # cs)")
      case True
      then obtain b where "c # cs = p @ b" by (auto simp: is_prefix_iff)
      then have "c # cs = [] @ p @ b" by simp
      then show ?thesis by blast
    next
      case False
      with \<open>occurs p (c # cs)\<close> Cons obtain a b where "cs = a @ p @ b" by auto
      then have "c # cs = (c # a) @ p @ b" by simp
      then show ?thesis by blast
    qed
  next
    assume "\<exists>a b. c # cs = a @ p @ b"
    then obtain a b where ab: "c # cs = a @ p @ b" by blast
    show "occurs p (c # cs)"
    proof (cases a)
      case Nil
      then have "is_prefix p (c # cs)" using ab by (simp add: is_prefix_iff)
      then show ?thesis by simp
    next
      case (Cons x a')
      with ab have "cs = a' @ p @ b" by simp
      then show ?thesis using Cons.IH by auto
    qed
  qed
qed auto

lemma occurs_nth: "occurs p t \<longleftrightarrow> (\<exists>i. i + length p \<le> length t \<and> (\<forall>k<length p. t ! (i + k) = p ! k))"
proof
  assume "occurs p t"
  then obtain a b where "t = a @ p @ b" by (auto simp: occurs_iff)
  then show "\<exists>i. i + length p \<le> length t \<and> (\<forall>k<length p. t ! (i + k) = p ! k)"
    by (intro exI [of _ "length a"]) (simp add: nth_append)
next
  assume "\<exists>i. i + length p \<le> length t \<and> (\<forall>k<length p. t ! (i + k) = p ! k)"
  then obtain i where i: "i + length p \<le> length t" "\<forall>k<length p. t ! (i + k) = p ! k" by blast
  then have "p = take (length p) (drop i t)" by (intro nth_equalityI) auto
  then have "t = take i t @ p @ drop (length p) (drop i t)" by (metis append_take_drop_id)
  then show "occurs p t" unfolding occurs_iff by blast
qed

lemma occurs_length: "occurs p t \<Longrightarrow> length p \<le> length t"
  by (auto simp: occurs_iff)

text \<open>
  A text in which some characters are replaced by one that a pattern does not have contains that
  pattern only where the original did.
\<close>

definition masks :: "'a \<Rightarrow> 'a list \<Rightarrow> 'a list \<Rightarrow> bool" where
  "masks c = list_all2 (\<lambda>x y. y = x \<or> y = c)"

lemma masks_refl [simp]: "masks c xs xs"
  by (simp add: masks_def list_all2_refl)

lemma masks_trans: "masks c xs ys \<Longrightarrow> masks c ys zs \<Longrightarrow> masks c xs zs"
  unfolding masks_def list_all2_conv_all_nth by metis

lemma masks_nth: "masks c xs ys \<Longrightarrow> i < length xs \<Longrightarrow> ys ! i = xs ! i \<or> ys ! i = c"
  unfolding masks_def by (drule list_all2_nthD) auto

lemma masks_length: "masks c xs ys \<Longrightarrow> length ys = length xs"
  by (simp add: masks_def list_all2_lengthD)

lemma masks_append: "masks c xs ys \<Longrightarrow> masks c us vs \<Longrightarrow> masks c (xs @ us) (ys @ vs)"
  by (simp add: masks_def list_all2_appendI)

lemma masks_Cons: "masks c (x # xs) (y # ys) \<longleftrightarrow> (y = x \<or> y = c) \<and> masks c xs ys"
  by (auto simp: masks_def)

lemma masks_unmasked:
  assumes "masks c xs ys" and "i + length p \<le> length ys" and "\<forall>k<length p. ys ! (i + k) = p ! k" and "c \<notin> set p"
  shows "\<forall>k<length p. xs ! (i + k) = p ! k"
proof (intro allI impI)
  fix k assume k: "k < length p"
  have "i + k < length xs" using assms(2) masks_length [OF assms(1)] k by simp
  from masks_nth [OF assms(1) this] show "xs ! (i + k) = p ! k"
    using assms(3,4) k nth_mem by metis
qed

lemma masks_occurs:
  assumes "masks c xs ys" and "c \<notin> set p" and "occurs p ys"
  shows "occurs p xs"
proof -
  obtain i where i: "i + length p \<le> length ys" "\<forall>k<length p. ys ! (i + k) = p ! k"
    using assms(3) unfolding occurs_nth by blast
  from masks_unmasked [OF assms(1) i assms(2)] i(1) masks_length [OF assms(1)]
  show ?thesis unfolding occurs_nth by auto
qed

section \<open>The matcher\<close>

lemma first_free_fresh: "first_free used n to = Some c \<Longrightarrow> c \<notin> set used \<and> (\<exists>k<to. c = utf8 k)"
proof (induction used n to rule: first_free.induct)
  case (1 used n to)
  show ?case
  proof (cases "to \<le> n \<or> (n < 0xD800 \<or> 0xDFFF < n) \<and> \<not> List.member used (utf8 n)")
    case True
    then show ?thesis
      using 1(2) by (subst (asm) first_free.simps) (auto simp: List.member_iff split: if_splits intro: exI [of _ n])
  next
    case False
    then have "first_free used (Suc n) to = Some c" using 1(2) by (subst (asm) first_free.simps) (auto split: if_splits)
    with False show ?thesis by (intro 1(1)) auto
  qed
qed

lemma mask_character_fresh:
  assumes "collision_free_mask_character secrets = Some c"
  shows "c \<notin> set (concat secrets) \<and> (\<exists>k<0x110000. c = utf8 k)"
proof -
  define four where "four = [utf8 0x2A, utf8 0x2022, utf8 0x2588, utf8 0x25C6]"
  let ?used = "concat secrets"
  note search = assms [unfolded collision_free_mask_character_def Let_def, folded four_def]
  show ?thesis
  proof (cases "find (\<lambda>c. \<not> List.member ?used c) four")
    case (Some x)
    then have "c = x" using search by simp
    moreover have "x \<in> set four" "\<not> List.member ?used x"
      using Some by (auto simp: find_Some_iff)
    moreover have "\<forall>y\<in>set four. \<exists>k<0x110000. y = utf8 k"
      unfolding four_def by (simp only: list.set ball_simps) (intro conjI exI refl TrueI; simp)
    ultimately show ?thesis by (auto simp: List.member_iff)
  next
    case None
    then have "first_free ?used 0xE000 0x110000 = Some c \<or> first_free ?used 0 0xE000 = Some c"
      using search by (auto split: option.splits)
    then have "c \<notin> set ?used \<and> ((\<exists>k<0x110000. c = utf8 k) \<or> (\<exists>k<0xE000. c = utf8 k))"
      using first_free_fresh by blast
    moreover have "k < 0x110000" if "k < 0xE000" for k :: nat using that by simp
    ultimately show ?thesis by blast
  qed
qed

lemma set_ordered [simp]:
  "set (ordered_known_secrets secrets) = {s \<in> set secrets. min_redactable_secret_chars \<le> length s}"
  by (auto simp: ordered_known_secrets_def)

lemma matcher_new_simps:
  assumes "secret_matcher_new secrets = Some m"
  shows "collision_free_mask_character secrets = Some (sm_mask_character m)"
    and "sm_ordered m = ordered_known_secrets secrets"
    and "sm_substring_windows m = concat (map (list_windows secret_substring_window_chars) (ordered_known_secrets secrets))"
    and "sm_redaction_marker m = (if sm_protect_redaction_marker m then redaction_marker_text
       else replicate ((case minimum_secret_chars secrets of Some n \<Rightarrow> n | None \<Rightarrow> 1) - 1) (sm_mask_character m))"
    and "sm_protect_redaction_marker m = list_all (\<lambda>s. \<not> occurs s redaction_marker_text) (filter (\<lambda>s. s \<noteq> []) secrets)"
  using assms by (auto simp: secret_matcher_new_def Let_def)

lemma mask_not_in_secret:
  "secret_matcher_new secrets = Some m \<Longrightarrow> s \<in> set secrets \<Longrightarrow> sm_mask_character m \<notin> set s"
  using matcher_new_simps(1) mask_character_fresh by fastforce

text \<open>A secret long enough to be searched for.\<close>

definition redactable :: "uchars list \<Rightarrow> uchars \<Rightarrow> bool" where
  "redactable secrets s = (s \<in> set secrets \<and> min_redactable_secret_chars \<le> length s)"

definition clean :: "uchars list \<Rightarrow> uchars \<Rightarrow> bool" where
  "clean secrets cs = (\<forall>s. redactable secrets s \<longrightarrow> \<not> occurs s cs)"

lemma contains_iff:
  "secret_matcher_new secrets = Some m \<Longrightarrow> contains_configured_secret m cs \<longleftrightarrow> \<not> clean secrets cs"
  by (auto simp: contains_configured_secret_def clean_def redactable_def matcher_new_simps(2) list_ex_iff)

lemma clean_Nil [simp]: "clean secrets []"
  by (auto simp: clean_def redactable_def min_redactable_secret_chars_def)

lemma clean_masks:
  "secret_matcher_new secrets = Some m \<Longrightarrow> clean secrets xs \<Longrightarrow> masks (sm_mask_character m) xs ys \<Longrightarrow> clean secrets ys"
  unfolding clean_def redactable_def using masks_occurs mask_not_in_secret by metis

section \<open>No configured secret survives\<close>

lemma redact_rounds_clean: "secret_matcher_new secrets = Some m \<Longrightarrow> clean secrets (redact_rounds n m cs)"
  by (induction n arbitrary: cs) (auto simp: Let_def contains_iff)

lemma redact_configured_exact_clean:
  "secret_matcher_new secrets = Some m \<Longrightarrow> clean secrets (redact_configured_exact m cs)"
  by (simp add: redact_configured_exact_def redact_rounds_clean)

lemma redact_exact_clean: "secret_matcher_new secrets = Some m \<Longrightarrow> clean secrets (redact_exact m cs)"
  by (simp add: redact_exact_def redact_configured_exact_clean)

lemma mask_where_nth:
  "i < length cs \<Longrightarrow> mask_where m P cs ! i = (if P i \<and> \<not> is_ws (cs ! i) then sm_mask_character m else cs ! i)"
  by (simp add: mask_where_def nth_enumerate_eq)

lemma length_mask_where [simp]: "length (mask_where m P cs) = length cs"
  by (simp add: mask_where_def)

lemma masks_mask_where: "masks (sm_mask_character m) cs (mask_where m P cs)"
  unfolding masks_def list_all2_conv_all_nth by (auto simp: mask_where_nth)

lemma masks_boundaries: "masks (sm_mask_character m) cs (mask_boundaries m n cs)"
  unfolding mask_boundaries_def Let_def by (rule masks_mask_where)

lemma masks_whole: "masks (sm_mask_character m) cs (mask_if_whole_secret_substring m n cs)"
  unfolding mask_if_whole_secret_substring_def Let_def by (simp add: masks_mask_where)

lemma masks_windows: "masks (sm_mask_character m) cs (mask_secret_substring_windows m cs)"
  unfolding mask_secret_substring_windows_def by (simp add: masks_mask_where)

lemma masks_fragments: "masks (sm_mask_character m) cs (mask_fragments m n cs)"
  unfolding mask_fragments_def by (meson masks_boundaries masks_trans masks_whole masks_windows)

lemma redact_response_string_clean:
  assumes "secret_matcher_new secrets = Some m"
  shows "clean secrets (redact_response_string m policy cs)"
proof -
  note exact = redact_exact_clean [OF assms, of cs] redact_configured_exact_clean [OF assms, of cs]
  show ?thesis
    by (cases policy)
      (simp_all add: redact_response_string_def exact clean_masks [OF assms exact(1)] masks_windows masks_fragments)
qed

section \<open>No window of a secret survives\<close>

text \<open>The positions that a redaction marker of the text covers.\<close>

definition in_marker :: "uchars \<Rightarrow> nat \<Rightarrow> bool" where
  "in_marker cs i = (\<exists>j. is_prefix redaction_marker_text (drop j cs) \<and> j \<le> i \<and> i < j + length redaction_marker_text)"

lemma length_marker: "length redaction_marker_text = 10"
  by (simp add: redaction_marker_text_def)

lemma length_spans [simp]: "length (redaction_marker_spans cs b) = length cs"
  by (simp add: redaction_marker_spans_def)

lemma spans_nth:
  assumes "i < length cs"
  shows "redaction_marker_spans cs b ! i \<longleftrightarrow> b \<and> in_marker cs i"
proof -
  have "redaction_marker_spans cs b ! i \<longleftrightarrow>
      b \<and> (\<exists>j. i - 9 \<le> j \<and> j < Suc i \<and> is_prefix redaction_marker_text (drop j cs))"
    using assms by (simp add: redaction_marker_spans_def length_marker list_ex_iff Bex_def conj_assoc del: upt_Suc)
  also have "\<dots> \<longleftrightarrow> b \<and> (\<exists>j. is_prefix redaction_marker_text (drop j cs) \<and> j \<le> i \<and> i < j + 10)"
    by (rule conj_cong [OF refl], rule ex_cong1) linarith
  also have "\<dots> \<longleftrightarrow> b \<and> in_marker cs i"
    unfolding in_marker_def length_marker ..
  finally show ?thesis .
qed

lemma is_prefix_drop_nth:
  "is_prefix p (drop j cs) \<longleftrightarrow> j + length p \<le> length cs \<and> (\<forall>k<length p. cs ! (j + k) = p ! k) \<or> p = []"
proof
  assume "is_prefix p (drop j cs)"
  then obtain zs where zs: "drop j cs = p @ zs" by (auto simp: is_prefix_iff)
  have "cs ! (j + k) = p ! k" if "k < length p" for k
  proof -
    have "j + k < length cs" using arg_cong [OF zs, of length] that by simp
    then show ?thesis using arg_cong [OF zs, of "\<lambda>xs. xs ! k"] that by (simp add: nth_append)
  qed
  moreover have "p \<noteq> [] \<Longrightarrow> j + length p \<le> length cs" using arg_cong [OF zs, of length] by (cases p) auto
  ultimately show "j + length p \<le> length cs \<and> (\<forall>k<length p. cs ! (j + k) = p ! k) \<or> p = []" by blast
next
  assume r: "j + length p \<le> length cs \<and> (\<forall>k<length p. cs ! (j + k) = p ! k) \<or> p = []"
  show "is_prefix p (drop j cs)"
  proof (cases "p = []")
    case False
    with r have "p = take (length p) (drop j cs)" by (intro nth_equalityI) auto
    then show ?thesis unfolding is_prefix_iff by (metis append_take_drop_id)
  qed simp
qed

lemma window_masked_iff:
  "window_masked m cs i \<longleftrightarrow> (\<exists>j. j \<le> i \<and> i < j + 8 \<and> j + 8 \<le> length cs \<and> take 8 (drop j cs) \<in> set (sm_substring_windows m)
     \<and> (\<forall>k<8. \<not> (sm_protect_redaction_marker m \<and> in_marker cs (j + k))))"
proof -
  have free: "\<not> list_ex id (take 8 (drop j (redaction_marker_spans cs b))) \<longleftrightarrow> (\<forall>k<8. \<not> (b \<and> in_marker cs (j + k)))"
    if "j + 8 \<le> length cs" for b j
  proof -
    have "take 8 (drop j (redaction_marker_spans cs b)) ! k \<longleftrightarrow> b \<and> in_marker cs (j + k)" if "k < 8" for k
      using that \<open>j + 8 \<le> length cs\<close> by (simp add: spans_nth)
    moreover have "length (take 8 (drop j (redaction_marker_spans cs b))) = 8"
      using that by simp
    ultimately show ?thesis unfolding list_ex_length by auto
  qed
  have "window_masked m cs i \<longleftrightarrow> (\<exists>j. i - 7 \<le> j \<and> j < Suc i \<and> j + 8 \<le> length cs
      \<and> take 8 (drop j cs) \<in> set (sm_substring_windows m)
      \<and> \<not> list_ex id (take 8 (drop j (redaction_marker_spans cs (sm_protect_redaction_marker m)))))"
    unfolding window_masked_def Let_def secret_substring_window_chars_def list_ex_iff
    by (auto simp: List.member_iff Bex_def simp del: upt_Suc)
  also have "\<dots> \<longleftrightarrow> (\<exists>j. j \<le> i \<and> i < j + 8 \<and> j + 8 \<le> length cs \<and> take 8 (drop j cs) \<in> set (sm_substring_windows m)
     \<and> (\<forall>k<8. \<not> (sm_protect_redaction_marker m \<and> in_marker cs (j + k))))"
    by (intro ex_cong1) (use free [of _ "sm_protect_redaction_marker m"] in auto)
  finally show ?thesis .
qed

lemma marker_kept:
  assumes "in_marker cs i" and "sm_protect_redaction_marker m"
  shows "in_marker (mask_where m (window_masked m cs) cs) i"
proof -
  obtain j where j: "is_prefix redaction_marker_text (drop j cs)" "j \<le> i" "i < j + 10"
    using assms(1) by (auto simp: in_marker_def length_marker)
  then have pos: "j + 10 \<le> length cs" "\<And>k. k < 10 \<Longrightarrow> cs ! (j + k) = redaction_marker_text ! k"
    using is_prefix_drop_nth [of redaction_marker_text j cs] length_marker by auto
  have "\<not> window_masked m cs (j + k)" if "k < 10" for k
  proof
    assume "window_masked m cs (j + k)"
    then obtain l where l: "l \<le> j + k" "j + k < l + 8" "\<forall>n<8. \<not> in_marker cs (l + n)"
      using assms(2) by (auto simp: window_masked_iff)
    have "in_marker cs (l + (j + k - l))"
      using j(1) that l(1) by (auto simp: in_marker_def length_marker intro!: exI [of _ j])
    moreover have "j + k - l < 8" using l(1,2) by simp
    ultimately show False using l(3) by blast
  qed
  then have "mask_where m (window_masked m cs) cs ! (j + k) = redaction_marker_text ! k" if "k < 10" for k
    using that pos by (simp add: mask_where_nth)
  then have "is_prefix redaction_marker_text (drop j (mask_where m (window_masked m cs) cs))"
    using pos(1) by (simp add: is_prefix_drop_nth length_marker)
  with j(2,3) show ?thesis by (auto simp: in_marker_def length_marker)
qed

lemma windows_in:
  assumes "redactable secrets s" and "s = u @ w @ v" and "length w = 8"
  shows "w \<in> set (concat (map (list_windows secret_substring_window_chars) (ordered_known_secrets secrets)))"
proof -
  have "w = take 8 (drop (length u) s)" using assms(2,3) by simp
  moreover have "length u < Suc (length s) - 8" using assms(2,3) by simp
  ultimately have "w \<in> set (list_windows 8 s)" by (auto simp: list_windows_def)
  then show ?thesis
    using assms(1) by (auto simp: secret_substring_window_chars_def redactable_def)
qed

text \<open>
  What leaves the server shows no long piece of a secret. Eight consecutive characters of a
  configured secret of four characters or more, of which one is not white space, occur in an egress
  text only where they overlap a redaction marker.
\<close>

theorem egress_hides_secret_windows:
  assumes "secret_matcher_new secrets = Some m"
    and "s \<in> set secrets" and "s = u @ w @ v" and "length w = 8" and "\<exists>c\<in>set w. \<not> is_ws c"
    and "matcher_redact_egress_text m input = a @ w @ b"
  shows "\<exists>i. length a \<le> i \<and> i < length a + 8 \<and> in_marker (matcher_redact_egress_text m input) i"
proof -
  define cs where "cs = mask_if_whole_secret_substring m 8 (mask_boundaries m 8 (redact_exact m input))"
  have out: "matcher_redact_egress_text m input = mask_secret_substring_windows m cs"
    by (simp add: matcher_redact_egress_text_def mask_fragments_def cs_def response_secret_fragment_chars_def)
  have red: "redactable secrets s"
    using assms(2-4) by (simp add: redactable_def min_redactable_secret_chars_def)
  let ?n = "length a"
  have win: "w \<in> set (sm_substring_windows m)"
    using windows_in [OF red assms(3,4)] matcher_new_simps(3) [OF assms(1)] by simp
  have len: "length (mask_secret_substring_windows m cs) = length cs"
    using masks_length [OF masks_windows] .
  then have fits: "?n + 8 \<le> length cs" using assms(4,6) out by (metis add.assoc le_add1 length_append)
  then have ys: "mask_secret_substring_windows m cs = mask_where m (window_masked m cs) cs"
    using win by (auto simp: mask_secret_substring_windows_def secret_substring_window_chars_def)
  have at: "mask_where m (window_masked m cs) cs ! (?n + k) = w ! k" if "k < 8" for k
    using assms(4,6) that unfolding out ys by (simp add: nth_append)
  have "sm_mask_character m \<notin> set w" using mask_not_in_secret [OF assms(1,2)] assms(3) by auto
  then have orig: "cs ! (?n + k) = w ! k" if "k < 8" for k
    using masks_unmasked [OF masks_mask_where, where p = w] at fits that assms(4) by (metis length_mask_where)
  then have "take 8 (drop ?n cs) = w" using fits assms(4) by (intro nth_equalityI) auto
  moreover obtain k where k: "k < 8" "\<not> is_ws (w ! k)" using assms(4,5) by (metis in_set_conv_nth)
  have "\<not> window_masked m cs (?n + k)"
  proof
    assume "window_masked m cs (?n + k)"
    then have "w ! k = sm_mask_character m"
      using at [OF k(1)] orig [OF k(1)] k fits by (simp add: mask_where_nth)
    then show False using \<open>sm_mask_character m \<notin> set w\<close> k(1) assms(4) nth_mem by metis
  qed
  ultimately have "\<exists>l<8. sm_protect_redaction_marker m \<and> in_marker cs (?n + l)"
    using k fits win unfolding window_masked_iff by (metis add_less_cancel_left le_add1)
  then obtain l where "l < 8" "sm_protect_redaction_marker m" "in_marker cs (?n + l)" by blast
  then show ?thesis using marker_kept unfolding out ys by (intro exI [of _ "?n + l"]) auto
qed

definition sample_secret :: uchars where "sample_secret = map (\<lambda>b. [b]) ''TED]abcdefgh''"
definition sample_egress :: uchars where "sample_egress = map (\<lambda>b. [b]) ''[REDACTED]abcd.''"
definition sample_matcher :: secret_matcher where "sample_matcher = the (secret_matcher_new [sample_secret])"

lemma sample_matcher_new: "secret_matcher_new [sample_secret] = Some sample_matcher"
proof -
  have "secret_matcher_new [sample_secret] \<noteq> None" by code_simp
  then show ?thesis by (simp add: sample_matcher_def)
qed

lemma sample_egress_stages:
  "redact_exact sample_matcher sample_egress = sample_egress"
  "mask_boundaries sample_matcher response_secret_fragment_chars sample_egress = sample_egress"
  "mask_if_whole_secret_substring sample_matcher response_secret_fragment_chars sample_egress = sample_egress"
  "mask_secret_substring_windows sample_matcher sample_egress = sample_egress"
  by code_simp+

theorem egress_hides_secret_windows_witness:
  "\<exists>i. 6 \<le> i \<and> i < 14 \<and> in_marker sample_egress i"
proof -
  let ?w = "map (\<lambda>b. [b]) ''TED]abcd''" and ?a = "map (\<lambda>b. [b]) ''[REDAC''"
  have out: "matcher_redact_egress_text sample_matcher sample_egress = sample_egress"
    unfolding matcher_redact_egress_text_def mask_fragments_def sample_egress_stages ..
  have secret: "sample_secret = [] @ ?w @ map (\<lambda>b. [b]) ''efgh''" by (simp add: sample_secret_def)
  have shown: "matcher_redact_egress_text sample_matcher sample_egress = ?a @ ?w @ map (\<lambda>b. [b]) ''.''"
    unfolding out by (simp add: sample_egress_def)
  have len: "length ?w = 8" "length ?a = 6" by simp_all
  have ink: "\<exists>c\<in>set ?w. \<not> is_ws c" by (rule bexI [of _ "''T''"]) (code_simp, simp)
  have "sample_secret \<in> set [sample_secret]" by simp
  from egress_hides_secret_windows [OF sample_matcher_new this secret len(1) ink shown]
  show ?thesis unfolding len out by (simp only: numeral_plus_numeral semiring_norm)
qed

section \<open>Projections keep offsets\<close>

lemma masks_loop:
  "[] \<notin> set (sm_ordered m) \<Longrightarrow> masks (sm_mask_character m) (drop skip cs) (mask_loop m skip cs)"
proof (induction m skip cs rule: mask_loop.induct)
  case (3 m c cs)
  show ?case
  proof (cases "can_preserve_marker_at m (c # cs)")
    case True
    then obtain zs where zs: "c # cs = redaction_marker_text @ zs"
      by (auto simp: can_preserve_marker_at_def is_prefix_iff)
    then have "drop (length redaction_marker_text) (c # cs) = zs" by (metis append_eq_conv_conj)
    then have rest: "drop (length redaction_marker_text - 1) cs = zs" by (simp add: length_marker)
    have "masks (sm_mask_character m) (redaction_marker_text @ zs) (mask_loop m 0 (c # cs))"
      using 3(1) [OF True 3(4)] True unfolding rest by (simp add: masks_append)
    then show ?thesis by (simp only: drop_0 zs)
  next
    case False
    note out = False
    show ?thesis
    proof (cases "find (\<lambda>s. is_prefix s (c # cs)) (sm_ordered m)")
      case None
      then show ?thesis using 3(2) [OF False None 3(4)] None False by (simp add: masks_Cons)
    next
      case (Some s)
      have nz: "s \<noteq> []" and "\<exists>zs. c # cs = s @ zs"
        using Some 3(4) nth_mem by (fastforce simp: find_Some_iff is_prefix_iff)+
      then obtain zs where zs: "c # cs = s @ zs" by blast
      then have rest: "drop (length s - 1) cs = zs"
        using arg_cong [OF zs, of "drop (length s)"] nz by (cases s) simp_all
      have "masks (sm_mask_character m) s (map (masked_char m) s)"
        by (auto simp: masks_def list_all2_conv_all_nth masked_char_def)
      then have "masks (sm_mask_character m) (s @ zs) (mask_loop m 0 (c # cs))"
        using 3(3) [OF False Some 3(4)] False Some unfolding rest by (simp add: masks_append)
      then show ?thesis by (simp only: drop_0 zs)
    qed
  qed
qed simp_all

text \<open>The search loop of \<open>mask_credential_shaped_value\<close> replaces a match by as many characters.\<close>

lemma masks_replicate: "masks c xs (replicate (length xs) c)"
  by (auto simp: masks_def list_all2_conv_all_nth)

lemma masks_shape:
  "shape \<noteq> [] \<Longrightarrow> masks c xs out \<Longrightarrow>
    masks c (xs @ drop skip cs) (shape_loop shape minimum (\<lambda>n. replicate n c) out keep skip cs)"
proof (induction shape minimum "\<lambda>n. replicate n c" out keep skip cs arbitrary: xs rule: shape_loop.induct)
  case (3 shape minimum out keep x cs)
  from 3(1) [OF 3(2) masks_append [OF 3(3) masks_refl, of "[x]"]] show ?case by simp
next
  case (4 shape minimum out x cs)
  note ext = masks_append [OF 4(5) masks_refl, of "[x]"]
  define n where "n = length shape + length (takeWhile is_credential_character (drop (length shape) (x # cs)))"
  show ?case
  proof (cases "is_prefix shape (x # cs) \<and> has_credential_left_boundary out \<and> minimum \<le> n")
    case True
    have "length shape \<le> length (x # cs)" using True unfolding is_prefix_iff by (metis length_append le_add1)
    moreover have "length (takeWhile is_credential_character (drop (length shape) (x # cs)))
        \<le> length (drop (length shape) (x # cs))"
      by (rule length_takeWhile_le)
    ultimately have "n \<le> length (x # cs)" by (simp add: n_def)
    then have "length (take n (x # cs)) = n" by simp
    then have "masks c (take n (x # cs)) (replicate n c)" using masks_replicate by metis
    from masks_append [OF 4(5) this]
    have ys: "masks c (xs @ take n (x # cs)) (out @ replicate n c)" .
    have "0 < n" using 4(4) by (simp add: n_def)
    then have "take n (x # cs) @ drop (n - 1) cs = x # cs" by (cases n) simp_all
    moreover have "masks c ((xs @ take n (x # cs)) @ drop (n - 1) cs)
        (shape_loop shape minimum (\<lambda>n. replicate n c) (out @ replicate n c) 0 (n - 1) cs)"
      using 4(2) [OF n_def _ _ 4(4) ys] True by simp
    ultimately show ?thesis using True by (simp add: n_def [symmetric])
  next
    case False
    then show ?thesis
      using 4(1) [OF n_def _ 4(4) ext] 4(3) [OF n_def _ _ 4(4) ext] by (auto simp: n_def [symmetric])
  qed
qed simp_all

lemma masks_shapes: "masks (sm_mask_character m) cs
    (foldl (\<lambda>out (p, n). mask_credential_shaped_value (sm_mask_character m) p n out) cs credential_shapes)"
proof -
  have step: "masks c xs ys \<Longrightarrow> p \<noteq> [] \<Longrightarrow> masks c xs (mask_credential_shaped_value c p n ys)" for c xs ys p n
    using masks_shape [of p c "[]" "[]" 0 ys n 0] masks_trans [of c xs ys]
    by (simp add: mask_credential_shaped_value_def masks_def)
  have fold: "masks c xs ys \<Longrightarrow> \<forall>(p, n)\<in>set shapes. p \<noteq> []
      \<Longrightarrow> masks c xs (foldl (\<lambda>out (p, n). mask_credential_shaped_value c p n out) ys shapes)" for c xs ys and shapes :: "(uchars \<times> nat) list"
    by (induction shapes arbitrary: ys) (auto intro: step)
  show ?thesis by (rule fold) (simp_all add: credential_shapes_def)
qed

lemma ordered_no_empty: "secret_matcher_new secrets = Some m \<Longrightarrow> [] \<notin> set (sm_ordered m)"
  by (simp add: matcher_new_simps(2) min_redactable_secret_chars_def)

lemma masks_exact:
  assumes "secret_matcher_new secrets = Some m"
  shows "masks (sm_mask_character m) cs (mask_exact m cs)"
proof (cases "List.member (sm_short_exact m) cs")
  case True
  then show ?thesis by (auto simp: mask_exact_def masks_def list_all2_conv_all_nth masked_char_def)
next
  case False
  from masks_loop [OF ordered_no_empty [OF assms], of 0 cs]
  have "masks (sm_mask_character m) cs (mask_loop m 0 cs)" by simp
  then show ?thesis using False masks_shapes masks_trans by (fastforce simp: mask_exact_def)
qed

text \<open>
  The projections for retrieval keep every character at its offset: the projected text is as long
  as the text, a character is either unchanged or the mask character, and the mask character occurs
  in no secret.
\<close>

theorem projections_keep_offsets:
  assumes "secret_matcher_new secrets = Some m"
    and "out = mask_egress_projection m cs \<or> out = mask_fragment_projection m cs \<or> out = mask_exact m cs"
  shows "length out = length cs \<and> (\<forall>i<length cs. out ! i = cs ! i \<or> out ! i = sm_mask_character m)
    \<and> (\<forall>s\<in>set secrets. sm_mask_character m \<notin> set s)"
proof -
  have "masks (sm_mask_character m) cs (mask_fragments m n (mask_exact m cs))" for n
    by (rule masks_trans [OF masks_exact [OF assms(1)] masks_fragments])
  then have "masks (sm_mask_character m) cs out"
    using assms(2) masks_exact [OF assms(1), of cs]
    by (elim disjE) (simp_all add: mask_egress_projection_def mask_fragment_projection_def)
  from masks_length [OF this] masks_nth [OF this] mask_not_in_secret [OF assms(1)]
  show ?thesis by blast
qed

theorem projections_keep_offsets_witness:
  "length (mask_egress_projection sample_matcher sample_egress) = length sample_egress"
  by (rule projections_keep_offsets [OF sample_matcher_new disjI1 [OF refl], THEN conjunct1])

end
