(* ===== verification/Redaction_Json.thy ===== *)
theory Redaction_Json
  imports Redaction_Facts
begin

text \<open>
  Redaction of whole responses (\<open>redact_secrets\<close> of \<open>util.rs\<close>): every key and every string of a redacted
  value is free of configured secrets, and the redaction of a value returns.
\<close>

section \<open>Redacted texts are texts\<close>

lemma is_cont_char_of: "n < 256 \<Longrightarrow> is_cont (char_of (n :: nat)) \<longleftrightarrow> 128 \<le> n \<and> n < 192"
proof -
  assume n: "n < 256"
  have "is_cont (char_of n) \<longleftrightarrow> odd (n div 128) \<and> \<not> odd (n div 64)"
    by (simp add: is_cont_def char_of_def bit_iff_odd)
  also have "\<dots> \<longleftrightarrow> 128 \<le> n \<and> n < 192"
  proof (cases "n < 128")
    case False
    then have "n div 128 = 1" using n by simp
    moreover have "n div 64 = 2 \<or> n div 64 = 3" using n False by auto
    moreover have "n div 64 = 2 \<longleftrightarrow> n < 192" using n False by auto
    ultimately show ?thesis using False by auto
  qed simp
  finally show ?thesis .
qed

lemma utf8_is_char: "n < 0x110000 \<Longrightarrow> is_char (utf8 n)"
proof -
  assume n: "n < 0x110000"
  have tail: "is_cont (char_of (128 + k mod 64))" for k :: nat
    by (subst is_cont_char_of) (use mod_less_divisor [of 64 k] in linarith)+
  have lead: "\<not> is_cont (char_of (k :: nat))" if "k < 128 \<or> 192 \<le> k \<and> k < 256" for k
    using that by (subst is_cont_char_of) auto
  have "192 + n div 64 < 256" if "n < 2048" using that by auto
  moreover have "224 + n div 4096 < 256" if "n < 65536" using that by auto
  moreover have "240 + n div 262144 < 256" using n by auto
  ultimately show ?thesis using tail lead by (auto simp: is_char_def utf8_def)
qed

lemma mask_is_char: "secret_matcher_new secrets = Some m \<Longrightarrow> is_char (sm_mask_character m)"
  by (drule matcher_new_simps(1), drule mask_character_fresh) (auto intro: utf8_is_char)

text \<open>The characters a redaction may write.\<close>

definition drawn :: "secret_matcher \<Rightarrow> uchars \<Rightarrow> uchars \<Rightarrow> bool" where
  "drawn m cs out = (set out \<subseteq> set cs \<union> set redaction_marker_text \<union> {sm_mask_character m})"

lemma drawn_trans: "drawn m xs ys \<Longrightarrow> drawn m ys zs \<Longrightarrow> drawn m xs zs"
  by (auto simp: drawn_def)

lemma drawn_refl [simp]: "drawn m xs xs" and drawn_Nil [simp]: "drawn m xs []"
  by (auto simp: drawn_def)

lemma drawn_masks:
  assumes "masks (sm_mask_character m) xs ys"
  shows "drawn m xs ys"
proof -
  have "y \<in> set xs \<union> {sm_mask_character m}" if "y \<in> set ys" for y
  proof -
    obtain i where i: "i < length xs" "ys ! i = y" using \<open>y \<in> set ys\<close> masks_length [OF assms] by (metis in_set_conv_nth)
    then show ?thesis using masks_nth [OF assms i(1)] nth_mem [OF i(1)] by auto
  qed
  then show ?thesis by (auto simp: drawn_def)
qed

lemma set_marker:
  "secret_matcher_new secrets = Some m \<Longrightarrow> set (sm_redaction_marker m) \<subseteq> set redaction_marker_text \<union> {sm_mask_character m}"
  by (subst matcher_new_simps(4)) auto

lemma drawn_loop:
  assumes "secret_matcher_new secrets = Some m"
  shows "drawn m cs (redact_loop m k cs)"
  using set_marker [OF assms]
proof (induction m k cs rule: redact_loop.induct)
  case (3 m c cs)
  then show ?case by (auto simp: drawn_def split: option.splits)
qed (auto simp: drawn_def)

lemma drawn_rounds: "secret_matcher_new secrets = Some m \<Longrightarrow> drawn m cs (redact_rounds n m cs)"
proof (induction n arbitrary: cs)
  case (Suc n)
  have "drawn m cs (redact_configured_exact_once m cs)"
    using drawn_loop [OF Suc.prems] set_marker [OF Suc.prems]
    by (auto simp: redact_configured_exact_once_def drawn_def)
  with Suc show ?case by (auto simp: Let_def intro: drawn_trans)
qed simp

lemma set_shape_loop:
  "\<forall>n. set (replacement n) \<subseteq> A \<Longrightarrow>
    set (shape_loop shape minimum replacement out keep skip cs) \<subseteq> set out \<union> set cs \<union> A"
proof (induction shape minimum replacement out keep skip cs rule: shape_loop.induct)
  case (4 shape minimum replacement out c cs)
  define n where "n = length shape + length (takeWhile is_credential_character (drop (length shape) (c # cs)))"
  have "set (replacement n) \<subseteq> A" using 4(4) by blast
  then show ?case
    using 4(1) [OF n_def _ 4(4)] 4(2) [OF n_def _ _ 4(4)] 4(3) [OF n_def _ _ 4(4)]
    by (simp add: n_def [symmetric]) blast
qed auto

lemma drawn_shapes:
  assumes "secret_matcher_new secrets = Some m"
  shows "drawn m cs (foldl (\<lambda>out (p, n). redact_credential_shaped_value (sm_redaction_marker m) p n out) cs shapes)"
proof (induction shapes arbitrary: cs)
  case (Cons a shapes)
  have "set (redact_credential_shaped_value (sm_redaction_marker m) p n cs)
      \<subseteq> set [] \<union> set cs \<union> (set redaction_marker_text \<union> {sm_mask_character m})" for p n
    unfolding redact_credential_shaped_value_def by (rule set_shape_loop) (use set_marker [OF assms] in blast)
  then have "drawn m cs (redact_credential_shaped_value (sm_redaction_marker m) p n cs)" for p n
    by (simp add: drawn_def Un_assoc)
  with Cons show ?case by (cases a) (auto intro: drawn_trans)
qed simp

lemma drawn_response:
  assumes "secret_matcher_new secrets = Some m"
  shows "drawn m cs (redact_response_string m policy cs)"
proof -
  have conf: "drawn m xs (redact_configured_exact m xs)" for xs
    by (simp add: redact_configured_exact_def drawn_rounds [OF assms])
  have exact: "drawn m cs (redact_exact m cs)"
    unfolding redact_exact_def by (rule drawn_trans [OF conf drawn_trans [OF drawn_shapes [OF assms] conf]])
  note more = drawn_trans [OF exact drawn_masks [OF masks_windows]] drawn_trans [OF exact drawn_masks [OF masks_fragments]]
  show ?thesis by (cases policy) (simp_all add: redact_response_string_def conf exact more)
qed

text \<open>A string of the program is valid UTF-8.\<close>

definition utf8_text :: "string \<Rightarrow> bool" where
  "utf8_text s = list_all is_char (chars s)"

lemma chars_redact_text:
  assumes "secret_matcher_new secrets = Some m" and "utf8_text s"
  shows "chars (redact_text m policy s) = redact_response_string m policy (chars s)"
proof -
  have "list_all is_char redaction_marker_text" by code_simp
  then have "list_all is_char (redact_response_string m policy (chars s))"
    using drawn_response [OF assms(1), of "chars s" policy] assms(2) mask_is_char [OF assms(1)]
    by (auto simp: drawn_def utf8_text_def list_all_iff)
  then show ?thesis by (simp add: redact_text_def chars_concat)
qed

lemma redact_text_clean:
  "secret_matcher_new secrets = Some m \<Longrightarrow> utf8_text s \<Longrightarrow> clean secrets (chars (redact_text m policy s))"
  by (simp add: chars_redact_text redact_response_string_clean)

lemma foldl_min_le: "foldl min n ns \<le> (n :: nat) \<and> (\<forall>k\<in>set ns. foldl min n ns \<le> k)"
proof (induction ns arbitrary: n)
  case (Cons a ns)
  from Cons [of "min n a"] show ?case by auto
qed simp

lemma marker_clean:
  assumes "secret_matcher_new secrets = Some m"
  shows "clean secrets (chars (concat (sm_redaction_marker m)))"
proof -
  have "list_all is_char (sm_redaction_marker m)"
  proof -
    have "list_all is_char redaction_marker_text" by code_simp
    then show ?thesis using set_marker [OF assms] mask_is_char [OF assms] by (auto simp: list_all_iff)
  qed
  then have eq: "chars (concat (sm_redaction_marker m)) = sm_redaction_marker m" by (rule chars_concat)
  have "\<not> occurs s (sm_redaction_marker m)" if "redactable secrets s" for s
  proof (cases "sm_protect_redaction_marker m")
    case True
    have "s \<noteq> []" "s \<in> set secrets" using that by (auto simp: redactable_def min_redactable_secret_chars_def)
    then have "\<not> occurs s redaction_marker_text"
      using True by (auto simp: matcher_new_simps(5) [OF assms] list_all_iff)
    then show ?thesis using True by (simp add: matcher_new_simps(4) [OF assms])
  next
    case False
    have s: "0 < length s" "s \<in> set secrets" using that by (auto simp: redactable_def min_redactable_secret_chars_def)
    then have "length s \<in> set (filter (\<lambda>n. 0 < n) (map length secrets))" by auto
    then obtain k where k: "minimum_secret_chars secrets = Some k" "k \<le> length s"
      using foldl_min_le unfolding minimum_secret_chars_def
      by (cases "filter (\<lambda>n. 0 < n) (map length secrets)") fastforce+
    then have "length (sm_redaction_marker m) < length s"
      using False s(1) matcher_new_simps(4) [OF assms] by (cases k) simp_all
    then show ?thesis using occurs_length by fastforce
  qed
  then show ?thesis by (simp add: eq clean_def)
qed

section \<open>Values\<close>

fun json_texts :: "json \<Rightarrow> string list" where
  "json_texts (JString s) = [s]"
| "json_texts (JArray vs) = concat (map json_texts vs)"
| "json_texts (JObject obj) = concat (map (\<lambda>(k, v). k # json_texts v) obj)"
| "json_texts _ = []"

definition clean_json :: "uchars list \<Rightarrow> json \<Rightarrow> bool" where
  "clean_json secrets v = (\<forall>x\<in>set (json_texts v). clean secrets (chars x))"

definition utf8_json :: "json \<Rightarrow> bool" where
  "utf8_json v = (\<forall>x\<in>set (json_texts v). utf8_text x)"

lemma those_map_SomeD: "those (map f xs) = Some ys \<Longrightarrow> y \<in> set ys \<Longrightarrow> \<exists>x\<in>set xs. f x = Some y"
  by (induction xs arbitrary: ys) (auto split: option.splits)

lemma those_map_Some: "\<forall>x\<in>set xs. \<exists>y. f x = Some y \<Longrightarrow> \<exists>ys. those (map f xs) = Some ys"
  by (induction xs) auto

lemma unique_suffix_usable: "unique_suffix m policy obj candidate n = Some k \<Longrightarrow> key_usable m obj k"
proof (induction m policy obj candidate n rule: unique_suffix.induct)
  case (1 m policy obj candidate n)
  then show ?case
    by (subst (asm) (2) unique_suffix.simps) (auto simp: Let_def split: if_splits)
qed

lemma unique_json_key_usable: "unique_json_key candidate obj m policy = Some k \<Longrightarrow> key_usable m obj k"
  by (auto simp: unique_json_key_def dest: unique_suffix_usable split: if_splits)

lemma insert_redacted_set:
  "insert_redacted m obj entries = Some out \<Longrightarrow> (k, v) \<in> set out \<Longrightarrow>
     (k, v) \<in> set obj \<or> \<not> contains_configured_secret m (chars k) \<and> v \<in> snd ` set entries"
proof (induction m obj entries rule: insert_redacted.induct)
  case (2 m obj key child entries)
  obtain k' where k': "unique_json_key (redact_text m (key_policy key) key) obj m (key_policy key) = Some k'"
    and rest: "insert_redacted m (bt_insert k' child obj) entries = Some out"
    using 2(2) by (auto simp: bind_eq_Some_conv)
  have "\<not> contains_configured_secret m (chars k')" using unique_json_key_usable [OF k'] by (simp add: key_usable_def)
  with 2(1) [OF k' rest 2(3)] set_bt_insert [of k' child obj] show ?case by auto
qed simp

lemma redact_inner_clean:
  "secret_matcher_new secrets = Some m \<Longrightarrow> utf8_json v \<Longrightarrow> redact_secrets_inner m policy v = Some w \<Longrightarrow> clean_json secrets w"
proof (induction m policy v arbitrary: w rule: redact_secrets_inner.induct)
  case (1 m policy s)
  then show ?case using redact_text_clean by (auto simp: clean_json_def utf8_json_def)
next
  case (2 m policy vs)
  then obtain ws where ws: "those (map (redact_secrets_inner m policy) vs) = Some ws" and w: "w = JArray ws" by auto
  have "clean_json secrets x" if x: "x \<in> set ws" for x
  proof -
    obtain v where v: "v \<in> set vs" "redact_secrets_inner m policy v = Some x" using those_map_SomeD [OF ws x] by blast
    moreover have "utf8_json v" using v(1) 2(3) by (auto simp: utf8_json_def)
    ultimately show ?thesis using 2(1) [OF v(1) 2(2)] by blast
  qed
  then show ?case by (auto simp: w clean_json_def)
next
  case (3 m policy obj)
  let ?child = "\<lambda>(key, child). map_option (Pair key) (if is_secret_key key then Some (JString (concat (sm_redaction_marker m)))
      else redact_secrets_inner m (child_policy policy key) child)"
  obtain entries out where entries: "those (map ?child obj) = Some entries"
    and out: "insert_redacted m [] entries = Some out" and w: "w = JObject out"
    using 3(4) by (auto simp: bind_eq_Some_conv)
  have child: "clean_json secrets x" if x: "(k, x) \<in> set entries" for k x
  proof -
    obtain c where c: "(k, c) \<in> set obj" "?child (k, c) = Some (k, x)"
      using those_map_SomeD [OF entries x] by (auto split: if_splits)
    show ?thesis
    proof (cases "is_secret_key k")
      case True
      then show ?thesis using c(2) marker_clean [OF 3(2)] by (auto simp: clean_json_def)
    next
      case False
      moreover have "utf8_json c" using c(1) 3(3) by (force simp: utf8_json_def)
      ultimately show ?thesis using c(2) 3(1) [OF c(1) refl _ 3(2)] by auto
    qed
  qed
  have "clean secrets (chars k) \<and> clean_json secrets x" if "(k, x) \<in> set out" for k x
    using insert_redacted_set [OF out that] child contains_iff [OF 3(2)] by force
  then show ?case by (auto simp: w clean_json_def)
qed (auto simp: clean_json_def)

text \<open>An object of which no two keys are redacted to the same one, at every level.\<close>

definition redacted_key :: "secret_matcher \<Rightarrow> string \<Rightarrow> string" where
  "redacted_key m key = redact_text m (key_policy key) key"

fun keys_stay_distinct :: "secret_matcher \<Rightarrow> json \<Rightarrow> bool" where
  "keys_stay_distinct m (JArray vs) = (\<forall>v\<in>set vs. keys_stay_distinct m v)"
| "keys_stay_distinct m (JObject obj) =
     (distinct (map (\<lambda>e. redacted_key m (fst e)) obj) \<and> (\<forall>e\<in>set obj. keys_stay_distinct m (snd e)))"
| "keys_stay_distinct m _ = True"

lemma insert_redacted_Some:
  assumes "secret_matcher_new secrets = Some m"
  shows "distinct (map (\<lambda>e. redacted_key m (fst e)) entries) \<Longrightarrow> \<forall>e\<in>set entries. utf8_text (fst e) \<Longrightarrow>
    \<forall>e\<in>set entries. redacted_key m (fst e) \<notin> fst ` set obj \<Longrightarrow> \<exists>out. insert_redacted m obj entries = Some out"
proof (induction entries arbitrary: obj)
  case (Cons e entries)
  obtain key child where e: "e = (key, child)" by fastforce
  have "clean secrets (chars (redacted_key m key))"
    using redact_text_clean [OF assms] Cons.prems(2) by (simp add: redacted_key_def e)
  then have "key_usable m obj (redacted_key m key)"
    using Cons.prems(3) by (simp add: key_usable_def e contains_iff [OF assms] map_of_eq_None_iff)
  then have "unique_json_key (redact_text m (key_policy key) key) obj m (key_policy key) = Some (redacted_key m key)"
    by (simp add: unique_json_key_def redacted_key_def)
  moreover have "\<exists>out. insert_redacted m (bt_insert (redacted_key m key) child obj) entries = Some out"
  proof (intro Cons.IH)
    show "\<forall>e\<in>set entries. redacted_key m (fst e) \<notin> fst ` set (bt_insert (redacted_key m key) child obj)"
      using Cons.prems by (auto simp: e) (metis fst_conv image_eqI)
  qed (use Cons.prems in \<open>simp_all add: e\<close>)
  ultimately show ?case by (simp add: e)
qed simp

lemma those_map_fst:
  "those (map f xs) = Some ys \<Longrightarrow> \<forall>x\<in>set xs. \<forall>y. f x = Some y \<longrightarrow> g y = h x \<Longrightarrow> map g ys = map h xs"
  by (induction xs arbitrary: ys) (auto split: option.splits)

lemma redact_inner_Some:
  "secret_matcher_new secrets = Some m \<Longrightarrow> utf8_json v \<Longrightarrow> keys_stay_distinct m v \<Longrightarrow> \<exists>w. redact_secrets_inner m policy v = Some w"
proof (induction m policy v rule: redact_secrets_inner.induct)
  case (2 m policy vs)
  have "\<forall>v\<in>set vs. \<exists>y. redact_secrets_inner m policy v = Some y"
  proof
    fix v assume v: "v \<in> set vs"
    then have "utf8_json v" "keys_stay_distinct m v" using 2(3,4) by (auto simp: utf8_json_def)
    then show "\<exists>y. redact_secrets_inner m policy v = Some y" by (rule 2(1) [OF v 2(2)])
  qed
  from those_map_Some [OF this] obtain ws where "those (map (redact_secrets_inner m policy) vs) = Some ws" ..
  then show ?case by simp
next
  case (3 m policy obj)
  let ?child = "\<lambda>(key, child). map_option (Pair key) (if is_secret_key key then Some (JString (concat (sm_redaction_marker m)))
      else redact_secrets_inner m (child_policy policy key) child)"
  have one: "\<exists>y. ?child e = Some y" if e: "e \<in> set obj" for e
  proof (cases e)
    case (Pair key c)
    have c: "utf8_json c" "keys_stay_distinct m c"
      using 3(3,4) e by (auto simp: Pair utf8_json_def)
    show ?thesis
    proof (cases "is_secret_key key")
      case True
      then show ?thesis by (simp add: Pair)
    next
      case False
      from 3(1) [OF e Pair [symmetric] False 3(2) c] False show ?thesis by (auto simp: Pair)
    qed
  qed
  then have "\<forall>e\<in>set obj. \<exists>y. ?child e = Some y" by blast
  from those_map_Some [OF this] obtain entries where entries: "those (map ?child obj) = Some entries" ..
  have keys: "map fst entries = map fst obj"
    by (rule those_map_fst [OF entries]) (auto split: if_splits)
  have "map (\<lambda>e. redacted_key m (fst e)) entries = map (\<lambda>e. redacted_key m (fst e)) obj"
    using arg_cong [OF keys, of "map (redacted_key m)"] by (simp add: comp_def)
  then have "distinct (map (\<lambda>e. redacted_key m (fst e)) entries)" using 3(4) by simp
  moreover have "utf8_text (fst e)" if "e \<in> set entries" for e
  proof -
    have "fst e \<in> set (map fst obj)" using keys that by (metis image_eqI list.set_map)
    then show ?thesis using 3(3) by (force simp: utf8_json_def)
  qed
  ultimately obtain out where "insert_redacted m [] entries = Some out"
    using insert_redacted_Some [OF 3(2), of entries "[]"] by auto
  then show ?case using entries by (simp add: bind_eq_Some_conv)
qed simp_all

text \<open>
  C9: a response shows no configured secret. No key and no string of a redacted value, at any depth
  and under every policy, contains a configured secret of four characters or more; and the redaction
  returns whenever the keys of an object stay distinct.
\<close>

theorem redacted_response_clean:
  assumes "secret_matcher_new (map chars known) = Some m" and "utf8_json v"
  shows "(\<forall>w x s. redact_secrets v known = Some w \<longrightarrow> x \<in> set (json_texts w) \<longrightarrow> s \<in> set known
      \<longrightarrow> min_redactable_secret_chars \<le> length (chars s) \<longrightarrow> \<not> occurs (chars s) (chars x))
    \<and> (keys_stay_distinct m v \<longrightarrow> (\<exists>w. redact_secrets v known = Some w))"
  using redact_inner_clean [OF assms] redact_inner_Some [OF assms]
  by (auto simp: redact_secrets_def assms(1) clean_json_def clean_def redactable_def)

definition sample_response :: json where
  "sample_response = JObject [(''api_key'', JString ''x''), (''body'', JArray [JString ''my TED]abcdefgh''])]"

theorem redacted_response_clean_witness:
  "\<exists>w. redact_secrets sample_response [''TED]abcdefgh''] = Some w"
proof -
  have secret: "map chars [''TED]abcdefgh''] = [sample_secret]" by code_simp
  have "utf8_json sample_response" by code_simp
  moreover have "keys_stay_distinct sample_matcher sample_response" by code_simp
  ultimately show ?thesis using redacted_response_clean [of "[''TED]abcdefgh'']"] sample_matcher_new unfolding secret by blast
qed

end
