(* ===== verification/Analysis.thy ===== *)
theory Analysis
  imports Redaction_Json
begin

text \<open>
  Validation of analysis-provider output (\<open>analysis.rs\<close>). The provider is an untrusted proposal
  generator: its response is decoded, each candidate is checked against an allowlist of locators the
  caller is authorised for, and what remains is redacted before it is stored. \<open>serde_json\<close> (the parser
  and the derived decoders) and Unicode case mapping are parameters. A hash set is a list.
\<close>

section \<open>Scores\<close>

text \<open>\<open>is_finite\<close> and \<open>(0.0..=1.0).contains\<close> on the bits of an \<open>f64\<close>; minus zero equals zero.\<close>

definition f64_is_finite :: "f64 \<Rightarrow> bool" where
  "f64_is_finite x = (drop_bit 52 (unat x) mod 2048 \<noteq> 2047)"

definition f64_in_unit :: "f64 \<Rightarrow> bool" where
  "f64_in_unit x = (x \<le> 0x3FF0000000000000 \<or> x = 0x8000000000000000)"

definition f32_in_unit :: "f32 \<Rightarrow> bool" where
  "f32_in_unit x = (x \<le> 0x3F800000 \<or> x = 0x80000000)"

text \<open>Division by a power of two, rounded to the nearest, ties to even.\<close>

definition round_shift :: "nat \<Rightarrow> nat \<Rightarrow> nat" where
  "round_shift n k =
     (let q = n div 2 ^ k; r = n mod 2 ^ k in
      if 2 ^ k < 2 * r \<or> 2 ^ k = 2 * r \<and> odd q then Suc q else q)"

text \<open>
  \<open>as f32\<close> of a finite \<open>f64\<close>. Above the subnormal range exponent and mantissa are rounded as one
  number, so a carry out of the mantissa goes into the exponent.
\<close>

definition f64_as_f32 :: "f64 \<Rightarrow> f32" where
  "f64_as_f32 x =
     (let sign = unat x div 2 ^ 63 * 2 ^ 31; e = unat x div 2 ^ 52 mod 2048; m = unat x mod 2 ^ 52;
          magnitude =
            (if e = 0 then 0
             else if e \<le> 896 then round_shift (2 ^ 52 + m) (29 + (897 - e))
             else min (round_shift ((e - 896) * 2 ^ 52 + m) 29) 0x7F800000)
      in word_of_nat (sign + magnitude))"

section \<open>Data\<close>

definition max_analysis_response_bytes :: nat where "max_analysis_response_bytes = 256 * 1024"
definition max_link_candidates :: nat where "max_link_candidates = 32"
definition max_insight_candidates :: nat where "max_insight_candidates = 16"
definition max_source_uris_per_insight :: nat where "max_source_uris_per_insight = 16"
definition max_tags_per_candidate :: nat where "max_tags_per_candidate = 64"
definition max_uri_bytes :: nat where "max_uri_bytes = 2 * 1024"
definition max_relation_bytes :: nat where "max_relation_bytes = 64"
definition max_insight_type_bytes :: nat where "max_insight_type_bytes = 64"
definition max_title_bytes :: nat where "max_title_bytes = 256"
definition max_statement_bytes :: nat where "max_statement_bytes = 8 * 1024"
definition max_rationale_bytes :: nat where "max_rationale_bytes = 2 * 1024"
definition max_tag_bytes :: nat where "max_tag_bytes = 128"

definition allowed_analysis_relations :: "string list" where
  "allowed_analysis_relations = [''related'', ''supports'']"

datatype candidate_kind = CandLink | CandInsight

datatype candidate_rejection_code =
    InvalidCandidateSchema
  | EmptyField
  | FieldTooLong
  | InvalidUri
  | UnauthorizedUri
  | SelfLink
  | UnsupportedRelation
  | InvalidScore
  | MissingEvidenceUri
  | TooManySourceUris
  | TooManyTags
  | InvalidTag
  | DuplicateCandidate

record candidate_rejection =
  crj_kind :: candidate_kind
  crj_index :: nat
  crj_code :: candidate_rejection_code

datatype analysis_output_error_code = ResponseTooLarge | InvalidJson | InvalidEnvelope | CandidateLimitExceeded

record analysis_output_error =
  aoe_code :: analysis_output_error_code
  aoe_kind :: "candidate_kind option"
  aoe_index :: "nat option"

record validated_link =
  vl_source_uri :: string
  vl_target_uri :: string
  vl_relation :: string
  vl_rationale :: "string option"
  vl_confidence :: f32
  vl_tags :: "string list"

record validated_insight =
  vi_insight_type :: string
  vi_title :: string
  vi_statement :: string
  vi_confidence :: f32
  vi_salience :: f32
  vi_source_uris :: "string list"
  vi_tags :: "string list"

record validated_output =
  vo_links :: "validated_link list"
  vo_insights :: "validated_insight list"
  vo_rejections :: "candidate_rejection list"

record provider_link =
  pl_source_uri :: string
  pl_target_uri :: string
  pl_relation :: string
  pl_rationale :: "string option"
  pl_confidence :: f64
  pl_tags :: "string list"

record provider_insight =
  pin_insight_type :: string
  pin_title :: string
  pin_statement :: string
  pin_confidence :: f64
  pin_salience :: f64
  pin_source_uris :: "string list"
  pin_tags :: "string list"

text \<open>The decoders \<open>serde\<close> generates: JSON text, the envelope and the two candidates.\<close>

record analysis_decoders =
  ad_json :: "string \<Rightarrow> json option"
  ad_envelope :: "json \<Rightarrow> (json list \<times> json list) option"
  ad_link :: "json \<Rightarrow> provider_link option"
  ad_insight :: "json \<Rightarrow> provider_insight option"

definition response_error :: "analysis_output_error_code \<Rightarrow> analysis_output_error" where
  "response_error code = \<lparr>aoe_code = code, aoe_kind = None, aoe_index = None\<rparr>"

definition candidate_limit_error :: "candidate_kind \<Rightarrow> nat \<Rightarrow> analysis_output_error" where
  "candidate_limit_error kind index =
     \<lparr>aoe_code = CandidateLimitExceeded, aoe_kind = Some kind, aoe_index = Some index\<rparr>"

section \<open>Fields\<close>

text \<open>\<open>char::is_control\<close>: U+0000 to U+001F and U+007F to U+009F.\<close>

definition is_control :: "uchar \<Rightarrow> bool" where
  "is_control c =
     (case c of
        [b] \<Rightarrow> (of_char b :: nat) < 0x20 \<or> (of_char b :: nat) = 0x7F
      | [b, d] \<Rightarrow> (of_char b :: nat) = 0xC2 \<and> 0x80 \<le> (of_char d :: nat) \<and> (of_char d :: nat) \<le> 0x9F
      | _ \<Rightarrow> False)"

definition has_control :: "string \<Rightarrow> bool" where
  "has_control s = list_ex is_control (chars s)"

definition strip_suffix :: "string \<Rightarrow> string \<Rightarrow> string option" where
  "strip_suffix p s = (if ends_with s p then Some (take (length s - length p) s) else None)"

definition strip_layer :: "string \<Rightarrow> string" where
  "strip_layer uri =
     (case strip_suffix ''/.abstract'' uri of
        Some u \<Rightarrow> u
      | None \<Rightarrow> (case strip_suffix ''/.overview'' uri of
          Some u \<Rightarrow> u
        | None \<Rightarrow> (case strip_suffix ''/detail'' uri of
            Some u \<Rightarrow> u
          | None \<Rightarrow> (case strip_suffix ''/chunks/0001'' uri of Some u \<Rightarrow> u | None \<Rightarrow> uri))))"

definition normalize_candidate_uri :: "string \<Rightarrow> candidate_rejection_code + string" where
  "normalize_candidate_uri input =
     (let uri = trim input in
      if uri = [] then Inl EmptyField
      else if max_uri_bytes < length uri then Inl FieldTooLong
      else if \<not> starts_with uri ''ctx://'' \<or> length uri = length ''ctx://''
        \<or> list_ex is_ws (chars uri) \<or> has_control uri then Inl InvalidUri
      else (let canonical = strip_layer uri in
        if length canonical = length ''ctx://'' then Inl InvalidUri else Inr canonical))"

definition canonicalize_analysis_uri :: "string \<Rightarrow> string option" where
  "canonicalize_analysis_uri uri = (case normalize_candidate_uri uri of Inl _ \<Rightarrow> None | Inr u \<Rightarrow> Some u)"

type_synonym uri_allowlist = "string list"

definition allowlist_from_authorized :: "string list \<Rightarrow> uri_allowlist" where
  "allowlist_from_authorized uris = List.map_filter canonicalize_analysis_uri uris"

definition allowlist_contains :: "uri_allowlist \<Rightarrow> string \<Rightarrow> bool" where
  "allowlist_contains allowed uri = List.member allowed uri"

definition relation_byte :: "char \<Rightarrow> bool" where
  "relation_byte b = (is_ascii_lowercase b \<or> is_digit b \<or> b = CHR ''_'' \<or> b = CHR ''-'')"

definition normalize_relation :: "string \<Rightarrow> candidate_rejection_code + string" where
  "normalize_relation input =
     (let relation = trim input; normalized = ascii_lower relation in
      if relation = [] then Inl EmptyField
      else if max_relation_bytes < length relation then Inl FieldTooLong
      else if \<not> list_all relation_byte normalized \<or> \<not> List.member allowed_analysis_relations normalized
      then Inl UnsupportedRelation else Inr normalized)"

definition normalize_required_field :: "string \<Rightarrow> nat \<Rightarrow> candidate_rejection_code + string" where
  "normalize_required_field input max_bytes =
     (let value = trim input in
      if value = [] then Inl EmptyField
      else if max_bytes < length value then Inl FieldTooLong
      else if has_control value then Inl InvalidCandidateSchema else Inr value)"

definition normalize_optional_field :: "string option \<Rightarrow> nat \<Rightarrow> candidate_rejection_code + string option" where
  "normalize_optional_field input max_bytes =
     (case input of
        None \<Rightarrow> Inr None
      | Some v \<Rightarrow>
          (let value = trim v in
           if value = [] then Inr None
           else if max_bytes < length value then Inl FieldTooLong
           else if has_control value then Inl InvalidCandidateSchema else Inr (Some value)))"

definition normalize_tag :: "string \<Rightarrow> candidate_rejection_code + string" where
  "normalize_tag input =
     (let tag = trim input in
      if tag = [] then Inl InvalidTag
      else if max_tag_bytes < length tag then Inl FieldTooLong
      else if has_control tag then Inl InvalidTag else Inr tag)"

text \<open>A loop that checks each value and pushes it unless it was seen.\<close>

definition normalize_tags :: "string list \<Rightarrow> candidate_rejection_code + string list" where
  "normalize_tags tags =
     (if max_tags_per_candidate < length tags then Inl TooManyTags
      else rbind (rmap normalize_tag tags) (\<lambda>tags. Inr (dedup [] tags)))"

definition validate_score :: "f64 \<Rightarrow> candidate_rejection_code + f32" where
  "validate_score score =
     (if \<not> f64_is_finite score \<or> \<not> f64_in_unit score then Inl InvalidScore else Inr (f64_as_f32 score))"

section \<open>Candidates\<close>

definition validate_link_candidate :: "provider_link \<Rightarrow> uri_allowlist \<Rightarrow> candidate_rejection_code + validated_link" where
  "validate_link_candidate candidate allowed =
     rbind (normalize_candidate_uri (pl_source_uri candidate)) (\<lambda>source_uri.
     rbind (normalize_candidate_uri (pl_target_uri candidate)) (\<lambda>target_uri.
     if \<not> allowlist_contains allowed source_uri \<or> \<not> allowlist_contains allowed target_uri then Inl UnauthorizedUri
     else if source_uri = target_uri then Inl SelfLink
     else
       rbind (normalize_relation (pl_relation candidate)) (\<lambda>relation.
       rbind (normalize_optional_field (pl_rationale candidate) max_rationale_bytes) (\<lambda>rationale.
       rbind (validate_score (pl_confidence candidate)) (\<lambda>confidence.
       rbind (normalize_tags (pl_tags candidate)) (\<lambda>tags.
       Inr \<lparr>vl_source_uri = source_uri, vl_target_uri = target_uri, vl_relation = relation,
            vl_rationale = rationale, vl_confidence = confidence, vl_tags = tags\<rparr>))))))"

definition evidence_uri :: "uri_allowlist \<Rightarrow> string \<Rightarrow> candidate_rejection_code + string" where
  "evidence_uri allowed uri =
     rbind (normalize_candidate_uri uri) (\<lambda>uri. if allowlist_contains allowed uri then Inr uri else Inl UnauthorizedUri)"

definition validate_insight_candidate ::
    "provider_insight \<Rightarrow> uri_allowlist \<Rightarrow> candidate_rejection_code + validated_insight" where
  "validate_insight_candidate candidate allowed =
     rbind (normalize_required_field (pin_insight_type candidate) max_insight_type_bytes) (\<lambda>insight_type.
     rbind (normalize_required_field (pin_title candidate) max_title_bytes) (\<lambda>title.
     rbind (normalize_required_field (pin_statement candidate) max_statement_bytes) (\<lambda>statement.
     rbind (validate_score (pin_confidence candidate)) (\<lambda>confidence.
     rbind (validate_score (pin_salience candidate)) (\<lambda>salience.
     if pin_source_uris candidate = [] then Inl MissingEvidenceUri
     else if max_source_uris_per_insight < length (pin_source_uris candidate) then Inl TooManySourceUris
     else
       rbind (rmap (evidence_uri allowed) (pin_source_uris candidate)) (\<lambda>uris.
       let source_uris = dedup [] uris in
       if source_uris = [] then Inl MissingEvidenceUri
       else
         rbind (normalize_tags (pin_tags candidate)) (\<lambda>tags.
         Inr \<lparr>vi_insight_type = insight_type, vi_title = title, vi_statement = statement,
              vi_confidence = confidence, vi_salience = salience, vi_source_uris = source_uris, vi_tags = tags\<rparr>)))))))"

definition analysis_insight_context_uri :: "(string \<Rightarrow> string list) \<Rightarrow> string \<Rightarrow> string \<Rightarrow> string" where
  "analysis_insight_context_uri char_lower insight_type title =
     ''ctx://user/insights/'' @ sanitize_slug char_lower insight_type @ ''/'' @ sanitize_slug char_lower title"

definition link_identity :: "validated_link \<Rightarrow> string \<times> string \<times> string" where
  "link_identity link = (vl_source_uri link, vl_target_uri link, vl_relation link)"

definition insight_identity :: "(string \<Rightarrow> string list) \<Rightarrow> validated_insight \<Rightarrow> string" where
  "insight_identity char_lower insight =
     analysis_insight_context_uri char_lower (vi_insight_type insight) (vi_title insight)"

text \<open>
  One of the two candidate loops: the accepted candidates and the rejections, in the provider's order.
  \<open>seen\<close> holds the identities accepted so far.
\<close>

fun candidate_loop ::
    "candidate_kind \<Rightarrow> (json \<Rightarrow> 'p option) \<Rightarrow> ('p \<Rightarrow> candidate_rejection_code + 'v) \<Rightarrow> ('v \<Rightarrow> 'k)
      \<Rightarrow> 'k list \<Rightarrow> nat \<Rightarrow> json list \<Rightarrow> 'v list \<times> candidate_rejection list" where
  "candidate_loop kind decode validate identity seen index [] = ([], [])"
| "candidate_loop kind decode validate identity seen index (value # vs) =
     (let reject = (\<lambda>code. case candidate_loop kind decode validate identity seen (Suc index) vs of
            (accepted, rejections) \<Rightarrow> (accepted, \<lparr>crj_kind = kind, crj_index = index, crj_code = code\<rparr> # rejections))
      in case decode value of
           None \<Rightarrow> reject InvalidCandidateSchema
         | Some candidate \<Rightarrow>
             (case validate candidate of
                Inl code \<Rightarrow> reject code
              | Inr v \<Rightarrow>
                  if identity v \<in> set seen then reject DuplicateCandidate
                  else (case candidate_loop kind decode validate identity (identity v # seen) (Suc index) vs of
                    (accepted, rejections) \<Rightarrow> (v # accepted, rejections))))"

definition validate_analysis_output ::
    "(string \<Rightarrow> string list) \<Rightarrow> analysis_decoders \<Rightarrow> string \<Rightarrow> uri_allowlist \<Rightarrow> analysis_output_error + validated_output" where
  "validate_analysis_output char_lower dec response allowed =
     (if max_analysis_response_bytes < length response then Inl (response_error ResponseTooLarge)
      else
        rbind (ok_or (ad_json dec response) (response_error InvalidJson)) (\<lambda>value.
        rbind (ok_or (ad_envelope dec value) (response_error InvalidEnvelope)) (\<lambda>(links, insights).
        if max_link_candidates < length links then Inl (candidate_limit_error CandLink max_link_candidates)
        else if max_insight_candidates < length insights
        then Inl (candidate_limit_error CandInsight max_insight_candidates)
        else
          (let (vlinks, link_rejections) =
                 candidate_loop CandLink (ad_link dec) (\<lambda>c. validate_link_candidate c allowed) link_identity [] 0 links;
               (vinsights, insight_rejections) =
                 candidate_loop CandInsight (ad_insight dec) (\<lambda>c. validate_insight_candidate c allowed)
                   (insight_identity char_lower) [] 0 insights
           in Inr \<lparr>vo_links = vlinks, vo_insights = vinsights, vo_rejections = link_rejections @ insight_rejections\<rparr>))))"

section \<open>Redaction before storage\<close>

definition matcher_text :: "(secret_matcher \<Rightarrow> uchars \<Rightarrow> uchars) \<Rightarrow> secret_matcher \<Rightarrow> string \<Rightarrow> string" where
  "matcher_text f m s = concat (f m (chars s))"

definition redact_analysis_tags :: "secret_matcher \<Rightarrow> string list \<Rightarrow> string list" where
  "redact_analysis_tags m tags =
     dedup [] (filter (\<lambda>tag. tag \<noteq> [] \<and> length tag \<le> max_tag_bytes \<and> \<not> has_control tag)
       (map (\<lambda>tag. trim (matcher_text redact_exact m tag)) tags))"

definition redact_link :: "secret_matcher \<Rightarrow> validated_link \<Rightarrow> validated_link" where
  "redact_link m link =
     link\<lparr>vl_rationale :=
            (case vl_rationale link of
               None \<Rightarrow> None
             | Some v \<Rightarrow>
                 (case normalize_optional_field (Some (matcher_text matcher_redact_egress_text m v)) max_rationale_bytes of
                    Inl _ \<Rightarrow> None | Inr r \<Rightarrow> r)),
          vl_tags := redact_analysis_tags m (vl_tags link)\<rparr>"

definition redact_insight :: "secret_matcher \<Rightarrow> validated_insight \<Rightarrow> validated_insight option" where
  "redact_insight m insight =
     (case (normalize_required_field (matcher_text redact_exact m (vi_insight_type insight)) max_insight_type_bytes,
            normalize_required_field (matcher_text matcher_redact_egress_text m (vi_title insight)) max_title_bytes,
            normalize_required_field (matcher_text matcher_redact_egress_text m (vi_statement insight)) max_statement_bytes) of
        (Inr insight_type, Inr title, Inr statement) \<Rightarrow>
          Some (insight\<lparr>vi_insight_type := insight_type, vi_title := title, vi_statement := statement,
                 vi_tags := redact_analysis_tags m (vi_tags insight)\<rparr>)
      | _ \<Rightarrow> None)"

text \<open>\<open>filter_map(.. seen.insert(identity).then_some(insight))\<close>\<close>

fun first_by :: "('v \<Rightarrow> 'k) \<Rightarrow> 'k list \<Rightarrow> 'v list \<Rightarrow> 'v list" where
  "first_by identity seen [] = []"
| "first_by identity seen (v # vs) =
     (if identity v \<in> set seen then first_by identity seen vs else v # first_by identity (identity v # seen) vs)"

text \<open>\<open>None\<close> is the panic of building a matcher, which happens once a text is redacted.\<close>

definition redact_validated_analysis_output ::
    "(string \<Rightarrow> string list) \<Rightarrow> validated_output \<Rightarrow> string list \<Rightarrow> validated_output option" where
  "redact_validated_analysis_output char_lower output known_secrets =
     (if vo_insights output = [] \<and> list_all (\<lambda>l. vl_rationale l = None \<and> vl_tags l = []) (vo_links output)
      then Some output
      else map_option (\<lambda>m.
        output\<lparr>vo_links := map (redact_link m) (vo_links output),
               vo_insights := first_by (insight_identity char_lower) []
                 (List.map_filter (redact_insight m) (vo_insights output))\<rparr>)
      (secret_matcher_new (map chars known_secrets)))"

end
