(* ===== verification/Analysis_Facts.thy ===== *)
theory Analysis_Facts
  imports Analysis
begin

text \<open>
  What survives the validation of analysis output: authorised locators, bounded and distinct fields,
  one identity each; and what survives its redaction: no configured secret.
\<close>

section \<open>Scores\<close>

lemma round_shift_mono: "n \<le> n' \<Longrightarrow> round_shift n k \<le> round_shift n' k"
proof -
  assume le: "n \<le> n'"
  let ?d = "2 ^ k :: nat"
  have up: "round_shift n k \<le> Suc (n div ?d)" "n' div ?d \<le> round_shift n' k" for n n'
    by (simp_all add: round_shift_def Let_def)
  show ?thesis
  proof (cases "n div ?d = n' div ?d")
    case True
    then have "n mod ?d \<le> n' mod ?d"
      using le by (metis add_le_cancel_left div_mult_mod_eq)
    then show ?thesis using True by (auto simp: round_shift_def Let_def)
  next
    case False
    then have "Suc (n div ?d) \<le> n' div ?d" using le div_le_mono [of n n' ?d] by simp
    then show ?thesis using up by (meson order.trans)
  qed
qed

lemma f64_as_f32_unit:
  assumes "f64_in_unit x"
  shows "f32_in_unit (f64_as_f32 x)"
proof (cases "x = 0x8000000000000000")
  case True
  then show ?thesis by (simp add: f32_in_unit_def f64_as_f32_def Let_def)
next
  case False
  then have "x \<le> 0x3FF0000000000000" using assms by (simp add: f64_in_unit_def)
  then have x: "unat x \<le> 1023 * 2 ^ 52" by (simp add: word_le_nat_alt)
  let ?e = "unat x div 2 ^ 52 mod 2048" and ?m = "unat x mod 2 ^ 52"
  have sign: "unat x div 2 ^ 63 = 0" using x by simp
  have "unat x div 2 ^ 52 \<le> 1023" using div_le_mono [OF x, of "2 ^ 52"] by simp
  then have e: "?e = unat x div 2 ^ 52" "?e \<le> 1023" by simp_all
  have parts: "?e * 2 ^ 52 + ?m = unat x" unfolding e(1) by simp
  define mag where "mag = (if ?e = 0 then 0 else if ?e \<le> 896 then round_shift (2 ^ 52 + ?m) (29 + (897 - ?e))
      else min (round_shift ((?e - 896) * 2 ^ 52 + ?m) 29) 0x7F800000)"
  have "mag \<le> 0x3F800000"
  proof -
    have "round_shift (2 ^ 52 + ?m) k \<le> 0x3F800000" if "30 \<le> k" for k
    proof -
      have "?m < 2 ^ 52" by simp
      then have "2 ^ 52 + ?m < (2 :: nat) ^ 53" by simp
      moreover have "(2 :: nat) ^ 30 \<le> 2 ^ k" using that by (intro power_increasing) simp_all
      ultimately have "(2 ^ 52 + ?m) div 2 ^ k \<le> 2 ^ 53 div 2 ^ 30"
        by (meson div_le_mono div_le_mono2 less_imp_le order.trans zero_less_numeral zero_less_power)
      then show ?thesis by (auto simp: round_shift_def Let_def)
    qed
    moreover have "round_shift ((?e - 896) * 2 ^ 52 + ?m) 29 \<le> 0x3F800000" if "896 < ?e"
    proof -
      have "(?e - 896) * 2 ^ 52 + ?m \<le> 127 * 2 ^ 52"
        using parts x that by (simp add: diff_mult_distrib)
      then have "round_shift ((?e - 896) * 2 ^ 52 + ?m) 29 \<le> round_shift (127 * 2 ^ 52) 29" by (rule round_shift_mono)
      then show ?thesis by (simp add: round_shift_def)
    qed
    ultimately show ?thesis by (auto simp: mag_def)
  qed
  moreover have "f64_as_f32 x = word_of_nat mag"
    by (simp only: f64_as_f32_def Let_def sign mag_def mult_0 add_0)
  ultimately obtain n where n: "f64_as_f32 x = word_of_nat n" "n \<le> 0x3F800000" by blast
  then have "unat (f64_as_f32 x) = n" by (simp add: unat_of_nat)
  then show ?thesis using n(2) by (simp add: f32_in_unit_def word_le_nat_alt)
qed

lemma validate_score_unit: "validate_score x = Inr y \<Longrightarrow> f32_in_unit y"
  by (auto simp: validate_score_def f64_as_f32_unit split: if_splits)

section \<open>Candidates\<close>

definition field_ok :: "nat \<Rightarrow> string \<Rightarrow> bool" where
  "field_ok max_bytes s = (s \<noteq> [] \<and> length s \<le> max_bytes \<and> \<not> has_control s)"

definition tags_ok :: "string list \<Rightarrow> bool" where
  "tags_ok tags = (length tags \<le> max_tags_per_candidate \<and> distinct tags \<and> (\<forall>t\<in>set tags. field_ok max_tag_bytes t))"

definition link_ok :: "uri_allowlist \<Rightarrow> validated_link \<Rightarrow> bool" where
  "link_ok allowed l =
     (vl_source_uri l \<in> set allowed \<and> vl_target_uri l \<in> set allowed \<and> vl_source_uri l \<noteq> vl_target_uri l
      \<and> vl_relation l \<in> set allowed_analysis_relations
      \<and> (case vl_rationale l of None \<Rightarrow> True | Some r \<Rightarrow> field_ok max_rationale_bytes r)
      \<and> f32_in_unit (vl_confidence l) \<and> tags_ok (vl_tags l))"

definition insight_ok :: "uri_allowlist \<Rightarrow> validated_insight \<Rightarrow> bool" where
  "insight_ok allowed i =
     (vi_source_uris i \<noteq> [] \<and> length (vi_source_uris i) \<le> max_source_uris_per_insight
      \<and> distinct (vi_source_uris i) \<and> set (vi_source_uris i) \<subseteq> set allowed
      \<and> field_ok max_insight_type_bytes (vi_insight_type i) \<and> field_ok max_title_bytes (vi_title i)
      \<and> field_ok max_statement_bytes (vi_statement i)
      \<and> f32_in_unit (vi_confidence i) \<and> f32_in_unit (vi_salience i) \<and> tags_ok (vi_tags i))"

lemma required_field_ok: "normalize_required_field s n = Inr v \<Longrightarrow> field_ok n v"
  by (auto simp: normalize_required_field_def field_ok_def Let_def split: if_splits)

lemma optional_field_ok: "normalize_optional_field s n = Inr v \<Longrightarrow> v = Some r \<Longrightarrow> field_ok n r"
  by (auto simp: normalize_optional_field_def field_ok_def Let_def split: if_splits option.splits)

lemma length_dedup_le: "length (dedup seen xs) \<le> length xs"
  by (induction seen xs rule: dedup.induct) auto

lemma rmap_length: "rmap f xs = Inr ys \<Longrightarrow> length ys = length xs"
  by (induction xs arbitrary: ys) (auto simp: rbind_Inr)

lemma rmap_member: "rmap f xs = Inr ys \<Longrightarrow> y \<in> set ys \<Longrightarrow> \<exists>x\<in>set xs. f x = Inr y"
  by (induction xs arbitrary: ys) (auto simp: rbind_Inr)

lemma normalize_tags_ok:
  assumes "normalize_tags tags = Inr v"
  shows "tags_ok v"
proof -
  obtain ts where ts: "rmap normalize_tag tags = Inr ts" "v = dedup [] ts" "length tags \<le> max_tags_per_candidate"
    using assms by (auto simp: normalize_tags_def rbind_Inr split: if_splits)
  have "field_ok max_tag_bytes t" if "t \<in> set ts" for t
    using rmap_member [OF ts(1) that] by (auto simp: normalize_tag_def field_ok_def Let_def split: if_splits)
  then show ?thesis
    using ts rmap_length [OF ts(1)] length_dedup_le [of "[]" ts] by (auto simp: tags_ok_def)
qed

lemma validate_link_ok: "validate_link_candidate c allowed = Inr l \<Longrightarrow> link_ok allowed l"
  unfolding validate_link_candidate_def link_ok_def rbind_Inr
  by (auto simp: rbind_Inr allowlist_contains_def List.member_iff normalize_relation_def Let_def
      dest: validate_score_unit normalize_tags_ok optional_field_ok split: if_splits option.splits)

lemma validate_insight_ok:
  assumes "validate_insight_candidate c allowed = Inr i"
  shows "insight_ok allowed i"
proof -
  obtain ty ti st co sa us tg where
      parts: "normalize_required_field (pin_insight_type c) max_insight_type_bytes = Inr ty"
        "normalize_required_field (pin_title c) max_title_bytes = Inr ti"
        "normalize_required_field (pin_statement c) max_statement_bytes = Inr st"
        "validate_score (pin_confidence c) = Inr co" "validate_score (pin_salience c) = Inr sa"
        "normalize_tags (pin_tags c) = Inr tg"
      and us: "rmap (evidence_uri allowed) (pin_source_uris c) = Inr us" "dedup [] us \<noteq> []"
        "length (pin_source_uris c) \<le> max_source_uris_per_insight"
      and i: "i = \<lparr>vi_insight_type = ty, vi_title = ti, vi_statement = st, vi_confidence = co, vi_salience = sa,
        vi_source_uris = dedup [] us, vi_tags = tg\<rparr>"
    using assms unfolding validate_insight_candidate_def by (auto simp: rbind_Inr Let_def split: if_splits)
  note fields = parts(1-3) [THEN required_field_ok] parts(4,5) [THEN validate_score_unit] normalize_tags_ok [OF parts(6)]
  have "u \<in> set allowed" if "u \<in> set us" for u
    using rmap_member [OF us(1) that]
    by (auto simp: evidence_uri_def rbind_Inr allowlist_contains_def List.member_iff split: if_splits)
  then show ?thesis
    using us fields rmap_length [OF us(1)] length_dedup_le [of "[]" us] by (auto simp: insight_ok_def i)
qed

text \<open>
  How a loop accounts for its candidates. The candidates are numbered from \<open>index\<close>; the rejections are in
  their order and name their numbers, each with the reason; what remains was accepted, in the order of the
  candidates, each as what its validation made of it.
\<close>

definition rejected_for ::
    "(json \<Rightarrow> 'p option) \<Rightarrow> ('p \<Rightarrow> candidate_rejection_code + 'v) \<Rightarrow> ('v \<Rightarrow> 'k) \<Rightarrow> 'k set \<Rightarrow> json \<Rightarrow> candidate_rejection_code \<Rightarrow> bool" where
  "rejected_for decode validate identity accepted j code =
     (case decode j of
        None \<Rightarrow> code = InvalidCandidateSchema
      | Some c \<Rightarrow> (case validate c of Inl e \<Rightarrow> code = e | Inr v \<Rightarrow> code = DuplicateCandidate \<and> identity v \<in> accepted))"

definition accounted ::
    "candidate_kind \<Rightarrow> (json \<Rightarrow> 'p option) \<Rightarrow> ('p \<Rightarrow> candidate_rejection_code + 'v) \<Rightarrow> ('v \<Rightarrow> 'k) \<Rightarrow> 'k set \<Rightarrow> nat \<Rightarrow> json list
      \<Rightarrow> 'v list \<Rightarrow> candidate_rejection list \<Rightarrow> bool" where
  "accounted kind decode validate identity seen index vs acc rej =
     (sorted_wrt (<) (map crj_index rej)
      \<and> list_all2 (\<lambda>(i, j) v. \<exists>c. decode j = Some c \<and> validate c = Inr v)
          (filter (\<lambda>(i, j). i \<notin> crj_index ` set rej) (enumerate index vs)) acc
      \<and> (\<forall>r\<in>set rej. crj_kind r = kind
           \<and> (\<exists>j. (crj_index r, j) \<in> set (enumerate index vs)
                \<and> rejected_for decode validate identity (seen \<union> identity ` set acc) j (crj_code r))))"

lemma enumerate_index: "(i, j) \<in> set (enumerate index vs) \<Longrightarrow> index \<le> i"
  by (simp add: in_set_enumerate_eq)

lemma accounted_from: "accounted kind decode validate identity seen index vs acc rej \<Longrightarrow> r \<in> set rej \<Longrightarrow> index \<le> crj_index r"
  unfolding accounted_def using enumerate_index by metis

lemma rejected_for_mono: "rejected_for decode validate identity a j code \<Longrightarrow> a \<subseteq> b \<Longrightarrow> rejected_for decode validate identity b j code"
  by (auto simp: rejected_for_def split: option.splits sum.splits)

lemma accounted_reject:
  assumes "accounted kind decode validate identity seen (Suc index) vs acc rej"
    and "rejected_for decode validate identity (seen \<union> identity ` set acc) j code"
  shows "accounted kind decode validate identity seen index (j # vs) acc (\<lparr>crj_kind = kind, crj_index = index, crj_code = code\<rparr> # rej)"
proof -
  have "filter (\<lambda>(i, j). i \<noteq> index \<and> i \<notin> crj_index ` set rej) (enumerate (Suc index) vs)
      = filter (\<lambda>(i, j). i \<notin> crj_index ` set rej) (enumerate (Suc index) vs)"
    using enumerate_index by (intro filter_cong) fastforce+
  then show ?thesis
    using assms accounted_from [OF assms(1)] unfolding accounted_def by (auto simp: less_eq_Suc_le)
qed

lemma accounted_accept:
  assumes "accounted kind decode validate identity (insert (identity v) seen) (Suc index) vs acc rej"
    and "decode j = Some c" "validate c = Inr v"
  shows "accounted kind decode validate identity seen index (j # vs) (v # acc) rej"
proof -
  have "index \<notin> crj_index ` set rej" using accounted_from [OF assms(1)] by fastforce
  then show ?thesis using assms unfolding accounted_def by auto
qed

text \<open>A loop accounts for every candidate, in the provider's order, and accepts an identity once.\<close>

lemma candidate_loop_spec:
  "candidate_loop kind decode validate identity seen index vs = (acc, rej) \<Longrightarrow>
     accounted kind decode validate identity (set seen) index vs acc rej
     \<and> distinct (map identity acc) \<and> identity ` set acc \<inter> set seen = {}"
proof (induction vs arbitrary: seen index acc rej)
  case Nil
  then show ?case by (simp add: accounted_def)
next
  case (Cons j vs)
  let ?loop = "candidate_loop kind decode validate identity"
  have rejected: ?case
    if "acc = acc'" "rej = \<lparr>crj_kind = kind, crj_index = index, crj_code = code\<rparr> # rej'" "?loop seen (Suc index) vs = (acc', rej')"
      "rejected_for decode validate identity (set seen) j code" for code acc' rej'
  proof -
    note ih = Cons.IH [OF that(3)]
    have "rejected_for decode validate identity (set seen \<union> identity ` set acc') j code"
      by (rule rejected_for_mono [OF that(4)]) simp
    from accounted_reject [OF conjunct1 [OF ih] this] show ?thesis using ih unfolding that(1,2) by blast
  qed
  show ?case
  proof (cases "\<exists>c v. decode j = Some c \<and> validate c = Inr v \<and> identity v \<notin> set seen")
    case True
    then obtain c v where c: "decode j = Some c" "validate c = Inr v" "identity v \<notin> set seen" by blast
    obtain acc' rej' where loop: "?loop (identity v # seen) (Suc index) vs = (acc', rej')" by fastforce
    with Cons.prems c have eq: "acc = v # acc'" "rej = rej'" by simp_all
    note ih = Cons.IH [OF loop, unfolded list.set]
    from accounted_accept [of kind decode validate identity v "set seen", OF conjunct1 [OF ih] c(1,2)] ih c(3)
    show ?thesis unfolding eq by auto
  next
    case False
    obtain acc' rej' where loop: "?loop seen (Suc index) vs = (acc', rej')" by fastforce
    have "\<exists>code. acc = acc' \<and> rej = \<lparr>crj_kind = kind, crj_index = index, crj_code = code\<rparr> # rej'
        \<and> rejected_for decode validate identity (set seen) j code"
      using Cons.prems False loop by (auto simp: rejected_for_def split: option.splits sum.splits if_splits)
    then obtain code where "acc = acc'" "rej = \<lparr>crj_kind = kind, crj_index = index, crj_code = code\<rparr> # rej'"
      "rejected_for decode validate identity (set seen) j code" by blast
    then show ?thesis using rejected loop by blast
  qed
qed

lemma list_all2_accepts: "list_all2 P xs ys \<Longrightarrow> y \<in> set ys \<Longrightarrow> \<exists>x. P x y"
  by (induction rule: list_all2_induct) auto

lemma accounted_accepts: "accounted kind decode validate identity seen index vs acc rej \<Longrightarrow> v \<in> set acc \<Longrightarrow> \<exists>c. validate c = Inr v"
  unfolding accounted_def by (elim conjE, drule list_all2_accepts) (auto split: prod.splits)

text \<open>
  C14: an untrusted provider cannot place anything in the analysis that the caller may not see. Every
  accepted link joins two different authorised locators by an allowed relation, every accepted insight
  cites only authorised locators, at least one; all fields are within their bounds, scores lie between
  0 and 1, no identity is accepted twice. No candidate is lost: the rejections, those of the links first, name
  the kind and the position of each rejected candidate in the provider's order, with the reason of its
  rejection, and the candidates at all other positions are the accepted ones, in the same order.
\<close>

theorem analysis_output_authorised:
  assumes "validate_analysis_output char_lower dec response allowed = Inr out"
  shows "(\<forall>l\<in>set (vo_links out). link_ok allowed l) \<and> (\<forall>i\<in>set (vo_insights out). insight_ok allowed i)
    \<and> distinct (map link_identity (vo_links out)) \<and> distinct (map (insight_identity char_lower) (vo_insights out))
    \<and> (\<exists>value links insights rejected_links rejected_insights.
         ad_json dec response = Some value \<and> ad_envelope dec value = Some (links, insights)
        \<and> length links \<le> max_link_candidates \<and> length insights \<le> max_insight_candidates
        \<and> vo_rejections out = rejected_links @ rejected_insights
        \<and> accounted CandLink (ad_link dec) (\<lambda>c. validate_link_candidate c allowed) link_identity {} 0 links
            (vo_links out) rejected_links
        \<and> accounted CandInsight (ad_insight dec) (\<lambda>c. validate_insight_candidate c allowed) (insight_identity char_lower) {} 0
            insights (vo_insights out) rejected_insights)"
proof -
  obtain v links insights where dec: "ad_json dec response = Some v" "ad_envelope dec v = Some (links, insights)"
      "length links \<le> max_link_candidates" "length insights \<le> max_insight_candidates"
    and out: "(let (vlinks, link_rejections) =
           candidate_loop CandLink (ad_link dec) (\<lambda>c. validate_link_candidate c allowed) link_identity [] 0 links;
         (vinsights, insight_rejections) =
           candidate_loop CandInsight (ad_insight dec) (\<lambda>c. validate_insight_candidate c allowed)
             (insight_identity char_lower) [] 0 insights
       in \<lparr>vo_links = vlinks, vo_insights = vinsights, vo_rejections = link_rejections @ insight_rejections\<rparr>) = out"
    using assms unfolding validate_analysis_output_def rbind_Inr ok_or_Inr
    by (auto simp: rbind_Inr ok_or_Inr split: if_splits prod.splits)
  obtain acc rej where l: "candidate_loop CandLink (ad_link dec) (\<lambda>c. validate_link_candidate c allowed) link_identity [] 0 links
      = (acc, rej)" by fastforce
  obtain acc' rej' where i: "candidate_loop CandInsight (ad_insight dec) (\<lambda>c. validate_insight_candidate c allowed)
      (insight_identity char_lower) [] 0 insights = (acc', rej')" by fastforce
  have eq: "vo_links out = acc" "vo_insights out = acc'" "vo_rejections out = rej @ rej'"
    unfolding out [symmetric] l i by simp_all
  note ls = candidate_loop_spec [OF l, unfolded list.set] and ins = candidate_loop_spec [OF i, unfolded list.set]
  have "\<forall>l\<in>set acc. link_ok allowed l" using accounted_accepts [OF conjunct1 [OF ls]] validate_link_ok by blast
  moreover have "\<forall>i\<in>set acc'. insight_ok allowed i" using accounted_accepts [OF conjunct1 [OF ins]] validate_insight_ok by blast
  moreover have "\<exists>value links insights rejected_links rejected_insights.
      ad_json dec response = Some value \<and> ad_envelope dec value = Some (links, insights)
      \<and> length links \<le> max_link_candidates \<and> length insights \<le> max_insight_candidates
      \<and> rej @ rej' = rejected_links @ rejected_insights
      \<and> accounted CandLink (ad_link dec) (\<lambda>c. validate_link_candidate c allowed) link_identity {} 0 links acc rejected_links
      \<and> accounted CandInsight (ad_insight dec) (\<lambda>c. validate_insight_candidate c allowed) (insight_identity char_lower) {} 0
          insights acc' rejected_insights"
    by (rule exI [of _ v], rule exI [of _ links], rule exI [of _ insights], rule exI [of _ rej], rule exI [of _ rej'])
      (simp only: dec conjunct1 [OF ls] conjunct1 [OF ins] simp_thms)
  ultimately show ?thesis
    unfolding eq using conjunct1 [OF conjunct2 [OF ls]] conjunct1 [OF conjunct2 [OF ins]] by (intro conjI)
qed

section \<open>Redaction\<close>

lemma matcher_text_redact:
  "matcher_text redact_exact m s = redact_text m ExactOnly s"
  "matcher_text matcher_redact_egress_text m s = redact_text m Fragment s"
  by (simp_all add: matcher_text_def redact_text_def redact_response_string_def matcher_redact_egress_text_def)

lemma trim_chars_middle: "\<exists>a b. cs = a @ trim_chars cs @ b"
proof -
  define ds where "ds = dropWhile is_ws cs"
  have "cs = takeWhile is_ws cs @ ds" by (simp add: ds_def)
  moreover have "rev ds = takeWhile is_ws (rev ds) @ dropWhile is_ws (rev ds)" by simp
  then have "ds = rev (dropWhile is_ws (rev ds)) @ rev (takeWhile is_ws (rev ds))" by (metis rev_append rev_rev_ident)
  ultimately show ?thesis unfolding trim_chars_def ds_def by metis
qed

lemma chars_trim: "utf8_text s \<Longrightarrow> chars (trim s) = trim_chars (chars s)"
proof -
  assume "utf8_text s"
  then have "list_all is_char (trim_chars (chars s))"
    using set_trim_chars by (auto simp: utf8_text_def list_all_iff)
  then show ?thesis by (simp add: trim_def chars_concat)
qed

lemma clean_middle: "clean secrets (a @ cs @ b) \<Longrightarrow> clean secrets cs"
  unfolding clean_def occurs_iff by (metis append.assoc)

lemma utf8_redact_text:
  assumes "secret_matcher_new secrets = Some m" and "utf8_text s"
  shows "utf8_text (redact_text m policy s)"
proof -
  have "list_all is_char redaction_marker_text" by code_simp
  then show ?thesis
    using drawn_response [OF assms(1), of "chars s" policy] assms(2) mask_is_char [OF assms(1)]
    by (auto simp: utf8_text_def chars_redact_text [OF assms] drawn_def list_all_iff)
qed

text \<open>A redacted text is clean, and so is what remains of it after trimming.\<close>

lemma redacted_trim_clean:
  assumes "secret_matcher_new secrets = Some m" and "utf8_text s"
  shows "clean secrets (chars (trim (redact_text m policy s)))"
proof -
  obtain a b where "chars (redact_text m policy s) = a @ trim_chars (chars (redact_text m policy s)) @ b"
    using trim_chars_middle by blast
  then have "clean secrets (trim_chars (chars (redact_text m policy s)))"
    using redact_text_clean [OF assms] clean_middle by metis
  then show ?thesis unfolding chars_trim [OF utf8_redact_text [OF assms]] .
qed

lemma required_field_trim: "normalize_required_field s n = Inr v \<Longrightarrow> v = trim s"
  by (auto simp: normalize_required_field_def Let_def split: if_splits)

lemma optional_field_trim: "normalize_optional_field (Some s) n = Inr (Some v) \<Longrightarrow> v = trim s"
  by (auto simp: normalize_optional_field_def Let_def split: if_splits)

text \<open>The texts of an output that are stored with the tenant's data.\<close>

definition link_texts :: "validated_link \<Rightarrow> string list" where
  "link_texts l = (case vl_rationale l of Some r \<Rightarrow> [r] | None \<Rightarrow> []) @ vl_tags l"

definition insight_texts :: "validated_insight \<Rightarrow> string list" where
  "insight_texts i = [vi_insight_type i, vi_title i, vi_statement i] @ vi_tags i"

definition stored_texts :: "validated_output \<Rightarrow> string list" where
  "stored_texts out = concat (map link_texts (vo_links out)) @ concat (map insight_texts (vo_insights out))"

lemma redact_tags_ok:
  assumes "length tags \<le> max_tags_per_candidate"
  shows "tags_ok (redact_analysis_tags m tags)"
proof -
  let ?trimmed = "map (\<lambda>tag. trim (matcher_text redact_exact m tag)) tags"
  have "length (redact_analysis_tags m tags) \<le> length (filter (\<lambda>tag. tag \<noteq> [] \<and> length tag \<le> max_tag_bytes \<and> \<not> has_control tag) ?trimmed)"
    unfolding redact_analysis_tags_def by (rule length_dedup_le)
  also have "\<dots> \<le> length ?trimmed" by (rule length_filter_le)
  finally show ?thesis using assms by (auto simp: tags_ok_def redact_analysis_tags_def field_ok_def)
qed

lemma redact_tags_clean:
  "secret_matcher_new secrets = Some m \<Longrightarrow> \<forall>t\<in>set tags. utf8_text t \<Longrightarrow> t \<in> set (redact_analysis_tags m tags)
     \<Longrightarrow> clean secrets (chars t)"
  by (auto simp: redact_analysis_tags_def matcher_text_redact redacted_trim_clean)

lemma redact_link_ok: "link_ok allowed l \<Longrightarrow> link_ok allowed (redact_link m l)"
  by (auto simp: link_ok_def redact_link_def tags_ok_def [of "vl_tags l"] redact_tags_ok dest: optional_field_ok
      split: option.splits sum.splits)

lemma redact_link_clean:
  assumes "secret_matcher_new secrets = Some m" and "\<forall>t\<in>set (link_texts l). utf8_text t" and "x \<in> set (link_texts (redact_link m l))"
  shows "clean secrets (chars x)"
proof (cases "x \<in> set (redact_analysis_tags m (vl_tags l))")
  case True
  then show ?thesis using redact_tags_clean [OF assms(1)] assms(2) by (auto simp: link_texts_def)
next
  case False
  then obtain r where r: "vl_rationale l = Some r"
      "normalize_optional_field (Some (matcher_text matcher_redact_egress_text m r)) max_rationale_bytes = Inr (Some x)"
    using assms(3) by (auto simp: link_texts_def redact_link_def split: option.splits sum.splits)
  then show ?thesis
    using optional_field_trim [OF r(2)] redacted_trim_clean [OF assms(1)] assms(2) by (auto simp: matcher_text_redact link_texts_def)
qed

lemma redact_insight_Some:
  assumes "redact_insight m i = Some i'"
  obtains ty ti st where "normalize_required_field (redact_text m ExactOnly (vi_insight_type i)) max_insight_type_bytes = Inr ty"
    "normalize_required_field (redact_text m Fragment (vi_title i)) max_title_bytes = Inr ti"
    "normalize_required_field (redact_text m Fragment (vi_statement i)) max_statement_bytes = Inr st"
    "i' = i\<lparr>vi_insight_type := ty, vi_title := ti, vi_statement := st, vi_tags := redact_analysis_tags m (vi_tags i)\<rparr>"
  using assms by (auto simp: redact_insight_def matcher_text_redact split: sum.splits)

lemma redact_insight_ok:
  assumes "redact_insight m i = Some i'" and "insight_ok allowed i"
  shows "insight_ok allowed i'"
proof -
  obtain ty ti st where f: "normalize_required_field (redact_text m ExactOnly (vi_insight_type i)) max_insight_type_bytes = Inr ty"
    "normalize_required_field (redact_text m Fragment (vi_title i)) max_title_bytes = Inr ti"
    "normalize_required_field (redact_text m Fragment (vi_statement i)) max_statement_bytes = Inr st"
    "i' = i\<lparr>vi_insight_type := ty, vi_title := ti, vi_statement := st, vi_tags := redact_analysis_tags m (vi_tags i)\<rparr>"
    using redact_insight_Some [OF assms(1)] .
  then show ?thesis
    using f(1-3) [THEN required_field_ok] assms(2) by (simp add: insight_ok_def redact_tags_ok tags_ok_def [of "vi_tags i"])
qed

lemma redact_insight_clean:
  assumes "secret_matcher_new secrets = Some m" and "redact_insight m i = Some i'"
    and "\<forall>t\<in>set (insight_texts i). utf8_text t" and "x \<in> set (insight_texts i')"
  shows "clean secrets (chars x)"
proof -
  obtain ty ti st where f: "normalize_required_field (redact_text m ExactOnly (vi_insight_type i)) max_insight_type_bytes = Inr ty"
    "normalize_required_field (redact_text m Fragment (vi_title i)) max_title_bytes = Inr ti"
    "normalize_required_field (redact_text m Fragment (vi_statement i)) max_statement_bytes = Inr st"
    "i' = i\<lparr>vi_insight_type := ty, vi_title := ti, vi_statement := st, vi_tags := redact_analysis_tags m (vi_tags i)\<rparr>"
    using redact_insight_Some [OF assms(2)] .
  note clean = f(1-3) [THEN required_field_trim]
  have "x \<in> {ty, ti, st} \<union> set (redact_analysis_tags m (vi_tags i))"
    using assms(4) by (auto simp: insight_texts_def f(4))
  then show ?thesis
    using assms(3) redacted_trim_clean [OF assms(1)] redact_tags_clean [OF assms(1), of "vi_tags i" x]
    by (auto simp: insight_texts_def clean)
qed

text \<open>What redaction does not touch: the ends, the relation and the score of a link, the evidence and scores of an insight.\<close>

definition link_evidence :: "validated_link \<Rightarrow> string \<times> string \<times> string \<times> f32" where
  "link_evidence l = (vl_source_uri l, vl_target_uri l, vl_relation l, vl_confidence l)"

definition insight_evidence :: "validated_insight \<Rightarrow> string list \<times> f32 \<times> f32" where
  "insight_evidence i = (vi_source_uris i, vi_confidence i, vi_salience i)"

lemma first_by_subseq: "subseq (first_by identity seen vs) vs"
  by (induction identity seen vs rule: first_by.induct) auto

lemma redact_insight_evidence: "redact_insight m i = Some i' \<Longrightarrow> insight_evidence i' = insight_evidence i"
  by (erule redact_insight_Some) (simp add: insight_evidence_def)

lemma redacted_subseq:
  "subseq (map insight_evidence (List.map_filter (redact_insight m) is)) (map insight_evidence is)"
proof (induction "is")
  case (Cons i "is")
  show ?case
  proof (cases "redact_insight m i")
    case None
    with Cons.IH show ?thesis by (simp add: List.map_filter_simps list_emb_Cons)
  next
    case (Some i')
    with Cons.IH redact_insight_evidence [OF Some] show ?thesis by (simp add: List.map_filter_simps)
  qed
qed (simp add: List.map_filter_simps)

lemma first_by_spec:
  "distinct (map identity (first_by identity seen vs)) \<and> identity ` set (first_by identity seen vs) \<inter> set seen = {}
     \<and> set (first_by identity seen vs) \<subseteq> set vs \<and> length (first_by identity seen vs) \<le> length vs"
proof (induction identity seen vs rule: first_by.induct)
  case (2 identity seen v vs)
  then show ?case by (cases "identity v \<in> set seen") auto
qed simp

text \<open>
  C16: what is stored of an analysis carries no configured secret. Take an output of UTF-8 texts within the
  bounds that its validation guarantees. Redaction keeps every link, with its locators, its relation and its
  score as they were; the insights it keeps have the locators and the two scores they had, in the order they
  had; it keeps every bound, every identity distinct and the rejections; and no stored text contains a
  configured secret of four characters or more.
\<close>

theorem analysis_redaction_clean:
  assumes "redact_validated_analysis_output char_lower out known = Some out'"
    and "\<forall>x\<in>set (stored_texts out). utf8_text x"
    and "\<forall>l\<in>set (vo_links out). link_ok allowed l" and "\<forall>i\<in>set (vo_insights out). insight_ok allowed i"
    and "distinct (map (insight_identity char_lower) (vo_insights out))"
  shows "(\<forall>x\<in>set (stored_texts out'). \<forall>s\<in>set known. min_redactable_secret_chars \<le> length (chars s) \<longrightarrow> \<not> occurs (chars s) (chars x))
    \<and> (\<forall>l\<in>set (vo_links out'). link_ok allowed l) \<and> (\<forall>i\<in>set (vo_insights out'). insight_ok allowed i)
    \<and> map link_evidence (vo_links out') = map link_evidence (vo_links out)
    \<and> subseq (map insight_evidence (vo_insights out')) (map insight_evidence (vo_insights out))
    \<and> distinct (map (insight_identity char_lower) (vo_insights out')) \<and> vo_rejections out' = vo_rejections out"
proof (cases "vo_insights out = [] \<and> list_all (\<lambda>l. vl_rationale l = None \<and> vl_tags l = []) (vo_links out)")
  case True
  then have same: "out' = out" using assms(1) by (simp add: redact_validated_analysis_output_def)
  have "stored_texts out = []" using True by (auto simp: stored_texts_def link_texts_def list_all_iff)
  then show ?thesis using assms(3-5) by (simp add: same)
next
  case False
  then obtain m where m: "secret_matcher_new (map chars known) = Some m"
    and out': "out' = out\<lparr>vo_links := map (redact_link m) (vo_links out),
        vo_insights := first_by (insight_identity char_lower) [] (List.map_filter (redact_insight m) (vo_insights out))\<rparr>"
    using assms(1) by (auto simp: redact_validated_analysis_output_def)
  have origin: "\<exists>i\<in>set (vo_insights out). redact_insight m i = Some i'" if "i' \<in> set (vo_insights out')" for i'
    using that first_by_spec [of "insight_identity char_lower" "[]" "List.map_filter (redact_insight m) (vo_insights out)"]
    by (force simp: out' List.map_filter_def)
  have "clean (map chars known) (chars x)" if x: "x \<in> set (stored_texts out')" for x
  proof -
    consider l where "l \<in> set (vo_links out)" "x \<in> set (link_texts (redact_link m l))"
      | i' where "i' \<in> set (vo_insights out')" "x \<in> set (insight_texts i')"
      using x by (auto simp: stored_texts_def out')
    then show ?thesis
    proof cases
      case 1
      then show ?thesis using redact_link_clean [OF m] assms(2) by (auto simp: stored_texts_def)
    next
      case 2
      then obtain i where i: "i \<in> set (vo_insights out)" "redact_insight m i = Some i'" using origin by blast
      then have "\<forall>t\<in>set (insight_texts i). utf8_text t" using assms(2) by (auto simp: stored_texts_def)
      then show ?thesis by (rule redact_insight_clean [OF m i(2) _ 2(2)])
    qed
  qed
  then have "\<forall>x\<in>set (stored_texts out'). \<forall>s\<in>set known. min_redactable_secret_chars \<le> length (chars s) \<longrightarrow> \<not> occurs (chars s) (chars x)"
    by (auto simp: clean_def redactable_def)
  moreover have "\<forall>l\<in>set (vo_links out'). link_ok allowed l" using assms(3) redact_link_ok by (auto simp: out')
  moreover have "\<forall>i\<in>set (vo_insights out'). insight_ok allowed i" using origin assms(4) redact_insight_ok by blast
  moreover have "map link_evidence (vo_links out') = map link_evidence (vo_links out)"
    by (simp add: out' link_evidence_def redact_link_def)
  moreover have "subseq (map insight_evidence (vo_insights out')) (map insight_evidence (vo_insights out))"
    unfolding out' using subseq_order.trans [OF subseq_map [OF first_by_subseq] redacted_subseq] by simp
  moreover have "distinct (map (insight_identity char_lower) (vo_insights out'))"
    using first_by_spec [of "insight_identity char_lower" "[]"] by (simp add: out')
  moreover have "vo_rejections out' = vo_rejections out" by (simp add: out')
  ultimately show ?thesis by blast
qed

section \<open>Examples\<close>

definition sample_link :: provider_link where
  "sample_link = \<lparr>pl_source_uri = ''ctx://a'', pl_target_uri = ''ctx://b/detail'', pl_relation = ''Related'',
     pl_rationale = Some ''both'', pl_confidence = 0x3FE8000000000000, pl_tags = [''x'']\<rparr>"

definition sample_decoders :: analysis_decoders where
  "sample_decoders = \<lparr>ad_json = (\<lambda>_. Some JNull), ad_envelope = (\<lambda>_. Some ([JNull, JNull], [])),
     ad_link = (\<lambda>_. Some sample_link), ad_insight = (\<lambda>_. None)\<rparr>"

definition sample_validated :: validated_output where
  "sample_validated =
     \<lparr>vo_links = [\<lparr>vl_source_uri = ''ctx://a'', vl_target_uri = ''ctx://b'', vl_relation = ''related'',
        vl_rationale = Some ''both'', vl_confidence = 0x3F400000, vl_tags = [''x'']\<rparr>],
      vo_insights = [], vo_rejections = [\<lparr>crj_kind = CandLink, crj_index = 1, crj_code = DuplicateCandidate\<rparr>]\<rparr>"

lemma sample_validates:
  "validate_analysis_output (\<lambda>c. [ascii_lower c]) sample_decoders ''{}'' [''ctx://a'', ''ctx://b''] = Inr sample_validated"
  by code_simp

theorem analysis_output_authorised_witness:
  "list_all (link_ok [''ctx://a'', ''ctx://b'']) (vo_links sample_validated)"
  using analysis_output_authorised [OF sample_validates] by (simp add: list_all_iff)

theorem analysis_redaction_clean_witness:
  "\<exists>out. redact_validated_analysis_output (\<lambda>c. [ascii_lower c]) sample_validated [''TED]abcdefgh''] = Some out
     \<and> vo_rejections out = vo_rejections sample_validated"
proof -
  have secret: "map chars [''TED]abcdefgh''] = [sample_secret]" by code_simp
  have "redact_validated_analysis_output (\<lambda>c. [ascii_lower c]) sample_validated [''TED]abcdefgh''] \<noteq> None"
    unfolding redact_validated_analysis_output_def secret sample_matcher_new by simp
  then obtain out where out: "redact_validated_analysis_output (\<lambda>c. [ascii_lower c]) sample_validated [''TED]abcdefgh''] = Some out"
    by blast
  have "\<forall>x\<in>set (stored_texts sample_validated). utf8_text x" by code_simp
  moreover have "\<forall>l\<in>set (vo_links sample_validated). link_ok [''ctx://a'', ''ctx://b''] l" by code_simp
  moreover have "vo_insights sample_validated = []" by (simp add: sample_validated_def)
  ultimately show ?thesis using analysis_redaction_clean [OF out, of "[''ctx://a'', ''ctx://b'']"] out by auto
qed

end
