(* ===== verification/Provider_Budget.thy ===== *)
theory Provider_Budget
  imports Rate_Limit Json
begin

text \<open>
  The budget of provider requests and tokens of each principal (\<open>ProviderBudget\<close> of \<open>llm.rs\<close>), the token
  counts a provider reports, and their reconciliation with what was reserved. One table of windows
  serves all principals, and every call drops the expired ones. Shown: a principal's verdicts depend
  on its own calls only, and what it is charged in any window's length is bounded.
\<close>

section \<open>The code\<close>

text \<open>\<open>Value::as_u64\<close> and \<open>Value::as_array\<close>.\<close>

fun json_as_u64 :: "json \<Rightarrow> u64 option" where
  "json_as_u64 (JNumber (PosInt n)) = Some n"
| "json_as_u64 _ = None"

fun json_as_array :: "json \<Rightarrow> json list option" where
  "json_as_array (JArray xs) = Some xs"
| "json_as_array _ = None"

definition provider_budget_window :: int where
  "provider_budget_window = 60 * 1000000000"

lemma budget_window_pos [simp]: "0 < provider_budget_window"
  by (simp add: provider_budget_window_def)

record budget_window =
  bw_started_at :: int
  bw_requests :: u64
  bw_tokens :: u64

record provider_budget =
  pb_max_requests :: u64
  pb_max_tokens :: u64
  pb_windows :: "string \<Rightarrow> budget_window option"

definition provider_budget_new :: "u64 \<Rightarrow> u64 \<Rightarrow> provider_budget" where
  "provider_budget_new max_requests max_tokens =
     \<lparr>pb_max_requests = max_requests, pb_max_tokens = max_tokens, pb_windows = Map.empty\<rparr>"

text \<open>\<open>saturating_duration_since\<close> of two instants.\<close>

definition saturating_since :: "int \<Rightarrow> int \<Rightarrow> int" where
  "saturating_since now earlier = max 0 (now - earlier)"

definition retain_live :: "int \<Rightarrow> (string \<Rightarrow> budget_window option) \<Rightarrow> string \<Rightarrow> budget_window option" where
  "retain_live now windows = (\<lambda>k. case windows k of
     None \<Rightarrow> None
   | Some w \<Rightarrow> if saturating_since now (bw_started_at w) < provider_budget_window then Some w else None)"

definition fresh_window :: "int \<Rightarrow> budget_window" where
  "fresh_window now = \<lparr>bw_started_at = now, bw_requests = 0, bw_tokens = 0\<rparr>"

definition open_window :: "int \<Rightarrow> budget_window option \<Rightarrow> budget_window" where
  "open_window now entry =
     (let w = (case entry of Some w \<Rightarrow> w | None \<Rightarrow> fresh_window now)
      in if provider_budget_window \<le> saturating_since now (bw_started_at w) then fresh_window now else w)"

definition budget_retry_after :: "int \<Rightarrow> budget_window \<Rightarrow> u64" where
  "budget_retry_after now w =
     (let remaining = max 0 (provider_budget_window - saturating_since now (bw_started_at w))
      in max (sat_add (of_nat (nat (remaining div 1000000000))) (if 0 < remaining mod 1000000000 then 1 else 0)) 1)"

definition over_budget :: "provider_budget \<Rightarrow> budget_window \<Rightarrow> u64 \<Rightarrow> u64 \<Rightarrow> bool" where
  "over_budget self w requests tokens =
     (pb_max_requests self < sat_add (bw_requests w) requests \<or> pb_max_tokens self < sat_add (bw_tokens w) tokens)"

definition spend :: "budget_window \<Rightarrow> u64 \<Rightarrow> u64 \<Rightarrow> budget_window" where
  "spend w requests tokens =
     w\<lparr>bw_requests := sat_add (bw_requests w) requests, bw_tokens := sat_add (bw_tokens w) tokens\<rparr>"

text \<open>The calls hold the mutex from start to end; \<open>now\<close> is read before it is taken.\<close>

definition charge ::
    "provider_budget \<Rightarrow> int \<Rightarrow> string \<Rightarrow> u64 \<Rightarrow> u64 \<Rightarrow> (api_error + unit) \<times> provider_budget" where
  "charge self now principal_key requests tokens =
     (let windows = retain_live now (pb_windows self);
          w = open_window now (windows principal_key)
      in if over_budget self w requests tokens
         then (Inl (TooManyRequests (budget_retry_after now w)), self\<lparr>pb_windows := windows(principal_key \<mapsto> w)\<rparr>)
         else (Inr (), self\<lparr>pb_windows := windows(principal_key \<mapsto> spend w requests tokens)\<rparr>))"

definition reconcile_actual_tokens ::
    "provider_budget \<Rightarrow> int \<Rightarrow> string \<Rightarrow> u64 \<Rightarrow> u64 \<Rightarrow> (api_error + unit) \<times> provider_budget" where
  "reconcile_actual_tokens self now principal_key reserved_tokens actual_tokens =
     (if actual_tokens \<le> reserved_tokens then (Inr (), self)
      else charge self now principal_key 0 (actual_tokens - reserved_tokens))"

section \<open>Token counts\<close>

record token_usage =
  tu_input_tokens :: "u64 option"
  tu_cached_input_tokens :: "u64 option"
  tu_output_tokens :: "u64 option"
  tu_reasoning_output_tokens :: "u64 option"
  tu_total_tokens :: "u64 option"

definition option_or :: "'a option \<Rightarrow> 'a option \<Rightarrow> 'a option" where
  "option_or a b = (case a of Some _ \<Rightarrow> a | None \<Rightarrow> b)"

definition unwrap_or :: "'a option \<Rightarrow> 'a \<Rightarrow> 'a" where
  "unwrap_or a d = (case a of Some x \<Rightarrow> x | None \<Rightarrow> d)"

definition total_for_budget :: "token_usage \<Rightarrow> u64 option" where
  "total_for_budget u =
     option_or (tu_total_tokens u)
       (let input = tu_input_tokens u;
            output = option_or (tu_output_tokens u) (tu_reasoning_output_tokens u)
        in if input \<noteq> None \<or> output \<noteq> None then Some (sat_add (unwrap_or input 0) (unwrap_or output 0)) else None)"

definition json_get_u64 :: "json \<Rightarrow> string \<Rightarrow> u64 option" where
  "json_get_u64 j k = Option.bind (json_get j k) json_as_u64"

text \<open>The sum of the reported counts is a plain \<open>+\<close>: it wraps in the release build.\<close>

definition token_usage_from_value :: "json option \<Rightarrow> token_usage option" where
  "token_usage_from_value reported =
     Option.bind reported (\<lambda>usage.
       let input_tokens = json_get_u64 usage ''input_tokens'';
           output_tokens = json_get_u64 usage ''output_tokens'';
           total_tokens = json_get_u64 usage ''total_tokens''
       in if input_tokens = None \<and> output_tokens = None \<and> total_tokens = None then None
          else Some \<lparr>tu_input_tokens = input_tokens,
             tu_cached_input_tokens =
               Option.bind (json_get usage ''input_tokens_details'') (\<lambda>d. json_get_u64 d ''cached_tokens''),
             tu_output_tokens = output_tokens,
             tu_reasoning_output_tokens =
               Option.bind (json_get usage ''output_tokens_details'') (\<lambda>d. json_get_u64 d ''reasoning_tokens''),
             tu_total_tokens = option_or total_tokens
               (case (input_tokens, output_tokens) of (Some i, Some out) \<Rightarrow> Some (i + out) | _ \<Rightarrow> None)\<rparr>)"

text \<open>\<open>u64::saturating_mul\<close> and \<open>saturating_sub\<close>.\<close>

definition sat_mul :: "u64 \<Rightarrow> u64 \<Rightarrow> u64" where
  "sat_mul a b = (if unat a * unat b < 2 ^ 64 then a * b else - 1)"

definition sat_sub :: "u64 \<Rightarrow> u64 \<Rightarrow> u64" where
  "sat_sub a b = (if b \<le> a then a - b else 0)"

text \<open>What a finished request of \<open>attempts\<close> attempts is taken to have cost.\<close>

definition conservative_tokens :: "u64 \<Rightarrow> u64 \<Rightarrow> u64 \<Rightarrow> u64" where
  "conservative_tokens estimated_per_attempt attempts actual_terminal =
     sat_add (sat_mul estimated_per_attempt (sat_sub attempts 1)) actual_terminal"

record budget_reconciliation =
  rc_principal_key :: string
  rc_attempts :: u64
  rc_estimated_tokens_per_attempt :: u64
  rc_reserved_tokens :: u64

definition reconcile ::
    "budget_reconciliation \<Rightarrow> provider_budget \<Rightarrow> int \<Rightarrow> token_usage option \<Rightarrow> (api_error + unit) \<times> provider_budget" where
  "reconcile self budget now usage =
     (case Option.bind usage total_for_budget of
        None \<Rightarrow> (Inr (), budget)
      | Some actual_terminal_tokens \<Rightarrow>
          reconcile_actual_tokens budget now (rc_principal_key self) (rc_reserved_tokens self)
            (conservative_tokens (rc_estimated_tokens_per_attempt self) (rc_attempts self) actual_terminal_tokens))"

section \<open>One principal\<close>

text \<open>The calls of the table: reservations and reconciliations, each with its instant and principal.\<close>

datatype budget_call = Charge (bc_requests: u64) (bc_tokens: u64) | ReconcileTokens u64 u64

fun budget_call_step ::
    "provider_budget \<Rightarrow> string \<times> int \<times> budget_call \<Rightarrow> (api_error + unit) \<times> provider_budget" where
  "budget_call_step self (k, now, Charge requests tokens) = charge self now k requests tokens"
| "budget_call_step self (k, now, ReconcileTokens reserved actual) =
     reconcile_actual_tokens self now k reserved actual"

fun budget_run :: "provider_budget \<Rightarrow> (string \<times> int \<times> budget_call) list \<Rightarrow> (api_error + unit) list" where
  "budget_run self [] = []"
| "budget_run self (c # cs) = (case budget_call_step self c of (v, self') \<Rightarrow> v # budget_run self' cs)"

text \<open>The window of a principal that still counts at an instant.\<close>

definition live_window :: "int \<Rightarrow> provider_budget \<Rightarrow> string \<Rightarrow> budget_window option" where
  "live_window now self k = retain_live now (pb_windows self) k"

text \<open>Two tables agree on a principal when they have the same limits and the same live window of it.\<close>

definition agree_on :: "string \<Rightarrow> int \<Rightarrow> provider_budget \<Rightarrow> provider_budget \<Rightarrow> bool" where
  "agree_on k now a b =
     (pb_max_requests a = pb_max_requests b \<and> pb_max_tokens a = pb_max_tokens b
      \<and> live_window now a k = live_window now b k)"

lemma charge_limits [simp]:
  "pb_max_requests (snd (charge self now k r t)) = pb_max_requests self"
  "pb_max_tokens (snd (charge self now k r t)) = pb_max_tokens self"
  by (simp_all add: charge_def Let_def)

lemma retain_live_idem: "now \<le> now' \<Longrightarrow> retain_live now' (retain_live now m) = retain_live now' m"
  by (auto simp: retain_live_def saturating_since_def fun_eq_iff split: option.splits)

lemma retain_live_upd:
  "retain_live now (m(k \<mapsto> w)) = (\<lambda>k'. if k' = k
     then (if saturating_since now (bw_started_at w) < provider_budget_window then Some w else None)
     else retain_live now m k')"
  by (auto simp: retain_live_def fun_eq_iff)

lemma agree_on_later:
  assumes "agree_on k now a b" and "now \<le> now'"
  shows "agree_on k now' a b"
proof -
  have "live_window now' x k = retain_live now' (retain_live now (pb_windows x)) k" for x
    by (simp add: live_window_def retain_live_idem [OF assms(2)])
  then have "live_window now' x k = retain_live now' (\<lambda>_. live_window now x k) k" for x
    by (simp add: live_window_def retain_live_def)
  with assms(1) show ?thesis by (simp add: agree_on_def)
qed

lemma charge_own:
  assumes "agree_on k now a b"
  shows "fst (charge a now k r t) = fst (charge b now k r t)"
    and "agree_on k now (snd (charge a now k r t)) (snd (charge b now k r t))"
proof -
  have w: "retain_live now (pb_windows a) k = retain_live now (pb_windows b) k"
    and over: "over_budget a = over_budget b"
    and lim: "pb_max_requests a = pb_max_requests b" "pb_max_tokens a = pb_max_tokens b"
    using assms by (simp_all add: agree_on_def live_window_def over_budget_def fun_eq_iff)
  show "fst (charge a now k r t) = fst (charge b now k r t)"
    by (simp add: charge_def Let_def w over)
  have "live_window now (snd (charge a now k r t)) k = live_window now (snd (charge b now k r t)) k"
    by (simp add: charge_def Let_def w over live_window_def retain_live_upd)
  then show "agree_on k now (snd (charge a now k r t)) (snd (charge b now k r t))"
    by (simp add: agree_on_def lim)
qed

lemma charge_other:
  assumes "agree_on k now a b" and "k' \<noteq> k"
  shows "agree_on k now (snd (charge a now k' r t)) b"
  using assms
  by (auto simp: agree_on_def charge_def Let_def live_window_def retain_live_upd retain_live_idem)

lemma call_own:
  assumes "agree_on k now a b"
  shows "fst (budget_call_step a (k, now, c)) = fst (budget_call_step b (k, now, c))"
    and "agree_on k now (snd (budget_call_step a (k, now, c))) (snd (budget_call_step b (k, now, c)))"
  using charge_own [OF assms] assms by (cases c; auto simp: reconcile_actual_tokens_def)+

lemma call_other:
  assumes "agree_on k now a b" and "k' \<noteq> k"
  shows "agree_on k now (snd (budget_call_step a (k', now, c))) b"
  using charge_other [OF assms] assms(1) by (cases c) (auto simp: reconcile_actual_tokens_def)

lemma budget_run_own:
  assumes "agree_on k now a b" and "sorted (now # map (\<lambda>c. fst (snd c)) calls)"
  shows "map snd (filter (\<lambda>p. fst (fst p) = k) (zip calls (budget_run a calls)))
     = budget_run b (filter (\<lambda>c. fst c = k) calls)"
  using assms
proof (induction calls arbitrary: a b now)
  case (Cons c cs)
  obtain k' now' call where c: "c = (k', now', call)" by (cases c)
  have "now \<le> now'" using Cons.prems(2) by (simp add: c)
  have sorted: "sorted (now' # map (\<lambda>c. fst (snd c)) cs)" using Cons.prems(2) unfolding c by simp
  have agree: "agree_on k now' a b" by (rule agree_on_later [OF Cons.prems(1) \<open>now \<le> now'\<close>])
  show ?case
  proof (cases "k' = k")
    case True
    show ?thesis
      using call_own(1) [OF agree, of call] Cons.IH [OF call_own(2) [OF agree, of call] sorted]
      by (simp add: c True case_prod_beta)
  next
    case False
    show ?thesis
      using Cons.IH [OF call_other [OF agree False] sorted] False by (simp add: c case_prod_beta)
  qed
qed simp

section \<open>What a principal is charged\<close>

text \<open>Requests and tokens are two dimensions of a window with the same bookkeeping.\<close>

locale budget_dimension =
  fixes limit :: "provider_budget \<Rightarrow> u64" and used :: "budget_window \<Rightarrow> u64"
    and amount :: "u64 \<Rightarrow> u64 \<Rightarrow> u64"
  assumes limit_windows: "limit (pb_windows_update f self) = limit self"
    and used_fresh: "used (fresh_window now) = 0"
    and used_spend: "used (spend w r n) = sat_add (used w) (amount r n)"
    and within_limit: "\<not> over_budget self w r n \<Longrightarrow> sat_add (used w) (amount r n) \<le> limit self"
    and amount_zero: "amount 0 0 = 0"

fun call_cost :: "(u64 \<Rightarrow> u64 \<Rightarrow> u64) \<Rightarrow> budget_call \<Rightarrow> nat" where
  "call_cost amount (Charge r n) = unat (amount r n)"
| "call_cost amount (ReconcileTokens reserved actual) =
     (if actual \<le> reserved then 0 else unat (amount 0 (actual - reserved)))"

fun spent_within ::
    "(u64 \<Rightarrow> u64 \<Rightarrow> u64) \<Rightarrow> string \<Rightarrow> int \<Rightarrow> ((string \<times> int \<times> budget_call) \<times> (api_error + unit)) list \<Rightarrow> nat" where
  "spent_within amount k t [] = 0"
| "spent_within amount k t (((k', now, c), v) # rest) =
     (if k' = k \<and> v = Inr () \<and> t \<le> now \<and> now < t + provider_budget_window then call_cost amount c else 0)
     + spent_within amount k t rest"

text \<open>What a window still admits for calls from \<open>t\<close> on.\<close>

definition room :: "nat \<Rightarrow> (budget_window \<Rightarrow> u64) \<Rightarrow> int \<Rightarrow> budget_window option \<Rightarrow> nat" where
  "room m used t entry =
     (case entry of
        None \<Rightarrow> m
      | Some w \<Rightarrow> if t \<le> bw_started_at w then m - unat (used w) else m - unat (used w) + m)"

lemma room_le: "room m used t entry \<le> 2 * m"
  by (auto simp: room_def split: option.split)

lemma room_retain:
  assumes "now < t + provider_budget_window"
  shows "room m used t (retain_live now ws k) \<le> room m used t (ws k)"
  using assms by (auto simp: room_def retain_live_def saturating_since_def split: option.split)

lemma spent_late:
  "\<forall>p\<in>set ps. t + provider_budget_window \<le> fst (snd (fst p)) \<Longrightarrow> spent_within amount k t ps = 0"
  by (induction amount k t ps rule: spent_within.induct) auto

context budget_dimension
begin

lemma room_open:
  assumes "t \<le> now" and "now < t + provider_budget_window"
  shows "room m used t (Some (open_window now (retain_live now ws k))) \<le> room m used t (ws k)"
  using assms used_fresh
  by (auto simp: room_def retain_live_def open_window_def saturating_since_def fresh_window_def Let_def
      split: option.split)

lemma room_spend:
  assumes "\<not> over_budget self w r n" and "limit self < - 1"
  shows "room (unat (limit self)) used t (Some (spend w r n)) + unat (amount r n)
    \<le> room (unat (limit self)) used t (Some w)"
proof -
  have le: "unat (sat_add (used w) (amount r n)) \<le> unat (limit self)"
    using within_limit [OF assms(1)] by (simp add: word_le_nat_alt)
  also have "\<dots> < 2 ^ 64 - 1" using assms(2) by (simp add: word_less_nat_alt unsigned_minus_1_eq_mask mask_eq_exp_minus_1)
  finally have "unat (sat_add (used w) (amount r n)) = unat (used w) + unat (amount r n)"
    by (simp add: unat_sat_add min_def split: if_splits)
  with le show ?thesis by (auto simp: room_def used_spend, simp_all add: spend_def)
qed

lemma charge_room:
  assumes "t \<le> now" and "now < t + provider_budget_window" and "limit self < - 1"
  shows "room (unat (limit self)) used t (pb_windows (snd (charge self now k' r n)) k)
      + (if k' = k \<and> fst (charge self now k' r n) = Inr () then unat (amount r n) else 0)
    \<le> room (unat (limit self)) used t (pb_windows self k)"
proof -
  let ?ws = "retain_live now (pb_windows self)"
  note o = room_open [OF assms(1,2), of "unat (limit self)" "pb_windows self" k]
  show ?thesis
  proof (cases "k' = k")
    case True
    show ?thesis
      using o room_spend [of self "open_window now (?ws k)" r n t, OF _ assms(3)] True
      by (fastforce simp: charge_def Let_def)
  next
    case False
    then show ?thesis
      using room_retain [OF assms(2), of "unat (limit self)" used "pb_windows self" k]
      by (simp add: charge_def Let_def)
  qed
qed

lemma call_limit: "limit (snd (budget_call_step self c)) = limit self"
  by (cases "(self, c)" rule: budget_call_step.cases)
    (simp_all add: charge_def reconcile_actual_tokens_def limit_windows Let_def)

lemma call_room:
  assumes "t \<le> now" and "now < t + provider_budget_window" and "limit self < - 1"
  shows "room (unat (limit self)) used t (pb_windows (snd (budget_call_step self (k', now, c))) k)
      + (if k' = k \<and> fst (budget_call_step self (k', now, c)) = Inr () then call_cost amount c else 0)
    \<le> room (unat (limit self)) used t (pb_windows self k)"
proof (cases c)
  case (Charge r n)
  then show ?thesis using charge_room [OF assms, of k' r n k] by (auto split: if_splits)
next
  case (ReconcileTokens reserved actual)
  then show ?thesis
    using charge_room [OF assms, of k' 0 "actual - reserved" k]
    by (auto simp: reconcile_actual_tokens_def split: if_splits)
qed

lemma spent_after:
  assumes "limit self < - 1" and "\<forall>c\<in>set calls. t \<le> fst (snd c)" and "sorted (map (\<lambda>c. fst (snd c)) calls)"
  shows "spent_within amount k t (zip calls (budget_run self calls))
    \<le> room (unat (limit self)) used t (pb_windows self k)"
  using assms
proof (induction calls arbitrary: self)
  case (Cons c cs)
  obtain k' now call where c: "c = (k', now, call)" by (cases c)
  show ?case
  proof (cases "now < t + provider_budget_window")
    case True
    have "t \<le> now" using Cons.prems c by simp
    from call_room [OF this True Cons.prems(1), of k' call k]
      Cons.IH [of "snd (budget_call_step self c)"] Cons.prems c True show ?thesis
      by (auto simp: case_prod_beta call_limit split: if_splits)
  next
    case False
    have "\<forall>p\<in>set (zip (c # cs) (budget_run self (c # cs))). t + provider_budget_window \<le> fst (snd (fst p))"
      using False Cons.prems(3) c by (fastforce dest: set_zip_leftD)
    then show ?thesis by (simp only: spent_late)
  qed
qed simp

lemma spent_bound:
  assumes "limit self < - 1" and "sorted (map (\<lambda>c. fst (snd c)) calls)"
  shows "spent_within amount k t (zip calls (budget_run self calls)) \<le> 2 * unat (limit self)"
  using assms
proof (induction calls arbitrary: self)
  case (Cons c cs)
  show ?case
  proof (cases "t \<le> fst (snd c)")
    case True
    have "\<forall>x\<in>set (c # cs). t \<le> fst (snd x)" using True Cons.prems by fastforce
    from spent_after [OF Cons.prems(1) this Cons.prems(2)] room_le show ?thesis by (meson le_trans)
  next
    case False
    with Cons.IH [of "snd (budget_call_step self c)"] Cons.prems show ?thesis
      by (cases c) (auto simp: case_prod_beta call_limit)
  qed
qed simp

end

interpretation tokens: budget_dimension pb_max_tokens bw_tokens "\<lambda>r n. n"
  by unfold_locales (auto simp: fresh_window_def spend_def over_budget_def)

interpretation requests: budget_dimension pb_max_requests bw_requests "\<lambda>r n. r"
  by unfold_locales (auto simp: fresh_window_def spend_def over_budget_def)

section \<open>Properties\<close>

definition sample_budget_calls :: "(string \<times> int \<times> budget_call) list" where
  "sample_budget_calls =
     [(''a'', 0, Charge 1 60), (''b'', 1, Charge 1 90), (''a'', 2, Charge 1 60), (''a'', 3, ReconcileTokens 60 90)]"

text \<open>
  C28: the provider budget holds each principal to its own account. For calls in the order of their
  instants, the verdicts of a principal are those of a table that only it uses, and in any interval
  of the length of a window the accepted calls charge it at most twice the configured requests and
  tokens, reconciliations included (the limits being below the saturation point of a counter).
\<close>

theorem budget_per_principal:
  assumes "sorted (t0 # map (\<lambda>c. fst (snd c)) calls)"
    and "pb_max_requests self < - 1" and "pb_max_tokens self < - 1"
  shows "map snd (filter (\<lambda>p. fst (fst p) = k) (zip calls (budget_run self calls)))
      = budget_run self (filter (\<lambda>c. fst c = k) calls)
    \<and> spent_within (\<lambda>r n. r) k t (zip calls (budget_run self calls)) \<le> 2 * unat (pb_max_requests self)
    \<and> spent_within (\<lambda>r n. n) k t (zip calls (budget_run self calls)) \<le> 2 * unat (pb_max_tokens self)"
proof (intro conjI)
  show "map snd (filter (\<lambda>p. fst (fst p) = k) (zip calls (budget_run self calls)))
      = budget_run self (filter (\<lambda>c. fst c = k) calls)"
    by (rule budget_run_own [OF _ assms(1)]) (simp add: agree_on_def)
qed (use assms in \<open>auto intro: tokens.spent_bound requests.spent_bound\<close>)

theorem budget_per_principal_witness:
  "spent_within (\<lambda>r n. n) ''a'' 0
     (zip sample_budget_calls (budget_run (provider_budget_new 5 100) sample_budget_calls)) \<le> 200"
  using budget_per_principal [of 0 sample_budget_calls "provider_budget_new 5 100" "''a''" 0]
  by (simp add: sample_budget_calls_def provider_budget_new_def)

text \<open>
  Use beyond the reservation is charged only if it still fits: a failed reconciliation leaves the
  account as it was, so later calls of the window are admitted as if the reservation had been kept.
\<close>

lemma failed_reconciliation_uncharged:
  assumes "fst (reconcile_actual_tokens self now k reserved actual) = Inl e"
    and "live_window now self k = Some w"
  shows "live_window now (snd (reconcile_actual_tokens self now k reserved actual)) k = Some w"
  using assms
  by (auto simp: reconcile_actual_tokens_def charge_def live_window_def retain_live_def open_window_def Let_def
      split: if_splits option.splits)

lemma reported_total_wraps:
  "map_option tu_total_tokens (token_usage_from_value (Some (JObject
      [(''input_tokens'', JNumber (PosInt (- 1))), (''output_tokens'', JNumber (PosInt 1))]))) = Some (Some 0)"
  by code_simp

end
