(* ===== verification/Sse_Decoder.thy ===== *)
theory Sse_Decoder
  imports Provider_Budget
begin

text \<open>
  Server-sent events from a provider (\<open>IncrementalSseDecoder\<close> of \<open>llm.rs\<close>): bytes arrive in chunks,
  complete lines are decoded, an empty line ends a message. Shown: the messages do not depend on how
  the bytes were cut into chunks.
\<close>

section \<open>UTF-8\<close>

text \<open>
  \<open>str::from_utf8\<close> accepts well-formed UTF-8: no overlong form, no surrogate, nothing beyond U+10FFFF
  (Unicode, table 3-7). \<open>well_formed_char\<close> is one character of it.
\<close>

definition byte_in :: "nat \<Rightarrow> nat \<Rightarrow> char \<Rightarrow> bool" where
  "byte_in lo hi c = (lo \<le> (of_char c :: nat) \<and> (of_char c :: nat) \<le> hi)"

definition well_formed_char :: "string \<Rightarrow> bool" where
  "well_formed_char c =
     (case c of
        [a] \<Rightarrow> byte_in 0 0x7F a
      | [a, b] \<Rightarrow> byte_in 0xC2 0xDF a \<and> is_cont b
      | [a, b, d] \<Rightarrow>
          is_cont b \<and> is_cont d
          \<and> (byte_in 0xE0 0xE0 a \<and> byte_in 0xA0 0xBF b \<or> byte_in 0xE1 0xEC a
             \<or> byte_in 0xED 0xED a \<and> byte_in 0x80 0x9F b \<or> byte_in 0xEE 0xEF a)
      | [a, b, d, e] \<Rightarrow>
          is_cont b \<and> is_cont d \<and> is_cont e
          \<and> (byte_in 0xF0 0xF0 a \<and> byte_in 0x90 0xBF b \<or> byte_in 0xF1 0xF3 a
             \<or> byte_in 0xF4 0xF4 a \<and> byte_in 0x80 0x8F b)
      | _ \<Rightarrow> False)"

definition valid_utf8 :: "string \<Rightarrow> bool" where
  "valid_utf8 s = list_all well_formed_char (chars s)"

section \<open>The code\<close>

definition invalid_llm_output :: api_error where
  "invalid_llm_output = Upstream ''LLM response did not contain valid output text''"

record sse_message =
  sm_event :: "string option"
  sm_data :: string

record sse_decoder =
  sd_line_buffer :: string
  sd_event :: "string option"
  sd_data_lines :: "string list"

definition sse_new :: sse_decoder where
  "sse_new = \<lparr>sd_line_buffer = [], sd_event = None, sd_data_lines = []\<rparr>"

text \<open>The field of a line and its value, without the one space that may follow the colon.\<close>

definition sse_field :: "string \<Rightarrow> string \<times> string" where
  "sse_field line =
     (case split_once '':'' line of
        None \<Rightarrow> (line, [])
      | Some (field, v) \<Rightarrow> (field, if starts_with v '' '' then tl v else v))"

definition process_line :: "sse_decoder \<Rightarrow> string \<Rightarrow> sse_message list \<times> sse_decoder" where
  "process_line self line =
     (if line = [] then
        (if sd_data_lines self \<noteq> []
         then ([\<lparr>sm_event = sd_event self, sm_data = join [CHR 0x0A] (sd_data_lines self)\<rparr>],
               self\<lparr>sd_event := None, sd_data_lines := []\<rparr>)
         else ([], self\<lparr>sd_event := None\<rparr>))
      else if starts_with line '':'' then ([], self)
      else (case sse_field line of (field, v) \<Rightarrow>
        if field = ''event'' then ([], self\<lparr>sd_event := Some v\<rparr>)
        else if field = ''data'' then ([], self\<lparr>sd_data_lines := sd_data_lines self @ [v]\<rparr>)
        else ([], self)))"

lemma process_line_buffer [simp]: "sd_line_buffer (snd (process_line self line)) = sd_line_buffer self"
  by (simp add: process_line_def split: prod.split)

lemma length_rest:
  "CHR 0x0A \<in> set s \<Longrightarrow> length (tl (dropWhile (\<lambda>b. b \<noteq> CHR 0x0A) s)) < length s"
  by (induction s) auto

lemma process_line_buffer_of:
  "process_line self line = (ms, self') \<Longrightarrow> sd_line_buffer self' = sd_line_buffer self"
  by (metis process_line_buffer snd_conv)

definition strip_cr :: "string \<Rightarrow> string" where
  "strip_cr line = (if line \<noteq> [] \<and> last line = CHR 0x0D then butlast line else line)"

text \<open>The loop over the complete lines of the buffer, and \<open>push\<close>.\<close>

function sse_lines :: "sse_decoder \<Rightarrow> api_error + (sse_message list \<times> sse_decoder)" where
  "sse_lines self =
     (if CHR 0x0A \<in> set (sd_line_buffer self) then
        (let line = strip_cr (takeWhile (\<lambda>b. b \<noteq> CHR 0x0A) (sd_line_buffer self));
             rest = tl (dropWhile (\<lambda>b. b \<noteq> CHR 0x0A) (sd_line_buffer self))
         in if \<not> valid_utf8 line then Inl invalid_llm_output
            else (case process_line (self\<lparr>sd_line_buffer := rest\<rparr>) line of (ms, self') \<Rightarrow>
              rbind (sse_lines self') (\<lambda>(ns, self''). Inr (ms @ ns, self''))))
      else Inr ([], self))"
  by pat_completeness auto

termination
  by (relation "measure (\<lambda>d. length (sd_line_buffer d))")
    (auto dest!: process_line_buffer_of [OF sym] simp: length_rest simp del: length_tl)

declare sse_lines.simps [simp del]

definition sse_push :: "sse_decoder \<Rightarrow> string \<Rightarrow> api_error + (sse_message list \<times> sse_decoder)" where
  "sse_push self chunk = sse_lines (self\<lparr>sd_line_buffer := sd_line_buffer self @ chunk\<rparr>)"

definition sse_finish :: "sse_decoder \<Rightarrow> api_error + unit" where
  "sse_finish self =
     ensure (sd_line_buffer self = [] \<and> sd_event self = None \<and> sd_data_lines self = []) invalid_llm_output"

section \<open>Chunks\<close>

text \<open>The messages of a sequence of chunks.\<close>

fun sse_run :: "sse_decoder \<Rightarrow> string list \<Rightarrow> api_error + (sse_message list \<times> sse_decoder)" where
  "sse_run self [] = Inr ([], self)"
| "sse_run self (c # cs) =
     rbind (sse_push self c) (\<lambda>(ms, self'). rbind (sse_run self' cs) (\<lambda>(ns, self''). Inr (ms @ ns, self'')))"

lemma process_line_buffer_update:
  "process_line (self\<lparr>sd_line_buffer := b\<rparr>) line
     = (fst (process_line self line), (snd (process_line self line))\<lparr>sd_line_buffer := b\<rparr>)"
  by (simp add: process_line_def split: prod.split)

lemma rbind_assoc: "rbind (rbind r f) g = rbind r (\<lambda>x. rbind (f x) g)"
  by (simp add: rbind_def split: sum.splits)

lemma sse_lines_append:
  "sse_lines (self\<lparr>sd_line_buffer := sd_line_buffer self @ b\<rparr>)
     = rbind (sse_lines self) (\<lambda>(ms, self').
         rbind (sse_lines (self'\<lparr>sd_line_buffer := sd_line_buffer self' @ b\<rparr>)) (\<lambda>(ns, self''). Inr (ms @ ns, self'')))"
proof (induction self rule: sse_lines.induct)
  case (1 self)
  let ?nl = "\<lambda>b. b \<noteq> CHR 0x0A" and ?s = "sd_line_buffer self"
  show ?case
  proof (cases "CHR 0x0A \<in> set ?s")
    case False
    then have "sse_lines self = Inr ([], self)" by (subst sse_lines.simps) simp
    then show ?thesis by (simp add: rbind_def split: sum.split)
  next
    case True
    let ?line = "strip_cr (takeWhile ?nl ?s)" and ?rest = "tl (dropWhile ?nl ?s)"
    have tw: "takeWhile ?nl (?s @ b) = takeWhile ?nl ?s"
      and dw: "tl (dropWhile ?nl (?s @ b)) = ?rest @ b"
      using True by (auto simp: dropWhile_append takeWhile_append dropWhile_eq_Nil_conv tl_append2)
    obtain ms nxt where p: "process_line (self\<lparr>sd_line_buffer := ?rest\<rparr>) ?line = (ms, nxt)" by fastforce
    then have nb: "sd_line_buffer nxt = ?rest" using process_line_buffer_of by fastforce
    have pb: "process_line (self\<lparr>sd_line_buffer := ?rest @ b\<rparr>) ?line = (ms, nxt\<lparr>sd_line_buffer := ?rest @ b\<rparr>)"
      using p unfolding process_line_buffer_update by (auto simp: prod_eq_iff)
    show ?thesis
    proof (cases "valid_utf8 ?line")
      case False
      then show ?thesis
        using True tw dw by (subst (1 2) sse_lines.simps) (simp add: Let_def)
    next
      case valid: True
      have l: "sse_lines self = rbind (sse_lines nxt) (\<lambda>(ns, s). Inr (ms @ ns, s))"
        using True valid p by (subst sse_lines.simps) (simp add: Let_def)
      have r: "sse_lines (self\<lparr>sd_line_buffer := ?s @ b\<rparr>)
          = rbind (sse_lines (nxt\<lparr>sd_line_buffer := ?rest @ b\<rparr>)) (\<lambda>(ns, s). Inr (ms @ ns, s))"
        using True valid tw dw pb by (subst sse_lines.simps) (simp add: Let_def)
      have ih: "sse_lines (nxt\<lparr>sd_line_buffer := ?rest @ b\<rparr>)
          = rbind (sse_lines nxt) (\<lambda>(ms, s). rbind (sse_lines (s\<lparr>sd_line_buffer := sd_line_buffer s @ b\<rparr>))
              (\<lambda>(ns, s'). Inr (ms @ ns, s')))"
        using "1.IH" [OF True refl refl] valid p nb by simp
      show ?thesis unfolding l r ih by (simp add: rbind_def split: sum.splits prod.splits)
    qed
  qed
qed

lemma sse_push_append:
  "sse_push self (a @ b)
     = rbind (sse_push self a) (\<lambda>(ms, self'). rbind (sse_push self' b) (\<lambda>(ns, self''). Inr (ms @ ns, self'')))"
  using sse_lines_append [of "self\<lparr>sd_line_buffer := sd_line_buffer self @ a\<rparr>" b] by (simp add: sse_push_def)

lemma sse_push_Nil:
  "CHR 0x0A \<notin> set (sd_line_buffer self) \<Longrightarrow> sse_push self [] = Inr ([], self)"
  by (simp add: sse_push_def) (subst sse_lines.simps, simp)

lemma sse_lines_rest:
  "sse_lines self = Inr (ms, self') \<Longrightarrow> CHR 0x0A \<notin> set (sd_line_buffer self')"
proof (induction self arbitrary: ms rule: sse_lines.induct)
  case (1 self)
  then show ?case
    by (subst (asm) (2) sse_lines.simps) (fastforce simp: Let_def rbind_Inr split: if_splits prod.splits)
qed

lemma sse_run_concat:
  assumes "CHR 0x0A \<notin> set (sd_line_buffer self)"
  shows "sse_run self chunks = sse_push self (concat chunks)"
  using assms
proof (induction chunks arbitrary: self)
  case Nil
  then show ?case by (simp add: sse_push_Nil)
next
  case (Cons c cs)
  have "sse_run s cs = sse_push s (concat cs)" if "sse_push self c = Inr (ms, s)" for ms s
    using that sse_lines_rest Cons.IH unfolding sse_push_def by blast
  then show ?case by (auto simp: sse_push_append rbind_def split: sum.splits)
qed

end
