(* ===== verification/Responses_Decoder.thy ===== *)
theory Responses_Decoder
  imports Sse_Decoder
begin

text \<open>
  The decoder of a streamed response (\<open>ResponsesSseDecoder\<close> of \<open>llm.rs\<close>): deltas are delivered while
  they arrive, and the end of the stream is accepted only when the provider's final response repeats
  what was streamed, by length and SHA-256 of each text part. \<open>parse\<close> is \<open>serde_json::from_str\<close> and
  \<open>sha\<close> the digest; the incremental hasher is the text it has absorbed.
\<close>

section \<open>State\<close>

record text_fingerprint =
  tf_bytes :: u64
  tf_sha256 :: string

definition fingerprint_from_text :: "(string \<Rightarrow> string) \<Rightarrow> string \<Rightarrow> text_fingerprint" where
  "fingerprint_from_text sha s =
     \<lparr>tf_bytes = (if length s < 2 ^ 64 then of_nat (length s) else - 1), tf_sha256 = sha s\<rparr>"

text \<open>Output index and content index, in the order of the derived \<open>Ord\<close>.\<close>

type_synonym part_key = "u64 \<times> u64"

datatype part_mode = ModeUnknown | ModeLegacySingle | ModeIndexed

record streamed_part =
  stp_item_id :: "string option"
  stp_delta_hasher :: string
  stp_delta_bytes :: u64
  stp_saw_delta :: bool
  stp_done :: "text_fingerprint option"

definition streamed_part_default :: streamed_part where
  "streamed_part_default =
     \<lparr>stp_item_id = None, stp_delta_hasher = [], stp_delta_bytes = 0, stp_saw_delta = False, stp_done = None\<rparr>"

definition delta_fingerprint :: "(string \<Rightarrow> string) \<Rightarrow> streamed_part \<Rightarrow> text_fingerprint" where
  "delta_fingerprint sha part = \<lparr>tf_bytes = stp_delta_bytes part, tf_sha256 = sha (stp_delta_hasher part)\<rparr>"

definition observe_item_id :: "streamed_part \<Rightarrow> string option \<Rightarrow> api_error + streamed_part" where
  "observe_item_id part item_id =
     (case (stp_item_id part, item_id) of
        (Some existing, Some incoming) \<Rightarrow> if existing \<noteq> incoming then Inl invalid_llm_output else Inr part
      | (None, Some incoming) \<Rightarrow> Inr (part\<lparr>stp_item_id := Some incoming\<rparr>)
      | _ \<Rightarrow> Inr part)"

record final_part =
  fp_key :: part_key
  fp_item_id :: "string option"
  fp_text :: string

record provider_terminal =
  pt_fallback_text :: "string option"
  pt_usage :: "token_usage option"

record responses_decoder =
  rd_sse :: sse_decoder
  rd_mode :: part_mode
  rd_parts :: "(part_key, streamed_part) btree_map"
  rd_output_item_ids :: "(u64, string) btree_map"
  rd_last_text_part :: "part_key option"
  rd_saw_delta :: bool
  rd_saw_non_whitespace_delta :: bool
  rd_allow_empty_terminal_output :: bool
  rd_completed :: "provider_terminal option"

definition responses_decoder_new :: "bool \<Rightarrow> responses_decoder" where
  "responses_decoder_new allow_empty =
     \<lparr>rd_sse = sse_new, rd_mode = ModeUnknown, rd_parts = [], rd_output_item_ids = [], rd_last_text_part = None,
      rd_saw_delta = False, rd_saw_non_whitespace_delta = False,
      rd_allow_empty_terminal_output = allow_empty, rd_completed = None\<rparr>"

section \<open>Text parts\<close>

text \<open>An optional \<open>item_id\<close> or \<open>id\<close>: absent, or a string that is not empty.\<close>

definition optional_id :: "json option \<Rightarrow> api_error + string option" where
  "optional_id v =
     (case v of
        None \<Rightarrow> Inr None
      | Some (JString s) \<Rightarrow> if s \<noteq> [] then Inr (Some s) else Inl invalid_llm_output
      | _ \<Rightarrow> Inl invalid_llm_output)"

definition part_index :: "json \<Rightarrow> api_error + part_key option" where
  "part_index v =
     (case (json_get v ''output_index'', json_get v ''content_index'') of
        (Some output_index, Some content_index) \<Rightarrow>
          rbind (ok_or (json_as_u64 output_index) invalid_llm_output) (\<lambda>i.
          rbind (ok_or (json_as_u64 content_index) invalid_llm_output) (\<lambda>j. Inr (Some (i, j))))
      | (None, None) \<Rightarrow> Inr None
      | _ \<Rightarrow> Inl invalid_llm_output)"

definition claim_output_item :: "responses_decoder \<Rightarrow> u64 \<Rightarrow> string \<Rightarrow> api_error + responses_decoder" where
  "claim_output_item self output_index item_id =
     (case bt_get (rd_output_item_ids self) output_index of
        Some existing \<Rightarrow> if existing \<noteq> item_id then Inl invalid_llm_output else Inr self
      | None \<Rightarrow> Inr (self\<lparr>rd_output_item_ids := bt_insert output_index item_id (rd_output_item_ids self)\<rparr>))"

definition text_part_identity ::
    "responses_decoder \<Rightarrow> json \<Rightarrow> api_error + (responses_decoder \<times> part_key \<times> string option)" where
  "text_part_identity self v =
     rbind (part_index v) (\<lambda>indexed.
     rbind (optional_id (json_get v ''item_id'')) (\<lambda>item_id.
       case indexed of
         Some key \<Rightarrow>
           (case item_id of
              None \<Rightarrow> Inl invalid_llm_output
            | Some item \<Rightarrow>
                if rd_mode self = ModeLegacySingle then Inl invalid_llm_output
                else rbind (claim_output_item (self\<lparr>rd_mode := ModeIndexed\<rparr>) (fst key) item) (\<lambda>self'.
                  Inr (self', key, item_id)))
       | None \<Rightarrow>
           if rd_mode self = ModeIndexed then Inl invalid_llm_output
           else Inr (self\<lparr>rd_mode := ModeLegacySingle\<rparr>, (0, 0), item_id)))"

definition part_done :: "responses_decoder \<Rightarrow> part_key \<Rightarrow> bool" where
  "part_done self key = (case bt_get (rd_parts self) key of None \<Rightarrow> False | Some part \<Rightarrow> stp_done part \<noteq> None)"

definition observe_part_order :: "responses_decoder \<Rightarrow> part_key \<Rightarrow> api_error + responses_decoder" where
  "observe_part_order self key =
     (case rd_last_text_part self of
        None \<Rightarrow> Inr (self\<lparr>rd_last_text_part := Some key\<rparr>)
      | Some previous \<Rightarrow>
          if key < previous then Inl invalid_llm_output
          else if previous < key then
            (if \<not> part_done self previous then Inl invalid_llm_output
             else Inr (self\<lparr>rd_last_text_part := Some key\<rparr>))
          else Inr self)"

text \<open>\<open>self.parts.entry(key).or_default()\<close> and the write through the entry.\<close>

definition part_entry :: "responses_decoder \<Rightarrow> part_key \<Rightarrow> streamed_part" where
  "part_entry self key = unwrap_or (bt_get (rd_parts self) key) streamed_part_default"

definition put_part :: "responses_decoder \<Rightarrow> part_key \<Rightarrow> streamed_part \<Rightarrow> responses_decoder" where
  "put_part self key part = self\<lparr>rd_parts := bt_insert key part (rd_parts self)\<rparr>"

section \<open>The final response\<close>

definition u64_from_index :: "nat \<Rightarrow> api_error + u64" where
  "u64_from_index n = (if n < 2 ^ 64 then Inr (of_nat n) else Inl invalid_llm_output)"

definition final_content_part ::
    "nat \<Rightarrow> string option \<Rightarrow> nat \<times> json \<Rightarrow> api_error + final_part list" where
  "final_content_part output_index item_id indexed =
     (case indexed of (content_index, part) \<Rightarrow>
       if json_get_str part ''type'' \<noteq> Some ''output_text'' then Inr []
       else rbind (ok_or (json_get_str part ''text'') invalid_llm_output) (\<lambda>t.
         rbind (u64_from_index output_index) (\<lambda>i.
         rbind (u64_from_index content_index) (\<lambda>j.
         Inr [\<lparr>fp_key = (i, j), fp_item_id = item_id, fp_text = t\<rparr>]))))"

definition final_item_parts :: "nat \<times> json \<Rightarrow> api_error + final_part list" where
  "final_item_parts indexed =
     (case indexed of (output_index, item) \<Rightarrow>
       case json_get item ''content'' of
         None \<Rightarrow> Inr []
       | Some content_value \<Rightarrow>
           rbind (ok_or (json_as_array content_value) invalid_llm_output) (\<lambda>content.
           rbind (optional_id (json_get item ''id'')) (\<lambda>item_id.
           rbind (rmap (final_content_part output_index item_id) (enumerate 0 content)) (\<lambda>parts.
           Inr (concat parts)))))"

definition final_response_text_parts :: "json \<Rightarrow> api_error + final_part list" where
  "final_response_text_parts response =
     rbind (ok_or (Option.bind (json_get response ''output'') json_as_array) invalid_llm_output) (\<lambda>output.
     rbind (rmap final_item_parts (enumerate 0 output)) (\<lambda>parts. Inr (concat parts)))"

definition item_id_mismatch :: "responses_decoder \<Rightarrow> streamed_part \<Rightarrow> final_part \<Rightarrow> bool" where
  "item_id_mismatch self streamed final =
     (case rd_mode self of
        ModeIndexed \<Rightarrow> stp_item_id streamed \<noteq> fp_item_id final
      | ModeLegacySingle \<Rightarrow>
          (case (stp_item_id streamed, fp_item_id final) of (Some s, Some f) \<Rightarrow> s \<noteq> f | _ \<Rightarrow> False)
      | ModeUnknown \<Rightarrow> True)"

definition validate_final_part ::
    "(string \<Rightarrow> string) \<Rightarrow> responses_decoder \<Rightarrow> streamed_part \<Rightarrow> final_part \<Rightarrow> api_error + unit" where
  "validate_final_part sha self streamed final =
     rbind (ok_or (stp_done streamed) invalid_llm_output) (\<lambda>finished.
       let completed = fingerprint_from_text sha (fp_text final)
       in ensure (\<not> (finished \<noteq> completed
            \<or> stp_saw_delta streamed \<and> delta_fingerprint sha streamed \<noteq> completed
            \<or> rd_saw_delta self \<and> \<not> stp_saw_delta streamed \<and> fp_text final \<noteq> []
            \<or> item_id_mismatch self streamed final)) invalid_llm_output)"

text \<open>The empty \<open>output\<close> of the ChatGPT Codex backend, and the texts of the parts one by one.\<close>

definition validate_empty_output :: "responses_decoder \<Rightarrow> api_error + string option" where
  "validate_empty_output self =
     (if \<not> rd_allow_empty_terminal_output self \<or> rd_mode self \<noteq> ModeIndexed \<or> length (rd_parts self) \<noteq> 1
        \<or> \<not> rd_saw_delta self \<or> \<not> rd_saw_non_whitespace_delta self
        \<or> list_ex (\<lambda>(k, part). \<not> stp_saw_delta part \<or> stp_done part = None) (rd_parts self)
      then Inl invalid_llm_output else Inr None)"

definition validate_indexed_part ::
    "(string \<Rightarrow> string) \<Rightarrow> responses_decoder \<Rightarrow> final_part \<Rightarrow> api_error + string" where
  "validate_indexed_part sha self final =
     rbind (ok_or (bt_get (rd_parts self) (fp_key final)) invalid_llm_output) (\<lambda>streamed.
     rbind (validate_final_part sha self streamed final) (\<lambda>_. Inr (fp_text final)))"

definition validated_text ::
    "(string \<Rightarrow> string) \<Rightarrow> responses_decoder \<Rightarrow> final_part list \<Rightarrow> api_error + string" where
  "validated_text sha self final_parts =
     (case rd_mode self of
        ModeLegacySingle \<Rightarrow>
          (case (rd_parts self, final_parts) of
             ([(k, streamed)], [final]) \<Rightarrow>
               rbind (validate_final_part sha self streamed final) (\<lambda>_. Inr (fp_text final))
           | _ \<Rightarrow> Inl invalid_llm_output)
      | ModeIndexed \<Rightarrow>
          if length final_parts \<noteq> length (rd_parts self) \<or> final_parts = [] then Inl invalid_llm_output
          else rbind (rmap (validate_indexed_part sha self) final_parts) (\<lambda>texts. Inr (concat texts))
      | ModeUnknown \<Rightarrow> Inl invalid_llm_output)"

definition validate_completed_parts ::
    "(string \<Rightarrow> string) \<Rightarrow> responses_decoder \<Rightarrow> json \<Rightarrow> api_error + string option" where
  "validate_completed_parts sha self response =
     (if json_get_str response ''status'' \<noteq> Some ''completed'' then Inl invalid_llm_output
      else rbind (ok_or (Option.bind (json_get response ''output'') json_as_array) invalid_llm_output) (\<lambda>output.
        if output = [] then validate_empty_output self
        else rbind (final_response_text_parts response) (\<lambda>final_parts.
          rbind (validated_text sha self final_parts) (\<lambda>t.
          if blank t then Inl invalid_llm_output else Inr (Some t)))))"

section \<open>Messages\<close>

text \<open>The writes for an accepted delta of the part \<open>key\<close>.\<close>

definition absorb_delta :: "responses_decoder \<Rightarrow> part_key \<Rightarrow> streamed_part \<Rightarrow> string \<Rightarrow> responses_decoder" where
  "absorb_delta self key part delta =
     (let self = put_part self key
            (part\<lparr>stp_delta_bytes := stp_delta_bytes part + of_nat (length delta),
                  stp_delta_hasher := stp_delta_hasher part @ delta, stp_saw_delta := True\<rparr>)
      in self\<lparr>rd_saw_delta := True,
              rd_saw_non_whitespace_delta := rd_saw_non_whitespace_delta self \<or> \<not> list_all is_ws (chars delta)\<rparr>)"

definition process_delta ::
    "responses_decoder \<Rightarrow> json \<Rightarrow> api_error + (responses_decoder \<times> string option)" where
  "process_delta self v =
     rbind (text_part_identity self v) (\<lambda>(self, key, item_id).
     rbind (observe_part_order self key) (\<lambda>self.
     rbind (ok_or (json_get_str v ''delta'') invalid_llm_output) (\<lambda>delta.
     rbind (observe_item_id (part_entry self key) item_id) (\<lambda>part.
     if stp_done part \<noteq> None \<or> 2 ^ 64 \<le> unat (stp_delta_bytes part) + length delta then Inl invalid_llm_output
     else Inr (absorb_delta self key part delta, if delta = [] then None else Some delta)))))"

definition process_done :: "(string \<Rightarrow> string) \<Rightarrow> responses_decoder \<Rightarrow> json \<Rightarrow> api_error + responses_decoder" where
  "process_done sha self v =
     rbind (text_part_identity self v) (\<lambda>(self, key, item_id).
     rbind (observe_part_order self key) (\<lambda>self.
     rbind (ok_or (json_get_str v ''text'') invalid_llm_output) (\<lambda>t.
     rbind (observe_item_id (part_entry self key) item_id) (\<lambda>part.
     let fingerprint = fingerprint_from_text sha t
     in if stp_done part \<noteq> None \<or> (stp_saw_delta part \<and> delta_fingerprint sha part \<noteq> fingerprint)
        then Inl invalid_llm_output
        else Inr (put_part self key (part\<lparr>stp_done := Some fingerprint\<rparr>))))))"

definition process_completed :: "(string \<Rightarrow> string) \<Rightarrow> responses_decoder \<Rightarrow> json \<Rightarrow> api_error + responses_decoder" where
  "process_completed sha self v =
     (case json_get v ''response'' of
        None \<Rightarrow> Inl invalid_llm_output
      | Some response \<Rightarrow>
          if \<not> json_is_object response then Inl invalid_llm_output
          else rbind (validate_completed_parts sha self response) (\<lambda>completed_text.
            rbind (if rd_saw_delta self then Inr None
                   else rbind (ok_or completed_text invalid_llm_output) (\<lambda>t. Inr (Some t))) (\<lambda>fallback_text.
            Inr (self\<lparr>rd_completed := Some \<lparr>pt_fallback_text = fallback_text,
                   pt_usage = token_usage_from_value (json_get response ''usage'')\<rparr>\<rparr>))))"

definition event_conflicts :: "sse_message \<Rightarrow> string \<Rightarrow> bool" where
  "event_conflicts message event_type =
     (case sm_event message of
        None \<Rightarrow> False
      | Some event \<Rightarrow> event \<noteq> [] \<and> event \<noteq> ''message'' \<and> event \<noteq> event_type)"

definition process_message ::
    "(string \<Rightarrow> json option) \<Rightarrow> (string \<Rightarrow> string) \<Rightarrow> responses_decoder \<Rightarrow> sse_message
      \<Rightarrow> api_error + (responses_decoder \<times> string option)" where
  "process_message parse sha self message =
     (if sm_data message = ''[DONE]'' then Inl invalid_llm_output
      else if rd_completed self \<noteq> None then Inl invalid_llm_output
      else
        rbind (ok_or (parse (sm_data message)) invalid_llm_output) (\<lambda>v.
        rbind (ok_or (json_get_str v ''type'') invalid_llm_output) (\<lambda>event_type.
        if event_conflicts message event_type then Inl invalid_llm_output
        else if event_type = ''response.output_text.delta'' then process_delta self v
        else if event_type = ''response.output_text.done'' then rbind (process_done sha self v) (\<lambda>self. Inr (self, None))
        else if event_type = ''response.completed'' then rbind (process_completed sha self v) (\<lambda>self. Inr (self, None))
        else if List.member [''response.failed'', ''response.incomplete'', ''error''] event_type
        then Inl invalid_llm_output
        else Inr (self, None))))"

text \<open>The deltas of the messages of a chunk.\<close>

fun process_messages ::
    "(string \<Rightarrow> json option) \<Rightarrow> (string \<Rightarrow> string) \<Rightarrow> responses_decoder \<Rightarrow> sse_message list
      \<Rightarrow> api_error + (string list \<times> responses_decoder)" where
  "process_messages parse sha self [] = Inr ([], self)"
| "process_messages parse sha self (m # ms) =
     rbind (process_message parse sha self m) (\<lambda>(self, event).
     rbind (process_messages parse sha self ms) (\<lambda>(events, self).
     Inr ((case event of None \<Rightarrow> events | Some delta \<Rightarrow> delta # events), self)))"

definition responses_push ::
    "(string \<Rightarrow> json option) \<Rightarrow> (string \<Rightarrow> string) \<Rightarrow> responses_decoder \<Rightarrow> string
      \<Rightarrow> api_error + (string list \<times> responses_decoder)" where
  "responses_push parse sha self chunk =
     rbind (sse_push (rd_sse self) chunk) (\<lambda>(messages, sse).
     process_messages parse sha (self\<lparr>rd_sse := sse\<rparr>) messages)"

definition responses_finish :: "responses_decoder \<Rightarrow> api_error + provider_terminal" where
  "responses_finish self =
     rbind (sse_finish (rd_sse self)) (\<lambda>_.
     rbind (ok_or (rd_completed self) invalid_llm_output) (\<lambda>terminal.
     if rd_parts self = [] \<or> list_ex (\<lambda>(k, part). stp_done part = None) (rd_parts self)
     then Inl invalid_llm_output else Inr terminal))"

text \<open>The chunks of a body, one after the other.\<close>

fun responses_run ::
    "(string \<Rightarrow> json option) \<Rightarrow> (string \<Rightarrow> string) \<Rightarrow> responses_decoder \<Rightarrow> string list
      \<Rightarrow> api_error + (string list \<times> responses_decoder)" where
  "responses_run parse sha self [] = Inr ([], self)"
| "responses_run parse sha self (c # cs) =
     rbind (responses_push parse sha self c) (\<lambda>(events, self).
     rbind (responses_run parse sha self cs) (\<lambda>(rest, self). Inr (events @ rest, self)))"

end
