(* ===== verification/Responses_Facts.thy ===== *)
theory Responses_Facts
  imports Responses_Decoder
begin

text \<open>
  What the response decoder guarantees: the outcome does not depend on the cut into chunks, and a
  stream that completes has delivered the text of the provider's final response.
\<close>

section \<open>Errors\<close>

text \<open>The decoder fails in one way only.\<close>

definition only_invalid :: "api_error + 'a \<Rightarrow> bool" where
  "only_invalid r = (\<forall>e. r = Inl e \<longrightarrow> e = invalid_llm_output)"

named_theorems invalid_intros

lemma only_invalid_basic [invalid_intros]:
  "only_invalid (Inr a)" "only_invalid (Inl invalid_llm_output)"
  "only_invalid (ok_or x invalid_llm_output)" "only_invalid (ensure b invalid_llm_output)"
  by (auto simp: only_invalid_def ok_or_def ensure_def split: option.splits)

lemma only_invalid_rbind [invalid_intros]:
  "only_invalid r \<Longrightarrow> (\<And>a. r = Inr a \<Longrightarrow> only_invalid (f a)) \<Longrightarrow> only_invalid (rbind r f)"
  by (auto simp: only_invalid_def rbind_def split: sum.splits)

lemma only_invalid_rmap [invalid_intros]: "(\<And>x. only_invalid (f x)) \<Longrightarrow> only_invalid (rmap f xs)"
proof (induction xs)
  case (Cons x xs)
  then show ?case unfolding rmap.simps by (intro only_invalid_rbind only_invalid_basic) auto
qed (simp add: only_invalid_basic)

lemma only_invalid_split [invalid_intros]:
  "(b \<Longrightarrow> only_invalid r) \<Longrightarrow> (\<not> b \<Longrightarrow> only_invalid s) \<Longrightarrow> only_invalid (if b then r else s)"
  "(x = None \<Longrightarrow> only_invalid r) \<Longrightarrow> (\<And>a. x = Some a \<Longrightarrow> only_invalid (f a)) \<Longrightarrow>
     only_invalid (case x of None \<Rightarrow> r | Some a \<Rightarrow> f a)"
  "(\<And>a b. p = (a, b) \<Longrightarrow> only_invalid (g a b)) \<Longrightarrow> only_invalid (case p of (a, b) \<Rightarrow> g a b)"
  by (auto split: option.split prod.split)

lemma optional_id_invalid [invalid_intros]: "only_invalid (optional_id v)"
  by (auto simp: optional_id_def intro!: invalid_intros split: option.split json.split)

lemma identity_invalid [invalid_intros]: "only_invalid (text_part_identity self v)"
  unfolding text_part_identity_def part_index_def claim_output_item_def by (intro invalid_intros)

lemma order_invalid [invalid_intros]: "only_invalid (observe_part_order self key)"
  unfolding observe_part_order_def by (intro invalid_intros)

lemma item_invalid [invalid_intros]: "only_invalid (observe_item_id part item_id)"
  unfolding observe_item_id_def by (intro invalid_intros)

lemma final_part_invalid [invalid_intros]: "only_invalid (validate_final_part sha self streamed final)"
  unfolding validate_final_part_def Let_def by (intro invalid_intros)

lemma final_parts_invalid [invalid_intros]: "only_invalid (final_response_text_parts response)"
  unfolding final_response_text_parts_def final_item_parts_def final_content_part_def u64_from_index_def
  by (intro invalid_intros)

lemma validated_text_invalid [invalid_intros]: "only_invalid (validated_text sha self final_parts)"
  unfolding validated_text_def validate_indexed_part_def
  by (auto intro!: invalid_intros split: part_mode.split list.split)

lemma completed_parts_invalid [invalid_intros]: "only_invalid (validate_completed_parts sha self response)"
  unfolding validate_completed_parts_def validate_empty_output_def by (intro invalid_intros)

lemma message_invalid [invalid_intros]: "only_invalid (process_message parse sha self m)"
  unfolding process_message_def process_delta_def process_done_def process_completed_def Let_def
  by (intro invalid_intros)

lemma messages_invalid [invalid_intros]: "only_invalid (process_messages parse sha self ms)"
  by (induction ms arbitrary: self) (auto intro!: invalid_intros)

lemma sse_lines_invalid [invalid_intros]: "only_invalid (sse_lines self)"
proof (induction self rule: sse_lines.induct)
  case (1 self)
  then show ?case by (subst sse_lines.simps) (auto simp: Let_def intro!: invalid_intros)
qed

lemma sse_push_invalid [invalid_intros]: "only_invalid (sse_push self chunk)"
  unfolding sse_push_def by (rule sse_lines_invalid)

lemma responses_push_invalid [invalid_intros]: "only_invalid (responses_push parse sha self chunk)"
  unfolding responses_push_def by (intro invalid_intros)

section \<open>Chunks\<close>

text \<open>The messages are processed without the line decoder.\<close>

definition with_sse :: "sse_decoder \<Rightarrow> responses_decoder \<times> 'a \<Rightarrow> responses_decoder \<times> 'a" where
  "with_sse s r = ((fst r)\<lparr>rd_sse := s\<rparr>, snd r)"

definition rmap_ok :: "('a \<Rightarrow> 'b) \<Rightarrow> 'e + 'a \<Rightarrow> 'e + 'b" where
  "rmap_ok f r = rbind r (\<lambda>a. Inr (f a))"

lemma rmap_ok_simps [simp]:
  "rmap_ok f (Inr a) = Inr (f a)" "rmap_ok f (Inl e) = Inl e"
  "rmap_ok f (rbind r g) = rbind r (\<lambda>a. rmap_ok f (g a))"
  "rmap_ok f (if b then x else y) = (if b then rmap_ok f x else rmap_ok f y)"
  by (simp_all add: rmap_ok_def rbind_assoc split: if_splits)

lemma rbind_rmap_ok [simp]: "rbind (rmap_ok f r) g = rbind r (\<lambda>a. g (f a))"
  by (simp add: rmap_ok_def rbind_assoc)

lemma rmap_ok_cases:
  "rmap_ok f (case x of None \<Rightarrow> a | Some y \<Rightarrow> g y) = (case x of None \<Rightarrow> rmap_ok f a | Some y \<Rightarrow> rmap_ok f (g y))"
  by (simp split: option.split)

lemma identity_sse:
  "text_part_identity (self\<lparr>rd_sse := s\<rparr>) v = rmap_ok (with_sse s) (text_part_identity self v)"
  by (auto simp: text_part_identity_def claim_output_item_def with_sse_def rmap_ok_def rbind_def split: sum.split option.split)

lemma order_sse:
  "observe_part_order (self\<lparr>rd_sse := s\<rparr>) key = rmap_ok (\<lambda>d. d\<lparr>rd_sse := s\<rparr>) (observe_part_order self key)"
  by (simp add: observe_part_order_def part_done_def split: option.split)

lemma part_sse [simp]:
  "part_entry (self\<lparr>rd_sse := s\<rparr>) key = part_entry self key"
  "put_part (self\<lparr>rd_sse := s\<rparr>) key part = (put_part self key part)\<lparr>rd_sse := s\<rparr>"
  by (simp_all add: part_entry_def put_part_def)

lemma sse_last [simp]:
  "self\<lparr>rd_sse := s, rd_saw_delta := b\<rparr> = self\<lparr>rd_saw_delta := b, rd_sse := s\<rparr>"
  "self\<lparr>rd_sse := s, rd_saw_non_whitespace_delta := b\<rparr> = self\<lparr>rd_saw_non_whitespace_delta := b, rd_sse := s\<rparr>"
  "self\<lparr>rd_sse := s, rd_completed := t\<rparr> = self\<lparr>rd_completed := t, rd_sse := s\<rparr>"
  by simp_all

lemma absorb_sse [simp]:
  "absorb_delta (self\<lparr>rd_sse := s\<rparr>) key part delta = (absorb_delta self key part delta)\<lparr>rd_sse := s\<rparr>"
  by (simp add: absorb_delta_def Let_def)

lemma validate_final_sse:
  "validate_final_part sha (self\<lparr>rd_sse := s\<rparr>) streamed final = validate_final_part sha self streamed final"
  by (simp add: validate_final_part_def item_id_mismatch_def)

lemma validate_sse: "validate_completed_parts sha (self\<lparr>rd_sse := s\<rparr>) response = validate_completed_parts sha self response"
proof -
  have "validate_indexed_part sha (self\<lparr>rd_sse := s\<rparr>) = validate_indexed_part sha self"
    by (rule ext) (simp add: validate_indexed_part_def validate_final_sse)
  note v = this
  have "validated_text sha (self\<lparr>rd_sse := s\<rparr>) = validated_text sha self"
    by (rule ext) (simp add: validated_text_def v validate_final_sse split: part_mode.split list.split)
  then show ?thesis
    by (simp add: validate_completed_parts_def validate_empty_output_def cong: if_cong)
qed

lemma delta_sse: "process_delta (self\<lparr>rd_sse := s\<rparr>) v = rmap_ok (with_sse s) (process_delta self v)"
  by (simp add: process_delta_def identity_sse order_sse with_sse_def case_prod_beta Let_def cong: if_cong)

lemma done_sse: "process_done sha (self\<lparr>rd_sse := s\<rparr>) v = rmap_ok (\<lambda>d. d\<lparr>rd_sse := s\<rparr>) (process_done sha self v)"
  by (simp add: process_done_def identity_sse order_sse with_sse_def case_prod_beta Let_def cong: if_cong)

lemma completed_sse:
  "process_completed sha (self\<lparr>rd_sse := s\<rparr>) v = rmap_ok (\<lambda>d. d\<lparr>rd_sse := s\<rparr>) (process_completed sha self v)"
  by (simp add: process_completed_def validate_sse rmap_ok_cases cong: if_cong option.case_cong)

lemma message_sse:
  "process_message parse sha (self\<lparr>rd_sse := s\<rparr>) m = rmap_ok (with_sse s) (process_message parse sha self m)"
  by (simp add: process_message_def delta_sse done_sse completed_sse with_sse_def cong: if_cong)

lemma messages_sse:
  "process_messages parse sha (self\<lparr>rd_sse := s\<rparr>) ms
     = rmap_ok (\<lambda>(events, d). (events, d\<lparr>rd_sse := s\<rparr>)) (process_messages parse sha self ms)"
  by (induction ms arbitrary: self) (simp_all add: message_sse with_sse_def case_prod_unfold cong: option.case_cong)

lemma rbind_return [simp]: "rbind r Inr = r"
  by (simp add: rbind_def split: sum.split)

lemma case_option_append [simp]:
  "(case e of None \<Rightarrow> xs | Some x \<Rightarrow> x # xs) @ ys = (case e of None \<Rightarrow> xs @ ys | Some x \<Rightarrow> x # xs @ ys)"
  by (simp split: option.split)

lemma messages_append:
  "process_messages parse sha self (ms @ ns)
     = rbind (process_messages parse sha self ms) (\<lambda>(es, d).
         rbind (process_messages parse sha d ns) (\<lambda>(fs, d). Inr (es @ fs, d)))"
  by (induction ms arbitrary: self) (simp_all add: rbind_assoc case_prod_unfold cong: option.case_cong)

lemma message_keeps_sse:
  "process_message parse sha self m = Inr (d, e) \<Longrightarrow> rd_sse d = rd_sse self"
  using message_sse [of parse sha "rd_sse self" self m] by (simp add: with_sse_def) (metis select_convs(1) surjective update_convs(1))

lemma messages_keep_sse:
  "process_messages parse sha self ms = Inr (es, d) \<Longrightarrow> rd_sse d = rd_sse self"
proof (induction ms arbitrary: self es)
  case (Cons m ms)
  then show ?case by (fastforce simp: rbind_Inr dest: message_keeps_sse)
qed simp

lemma responses_push_append:
  "responses_push parse sha self (a @ b)
     = rbind (responses_push parse sha self a) (\<lambda>(es, d).
         rbind (responses_push parse sha d b) (\<lambda>(fs, d). Inr (es @ fs, d)))"
proof (cases "sse_push (rd_sse self) a")
  case (Inl e)
  then show ?thesis by (simp add: responses_push_def sse_push_append)
next
  case (Inr r)
  obtain ms s where r: "r = (ms, s)" by fastforce
  show ?thesis
  proof (cases "process_messages parse sha (self\<lparr>rd_sse := s\<rparr>) ms")
    case (Inl e)
    then have e: "e = invalid_llm_output" using messages_invalid unfolding only_invalid_def by blast
    have "process_messages parse sha self ms = Inl e"
      using Inl by (simp add: messages_sse rmap_ok_def rbind_def split: sum.splits)
    then have "process_messages parse sha (self\<lparr>rd_sse := s'\<rparr>) (ms @ ns) = Inl e" for s' ns
      by (simp add: messages_append messages_sse rmap_ok_def)
    moreover have "sse_push s b = Inl e'  \<Longrightarrow> e' = e" for e'
      using sse_push_invalid unfolding only_invalid_def e by blast
    ultimately show ?thesis
      using Inr Inl by (cases "sse_push s b") (auto simp: responses_push_def sse_push_append r)
  next
    case run: (Inr q)
    obtain es d where q: "q = (es, d)" by fastforce
    have sse: "rd_sse d = s" using messages_keep_sse [of parse sha "self\<lparr>rd_sse := s\<rparr>" ms es d] run q by simp
    have "process_messages parse sha (self\<lparr>rd_sse := s'\<rparr>) ms = Inr (es, d\<lparr>rd_sse := s'\<rparr>)" for s'
      using messages_sse [of parse sha s' "self\<lparr>rd_sse := s\<rparr>" ms] run q by simp
    then show ?thesis
      using Inr run sse by (cases "sse_push s b") (auto simp: responses_push_def sse_push_append r q messages_append)
  qed
qed

lemma responses_push_rest:
  "responses_push parse sha self a = Inr (es, d) \<Longrightarrow> CHR 0x0A \<notin> set (sd_line_buffer (rd_sse d))"
  by (auto simp: responses_push_def rbind_Inr dest!: messages_keep_sse sse_lines_rest simp: sse_push_def)

lemma responses_run_concat:
  assumes "CHR 0x0A \<notin> set (sd_line_buffer (rd_sse self))"
  shows "responses_run parse sha self chunks = responses_push parse sha self (concat chunks)"
  using assms
proof (induction chunks arbitrary: self)
  case Nil
  then show ?case by (simp add: responses_push_def sse_push_Nil)
next
  case (Cons c cs)
  have "responses_run parse sha d cs = responses_push parse sha d (concat cs)"
    if "responses_push parse sha self c = Inr (es, d)" for es d
    using responses_push_rest [OF that] by (rule Cons.IH)
  then show ?case by (auto simp: responses_push_append rbind_def split: sum.splits)
qed

section \<open>The text that was streamed\<close>

lemma bt_insert_above:
  assumes "\<forall>a\<in>fst ` set m. a < k"
  shows "bt_insert k v m = m @ [(k, v)]" and "bt_insert k v (m @ [(k, w)]) = m @ [(k, v)]"
  using assms by (induction k v m rule: bt_insert.induct) (auto simp: not_less_iff_gr_or_eq)

definition part_ok :: "(string \<Rightarrow> string) \<Rightarrow> streamed_part \<Rightarrow> bool" where
  "part_ok sha p =
     ((\<not> stp_saw_delta p \<longrightarrow> stp_delta_hasher p = [])
      \<and> length (stp_delta_hasher p) < 2 ^ 64 \<and> stp_delta_bytes p = of_nat (length (stp_delta_hasher p))
      \<and> (stp_saw_delta p \<longrightarrow> stp_done p = None \<or> stp_done p = Some (fingerprint_from_text sha (stp_delta_hasher p))))"

lemma delta_fingerprint_text:
  "part_ok sha p \<Longrightarrow> delta_fingerprint sha p = fingerprint_from_text sha (stp_delta_hasher p)"
  by (simp add: part_ok_def delta_fingerprint_def fingerprint_from_text_def)

definition streamed_text :: "responses_decoder \<Rightarrow> string" where
  "streamed_text d = concat (map (\<lambda>(k, p). stp_delta_hasher p) (rd_parts d))"

text \<open>
  The invariant: the text absorbed by the parts, in the order of their keys, is the text delivered,
  because a delta is accepted for the last part or a new last one only.
\<close>

definition decoder_inv :: "(string \<Rightarrow> string) \<Rightarrow> responses_decoder \<Rightarrow> bool" where
  "decoder_inv sha d =
     (bt_inv (rd_parts d) \<and> (\<forall>(k, p)\<in>set (rd_parts d). part_ok sha p)
      \<and> (rd_saw_delta d \<longleftrightarrow> (\<exists>(k, p)\<in>set (rd_parts d). stp_saw_delta p))
      \<and> rd_last_text_part d = (if rd_parts d = [] then None else Some (fst (last (rd_parts d)))))"

lemma claim_keeps:
  assumes "claim_output_item d i x = Inr d'"
  shows "rd_parts d' = rd_parts d \<and> rd_saw_delta d' = rd_saw_delta d \<and> rd_last_text_part d' = rd_last_text_part d
    \<and> rd_completed d' = rd_completed d
    \<and> rd_allow_empty_terminal_output d' = rd_allow_empty_terminal_output d"
  using assms by (auto simp: claim_output_item_def split: option.splits if_splits)

lemma identity_keeps:
  assumes "text_part_identity d v = Inr (d', key, item_id)"
  shows "rd_parts d' = rd_parts d" "rd_saw_delta d' = rd_saw_delta d" "rd_last_text_part d' = rd_last_text_part d"
    "rd_completed d' = rd_completed d" "rd_allow_empty_terminal_output d' = rd_allow_empty_terminal_output d"
proof -
  obtain indexed item where i: "part_index v = Inr indexed" "optional_id (json_get v ''item_id'') = Inr item"
    using assms by (auto simp: text_part_identity_def rbind_Inr)
  have "rd_parts d' = rd_parts d \<and> rd_saw_delta d' = rd_saw_delta d \<and> rd_last_text_part d' = rd_last_text_part d
      \<and> rd_completed d' = rd_completed d \<and> rd_allow_empty_terminal_output d' = rd_allow_empty_terminal_output d"
    using assms i
    by (cases indexed; cases item) (auto simp: text_part_identity_def rbind_Inr dest!: claim_keeps split: if_splits)
  then show "rd_parts d' = rd_parts d" "rd_saw_delta d' = rd_saw_delta d" "rd_last_text_part d' = rd_last_text_part d"
    "rd_completed d' = rd_completed d" "rd_allow_empty_terminal_output d' = rd_allow_empty_terminal_output d"
    by blast+
qed

lemma order_keeps:
  assumes "observe_part_order d key = Inr d'"
  shows "rd_parts d' = rd_parts d" "rd_saw_delta d' = rd_saw_delta d" "rd_last_text_part d' = Some key"
    "rd_completed d' = rd_completed d" "rd_allow_empty_terminal_output d' = rd_allow_empty_terminal_output d"
  using assms by (auto simp: observe_part_order_def split: option.splits if_splits)

text \<open>Where the entry of an accepted key stands: it is the last one, or there is none yet.\<close>

lemma order_split:
  assumes inv: "decoder_inv sha d" and order: "observe_part_order d key = Inr d'"
  obtains xs where "\<forall>a\<in>fst ` set xs. a < key" "rd_parts d = xs" "part_entry d key = streamed_part_default"
  | xs p where "\<forall>a\<in>fst ` set xs. a < key" "rd_parts d = xs @ [(key, p)]" "part_entry d key = p" "part_ok sha p"
proof (cases "rd_parts d" rule: rev_cases)
  case Nil
  then show ?thesis using that(1) [of "[]"] by (simp add: part_entry_def unwrap_or_def)
next
  case (snoc xs e)
  obtain k p where e: "e = (k, p)" by fastforce
  have below: "\<forall>a\<in>fst ` set xs. a < k" using inv snoc by (auto simp: decoder_inv_def bt_inv_def sorted_wrt_append e)
  have "rd_last_text_part d = Some k" using inv snoc by (simp add: decoder_inv_def e)
  then consider "key = k" | "k < key" using order by (auto simp: observe_part_order_def split: if_splits)
  then show ?thesis
  proof cases
    case 1
    then have "bt_get (rd_parts d) key = Some p" using snoc e below by (force simp: map_add_def dest: map_of_SomeD split: option.split)
    with 1 snoc e below inv show ?thesis by (intro that(2) [of xs p]) (auto simp: part_entry_def unwrap_or_def decoder_inv_def)
  next
    case 2
    then have above: "\<forall>a\<in>fst ` set (rd_parts d). a < key" using below snoc e by fastforce
    then have "bt_get (rd_parts d) key = None" by (auto simp: bt_get_None_key)
    with above show ?thesis by (intro that(1) [of "rd_parts d"]) (auto simp: part_entry_def unwrap_or_def)
  qed
qed

lemma default_ok: "part_ok sha streamed_part_default"
  by (simp add: part_ok_def streamed_part_default_def)

lemma observe_item_same:
  assumes "observe_item_id p item_id = Inr p'"
  shows "stp_delta_hasher p' = stp_delta_hasher p" "stp_delta_bytes p' = stp_delta_bytes p"
    "stp_saw_delta p' = stp_saw_delta p" "stp_done p' = stp_done p"
  using assms by (auto simp: observe_item_id_def split: option.splits if_splits)

lemma entry_ok: "decoder_inv sha d \<Longrightarrow> part_ok sha (part_entry d key)"
  by (auto simp: decoder_inv_def part_entry_def unwrap_or_def default_ok dest: map_of_SomeD split: option.split)

text \<open>An update of the entry of an accepted key that adds \<open>delta\<close> to its text.\<close>

lemma put_part_inv:
  assumes inv: "decoder_inv sha d" and id: "text_part_identity d v = Inr (d1, key, item_id)"
    and order: "observe_part_order d1 key = Inr d2"
    and p: "part_ok sha p" "stp_delta_hasher p = stp_delta_hasher (part_entry d2 key) @ delta"
      "stp_saw_delta p \<longleftrightarrow> stp_saw_delta (part_entry d2 key) \<or> seen"
    and d3: "rd_parts d3 = rd_parts (put_part d2 key p)" "rd_saw_delta d3 = (rd_saw_delta d2 \<or> seen)"
      "rd_last_text_part d3 = rd_last_text_part d2"
  shows "decoder_inv sha d3 \<and> streamed_text d3 = streamed_text d @ delta"
proof -
  note keeps = identity_keeps [OF id] order_keeps [OF order]
  have inv1: "decoder_inv sha d1" using inv by (simp add: decoder_inv_def keeps)
  have entry: "part_entry d1 key = part_entry d2 key" by (simp add: part_entry_def keeps)
  from order_split [OF inv1 order] show ?thesis
  proof cases
    case (1 xs)
    then have new: "rd_parts d3 = xs @ [(key, p)]"
      using d3(1) by (simp add: put_part_def keeps bt_insert_above)
    have parts: "rd_parts d = xs" using 1(2) keeps by simp
    have p': "stp_delta_hasher p = delta" "stp_saw_delta p \<longleftrightarrow> seen"
      using p(2,3) 1(3) entry by (simp_all add: streamed_part_default_def)
    have "decoder_inv sha d3"
      using inv 1(1) p(1) p'(2) d3(2,3) keeps
      by (auto simp: decoder_inv_def new parts bt_inv_def sorted_wrt_append)
    then show ?thesis by (simp add: streamed_text_def new parts p')
  next
    case (2 xs q)
    then have new: "rd_parts d3 = xs @ [(key, p)]"
      using d3(1) by (simp add: put_part_def keeps bt_insert_above)
    have parts: "rd_parts d = xs @ [(key, q)]" using 2(2) keeps by simp
    have q: "stp_delta_hasher p = stp_delta_hasher q @ delta" "stp_saw_delta p \<longleftrightarrow> stp_saw_delta q \<or> seen"
      using p(2,3) 2(3) entry by simp_all
    have "decoder_inv sha d3"
      using inv p(1) q(2) d3(2,3) keeps by (auto simp: decoder_inv_def new parts bt_inv_def)
    then show ?thesis by (simp add: streamed_text_def new parts q)
  qed
qed

lemma delta_inv:
  assumes inv: "decoder_inv sha d" and run: "process_delta d v = Inr (d', event)"
  shows "decoder_inv sha d' \<and> streamed_text d' = streamed_text d @ unwrap_or event []"
proof -
  obtain d1 key item d2 delta p where
    id: "text_part_identity d v = Inr (d1, key, item)" and order: "observe_part_order d1 key = Inr d2"
    and p: "observe_item_id (part_entry d2 key) item = Inr p" "stp_done p = None"
      "unat (stp_delta_bytes p) + length delta < 2 ^ 64"
    and d': "d' = absorb_delta d2 key p delta" and event: "unwrap_or event [] = delta"
    using run by (auto simp: process_delta_def rbind_Inr not_le unwrap_or_def split: if_splits)
  note keeps = identity_keeps [OF id] order_keeps [OF order]
  have inv1: "decoder_inv sha d1" using inv by (simp add: decoder_inv_def keeps)
  have "part_ok sha (part_entry d2 key)" using entry_ok [OF inv1] by (simp add: part_entry_def keeps)
  then have "part_ok sha p" by (simp add: part_ok_def observe_item_same [OF p(1)])
  then have "length (stp_delta_hasher p) + length delta < 2 ^ 64"
    "stp_delta_bytes p = of_nat (length (stp_delta_hasher p))"
    using p(3) by (auto simp: part_ok_def unat_of_nat)
  then have ok: "part_ok sha (p\<lparr>stp_delta_bytes := stp_delta_bytes p + of_nat (length delta),
      stp_delta_hasher := stp_delta_hasher p @ delta, stp_saw_delta := True\<rparr>)"
    using p(2) by (simp add: part_ok_def)
  have "decoder_inv sha d' \<and> streamed_text d' = streamed_text d @ delta"
    by (rule put_part_inv [OF inv id order ok, where seen = True])
      (simp_all add: d' absorb_delta_def observe_item_same [OF p(1)] Let_def put_part_def)
  then show ?thesis by (simp add: event)
qed

lemma done_inv:
  assumes inv: "decoder_inv sha d" and run: "process_done sha d v = Inr d'"
  shows "decoder_inv sha d' \<and> streamed_text d' = streamed_text d"
proof -
  obtain d1 key item d2 t p where
    id: "text_part_identity d v = Inr (d1, key, item)" and order: "observe_part_order d1 key = Inr d2"
    and p: "observe_item_id (part_entry d2 key) item = Inr p"
      "stp_saw_delta p \<longrightarrow> delta_fingerprint sha p = fingerprint_from_text sha t"
    and d': "d' = put_part d2 key (p\<lparr>stp_done := Some (fingerprint_from_text sha t)\<rparr>)"
    using run by (auto simp: process_done_def rbind_Inr Let_def split: if_splits)
  note keeps = identity_keeps [OF id] order_keeps [OF order]
  have inv1: "decoder_inv sha d1" using inv by (simp add: decoder_inv_def keeps)
  have "part_ok sha (part_entry d2 key)" using entry_ok [OF inv1] by (simp add: part_entry_def keeps)
  then have "part_ok sha p" by (simp add: part_ok_def observe_item_same [OF p(1)])
  then have ok: "part_ok sha (p\<lparr>stp_done := Some (fingerprint_from_text sha t)\<rparr>)"
    using p(2) delta_fingerprint_text by (auto simp: part_ok_def)
  have "decoder_inv sha d' \<and> streamed_text d' = streamed_text d @ []"
    by (rule put_part_inv [OF inv id order ok, where seen = False])
      (simp_all add: d' observe_item_same [OF p(1)] put_part_def)
  then show ?thesis by simp
qed

lemma completed_keeps:
  assumes "process_completed sha d v = Inr d'"
  shows "rd_parts d' = rd_parts d" "rd_saw_delta d' = rd_saw_delta d" "rd_last_text_part d' = rd_last_text_part d"
    "decoder_inv sha' d' = decoder_inv sha' d" "streamed_text d' = streamed_text d"
    "rd_allow_empty_terminal_output d' = rd_allow_empty_terminal_output d"
proof -
  obtain c where d': "d' = d\<lparr>rd_completed := c\<rparr>"
    using assms by (cases "json_get v ''response''") (auto simp: process_completed_def rbind_Inr split: if_splits)
  show "rd_parts d' = rd_parts d" "rd_saw_delta d' = rd_saw_delta d" "rd_last_text_part d' = rd_last_text_part d"
    "decoder_inv sha' d' = decoder_inv sha' d" "streamed_text d' = streamed_text d"
    "rd_allow_empty_terminal_output d' = rd_allow_empty_terminal_output d"
    by (simp_all add: d' decoder_inv_def streamed_text_def)
qed

lemma message_cases:
  assumes "process_message parse sha d m = Inr (d', event)"
  obtains v where "parse (sm_data m) = Some v" "process_delta d v = Inr (d', event)"
  | v where "parse (sm_data m) = Some v" "process_done sha d v = Inr d'" "event = None"
  | v where "parse (sm_data m) = Some v" "json_get_str v ''type'' = Some ''response.completed''"
      "process_completed sha d v = Inr d'" "event = None"
  | "d' = d" "event = None"
  using assms by (auto simp: process_message_def rbind_Inr ok_or_Inr split: if_splits)

lemma message_inv:
  assumes inv: "decoder_inv sha d" and run: "process_message parse sha d m = Inr (d', event)"
  shows "decoder_inv sha d' \<and> streamed_text d' = streamed_text d @ unwrap_or event []"
  using run
proof (cases rule: message_cases)
  case (1 v)
  show ?thesis by (rule delta_inv [OF inv 1(2)])
next
  case (2 v)
  then show ?thesis using done_inv [OF inv 2(2)] by (simp add: unwrap_or_def)
next
  case (3 v)
  then show ?thesis using completed_keeps [OF 3(3)] inv by (simp add: unwrap_or_def)
next
  case 4
  then show ?thesis using inv by (simp add: unwrap_or_def)
qed

lemma messages_inv:
  "decoder_inv sha d \<Longrightarrow> process_messages parse sha d ms = Inr (es, d') \<Longrightarrow>
     decoder_inv sha d' \<and> streamed_text d' = streamed_text d @ concat es"
proof (induction ms arbitrary: d es)
  case (Cons m ms)
  then obtain d1 event rest where m: "process_message parse sha d m = Inr (d1, event)"
    and r: "process_messages parse sha d1 ms = Inr (rest, d')"
    and es: "es = (case event of None \<Rightarrow> rest | Some x \<Rightarrow> x # rest)"
    by (auto simp: rbind_Inr)
  have inv: "decoder_inv sha d1" and st: "streamed_text d1 = streamed_text d @ unwrap_or event []"
    using message_inv [OF Cons.prems(1) m] by blast+
  from Cons.IH [OF inv r] st show ?case by (simp add: es unwrap_or_def split: option.splits)
qed simp

section \<open>The end of the stream\<close>

lemma delta_completed: "process_delta d v = Inr (d', event) \<Longrightarrow> rd_completed d' = rd_completed d"
  by (auto simp: process_delta_def rbind_Inr absorb_delta_def put_part_def Let_def
      dest!: identity_keeps(4) order_keeps(4) split: if_splits)

lemma done_completed: "process_done sha d v = Inr d' \<Longrightarrow> rd_completed d' = rd_completed d"
  by (auto simp: process_done_def rbind_Inr put_part_def Let_def
      dest!: identity_keeps(4) order_keeps(4) split: if_splits)

lemma delta_allow:
  "process_delta d v = Inr (d', event) \<Longrightarrow> rd_allow_empty_terminal_output d' = rd_allow_empty_terminal_output d"
  by (auto simp: process_delta_def rbind_Inr absorb_delta_def put_part_def Let_def
      dest!: identity_keeps(5) order_keeps(5) split: if_splits)

lemma done_allow:
  "process_done sha d v = Inr d' \<Longrightarrow> rd_allow_empty_terminal_output d' = rd_allow_empty_terminal_output d"
  by (auto simp: process_done_def rbind_Inr put_part_def Let_def
      dest!: identity_keeps(5) order_keeps(5) split: if_splits)

lemma message_allow:
  assumes "process_message parse sha d m = Inr (d', event)"
  shows "rd_allow_empty_terminal_output d' = rd_allow_empty_terminal_output d"
  using assms by (cases rule: message_cases) (auto dest: delta_allow done_allow completed_keeps(6))

lemma messages_allow:
  "process_messages parse sha d ms = Inr (es, d') \<Longrightarrow>
     rd_allow_empty_terminal_output d' = rd_allow_empty_terminal_output d"
proof (induction ms arbitrary: d es)
  case (Cons m ms)
  then show ?case by (fastforce simp: rbind_Inr dest: message_allow)
qed simp

lemma message_after_completed: "rd_completed d \<noteq> None \<Longrightarrow> process_message parse sha d m \<noteq> Inr r"
  by (simp add: process_message_def)

text \<open>A completed decoder has received the completion last.\<close>

lemma completed_last:
  assumes "process_messages parse sha d ms = Inr (es, d')" and "rd_completed d = None" and "rd_completed d' \<noteq> None"
  obtains ms0 m d0 v where "ms = ms0 @ [m]" "process_messages parse sha d ms0 = Inr (es, d0)"
    "parse (sm_data m) = Some v" "json_get_str v ''type'' = Some ''response.completed''"
    "process_completed sha d0 v = Inr d'"
  using assms
proof (induction ms arbitrary: d es thesis)
  case (Cons m ms)
  obtain d1 event rest where m: "process_message parse sha d m = Inr (d1, event)"
    and r: "process_messages parse sha d1 ms = Inr (rest, d')"
    and es: "es = (case event of None \<Rightarrow> rest | Some x \<Rightarrow> x # rest)"
    using Cons.prems(2) by (auto simp: rbind_Inr)
  show ?case
  proof (cases "rd_completed d1 = None")
    case True
    from Cons.IH [OF _ r True Cons.prems(4)] obtain ms0 m' d0 v where last: "ms = ms0 @ [m']"
        "process_messages parse sha d1 ms0 = Inr (rest, d0)" "parse (sm_data m') = Some v"
        "json_get_str v ''type'' = Some ''response.completed''" "process_completed sha d0 v = Inr d'"
      by blast
    show ?thesis
      using last m es by (intro Cons.prems(1) [of "m # ms0" m' d0 v]) (simp_all add: es)
  next
    case False
    have ms: "ms = []"
    proof (cases ms)
      case (Cons m' ms')
      then show ?thesis using r message_after_completed [OF False] by (auto simp: rbind_Inr)
    qed
    from m show ?thesis
    proof (cases rule: message_cases)
      case (3 v)
      show ?thesis using 3 r es by (intro Cons.prems(1) [of "[]" m d v]) (simp_all add: ms)
    qed (use False Cons.prems(3) in \<open>auto dest: delta_completed done_completed\<close>)
  qed
qed simp

section \<open>The parts of the final response\<close>

lemma content_sorted:
  assumes "rmap (final_content_part i item_id) (enumerate n content) = Inr pss"
  shows "sorted_wrt (<) (map fp_key (concat pss))
    \<and> (\<forall>f\<in>set (concat pss). i < 2 ^ 64 \<and> fst (fp_key f) = of_nat i \<and> n \<le> unat (snd (fp_key f)))"
  using assms
proof (induction content arbitrary: n pss)
  case (Cons part content)
  then obtain ps rest where ps: "final_content_part i item_id (n, part) = Inr ps"
    and rest: "rmap (final_content_part i item_id) (enumerate (Suc n) content) = Inr rest" and pss: "pss = ps # rest"
    by (auto simp: rbind_Inr)
  note IH = Cons.IH [OF rest]
  from ps consider "ps = []" | f where "ps = [f]" "i < 2 ^ 64" "n < 2 ^ 64" "fp_key f = (of_nat i, of_nat n)"
    by (auto simp: final_content_part_def u64_from_index_def rbind_Inr split: if_splits)
  then show ?case
  proof cases
    case 1
    then show ?thesis using IH by (auto simp: pss dest: Suc_leD)
  next
    case 2
    have "fp_key f < fp_key g" if "g \<in> set (concat rest)" for g
      using IH that 2 by (cases "fp_key g") (force simp: less_prod_def word_less_nat_alt unat_of_nat)
    then show ?thesis using IH 2 by (auto simp: pss unat_of_nat dest: Suc_leD)
  qed
qed simp

lemma item_sorted:
  assumes "final_item_parts (n, item) = Inr ps"
  shows "sorted_wrt (<) (map fp_key ps) \<and> (\<forall>f\<in>set ps. n < 2 ^ 64 \<and> fst (fp_key f) = of_nat n)"
  using assms content_sorted by (fastforce simp: final_item_parts_def rbind_Inr split: option.splits)

lemma output_sorted:
  assumes "rmap final_item_parts (enumerate n items) = Inr pss"
  shows "sorted_wrt (<) (map fp_key (concat pss)) \<and> (\<forall>f\<in>set (concat pss). n \<le> unat (fst (fp_key f)))"
  using assms
proof (induction items arbitrary: n pss)
  case (Cons item items)
  then obtain ps rest where ps: "final_item_parts (n, item) = Inr ps"
    and rest: "rmap final_item_parts (enumerate (Suc n) items) = Inr rest" and pss: "pss = ps # rest"
    by (auto simp: rbind_Inr)
  note IH = Cons.IH [OF rest] and it = item_sorted [OF ps]
  have "fp_key f < fp_key g" if "f \<in> set ps" "g \<in> set (concat rest)" for f g
  proof -
    have "n < 2 ^ 64" "fst (fp_key f) = of_nat n" "Suc n \<le> unat (fst (fp_key g))" using IH it that by auto
    then have "fst (fp_key f) < fst (fp_key g)" by (simp add: word_less_nat_alt unat_of_nat)
    then show ?thesis by (simp add: less_prod_def')
  qed
  moreover have "n \<le> unat (fst (fp_key f))" if "f \<in> set ps" for f
    using it that by (auto simp: unat_of_nat)
  moreover have "n \<le> unat (fst (fp_key f))" if "f \<in> set (concat rest)" for f
    using IH that by (auto dest: Suc_leD)
  moreover have "sorted_wrt (<) (map fp_key (concat rest))" "sorted_wrt (<) (map fp_key ps)" using IH it by blast+
  ultimately have "sorted_wrt (<) (map fp_key ps @ map fp_key (concat rest))"
    and "\<forall>f\<in>set ps \<union> set (concat rest). n \<le> unat (fst (fp_key f))"
    unfolding sorted_wrt_append set_map by blast+
  then show ?case unfolding pss by simp
qed simp

lemma final_parts_sorted:
  "final_response_text_parts response = Inr fps \<Longrightarrow> sorted_wrt (<) (map fp_key fps)"
  using output_sorted by (auto simp: final_response_text_parts_def rbind_Inr)

text \<open>The validated parts and the streamed ones correspond, one to one and in order.\<close>

lemma validated_parts:
  assumes run: "validated_text sha d fps = Inr t" and sorted: "sorted_wrt (<) (map fp_key fps)"
    and inv: "bt_inv (rd_parts d)"
  shows "t = concat (map fp_text fps) \<and> fps \<noteq> []
    \<and> list_all2 (\<lambda>e f. validate_final_part sha d (snd e) f = Inr ()) (rd_parts d) fps"
proof (cases "rd_mode d")
  case ModeUnknown
  then show ?thesis using run by (simp add: validated_text_def)
next
  case ModeLegacySingle
  then obtain k p f where "rd_parts d = [(k, p)]" "fps = [f]" "validate_final_part sha d p f = Inr ()" "t = fp_text f"
    using run by (auto simp: validated_text_def rbind_Inr split: list.splits)
  then show ?thesis by simp
next
  case ModeIndexed
  then obtain texts where len: "length fps = length (rd_parts d)" "fps \<noteq> []"
    and texts: "rmap (validate_indexed_part sha d) fps = Inr texts" and t: "t = concat texts"
    using run by (auto simp: validated_text_def rbind_Inr split: if_splits)
  have each: "bt_get (rd_parts d) (fp_key (fps ! i)) \<noteq> None \<and> texts ! i = fp_text (fps ! i)
      \<and> validate_final_part sha d (the (bt_get (rd_parts d) (fp_key (fps ! i)))) (fps ! i) = Inr ()"
    if "i < length fps" for i
    using texts that by (auto simp: rmap_Inr validate_indexed_part_def rbind_Inr ok_or_Inr)
  have "texts = map fp_text fps" using texts each by (intro nth_equalityI) (auto simp: rmap_Inr)
  moreover have keys: "map fp_key fps = map fst (rd_parts d)"
  proof -
    have "set (map fp_key fps) \<subseteq> set (map fst (rd_parts d))"
      using each by (force simp: in_set_conv_nth dest: bt_get_Some_key)
    moreover have "card (set (map fp_key fps)) = card (set (map fst (rd_parts d)))"
      using sorted inv len unfolding bt_inv_def strict_sorted_iff by (metis distinct_card length_map)
    ultimately have "set (map fp_key fps) = set (map fst (rd_parts d))" by (intro card_subset_eq) auto
    then show ?thesis using sorted inv unfolding bt_inv_def by (metis strict_sorted_equal)
  qed
  moreover have "list_all2 (\<lambda>e f. validate_final_part sha d (snd e) f = Inr ()) (rd_parts d) fps"
    unfolding list_all2_conv_all_nth
  proof (intro conjI allI impI)
    fix i assume i: "i < length (rd_parts d)"
    obtain k p where e: "rd_parts d ! i = (k, p)" by fastforce
    have "(k, p) \<in> set (rd_parts d)" using i e by (metis nth_mem)
    then have "bt_get (rd_parts d) k = Some p" using bt_entry_get [OF inv] by blast
    moreover have "fp_key (fps ! i) = k" using keys i len e by (metis fst_conv nth_map)
    ultimately show "validate_final_part sha d (snd (rd_parts d ! i)) (fps ! i) = Inr ()"
      using each [of i] i len e by simp
  qed (simp add: len)
  ultimately show ?thesis using t len by simp
qed

section \<open>Properties\<close>

definition streamed_texts :: "responses_decoder \<Rightarrow> string set" where
  "streamed_texts d = set (map (\<lambda>(k, p). stp_delta_hasher p) (rd_parts d))"

definition final_texts :: "final_part list \<Rightarrow> string set" where
  "final_texts fps = set (map fp_text fps)"

text \<open>A validated part was streamed as its final text, or not at all.\<close>

lemma fingerprint_eq: "fingerprint_from_text sha a = fingerprint_from_text sha b \<Longrightarrow> sha a = sha b"
  by (simp add: fingerprint_from_text_def)

lemma validated_part_text:
  assumes "validate_final_part sha d p f = Inr ()" and "part_ok sha p" and "rd_saw_delta d"
    and "inj_on sha ts" and "stp_delta_hasher p \<in> ts" and "fp_text f \<in> ts"
  shows "stp_delta_hasher p = fp_text f"
proof (cases "stp_saw_delta p")
  case True
  then have "fingerprint_from_text sha (stp_delta_hasher p) = fingerprint_from_text sha (fp_text f)"
    using assms(1) delta_fingerprint_text [OF assms(2)] by (auto simp: validate_final_part_def rbind_Inr ensure_Inr Let_def)
  then show ?thesis using fingerprint_eq assms(4-6) by (meson inj_onD)
next
  case False
  then show ?thesis
    using assms(1-3) by (auto simp: validate_final_part_def rbind_Inr ensure_Inr Let_def part_ok_def)
qed

lemma validated_streamed:
  assumes "list_all2 (\<lambda>e f. validate_final_part sha d (snd e) f = Inr ()) parts fps"
    and "\<forall>(k, p)\<in>set parts. part_ok sha p" and "rd_saw_delta d"
    and "inj_on sha ts" and "\<forall>(k, p)\<in>set parts. stp_delta_hasher p \<in> ts" and "\<forall>f\<in>set fps. fp_text f \<in> ts"
  shows "concat (map (\<lambda>(k, p). stp_delta_hasher p) parts) = concat (map fp_text fps)"
  using assms(1,2,5,6)
proof (induction parts fps rule: list_all2_induct)
  case (Cons e parts f fps)
  have "stp_delta_hasher (snd e) = fp_text f"
    by (rule validated_part_text [OF Cons.hyps(1) _ assms(3,4)]) (use Cons.prems in \<open>auto simp: case_prod_beta\<close>)
  then show ?case using Cons by (simp add: case_prod_beta)
qed simp

lemma accepted_text:
  assumes inv: "decoder_inv sha d0" and run: "process_completed sha d0 v = Inr d"
  obtains response fallback where "json_get v ''response'' = Some response"
    "json_get_str response ''status'' = Some ''completed''"
    "map_option pt_fallback_text (rd_completed d) = Some fallback"
    "(json_get response ''output'' = Some (JArray []) \<and> rd_allow_empty_terminal_output d0 \<and> fallback = None
       \<and> (\<exists>k p. rd_parts d0 = [(k, p)] \<and> stp_saw_delta p))
     \<or> (\<exists>fps. final_response_text_parts response = Inr fps \<and> fps \<noteq> []
         \<and> \<not> blank (concat (map fp_text fps))
         \<and> (inj_on sha (streamed_texts d0 \<union> final_texts fps)
             \<longrightarrow> streamed_text d0 @ unwrap_or fallback [] = concat (map fp_text fps)))"
proof -
  obtain response where r: "json_get v ''response'' = Some response" "json_is_object response"
    using run by (cases "json_get v ''response''") (auto simp: process_completed_def split: if_splits)
  from run r have "rbind (validate_completed_parts sha d0 response) (\<lambda>completed_text.
      rbind (if rd_saw_delta d0 then Inr None
             else rbind (ok_or completed_text invalid_llm_output) (\<lambda>t. Inr (Some t))) (\<lambda>fallback_text.
      Inr (d0\<lparr>rd_completed := Some \<lparr>pt_fallback_text = fallback_text,
             pt_usage = token_usage_from_value (json_get response ''usage'')\<rparr>\<rparr>))) = Inr d"
    unfolding process_completed_def by simp
  then obtain completed fallback where val: "validate_completed_parts sha d0 response = Inr completed"
    and fb: "(if rd_saw_delta d0 then Inr None
        else rbind (ok_or completed invalid_llm_output) (\<lambda>t. Inr (Some t))) = Inr fallback"
    and d': "d = d0\<lparr>rd_completed := Some \<lparr>pt_fallback_text = fallback,
             pt_usage = token_usage_from_value (json_get response ''usage'')\<rparr>\<rparr>"
    by (auto simp only: rbind_Inr [of "validate_completed_parts sha d0 response"]
        rbind_Inr [of "if rd_saw_delta d0 then A else B" for A B] sum.inject)
  then have d: "map_option pt_fallback_text (rd_completed d) = Some fallback" by simp
  obtain items where items: "json_get response ''output'' = Some (JArray items)"
    and status: "json_get_str response ''status'' = Some ''completed''"
    using val by (auto simp: validate_completed_parts_def rbind_Inr ok_or_Inr bind_eq_Some_conv
        elim!: json_as_array.elims split: if_splits)
  show thesis
  proof (cases "items = []")
    case True
    then have e: "validate_empty_output d0 = Inr completed"
      using val items status by (simp add: validate_completed_parts_def)
    then obtain k p where "rd_parts d0 = [(k, p)]" "stp_saw_delta p" "rd_saw_delta d0"
      "rd_allow_empty_terminal_output d0"
      by (auto simp: validate_empty_output_def length_Suc_conv split: if_splits)
    then show thesis using that [OF r(1) status d] items True fb by simp
  next
    case False
    then obtain fps t where fps: "final_response_text_parts response = Inr fps"
      and t: "validated_text sha d0 fps = Inr t" "\<not> blank t" "completed = Some t"
      using val items status by (auto simp: validate_completed_parts_def rbind_Inr split: if_splits)
    have bt: "bt_inv (rd_parts d0)" using inv by (simp add: decoder_inv_def)
    note v = validated_parts [OF t(1) final_parts_sorted [OF fps] bt]
    have "streamed_text d0 @ unwrap_or fallback [] = concat (map fp_text fps)"
      if inj: "inj_on sha (streamed_texts d0 \<union> final_texts fps)"
    proof (cases "rd_saw_delta d0")
      case True
      then have "streamed_text d0 = concat (map fp_text fps)"
        unfolding streamed_text_def using v inv
        by (intro validated_streamed [OF _ _ True inj])
          (auto simp: decoder_inv_def streamed_texts_def final_texts_def)
      then show ?thesis using fb True by (simp add: unwrap_or_def)
    next
      case False
      then have "\<forall>e\<in>set (rd_parts d0). stp_delta_hasher (snd e) = []"
        using inv by (fastforce simp: decoder_inv_def part_ok_def)
      then have "streamed_text d0 = []" by (auto simp: streamed_text_def)
      moreover have "fallback = Some (concat (map fp_text fps))" using fb False t(3) v by simp
      ultimately show ?thesis by (simp add: unwrap_or_def)
    qed
    then show thesis using that [OF r(1) status d] fps v t(2) by metis
  qed
qed

text \<open>
  C30: how a provider's bytes are cut into network chunks does not matter: the decoder delivers the
  same deltas, ends in the same state or fails, as for the whole body at once.
\<close>

theorem responses_chunking:
  "responses_run parse sha (responses_decoder_new codex) chunks
     = responses_push parse sha (responses_decoder_new codex) (concat chunks)"
  by (rule responses_run_concat) (simp add: responses_decoder_new_def sse_new_def)

text \<open>
  C13: a stream that completes has delivered what the provider's final response says. The last message
  is the completion; either its output is empty, which only the Codex backend may send and for one
  streamed and finished part, whose fingerprint is that of the delivered text, or the deltas and the
  fallback together are the texts of the final response, not blank, provided the digest separates the
  texts of this stream.
\<close>

theorem completed_stream_text:
  assumes "responses_run parse sha (responses_decoder_new codex) chunks = Inr (deltas, d)"
    and "responses_finish d = Inr terminal"
  shows "\<exists>ms m v response. sse_push sse_new (concat chunks) = Inr (ms @ [m], rd_sse d)
    \<and> parse (sm_data m) = Some v \<and> json_get_str v ''type'' = Some ''response.completed''
    \<and> json_get v ''response'' = Some response \<and> json_get_str response ''status'' = Some ''completed''
    \<and> (let delivered = concat deltas @ unwrap_or (pt_fallback_text terminal) [] in
        (json_get response ''output'' = Some (JArray []) \<and> codex
         \<and> (\<exists>k p. rd_parts d = [(k, p)] \<and> stp_done p = Some (fingerprint_from_text sha delivered)))
      \<or> (\<exists>fps. final_response_text_parts response = Inr fps \<and> \<not> blank (concat (map fp_text fps))
         \<and> (inj_on sha (streamed_texts d \<union> final_texts fps) \<longrightarrow> delivered = concat (map fp_text fps))))"
proof -
  let ?new = "responses_decoder_new codex"
  have "responses_push parse sha ?new (concat chunks) = Inr (deltas, d)"
    using assms(1) responses_chunking by simp
  then obtain msgs s where sse: "sse_push sse_new (concat chunks) = Inr (msgs, s)"
    and run: "process_messages parse sha (?new\<lparr>rd_sse := s\<rparr>) msgs = Inr (deltas, d)"
    by (auto simp: responses_push_def rbind_Inr responses_decoder_new_def)
  have s: "rd_sse d = s" using messages_keep_sse [OF run] by simp
  have fin: "rd_completed d = Some terminal" "\<forall>(k, p)\<in>set (rd_parts d). stp_done p \<noteq> None"
    using assms(2) by (auto simp: responses_finish_def rbind_Inr ok_or_Inr list_ex_iff split: if_splits)
  have new: "rd_completed (?new\<lparr>rd_sse := s\<rparr>) = None" by (simp add: responses_decoder_new_def)
  from completed_last [OF run new] fin obtain ms m d0 v where
    last: "msgs = ms @ [m]" "process_messages parse sha (?new\<lparr>rd_sse := s\<rparr>) ms = Inr (deltas, d0)"
      "parse (sm_data m) = Some v" "json_get_str v ''type'' = Some ''response.completed''"
      "process_completed sha d0 v = Inr d"
    by blast
  have inv0: "decoder_inv sha (?new\<lparr>rd_sse := s\<rparr>)"
    by (simp add: decoder_inv_def responses_decoder_new_def)
  have inv: "decoder_inv sha d0" and text0: "streamed_text d0 = concat deltas"
    using messages_inv [OF inv0 last(2)] by (simp_all add: streamed_text_def responses_decoder_new_def)
  note keeps = completed_keeps [OF last(5)]
  have codex: "rd_allow_empty_terminal_output d0 = codex"
    using messages_allow [OF last(2)] by (simp add: responses_decoder_new_def)
  obtain response fallback where
    resp: "json_get v ''response'' = Some response" "json_get_str response ''status'' = Some ''completed''"
    and fb0: "map_option pt_fallback_text (rd_completed d) = Some fallback"
    and outcome: "(json_get response ''output'' = Some (JArray []) \<and> rd_allow_empty_terminal_output d0 \<and> fallback = None
       \<and> (\<exists>k p. rd_parts d0 = [(k, p)] \<and> stp_saw_delta p))
     \<or> (\<exists>fps. final_response_text_parts response = Inr fps \<and> fps \<noteq> []
         \<and> \<not> blank (concat (map fp_text fps))
         \<and> (inj_on sha (streamed_texts d0 \<union> final_texts fps)
             \<longrightarrow> streamed_text d0 @ unwrap_or fallback [] = concat (map fp_text fps)))"
    by (rule accepted_text [OF inv last(5)])
  have fb: "pt_fallback_text terminal = fallback" using fb0 fin(1) by simp
  have single: "stp_done p = Some (fingerprint_from_text sha (concat deltas))"
    if "rd_parts d0 = [(k, p)]" "stp_saw_delta p" for k p
  proof -
    have "part_ok sha p" "stp_done p \<noteq> None" using inv fin(2) that(1) keeps by (auto simp: decoder_inv_def)
    then show ?thesis using that text0 by (auto simp: part_ok_def streamed_text_def)
  qed
  have texts: "streamed_texts d = streamed_texts d0" by (simp add: streamed_texts_def keeps)
  have "let delivered = concat deltas @ unwrap_or (pt_fallback_text terminal) [] in
        (json_get response ''output'' = Some (JArray []) \<and> codex
         \<and> (\<exists>k p. rd_parts d = [(k, p)] \<and> stp_done p = Some (fingerprint_from_text sha delivered)))
      \<or> (\<exists>fps. final_response_text_parts response = Inr fps \<and> \<not> blank (concat (map fp_text fps))
         \<and> (inj_on sha (streamed_texts d \<union> final_texts fps) \<longrightarrow> delivered = concat (map fp_text fps)))"
    using outcome single codex by (auto simp: Let_def texts keeps(1) fb text0 [symmetric] unwrap_or_def)
  then show ?thesis using sse last(1,3,4) resp s by blast
qed

text \<open>A body in three chunks, cut inside a line, and what its data lines parse to.\<close>

definition sample_parse :: "string \<Rightarrow> json option" where
  "sample_parse data =
     (if data = ''d'' then Some (JObject [(''delta'', JString ''hi''), (''type'', JString ''response.output_text.delta'')])
      else if data = ''e'' then Some (JObject [(''text'', JString ''hi''), (''type'', JString ''response.output_text.done'')])
      else if data = ''c'' then Some (JObject [(''response'', JObject
        [(''output'', JArray [JObject [(''content'', JArray [JObject
            [(''text'', JString ''hi''), (''type'', JString ''output_text'')]])]]),
         (''status'', JString ''completed'')]), (''type'', JString ''response.completed'')])
      else None)"

definition sample_body :: "string list" where
  "sample_body = [''data: d'' @ [CHR 0x0D, CHR 0x0A], [CHR 0x0A] @ ''data:e'' @ [CHR 0x0A, CHR 0x0A] @ ''da'',
     ''ta: c'' @ [CHR 0x0A, CHR 0x0A]]"

lemma sample_stream_runs:
  "case responses_run sample_parse id (responses_decoder_new False) sample_body of
     Inl _ \<Rightarrow> False | Inr (deltas, d) \<Rightarrow> deltas = [''hi''] \<and> (case responses_finish d of Inl _ \<Rightarrow> False | Inr _ \<Rightarrow> True)"
  by code_simp

theorem completed_stream_text_witness:
  "\<exists>deltas d terminal response fps. responses_run sample_parse id (responses_decoder_new False) sample_body = Inr (deltas, d)
     \<and> responses_finish d = Inr terminal \<and> final_response_text_parts response = Inr fps
     \<and> concat deltas @ unwrap_or (pt_fallback_text terminal) [] = concat (map fp_text fps)"
proof -
  obtain deltas d where
    run: "responses_run sample_parse id (responses_decoder_new False) sample_body = Inr (deltas, d)"
    and finishes: "case responses_finish d of Inl _ \<Rightarrow> False | Inr _ \<Rightarrow> True"
    using sample_stream_runs by (auto split: sum.splits prod.splits)
  then obtain terminal where fin: "responses_finish d = Inr terminal" by (cases "responses_finish d") auto
  from completed_stream_text [OF run fin] run fin show ?thesis by (simp add: Let_def) blast
qed

end
