(* ===== verification/Stream_Redactor.thy ===== *)
theory Stream_Redactor
  imports Redaction_Facts
begin

text \<open>
  The streaming redactor of provider text (\<open>StreamingTextRedactor\<close> of \<open>util.rs\<close>). It receives deltas,
  emits what can no longer grow into a secret and retains the rest. Shown: however the text is split
  into deltas, no configured secret appears in what is emitted.
\<close>

section \<open>The code\<close>

datatype streaming_mask = MaskNone | MaskConfigured | MaskCredential

record streaming_character =
  sc_character :: uchar
  sc_mask :: streaming_mask

definition projected :: "uchar \<Rightarrow> streaming_character \<Rightarrow> uchar" where
  "projected mask_character c =
     (case sc_mask c of
        MaskNone \<Rightarrow> sc_character c
      | MaskConfigured \<Rightarrow> if is_ws (sc_character c) then sc_character c else mask_character
      | MaskCredential \<Rightarrow> mask_character)"

record streaming_text_redactor =
  sr_literal_patterns :: "uchars list"
  sr_literal_prefixes :: "uchars list"
  sr_maximum_literal_pattern_chars :: nat
  sr_pending :: "streaming_character list"
  sr_preceding_projected_character :: "uchar option"
  sr_suppressing_credential :: bool
  sr_mask_character :: uchar

definition literal_patterns :: "uchars list \<Rightarrow> uchars list" where
  "literal_patterns secrets =
     concat (map (\<lambda>s. if length s \<le> secret_substring_window_chars then [s]
         else list_windows secret_substring_window_chars s)
       (filter (\<lambda>s. s \<noteq> []) secrets))"

definition streaming_new :: "uchars list \<Rightarrow> streaming_text_redactor option" where
  "streaming_new secrets =
     map_option (\<lambda>m. let patterns = literal_patterns secrets in
       \<lparr>sr_literal_patterns = patterns,
        sr_literal_prefixes = concat (map (\<lambda>p. map (\<lambda>e. take e p) [1..<length p]) patterns),
        sr_maximum_literal_pattern_chars = foldl max 0 (map length patterns),
        sr_pending = [],
        sr_preceding_projected_character = None,
        sr_suppressing_credential = False,
        sr_mask_character = sm_mask_character m\<rparr>)
     (secret_matcher_new secrets)"

definition pending_suffix :: "nat \<Rightarrow> streaming_character list \<Rightarrow> streaming_character list" where
  "pending_suffix len pending = drop (length pending - len) pending"

definition map_suffix ::
    "nat \<Rightarrow> (streaming_character \<Rightarrow> streaming_character) \<Rightarrow> streaming_character list \<Rightarrow> streaming_character list" where
  "map_suffix len f pending = take (length pending - len) pending @ map f (pending_suffix len pending)"

text \<open>\<open>mask.max(StreamingMask::Configured)\<close> and an assignment of \<open>StreamingMask::Credential\<close>.\<close>

definition raise_configured :: "streaming_character \<Rightarrow> streaming_character" where
  "raise_configured c = (case sc_mask c of MaskNone \<Rightarrow> c\<lparr>sc_mask := MaskConfigured\<rparr> | _ \<Rightarrow> c)"

definition set_credential :: "streaming_character \<Rightarrow> streaming_character" where
  "set_credential c = c\<lparr>sc_mask := MaskCredential\<rparr>"

definition mask_one_length :: "uchars list \<Rightarrow> streaming_character list \<Rightarrow> nat \<Rightarrow> streaming_character list" where
  "mask_one_length patterns pending len =
     (if List.member patterns (map sc_character (pending_suffix len pending))
      then map_suffix len raise_configured pending else pending)"

definition mask_complete_configured_suffixes :: "streaming_text_redactor \<Rightarrow> streaming_text_redactor" where
  "mask_complete_configured_suffixes r =
     r\<lparr>sr_pending := foldl (mask_one_length (sr_literal_patterns r)) (sr_pending r)
        [1..<Suc (min (sr_maximum_literal_pattern_chars r) (length (sr_pending r)))]\<rparr>"

definition stream_left_boundary :: "streaming_text_redactor \<Rightarrow> nat \<Rightarrow> bool" where
  "stream_left_boundary r start =
     (case (if start = 0 then sr_preceding_projected_character r
            else Some (projected (sr_mask_character r) (sr_pending r ! (start - 1)))) of
        None \<Rightarrow> True | Some c \<Rightarrow> \<not> is_credential_left_context_character c)"

definition completes_credential :: "streaming_text_redactor \<Rightarrow> uchars \<times> nat \<Rightarrow> bool" where
  "completes_credential r shape =
     (case shape of (pre, minimum_chars) \<Rightarrow>
        minimum_chars \<le> length (sr_pending r)
        \<and> stream_left_boundary r (length (sr_pending r) - minimum_chars)
        \<and> (let candidate = map (projected (sr_mask_character r)) (pending_suffix minimum_chars (sr_pending r))
           in is_prefix pre candidate \<and> list_all is_credential_character (drop (length pre) candidate)))"

definition start_credential_suppression_if_complete :: "streaming_text_redactor \<Rightarrow> streaming_text_redactor" where
  "start_credential_suppression_if_complete r =
     (case find (completes_credential r) credential_shapes of
        None \<Rightarrow> r
      | Some (pre, minimum_chars) \<Rightarrow>
          r\<lparr>sr_pending := map_suffix minimum_chars set_credential (sr_pending r), sr_suppressing_credential := True\<rparr>)"

text \<open>\<open>(1..=n).rev().find(..).unwrap_or(0)\<close>\<close>

definition greatest_length :: "nat \<Rightarrow> (nat \<Rightarrow> bool) \<Rightarrow> nat" where
  "greatest_length n P = (case find P (rev [1..<Suc n]) of Some len \<Rightarrow> len | None \<Rightarrow> 0)"

definition credential_suffix :: "streaming_text_redactor \<Rightarrow> uchars \<times> nat \<Rightarrow> nat" where
  "credential_suffix r shape =
     (case shape of (pre, minimum_chars) \<Rightarrow>
        greatest_length (min (minimum_chars - 1) (length (sr_pending r))) (\<lambda>len.
          let shown = map (projected (sr_mask_character r)) (pending_suffix len (sr_pending r))
          in stream_left_boundary r (length (sr_pending r) - len)
             \<and> (shown = take len pre
                \<or> length pre \<le> len \<and> take (length pre) shown = pre
                  \<and> list_all is_credential_character (drop (length pre) shown))))"

definition longest_sensitive_suffix :: "streaming_text_redactor \<Rightarrow> nat" where
  "longest_sensitive_suffix r =
     max (greatest_length (min (sr_maximum_literal_pattern_chars r - 1) (length (sr_pending r)))
           (\<lambda>len. List.member (sr_literal_prefixes r) (map sc_character (pending_suffix len (sr_pending r)))))
         (foldl max 0 (map (credential_suffix r) credential_shapes))"

definition emit_prefix :: "nat \<Rightarrow> streaming_text_redactor \<Rightarrow> streaming_text_redactor \<times> uchars" where
  "emit_prefix len r =
     (let out = map (projected (sr_mask_character r)) (take len (sr_pending r))
      in (r\<lparr>sr_pending := drop len (sr_pending r),
            sr_preceding_projected_character :=
              (if out = [] then sr_preceding_projected_character r else Some (last out))\<rparr>, out))"

definition receive_character :: "uchar \<Rightarrow> streaming_text_redactor \<Rightarrow> streaming_text_redactor" where
  "receive_character c r =
     (if sr_suppressing_credential r \<and> is_credential_character c
      then r\<lparr>sr_pending := sr_pending r @ [\<lparr>sc_character = c, sc_mask = MaskCredential\<rparr>]\<rparr>
      else start_credential_suppression_if_complete (mask_complete_configured_suffixes
        (r\<lparr>sr_suppressing_credential := False,
           sr_pending := sr_pending r @ [\<lparr>sc_character = c, sc_mask = MaskNone\<rparr>]\<rparr>)))"

definition push_character :: "streaming_text_redactor \<Rightarrow> uchar \<Rightarrow> streaming_text_redactor \<times> uchars" where
  "push_character r c =
     (let r = receive_character c r in emit_prefix (length (sr_pending r) - longest_sensitive_suffix r) r)"

fun push_characters :: "streaming_text_redactor \<Rightarrow> uchars \<Rightarrow> streaming_text_redactor \<times> uchars" where
  "push_characters r [] = (r, [])"
| "push_characters r (c # cs) =
     (let (r, out) = push_character r c; (r, rest) = push_characters r cs in (r, out @ rest))"

definition stream_push :: "streaming_text_redactor \<Rightarrow> string \<Rightarrow> streaming_text_redactor \<times> uchars" where
  "stream_push r delta = push_characters r (chars delta)"

definition stream_finish :: "streaming_text_redactor \<Rightarrow> uchars" where
  "stream_finish r = snd (emit_prefix (length (sr_pending r)) r)"

text \<open>A stream that ends well: the output of every push, and of \<open>finish\<close>.\<close>

fun stream_run :: "streaming_text_redactor \<Rightarrow> string list \<Rightarrow> uchars" where
  "stream_run r [] = stream_finish r"
| "stream_run r (delta # deltas) = (let (r, out) = stream_push r delta in out @ stream_run r deltas)"

section \<open>Pending characters\<close>

lemma projected_cases: "projected c x = sc_character x \<or> projected c x = c"
  by (simp add: projected_def split: streaming_mask.split)

text \<open>Masks only grow: a character that is shown as the mask stays so.\<close>

definition grown :: "uchar \<Rightarrow> streaming_character list \<Rightarrow> streaming_character list \<Rightarrow> bool" where
  "grown c xs ys =
     (map sc_character ys = map sc_character xs
      \<and> (\<forall>i<length xs. projected c (xs ! i) = c \<longrightarrow> projected c (ys ! i) = c))"

lemma grown_refl [simp]: "grown c xs xs"
  by (simp add: grown_def)

lemma grown_length: "grown c xs ys \<Longrightarrow> length ys = length xs"
  unfolding grown_def by (metis length_map)

lemma grown_trans: "grown c xs ys \<Longrightarrow> grown c ys zs \<Longrightarrow> grown c xs zs"
  using grown_length [of c xs ys] by (simp add: grown_def)

lemma map_suffix_nth:
  "i < length xs \<Longrightarrow> map_suffix len f xs ! i = (if length xs - len \<le> i then f (xs ! i) else xs ! i)"
  by (auto simp: map_suffix_def pending_suffix_def nth_append)

lemma length_map_suffix [simp]: "length (map_suffix len f xs) = length xs"
  by (simp add: map_suffix_def pending_suffix_def)

lemma grown_map_suffix:
  assumes "\<And>x. sc_character (f x) = sc_character x" and "\<And>x. projected c x = c \<Longrightarrow> projected c (f x) = c"
  shows "grown c xs (map_suffix len f xs)"
  unfolding grown_def by (auto simp: assms map_suffix_nth intro!: nth_equalityI)

lemma raise_configured_simps:
  "sc_character (raise_configured x) = sc_character x"
  "projected c x = c \<Longrightarrow> projected c (raise_configured x) = c"
  "\<not> is_ws (sc_character x) \<Longrightarrow> projected c (raise_configured x) = c"
  by (auto simp: raise_configured_def projected_def split: streaming_mask.splits)

lemma set_credential_simps: "sc_character (set_credential x) = sc_character x" "projected c (set_credential x) = c"
  by (simp_all add: set_credential_def projected_def)

lemma grown_one_length: "grown c xs (mask_one_length patterns xs len)"
  unfolding mask_one_length_def by (simp add: grown_map_suffix raise_configured_simps)

lemma grown_lengths: "grown c xs (foldl (mask_one_length patterns) xs lens)"
  by (induction lens arbitrary: xs) (auto intro: grown_trans grown_one_length)

lemma grown_suffix: "grown c xs ys \<Longrightarrow> map sc_character (pending_suffix len ys) = map sc_character (pending_suffix len xs)"
  using grown_length [of c xs ys] by (simp add: grown_def pending_suffix_def drop_map [symmetric])

lemma lengths_masked:
  assumes "len \<in> set lens" and "List.member patterns (map sc_character (pending_suffix len xs))"
    and "i < length xs" and "length xs - len \<le> i" and "\<not> is_ws (sc_character (xs ! i))"
  shows "projected c (foldl (mask_one_length patterns) xs lens ! i) = c"
proof -
  obtain as bs where lens: "lens = as @ len # bs" using assms(1) by (meson split_list)
  let ?ys = "foldl (mask_one_length patterns) xs as"
  have g: "grown c xs ?ys" by (rule grown_lengths)
  then have len: "length ?ys = length xs" and chr: "sc_character (?ys ! i) = sc_character (xs ! i)"
    using grown_length assms(3) unfolding grown_def by (metis, metis nth_map length_map)
  have "mask_one_length patterns ?ys len ! i = raise_configured (?ys ! i)"
    using assms(2-4) grown_suffix [OF g] len by (simp add: mask_one_length_def map_suffix_nth)
  then have "projected c (mask_one_length patterns ?ys len ! i) = c"
    using raise_configured_simps(3) chr assms(5) by simp
  moreover have "grown c (mask_one_length patterns ?ys len) (foldl (mask_one_length patterns) xs lens)"
    using grown_lengths [of c "mask_one_length patterns ?ys len" patterns bs] by (simp add: lens)
  moreover have "length (mask_one_length patterns ?ys len) = length xs"
    using grown_length [OF grown_one_length] len by metis
  ultimately show ?thesis using assms(3) by (simp add: grown_def)
qed

lemma greatest_length_le: "greatest_length n P \<le> n"
  by (auto simp: greatest_length_def find_Some_iff rev_nth split: option.split simp del: upt_Suc)

lemma greatest_length_ge:
  assumes "1 \<le> k" and "k \<le> n" and "P k"
  shows "k \<le> greatest_length n P"
proof (cases "find P (rev [1..<Suc n])")
  case None
  then have "\<not> P k" using assms(1,2) by (auto simp: find_None_iff simp del: upt_Suc)
  with assms(3) show ?thesis by simp
next
  case (Some l)
  have nth: "rev [1..<Suc n] ! j = n - j" if "j < n" for j
    using that by (simp add: rev_nth Suc_diff_Suc del: upt_Suc)
  obtain i where "i < n" "l = rev [1..<Suc n] ! i" "\<forall>j<i. \<not> P (rev [1..<Suc n] ! j)"
    using Some by (auto simp: find_Some_iff simp del: upt_Suc)
  then have i: "i < n" "l = n - i" "\<forall>j<i. \<not> P (n - j)" using nth by auto
  have "k \<le> l"
  proof (rule ccontr)
    assume "\<not> k \<le> l"
    then have "n - k < i" using i assms by linarith
    then have "\<not> P (n - (n - k))" using i(3) by blast
    then show False using assms by simp
  qed
  then show ?thesis unfolding greatest_length_def Some by simp
qed

lemma foldl_max_base: "a \<le> foldl max a xs" for a :: nat
  by (induction xs arbitrary: a) (auto intro: order.trans [OF max.cobounded1])

lemma foldl_max_ge: "x \<in> set xs \<union> {a} \<Longrightarrow> x \<le> foldl max a xs" for x :: nat
proof (induction xs arbitrary: a)
  case (Cons y ys)
  have "max a y \<le> foldl max (max a y) ys" by (rule foldl_max_base)
  with Cons show ?case by auto
qed simp

lemma foldl_max_le: "\<forall>x\<in>set xs. x \<le> n \<Longrightarrow> a \<le> n \<Longrightarrow> foldl max a xs \<le> (n :: nat)"
  by (induction xs arbitrary: a) auto

section \<open>The invariant\<close>

text \<open>
  \<open>t\<close> is the text received so far and \<open>e\<close> what was emitted for it; \<open>shown\<close> adds what the pending
  characters would be emitted as. Every occurrence of a pattern is masked, a pattern that has begun at
  the end of the text is pending from its first character, and a suppressed credential covers the end
  of the text for the length of any pattern.
\<close>

definition shown :: "uchars \<Rightarrow> streaming_text_redactor \<Rightarrow> uchars" where
  "shown e r = e @ map (projected (sr_mask_character r)) (sr_pending r)"

definition covers_pattern :: "uchar \<Rightarrow> uchars \<Rightarrow> uchars \<Rightarrow> uchars \<Rightarrow> bool" where
  "covers_pattern c t vs p =
     (\<forall>i. i + length p \<le> length t \<and> take (length p) (drop i t) = p
        \<longrightarrow> (\<forall>k<length p. \<not> is_ws (p ! k) \<longrightarrow> vs ! (i + k) = c))"

definition stream_inv :: "uchars list \<Rightarrow> uchars \<Rightarrow> uchars \<Rightarrow> streaming_text_redactor \<Rightarrow> bool" where
  "stream_inv patterns t e r =
     (sr_literal_patterns r = patterns
      \<and> sr_literal_prefixes r = concat (map (\<lambda>p. map (\<lambda>e. take e p) [1..<length p]) patterns)
      \<and> sr_maximum_literal_pattern_chars r = foldl max 0 (map length patterns)
      \<and> length e \<le> length t \<and> map sc_character (sr_pending r) = drop (length e) t
      \<and> masks (sr_mask_character r) (take (length e) t) e
      \<and> (\<forall>p\<in>set patterns. covers_pattern (sr_mask_character r) t (shown e r) p)
      \<and> (\<forall>p\<in>set patterns. \<forall>n<length p. suffix (take n p) t \<longrightarrow> n \<le> length (sr_pending r))
      \<and> (sr_suppressing_credential r \<longrightarrow>
           (\<forall>i<length t. length t - 8 \<le> i \<longrightarrow> shown e r ! i = sr_mask_character r)))"

lemma stream_inv_length:
  assumes "stream_inv patterns t e r"
  shows "length (sr_pending r) = length t - length e" and "length (shown e r) = length t"
proof -
  have "length (map sc_character (sr_pending r)) = length (drop (length e) t)" "length e \<le> length t"
    using assms by (simp_all add: stream_inv_def)
  then show "length (sr_pending r) = length t - length e" "length (shown e r) = length t"
    by (simp_all add: shown_def)
qed

lemma masks_shown:
  assumes "stream_inv patterns t e r"
  shows "masks (sr_mask_character r) t (shown e r)"
proof -
  let ?c = "sr_mask_character r"
  have pend: "map sc_character (sr_pending r) = drop (length e) t" and e: "masks ?c (take (length e) t) e"
    using assms by (simp_all add: stream_inv_def)
  have "masks ?c (map sc_character (sr_pending r)) (map (projected ?c) (sr_pending r))"
    using projected_cases by (auto simp: masks_def list_all2_conv_all_nth)
  from masks_append [OF e this] show ?thesis by (simp add: pend shown_def)
qed

text \<open>A step receives a character into the pending ones and may mask more of them.\<close>

lemma receive_shown:
  assumes "length e + length xs = length t" and "grown c (xs @ [y]) ys"
    and "i < length t" and "(e @ map (projected c) xs) ! i = c"
  shows "(e @ map (projected c) ys) ! i = c"
proof (cases "i < length e")
  case True
  then show ?thesis using assms(4) by (simp add: nth_append)
next
  case False
  have len: "length ys = Suc (length xs)" using grown_length [OF assms(2)] by simp
  have i: "i - length e < length xs" using False assms(1,3) by linarith
  then have "projected c ((xs @ [y]) ! (i - length e)) = c" using assms(4) False by (simp add: nth_append)
  then have "projected c (ys ! (i - length e)) = c" using assms(2) i by (simp add: grown_def)
  then show ?thesis using False i len by (simp add: nth_append)
qed

lemma covers_snoc:
  assumes "covers_pattern c t vs p" and "length vs = length t" and "length ws = Suc (length t)" and "p \<noteq> []"
    and "\<And>i. i < length t \<Longrightarrow> vs ! i = c \<Longrightarrow> ws ! i = c"
    and "suffix p (t @ [x]) \<Longrightarrow> \<forall>k<length p. \<not> is_ws (p ! k) \<longrightarrow> ws ! (Suc (length t) - length p + k) = c"
  shows "covers_pattern c (t @ [x]) ws p"
  unfolding covers_pattern_def
proof (intro allI impI, elim conjE)
  fix i k
  assume i: "i + length p \<le> length (t @ [x])" "take (length p) (drop i (t @ [x])) = p"
    and k: "k < length p" "\<not> is_ws (p ! k)"
  show "ws ! (i + k) = c"
  proof (cases "i + length p = Suc (length t)")
    case True
    then have "drop i (t @ [x]) = p" using i by simp
    then have "suffix p (t @ [x])" by (metis suffix_drop)
    moreover have "i = Suc (length t) - length p" using True by simp
    ultimately show ?thesis using assms(6) k by blast
  next
    case False
    then have fits: "i + length p \<le> length t" using i(1) by simp
    then have "take (length p) (drop i t) = p" using i(2) by simp
    then have "vs ! (i + k) = c" using assms(1) fits k by (simp add: covers_pattern_def)
    moreover have "i + k < length t" using fits k by simp
    ultimately show ?thesis using assms(5) by blast
  qed
qed

text \<open>Patterns are neither empty nor longer than the shortest credential.\<close>

definition short_patterns :: "uchars list \<Rightarrow> bool" where
  "short_patterns patterns = (\<forall>p\<in>set patterns. p \<noteq> [] \<and> length p \<le> 8)"

lemma suppression_pending:
  "\<exists>ys. sr_pending (start_credential_suppression_if_complete r) = ys \<and> grown c (sr_pending r) ys
     \<and> (sr_suppressing_credential (start_credential_suppression_if_complete r) \<longrightarrow> sr_suppressing_credential r
         \<or> (\<forall>i<length ys. length ys - 8 \<le> i \<longrightarrow> projected c (ys ! i) = c) \<and> 8 \<le> length ys)"
proof (cases "find (completes_credential r) credential_shapes")
  case None
  then show ?thesis by (simp add: start_credential_suppression_if_complete_def)
next
  case (Some shape)
  obtain pre n where shape: "shape = (pre, n)" by fastforce
  have "(pre, n) \<in> set credential_shapes" and "completes_credential r (pre, n)"
    using Some nth_mem unfolding shape by (fastforce simp: find_Some_iff)+
  then have n: "8 \<le> n" "n \<le> length (sr_pending r)"
    by (auto simp: credential_shapes_def completes_credential_def)
  have "grown c (sr_pending r) (map_suffix n set_credential (sr_pending r))"
    by (rule grown_map_suffix) (simp_all add: set_credential_simps)
  moreover have "projected c (map_suffix n set_credential (sr_pending r) ! i) = c"
    if "i < length (sr_pending r)" "length (sr_pending r) - 8 \<le> i" for i
    using that n by (auto simp: map_suffix_nth set_credential_simps)
  ultimately show ?thesis
    using Some n shape by (auto simp: start_credential_suppression_if_complete_def)
qed

lemma suppression_fields:
  "sr_literal_patterns (start_credential_suppression_if_complete r) = sr_literal_patterns r"
  "sr_literal_prefixes (start_credential_suppression_if_complete r) = sr_literal_prefixes r"
  "sr_maximum_literal_pattern_chars (start_credential_suppression_if_complete r) = sr_maximum_literal_pattern_chars r"
  "sr_mask_character (start_credential_suppression_if_complete r) = sr_mask_character r"
  by (simp_all add: start_credential_suppression_if_complete_def split: option.split prod.split)

lemma pending_pattern:
  assumes inv: "stream_inv patterns t e r" and p: "p \<in> set patterns" "p \<noteq> []" "suffix p (t @ [x])"
  shows "length p \<le> Suc (length (sr_pending r))"
    and "sc_character y = x \<Longrightarrow> map sc_character (pending_suffix (length p) (sr_pending r @ [y])) = p"
proof -
  have "p = butlast p @ [x]" "suffix (butlast p) t"
    using p(2,3) by (metis append_butlast_last_id last_snoc snoc_suffix_snoc suffix_bot.extremum_uniqueI suffix_def last_appendR)
      (metis append_butlast_last_id p(2,3) snoc_suffix_snoc)
  then have "suffix (take (length p - 1) p) t" by (simp add: butlast_conv_take)
  moreover have "length p - 1 < length p" using p(2) by simp
  ultimately have "length p - 1 \<le> length (sr_pending r)" using inv p(1) unfolding stream_inv_def by blast
  then show len: "length p \<le> Suc (length (sr_pending r))" by simp
  assume y: "sc_character y = x"
  have pend: "map sc_character (sr_pending r) = drop (length e) t" "length e \<le> length t"
    using inv by (simp_all add: stream_inv_def)
  obtain zs where zs: "t @ [x] = zs @ p" using p(3) by (auto simp: suffix_def)
  have "map sc_character (sr_pending r @ [y]) = drop (length e) (t @ [x])" using pend y by simp
  moreover have "length (sr_pending r) = length t - length e" by (rule stream_inv_length(1) [OF inv])
  moreover have "length t + 1 = length zs + length p" using arg_cong [OF zs, of length] by simp
  ultimately have "drop (length (sr_pending r @ [y]) - length p) (map sc_character (sr_pending r @ [y])) = p"
    using len pend(2) by (simp add: zs)
  then show "map sc_character (pending_suffix (length p) (sr_pending r @ [y])) = p"
    unfolding pending_suffix_def drop_map .
qed

lemma retention_snoc:
  assumes "stream_inv patterns t e r" and "p \<in> set patterns" and "n < length p" and "suffix (take n p) (t @ [x])"
  shows "n \<le> Suc (length (sr_pending r))"
proof (cases n)
  case (Suc k)
  then have "suffix (take k p) t" using assms(3,4) suffix_take_Suc [of k p t x] by simp
  then have "k \<le> length (sr_pending r)"
    using assms(1-3) Suc unfolding stream_inv_def by (meson Suc_lessD)
  with Suc show ?thesis by simp
qed simp

text \<open>What both branches of \<open>receive_character\<close> have to show.\<close>

lemma receive_inv:
  assumes inv: "stream_inv patterns t e r" and short: "short_patterns patterns"
    and fields: "sr_literal_patterns r' = sr_literal_patterns r" "sr_literal_prefixes r' = sr_literal_prefixes r"
      "sr_maximum_literal_pattern_chars r' = sr_maximum_literal_pattern_chars r" "sr_mask_character r' = sr_mask_character r"
    and grown: "grown (sr_mask_character r) (sr_pending r @ [y]) (sr_pending r')" and y: "sc_character y = x"
    and new: "\<And>p k. p \<in> set patterns \<Longrightarrow> suffix p (t @ [x]) \<Longrightarrow> k < length p \<Longrightarrow> \<not> is_ws (p ! k)
      \<Longrightarrow> shown e r' ! (Suc (length t) - length p + k) = sr_mask_character r"
    and suppressed: "\<And>i. sr_suppressing_credential r' \<Longrightarrow> i < Suc (length t) \<Longrightarrow> Suc (length t) - 8 \<le> i
      \<Longrightarrow> shown e r' ! i = sr_mask_character r"
  shows "stream_inv patterns (t @ [x]) e r'"
proof -
  let ?c = "sr_mask_character r"
  have le: "length e \<le> length t" and chr: "map sc_character (sr_pending r) = drop (length e) t"
    using inv by (simp_all add: stream_inv_def)
  have len: "length (sr_pending r') = Suc (length (sr_pending r))" using grown_length [OF grown] by simp
  have chr': "map sc_character (sr_pending r') = drop (length e) (t @ [x])"
    using grown chr le y by (simp add: grown_def)
  have old: "shown e r' ! i = ?c" if "i < length t" "shown e r ! i = ?c" for i
    using receive_shown [of e "sr_pending r" t ?c y "sr_pending r'" i] that grown le stream_inv_length [OF inv]
    by (simp add: shown_def fields)
  have "length (shown e r') = Suc (length t)" using stream_inv_length [OF inv] le len by (simp add: shown_def)
  then have covers: "covers_pattern ?c (t @ [x]) (shown e r') p" if p: "p \<in> set patterns" for p
    using inv p short old new [OF p] stream_inv_length(2) [OF inv]
    by (intro covers_snoc [of ?c t "shown e r" p]) (auto simp: stream_inv_def short_patterns_def)
  have keep: "n \<le> length (sr_pending r')" if "p \<in> set patterns" "n < length p" "suffix (take n p) (t @ [x])" for p n
    using retention_snoc [OF inv that] len by simp
  show ?thesis
    using inv le chr' covers keep suppressed unfolding stream_inv_def fields by simp
qed

lemma receive_character_inv:
  assumes inv: "stream_inv patterns t e r" and short: "short_patterns patterns"
  shows "stream_inv patterns (t @ [x]) e (receive_character x r)"
proof (cases "sr_suppressing_credential r \<and> is_credential_character x")
  case True
  let ?c = "sr_mask_character r"
  let ?y = "\<lparr>sc_character = x, sc_mask = MaskCredential\<rparr>"
  let ?r = "r\<lparr>sr_pending := sr_pending r @ [?y]\<rparr>"
  have r: "receive_character x r = ?r" using True by (simp add: receive_character_def)
  have shown: "shown e ?r = shown e r @ [?c]" by (simp add: shown_def projected_def)
  have last: "shown e ?r ! i = ?c" if "i < Suc (length t)" "Suc (length t) - 8 \<le> i" for i
  proof (cases "i < length t")
    case i: True
    then have "shown e r ! i = ?c" using inv True that(2) unfolding stream_inv_def by auto
    then show ?thesis using i stream_inv_length(2) [OF inv] by (simp add: shown nth_append)
  next
    case False
    then show ?thesis using that(1) stream_inv_length(2) [OF inv] by (simp add: shown nth_append)
  qed
  show ?thesis
    unfolding r
  proof (rule receive_inv [OF inv short, where y = ?y])
    fix p k assume p: "p \<in> set patterns" "suffix p (t @ [x])" "k < length p"
    have "length p \<le> 8" using p(1) short by (simp add: short_patterns_def)
    moreover have "length p \<le> Suc (length t)" using p(2) by (auto dest: suffix_length_le)
    ultimately show "shown e ?r ! (Suc (length t) - length p + k) = ?c" using p(3) by (intro last) auto
  qed (simp_all add: last)
next
  case False
  let ?c = "sr_mask_character r"
  let ?y = "\<lparr>sc_character = x, sc_mask = MaskNone\<rparr>"
  let ?r1 = "r\<lparr>sr_suppressing_credential := False, sr_pending := sr_pending r @ [?y]\<rparr>"
  let ?r2 = "mask_complete_configured_suffixes ?r1"
  let ?r3 = "start_credential_suppression_if_complete ?r2"
  let ?lens = "[1..<Suc (min (sr_maximum_literal_pattern_chars r) (Suc (length (sr_pending r))))]"
  have r: "receive_character x r = ?r3" using False unfolding receive_character_def by (rule if_not_P)
  have pend2: "sr_pending ?r2 = foldl (mask_one_length patterns) (sr_pending r @ [?y]) ?lens"
    and fields2: "sr_mask_character ?r2 = ?c" "sr_literal_patterns ?r2 = sr_literal_patterns r"
      "sr_literal_prefixes ?r2 = sr_literal_prefixes r"
      "sr_maximum_literal_pattern_chars ?r2 = sr_maximum_literal_pattern_chars r" "\<not> sr_suppressing_credential ?r2"
    using inv by (simp_all add: mask_complete_configured_suffixes_def stream_inv_def)
  have g2: "grown ?c (sr_pending r @ [?y]) (sr_pending ?r2)" unfolding pend2 by (rule grown_lengths)
  have g3: "grown ?c (sr_pending ?r2) (sr_pending ?r3)"
    and cred: "sr_suppressing_credential ?r3 \<Longrightarrow> (\<forall>i<length (sr_pending ?r3). length (sr_pending ?r3) - 8 \<le> i
        \<longrightarrow> projected ?c (sr_pending ?r3 ! i) = ?c) \<and> 8 \<le> length (sr_pending ?r3)"
    using suppression_pending [of ?r2 ?c] fields2 by auto
  have g: "grown ?c (sr_pending r @ [?y]) (sr_pending ?r3)" by (rule grown_trans [OF g2 g3])
  have le: "length e \<le> length t" using inv by (simp add: stream_inv_def)
  have len3: "length (sr_pending ?r3) = Suc (length (sr_pending r))" using grown_length [OF g] by simp
  have at: "shown e ?r3 ! i = projected ?c (sr_pending ?r3 ! (i - length e))" if "length e \<le> i" "i < Suc (length t)" for i
    using that len3 stream_inv_length(1) [OF inv] le by (simp add: shown_def suppression_fields fields2 nth_append)
  show ?thesis
    unfolding r
  proof (rule receive_inv [OF inv short _ _ _ _ g])
    fix p k assume p: "p \<in> set patterns" "suffix p (t @ [x])" and k: "k < length p" "\<not> is_ws (p ! k)"
    have "p \<noteq> []" using k(1) by auto
    note pend = pending_pattern [OF inv p(1) this p(2)]
    have cand: "map sc_character (pending_suffix (length p) (sr_pending r @ [?y])) = p" by (rule pend(2)) simp
    let ?j = "Suc (length (sr_pending r)) - length p + k"
    have j: "?j < Suc (length (sr_pending r))" "Suc (length (sr_pending r)) - length p \<le> ?j"
      using k(1) pend(1) by auto
    have "sc_character ((sr_pending r @ [?y]) ! ?j) = p ! k"
      using arg_cong [OF cand, of "\<lambda>xs. xs ! k"] k(1) pend(1)
      by (simp add: pending_suffix_def drop_map [symmetric] del: map_append drop_append)
    moreover have "length p \<le> sr_maximum_literal_pattern_chars r"
      using inv p(1) foldl_max_ge [of "length p" "map length patterns" 0] by (simp add: stream_inv_def)
    then have "length p \<in> set ?lens" using pend(1) k(1) by (simp del: upt_Suc)
    ultimately have "projected ?c (sr_pending ?r2 ! ?j) = ?c"
      unfolding pend2 using cand p(1) j k(2) by (intro lengths_masked [where len = "length p"]) (simp_all add: List.member_iff)
    then have "projected ?c (sr_pending ?r3 ! ?j) = ?c"
      using g3 j(1) grown_length [OF g2] by (simp add: grown_def)
    moreover have eq: "Suc (length t) - length p + k = length e + ?j" and "length e + ?j < Suc (length t)"
      using stream_inv_length(1) [OF inv] pend(1) le j(1) by simp_all
    ultimately show "shown e ?r3 ! (Suc (length t) - length p + k) = ?c"
      unfolding eq using at [OF le_add1, of ?j] by simp
  next
    fix i assume s: "sr_suppressing_credential ?r3" and i: "i < Suc (length t)" "Suc (length t) - 8 \<le> i"
    have "length (sr_pending ?r3) = Suc (length t) - length e" using len3 stream_inv_length(1) [OF inv] le by simp
    then have "projected ?c (sr_pending ?r3 ! (i - length e)) = ?c" and "length e \<le> i"
      using cred [OF s] i le by auto
    then show "shown e ?r3 ! i = ?c" using at i(1) by simp
  qed (simp_all add: suppression_fields fields2)
qed

section \<open>Emission\<close>

lemma longest_sensitive_suffix_le: "longest_sensitive_suffix r \<le> length (sr_pending r)"
proof -
  have "credential_suffix r shape \<le> length (sr_pending r)" for shape
    unfolding credential_suffix_def by (auto intro: order.trans [OF greatest_length_le] split: prod.split)
  then have "foldl max 0 (map (credential_suffix r) credential_shapes) \<le> length (sr_pending r)"
    by (intro foldl_max_le) auto
  then show ?thesis
    unfolding longest_sensitive_suffix_def by (auto intro: order.trans [OF greatest_length_le])
qed

lemma retained_pattern:
  assumes inv: "stream_inv patterns t e r" and p: "p \<in> set patterns" "n < length p" "suffix (take n p) t"
  shows "n \<le> longest_sensitive_suffix r"
proof (cases "n = 0")
  case False
  have n: "n \<le> length (sr_pending r)" using inv p unfolding stream_inv_def by blast
  have "length p \<le> sr_maximum_literal_pattern_chars r"
    using inv p(1) foldl_max_ge [of "length p" "map length patterns" 0] by (simp add: stream_inv_def)
  then have max: "n \<le> min (sr_maximum_literal_pattern_chars r - 1) (length (sr_pending r))" using n p(2) by simp
  obtain zs where zs: "t = zs @ take n p" using p(3) by (auto simp: suffix_def)
  have pend: "map sc_character (sr_pending r) = drop (length e) t" "length e \<le> length t"
    using inv by (simp_all add: stream_inv_def)
  have "map sc_character (pending_suffix n (sr_pending r)) = drop (length (sr_pending r) - n) (drop (length e) t)"
    unfolding pending_suffix_def drop_map [symmetric] pend(1) ..
  also have "\<dots> = drop (length t - n) t"
    using stream_inv_length(1) [OF inv] n pend(2) by simp
  also have "\<dots> = take n p" using arg_cong [OF zs, of length] p(2) zs by simp
  finally have "map sc_character (pending_suffix n (sr_pending r)) = take n p" .
  moreover have "take n p \<in> set (sr_literal_prefixes r)"
    using inv p False by (auto simp: stream_inv_def intro!: bexI [of _ p])
  ultimately have "n \<le> greatest_length (min (sr_maximum_literal_pattern_chars r - 1) (length (sr_pending r)))
      (\<lambda>len. List.member (sr_literal_prefixes r) (map sc_character (pending_suffix len (sr_pending r))))"
    using False max by (intro greatest_length_ge) (simp_all add: List.member_iff)
  then show ?thesis by (simp add: longest_sensitive_suffix_def)
qed simp

lemma emit_inv:
  assumes inv: "stream_inv patterns t e r" and emit: "emit_prefix (length (sr_pending r) - longest_sensitive_suffix r) r = (r', out)"
  shows "stream_inv patterns t (e @ out) r' \<and> sr_mask_character r' = sr_mask_character r"
proof -
  let ?c = "sr_mask_character r" and ?n = "length (sr_pending r) - longest_sensitive_suffix r"
  have out: "out = map (projected ?c) (take ?n (sr_pending r))" and pend: "sr_pending r' = drop ?n (sr_pending r)"
    and fields: "sr_literal_patterns r' = sr_literal_patterns r" "sr_literal_prefixes r' = sr_literal_prefixes r"
      "sr_maximum_literal_pattern_chars r' = sr_maximum_literal_pattern_chars r" "sr_mask_character r' = ?c"
      "sr_suppressing_credential r' = sr_suppressing_credential r"
    using emit by (auto simp: emit_prefix_def Let_def)
  have same: "shown (e @ out) r' = shown e r"
    unfolding shown_def fields pend out by (simp add: drop_map [symmetric] take_map [symmetric])
  have le: "length e \<le> length t" using inv by (simp add: stream_inv_def)
  have lens: "length (e @ out) \<le> length t"
    using stream_inv_length(1) [OF inv] le by (simp add: out)
  have chr: "map sc_character (sr_pending r') = drop (length (e @ out)) t"
    using inv by (simp add: pend out drop_map [symmetric] stream_inv_def add.commute)
  have "masks ?c (take (length (e @ out)) t) (take (length (e @ out)) (shown e r))"
    using masks_shown [OF inv] by (simp add: masks_def list_all2_takeI)
  then have mask: "masks ?c (take (length (e @ out)) t) (e @ out)"
    unfolding same [symmetric] by (simp add: shown_def)
  have "length (sr_pending r') = longest_sensitive_suffix r"
    using longest_sensitive_suffix_le [of r] by (simp add: pend)
  then have keep: "n \<le> length (sr_pending r')" if "p \<in> set patterns" "n < length p" "suffix (take n p) t" for p n
    using retained_pattern [OF inv that] by simp
  show ?thesis
    using inv lens chr mask keep unfolding stream_inv_def fields same by simp
qed

lemma receive_character_mask: "sr_mask_character (receive_character x r) = sr_mask_character r"
  by (simp add: receive_character_def suppression_fields mask_complete_configured_suffixes_def)

lemma push_character_inv:
  assumes "stream_inv patterns t e r" and "short_patterns patterns" and "push_character r x = (r', out)"
  shows "stream_inv patterns (t @ [x]) (e @ out) r' \<and> sr_mask_character r' = sr_mask_character r"
  using emit_inv [OF receive_character_inv [OF assms(1,2)]] assms(3)
  by (simp add: push_character_def Let_def receive_character_mask)

lemma push_characters_inv:
  assumes "short_patterns patterns"
  shows "stream_inv patterns t e r \<Longrightarrow> push_characters r cs = (r', out)
    \<Longrightarrow> stream_inv patterns (t @ cs) (e @ out) r' \<and> sr_mask_character r' = sr_mask_character r"
proof (induction cs arbitrary: t e r r' out)
  case (Cons c cs)
  obtain r1 out1 where p: "push_character r c = (r1, out1)" by fastforce
  obtain r2 out2 where q: "push_characters r1 cs = (r2, out2)" by fastforce
  have "r' = r2" "out = out1 @ out2" using Cons.prems(2) p q by (simp_all add: Let_def)
  moreover note one = push_character_inv [OF Cons.prems(1) assms p]
  ultimately show ?case using Cons.IH [OF conjunct1 [OF one] q] one by simp
qed simp

text \<open>The deltas matter only through the characters they carry.\<close>

lemma push_characters_append:
  "push_characters r (xs @ ys)
     = (let (r1, out1) = push_characters r xs; (r2, out2) = push_characters r1 ys in (r2, out1 @ out2))"
  by (induction xs arbitrary: r) (simp_all add: Let_def split: prod.split)

lemma stream_run_characters:
  "stream_run r deltas = (let (r', out) = push_characters r (concat (map chars deltas)) in out @ stream_finish r')"
  by (induction deltas arbitrary: r) (simp_all add: stream_push_def push_characters_append Let_def split: prod.split)

lemma short_literal_patterns: "short_patterns (literal_patterns secrets)"
  by (auto simp: short_patterns_def literal_patterns_def secret_substring_window_chars_def list_windows_def
      split: if_splits)

lemma streaming_new_inv:
  assumes "streaming_new secrets = Some r"
  shows "stream_inv (literal_patterns secrets) [] [] r"
    and "\<exists>m. secret_matcher_new secrets = Some m \<and> sr_mask_character r = sm_mask_character m"
  using assms short_literal_patterns [of secrets]
  by (auto simp: streaming_new_def stream_inv_def covers_pattern_def masks_def short_patterns_def Let_def)

lemma stream_run_covers:
  assumes "streaming_new secrets = Some r" and text_in_def: "text_in = concat (map chars deltas)"
  shows "masks (sr_mask_character r) text_in (stream_run r deltas)"
    and "p \<in> set (literal_patterns secrets) \<Longrightarrow> covers_pattern (sr_mask_character r) text_in (stream_run r deltas) p"
proof -
  obtain r' out where run: "push_characters r text_in = (r', out)" by fastforce
  note inv = push_characters_inv [OF short_literal_patterns streaming_new_inv(1) [OF assms(1)] run]
  have eq: "stream_run r deltas = shown out r'"
    using run by (simp add: stream_run_characters text_in_def stream_finish_def emit_prefix_def shown_def Let_def)
  have mask: "sr_mask_character r' = sr_mask_character r" using inv by (rule conjunct2)
  show "masks (sr_mask_character r) text_in (stream_run r deltas)"
    using masks_shown [OF conjunct1 [OF inv]] unfolding eq mask by simp
  show "covers_pattern (sr_mask_character r) text_in (stream_run r deltas) p" if "p \<in> set (literal_patterns secrets)"
  proof -
    have "covers_pattern (sr_mask_character r') ([] @ text_in) ([] @ shown out r') p"
      using conjunct1 [OF inv] that unfolding stream_inv_def by simp
    then show ?thesis unfolding eq mask by simp
  qed
qed

text \<open>Every character of a secret lies in one of its patterns.\<close>

lemma pattern_around:
  assumes "s \<in> set secrets" and "j < length s"
  obtains b p where "p \<in> set (literal_patterns secrets)" "b \<le> j" "j < b + length p" "b + length p \<le> length s"
    "\<forall>k<length p. p ! k = s ! (b + k)"
proof (cases "length s \<le> 8")
  case True
  then have "s \<in> set (literal_patterns secrets)"
    using assms by (force simp: literal_patterns_def secret_substring_window_chars_def)
  then show ?thesis using that [of s 0] assms(2) by simp
next
  case False
  define b where "b = min j (length s - 8)"
  let ?p = "take 8 (drop b s)"
  have "?p \<in> set (list_windows 8 s)" using False by (auto simp: list_windows_def b_def intro!: imageI)
  then have "?p \<in> set (literal_patterns secrets)"
    using assms False by (force simp: literal_patterns_def secret_substring_window_chars_def)
  moreover have "length ?p = 8" "b \<le> j" "j < b + 8" "b + 8 \<le> length s" using False assms(2) by (auto simp: b_def)
  ultimately show ?thesis by (intro that [of ?p b]) auto
qed

text \<open>Whatever the deltas, a stream that ends shows the text except for masked characters, and no secret.\<close>

lemma stream_run_clean:
  assumes "streaming_new (map chars known) = Some r"
  shows "masks (sr_mask_character r) (concat (map chars deltas)) (stream_run r deltas)
    \<and> (\<forall>s\<in>set known. (\<exists>c\<in>set (chars s). \<not> is_ws c) \<longrightarrow> \<not> occurs (chars s) (stream_run r deltas))
    \<and> (\<forall>others. concat (map chars others) = concat (map chars deltas) \<longrightarrow> stream_run r others = stream_run r deltas)"
proof (intro conjI ballI allI impI)
  let ?in = "concat (map chars deltas)" and ?out = "stream_run r deltas"
  show masks: "masks (sr_mask_character r) ?in ?out" by (rule stream_run_covers(1) [OF assms refl])
  show "stream_run r others = ?out" if "concat (map chars others) = ?in" for others
    using that by (simp add: stream_run_characters)
  fix known_secret assume known: "known_secret \<in> set known" and ink: "\<exists>c\<in>set (chars known_secret). \<not> is_ws c"
  define s where "s = chars known_secret"
  have s: "s \<in> set (map chars known)" using known by (simp add: s_def)
  obtain j where j: "j < length s" "\<not> is_ws (s ! j)" using ink unfolding s_def by (metis in_set_conv_nth)
  obtain b p where p: "p \<in> set (literal_patterns (map chars known))" "b \<le> j" "j < b + length p"
      "b + length p \<le> length s" "\<forall>k<length p. p ! k = s ! (b + k)"
    using pattern_around [OF s j(1)] by blast
  have free: "sr_mask_character r \<notin> set s"
    using streaming_new_inv(2) [OF assms] mask_not_in_secret s by metis
  show "\<not> occurs (chars known_secret) ?out"
    unfolding s_def [symmetric]
  proof
    assume "occurs s ?out"
    then obtain i where i: "i + length s \<le> length ?out" "\<forall>k<length s. ?out ! (i + k) = s ! k"
      unfolding occurs_nth by blast
    have orig: "\<forall>k<length s. ?in ! (i + k) = s ! k" by (rule masks_unmasked [OF masks i free])
    have fits: "i + b + length p \<le> length ?in" using i(1) p(4) masks_length [OF masks] by simp
    have "take (length p) (drop (i + b) ?in) = p"
      using fits orig p(4,5) by (intro nth_equalityI) (auto simp: add.assoc)
    then have "\<forall>k<length p. \<not> is_ws (p ! k) \<longrightarrow> ?out ! (i + b + k) = sr_mask_character r"
      using stream_run_covers(2) [OF assms refl p(1), of deltas] fits unfolding covers_pattern_def by blast
    moreover have "j - b < length p" "p ! (j - b) = s ! j" using p(2,3,5) by auto
    ultimately have "?out ! (i + b + (j - b)) = sr_mask_character r" using j(2) by metis
    then have "s ! j = sr_mask_character r" using i(2) j(1) p(2) by simp
    then show False using free j(1) nth_mem by metis
  qed
qed

text \<open>
  C8: streamed text shows no configured secret, however the provider cuts it. The emitted text has a
  character for each received one, unchanged or masked; no configured secret with a character that is
  not white space occurs in it; and it depends on the received characters alone, not on the deltas
  that carry them.
\<close>

theorem stream_hides_secrets:
  assumes "streaming_new (map chars known) = Some r"
  shows "masks (sr_mask_character r) (concat (map chars deltas)) (stream_run r deltas)
    \<and> (\<forall>s\<in>set known. (\<exists>c\<in>set (chars s). \<not> is_ws c) \<longrightarrow> \<not> occurs (chars s) (stream_run r deltas))
    \<and> (\<forall>others. concat (map chars others) = concat (map chars deltas) \<longrightarrow> stream_run r others = stream_run r deltas)"
  using stream_run_clean [OF assms] .

theorem stream_hides_secrets_witness:
  "\<exists>r. streaming_new [chars ''abcd''] = Some r \<and> \<not> occurs (chars ''abcd'') (stream_run r [''xab'', ''cd'', ''y''])"
proof -
  have "streaming_new [chars ''abcd''] \<noteq> None" by code_simp
  then obtain r where r: "streaming_new (map chars [''abcd'']) = Some r" by auto
  have "\<exists>c\<in>set (chars ''abcd''). \<not> is_ws c" by code_simp
  then show ?thesis using stream_hides_secrets [OF r, of "[''xab'', ''cd'', ''y'']"] r by auto
qed

end
