(* ===== verification/Llm_Stream.thy ===== *)
theory Llm_Stream
  imports Responses_Facts Stream_Redactor Upstream_Facts
begin

text \<open>
  The text stream a caller reads from a provider (\<open>LlmTextStream\<close>, \<open>ProviderLlmStreamSource\<close> of \<open>llm.rs\<close>):
  chunks of the upstream body are decoded, their deltas redacted and queued, and the byte limit, the
  end and the reconciliation of the budget are enforced at the surface. A text is held as its
  characters. What is measured outside, the latency and the instant of a reconciliation, comes with
  each read.
\<close>

section \<open>Failures of the upstream\<close>

fun llm_failure_kind_of :: "http_failure_kind \<Rightarrow> llm_failure_kind" where
  "llm_failure_kind_of HttpAuthentication = AuthFailed"
| "llm_failure_kind_of HttpRateLimited = RateLimited"
| "llm_failure_kind_of HttpQuota = QuotaExhausted"
| "llm_failure_kind_of HttpModelUnsupported = ModelUnsupported"
| "llm_failure_kind_of HttpServer = ServerError"
| "llm_failure_kind_of _ = RequestFailed"

definition response_size_error :: api_error where
  "response_size_error = Upstream ''LLM response exceeded the configured size limit''"

definition map_upstream_error :: "upstream_error \<Rightarrow> string \<Rightarrow> string \<Rightarrow> api_error" where
  "map_upstream_error error provider model =
     (let diagnostic = upstream_diagnostic_of error in
      if ud_category diagnostic = CatDeadline \<or> ud_category diagnostic = CatTimeout then Timeout
      else if ud_category diagnostic = CatResponseTooLarge then response_size_error
      else (case error of
              UpHttpStatus _ status failure attempts wait \<Rightarrow>
                LlmUpstream \<lparr>le_kind = llm_failure_kind_of failure, le_provider = provider, le_model = model,
                  le_upstream_status = Some status, le_retry_after_seconds = wait, le_attempts = attempts\<rparr>
            | _ \<Rightarrow> Upstream (''LLM provider request failed: category=''
                @ failure_category_as_str (ud_category diagnostic) @ '' status=none attempts=''
                @ show_nat (unat (ud_attempts diagnostic)))))"

section \<open>The provider's stream\<close>

datatype stream_event = EvDelta uchars | EvCompleted u64 "token_usage option"

record provider_source =
  ps_response :: "streaming_response option"
  ps_decoder :: responses_decoder
  ps_redactor :: "streaming_text_redactor option"
  ps_pending :: "stream_event list"
  ps_finished :: bool
  ps_provider :: string
  ps_model :: string

text \<open>\<open>None\<close>: building the redactor panics.\<close>

definition provider_source_new ::
    "streaming_response \<Rightarrow> string list \<Rightarrow> bool \<Rightarrow> string \<Rightarrow> string \<Rightarrow> provider_source option" where
  "provider_source_new response secrets allow_empty provider model =
     map_option (\<lambda>r. \<lparr>ps_response = Some response, ps_decoder = responses_decoder_new allow_empty,
        ps_redactor = Some r, ps_pending = [], ps_finished = False, ps_provider = provider, ps_model = model\<rparr>)
     (streaming_new (map chars secrets))"

definition abort_stream :: "provider_source \<Rightarrow> provider_source" where
  "abort_stream self = self\<lparr>ps_pending := [], ps_redactor := None, ps_response := None, ps_finished := True\<rparr>"

definition queue_text :: "uchars \<Rightarrow> provider_source \<Rightarrow> provider_source" where
  "queue_text safe self = (if safe = [] then self else self\<lparr>ps_pending := ps_pending self @ [EvDelta safe]\<rparr>)"

definition queue_delta :: "string \<Rightarrow> provider_source \<Rightarrow> provider_source" where
  "queue_delta delta self =
     (case ps_redactor self of
        None \<Rightarrow> self
      | Some r \<Rightarrow> (case stream_push r delta of (r', safe) \<Rightarrow> queue_text safe (self\<lparr>ps_redactor := Some r'\<rparr>)))"

definition pop_event :: "provider_source \<Rightarrow> (api_error + stream_event option) \<times> provider_source" where
  "pop_event self =
     (case ps_pending self of
        [] \<Rightarrow> (Inr None, self)
      | e # es \<Rightarrow> (Inr (Some e), self\<lparr>ps_pending := es\<rparr>))"

text \<open>The clean end of the body, after the decoder has accepted it.\<close>

definition finish_redactor :: "provider_source \<Rightarrow> provider_source" where
  "finish_redactor self =
     (case ps_redactor self of
        None \<Rightarrow> self
      | Some r \<Rightarrow> queue_text (stream_finish r) (self\<lparr>ps_redactor := None\<rparr>))"

definition complete_source :: "provider_terminal \<Rightarrow> u64 \<Rightarrow> provider_source \<Rightarrow> provider_source" where
  "complete_source terminal latency self =
     (let self = (case pt_fallback_text terminal of None \<Rightarrow> self | Some t \<Rightarrow> queue_delta t self);
          self = finish_redactor self
      in self\<lparr>ps_pending := ps_pending self @ [EvCompleted latency (pt_usage terminal)], ps_finished := True\<rparr>)"

lemma queue_delta_response [simp]: "ps_response (queue_delta delta self) = ps_response self"
  by (simp add: queue_delta_def queue_text_def split: option.split prod.split)

lemma queue_deltas_response: "ps_response (fold queue_delta deltas self) = ps_response self"
  by (induction deltas arbitrary: self) simp_all

lemma next_chunk_shrinks:
  "next_chunk r = (Inr (Some chunk), r') \<Longrightarrow> length (str_chunks r') < length (str_chunks r)"
  by (auto simp: next_chunk_def Let_def split: if_splits list.splits prod.splits chunk_event.splits)

definition chunks_left :: "provider_source \<Rightarrow> nat" where
  "chunks_left self = (case ps_response self of None \<Rightarrow> 0 | Some r \<Rightarrow> length (str_chunks r))"

function source_loop ::
    "(string \<Rightarrow> json option) \<Rightarrow> (string \<Rightarrow> string) \<Rightarrow> u64 \<Rightarrow> provider_source
      \<Rightarrow> (api_error + stream_event option) \<times> provider_source" where
  "source_loop parse sha latency self =
     (case ps_response self of
        None \<Rightarrow> (Inl invalid_llm_output, abort_stream self)
      | Some response \<Rightarrow>
          (case next_chunk response of
             (Inl error, _) \<Rightarrow>
               (Inl (map_upstream_error error (ps_provider self) (ps_model self)), abort_stream self)
           | (Inr None, _) \<Rightarrow>
               (case responses_finish (ps_decoder self) of
                  Inl error \<Rightarrow> (Inl error, abort_stream self)
                | Inr terminal \<Rightarrow>
                    pop_event (complete_source terminal latency
                      (self\<lparr>ps_response := None, ps_decoder := (ps_decoder self)\<lparr>rd_completed := None\<rparr>\<rparr>)))
           | (Inr (Some chunk), response') \<Rightarrow>
               (case responses_push parse sha (ps_decoder self) chunk of
                  Inl error \<Rightarrow> (Inl error, abort_stream self)
                | Inr (deltas, decoder) \<Rightarrow>
                    (let self' = fold queue_delta deltas (self\<lparr>ps_response := Some response', ps_decoder := decoder\<rparr>)
                     in if ps_pending self' \<noteq> [] then pop_event self'
                        else source_loop parse sha latency self'))))"
  by pat_completeness auto
termination
  by (relation "measure (\<lambda>(_, _, _, self). chunks_left self)")
    (auto simp: chunks_left_def queue_deltas_response dest!: next_chunk_shrinks [OF sym])

declare source_loop.simps [simp del]

definition source_next ::
    "(string \<Rightarrow> json option) \<Rightarrow> (string \<Rightarrow> string) \<Rightarrow> u64 \<Rightarrow> provider_source
      \<Rightarrow> (api_error + stream_event option) \<times> provider_source" where
  "source_next parse sha latency self =
     (if ps_pending self \<noteq> [] then pop_event self
      else if ps_finished self then (Inr None, self)
      else source_loop parse sha latency self)"

section \<open>The stream of the caller\<close>

text \<open>The sources: a provider's response, or the two events of a client without streaming.\<close>

datatype text_source = SourceProvider provider_source | SourceSynthetic "stream_event list"

fun text_source_next ::
    "(string \<Rightarrow> json option) \<Rightarrow> (string \<Rightarrow> string) \<Rightarrow> u64 \<Rightarrow> text_source
      \<Rightarrow> (api_error + stream_event option) \<times> text_source" where
  "text_source_next parse sha latency (SourceProvider s) =
     (case source_next parse sha latency s of (r, s') \<Rightarrow> (r, SourceProvider s'))"
| "text_source_next parse sha latency (SourceSynthetic []) = (Inr None, SourceSynthetic [])"
| "text_source_next parse sha latency (SourceSynthetic (e # es)) = (Inr (Some e), SourceSynthetic es)"

fun text_source_abort :: "text_source \<Rightarrow> text_source" where
  "text_source_abort (SourceProvider s) = SourceProvider (abort_stream s)"
| "text_source_abort (SourceSynthetic es) = SourceSynthetic []"

record text_stream =
  ts_provider :: string
  ts_model :: string
  ts_source :: text_source
  ts_budget_reconciliation :: "budget_reconciliation option"
  ts_max_response_bytes :: usize
  ts_emitted_bytes :: usize
  ts_finished :: bool
  ts_attempts :: u8

definition text_stream_new :: "string \<Rightarrow> string \<Rightarrow> text_source \<Rightarrow> u8 \<Rightarrow> text_stream" where
  "text_stream_new provider model source attempts =
     \<lparr>ts_provider = provider, ts_model = model, ts_source = source, ts_budget_reconciliation = None,
      ts_max_response_bytes = 2 ^ 64 - 1, ts_emitted_bytes = 0, ts_finished = False, ts_attempts = attempts\<rparr>"

definition constrain :: "text_stream \<Rightarrow> usize \<Rightarrow> budget_reconciliation \<Rightarrow> text_stream" where
  "constrain self max_response_bytes reconciliation =
     self\<lparr>ts_max_response_bytes := max_response_bytes, ts_budget_reconciliation := Some reconciliation\<rparr>"

definition synthetic_text_stream :: "string \<Rightarrow> string \<Rightarrow> uchars \<Rightarrow> u64 \<Rightarrow> token_usage option \<Rightarrow> u8 \<Rightarrow> text_stream" where
  "synthetic_text_stream provider model t latency usage attempts =
     text_stream_new provider model (SourceSynthetic [EvDelta t, EvCompleted latency usage]) attempts"

definition stop_stream :: "text_stream \<Rightarrow> text_stream" where
  "stop_stream self = self\<lparr>ts_source := text_source_abort (ts_source self), ts_finished := True\<rparr>"

text \<open>A delta within the limit; \<open>checked_add\<close> cannot fail below it.\<close>

definition deliver_delta ::
    "text_stream \<Rightarrow> uchars \<Rightarrow> (api_error + stream_event option) \<times> text_stream" where
  "deliver_delta self delta =
     (let emitted_bytes = ts_emitted_bytes self + length (concat delta)
      in if emitted_bytes \<le> ts_max_response_bytes self
         then (Inr (Some (EvDelta delta)), self\<lparr>ts_emitted_bytes := emitted_bytes\<rparr>)
         else (Inl response_size_error, stop_stream self))"

definition deliver_completed ::
    "text_stream \<Rightarrow> provider_budget \<Rightarrow> int \<Rightarrow> u64 \<Rightarrow> token_usage option
      \<Rightarrow> (api_error + stream_event option) \<times> text_stream \<times> provider_budget" where
  "deliver_completed self budget now latency usage =
     (case ts_budget_reconciliation self of
        None \<Rightarrow> (Inr (Some (EvCompleted latency usage)), self\<lparr>ts_finished := True\<rparr>, budget)
      | Some reconciliation \<Rightarrow>
          (let self = self\<lparr>ts_budget_reconciliation := None\<rparr> in
           case reconcile reconciliation budget now usage of
             (Inl error, budget') \<Rightarrow> (Inl error, stop_stream self, budget')
           | (Inr _, budget') \<Rightarrow> (Inr (Some (EvCompleted latency usage)), self\<lparr>ts_finished := True\<rparr>, budget')))"

definition next_event ::
    "(string \<Rightarrow> json option) \<Rightarrow> (string \<Rightarrow> string) \<Rightarrow> u64 \<times> int \<Rightarrow> text_stream \<Rightarrow> provider_budget
      \<Rightarrow> (api_error + stream_event option) \<times> text_stream \<times> provider_budget" where
  "next_event parse sha clock self budget =
     (if ts_finished self then (Inr None, self, budget)
      else (case text_source_next parse sha (fst clock) (ts_source self) of (r, source) \<Rightarrow>
        let self = self\<lparr>ts_source := source\<rparr> in
        case r of
          Inl error \<Rightarrow> (Inl error, stop_stream self, budget)
        | Inr None \<Rightarrow> (Inl invalid_llm_output, stop_stream self, budget)
        | Inr (Some (EvDelta delta)) \<Rightarrow> (case deliver_delta self delta of (r, self) \<Rightarrow> (r, self, budget))
        | Inr (Some (EvCompleted latency usage)) \<Rightarrow> deliver_completed self budget (snd clock) latency usage))"

text \<open>Successive reads.\<close>

fun read_events ::
    "(string \<Rightarrow> json option) \<Rightarrow> (string \<Rightarrow> string) \<Rightarrow> (u64 \<times> int) list \<Rightarrow> text_stream \<Rightarrow> provider_budget
      \<Rightarrow> (api_error + stream_event option) list" where
  "read_events parse sha [] self budget = []"
| "read_events parse sha (c # cs) self budget =
     (case next_event parse sha c self budget of (r, self', budget') \<Rightarrow> r # read_events parse sha cs self' budget')"

end
