(* ===== verification/Llm_Stream_Facts.thy ===== *)
theory Llm_Stream_Facts
  imports Llm_Stream
begin

text \<open>
  What a caller sees of a provider's stream: deltas up to a limit, one terminal outcome, silence after
  it; never a secret; and, when it completes, the redaction of exactly the text the decoder accepted.
\<close>

section \<open>Redaction delta by delta\<close>

fun stream_pushes :: "streaming_text_redactor \<Rightarrow> string list \<Rightarrow> streaming_text_redactor \<times> uchars" where
  "stream_pushes r [] = (r, [])"
| "stream_pushes r (delta # deltas) =
     (case stream_push r delta of (r, out) \<Rightarrow> case stream_pushes r deltas of (r, rest) \<Rightarrow> (r, out @ rest))"

lemma stream_pushes_append:
  "stream_pushes r (xs @ ys)
     = (case stream_pushes r xs of (r, out) \<Rightarrow> case stream_pushes r ys of (r, rest) \<Rightarrow> (r, out @ rest))"
  by (induction xs arbitrary: r) (simp_all split: prod.split)

lemma stream_run_pushes:
  "stream_run r deltas = (case stream_pushes r deltas of (r, out) \<Rightarrow> out @ stream_finish r)"
  by (induction deltas arbitrary: r) (simp_all split: prod.split)

lemma responses_run_append:
  "responses_run parse sha d (xs @ ys)
     = rbind (responses_run parse sha d xs) (\<lambda>(es, d). rbind (responses_run parse sha d ys) (\<lambda>(fs, d). Inr (es @ fs, d)))"
  by (induction xs arbitrary: d) (simp_all add: rbind_assoc case_prod_unfold)

section \<open>The source\<close>

fun event_text :: "stream_event \<Rightarrow> uchars" where
  "event_text (EvDelta t) = t"
| "event_text (EvCompleted _ _) = []"

definition pending_text :: "provider_source \<Rightarrow> uchars" where
  "pending_text s = concat (map event_text (ps_pending s))"

definition only_deltas :: "stream_event list \<Rightarrow> bool" where
  "only_deltas es = (\<forall>e\<in>set es. \<exists>t. e = EvDelta t)"

lemma queue_text_facts:
  "pending_text (queue_text t s) = pending_text s @ t"
  "only_deltas (ps_pending s) \<Longrightarrow> only_deltas (ps_pending (queue_text t s))"
  "ps_redactor (queue_text t s) = ps_redactor s" "ps_decoder (queue_text t s) = ps_decoder s"
  "ps_finished (queue_text t s) = ps_finished s"
  by (auto simp: queue_text_def pending_text_def only_deltas_def)

lemma queue_deltas_facts:
  assumes "ps_redactor s = Some r" and "stream_pushes r deltas = (r', out)"
  shows "ps_redactor (fold queue_delta deltas s) = Some r'
    \<and> pending_text (fold queue_delta deltas s) = pending_text s @ out
    \<and> (only_deltas (ps_pending s) \<longrightarrow> only_deltas (ps_pending (fold queue_delta deltas s)))
    \<and> ps_decoder (fold queue_delta deltas s) = ps_decoder s
    \<and> ps_finished (fold queue_delta deltas s) = ps_finished s"
  using assms
proof (induction deltas arbitrary: s r r' out)
  case (Cons delta deltas)
  obtain r1 out1 where 1: "stream_push r delta = (r1, out1)" by fastforce
  obtain r2 out2 where 2: "stream_pushes r1 deltas = (r2, out2)" by fastforce
  have q: "queue_delta delta s = queue_text out1 (s\<lparr>ps_redactor := Some r1\<rparr>)"
    using Cons.prems(1) 1 by (simp add: queue_delta_def)
  have red: "ps_redactor (queue_delta delta s) = Some r1" by (simp add: q queue_text_facts)
  have pend: "pending_text (s\<lparr>ps_redactor := Some r1\<rparr>) = pending_text s" by (simp add: pending_text_def)
  from Cons.IH [OF red 2] Cons.prems(2) 1 2 pend
    queue_text_facts(2) [of "s\<lparr>ps_redactor := Some r1\<rparr>" out1] show ?case
    by (auto simp: q queue_text_facts)
qed simp

text \<open>The chunks of a body up to a point.\<close>

definition body_read :: "streaming_response \<Rightarrow> string list \<Rightarrow> streaming_response \<Rightarrow> bool" where
  "body_read body chunks rest =
     (map snd (str_chunks body) = map ChunkData chunks @ map snd (str_chunks rest))"

text \<open>
  A source that still reads: what it has emitted and what is pending is the redaction of the deltas of
  the chunks read so far.
\<close>

definition open_source ::
    "(string \<Rightarrow> json option) \<Rightarrow> (string \<Rightarrow> string) \<Rightarrow> bool \<Rightarrow> streaming_response \<Rightarrow> streaming_text_redactor
      \<Rightarrow> uchars \<Rightarrow> provider_source \<Rightarrow> bool" where
  "open_source parse sha codex body r0 emitted s =
     (\<not> ps_finished s \<and> only_deltas (ps_pending s)
      \<and> (\<exists>chunks response deltas r.
           ps_response s = Some response \<and> str_open response \<and> body_read body chunks response
           \<and> responses_run parse sha (responses_decoder_new codex) chunks = Inr (deltas, ps_decoder s)
           \<and> ps_redactor s = Some r \<and> stream_pushes r0 deltas = (r, emitted @ pending_text s)))"

text \<open>A body that was read to its end and accepted, and its redacted text.\<close>

definition accepted_body ::
    "(string \<Rightarrow> json option) \<Rightarrow> (string \<Rightarrow> string) \<Rightarrow> bool \<Rightarrow> streaming_response \<Rightarrow> streaming_text_redactor
      \<Rightarrow> token_usage option \<Rightarrow> uchars \<Rightarrow> bool" where
  "accepted_body parse sha codex body r0 usage t =
     (\<exists>chunks rest deltas d terminal.
        map snd (str_chunks body) = map ChunkData chunks @ ChunkEnd # rest
        \<and> responses_run parse sha (responses_decoder_new codex) chunks = Inr (deltas, d)
        \<and> responses_finish d = Inr terminal \<and> usage = pt_usage terminal
        \<and> t = stream_run r0 (deltas @ (case pt_fallback_text terminal of None \<Rightarrow> [] | Some f \<Rightarrow> [f])))"

definition ending_source ::
    "(string \<Rightarrow> json option) \<Rightarrow> (string \<Rightarrow> string) \<Rightarrow> bool \<Rightarrow> streaming_response \<Rightarrow> streaming_text_redactor
      \<Rightarrow> uchars \<Rightarrow> provider_source \<Rightarrow> bool" where
  "ending_source parse sha codex body r0 emitted s =
     (ps_finished s \<and> (\<exists>texts latency usage. ps_pending s = map EvDelta texts @ [EvCompleted latency usage]
        \<and> accepted_body parse sha codex body r0 usage (emitted @ concat texts)))"

lemma only_deltas_texts: "only_deltas es \<Longrightarrow> \<exists>texts. es = map EvDelta texts \<and> concat (map event_text es) = concat texts"
proof (induction es)
  case (Cons e es)
  then obtain t texts where "e = EvDelta t" "es = map EvDelta texts" "concat (map event_text es) = concat texts"
    by (auto simp: only_deltas_def)
  then show ?case by (intro exI [of _ "t # texts"]) simp
qed simp

lemma complete_source_ends:
  assumes red: "ps_redactor s = Some r" and only: "only_deltas (ps_pending s)"
    and out: "stream_pushes r0 deltas = (r, emitted @ pending_text s)"
  shows "\<exists>texts. ps_pending (complete_source terminal latency s) = map EvDelta texts @ [EvCompleted latency (pt_usage terminal)]
    \<and> emitted @ concat texts
        = stream_run r0 (deltas @ (case pt_fallback_text terminal of None \<Rightarrow> [] | Some f \<Rightarrow> [f]))"
proof -
  define fb where "fb = (case pt_fallback_text terminal of None \<Rightarrow> [] | Some f \<Rightarrow> [f])"
  obtain r1 out1 where 1: "stream_pushes r fb = (r1, out1)" by fastforce
  define s1 where "s1 = fold queue_delta fb s"
  have s1: "(case pt_fallback_text terminal of None \<Rightarrow> s | Some t \<Rightarrow> queue_delta t s) = s1"
    by (simp add: s1_def fb_def split: option.split)
  note q = queue_deltas_facts [OF red 1, folded s1_def]
  have fin: "finish_redactor s1 = queue_text (stream_finish r1) (s1\<lparr>ps_redactor := None\<rparr>)"
    using q by (simp add: finish_redactor_def)
  have pend: "pending_text (s1\<lparr>ps_redactor := None\<rparr>) = pending_text s @ out1"
    using q by (simp add: pending_text_def)
  have "only_deltas (ps_pending (finish_redactor s1))"
    using q only queue_text_facts(2) [of "s1\<lparr>ps_redactor := None\<rparr>"] by (simp add: fin)
  then obtain texts where texts: "ps_pending (finish_redactor s1) = map EvDelta texts"
      "concat texts = pending_text (finish_redactor s1)"
    using only_deltas_texts unfolding pending_text_def by metis
  have "emitted @ concat texts = emitted @ pending_text s @ out1 @ stream_finish r1"
    by (simp add: texts fin queue_text_facts pend)
  also have "\<dots> = stream_run r0 (deltas @ fb)"
    by (simp add: stream_run_pushes stream_pushes_append out 1)
  finally show ?thesis
    using texts by (intro exI [of _ texts]) (simp add: complete_source_def s1 fb_def Let_def)
qed

text \<open>What a read of the source gives, and the state after it.\<close>

definition source_step_ok ::
    "(string \<Rightarrow> json option) \<Rightarrow> (string \<Rightarrow> string) \<Rightarrow> bool \<Rightarrow> streaming_response \<Rightarrow> streaming_text_redactor
      \<Rightarrow> uchars \<Rightarrow> (api_error + stream_event option) \<times> provider_source \<Rightarrow> bool" where
  "source_step_ok parse sha codex body r0 emitted step =
     (case fst step of
        Inl e \<Rightarrow> True
      | Inr None \<Rightarrow> False
      | Inr (Some (EvDelta t)) \<Rightarrow>
          open_source parse sha codex body r0 (emitted @ t) (snd step)
          \<or> ending_source parse sha codex body r0 (emitted @ t) (snd step)
      | Inr (Some (EvCompleted latency usage)) \<Rightarrow> accepted_body parse sha codex body r0 usage emitted)"

lemma pop_open:
  assumes "open_source parse sha codex body r0 emitted s" and "ps_pending s \<noteq> []"
  shows "source_step_ok parse sha codex body r0 emitted (pop_event s)"
proof -
  obtain e es where p: "ps_pending s = e # es" using assms(2) by (cases "ps_pending s") auto
  then obtain t where e: "e = EvDelta t" using assms(1) by (auto simp: open_source_def only_deltas_def)
  have "open_source parse sha codex body r0 (emitted @ t) (s\<lparr>ps_pending := es\<rparr>)"
    using assms(1) unfolding open_source_def by (simp add: p e only_deltas_def pending_text_def)
  then show ?thesis by (simp add: source_step_ok_def pop_event_def p e)
qed

lemma pop_ending:
  assumes "ending_source parse sha codex body r0 emitted s"
  shows "source_step_ok parse sha codex body r0 emitted (pop_event s)"
proof -
  obtain texts latency usage where p: "ps_finished s" "ps_pending s = map EvDelta texts @ [EvCompleted latency usage]"
    "accepted_body parse sha codex body r0 usage (emitted @ concat texts)"
    using assms by (auto simp: ending_source_def)
  show ?thesis
  proof (cases texts)
    case Nil
    then show ?thesis using p by (simp add: source_step_ok_def pop_event_def)
  next
    case (Cons t ts)
    then have "ending_source parse sha codex body r0 (emitted @ t) (s\<lparr>ps_pending := map EvDelta ts @ [EvCompleted latency usage]\<rparr>)"
      using p unfolding ending_source_def by auto
    then show ?thesis using Cons p by (simp add: source_step_ok_def pop_event_def)
  qed
qed

lemma next_chunk_read:
  assumes "next_chunk r = (Inr (Some chunk), r')" and "str_open r" and "body_read body chunks r"
  shows "str_open r' \<and> body_read body (chunks @ [chunk]) r'"
  using assms
  by (auto simp: next_chunk_def body_read_def Let_def split: if_splits list.splits prod.splits chunk_event.splits)

lemma next_chunk_end:
  assumes "next_chunk r = (Inr None, r')" and "str_open r" and "body_read body chunks r"
  shows "\<exists>rest. map snd (str_chunks body) = map ChunkData chunks @ ChunkEnd # rest"
  using assms
  by (auto simp: next_chunk_def body_read_def Let_def split: if_splits list.splits prod.splits chunk_event.splits)

lemma source_loop_ok:
  "open_source parse sha codex body r0 emitted s \<Longrightarrow> ps_pending s = [] \<Longrightarrow>
     source_step_ok parse sha codex body r0 emitted (source_loop parse sha latency s)"
proof (induction parse sha latency s rule: source_loop.induct)
  case (1 parse sha latency s)
  obtain chunks response deltas r where s: "ps_response s = Some response" "str_open response"
      "body_read body chunks response" "ps_redactor s = Some r" "\<not> ps_finished s"
      "responses_run parse sha (responses_decoder_new codex) chunks = Inr (deltas, ps_decoder s)"
      "stream_pushes r0 deltas = (r, emitted @ pending_text s)"
    using "1.prems" by (auto simp: open_source_def)
  obtain res response' where nc: "next_chunk response = (res, response')" by fastforce
  consider (error) e where "res = Inl e" | (last) "res = Inr None" | (data) chunk where "res = Inr (Some chunk)"
    by (metis not_None_eq sum.exhaust)
  then show ?case
  proof cases
    case error
    then show ?thesis using s nc by (subst source_loop.simps) (simp add: source_step_ok_def)
  next
    case last
    show ?thesis
    proof (cases "responses_finish (ps_decoder s)")
      case (Inl e)
      then show ?thesis using s nc last by (subst source_loop.simps) (simp add: source_step_ok_def)
    next
      case (Inr terminal)
      let ?s = "s\<lparr>ps_response := None, ps_decoder := (ps_decoder s)\<lparr>rd_completed := None\<rparr>\<rparr>"
      have red: "ps_redactor ?s = Some r" "only_deltas (ps_pending ?s)"
        "stream_pushes r0 deltas = (r, emitted @ pending_text ?s)"
        using s "1.prems" by (simp_all add: only_deltas_def pending_text_def)
      obtain texts where "ps_pending (complete_source terminal latency ?s) = map EvDelta texts @ [EvCompleted latency (pt_usage terminal)]"
          "emitted @ concat texts
            = stream_run r0 (deltas @ (case pt_fallback_text terminal of None \<Rightarrow> [] | Some f \<Rightarrow> [f]))"
        using complete_source_ends [OF red] by blast
      moreover have "accepted_body parse sha codex body r0 (pt_usage terminal) (emitted @ concat texts)"
        using next_chunk_end [OF nc [unfolded last] s(2,3)] s(6) Inr calculation(2)
        unfolding accepted_body_def by blast
      moreover have "ps_finished (complete_source terminal latency ?s)" by (simp add: complete_source_def Let_def)
      ultimately have "ending_source parse sha codex body r0 emitted (complete_source terminal latency ?s)"
        unfolding ending_source_def by blast
      from pop_ending [OF this] show ?thesis
        using s(1) nc last Inr by (subst source_loop.simps) simp
    qed
  next
    case data
    show ?thesis
    proof (cases "responses_push parse sha (ps_decoder s) chunk")
      case (Inl e)
      then show ?thesis using s nc data by (subst source_loop.simps) (simp add: source_step_ok_def)
    next
      case (Inr q)
      obtain ds d where q: "q = (ds, d)" by fastforce
      let ?s = "s\<lparr>ps_response := Some response', ps_decoder := d\<rparr>"
      let ?t = "fold queue_delta ds ?s"
      obtain r1 out1 where push: "stream_pushes r ds = (r1, out1)" by fastforce
      have "ps_redactor ?s = Some r" using s by simp
      note f = queue_deltas_facts [OF this push]
      have run: "responses_run parse sha (responses_decoder_new codex) (chunks @ [chunk]) = Inr (deltas @ ds, d)"
        using s(6) Inr by (simp add: responses_run_append q)
      have pushes: "stream_pushes r0 (deltas @ ds) = (r1, emitted @ pending_text ?t)"
        using s(7) push f by (simp add: stream_pushes_append pending_text_def)
      have t: "ps_response ?t = Some response'" "ps_decoder ?t = d" "ps_redactor ?t = Some r1" "\<not> ps_finished ?t"
          "only_deltas (ps_pending ?t)"
        using f s(5) "1.prems"(2) by (simp_all add: queue_deltas_response only_deltas_def)
      have "open_source parse sha codex body r0 emitted ?t"
        unfolding open_source_def t using next_chunk_read [OF nc [unfolded data] s(2,3)] run pushes t by blast
      moreover have "source_step_ok parse sha codex body r0 emitted (source_loop parse sha latency ?t)"
        if "ps_pending ?t = []"
        using "1.IH" [OF s(1) nc [symmetric] data refl Inr q [symmetric] refl] that calculation by simp
      moreover have "source_loop parse sha latency s
          = (if ps_pending ?t \<noteq> [] then pop_event ?t else source_loop parse sha latency ?t)"
        using s(1) nc data Inr q by (subst source_loop.simps) (simp add: Let_def)
      ultimately show ?thesis using pop_open by (auto split: if_splits)
    qed
  qed
qed

text \<open>A source before its end, whichever way.\<close>

definition live_source ::
    "(string \<Rightarrow> json option) \<Rightarrow> (string \<Rightarrow> string) \<Rightarrow> bool \<Rightarrow> streaming_response \<Rightarrow> streaming_text_redactor
      \<Rightarrow> uchars \<Rightarrow> provider_source \<Rightarrow> bool" where
  "live_source parse sha codex body r0 emitted s =
     (open_source parse sha codex body r0 emitted s \<or> ending_source parse sha codex body r0 emitted s)"

lemma source_next_ok:
  assumes "live_source parse sha codex body r0 emitted s"
  shows "source_step_ok parse sha codex body r0 emitted (source_next parse sha latency s)"
  using assms unfolding live_source_def
proof
  assume open_s: "open_source parse sha codex body r0 emitted s"
  then have "\<not> ps_finished s" by (simp add: open_source_def)
  then show ?thesis
    using pop_open [OF open_s] source_loop_ok [OF open_s] by (simp add: source_next_def)
next
  assume ending: "ending_source parse sha codex body r0 emitted s"
  then have "ps_pending s \<noteq> []" by (auto simp: ending_source_def)
  with pop_ending [OF ending] show ?thesis by (simp add: source_next_def)
qed

text \<open>What has been emitted is the beginning of a redacted stream.\<close>

definition redacted_start :: "streaming_text_redactor \<Rightarrow> uchars \<Rightarrow> bool" where
  "redacted_start r0 t = (\<exists>deltas rest. stream_run r0 deltas = t @ rest)"

lemma live_source_start: "live_source parse sha codex body r0 emitted s \<Longrightarrow> redacted_start r0 emitted"
proof (unfold live_source_def, elim disjE)
  assume "open_source parse sha codex body r0 emitted s"
  then obtain deltas r where "stream_pushes r0 deltas = (r, emitted @ pending_text s)"
    by (auto simp: open_source_def)
  then show ?thesis unfolding redacted_start_def
    by (intro exI [of _ deltas] exI [of _ "pending_text s @ stream_finish r"]) (simp add: stream_run_pushes)
next
  assume "ending_source parse sha codex body r0 emitted s"
  then show ?thesis by (auto simp: ending_source_def accepted_body_def redacted_start_def) metis
qed

lemma redacted_start_clean:
  assumes "streaming_new (map chars secrets) = Some r0" and "redacted_start r0 t"
    and "s \<in> set secrets" and "\<exists>c\<in>set (chars s). \<not> is_ws c"
  shows "\<not> occurs (chars s) t"
proof
  obtain deltas rest where run: "stream_run r0 deltas = t @ rest" using assms(2) by (auto simp: redacted_start_def)
  assume "occurs (chars s) t"
  then have "occurs (chars s) (stream_run r0 deltas)" unfolding run occurs_iff by (metis append.assoc)
  with stream_run_clean [OF assms(1)] assms(3,4) show False by blast
qed

section \<open>The stream of the caller\<close>

text \<open>The texts, and the outcome after them: none yet, or a terminal one and silence.\<close>

definition terminal_result :: "api_error + stream_event option \<Rightarrow> bool" where
  "terminal_result r = (case r of Inl _ \<Rightarrow> True | Inr (Some (EvCompleted _ _)) \<Rightarrow> True | _ \<Rightarrow> False)"

definition stream_results :: "uchars list \<Rightarrow> (api_error + stream_event option) list \<Rightarrow> (api_error + stream_event option) list \<Rightarrow> bool" where
  "stream_results texts outcome results =
     (results = map (\<lambda>t. Inr (Some (EvDelta t))) texts @ outcome
      \<and> (outcome = [] \<or> (\<exists>r k. outcome = r # replicate k (Inr None) \<and> terminal_result r)))"

lemma read_finished: "ts_finished self \<Longrightarrow> read_events parse sha clocks self budget = replicate (length clocks) (Inr None)"
  by (induction clocks) (simp_all add: next_event_def)

lemma stopped_finished [simp]: "ts_finished (stop_stream self)"
  by (simp add: stop_stream_def)

lemma read_events_ok:
  assumes "ts_source self = SourceProvider s" and "live_source parse sha codex body r0 emitted s"
    and "\<not> ts_finished self" and "ts_emitted_bytes self = length (concat emitted)"
    and "length (concat emitted) \<le> ts_max_response_bytes self"
  shows "\<exists>texts outcome. stream_results texts outcome (read_events parse sha clocks self budget)
    \<and> length (concat (emitted @ concat texts)) \<le> ts_max_response_bytes self
    \<and> redacted_start r0 (emitted @ concat texts)
    \<and> (\<forall>latency usage. Inr (Some (EvCompleted latency usage)) \<in> set outcome \<longrightarrow>
         accepted_body parse sha codex body r0 usage (emitted @ concat texts))"
  using assms
proof (induction clocks arbitrary: self s emitted budget)
  case Nil
  then show ?case
    using live_source_start by (intro exI [of _ "[]"]) (auto simp: stream_results_def)
next
  case (Cons c cs)
  obtain res s' where step: "source_next parse sha (fst c) s = (res, s')" by fastforce
  have ok: "source_step_ok parse sha codex body r0 emitted (res, s')"
    using source_next_ok [OF Cons.prems(2), of "fst c"] step by simp
  obtain r self' budget' where ev: "next_event parse sha c self budget = (r, self', budget')"
    by (metis prod_cases3)
  have tail: ?case
    if "terminal_result r" "ts_finished self'"
      "\<And>latency usage. r = Inr (Some (EvCompleted latency usage)) \<Longrightarrow> accepted_body parse sha codex body r0 usage emitted"
    using that Cons.prems(5) live_source_start [OF Cons.prems(2)] ev
    by (intro exI [of _ "[]"] exI [of _ "r # replicate (length cs) (Inr None)"])
      (auto simp: stream_results_def read_finished)
  show ?case
  proof (cases res)
    case (Inl e)
    then have "r = Inl e" "ts_finished self'"
      using ev step Cons.prems(1,3) by (auto simp: next_event_def)
    then show ?thesis by (intro tail) (simp_all add: terminal_result_def)
  next
    case (Inr event)
    then obtain e where e: "res = Inr (Some e)" using ok by (cases event) (auto simp: source_step_ok_def)
    show ?thesis
    proof (cases e)
      case (EvCompleted latency usage)
      then have body: "accepted_body parse sha codex body r0 usage emitted"
        using ok e by (simp add: source_step_ok_def)
      have "r = Inr (Some (EvCompleted latency usage)) \<or> (\<exists>x. r = Inl x)" "ts_finished self'"
        using ev step Cons.prems(1,3) e EvCompleted
        by (auto simp: next_event_def deliver_completed_def Let_def split: option.splits prod.splits sum.splits)
      then show ?thesis using body by (intro tail) (auto simp: terminal_result_def)
    next
      case (EvDelta t)
      have live: "live_source parse sha codex body r0 (emitted @ t) s'"
        using ok e EvDelta by (simp add: source_step_ok_def live_source_def)
      let ?n = "length (concat (emitted @ t))"
      show ?thesis
      proof (cases "?n \<le> ts_max_response_bytes self")
        case False
        then have "r = Inl response_size_error" "ts_finished self'"
          using ev step Cons.prems(1,3,4) e EvDelta by (auto simp: next_event_def deliver_delta_def Let_def)
        then show ?thesis by (intro tail) (simp_all add: terminal_result_def)
      next
        case True
        then have r: "r = Inr (Some (EvDelta t))" and self': "ts_source self' = SourceProvider s'"
          "\<not> ts_finished self'" "ts_emitted_bytes self' = ?n" "ts_max_response_bytes self' = ts_max_response_bytes self"
          using ev step Cons.prems(1,3,4) e EvDelta by (auto simp: next_event_def deliver_delta_def Let_def)
        from Cons.IH [OF self'(1) live self'(2,3)] True self'(4) obtain texts outcome where
          "stream_results texts outcome (read_events parse sha cs self' budget')"
          "length (concat ((emitted @ t) @ concat texts)) \<le> ts_max_response_bytes self"
          "redacted_start r0 ((emitted @ t) @ concat texts)"
          "\<forall>latency usage. Inr (Some (EvCompleted latency usage)) \<in> set outcome \<longrightarrow>
             accepted_body parse sha codex body r0 usage ((emitted @ t) @ concat texts)"
          by fastforce
        then show ?thesis
          using ev r by (intro exI [of _ "t # texts"] exI [of _ outcome]) (auto simp: stream_results_def)
      qed
    qed
  qed
qed

section \<open>Properties\<close>

text \<open>
  C10: what a caller reads from a provider's stream, however often it reads, is a sequence of deltas
  and then at most one outcome, an error or a completion, and nothing after it. The deltas stay within
  the byte limit, and no configured secret occurs in them, whether the stream completes, fails or is
  still open. A completion is reported only for a body that was read to its clean end and accepted by
  the decoder, with the decoder's usage, and the deltas are then the redaction of all the decoder
  delivered: nothing is lost, repeated or held back.
\<close>

theorem llm_stream_faithful:
  assumes "provider_source_new body secrets codex provider model = Some source" and "str_open body"
  shows "\<exists>texts outcome r0.
      stream_results texts outcome (read_events parse sha clocks
        (constrain (text_stream_new provider model (SourceProvider source) attempts) limit reconciliation) budget)
    \<and> length (concat (concat texts)) \<le> limit
    \<and> (\<forall>s\<in>set secrets. (\<exists>c\<in>set (chars s). \<not> is_ws c) \<longrightarrow> \<not> occurs (chars s) (concat texts))
    \<and> streaming_new (map chars secrets) = Some r0
    \<and> (\<forall>latency usage. Inr (Some (EvCompleted latency usage)) \<in> set outcome \<longrightarrow>
         accepted_body parse sha codex body r0 usage (concat texts))"
proof -
  obtain r0 where r0: "streaming_new (map chars secrets) = Some r0"
    and source: "source = \<lparr>ps_response = Some body, ps_decoder = responses_decoder_new codex, ps_redactor = Some r0,
        ps_pending = [], ps_finished = False, ps_provider = provider, ps_model = model\<rparr>"
    using assms(1) by (auto simp: provider_source_new_def)
  let ?ts = "constrain (text_stream_new provider model (SourceProvider source) attempts) limit reconciliation"
  have "open_source parse sha codex body r0 [] source"
    using assms(2) unfolding open_source_def
    by (auto simp: source only_deltas_def pending_text_def body_read_def intro!: exI [of _ "[]"] exI [of _ "responses_decoder_new codex"])
  then have "live_source parse sha codex body r0 [] source" by (simp add: live_source_def)
  from read_events_ok [OF _ this, of ?ts clocks budget] redacted_start_clean [OF r0] r0 show ?thesis
    by (fastforce simp: constrain_def text_stream_new_def)
qed

definition sample_response :: streaming_response where
  "sample_response =
     \<lparr>str_status = 200, str_open = True, str_chunks = map (\<lambda>c. (1, ChunkData c)) sample_body @ [(2, ChunkEnd)],
      str_operation = LlmCompletion, str_ends_at = 10, str_max_response_bytes = 1000, str_bytes_read = 0, str_attempts = 1\<rparr>"

definition sample_reads :: "provider_source \<Rightarrow> (api_error + stream_event option) list" where
  "sample_reads source = read_events sample_parse id [(5, 0), (6, 0), (7, 0)]
     (constrain (text_stream_new ''p'' ''m'' (SourceProvider source) 1) 100
       \<lparr>rc_principal_key = ''k'', rc_attempts = 1, rc_estimated_tokens_per_attempt = 1, rc_reserved_tokens = 1\<rparr>)
     (provider_budget_new 10 10)"

lemma sample_reads_complete:
  "case provider_source_new sample_response [''abcd''] False ''p'' ''m'' of
     None \<Rightarrow> False
   | Some source \<Rightarrow> sample_reads source = [Inr (Some (EvDelta [''h'', ''i''])), Inr (Some (EvCompleted 6 None)), Inr None]"
  by code_simp

theorem llm_stream_faithful_witness:
  "\<exists>r0 texts. streaming_new [chars ''abcd''] = Some r0
     \<and> accepted_body sample_parse id False sample_response r0 None (concat texts) \<and> \<not> occurs (chars ''abcd'') (concat texts)"
proof -
  obtain source where source: "provider_source_new sample_response [''abcd''] False ''p'' ''m'' = Some source"
    and reads: "sample_reads source = [Inr (Some (EvDelta [''h'', ''i''])), Inr (Some (EvCompleted 6 None)), Inr None]"
    using sample_reads_complete by (auto split: option.splits)
  have "str_open sample_response" by (simp add: sample_response_def)
  from llm_stream_faithful [OF source this, where parse = sample_parse and sha = id
      and clocks = "[(5, 0), (6, 0), (7, 0)]" and attempts = 1 and limit = 100
      and budget = "provider_budget_new 10 10" and reconciliation =
        "\<lparr>rc_principal_key = ''k'', rc_attempts = 1, rc_estimated_tokens_per_attempt = 1, rc_reserved_tokens = 1\<rparr>"]
  obtain texts outcome r0 where
    res: "stream_results texts outcome (sample_reads source)" "streaming_new (map chars [''abcd'']) = Some r0"
    and clean: "\<forall>s\<in>set [''abcd'']. (\<exists>c\<in>set (chars s). \<not> is_ws c) \<longrightarrow> \<not> occurs (chars s) (concat texts)"
    and body: "\<forall>latency usage. Inr (Some (EvCompleted latency usage)) \<in> set outcome \<longrightarrow>
        accepted_body sample_parse id False sample_response r0 usage (concat texts)"
    unfolding sample_reads_def [symmetric] by (elim exE conjE) (rule that)
  have "Inr (Some (EvCompleted 6 None)) \<in> set outcome"
  proof -
    have "Inr (Some (EvCompleted 6 None)) \<in> set (sample_reads source)" unfolding reads by simp
    moreover have "sample_reads source = map (\<lambda>t. Inr (Some (EvDelta t))) texts @ outcome"
      using res(1) by (simp add: stream_results_def)
    ultimately show ?thesis by auto
  qed
  moreover have "\<exists>c\<in>set (chars ''abcd''). \<not> is_ws c" by code_simp
  ultimately show ?thesis using res(2) clean body by fastforce
qed

end
