(* ===== verification/Floats.thy ===== *)
theory Floats
  imports Analysis
begin

text \<open>
  IEEE floats as their bits, as far as header and setting parsing needs them: decimal strings, rounded to
  nearest with ties to even, comparison of finite values, and the one subtraction the code makes.
\<close>

text \<open>
  The bits of the float nearest to the positive \<open>p / q\<close>, with \<open>f\<close> fraction bits and least exponent \<open>emin\<close>.
  The mantissa carries into the exponent, also from the subnormals, and past the largest float to infinity.
\<close>

fun bit_length :: "nat \<Rightarrow> nat" where
  "bit_length n = (if n = 0 then 0 else Suc (bit_length (n div 2)))"

declare bit_length.simps [simp del]

definition div_half_even :: "nat \<Rightarrow> nat \<Rightarrow> nat" where
  "div_half_even p q =
     (let d = p div q; r = p mod q in if 2 * r > q \<or> 2 * r = q \<and> odd d then d + 1 else d)"

definition float_bits :: "nat \<Rightarrow> int \<Rightarrow> nat \<Rightarrow> nat \<Rightarrow> nat" where
  "float_bits f emin p q =
     (let k = int (bit_length p) - int (bit_length q);
          e = (if q * 2 ^ nat k \<le> p * 2 ^ nat (- k) then k else k - 1);
          e = max e emin;
          shift = int f - e;
          m = div_half_even (p * 2 ^ nat shift) (q * 2 ^ nat (- shift))
      in nat (e - emin) * 2 ^ f + m)"

definition f64_of_ratio :: "nat \<Rightarrow> nat \<Rightarrow> f64" where
  "f64_of_ratio p q = of_nat (min (float_bits 52 (- 1022) p q) (2047 * 2 ^ 52))"

definition f32_of_ratio :: "nat \<Rightarrow> nat \<Rightarrow> f32" where
  "f32_of_ratio p q = of_nat (min (float_bits 23 (- 126) p q) (255 * 2 ^ 23))"

definition f64_neg :: "f64 \<Rightarrow> f64" where
  "f64_neg x = x + 2 ^ 63"

text \<open>A finite \<open>f64\<close> is \<open>s * m * 2 ^ k / 2 ^ 1074\<close>.\<close>

definition f64_scaled :: "f64 \<Rightarrow> int" where
  "f64_scaled x =
     (let bits = unat x mod 2 ^ 63; e = bits div 2 ^ 52; f = bits mod 2 ^ 52;
          v = (if e = 0 then int f else int (2 ^ 52 + f) * 2 ^ (e - 1))
      in if unat x < 2 ^ 63 then v else - v)"

definition f64_le :: "f64 \<Rightarrow> f64 \<Rightarrow> bool" where
  "f64_le a b = (f64_scaled a \<le> f64_scaled b)"

definition f64_zero :: f64 where "f64_zero = 0"
definition f64_ninety :: f64 where "f64_ninety = 0x4056800000000000"
definition f64_hundred :: f64 where "f64_hundred = 0x4059000000000000"

text \<open>\<open>(100.0 - x).clamp(0.0, 100.0)\<close>\<close>

definition hundred_minus_clamped :: "f64 \<Rightarrow> f64" where
  "hundred_minus_clamped x =
     (let d = f64_scaled f64_hundred - f64_scaled x
      in if d \<le> 0 then f64_zero
         else if f64_scaled f64_hundred \<le> d then f64_hundred
         else f64_of_ratio (nat d) (2 ^ 1074))"

text \<open>\<open>str::parse::<f64>\<close>, of which only the finite results are used.\<close>

definition split_sign :: "string \<Rightarrow> bool \<times> string" where
  "split_sign s =
     (case s of c # cs \<Rightarrow> if c = CHR ''-'' then (True, cs) else if c = CHR ''+'' then (False, cs) else (False, s)
      | [] \<Rightarrow> (False, []))"

definition parse_exponent :: "string \<Rightarrow> int option" where
  "parse_exponent s =
     (case s of
        [] \<Rightarrow> Some 0
      | c # cs \<Rightarrow>
          if c = CHR ''e'' \<or> c = CHR ''E''
          then (case split_sign cs of (negative, ds) \<Rightarrow>
                  if ds \<noteq> [] \<and> list_all is_digit ds
                  then Some (if negative then - int (read_nat ds) else int (read_nat ds)) else None)
          else None)"

definition parse_decimal :: "string \<Rightarrow> (bool \<times> nat \<times> int) option" where
  "parse_decimal s =
     (case split_sign s of (negative, body) \<Rightarrow>
        let whole = takeWhile is_digit body; rest = dropWhile is_digit body;
            (fraction, tail) =
              (case rest of c # cs \<Rightarrow> if c = CHR ''.'' then (takeWhile is_digit cs, dropWhile is_digit cs) else ([], rest)
               | [] \<Rightarrow> ([], []))
        in if whole @ fraction = [] then None
           else map_option (\<lambda>e. (negative, read_nat (whole @ fraction), e - int (length fraction))) (parse_exponent tail))"

definition parse_f64 :: "string \<Rightarrow> f64 option" where
  "parse_f64 s =
     map_option (\<lambda>(negative, n, e).
       let x = (if n = 0 then 0 else f64_of_ratio (n * 10 ^ nat e) (10 ^ nat (- e))) in
       if negative then f64_neg x else x) (parse_decimal s)"

text \<open>\<open>str::parse::<f32>\<close>, with the spellings of infinity and not-a-number.\<close>

definition parse_f32 :: "string \<Rightarrow> f32 option" where
  "parse_f32 s =
     (case split_sign s of (negative, body) \<Rightarrow>
        let signed = (\<lambda>x. if negative then x + 2 ^ 31 else x); word = ascii_lower body in
        if word = ''inf'' \<or> word = ''infinity'' then Some (signed 0x7F800000)
        else if word = ''nan'' then Some (signed 0x7FC00000)
        else map_option (\<lambda>(_, n, e).
               signed (if n = 0 then 0 else f32_of_ratio (n * 10 ^ nat e) (10 ^ nat (- e)))) (parse_decimal s))"

definition f32_is_finite :: "f32 \<Rightarrow> bool" where
  "f32_is_finite x = (drop_bit 23 (unat x) mod 256 \<noteq> 255)"

text \<open>A finite \<open>f32\<close> scaled by \<open>2 ^ 149\<close>.\<close>

definition f32_scaled :: "f32 \<Rightarrow> int" where
  "f32_scaled x =
     (let bits = unat x mod 2 ^ 31; e = bits div 2 ^ 23; f = bits mod 2 ^ 23;
          v = (if e = 0 then int f else int (2 ^ 23 + f) * 2 ^ (e - 1))
      in if unat x < 2 ^ 31 then v else - v)"

end
