(* ===== verification/Rate_Limit_Snapshot.thy ===== *)
theory Rate_Limit_Snapshot
  imports Floats Provider_Budget Upstream Util
begin

text \<open>
  What a provider's response headers say of its limits (\<open>RateLimitSnapshot\<close> and the header parsing of
  \<open>llm.rs\<close>) and the store of the latest snapshots. A header map is the names with, for each value, what
  \<open>HeaderValue::to_str\<close> makes of it.
\<close>

section \<open>Headers\<close>

type_synonym header_map = "(string \<times> string option list) list"

definition header_all :: "header_map \<Rightarrow> string \<Rightarrow> string option list" where
  "header_all headers name = (case map_of headers name of Some vs \<Rightarrow> vs | None \<Rightarrow> [])"

definition header_value :: "header_map \<Rightarrow> string \<Rightarrow> string option" where
  "header_value headers name = (case header_all headers name of v # _ \<Rightarrow> v | [] \<Rightarrow> None)"

definition header_f64 :: "header_map \<Rightarrow> string \<Rightarrow> f64 option" where
  "header_f64 headers name =
     Option.bind (header_value headers name) (\<lambda>v.
     Option.bind (parse_f64 (trim v)) (\<lambda>x. if f64_is_finite x then Some x else None))"

definition parse_unsigned :: "string \<Rightarrow> u64 option" where
  "parse_unsigned s = parse_u64 (case s of c # cs \<Rightarrow> if c = CHR ''+'' then cs else s | [] \<Rightarrow> [])"

definition header_u64 :: "header_map \<Rightarrow> string \<Rightarrow> u64 option" where
  "header_u64 headers name = Option.bind (header_value headers name) (\<lambda>v. parse_unsigned (trim v))"

definition header_bool :: "header_map \<Rightarrow> string \<Rightarrow> bool option" where
  "header_bool headers name =
     Option.bind (header_value headers name) (\<lambda>v.
       let v = ascii_lower (trim v) in
       if v = ''true'' \<or> v = ''1'' \<or> v = ''yes'' then Some True
       else if v = ''false'' \<or> v = ''0'' \<or> v = ''no'' then Some False
       else None)"

section \<open>Snapshots\<close>

record rate_limit_window =
  rw_used_percent :: f64
  rw_remaining_percent :: f64
  rw_window_minutes :: "u64 option"
  rw_window_label :: "string option"
  rw_resets_in_seconds :: "u64 option"
  rw_resets_at :: "datetime option"

record codex_credits =
  ccr_has_credits :: "bool option"
  ccr_unlimited :: "bool option"
  ccr_balance :: "string option"

record named_rate_limit =
  nrl_name :: string
  nrl_limit_name :: "string option"
  nrl_primary :: "rate_limit_window option"
  nrl_secondary :: "rate_limit_window option"

record rate_limit_snapshot =
  rls_remaining_requests :: "string option"
  rls_remaining_tokens :: "string option"
  rls_reset_requests :: "string option"
  rls_reset_tokens :: "string option"
  rls_captured_at :: "datetime option"
  rls_plan_type :: "string option"
  rls_active_limit :: "string option"
  rls_primary :: "rate_limit_window option"
  rls_secondary :: "rate_limit_window option"
  rls_credits :: "codex_credits option"
  rls_additional_limits :: "named_rate_limit list"

definition snapshot_default :: rate_limit_snapshot where
  "snapshot_default =
     \<lparr>rls_remaining_requests = None, rls_remaining_tokens = None, rls_reset_requests = None, rls_reset_tokens = None,
      rls_captured_at = None, rls_plan_type = None, rls_active_limit = None, rls_primary = None, rls_secondary = None,
      rls_credits = None, rls_additional_limits = []\<rparr>"

definition has_data :: "rate_limit_snapshot \<Rightarrow> bool" where
  "has_data s =
     (rls_remaining_requests s \<noteq> None \<or> rls_remaining_tokens s \<noteq> None \<or> rls_reset_requests s \<noteq> None
      \<or> rls_reset_tokens s \<noteq> None \<or> rls_plan_type s \<noteq> None \<or> rls_active_limit s \<noteq> None
      \<or> rls_primary s \<noteq> None \<or> rls_secondary s \<noteq> None \<or> rls_credits s \<noteq> None \<or> rls_additional_limits s \<noteq> [])"

definition minutes_per_day :: nat where "minutes_per_day = 24 * 60"

definition rate_limit_window_label :: "u64 \<Rightarrow> string" where
  "rate_limit_window_label minutes =
     (let n = unat minutes in
      if minutes_per_day \<le> n \<and> n mod minutes_per_day = 0 then show_nat (n div minutes_per_day) @ ''d''
      else if 60 \<le> n \<and> n mod 60 = 0 then show_nat (n div 60) @ ''h''
      else show_nat n @ ''m'')"

text \<open>\<open>DateTime::from_timestamp\<close> of a second count, which chrono refuses outside its range.\<close>

definition signed_u64 :: "u64 \<Rightarrow> int" where
  "signed_u64 n = sint n"

definition codex_window_from_headers ::
    "(int \<Rightarrow> datetime option) \<Rightarrow> header_map \<Rightarrow> string \<Rightarrow> rate_limit_window option" where
  "codex_window_from_headers from_timestamp headers prefixed =
     Option.bind (header_f64 headers (prefixed @ ''-used-percent'')) (\<lambda>used_percent.
       let reported = header_u64 headers (prefixed @ ''-window-minutes'');
           window_minutes = (if reported = Some 0 then None else reported)
       in if f64_le used_percent f64_zero \<and> window_minutes = None then None
          else Some \<lparr>rw_used_percent = used_percent,
                 rw_remaining_percent = hundred_minus_clamped used_percent,
                 rw_window_minutes = window_minutes,
                 rw_window_label = map_option rate_limit_window_label window_minutes,
                 rw_resets_in_seconds = header_u64 headers (prefixed @ ''-reset-after-seconds''),
                 rw_resets_at =
                   Option.bind (header_u64 headers (prefixed @ ''-reset-at'')) (\<lambda>ts. from_timestamp (signed_u64 ts))\<rparr>)"

definition codex_credits_from_headers :: "header_map \<Rightarrow> codex_credits option" where
  "codex_credits_from_headers headers =
     (let has_credits = header_bool headers ''x-codex-credits-has-credits'';
          unlimited = header_bool headers ''x-codex-credits-unlimited'';
          balance = Option.bind (header_value headers ''x-codex-credits-balance'') (\<lambda>v. if blank v then None else Some v)
      in if has_credits = None \<and> unlimited = None \<and> balance = None then None
         else Some \<lparr>ccr_has_credits = has_credits, ccr_unlimited = unlimited, ccr_balance = balance\<rparr>)"

definition strip_suffix :: "string \<Rightarrow> string \<Rightarrow> string option" where
  "strip_suffix ending s = (if ends_with s ending then Some (take (length s - length ending) s) else None)"

definition bucket_of_header :: "string \<Rightarrow> string option" where
  "bucket_of_header name =
     Option.bind (strip_prefix ''x-codex-'' name) (\<lambda>rest.
     Option.bind (option_or (strip_suffix ''-primary-used-percent'' rest) (strip_suffix ''-secondary-used-percent'' rest))
       (\<lambda>bucket. if bucket = [] then None else Some bucket))"

definition codex_named_limits_from_headers :: "(int \<Rightarrow> datetime option) \<Rightarrow> header_map \<Rightarrow> named_rate_limit list" where
  "codex_named_limits_from_headers from_timestamp headers =
     map (\<lambda>name. \<lparr>nrl_name = name,
            nrl_limit_name = header_value headers (''x-codex-'' @ name @ ''-limit-name''),
            nrl_primary = codex_window_from_headers from_timestamp headers (''x-codex-'' @ name @ ''-primary''),
            nrl_secondary = codex_window_from_headers from_timestamp headers (''x-codex-'' @ name @ ''-secondary'')\<rparr>)
       (remdups_adj (sort (List.map_filter (bucket_of_header \<circ> fst) headers)))"

definition rate_limits_from_headers :: "(int \<Rightarrow> datetime option) \<Rightarrow> header_map \<Rightarrow> rate_limit_snapshot" where
  "rate_limits_from_headers from_timestamp headers =
     \<lparr>rls_remaining_requests = header_value headers ''x-ratelimit-remaining-requests'',
      rls_remaining_tokens = header_value headers ''x-ratelimit-remaining-tokens'',
      rls_reset_requests = header_value headers ''x-ratelimit-reset-requests'',
      rls_reset_tokens = header_value headers ''x-ratelimit-reset-tokens'',
      rls_captured_at = None,
      rls_plan_type = header_value headers ''x-codex-plan-type'',
      rls_active_limit = header_value headers ''x-codex-active-limit'',
      rls_primary = codex_window_from_headers from_timestamp headers ''x-codex-primary'',
      rls_secondary = codex_window_from_headers from_timestamp headers ''x-codex-secondary'',
      rls_credits = codex_credits_from_headers headers,
      rls_additional_limits = codex_named_limits_from_headers from_timestamp headers\<rparr>"

text \<open>The loop over the windows that are present; the first exhausted one ends it.\<close>

fun worst_window :: "string option \<Rightarrow> rate_limit_window list \<Rightarrow> string option" where
  "worst_window worst [] = worst"
| "worst_window worst (w # ws) =
     (if f64_le f64_hundred (rw_used_percent w) then Some ''limited''
      else worst_window (if f64_le f64_ninety (rw_used_percent w) then Some ''near_limit'' else worst) ws)"

definition snapshot_windows :: "rate_limit_snapshot \<Rightarrow> rate_limit_window list" where
  "snapshot_windows s = List.map_filter id [rls_primary s, rls_secondary s]"

definition codex_rate_limit_state :: "rate_limit_snapshot \<Rightarrow> string option" where
  "codex_rate_limit_state s = worst_window None (snapshot_windows s)"

section \<open>The latest snapshots\<close>

type_synonym latest_rate_limits = "string \<Rightarrow> rate_limit_snapshot option"

definition limits_record ::
    "latest_rate_limits \<Rightarrow> datetime \<Rightarrow> string \<Rightarrow> rate_limit_snapshot \<Rightarrow> latest_rate_limits" where
  "limits_record self wall_clock provider snapshot =
     (if \<not> has_data snapshot then self else self(provider \<mapsto> snapshot\<lparr>rls_captured_at := Some wall_clock\<rparr>))"

section \<open>Facts\<close>

lemma show_nat_eq [simp]: "show_nat m = show_nat n \<longleftrightarrow> m = n"
  by (metis read_show_nat)

lemma window_label_injective:
  assumes "rate_limit_window_label a = rate_limit_window_label b"
  shows "a = b"
proof -
  have "unat a = unat b"
    using assms by (auto simp: rate_limit_window_label_def Let_def minutes_per_day_def split: if_splits)
  then show ?thesis by (simp only: word_unat_eq_iff)
qed

lemma worst_window_limited:
  "worst \<noteq> Some ''limited'' \<Longrightarrow>
     worst_window worst ws = Some ''limited'' \<longleftrightarrow> (\<exists>w\<in>set ws. f64_le f64_hundred (rw_used_percent w))"
  by (induction ws arbitrary: worst) auto

lemma worst_window_near:
  "\<forall>w\<in>set ws. \<not> f64_le f64_hundred (rw_used_percent w) \<Longrightarrow>
     worst_window worst ws = (if \<exists>w\<in>set ws. f64_le f64_ninety (rw_used_percent w) then Some ''near_limit'' else worst)"
  by (induction ws arbitrary: worst) auto

lemma rate_limit_state_iff:
  "codex_rate_limit_state s = Some ''limited'' \<longleftrightarrow>
     (\<exists>w\<in>set (snapshot_windows s). f64_le f64_hundred (rw_used_percent w))"
  by (simp add: codex_rate_limit_state_def worst_window_limited)

lemma rate_limit_state_near:
  assumes "codex_rate_limit_state s \<noteq> Some ''limited''"
  shows "codex_rate_limit_state s = Some ''near_limit'' \<longleftrightarrow>
     (\<exists>w\<in>set (snapshot_windows s). f64_le f64_ninety (rw_used_percent w))"
proof -
  have "\<forall>w\<in>set (snapshot_windows s). \<not> f64_le f64_hundred (rw_used_percent w)"
    using assms by (simp add: rate_limit_state_iff)
  from worst_window_near [OF this, of None] show ?thesis by (simp add: codex_rate_limit_state_def)
qed

lemma codex_window_absent:
  "header_f64 headers (p @ ''-used-percent'') = None \<Longrightarrow> codex_window_from_headers ft headers p = None"
  by (simp add: codex_window_from_headers_def)

lemma limits_record_keeps:
  "self provider \<noteq> None \<Longrightarrow> limits_record self at p s provider \<noteq> None"
  "provider \<noteq> p \<Longrightarrow> limits_record self at p s provider = self provider"
  "\<not> has_data s \<Longrightarrow> limits_record self at p s = self"
  by (simp_all add: limits_record_def)

end
