(* ===== verification/Llm_Credentials.thy ===== *)
theory Llm_Credentials
  imports Rate_Limit_Snapshot
begin

text \<open>
  Credentials of the Codex provider (\<open>parse_codex_auth_credentials\<close> of \<open>llm.rs\<close>): where the auth file
  keeps the token, what kind of token it is, and the expiry an OAuth token carries in its base64url
  payload. Shown: the decoder inverts the base64url encoding of every byte sequence.
\<close>

section \<open>The code\<close>

datatype codex_token_kind = KindOpenAiApiKey | KindCodexOauth | KindOther

fun token_kind_as_str :: "codex_token_kind \<Rightarrow> string" where
  "token_kind_as_str KindOpenAiApiKey = ''openai_api_key''"
| "token_kind_as_str KindCodexOauth = ''codex_oauth''"
| "token_kind_as_str KindOther = ''other''"

record codex_credentials =
  cc_token :: string
  cc_account_id :: "string option"
  cc_token_kind :: codex_token_kind

definition looks_like_jwt :: "string \<Rightarrow> bool" where
  "looks_like_jwt token = (length (split_on CHR ''.'' token) = 3)"

definition codex_token_kind_of :: "string \<Rightarrow> string \<Rightarrow> codex_token_kind" where
  "codex_token_kind_of key token =
     (let normalized_key = ascii_lower key in
      if str_contains ''api_key'' normalized_key \<or> starts_with token ''sk-'' then KindOpenAiApiKey
      else if normalized_key = ''access_token'' \<or> looks_like_jwt token then KindCodexOauth
      else KindOther)"

definition credentials_from_token :: "string \<Rightarrow> string \<Rightarrow> string option \<Rightarrow> codex_credentials" where
  "credentials_from_token key token account_id =
     \<lparr>cc_token = token, cc_account_id = account_id, cc_token_kind = codex_token_kind_of key token\<rparr>"

definition top_level_keys :: "string list" where
  "top_level_keys = [''api_key'', ''openai_api_key'', ''OPENAI_API_KEY'', ''access_token'', ''token'']"

fun find_map :: "('a \<Rightarrow> 'b option) \<Rightarrow> 'a list \<Rightarrow> 'b option" where
  "find_map f [] = None"
| "find_map f (x # xs) = (case f x of Some y \<Rightarrow> Some y | None \<Rightarrow> find_map f xs)"

definition credentials_in :: "string option \<Rightarrow> json \<Rightarrow> codex_credentials option" where
  "credentials_in account_id json =
     find_map (\<lambda>key. map_option (\<lambda>token. credentials_from_token key token account_id) (json_get_str json key))
       top_level_keys"

definition parse_codex_auth_credentials :: "(string \<Rightarrow> json option) \<Rightarrow> string \<Rightarrow> codex_credentials option" where
  "parse_codex_auth_credentials parse content =
     Option.bind (parse content) (\<lambda>json.
       let account_id = option_or (Option.bind (json_get json ''tokens'') (\<lambda>tokens. json_get_str tokens ''account_id''))
             (json_get_str json ''account_id'')
       in case credentials_in account_id json of
            Some credentials \<Rightarrow> Some credentials
          | None \<Rightarrow> Option.bind (json_get json ''tokens'') (credentials_in account_id))"

text \<open>The file, \<open>None\<close> when it cannot be read.\<close>

definition read_codex_auth_credentials :: "(string \<Rightarrow> json option) \<Rightarrow> string option \<Rightarrow> codex_credentials option" where
  "read_codex_auth_credentials parse file = Option.bind file (parse_codex_auth_credentials parse)"

definition read_codex_auth_token :: "(string \<Rightarrow> json option) \<Rightarrow> string option \<Rightarrow> string option" where
  "read_codex_auth_token parse file = map_option cc_token (read_codex_auth_credentials parse file)"

text \<open>The value of a base64 digit, either alphabet.\<close>

definition base64_value :: "char \<Rightarrow> nat option" where
  "base64_value c =
     (let byte = (of_char c :: nat) in
      if 65 \<le> byte \<and> byte \<le> 90 then Some (byte - 65)
      else if 97 \<le> byte \<and> byte \<le> 122 then Some (byte - 97 + 26)
      else if 48 \<le> byte \<and> byte \<le> 57 then Some (byte - 48 + 52)
      else if c = CHR ''-'' \<or> c = CHR ''+'' then Some 62
      else if c = CHR ''_'' \<or> c = CHR ''/'' then Some 63
      else None)"

fun decode_base64_loop :: "bytes \<Rightarrow> u32 \<Rightarrow> nat \<Rightarrow> string \<Rightarrow> bytes option" where
  "decode_base64_loop out buffer bits [] = Some out"
| "decode_base64_loop out buffer bits (c # cs) =
     (if c = CHR ''='' then Some out
      else case base64_value c of
             None \<Rightarrow> None
           | Some v \<Rightarrow>
               (let buffer = or (push_bit 6 buffer) (of_nat v); bits = bits + 6 in
                if 8 \<le> bits
                then decode_base64_loop (out @ [ucast (and (drop_bit (bits - 8) buffer) 0xFF)])
                       (and buffer (push_bit (bits - 8) 1 - 1)) (bits - 8) cs
                else decode_base64_loop out buffer bits cs))"

definition decode_base64url :: "string \<Rightarrow> bytes option" where
  "decode_base64url input = decode_base64_loop [] 0 0 input"

text \<open>\<open>Value::as_i64\<close>\<close>

fun json_as_i64 :: "json \<Rightarrow> int option" where
  "json_as_i64 (JNumber (PosInt n)) = (if unat n < 2 ^ 63 then Some (uint n) else None)"
| "json_as_i64 (JNumber (NegInt n)) = Some (sint n)"
| "json_as_i64 _ = None"

definition jwt_expiry ::
    "(bytes \<Rightarrow> json option) \<Rightarrow> (int \<Rightarrow> datetime option) \<Rightarrow> string \<Rightarrow> datetime option" where
  "jwt_expiry from_slice from_timestamp token =
     (case split_on CHR ''.'' token of
        _ # payload # _ \<Rightarrow>
          Option.bind (decode_base64url payload) (\<lambda>bytes.
          Option.bind (from_slice bytes) (\<lambda>claims.
          Option.bind (Option.bind (json_get claims ''exp'') json_as_i64) from_timestamp))
      | _ \<Rightarrow> None)"

definition codex_token_expiry ::
    "(bytes \<Rightarrow> json option) \<Rightarrow> (int \<Rightarrow> datetime option) \<Rightarrow> codex_credentials \<Rightarrow> datetime option" where
  "codex_token_expiry from_slice from_timestamp credentials =
     (if cc_token_kind credentials \<noteq> KindCodexOauth then None
      else jwt_expiry from_slice from_timestamp (cc_token credentials))"

section \<open>Round trip\<close>

text \<open>The encoding of RFC 4648, section 5, without padding.\<close>

definition base64url_alphabet :: string where
  "base64url_alphabet =
     ''ABCDEFGHIJKLMNOPQRSTUVWXYZabcdefghijklmnopqrstuvwxyz0123456789-_''"

definition base64_digit :: "u8 \<Rightarrow> char" where
  "base64_digit v = base64url_alphabet ! unat v"

text \<open>The four sextets of three bytes.\<close>

definition sextet1 :: "u8 \<Rightarrow> u8" where "sextet1 a = drop_bit 2 a"
definition sextet2 :: "u8 \<Rightarrow> u8 \<Rightarrow> u8" where "sextet2 a b = or (push_bit 4 (and a 3)) (drop_bit 4 b)"
definition sextet3 :: "u8 \<Rightarrow> u8 \<Rightarrow> u8" where "sextet3 b c = or (push_bit 2 (and b 15)) (drop_bit 6 c)"
definition sextet4 :: "u8 \<Rightarrow> u8" where "sextet4 c = and c 63"

fun encode_base64url :: "bytes \<Rightarrow> string" where
  "encode_base64url (a # b # c # bs) =
     base64_digit (sextet1 a) # base64_digit (sextet2 a b) # base64_digit (sextet3 b c) # base64_digit (sextet4 c)
       # encode_base64url bs"
| "encode_base64url [a, b] = [base64_digit (sextet1 a), base64_digit (sextet2 a b), base64_digit (sextet3 b 0)]"
| "encode_base64url [a] = [base64_digit (sextet1 a), base64_digit (sextet2 a 0)]"
| "encode_base64url [] = []"

lemmas sextet_defs = sextet1_def sextet2_def sextet3_def sextet4_def

lemma alphabet_value: "map base64_value base64url_alphabet = map Some [0..<64]"
  by code_simp

lemma base64_digit_value:
  assumes "v < 64"
  shows "base64_value (base64_digit v) = Some (unat v)" and "base64_digit v \<noteq> CHR ''=''"
proof -
  have l: "length base64url_alphabet = 64" by code_simp
  have "unat v < 64" using assms by (simp add: word_less_nat_alt)
  then show v: "base64_value (base64_digit v) = Some (unat v)"
    using arg_cong [OF alphabet_value, of "\<lambda>xs. xs ! unat v"] l by (simp add: base64_digit_def)
  have "base64_value CHR ''='' = None" by code_simp
  with v show "base64_digit v \<noteq> CHR ''=''" by auto
qed

text \<open>A digit shifted into the buffer, which holds the \<open>bits\<close> bits that were not yet put out.\<close>

definition shift_in :: "u32 \<Rightarrow> u8 \<Rightarrow> u32" where "shift_in buffer v = or (push_bit 6 buffer) (ucast v)"
definition emit_byte :: "nat \<Rightarrow> u32 \<Rightarrow> u8" where "emit_byte n buffer = ucast (and (drop_bit n buffer) 0xFF)"
definition keep_bits :: "nat \<Rightarrow> u32 \<Rightarrow> u32" where "keep_bits n buffer = and buffer (push_bit n 1 - 1)"

lemma decode_digit:
  "v < 64 \<Longrightarrow> decode_base64_loop out buffer bits (base64_digit v # cs) =
     (let buffer = shift_in buffer v in
      if 2 \<le> bits
      then decode_base64_loop (out @ [emit_byte (bits - 2) buffer]) (keep_bits (bits - 2) buffer) (bits - 2) cs
      else decode_base64_loop out buffer (bits + 6) cs)"
  by (auto simp: base64_digit_value Let_def shift_in_def emit_byte_def keep_bits_def)

lemma u8_masks: "(3 :: u8) = mask 2" "(15 :: u8) = mask 4" "(63 :: u8) = mask 6"
  by (simp_all add: mask_eq_exp_minus_1)

lemma u8_high: "8 \<le> n \<Longrightarrow> \<not> bit (x :: u8) n"
  using bit_imp_le_length [of x n] by auto

lemma u8_bits:
  fixes x y :: u8
  assumes "bit x 0 = bit y 0" "bit x 1 = bit y 1" "bit x 2 = bit y 2" "bit x 3 = bit y 3"
    "bit x 4 = bit y 4" "bit x 5 = bit y 5" "bit x 6 = bit y 6" "bit x 7 = bit y 7"
  shows "x = y"
proof (rule bit_word_eqI)
  fix n assume "n < LENGTH(8)"
  then consider "n = 0" | "n = 1" | "n = 2" | "n = 3" | "n = 4" | "n = 5" | "n = 6" | "n = 7" by fastforce
  then show "bit x n = bit y n" using assms by cases simp_all
qed

lemma below_64:
  fixes x :: u8
  assumes "\<not> bit x 6" "\<not> bit x 7"
  shows "x < 64"
proof -
  have "x = take_bit 6 x" by (rule u8_bits) (simp_all add: assms bit_take_bit_iff)
  then have "uint x = uint (take_bit 6 x)" by simp
  then have "uint x = uint x mod 64" by (simp add: take_bit_eq_mod uint_mod)
  then have "uint x < 64" by (metis Euclidean_Rings.pos_mod_bound zero_less_numeral)
  then show ?thesis by (simp add: word_less_def)
qed

lemma sextet_bounds: "sextet1 a < 64" "sextet2 a b < 64" "sextet3 b c < 64" "sextet4 c < 64"
  by (rule below_64; simp add: sextet_defs u8_masks bit_simps u8_high)+

lemma sextet_words:
  fixes a b c :: u8
  defines "buffer1 \<equiv> shift_in (shift_in 0 (sextet1 a)) (sextet2 a b)"
  defines "buffer2 \<equiv> shift_in (keep_bits 4 buffer1) (sextet3 b c)"
  defines "buffer3 \<equiv> shift_in (keep_bits 2 buffer2) (sextet4 c)"
  shows "emit_byte 4 buffer1 = a" and "emit_byte 2 buffer2 = b" and "emit_byte 0 buffer3 = c"
    and "keep_bits 0 buffer3 = 0"
proof -
  have m: "(0xFF :: u32) = mask 8" "push_bit n (1 :: u32) - 1 = mask n" for n
    by (simp_all add: mask_eq_exp_minus_1)
  note defs = m u8_masks sextet_defs shift_in_def emit_byte_def keep_bits_def
  show "emit_byte 4 buffer1 = a"
    unfolding buffer1_def defs by (rule u8_bits; simp add: bit_simps u8_high)
  show "emit_byte 2 buffer2 = b"
    unfolding buffer2_def buffer1_def defs by (rule u8_bits; simp add: bit_simps u8_high)
  show "emit_byte 0 buffer3 = c"
    unfolding buffer3_def buffer2_def buffer1_def defs by (rule u8_bits; simp add: bit_simps u8_high)
  show "keep_bits 0 buffer3 = 0" by (simp add: keep_bits_def)
qed

lemma decode_group:
  "decode_base64_loop out 0 0 (encode_base64url (a # b # c # bs)) =
     decode_base64_loop (out @ [a, b, c]) 0 0 (encode_base64url bs)"
  "decode_base64_loop out 0 0 (encode_base64url [a, b]) = Some (out @ [a, b])"
  "decode_base64_loop out 0 0 (encode_base64url [a]) = Some (out @ [a])"
  by (simp_all add: decode_digit sextet_bounds sextet_words Let_def del: decode_base64_loop.simps(2))

lemma decode_encode_loop: "decode_base64_loop out 0 0 (encode_base64url bs) = Some (out @ bs)"
proof (induction bs arbitrary: out rule: encode_base64url.induct)
  case (1 a b c bs)
  then show ?case by (simp only: decode_group) simp
qed (simp_all only: decode_group, simp)

text \<open>
  C39: The decoder of token payloads inverts the base64url encoding of RFC 4648 without padding: every byte
  sequence is recovered from its encoding.
\<close>

theorem base64url_roundtrip: "decode_base64url (encode_base64url bs) = Some bs"
  by (simp add: decode_base64url_def decode_encode_loop)

end
