(* ===== verification/Config.thy ===== *)
theory Config
  imports Llm_Credentials Auth Mutation_Plan Sse_Decoder
begin

text \<open>
  The configuration (\<open>config.rs\<close>): its fields in groups, the inventory of the Codex credentials with the
  secrets the redaction must know, and the reading of the credential file. Tokens are re-read while the
  service runs; a published token stays in the inventory for good.
\<close>

section \<open>Fields\<close>

record store_config =
  sc_store_backend :: string
  sc_allow_ephemeral_production :: bool
  sc_meili_url :: "string option"
  sc_meili_api_key :: "string option"
  sc_meili_admin_api_key :: "string option"
  sc_meili_allow_initial_provision :: bool
  sc_meili_operations_index_created_at :: "string option"
  sc_meili_audit_index_created_at :: "string option"
  sc_write_consistency :: write_consistency
  sc_meili_wait_for_tasks :: bool
  sc_meili_scan_page_size :: usize
  sc_meili_scan_max_documents :: usize
  sc_meili_connect_timeout_ms :: u64
  sc_meili_request_timeout_ms :: u64

record parser_config =
  pc_parser_provider :: string
  pc_mineru_api_url :: string
  pc_mineru_backend :: string
  pc_mineru_return_md :: bool
  pc_mineru_return_content_list :: bool
  pc_mineru_return_middle_json :: bool
  pc_mineru_return_images :: bool
  pc_parser_timeout_ms :: u64
  pc_parser_max_response_bytes :: usize

record limit_config =
  lc_max_json_bytes :: usize
  lc_max_upload_bytes :: usize
  lc_max_multipart_fields :: usize
  lc_max_bulk_events :: usize
  lc_max_bulk_rows :: usize
  lc_max_search_limit :: usize
  lc_max_query_chars :: usize
  lc_max_tags_per_item :: usize
  lc_max_tag_bytes :: usize
  lc_upload_allowed_mime_types :: "string list"
  lc_request_timeout_ms :: u64
  lc_sync_ingest_timeout_ms :: u64
  lc_max_in_flight_requests :: usize
  lc_rate_limit_requests_per_minute :: u64
  lc_ingest_queue_capacity :: usize
  lc_shutdown_timeout_ms :: u64
  lc_cors_allowed_origins :: "string list"
  lc_allow_wildcard_cors :: bool
  lc_ingest_max_concurrent_tasks :: usize
  lc_ingest_task_retention_seconds :: u64
  lc_ingest_cleanup_interval_seconds :: u64
  lc_ingest_worker_enabled :: bool
  lc_trace_retention_days :: u64

record llm_config =
  llc_provider_connect_timeout_ms :: u64
  llc_llm_timeout_ms :: u64
  llc_provider_max_retries :: usize
  llc_provider_proxy_mode :: string
  llc_llm_max_input_chars :: usize
  llc_llm_max_output_tokens :: u32
  llc_llm_max_response_bytes :: usize
  llc_rate_limit_requests_per_minute :: u64
  llc_rate_limit_tokens_per_minute :: u64
  llc_llm_provider :: string
  llc_llm_model :: "string option"
  llc_llm_reasoning_effort :: "string option"
  llc_llm_model_overrides :: "string list"
  llc_analysis_llm_provider :: string
  llc_analysis_llm_model :: "string option"
  llc_analysis_llm_reasoning_effort :: "string option"
  llc_openai_api_key :: "string option"
  llc_codex_auth_path :: "string option"
  llc_codex_base_url :: string

record health_config =
  hc_llm_enabled :: bool
  hc_probe_interval_seconds :: u64
  hc_probe_ttl_seconds :: u64
  hc_max_stale_seconds :: u64
  hc_timeout_ms :: u64
  hc_require_llm :: bool
  hc_failure_threshold :: u32
  hc_rate_limit_unhealthy :: bool

record vector_config =
  vc_match_enabled :: bool
  vc_match_weight :: f32
  vc_match_doc_weight :: f32
  vc_match_min_score :: f32

record codex_secret_inventory =
  csi_history :: "string list"
  csi_active_credentials :: "codex_credentials option"

record codex_secret_refresh =
  csr_last_refresh :: "int option"
  csr_in_progress :: bool

record config =
  cfg_host :: string
  cfg_port :: u16
  cfg_run_mode :: string
  cfg_auth :: auth_settings
  cfg_allow_legacy_weak_index_hash_secret :: bool
  cfg_store :: store_config
  cfg_parser :: parser_config
  cfg_limits :: limit_config
  cfg_llm :: llm_config
  cfg_health :: health_config
  cfg_vector :: vector_config
  cfg_boundary_config_error :: "string option"
  cfg_previous_redaction_secrets :: "string list"
  cfg_inventory :: codex_secret_inventory
  cfg_refresh :: codex_secret_refresh

definition analysis_llm_config :: "config \<Rightarrow> config" where
  "analysis_llm_config self =
     self\<lparr>cfg_llm := (cfg_llm self)\<lparr>
       llc_llm_provider := llc_analysis_llm_provider (cfg_llm self),
       llc_llm_model := llc_analysis_llm_model (cfg_llm self),
       llc_llm_reasoning_effort := llc_analysis_llm_reasoning_effort (cfg_llm self)\<rparr>\<rparr>"

section \<open>The credential file\<close>

definition max_codex_auth_file_bytes :: nat where
  "max_codex_auth_file_bytes = 64 * 1024"

definition min_redaction_secret_chars :: nat where
  "min_redaction_secret_chars = 4"

definition codex_secret_refresh_interval :: int where
  "codex_secret_refresh_interval = 1000000000"

record file_metadata =
  fm_is_symlink :: bool
  fm_is_file :: bool
  fm_dev :: u64
  fm_ino :: u64
  fm_mode :: u32
  fm_len :: nat

text \<open>
  The group and other bits of a mode, \<open>0o077\<close>, are \<open>0x3F\<close>. What one read of the path meets: the metadata before, the open with its metadata, the metadata after,
  and the bytes behind the handle; \<open>None\<close> where the call fails.
\<close>

record auth_file_view =
  fv_before :: "file_metadata option"
  fv_opens :: bool
  fv_opened :: "file_metadata option"
  fv_after :: "file_metadata option"
  fv_bytes :: "string option"

definition read_bounded_codex_auth_file :: "string option \<Rightarrow> nat \<Rightarrow> string + string" where
  "read_bounded_codex_auth_file file observed_len =
     (if max_codex_auth_file_bytes < observed_len
      then Inl ''production Codex auth file exceeds the size limit''
      else rbind (ok_or (Option.bind file (\<lambda>bytes.
                    let content = take (max_codex_auth_file_bytes + 1) bytes in
                    if valid_utf8 content then Some content else None))
                 ''production Codex auth file could not be read'')
        (\<lambda>content. if max_codex_auth_file_bytes < length content
                  then Inl ''production Codex auth file exceeds the size limit'' else Inr content))"

definition same_file :: "file_metadata \<Rightarrow> file_metadata \<Rightarrow> bool" where
  "same_file a b = (fm_dev a = fm_dev b \<and> fm_ino a = fm_ino b)"

definition read_production_codex_auth_file :: "auth_file_view \<Rightarrow> string + string" where
  "read_production_codex_auth_file view =
     rbind (ok_or (fv_before view) ''production Codex auth file metadata is unavailable'') (\<lambda>before_open.
     rbind (ensure (\<not> fm_is_symlink before_open) ''production Codex auth source must not be a symbolic link'') (\<lambda>_.
     rbind (ensure (fm_is_file before_open) ''production Codex auth source must be a regular file'') (\<lambda>_.
     rbind (ensure (fv_opens view) ''production Codex auth file could not be opened'') (\<lambda>_.
     rbind (ok_or (fv_opened view) ''production Codex auth file metadata is unavailable'') (\<lambda>opened.
     rbind (ensure (fm_is_file opened) ''production Codex auth source must be a regular file'') (\<lambda>_.
     rbind (ensure (and (fm_mode opened) 0x3F = 0)
       ''production Codex auth file permissions must deny all group and other access'') (\<lambda>_.
     rbind (ok_or (fv_after view) ''production Codex auth file metadata is unavailable'') (\<lambda>after_open.
     rbind (ensure (\<not> fm_is_symlink after_open) ''production Codex auth source must not be a symbolic link'') (\<lambda>_.
     rbind (ensure (fm_is_file after_open \<and> same_file before_open opened \<and> same_file after_open opened)
       ''production Codex auth source changed during validation'') (\<lambda>_.
     read_bounded_codex_auth_file (fv_bytes view) (fm_len opened)))))))))))"

text \<open>Outside production the file is read whole, and any failure means no credentials.\<close>

definition read_to_string :: "auth_file_view \<Rightarrow> string option" where
  "read_to_string view =
     Option.bind (if fv_opens view then fv_bytes view else None) (\<lambda>bytes. if valid_utf8 bytes then Some bytes else None)"

definition load_codex_auth_credentials ::
    "(string \<Rightarrow> json option) \<Rightarrow> config \<Rightarrow> auth_file_view \<Rightarrow> string + codex_credentials option" where
  "load_codex_auth_credentials parse self view =
     (if llc_codex_auth_path (cfg_llm self) = None then Inr None
      else if cfg_run_mode self \<noteq> ''production''
           then Inr (read_codex_auth_credentials parse (read_to_string view))
      else rbind (read_production_codex_auth_file view) (\<lambda>content.
             rbind (ok_or (parse_codex_auth_credentials parse content)
               ''production Codex auth file could not be parsed'') (\<lambda>credentials. Inr (Some credentials))))"

section \<open>The secret inventory\<close>

definition option_list :: "'a option \<Rightarrow> 'a list" where
  "option_list x = (case x of None \<Rightarrow> [] | Some a \<Rightarrow> [a])"

definition configured_secret_values_with_history :: "config \<Rightarrow> string list \<Rightarrow> string list" where
  "configured_secret_values_with_history self history =
     option_list (ac_bearer_token (cfg_auth self)) @ option_list (ac_admin_token (cfg_auth self))
     @ map au_token (ac_auth_users (cfg_auth self))
     @ option_list (sc_meili_api_key (cfg_store self)) @ option_list (sc_meili_admin_api_key (cfg_store self))
     @ option_list (llc_openai_api_key (cfg_llm self))
     @ (if valid_utf8 (ac_index_hash_secret (cfg_auth self)) then [ac_index_hash_secret (cfg_auth self)] else [])
     @ cfg_previous_redaction_secrets self @ history"

definition configured_secret_values :: "config \<Rightarrow> string list" where
  "configured_secret_values self = configured_secret_values_with_history self (csi_history (cfg_inventory self))"

record provider_security_snapshot =
  psn_credentials :: "codex_credentials option"
  psn_secrets :: "string list"

definition provider_security_snapshot_of :: "config \<Rightarrow> provider_security_snapshot" where
  "provider_security_snapshot_of self =
     \<lparr>psn_credentials = csi_active_credentials (cfg_inventory self),
      psn_secrets = configured_secret_values_with_history self (csi_history (cfg_inventory self))\<rparr>"

definition publish_codex_credentials :: "config \<Rightarrow> codex_credentials \<Rightarrow> config" where
  "publish_codex_credentials self credentials =
     (let inventory = cfg_inventory self;
          history = (if cc_token credentials \<in> set (csi_history inventory) then csi_history inventory
                     else csi_history inventory @ [cc_token credentials])
      in self\<lparr>cfg_inventory := \<lparr>csi_history = history, csi_active_credentials = Some credentials\<rparr>\<rparr>)"

definition publishable :: "codex_credentials \<Rightarrow> bool" where
  "publishable credentials =
     (\<not> blank (cc_token credentials) \<and> cc_token credentials = trim (cc_token credentials)
      \<and> min_redaction_secret_chars \<le> length (chars (cc_token credentials)))"

text \<open>The refresh is claimed under its lock, made without it, and given back.\<close>

definition claim_refresh :: "config \<Rightarrow> bool \<Rightarrow> int \<Rightarrow> config option" where
  "claim_refresh self force now =
     (let r = cfg_refresh self in
      if csr_in_progress r
         \<or> (\<not> force \<and> (case csr_last_refresh r of None \<Rightarrow> False | Some earlier \<Rightarrow>
               max 0 (now - earlier) < codex_secret_refresh_interval))
      then None else Some (self\<lparr>cfg_refresh := r\<lparr>csr_in_progress := True\<rparr>\<rparr>))"

definition publish_loaded :: "config \<Rightarrow> string + codex_credentials option \<Rightarrow> config" where
  "publish_loaded self loaded =
     (case loaded of
        Inr (Some credentials) \<Rightarrow> if publishable credentials then publish_codex_credentials self credentials else self
      | _ \<Rightarrow> self)"

definition finish_refresh :: "config \<Rightarrow> int \<Rightarrow> config" where
  "finish_refresh self now = self\<lparr>cfg_refresh := \<lparr>csr_last_refresh = Some now, csr_in_progress = False\<rparr>\<rparr>"

definition observe_codex_auth_token ::
    "(string \<Rightarrow> json option) \<Rightarrow> config \<Rightarrow> bool \<Rightarrow> int \<Rightarrow> auth_file_view \<Rightarrow> config" where
  "observe_codex_auth_token parse self force now view =
     (if llc_codex_auth_path (cfg_llm self) = None then self
      else case claim_refresh self force now of
             None \<Rightarrow> self
           | Some claimed \<Rightarrow>
               finish_refresh (publish_loaded claimed (load_codex_auth_credentials parse claimed view)) now)"

text \<open>
  Threads observe concurrently: one claims, others return at once, and the claimant publishes and
  finishes later. A run interleaves those steps.
\<close>

inductive inventory_step :: "(string \<Rightarrow> json option) \<Rightarrow> config \<Rightarrow> config \<Rightarrow> bool" for parse where
  claim: "claim_refresh self force now = Some self' \<Longrightarrow> inventory_step parse self self'"
| publish: "csr_in_progress (cfg_refresh self) \<Longrightarrow>
     inventory_step parse self (publish_loaded self (load_codex_auth_credentials parse self view))"
| finish: "csr_in_progress (cfg_refresh self) \<Longrightarrow> inventory_step parse self (finish_refresh self now)"

inductive_cases inventory_stepE: "inventory_step parse self self'"

section \<open>The inventory covers the active credentials\<close>

definition inventory_ok :: "codex_secret_inventory \<Rightarrow> bool" where
  "inventory_ok inventory =
     (distinct (csi_history inventory)
      \<and> list_all (\<lambda>t. min_redaction_secret_chars \<le> length (chars t) \<and> t = trim t) (csi_history inventory)
      \<and> (case csi_active_credentials inventory of None \<Rightarrow> True | Some c \<Rightarrow> cc_token c \<in> set (csi_history inventory)))"

lemma publish_loaded_ok: "inventory_ok (cfg_inventory self) \<Longrightarrow> inventory_ok (cfg_inventory (publish_loaded self loaded))"
  by (auto simp: inventory_ok_def publish_loaded_def publish_codex_credentials_def publishable_def Let_def
      split: sum.split option.split)

lemma publish_loaded_history: "\<exists>ts. csi_history (cfg_inventory (publish_loaded self loaded)) = csi_history (cfg_inventory self) @ ts"
  by (auto simp: publish_loaded_def publish_codex_credentials_def Let_def split: sum.split option.split)

lemma refresh_keeps [simp]:
  "claim_refresh self force now = Some self' \<Longrightarrow> cfg_inventory self' = cfg_inventory self"
  "cfg_inventory (finish_refresh self now) = cfg_inventory self"
  by (auto simp: claim_refresh_def finish_refresh_def Let_def split: if_splits)

lemma inventory_step_keeps:
  assumes "inventory_step parse self self'"
  shows "inventory_ok (cfg_inventory self) \<Longrightarrow> inventory_ok (cfg_inventory self')"
    and "\<exists>ts. csi_history (cfg_inventory self') = csi_history (cfg_inventory self) @ ts"
  using assms by (auto elim!: inventory_stepE simp: publish_loaded_ok intro: publish_loaded_history)

lemma inventory_run_keeps:
  assumes "(inventory_step parse)\<^sup>*\<^sup>* self self'"
  shows "(inventory_ok (cfg_inventory self) \<longrightarrow> inventory_ok (cfg_inventory self'))
    \<and> (\<exists>ts. csi_history (cfg_inventory self') = csi_history (cfg_inventory self) @ ts)"
  using assms
proof induction
  case (step b c)
  from inventory_step_keeps [OF step.hyps(2)] step.IH show ?case by (metis append.assoc)
qed auto

lemma snapshot_covers_active:
  "inventory_ok (cfg_inventory self) \<Longrightarrow> psn_credentials (provider_security_snapshot_of self) = Some c \<Longrightarrow>
     cc_token c \<in> set (psn_secrets (provider_security_snapshot_of self)) \<and> min_redaction_secret_chars \<le> length (chars (cc_token c))"
  by (auto simp: provider_security_snapshot_of_def inventory_ok_def configured_secret_values_with_history_def list_all_iff)

lemma observe_is_run:
  "(inventory_step parse)\<^sup>*\<^sup>* self (observe_codex_auth_token parse self force now view)"
proof (cases "llc_codex_auth_path (cfg_llm self) = None \<or> claim_refresh self force now = None")
  case False
  then obtain claimed where c: "claim_refresh self force now = Some claimed" by auto
  then have p: "csr_in_progress (cfg_refresh claimed)" by (auto simp: claim_refresh_def Let_def split: if_splits)
  let ?published = "publish_loaded claimed (load_codex_auth_credentials parse claimed view)"
  have "csr_in_progress (cfg_refresh ?published)"
    using p by (auto simp: publish_loaded_def publish_codex_credentials_def Let_def split: sum.split option.split)
  then have "inventory_step parse ?published (finish_refresh ?published now)" by (rule inventory_step.finish)
  with inventory_step.claim [OF c] inventory_step.publish [OF p]
  have "(inventory_step parse)\<^sup>*\<^sup>* self (finish_refresh ?published now)"
    by (meson converse_rtranclp_into_rtranclp rtranclp.rtrancl_refl)
  with False c show ?thesis by (auto simp: observe_codex_auth_token_def)
qed (auto simp: observe_codex_auth_token_def)

text \<open>In production the file that is read is private, regular and the one that was looked up.\<close>

lemma production_file_private:
  assumes "read_production_codex_auth_file view = Inr content"
  shows "\<exists>opened before_open after_open. fv_opened view = Some opened \<and> fv_before view = Some before_open
    \<and> fv_after view = Some after_open \<and> and (fm_mode opened) 0x3F = 0 \<and> fm_is_file opened
    \<and> \<not> fm_is_symlink before_open \<and> \<not> fm_is_symlink after_open \<and> same_file before_open opened \<and> same_file after_open opened
    \<and> length content \<le> max_codex_auth_file_bytes"
  using assms
  by (auto simp: read_production_codex_auth_file_def read_bounded_codex_auth_file_def rbind_Inr ok_or_Inr ensure_Inr
      split: if_splits)

end
