(* ===== verification/Llm_Request.thy ===== *)
theory Llm_Request
  imports Config Llm_Stream_Facts Analysis_Facts Tenant_Scope
begin

text \<open>
  A request to a provider (\<open>LlmRequest\<close> of \<open>llm.rs\<close>): its overrides, its conservative size, the JSON
  payload of either endpoint, its validation and its redaction. The serialisation of JSON values and of
  the evidence are parameters.
\<close>

section \<open>The request\<close>

record llm_evidence =
  ev_id :: string
  ev_content :: string

datatype llm_response_format = FormatText | FormatJsonSchema (fmt_name: string) (fmt_schema: json) (fmt_strict: bool)

record llm_metadata =
  lm_operation :: string
  lm_request_id :: string

text \<open>The reservation \<open>LlmAttemptBudget\<close>; the table it draws on is passed to \<open>charge_attempt\<close>.\<close>

record llm_attempt_budget =
  lab_principal_key :: string
  lab_requests :: u64
  lab_estimated_tokens :: u64

record llm_request =
  lr_system :: string
  lr_user :: string
  lr_evidence :: "llm_evidence list"
  lr_max_output_tokens :: u32
  lr_response_format :: llm_response_format
  lr_metadata :: llm_metadata
  lr_model_override :: "string option"
  lr_reasoning_effort_override :: "string option"
  lr_attempt_budget :: "llm_attempt_budget option"

definition llm_request_text :: "string \<Rightarrow> string \<Rightarrow> string \<Rightarrow> u32 \<Rightarrow> string \<Rightarrow> llm_request" where
  "llm_request_text current_or_new_id system user max_output_tokens operation =
     \<lparr>lr_system = system, lr_user = user, lr_evidence = [], lr_max_output_tokens = max_output_tokens,
      lr_response_format = FormatText,
      lr_metadata = \<lparr>lm_operation = operation, lm_request_id = current_or_new_id\<rparr>,
      lr_model_override = None, lr_reasoning_effort_override = None, lr_attempt_budget = None\<rparr>"

definition trimmed_override :: "string option \<Rightarrow> string option" where
  "trimmed_override v = Option.bind v (\<lambda>v. if blank v then None else Some (trim v))"

definition with_llm_overrides :: "llm_request \<Rightarrow> string option \<Rightarrow> string option \<Rightarrow> llm_request" where
  "with_llm_overrides self model reasoning_effort =
     self\<lparr>lr_model_override := trimmed_override model, lr_reasoning_effort_override := trimmed_override reasoning_effort\<rparr>"

definition effective_shape :: "llm_request \<Rightarrow> string \<Rightarrow> string option \<Rightarrow> string \<times> string option" where
  "effective_shape self model reasoning_effort =
     (unwrap_or (lr_model_override self) model, option_or (lr_reasoning_effort_override self) reasoning_effort)"

definition with_evidence :: "llm_request \<Rightarrow> llm_evidence list \<Rightarrow> llm_request" where
  "with_evidence self evidence = self\<lparr>lr_evidence := evidence\<rparr>"

definition with_json_schema :: "llm_request \<Rightarrow> string \<Rightarrow> json \<Rightarrow> llm_request" where
  "with_json_schema self name schema = self\<lparr>lr_response_format := FormatJsonSchema name schema True\<rparr>"

text \<open>Sums of lengths stay below the \<open>usize\<close> range.\<close>

definition input_chars :: "llm_request \<Rightarrow> usize" where
  "input_chars self =
     length (chars (lr_system self)) + length (chars (lr_user self))
     + (\<Sum>e\<leftarrow>lr_evidence self. length (chars (ev_id e)) + length (chars (ev_content e)))"

definition compact_input_text :: "llm_request \<Rightarrow> string" where
  "compact_input_text self =
     lr_user self @ concat (map (\<lambda>e. [CHR 0x0A, CHR 0x0A] @ ''[evidence:'' @ ev_id e @ '']'' @ [CHR 0x0A] @ ev_content e) (lr_evidence self))"

definition charge_attempt :: "llm_request \<Rightarrow> provider_budget \<Rightarrow> int \<Rightarrow> (api_error + unit) \<times> provider_budget" where
  "charge_attempt self budget now =
     (case lr_attempt_budget self of
        None \<Rightarrow> (Inr (), budget)
      | Some b \<Rightarrow> charge budget now (lab_principal_key b) (lab_requests b) (lab_estimated_tokens b))"

definition redact_for_provider :: "llm_request \<Rightarrow> string list \<Rightarrow> llm_request option" where
  "redact_for_provider self known_secrets =
     map_option (\<lambda>m.
       let redact = matcher_text matcher_redact_egress_text m in
       self\<lparr>lr_system := redact (lr_system self), lr_user := redact (lr_user self),
         lr_evidence := map (\<lambda>e. e\<lparr>ev_id := redact (ev_id e), ev_content := redact (ev_content e)\<rparr>) (lr_evidence self),
         lr_metadata := (lr_metadata self)\<lparr>lm_request_id := redact (lm_request_id (lr_metadata self))\<rparr>\<rparr>)
     (secret_matcher_new (map chars known_secrets))"

section \<open>Payloads\<close>

definition json_obj :: "(string \<times> json) list \<Rightarrow> json" where
  "json_obj kvs = JObject (fold (\<lambda>(k, v). bt_insert k v) kvs [])"

definition user_input :: "string \<Rightarrow> json" where
  "user_input t =
     json_obj [(''role'', JString ''user''),
       (''content'', JArray [json_obj [(''type'', JString ''input_text''), (''text'', JString t)]])]"

definition evidence_input :: "(llm_evidence list \<Rightarrow> string option) \<Rightarrow> llm_request \<Rightarrow> json list" where
  "evidence_input evidence_json request =
     (if lr_evidence request = [] then []
      else [user_input (''BEGIN_UNTRUSTED_EVIDENCE_JSON'' @ [CHR 0x0A]
              @ unwrap_or (evidence_json (lr_evidence request)) ''[]''
              @ [CHR 0x0A] @ ''END_UNTRUSTED_EVIDENCE_JSON'')])"

definition set_reasoning_effort :: "json \<Rightarrow> string option \<Rightarrow> json" where
  "set_reasoning_effort payload reasoning_effort =
     (case trimmed_override reasoning_effort of
        None \<Rightarrow> payload
      | Some effort \<Rightarrow> json_set ''reasoning'' (json_obj [(''effort'', JString effort)]) payload)"

definition set_response_format :: "json \<Rightarrow> llm_response_format \<Rightarrow> json" where
  "set_response_format payload fmt =
     (case fmt of
        FormatText \<Rightarrow> payload
      | FormatJsonSchema name schema strict \<Rightarrow>
          json_set ''text'' (json_obj [(''format'', json_obj [(''type'', JString ''json_schema''), (''name'', JString name),
            (''schema'', schema), (''strict'', JBool strict)])]) payload)"

definition responses_payload ::
    "(llm_evidence list \<Rightarrow> string option) \<Rightarrow> string \<Rightarrow> llm_request \<Rightarrow> string option \<Rightarrow> bool \<Rightarrow> json" where
  "responses_payload evidence_json model request reasoning_effort stream =
     (let payload = json_obj
        [(''model'', JString model),
         (''instructions'', JString (lr_system request)),
         (''input'', JArray (user_input (lr_user request) # evidence_input evidence_json request)),
         (''store'', JBool False),
         (''stream'', JBool stream),
         (''max_output_tokens'', json_uint (lr_max_output_tokens request)),
         (''metadata'', json_obj [(''operation'', JString (lm_operation (lr_metadata request))),
            (''request_id'', JString (lm_request_id (lr_metadata request)))])]
      in set_reasoning_effort (set_response_format payload (lr_response_format request)) reasoning_effort)"

definition codex_responses_payload ::
    "(llm_evidence list \<Rightarrow> string option) \<Rightarrow> string \<Rightarrow> llm_request \<Rightarrow> string option \<Rightarrow> bool \<Rightarrow> json" where
  "codex_responses_payload evidence_json model request reasoning_effort stream =
     (case responses_payload evidence_json model request reasoning_effort stream of
        JObject entries \<Rightarrow> JObject (bt_remove ''metadata'' (bt_remove ''max_output_tokens'' entries))
      | payload \<Rightarrow> payload)"

definition codex_responses_endpoint :: "string \<Rightarrow> string" where
  "codex_responses_endpoint base_url = rev (dropWhile ((=) CHR ''/'') (rev base_url)) @ ''/responses''"

definition provider_token_envelope_reserve :: u64 where
  "provider_token_envelope_reserve = 256"

text \<open>\<open>to_vec\<close> fails for no value in practice; the code counts a failure as the largest length.\<close>

definition estimated_tokens_per_attempt ::
    "(json \<Rightarrow> string option) \<Rightarrow> (llm_evidence list \<Rightarrow> string option) \<Rightarrow> llm_request \<Rightarrow> string \<Rightarrow> string option \<Rightarrow> u64" where
  "estimated_tokens_per_attempt to_vec evidence_json self model reasoning_effort =
     (let payload = responses_payload evidence_json model self reasoning_effort False;
          serialized_bytes = (case to_vec payload of
            Some bytes \<Rightarrow> if length bytes < 2 ^ 64 then of_nat (length bytes) else - 1 | None \<Rightarrow> - 1)
      in max (sat_add (sat_add serialized_bytes provider_token_envelope_reserve) (ucast (lr_max_output_tokens self))) 1)"

section \<open>Validation\<close>

definition max_model_name_chars :: nat where
  "max_model_name_chars = 64"

definition slug_char :: "string \<Rightarrow> char list \<Rightarrow> bool" where
  "slug_char extra c = (case c of [b] \<Rightarrow> is_ascii_alphanumeric b \<or> b \<in> set extra | _ \<Rightarrow> False)"

definition valid_model_name :: "string \<Rightarrow> bool" where
  "valid_model_name model =
     (1 \<le> length (chars model) \<and> length (chars model) \<le> max_model_name_chars \<and> list_all (slug_char ''._-'') (chars model))"

definition valid_reasoning_effort :: "string \<Rightarrow> bool" where
  "valid_reasoning_effort effort = List.member [''low'', ''medium'', ''high'', ''xhigh''] effort"

definition validate_model_override :: "string option \<Rightarrow> string list \<Rightarrow> api_error + unit" where
  "validate_model_override model allowed_models =
     (case model of
        None \<Rightarrow> Inr ()
      | Some model \<Rightarrow> checks
          [ensure (valid_model_name model)
             (Validation ''model'' (''must be 1-64 characters of letters, digits, '' @ [CHR 0x27] @ ''.'' @ [CHR 0x27] @ '', ''
                @ [CHR 0x27] @ ''_'' @ [CHR 0x27] @ '' or '' @ [CHR 0x27] @ ''-'' @ [CHR 0x27])),
           ensure (allowed_models = [] \<or> list_ex (\<lambda>allowed. eq_ignore_ascii_case allowed model) allowed_models)
             (Validation ''model'' ''is not in the configured model override allowlist'')])"

definition validate_llm_overrides :: "string option \<Rightarrow> string option \<Rightarrow> string list \<Rightarrow> api_error + unit" where
  "validate_llm_overrides model reasoning_effort allowed_models =
     rbind (validate_model_override model allowed_models) (\<lambda>_.
     (case reasoning_effort of
        None \<Rightarrow> Inr ()
      | Some effort \<Rightarrow> ensure (valid_reasoning_effort effort)
          (Validation ''reasoning_effort'' ''must be one of: low, medium, high, xhigh'')))"

datatype llm_profile = ProfilePrimary | ProfileAnalysis

fun profile_name :: "llm_profile \<Rightarrow> string" where
  "profile_name ProfilePrimary = ''primary''"
| "profile_name ProfileAnalysis = ''analysis''"

definition analysis_override :: "llm_profile \<Rightarrow> llm_request \<Rightarrow> string option" where
  "analysis_override profile request =
     (if profile \<noteq> ProfileAnalysis then None
      else if lr_model_override request \<noteq> None then Some ''model''
      else if lr_reasoning_effort_override request \<noteq> None then Some ''reasoning_effort''
      else None)"

definition valid_metadata :: "llm_metadata \<Rightarrow> bool" where
  "valid_metadata m =
     (lm_operation m \<noteq> [] \<and> length (lm_operation m) \<le> 64
      \<and> list_all (\<lambda>b. is_ascii_lowercase b \<or> is_digit b \<or> b \<in> set ''_-.'') (lm_operation m)
      \<and> lm_request_id m \<noteq> [] \<and> length (lm_request_id m) \<le> 128)"

definition valid_response_format :: "(json \<Rightarrow> string option) \<Rightarrow> llm_response_format \<Rightarrow> bool" where
  "valid_response_format to_vec fmt =
     (case fmt of
        FormatText \<Rightarrow> True
      | FormatJsonSchema name schema strict \<Rightarrow>
          strict \<and> name \<noteq> [] \<and> length name \<le> 64 \<and> list_all (\<lambda>b. is_ascii_alphanumeric b \<or> b \<in> set ''_-'') name
          \<and> (case to_vec schema of Some bytes \<Rightarrow> length bytes \<le> 128 * 1024 | None \<Rightarrow> False))"

definition validate_request :: "(json \<Rightarrow> string option) \<Rightarrow> config \<Rightarrow> llm_profile \<Rightarrow> llm_request \<Rightarrow> api_error + unit" where
  "validate_request to_vec config profile request =
     (let limits = cfg_llm config in checks
        [case analysis_override profile request of
           None \<Rightarrow> Inr ()
         | Some field \<Rightarrow> Inl (Validation field ''overrides are only supported for the primary LLM profile''),
         validate_llm_overrides (lr_model_override request) (lr_reasoning_effort_override request)
           (llc_llm_model_overrides limits),
         ensure (input_chars request \<le> llc_llm_max_input_chars limits)
           (Validation ''prompt'' (''must contain at most '' @ show_nat (llc_llm_max_input_chars limits) @ '' characters'')),
         ensure (lr_max_output_tokens request \<noteq> 0 \<and> lr_max_output_tokens request \<le> llc_llm_max_output_tokens limits)
           (Validation ''max_output_tokens'' (''must be between 1 and '' @ show_nat (unat (llc_llm_max_output_tokens limits)))),
         ensure (length (lr_evidence request) \<le> 100
             \<and> list_all (\<lambda>e. ev_id e \<noteq> [] \<and> length (ev_id e) \<le> 128) (lr_evidence request))
           (Validation ''evidence'' ''contains too many blocks or an invalid evidence identifier''),
         ensure (valid_metadata (lr_metadata request)) (Internal ''invalid server-generated LLM metadata''),
         ensure (valid_response_format to_vec (lr_response_format request))
           (Internal ''invalid server-generated LLM response schema'')])"

section \<open>What a redacted request shows\<close>

definition request_texts :: "llm_request \<Rightarrow> string list" where
  "request_texts r =
     lr_system r # lr_user r # lm_request_id (lr_metadata r) # concat (map (\<lambda>e. [ev_id e, ev_content e]) (lr_evidence r))"

lemma redacted_request_clean:
  assumes "redact_for_provider r secrets = Some r'" and "list_all utf8_text (request_texts r)"
  shows "list_all (\<lambda>t. clean (map chars secrets) (chars t)) (request_texts r')"
proof -
  obtain m where m: "secret_matcher_new (map chars secrets) = Some m"
    using assms(1) by (auto simp: redact_for_provider_def)
  have *: "clean (map chars secrets) (chars (matcher_text matcher_redact_egress_text m t))" if "utf8_text t" for t
    using redact_text_clean [OF m that] by (simp add: matcher_text_redact)
  show ?thesis
    using assms m by (auto simp: redact_for_provider_def request_texts_def list_all_iff Let_def intro!: *)
qed

lemma redact_for_provider_keeps:
  assumes "redact_for_provider r secrets = Some r'"
  shows "lr_max_output_tokens r' = lr_max_output_tokens r" "lr_attempt_budget r' = lr_attempt_budget r"
    "lr_model_override r' = lr_model_override r" "lr_reasoning_effort_override r' = lr_reasoning_effort_override r"
    "lr_response_format r' = lr_response_format r" "length (lr_evidence r') = length (lr_evidence r)"
  using assms by (auto simp: redact_for_provider_def Let_def)

end
