(* ===== verification/Llm_Response.thy ===== *)
theory Llm_Response
  imports Llm_Request
begin

text \<open>
  The text of a finished response (\<open>llm.rs\<close>): of the JSON body of the Responses API, of a body of
  server-sent events, and its token usage. Shown: an accepted text is never blank, and an accepted event
  body has one completion whose text is what was streamed.
\<close>

section \<open>JSON bodies\<close>

definition decode_openai_response_body :: "(string \<Rightarrow> json option) \<Rightarrow> string \<Rightarrow> api_error + json" where
  "decode_openai_response_body from_slice body =
     ok_or (from_slice body) (Upstream ''LLM response was not valid JSON'')"

definition part_output_text :: "json \<Rightarrow> string" where
  "part_output_text part =
     (if json_get_str part ''type'' = Some ''output_text'' then unwrap_or (json_get_str part ''text'') [] else [])"

definition item_output_text :: "json \<Rightarrow> string" where
  "item_output_text item =
     (case Option.bind (json_get item ''content'') json_as_array of
        None \<Rightarrow> [] | Some content \<Rightarrow> concat (map part_output_text content))"

definition extract_response_text :: "json \<Rightarrow> string option" where
  "extract_response_text v =
     Option.bind (Option.bind (json_get v ''output'') json_as_array) (\<lambda>items.
       let t = concat (map item_output_text items) in if blank t then None else Some t)"

definition require_response_text :: "json \<Rightarrow> api_error + string" where
  "require_response_text v =
     (if json_get_str v ''status'' \<noteq> Some ''completed'' then Inl invalid_llm_output
      else ok_or (extract_response_text v) invalid_llm_output)"

section \<open>Bodies of events\<close>

text \<open>\<open>str::lines\<close>: ends at line feeds, one carriage return before it dropped, no empty last line.\<close>

definition str_lines :: "string \<Rightarrow> string list" where
  "str_lines s =
     (let parts = split_on CHR 0x0A s; final = last parts
      in map strip_cr (butlast parts) @ (if final = [] then [] else [final]))"

datatype terminal_text = Embedded string | StreamedOnly

record sse_text_state =
  sst_deltas :: string
  sst_done_text :: "string option"
  sst_terminal :: "terminal_text option"

text \<open>The data of a line; lines of other fields, empty data and the end marker are passed over.\<close>

definition line_data :: "string \<Rightarrow> string option" where
  "line_data line =
     Option.bind (strip_prefix ''data:'' line) (\<lambda>data.
       let data = trim data in if data = [] \<or> data = ''[DONE]'' then None else Some data)"

definition completed_event :: "sse_text_state \<Rightarrow> json \<Rightarrow> api_error + sse_text_state" where
  "completed_event st v =
     (if sst_terminal st \<noteq> None then Inl invalid_llm_output
      else rbind (ok_or (Option.bind (json_get v ''response'') (\<lambda>r. if json_is_object r then Some r else None))
             invalid_llm_output) (\<lambda>response.
           rbind (ok_or (Option.bind (json_get response ''output'') json_as_array) invalid_llm_output) (\<lambda>items.
           if items = []
           then (if json_get_str response ''status'' \<noteq> Some ''completed'' then Inl invalid_llm_output
                 else Inr (st\<lparr>sst_terminal := Some StreamedOnly\<rparr>))
           else rbind (require_response_text response) (\<lambda>t. Inr (st\<lparr>sst_terminal := Some (Embedded t)\<rparr>)))))"

definition dispatch_event :: "sse_text_state \<Rightarrow> json \<Rightarrow> string \<Rightarrow> api_error + sse_text_state" where
  "dispatch_event st v event_type =
     (if event_type = ''response.output_text.delta''
      then rbind (ok_or (json_get_str v ''delta'') invalid_llm_output)
             (\<lambda>delta. Inr (st\<lparr>sst_deltas := sst_deltas st @ delta\<rparr>))
      else if event_type = ''response.output_text.done''
      then rbind (ok_or (json_get_str v ''text'') invalid_llm_output)
             (\<lambda>t. Inr (st\<lparr>sst_done_text := Some t\<rparr>))
      else if event_type = ''response.completed'' then completed_event st v
      else if List.member [''response.failed'', ''response.incomplete'', ''error''] event_type
      then Inl invalid_llm_output
      else Inr st)"

definition text_event :: "(string \<Rightarrow> json option) \<Rightarrow> sse_text_state \<Rightarrow> string \<Rightarrow> api_error + sse_text_state" where
  "text_event parse st line =
     (case line_data line of
        None \<Rightarrow> Inr st
      | Some data \<Rightarrow>
          rbind (ok_or (parse data) invalid_llm_output) (\<lambda>v.
          rbind (ok_or (json_get_str v ''type'') invalid_llm_output) (dispatch_event st v)))"

definition embedded_agrees :: "sse_text_state \<Rightarrow> string \<Rightarrow> bool" where
  "embedded_agrees st t =
     ((case sst_done_text st of None \<Rightarrow> True | Some d \<Rightarrow> d = t) \<and> (sst_deltas st = [] \<or> sst_deltas st = t))"

definition streamed_only_text :: "(string \<Rightarrow> json option) \<Rightarrow> (string \<Rightarrow> string) \<Rightarrow> string \<Rightarrow> api_error + string" where
  "streamed_only_text parse sha body =
     rbind (responses_push parse sha (responses_decoder_new True) body) (\<lambda>(events, decoder).
       let t = concat events in
       rbind (responses_finish decoder) (\<lambda>terminal.
         if pt_fallback_text terminal \<noteq> None \<or> blank t then Inl invalid_llm_output else Inr t))"

definition extract_codex_sse_text :: "(string \<Rightarrow> json option) \<Rightarrow> (string \<Rightarrow> string) \<Rightarrow> string \<Rightarrow> api_error + string" where
  "extract_codex_sse_text parse sha body =
     rbind (rfold (text_event parse) \<lparr>sst_deltas = [], sst_done_text = None, sst_terminal = None\<rparr> (str_lines body)) (\<lambda>st.
     rbind (ok_or (sst_terminal st) invalid_llm_output) (\<lambda>terminal.
       case terminal of
         Embedded t \<Rightarrow> if embedded_agrees st t then Inr t else Inl invalid_llm_output
       | StreamedOnly \<Rightarrow> streamed_only_text parse sha body))"

text \<open>The usage of the first completion; lines that do not parse are passed over.\<close>

fun codex_sse_usage :: "(string \<Rightarrow> json option) \<Rightarrow> string list \<Rightarrow> token_usage option" where
  "codex_sse_usage parse [] = None"
| "codex_sse_usage parse (line # ls) =
     (case Option.bind (line_data line) parse of
        None \<Rightarrow> codex_sse_usage parse ls
      | Some v \<Rightarrow>
          if json_get_str v ''type'' = Some ''response.completed''
          then token_usage_from_value (Option.bind (json_get v ''response'') (\<lambda>r. json_get r ''usage''))
          else codex_sse_usage parse ls)"

definition extract_codex_sse_usage :: "(string \<Rightarrow> json option) \<Rightarrow> string \<Rightarrow> token_usage option" where
  "extract_codex_sse_usage parse body = codex_sse_usage parse (str_lines body)"

section \<open>Accepted texts\<close>

lemma require_response_text_not_blank: "require_response_text v = Inr t \<Longrightarrow> \<not> blank t"
  by (auto simp: require_response_text_def extract_response_text_def Let_def result_simps bind_eq_Some_conv split: if_splits)

definition terminal_not_blank :: "sse_text_state \<Rightarrow> bool" where
  "terminal_not_blank st = (case sst_terminal st of Some (Embedded t) \<Rightarrow> \<not> blank t | _ \<Rightarrow> True)"

lemma completed_event_cases:
  assumes "completed_event st v = Inr st'"
  obtains "st' = st\<lparr>sst_terminal := Some StreamedOnly\<rparr>"
  | t where "st' = st\<lparr>sst_terminal := Some (Embedded t)\<rparr>" "\<not> blank t"
  using assms require_response_text_not_blank by (auto simp: completed_event_def result_simps split: if_splits)

text \<open>An event that is accepted extends the deltas, sets the final text, completes, or changes nothing.\<close>

lemma dispatch_event_cases:
  assumes "dispatch_event st v e = Inr st'"
  obtains d where "st' = st\<lparr>sst_deltas := sst_deltas st @ d\<rparr>" "e = ''response.output_text.delta''" "json_get_str v ''delta'' = Some d"
  | t where "st' = st\<lparr>sst_done_text := Some t\<rparr>" "e \<noteq> ''response.output_text.delta''"
  | "completed_event st v = Inr st'" "e \<noteq> ''response.output_text.delta''"
  | "st' = st" "e \<noteq> ''response.output_text.delta''"
proof (cases "e = ''response.output_text.delta''")
  case True
  then show ?thesis using assms that(1) by (auto simp: dispatch_event_def rbind_Inr ok_or_Inr simp del: json_get_str_Some)
next
  case False
  then have "(\<exists>t. st' = st\<lparr>sst_done_text := Some t\<rparr>) \<or> completed_event st v = Inr st' \<or> st' = st"
    using assms by (auto simp: dispatch_event_def rbind_Inr split: if_splits)
  then show ?thesis using False that(2-4) by blast
qed

lemma text_event_some:
  assumes "text_event parse st line = Inr st'" and "line_data line = Some data"
  obtains v e where "parse data = Some v" "json_get_str v ''type'' = Some e" "dispatch_event st v e = Inr st'"
  using assms by (auto simp: text_event_def rbind_Inr ok_or_Inr simp del: json_get_str_Some)

lemma text_event_none: "line_data line = None \<Longrightarrow> text_event parse st line = Inr st"
  by (simp add: text_event_def)

lemma dispatch_not_blank: "dispatch_event st v e = Inr st' \<Longrightarrow> terminal_not_blank st \<Longrightarrow> terminal_not_blank st'"
  by (erule dispatch_event_cases) (auto elim!: completed_event_cases simp: terminal_not_blank_def)

lemma text_event_not_blank:
  "text_event parse st line = Inr st' \<Longrightarrow> terminal_not_blank st \<Longrightarrow> terminal_not_blank st'"
  by (cases "line_data line") (auto simp: text_event_none elim!: text_event_some intro: dispatch_not_blank)

lemma text_events_not_blank:
  "rfold (text_event parse) st ls = Inr st' \<Longrightarrow> terminal_not_blank st \<Longrightarrow> terminal_not_blank st'"
proof (induction ls arbitrary: st)
  case (Cons l ls)
  from Cons.prems(1) obtain st1 where *: "text_event parse st l = Inr st1" "rfold (text_event parse) st1 ls = Inr st'"
    by (auto simp only: rfold_Cons_Inr)
  show ?case by (rule Cons.IH [OF *(2)]) (rule text_event_not_blank [OF *(1) Cons.prems(2)])
qed simp

lemma codex_text_not_blank:
  assumes "extract_codex_sse_text parse sha body = Inr t"
  shows "\<not> blank t"
proof -
  obtain st where st: "rfold (text_event parse) \<lparr>sst_deltas = [], sst_done_text = None, sst_terminal = None\<rparr> (str_lines body) = Inr st"
    using assms by (auto simp: extract_codex_sse_text_def result_simps)
  have "terminal_not_blank st" by (rule text_events_not_blank [OF st]) (simp add: terminal_not_blank_def)
  then show ?thesis
    using assms st
    by (auto simp: extract_codex_sse_text_def streamed_only_text_def terminal_not_blank_def result_simps Let_def
        split: terminal_text.splits if_splits)
qed

text \<open>The deltas of a body, in order.\<close>

definition line_delta :: "(string \<Rightarrow> json option) \<Rightarrow> string \<Rightarrow> string" where
  "line_delta parse line =
     (case Option.bind (line_data line) parse of
        None \<Rightarrow> []
      | Some v \<Rightarrow> if json_get_str v ''type'' = Some ''response.output_text.delta''
                 then unwrap_or (json_get_str v ''delta'') [] else [])"

lemma dispatch_delta:
  "dispatch_event st v e = Inr st' \<Longrightarrow>
     sst_deltas st' = sst_deltas st @ (if e = ''response.output_text.delta'' then unwrap_or (json_get_str v ''delta'') [] else [])"
  by (erule dispatch_event_cases) (auto elim!: completed_event_cases simp: unwrap_or_def simp del: json_get_str_Some)

lemma text_event_delta:
  assumes "text_event parse st line = Inr st'"
  shows "sst_deltas st' = sst_deltas st @ line_delta parse line"
proof (cases "line_data line")
  case None
  then show ?thesis using assms by (simp add: text_event_none line_delta_def)
next
  case (Some data)
  with assms obtain v e where "parse data = Some v" "json_get_str v ''type'' = Some e" "dispatch_event st v e = Inr st'"
    by (rule text_event_some)
  with Some dispatch_delta [of st v e st'] show ?thesis by (simp add: line_delta_def del: json_get_str_Some)
qed

lemma text_events_deltas:
  "rfold (text_event parse) st ls = Inr st' \<Longrightarrow> sst_deltas st' = sst_deltas st @ concat (map (line_delta parse) ls)"
proof (induction ls arbitrary: st)
  case (Cons l ls)
  then obtain st1 where "text_event parse st l = Inr st1" "rfold (text_event parse) st1 ls = Inr st'"
    by (auto simp only: rfold_Cons_Inr)
  then show ?case using Cons.IH text_event_delta by fastforce
qed simp

text \<open>What was streamed is what is returned, when the completion carries the text and deltas came at all.\<close>

lemma codex_text_is_streamed:
  assumes "extract_codex_sse_text parse sha body = Inr t"
    and "rfold (text_event parse) \<lparr>sst_deltas = [], sst_done_text = None, sst_terminal = None\<rparr> (str_lines body) = Inr st"
    and "sst_terminal st = Some (Embedded u)" and "concat (map (line_delta parse) (str_lines body)) \<noteq> []"
  shows "t = concat (map (line_delta parse) (str_lines body))"
proof -
  have "sst_deltas st = concat (map (line_delta parse) (str_lines body))"
    using text_events_deltas [OF assms(2)] by simp
  moreover have "embedded_agrees st u \<and> t = u"
    using assms(1,2,3) by (auto simp: extract_codex_sse_text_def split: if_splits)
  ultimately show ?thesis using assms(4) unfolding embedded_agrees_def by metis
qed

end
