(* ===== verification/Llm_Client.thy ===== *)
theory Llm_Client
  imports Llm_Response
begin

text \<open>
  The provider clients and their registry (\<open>llm.rs\<close>): every completion is validated, reserved from the
  principal's budget, redacted against the secrets of one credential snapshot, sent under the operation
  policy, decoded, redacted again and reconciled. The world of a call says what its environment does:
  the attempts of the upstream client, the headers of the reply to each, the clocks.

  A call returns the result with the state after it, and \<open>None\<close> for the panic of a matcher that cannot be
  built. The panicking arithmetic of debug builds is not modelled.
\<close>

section \<open>World and state\<close>

record llm_world =
  lw_crates :: upstream_crates
  lw_from_str :: "string \<Rightarrow> json option"
  lw_to_vec :: "json \<Rightarrow> string option"
  lw_evidence_json :: "llm_evidence list \<Rightarrow> string option"
  lw_from_timestamp :: "int \<Rightarrow> datetime option"
  lw_charged_at :: int
  lw_started_at :: int
  lw_instant_max :: int
  lw_attempts :: "u8 \<Rightarrow> attempt_env"
  lw_headers :: "u8 \<Rightarrow> header_map"
  lw_wall_clock :: datetime
  lw_latency_ms :: u64
  lw_reconciled_at :: int

text \<open>A request as it is handed to the upstream client.\<close>

record provider_call =
  pcl_endpoint :: string
  pcl_bearer :: string
  pcl_accept_events :: bool
  pcl_account_id :: "string option"
  pcl_request_id :: string
  pcl_payload :: json

record llm_state =
  ls_budget :: provider_budget
  ls_limits :: latest_rate_limits
  ls_calls :: "provider_call list"

definition record_headers :: "llm_world \<Rightarrow> string \<Rightarrow> header_map \<Rightarrow> llm_state \<Rightarrow> llm_state" where
  "record_headers w provider headers st =
     st\<lparr>ls_limits := limits_record (ls_limits st) (lw_wall_clock w) provider
          (rate_limits_from_headers (lw_from_timestamp w) headers)\<rparr>"

definition hand_over :: "provider_call \<Rightarrow> llm_state \<Rightarrow> llm_state" where
  "hand_over call st = st\<lparr>ls_calls := ls_calls st @ [call]\<rparr>"

definition charge_state :: "llm_world \<Rightarrow> llm_request \<Rightarrow> llm_state \<Rightarrow> (api_error + unit) \<times> llm_state" where
  "charge_state w request st =
     (case charge_attempt request (ls_budget st) (lw_charged_at w) of (r, budget) \<Rightarrow> (r, st\<lparr>ls_budget := budget\<rparr>))"

record llm_text_response =
  ltr_text :: string
  ltr_latency_ms :: u64
  ltr_attempts :: u8
  ltr_usage :: "token_usage option"

section \<open>Clients\<close>

record openai_client =
  oc_provider :: string
  oc_model :: string
  oc_reasoning_effort :: "string option"
  oc_auth_source :: string
  oc_api_key :: "string option"
  oc_policy :: operation_policy

text \<open>The shared configuration of a Codex client is the one a call sees; \<open>False\<close> is a client without one.\<close>

record codex_client =
  xc_model :: string
  xc_reasoning_effort :: "string option"
  xc_auth_source :: string
  xc_credentials :: "codex_credentials option"
  xc_shares_config :: bool
  xc_base_url :: string
  xc_policy :: operation_policy

datatype llm_client = NoneClient string | MockClient string | OpenAiClient openai_client | CodexClient codex_client

definition openai_endpoint :: string where
  "openai_endpoint = ''https://api.openai.com/v1/responses''"

definition current_security_snapshot :: "codex_client \<Rightarrow> config \<Rightarrow> codex_credentials option \<times> string list" where
  "current_security_snapshot self config =
     (if xc_shares_config self
      then (let snapshot = provider_security_snapshot_of config in (psn_credentials snapshot, psn_secrets snapshot))
      else (xc_credentials self, map cc_token (option_list (xc_credentials self))))"

definition secure_request ::
    "codex_client \<Rightarrow> config \<Rightarrow> llm_request \<Rightarrow> (api_error + codex_credentials \<times> llm_request \<times> string list) option" where
  "secure_request self config request =
     (case current_security_snapshot self config of
        (None, _) \<Rightarrow> Some (Inl (Unauthorized ''Codex auth token is not configured''))
      | (Some credentials, secrets) \<Rightarrow>
          map_option (\<lambda>r. Inr (credentials, r, secrets)) (redact_for_provider request secrets))"

record llm_runtime_status =
  lst_provider :: string
  lst_model :: string
  lst_auth_source :: string
  lst_healthy :: bool

fun client_status :: "llm_client \<Rightarrow> config \<Rightarrow> llm_runtime_status" where
  "client_status (NoneClient model) config =
     \<lparr>lst_provider = ''none'', lst_model = model, lst_auth_source = ''none'', lst_healthy = True\<rparr>"
| "client_status (MockClient model) config =
     \<lparr>lst_provider = ''mock'', lst_model = model, lst_auth_source = ''mock'', lst_healthy = True\<rparr>"
| "client_status (OpenAiClient c) config =
     \<lparr>lst_provider = oc_provider c, lst_model = oc_model c, lst_auth_source = oc_auth_source c,
      lst_healthy = (oc_api_key c \<noteq> None)\<rparr>"
| "client_status (CodexClient c) config =
     (let credentials = fst (current_security_snapshot c config) in
      \<lparr>lst_provider = ''codex_auth'', lst_model = xc_model c,
       lst_auth_source = (if credentials \<noteq> None then xc_auth_source c else ''missing''),
       lst_healthy = (credentials \<noteq> None)\<rparr>)"

section \<open>Completions\<close>

definition execute_call ::
    "llm_world \<Rightarrow> operation_policy \<Rightarrow> string \<Rightarrow> string \<Rightarrow> provider_call \<Rightarrow> llm_state
      \<Rightarrow> (api_error + bounded_response) \<times> llm_state" where
  "execute_call w policy provider model call st =
     (let st = hand_over call st in
      case execute (lw_crates w) (lw_started_at w) (lw_instant_max w) LlmCompletion policy (pcl_request_id call)
             (lw_attempts w) of
        Inl error \<Rightarrow> (Inl (map_upstream_error error provider model), st)
      | Inr response \<Rightarrow> (Inr response, record_headers w provider (lw_headers w (br_attempts response)) st))"

definition complete_openai_responses ::
    "llm_world \<Rightarrow> operation_policy \<Rightarrow> string \<Rightarrow> string option \<Rightarrow> string \<Rightarrow> llm_request \<Rightarrow> string \<Rightarrow> llm_state
      \<Rightarrow> (api_error + json \<times> u8) \<times> llm_state" where
  "complete_openai_responses w policy model reasoning_effort api_key request provider st =
     (let call = \<lparr>pcl_endpoint = openai_endpoint, pcl_bearer = api_key, pcl_accept_events = False, pcl_account_id = None,
            pcl_request_id = lm_request_id (lr_metadata request),
            pcl_payload = responses_payload (lw_evidence_json w) model request reasoning_effort False\<rparr>
      in case execute_call w policy provider model call st of
           (Inl error, st) \<Rightarrow> (Inl error, st)
         | (Inr response, st) \<Rightarrow>
             (rbind (decode_openai_response_body (uc_from_slice (lw_crates w)) (br_body response))
                (\<lambda>body. Inr (body, br_attempts response)), st))"

text \<open>The text of a body, redacted; the usage is read from the same body.\<close>

definition openai_text_response ::
    "llm_world \<Rightarrow> string list \<Rightarrow> json \<times> u8 \<Rightarrow> (api_error + llm_text_response) option" where
  "openai_text_response w secrets = (\<lambda>(body, attempts).
     case require_response_text body of
       Inl error \<Rightarrow> Some (Inl error)
     | Inr t \<Rightarrow>
         map_option (\<lambda>redacted. Inr \<lparr>ltr_text = redacted, ltr_latency_ms = lw_latency_ms w, ltr_attempts = attempts,
           ltr_usage = token_usage_from_value (json_get body ''usage'')\<rparr>) (redact_string t secrets))"

definition finish_openai ::
    "llm_world \<Rightarrow> string list \<Rightarrow> (api_error + json \<times> u8) \<times> llm_state
      \<Rightarrow> ((api_error + llm_text_response) \<times> llm_state) option" where
  "finish_openai w secrets = (\<lambda>(r, st).
     case r of
       Inl error \<Rightarrow> Some (Inl error, st)
     | Inr body \<Rightarrow> map_option (\<lambda>t. (t, st)) (openai_text_response w secrets body))"

text \<open>The rest of a call, after \<open>request.charge_attempt()?\<close>.\<close>

definition after_charge ::
    "llm_world \<Rightarrow> llm_request \<Rightarrow> llm_state \<Rightarrow> (llm_state \<Rightarrow> ((api_error + 'a) \<times> llm_state) option)
      \<Rightarrow> ((api_error + 'a) \<times> llm_state) option" where
  "after_charge w request st next =
     (case charge_state w request st of (Inl error, st) \<Rightarrow> Some (Inl error, st) | (Inr _, st) \<Rightarrow> next st)"

definition openai_complete_text ::
    "llm_world \<Rightarrow> openai_client \<Rightarrow> llm_request \<Rightarrow> llm_state \<Rightarrow> ((api_error + llm_text_response) \<times> llm_state) option" where
  "openai_complete_text w self request st =
     (case oc_api_key self of
        None \<Rightarrow> Some (Inl (Unauthorized ''LLM API key is not configured''), st)
      | Some api_key \<Rightarrow>
          Option.bind (redact_for_provider request [api_key]) (\<lambda>request.
          after_charge w request st (\<lambda>st.
            let shape = effective_shape request (oc_model self) (oc_reasoning_effort self) in
            finish_openai w [api_key]
              (complete_openai_responses w (oc_policy self) (fst shape) (snd shape) api_key request (oc_provider self) st))))"

definition codex_text_response ::
    "llm_world \<Rightarrow> string list \<Rightarrow> bounded_response \<Rightarrow> (api_error + llm_text_response) option" where
  "codex_text_response w secrets response =
     (if \<not> valid_utf8 (br_body response) then Some (Inl (Upstream ''LLM response was not valid UTF-8''))
      else case extract_codex_sse_text (lw_from_str w) (uc_sha256 (lw_crates w)) (br_body response) of
             Inl error \<Rightarrow> Some (Inl error)
           | Inr t \<Rightarrow>
               map_option (\<lambda>redacted. Inr \<lparr>ltr_text = redacted, ltr_latency_ms = lw_latency_ms w,
                 ltr_attempts = br_attempts response,
                 ltr_usage = extract_codex_sse_usage (lw_from_str w) (br_body response)\<rparr>) (redact_string t secrets))"

definition codex_call ::
    "llm_world \<Rightarrow> codex_client \<Rightarrow> codex_credentials \<Rightarrow> llm_request \<Rightarrow> string \<Rightarrow> string option \<Rightarrow> provider_call" where
  "codex_call w self credentials request model effort =
     \<lparr>pcl_endpoint = codex_responses_endpoint (xc_base_url self), pcl_bearer = cc_token credentials,
      pcl_accept_events = True, pcl_account_id = cc_account_id credentials,
      pcl_request_id = lm_request_id (lr_metadata request),
      pcl_payload = codex_responses_payload (lw_evidence_json w) model request effort True\<rparr>"

definition codex_complete_secured ::
    "llm_world \<Rightarrow> codex_client \<Rightarrow> codex_credentials \<Rightarrow> llm_request \<Rightarrow> string list \<Rightarrow> llm_state
      \<Rightarrow> ((api_error + llm_text_response) \<times> llm_state) option" where
  "codex_complete_secured w self credentials request secrets st =
     (let shape = effective_shape request (xc_model self) (xc_reasoning_effort self); model = fst shape; effort = snd shape in
        if cc_token_kind credentials = KindOpenAiApiKey
        then finish_openai w secrets
               (complete_openai_responses w (xc_policy self) model effort (cc_token credentials) request ''codex_auth'' st)
        else (case execute_call w (xc_policy self) ''codex_auth'' model (codex_call w self credentials request model effort) st of
                (Inl error, st) \<Rightarrow> Some (Inl error, st)
              | (Inr response, st) \<Rightarrow> map_option (\<lambda>t. (t, st)) (codex_text_response w secrets response)))"

text \<open>The rest of a call, after \<open>self.secure_request(request)?\<close>.\<close>

definition after_secure ::
    "codex_client \<Rightarrow> config \<Rightarrow> llm_request \<Rightarrow> llm_state
      \<Rightarrow> (codex_credentials \<Rightarrow> llm_request \<Rightarrow> string list \<Rightarrow> ((api_error + 'a) \<times> llm_state) option)
      \<Rightarrow> ((api_error + 'a) \<times> llm_state) option" where
  "after_secure self config request st next =
     Option.bind (secure_request self config request) (\<lambda>secured.
     case secured of
       Inl error \<Rightarrow> Some (Inl error, st)
     | Inr s \<Rightarrow> next (fst s) (fst (snd s)) (snd (snd s)))"

definition codex_complete_text ::
    "llm_world \<Rightarrow> codex_client \<Rightarrow> config \<Rightarrow> llm_request \<Rightarrow> llm_state
      \<Rightarrow> ((api_error + llm_text_response) \<times> llm_state) option" where
  "codex_complete_text w self config request st =
     after_secure self config request st (\<lambda>credentials request secrets.
     after_charge w request st (codex_complete_secured w self credentials request secrets))"

definition none_response :: "llm_world \<Rightarrow> llm_request \<Rightarrow> llm_text_response" where
  "none_response w request =
     \<lparr>ltr_text = ''provider=none echo: '' @ concat (take 80 (chars (compact_input_text request))),
      ltr_latency_ms = lw_latency_ms w, ltr_attempts = 1, ltr_usage = None\<rparr>"

definition mock_response :: "llm_world \<Rightarrow> llm_request \<Rightarrow> llm_text_response" where
  "mock_response w request =
     (let t = (case lr_response_format request of
            FormatJsonSchema _ _ _ \<Rightarrow> [CHR 0x7B, CHR 0x22] @ ''links'' @ [CHR 0x22] @ '':[],'' @ [CHR 0x22] @ ''insights''
              @ [CHR 0x22] @ '':[]'' @ [CHR 0x7D]
          | FormatText \<Rightarrow> ''mock summary: '' @ concat (take 160 (chars (compact_input_text request))));
          input_tokens = max (of_nat (input_chars request) div 4) 1 :: u64;
          output_tokens = max (of_nat (length (chars t)) div 4) 1 :: u64
      in \<lparr>ltr_text = t, ltr_latency_ms = lw_latency_ms w, ltr_attempts = 1,
          ltr_usage = Some \<lparr>tu_input_tokens = Some input_tokens, tu_cached_input_tokens = Some 0,
            tu_output_tokens = Some output_tokens, tu_reasoning_output_tokens = Some 0,
            tu_total_tokens = Some (input_tokens + output_tokens)\<rparr>\<rparr>)"

definition charged_response ::
    "llm_world \<Rightarrow> llm_request \<Rightarrow> llm_text_response \<Rightarrow> llm_state \<Rightarrow> ((api_error + llm_text_response) \<times> llm_state) option" where
  "charged_response w request response st =
     after_charge w request st (\<lambda>st. Some (Inr response, st))"

fun client_complete_text ::
    "llm_world \<Rightarrow> config \<Rightarrow> llm_client \<Rightarrow> llm_request \<Rightarrow> llm_state
      \<Rightarrow> ((api_error + llm_text_response) \<times> llm_state) option" where
  "client_complete_text w config (NoneClient _) request st = charged_response w request (none_response w request) st"
| "client_complete_text w config (MockClient _) request st = charged_response w request (mock_response w request) st"
| "client_complete_text w config (OpenAiClient c) request st = openai_complete_text w c request st"
| "client_complete_text w config (CodexClient c) request st = codex_complete_text w c config request st"

end
