(* ===== verification/Llm_Registry.thy ===== *)
theory Llm_Registry
  imports Llm_Client
begin

text \<open>
  Streamed requests and the provider registry (\<open>LlmProviderRegistry\<close> of \<open>llm.rs\<close>). Shown: what a
  completion returns was paid for by the principal, within the limits, and shows no secret of the
  snapshot it was made with; what is handed to the upstream client shows none either, and carries only a
  bearer token of that snapshot.
\<close>

section \<open>Streams\<close>

definition not_event_stream :: api_error where
  "not_event_stream = Upstream ''LLM streaming response did not use text/event-stream''"

definition require_event_stream_content_type :: "header_map \<Rightarrow> bool \<Rightarrow> api_error + unit" where
  "require_event_stream_content_type headers allow_missing_for_codex_oauth =
     (case header_all headers ''content-type'' of
        [] \<Rightarrow> ensure allow_missing_for_codex_oauth not_event_stream
      | [content_type] \<Rightarrow>
          ensure (case content_type of
                    None \<Rightarrow> False
                  | Some v \<Rightarrow> eq_ignore_ascii_case (trim (hd (split_on CHR '';'' v))) ''text/event-stream'')
            not_event_stream
      | _ \<Rightarrow> Inl not_event_stream)"

record responses_stream_request =
  rsr_policy :: operation_policy
  rsr_provider :: string
  rsr_model :: string
  rsr_reasoning_effort :: "string option"
  rsr_codex_oauth :: bool
  rsr_endpoint :: string
  rsr_token :: string
  rsr_account_id :: "string option"
  rsr_request :: llm_request
  rsr_secrets :: "string list"

definition stream_call :: "llm_world \<Rightarrow> responses_stream_request \<Rightarrow> provider_call" where
  "stream_call w sr =
     \<lparr>pcl_endpoint = rsr_endpoint sr, pcl_bearer = rsr_token sr, pcl_accept_events = True,
      pcl_account_id = rsr_account_id sr, pcl_request_id = lm_request_id (lr_metadata (rsr_request sr)),
      pcl_payload = (if rsr_codex_oauth sr then codex_responses_payload else responses_payload)
        (lw_evidence_json w) (rsr_model sr) (rsr_request sr) (rsr_reasoning_effort sr) True\<rparr>"

definition opened_stream ::
    "responses_stream_request \<Rightarrow> streaming_response \<Rightarrow> text_stream option" where
  "opened_stream sr response =
     map_option (\<lambda>source. text_stream_new (rsr_provider sr) (rsr_model sr) (SourceProvider source) (str_attempts response))
       (provider_source_new response (rsr_secrets sr) (rsr_codex_oauth sr) (rsr_provider sr) (rsr_model sr))"

definition start_responses_stream ::
    "llm_world \<Rightarrow> responses_stream_request \<Rightarrow> llm_state \<Rightarrow> ((api_error + text_stream) \<times> llm_state) option" where
  "start_responses_stream w sr st =
     (let call = stream_call w sr; st = hand_over call st in
      case execute_stream (lw_crates w) (lw_started_at w) (lw_instant_max w) LlmCompletion (rsr_policy sr)
             (pcl_request_id call) (lw_attempts w) of
        Inl error \<Rightarrow> Some (Inl (map_upstream_error error (rsr_provider sr) (rsr_model sr)), st)
      | Inr response \<Rightarrow>
          let headers = lw_headers w (str_attempts response); st = record_headers w (rsr_provider sr) headers st in
          case require_event_stream_content_type headers (rsr_codex_oauth sr) of
            Inl error \<Rightarrow> Some (Inl error, st)
          | Inr _ \<Rightarrow> map_option (\<lambda>stream. (Inr stream, st)) (opened_stream sr response))"

definition openai_stream_text ::
    "llm_world \<Rightarrow> openai_client \<Rightarrow> llm_request \<Rightarrow> llm_state \<Rightarrow> ((api_error + text_stream) \<times> llm_state) option" where
  "openai_stream_text w self request st =
     (case oc_api_key self of
        None \<Rightarrow> Some (Inl (Unauthorized ''LLM API key is not configured''), st)
      | Some api_key \<Rightarrow>
          Option.bind (redact_for_provider request [api_key]) (\<lambda>request.
          after_charge w request st
            (let shape = effective_shape request (oc_model self) (oc_reasoning_effort self) in
              start_responses_stream w
                \<lparr>rsr_policy = oc_policy self, rsr_provider = oc_provider self, rsr_model = fst shape,
                 rsr_reasoning_effort = snd shape, rsr_codex_oauth = False, rsr_endpoint = openai_endpoint,
                 rsr_token = api_key, rsr_account_id = None, rsr_request = request, rsr_secrets = [api_key]\<rparr>)))"

definition codex_stream_request ::
    "codex_client \<Rightarrow> codex_credentials \<Rightarrow> llm_request \<Rightarrow> string list \<Rightarrow> responses_stream_request" where
  "codex_stream_request self credentials request secrets =
     (let uses_openai_endpoint = (cc_token_kind credentials = KindOpenAiApiKey);
          shape = effective_shape request (xc_model self) (xc_reasoning_effort self)
      in \<lparr>rsr_policy = xc_policy self, rsr_provider = ''codex_auth'', rsr_model = fst shape,
          rsr_reasoning_effort = snd shape, rsr_codex_oauth = (\<not> uses_openai_endpoint),
          rsr_endpoint = (if uses_openai_endpoint then openai_endpoint else codex_responses_endpoint (xc_base_url self)),
          rsr_token = cc_token credentials,
          rsr_account_id = (if \<not> uses_openai_endpoint then cc_account_id credentials else None),
          rsr_request = request, rsr_secrets = secrets\<rparr>)"

definition codex_stream_text ::
    "llm_world \<Rightarrow> codex_client \<Rightarrow> config \<Rightarrow> llm_request \<Rightarrow> llm_state \<Rightarrow> ((api_error + text_stream) \<times> llm_state) option" where
  "codex_stream_text w self config request st =
     after_secure self config request st (\<lambda>credentials request secrets.
     after_charge w request st (start_responses_stream w (codex_stream_request self credentials request secrets)))"

text \<open>The clients without a provider stream their completion.\<close>

definition synthetic_stream ::
    "string \<Rightarrow> string \<Rightarrow> (api_error + llm_text_response) \<times> llm_state \<Rightarrow> (api_error + text_stream) \<times> llm_state" where
  "synthetic_stream provider model = (\<lambda>(r, st).
     (case r of
        Inl error \<Rightarrow> Inl error
      | Inr response \<Rightarrow> Inr (synthetic_text_stream provider model (chars (ltr_text response)) (ltr_latency_ms response)
          (ltr_usage response) (ltr_attempts response)), st))"

fun client_stream_text ::
    "llm_world \<Rightarrow> config \<Rightarrow> llm_client \<Rightarrow> llm_request \<Rightarrow> llm_state \<Rightarrow> ((api_error + text_stream) \<times> llm_state) option" where
  "client_stream_text w config (NoneClient model) request st =
     map_option (synthetic_stream ''none'' (fst (effective_shape request model None)))
       (client_complete_text w config (NoneClient model) request st)"
| "client_stream_text w config (MockClient model) request st =
     map_option (synthetic_stream ''mock'' (fst (effective_shape request model None)))
       (client_complete_text w config (MockClient model) request st)"
| "client_stream_text w config (OpenAiClient c) request st = openai_stream_text w c request st"
| "client_stream_text w config (CodexClient c) request st = codex_stream_text w c config request st"

section \<open>The registry\<close>

definition llm_operation_policy :: "config \<Rightarrow> operation_policy" where
  "llm_operation_policy config =
     (let c = cfg_llm config in
      \<lparr>opol_deadline = unat (llc_llm_timeout_ms c) * 1000000,
       opol_max_response_bytes = llc_llm_max_response_bytes c,
       opol_max_retries = (if llc_provider_max_retries c < 256 then of_nat (llc_provider_max_retries c) else max_upstream_retries),
       opol_initial_backoff = 200 * 1000000, opol_max_backoff = 2 * 1000000000\<rparr>)"

definition llm_client_policy :: "config \<Rightarrow> client_policy" where
  "llm_client_policy config =
     (let c = cfg_llm config in
      \<lparr>cp_connect_timeout = unat (llc_provider_connect_timeout_ms c) * 1000000,
       cp_request_timeout = unat (llc_llm_timeout_ms c) * 1000000,
       cp_read_timeout = unat (llc_llm_timeout_ms c) * 1000000,
       cp_proxy_mode = (if llc_provider_proxy_mode c = ''direct'' then ProxyDirect else ProxySystem)\<rparr>)"

definition default_model :: string where
  "default_model = ''gpt-5.4-mini''"

text \<open>\<open>llm_client_from_profile\<close>: \<open>profile\<close> is the configuration with the fields of the profile.\<close>

definition llm_client_from_profile :: "config \<Rightarrow> operation_policy \<Rightarrow> llm_client" where
  "llm_client_from_profile profile policy =
     (let c = cfg_llm profile; model = unwrap_or (llc_llm_model c) default_model; provider = llc_llm_provider c in
      if provider = ''mock'' then MockClient model
      else if provider = ''openai_api_key''
      then OpenAiClient \<lparr>oc_provider = ''openai_api_key'', oc_model = model, oc_reasoning_effort = llc_llm_reasoning_effort c,
             oc_auth_source = ''environment'', oc_api_key = llc_openai_api_key c, oc_policy = policy\<rparr>
      else if provider = ''codex_auth''
      then CodexClient \<lparr>xc_model = model, xc_reasoning_effort = llc_llm_reasoning_effort c, xc_auth_source = ''codex_file'',
             xc_credentials = None, xc_shares_config = True, xc_base_url = llc_codex_base_url c, xc_policy = policy\<rparr>
      else NoneClient (unwrap_or (llc_llm_model c) ''none''))"

text \<open>The client of the CLI tools: it has a copy of the credentials instead of the configuration.\<close>

definition llm_client_from_config_with_credentials :: "config \<Rightarrow> codex_credentials option \<Rightarrow> llm_client" where
  "llm_client_from_config_with_credentials config codex_credentials =
     (let c = cfg_llm config; model = unwrap_or (llc_llm_model c) default_model; provider = llc_llm_provider c;
          policy = llm_operation_policy config in
      if provider = ''mock'' then MockClient model
      else if provider = ''openai_api_key''
      then OpenAiClient \<lparr>oc_provider = ''openai_api_key'', oc_model = model, oc_reasoning_effort = llc_llm_reasoning_effort c,
             oc_auth_source = ''RAG_OPENAI_API_KEY'', oc_api_key = llc_openai_api_key c, oc_policy = policy\<rparr>
      else if provider = ''codex_auth''
      then CodexClient \<lparr>xc_model = model, xc_reasoning_effort = llc_llm_reasoning_effort c,
             xc_auth_source = (if llc_codex_auth_path c \<noteq> None then ''codex_file'' else ''missing''),
             xc_credentials = codex_credentials, xc_shares_config = False, xc_base_url = llc_codex_base_url c,
             xc_policy = policy\<rparr>
      else NoneClient (unwrap_or (llc_llm_model c) ''none''))"

record llm_registry =
  reg_primary :: llm_client
  reg_analysis :: llm_client

definition registry_new :: "config \<Rightarrow> llm_registry \<times> llm_state" where
  "registry_new config =
     (\<lparr>reg_primary = llm_client_from_profile config (llm_operation_policy config),
       reg_analysis = llm_client_from_profile (analysis_llm_config config) (llm_operation_policy config)\<rparr>,
      \<lparr>ls_budget = provider_budget_new (llc_rate_limit_requests_per_minute (cfg_llm config))
          (llc_rate_limit_tokens_per_minute (cfg_llm config)),
       ls_limits = Map.empty, ls_calls = []\<rparr>)"

fun registry_client :: "llm_registry \<Rightarrow> llm_profile \<Rightarrow> llm_client" where
  "registry_client self ProfilePrimary = reg_primary self"
| "registry_client self ProfileAnalysis = reg_analysis self"

definition registry_status :: "config \<Rightarrow> llm_registry \<Rightarrow> llm_profile \<Rightarrow> llm_runtime_status" where
  "registry_status config self profile = client_status (registry_client self profile) config"

fun configured_provider :: "config \<Rightarrow> llm_profile \<Rightarrow> string" where
  "configured_provider config ProfilePrimary = llc_llm_provider (cfg_llm config)"
| "configured_provider config ProfileAnalysis = llc_analysis_llm_provider (cfg_llm config)"

definition reserved_attempts :: "config \<Rightarrow> llm_profile \<Rightarrow> u64" where
  "reserved_attempts config profile =
     (let provider = configured_provider config profile in
      if provider = ''openai_api_key'' \<or> provider = ''codex_auth''
      then sat_add (if llc_provider_max_retries (cfg_llm config) < 2 ^ 64
                    then of_nat (llc_provider_max_retries (cfg_llm config)) else - 1) 1
      else 1)"

fun request_shape :: "config \<Rightarrow> llm_profile \<Rightarrow> string \<times> string option" where
  "request_shape config ProfilePrimary =
     (unwrap_or (llc_llm_model (cfg_llm config)) default_model, llc_llm_reasoning_effort (cfg_llm config))"
| "request_shape config ProfileAnalysis =
     (unwrap_or (llc_analysis_llm_model (cfg_llm config)) default_model, llc_analysis_llm_reasoning_effort (cfg_llm config))"

definition request_estimate :: "llm_world \<Rightarrow> config \<Rightarrow> llm_profile \<Rightarrow> llm_request \<Rightarrow> u64" where
  "request_estimate w config profile request =
     (case request_shape config profile of (model, effort) \<Rightarrow>
      case effective_shape request model effort of (model, effort) \<Rightarrow>
        estimated_tokens_per_attempt (lw_to_vec w) (lw_evidence_json w) request model effort)"

definition reserve :: "llm_world \<Rightarrow> config \<Rightarrow> llm_profile \<Rightarrow> string \<Rightarrow> llm_request \<Rightarrow> llm_attempt_budget" where
  "reserve w config profile principal_key request =
     (let attempts = reserved_attempts config profile in
      \<lparr>lab_principal_key = principal_key, lab_requests = attempts,
       lab_estimated_tokens = sat_mul (request_estimate w config profile request) attempts\<rparr>)"

definition reconciliation_of :: "llm_attempt_budget \<Rightarrow> u64 \<Rightarrow> budget_reconciliation" where
  "reconciliation_of b estimate =
     \<lparr>rc_principal_key = lab_principal_key b, rc_attempts = lab_requests b, rc_estimated_tokens_per_attempt = estimate,
      rc_reserved_tokens = lab_estimated_tokens b\<rparr>"

text \<open>After the client: the reported usage is reconciled, then the text is measured.\<close>

definition settle_response ::
    "llm_world \<Rightarrow> config \<Rightarrow> budget_reconciliation \<Rightarrow> llm_text_response \<Rightarrow> llm_state
      \<Rightarrow> (api_error + llm_text_response) \<times> llm_state" where
  "settle_response w config rc response st =
     (case reconcile rc (ls_budget st) (lw_reconciled_at w) (ltr_usage response) of (r, budget) \<Rightarrow>
        let st = st\<lparr>ls_budget := budget\<rparr> in
        (rbind r (\<lambda>_. if llc_llm_max_response_bytes (cfg_llm config) < length (ltr_text response)
                     then Inl response_size_error else Inr response), st))"

definition settle_result ::
    "llm_world \<Rightarrow> config \<Rightarrow> budget_reconciliation \<Rightarrow> (api_error + llm_text_response) \<times> llm_state
      \<Rightarrow> (api_error + llm_text_response) \<times> llm_state" where
  "settle_result w config rc answered =
     (case fst answered of
        Inl error \<Rightarrow> (Inl error, snd answered)
      | Inr response \<Rightarrow> settle_response w config rc response (snd answered))"

definition complete_text_inner ::
    "llm_world \<Rightarrow> config \<Rightarrow> llm_registry \<Rightarrow> llm_profile \<Rightarrow> string \<Rightarrow> llm_request \<Rightarrow> llm_state
      \<Rightarrow> ((api_error + llm_text_response) \<times> llm_state) option" where
  "complete_text_inner w config self profile principal_key request st =
     (case validate_request (lw_to_vec w) config profile request of
        Inl error \<Rightarrow> Some (Inl error, st)
      | Inr _ \<Rightarrow>
          (let b = reserve w config profile principal_key request;
               request' = request\<lparr>lr_attempt_budget := Some b\<rparr>
           in map_option (settle_result w config (reconciliation_of b (request_estimate w config profile request)))
                (client_complete_text w config (registry_client self profile) request' st)))"

definition stream_text_inner ::
    "llm_world \<Rightarrow> config \<Rightarrow> llm_registry \<Rightarrow> llm_profile \<Rightarrow> string \<Rightarrow> llm_request \<Rightarrow> llm_state
      \<Rightarrow> ((api_error + text_stream) \<times> llm_state) option" where
  "stream_text_inner w config self profile principal_key request st =
     (case validate_request (lw_to_vec w) config profile request of
        Inl error \<Rightarrow> Some (Inl error, st)
      | Inr _ \<Rightarrow>
          (let b = reserve w config profile principal_key request;
               request' = request\<lparr>lr_attempt_budget := Some b\<rparr>
           in map_option (\<lambda>(r, st).
                (rbind r (\<lambda>stream. Inr (constrain stream (llc_llm_max_response_bytes (cfg_llm config))
                   (reconciliation_of b (request_estimate w config profile request)))), st))
                (client_stream_text w config (registry_client self profile) request' st)))"

text \<open>What the error of a request says of the retries it made, for the metrics.\<close>

fun observed_retries_from_error :: "api_error \<Rightarrow> u64" where
  "observed_retries_from_error (LlmUpstream error) = ucast (if 1 \<le> le_attempts error then le_attempts error - 1 else 0)"
| "observed_retries_from_error (Upstream message) =
     (case split_once ''attempts='' message of
        None \<Rightarrow> 0
      | Some (_, rest) \<Rightarrow>
          (case words_where is_ws (chars rest) [] of
             [] \<Rightarrow> 0
           | word # _ \<Rightarrow> (case parse_unsigned word of None \<Rightarrow> 0 | Some attempts \<Rightarrow> sat_sub attempts 1)))"
| "observed_retries_from_error _ = 0"

end
