(* ===== verification/Config_Validation.thy ===== *)
theory Config_Validation
  imports Llm_Registry
begin

text \<open>
  The checks a configuration passes before the service starts (\<open>Config::validate_startup\<close> and
  \<open>validate_meili_maintenance\<close> of \<open>config.rs\<close>), in the code's order; an error is its message. URL, MIME,
  timestamp and header parsing belong to other crates.
\<close>

section \<open>The functions of other crates\<close>

text \<open>
  \<open>kc_url\<close>: scheme of a parsed URL and whether it has a host; \<open>kc_uri\<close>: scheme of a parsed \<open>Uri\<close> and its
  authority as text, host and whether it has a port; \<open>kc_debug\<close>: the debug form of a string.
\<close>

record uri_authority =
  ua_text :: string
  ua_host :: string
  ua_has_port :: bool

record config_crates =
  kc_url :: "string \<Rightarrow> (string \<times> bool) option"
  kc_rfc3339_ok :: "string \<Rightarrow> bool"
  kc_mime_ok :: "string \<Rightarrow> bool"
  kc_uri :: "string \<Rightarrow> (string option \<times> uri_authority option) option"
  kc_header_value_ok :: "string \<Rightarrow> bool"
  kc_from_str :: "string \<Rightarrow> json option"
  kc_debug :: "string \<Rightarrow> string"

section \<open>Single values\<close>

definition validate_absolute_http_url :: "config_crates \<Rightarrow> string \<Rightarrow> string \<Rightarrow> string + unit" where
  "validate_absolute_http_url crates name v =
     (case kc_url crates v of
        None \<Rightarrow> Inl (name @ '' must be a valid absolute HTTP(S) URL'')
      | Some (scheme, has_host) \<Rightarrow>
          ensure ((scheme = ''http'' \<or> scheme = ''https'') \<and> has_host) (name @ '' must be a valid absolute HTTP(S) URL''))"

definition validate_reasoning_effort :: "string \<Rightarrow> string option \<Rightarrow> string + unit" where
  "validate_reasoning_effort name v =
     ensure (case v of None \<Rightarrow> True | Some effort \<Rightarrow> List.member [''low'', ''medium'', ''high'', ''xhigh''] effort)
       (name @ '' must be low, medium, high, or xhigh when configured'')"

definition min_auth_credential_chars :: nat where
  "min_auth_credential_chars = 8"

definition validate_secret :: "string \<Rightarrow> string option \<Rightarrow> string + unit" where
  "validate_secret name v =
     (case v of
        None \<Rightarrow> Inr ()
      | Some v \<Rightarrow> checks
          [ensure (\<not> blank v) (name @ '' must not be empty when set''),
           ensure (v = trim v) (name @ '' must not have surrounding whitespace''),
           ensure (min_auth_credential_chars \<le> length (chars v))
             (name @ '' must be at least '' @ show_nat min_auth_credential_chars @ '' characters when set'')])"

definition validate_redaction_secret :: "string \<Rightarrow> string option \<Rightarrow> string + unit" where
  "validate_redaction_secret name v =
     (case v of
        None \<Rightarrow> Inr ()
      | Some v \<Rightarrow> checks
          [ensure (\<not> blank v) (name @ '' must not contain empty values''),
           ensure (v = trim v) (name @ '' values must not have surrounding whitespace''),
           ensure (min_redaction_secret_chars \<le> length (chars v))
             (name @ '' must be at least '' @ show_nat min_redaction_secret_chars @ '' characters when set'')])"

text \<open>A loop over values with a set of those seen; \<open>duplicate\<close> is the error of a repeated one.\<close>

definition unique_step :: "('a \<Rightarrow> string + unit) \<Rightarrow> string \<Rightarrow> 'a set \<Rightarrow> 'a \<Rightarrow> string + 'a set" where
  "unique_step check duplicate seen x =
     rbind (check x) (\<lambda>_. if x \<in> seen then Inl duplicate else Inr (insert x seen))"

definition role_char :: "string \<Rightarrow> bool" where
  "role_char c = (case c of [b] \<Rightarrow> is_ascii_alphanumeric b \<or> b = CHR ''_'' \<or> b = CHR ''-'' | _ \<Rightarrow> False)"

definition entry_name :: "nat \<Rightarrow> string" where
  "entry_name entry_number = ''RAG_AUTH_USERS entry '' @ show_nat entry_number"

definition validate_roles :: "string list \<Rightarrow> nat \<Rightarrow> string + unit" where
  "validate_roles roles entry_number =
     (if roles = [] then Inl (entry_name entry_number @ '' must include at least one non-empty role'')
      else rbind (rfold (unique_step
             (\<lambda>role. ensure (\<not> blank role \<and> role = trim role \<and> list_all role_char (chars role))
                (entry_name entry_number @ '' contains an invalid role''))
             (entry_name entry_number @ '' contains a duplicate role'')) {} roles) (\<lambda>_. Inr ()))"

definition validate_upload_allowed_mime_types :: "config_crates \<Rightarrow> string list \<Rightarrow> string + unit" where
  "validate_upload_allowed_mime_types crates mime_types =
     (if mime_types = [] then Inl ''RAG_UPLOAD_ALLOWED_MIME_TYPES must contain at least one MIME type''
      else rbind (rfold (unique_step
             (\<lambda>m. checks
                [ensure (m \<noteq> [] \<and> m = trim m \<and> m = ascii_lower m \<and> CHR ''*'' \<notin> set m)
                   ''RAG_UPLOAD_ALLOWED_MIME_TYPES entries must be exact lowercase MIME types'',
                 ensure (kc_mime_ok crates m) ''RAG_UPLOAD_ALLOWED_MIME_TYPES contains an invalid MIME type''])
             ''RAG_UPLOAD_ALLOWED_MIME_TYPES must not contain duplicate MIME types'') {} mime_types) (\<lambda>_. Inr ()))"

text \<open>The text after the first \<open>]\<close>, with the byte after it.\<close>

definition has_port_separator :: "string \<Rightarrow> bool" where
  "has_port_separator authority =
     (case authority of
        c # cs \<Rightarrow>
          if c = CHR ''['' then (case split_once '']'' authority of Some (_, rest) \<Rightarrow> starts_with rest '':'' | None \<Rightarrow> False)
          else CHR '':'' \<in> set authority
      | [] \<Rightarrow> False)"

definition exact_origin_error :: string where
  "exact_origin_error = ''RAG_CORS_ALLOWED_ORIGINS entries must be exact http/https origins''"

definition invalid_origin_error :: string where
  "invalid_origin_error = ''RAG_CORS_ALLOWED_ORIGINS contains an invalid origin''"

definition validate_cors_origin :: "config_crates \<Rightarrow> string \<Rightarrow> string + unit" where
  "validate_cors_origin crates origin =
     rbind (ensure (origin \<noteq> [] \<and> origin = trim origin) ''RAG_CORS_ALLOWED_ORIGINS contains an empty or padded origin'') (\<lambda>_.
     rbind (ok_or (split_once ''://'' origin) exact_origin_error) (\<lambda>(scheme, authority).
     rbind (ensure ((scheme = ''http'' \<or> scheme = ''https'') \<and> authority \<noteq> []
              \<and> list_all (\<lambda>c. c \<notin> set authority) ''/?#@'') exact_origin_error) (\<lambda>_.
     rbind (ok_or (kc_uri crates origin) invalid_origin_error) (\<lambda>(uri_scheme, uri_auth).
     rbind (ensure (uri_scheme = Some scheme) exact_origin_error) (\<lambda>_.
     rbind (ok_or uri_auth exact_origin_error) (\<lambda>a.
     rbind (ensure (ua_host a \<noteq> [] \<and> \<not> (has_port_separator (ua_text a) \<and> \<not> ua_has_port a)) invalid_origin_error) (\<lambda>_.
     ensure (kc_header_value_ok crates origin) invalid_origin_error)))))))"

definition validate_cors_allowed_origins :: "config_crates \<Rightarrow> string \<Rightarrow> string list \<Rightarrow> bool \<Rightarrow> string + unit" where
  "validate_cors_allowed_origins crates run_mode origins allow_wildcard_cors =
     (if List.member origins ''*'' then checks
        [ensure (length origins = 1) ''RAG_CORS_ALLOWED_ORIGINS wildcard must be the sole origin'',
         ensure (\<not> (run_mode = ''production'' \<and> \<not> allow_wildcard_cors))
           ''production wildcard CORS requires RAG_ALLOW_WILDCARD_CORS=true'']
      else rbind (rfold (unique_step (validate_cors_origin crates)
             ''RAG_CORS_ALLOWED_ORIGINS must not contain duplicate origins'') {} origins) (\<lambda>_. Inr ()))"

section \<open>Parsing of lists\<close>

fun parse_bearer_token_scope :: "string \<Rightarrow> string + bearer_token_scope" where
  "parse_bearer_token_scope v =
     (if v = ''owner'' then Inr BearerOwner
      else if v = ''tenant_service'' then Inr BearerTenantService
      else Inl ''RAG_BEARER_TOKEN_SCOPE must be owner or tenant_service'')"

definition auth_user_scope_of :: "string \<Rightarrow> bool \<Rightarrow> auth_user_scope" where
  "auth_user_scope_of owner has_admin_role =
     (if has_admin_role then UserAdmin else if owner = ''*'' then UserTenantService else UserOwner owner)"

definition parse_auth_entry :: "nat \<Rightarrow> string \<Rightarrow> string set \<Rightarrow> string + auth_user_config" where
  "parse_auth_entry entry_number entry credentials =
     (let parts = split_on CHR '':'' entry in
      if \<not> (2 \<le> length parts \<and> length parts \<le> 3)
      then Inl (entry_name entry_number @ '' must use owner:token[:role|role]'')
      else
        (let owner = parts ! 0; token = parts ! 1;
             roles = split_on CHR ''|'' (if length parts = 3 then parts ! 2 else ''user'')
         in rbind (ensure (\<not> blank owner \<and> \<not> blank token)
                (entry_name entry_number @ '' must include a non-empty owner and token'')) (\<lambda>_.
            rbind (ensure (owner = trim owner \<and> token = trim token)
                (entry_name entry_number @ '' must not contain surrounding owner or token whitespace'')) (\<lambda>_.
            rbind (ensure (token \<notin> credentials) ''RAG_AUTH_USERS contains a duplicate token'') (\<lambda>_.
            rbind (validate_roles roles entry_number) (\<lambda>_.
            Inr \<lparr>au_token = token, au_scope = auth_user_scope_of owner (List.member roles ''admin''), au_roles = roles\<rparr>))))))"

fun parse_auth_entries :: "nat \<Rightarrow> string set \<Rightarrow> string list \<Rightarrow> string + auth_user_config list" where
  "parse_auth_entries n credentials [] = Inr []"
| "parse_auth_entries n credentials (entry # es) =
     rbind (parse_auth_entry n entry credentials) (\<lambda>user.
     rbind (parse_auth_entries (n + 1) (insert (au_token user) credentials) es) (\<lambda>users. Inr (user # users)))"

definition parse_auth_users :: "string \<Rightarrow> string + auth_user_config list" where
  "parse_auth_users v =
     (if blank v then Inl ''RAG_AUTH_USERS must not be empty when set''
      else parse_auth_entries 1 {} (split_on CHR '','' v))"

definition parse_model_overrides :: "string \<Rightarrow> string list" where
  "parse_model_overrides v = filter (\<lambda>m. m \<noteq> []) (map trim (split_on CHR '','' v))"

definition parse_cors_allowed_origins :: "string \<Rightarrow> string list" where
  "parse_cors_allowed_origins v = (if v = [] then [] else map trim (split_on CHR '','' v))"

definition parse_csv_values :: "string \<Rightarrow> string list" where
  "parse_csv_values v = filter (\<lambda>i. i \<noteq> []) (map (\<lambda>i. ascii_lower (trim i)) (split_on CHR '','' v))"

definition parse_previous_redaction_secrets :: "string \<Rightarrow> string list" where
  "parse_previous_redaction_secrets v = split_on CHR '','' v"

end
