(* ===== verification/Config_Startup.thy ===== *)
theory Config_Startup
  imports Config_Validation
begin

text \<open>
  The start-up checks as a whole: authentication, limits and deadlines, the index secret, the secrets the
  redaction needs, and \<open>validate_startup\<close> over all of them. The credential file is read anew by each check
  that needs it, so each read has its own view.
\<close>

section \<open>Authentication\<close>

definition check_auth_user :: "nat \<Rightarrow> auth_user_config \<Rightarrow> string set \<Rightarrow> string + unit" where
  "check_auth_user index user credentials = checks
     [validate_secret ''RAG_AUTH_USERS'' (Some (au_token user)),
      ensure (au_token user \<notin> credentials)
        (''authentication credentials must be unique (duplicate RAG_AUTH_USERS entry '' @ show_nat (index + 1) @ '')''),
      validate_roles (au_roles user) (index + 1),
      (case au_scope user of
         UserOwner owner \<Rightarrow> ensure (\<not> blank owner) (entry_name (index + 1) @ '' has an empty owner_user_id'')
       | _ \<Rightarrow> Inr ()),
      ensure (au_scope user = UserAdmin \<or> \<not> List.member (au_roles user) ''admin'')
        (entry_name (index + 1) @ '' assigns the admin role to a non-admin scope'')]"

fun check_auth_users :: "nat \<Rightarrow> string set \<Rightarrow> auth_user_config list \<Rightarrow> string + string set" where
  "check_auth_users index credentials [] = Inr credentials"
| "check_auth_users index credentials (user # users) =
     rbind (check_auth_user index user credentials) (\<lambda>_.
     check_auth_users (index + 1) (insert (au_token user) credentials) users)"

definition claim_credential :: "string \<Rightarrow> string set \<Rightarrow> string option \<Rightarrow> string + string set" where
  "claim_credential name credentials token =
     rbind (validate_secret name token) (\<lambda>_.
     (case token of
        None \<Rightarrow> Inr credentials
      | Some t \<Rightarrow>
          if t \<in> credentials
          then Inl (''authentication credentials must be unique ('' @ name @ '' collides with another credential)'')
          else Inr (insert t credentials)))"

definition legacy_scope_conflict :: string where
  "legacy_scope_conflict =
     ''RAG_ALLOW_LEGACY_TENANT_SERVICE_BEARER cannot be combined with an explicit bearer scope''"

definition validate_bearer_scope :: "auth_settings \<Rightarrow> string + unit" where
  "validate_bearer_scope c =
     (let legacy = ac_allow_legacy_tenant_service_bearer c; owner = ac_bearer_token_owner_user_id c in
      if ac_bearer_token c = None then
        ensure (ac_bearer_token_scope c = None \<and> owner = None \<and> \<not> legacy)
          ''bearer scope, owner, and compatibility settings require RAG_BEARER_TOKEN''
      else case ac_bearer_token_scope c of
        Some BearerOwner \<Rightarrow> checks
          [ensure (case owner of None \<Rightarrow> False | Some owner \<Rightarrow> \<not> blank owner)
             ''RAG_BEARER_TOKEN_SCOPE=owner requires RAG_BEARER_TOKEN_OWNER_USER_ID'',
           ensure (case owner of None \<Rightarrow> True | Some owner \<Rightarrow> owner = trim owner)
             ''RAG_BEARER_TOKEN_OWNER_USER_ID must not have surrounding whitespace'',
           ensure (\<not> legacy) legacy_scope_conflict]
      | Some BearerTenantService \<Rightarrow> checks
          [ensure (owner = None) ''RAG_BEARER_TOKEN_OWNER_USER_ID is only valid with RAG_BEARER_TOKEN_SCOPE=owner'',
           ensure (\<not> legacy) legacy_scope_conflict]
      | None \<Rightarrow>
          if legacy then ensure (owner = None) ''RAG_BEARER_TOKEN_OWNER_USER_ID requires RAG_BEARER_TOKEN_SCOPE=owner''
          else Inl (''RAG_BEARER_TOKEN requires RAG_BEARER_TOKEN_SCOPE=owner|tenant_service; temporary tenant-wide ''
            @ ''compatibility requires RAG_ALLOW_LEGACY_TENANT_SERVICE_BEARER=true''))"

definition validate_auth_configuration :: "auth_settings \<Rightarrow> string + unit" where
  "validate_auth_configuration c =
     (case ac_auth_config_error c of
        Some error \<Rightarrow> Inl (''invalid authentication configuration: '' @ error)
      | None \<Rightarrow>
          rbind (check_auth_users 0 {} (ac_auth_users c)) (\<lambda>credentials.
          rbind (claim_credential ''RAG_ADMIN_TOKEN'' credentials (ac_admin_token c)) (\<lambda>credentials.
          rbind (claim_credential ''RAG_BEARER_TOKEN'' credentials (ac_bearer_token c)) (\<lambda>credentials.
          validate_bearer_scope c))))"

section \<open>Limits and deadlines\<close>

definition max_boundary_deadline_ms :: nat where
  "max_boundary_deadline_ms = 7 * 24 * 60 * 60 * 1000"

definition request_timeout_dependency_headroom_ms :: u64 where
  "request_timeout_dependency_headroom_ms = 5000"

definition min_health_llm_probe_interval_seconds :: u64 where
  "min_health_llm_probe_interval_seconds = 300"

definition max_meili_scan_page_size :: nat where
  "max_meili_scan_page_size = 1000"

definition multipart_framing_allowance_per_field_bytes :: nat where
  "multipart_framing_allowance_per_field_bytes = 16 * 1024"

text \<open>\<open>MEILI_TASK_WAIT_TIMEOUT\<close> in milliseconds, and \<open>Semaphore::MAX_PERMITS\<close> of tokio.\<close>

definition meili_task_wait_ms :: u64 where
  "meili_task_wait_ms = 60000"

definition semaphore_max_permits :: nat where
  "semaphore_max_permits = 2 ^ 61 - 1"

definition checked_usize :: "nat \<Rightarrow> nat option" where
  "checked_usize n = (if n < 2 ^ 64 then Some n else None)"

definition max_multipart_body_bytes :: "limit_config \<Rightarrow> nat option" where
  "max_multipart_body_bytes l =
     Option.bind (checked_usize (lc_max_multipart_fields l * multipart_framing_allowance_per_field_bytes)) (\<lambda>framing.
     Option.bind (checked_usize (lc_max_upload_bytes l + lc_max_json_bytes l)) (\<lambda>n. checked_usize (n + framing)))"

definition positive_limits :: "config \<Rightarrow> (string \<times> nat) list" where
  "positive_limits c =
     (let l = cfg_limits c; s = cfg_store c; p = cfg_parser c; m = cfg_llm c; h = cfg_health c in
      [(''RAG_MAX_JSON_BYTES'', lc_max_json_bytes l),
       (''RAG_MAX_UPLOAD_BYTES'', lc_max_upload_bytes l),
       (''RAG_MAX_MULTIPART_FIELDS'', lc_max_multipart_fields l),
       (''RAG_MAX_BULK_EVENTS'', lc_max_bulk_events l),
       (''RAG_MAX_BULK_ROWS'', lc_max_bulk_rows l),
       (''RAG_MAX_SEARCH_LIMIT'', lc_max_search_limit l),
       (''RAG_MAX_QUERY_CHARS'', lc_max_query_chars l),
       (''RAG_MEILI_SCAN_PAGE_SIZE'', sc_meili_scan_page_size s),
       (''RAG_MEILI_SCAN_MAX_DOCUMENTS'', sc_meili_scan_max_documents s),
       (''RAG_MEILI_CONNECT_TIMEOUT_MS'', unat (sc_meili_connect_timeout_ms s)),
       (''RAG_MEILI_REQUEST_TIMEOUT_MS'', unat (sc_meili_request_timeout_ms s)),
       (''RAG_MAX_TAGS_PER_ITEM'', lc_max_tags_per_item l),
       (''RAG_MAX_TAG_BYTES'', lc_max_tag_bytes l),
       (''RAG_REQUEST_TIMEOUT_MS'', unat (lc_request_timeout_ms l)),
       (''RAG_SYNC_INGEST_TIMEOUT_MS'', unat (lc_sync_ingest_timeout_ms l)),
       (''RAG_MAX_IN_FLIGHT_REQUESTS'', lc_max_in_flight_requests l),
       (''RAG_RATE_LIMIT_REQUESTS_PER_MINUTE'', unat (lc_rate_limit_requests_per_minute l)),
       (''RAG_INGEST_MAX_CONCURRENT_TASKS'', lc_ingest_max_concurrent_tasks l),
       (''RAG_INGEST_QUEUE_CAPACITY'', lc_ingest_queue_capacity l),
       (''RAG_SHUTDOWN_TIMEOUT_MS'', unat (lc_shutdown_timeout_ms l)),
       (''RAG_PROVIDER_CONNECT_TIMEOUT_MS'', unat (llc_provider_connect_timeout_ms m)),
       (''RAG_LLM_TIMEOUT_MS'', unat (llc_llm_timeout_ms m)),
       (''RAG_PARSER_TIMEOUT_MS'', unat (pc_parser_timeout_ms p)),
       (''RAG_HEALTH_LLM_PROBE_TTL_SECONDS'', unat (hc_probe_ttl_seconds h)),
       (''RAG_HEALTH_LLM_MAX_STALE_SECONDS'', unat (hc_max_stale_seconds h)),
       (''RAG_HEALTH_LLM_TIMEOUT_MS'', unat (hc_timeout_ms h)),
       (''RAG_HEALTH_LLM_FAILURE_THRESHOLD'', unat (hc_failure_threshold h)),
       (''RAG_LLM_MAX_INPUT_CHARS'', llc_llm_max_input_chars m),
       (''RAG_LLM_MAX_OUTPUT_TOKENS'', unat (llc_llm_max_output_tokens m)),
       (''RAG_LLM_MAX_RESPONSE_BYTES'', llc_llm_max_response_bytes m),
       (''RAG_PARSER_MAX_RESPONSE_BYTES'', pc_parser_max_response_bytes p),
       (''RAG_LLM_RATE_LIMIT_REQUESTS_PER_MINUTE'', unat (llc_rate_limit_requests_per_minute m)),
       (''RAG_LLM_RATE_LIMIT_TOKENS_PER_MINUTE'', unat (llc_rate_limit_tokens_per_minute m))])"

definition boundary_deadlines :: "config \<Rightarrow> (string \<times> nat) list" where
  "boundary_deadlines c =
     (let l = cfg_limits c; s = cfg_store c; m = cfg_llm c in
      [(''RAG_REQUEST_TIMEOUT_MS'', unat (lc_request_timeout_ms l)),
       (''RAG_SYNC_INGEST_TIMEOUT_MS'', unat (lc_sync_ingest_timeout_ms l)),
       (''RAG_SHUTDOWN_TIMEOUT_MS'', unat (lc_shutdown_timeout_ms l)),
       (''RAG_PROVIDER_CONNECT_TIMEOUT_MS'', unat (llc_provider_connect_timeout_ms m)),
       (''RAG_LLM_TIMEOUT_MS'', unat (llc_llm_timeout_ms m)),
       (''RAG_PARSER_TIMEOUT_MS'', unat (pc_parser_timeout_ms (cfg_parser c))),
       (''RAG_HEALTH_LLM_TIMEOUT_MS'', unat (hc_timeout_ms (cfg_health c))),
       (''RAG_MEILI_CONNECT_TIMEOUT_MS'', unat (sc_meili_connect_timeout_ms s)),
       (''RAG_MEILI_REQUEST_TIMEOUT_MS'', unat (sc_meili_request_timeout_ms s))])"

definition check_deadline :: "int \<Rightarrow> int \<Rightarrow> string \<times> nat \<Rightarrow> string + unit" where
  "check_deadline now instant_max = (\<lambda>(name, ms). checks
     [ensure (ms \<le> max_boundary_deadline_ms)
        (name @ '' must not exceed '' @ show_nat max_boundary_deadline_ms @ '' milliseconds''),
      ensure (now + int ms * 1000000 \<le> instant_max)
        (name @ '' is too large for platform deadline arithmetic'')])"

definition minimum_request_timeout_ms :: "config \<Rightarrow> u64" where
  "minimum_request_timeout_ms c =
     sat_add (max (max (llc_llm_timeout_ms (cfg_llm c)) (hc_timeout_ms (cfg_health c))) meili_task_wait_ms)
       request_timeout_dependency_headroom_ms"

definition request_timeout_error :: "config \<Rightarrow> string" where
  "request_timeout_error c =
     ''RAG_REQUEST_TIMEOUT_MS must be at least '' @ show_nat (unat (minimum_request_timeout_ms c))
     @ '' ms: the route deadline has to exceed RAG_LLM_TIMEOUT_MS ('' @ show_nat (unat (llc_llm_timeout_ms (cfg_llm c)))
     @ '' ms), RAG_HEALTH_LLM_TIMEOUT_MS ('' @ show_nat (unat (hc_timeout_ms (cfg_health c)))
     @ '' ms), and the Meilisearch task wait ('' @ show_nat (unat meili_task_wait_ms) @ '' ms) by ''
     @ show_nat (unat request_timeout_dependency_headroom_ms) @ '' ms''"

definition check_orderings :: "config \<Rightarrow> string + unit" where
  "check_orderings c =
     (let l = cfg_limits c; s = cfg_store c; m = cfg_llm c; h = cfg_health c in checks
      [ensure (lc_request_timeout_ms l \<le> lc_sync_ingest_timeout_ms l)
         ''RAG_SYNC_INGEST_TIMEOUT_MS must be greater than or equal to RAG_REQUEST_TIMEOUT_MS'',
       ensure (llc_provider_connect_timeout_ms m \<le> llc_llm_timeout_ms m)
         ''RAG_PROVIDER_CONNECT_TIMEOUT_MS must not exceed RAG_LLM_TIMEOUT_MS'',
       ensure (llc_provider_connect_timeout_ms m \<le> pc_parser_timeout_ms (cfg_parser c))
         ''RAG_PROVIDER_CONNECT_TIMEOUT_MS must not exceed RAG_PARSER_TIMEOUT_MS'',
       ensure (sc_meili_connect_timeout_ms s \<le> sc_meili_request_timeout_ms s)
         ''RAG_MEILI_CONNECT_TIMEOUT_MS must not exceed RAG_MEILI_REQUEST_TIMEOUT_MS'',
       ensure (minimum_request_timeout_ms c \<le> lc_request_timeout_ms l) (request_timeout_error c),
       ensure (hc_probe_ttl_seconds h \<le> hc_max_stale_seconds h)
         ''RAG_HEALTH_LLM_PROBE_TTL_SECONDS must not exceed RAG_HEALTH_LLM_MAX_STALE_SECONDS'',
       ensure (hc_probe_interval_seconds h = 0 \<or> min_health_llm_probe_interval_seconds \<le> hc_probe_interval_seconds h)
         (''RAG_HEALTH_LLM_PROBE_INTERVAL_SECONDS must be 0 (probe each LLM once at startup) or at least ''
           @ show_nat (unat min_health_llm_probe_interval_seconds) @ '' seconds''),
       ensure (sc_meili_scan_page_size s \<le> max_meili_scan_page_size)
         (''RAG_MEILI_SCAN_PAGE_SIZE must not exceed '' @ show_nat max_meili_scan_page_size),
       ensure (sc_meili_scan_page_size s \<le> sc_meili_scan_max_documents s)
         ''RAG_MEILI_SCAN_PAGE_SIZE must not exceed RAG_MEILI_SCAN_MAX_DOCUMENTS'',
       ensure (max_multipart_body_bytes l \<noteq> None)
         ''multipart upload, metadata, and framing limits exceed the platform size limit''])"

definition permit_limits :: "limit_config \<Rightarrow> (string \<times> nat) list" where
  "permit_limits l =
     [(''RAG_MAX_IN_FLIGHT_REQUESTS'', lc_max_in_flight_requests l),
      (''RAG_INGEST_QUEUE_CAPACITY'', lc_ingest_queue_capacity l),
      (''RAG_INGEST_MAX_CONCURRENT_TASKS'', lc_ingest_max_concurrent_tasks l)]"

definition validate_http_boundaries :: "config_crates \<Rightarrow> int \<Rightarrow> int \<Rightarrow> config \<Rightarrow> string + unit" where
  "validate_http_boundaries crates now instant_max c = checks
     [case cfg_boundary_config_error c of
        Some error \<Rightarrow> Inl (''invalid boundary configuration: '' @ error) | None \<Rightarrow> Inr (),
      checks (map (\<lambda>(name, v). ensure (v \<noteq> 0) (name @ '' must be greater than zero'')) (positive_limits c)),
      checks (map (check_deadline now instant_max) (boundary_deadlines c)),
      check_orderings c,
      checks (map (\<lambda>(name, v). ensure (v \<le> semaphore_max_permits)
        (name @ '' must not exceed '' @ show_nat semaphore_max_permits)) (permit_limits (cfg_limits c))),
      validate_upload_allowed_mime_types crates (lc_upload_allowed_mime_types (cfg_limits c)),
      validate_cors_allowed_origins crates (cfg_run_mode c) (lc_cors_allowed_origins (cfg_limits c))
        (lc_allow_wildcard_cors (cfg_limits c))]"

section \<open>Secrets\<close>

definition development_index_hash_secret :: string where
  "development_index_hash_secret = ''dev-only-secret-change-me''"

definition documented_legacy_index_hash_secret :: string where
  "documented_legacy_index_hash_secret = ''change-me''"

definition rejected_index_hash_secret_placeholder :: string where
  "rejected_index_hash_secret_placeholder = ''replace-with-at-least-32-random-bytes''"

definition strong_index_hash_secret :: "string \<Rightarrow> bool" where
  "strong_index_hash_secret s = (32 \<le> length s \<and> 12 \<le> length (remdups s))"

definition validate_index_hash_secret :: "config \<Rightarrow> string + unit" where
  "validate_index_hash_secret c =
     (let secret = ac_index_hash_secret (cfg_auth c); legacy = cfg_allow_legacy_weak_index_hash_secret c in
      if cfg_run_mode c \<noteq> ''production''
      then ensure (\<not> legacy) ''RAG_ALLOW_LEGACY_WEAK_INDEX_HASH_SECRET is only valid in production''
      else if secret = rejected_index_hash_secret_placeholder
      then Inl ''RAG_INDEX_HASH_SECRET must be randomly generated; the documented placeholder is not a secret''
      else if \<not> strong_index_hash_secret secret \<and> legacy then Inr ()
      else checks
        [ensure (secret \<noteq> development_index_hash_secret \<and> secret \<noteq> documented_legacy_index_hash_secret)
           (''production mode requires a strong RAG_INDEX_HASH_SECRET; an existing weak-key deployment must temporarily set ''
             @ ''RAG_ALLOW_LEGACY_WEAK_INDEX_HASH_SECRET=true until its per-user indexes are migrated''),
         ensure (32 \<le> length secret) ''RAG_INDEX_HASH_SECRET must be at least 32 bytes in production'',
         ensure (12 \<le> length (remdups secret))
           ''RAG_INDEX_HASH_SECRET must contain at least 12 distinct bytes in production'',
         ensure (\<not> legacy)
           ''RAG_ALLOW_LEGACY_WEAK_INDEX_HASH_SECRET is only valid with an existing weak index-HMAC secret''])"

definition validate_codex_auth_file_security :: "config_crates \<Rightarrow> config \<Rightarrow> auth_file_view \<Rightarrow> string + unit" where
  "validate_codex_auth_file_security crates c view =
     (if cfg_run_mode c \<noteq> ''production'' \<or> llc_codex_auth_path (cfg_llm c) = None then Inr ()
      else rbind (load_codex_auth_credentials (kc_from_str crates) c view) (\<lambda>_. Inr ()))"

definition codex_token_to_redact :: "config_crates \<Rightarrow> config \<Rightarrow> auth_file_view \<Rightarrow> string + string option" where
  "codex_token_to_redact crates c view =
     (if cfg_run_mode c = ''production''
      then rbind (load_codex_auth_credentials (kc_from_str crates) c view) (\<lambda>credentials.
             Inr (map_option cc_token credentials))
      else Inr (read_codex_auth_token (kc_from_str crates) (read_to_string view)))"

definition validate_redaction_secret_sources :: "config_crates \<Rightarrow> config \<Rightarrow> auth_file_view \<Rightarrow> string + unit" where
  "validate_redaction_secret_sources crates c view = checks
     ([validate_redaction_secret ''RAG_MEILI_API_KEY'' (sc_meili_api_key (cfg_store c)),
       validate_redaction_secret ''RAG_MEILI_ADMIN_API_KEY'' (sc_meili_admin_api_key (cfg_store c)),
       validate_redaction_secret ''RAG_OPENAI_API_KEY'' (llc_openai_api_key (cfg_llm c)),
       (if valid_utf8 (ac_index_hash_secret (cfg_auth c))
        then validate_redaction_secret ''RAG_INDEX_HASH_SECRET'' (Some (ac_index_hash_secret (cfg_auth c))) else Inr ()),
       (if llc_codex_auth_path (cfg_llm c) = None then Inr ()
        else rbind (codex_token_to_redact crates c view) (validate_redaction_secret ''Codex auth token''))]
      @ map (\<lambda>s. validate_redaction_secret ''RAG_REDACTION_PREVIOUS_SECRETS'' (Some s)) (cfg_previous_redaction_secrets c))"

section \<open>Start-up\<close>

definition validate_run_mode :: "config \<Rightarrow> string + unit" where
  "validate_run_mode c =
     ensure (List.member [''development'', ''test'', ''production''] (cfg_run_mode c))
       ''RAG_RUN_MODE must be development, test, or production''"

definition present_key :: "string option \<Rightarrow> string option" where
  "present_key k = Option.bind k (\<lambda>k. if blank k then None else Some k)"

definition validate_meili_maintenance :: "config_crates \<Rightarrow> config \<Rightarrow> string + unit" where
  "validate_meili_maintenance crates c =
     rbind (validate_run_mode c) (\<lambda>_.
     rbind (ok_or (sc_meili_url (cfg_store c)) ''RAG_MEILI_URL is required for Meilisearch maintenance'') (\<lambda>url.
     rbind (validate_absolute_http_url crates ''RAG_MEILI_URL'' url) (\<lambda>_.
     if cfg_run_mode c \<noteq> ''production'' then Inr ()
     else rbind (ok_or (present_key (sc_meili_admin_api_key (cfg_store c)))
            ''production Meilisearch maintenance requires an explicit non-empty RAG_MEILI_ADMIN_API_KEY'') (\<lambda>admin_key.
          ensure (sc_meili_api_key (cfg_store c) \<noteq> Some admin_key)
            (''RAG_MEILI_API_KEY and RAG_MEILI_ADMIN_API_KEY must be distinct for production Meilisearch maintenance'')))))"

definition index_pins :: "store_config \<Rightarrow> (string \<times> string option) list" where
  "index_pins s =
     [(''RAG_MEILI_OPERATIONS_INDEX_CREATED_AT'', sc_meili_operations_index_created_at s),
      (''RAG_MEILI_AUDIT_INDEX_CREATED_AT'', sc_meili_audit_index_created_at s)]"

definition validate_production_meili :: "store_config \<Rightarrow> string + unit" where
  "validate_production_meili s =
     rbind (ok_or (present_key (sc_meili_api_key s))
       ''production Meilisearch requires a least-privilege RAG_MEILI_API_KEY'') (\<lambda>runtime_key.
     rbind (ok_or (present_key (sc_meili_admin_api_key s))
       ''production Meilisearch requires a separate RAG_MEILI_ADMIN_API_KEY'') (\<lambda>admin_key.
     rbind (ensure (runtime_key \<noteq> admin_key)
       ''RAG_MEILI_API_KEY and RAG_MEILI_ADMIN_API_KEY must be distinct in production'') (\<lambda>_.
     if sc_meili_allow_initial_provision s then Inr ()
     else checks (map (\<lambda>(name, v). ensure (v \<noteq> None)
       (''production Meilisearch requires '' @ name @ '' to pin durable index continuity'')) (index_pins s)))))"

definition validate_pin :: "config_crates \<Rightarrow> string \<times> string option \<Rightarrow> string + unit" where
  "validate_pin crates = (\<lambda>(name, v).
     case v of
       None \<Rightarrow> Inr ()
     | Some v \<Rightarrow> ensure (trim v = v \<and> kc_rfc3339_ok crates v) (name @ '' must be an exact RFC3339 timestamp''))"

definition provider_allowed :: "config \<Rightarrow> string \<Rightarrow> bool" where
  "provider_allowed c provider =
     (List.member [''none'', ''mock'', ''openai_api_key'', ''codex_auth''] provider
      \<or> (cfg_run_mode c = ''test''
         \<and> List.member [''mock_auth_failure'', ''mock_quota_exhausted'', ''mock_rate_limited'', ''mock_server_error'',
             ''mock_timeout''] provider))"

definition validate_store_settings :: "config_crates \<Rightarrow> config \<Rightarrow> string + unit" where
  "validate_store_settings crates c =
     (let s = cfg_store c; production = (cfg_run_mode c = ''production'') in checks
      ([ensure (\<not> (production \<and> sc_write_consistency s = Eventual))
          ''RAG_WRITE_CONSISTENCY=eventual is not allowed in production; use read_your_writes or wait_for_index'',
        ensure (\<not> blank (ac_tenant_id (cfg_auth c)) \<and> length (chars (ac_tenant_id (cfg_auth c))) \<le> 256)
          ''RAG_TENANT_ID must contain between 1 and 256 characters'',
        ensure (List.member [''memory'', ''meili''] (sc_store_backend s)) ''RAG_STORE_BACKEND must be memory or meili'',
        ensure (\<not> (sc_store_backend s = ''meili'' \<and> sc_meili_url s = None))
          ''RAG_STORE_BACKEND=meili requires RAG_MEILI_URL'',
        ensure (\<not> (production \<and> sc_store_backend s = ''memory'' \<and> \<not> sc_allow_ephemeral_production s))
          (''RAG_RUN_MODE=production requires RAG_STORE_BACKEND=meili; ephemeral memory storage requires explicit ''
            @ ''RAG_ALLOW_EPHEMERAL_PRODUCTION=true''),
        (if production \<and> sc_store_backend s = ''meili'' then validate_production_meili s else Inr ())]
       @ map (validate_pin crates) (index_pins s)))"

text \<open>The first override that is no model name.\<close>

definition validate_model_overrides :: "config_crates \<Rightarrow> string list \<Rightarrow> string + unit" where
  "validate_model_overrides crates overrides =
     (case find (\<lambda>m. \<not> valid_model_name m) overrides of
        None \<Rightarrow> Inr ()
      | Some model \<Rightarrow> Inl (''RAG_LLM_MODEL_OVERRIDES entry '' @ kc_debug crates model
          @ '' must be 1-64 characters of letters, digits, '' @ [CHR 0x27] @ ''.'' @ [CHR 0x27] @ '', '' @ [CHR 0x27] @ ''_''
          @ [CHR 0x27] @ '' or '' @ [CHR 0x27] @ ''-'' @ [CHR 0x27]))"

definition validate_provider_settings :: "config_crates \<Rightarrow> config \<Rightarrow> string + unit" where
  "validate_provider_settings crates c =
     (let m = cfg_llm c in checks
      [ensure (provider_allowed c (llc_llm_provider m))
         ''RAG_LLM_PROVIDER must be none, mock, openai_api_key, or codex_auth'',
       ensure (provider_allowed c (llc_analysis_llm_provider m))
         ''RAG_ANALYSIS_LLM_PROVIDER must be none, mock, openai_api_key, or codex_auth'',
       validate_reasoning_effort ''RAG_LLM_REASONING_EFFORT'' (llc_llm_reasoning_effort m),
       validate_reasoning_effort ''RAG_ANALYSIS_LLM_REASONING_EFFORT'' (llc_analysis_llm_reasoning_effort m),
       validate_model_overrides crates (llc_llm_model_overrides m),
       ensure (List.member [''builtin'', ''mineru''] (pc_parser_provider (cfg_parser c)))
         ''RAG_PARSER_PROVIDER must be builtin or mineru'',
       ensure (List.member [''system'', ''direct''] (llc_provider_proxy_mode m))
         ''RAG_PROVIDER_PROXY_MODE must be system or direct'',
       ensure (llc_provider_max_retries m \<le> unat max_upstream_retries)
         (''RAG_PROVIDER_MAX_RETRIES must not exceed '' @ show_nat (unat max_upstream_retries)),
       (case sc_meili_url (cfg_store c) of None \<Rightarrow> Inr () | Some url \<Rightarrow> validate_absolute_http_url crates ''RAG_MEILI_URL'' url),
       validate_absolute_http_url crates ''RAG_MINERU_API_URL'' (pc_mineru_api_url (cfg_parser c)),
       validate_absolute_http_url crates ''RAG_CODEX_BASE_URL'' (llc_codex_base_url m)])"

text \<open>\<open>0.001\<close> and \<open>1.0\<close> as \<open>f32\<close>.\<close>

definition min_vector_match_score :: f32 where "min_vector_match_score = 0x3A83126F"
definition max_vector_match_score :: f32 where "max_vector_match_score = 0x3F800000"

definition validate_vector_settings :: "vector_config \<Rightarrow> string + unit" where
  "validate_vector_settings v = checks
     (map (\<lambda>(name, w). ensure (f32_is_finite w \<and> 0 \<le> f32_scaled w) (name @ '' must be finite and non-negative''))
        [(''RAG_VECTOR_MATCH_WEIGHT'', vc_match_weight v), (''RAG_VECTOR_MATCH_DOC_WEIGHT'', vc_match_doc_weight v)]
      @ [ensure (f32_is_finite (vc_match_min_score v)
            \<and> f32_scaled min_vector_match_score \<le> f32_scaled (vc_match_min_score v)
            \<and> f32_scaled (vc_match_min_score v) \<le> f32_scaled max_vector_match_score)
          ''RAG_VECTOR_MATCH_MIN_SCORE must be finite and between 0.001 and 1''])"

definition validate_startup ::
    "config_crates \<Rightarrow> int \<Rightarrow> int \<Rightarrow> config \<Rightarrow> auth_file_view \<Rightarrow> auth_file_view \<Rightarrow> string + unit" where
  "validate_startup crates now instant_max c view1 view2 = checks
     [validate_run_mode c,
      validate_store_settings crates c,
      validate_provider_settings crates c,
      validate_vector_settings (cfg_vector c),
      validate_http_boundaries crates now instant_max c,
      validate_index_hash_secret c,
      validate_codex_auth_file_security crates c view1,
      validate_auth_configuration (cfg_auth c),
      validate_redaction_secret_sources crates c view2,
      ensure (\<not> (cfg_run_mode c = ''production'' \<and> \<not> has_any_auth (cfg_auth c)
          \<and> \<not> ac_allow_unsafe_unauthenticated (cfg_auth c)))
        (''production mode requires RAG_BEARER_TOKEN, RAG_ADMIN_TOKEN, RAG_AUTH_USERS, or explicit ''
          @ ''RAG_ALLOW_UNSAFE_UNAUTHENTICATED=true'')]"

end
