(* ===== verification/Config_Env.thy ===== *)
theory Config_Env
  imports Config_Startup
begin

text \<open>
  The configuration from the process environment (\<open>Config::from_env\<close>). A variable is absent, text, or not
  Unicode. A number that does not parse falls back to its default and leaves a message; the messages make
  \<open>validate_startup\<close> refuse the configuration. They are listed in the order the code meets them.
\<close>

section \<open>Variables\<close>

datatype env_value = EnvText string | EnvNotUnicode

type_synonym environment = "string \<Rightarrow> env_value option"

text \<open>\<open>std::env::var(name).ok()\<close>, and the same for a number.\<close>

definition env_var :: "environment \<Rightarrow> string \<Rightarrow> string option" where
  "env_var env name = (case env name of Some (EnvText v) \<Rightarrow> Some v | _ \<Rightarrow> None)"

definition env_number :: "(string \<Rightarrow> 'a option) \<Rightarrow> environment \<Rightarrow> string \<Rightarrow> 'a \<Rightarrow> 'a" where
  "env_number parse env name fallback =
     (case env name of Some (EnvText v) \<Rightarrow> unwrap_or (parse v) fallback | _ \<Rightarrow> fallback)"

definition env_number_errors :: "(string \<Rightarrow> 'a option) \<Rightarrow> environment \<Rightarrow> string \<Rightarrow> string list" where
  "env_number_errors parse env name =
     (case env name of
        None \<Rightarrow> []
      | Some EnvNotUnicode \<Rightarrow> [name @ '' must contain valid Unicode digits'']
      | Some (EnvText v) \<Rightarrow> if parse v = None then [name @ '' must be a valid number''] else [])"

definition parse_usize :: "string \<Rightarrow> usize option" where
  "parse_usize s = map_option unat (parse_unsigned s)"

definition parse_u32 :: "string \<Rightarrow> u32 option" where
  "parse_u32 s = Option.bind (parse_unsigned s) (\<lambda>n. if unat n < 2 ^ 32 then Some (ucast n) else None)"

definition parse_u16 :: "string \<Rightarrow> u16 option" where
  "parse_u16 s = Option.bind (parse_unsigned s) (\<lambda>n. if unat n < 2 ^ 16 then Some (ucast n) else None)"

definition truthy :: "string \<Rightarrow> bool" where
  "truthy v = List.member [''1'', ''true'', ''TRUE'', ''yes'', ''YES'', ''on'', ''ON''] v"

definition env_flag :: "environment \<Rightarrow> string \<Rightarrow> bool \<Rightarrow> bool" where
  "env_flag env name fallback = (case env_var env name of Some v \<Rightarrow> truthy v | None \<Rightarrow> fallback)"

section \<open>Defaults\<close>

definition default_upload_allowed_mime_types :: "string list" where
  "default_upload_allowed_mime_types =
     [''text/plain'', ''text/markdown'', ''application/octet-stream'', ''application/pdf'',
      ''application/vnd.openxmlformats-officedocument.wordprocessingml.document'',
      ''application/vnd.openxmlformats-officedocument.presentationml.presentation'',
      ''application/vnd.openxmlformats-officedocument.spreadsheetml.sheet'',
      ''image/png'', ''image/jpeg'', ''image/webp'', ''image/gif'', ''image/tiff'']"

definition default_cors_allowed_origins :: "string \<Rightarrow> string list" where
  "default_cors_allowed_origins run_mode = (if List.member [''development'', ''test''] run_mode then [''*''] else [])"

definition default_allow_unsafe_unauthenticated :: "string \<Rightarrow> bool" where
  "default_allow_unsafe_unauthenticated run_mode = List.member [''development'', ''test''] run_mode"

fun write_consistency_from_str :: "string \<Rightarrow> string + write_consistency" where
  "write_consistency_from_str v =
     (if v = ''eventual'' then Inr Eventual
      else if v = ''read_your_writes'' then Inr ReadYourWrites
      else if v = ''wait_for_index'' then Inr WaitForIndex
      else Inl ''RAG_WRITE_CONSISTENCY must be eventual, read_your_writes, or wait_for_index'')"

definition default_write_consistency :: "string \<Rightarrow> write_consistency" where
  "default_write_consistency run_mode = (if run_mode = ''test'' then WaitForIndex else ReadYourWrites)"

definition resolve_write_consistency :: "string \<Rightarrow> string option \<Rightarrow> string option \<Rightarrow> string + write_consistency" where
  "resolve_write_consistency run_mode configured legacy_wait_for_tasks =
     (case (configured, legacy_wait_for_tasks) of
        (Some _, Some _) \<Rightarrow> Inl ''RAG_WRITE_CONSISTENCY cannot be combined with RAG_MEILI_WAIT_FOR_TASKS''
      | (Some c, None) \<Rightarrow> write_consistency_from_str c
      | (None, Some legacy) \<Rightarrow> Inr (if truthy legacy then WaitForIndex else ReadYourWrites)
      | (None, None) \<Rightarrow> Inr (default_write_consistency run_mode))"

section \<open>The groups\<close>

definition env_run_mode :: "environment \<Rightarrow> string" where
  "env_run_mode env = unwrap_or (env_var env ''RAG_RUN_MODE'') ''development''"

definition env_auth_users :: "environment \<Rightarrow> string + auth_user_config list" where
  "env_auth_users env = (case env_var env ''RAG_AUTH_USERS'' of None \<Rightarrow> Inr [] | Some v \<Rightarrow> parse_auth_users v)"

definition env_bearer_scope :: "environment \<Rightarrow> string + bearer_token_scope option" where
  "env_bearer_scope env =
     (case env_var env ''RAG_BEARER_TOKEN_SCOPE'' of
        None \<Rightarrow> Inr None | Some v \<Rightarrow> rbind (parse_bearer_token_scope v) (\<lambda>scope. Inr (Some scope)))"

definition error_list :: "string + 'a \<Rightarrow> string list" where
  "error_list r = (case r of Inl e \<Rightarrow> [e] | Inr _ \<Rightarrow> [])"

definition or_else :: "string + 'a \<Rightarrow> 'a \<Rightarrow> 'a" where
  "or_else r d = (case r of Inl _ \<Rightarrow> d | Inr a \<Rightarrow> a)"

definition joined_errors :: "string list \<Rightarrow> string option" where
  "joined_errors errors = (if errors = [] then None else Some (join ''; '' errors))"

definition env_auth :: "environment \<Rightarrow> auth_settings" where
  "env_auth env =
     \<lparr>ac_tenant_id = unwrap_or (env_var env ''RAG_TENANT_ID'') ''default'',
      ac_index_hash_secret = unwrap_or (env_var env ''RAG_INDEX_HASH_SECRET'') development_index_hash_secret,
      ac_auth_users = or_else (env_auth_users env) [],
      ac_admin_token = env_var env ''RAG_ADMIN_TOKEN'',
      ac_bearer_token = env_var env ''RAG_BEARER_TOKEN'',
      ac_bearer_token_scope = or_else (env_bearer_scope env) None,
      ac_bearer_token_owner_user_id = env_var env ''RAG_BEARER_TOKEN_OWNER_USER_ID'',
      ac_allow_legacy_tenant_service_bearer = env_flag env ''RAG_ALLOW_LEGACY_TENANT_SERVICE_BEARER'' False,
      ac_allow_legacy_shared_writer = env_flag env ''RAG_ALLOW_LEGACY_SHARED_WRITER'' False,
      ac_allow_unsafe_unauthenticated = env_flag env ''RAG_ALLOW_UNSAFE_UNAUTHENTICATED''
        (default_allow_unsafe_unauthenticated (env_run_mode env)),
      ac_auth_config_error = joined_errors (error_list (env_auth_users env) @ error_list (env_bearer_scope env))\<rparr>"

definition env_write_consistency :: "environment \<Rightarrow> string + write_consistency" where
  "env_write_consistency env =
     resolve_write_consistency (env_run_mode env) (env_var env ''RAG_WRITE_CONSISTENCY'')
       (env_var env ''RAG_MEILI_WAIT_FOR_TASKS'')"

definition env_store :: "environment \<Rightarrow> store_config" where
  "env_store env =
     (let wc = or_else (env_write_consistency env) (default_write_consistency (env_run_mode env)) in
      \<lparr>sc_store_backend = unwrap_or (env_var env ''RAG_STORE_BACKEND'') ''memory'',
       sc_allow_ephemeral_production = env_flag env ''RAG_ALLOW_EPHEMERAL_PRODUCTION'' False,
       sc_meili_url = env_var env ''RAG_MEILI_URL'',
       sc_meili_api_key = env_var env ''RAG_MEILI_API_KEY'',
       sc_meili_admin_api_key = env_var env ''RAG_MEILI_ADMIN_API_KEY'',
       sc_meili_allow_initial_provision = env_flag env ''RAG_MEILI_ALLOW_INITIAL_PROVISION'' (env_run_mode env \<noteq> ''production''),
       sc_meili_operations_index_created_at = env_var env ''RAG_MEILI_OPERATIONS_INDEX_CREATED_AT'',
       sc_meili_audit_index_created_at = env_var env ''RAG_MEILI_AUDIT_INDEX_CREATED_AT'',
       sc_write_consistency = wc,
       sc_meili_wait_for_tasks = (wc = WaitForIndex),
       sc_meili_scan_page_size = env_number parse_usize env ''RAG_MEILI_SCAN_PAGE_SIZE'' 500,
       sc_meili_scan_max_documents = env_number parse_usize env ''RAG_MEILI_SCAN_MAX_DOCUMENTS'' 100000,
       sc_meili_connect_timeout_ms = env_number parse_unsigned env ''RAG_MEILI_CONNECT_TIMEOUT_MS'' 5000,
       sc_meili_request_timeout_ms = env_number parse_unsigned env ''RAG_MEILI_REQUEST_TIMEOUT_MS'' 30000\<rparr>)"

definition env_parser :: "environment \<Rightarrow> parser_config" where
  "env_parser env =
     \<lparr>pc_parser_provider = unwrap_or (env_var env ''RAG_PARSER_PROVIDER'') ''builtin'',
      pc_mineru_api_url = unwrap_or (env_var env ''RAG_MINERU_API_URL'') ''http://127.0.0.1:8000'',
      pc_mineru_backend = unwrap_or (env_var env ''RAG_MINERU_BACKEND'') ''hybrid-auto-engine'',
      pc_mineru_return_md = env_flag env ''RAG_MINERU_RETURN_MD'' True,
      pc_mineru_return_content_list = env_flag env ''RAG_MINERU_RETURN_CONTENT_LIST'' True,
      pc_mineru_return_middle_json = env_flag env ''RAG_MINERU_RETURN_MIDDLE_JSON'' True,
      pc_mineru_return_images = env_flag env ''RAG_MINERU_RETURN_IMAGES'' True,
      pc_parser_timeout_ms = env_number parse_unsigned env ''RAG_PARSER_TIMEOUT_MS'' 120000,
      pc_parser_max_response_bytes = env_number parse_usize env ''RAG_PARSER_MAX_RESPONSE_BYTES'' (64 * 1024 * 1024)\<rparr>"

definition env_concurrent_tasks :: "environment \<Rightarrow> usize" where
  "env_concurrent_tasks env = env_number parse_usize env ''RAG_INGEST_MAX_CONCURRENT_TASKS'' 2"

definition default_ingest_queue_capacity :: "environment \<Rightarrow> usize" where
  "default_ingest_queue_capacity env = unwrap_or (checked_usize (env_concurrent_tasks env * 8)) 16"

definition env_trace_retention_days :: "environment \<Rightarrow> u64" where
  "env_trace_retention_days env =
     (let days = env_number parse_unsigned env ''RAG_TRACE_RETENTION_DAYS'' 30 in if 36500 < days then 30 else days)"

definition env_limits :: "environment \<Rightarrow> limit_config" where
  "env_limits env =
     \<lparr>lc_max_json_bytes = env_number parse_usize env ''RAG_MAX_JSON_BYTES'' (2 * 1024 * 1024),
      lc_max_upload_bytes = env_number parse_usize env ''RAG_MAX_UPLOAD_BYTES'' (50 * 1024 * 1024),
      lc_max_multipart_fields = env_number parse_usize env ''RAG_MAX_MULTIPART_FIELDS'' 32,
      lc_max_bulk_events = env_number parse_usize env ''RAG_MAX_BULK_EVENTS'' 500,
      lc_max_bulk_rows = env_number parse_usize env ''RAG_MAX_BULK_ROWS'' 5000,
      lc_max_search_limit = env_number parse_usize env ''RAG_MAX_SEARCH_LIMIT'' 100,
      lc_max_query_chars = env_number parse_usize env ''RAG_MAX_QUERY_CHARS'' 8192,
      lc_max_tags_per_item = env_number parse_usize env ''RAG_MAX_TAGS_PER_ITEM'' 64,
      lc_max_tag_bytes = env_number parse_usize env ''RAG_MAX_TAG_BYTES'' 128,
      lc_upload_allowed_mime_types = (case env_var env ''RAG_UPLOAD_ALLOWED_MIME_TYPES'' of
        Some v \<Rightarrow> parse_csv_values v | None \<Rightarrow> default_upload_allowed_mime_types),
      lc_request_timeout_ms = env_number parse_unsigned env ''RAG_REQUEST_TIMEOUT_MS'' 90000,
      lc_sync_ingest_timeout_ms = env_number parse_unsigned env ''RAG_SYNC_INGEST_TIMEOUT_MS'' 120000,
      lc_max_in_flight_requests = env_number parse_usize env ''RAG_MAX_IN_FLIGHT_REQUESTS'' 256,
      lc_rate_limit_requests_per_minute = env_number parse_unsigned env ''RAG_RATE_LIMIT_REQUESTS_PER_MINUTE'' 600,
      lc_ingest_queue_capacity = env_number parse_usize env ''RAG_INGEST_QUEUE_CAPACITY'' (default_ingest_queue_capacity env),
      lc_shutdown_timeout_ms = env_number parse_unsigned env ''RAG_SHUTDOWN_TIMEOUT_MS'' 30000,
      lc_cors_allowed_origins = (case env_var env ''RAG_CORS_ALLOWED_ORIGINS'' of
        Some v \<Rightarrow> parse_cors_allowed_origins v | None \<Rightarrow> default_cors_allowed_origins (env_run_mode env)),
      lc_allow_wildcard_cors = env_flag env ''RAG_ALLOW_WILDCARD_CORS'' False,
      lc_ingest_max_concurrent_tasks = env_concurrent_tasks env,
      lc_ingest_task_retention_seconds = unwrap_or (Option.bind (env_var env ''RAG_INGEST_TASK_RETENTION_SECONDS'') parse_unsigned) 86400,
      lc_ingest_cleanup_interval_seconds = unwrap_or (Option.bind (env_var env ''RAG_INGEST_CLEANUP_INTERVAL_SECONDS'') parse_unsigned) 300,
      lc_ingest_worker_enabled = env_flag env ''RAG_INGEST_WORKER_ENABLED'' True,
      lc_trace_retention_days = env_trace_retention_days env\<rparr>"

definition env_llm :: "environment \<Rightarrow> llm_config" where
  "env_llm env =
     \<lparr>llc_provider_connect_timeout_ms = env_number parse_unsigned env ''RAG_PROVIDER_CONNECT_TIMEOUT_MS'' 5000,
      llc_llm_timeout_ms = env_number parse_unsigned env ''RAG_LLM_TIMEOUT_MS'' 60000,
      llc_provider_max_retries = env_number parse_usize env ''RAG_PROVIDER_MAX_RETRIES'' 2,
      llc_provider_proxy_mode = unwrap_or (env_var env ''RAG_PROVIDER_PROXY_MODE'') ''system'',
      llc_llm_max_input_chars = env_number parse_usize env ''RAG_LLM_MAX_INPUT_CHARS'' 65536,
      llc_llm_max_output_tokens = env_number parse_u32 env ''RAG_LLM_MAX_OUTPUT_TOKENS'' 2048,
      llc_llm_max_response_bytes = env_number parse_usize env ''RAG_LLM_MAX_RESPONSE_BYTES'' (2 * 1024 * 1024),
      llc_rate_limit_requests_per_minute = env_number parse_unsigned env ''RAG_LLM_RATE_LIMIT_REQUESTS_PER_MINUTE'' 30,
      llc_rate_limit_tokens_per_minute = env_number parse_unsigned env ''RAG_LLM_RATE_LIMIT_TOKENS_PER_MINUTE'' 100000,
      llc_llm_provider = unwrap_or (env_var env ''RAG_LLM_PROVIDER'') ''none'',
      llc_llm_model = env_var env ''RAG_LLM_MODEL'',
      llc_llm_reasoning_effort = env_var env ''RAG_LLM_REASONING_EFFORT'',
      llc_llm_model_overrides = parse_model_overrides (unwrap_or (env_var env ''RAG_LLM_MODEL_OVERRIDES'') []),
      llc_analysis_llm_provider = unwrap_or (option_or (env_var env ''RAG_ANALYSIS_LLM_PROVIDER'') (env_var env ''RAG_LLM_PROVIDER'')) ''none'',
      llc_analysis_llm_model = option_or (env_var env ''RAG_ANALYSIS_LLM_MODEL'') (env_var env ''RAG_LLM_MODEL''),
      llc_analysis_llm_reasoning_effort =
        option_or (env_var env ''RAG_ANALYSIS_LLM_REASONING_EFFORT'') (env_var env ''RAG_LLM_REASONING_EFFORT''),
      llc_openai_api_key = option_or (env_var env ''RAG_OPENAI_API_KEY'') (env_var env ''OPENAI_API_KEY''),
      llc_codex_auth_path = option_or (env_var env ''RAG_CODEX_AUTH_PATH'') (env_var env ''CODEX_AUTH_PATH''),
      llc_codex_base_url = unwrap_or (option_or (env_var env ''RAG_CODEX_BASE_URL'') (env_var env ''OPENVIKING_CODEX_BASE_URL''))
        ''https://chatgpt.com/backend-api/codex''\<rparr>"

definition env_health :: "environment \<Rightarrow> health_config" where
  "env_health env =
     \<lparr>hc_llm_enabled = env_flag env ''RAG_HEALTH_LLM_ENABLED'' True,
      hc_probe_interval_seconds = env_number parse_unsigned env ''RAG_HEALTH_LLM_PROBE_INTERVAL_SECONDS'' 0,
      hc_probe_ttl_seconds = env_number parse_unsigned env ''RAG_HEALTH_LLM_PROBE_TTL_SECONDS'' 60,
      hc_max_stale_seconds = env_number parse_unsigned env ''RAG_HEALTH_LLM_MAX_STALE_SECONDS'' 120,
      hc_timeout_ms = env_number parse_unsigned env ''RAG_HEALTH_LLM_TIMEOUT_MS'' 10000,
      hc_require_llm = env_flag env ''RAG_HEALTH_REQUIRE_LLM'' True,
      hc_failure_threshold = env_number parse_u32 env ''RAG_HEALTH_LLM_FAILURE_THRESHOLD'' 3,
      hc_rate_limit_unhealthy = env_flag env ''RAG_HEALTH_LLM_RATE_LIMIT_UNHEALTHY'' False\<rparr>"

definition env_vector :: "environment \<Rightarrow> vector_config" where
  "env_vector env =
     \<lparr>vc_match_enabled = env_flag env ''RAG_VECTOR_MATCH_ENABLED'' True,
      vc_match_weight = env_number parse_f32 env ''RAG_VECTOR_MATCH_WEIGHT'' 0x40800000,
      vc_match_doc_weight = env_number parse_f32 env ''RAG_VECTOR_MATCH_DOC_WEIGHT'' 0x40000000,
      vc_match_min_score = env_number parse_f32 env ''RAG_VECTOR_MATCH_MIN_SCORE'' 0x3E800000\<rparr>"

section \<open>The messages\<close>

definition usize_errors :: "environment \<Rightarrow> string list \<Rightarrow> string list" where
  "usize_errors env names = concat (map (env_number_errors parse_usize env) names)"

definition u64_errors :: "environment \<Rightarrow> string list \<Rightarrow> string list" where
  "u64_errors env names = concat (map (env_number_errors parse_unsigned env) names)"

definition boundary_errors :: "environment \<Rightarrow> string list" where
  "boundary_errors env =
     usize_errors env [''RAG_INGEST_MAX_CONCURRENT_TASKS'']
     @ (if checked_usize (env_concurrent_tasks env * 8) = None
        then [''RAG_INGEST_MAX_CONCURRENT_TASKS is too large to derive RAG_INGEST_QUEUE_CAPACITY''] else [])
     @ usize_errors env [''RAG_MAX_JSON_BYTES'', ''RAG_MAX_UPLOAD_BYTES'']
     @ error_list (env_write_consistency env)
     @ usize_errors env [''RAG_MEILI_SCAN_PAGE_SIZE'', ''RAG_MEILI_SCAN_MAX_DOCUMENTS'']
     @ u64_errors env [''RAG_MEILI_CONNECT_TIMEOUT_MS'', ''RAG_MEILI_REQUEST_TIMEOUT_MS'']
     @ usize_errors env [''RAG_MAX_MULTIPART_FIELDS'', ''RAG_MAX_BULK_EVENTS'', ''RAG_MAX_BULK_ROWS'',
         ''RAG_MAX_SEARCH_LIMIT'', ''RAG_MAX_QUERY_CHARS'', ''RAG_MAX_TAGS_PER_ITEM'', ''RAG_MAX_TAG_BYTES'']
     @ u64_errors env [''RAG_REQUEST_TIMEOUT_MS'', ''RAG_SYNC_INGEST_TIMEOUT_MS'']
     @ usize_errors env [''RAG_MAX_IN_FLIGHT_REQUESTS'']
     @ u64_errors env [''RAG_RATE_LIMIT_REQUESTS_PER_MINUTE'']
     @ usize_errors env [''RAG_INGEST_QUEUE_CAPACITY'']
     @ u64_errors env [''RAG_SHUTDOWN_TIMEOUT_MS'', ''RAG_PROVIDER_CONNECT_TIMEOUT_MS'', ''RAG_LLM_TIMEOUT_MS'',
         ''RAG_PARSER_TIMEOUT_MS'']
     @ usize_errors env [''RAG_PROVIDER_MAX_RETRIES'', ''RAG_LLM_MAX_INPUT_CHARS'']
     @ env_number_errors parse_u32 env ''RAG_LLM_MAX_OUTPUT_TOKENS''
     @ usize_errors env [''RAG_LLM_MAX_RESPONSE_BYTES'', ''RAG_PARSER_MAX_RESPONSE_BYTES'']
     @ u64_errors env [''RAG_LLM_RATE_LIMIT_REQUESTS_PER_MINUTE'', ''RAG_LLM_RATE_LIMIT_TOKENS_PER_MINUTE'',
         ''RAG_TRACE_RETENTION_DAYS'']
     @ (if 36500 < env_number parse_unsigned env ''RAG_TRACE_RETENTION_DAYS'' 30
        then [''RAG_TRACE_RETENTION_DAYS must be at most 36500''] else [])
     @ u64_errors env [''RAG_HEALTH_LLM_PROBE_INTERVAL_SECONDS'', ''RAG_HEALTH_LLM_PROBE_TTL_SECONDS'',
         ''RAG_HEALTH_LLM_MAX_STALE_SECONDS'', ''RAG_HEALTH_LLM_TIMEOUT_MS'']
     @ env_number_errors parse_u32 env ''RAG_HEALTH_LLM_FAILURE_THRESHOLD''
     @ concat (map (env_number_errors parse_f32 env)
         [''RAG_VECTOR_MATCH_WEIGHT'', ''RAG_VECTOR_MATCH_DOC_WEIGHT'', ''RAG_VECTOR_MATCH_MIN_SCORE''])"

section \<open>The configuration\<close>

definition config_fields :: "environment \<Rightarrow> config" where
  "config_fields env =
     \<lparr>cfg_host = unwrap_or (env_var env ''RAG_HOST'') ''127.0.0.1'',
      cfg_port = unwrap_or (Option.bind (env_var env ''RAG_PORT'') parse_u16) 14242,
      cfg_run_mode = env_run_mode env,
      cfg_auth = env_auth env,
      cfg_allow_legacy_weak_index_hash_secret = env_flag env ''RAG_ALLOW_LEGACY_WEAK_INDEX_HASH_SECRET'' False,
      cfg_store = env_store env, cfg_parser = env_parser env, cfg_limits = env_limits env, cfg_llm = env_llm env,
      cfg_health = env_health env, cfg_vector = env_vector env,
      cfg_boundary_config_error = joined_errors (boundary_errors env),
      cfg_previous_redaction_secrets = (case env_var env ''RAG_REDACTION_PREVIOUS_SECRETS'' of
        Some v \<Rightarrow> parse_previous_redaction_secrets v | None \<Rightarrow> []),
      cfg_inventory = \<lparr>csi_history = [], csi_active_credentials = None\<rparr>,
      cfg_refresh = \<lparr>csr_last_refresh = None, csr_in_progress = False\<rparr>\<rparr>"

definition config_from_env :: "(string \<Rightarrow> json option) \<Rightarrow> environment \<Rightarrow> int \<Rightarrow> auth_file_view \<Rightarrow> config" where
  "config_from_env parse env now view = observe_codex_auth_token parse (config_fields env) True now view"

section \<open>Malformed settings\<close>

lemma joined_errors_None: "joined_errors errors = None \<longleftrightarrow> errors = []"
  by (simp add: joined_errors_def)

lemma publish_keeps:
  "cfg_boundary_config_error (publish_loaded c loaded) = cfg_boundary_config_error c"
  "cfg_auth (publish_loaded c loaded) = cfg_auth c"
  by (simp_all add: publish_loaded_def publish_codex_credentials_def Let_def split: sum.split option.split)

lemma claim_refresh_keeps:
  assumes "claim_refresh c force now = Some c'"
  shows "cfg_boundary_config_error c' = cfg_boundary_config_error c" "cfg_auth c' = cfg_auth c"
  using assms by (auto simp: claim_refresh_def Let_def split: if_splits)

lemma observe_keeps:
  "cfg_boundary_config_error (observe_codex_auth_token parse c force now view) = cfg_boundary_config_error c"
  "cfg_auth (observe_codex_auth_token parse c force now view) = cfg_auth c"
  by (simp_all add: observe_codex_auth_token_def finish_refresh_def publish_keeps claim_refresh_keeps split: option.split)

lemma from_env_inventory: "inventory_ok (cfg_inventory (config_from_env parse env now view))"
proof -
  have "inventory_ok (cfg_inventory (config_fields env))" by (simp add: config_fields_def inventory_ok_def)
  then show ?thesis
    using inventory_run_keeps [OF observe_is_run [where self = "config_fields env"]] by (simp add: config_from_env_def)
qed

text \<open>A message of either kind is refused at start-up.\<close>

lemma startup_needs_clean_environment:
  assumes "validate_startup crates now' instant_max (config_from_env parse env now view) view1 view2 = Inr ()"
  shows "boundary_errors env = []" and "error_list (env_auth_users env) = []" and "error_list (env_bearer_scope env) = []"
proof -
  let ?c = "config_from_env parse env now view"
  have "validate_http_boundaries crates now' instant_max ?c = Inr ()" "validate_auth_configuration (cfg_auth ?c) = Inr ()"
    using assms by (simp_all add: validate_startup_def checks_Inr)
  then have "cfg_boundary_config_error ?c = None" "ac_auth_config_error (cfg_auth ?c) = None"
    by (auto simp: validate_http_boundaries_def validate_auth_configuration_def checks_Inr split: option.splits)
  then have "joined_errors (boundary_errors env) = None"
    "joined_errors (error_list (env_auth_users env) @ error_list (env_bearer_scope env)) = None"
    by (simp_all add: config_from_env_def observe_keeps config_fields_def env_auth_def)
  then show "boundary_errors env = []" "error_list (env_auth_users env) = []" "error_list (env_bearer_scope env) = []"
    by (simp_all add: joined_errors_None)
qed

end
