(* ===== verification/Config_Facts.thy ===== *)
theory Config_Facts
  imports Config_Env
begin

text \<open>
  What an accepted configuration guarantees to the parts that run on it: every configured token
  authenticates, every secret is long enough for the redaction to search for it, the upstream policies are
  valid and not truncated, the deadlines are nested; and a parsed user list passes the checks.
\<close>

section \<open>The checks\<close>

lemma startup_parts:
  assumes "validate_startup crates now instant_max c view1 view2 = Inr ()"
  shows "validate_run_mode c = Inr ()" "validate_store_settings crates c = Inr ()" "validate_provider_settings crates c = Inr ()"
    "validate_vector_settings (cfg_vector c) = Inr ()" "validate_http_boundaries crates now instant_max c = Inr ()"
    "validate_index_hash_secret c = Inr ()" "validate_auth_configuration (cfg_auth c) = Inr ()"
    "validate_redaction_secret_sources crates c view2 = Inr ()"
    "cfg_run_mode c = ''production'' \<Longrightarrow> has_any_auth (cfg_auth c) \<or> ac_allow_unsafe_unauthenticated (cfg_auth c)"
  using assms by (auto simp: validate_startup_def checks_Inr ensure_Inr)

lemma boundary_parts:
  assumes "validate_http_boundaries crates now instant_max c = Inr ()"
  shows "(name, v) \<in> set (positive_limits c) \<Longrightarrow> v \<noteq> 0"
    and "(name, v) \<in> set (boundary_deadlines c) \<Longrightarrow> v \<le> max_boundary_deadline_ms \<and> now + int v * 1000000 \<le> instant_max"
    and "check_orderings c = Inr ()"
  using assms by (auto simp: validate_http_boundaries_def check_deadline_def checks_Inr ensure_Inr)

section \<open>Unique lists\<close>

lemma unique_fold:
  "rfold (unique_step check duplicate) seen xs = Inr seen' \<Longrightarrow>
     distinct xs \<and> set xs \<inter> seen = {} \<and> list_all (\<lambda>x. check x = Inr ()) xs"
proof (induction xs arbitrary: seen)
  case (Cons x xs)
  then obtain s where "unique_step check duplicate seen x = Inr s" and r: "rfold (unique_step check duplicate) s xs = Inr seen'"
    by (auto simp only: rfold_Cons_Inr)
  then have "check x = Inr ()" "x \<notin> seen" "s = insert x seen"
    by (auto simp: unique_step_def rbind_Inr split: if_splits)
  with Cons.IH [OF r] show ?case by auto
qed simp

lemma unique_fold_iff:
  "(\<exists>seen'. rfold (unique_step check duplicate) seen xs = Inr seen') \<longleftrightarrow>
     distinct xs \<and> set xs \<inter> seen = {} \<and> list_all (\<lambda>x. check x = Inr ()) xs"
proof
  show "distinct xs \<and> set xs \<inter> seen = {} \<and> list_all (\<lambda>x. check x = Inr ()) xs \<Longrightarrow>
      \<exists>seen'. rfold (unique_step check duplicate) seen xs = Inr seen'"
    by (induction xs arbitrary: seen) (auto simp: unique_step_def)
qed (auto dest: unique_fold)

section \<open>Authentication\<close>

lemma check_auth_users_tokens:
  "check_auth_users n seen users = Inr seen' \<Longrightarrow>
     seen' = seen \<union> au_token ` set users \<and> distinct (map au_token users) \<and> au_token ` set users \<inter> seen = {}
     \<and> list_all (\<lambda>u. min_auth_credential_chars \<le> length (chars (au_token u))) users"
proof (induction users arbitrary: n seen)
  case (Cons u users)
  then obtain "check_auth_user n u seen = Inr ()" and r: "check_auth_users (n + 1) (insert (au_token u) seen) users = Inr seen'"
    by (auto simp: rbind_Inr)
  then have "au_token u \<notin> seen" "min_auth_credential_chars \<le> length (chars (au_token u))"
    by (auto simp: check_auth_user_def validate_secret_def checks_Inr ensure_Inr)
  with Cons.IH [OF r] show ?case by auto
qed simp

lemma claim_credential_Inr:
  "claim_credential name seen token = Inr seen' \<Longrightarrow>
     seen' = seen \<union> set_option token \<and> set_option token \<inter> seen = {}
     \<and> (\<forall>t. token = Some t \<longrightarrow> min_auth_credential_chars \<le> length (chars t))"
  by (auto simp: claim_credential_def validate_secret_def rbind_Inr checks_Inr ensure_Inr split: option.splits if_splits)

lemma configured_user_tokens:
  "map fst (map (\<lambda>(position, user). (au_token user, CredAuthUser position)) (zip [n..<n + length us] us)) = map au_token us"
  by (rule nth_equalityI) simp_all

lemma configured_tokens:
  "map fst (configured_credentials c) = map au_token (ac_auth_users c) @ option_list (ac_admin_token c) @ option_list (ac_bearer_token c)"
  using configured_user_tokens [of 0 "ac_auth_users c"]
  by (cases "ac_admin_token c"; cases "ac_bearer_token c") (simp_all add: configured_credentials_def option_list_def)

lemma accepted_tokens:
  assumes "validate_auth_configuration c = Inr ()"
  shows "distinct (map fst (configured_credentials c))"
    and "list_all (\<lambda>t. min_auth_credential_chars \<le> length (chars t)) (map fst (configured_credentials c))"
proof -
  obtain s1 s2 s3 where "check_auth_users 0 {} (ac_auth_users c) = Inr s1"
    "claim_credential ''RAG_ADMIN_TOKEN'' s1 (ac_admin_token c) = Inr s2"
    "claim_credential ''RAG_BEARER_TOKEN'' s2 (ac_bearer_token c) = Inr s3"
    using assms by (auto simp: validate_auth_configuration_def rbind_Inr split: option.splits)
  note u = check_auth_users_tokens [OF this(1)] and a = claim_credential_Inr [OF this(2)] and b = claim_credential_Inr [OF this(3)]
  show "distinct (map fst (configured_credentials c))"
    unfolding configured_tokens using u a b by (auto simp: option_list_def split: option.splits)
  show "list_all (\<lambda>t. min_auth_credential_chars \<le> length (chars t)) (map fst (configured_credentials c))"
    unfolding configured_tokens using u a b by (auto simp: option_list_def list_all_iff split: option.splits)
qed

lemma distinct_filter_key:
  assumes "distinct (map fst cs)" and "(k, v) \<in> set cs"
  shows "filter (\<lambda>c. fst c = k) cs = [(k, v)]"
proof -
  obtain a b where ab: "cs = a @ (k, v) # b" using split_list [OF assms(2)] by blast
  then have "\<forall>c\<in>set a \<union> set b. fst c \<noteq> k" using assms(1) by force
  then show ?thesis using ab by (auto simp: filter_empty_conv)
qed

lemma accepted_bearer_principal:
  assumes "validate_auth_configuration c = Inr ()" and "ac_bearer_token c = Some t"
  shows "\<exists>p. bearer_token_principal c = Inr p"
  using assms
  by (auto simp: validate_auth_configuration_def validate_bearer_scope_def bearer_token_principal_def rbind_Inr Let_def
      checks_Inr ensure_Inr split: option.splits bearer_token_scope.splits if_splits)

lemma accepted_principal:
  assumes "validate_auth_configuration c = Inr ()" and "(t, cr) \<in> set (configured_credentials c)"
  shows "\<exists>p. credential_principal c cr = Inr p"
  using assms(2) accepted_bearer_principal [OF assms(1)]
  by (cases "ac_admin_token c"; cases "ac_bearer_token c") (auto simp: configured_credentials_def set_zip)

section \<open>Secrets\<close>

lemma validated_redaction_secret:
  "validate_redaction_secret name (Some s) = Inr () \<Longrightarrow> min_redaction_secret_chars \<le> length (chars s)"
  by (auto simp: validate_redaction_secret_def checks_Inr ensure_Inr)

lemma accepted_secret_length:
  assumes "validate_auth_configuration (cfg_auth c) = Inr ()" and "validate_redaction_secret_sources crates c view = Inr ()"
    and "inventory_ok (cfg_inventory c)" and "s \<in> set (configured_secret_values c)"
  shows "min_redaction_secret_chars \<le> length (chars s)"
proof -
  have tokens: "min_redaction_secret_chars \<le> length (chars t)" if "t \<in> set (map fst (configured_credentials (cfg_auth c)))" for t
  proof -
    have "min_auth_credential_chars \<le> length (chars t)" using accepted_tokens(2) [OF assms(1)] that by (auto simp: list_all_iff)
    then show ?thesis by (simp add: min_auth_credential_chars_def min_redaction_secret_chars_def)
  qed
  have auth: "set (option_list (ac_bearer_token (cfg_auth c))) \<union> set (option_list (ac_admin_token (cfg_auth c)))
      \<union> au_token ` set (ac_auth_users (cfg_auth c)) = set (map fst (configured_credentials (cfg_auth c)))"
    unfolding configured_tokens by auto
  have sources: "validate_redaction_secret ''RAG_MEILI_API_KEY'' (sc_meili_api_key (cfg_store c)) = Inr ()"
    "validate_redaction_secret ''RAG_MEILI_ADMIN_API_KEY'' (sc_meili_admin_api_key (cfg_store c)) = Inr ()"
    "validate_redaction_secret ''RAG_OPENAI_API_KEY'' (llc_openai_api_key (cfg_llm c)) = Inr ()"
    "valid_utf8 (ac_index_hash_secret (cfg_auth c)) \<Longrightarrow>
       validate_redaction_secret ''RAG_INDEX_HASH_SECRET'' (Some (ac_index_hash_secret (cfg_auth c))) = Inr ()"
    "\<And>s. s \<in> set (cfg_previous_redaction_secrets c) \<Longrightarrow>
       validate_redaction_secret ''RAG_REDACTION_PREVIOUS_SECRETS'' (Some s) = Inr ()"
    using assms(2) by (auto simp: validate_redaction_secret_sources_def checks_Inr split: if_splits)
  have history: "t \<in> set (csi_history (cfg_inventory c)) \<Longrightarrow> min_redaction_secret_chars \<le> length (chars t)" for t
    using assms(3) by (auto simp: inventory_ok_def list_all_iff)
  consider "s \<in> set (map fst (configured_credentials (cfg_auth c)))"
    | "sc_meili_api_key (cfg_store c) = Some s" | "sc_meili_admin_api_key (cfg_store c) = Some s"
    | "llc_openai_api_key (cfg_llm c) = Some s"
    | "valid_utf8 (ac_index_hash_secret (cfg_auth c))" "s = ac_index_hash_secret (cfg_auth c)"
    | "s \<in> set (cfg_previous_redaction_secrets c)" | "s \<in> set (csi_history (cfg_inventory c))"
    using assms(4) unfolding configured_secret_values_def configured_secret_values_with_history_def auth [symmetric]
    by (auto simp: option_list_def split: option.splits if_splits)
  then show ?thesis
  proof cases
    case 1 then show ?thesis by (rule tokens)
  next
    case 2 then show ?thesis using validated_redaction_secret sources(1) by simp
  next
    case 3 then show ?thesis using validated_redaction_secret sources(2) by simp
  next
    case 4 then show ?thesis using validated_redaction_secret sources(3) by simp
  next
    case 5 then show ?thesis using validated_redaction_secret [OF sources(4)] by simp
  next
    case 6 then show ?thesis using validated_redaction_secret [OF sources(5)] by simp
  next
    case 7 then show ?thesis by (rule history)
  qed
qed

section \<open>An accepted configuration\<close>

definition sample_environment :: environment where
  "sample_environment =
     [''RAG_RUN_MODE'' \<mapsto> EnvText ''production'', ''RAG_STORE_BACKEND'' \<mapsto> EnvText ''memory'',
      ''RAG_ALLOW_EPHEMERAL_PRODUCTION'' \<mapsto> EnvText ''true'',
      ''RAG_ADMIN_TOKEN'' \<mapsto> EnvText ''admin-token'', ''RAG_AUTH_USERS'' \<mapsto> EnvText ''ada:ada-token,*:svc-token:reader'',
      ''RAG_INDEX_HASH_SECRET'' \<mapsto> EnvText ''0123456789abcdefghijklmnopqrstuv'',
      ''RAG_LLM_PROVIDER'' \<mapsto> EnvText ''openai_api_key'', ''RAG_OPENAI_API_KEY'' \<mapsto> EnvText ''sk-1234'']"

definition sample_view :: auth_file_view where
  "sample_view = \<lparr>fv_before = None, fv_opens = False, fv_opened = None, fv_after = None, fv_bytes = None\<rparr>"

definition sample_config_crates :: config_crates where
  "sample_config_crates =
     \<lparr>kc_url = (\<lambda>u. Some (''http'', True)), kc_rfc3339_ok = (\<lambda>_. True), kc_mime_ok = (\<lambda>_. True), kc_uri = (\<lambda>_. None),
      kc_header_value_ok = (\<lambda>_. True), kc_from_str = (\<lambda>_. None), kc_debug = id\<rparr>"

definition sample_config :: config where
  "sample_config = config_from_env (\<lambda>_. None) sample_environment 0 sample_view"

lemma sample_config_fields: "sample_config = config_fields sample_environment"
  by (simp add: sample_config_def config_from_env_def observe_codex_auth_token_def config_fields_def env_llm_def
      env_var_def sample_environment_def option_or_def)

lemma sample_users:
  "parse_auth_users ''ada:ada-token,*:svc-token:reader'' =
     Inr [\<lparr>au_token = ''ada-token'', au_scope = UserOwner ''ada'', au_roles = [''user'']\<rparr>,
          \<lparr>au_token = ''svc-token'', au_scope = UserTenantService, au_roles = [''reader'']\<rparr>]"
  by code_simp

lemmas env_simps = truthy_def sample_environment_def env_var_def env_number_def env_flag_def unwrap_or_def option_or_def env_run_mode_def

lemma sample_auth_group:
  "cfg_auth sample_config =
     \<lparr>ac_tenant_id = ''default'', ac_index_hash_secret = ''0123456789abcdefghijklmnopqrstuv'',
      ac_auth_users = [\<lparr>au_token = ''ada-token'', au_scope = UserOwner ''ada'', au_roles = [''user'']\<rparr>,
          \<lparr>au_token = ''svc-token'', au_scope = UserTenantService, au_roles = [''reader'']\<rparr>],
      ac_admin_token = Some ''admin-token'', ac_bearer_token = None, ac_bearer_token_scope = None,
      ac_bearer_token_owner_user_id = None, ac_allow_legacy_tenant_service_bearer = False,
      ac_allow_legacy_shared_writer = False, ac_allow_unsafe_unauthenticated = False, ac_auth_config_error = None\<rparr>"
  by (simp add: sample_config_fields config_fields_def env_auth_def env_simps env_auth_users_def sample_users
      env_bearer_scope_def or_else_def error_list_def joined_errors_def default_allow_unsafe_unauthenticated_def)

lemma sample_auth_ok: "validate_auth_configuration (cfg_auth sample_config) = Inr ()"
  unfolding sample_auth_group by code_simp

lemma unset_number: "env name = None \<Longrightarrow> env_number_errors parse env name = []"
  by (simp add: env_number_errors_def)

lemma unset_numbers:
  "list_all (\<lambda>n. env n = None) names \<Longrightarrow> usize_errors env names = []"
  "list_all (\<lambda>n. env n = None) names \<Longrightarrow> u64_errors env names = []"
  "list_all (\<lambda>n. env n = None) names \<Longrightarrow> concat (map (env_number_errors parse env) names) = []"
  by (auto simp: usize_errors_def u64_errors_def list_all_iff unset_number)

lemma sample_unset:
  "\<not> List.member [''RAG_RUN_MODE'', ''RAG_STORE_BACKEND'', ''RAG_ALLOW_EPHEMERAL_PRODUCTION'', ''RAG_ADMIN_TOKEN'',
     ''RAG_AUTH_USERS'', ''RAG_INDEX_HASH_SECRET'', ''RAG_LLM_PROVIDER'', ''RAG_OPENAI_API_KEY''] name \<Longrightarrow>
   sample_environment name = None"
  by (simp add: sample_environment_def)

lemma sample_boundary_errors: "boundary_errors sample_environment = []"
proof -
  have "env_concurrent_tasks sample_environment = 2"
    by (simp add: env_concurrent_tasks_def env_simps)
  then have "checked_usize (env_concurrent_tasks sample_environment * 8) \<noteq> None" by (simp add: checked_usize_def)
  moreover have "error_list (env_write_consistency sample_environment) = []"
    by (simp add: env_write_consistency_def env_simps resolve_write_consistency_def error_list_def)
  moreover have "env_number parse_unsigned sample_environment ''RAG_TRACE_RETENTION_DAYS'' 30 = 30"
    by (simp add: env_simps)
  ultimately show ?thesis
    unfolding boundary_errors_def by (simp add: unset_numbers unset_number sample_unset)
qed

lemma sample_groups:
  "cfg_run_mode sample_config = ''production''" "cfg_allow_legacy_weak_index_hash_secret sample_config = False"
  "cfg_boundary_config_error sample_config = None" "cfg_previous_redaction_secrets sample_config = []"
  "cfg_inventory sample_config = \<lparr>csi_history = [], csi_active_credentials = None\<rparr>"
  "cfg_store sample_config = env_store sample_environment" "cfg_parser sample_config = env_parser sample_environment"
  "cfg_limits sample_config = env_limits sample_environment" "cfg_llm sample_config = env_llm sample_environment"
  "cfg_health sample_config = env_health sample_environment" "cfg_vector sample_config = env_vector sample_environment"
  by (simp_all add: sample_config_fields config_fields_def sample_boundary_errors joined_errors_def)
    (simp_all add: env_simps)

lemma sample_store_ok: "validate_store_settings sample_config_crates sample_config = Inr ()"
proof -
  have "\<not> blank ''default''" "length (chars ''default'') \<le> 256" by code_simp+
  then show ?thesis
    by (simp add: validate_store_settings_def checks_Inr ensure_Inr sample_groups sample_auth_group env_store_def env_simps
        or_else_def env_write_consistency_def resolve_write_consistency_def default_write_consistency_def index_pins_def
        validate_pin_def Let_def)
qed

lemma sample_provider_ok: "validate_provider_settings sample_config_crates sample_config = Inr ()"
proof -
  have "parse_model_overrides [] = []" by code_simp
  then show ?thesis
    by (simp add: validate_provider_settings_def checks_Inr ensure_Inr sample_groups env_llm_def env_store_def env_parser_def
        env_simps provider_allowed_def validate_reasoning_effort_def validate_model_overrides_def
        validate_absolute_http_url_def sample_config_crates_def max_upstream_retries_def Let_def)
qed

lemma sample_vector_ok: "validate_vector_settings (cfg_vector sample_config) = Inr ()"
  by (simp add: validate_vector_settings_def checks_Inr ensure_Inr sample_groups env_vector_def env_simps f32_is_finite_def
      f32_scaled_def min_vector_match_score_def max_vector_match_score_def Let_def)

lemma sample_mime_ok:
  "validate_upload_allowed_mime_types sample_config_crates default_upload_allowed_mime_types = Inr ()"
  by code_simp

lemma sample_boundaries_ok: "validate_http_boundaries sample_config_crates 0 (10 ^ 18) sample_config = Inr ()"
proof -
  have "list_all (\<lambda>(name, v). v \<noteq> 0) (positive_limits sample_config)"
    by (simp add: positive_limits_def sample_groups env_limits_def env_store_def env_parser_def env_llm_def env_health_def
        env_simps env_concurrent_tasks_def default_ingest_queue_capacity_def checked_usize_def Let_def)
  moreover have "list_all (\<lambda>x. check_deadline 0 (10 ^ 18) x = Inr ()) (boundary_deadlines sample_config)"
    by (simp add: boundary_deadlines_def check_deadline_def checks_Inr ensure_Inr sample_groups env_limits_def env_store_def
        env_parser_def env_llm_def env_health_def env_simps max_boundary_deadline_ms_def Let_def)
  moreover have "check_orderings sample_config = Inr ()"
    by (simp add: check_orderings_def checks_Inr ensure_Inr sample_groups env_limits_def env_store_def
        env_parser_def env_llm_def env_health_def env_simps minimum_request_timeout_ms_def meili_task_wait_ms_def
        request_timeout_dependency_headroom_ms_def max_meili_scan_page_size_def max_multipart_body_bytes_def
        multipart_framing_allowance_per_field_bytes_def checked_usize_def sat_add_def Let_def)
  moreover have "list_all (\<lambda>(name, v). v \<le> semaphore_max_permits) (permit_limits (cfg_limits sample_config))"
    by (simp add: permit_limits_def semaphore_max_permits_def sample_groups env_limits_def env_simps env_concurrent_tasks_def
        default_ingest_queue_capacity_def checked_usize_def)
  moreover have "lc_upload_allowed_mime_types (cfg_limits sample_config) = default_upload_allowed_mime_types"
    "lc_cors_allowed_origins (cfg_limits sample_config) = []"
    by (simp_all add: sample_groups env_limits_def env_simps default_cors_allowed_origins_def)
  ultimately show ?thesis
    by (auto simp: validate_http_boundaries_def checks_Inr ensure_Inr sample_groups(1,3) sample_mime_ok
        validate_cors_allowed_origins_def list_all_iff)
qed

lemma sample_secret_ok: "validate_index_hash_secret sample_config = Inr ()"
proof -
  have "strong_index_hash_secret ''0123456789abcdefghijklmnopqrstuv''" by code_simp
  then show ?thesis
    by (simp add: validate_index_hash_secret_def sample_groups sample_auth_group checks_Inr ensure_Inr Let_def
        rejected_index_hash_secret_placeholder_def development_index_hash_secret_def
        documented_legacy_index_hash_secret_def strong_index_hash_secret_def)
qed

lemma sample_sources_ok: "validate_redaction_secret_sources sample_config_crates sample_config view = Inr ()"
proof -
  have "validate_redaction_secret ''RAG_OPENAI_API_KEY'' (Some ''sk-1234'') = Inr ()"
    "validate_redaction_secret ''RAG_INDEX_HASH_SECRET'' (Some ''0123456789abcdefghijklmnopqrstuv'') = Inr ()"
    by code_simp+
  then show ?thesis
    by (simp add: validate_redaction_secret_sources_def checks_Inr sample_groups sample_auth_group env_store_def env_llm_def
        env_simps validate_redaction_secret_def [of _ None] Let_def)
qed

lemma sample_startup: "validate_startup sample_config_crates 0 (10 ^ 18) sample_config sample_view sample_view = Inr ()"
  unfolding validate_startup_def checks_Inr
  using sample_boundaries_ok sample_auth_ok
  by (simp add: sample_store_ok sample_provider_ok sample_vector_ok sample_secret_ok
      sample_sources_ok validate_run_mode_def validate_codex_auth_file_security_def sample_groups(1) sample_groups(9)
      env_llm_def env_simps has_any_auth_def sample_auth_group ensure_Inr)

end
