(* ===== verification/Llm_Registry_Facts.thy ===== *)
theory Llm_Registry_Facts
  imports Llm_Registry
begin

text \<open>
  What the registry guarantees: a completion that succeeds was paid for, kept to its attempts, its size
  and the secrets of its snapshot; a request that leaves shows none of those secrets.
\<close>

section \<open>Payment\<close>

lemma charge_state_calls [simp]: "charge_state w r st = (x, st') \<Longrightarrow> ls_calls st' = ls_calls st"
  by (auto simp: charge_state_def split: prod.splits)

lemma after_charge_cases:
  assumes "after_charge w request st next = Some (r, st')"
  obtains e where "charge_state w request st = (Inl e, st')" "r = Inl e"
  | st1 where "charge_state w request st = (Inr (), st1)" "next st1 = Some (r, st')"
proof -
  obtain x st1 where "charge_state w request st = (x, st1)" by fastforce
  then show ?thesis using assms that by (cases x) (auto simp: after_charge_def)
qed

lemma after_secure_cases:
  assumes "after_secure self config request st next = Some (r, st')"
  obtains e where "fst (current_security_snapshot self config) = None" "r = Inl e" "st' = st"
  | credentials secrets request' where "current_security_snapshot self config = (Some credentials, secrets)"
      "redact_for_provider request secrets = Some request'" "next credentials request' secrets = Some (r, st')"
proof -
  obtain c secrets where s: "current_security_snapshot self config = (c, secrets)" by fastforce
  show ?thesis
  proof (cases c)
    case None
    then show ?thesis using assms s that(1) by (auto simp: after_secure_def secure_request_def)
  next
    case (Some credentials)
    then show ?thesis using assms s that(2) by (auto simp: after_secure_def secure_request_def bind_eq_Some_conv)
  qed
qed

lemma openai_complete_cases:
  assumes "openai_complete_text w self request st = Some (r, st')"
  obtains e where "oc_api_key self = None" "r = Inl e" "st' = st"
  | key request' where "oc_api_key self = Some key" "redact_for_provider request [key] = Some request'"
      "after_charge w request' st (\<lambda>st.
         let shape = effective_shape request' (oc_model self) (oc_reasoning_effort self) in
         finish_openai w [key]
           (complete_openai_responses w (oc_policy self) (fst shape) (snd shape) key request' (oc_provider self) st))
       = Some (r, st')"
  using assms that by (cases "oc_api_key self") (auto simp: openai_complete_text_def bind_eq_Some_conv simp del: split_paired_All split_paired_Ex)

text \<open>
  What a client did with the charge of the request it was given: it made none and refused the request, or the
  budget refused, or the budget is as the charge left it. Only in the last case anything was sent.
\<close>

definition client_paid ::
    "(api_error + unit) \<times> provider_budget \<Rightarrow> llm_state \<Rightarrow> api_error + 'a \<Rightarrow> llm_state \<Rightarrow> bool" where
  "client_paid charged st x st' =
     ((\<exists>e. x = Inl e) \<and> ls_calls st' = ls_calls st \<or> fst charged = Inr () \<and> ls_budget st' = snd charged)"

lemma charge_state_budget:
  "charge_state w r st = (x, st') \<Longrightarrow> lr_attempt_budget r = Some b \<Longrightarrow>
     charge (ls_budget st) (lw_charged_at w) (lab_principal_key b) (lab_requests b) (lab_estimated_tokens b) = (x, ls_budget st')"
  by (auto simp: charge_state_def charge_attempt_def split: prod.splits)

lemma execute_call_budget: "execute_call w policy provider model call st = (r, st') \<Longrightarrow> ls_budget st' = ls_budget st"
  by (auto simp: execute_call_def hand_over_def record_headers_def Let_def split: sum.splits)

lemma complete_openai_budget:
  "complete_openai_responses w policy model effort key request provider st = (r, st') \<Longrightarrow> ls_budget st' = ls_budget st"
  by (auto simp: complete_openai_responses_def Let_def split: prod.splits sum.splits dest: execute_call_budget)

lemma finish_openai_budget:
  "finish_openai w secrets (complete_openai_responses w policy model effort key request provider st) = Some (x, st') \<Longrightarrow>
     ls_budget st' = ls_budget st"
  by (cases "complete_openai_responses w policy model effort key request provider st")
    (auto simp: finish_openai_def split: sum.splits dest: complete_openai_budget)

lemma codex_secured_budget:
  assumes "codex_complete_secured w self credentials r secrets st = Some (x, st')"
  shows "ls_budget st' = ls_budget st"
  using assms by (auto simp: codex_complete_secured_def Let_def split: if_splits prod.splits sum.splits
      dest: finish_openai_budget execute_call_budget)

lemma after_charge_paid:
  assumes "after_charge w r st next = Some (x, st')" and "lr_attempt_budget r = Some b"
    and "\<And>st1. next st1 = Some (x, st') \<Longrightarrow> ls_budget st' = ls_budget st1"
  shows "client_paid (charge (ls_budget st) (lw_charged_at w) (lab_principal_key b) (lab_requests b) (lab_estimated_tokens b)) st x st'"
  using assms(1)
proof (cases rule: after_charge_cases)
  case (1 e)
  then show ?thesis using charge_state_calls [OF 1(1)] by (simp add: client_paid_def)
next
  case (2 st1)
  then show ?thesis using charge_state_budget [OF 2(1) assms(2)] assms(3) by (simp add: client_paid_def)
qed

lemma client_complete_paid:
  assumes "client_complete_text w config c request st = Some (x, st')" and "lr_attempt_budget request = Some b"
  shows "client_paid (charge (ls_budget st) (lw_charged_at w) (lab_principal_key b) (lab_requests b) (lab_estimated_tokens b)) st x st'"
proof (cases c)
  case (OpenAiClient oc)
  with assms(1) have "openai_complete_text w oc request st = Some (x, st')" by simp
  then show ?thesis
  proof (cases rule: openai_complete_cases)
    case (2 key q)
    then show ?thesis
      using assms(2) redact_for_provider_keeps(2) [OF 2(2)]
      by (intro after_charge_paid [OF 2(3)]) (auto simp: Let_def dest: finish_openai_budget)
  qed (simp add: client_paid_def)
next
  case (CodexClient xc)
  with assms(1) have "codex_complete_text w xc config request st = Some (x, st')" by simp
  then show ?thesis unfolding codex_complete_text_def
  proof (cases rule: after_secure_cases)
    case (2 credentials secrets q)
    then show ?thesis
      using assms(2) redact_for_provider_keeps(2) [OF 2(2)]
      by (intro after_charge_paid [OF 2(3)]) (auto dest: codex_secured_budget)
  qed (simp add: client_paid_def)
next
  case (NoneClient m)
  then show ?thesis using assms by (auto simp: charged_response_def intro!: after_charge_paid)
next
  case (MockClient m)
  then show ?thesis using assms by (auto simp: charged_response_def intro!: after_charge_paid)
qed

section \<open>Attempts\<close>

lemma executed_attempts:
  assumes "execute crates now instant_max operation policy request_id env = Inr response"
  shows "1 \<le> unat (br_attempts response)" and "unat (br_attempts response) \<le> Suc (unat (opol_max_retries policy))"
    and "opol_max_retries policy \<le> 2"
proof -
  obtain ends_at where p: "prepare crates operation policy request_id now instant_max = Inr ends_at"
    using assms by (auto simp: execute_def rbind_Inr)
  show le: "opol_max_retries policy \<le> 2" by (rule prepare_retries [OF p])
  let ?run = "\<lambda>a. execute_attempt crates operation policy request_id ends_at a (env a)"
  have "a \<le> opol_max_retries policy" if "?run a = Retry" for a using execute_attempt_Retry [OF that] by blast
  from attempts_loop_stops [of ?run, OF this le, of operation] obtain n where
    n: "1 \<le> n" "n \<le> Suc (unat (opol_max_retries policy))" "?run (of_nat n) = Return (Inr response)"
    using assms p by (auto simp: execute_def)
  have "br_attempts response = of_nat n" using execute_attempt_success [OF n(3)] by blast
  moreover have "n \<le> 3" using n(2) le by (simp add: word_le_nat_alt)
  ultimately show "1 \<le> unat (br_attempts response)" "unat (br_attempts response) \<le> Suc (unat (opol_max_retries policy))"
    using n by (simp_all add: unat_of_nat)
qed

lemma execute_call_attempts:
  "execute_call w policy provider model call st = (Inr response, st') \<Longrightarrow>
     unat (br_attempts response) \<le> Suc (unat (opol_max_retries policy)) \<and> opol_max_retries policy \<le> 2"
  using executed_attempts by (auto simp: execute_call_def Let_def split: sum.splits)

definition client_policy_of :: "llm_client \<Rightarrow> operation_policy option" where
  "client_policy_of c = (case c of OpenAiClient c \<Rightarrow> Some (oc_policy c) | CodexClient c \<Rightarrow> Some (xc_policy c) | _ \<Rightarrow> None)"

lemma finish_openai_Inr:
  assumes "finish_openai w secrets (r, st) = Some (Inr response, st')"
  obtains body t where "r = Inr (body, ltr_attempts response)" "redact_string t secrets = Some (ltr_text response)"
  using assms that by (cases r) (auto simp: finish_openai_def openai_text_response_def split: sum.splits)

lemma complete_openai_attempts:
  "complete_openai_responses w policy model effort key request provider st = (Inr (body, attempts), st') \<Longrightarrow>
     unat attempts \<le> Suc (unat (opol_max_retries policy)) \<and> opol_max_retries policy \<le> 2"
  by (auto simp: complete_openai_responses_def Let_def rbind_Inr split: prod.splits sum.splits dest!: execute_call_attempts)

lemma codex_text_Inr:
  "codex_text_response w secrets r = Some (Inr response) \<Longrightarrow>
     \<exists>t. redact_string t secrets = Some (ltr_text response) \<and> ltr_attempts response = br_attempts r"
  by (auto simp: codex_text_response_def split: sum.splits if_splits)

section \<open>The two providers\<close>

definition snapshot_secrets :: "config \<Rightarrow> llm_client \<Rightarrow> string list" where
  "snapshot_secrets config c =
     (case c of
        OpenAiClient c \<Rightarrow> option_list (oc_api_key c)
      | CodexClient c \<Rightarrow> snd (current_security_snapshot c config)
      | _ \<Rightarrow> [])"

definition kept_answer :: "operation_policy \<Rightarrow> string list \<Rightarrow> llm_text_response \<Rightarrow> bool" where
  "kept_answer policy secrets response =
     ((\<exists>t. redact_string t secrets = Some (ltr_text response))
      \<and> unat (ltr_attempts response) \<le> Suc (unat (opol_max_retries policy)) \<and> opol_max_retries policy \<le> 2)"

lemma finished_openai_answer:
  assumes "finish_openai w secrets (complete_openai_responses w policy model effort key request provider st) = Some (Inr response, st')"
  shows "kept_answer policy secrets response"
proof -
  obtain r st1 where x: "complete_openai_responses w policy model effort key request provider st = (r, st1)" by fastforce
  from assms [unfolded x] show ?thesis
    by (rule finish_openai_Inr) (use x complete_openai_attempts in \<open>auto simp: kept_answer_def\<close>)
qed

lemma codex_secured_answer:
  assumes "codex_complete_secured w self credentials request secrets st = Some (Inr response, st')"
  shows "kept_answer (xc_policy self) secrets response"
proof (cases "cc_token_kind credentials = KindOpenAiApiKey")
  case True
  then show ?thesis using assms by (auto simp: codex_complete_secured_def Let_def intro: finished_openai_answer)
next
  case False
  let ?model = "fst (effective_shape request (xc_model self) (xc_reasoning_effort self))"
  let ?call = "codex_call w self credentials request ?model (snd (effective_shape request (xc_model self) (xc_reasoning_effort self)))"
  obtain r st1 where e: "execute_call w (xc_policy self) ''codex_auth'' ?model ?call st = (r, st1)" by fastforce
  then obtain resp where "r = Inr resp" "codex_text_response w secrets resp = Some (Inr response)"
    using assms False by (cases r) (auto simp: codex_complete_secured_def Let_def)
  with e execute_call_attempts [of w "xc_policy self"] codex_text_Inr show ?thesis by (fastforce simp: kept_answer_def)
qed

lemma provider_answer:
  assumes "client_complete_text w config c request st = Some (Inr response, st')" and "client_policy_of c = Some policy"
  shows "kept_answer policy (snapshot_secrets config c) response"
proof (cases c)
  case (OpenAiClient oc)
  with assms have "openai_complete_text w oc request st = Some (Inr response, st')" and p: "policy = oc_policy oc"
    by (simp_all add: client_policy_of_def)
  from this(1) show ?thesis
    by (elim openai_complete_cases after_charge_cases)
      (auto simp: OpenAiClient p snapshot_secrets_def option_list_def Let_def intro: finished_openai_answer)
next
  case (CodexClient xc)
  with assms have "codex_complete_text w xc config request st = Some (Inr response, st')" and p: "policy = xc_policy xc"
    by (simp_all add: client_policy_of_def)
  from this(1) show ?thesis unfolding codex_complete_text_def
    by (elim after_secure_cases after_charge_cases)
      (auto simp: CodexClient p snapshot_secrets_def intro: codex_secured_answer)
qed (use assms(2) in \<open>simp_all add: client_policy_of_def\<close>)

lemma redact_string_clean:
  "redact_string t secrets = Some r \<Longrightarrow> \<exists>cs. r = concat cs \<and> clean (map chars secrets) cs"
  by (auto simp: redact_string_def with_matcher_def intro: redact_exact_clean)

section \<open>What leaves\<close>

text \<open>
  A call is safe for the secrets of a snapshot: its bearer token is one of them, and its payload is that
  of a request whose texts show none of them.
\<close>

definition safe_call :: "llm_world \<Rightarrow> string list \<Rightarrow> provider_call \<Rightarrow> bool" where
  "safe_call w secrets call =
     (pcl_bearer call \<in> set secrets
      \<and> (\<exists>r model effort stream.
           (pcl_payload call = responses_payload (lw_evidence_json w) model r effort stream
            \<or> pcl_payload call = codex_responses_payload (lw_evidence_json w) model r effort stream)
           \<and> pcl_request_id call = lm_request_id (lr_metadata r)
           \<and> list_all (\<lambda>t. clean (map chars secrets) (chars t)) (request_texts r)))"

definition sends_safely :: "llm_world \<Rightarrow> string list \<Rightarrow> llm_state \<Rightarrow> llm_state \<Rightarrow> bool" where
  "sends_safely w secrets st st' =
     (ls_calls st' = ls_calls st \<or> (\<exists>call. ls_calls st' = ls_calls st @ [call] \<and> safe_call w secrets call))"

lemma execute_call_calls: "execute_call w policy provider model call st = (r, st') \<Longrightarrow> ls_calls st' = ls_calls st @ [call]"
  by (auto simp: execute_call_def hand_over_def record_headers_def Let_def split: sum.splits)

lemma complete_openai_calls:
  assumes "complete_openai_responses w policy model effort key request provider st = (r, st')"
  shows "\<exists>call. ls_calls st' = ls_calls st @ [call] \<and> pcl_bearer call = key
    \<and> pcl_payload call = responses_payload (lw_evidence_json w) model request effort False
    \<and> pcl_request_id call = lm_request_id (lr_metadata request)"
proof -
  let ?call = "\<lparr>pcl_endpoint = openai_endpoint, pcl_bearer = key, pcl_accept_events = False, pcl_account_id = None,
            pcl_request_id = lm_request_id (lr_metadata request),
            pcl_payload = responses_payload (lw_evidence_json w) model request effort False\<rparr>"
  obtain x st1 where e: "execute_call w policy provider model ?call st = (x, st1)" by fastforce
  have "st' = st1" using assms e by (auto simp: complete_openai_responses_def split: sum.splits)
  with execute_call_calls [OF e] show ?thesis by (intro exI [of _ ?call]) simp
qed

lemma finish_openai_calls: "finish_openai w secrets (r, st) = Some (x, st') \<Longrightarrow> st' = st"
  by (auto simp: finish_openai_def split: sum.splits)

lemma finished_openai_sends:
  assumes "finish_openai w secrets' (complete_openai_responses w policy model effort key r provider st) = Some (x, st')"
    and "redact_for_provider request secrets = Some r" and "list_all utf8_text (request_texts request)" and "key \<in> set secrets"
  shows "sends_safely w secrets st st'"
proof -
  obtain y st1 where y: "complete_openai_responses w policy model effort key r provider st = (y, st1)" by fastforce
  have "st' = st1" using finish_openai_calls assms(1) unfolding y by blast
  with complete_openai_calls [OF y] redacted_request_clean [OF assms(2,3)] assms(4) show ?thesis
    unfolding sends_safely_def safe_call_def by metis
qed

lemma sends_safely_charged:
  "charge_state w r st = (x, st1) \<Longrightarrow> sends_safely w secrets st1 st' = sends_safely w secrets st st'"
  by (simp add: sends_safely_def)

lemma sends_safely_charge_only: "charge_state w r st = (x, st1) \<Longrightarrow> sends_safely w secrets st st1"
  by (simp add: sends_safely_def)

lemma sends_safely_refl [simp]: "sends_safely w secrets st st"
  by (simp add: sends_safely_def)

lemma snapshot_token:
  assumes "current_security_snapshot xc config = (Some credentials, secrets)" and "inventory_ok (cfg_inventory config)"
  shows "cc_token credentials \<in> set secrets"
  using assms snapshot_covers_active [of config credentials]
  by (auto simp: current_security_snapshot_def Let_def option_list_def split: if_splits)

lemma codex_secured_sends:
  assumes "codex_complete_secured w self credentials r secrets st = Some (x, st')"
    and "redact_for_provider request secrets = Some r" and "list_all utf8_text (request_texts request)"
    and "cc_token credentials \<in> set secrets"
  shows "sends_safely w secrets st st'"
proof (cases "cc_token_kind credentials = KindOpenAiApiKey")
  case True
  then show ?thesis using assms by (auto simp: codex_complete_secured_def Let_def intro: finished_openai_sends)
next
  case False
  let ?model = "fst (effective_shape r (xc_model self) (xc_reasoning_effort self))"
  let ?effort = "snd (effective_shape r (xc_model self) (xc_reasoning_effort self))"
  let ?call = "codex_call w self credentials r ?model ?effort"
  obtain y st1 where e: "execute_call w (xc_policy self) ''codex_auth'' ?model ?call st = (y, st1)" by fastforce
  then have "st' = st1" using assms(1) False by (cases y) (auto simp: codex_complete_secured_def Let_def)
  with execute_call_calls [OF e] have "ls_calls st' = ls_calls st @ [?call]" by simp
  moreover have "safe_call w secrets ?call"
    using redacted_request_clean [OF assms(2,3)] assms(4) unfolding safe_call_def codex_call_def by auto
  ultimately show ?thesis unfolding sends_safely_def by blast
qed

lemma client_complete_sends:
  assumes "client_complete_text w config c request st = Some (x, st')" and "list_all utf8_text (request_texts request)"
    and "inventory_ok (cfg_inventory config)"
  shows "sends_safely w (snapshot_secrets config c) st st'"
proof (cases c)
  case (OpenAiClient oc)
  with assms have "openai_complete_text w oc request st = Some (x, st')" by simp
  then show ?thesis
    using assms(2) by (elim openai_complete_cases after_charge_cases)
      (auto simp: OpenAiClient snapshot_secrets_def option_list_def Let_def sends_safely_charge_only
        sends_safely_charged [symmetric] intro: finished_openai_sends)
next
  case (CodexClient xc)
  with assms have "codex_complete_text w xc config request st = Some (x, st')" by simp
  then show ?thesis unfolding codex_complete_text_def
    using assms(2,3) by (elim after_secure_cases after_charge_cases)
      (auto simp: CodexClient snapshot_secrets_def sends_safely_charge_only snapshot_token
        sends_safely_charged [symmetric] intro: codex_secured_sends)
qed (use assms in \<open>auto simp: charged_response_def sends_safely_charge_only elim!: after_charge_cases\<close>)

text \<open>The same of a stream.\<close>

lemma start_stream_sends:
  assumes "start_responses_stream w sr st = Some (x, st')"
    and "redact_for_provider request (rsr_secrets sr) = Some (rsr_request sr)" and "list_all utf8_text (request_texts request)"
    and "rsr_token sr \<in> set (rsr_secrets sr)"
  shows "sends_safely w (rsr_secrets sr) st st'"
proof -
  have "ls_calls st' = ls_calls st @ [stream_call w sr]"
    using assms(1) by (auto simp: start_responses_stream_def Let_def hand_over_def record_headers_def split: sum.splits)
  moreover have "safe_call w (rsr_secrets sr) (stream_call w sr)"
    using redacted_request_clean [OF assms(2,3)] assms(4) unfolding safe_call_def stream_call_def by auto
  ultimately show ?thesis unfolding sends_safely_def by blast
qed

lemma openai_stream_cases:
  assumes "openai_stream_text w self request st = Some (r, st')"
  obtains e where "oc_api_key self = None" "r = Inl e" "st' = st"
  | key sr where "oc_api_key self = Some key" "redact_for_provider request [key] = Some (rsr_request sr)"
      "rsr_secrets sr = [key]" "rsr_token sr = key" "after_charge w (rsr_request sr) st (start_responses_stream w sr) = Some (r, st')"
proof (cases "oc_api_key self")
  case None
  then show ?thesis using assms that(1) by (auto simp: openai_stream_text_def)
next
  case (Some key)
  then obtain q where q: "redact_for_provider request [key] = Some q" using assms
    by (auto simp: openai_stream_text_def bind_eq_Some_conv)
  define sr where "sr = \<lparr>rsr_policy = oc_policy self, rsr_provider = oc_provider self,
      rsr_model = fst (effective_shape q (oc_model self) (oc_reasoning_effort self)),
      rsr_reasoning_effort = snd (effective_shape q (oc_model self) (oc_reasoning_effort self)),
      rsr_codex_oauth = False, rsr_endpoint = openai_endpoint,
      rsr_token = key, rsr_account_id = None, rsr_request = q, rsr_secrets = [key]\<rparr>"
  have "after_charge w q st (start_responses_stream w sr) = Some (r, st')"
    using assms Some q by (simp add: openai_stream_text_def sr_def Let_def)
  then show ?thesis by (intro that(2) [of key sr]) (simp_all add: Some q sr_def)
qed

lemma client_stream_sends:
  assumes "client_stream_text w config c request st = Some (x, st')" and "list_all utf8_text (request_texts request)"
    and "inventory_ok (cfg_inventory config)"
  shows "sends_safely w (snapshot_secrets config c) st st'"
proof (cases c)
  case (OpenAiClient oc)
  with assms have "openai_stream_text w oc request st = Some (x, st')" by simp
  then show ?thesis
  proof (cases rule: openai_stream_cases)
    case (2 key sr)
    from 2(5) show ?thesis
      using start_stream_sends [of w sr _ x st' request] 2(1-4) assms(2)
      by (elim after_charge_cases)
        (auto simp: OpenAiClient snapshot_secrets_def option_list_def sends_safely_charge_only sends_safely_charged [symmetric])
  qed simp
next
  case (CodexClient xc)
  with assms have "codex_stream_text w xc config request st = Some (x, st')" by simp
  then show ?thesis unfolding codex_stream_text_def
  proof (cases rule: after_secure_cases)
    case (2 credentials secrets q)
    let ?sr = "codex_stream_request xc credentials q secrets"
    have sr: "rsr_secrets ?sr = secrets" "rsr_token ?sr = cc_token credentials" "rsr_request ?sr = q"
      by (simp_all add: codex_stream_request_def Let_def)
    from 2(3) show ?thesis
      using start_stream_sends [of w ?sr _ x st' request] 2(1,2) assms(2) snapshot_token [OF 2(1) assms(3)] sr
      by (elim after_charge_cases)
        (auto simp: CodexClient snapshot_secrets_def sends_safely_charge_only sends_safely_charged [symmetric])
  qed simp
next
  case (NoneClient m)
  then show ?thesis
    using assms client_complete_sends [of w config c request st] by (auto simp: synthetic_stream_def)
next
  case (MockClient m)
  then show ?thesis
    using assms client_complete_sends [of w config c request st] by (auto simp: synthetic_stream_def)
qed

section \<open>The registry\<close>

lemma registry_clients:
  "registry_client (fst (registry_new config)) profile =
     llm_client_from_profile (case profile of ProfilePrimary \<Rightarrow> config | ProfileAnalysis \<Rightarrow> analysis_llm_config config)
       (llm_operation_policy config)"
  by (cases profile) (simp_all add: registry_new_def)

lemma profile_client_policy:
  "client_policy_of (registry_client (fst (registry_new config)) profile) =
     (if configured_provider config profile = ''openai_api_key'' \<or> configured_provider config profile = ''codex_auth''
      then Some (llm_operation_policy config) else None)"
  by (cases profile)
    (simp_all add: registry_new_def llm_client_from_profile_def client_policy_of_def analysis_llm_config_def Let_def)

lemma reserved_covers_policy:
  assumes "opol_max_retries (llm_operation_policy config) \<le> 2"
    and "configured_provider config profile = ''openai_api_key'' \<or> configured_provider config profile = ''codex_auth''"
  shows "Suc (unat (opol_max_retries (llm_operation_policy config))) \<le> unat (reserved_attempts config profile)"
proof -
  let ?n = "llc_provider_max_retries (cfg_llm config)"
  show ?thesis
  proof (cases "?n < 256")
    case True
    then have "unat (of_nat ?n :: u8) = ?n" "unat (of_nat ?n :: u64) = ?n" by (simp_all add: unat_of_nat)
    with True assms show ?thesis
      by (simp add: llm_operation_policy_def reserved_attempts_def unat_sat_add Let_def)
  next
    case False
    moreover have "unat (- 1 :: u64) = 2 ^ 64 - 1" by (simp add: unsigned_minus_1_eq_mask mask_eq_exp_minus_1)
    ultimately have "Suc 2 \<le> unat (sat_add (if ?n < 2 ^ 64 then of_nat ?n else - 1) (1 :: u64))"
      by (simp add: unat_sat_add unat_of_nat)
    with \<open>\<not> ?n < 256\<close> assms show ?thesis
      by (simp add: llm_operation_policy_def reserved_attempts_def max_upstream_retries_def Let_def)
  qed
qed

lemma settle_result_Inr:
  assumes "settle_result w config rc x = (Inr response, st')"
  shows "fst x = Inr response" and "length (ltr_text response) \<le> llc_llm_max_response_bytes (cfg_llm config)"
  using assms
  by (auto simp: settle_result_def settle_response_def Let_def rbind_Inr split: sum.splits prod.splits if_splits)

lemma settle_result_budget:
  "settle_result w config rc (Inr response, st) = (Inr r, st') \<Longrightarrow>
     reconcile rc (ls_budget st) (lw_reconciled_at w) (ltr_usage response) = (Inr (), ls_budget st')"
  by (auto simp: settle_result_def settle_response_def Let_def rbind_Inr split: prod.splits)

lemma settle_result_calls [simp]: "ls_calls (snd (settle_result w config rc x)) = ls_calls (snd x)"
  by (simp add: settle_result_def settle_response_def Let_def split: prod.split sum.split)

end
