(* ===== verification/Config_Guarantees.thy ===== *)
theory Config_Guarantees
  imports Config_Facts Llm_Registry_Facts
begin

text \<open>
  The configuration, authentication, redaction and the language-model registry together: what a process that
  passed its start-up checks may rely on.
\<close>

section \<open>Credentials\<close>

lemma accepted_credential_facts:
  assumes "validate_auth_configuration c = Inr ()" and "(t, cr) \<in> set (configured_credentials c)"
  shows "has_any_auth c" "t \<noteq> []" "matching_credentials c t = [cr]"
proof -
  show "has_any_auth c"
    using assms(2) by (auto simp: has_any_auth_def configured_credentials_def split: option.splits)
  have "min_auth_credential_chars \<le> length (chars t)"
    using accepted_tokens(2) [OF assms(1)] assms(2) by (force simp: list_all_iff)
  then show "t \<noteq> []" by (auto simp: min_auth_credential_chars_def)
  show "matching_credentials c t = [cr]"
    by (simp add: matching_credentials_def distinct_filter_key [OF accepted_tokens(1) [OF assms(1)] assms(2)])
qed

text \<open>
  C19: Every credential of a configuration that start-up accepts works: a request that presents its token is
  authenticated as the principal the credential stands for, whichever other credentials are configured, unless
  the HMAC gives the token of another of them the tag of the presented one.
\<close>

theorem accepted_credentials_authenticate:
  assumes "validate_startup crates now instant_max c view1 view2 = Inr ()"
    and "(t, cr) \<in> set (configured_credentials (cfg_auth c))"
    and "bearer authorization = Inr t" and "collision_free mac key (cfg_auth c) t"
  shows "\<exists>p. credential_principal (cfg_auth c) cr = Inr p
    \<and> authenticate mac (cfg_auth c) (credential_index_from_config mac key (cfg_auth c)) authorization = Inr p"
proof -
  note ok = startup_parts(7) [OF assms(1)]
  note f = accepted_credential_facts [OF ok assms(2)]
  obtain p where "credential_principal (cfg_auth c) cr = Inr p" using accepted_principal [OF ok assms(2)] by blast
  moreover have "credential_lookup mac (credential_index_from_config mac key (cfg_auth c)) t = [cr]"
    using index_lookup [OF assms(4)] f(3) by simp
  ultimately show ?thesis
    using assms(3) f(2) by (auto simp: authenticate_configured [OF f(1)])
qed

lemma accepted_credentials_authenticate_witness:
  "\<exists>p. credential_principal (cfg_auth sample_config) (CredAuthUser 0) = Inr p
    \<and> authenticate sample_mac (cfg_auth sample_config)
        (credential_index_from_config sample_mac ''k'' (cfg_auth sample_config)) (Some ''bearer ada-token'') = Inr p"
proof (rule accepted_credentials_authenticate [OF sample_startup])
  show "(''ada-token'', CredAuthUser 0) \<in> set (configured_credentials (cfg_auth sample_config))"
    unfolding sample_auth_group by code_simp
  show "bearer (Some ''bearer ada-token'') = Inr ''ada-token''" by code_simp
  show "collision_free sample_mac ''k'' (cfg_auth sample_config) ''ada-token''"
    by (simp add: collision_free_def sample_mac_def list_all_iff)
qed

section \<open>Secrets\<close>

text \<open>
  C15: No configured secret of an accepted configuration is too short to be redacted: when the matcher for all
  of them can be built, a text it has redacted shows none of them, neither a bearer token nor a provider or
  search key, nor any Codex token the process has used.
\<close>

theorem accepted_secrets_never_shown:
  assumes "validate_startup crates now instant_max c view1 view2 = Inr ()" and "inventory_ok (cfg_inventory c)"
    and "s \<in> set (configured_secret_values c)" and "secret_matcher_new (map chars (configured_secret_values c)) = Some m"
    and "utf8_text t"
  shows "\<not> occurs (chars s) (chars (matcher_text matcher_redact_egress_text m t))"
proof -
  have "min_redaction_secret_chars \<le> length (chars s)"
    by (rule accepted_secret_length [OF startup_parts(7) [OF assms(1)] startup_parts(8) [OF assms(1)] assms(2,3)])
  then have "redactable (map chars (configured_secret_values c)) (chars s)"
    using assms(3) by (simp add: redactable_def min_redaction_secret_chars_def min_redactable_secret_chars_def)
  moreover have "clean (map chars (configured_secret_values c)) (chars (matcher_text matcher_redact_egress_text m t))"
    using redact_text_clean [OF assms(4,5)] by (simp add: matcher_text_redact)
  ultimately show ?thesis by (simp add: clean_def)
qed

lemma sample_upstream_keys:
  "sc_meili_api_key (cfg_store sample_config) = None" "sc_meili_admin_api_key (cfg_store sample_config) = None"
  "llc_openai_api_key (cfg_llm sample_config) = Some ''sk-1234''"
  by (simp_all add: sample_groups env_store_def env_llm_def env_simps Let_def)

lemma sample_secret_values:
  "configured_secret_values sample_config =
     [''admin-token'', ''ada-token'', ''svc-token'', ''sk-1234'', ''0123456789abcdefghijklmnopqrstuv'']"
proof -
  have "valid_utf8 ''0123456789abcdefghijklmnopqrstuv''" by code_simp
  then show ?thesis
    by (simp add: configured_secret_values_def configured_secret_values_with_history_def sample_upstream_keys sample_auth_group
        sample_groups(4,5) option_list_def)
qed

lemma asterisk_mask: "\<not> List.member (concat secrets) (utf8 0x2A) \<Longrightarrow> \<exists>m. secret_matcher_new secrets = Some m"
  by (simp add: secret_matcher_new_def collision_free_mask_character_def Let_def)

lemma sample_matcher_exists: "\<exists>m. secret_matcher_new (map chars (configured_secret_values sample_config)) = Some m"
  unfolding sample_secret_values by (rule asterisk_mask) code_simp

lemma accepted_secrets_never_shown_witness:
  "\<exists>m. secret_matcher_new (map chars (configured_secret_values sample_config)) = Some m
     \<and> \<not> occurs (chars ''ada-token'') (chars (matcher_text matcher_redact_egress_text m ''use ada-token''))"
proof -
  obtain m where m: "secret_matcher_new (map chars (configured_secret_values sample_config)) = Some m"
    using sample_matcher_exists by blast
  have "inventory_ok (cfg_inventory sample_config)" by (simp add: sample_groups inventory_ok_def)
  moreover have "''ada-token'' \<in> set (configured_secret_values sample_config)" unfolding sample_secret_values by simp
  moreover have "utf8_text ''use ada-token''" by code_simp
  ultimately show ?thesis using accepted_secrets_never_shown [OF sample_startup _ _ m] m by blast
qed

section \<open>Policies\<close>

text \<open>
  C31: The policies the registry derives from an accepted configuration are ones the upstream client accepts,
  the retry count is the configured one, not truncated, and the request deadline of a route exceeds the
  language-model deadline it contains.
\<close>

theorem accepted_policies_valid:
  assumes "validate_startup crates now instant_max c view1 view2 = Inr ()"
  shows "validate_operation_policy (llm_operation_policy c) = Inr () \<and> validate_client_policy (llm_client_policy c) = Inr ()
    \<and> unat (opol_max_retries (llm_operation_policy c)) = llc_provider_max_retries (cfg_llm c)
    \<and> cp_connect_timeout (llm_client_policy c) \<le> opol_deadline (llm_operation_policy c)
    \<and> opol_deadline (llm_operation_policy c) < unat (lc_request_timeout_ms (cfg_limits c)) * 1000000"
proof -
  note b = startup_parts(5) [OF assms]
  have pos: "unat (llc_llm_timeout_ms (cfg_llm c)) \<noteq> 0" "unat (llc_provider_connect_timeout_ms (cfg_llm c)) \<noteq> 0"
    "llc_llm_max_response_bytes (cfg_llm c) \<noteq> 0"
    using boundary_parts(1) [OF b, of "''RAG_LLM_TIMEOUT_MS''"] boundary_parts(1) [OF b, of "''RAG_PROVIDER_CONNECT_TIMEOUT_MS''"]
      boundary_parts(1) [OF b, of "''RAG_LLM_MAX_RESPONSE_BYTES''"] by (simp_all add: positive_limits_def Let_def)
  have retries: "llc_provider_max_retries (cfg_llm c) \<le> 2"
    using startup_parts(3) [OF assms]
    by (simp add: validate_provider_settings_def checks_Inr ensure_Inr max_upstream_retries_def Let_def)
  then have r: "unat (of_nat (llc_provider_max_retries (cfg_llm c)) :: u8) = llc_provider_max_retries (cfg_llm c)"
    by (simp add: unat_of_nat)
  have "llc_provider_connect_timeout_ms (cfg_llm c) \<le> llc_llm_timeout_ms (cfg_llm c)"
    "minimum_request_timeout_ms c \<le> lc_request_timeout_ms (cfg_limits c)"
    using boundary_parts(3) [OF b] by (simp_all add: check_orderings_def checks_Inr ensure_Inr Let_def)
  moreover have "unat (llc_llm_timeout_ms (cfg_llm c)) < unat (minimum_request_timeout_ms c)"
  proof -
    have "unat (llc_llm_timeout_ms (cfg_llm c)) \<le> max_boundary_deadline_ms"
      using boundary_parts(2) [OF b, of "''RAG_LLM_TIMEOUT_MS''"] by (simp add: boundary_deadlines_def Let_def)
    then show ?thesis
      by (simp add: minimum_request_timeout_ms_def unat_sat_add max_boundary_deadline_ms_def
          request_timeout_dependency_headroom_ms_def word_le_nat_alt max_def)
  qed
  ultimately show ?thesis
    using pos retries r
    by (simp add: llm_operation_policy_def llm_client_policy_def validate_operation_policy_def validate_client_policy_def
        checks_Inr ensure_Inr max_upstream_retries_def word_le_nat_alt Let_def)
qed

lemma accepted_policies_valid_witness:
  "validate_operation_policy (llm_operation_policy sample_config) = Inr ()"
  using accepted_policies_valid [OF sample_startup] by blast

section \<open>The environment\<close>











section \<open>Rotation of the Codex token\<close>

text \<open>
  C21: However threads interleave their refreshes of the Codex token, a token that was ever active stays among
  the secrets that redaction searches for, the history has no duplicate and no token too short to redact, and
  the credentials of a snapshot are covered by the secrets of the same snapshot.
\<close>

theorem rotation_keeps_secrets:
  assumes "inventory_ok (cfg_inventory self)" and "(inventory_step parse)\<^sup>*\<^sup>* self self'"
  shows "inventory_ok (cfg_inventory self')
    \<and> set (csi_history (cfg_inventory self)) \<subseteq> set (psn_secrets (provider_security_snapshot_of self'))
    \<and> cc_token ` set_option (psn_credentials (provider_security_snapshot_of self)) \<subseteq> set (psn_secrets (provider_security_snapshot_of self'))
    \<and> cc_token ` set_option (psn_credentials (provider_security_snapshot_of self')) \<subseteq> set (psn_secrets (provider_security_snapshot_of self'))"
proof -
  obtain ts where ok: "inventory_ok (cfg_inventory self')"
    and h: "csi_history (cfg_inventory self') = csi_history (cfg_inventory self) @ ts"
    using inventory_run_keeps [OF assms(2)] assms(1) by blast
  have shown: "set (csi_history (cfg_inventory c)) \<subseteq> set (psn_secrets (provider_security_snapshot_of c))" for c
    by (auto simp: provider_security_snapshot_of_def configured_secret_values_with_history_def)
  have active: "cc_token ` set_option (psn_credentials (provider_security_snapshot_of c)) \<subseteq> set (csi_history (cfg_inventory c))"
    if "inventory_ok (cfg_inventory c)" for c
    using that by (auto simp: provider_security_snapshot_of_def inventory_ok_def)
  show ?thesis using ok h shown [of self'] active [OF ok] active [OF assms(1)] by auto
qed

definition rotated_config :: config where
  "rotated_config = (publish_codex_credentials sample_config
     \<lparr>cc_token = ''sk-old-token'', cc_account_id = None, cc_token_kind = KindOpenAiApiKey\<rparr>)
       \<lparr>cfg_llm := (cfg_llm sample_config)\<lparr>llc_codex_auth_path := Some ''/auth.json''\<rparr>\<rparr>"

lemma rotation_keeps_secrets_witness:
  "''sk-old-token'' \<in> set (psn_secrets (provider_security_snapshot_of
     (observe_codex_auth_token (\<lambda>_. None) rotated_config True 7 sample_view)))"
proof -
  have "inventory_ok (cfg_inventory rotated_config)"
  proof -
    have "min_redaction_secret_chars \<le> length (chars ''sk-old-token'')" "''sk-old-token'' = trim ''sk-old-token''" by code_simp+
    then show ?thesis by (simp add: rotated_config_def publish_codex_credentials_def sample_groups(5) inventory_ok_def)
  qed
  moreover have "psn_credentials (provider_security_snapshot_of rotated_config) =
      Some \<lparr>cc_token = ''sk-old-token'', cc_account_id = None, cc_token_kind = KindOpenAiApiKey\<rparr>"
    by (simp add: rotated_config_def publish_codex_credentials_def provider_security_snapshot_of_def Let_def)
  ultimately show ?thesis
    using rotation_keeps_secrets [OF _ observe_is_run, of rotated_config "\<lambda>_. None" True 7 sample_view] by simp
qed

end
