(* ===== verification/Llm_Health.thy ===== *)
theory Llm_Health
  imports Llm_Registry
begin

text \<open>
  The health probe (\<open>LlmHealthProbe\<close> of \<open>llm.rs\<close>): one small call to the provider under its own policy,
  without retries, the verdict on it, and the cache of the last verdict with the streak of consecutive failures.
  The cache is read once without the gate and again behind it; only the holder of the gate writes it.
\<close>

section \<open>Verdicts\<close>

record probe_result =
  pr_provider :: string
  pr_model :: string
  pr_reasoning_effort :: "string option"
  pr_status :: string
  pr_can_call :: bool
  pr_auth_valid :: bool
  pr_quota_state :: string
  pr_rate_limit_state :: string
  pr_checked_at :: datetime
  pr_latency_ms :: u64
  pr_stale :: bool
  pr_age_seconds :: u64
  pr_consecutive_failures :: u32
  pr_rate_limits :: rate_limit_snapshot
  pr_error_kind :: "string option"
  pr_message :: "string option"
  pr_auth_expires_at :: "datetime option"
  pr_auth_expires_in_seconds :: "int option"
  pr_auth_token_kind :: "string option"

record probe_input =
  pin_provider :: string
  pin_model :: string
  pin_status :: string
  pin_can_call :: bool
  pin_auth_valid :: bool
  pin_quota_state :: string
  pin_rate_limit_state :: string
  pin_error_kind :: "string option"
  pin_message :: "string option"
  pin_rate_limits :: rate_limit_snapshot
  pin_latency_ms :: u64

definition probe_result_of :: "datetime \<Rightarrow> probe_input \<Rightarrow> probe_result" where
  "probe_result_of wall_clock i =
     \<lparr>pr_provider = pin_provider i, pr_model = pin_model i, pr_reasoning_effort = None, pr_status = pin_status i,
      pr_can_call = pin_can_call i, pr_auth_valid = pin_auth_valid i, pr_quota_state = pin_quota_state i,
      pr_rate_limit_state = pin_rate_limit_state i, pr_checked_at = wall_clock, pr_latency_ms = pin_latency_ms i,
      pr_stale = False, pr_age_seconds = 0, pr_consecutive_failures = 0, pr_rate_limits = pin_rate_limits i,
      pr_error_kind = pin_error_kind i, pr_message = pin_message i, pr_auth_expires_at = None,
      pr_auth_expires_in_seconds = None, pr_auth_token_kind = None\<rparr>"

definition ok_probe_with_latency :: "string \<Rightarrow> string \<Rightarrow> rate_limit_snapshot \<Rightarrow> u64 \<Rightarrow> probe_input" where
  "ok_probe_with_latency provider model rate_limits latency_ms =
     \<lparr>pin_provider = provider, pin_model = model, pin_status = ''ok'', pin_can_call = True, pin_auth_valid = True,
      pin_quota_state = ''available'', pin_rate_limit_state = unwrap_or (codex_rate_limit_state rate_limits) ''ok'',
      pin_error_kind = None, pin_message = None, pin_rate_limits = rate_limits, pin_latency_ms = latency_ms\<rparr>"

definition ok_probe :: "string \<Rightarrow> string \<Rightarrow> rate_limit_snapshot \<Rightarrow> probe_input" where
  "ok_probe provider model rate_limits = ok_probe_with_latency provider model rate_limits 0"

definition disabled_probe :: "config \<Rightarrow> probe_input" where
  "disabled_probe config =
     (let callable = \<not> hc_require_llm (cfg_health config) in
      \<lparr>pin_provider = llc_llm_provider (cfg_llm config), pin_model = unwrap_or (llc_llm_model (cfg_llm config)) ''none'',
       pin_status = ''disabled'', pin_can_call = callable, pin_auth_valid = callable, pin_quota_state = ''unknown'',
       pin_rate_limit_state = ''unknown'', pin_error_kind = None, pin_message = Some ''LLM health probing is disabled'',
       pin_rate_limits = snapshot_default, pin_latency_ms = 0\<rparr>)"

definition unhealthy_probe :: "string \<Rightarrow> string \<Rightarrow> string \<Rightarrow> string \<Rightarrow> probe_input" where
  "unhealthy_probe provider model error_kind message =
     \<lparr>pin_provider = provider, pin_model = model, pin_status = ''unhealthy'', pin_can_call = False, pin_auth_valid = False,
      pin_quota_state = ''unknown'', pin_rate_limit_state = ''unknown'', pin_error_kind = Some error_kind,
      pin_message = Some message, pin_rate_limits = snapshot_default, pin_latency_ms = 0\<rparr>"

definition auth_failure_probe :: "string \<Rightarrow> string \<Rightarrow> string \<Rightarrow> probe_input" where
  "auth_failure_probe provider model message =
     \<lparr>pin_provider = provider, pin_model = model, pin_status = ''unhealthy'', pin_can_call = False, pin_auth_valid = False,
      pin_quota_state = ''unknown'', pin_rate_limit_state = ''unknown'', pin_error_kind = Some ''auth_failed'',
      pin_message = Some message, pin_rate_limits = snapshot_default, pin_latency_ms = 0\<rparr>"

definition quota_exhausted_probe :: "string \<Rightarrow> string \<Rightarrow> string \<Rightarrow> probe_input" where
  "quota_exhausted_probe provider model message =
     \<lparr>pin_provider = provider, pin_model = model, pin_status = ''unhealthy'', pin_can_call = False, pin_auth_valid = True,
      pin_quota_state = ''exhausted'', pin_rate_limit_state = ''limited'', pin_error_kind = Some ''quota_exhausted'',
      pin_message = Some message, pin_rate_limits = snapshot_default, pin_latency_ms = 0\<rparr>"

definition rate_limited_probe_with_latency ::
    "string \<Rightarrow> string \<Rightarrow> bool \<Rightarrow> rate_limit_snapshot \<Rightarrow> string \<Rightarrow> u64 \<Rightarrow> probe_input" where
  "rate_limited_probe_with_latency provider model unhealthy rate_limits message latency_ms =
     \<lparr>pin_provider = provider, pin_model = model, pin_status = (if unhealthy then ''unhealthy'' else ''degraded''),
      pin_can_call = False, pin_auth_valid = True, pin_quota_state = ''available'', pin_rate_limit_state = ''limited'',
      pin_error_kind = Some ''rate_limited'', pin_message = Some message, pin_rate_limits = rate_limits,
      pin_latency_ms = latency_ms\<rparr>"

definition rate_limited_probe :: "string \<Rightarrow> string \<Rightarrow> bool \<Rightarrow> rate_limit_snapshot \<Rightarrow> string \<Rightarrow> probe_input" where
  "rate_limited_probe provider model unhealthy rate_limits message =
     rate_limited_probe_with_latency provider model unhealthy rate_limits message 0"

definition degraded_probe :: "string \<Rightarrow> string \<Rightarrow> string \<Rightarrow> string \<Rightarrow> probe_input" where
  "degraded_probe provider model error_kind message =
     \<lparr>pin_provider = provider, pin_model = model, pin_status = ''degraded'', pin_can_call = False, pin_auth_valid = True,
      pin_quota_state = ''unknown'', pin_rate_limit_state = ''unknown'', pin_error_kind = Some error_kind,
      pin_message = Some message, pin_rate_limits = snapshot_default, pin_latency_ms = 0\<rparr>"

definition invalid_health_probe :: "string \<Rightarrow> string \<Rightarrow> rate_limit_snapshot \<Rightarrow> u64 \<Rightarrow> probe_input" where
  "invalid_health_probe provider model rate_limits latency_ms =
     \<lparr>pin_provider = provider, pin_model = model, pin_status = ''unhealthy'', pin_can_call = False, pin_auth_valid = True,
      pin_quota_state = ''unknown'', pin_rate_limit_state = ''unknown'', pin_error_kind = Some ''invalid_response'',
      pin_message = Some ''LLM health probe returned invalid output'', pin_rate_limits = rate_limits,
      pin_latency_ms = latency_ms\<rparr>"

definition probe_from_upstream_error :: "config \<Rightarrow> string \<Rightarrow> string \<Rightarrow> upstream_error \<Rightarrow> u64 \<Rightarrow> probe_input" where
  "probe_from_upstream_error config provider model error latency_ms =
     (case ud_category (upstream_diagnostic_of error) of
        CatAuthentication \<Rightarrow>
          \<lparr>pin_provider = provider, pin_model = model, pin_status = ''unhealthy'', pin_can_call = False,
           pin_auth_valid = False, pin_quota_state = ''unknown'', pin_rate_limit_state = ''unknown'',
           pin_error_kind = Some ''auth_failed'', pin_message = Some ''LLM authentication failed'',
           pin_rate_limits = snapshot_default, pin_latency_ms = latency_ms\<rparr>
      | CatQuota \<Rightarrow> quota_exhausted_probe provider model ''LLM quota is exhausted''
      | CatRateLimited \<Rightarrow>
          rate_limited_probe_with_latency provider model (hc_rate_limit_unhealthy (cfg_health config)) snapshot_default
            ''LLM provider is rate limited'' latency_ms
      | CatDeadline \<Rightarrow> degraded_probe provider model ''timeout'' ''LLM probe timed out''
      | CatTimeout \<Rightarrow> degraded_probe provider model ''timeout'' ''LLM probe timed out''
      | _ \<Rightarrow> degraded_probe provider model ''server_error'' ''LLM probe request failed'')"

section \<open>The probe\<close>

text \<open>It takes no configuration: the reasoning effort of the profile cannot reach it.\<close>

definition health_probe_reasoning_effort :: string where
  "health_probe_reasoning_effort = ''low''"

definition health_probe_request :: "llm_world \<Rightarrow> string \<Rightarrow> string \<Rightarrow> bool \<Rightarrow> llm_request \<times> json" where
  "health_probe_request w request_id model codex =
     (let request = llm_request_text request_id ''Return only the requested health-check token.'' ''Reply with exactly: ok''
            8 ''health_probe'';
          effort = Some health_probe_reasoning_effort
      in (request, if codex then codex_responses_payload (lw_evidence_json w) model request effort True
                   else responses_payload (lw_evidence_json w) model request effort False))"

definition valid_health_probe_text :: "string \<Rightarrow> bool" where
  "valid_health_probe_text t = eq_ignore_ascii_case (trim t) ''ok''"

definition health_policy :: "config \<Rightarrow> operation_policy" where
  "health_policy config =
     policy_without_retries (unat (hc_timeout_ms (cfg_health config)) * 1000000)
       (min (llc_llm_max_response_bytes (cfg_llm config)) (2 * 1024 * 1024))"

text \<open>The call of either probe, and its verdict once the output is judged by \<open>valid\<close>.\<close>

definition probe_call ::
    "llm_world \<Rightarrow> config \<Rightarrow> string \<Rightarrow> string \<Rightarrow> provider_call \<Rightarrow> (string \<Rightarrow> bool) \<Rightarrow> llm_state \<Rightarrow> probe_input \<times> llm_state" where
  "probe_call w config provider model call valid st =
     (let st = hand_over call st in
      case execute (lw_crates w) (lw_started_at w) (lw_instant_max w) LlmHealth (health_policy config) (pcl_request_id call)
             (lw_attempts w) of
        Inl error \<Rightarrow> (probe_from_upstream_error config provider model error (lw_latency_ms w), st)
      | Inr response \<Rightarrow>
          (let headers = lw_headers w (br_attempts response);
               rate_limits = rate_limits_from_headers (lw_from_timestamp w) headers
           in (if valid (br_body response) then ok_probe_with_latency provider model rate_limits (lw_latency_ms w)
               else invalid_health_probe provider model rate_limits (lw_latency_ms w),
               record_headers w provider headers st)))"

definition valid_openai_output :: "llm_world \<Rightarrow> string \<Rightarrow> bool" where
  "valid_openai_output w body =
     (case rbind (decode_openai_response_body (uc_from_slice (lw_crates w)) body) require_response_text of
        Inr t \<Rightarrow> valid_health_probe_text t | Inl _ \<Rightarrow> False)"

definition valid_codex_output :: "llm_world \<Rightarrow> string \<Rightarrow> bool" where
  "valid_codex_output w body =
     (valid_utf8 body \<and>
      (case extract_codex_sse_text (lw_from_str w) (uc_sha256 (lw_crates w)) body of
         Inr t \<Rightarrow> valid_health_probe_text t | Inl _ \<Rightarrow> False))"

definition probe_openai_responses ::
    "llm_world \<Rightarrow> config \<Rightarrow> string \<Rightarrow> string \<Rightarrow> string \<Rightarrow> string \<Rightarrow> llm_state \<Rightarrow> probe_input \<times> llm_state" where
  "probe_openai_responses w config request_id provider model api_key st =
     (let (request, payload) = health_probe_request w request_id model False in
      probe_call w config provider model
        \<lparr>pcl_endpoint = openai_endpoint, pcl_bearer = api_key, pcl_accept_events = False, pcl_account_id = None,
         pcl_request_id = lm_request_id (lr_metadata request), pcl_payload = payload\<rparr>
        (valid_openai_output w) st)"

definition probe_codex_responses ::
    "llm_world \<Rightarrow> config \<Rightarrow> string \<Rightarrow> string \<Rightarrow> string \<Rightarrow> codex_credentials \<Rightarrow> llm_state \<Rightarrow> probe_input \<times> llm_state" where
  "probe_codex_responses w config request_id provider model credentials st =
     (let (request, payload) = health_probe_request w request_id model True in
      probe_call w config provider model
        \<lparr>pcl_endpoint = codex_responses_endpoint (llc_codex_base_url (cfg_llm config)), pcl_bearer = cc_token credentials,
         pcl_accept_events = True, pcl_account_id = cc_account_id credentials,
         pcl_request_id = lm_request_id (lr_metadata request), pcl_payload = payload\<rparr>
        (valid_codex_output w) st)"

definition probe_now :: "llm_world \<Rightarrow> config \<Rightarrow> string \<Rightarrow> llm_state \<Rightarrow> probe_input \<times> llm_state" where
  "probe_now w config request_id st =
     (let c = cfg_llm config; provider = llc_llm_provider c; model = unwrap_or (llc_llm_model c) default_model in
      if provider = ''none''
      then (if hc_require_llm (cfg_health config)
            then unhealthy_probe provider (unwrap_or (llc_llm_model c) ''none'') ''provider_disabled''
                   ''LLM provider is none but RAG_HEALTH_REQUIRE_LLM=true''
            else ok_probe provider ''none'' snapshot_default, st)
      else if provider = ''mock''
      then (ok_probe provider model (snapshot_default\<lparr>rls_remaining_requests := Some ''1000'',
              rls_remaining_tokens := Some ''100000''\<rparr>), st)
      else if provider = ''mock_auth_failure'' then (auth_failure_probe provider model ''mock auth failure'', st)
      else if provider = ''mock_quota_exhausted'' then (quota_exhausted_probe provider model ''mock quota exhausted'', st)
      else if provider = ''mock_rate_limited''
      then (rate_limited_probe provider model (hc_rate_limit_unhealthy (cfg_health config))
              (snapshot_default\<lparr>rls_remaining_requests := Some ''0'', rls_remaining_tokens := Some ''0'',
                rls_reset_requests := Some ''1s'', rls_reset_tokens := Some ''1s''\<rparr>) ''mock short rate limit'', st)
      else if provider = ''mock_server_error'' then (degraded_probe provider model ''server_error'' ''mock server error'', st)
      else if provider = ''mock_timeout'' then (degraded_probe provider model ''timeout'' ''mock timeout'', st)
      else if provider = ''openai_api_key''
      then (case llc_openai_api_key c of
              None \<Rightarrow> (auth_failure_probe provider model ''LLM API key is not configured'', st)
            | Some api_key \<Rightarrow> probe_openai_responses w config request_id provider model api_key st)
      else if provider = ''codex_auth''
      then (if llc_codex_auth_path c = None
            then (auth_failure_probe provider model ''Codex auth path is not configured'', st)
            else case csi_active_credentials (cfg_inventory config) of
                   None \<Rightarrow> (auth_failure_probe provider model ''Codex auth token could not be read'', st)
                 | Some credentials \<Rightarrow>
                     if cc_token_kind credentials = KindOpenAiApiKey
                     then probe_openai_responses w config request_id provider model (cc_token credentials) st
                     else probe_codex_responses w config request_id provider model credentials st)
      else (unhealthy_probe provider model ''unsupported_provider'' ''unsupported LLM provider'', st))"

section \<open>The cache\<close>

record cached_probe =
  cpr_result :: probe_result
  cpr_checked :: int
  cpr_failures :: u32

text \<open>\<open>Instant::elapsed\<close> saturates at zero; instants and durations are in nanoseconds.\<close>

definition probe_age :: "cached_probe \<Rightarrow> int \<Rightarrow> nat" where
  "probe_age cached now = nat (now - cpr_checked cached)"

definition from_secs :: "u64 \<Rightarrow> duration" where
  "from_secs n = unat n * 1000000000"

definition aged_probe_result :: "cached_probe \<Rightarrow> config \<Rightarrow> duration \<Rightarrow> probe_result" where
  "aged_probe_result cached config age =
     (cpr_result cached)\<lparr>pr_reasoning_effort := llc_llm_reasoning_effort (cfg_llm config),
       pr_age_seconds := of_nat (age div 1000000000),
       pr_stale := from_secs (hc_probe_ttl_seconds (cfg_health config)) < age,
       pr_consecutive_failures := cpr_failures cached\<rparr>"

definition cached_with_age :: "cached_probe \<Rightarrow> config \<Rightarrow> int \<Rightarrow> probe_result" where
  "cached_with_age cached config now =
     (let age = probe_age cached now; result = aged_probe_result cached config age in
      if from_secs (hc_max_stale_seconds (cfg_health config)) < age
      then result\<lparr>pr_status := ''unhealthy'', pr_can_call := False, pr_error_kind := Some ''stale_probe'',
             pr_message := Some ''LLM health probe cache exceeded max stale age''\<rparr>
      else result)"

definition with_reasoning_effort :: "probe_result \<Rightarrow> config \<Rightarrow> probe_result" where
  "with_reasoning_effort result config = result\<lparr>pr_reasoning_effort := llc_llm_reasoning_effort (cfg_llm config)\<rparr>"

definition is_threshold_failure :: "probe_result \<Rightarrow> bool" where
  "is_threshold_failure result = (pr_error_kind result = Some ''server_error'' \<or> pr_error_kind result = Some ''timeout'')"

definition fresh_verdict :: "cached_probe option \<Rightarrow> config \<Rightarrow> int \<Rightarrow> probe_result option" where
  "fresh_verdict cache config now =
     Option.bind cache (\<lambda>cached.
       if probe_age cached now < from_secs (hc_probe_ttl_seconds (cfg_health config))
       then Some (cached_with_age cached config now) else None)"

text \<open>The verdict on a probe, given the failures before it.\<close>

definition judge_probe :: "config \<Rightarrow> u32 \<Rightarrow> probe_result \<Rightarrow> probe_result" where
  "judge_probe config previous_failures result =
     (let failed = is_threshold_failure result;
          consecutive_failures = (if failed then sat_add previous_failures 1 else 0);
          result = (if failed \<and> max (hc_failure_threshold (cfg_health config)) 1 \<le> consecutive_failures
                    then result\<lparr>pr_status := ''unhealthy'', pr_can_call := False\<rparr> else result)
      in result\<lparr>pr_consecutive_failures := consecutive_failures\<rparr>)"

definition previous_failures :: "cached_probe option \<Rightarrow> u32" where
  "previous_failures cache = (case cache of None \<Rightarrow> 0 | Some cached \<Rightarrow> cpr_failures cached)"

definition probe_verdict ::
    "llm_world \<Rightarrow> config \<Rightarrow> string \<Rightarrow> cached_probe option \<Rightarrow> llm_state \<Rightarrow> probe_result \<times> llm_state" where
  "probe_verdict w config request_id cache st =
     (case probe_now w config request_id st of (i, st) \<Rightarrow>
        (judge_probe config (previous_failures cache)
           (with_reasoning_effort (probe_result_of (lw_wall_clock w) i) config), st))"

text \<open>Behind the gate: the cache is read again at \<open>now\<close>; a probe ends at \<open>later\<close>.\<close>

definition refresh_probe ::
    "llm_world \<Rightarrow> config \<Rightarrow> string \<Rightarrow> int \<Rightarrow> int \<Rightarrow> cached_probe option \<Rightarrow> llm_state
      \<Rightarrow> probe_result \<times> cached_probe option \<times> llm_state" where
  "refresh_probe w config request_id now later cache st =
     (case fresh_verdict cache config now of
        Some result \<Rightarrow> (result, cache, st)
      | None \<Rightarrow>
          (case probe_verdict w config request_id cache st of (result, st) \<Rightarrow>
             (result, Some \<lparr>cpr_result = result, cpr_checked = later, cpr_failures = pr_consecutive_failures result\<rparr>, st)))"

text \<open>\<open>seen\<close> is the cache at the first reading, at \<open>first\<close>; \<open>cache\<close> is the one found behind the gate.\<close>

definition check_unannotated ::
    "llm_world \<Rightarrow> config \<Rightarrow> string \<Rightarrow> int \<Rightarrow> cached_probe option \<Rightarrow> int \<Rightarrow> int \<Rightarrow> cached_probe option \<Rightarrow> llm_state
      \<Rightarrow> probe_result \<times> cached_probe option \<times> llm_state" where
  "check_unannotated w config request_id first seen now later cache st =
     (if \<not> hc_llm_enabled (cfg_health config)
      then (with_reasoning_effort (probe_result_of (lw_wall_clock w) (disabled_probe config)) config, cache, st)
      else case fresh_verdict seen config first of
             Some result \<Rightarrow> (result, cache, st)
           | None \<Rightarrow> refresh_probe w config request_id now later cache st)"

text \<open>The expiry of the credential; \<open>num_seconds\<close> is the whole seconds of a difference of two times.\<close>

definition annotate_auth_expiry :: "llm_world \<Rightarrow> (int \<Rightarrow> int) \<Rightarrow> probe_result \<Rightarrow> config \<Rightarrow> probe_result" where
  "annotate_auth_expiry w num_seconds result config =
     (if llc_llm_provider (cfg_llm config) \<noteq> ''codex_auth'' then result
      else case csi_active_credentials (cfg_inventory config) of
             None \<Rightarrow> result
           | Some credentials \<Rightarrow>
               (let result = result\<lparr>pr_auth_token_kind := Some (token_kind_as_str (cc_token_kind credentials))\<rparr> in
                case codex_token_expiry (\<lambda>bs. uc_from_slice (lw_crates w) (map (\<lambda>b. char_of (unat b)) bs)) (lw_from_timestamp w)
                       credentials of
                  None \<Rightarrow> result
                | Some expires_at \<Rightarrow>
                    result\<lparr>pr_auth_expires_at := Some expires_at,
                      pr_auth_expires_in_seconds := Some (num_seconds (expires_at - lw_wall_clock w))\<rparr>))"

definition check_with_upstream ::
    "llm_world \<Rightarrow> (int \<Rightarrow> int) \<Rightarrow> config \<Rightarrow> string \<Rightarrow> int \<Rightarrow> cached_probe option \<Rightarrow> int \<Rightarrow> int \<Rightarrow> cached_probe option
      \<Rightarrow> llm_state \<Rightarrow> probe_result \<times> cached_probe option \<times> llm_state" where
  "check_with_upstream w num_seconds config request_id first seen now later cache st =
     (case check_unannotated w config request_id first seen now later cache st of (result, cache, st) \<Rightarrow>
        (annotate_auth_expiry w num_seconds result config, cache, st))"

definition cached_verdict ::
    "llm_world \<Rightarrow> (int \<Rightarrow> int) \<Rightarrow> cached_probe option \<Rightarrow> config \<Rightarrow> int \<Rightarrow> probe_result option" where
  "cached_verdict w num_seconds cache config now =
     (if \<not> hc_llm_enabled (cfg_health config)
      then Some (annotate_auth_expiry w num_seconds
             (with_reasoning_effort (probe_result_of (lw_wall_clock w) (disabled_probe config)) config) config)
      else map_option (\<lambda>cached. annotate_auth_expiry w num_seconds
             (aged_probe_result cached config (probe_age cached now)) config) cache)"

definition cached_diagnostics ::
    "llm_world \<Rightarrow> (int \<Rightarrow> int) \<Rightarrow> cached_probe option \<Rightarrow> config \<Rightarrow> int \<Rightarrow> probe_result option" where
  "cached_diagnostics w num_seconds cache config now =
     map_option (\<lambda>cached. annotate_auth_expiry w num_seconds (cached_with_age cached config now) config) cache"

text \<open>The check of the CLI, with an upstream of its own, which \<open>built\<close> says could be made, and limits of its own.\<close>

definition health_check ::
    "bool \<Rightarrow> llm_world \<Rightarrow> (int \<Rightarrow> int) \<Rightarrow> config \<Rightarrow> string \<Rightarrow> int \<Rightarrow> cached_probe option \<Rightarrow> int \<Rightarrow> int \<Rightarrow> cached_probe option
      \<Rightarrow> llm_state \<Rightarrow> probe_result \<times> cached_probe option" where
  "health_check built w num_seconds config request_id first seen now later cache st =
     (if \<not> built
      then (probe_result_of (lw_wall_clock w)
              (degraded_probe (llc_llm_provider (cfg_llm config)) (unwrap_or (llc_llm_model (cfg_llm config)) ''none'')
                 ''client_build'' ''LLM health client could not be built''), cache)
      else case check_with_upstream w num_seconds config request_id first seen now later cache (st\<lparr>ls_limits := Map.empty\<rparr>) of
             (result, cache, _) \<Rightarrow> (result, cache))"

section \<open>Rate limits on the registry\<close>

definition llm_rate_limit_metric_state :: "latest_rate_limits \<Rightarrow> string \<Rightarrow> api_error option \<Rightarrow> string" where
  "llm_rate_limit_metric_state limits provider error =
     (if (case error of
            Some (TooManyRequests _) \<Rightarrow> True
          | Some (LlmUpstream e) \<Rightarrow> le_kind e = RateLimited \<or> le_kind e = QuotaExhausted
          | Some (Upstream message) \<Rightarrow> str_contains ''category=rate_limited'' message
          | _ \<Rightarrow> False)
      then ''limited''
      else case limits provider of
             Some snapshot \<Rightarrow> unwrap_or (codex_rate_limit_state snapshot) ''ok''
           | None \<Rightarrow> if provider = ''none'' \<or> provider = ''mock'' then ''ok'' else ''unknown'')"

definition effective_rate_limits :: "latest_rate_limits \<Rightarrow> probe_result \<Rightarrow> rate_limit_snapshot" where
  "effective_rate_limits limits probe = unwrap_or (limits (pr_provider probe)) (pr_rate_limits probe)"

end
