(* ===== verification/Llm_Health_Facts.thy ===== *)
theory Llm_Health_Facts
  imports Llm_Health
begin

text \<open>
  The cache of health verdicts as a state machine: the recorded number of failures is the length of the
  trailing streak of failed probes, a streak at the threshold is unhealthy, and what a diagnostic reports
  callable is a successful probe of bounded age.
\<close>

section \<open>Verdicts\<close>

lemmas probe_verdicts =
  ok_probe_def ok_probe_with_latency_def unhealthy_probe_def auth_failure_probe_def quota_exhausted_probe_def
  rate_limited_probe_def rate_limited_probe_with_latency_def degraded_probe_def invalid_health_probe_def

definition sound_input :: "probe_input \<Rightarrow> bool" where
  "sound_input i = (pin_can_call i \<longrightarrow> pin_status i = ''ok'' \<and> pin_error_kind i = None \<and> pin_auth_valid i)"

lemma error_input_sound: "sound_input (probe_from_upstream_error config provider model error latency)"
  by (simp add: sound_input_def probe_from_upstream_error_def probe_verdicts split: upstream_failure_category.split)

lemma probe_call_sound: "sound_input (fst (probe_call w config provider model call valid st))"
  by (simp add: probe_call_def Let_def error_input_sound split: sum.split)
    (simp add: sound_input_def probe_verdicts)

lemma probe_sound: "sound_input (fst (probe_now w config request_id st))"
proof -
  have "sound_input (fst (probe_openai_responses w config request_id provider model key st))"
    "sound_input (fst (probe_codex_responses w config request_id provider model credentials st))"
    for provider model key credentials
    by (simp_all add: probe_openai_responses_def probe_codex_responses_def probe_call_sound split: prod.split)
  moreover have "sound_input (ok_probe provider model limits)" "sound_input (unhealthy_probe provider model kind message)"
    "sound_input (auth_failure_probe provider model message)" "sound_input (quota_exhausted_probe provider model message)"
    "sound_input (rate_limited_probe provider model b limits message)" "sound_input (degraded_probe provider model kind message)"
    for provider model limits kind message b
    by (simp_all add: sound_input_def probe_verdicts)
  ultimately show ?thesis by (simp add: probe_now_def Let_def split: option.split)
qed

definition sound_verdict :: "probe_result \<Rightarrow> bool" where
  "sound_verdict r = (pr_can_call r \<longrightarrow> pr_status r = ''ok'' \<and> pr_error_kind r = None \<and> pr_auth_valid r)"

text \<open>How a probe counts: one more failure, or none.\<close>

lemma probe_verdict_facts:
  assumes "probe_verdict w config request_id cache st = (r, st')"
  shows "pr_consecutive_failures r = (if is_threshold_failure r then sat_add (previous_failures cache) 1 else 0)"
    and "is_threshold_failure r \<Longrightarrow> max (hc_failure_threshold (cfg_health config)) 1 \<le> pr_consecutive_failures r \<Longrightarrow>
           pr_status r = ''unhealthy'' \<and> \<not> pr_can_call r"
    and "sound_verdict r"
proof -
  obtain i where i: "probe_now w config request_id st = (i, st')"
    and r: "r = judge_probe config (previous_failures cache) (with_reasoning_effort (probe_result_of (lw_wall_clock w) i) config)"
    using assms by (auto simp: probe_verdict_def split: prod.splits)
  have s: "sound_input i" using probe_sound [of w config request_id st] i by simp
  show "pr_consecutive_failures r = (if is_threshold_failure r then sat_add (previous_failures cache) 1 else 0)"
    unfolding r by (simp add: judge_probe_def is_threshold_failure_def Let_def)
  show "pr_status r = ''unhealthy'' \<and> \<not> pr_can_call r"
    if "is_threshold_failure r" "max (hc_failure_threshold (cfg_health config)) 1 \<le> pr_consecutive_failures r"
    using that unfolding r by (auto simp: judge_probe_def is_threshold_failure_def Let_def split: if_splits)
  show "sound_verdict r"
    using s unfolding r
    by (auto simp: judge_probe_def is_threshold_failure_def sound_verdict_def sound_input_def probe_result_of_def
        with_reasoning_effort_def Let_def)
qed

section \<open>Runs\<close>

text \<open>A check that probed the provider: it found no fresh verdict, before the gate or behind it.\<close>

definition probes :: "config \<Rightarrow> int \<Rightarrow> cached_probe option \<Rightarrow> int \<Rightarrow> cached_probe option \<Rightarrow> bool" where
  "probes config first seen now cache =
     (hc_llm_enabled (cfg_health config) \<and> fresh_verdict seen config first = None \<and> fresh_verdict cache config now = None)"

text \<open>\<open>vs\<close> are the verdicts of the probes so far; \<open>seen\<close>, read without the gate, may be any earlier cache.\<close>

inductive probe_run :: "config \<Rightarrow> probe_result list \<Rightarrow> cached_probe option \<Rightarrow> llm_state \<Rightarrow> bool" for config where
  probe_start: "probe_run config [] None st"
| probe_step: "probe_run config vs cache st \<Longrightarrow>
     check_unannotated w config request_id first seen now later cache st = (r, cache', st') \<Longrightarrow>
     probe_run config (if probes config first seen now cache then vs @ [r] else vs) cache' st'"

inductive_cases probe_run_None: "probe_run config vs None st"

definition streak :: "probe_result list \<Rightarrow> nat" where
  "streak vs = length (takeWhile is_threshold_failure (rev vs))"

lemma streak_snoc: "streak (vs @ [r]) = (if is_threshold_failure r then Suc (streak vs) else 0)"
  by (simp add: streak_def)

definition cache_sound :: "config \<Rightarrow> probe_result list \<Rightarrow> cached_probe option \<Rightarrow> bool" where
  "cache_sound config vs cache =
     (case cache of
        None \<Rightarrow> vs = []
      | Some c \<Rightarrow> vs \<noteq> [] \<and> cpr_result c = last vs \<and> unat (cpr_failures c) = min (streak vs) (2 ^ 32 - 1)
          \<and> sound_verdict (last vs)
          \<and> (unat (max (hc_failure_threshold (cfg_health config)) 1) \<le> streak vs \<longrightarrow>
               pr_status (last vs) = ''unhealthy'' \<and> \<not> pr_can_call (last vs)))"

lemma sat_succ: "unat (sat_add a (1::u32)) = min (Suc (unat a)) (2 ^ 32 - 1)"
  using unsigned_less [of a, where 'a = nat] by (auto simp: unat_sat_add)

lemma probed_cache_sound:
  assumes "cache_sound config vs cache" and "probe_verdict w config request_id cache st = (r, st')"
  shows "cache_sound config (vs @ [r]) (Some \<lparr>cpr_result = r, cpr_checked = later, cpr_failures = pr_consecutive_failures r\<rparr>)"
proof -
  note f = probe_verdict_facts [OF assms(2)]
  have before: "unat (previous_failures cache) = min (streak vs) (2 ^ 32 - 1)"
    using assms(1) by (auto simp: cache_sound_def previous_failures_def streak_def split: option.splits)
  have count: "unat (pr_consecutive_failures r) = min (streak (vs @ [r])) (2 ^ 32 - 1)"
    using before by (simp add: f(1) streak_snoc sat_succ min_def)
  have "pr_status r = ''unhealthy'' \<and> \<not> pr_can_call r"
    if "unat (max (hc_failure_threshold (cfg_health config)) 1) \<le> streak (vs @ [r])"
  proof (rule f(2))
    have "unat (max (hc_failure_threshold (cfg_health config)) 1) \<ge> 1"
      by (metis max.cobounded2 unat_1 word_le_nat_alt)
    then show "is_threshold_failure r" using that by (auto simp: streak_snoc split: if_splits)
    have "unat (max (hc_failure_threshold (cfg_health config)) 1) < 2 ^ 32" using unsigned_less [of "max (hc_failure_threshold (cfg_health config)) 1", where 'a = nat] by simp
    then show "max (hc_failure_threshold (cfg_health config)) 1 \<le> pr_consecutive_failures r"
      using that count by (simp add: word_le_nat_alt)
  qed
  then show ?thesis using count f(3) by (simp add: cache_sound_def)
qed

lemma probe_run_sound: "probe_run config vs cache st \<Longrightarrow> cache_sound config vs cache"
proof (induction rule: probe_run.induct)
  case (probe_start st)
  show ?case by (simp add: cache_sound_def)
next
  case (probe_step vs cache st w request_id first seen now later r cache' st')
  show ?case
  proof (cases "probes config first seen now cache")
    case True
    then obtain st'' where "probe_verdict w config request_id cache st = (r, st'')"
      "cache' = Some \<lparr>cpr_result = r, cpr_checked = later, cpr_failures = pr_consecutive_failures r\<rparr>"
      using probe_step.hyps(2) by (auto simp: probes_def check_unannotated_def refresh_probe_def split: prod.splits)
    with probed_cache_sound [OF probe_step.IH] show ?thesis using True by simp
  next
    case False
    then have "cache' = cache"
      using probe_step.hyps(2)
      by (auto simp: probes_def check_unannotated_def refresh_probe_def split: option.splits if_splits)
    then show ?thesis using False probe_step.IH by simp
  qed
qed

end
