(* ===== verification/Llm_Guarantees.thy ===== *)
theory Llm_Guarantees
  imports Config_Guarantees Llm_Health_Facts
begin

text \<open>
  What the language-model registry and its health probe guarantee: a completion is paid for before it is
  sent, an outbound request shows no secret, the failure streak is counted and an old verdict is closed.
\<close>

section \<open>Samples\<close>

definition sample_answer :: json where
  "sample_answer =
     JObject [(''output'', JArray [JObject [(''content'', JArray [JObject
        [(''text'', JString ''fine''), (''type'', JString ''output_text'')]])]]), (''status'', JString ''completed'')]"

definition sample_world :: llm_world where
  "sample_world =
     \<lparr>lw_crates = sample_crates\<lparr>uc_from_slice := (\<lambda>_. Some sample_answer)\<rparr>, lw_from_str = (\<lambda>_. None),
      lw_to_vec = (\<lambda>_. Some ''payload''), lw_evidence_json = (\<lambda>_. None), lw_from_timestamp = (\<lambda>_. None),
      lw_charged_at = 0, lw_started_at = 0, lw_instant_max = 10 ^ 18, lw_attempts = sample_env, lw_headers = (\<lambda>_. []),
      lw_wall_clock = 0, lw_latency_ms = 3, lw_reconciled_at = 5\<rparr>"

definition sample_request :: llm_request where
  "sample_request = llm_request_text ''r'' '' '' ''hi'' 64 ''summary''"

definition sample_llm_config :: config where
  "sample_llm_config =
     config_fields [''RAG_LLM_PROVIDER'' \<mapsto> EnvText ''openai_api_key'', ''RAG_OPENAI_API_KEY'' \<mapsto> EnvText ''abcd'']"

definition sample_policy :: operation_policy where
  "sample_policy =
     \<lparr>opol_deadline = 60000000000, opol_max_response_bytes = 2097152, opol_max_retries = 2,
      opol_initial_backoff = 200000000, opol_max_backoff = 2000000000\<rparr>"

definition sample_client :: openai_client where
  "sample_client =
     \<lparr>oc_provider = ''openai_api_key'', oc_model = default_model, oc_reasoning_effort = None,
      oc_auth_source = ''environment'', oc_api_key = Some ''abcd'', oc_policy = sample_policy\<rparr>"

definition sample_budgeted :: llm_request where
  "sample_budgeted = sample_request\<lparr>lr_attempt_budget :=
     Some \<lparr>lab_principal_key = ''ada'', lab_requests = 3, lab_estimated_tokens = 981\<rparr>\<rparr>"

lemma sample_registry: "registry_client (fst (registry_new sample_llm_config)) ProfilePrimary = OpenAiClient sample_client"
  by code_simp

lemma sample_reserve:
  "reserve sample_world sample_llm_config ProfilePrimary ''ada'' sample_request =
     \<lparr>lab_principal_key = ''ada'', lab_requests = 3, lab_estimated_tokens = 981\<rparr>"
  by code_simp

lemma sample_valid: "validate_request (lw_to_vec sample_world) sample_llm_config ProfilePrimary sample_request = Inr ()"
  by code_simp

lemma sample_redacted:
  "redact_for_provider sample_budgeted [''abcd''] = Some sample_budgeted" "redact_string ''fine'' [''abcd''] = Some ''fine''"
  by code_simp+

lemma sample_charged:
  "fst (charge_state sample_world sample_budgeted (snd (registry_new sample_llm_config))) = Inr ()"
  by code_simp

lemma sample_reply:
  "\<exists>body. execute (lw_crates sample_world) 0 (10 ^ 18) LlmCompletion sample_policy ''r'' sample_env =
     Inr \<lparr>br_status = 200, br_body = body, br_attempts = 2\<rparr>"
proof -
  have "execute (lw_crates sample_world) 0 (10 ^ 18) LlmCompletion sample_policy ''r'' sample_env =
     Inr \<lparr>br_status = 200, br_body = ''ok'', br_attempts = 2\<rparr>" by code_simp
  then show ?thesis by blast
qed

lemma sample_size: "llc_llm_max_response_bytes (cfg_llm sample_llm_config) = 2097152"
  by (simp add: sample_llm_config_def config_fields_def env_llm_def env_number_def)

lemma sample_text:
  "require_response_text sample_answer = Inr ''fine''" "token_usage_from_value (json_get sample_answer ''usage'') = None"
  by code_simp+

lemma sample_world_simps:
  "lw_started_at sample_world = 0" "lw_instant_max sample_world = 10 ^ 18" "lw_attempts sample_world = sample_env"
  "uc_from_slice (lw_crates sample_world) body = Some sample_answer" "lw_latency_ms sample_world = 3"
  "oc_api_key sample_client = Some ''abcd''" "oc_policy sample_client = sample_policy"
  "lm_request_id (lr_metadata sample_budgeted) = ''r''"
  by (simp_all add: sample_world_def sample_client_def sample_budgeted_def sample_request_def llm_request_text_def)

lemma sample_completes:
  "\<exists>response st'. complete_text_inner sample_world sample_llm_config (fst (registry_new sample_llm_config)) ProfilePrimary ''ada''
     sample_request (snd (registry_new sample_llm_config)) = Some (Inr response, st')"
proof -
  let ?st = "snd (registry_new sample_llm_config)"
  obtain st1 where st1: "charge_state sample_world sample_budgeted ?st = (Inr (), st1)"
    using sample_charged by (cases "charge_state sample_world sample_budgeted ?st") simp
  obtain body where b: "execute (lw_crates sample_world) 0 (10 ^ 18) LlmCompletion sample_policy ''r'' sample_env =
     Inr \<lparr>br_status = 200, br_body = body, br_attempts = 2\<rparr>" using sample_reply by blast
  have "\<exists>st'. client_complete_text sample_world sample_llm_config (OpenAiClient sample_client) sample_budgeted ?st =
      Some (Inr \<lparr>ltr_text = ''fine'', ltr_latency_ms = 3, ltr_attempts = 2, ltr_usage = None\<rparr>, st')"
    using b sample_text
    by (simp add: openai_complete_text_def sample_redacted after_charge_def st1 complete_openai_responses_def
        execute_call_def finish_openai_def openai_text_response_def sample_world_simps Let_def decode_openai_response_body_def)
  moreover have "settle_result sample_world sample_llm_config rc (Inr \<lparr>ltr_text = ''fine'', ltr_latency_ms = 3, ltr_attempts = 2, ltr_usage = None\<rparr>, st') = x \<Longrightarrow> \<exists>response st'. x = (Inr response, st')" for rc st' x
    by (auto simp: settle_result_def settle_response_def reconcile_def sample_size)
  ultimately show ?thesis
    using sample_registry
    by (auto simp: complete_text_inner_def sample_valid sample_reserve sample_budgeted_def [symmetric] Let_def
        simp del: registry_client.simps)
qed

section \<open>Completions\<close>

text \<open>
  C12: A completion is paid for. Nothing leaves the registry unless the principal's budget accepted the attempts
  and tokens reserved for the request; when a completion is returned, the budget it leaves is the one this
  charge left, with the usage the provider reported reconciled against the reservation. Its size is within the
  configured limit, and with a provider it took at most the reserved attempts and its text shows no secret of
  the snapshot it was made with.
\<close>

theorem completion_paid_and_clean:
  assumes "complete_text_inner w config (fst (registry_new config)) profile key request st = Some (answer, st')"
  defines "charged \<equiv> charge (ls_budget st) (lw_charged_at w) key (reserved_attempts config profile)
       (sat_mul (request_estimate w config profile request) (reserved_attempts config profile))"
  shows "(ls_calls st' \<noteq> ls_calls st \<longrightarrow> fst charged = Inr ())
    \<and> (\<forall>response. answer = Inr response \<longrightarrow> fst charged = Inr ()
         \<and> reconcile \<lparr>rc_principal_key = key, rc_attempts = reserved_attempts config profile,
               rc_estimated_tokens_per_attempt = request_estimate w config profile request,
               rc_reserved_tokens = sat_mul (request_estimate w config profile request) (reserved_attempts config profile)\<rparr>
             (snd charged) (lw_reconciled_at w) (ltr_usage response) = (Inr (), ls_budget st')
         \<and> length (ltr_text response) \<le> llc_llm_max_response_bytes (cfg_llm config)
         \<and> (configured_provider config profile \<in> {''openai_api_key'', ''codex_auth''} \<longrightarrow>
              unat (ltr_attempts response) \<le> unat (reserved_attempts config profile)
              \<and> (\<exists>cs. ltr_text response = concat cs
                   \<and> clean (map chars (snapshot_secrets config (registry_client (fst (registry_new config)) profile))) cs)))"
proof (cases "validate_request (lw_to_vec w) config profile request")
  case (Inl e)
  then have "answer = Inl e" "st' = st" using assms(1) by (simp_all add: complete_text_inner_def)
  then show ?thesis by simp
next
  case (Inr u)
  let ?c = "registry_client (fst (registry_new config)) profile"
  let ?b = "reserve w config profile key request"
  let ?q = "request\<lparr>lr_attempt_budget := Some ?b\<rparr>"
  let ?rc = "reconciliation_of ?b (request_estimate w config profile request)"
  obtain x st1 where x: "client_complete_text w config ?c ?q st = Some (x, st1)"
    and s: "settle_result w config ?rc (x, st1) = (answer, st')"
    using assms(1) Inr by (auto simp: complete_text_inner_def Let_def)
  have charged: "charged = charge (ls_budget st) (lw_charged_at w) (lab_principal_key ?b) (lab_requests ?b) (lab_estimated_tokens ?b)"
    by (simp add: charged_def reserve_def Let_def)
  have paid: "client_paid charged st x st1"
    unfolding charged by (rule client_complete_paid [OF x]) simp
  have "ls_calls st' = ls_calls st1" using settle_result_calls [of w config ?rc "(x, st1)"] by (simp add: s)
  with paid have sent: "ls_calls st' \<noteq> ls_calls st \<longrightarrow> fst charged = Inr ()" by (auto simp: client_paid_def)
  have "fst charged = Inr ()
      \<and> reconcile ?rc (snd charged) (lw_reconciled_at w) (ltr_usage response) = (Inr (), ls_budget st')
      \<and> length (ltr_text response) \<le> llc_llm_max_response_bytes (cfg_llm config)
      \<and> (configured_provider config profile \<in> {''openai_api_key'', ''codex_auth''} \<longrightarrow>
           unat (ltr_attempts response) \<le> unat (reserved_attempts config profile)
           \<and> (\<exists>cs. ltr_text response = concat cs \<and> clean (map chars (snapshot_secrets config ?c)) cs))"
    if a: "answer = Inr response" for response
  proof -
    have x': "x = Inr response" and size: "length (ltr_text response) \<le> llc_llm_max_response_bytes (cfg_llm config)"
      using settle_result_Inr [OF s [unfolded a]] by simp_all
    have "fst charged = Inr ()" and budget: "ls_budget st1 = snd charged" using paid x' by (auto simp: client_paid_def)
    moreover have "reconcile ?rc (snd charged) (lw_reconciled_at w) (ltr_usage response) = (Inr (), ls_budget st')"
      using s unfolding a x' by (rule settle_result_budget [where st = st1, unfolded budget])
    moreover have "unat (ltr_attempts response) \<le> unat (reserved_attempts config profile)
        \<and> (\<exists>cs. ltr_text response = concat cs \<and> clean (map chars (snapshot_secrets config ?c)) cs)"
      if p: "configured_provider config profile \<in> {''openai_api_key'', ''codex_auth''}"
    proof -
      have "client_policy_of ?c = Some (llm_operation_policy config)" using p by (auto simp: profile_client_policy)
      from provider_answer [OF x [unfolded x'] this] have k: "kept_answer (llm_operation_policy config) (snapshot_secrets config ?c) response" .
      then have "Suc (unat (opol_max_retries (llm_operation_policy config))) \<le> unat (reserved_attempts config profile)"
        using reserved_covers_policy p by (auto simp: kept_answer_def)
      with k redact_string_clean show ?thesis unfolding kept_answer_def by (metis le_trans)
    qed
    ultimately show ?thesis using size by blast
  qed
  with sent show ?thesis by (simp add: reconciliation_of_def reserve_def Let_def)
qed

lemma completion_paid_and_clean_witness:
  "\<exists>response st'. complete_text_inner sample_world sample_llm_config (fst (registry_new sample_llm_config)) ProfilePrimary ''ada''
       sample_request (snd (registry_new sample_llm_config)) = Some (Inr response, st')
     \<and> length (ltr_text response) \<le> llc_llm_max_response_bytes (cfg_llm sample_llm_config)"
  using sample_completes completion_paid_and_clean by blast

text \<open>
  C11: What the registry hands to the upstream client for a completion or a stream is at most one call; its
  bearer token is a secret of the credential snapshot, and its payload is that of a request none of whose
  texts shows a secret of the same snapshot, whatever the outcome.
\<close>

theorem outbound_request_clean:
  assumes "inventory_ok (cfg_inventory config)" and "list_all utf8_text (request_texts request)"
    and "map_option snd (complete_text_inner w config self profile key request st) = Some st'
      \<or> map_option snd (stream_text_inner w config self profile key request st) = Some st'"
  shows "sends_safely w (snapshot_secrets config (registry_client self profile)) st st'"
proof -
  let ?b = "reserve w config profile key request"
  let ?q = "request\<lparr>lr_attempt_budget := Some ?b\<rparr>"
  have q: "list_all utf8_text (request_texts ?q)" using assms(2) by (simp add: request_texts_def)
  have same: "sends_safely w secrets st s1" if "sends_safely w secrets st s2" "ls_calls s1 = ls_calls s2" for secrets s1 s2
    using that by (simp add: sends_safely_def)
  show ?thesis
  proof (cases "validate_request (lw_to_vec w) config profile request")
    case (Inl e)
    then show ?thesis using assms(3) by (auto simp: complete_text_inner_def stream_text_inner_def)
  next
    case (Inr u)
    from assms(3) show ?thesis
    proof
      assume "map_option snd (complete_text_inner w config self profile key request st) = Some st'"
      then obtain x where c: "client_complete_text w config (registry_client self profile) ?q st = Some (fst x, snd x)"
        and "st' = snd (settle_result w config (reconciliation_of ?b (request_estimate w config profile request)) x)"
        using Inr by (auto simp: complete_text_inner_def Let_def)
      then have "ls_calls st' = ls_calls (snd x)" by simp
      with client_complete_sends [OF c q assms(1)] same show ?thesis by blast
    next
      assume "map_option snd (stream_text_inner w config self profile key request st) = Some st'"
      then obtain r where c: "client_stream_text w config (registry_client self profile) ?q st = Some (r, st')"
        using Inr by (auto simp: stream_text_inner_def Let_def)
      then show ?thesis by (rule client_stream_sends [OF _ q assms(1)])
    qed
  qed
qed


lemma outbound_request_clean_witness:
  "\<exists>st'. sends_safely sample_world
     (snapshot_secrets sample_llm_config (registry_client (fst (registry_new sample_llm_config)) ProfilePrimary))
     (snd (registry_new sample_llm_config)) st'"
proof -
  obtain response st' where c: "complete_text_inner sample_world sample_llm_config (fst (registry_new sample_llm_config)) ProfilePrimary
     ''ada'' sample_request (snd (registry_new sample_llm_config)) = Some (Inr response, st')"
    using sample_completes by blast
  have "inventory_ok (cfg_inventory sample_llm_config)"
    by (simp add: sample_llm_config_def config_fields_def inventory_ok_def)
  moreover have "list_all utf8_text (request_texts sample_request)" by code_simp
  ultimately show ?thesis
    using outbound_request_clean [of sample_llm_config sample_request sample_world "fst (registry_new sample_llm_config)"
        ProfilePrimary "''ada''" "snd (registry_new sample_llm_config)" st'] c
    by auto
qed

section \<open>Health\<close>

text \<open>
  C23: However checks of one profile follow each other, the cached verdict is that of the last probe, and its
  failure count is the number of probes since the last one that did not end in a server error or a timeout,
  saturated: any other verdict, a success or a failure of another kind (authentication, quota, rate limit),
  sets it to zero. A streak of server errors and timeouts that reaches the configured threshold, a threshold of
  zero counting as one, is unhealthy and not callable.
\<close>

theorem failure_streak_recorded:
  assumes "probe_run config vs (Some cached) st"
  shows "vs \<noteq> [] \<and> cpr_result cached = last vs \<and> unat (cpr_failures cached) = min (streak vs) (2 ^ 32 - 1)
    \<and> (pr_error_kind (last vs) \<notin> {Some ''server_error'', Some ''timeout''} \<longrightarrow> cpr_failures cached = 0)
    \<and> (unat (max (hc_failure_threshold (cfg_health config)) 1) \<le> streak vs \<longrightarrow>
         pr_status (last vs) = ''unhealthy'' \<and> \<not> pr_can_call (last vs))"
proof -
  have s: "vs \<noteq> []" "unat (cpr_failures cached) = min (streak vs) (2 ^ 32 - 1)"
    using probe_run_sound [OF assms] by (simp_all add: cache_sound_def)
  have "cpr_failures cached = 0" if "pr_error_kind (last vs) \<notin> {Some ''server_error'', Some ''timeout''}"
  proof -
    have "streak vs = 0"
      using that s(1) by (cases vs rule: rev_cases) (simp_all add: streak_snoc is_threshold_failure_def)
    then show ?thesis using s(2) unat_eq_zero [of "cpr_failures cached"] by simp
  qed
  then show ?thesis using probe_run_sound [OF assms] s by (auto simp: cache_sound_def)
qed

text \<open>
  C26: A diagnostic reports the provider callable only if the last probe of it succeeded, its failure streak is
  empty and it is no older than the configured staleness; older verdicts are closed.
\<close>

theorem callable_diagnostic_live:
  assumes "probe_run config vs cache st" and "cached_diagnostics w num_seconds cache config now = Some r" and "pr_can_call r"
  shows "vs \<noteq> [] \<and> pr_status (last vs) = ''ok'' \<and> pr_error_kind (last vs) = None \<and> streak vs = 0
    \<and> (\<exists>c. cache = Some c \<and> probe_age c now \<le> from_secs (hc_max_stale_seconds (cfg_health config)))"
proof -
  obtain c where c: "cache = Some c" and r: "r = annotate_auth_expiry w num_seconds (cached_with_age c config now) config"
    using assms(2) by (auto simp: cached_diagnostics_def)
  have "pr_can_call (cached_with_age c config now)"
    using assms(3) unfolding r by (simp add: annotate_auth_expiry_def Let_def split: if_splits option.splits)
  then have call: "pr_can_call (cpr_result c)"
    and age: "probe_age c now \<le> from_secs (hc_max_stale_seconds (cfg_health config))"
    by (auto simp: cached_with_age_def aged_probe_result_def Let_def split: if_splits)
  from probe_run_sound [OF assms(1)] have s: "vs \<noteq> []" "cpr_result c = last vs" "sound_verdict (last vs)"
    by (auto simp: cache_sound_def c)
  then have ok: "pr_status (last vs) = ''ok''" "pr_error_kind (last vs) = None" using call by (auto simp: sound_verdict_def)
  obtain us v where "vs = us @ [v]" using s(1) by (cases vs rule: rev_cases) auto
  then have "streak vs = 0" using ok(2) by (simp add: streak_snoc is_threshold_failure_def)
  then show ?thesis using s(1) ok age c by blast
qed

definition mock_config :: "string \<Rightarrow> config" where
  "mock_config provider = config_fields [''RAG_LLM_PROVIDER'' \<mapsto> EnvText provider]"

lemma mock_config_simps:
  "llc_llm_provider (cfg_llm (mock_config p)) = p" "hc_llm_enabled (cfg_health (mock_config p))"
  "hc_failure_threshold (cfg_health (mock_config p)) = 3" "hc_max_stale_seconds (cfg_health (mock_config p)) = 120"
  by (simp_all add: mock_config_def config_fields_def env_llm_def env_health_def env_var_def env_flag_def env_number_def
      unwrap_or_def)

text \<open>The verdict and the cache after one check of a mock provider.\<close>

definition mock_checked :: "string \<Rightarrow> probe_result \<times> cached_probe option \<times> llm_state" where
  "mock_checked p = check_unannotated sample_world (mock_config p) ''r'' 0 None 1 2 None (snd (registry_new (mock_config p)))"

lemma mock_run:
  "probe_run (mock_config p) [fst (mock_checked p)] (fst (snd (mock_checked p))) (snd (snd (mock_checked p)))"
  using probe_step [OF probe_start, of sample_world "mock_config p" "''r''" 0 None 1 2
      "snd (registry_new (mock_config p))" "fst (mock_checked p)" "fst (snd (mock_checked p))" "snd (snd (mock_checked p))"]
  by (simp add: mock_checked_def probes_def mock_config_simps fresh_verdict_def)

lemma mock_cached:
  "\<exists>c. fst (snd (mock_checked p)) = Some c \<and> cpr_result c = fst (mock_checked p) \<and> cpr_checked c = 2"
  by (simp add: mock_checked_def check_unannotated_def refresh_probe_def mock_config_simps fresh_verdict_def split: prod.split)

lemma failure_streak_recorded_witness:
  "\<exists>c. fst (snd (mock_checked ''mock_timeout'')) = Some c \<and> unat (cpr_failures c) = 1"
proof -
  obtain c where c: "fst (snd (mock_checked ''mock_timeout'')) = Some c" using mock_cached by blast
  have "is_threshold_failure (fst (mock_checked ''mock_timeout''))"
    by (simp add: mock_checked_def check_unannotated_def refresh_probe_def mock_config_simps fresh_verdict_def probe_verdict_def
        probe_now_def degraded_probe_def probe_result_of_def with_reasoning_effort_def judge_probe_def is_threshold_failure_def Let_def)
  then have "streak [fst (mock_checked ''mock_timeout'')] = 1" by (simp add: streak_def)
  with failure_streak_recorded [OF mock_run [of "''mock_timeout''", unfolded c]] c show ?thesis by auto
qed

lemma callable_diagnostic_live_witness:
  "\<exists>c. fst (snd (mock_checked ''mock'')) = Some c \<and> probe_age c 5 \<le> 120000000000"
proof -
  obtain c where c: "fst (snd (mock_checked ''mock'')) = Some c" "cpr_result c = fst (mock_checked ''mock'')" "cpr_checked c = 2"
    using mock_cached by blast
  have "pr_can_call (fst (mock_checked ''mock''))"
    by (simp add: mock_checked_def check_unannotated_def refresh_probe_def mock_config_simps fresh_verdict_def probe_verdict_def
        probe_now_def ok_probe_def ok_probe_with_latency_def probe_result_of_def with_reasoning_effort_def judge_probe_def
        is_threshold_failure_def Let_def)
  then have "pr_can_call (cached_with_age c (mock_config ''mock'') 5)"
    using c by (simp add: cached_with_age_def aged_probe_result_def probe_age_def mock_config_simps from_secs_def Let_def)
  with callable_diagnostic_live [OF mock_run [of "''mock''", unfolded c(1)], of sample_world id 5] c(1) show ?thesis
    by (auto simp: cached_diagnostics_def annotate_auth_expiry_def mock_config_simps from_secs_def)
qed

end
