(* ===== verification/Parser_Blocks.thy ===== *)
theory Parser_Blocks
  imports Config_Env Analysis
begin

text \<open>
  The blocks of a parsed document (\<open>parser.rs\<close>): the items of a content list are read field by field, each
  measured against its bound and against the bytes left of the materialisation budget before it is copied.
  The size of an encoded JSON value, the text of a floating-point number and SHA-256 are parameters.
\<close>

section \<open>The budget\<close>

definition max_parsed_blocks :: nat where "max_parsed_blocks = 10000"
definition max_parsed_images :: nat where "max_parsed_images = 10000"
definition max_block_field_bytes :: nat where "max_block_field_bytes = 1048576"
definition max_block_id_bytes :: nat where "max_block_id_bytes = 256"
definition max_block_type_bytes :: nat where "max_block_type_bytes = 64"
definition max_section_depth :: nat where "max_section_depth = 64"
definition max_section_bytes :: nat where "max_section_bytes = 16384"
definition max_reference_bytes :: nat where "max_reference_bytes = 16384"
definition max_bbox_bytes :: nat where "max_bbox_bytes = 65536"
definition max_parser_label_bytes :: nat where "max_parser_label_bytes = 128"
definition usize_max :: nat where "usize_max = 18446744073709551615"

definition unsafe_parser_output :: api_error where
  "unsafe_parser_output = Upstream ''parser output failed safety validation''"

record parser_crates =
  pk_json_len :: "json \<Rightarrow> nat"
  pk_float_text :: "f64 \<Rightarrow> string"
  pk_sha256_hex :: "string \<Rightarrow> string"

definition add_retained_bytes :: "nat \<Rightarrow> nat \<Rightarrow> nat \<Rightarrow> api_error + nat" where
  "add_retained_bytes sofar amount max_metadata_bytes =
     (if usize_max < sofar + amount then Inl unsafe_parser_output
      else if max_metadata_bytes < sofar + amount then Inl unsafe_parser_output
      else Inr (sofar + amount))"

text \<open>The writer counts what \<open>serde_json\<close> writes and fails at the first write past the bound.\<close>

definition encoded_json_len_bounded :: "parser_crates \<Rightarrow> json \<Rightarrow> nat \<Rightarrow> api_error + nat" where
  "encoded_json_len_bounded pk v max_bytes =
     (if max_bytes < pk_json_len pk v then Inl unsafe_parser_output else Inr (pk_json_len pk v))"

definition encoded_json_len :: "parser_crates \<Rightarrow> json \<Rightarrow> api_error + nat" where
  "encoded_json_len pk v = encoded_json_len_bounded pk v usize_max"

record materialization_budget =
  mb_retained :: nat
  mb_max :: nat

definition budget_with_retained :: "nat \<Rightarrow> nat \<Rightarrow> api_error + materialization_budget" where
  "budget_with_retained max_metadata_bytes retained_bytes =
     (if max_metadata_bytes = 0 \<or> max_metadata_bytes < retained_bytes then Inl unsafe_parser_output
      else Inr \<lparr>mb_retained = retained_bytes, mb_max = max_metadata_bytes\<rparr>)"

definition budget_reserve :: "materialization_budget \<Rightarrow> nat \<Rightarrow> api_error + materialization_budget" where
  "budget_reserve self amount =
     rbind (add_retained_bytes (mb_retained self) amount (mb_max self)) (\<lambda>n. Inr (self\<lparr>mb_retained := n\<rparr>))"

definition budget_remaining :: "materialization_budget \<Rightarrow> nat" where
  "budget_remaining self = mb_max self - mb_retained self"

section \<open>Fields\<close>

text \<open>\<open>Number::to_string\<close>\<close>

definition number_text :: "parser_crates \<Rightarrow> json_number \<Rightarrow> string" where
  "number_text pk n =
     (case n of
        PosInt u \<Rightarrow> show_nat (unat u)
      | NegInt i \<Rightarrow> (if sint i < 0 then CHR ''-'' # show_nat (nat (- sint i)) else show_nat (nat (sint i)))
      | Float f \<Rightarrow> pk_float_text pk f)"

definition stringish_ref :: "parser_crates \<Rightarrow> json \<Rightarrow> string option" where
  "stringish_ref pk v =
     (case v of
        JString t \<Rightarrow> if blank t then None else Some t
      | JNumber n \<Rightarrow> Some (number_text pk n)
      | _ \<Rightarrow> None)"

fun first_of_keys :: "(json \<Rightarrow> 'a option) \<Rightarrow> json \<Rightarrow> string list \<Rightarrow> 'a option" where
  "first_of_keys f v [] = None"
| "first_of_keys f v (k # ks) =
     (case Option.bind (json_get v k) f of Some a \<Rightarrow> Some a | None \<Rightarrow> first_of_keys f v ks)"

definition first_value_field_ref :: "json \<Rightarrow> string list \<Rightarrow> json option" where
  "first_value_field_ref = first_of_keys Some"

definition first_stringish_field :: "parser_crates \<Rightarrow> json \<Rightarrow> string list \<Rightarrow> string option" where
  "first_stringish_field pk = first_of_keys (stringish_ref pk)"

definition u32ish :: "json \<Rightarrow> u32 option" where
  "u32ish v =
     (case v of
        JNumber (PosInt u) \<Rightarrow> if unat u < 2 ^ 32 then Some (ucast u) else None
      | JString t \<Rightarrow> parse_u32 t
      | _ \<Rightarrow> None)"

definition first_u32_field :: "json \<Rightarrow> string list \<Rightarrow> u32 option" where
  "first_u32_field = first_of_keys u32ish"

definition first_u8_field :: "json \<Rightarrow> string list \<Rightarrow> u8 option" where
  "first_u8_field = first_of_keys (\<lambda>v. Option.bind (u32ish v) (\<lambda>n. if unat n < 256 then Some (ucast n) else None))"

definition bounded_string_field ::
    "parser_crates \<Rightarrow> json \<Rightarrow> string list \<Rightarrow> nat \<Rightarrow> bool \<Rightarrow> materialization_budget
      \<Rightarrow> api_error + string option \<times> materialization_budget" where
  "bounded_string_field pk v keys max_bytes reject_control budget =
     (case first_stringish_field pk v keys of
        None \<Rightarrow> Inr (None, budget)
      | Some t \<Rightarrow>
          rbind (ensure (length t \<le> max_bytes \<and> \<not> (reject_control \<and> has_control t)) unsafe_parser_output) (\<lambda>_.
          rbind (budget_reserve budget (length t)) (\<lambda>budget. Inr (Some t, budget))))"

definition bounded_json_field ::
    "parser_crates \<Rightarrow> json \<Rightarrow> string list \<Rightarrow> nat \<Rightarrow> materialization_budget
      \<Rightarrow> api_error + json option \<times> materialization_budget" where
  "bounded_json_field pk v keys max_bytes budget =
     (case first_value_field_ref v keys of
        None \<Rightarrow> Inr (None, budget)
      | Some v \<Rightarrow>
          rbind (encoded_json_len_bounded pk v (min max_bytes (budget_remaining budget))) (\<lambda>len.
          rbind (budget_reserve budget len) (\<lambda>budget. Inr (Some v, budget))))"

section \<open>Texts of several parts\<close>

record textish_measure =
  tm_bytes :: nat
  tm_parts :: nat

definition add_textish_part :: "textish_measure \<Rightarrow> nat \<Rightarrow> api_error + textish_measure" where
  "add_textish_part sofar bytes =
     (let separator = (if 0 < tm_parts sofar then 1 else 0);
          summed = tm_bytes sofar + separator + bytes; parts = tm_parts sofar + 1
      in if usize_max < summed \<or> usize_max < parts then Inl unsafe_parser_output
         else Inr \<lparr>tm_bytes = summed, tm_parts = parts\<rparr>)"

fun measure_textish :: "parser_crates \<Rightarrow> json \<Rightarrow> nat \<Rightarrow> textish_measure \<Rightarrow> api_error + textish_measure"
and measure_textish_items :: "parser_crates \<Rightarrow> json list \<Rightarrow> nat \<Rightarrow> textish_measure \<Rightarrow> api_error + textish_measure" where
  "measure_textish pk v depth sofar =
     (if max_section_depth < depth then Inl unsafe_parser_output
      else case v of
        JString t \<Rightarrow> if blank t then Inr sofar else add_textish_part sofar (length t)
      | JArray items \<Rightarrow> measure_textish_items pk items (depth + 1) sofar
      | JObject m \<Rightarrow>
          (case first_stringish_field pk v [''text'', ''content'', ''caption''] of
             Some t \<Rightarrow> add_textish_part sofar (length t) | None \<Rightarrow> Inr sofar)
      | _ \<Rightarrow> Inr sofar)"
| "measure_textish_items pk [] depth sofar = Inr sofar"
| "measure_textish_items pk (item # items) depth sofar =
     rbind (measure_textish pk item depth sofar) (measure_textish_items pk items depth)"

definition append_textish_part :: "string \<times> bool \<Rightarrow> string \<Rightarrow> string \<times> bool" where
  "append_textish_part output t =
     (case output of (out, has_part) \<Rightarrow> (out @ (if has_part then [CHR 0x0A] else []) @ t, True))"

fun append_textish :: "parser_crates \<Rightarrow> json \<Rightarrow> string \<times> bool \<Rightarrow> string \<times> bool"
and append_textish_items :: "parser_crates \<Rightarrow> json list \<Rightarrow> string \<times> bool \<Rightarrow> string \<times> bool" where
  "append_textish pk v out =
     (case v of
        JString t \<Rightarrow> if blank t then out else append_textish_part out t
      | JArray items \<Rightarrow> append_textish_items pk items out
      | JObject m \<Rightarrow>
          (case first_stringish_field pk v [''text'', ''content'', ''caption''] of
             Some t \<Rightarrow> append_textish_part out t | None \<Rightarrow> out)
      | _ \<Rightarrow> out)"
| "append_textish_items pk [] out = out"
| "append_textish_items pk (item # items) out = append_textish_items pk items (append_textish pk item out)"

fun bounded_textish_field ::
    "parser_crates \<Rightarrow> json \<Rightarrow> string list \<Rightarrow> nat \<Rightarrow> materialization_budget
      \<Rightarrow> api_error + string option \<times> materialization_budget" where
  "bounded_textish_field pk v [] max_bytes budget = Inr (None, budget)"
| "bounded_textish_field pk v (k # ks) max_bytes budget =
     (case json_get v k of
        None \<Rightarrow> bounded_textish_field pk v ks max_bytes budget
      | Some candidate \<Rightarrow>
          rbind (measure_textish pk candidate 0 \<lparr>tm_bytes = 0, tm_parts = 0\<rparr>) (\<lambda>sofar.
          if tm_parts sofar = 0 then bounded_textish_field pk v ks max_bytes budget
          else
            rbind (ensure (tm_bytes sofar \<le> max_bytes) unsafe_parser_output) (\<lambda>_.
            rbind (budget_reserve budget (tm_bytes sofar)) (\<lambda>budget.
              Inr (Some (fst (append_textish pk candidate ([], False))), budget)))))"

section \<open>Sections\<close>

text \<open>The summed sections, each within its bound.\<close>

definition add_section :: "nat \<Rightarrow> string \<Rightarrow> api_error + nat" where
  "add_section sofar section =
     (if max_section_bytes < length section \<or> usize_max < sofar + length section then Inl unsafe_parser_output
      else Inr (sofar + length section))"

definition bounded_section_path_from_item ::
    "parser_crates \<Rightarrow> json \<Rightarrow> materialization_budget \<Rightarrow> api_error + string list option \<times> materialization_budget" where
  "bounded_section_path_from_item pk v budget =
     (case json_get v ''section_path'' of
        Some (JArray items) \<Rightarrow>
          if max_section_depth < length items then Inl unsafe_parser_output
          else
            (let sections = List.map_filter (stringish_ref pk) items in
             if sections = [] then Inr (None, budget)
             else rbind (rfold add_section 0 sections) (\<lambda>sofar.
                  rbind (budget_reserve budget sofar) (\<lambda>budget. Inr (Some sections, budget))))
      | Some (JString t) \<Rightarrow>
          if blank t then Inr (None, budget)
          else rbind (ensure (length t \<le> max_section_bytes) unsafe_parser_output) (\<lambda>_.
               rbind (budget_reserve budget (length t)) (\<lambda>budget. Inr (Some [t], budget)))
      | _ \<Rightarrow> Inr (None, budget))"

definition clone_section_stack ::
    "string list \<Rightarrow> materialization_budget \<Rightarrow> api_error + string list \<times> materialization_budget" where
  "clone_section_stack section_stack budget =
     rbind (ensure (length section_stack \<le> max_section_depth) unsafe_parser_output) (\<lambda>_.
     rbind (rfold add_section 0 section_stack) (\<lambda>sofar.
     rbind (budget_reserve budget sofar) (\<lambda>budget. Inr (section_stack, budget))))"

section \<open>Items\<close>

definition normalize_block_type :: "string option \<Rightarrow> string" where
  "normalize_block_type v =
     (let t = ascii_lower (unwrap_or v ''paragraph''); among = List.member in
      if among [''title'', ''heading''] t then ''title''
      else if among [''paragraph'', ''para'', ''text'', ''plain_text''] t then ''paragraph''
      else if among [''table'', ''table_body''] t then ''table''
      else if among [''equation'', ''formula'', ''interline_equation'', ''inline_equation''] t then ''equation''
      else if among [''image'', ''figure'', ''image_body''] t then ''image''
      else if among [''code'', ''code_block''] t then ''code''
      else if among [''list'', ''list_item''] t then ''list''
      else if among [''page_number'', ''page''] t then ''page_number''
      else if among [''chart'', ''seal'', ''header'', ''footer'', ''footnote''] t then t
      else ''paragraph'')"

definition le_bytes :: "u32 \<Rightarrow> string" where
  "le_bytes n = map (\<lambda>i. char_of (unat n div 256 ^ i mod 256)) [0..<4]"

definition stable_block_id :: "parser_crates \<Rightarrow> u32 \<Rightarrow> string \<Rightarrow> u32 option \<Rightarrow> string \<Rightarrow> string" where
  "stable_block_id pk index block_type page_idx body =
     ''block_'' @ take 24 (pk_sha256_hex pk (le_bytes index @ block_type @ le_bytes (unwrap_or page_idx 0) @ body))"

definition content_list_keys :: "string list" where
  "content_list_keys = [''content_list_v2'', ''content_list'', ''blocks'', ''items'', ''data'', ''result'']"

text \<open>The nested value is smaller; the depth is bounded besides.\<close>

lemma bt_get_size: "bt_get m k = Some v \<Longrightarrow> size v < size (JObject m)"
  by (induction m) (auto split: if_splits)

lemma first_value_size: "first_of_keys Some v ks = Some w \<Longrightarrow> size w < size v"
  by (induction ks) (cases v; auto split: option.splits dest: bt_get_size)+

function collect_block_items :: "json \<Rightarrow> json list \<Rightarrow> nat \<Rightarrow> api_error + json list" where
  "collect_block_items v out depth =
     (if max_section_depth < depth then Inl unsafe_parser_output
      else case v of
        JArray items \<Rightarrow>
          if max_parsed_blocks - length out < length items then Inl unsafe_parser_output else Inr (out @ items)
      | JObject m \<Rightarrow>
          (case first_value_field_ref v content_list_keys of
             Some nested \<Rightarrow> collect_block_items nested out (depth + 1)
           | None \<Rightarrow> if length out = max_parsed_blocks then Inl unsafe_parser_output else Inr (out @ [v]))
      | _ \<Rightarrow> Inr out)"
  by pat_completeness auto
termination
  by (relation "measure (\<lambda>(v, _, _). size v)") (auto simp: first_value_field_ref_def dest: first_value_size)

declare collect_block_items.simps [simp del]

text \<open>The six texts of an item, in the order in which they are read.\<close>

record item_texts =
  ix_text :: "string option"
  ix_html :: "string option"
  ix_latex :: "string option"
  ix_image_ref :: "string option"
  ix_caption :: "string option"
  ix_footnote :: "string option"

definition read_item_texts ::
    "parser_crates \<Rightarrow> json \<Rightarrow> string \<Rightarrow> materialization_budget \<Rightarrow> api_error + item_texts \<times> materialization_budget" where
  "read_item_texts pk item block_type budget =
     rbind (bounded_string_field pk item [''text'', ''content'', ''md'', ''markdown'']
              (if block_type = ''title'' then max_section_bytes else max_block_field_bytes) False budget) (\<lambda>(t, budget).
     rbind (bounded_string_field pk item [''html'', ''table_html'', ''table_body''] max_block_field_bytes False budget) (\<lambda>(html, budget).
     rbind (bounded_string_field pk item [''latex'', ''latex_text'', ''formula'', ''equation''] max_block_field_bytes False budget)
       (\<lambda>(latex, budget).
     rbind (bounded_string_field pk item [''image_ref'', ''image_path'', ''img_path'', ''image'', ''src''] max_reference_bytes False
              budget) (\<lambda>(image_ref, budget).
     rbind (bounded_textish_field pk item [''caption'', ''image_caption'', ''table_caption''] max_block_field_bytes budget)
       (\<lambda>(caption, budget).
     rbind (bounded_textish_field pk item [''footnote'', ''image_footnote'', ''table_footnote''] max_block_field_bytes budget)
       (\<lambda>(footnote, budget).
       Inr (\<lparr>ix_text = t, ix_html = html, ix_latex = latex, ix_image_ref = image_ref, ix_caption = caption,
             ix_footnote = footnote\<rparr>, budget)))))))"

text \<open>A title opens a section; the stack is cut at its level.\<close>

definition open_section ::
    "string \<Rightarrow> string option \<Rightarrow> u8 option \<Rightarrow> string list \<Rightarrow> materialization_budget
      \<Rightarrow> api_error + string list \<times> materialization_budget" where
  "open_section block_type t text_level section_stack budget =
     (if block_type \<noteq> ''title'' then Inr (section_stack, budget)
      else case t of
        None \<Rightarrow> Inr (section_stack, budget)
      | Some title \<Rightarrow>
          if blank title then Inr (section_stack, budget)
          else
            (let level = unat (max (unwrap_or text_level 1) 1) in
             if max_section_depth < level then Inl unsafe_parser_output
             else rbind (budget_reserve budget (length title)) (\<lambda>budget.
                  Inr (take (level - 1) section_stack @ [title], budget))))"

definition item_section_path ::
    "parser_crates \<Rightarrow> json \<Rightarrow> string \<Rightarrow> string option \<Rightarrow> u8 option \<Rightarrow> string list \<Rightarrow> materialization_budget
      \<Rightarrow> api_error + string list \<times> string list \<times> materialization_budget" where
  "item_section_path pk item block_type t text_level section_stack budget =
     rbind (bounded_section_path_from_item pk item budget) (\<lambda>(path, budget).
     case path of
       Some section_path \<Rightarrow> Inr (section_path, section_stack, budget)
     | None \<Rightarrow>
         rbind (open_section block_type t text_level section_stack budget) (\<lambda>(section_stack, budget).
         rbind (clone_section_stack section_stack budget) (\<lambda>(section_path, budget).
           Inr (section_path, section_stack, budget))))"

definition item_block_id ::
    "parser_crates \<Rightarrow> json \<Rightarrow> nat \<Rightarrow> string \<Rightarrow> u32 option \<Rightarrow> item_texts \<Rightarrow> materialization_budget
      \<Rightarrow> api_error + string \<times> materialization_budget" where
  "item_block_id pk item idx block_type page_idx texts budget =
     rbind (bounded_string_field pk item [''block_id'', ''id''] max_block_id_bytes True budget) (\<lambda>(given, budget).
     case given of
       Some block_id \<Rightarrow> Inr (block_id, budget)
     | None \<Rightarrow>
         (let body = unwrap_or (option_or (ix_text texts) (option_or (ix_html texts) (option_or (ix_latex texts) (ix_caption texts)))) [];
              block_id = stable_block_id pk (of_nat idx) block_type page_idx body
          in rbind (budget_reserve budget (length block_id)) (\<lambda>budget. Inr (block_id, budget))))"

record parse_state =
  ps_budget :: materialization_budget
  ps_section_stack :: "string list"
  ps_blocks :: "parsed_block list"

definition parse_item :: "parser_crates \<Rightarrow> parse_state \<Rightarrow> nat \<times> json \<Rightarrow> api_error + parse_state" where
  "parse_item pk st = (\<lambda>(idx, item).
     let raw_block_type = first_stringish_field pk item [''type'', ''content_type''];
         block_type = normalize_block_type raw_block_type in
     rbind (ensure (case raw_block_type of None \<Rightarrow> True | Some t \<Rightarrow> length t \<le> max_block_type_bytes \<and> \<not> has_control t)
              unsafe_parser_output) (\<lambda>_.
     rbind (budget_reserve (ps_budget st) (length block_type)) (\<lambda>budget.
     rbind (read_item_texts pk item block_type budget) (\<lambda>(texts, budget).
     let text_level = option_or (first_u8_field item [''text_level'', ''level'', ''heading_level''])
           (if block_type = ''title'' then Some 1 else None) in
     rbind (item_section_path pk item block_type (ix_text texts) text_level (ps_section_stack st) budget)
       (\<lambda>(section_path, section_stack, budget).
     let reading_order = unwrap_or (first_u32_field item [''reading_order'', ''order'', ''index'']) (of_nat idx);
         page_idx = first_u32_field item [''page_idx'', ''page_index'', ''page''] in
     rbind (bounded_json_field pk item [''bbox'', ''box'', ''bounding_box''] max_bbox_bytes budget) (\<lambda>(bbox, budget).
     rbind (item_block_id pk item idx block_type page_idx texts budget) (\<lambda>(block_id, budget).
       Inr \<lparr>ps_budget = budget, ps_section_stack = section_stack,
            ps_blocks = ps_blocks st @
              [\<lparr>pb_block_id = block_id, pb_block_type = block_type, pb_page_idx = page_idx, pb_bbox = bbox,
                pb_text = ix_text texts, pb_html = ix_html texts, pb_latex = ix_latex texts, pb_image_ref = ix_image_ref texts,
                pb_caption = ix_caption texts, pb_footnote = ix_footnote texts, pb_text_level = text_level,
                pb_section_path = section_path, pb_reading_order = reading_order\<rparr>]\<rparr>)))))))"

definition parse_with_retained_base :: "parser_crates \<Rightarrow> json \<Rightarrow> nat \<Rightarrow> nat \<Rightarrow> api_error + parsed_block list" where
  "parse_with_retained_base pk v max_metadata_bytes retained_base =
     rbind (collect_block_items v [] 0) (\<lambda>items.
     rbind (budget_with_retained max_metadata_bytes retained_base) (\<lambda>budget.
     rbind (rfold (parse_item pk) \<lparr>ps_budget = budget, ps_section_stack = [], ps_blocks = []\<rparr>
              (zip [0..<length items] items)) (\<lambda>st. Inr (ps_blocks st))))"

text \<open>\<open>MineruContentListParser::parse\<close>\<close>

definition content_list_parse :: "parser_crates \<Rightarrow> json \<Rightarrow> nat \<Rightarrow> api_error + parsed_block list" where
  "content_list_parse pk v max_metadata_bytes =
     rbind (encoded_json_len_bounded pk v max_metadata_bytes) (parse_with_retained_base pk v max_metadata_bytes)"

definition parse_supplied_blocks ::
    "parser_crates \<Rightarrow> json option \<Rightarrow> json option \<Rightarrow> nat \<Rightarrow> nat \<Rightarrow> api_error + parsed_block list" where
  "parse_supplied_blocks pk content_list content_list_v2 max_metadata_bytes retained_base =
     (let first_list = (case content_list of
            Some v \<Rightarrow> parse_with_retained_base pk v max_metadata_bytes retained_base | None \<Rightarrow> Inr [])
      in case content_list_v2 of
           None \<Rightarrow> first_list
         | Some v \<Rightarrow>
             rbind (parse_with_retained_base pk v max_metadata_bytes retained_base) (\<lambda>blocks.
               if blocks \<noteq> [] then Inr blocks else first_list))"

end
