(* ===== verification/Parser.thy ===== *)
theory Parser
  imports Parser_Blocks Llm_Registry
begin

text \<open>
  The document parsers (\<open>parser.rs\<close>): the built-in text parser, the MinerU client and the registry that
  chooses between them; the bounds on what a parser returns, before and after it is materialised; and
  the contract of the MinerU health reply. The multipart form is built by \<open>reqwest\<close>: its failures are part
  of the attempts of the upstream client.
\<close>

section \<open>Inputs and outputs\<close>

datatype staged_read = ReadText string | ReadInvalidData | ReadFailed string

text \<open>A staged file, with what reading it gives.\<close>

record staged_upload =
  su_path :: string
  su_byte_len :: u64
  su_sha256 :: string
  su_read :: staged_read

definition read_utf8 :: "staged_upload \<Rightarrow> api_error + string option" where
  "read_utf8 self =
     (case su_read self of
        ReadText t \<Rightarrow> Inr (Some t)
      | ReadInvalidData \<Rightarrow> Inr None
      | ReadFailed err \<Rightarrow> Inl (Internal (''failed to read staged upload: '' @ err)))"

record parser_input =
  pi_content :: "string option"
  pi_bytes :: "string option"
  pi_staged_upload :: "staged_upload option"
  pi_content_type :: "string option"
  pi_file_name :: "string option"
  pi_content_list :: "json option"
  pi_content_list_v2 :: "json option"
  pi_middle_json :: "json option"
  pi_model_json :: "json option"

record parser_output =
  po_provider :: string
  po_backend :: string
  po_parser_version :: "string option"
  po_markdown :: "string option"
  po_content_list :: "json option"
  po_content_list_v2 :: "json option"
  po_middle_json :: "json option"
  po_model_json :: "json option"
  po_images :: "json list"
  po_blocks :: "parsed_block list"

section \<open>Bounds\<close>

definition is_safe_label :: "string \<Rightarrow> bool" where
  "is_safe_label v = (v \<noteq> [] \<and> length v \<le> max_parser_label_bytes \<and> \<not> has_control v)"

definition somes :: "'a option list \<Rightarrow> 'a list" where
  "somes = List.map_filter id"

definition image_reference :: "json \<Rightarrow> string option" where
  "image_reference picture =
     option_or (json_as_str picture)
       (Option.bind (first_value_field_ref picture [''uri'', ''path'', ''image_path'']) json_as_str)"

definition image_reference_ok :: "json \<Rightarrow> bool" where
  "image_reference_ok picture = (case image_reference picture of None \<Rightarrow> True | Some r \<Rightarrow> length r \<le> max_reference_bytes)"

definition reserve_image :: "parser_crates \<Rightarrow> materialization_budget \<Rightarrow> json \<Rightarrow> api_error + materialization_budget" where
  "reserve_image pk budget picture =
     rbind (encoded_json_len_bounded pk picture (min max_block_field_bytes (budget_remaining budget))) (\<lambda>len.
     rbind (ensure (image_reference_ok picture) unsafe_parser_output) (\<lambda>_. budget_reserve budget len))"

text \<open>\<open>preflight_parser_output_base\<close> of an output whose blocks are not read yet.\<close>

definition preflight_parser_output_base :: "parser_crates \<Rightarrow> parser_output \<Rightarrow> nat \<Rightarrow> api_error + nat" where
  "preflight_parser_output_base pk output max_metadata_bytes =
     rbind (ensure (is_safe_label (po_provider output) \<and> is_safe_label (po_backend output)
              \<and> (case po_parser_version output of None \<Rightarrow> True | Some v \<Rightarrow> is_safe_label v)
              \<and> length (po_images output) \<le> max_parsed_images) unsafe_parser_output) (\<lambda>_.
     rbind (budget_with_retained max_metadata_bytes 0) (\<lambda>budget.
     rbind (rfold (\<lambda>budget v. budget_reserve budget (length v)) budget
              (somes [Some (po_provider output), Some (po_backend output), po_parser_version output, po_markdown output])) (\<lambda>budget.
     rbind (rfold (\<lambda>budget v. rbind (encoded_json_len_bounded pk v (budget_remaining budget)) (budget_reserve budget)) budget
              (somes [po_content_list output, po_content_list_v2 output, po_middle_json output, po_model_json output])) (\<lambda>budget.
     rbind (rfold (reserve_image pk) budget (po_images output)) (\<lambda>budget. Inr (mb_retained budget))))))"

definition check_image :: "parser_crates \<Rightarrow> nat \<Rightarrow> nat \<Rightarrow> json \<Rightarrow> api_error + nat" where
  "check_image pk max_metadata_bytes sofar picture =
     rbind (encoded_json_len pk picture) (\<lambda>len.
     rbind (ensure (len \<le> max_block_field_bytes \<and> image_reference_ok picture) unsafe_parser_output) (\<lambda>_.
     add_retained_bytes sofar len max_metadata_bytes))"

definition block_shape_ok :: "parsed_block \<Rightarrow> nat \<Rightarrow> bool" where
  "block_shape_ok block bbox_len =
     (pb_block_id block \<noteq> [] \<and> length (pb_block_id block) \<le> max_block_id_bytes \<and> \<not> has_control (pb_block_id block)
      \<and> pb_block_type block \<noteq> [] \<and> length (pb_block_type block) \<le> max_block_type_bytes \<and> \<not> has_control (pb_block_type block)
      \<and> length (pb_section_path block) \<le> max_section_depth
      \<and> (case pb_image_ref block of None \<Rightarrow> True | Some r \<Rightarrow> length r \<le> max_reference_bytes)
      \<and> bbox_len \<le> max_bbox_bytes)"

text \<open>A bounded text is added to the sofar.\<close>

definition check_text :: "nat \<Rightarrow> nat \<Rightarrow> nat \<Rightarrow> string \<Rightarrow> api_error + nat" where
  "check_text max_bytes max_metadata_bytes sofar t =
     rbind (ensure (length t \<le> max_bytes) unsafe_parser_output) (\<lambda>_. add_retained_bytes sofar (length t) max_metadata_bytes)"

definition block_fields :: "parsed_block \<Rightarrow> string list" where
  "block_fields block =
     somes [pb_text block, pb_html block, pb_latex block, pb_image_ref block, pb_caption block, pb_footnote block]"

definition check_block :: "parser_crates \<Rightarrow> nat \<Rightarrow> nat \<Rightarrow> parsed_block \<Rightarrow> api_error + nat" where
  "check_block pk max_metadata_bytes sofar block =
     rbind (case pb_bbox block of None \<Rightarrow> Inr 0 | Some bbox \<Rightarrow> encoded_json_len pk bbox) (\<lambda>bbox_len.
     rbind (ensure (block_shape_ok block bbox_len) unsafe_parser_output) (\<lambda>_.
     rbind (add_retained_bytes sofar (length (pb_block_id block)) max_metadata_bytes) (\<lambda>sofar.
     rbind (add_retained_bytes sofar (length (pb_block_type block)) max_metadata_bytes) (\<lambda>sofar.
     rbind (add_retained_bytes sofar bbox_len max_metadata_bytes) (\<lambda>sofar.
     rbind (rfold (check_text max_block_field_bytes max_metadata_bytes) sofar (block_fields block)) (\<lambda>sofar.
       rfold (check_text max_section_bytes max_metadata_bytes) sofar (pb_section_path block)))))))"

definition validate_parser_output :: "parser_crates \<Rightarrow> parser_output \<Rightarrow> nat \<Rightarrow> api_error + unit" where
  "validate_parser_output pk output max_metadata_bytes =
     rbind (ensure (max_metadata_bytes \<noteq> 0 \<and> is_safe_label (po_provider output) \<and> is_safe_label (po_backend output)
              \<and> (case po_parser_version output of None \<Rightarrow> True | Some v \<Rightarrow> is_safe_label v)) unsafe_parser_output) (\<lambda>_.
     rbind (ensure (length (po_blocks output) \<le> max_parsed_blocks \<and> length (po_images output) \<le> max_parsed_images)
              unsafe_parser_output) (\<lambda>_.
     rbind (rfold (\<lambda>sofar v. add_retained_bytes sofar (length v) max_metadata_bytes) 0
              (somes [Some (po_provider output), Some (po_backend output), po_parser_version output, po_markdown output])) (\<lambda>sofar.
     rbind (rfold (\<lambda>sofar v. rbind (encoded_json_len pk v) (\<lambda>len. add_retained_bytes sofar len max_metadata_bytes)) sofar
              (somes [po_content_list output, po_content_list_v2 output, po_middle_json output, po_model_json output])) (\<lambda>sofar.
     rbind (rfold (check_image pk max_metadata_bytes) sofar (po_images output)) (\<lambda>sofar.
     rbind (rfold (check_block pk max_metadata_bytes) sofar (po_blocks output)) (\<lambda>_. Inr ()))))))"

text \<open>Preflight, blocks, validation: the end of every parser.\<close>

definition finish_parse :: "parser_crates \<Rightarrow> parser_output \<Rightarrow> nat \<Rightarrow> api_error + parser_output" where
  "finish_parse pk base max_metadata_bytes =
     rbind (preflight_parser_output_base pk base max_metadata_bytes) (\<lambda>retained_base.
     rbind (parse_supplied_blocks pk (po_content_list base) (po_content_list_v2 base) max_metadata_bytes retained_base) (\<lambda>blocks.
     let output = base\<lparr>po_blocks := blocks\<rparr> in
     rbind (validate_parser_output pk output max_metadata_bytes) (\<lambda>_. Inr output)))"

section \<open>The built-in parser\<close>

definition builtin_markdown :: "parser_input \<Rightarrow> api_error + string option" where
  "builtin_markdown input =
     (case (pi_content input, pi_bytes input, pi_staged_upload input) of
        (Some content, _, _) \<Rightarrow> Inr (Some content)
      | (None, Some bytes, _) \<Rightarrow>
          if valid_utf8 bytes then Inr (Some bytes)
          else Inl (BadRequest ''builtin parser only supports UTF-8 text uploads'')
      | (None, None, Some upload) \<Rightarrow>
          rbind (read_utf8 upload) (\<lambda>t.
          rbind (ok_or t (BadRequest ''builtin parser only supports UTF-8 text uploads'')) (\<lambda>t. Inr (Some t)))
      | (None, None, None) \<Rightarrow> Inr None)"

definition supplied_output :: "string \<Rightarrow> string \<Rightarrow> string \<Rightarrow> string option \<Rightarrow> parser_input \<Rightarrow> parser_output" where
  "supplied_output provider backend version markdown input =
     \<lparr>po_provider = provider, po_backend = backend, po_parser_version = Some version, po_markdown = markdown,
      po_content_list = pi_content_list input, po_content_list_v2 = pi_content_list_v2 input,
      po_middle_json = pi_middle_json input, po_model_json = pi_model_json input, po_images = [], po_blocks = []\<rparr>"

definition builtin_parse :: "parser_crates \<Rightarrow> nat \<Rightarrow> parser_input \<Rightarrow> api_error + parser_output" where
  "builtin_parse pk max_metadata_bytes input =
     rbind (builtin_markdown input) (\<lambda>markdown.
       finish_parse pk (supplied_output ''builtin'' ''text'' ''builtin-text'' markdown input) max_metadata_bytes)"

section \<open>MinerU\<close>

record mineru_client =
  mc_api_url :: string
  mc_backend :: string
  mc_return_md :: bool
  mc_return_content_list :: bool
  mc_return_middle_json :: bool
  mc_return_images :: bool
  mc_max_input_bytes :: nat
  mc_policy :: operation_policy

definition mineru_client_new :: "config \<Rightarrow> mineru_client" where
  "mineru_client_new c =
     (let p = cfg_parser c in
      \<lparr>mc_api_url = pc_mineru_api_url p, mc_backend = pc_mineru_backend p, mc_return_md = pc_mineru_return_md p,
       mc_return_content_list = pc_mineru_return_content_list p, mc_return_middle_json = pc_mineru_return_middle_json p,
       mc_return_images = pc_mineru_return_images p, mc_max_input_bytes = lc_max_upload_bytes (cfg_limits c),
       mc_policy = \<lparr>opol_deadline = unat (pc_parser_timeout_ms p) * 1000000,
         opol_max_response_bytes = pc_parser_max_response_bytes p,
         opol_max_retries = (if llc_provider_max_retries (cfg_llm c) < 256 then of_nat (llc_provider_max_retries (cfg_llm c))
                             else max_upstream_retries),
         opol_initial_backoff = 100 * 1000000, opol_max_backoff = 1000000000\<rparr>\<rparr>)"

datatype replayable_body = BodyStaged staged_upload | BodyBytes string

definition max_file_name_bytes :: nat where "max_file_name_bytes = 512"

definition mineru_body :: "nat \<Rightarrow> parser_input \<Rightarrow> api_error + replayable_body" where
  "mineru_body max_input_bytes input =
     (case pi_staged_upload input of
        Some upload \<Rightarrow>
          if max_input_bytes < 2 ^ 64 \<and> max_input_bytes < unat (su_byte_len upload) then Inl PayloadTooLarge
          else Inr (BodyStaged upload)
      | None \<Rightarrow>
          rbind (ok_or (option_or (pi_bytes input) (pi_content input))
                   (BadRequest ''content or uploaded file bytes are required'')) (\<lambda>bytes.
          if max_input_bytes < length bytes then Inl PayloadTooLarge else Inr (BodyBytes bytes)))"

text \<open>\<open>mime_ok\<close>: a part accepts the content type.\<close>

definition mineru_request :: "(string \<Rightarrow> bool) \<Rightarrow> nat \<Rightarrow> parser_input \<Rightarrow> api_error + string \<times> replayable_body" where
  "mineru_request mime_ok max_input_bytes input =
     (let file_name = unwrap_or (pi_file_name input) ''document.txt'' in
      rbind (ensure (file_name \<noteq> [] \<and> length file_name \<le> max_file_name_bytes \<and> \<not> has_control file_name)
               (BadRequest ''file_name is invalid'')) (\<lambda>_.
      rbind (ensure (case pi_content_type input of None \<Rightarrow> True | Some t \<Rightarrow> mime_ok t) (BadRequest ''content_type is invalid'')) (\<lambda>_.
      rbind (mineru_body max_input_bytes input) (\<lambda>body. Inr (file_name, body)))))"

definition mineru_payload :: "json \<Rightarrow> json" where
  "mineru_payload v =
     (let first_of = (\<lambda>results d. case results of r # _ \<Rightarrow> r | [] \<Rightarrow> d) in
      case json_get v ''data'' of
        Some data \<Rightarrow>
          (case Option.bind (json_get data ''results'') json_as_array of Some results \<Rightarrow> first_of results data | None \<Rightarrow> data)
      | None \<Rightarrow>
          (case json_get v ''result'' of
             Some result \<Rightarrow> result
           | None \<Rightarrow>
               (case Option.bind (json_get v ''results'') json_as_array of Some results \<Rightarrow> first_of results v | None \<Rightarrow> v)))"

definition mineru_output :: "parser_crates \<Rightarrow> string \<Rightarrow> json \<Rightarrow> parser_output" where
  "mineru_output pk backend payload =
     \<lparr>po_provider = ''mineru'', po_backend = backend,
      po_parser_version = Some (unwrap_or (first_stringish_field pk payload [''parser_version'', ''version'']) ''mineru-api''),
      po_markdown = first_stringish_field pk payload [''markdown'', ''md'', ''content'', ''text''],
      po_content_list = first_value_field_ref payload [''content_list''],
      po_content_list_v2 = first_value_field_ref payload [''content_list_v2''],
      po_middle_json = first_value_field_ref payload [''middle_json'', ''middle'', ''middle_json_data''],
      po_model_json = first_value_field_ref payload [''model_json'', ''model''],
      po_images = unwrap_or (Option.bind (first_value_field_ref payload [''images'']) json_as_array) [], po_blocks = []\<rparr>"

definition parser_upstream_error :: "upstream_error \<Rightarrow> api_error" where
  "parser_upstream_error error = Upstream (upstream_error_display error)"

text \<open>The clocks and the upstream of a call.\<close>

record parser_world =
  pw_crates :: upstream_crates
  pw_parser :: parser_crates
  pw_mime_ok :: "string \<Rightarrow> bool"
  pw_request_id :: string
  pw_started_at :: int
  pw_instant_max :: int
  pw_attempts :: "u8 \<Rightarrow> attempt_env"
  pw_latency_ms :: u64

definition mineru_parse :: "parser_world \<Rightarrow> mineru_client \<Rightarrow> parser_input \<Rightarrow> api_error + parser_output" where
  "mineru_parse w self input =
     (let max_bytes = opol_max_response_bytes (mc_policy self) in
      if pi_content_list input \<noteq> None \<or> pi_content_list_v2 input \<noteq> None
      then finish_parse (pw_parser w)
             (supplied_output ''mineru'' (mc_backend self) ''mineru-supplied'' (pi_content input) input) max_bytes
      else
        rbind (mineru_request (pw_mime_ok w) (mc_max_input_bytes self) input) (\<lambda>_.
        rbind (map_err parser_upstream_error
                 (execute (pw_crates w) (pw_started_at w) (pw_instant_max w) ParserUpload (mc_policy self) (pw_request_id w)
                    (pw_attempts w))) (\<lambda>response.
        rbind (ok_or (uc_from_slice (pw_crates w) (br_body response)) (Upstream ''parser response was not valid JSON'')) (\<lambda>v.
          finish_parse (pw_parser w) (mineru_output (pw_parser w) (mc_backend self) (mineru_payload v)) max_bytes))))"

section \<open>The registry\<close>

text \<open>\<open>None\<close>: no HTTP client could be built.\<close>

record parser_registry =
  preg_max_metadata_bytes :: nat
  preg_http :: "client_policy option"

definition parser_registry_new :: "(client_policy \<Rightarrow> bool) \<Rightarrow> config \<Rightarrow> parser_registry" where
  "parser_registry_new builds c =
     (let timeout = unat (pc_parser_timeout_ms (cfg_parser c)) * 1000000 in
      \<lparr>preg_max_metadata_bytes = pc_parser_max_response_bytes (cfg_parser c),
       preg_http = (case proxy_mode_from_str (llc_provider_proxy_mode (cfg_llm c)) of Inl _ \<Rightarrow> None | Inr mode \<Rightarrow>
         let policy = \<lparr>cp_connect_timeout = unat (llc_provider_connect_timeout_ms (cfg_llm c)) * 1000000,
               cp_request_timeout = timeout, cp_read_timeout = timeout, cp_proxy_mode = mode\<rparr>
         in if validate_client_policy policy = Inr () \<and> builds policy then Some policy else None)\<rparr>)"

definition validate_parser_config :: "config \<Rightarrow> api_error + unit" where
  "validate_parser_config c =
     (let provider = pc_parser_provider (cfg_parser c); backend = pc_mineru_backend (cfg_parser c) in checks
      [ensure (provider = ''builtin'' \<or> provider = ''mineru'') (BadRequest ''parser_provider must be builtin or mineru''),
       ensure (\<not> (provider = ''mineru'' \<and> (backend = [] \<or> max_parser_label_bytes < length backend
           \<or> \<not> list_all (\<lambda>b. is_ascii_alphanumeric b \<or> b \<in> set ''-_.'') backend)))
         (BadRequest ''parser_backend is invalid'')])"

datatype document_parser = BuiltinTextParser nat | MineruParser mineru_client

definition parser_for_config :: "parser_registry \<Rightarrow> config \<Rightarrow> api_error + document_parser" where
  "parser_for_config self c =
     rbind (validate_parser_config c) (\<lambda>_.
     let provider = pc_parser_provider (cfg_parser c) in
     if provider = ''builtin'' then Inr (BuiltinTextParser (preg_max_metadata_bytes self))
     else if provider = ''mineru''
     then rbind (ok_or (preg_http self) (Upstream ''parser HTTP client initialization failed'')) (\<lambda>_.
            Inr (MineruParser (mineru_client_new c)))
     else Inl (BadRequest ''parser_provider must be builtin or mineru''))"

fun document_parse :: "parser_world \<Rightarrow> document_parser \<Rightarrow> parser_input \<Rightarrow> api_error + parser_output" where
  "document_parse w (BuiltinTextParser max_metadata_bytes) input = builtin_parse (pw_parser w) max_metadata_bytes input"
| "document_parse w (MineruParser client) input = mineru_parse w client input"

section \<open>Health\<close>

datatype mineru_health = MineruHealthy | MineruUnhealthy

definition healthy_field :: "(string \<times> json) list \<Rightarrow> unit + mineru_health option" where
  "healthy_field m =
     (case bt_get m ''healthy'' of
        Some (JBool b) \<Rightarrow> Inr (Some (if b then MineruHealthy else MineruUnhealthy))
      | Some _ \<Rightarrow> Inl ()
      | None \<Rightarrow> Inr None)"

definition status_field :: "(string \<times> json) list \<Rightarrow> unit + mineru_health option" where
  "status_field m =
     (case bt_get m ''status'' of
        Some (JString s) \<Rightarrow>
          if s = ''ok'' \<or> s = ''healthy'' then Inr (Some MineruHealthy)
          else if s = ''unhealthy'' \<or> s = ''degraded'' then Inr (Some MineruUnhealthy) else Inl ()
      | Some _ \<Rightarrow> Inl ()
      | None \<Rightarrow> Inr None)"

definition mineru_health_signal :: "json \<Rightarrow> unit + mineru_health" where
  "mineru_health_signal v =
     rbind (ok_or (json_as_object v) ()) (\<lambda>m.
     rbind (healthy_field m) (\<lambda>healthy.
     rbind (status_field m) (\<lambda>status.
       case (healthy, status) of
         (Some left, Some right) \<Rightarrow> if left = right then Inr left else Inl ()
       | (Some signal, None) \<Rightarrow> Inr signal
       | (None, Some signal) \<Rightarrow> Inr signal
       | (None, None) \<Rightarrow> Inl ())))"

definition builtin_health_status :: json where
  "builtin_health_status =
     json_obj [(''provider'', JString ''builtin''), (''backend'', JString ''text''), (''healthy'', JBool True),
       (''configured'', JBool True), (''status'', JString ''ok''), (''latency_ms'', JNumber (PosInt 0))]"

definition unhealthy_health_status :: "config \<Rightarrow> u64 \<Rightarrow> u16 option \<Rightarrow> string \<Rightarrow> json" where
  "unhealthy_health_status c latency_ms http_status category =
     (let status = json_obj
        [(''provider'', JString ''mineru''), (''backend'', JString (pc_mineru_backend (cfg_parser c))), (''healthy'', JBool False),
         (''configured'', JBool True), (''status'', JString ''unhealthy''), (''error_category'', JString category),
         (''latency_ms'', JNumber (PosInt latency_ms))]
      in case http_status of None \<Rightarrow> status | Some s \<Rightarrow> json_set ''http_status'' (JNumber (PosInt (ucast s))) status)"

definition parser_health_policy :: "config \<Rightarrow> operation_policy" where
  "parser_health_policy c =
     policy_without_retries (min 2000000000 (unat (pc_parser_timeout_ms (cfg_parser c)) * 1000000))
       (min (64 * 1024) (pc_parser_max_response_bytes (cfg_parser c)))"

definition judged_health :: "parser_world \<Rightarrow> config \<Rightarrow> json \<Rightarrow> json" where
  "judged_health w c status =
     (case mineru_health_signal status of
        Inr MineruHealthy \<Rightarrow>
          json_obj [(''provider'', JString ''mineru''), (''backend'', JString (pc_mineru_backend (cfg_parser c))),
            (''healthy'', JBool True), (''configured'', JBool True), (''status'', JString ''ok''),
            (''latency_ms'', JNumber (PosInt (pw_latency_ms w))), (''mineru'', status)]
      | Inr MineruUnhealthy \<Rightarrow> unhealthy_health_status c (pw_latency_ms w) None ''reported_unhealthy''
      | Inl _ \<Rightarrow> unhealthy_health_status c (pw_latency_ms w) None ''invalid_health_contract'')"

definition parser_health_status :: "parser_world \<Rightarrow> parser_registry \<Rightarrow> config \<Rightarrow> json" where
  "parser_health_status w self c =
     (if pc_parser_provider (cfg_parser c) \<noteq> ''mineru'' then builtin_health_status
      else if preg_http self = None then unhealthy_health_status c (pw_latency_ms w) None ''client_initialization''
      else case execute (pw_crates w) (pw_started_at w) (pw_instant_max w) ParserHealth (parser_health_policy c) (pw_request_id w)
                  (pw_attempts w) of
             Inr response \<Rightarrow>
               (case uc_from_slice (pw_crates w) (br_body response) of
                  Some status \<Rightarrow> judged_health w c status
                | None \<Rightarrow> unhealthy_health_status c (pw_latency_ms w) None ''invalid_json'')
           | Inl error \<Rightarrow>
               (let diagnostic = upstream_diagnostic_of error in
                unhealthy_health_status c (pw_latency_ms w) (ud_status diagnostic) (failure_category_as_str (ud_category diagnostic))))"

end
