(* ===== verification/Parser_Facts.thy ===== *)
theory Parser_Facts
  imports Parser
begin

text \<open>
  What the parsers materialise: a text of several parts is as long as it was measured, every block is within
  its bounds, the bytes of all blocks fit into the budget, and so the final validation accepts whatever the
  bounded reading produced.
\<close>

section \<open>Texts of several parts\<close>

definition measured :: "textish_measure \<Rightarrow> string \<times> bool \<Rightarrow> bool" where
  "measured m out = (tm_bytes m = length (fst out) \<and> (0 < tm_parts m) = snd out)"

lemma measured_part:
  "measured m out \<Longrightarrow> add_textish_part m (length t) = Inr m' \<Longrightarrow> measured m' (append_textish_part out t)"
  by (cases out) (auto simp: measured_def add_textish_part_def append_textish_part_def Let_def split: if_splits)

lemma measure_append:
  "measure_textish pk v depth m = Inr m' \<Longrightarrow> measured m out \<Longrightarrow> measured m' (append_textish pk v out)"
  "measure_textish_items pk items depth m = Inr m' \<Longrightarrow> measured m out \<Longrightarrow> measured m' (append_textish_items pk items out)"
proof (induction pk v depth m and pk items depth m arbitrary: m' out and m' out
    rule: measure_textish_measure_textish_items.induct)
  case (1 pk v depth m)
  then show ?case
    by (auto simp: measured_part simp del: append_textish.simps measure_textish.simps
        simp add: append_textish.simps [of pk v] measure_textish.simps [of pk v] split: json.splits if_splits option.splits)
next
  case (3 pk item items depth m)
  from 3(3) obtain a where a: "measure_textish pk item depth m = Inr a" and r: "measure_textish_items pk items depth a = Inr m'"
    by (auto simp: rbind_Inr simp del: measure_textish.simps)
  from 3(2) [OF r 3(1) [OF a 3(4)]] show ?case by (simp del: append_textish.simps)
qed simp

section \<open>The budget\<close>

definition budget_ok :: "materialization_budget \<Rightarrow> bool" where
  "budget_ok b = (mb_retained b \<le> mb_max b)"

text \<open>From \<open>b\<close> to \<open>b'\<close> at least \<open>n\<close> bytes were reserved.\<close>

definition spent :: "materialization_budget \<Rightarrow> nat \<Rightarrow> materialization_budget \<Rightarrow> bool" where
  "spent b n b' = (mb_max b' = mb_max b \<and> mb_retained b + n \<le> mb_retained b' \<and> (budget_ok b \<longrightarrow> budget_ok b'))"

lemma spent_refl [simp]: "spent b 0 b"
  by (simp add: spent_def)

lemma spent_trans: "spent b m c \<Longrightarrow> spent c n d \<Longrightarrow> spent b (m + n) d"
  by (auto simp: spent_def)

lemma budget_reserve_Inr:
  "budget_reserve b n = Inr b' \<longleftrightarrow>
     b' = b\<lparr>mb_retained := mb_retained b + n\<rparr> \<and> mb_retained b + n \<le> usize_max \<and> mb_retained b + n \<le> mb_max b"
  by (auto simp: budget_reserve_def add_retained_bytes_def rbind_Inr)

lemma reserve_spent: "budget_reserve b n = Inr b' \<Longrightarrow> spent b n b'"
  by (auto simp: budget_reserve_Inr spent_def budget_ok_def)

definition text_len :: "string option \<Rightarrow> nat" where
  "text_len t = (case t of None \<Rightarrow> 0 | Some s \<Rightarrow> length s)"

lemma text_len_simps [simp]: "text_len None = 0" "text_len (Some s) = length s"
  by (simp_all add: text_len_def)

lemma bounded_string_spent:
  assumes "bounded_string_field pk v keys n control b = Inr (t, b')"
  shows "spent b (text_len t) b'" and "text_len t \<le> n" and "control \<Longrightarrow> t = Some s \<Longrightarrow> \<not> has_control s"
    and "t = first_stringish_field pk v keys"
proof -
  show t: "t = first_stringish_field pk v keys"
    using assms by (auto simp: bounded_string_field_def rbind_Inr split: option.splits)
  show "spent b (text_len t) b'" "text_len t \<le> n" "control \<Longrightarrow> t = Some s \<Longrightarrow> \<not> has_control s"
    using assms unfolding bounded_string_field_def t [symmetric]
    by (auto simp: rbind_Inr ensure_Inr split: option.splits dest: reserve_spent)
qed

lemma bounded_textish_spent:
  assumes "bounded_textish_field pk v keys n b = Inr (t, b')"
  shows "spent b (text_len t) b' \<and> text_len t \<le> n"
  using assms
proof (induction keys)
  case (Cons k ks)
  show ?case
  proof (cases "json_get v k")
    case None
    then show ?thesis using Cons by simp
  next
    case (Some candidate)
    let ?start = "\<lparr>tm_bytes = 0, tm_parts = 0\<rparr>"
    from Cons.prems Some obtain m where m: "measure_textish pk candidate 0 ?start = Inr m"
      by (auto simp: rbind_Inr simp del: measure_textish.simps append_textish.simps)
    have "measured m (append_textish pk candidate ([], False))"
      by (rule measure_append(1) [OF m]) (simp add: measured_def)
    then have len: "tm_bytes m = length (fst (append_textish pk candidate ([], False)))" by (simp only: measured_def)
    show ?thesis
    proof (cases "tm_parts m = 0")
      case True
      then show ?thesis using Cons Some m by (simp del: measure_textish.simps append_textish.simps)
    next
      case False
      then show ?thesis
        using Cons.prems Some m len
        by (auto simp: rbind_Inr ensure_Inr simp del: measure_textish.simps append_textish.simps dest: reserve_spent)
    qed
  qed
qed simp

lemma bounded_json_spent:
  assumes "bounded_json_field pk v keys n b = Inr (j, b')"
  shows "spent b (case j of None \<Rightarrow> 0 | Some x \<Rightarrow> pk_json_len pk x) b' \<and> (case j of None \<Rightarrow> True | Some x \<Rightarrow> pk_json_len pk x \<le> n)"
  using assms
  by (auto simp: bounded_json_field_def encoded_json_len_bounded_def rbind_Inr split: option.splits if_splits dest: reserve_spent)

section \<open>Sections\<close>

definition sections_len :: "string list \<Rightarrow> nat" where
  "sections_len ss = sum_list (map length ss)"

lemma add_sections:
  "rfold add_section n ss = Inr m \<Longrightarrow> m = n + sections_len ss \<and> (\<forall>s\<in>set ss. length s \<le> max_section_bytes)"
  by (induction ss arbitrary: n) (fastforce simp: add_section_def sections_len_def split: sum.splits if_splits)+

definition sections_ok :: "string list \<Rightarrow> bool" where
  "sections_ok ss = (length ss \<le> max_section_depth \<and> (\<forall>s\<in>set ss. length s \<le> max_section_bytes))"

lemma given_sections:
  assumes "bounded_section_path_from_item pk v b = Inr (path, b')"
  shows "spent b (case path of None \<Rightarrow> 0 | Some ss \<Rightarrow> sections_len ss) b' \<and> (case path of None \<Rightarrow> True | Some ss \<Rightarrow> sections_ok ss)"
proof -
  have "length (List.map_filter f xs) \<le> length xs" for f :: "json \<Rightarrow> string option" and xs
    by (induction xs) (auto simp: List.map_filter_simps split: option.split)
  then have short: "length (List.map_filter (stringish_ref pk) xs) \<le> max_section_depth" if "length xs \<le> max_section_depth" for xs
    using that le_trans by blast
  have one: "Suc 0 \<le> max_section_depth" by (simp add: max_section_depth_def)
  show ?thesis
    using assms
    by (auto simp: bounded_section_path_from_item_def Let_def rbind_Inr ensure_Inr sections_ok_def sections_len_def not_less
        short one
        split: option.splits json.splits if_splits dest!: reserve_spent add_sections)
qed

lemma clone_stack:
  "clone_section_stack ss b = Inr (path, b') \<Longrightarrow> spent b (sections_len path) b' \<and> sections_ok path \<and> path = ss"
  by (auto simp: clone_section_stack_def rbind_Inr ensure_Inr sections_ok_def dest!: reserve_spent add_sections)

lemma open_section_spent:
  assumes "open_section block_type t level ss b = Inr (ss', b')"
  shows "spent b 0 b'"
  using assms by (auto simp: open_section_def Let_def rbind_Inr spent_def budget_reserve_Inr budget_ok_def
      split: if_splits option.splits)

lemma item_sections:
  assumes "item_section_path pk item block_type t level ss b = Inr (path, ss', b')"
  shows "spent b (sections_len path) b' \<and> sections_ok path"
proof -
  obtain given c where g: "bounded_section_path_from_item pk item b = Inr (given, c)"
    using assms by (auto simp: item_section_path_def rbind_Inr)
  show ?thesis
  proof (cases given)
    case None
    with assms g obtain ss1 d where o: "open_section block_type t level ss c = Inr (ss1, d)"
      and "clone_section_stack ss1 d = Inr (path, b')" by (auto simp: item_section_path_def rbind_Inr)
    with given_sections [OF g] None open_section_spent [OF o] clone_stack show ?thesis
      by (metis add_0 option.case(1) spent_trans)
  next
    case (Some given_path)
    with assms g given_sections [OF g] show ?thesis by (auto simp: item_section_path_def)
  qed
qed

section \<open>Blocks\<close>

definition block_bytes :: "parser_crates \<Rightarrow> parsed_block \<Rightarrow> nat" where
  "block_bytes pk block =
     length (pb_block_id block) + length (pb_block_type block) + (case pb_bbox block of None \<Rightarrow> 0 | Some j \<Rightarrow> pk_json_len pk j)
     + sum_list (map length (block_fields block)) + sections_len (pb_section_path block)"

definition block_ok :: "parser_crates \<Rightarrow> parsed_block \<Rightarrow> bool" where
  "block_ok pk block =
     (block_shape_ok block (case pb_bbox block of None \<Rightarrow> 0 | Some j \<Rightarrow> pk_json_len pk j)
      \<and> (\<forall>t\<in>set (block_fields block). length t \<le> max_block_field_bytes)
      \<and> (\<forall>t\<in>set (pb_section_path block). length t \<le> max_section_bytes))"

definition texts_list :: "item_texts \<Rightarrow> string option list" where
  "texts_list x = [ix_text x, ix_html x, ix_latex x, ix_image_ref x, ix_caption x, ix_footnote x]"

lemma somes_simps [simp]: "somes [] = []" "somes (None # xs) = somes xs" "somes (Some x # xs) = x # somes xs"
  by (simp_all add: somes_def List.map_filter_simps)

lemma somes_len: "sum_list (map length (somes xs)) = sum_list (map text_len xs)"
proof (induction xs)
  case (Cons a xs)
  then show ?case by (cases a) simp_all
qed simp

lemma somes_bounded: "(\<forall>t\<in>set (somes xs). length t \<le> n) \<longleftrightarrow> (\<forall>t\<in>set xs. text_len t \<le> n)"
proof (induction xs)
  case (Cons a xs)
  then show ?case by (cases a) simp_all
qed simp

lemma item_texts_spent:
  assumes "read_item_texts pk item block_type b = Inr (x, b')"
  shows "spent b (sum_list (map text_len (texts_list x))) b'
    \<and> (\<forall>t\<in>set (texts_list x). text_len t \<le> max_block_field_bytes) \<and> text_len (ix_image_ref x) \<le> max_reference_bytes"
proof -
  obtain t html latex ref caption footnote b1 b2 b3 b4 b5 where
    f: "bounded_string_field pk item [''text'', ''content'', ''md'', ''markdown'']
          (if block_type = ''title'' then max_section_bytes else max_block_field_bytes) False b = Inr (t, b1)"
      "bounded_string_field pk item [''html'', ''table_html'', ''table_body''] max_block_field_bytes False b1 = Inr (html, b2)"
      "bounded_string_field pk item [''latex'', ''latex_text'', ''formula'', ''equation''] max_block_field_bytes False b2 = Inr (latex, b3)"
      "bounded_string_field pk item [''image_ref'', ''image_path'', ''img_path'', ''image'', ''src''] max_reference_bytes False b3
         = Inr (ref, b4)"
      "bounded_textish_field pk item [''caption'', ''image_caption'', ''table_caption''] max_block_field_bytes b4 = Inr (caption, b5)"
      "bounded_textish_field pk item [''footnote'', ''image_footnote'', ''table_footnote''] max_block_field_bytes b5 = Inr (footnote, b')"
    and x: "x = \<lparr>ix_text = t, ix_html = html, ix_latex = latex, ix_image_ref = ref, ix_caption = caption, ix_footnote = footnote\<rparr>"
    using assms by (auto simp: read_item_texts_def rbind_Inr)
  note s = bounded_string_spent(1,2) [OF f(1)] bounded_string_spent(1,2) [OF f(2)] bounded_string_spent(1,2) [OF f(3)]
    bounded_string_spent(1,2) [OF f(4)] bounded_textish_spent [OF f(5)] bounded_textish_spent [OF f(6)]
  have "spent b (text_len t + (text_len html + (text_len latex + (text_len ref + (text_len caption + text_len footnote))))) b'"
    using s by (blast intro: spent_trans)
  moreover have "max_section_bytes \<le> max_block_field_bytes" "max_reference_bytes \<le> max_block_field_bytes"
    by (simp_all add: max_section_bytes_def max_block_field_bytes_def max_reference_bytes_def)
  ultimately show ?thesis using s by (auto simp: x texts_list_def split: if_splits)
qed

text \<open>What the parameters print: numbers are not empty, the digest is hexadecimal.\<close>

definition plain_crates :: "parser_crates \<Rightarrow> bool" where
  "plain_crates pk = ((\<forall>f. pk_float_text pk f \<noteq> []) \<and> (\<forall>s. list_all (\<lambda>c. c \<in> set ''0123456789abcdef'') (pk_sha256_hex pk s)))"

lemma stringish_nonempty: "plain_crates pk \<Longrightarrow> stringish_ref pk v = Some t \<Longrightarrow> t \<noteq> []"
  by (auto simp: stringish_ref_def number_text_def plain_crates_def split: json.splits if_splits json_number.splits)

lemma first_stringish_nonempty: "plain_crates pk \<Longrightarrow> first_stringish_field pk v ks = Some t \<Longrightarrow> t \<noteq> []"
  unfolding first_stringish_field_def
  by (induction ks) (auto simp: bind_eq_Some_conv split: option.splits dest: stringish_nonempty)

section \<open>Labels of blocks\<close>

lemma ascii_chars: "list_all (\<lambda>c. \<not> is_cont c) s \<Longrightarrow> chars s = map (\<lambda>c. [c]) s"
proof (induction s rule: chars.induct)
  case (2 c cs)
  then have "takeWhile is_cont cs = []" "dropWhile is_cont cs = cs" by (cases cs; simp)+
  with 2 show ?case by simp
qed simp

lemma no_control_over:
  assumes "list_all (\<lambda>c. \<not> is_cont c \<and> \<not> is_control [c]) alphabet" and "set s \<subseteq> set alphabet"
  shows "\<not> has_control s"
proof -
  have "\<not> is_cont c \<and> \<not> is_control [c]" if "c \<in> set s" for c using assms that by (auto simp: list_all_iff)
  then show ?thesis by (subst has_control_def, subst ascii_chars) (auto simp: list_all_iff list_ex_iff)
qed

definition block_types :: "string list" where
  "block_types = [''title'', ''paragraph'', ''table'', ''equation'', ''image'', ''code'', ''list'', ''page_number'',
     ''chart'', ''seal'', ''header'', ''footer'', ''footnote'']"

lemma normalized_type: "normalize_block_type v \<in> set block_types"
  by (simp add: normalize_block_type_def Let_def block_types_def)

lemma block_types_fine: "list_all (\<lambda>t. t \<noteq> [] \<and> length t \<le> max_block_type_bytes \<and> \<not> has_control t) block_types"
  by code_simp

lemma normalized_type_ok:
  "normalize_block_type v \<noteq> []" "length (normalize_block_type v) \<le> max_block_type_bytes" "\<not> has_control (normalize_block_type v)"
  using normalized_type [of v] block_types_fine by (simp_all add: list_all_iff)

definition id_alphabet :: string where
  "id_alphabet = ''block_0123456789abcdef''"

lemma id_alphabet_fine: "list_all (\<lambda>c. \<not> is_cont c \<and> \<not> is_control [c]) id_alphabet"
  by code_simp

lemma stable_id_ok:
  assumes "plain_crates pk"
  shows "stable_block_id pk i t p body \<noteq> []" "length (stable_block_id pk i t p body) \<le> max_block_id_bytes"
    "\<not> has_control (stable_block_id pk i t p body)"
proof -
  have "set (take 24 (pk_sha256_hex pk s)) \<subseteq> set ''0123456789abcdef''" for s
    using assms set_take_subset [of 24 "pk_sha256_hex pk s"] unfolding plain_crates_def list_all_iff by blast
  then have "set (stable_block_id pk i t p body) \<subseteq> set id_alphabet"
    unfolding stable_block_id_def id_alphabet_def set_append by (fastforce simp del: set_take_subset)
  then show "\<not> has_control (stable_block_id pk i t p body)" by (rule no_control_over [OF id_alphabet_fine])
qed (simp_all add: stable_block_id_def max_block_id_bytes_def)

lemma item_id_ok:
  assumes "plain_crates pk" and "item_block_id pk item idx t p x b = Inr (block_id, b')"
  shows "spent b (length block_id) b'" "block_id \<noteq> []" "length block_id \<le> max_block_id_bytes" "\<not> has_control block_id"
proof -
  obtain given c where g: "bounded_string_field pk item [''block_id'', ''id''] max_block_id_bytes True b = Inr (given, c)"
    using assms(2) by (auto simp: item_block_id_def rbind_Inr)
  have "spent b (length block_id) b' \<and> block_id \<noteq> [] \<and> length block_id \<le> max_block_id_bytes \<and> \<not> has_control block_id"
  proof (cases given)
    case None
    with assms(2) g obtain body where i: "block_id = stable_block_id pk (of_nat idx) t p body"
      and r: "budget_reserve c (length block_id) = Inr b'" by (auto simp: item_block_id_def rbind_Inr Let_def)
    have "spent b (0 + length block_id) b'"
      using spent_trans [OF _ reserve_spent [OF r], of b 0] bounded_string_spent(1) [OF g] None by simp
    with stable_id_ok [OF assms(1), of "of_nat idx" t p body] show ?thesis by (simp add: i)
  next
    case (Some i)
    with assms(2) g have e: "i = block_id" "c = b'" by (auto simp: item_block_id_def)
    show ?thesis
      using bounded_string_spent(1-3) [OF g] bounded_string_spent(4) [OF g] first_stringish_nonempty [OF assms(1)] Some e
      by (metis text_len_simps(2))
  qed
  then show "spent b (length block_id) b'" "block_id \<noteq> []" "length block_id \<le> max_block_id_bytes" "\<not> has_control block_id"
    by blast+
qed

end
