(* ===== verification/Parser_Guarantees.thy ===== *)
theory Parser_Guarantees
  imports Parser_Facts
begin

text \<open>
  The guarantees of the parsers: what is materialised stays within the budget, every block within its bounds,
  and the final validation never refuses what the bounded reading produced.
\<close>

section \<open>One item\<close>

lemma block_bytes_item:
  "block_bytes pk \<lparr>pb_block_id = i, pb_block_type = ty, pb_page_idx = p, pb_bbox = box, pb_text = ix_text x, pb_html = ix_html x,
     pb_latex = ix_latex x, pb_image_ref = ix_image_ref x, pb_caption = ix_caption x, pb_footnote = ix_footnote x,
     pb_text_level = l, pb_section_path = path, pb_reading_order = ord\<rparr>
   = length ty + (sum_list (map text_len (texts_list x))
       + (sections_len path + ((case box of None \<Rightarrow> 0 | Some j \<Rightarrow> pk_json_len pk j) + length i)))"
  by (simp add: block_bytes_def block_fields_def texts_list_def somes_len)

lemma item_adds_block:
  assumes plain: "plain_crates pk" and "parse_item pk st (idx, item) = Inr st'"
  shows "\<exists>block. ps_blocks st' = ps_blocks st @ [block] \<and> block_ok pk block
     \<and> spent (ps_budget st) (block_bytes pk block) (ps_budget st')"
proof -
  let ?raw = "first_stringish_field pk item [''type'', ''content_type'']"
  let ?ty = "normalize_block_type ?raw"
  let ?level = "\<lambda>(x :: item_texts). option_or (first_u8_field item [''text_level'', ''level'', ''heading_level''])
      (if ?ty = ''title'' then Some 1 else None)"
  let ?page = "first_u32_field item [''page_idx'', ''page_index'', ''page'']"
  obtain b x c path stack d box e i f where
    s: "budget_reserve (ps_budget st) (length ?ty) = Inr b"
      "read_item_texts pk item ?ty b = Inr (x, c)"
      "item_section_path pk item ?ty (ix_text x) (?level x) (ps_section_stack st) c = Inr (path, stack, d)"
      "bounded_json_field pk item [''bbox'', ''box'', ''bounding_box''] max_bbox_bytes d = Inr (box, e)"
      "item_block_id pk item idx ?ty ?page x e = Inr (i, f)"
    and st': "st' = \<lparr>ps_budget = f, ps_section_stack = stack, ps_blocks = ps_blocks st @
        [\<lparr>pb_block_id = i, pb_block_type = ?ty, pb_page_idx = ?page, pb_bbox = box, pb_text = ix_text x, pb_html = ix_html x,
          pb_latex = ix_latex x, pb_image_ref = ix_image_ref x, pb_caption = ix_caption x, pb_footnote = ix_footnote x,
          pb_text_level = ?level x, pb_section_path = path,
          pb_reading_order = unwrap_or (first_u32_field item [''reading_order'', ''order'', ''index'']) (of_nat idx)\<rparr>]\<rparr>"
    using assms(2) unfolding parse_item_def Let_def by (auto simp: rbind_Inr)
  note id = item_id_ok [OF plain s(5)] and path = item_sections [OF s(3)] and ts = item_texts_spent [OF s(2)]
    and box = bounded_json_spent [OF s(4)] and ty = normalized_type_ok [of ?raw]
  have "spent (ps_budget st) (length ?ty + (sum_list (map text_len (texts_list x))
       + (sections_len path + ((case box of None \<Rightarrow> 0 | Some j \<Rightarrow> pk_json_len pk j) + length i)))) f"
    using reserve_spent [OF s(1)] ts path box id(1) by (blast intro: spent_trans)
  moreover have "\<forall>t\<in>set (somes (texts_list x)). length t \<le> max_block_field_bytes"
    using ts by (simp add: somes_bounded)
  moreover have "case ix_image_ref x of None \<Rightarrow> True | Some r \<Rightarrow> length r \<le> max_reference_bytes"
    using ts by (cases "ix_image_ref x") auto
  moreover have "(case box of None \<Rightarrow> 0 | Some j \<Rightarrow> pk_json_len pk j) \<le> max_bbox_bytes"
    using box by (cases box) auto
  ultimately show ?thesis
    using id path ty
    by (simp add: st' block_bytes_item block_ok_def block_shape_ok_def block_fields_def texts_list_def sections_ok_def)
qed

section \<open>All items\<close>

lemma items_blocks:
  assumes plain: "plain_crates pk" and "rfold (parse_item pk) st items = Inr st'"
  shows "\<exists>blocks. ps_blocks st' = ps_blocks st @ blocks \<and> length blocks = length items \<and> (\<forall>block\<in>set blocks. block_ok pk block)
     \<and> spent (ps_budget st) (sum_list (map (block_bytes pk) blocks)) (ps_budget st')"
  using assms(2)
proof (induction items arbitrary: st)
  case (Cons item items)
  obtain idx v where item: "item = (idx, v)" by (cases item)
  from Cons.prems obtain st1 where one: "parse_item pk st (idx, v) = Inr st1" and rest: "rfold (parse_item pk) st1 items = Inr st'"
    by (auto simp: rbind_Inr item split: sum.splits)
  from item_adds_block [OF plain one] obtain block where b: "ps_blocks st1 = ps_blocks st @ [block]" "block_ok pk block"
    "spent (ps_budget st) (block_bytes pk block) (ps_budget st1)" by blast
  from Cons.IH [OF rest] obtain blocks where bs: "ps_blocks st' = ps_blocks st1 @ blocks" "length blocks = length items"
    "\<forall>block\<in>set blocks. block_ok pk block" "spent (ps_budget st1) (sum_list (map (block_bytes pk) blocks)) (ps_budget st')"
    by blast
  show ?case
    using b bs spent_trans [OF b(3) bs(4)] by (intro exI [of _ "block # blocks"]) simp
qed auto

lemma collected_items:
  "collect_block_items v out depth = Inr items \<Longrightarrow> length out \<le> max_parsed_blocks \<Longrightarrow> length items \<le> max_parsed_blocks"
proof (induction v out depth rule: collect_block_items.induct)
  case (1 v out depth)
  from 1(2) have "\<not> max_section_depth < depth" by (subst (asm) collect_block_items.simps) (auto split: if_splits)
  with 1 show ?case
    by (auto simp: collect_block_items.simps [of v out depth] split: if_splits json.splits option.splits)
qed

lemma parsed_within:
  assumes plain: "plain_crates pk" and parsed: "parse_with_retained_base pk v max_metadata_bytes retained_base = Inr blocks"
  shows "retained_base + sum_list (map (block_bytes pk) blocks) \<le> max_metadata_bytes \<and> length blocks \<le> max_parsed_blocks
     \<and> (\<forall>block\<in>set blocks. block_ok pk block)"
proof -
  obtain items budget st where c: "collect_block_items v [] 0 = Inr items"
    and b: "budget_with_retained max_metadata_bytes retained_base = Inr budget"
    and f: "rfold (parse_item pk) \<lparr>ps_budget = budget, ps_section_stack = [], ps_blocks = []\<rparr> (zip [0..<length items] items) = Inr st"
    and bs: "blocks = ps_blocks st"
    using parsed by (auto simp: parse_with_retained_base_def rbind_Inr)
  have "mb_retained budget = retained_base" "mb_max budget = max_metadata_bytes" "mb_retained budget \<le> mb_max budget"
    using b by (auto simp: budget_with_retained_def split: if_splits)
  moreover from items_blocks [OF plain f] have "length blocks = length items" "\<forall>block\<in>set blocks. block_ok pk block"
    "spent budget (sum_list (map (block_bytes pk) blocks)) (ps_budget st)" by (auto simp: bs)
  moreover have "length items \<le> max_parsed_blocks" by (rule collected_items [OF c]) simp
  ultimately show ?thesis by (simp add: spent_def budget_ok_def)
qed

section \<open>The validation of what was read\<close>

lemma sums_agree:
  assumes "\<And>b x b'. mb_max b = m \<Longrightarrow> f b x = Inr b' \<Longrightarrow> mb_max b' = m \<and> g (mb_retained b) x = Inr (mb_retained b')"
  shows "rfold f b xs = Inr b' \<Longrightarrow> mb_max b = m \<Longrightarrow> mb_max b' = m \<and> rfold g (mb_retained b) xs = Inr (mb_retained b')"
proof (induction xs arbitrary: b)
  case (Cons x xs)
  from Cons.prems(1) obtain c where c: "f b x = Inr c" "rfold f c xs = Inr b'" unfolding rfold_Cons_Inr by blast
  then show ?case using assms [OF Cons.prems(2) c(1)] Cons.IH [OF c(2)] by simp
qed simp

lemma reserve_agrees:
  "mb_max b = m \<Longrightarrow> budget_reserve b n = Inr b' \<Longrightarrow> mb_max b' = m \<and> add_retained_bytes (mb_retained b) n m = Inr (mb_retained b')"
  by (auto simp: budget_reserve_def rbind_Inr)

lemma reserve_json_agrees:
  assumes "mb_max b = m" and "rbind (encoded_json_len_bounded pk v k) (budget_reserve b) = Inr b'"
  shows "mb_max b' = m \<and> rbind (encoded_json_len pk v) (\<lambda>n. add_retained_bytes (mb_retained b) n m) = Inr (mb_retained b')"
  using assms by (auto simp: rbind_Inr encoded_json_len_def encoded_json_len_bounded_def budget_reserve_def add_retained_bytes_def
      split: if_splits)

lemma reserve_image_agrees:
  assumes "mb_max b = m" and "reserve_image pk b picture = Inr b'"
  shows "mb_max b' = m \<and> check_image pk m (mb_retained b) picture = Inr (mb_retained b')"
  using assms by (auto simp: rbind_Inr ensure_Inr reserve_image_def check_image_def encoded_json_len_def encoded_json_len_bounded_def
      budget_reserve_def add_retained_bytes_def split: if_splits)

lemma texts_accepted:
  "\<forall>t\<in>set ts. length t \<le> k \<Longrightarrow> n + sum_list (map length ts) \<le> m \<Longrightarrow> m \<le> usize_max
     \<Longrightarrow> rfold (check_text k m) n ts = Inr (n + sum_list (map length ts))"
  by (induction ts arbitrary: n) (auto simp: check_text_def add_retained_bytes_def ensure_def)

lemma block_accepted:
  assumes "block_ok pk block" and "n + block_bytes pk block \<le> m" and "m \<le> usize_max"
  shows "check_block pk m n block = Inr (n + block_bytes pk block)"
proof -
  let ?box = "case pb_bbox block of None \<Rightarrow> 0 | Some j \<Rightarrow> pk_json_len pk j"
  have box: "(case pb_bbox block of None \<Rightarrow> Inr 0 | Some bbox \<Rightarrow> encoded_json_len pk bbox) = Inr ?box"
    using assms by (auto simp: encoded_json_len_def encoded_json_len_bounded_def block_bytes_def split: option.split)
  have add: "add_retained_bytes a k m = Inr (a + k)" if "a + k \<le> m" for a k
    using that assms(3) by (simp add: add_retained_bytes_def)
  have "rfold (check_text max_block_field_bytes m) a (block_fields block) = Inr (a + sum_list (map length (block_fields block)))"
    if "a + sum_list (map length (block_fields block)) \<le> m" for a
    using assms that by (intro texts_accepted) (simp_all add: block_ok_def)
  moreover have "rfold (check_text max_section_bytes m) a (pb_section_path block) = Inr (a + sections_len (pb_section_path block))"
    if "a + sections_len (pb_section_path block) \<le> m" for a
    unfolding sections_len_def using assms that by (intro texts_accepted) (simp_all add: block_ok_def sections_len_def)
  ultimately show ?thesis
    using assms(1,2) by (simp add: check_block_def box ensure_def block_ok_def add block_bytes_def add.assoc)
qed

lemma blocks_accepted:
  "\<forall>block\<in>set blocks. block_ok pk block \<Longrightarrow> n + sum_list (map (block_bytes pk) blocks) \<le> m \<Longrightarrow> m \<le> usize_max
     \<Longrightarrow> rfold (check_block pk m) n blocks = Inr (n + sum_list (map (block_bytes pk) blocks))"
  by (induction blocks arbitrary: n) (simp_all add: block_accepted add.assoc)

lemma supplied_blocks_cases:
  assumes "parse_supplied_blocks pk l1 l2 m n = Inr blocks"
  shows "blocks = [] \<or> (\<exists>v. parse_with_retained_base pk v m n = Inr blocks)"
  using assms by (auto simp: parse_supplied_blocks_def Let_def rbind_Inr split: option.splits if_splits)

lemma supplied_blocks_accepted:
  assumes "plain_crates pk" and "m \<le> usize_max" and "parse_supplied_blocks pk l1 l2 m n = Inr blocks"
  shows "length blocks \<le> max_parsed_blocks \<and> (\<exists>k. rfold (check_block pk m) n blocks = Inr k)"
  using supplied_blocks_cases [OF assms(3)]
proof
  assume "\<exists>v. parse_with_retained_base pk v m n = Inr blocks"
  then show ?thesis using parsed_within [OF assms(1)] blocks_accepted assms(2) by blast
qed simp

lemma read_output_accepted:
  assumes plain: "plain_crates pk" and m: "m \<le> usize_max" and pre: "preflight_parser_output_base pk base m = Inr n"
    and blocks: "parse_supplied_blocks pk l1 l2 m n = Inr blocks"
  shows "validate_parser_output pk (base\<lparr>po_blocks := blocks\<rparr>) m = Inr ()"
proof -
  obtain b0 b1 b2 b3 where
    labels: "is_safe_label (po_provider base)" "is_safe_label (po_backend base)"
      "case po_parser_version base of None \<Rightarrow> True | Some v \<Rightarrow> is_safe_label v" "length (po_images base) \<le> max_parsed_images"
    and b0: "budget_with_retained m 0 = Inr b0"
    and s: "rfold (\<lambda>budget v. budget_reserve budget (length v)) b0
        (somes [Some (po_provider base), Some (po_backend base), po_parser_version base, po_markdown base]) = Inr b1"
      "rfold (\<lambda>budget v. rbind (encoded_json_len_bounded pk v (budget_remaining budget)) (budget_reserve budget)) b1
        (somes [po_content_list base, po_content_list_v2 base, po_middle_json base, po_model_json base]) = Inr b2"
      "rfold (reserve_image pk) b2 (po_images base) = Inr b3" and n: "n = mb_retained b3"
    using pre unfolding preflight_parser_output_base_def by (fastforce simp: rbind_Inr ensure_Inr simp del: somes_simps)
  have z: "mb_max b0 = m" "mb_retained b0 = 0" "m \<noteq> 0" using b0 by (auto simp: budget_with_retained_def split: if_splits)
  let ?texts = "somes [Some (po_provider base), Some (po_backend base), po_parser_version base, po_markdown base]"
  let ?jsons = "somes [po_content_list base, po_content_list_v2 base, po_middle_json base, po_model_json base]"
  have f1: "mb_max b1 = m \<and> rfold (\<lambda>sofar v. add_retained_bytes sofar (length v) m) (mb_retained b0) ?texts = Inr (mb_retained b1)"
    by (rule sums_agree [OF _ s(1) z(1)]) (rule reserve_agrees)
  have f2: "mb_max b2 = m \<and> rfold (\<lambda>sofar v. rbind (encoded_json_len pk v) (\<lambda>len. add_retained_bytes sofar len m)) (mb_retained b1) ?jsons
      = Inr (mb_retained b2)"
    by (rule sums_agree [OF _ s(2) conjunct1 [OF f1]]) (rule reserve_json_agrees)
  have f3: "mb_max b3 = m \<and> rfold (check_image pk m) (mb_retained b2) (po_images base) = Inr (mb_retained b3)"
    by (rule sums_agree [OF _ s(3) conjunct1 [OF f2]]) (rule reserve_image_agrees)
  obtain k where "rfold (check_block pk m) n blocks = Inr k" and "length blocks \<le> max_parsed_blocks"
    using supplied_blocks_accepted [OF plain m blocks] by blast
  with labels f1 f2 f3 z show ?thesis
    by (simp add: validate_parser_output_def ensure_def n del: somes_simps)
qed

lemma rbind_cong: "(\<And>a. r = Inr a \<Longrightarrow> f a = g a) \<Longrightarrow> rbind r f = rbind r g"
  by (cases r) simp_all

text \<open>The bounded reading makes the final check of a parsed document redundant.\<close>

theorem final_validation_redundant:
  assumes "plain_crates pk" and "max_metadata_bytes \<le> usize_max"
  shows "finish_parse pk base max_metadata_bytes =
     rbind (preflight_parser_output_base pk base max_metadata_bytes) (\<lambda>retained_base.
     rbind (parse_supplied_blocks pk (po_content_list base) (po_content_list_v2 base) max_metadata_bytes retained_base) (\<lambda>blocks.
       Inr (base\<lparr>po_blocks := blocks\<rparr>)))"
  unfolding finish_parse_def Let_def
  by (intro rbind_cong) (simp add: read_output_accepted [OF assms])

section \<open>What a parser returns\<close>

lemma folded_bytes:
  assumes "\<And>n x k. g n x = Inr k \<Longrightarrow> k = n + weight x \<and> k \<le> m \<and> good x"
  shows "rfold g n xs = Inr k \<Longrightarrow> n \<le> m \<Longrightarrow> k = n + sum_list (map weight xs) \<and> k \<le> m \<and> (\<forall>x\<in>set xs. good x)"
proof (induction xs arbitrary: n)
  case (Cons x xs)
  from Cons.prems(1) obtain j where j: "g n x = Inr j" "rfold g j xs = Inr k" unfolding rfold_Cons_Inr by blast
  from assms [OF j(1)] have w: "j = n + weight x" and "j \<le> m" and "good x" by blast+
  with Cons.IH [OF j(2)] show ?case by (auto simp: add.assoc)
qed simp

lemma added_bytes: "add_retained_bytes n a m = Inr k \<Longrightarrow> k = n + a \<and> k \<le> m"
  by (auto simp: add_retained_bytes_def split: if_splits)

lemma checked_text: "check_text b m n t = Inr k \<Longrightarrow> k = n + length t \<and> k \<le> m \<and> length t \<le> b"
  by (auto simp: check_text_def rbind_Inr ensure_Inr dest: added_bytes)

lemma checked_json: "encoded_json_len pk v = Inr len \<Longrightarrow> len = pk_json_len pk v"
  by (auto simp: encoded_json_len_def encoded_json_len_bounded_def split: if_splits)

lemma checked_block:
  assumes "check_block pk m n block = Inr k"
  shows "k = n + block_bytes pk block \<and> k \<le> m \<and> block_ok pk block"
proof -
  let ?box = "case pb_bbox block of None \<Rightarrow> 0 | Some j \<Rightarrow> pk_json_len pk j"
  obtain len a b c d where len: "(case pb_bbox block of None \<Rightarrow> Inr 0 | Some bbox \<Rightarrow> encoded_json_len pk bbox) = Inr len"
    and shape: "block_shape_ok block len"
    and a: "add_retained_bytes n (length (pb_block_id block)) m = Inr a"
    and b: "add_retained_bytes a (length (pb_block_type block)) m = Inr b" and c: "add_retained_bytes b len m = Inr c"
    and d: "rfold (check_text max_block_field_bytes m) c (block_fields block) = Inr d"
    and e: "rfold (check_text max_section_bytes m) d (pb_section_path block) = Inr k"
    using assms by (auto simp: check_block_def rbind_Inr ensure_Inr)
  have "len = ?box" using len by (cases "pb_bbox block") (auto dest: checked_json)
  note s = added_bytes [OF a] added_bytes [OF b] added_bytes [OF c]
  from s have "c \<le> m" by simp
  then have f1: "d = c + sum_list (map length (block_fields block)) \<and> d \<le> m
      \<and> (\<forall>t\<in>set (block_fields block). length t \<le> max_block_field_bytes)"
    by (intro folded_bytes [OF _ d]) (auto dest: checked_text)
  then have f2: "k = d + sum_list (map length (pb_section_path block)) \<and> k \<le> m
      \<and> (\<forall>t\<in>set (pb_section_path block). length t \<le> max_section_bytes)"
    by (intro folded_bytes [OF _ e]) (auto dest: checked_text)
  show ?thesis using s f1 f2 shape \<open>len = ?box\<close> by (simp add: block_bytes_def block_ok_def sections_len_def)
qed

definition output_bytes :: "parser_crates \<Rightarrow> parser_output \<Rightarrow> nat" where
  "output_bytes pk out =
     sum_list (map length (somes [Some (po_provider out), Some (po_backend out), po_parser_version out, po_markdown out]))
     + sum_list (map (pk_json_len pk) (somes [po_content_list out, po_content_list_v2 out, po_middle_json out, po_model_json out]))
     + sum_list (map (pk_json_len pk) (po_images out)) + sum_list (map (block_bytes pk) (po_blocks out))"

lemma validated_output:
  assumes "validate_parser_output pk out m = Inr ()"
  shows "output_bytes pk out \<le> m \<and> length (po_images out) \<le> max_parsed_images \<and> length (po_blocks out) \<le> max_parsed_blocks
    \<and> is_safe_label (po_provider out) \<and> is_safe_label (po_backend out) \<and> (\<forall>block\<in>set (po_blocks out). block_ok pk block)"
proof -
  let ?texts = "somes [Some (po_provider out), Some (po_backend out), po_parser_version out, po_markdown out]"
  let ?jsons = "somes [po_content_list out, po_content_list_v2 out, po_middle_json out, po_model_json out]"
  obtain a b c d where labels: "is_safe_label (po_provider out)" "is_safe_label (po_backend out)"
      "length (po_blocks out) \<le> max_parsed_blocks" "length (po_images out) \<le> max_parsed_images"
    and s: "rfold (\<lambda>sofar v. add_retained_bytes sofar (length v) m) 0 ?texts = Inr a"
      "rfold (\<lambda>sofar v. rbind (encoded_json_len pk v) (\<lambda>len. add_retained_bytes sofar len m)) a ?jsons = Inr b"
      "rfold (check_image pk m) b (po_images out) = Inr c" "rfold (check_block pk m) c (po_blocks out) = Inr d"
    using assms unfolding validate_parser_output_def by (fastforce simp: rbind_Inr ensure_Inr simp del: somes_simps)
  have "a = 0 + sum_list (map length ?texts) \<and> a \<le> m \<and> (\<forall>x\<in>set ?texts. True)"
    by (rule folded_bytes [OF _ s(1)]) (auto dest: added_bytes)
  moreover from this have "b = a + sum_list (map (pk_json_len pk) ?jsons) \<and> b \<le> m \<and> (\<forall>x\<in>set ?jsons. True)"
    by (intro folded_bytes [OF _ s(2)]) (auto simp: rbind_Inr dest: checked_json added_bytes)
  moreover from this have "c = b + sum_list (map (pk_json_len pk) (po_images out)) \<and> c \<le> m \<and> (\<forall>x\<in>set (po_images out). True)"
    by (intro folded_bytes [OF _ s(3)]) (auto simp: check_image_def rbind_Inr dest: checked_json added_bytes)
  moreover from this have "d = c + sum_list (map (block_bytes pk) (po_blocks out)) \<and> d \<le> m
      \<and> (\<forall>block\<in>set (po_blocks out). block_ok pk block)"
    by (intro folded_bytes [OF _ s(4)]) (auto dest: checked_block)
  ultimately show ?thesis using labels by (simp add: output_bytes_def del: somes_simps)
qed

fun parser_limit :: "document_parser \<Rightarrow> nat" where
  "parser_limit (BuiltinTextParser m) = m"
| "parser_limit (MineruParser client) = opol_max_response_bytes (mc_policy client)"

text \<open>
  Whatever the input and whatever the upstream replies, a parsed document stays within the configured size, with
  everything it retains counted, within the number of blocks and images, and each block within its bounds.
\<close>

theorem parsed_document_bounded:
  assumes "document_parse w p input = Inr out"
  shows "output_bytes (pw_parser w) out \<le> parser_limit p
    \<and> length (po_images out) \<le> max_parsed_images \<and> length (po_blocks out) \<le> max_parsed_blocks
    \<and> is_safe_label (po_provider out) \<and> is_safe_label (po_backend out)
    \<and> (\<forall>block\<in>set (po_blocks out). block_ok (pw_parser w) block)"
proof -
  have finished: "validate_parser_output pk x m = Inr ()" if "finish_parse pk base m = Inr x" for pk base m x
    using that by (auto simp: finish_parse_def rbind_Inr Let_def)
  have "validate_parser_output (pw_parser w) out (parser_limit p) = Inr ()"
    using assms finished
    by (cases p) (auto simp: builtin_parse_def mineru_parse_def rbind_Inr Let_def split: if_splits)
  then show ?thesis by (rule validated_output)
qed

section \<open>Health\<close>

lemma healthy_field_Inr:
  "healthy_field m = Inr (Some MineruHealthy) \<longleftrightarrow> bt_get m ''healthy'' = Some (JBool True)"
  "healthy_field m = Inr None \<longleftrightarrow> bt_get m ''healthy'' = None"
  by (auto simp: healthy_field_def split: option.splits json.splits)

lemma status_field_Inr:
  "status_field m = Inr (Some MineruHealthy) \<longleftrightarrow> bt_get m ''status'' \<in> {Some (JString ''ok''), Some (JString ''healthy'')}"
  "status_field m = Inr None \<longleftrightarrow> bt_get m ''status'' = None"
  by (auto simp: status_field_def split: option.splits json.splits)

lemma healthy_signal:
  assumes "mineru_health_signal v = Inr MineruHealthy"
  obtains m where "v = JObject m"
    and "healthy_field m = Inr (Some MineruHealthy) \<or> healthy_field m = Inr None \<and> status_field m \<noteq> Inr None"
    and "status_field m \<in> {Inr None, Inr (Some MineruHealthy)}"
proof -
  obtain m h s where "v = JObject m" and f: "healthy_field m = Inr h" "status_field m = Inr s"
    and "(case (h, s) of
         (Some left, Some right) \<Rightarrow> if left = right then Inr left else Inl ()
       | (Some signal, None) \<Rightarrow> Inr signal
       | (None, Some signal) \<Rightarrow> Inr signal
       | (None, None) \<Rightarrow> Inl ()) = Inr MineruHealthy"
    using assms by (cases v) (auto simp: mineru_health_signal_def rbind_Inr ok_or_def)
  then have "h = Some MineruHealthy \<or> h = None \<and> s \<noteq> None" "s \<in> {None, Some MineruHealthy}"
    by (auto split: option.splits if_splits)
  with f \<open>v = JObject m\<close> that show thesis by auto
qed

text \<open>
  The parser is reported healthy only if it is the built-in one, or MinerU answered with a JSON object that says
  so: its two fields may not contradict each other and hold nothing else than the agreed values.
\<close>

theorem healthy_parser_said_so:
  assumes "json_get (parser_health_status w self c) ''healthy'' = Some (JBool True)"
  shows "pc_parser_provider (cfg_parser c) \<noteq> ''mineru''
    \<or> (\<exists>response m. preg_http self \<noteq> None
         \<and> execute (pw_crates w) (pw_started_at w) (pw_instant_max w) ParserHealth (parser_health_policy c) (pw_request_id w)
             (pw_attempts w) = Inr response
         \<and> uc_from_slice (pw_crates w) (br_body response) = Some (JObject m)
         \<and> (bt_get m ''healthy'' = Some (JBool True) \<or> bt_get m ''healthy'' = None \<and> bt_get m ''status'' \<noteq> None)
         \<and> bt_get m ''status'' \<in> {None, Some (JString ''ok''), Some (JString ''healthy'')})"
proof (cases "pc_parser_provider (cfg_parser c) = ''mineru''")
  case True
  have sick: "json_get (unhealthy_health_status c l s t) ''healthy'' = Some (JBool False)" for l s t
    by (simp add: unhealthy_health_status_def Let_def json_obj_def split: option.split)
  have "preg_http self \<noteq> None" using assms True sick [of "pw_latency_ms w" None "''client_initialization''"]
    by (cases "preg_http self = None") (simp_all add: parser_health_status_def)
  then obtain u where u: "preg_http self = Some u" by blast
  have "json_get (case execute (pw_crates w) (pw_started_at w) (pw_instant_max w) ParserHealth (parser_health_policy c)
        (pw_request_id w) (pw_attempts w) of
             Inr response \<Rightarrow>
               (case uc_from_slice (pw_crates w) (br_body response) of
                  Some status \<Rightarrow> judged_health w c status
                | None \<Rightarrow> unhealthy_health_status c (pw_latency_ms w) None ''invalid_json'')
           | Inl error \<Rightarrow>
               (let diagnostic = upstream_diagnostic_of error in
                unhealthy_health_status c (pw_latency_ms w) (ud_status diagnostic) (failure_category_as_str (ud_category diagnostic))))
        ''healthy'' = Some (JBool True)"
    using assms True by (simp add: parser_health_status_def u)
  then obtain response v where e: "execute (pw_crates w) (pw_started_at w) (pw_instant_max w) ParserHealth
        (parser_health_policy c) (pw_request_id w) (pw_attempts w) = Inr response"
      "uc_from_slice (pw_crates w) (br_body response) = Some v"
    and j: "json_get (judged_health w c v) ''healthy'' = Some (JBool True)"
    using sick by (simp add: Let_def split: sum.splits option.splits)
  from j have "mineru_health_signal v = Inr MineruHealthy"
    using sick by (simp add: judged_health_def split: sum.splits mineru_health.splits)
  then obtain m where m: "v = JObject m"
      "healthy_field m = Inr (Some MineruHealthy) \<or> healthy_field m = Inr None \<and> status_field m \<noteq> Inr None"
      "status_field m \<in> {Inr None, Inr (Some MineruHealthy)}" by (rule healthy_signal)
  then have "bt_get m ''healthy'' = Some (JBool True) \<or> bt_get m ''healthy'' = None \<and> bt_get m ''status'' \<noteq> None"
    and "bt_get m ''status'' \<in> {None, Some (JString ''ok''), Some (JString ''healthy'')}"
    by (auto simp: healthy_field_Inr status_field_Inr)
  with e m(1) \<open>preg_http self \<noteq> None\<close> show ?thesis by blast
qed simp

end
