(* ===== verification/Spec2Isabelle.thy ===== *)
theory Spec2Isabelle
  imports Journal_Properties Capacity Auth Block_Fragmenter Request_Validation Upstream_Facts
    Tenant_Filter Mutation_Complete Executor_Replay Analysis_Facts Llm_Stream_Facts Llm_Guarantees
    Parser_Guarantees
begin

text \<open>
  A verification library for \<^bold>\<open>nowledge\<close>, a multi-tenant knowledge service: an axum HTTP front end
  over a Meilisearch store, with a document parser and LLM providers upstream. The library models
  the parts of the crate (\<open>src/src/\<close>) that decide: who may do what, what is written, in which
  order, and how much.

  \<^bold>\<open>How the parts interact.\<close> A request passes the HTTP boundary (\<open>http_boundary.rs\<close>: capacity, rate
  limits, deadlines), is authenticated and authorised (\<open>auth.rs\<close>), and its fields are checked
  (\<open>request_validation.rs\<close>). A write edits a staged copy of the store's data (\<open>store.rs\<close>); the
  difference of the copy and the data becomes an operation plan, which is validated, journalled as a
  record (\<open>mutation.rs\<close>), checkpointed, carried out step by step against the repository and last
  published in the data (\<open>store.rs\<close>). The documents it stores live in indexes shared by all tenants,
  under identifiers and filters of \<open>tenant_scope.rs\<close>. Ingested documents are cut
  into fragments (\<open>fragmenter.rs\<close>), parsers and LLMs are called through the upstream client
  (\<open>upstream.rs\<close>), and every failure leaves as an \<open>ApiError\<close> (\<open>error.rs\<close>).

  \<^bold>\<open>Theories and code.\<close>
  \<^item> \<open>Prelude\<close>, \<open>Ordered_Map\<close>, \<open>Json\<close>, \<open>Machine\<close>: results, words, UTF-8 strings, \<open>BTreeMap\<close> with the
    interface \<open>keyed_store\<close>, \<open>serde_json::Value\<close>, and the interface \<open>machine\<close> of components that move
    by fallible steps.
  \<^item> \<open>Models\<close>, \<open>Operation_Types\<close>: the structs and enums of \<open>models_*.rs\<close> that operations write, and of
    \<open>models_operations.rs\<close>.
  \<^item> \<open>Operation_Plan\<close>, \<open>Plan_Check\<close>: plan validation of \<open>mutation.rs\<close>. \<open>Journal\<close>: its records and
    transitions; \<open>Compaction\<close>: \<open>compact_settled_operation\<close>. \<open>Journal_Facts\<close>, \<open>Journal_Runs\<close> and
    \<open>Journal_Live\<close> hold the invariant of a record, the journal as a machine, and its liveness;
    \<open>Journal_Properties\<close> states the properties.
  \<^item> \<open>Store_Data\<close>, \<open>Store_Data_Facts\<close>: the maps of \<open>StoreData\<close> and \<open>publish_resource_cache\<close>.
    \<open>Mutation_Resources\<close>: the difference of two data; \<open>Mutation_Patch\<close> and \<open>Mutation_Complete\<close>: its
    publication, kind by kind, over the interface \<open>projected_map\<close>. \<open>Mutation_Plan\<close>: \<open>mutation_plan\<close> and
    its request identity. All of \<open>store.rs\<close>.
  \<^item> \<open>Operation_Routing\<close>: \<open>resolver.rs\<close> and the checks that a record is routed to the indexes of its
    owner. \<open>Operation_Cache\<close>: the bounded cache of records.
  \<^item> \<open>Operation_Executor\<close>: \<open>execute_staged_mutation_guarded\<close> and what it calls: checkpoints, the
    application of steps, publication, replay and reconciliation. The repository and the clock are an
    environment, functions of the number of the call; the trace of calls is part of the state.
    \<open>Executor_Facts\<close> holds rules for properties that every call keeps; \<open>Executor_Journal\<close>,
    \<open>Executor_Order\<close> and \<open>Executor_Replay\<close> the properties.
  \<^item> \<open>Tenant_Scope\<close>, \<open>Tenant_Filter\<close>: \<open>tenant_scope.rs\<close>.
  \<^item> \<open>Auth\<close>: \<open>auth.rs\<close> and the credential fields of \<open>config.rs\<close>. \<open>Rate_Limit\<close> and \<open>Capacity\<close>:
    \<open>http_boundary.rs\<close>. \<open>Request_Validation\<close>: \<open>request_validation.rs\<close>. \<open>Api_Error\<close>: \<open>error.rs\<close>.
  \<^item> \<open>Fragmenter\<close>, \<open>Fragmenter_Facts\<close>, \<open>Block_Fragmenter\<close>: \<open>fragmenter.rs\<close>.
  \<^item> \<open>Upstream_Policy\<close>, \<open>Upstream\<close>, \<open>Upstream_Facts\<close>: \<open>upstream.rs\<close>. \<open>Util\<close>: the text helpers of
    \<open>util.rs\<close>.
  \<^item> \<open>Redaction\<close>: \<open>SecretMatcher\<close> and \<open>redact_secrets\<close> of \<open>util.rs\<close>; \<open>Redaction_Tables\<close>: its prefix tables;
    \<open>Redaction_Facts\<close> and \<open>Redaction_Json\<close>: what redacted texts and values no longer contain.
    \<open>Stream_Redactor\<close>: the redaction of streamed provider text.
  \<^item> \<open>Analysis\<close>, \<open>Analysis_Facts\<close>: \<open>analysis.rs\<close>, the validation of what a provider proposes and its
    redaction before storage; floating-point scores are read from their bits.
  \<^item> \<open>Provider_Budget\<close>, \<open>Sse_Decoder\<close>, \<open>Responses_Decoder\<close>, \<open>Llm_Stream\<close>: \<open>llm.rs\<close>, the budgets of provider
    calls and the stream of a provider's response: lines, messages, parts, the source over the upstream
    body and the stream the caller reads. \<open>Responses_Facts\<close> and \<open>Llm_Stream_Facts\<close> hold their properties.
  \<^item> \<open>Floats\<close>, \<open>Rate_Limit_Snapshot\<close>, \<open>Llm_Credentials\<close>, \<open>Llm_Request\<close>, \<open>Llm_Response\<close>, \<open>Llm_Client\<close>,
    \<open>Llm_Registry\<close>: the rest of \<open>llm.rs\<close>: decimal numbers and rate limits in headers, credentials and their
    expiry, requests and payloads, finished responses, the clients of the providers and the registry. A call
    runs in a \<open>llm_world\<close> (clocks, replies of the upstream) and returns the state with the budget, the
    rate limits and the calls it made; \<open>None\<close> is the panic of a redaction without a usable mask.
    \<open>Llm_Registry_Facts\<close>: what every client pays for and sends. \<open>Llm_Health\<close>, \<open>Llm_Health_Facts\<close>: the health
    probe and its cache. \<open>Llm_Guarantees\<close> states the properties.
  \<^item> \<open>Config\<close>, \<open>Config_Validation\<close>, \<open>Config_Startup\<close>, \<open>Config_Env\<close>: \<open>config.rs\<close>: the configuration and the
    inventory of Codex tokens, the checks of single settings, \<open>validate_startup\<close>, and \<open>from_env\<close> over an
    environment of variables. \<open>Config_Facts\<close> and \<open>Config_Guarantees\<close> hold what an accepted configuration
    guarantees to authentication, redaction and the registry.
  \<^item> \<open>Parser_Blocks\<close>, \<open>Parser\<close>: \<open>parser.rs\<close>: the items of a content list, read within the materialisation
    budget, and the built-in and MinerU parsers with their registry, validation and health contract.
    \<open>Parser_Facts\<close> and \<open>Parser_Guarantees\<close> account for every byte of a parsed document.

  \<^bold>\<open>What is shown.\<close> The journal: which plans are accepted, that the typed records of an accepted plan stay within its
  tenant and, for an analysis, its owner; every run keeps a record valid and lets side effects start
  only after the primary step; every operation can settle; what is settled is final and can be
  compacted. The store: a published difference turns the data into the staged copy, but for state items and
  insights whose staged copy is older than the stored one, and the plan has exactly its steps; a resource is written only after a checkpoint that announces it; whatever is
  journalled or cached is valid; an answer that reports success comes from a record with every step
  completed; the replay of a settled request writes nothing, and a reused key with another request is refused; every write
  goes to an index of its owner; the cache of records keeps its bound. Tenancy: identifiers separate tenants up to collisions of the hash, stored documents
  are restored, and no value makes the tenant clause of a filter optional. Authorisation: exactly
  one credential decides, administrators need an administrator's credential, owners reach their own
  data. The boundary: permits are conserved by every interleaving and come back by the deadlines;
  the shared rate-limit table refines one window for each key. Fragments cover the document within a
  bound on their number and text. Upstream calls make a bounded number of attempts and repeat only
  what is safe to repeat. Secrets: no redacted text, JSON value or stream contains a configured secret,
  however a stream is cut, and texts that leave the server show no window of one. Analysis output
  names only locators its caller may see, within every bound, and is stored without secrets. A provider stream is read within its
  byte limit, ends once, and completes only if it delivered the redaction of the provider's final text;
  a principal's provider budget is its own and bounded in every window; a completion is charged before it
  is sent and settled by what it used, and what is sent shows no secret. The failure streak of a provider
  counts its server errors and timeouts, and an old health verdict is closed. A configuration that passes start-up authenticates each of its credentials, can
  redact each of its secrets, has valid policies, and did not fall back from a malformed variable,
  the port and two clean-up intervals excepted; rotation of the Codex token loses no secret. A parsed document
  keeps within its budget whatever the parser replies, and the last validation refuses nothing that the
  bounded reading produced.

  \<^bold>\<open>Parameters.\<close> Code of other crates is an argument of the definitions that use it: HMAC-SHA256 and
  SHA-256 in hexadecimal, \<open>serde_json\<close> encoders and decoders, Unicode case mapping, HTTP dates, and
  what clock, network and repository do; the closure that edits the staged copy is an argument of the
  executor. What a theorem needs of one of them is a hypothesis: that no other
  configured token has the tag of the presented one in \<open>authenticate_iff\<close>, that encoders print JSON literals in
  \<open>tenant_clause_mandatory\<close>. Definitions named \<open>sample_...\<close> are inputs of the witnesses.

  \<^bold>\<open>Termination and bounds.\<close> Loops are structural or have a measure (\<open>chars\<close>, \<open>fragment_loop\<close>), so every
  definition is total. There is no fuel, except that \<open>read_stream n\<close> is \<open>n\<close> reads of a body. Lengths
  and positions in memory are \<open>nat\<close>, integers of a fixed width are words, and saturating
  additions are \<open>sat_add\<close>.

  \<^bold>\<open>Not modelled.\<close> Log lines and metrics; axum routing and extraction; floating-point ranking
  (\<open>vector_match.rs\<close>); the HTTP clients of Meilisearch and the providers, whose replies are inputs;
  poisoned locks; the spawning of background tasks. The denial audit, the reconciliation loops and listings of
  the store, the repository and the offline migrations are not modelled; they mostly
  drive HTTP services.
\<close>

end
